(* ===== verification/Prelude.thy ===== *)
theory Prelude
  imports Main "HOL-Library.AList" "HOL-Library.Multiset" "HOL-Library.List_Lexorder"
    "HOL-Library.Char_ord"
begin

section \<open>Shared vocabulary of the development\<close>

text \<open>
  What every component uses: the stable failure codes of \<open>domain/errors.py\<close>, results that
  are either a failure or a value, the sequencing of such results, tables of rows with a
  key (what the repositories ask of a SQLAlchemy session), insertion-ordered sets
  (\<open>dict.fromkeys\<close>), and the two locales every state machine of the development is an
  instance of. Strings are lists of characters; clock readings are integers
  (microseconds of the UTC instant), passed in by the caller.
\<close>

named_theorems wf_intro \<open>introduction rules for the well-formedness invariants\<close>
named_theorems tbl_simps \<open>rewriting of lookups in updated tables\<close>

subsection \<open>Failures\<close>

datatype error_code =
    CONFIGURATION | PROJECT | PLAN | AUTHORIZATION_MISSING | DECISION_INSUFFICIENT
  | DECISION_VALIDATION | AUTHORITY_NOT_GRANTED | POLICY_CONFLICT | ROLE_CONFLICT
  | OUTPUT_CONTRACT | REVISION_MISMATCH | RUN_INTERRUPTED | DUPLICATE_RESULT
  | OPTIONAL_DEPENDENCY | REQUIRED_DEPENDENCY | SECRET_CONTENT | SKILL_CONTRACT
  | SKILL_TRUST | SKILL_SELECTION | TOOL_CONTRACT | TOOL_UNAVAILABLE | TOOL_SCHEMA
  | TOOL_EFFECT | TOOL_DRIFT | CONTEXT_FAILURE | MISSION | FILE_FAILURE | EDIT_FAILURE
  | EXECUTION | WEB | BROWSER | ARTIFACT | MCP | ENGINEERING | SCHEDULE | WORKER | VERSION

text \<open>
  \<open>MishkanError\<close> carries its code and message (the \<open>details\<close> mapping is diagnostic and
  not modelled); the other constructors are the Python exceptions the code can raise.
\<close>

datatype failure =
    MishkanError error_code string
  | ValueError string
  | TypeError
  | KeyError
  | AssertionError
  | RuntimeError string
  | IntegrityError

type_synonym 'a result = "failure + 'a"

type_synonym instant = int

definition ebind :: "'e + 'a \<Rightarrow> ('a \<Rightarrow> 'e + 'b) \<Rightarrow> 'e + 'b" where
  "ebind r f = (case r of Inl e \<Rightarrow> Inl e | Inr a \<Rightarrow> f a)"

lemma ebind_simps [simp]:
  "ebind (Inl e) f = Inl e"
  "ebind (Inr a) f = f a"
  by (simp_all add: ebind_def)

lemma ebind_Inr_iff: "ebind r f = Inr b \<longleftrightarrow> (\<exists>a. r = Inr a \<and> f a = Inr b)"
  by (cases r) auto

lemma ebind_Inl_iff: "ebind r f = Inl e \<longleftrightarrow> r = Inl e \<or> (\<exists>a. r = Inr a \<and> f a = Inl e)"
  by (cases r) auto

lemma ebind_split:
  "P (ebind r f) \<longleftrightarrow> (\<forall>e. r = Inl e \<longrightarrow> P (Inl e)) \<and> (\<forall>a. r = Inr a \<longrightarrow> P (f a))"
  by (cases r) auto

definition is_error :: "'e + 'a \<Rightarrow> bool" where
  "is_error r = (case r of Inl _ \<Rightarrow> True | Inr _ \<Rightarrow> False)"

lemma is_error_simps [simp]: "is_error (Inl e)" "\<not> is_error (Inr a)"
  by (simp_all add: is_error_def)

lemma not_error_pair: "\<not> is_error r \<Longrightarrow> r = Inr (fst (projr r), snd (projr r))"
  by (cases r) simp_all

definition from_option :: "'e \<Rightarrow> 'a option \<Rightarrow> 'e + 'a" where
  "from_option e x = (case x of None \<Rightarrow> Inl e | Some a \<Rightarrow> Inr a)"

lemma from_option_simps [simp]:
  "from_option e None = Inl e"
  "from_option e (Some a) = Inr a"
  by (simp_all add: from_option_def)

lemma from_option_Inr_iff [simp]: "from_option e x = Inr a \<longleftrightarrow> x = Some a"
  by (cases x) auto

lemma from_option_Inl_iff [simp]: "from_option e x = Inl e' \<longleftrightarrow> x = None \<and> e' = e"
  by (cases x) auto

text \<open>A comprehension whose element expression can raise.\<close>

fun traverse :: "('a \<Rightarrow> 'e + 'b) \<Rightarrow> 'a list \<Rightarrow> 'e + 'b list" where
  "traverse f [] = Inr []"
| "traverse f (x # xs) = ebind (f x) (\<lambda>y. ebind (traverse f xs) (\<lambda>ys. Inr (y # ys)))"

lemma traverse_Inr_iff: "traverse f xs = Inr ys \<longleftrightarrow> map f xs = map Inr ys"
  by (induction xs arbitrary: ys) (auto simp: ebind_Inr_iff)

subsection \<open>Tables of rows\<close>

text \<open>
  A table is the list of its rows in insertion order. \<open>tbl_get\<close> is
  \<open>session.get\<close> and a \<open>select\<close> on a unique key; \<open>tbl_upd\<close> assigns to the attributes
  of the row with the key.
\<close>

definition tbl_get :: "('r \<Rightarrow> 'k) \<Rightarrow> 'k \<Rightarrow> 'r list \<Rightarrow> 'r option" where
  "tbl_get key k rows = find (\<lambda>r. key r = k) rows"

definition tbl_upd :: "('r \<Rightarrow> 'k) \<Rightarrow> 'k \<Rightarrow> ('r \<Rightarrow> 'r) \<Rightarrow> 'r list \<Rightarrow> 'r list" where
  "tbl_upd key k f rows = map (\<lambda>r. if key r = k then f r else r) rows"

abbreviation tbl_wf :: "('r \<Rightarrow> 'k) \<Rightarrow> 'r list \<Rightarrow> bool" where
  "tbl_wf key rows \<equiv> distinct (map key rows)"

lemma find_Some_cases: "find P xs = Some x \<Longrightarrow> P x \<and> x \<in> set xs"
  by (induction xs) (auto split: if_splits)

lemma tbl_get_SomeD: "tbl_get key k rows = Some r \<Longrightarrow> key r = k \<and> r \<in> set rows"
  unfolding tbl_get_def by (drule find_Some_cases) simp

lemma tbl_get_None_iff: "tbl_get key k rows = None \<longleftrightarrow> k \<notin> key ` set rows"
  by (induction rows) (auto simp: tbl_get_def)

lemma tbl_get_Some_iff:
  "tbl_wf key rows \<Longrightarrow> tbl_get key k rows = Some r \<longleftrightarrow> r \<in> set rows \<and> key r = k"
  by (induction rows) (auto simp: tbl_get_def)

lemma tbl_get_append:
  "tbl_get key k (xs @ ys) =
     (case tbl_get key k xs of None \<Rightarrow> tbl_get key k ys | Some r \<Rightarrow> Some r)"
  by (induction xs) (auto simp: tbl_get_def)

lemma tbl_get_snoc: "tbl_get key k xs = None \<Longrightarrow> key r = k \<Longrightarrow> tbl_get key k (xs @ [r]) = Some r"
  unfolding tbl_get_append by (simp add: tbl_get_def)

lemma tbl_wf_snoc: "tbl_wf key (xs @ [r]) \<longleftrightarrow> tbl_wf key xs \<and> key r \<notin> key ` set xs"
  by auto

lemma tbl_get_simps [tbl_simps]:
  "tbl_get key k [] = None"
  "tbl_get key k (r # rows) = (if key r = k then Some r else tbl_get key k rows)"
  by (simp_all add: tbl_get_def)

lemma tbl_get_upd [tbl_simps]:
  assumes "\<And>r. key (f r) = key r"
  shows "tbl_get key k (tbl_upd key j f rows) =
           (if j = k then map_option f (tbl_get key k rows) else tbl_get key k rows)"
  using assms by (induction rows) (auto simp: tbl_get_def tbl_upd_def)

lemma tbl_upd_keys:
  assumes "\<And>r. key (f r) = key r"
  shows "map key (tbl_upd key j f rows) = map key rows"
  using assms by (auto simp: tbl_upd_def)

lemma tbl_upd_other_key:
  assumes "\<And>r. key' (f r) = key' r"
  shows "map key' (tbl_upd key j f rows) = map key' rows"
  using assms by (auto simp: tbl_upd_def)

lemma set_tbl_upd: "set (tbl_upd key k f rows) = (\<lambda>r. if key r = k then f r else r) ` set rows"
  by (auto simp: tbl_upd_def)

lemma in_tbl_updE:
  assumes "r \<in> set (tbl_upd key k f rows)"
  obtains (other) "r \<in> set rows" "key r \<noteq> k"
  | (same) r0 where "r0 \<in> set rows" "key r0 = k" "r = f r0"
  using assms by (auto simp: tbl_upd_def split: if_splits)

lemma tbl_upd_fresh: "k \<notin> key ` set rows \<Longrightarrow> tbl_upd key k f rows = rows"
  by (induction rows) (auto simp: tbl_upd_def)

lemma length_tbl_upd [simp]: "length (tbl_upd key k f rows) = length rows"
  by (simp add: tbl_upd_def)

text \<open>
  \<open>session.add\<close> of a row under a primary key or a unique constraint: a second row with the
  key is refused by the database when the transaction is flushed.
\<close>

definition tbl_insert :: "('r \<Rightarrow> 'k) \<Rightarrow> 'r \<Rightarrow> 'r list \<Rightarrow> 'r list result" where
  "tbl_insert key r rows =
     (if key r \<in> key ` set rows then Inl IntegrityError else Inr (rows @ [r]))"

lemma tbl_insert_Inr_iff:
  "tbl_insert key r rows = Inr rows' \<longleftrightarrow> key r \<notin> key ` set rows \<and> rows' = rows @ [r]"
  by (auto simp: tbl_insert_def)

lemma tbl_insert_Inl_iff:
  "tbl_insert key r rows = Inl e \<longleftrightarrow> key r \<in> key ` set rows \<and> e = IntegrityError"
  by (auto simp: tbl_insert_def)

text \<open>The selected rows of a table, and the rows an update leaves outside its selection.\<close>

definition tbl_map_where :: "('r \<Rightarrow> bool) \<Rightarrow> ('r \<Rightarrow> 'r) \<Rightarrow> 'r list \<Rightarrow> 'r list" where
  "tbl_map_where P f rows = map (\<lambda>r. if P r then f r else r) rows"

lemma in_tbl_map_whereE:
  assumes "r \<in> set (tbl_map_where P f rows)"
  obtains (other) "r \<in> set rows" "\<not> P r"
  | (changed) r0 where "r0 \<in> set rows" "P r0" "r = f r0"
  using assms by (auto simp: tbl_map_where_def split: if_splits)

lemma tbl_map_where_key:
  assumes "\<And>r. key (f r) = key r"
  shows "map key (tbl_map_where P f rows) = map key rows"
  using assms by (auto simp: tbl_map_where_def)

text \<open>A Python dict built from pairs with distinct keys: the last binding is the first.\<close>

lemma map_of_rev_distinct:
  assumes "distinct (map fst xs)"
  shows "map_of (rev xs) = map_of xs"
proof -
  have "distinct (map fst (rev xs))" using assms by (simp flip: rev_map)
  with assms show ?thesis by (intro map_of_inject_set [THEN iffD2]) auto
qed

subsection \<open>Insertion-ordered sets\<close>

text \<open>\<open>list(dict.fromkeys(xs))\<close>: the first occurrence of every element, in order.\<close>

fun fromkeys_acc :: "'a list \<Rightarrow> 'a list \<Rightarrow> 'a list" where
  "fromkeys_acc seen [] = seen"
| "fromkeys_acc seen (x # xs) =
     fromkeys_acc (if x \<in> set seen then seen else seen @ [x]) xs"

definition dict_fromkeys :: "'a list \<Rightarrow> 'a list" where
  "dict_fromkeys xs = fromkeys_acc [] xs"

lemma set_fromkeys_acc: "set (fromkeys_acc seen xs) = set seen \<union> set xs"
  by (induction xs arbitrary: seen) auto

lemma distinct_fromkeys_acc: "distinct seen \<Longrightarrow> distinct (fromkeys_acc seen xs)"
  by (induction xs arbitrary: seen) auto

lemma set_dict_fromkeys [simp]: "set (dict_fromkeys xs) = set xs"
  by (simp add: dict_fromkeys_def set_fromkeys_acc)

lemma distinct_dict_fromkeys [simp]: "distinct (dict_fromkeys xs)"
  by (simp add: dict_fromkeys_def distinct_fromkeys_acc)

lemma dict_fromkeys_eq_Nil_iff [simp]: "dict_fromkeys xs = [] \<longleftrightarrow> xs = []"
  by (metis set_dict_fromkeys set_empty)

lemma fromkeys_acc_distinct:
  "distinct (seen @ xs) \<Longrightarrow> fromkeys_acc seen xs = seen @ xs"
  by (induction xs arbitrary: seen) auto

lemma dict_fromkeys_distinct: "distinct xs \<Longrightarrow> dict_fromkeys xs = xs"
  by (simp add: dict_fromkeys_def fromkeys_acc_distinct)

text \<open>\<open>sorted(set(xs))\<close> in Python's order of strings (lexicographic by code point).\<close>

definition sorted_set :: "string list \<Rightarrow> string list" where
  "sorted_set xs = sort (remdups xs)"

lemma set_sorted_set [simp]: "set (sorted_set xs) = set xs"
  by (simp add: sorted_set_def)

lemma sorted_set_eq_Nil_iff [simp]: "sorted_set xs = [] \<longleftrightarrow> xs = []"
  by (metis set_sorted_set set_empty)

subsection \<open>Latest revisions\<close>

text \<open>
  The loop that keeps, for every key, the record of the highest revision: a later record
  replaces the current one only when its revision is greater, and a key keeps the position
  of its first record (the dictionary is an association list in insertion order).
\<close>

fun latest_by ::
  "('a \<Rightarrow> 'k) \<Rightarrow> ('a \<Rightarrow> int) \<Rightarrow> ('k \<times> 'a) list \<Rightarrow> 'a list \<Rightarrow> ('k \<times> 'a) list" where
  "latest_by key rv acc [] = acc"
| "latest_by key rv acc (a # rest) =
     latest_by key rv
       (case map_of acc (key a) of
          None \<Rightarrow> AList.update (key a) a acc
        | Some current \<Rightarrow>
            if rv current < rv a then AList.update (key a) a acc else acc) rest"

lemma latest_by_get_Some:
  "map_of acc k = Some c \<Longrightarrow> map_of (latest_by key rv acc xs) k =
     Some (fold (\<lambda>a c. if rv c < rv a then a else c) (filter (\<lambda>a. key a = k) xs) c)"
  by (induction xs arbitrary: acc c) (auto simp: update_conv' split: option.split)

lemma latest_by_get_None:
  "map_of acc k = None \<Longrightarrow> map_of (latest_by key rv acc xs) k =
     (case filter (\<lambda>a. key a = k) xs of
        [] \<Rightarrow> None
      | y # ys \<Rightarrow> Some (fold (\<lambda>a c. if rv c < rv a then a else c) ys y))"
proof (induction xs arbitrary: acc)
  case (Cons a xs)
  show ?case
  proof (cases "key a = k")
    case True
    then show ?thesis
      using Cons.prems latest_by_get_Some [of "AList.update k a acc" k a key rv xs]
      by (simp add: update_conv')
  next
    case False
    then show ?thesis
      using Cons.prems by (auto simp: update_conv' intro!: Cons.IH split: option.split)
  qed
qed simp

lemma fold_max_rv:
  "fold (\<lambda>a c. if rv c < rv a then a else c) xs (c0::'a) \<in> insert c0 (set xs) \<and>
   (\<forall>b \<in> insert c0 (set xs).
      rv b \<le> (rv (fold (\<lambda>a c. if rv c < rv a then a else c) xs c0) :: int))"
proof (induction xs arbitrary: c0)
  case Nil
  then show ?case by simp
next
  case (Cons a xs)
  show ?case
  proof (cases "rv c0 < rv a")
    case True
    then show ?thesis using Cons.IH [of a] by force
  next
    case False
    then show ?thesis using Cons.IH [of c0] by force
  qed
qed

lemma latest_by_Some:
  assumes "map_of (latest_by key rv [] xs) k = Some a"
  shows "a \<in> set xs \<and> key a = k \<and> (\<forall>b \<in> set xs. key b = k \<longrightarrow> rv b \<le> rv a)"
proof -
  let ?ys = "filter (\<lambda>a. key a = k) xs"
  obtain y ys where ys: "?ys = y # ys" and a: "a = fold (\<lambda>a c. if rv c < rv a then a else c) ys y"
    using assms latest_by_get_None [of "[]" k key rv xs] by (cases ?ys) auto
  then have "a \<in> set ?ys \<and> (\<forall>b \<in> set ?ys. rv b \<le> rv a)"
    using fold_max_rv [of rv ys y] by simp
  then show ?thesis by simp
qed

lemma latest_by_dom: "fst ` set (latest_by key rv acc xs) = fst ` set acc \<union> key ` set xs"
proof (induction xs arbitrary: acc)
  case (Cons a xs)
  show ?case
  proof (cases "map_of acc (key a)")
    case None
    then show ?thesis by (auto simp: Cons.IH dom_update)
  next
    case (Some c)
    then have "key a \<in> fst ` set acc" by (metis map_of_eq_None_iff option.distinct(1))
    with Some show ?thesis by (auto simp: Cons.IH dom_update)
  qed
qed simp

lemma latest_by_distinct:
  "distinct (map fst acc) \<Longrightarrow> distinct (map fst (latest_by key rv acc xs))"
  by (induction xs arbitrary: acc) (auto intro: distinct_update split: option.split)

lemma latest_by_keyed:
  assumes "(k, a) \<in> set (latest_by key rv [] xs)"
  shows "key a = k \<and> a \<in> set xs \<and> (\<forall>b \<in> set xs. key b = k \<longrightarrow> rv b \<le> rv a)"
  using assms latest_by_distinct [of "[]" key rv xs] latest_by_Some [of key rv xs k a]
  by simp

subsection \<open>Machines\<close>

text \<open>
  A repository is a machine: each public method is a step on the stored state, and a
  method that raises leaves the state its transaction left. A property every step keeps
  holds after any sequence of calls, and a relation every step respects (what may only
  grow, what may never change) relates the first state to the last.
\<close>

definition run_ops :: "('op \<Rightarrow> 's \<Rightarrow> 's) \<Rightarrow> 'op list \<Rightarrow> 's \<Rightarrow> 's" where
  "run_ops step ops s = fold step ops s"

lemma run_ops_simps [simp]:
  "run_ops step [] s = s"
  "run_ops step (x # xs) s = run_ops step xs (step x s)"
  by (simp_all add: run_ops_def)

lemma run_ops_append: "run_ops step (xs @ ys) s = run_ops step ys (run_ops step xs s)"
  by (simp add: run_ops_def)

locale machine_invariant =
  fixes step :: "'op \<Rightarrow> 's \<Rightarrow> 's"
    and inv :: "'s \<Rightarrow> bool"
  assumes step_inv: "inv s \<Longrightarrow> inv (step x s)"
begin

lemma run_inv: "inv s \<Longrightarrow> inv (run_ops step xs s)"
  by (induction xs arbitrary: s) (auto intro: step_inv)

end

text \<open>A machine whose steps respect a preorder, in the states that satisfy the invariant.\<close>

locale machine_monotone = machine_invariant +
  fixes leq :: "'s \<Rightarrow> 's \<Rightarrow> bool"
  assumes leq_refl: "leq s s"
    and leq_trans: "leq s t \<Longrightarrow> leq t u \<Longrightarrow> leq s u"
    and step_leq: "inv s \<Longrightarrow> leq s (step x s)"
begin

lemma run_leq: "inv s \<Longrightarrow> leq s (run_ops step xs s)"
proof (induction xs arbitrary: s)
  case Nil
  show ?case by (simp add: leq_refl)
next
  case (Cons x xs)
  have "leq s (step x s)" using Cons.prems by (rule step_leq)
  moreover have "leq (step x s) (run_ops step xs (step x s))"
    using Cons.prems by (intro Cons.IH step_inv)
  ultimately show ?case by (auto intro: leq_trans)
qed

end

end
