(* ===== verification/Json.thy ===== *)
theory Json
  imports Prelude
begin

section \<open>JSON values as the code compares and indexes them\<close>

text \<open>
  The values a \<open>dict[str, Any]\<close> of the source holds after JSON decoding, with the Python
  operations the source applies to them: equality (where \<open>True == 1\<close>), ordering (which
  raises \<open>TypeError\<close> on incomparable operands), membership, \<open>str.split\<close> and
  \<open>str.isdigit\<close>. Numbers are integers; floating point literals are not modelled.
  Characters are the ASCII range, where \<open>isdigit\<close> is the ten digits. An object is the
  list of its items in insertion order with distinct keys.
\<close>

datatype json =
    JNull
  | JBool bool
  | JInt int
  | JStr string
  | JList "json list"
  | JObj "(string \<times> json) list"

subsection \<open>Strings\<close>

fun py_split :: "char \<Rightarrow> string \<Rightarrow> string list" where
  "py_split c [] = [[]]"
| "py_split c (x # xs) =
     (if x = c then [] # py_split c xs
      else case py_split c xs of [] \<Rightarrow> [[x]] | w # ws \<Rightarrow> (x # w) # ws)"

lemma py_split_not_Nil [simp]: "py_split c xs \<noteq> []"
  by (induction xs) (auto split: list.splits)

definition is_digit :: "char \<Rightarrow> bool" where
  "is_digit c \<longleftrightarrow> CHR ''0'' \<le> c \<and> c \<le> CHR ''9''"

definition isdigit :: "string \<Rightarrow> bool" where
  "isdigit s \<longleftrightarrow> s \<noteq> [] \<and> list_all is_digit s"

definition digit_value :: "char \<Rightarrow> nat" where
  "digit_value c = of_char c - of_char (CHR ''0'')"

definition int_of_digits :: "string \<Rightarrow> nat" where
  "int_of_digits s = foldl (\<lambda>n c. 10 * n + digit_value c) 0 s"

fun is_prefix_of :: "string \<Rightarrow> string \<Rightarrow> bool" where
  "is_prefix_of [] ys = True"
| "is_prefix_of (x # xs) [] = False"
| "is_prefix_of (x # xs) (y # ys) = (x = y \<and> is_prefix_of xs ys)"

fun is_substring :: "string \<Rightarrow> string \<Rightarrow> bool" where
  "is_substring xs [] = (xs = [])"
| "is_substring xs (y # ys) = (is_prefix_of xs (y # ys) \<or> is_substring xs ys)"

lemma is_prefix_of_iff: "is_prefix_of xs ys \<longleftrightarrow> (\<exists>zs. ys = xs @ zs)"
  by (induction xs ys rule: is_prefix_of.induct) auto

lemma is_substring_iff: "is_substring xs ys \<longleftrightarrow> (\<exists>us vs. ys = us @ xs @ vs)"
proof (induction ys)
  case Nil
  then show ?case by auto
next
  case (Cons y ys)
  have "(\<exists>us vs. y # ys = us @ xs @ vs) \<longleftrightarrow>
        (\<exists>vs. y # ys = xs @ vs) \<or> (\<exists>us vs. ys = us @ xs @ vs)"
    by (metis append_Cons append_Nil list.exhaust list.inject)
  then show ?case using Cons.IH by (simp add: is_prefix_of_iff)
qed

subsection \<open>Equality\<close>

definition num_value :: "json \<Rightarrow> int option" where
  "num_value v = (case v of JBool b \<Rightarrow> Some (of_bool b) | JInt n \<Rightarrow> Some n | _ \<Rightarrow> None)"

fun py_eq :: "json \<Rightarrow> json \<Rightarrow> bool"
  and py_eq_list :: "json list \<Rightarrow> json list \<Rightarrow> bool"
  and py_eq_items :: "(string \<times> json) list \<Rightarrow> (string \<times> json) list \<Rightarrow> bool" where
  "py_eq JNull w = (w = JNull)"
| "py_eq (JBool b) w = (num_value w = Some (of_bool b))"
| "py_eq (JInt n) w = (num_value w = Some n)"
| "py_eq (JStr s) w = (w = JStr s)"
| "py_eq (JList xs) w = (case w of JList ys \<Rightarrow> py_eq_list xs ys | _ \<Rightarrow> False)"
| "py_eq (JObj xs) w =
     (case w of JObj ys \<Rightarrow> length xs = length ys \<and> py_eq_items xs ys | _ \<Rightarrow> False)"
| "py_eq_list [] ys = (ys = [])"
| "py_eq_list (x # xs) ys = (case ys of [] \<Rightarrow> False | y # ys' \<Rightarrow> py_eq x y \<and> py_eq_list xs ys')"
| "py_eq_items [] ys = True"
| "py_eq_items ((k, x) # xs) ys =
     (case map_of ys k of None \<Rightarrow> False | Some y \<Rightarrow> py_eq x y \<and> py_eq_items xs ys)"

lemma py_eq_list_all2: "py_eq_list xs ys \<longleftrightarrow> list_all2 py_eq xs ys"
  by (induction xs arbitrary: ys) (auto split: list.splits simp: list_all2_Cons1)

subsection \<open>Ordering\<close>

datatype ordering = Less | Equal | Greater

definition int_order :: "int \<Rightarrow> int \<Rightarrow> ordering" where
  "int_order a b = (if a < b then Less else if a = b then Equal else Greater)"

definition nat_order :: "nat \<Rightarrow> nat \<Rightarrow> ordering" where
  "nat_order a b = (if a < b then Less else if a = b then Equal else Greater)"

definition str_order :: "string \<Rightarrow> string \<Rightarrow> ordering" where
  "str_order a b = (if a < b then Less else if a = b then Equal else Greater)"

text \<open>
  \<open>None\<close> is \<open>TypeError\<close>. Two lists are ordered by their first elements that are not
  equal, and by their lengths when there are none.
\<close>

fun py_cmp :: "json \<Rightarrow> json \<Rightarrow> ordering option"
  and py_cmp_list :: "json list \<Rightarrow> json list \<Rightarrow> ordering option" where
  "py_cmp JNull w = None"
| "py_cmp (JBool b) w = map_option (int_order (of_bool b)) (num_value w)"
| "py_cmp (JInt n) w = map_option (int_order n) (num_value w)"
| "py_cmp (JStr s) w = (case w of JStr t \<Rightarrow> Some (str_order s t) | _ \<Rightarrow> None)"
| "py_cmp (JList xs) w = (case w of JList ys \<Rightarrow> py_cmp_list xs ys | _ \<Rightarrow> None)"
| "py_cmp (JObj xs) w = None"
| "py_cmp_list [] ys = Some (nat_order 0 (length ys))"
| "py_cmp_list (x # xs) ys =
     (case ys of
        [] \<Rightarrow> Some Greater
      | y # ys' \<Rightarrow> if py_eq x y then py_cmp_list xs ys' else py_cmp x y)"

subsection \<open>Membership\<close>

text \<open>
  \<open>x in container\<close>: a list compares every element, a string wants a string, a dict looks
  a key up (a list or dict is not hashable), anything else is not a container.
\<close>

definition py_in :: "json \<Rightarrow> json \<Rightarrow> bool option" where
  "py_in x container =
     (case container of
        JList ys \<Rightarrow> Some (list_ex (\<lambda>y. py_eq y x) ys)
      | JStr s \<Rightarrow> (case x of JStr t \<Rightarrow> Some (is_substring t s) | _ \<Rightarrow> None)
      | JObj kvs \<Rightarrow>
          (case x of
             JStr k \<Rightarrow> Some (k \<in> fst ` set kvs)
           | JList _ \<Rightarrow> None
           | JObj _ \<Rightarrow> None
           | _ \<Rightarrow> Some False)
      | _ \<Rightarrow> None)"

subsection \<open>Types\<close>

fun is_dict :: "json \<Rightarrow> bool" where
  "is_dict (JObj _) = True"
| "is_dict _ = False"

fun is_str :: "json \<Rightarrow> bool" where
  "is_str (JStr _) = True"
| "is_str _ = False"

end
