(* ===== verification/Predicates.thy ===== *)
theory Predicates
  imports Json
begin

section \<open>The workflow predicate language\<close>

text \<open>
  \<open>runtime/predicates.py\<close>: the restricted declarative predicates that decide when a
  bounded workflow loop is complete. \<open>evaluate\<close> walks the predicate with a depth and a
  node counter that are shared by all operands; the counter is threaded through the
  evaluation as the source mutates \<open>nodes[0]\<close>.
\<close>

record predicate_limits =
  max_depth :: nat
  max_nodes :: nat

definition default_limits :: predicate_limits where
  "default_limits = \<lparr>max_depth = 12, max_nodes = 128\<rparr>"

abbreviation plan_error :: "string \<Rightarrow> 'a result" where
  "plan_error m \<equiv> Inl (MishkanError PLAN m)"

text \<open>\<open>_resolve\<close>: \<open>Inr None\<close> is \<open>(False, None)\<close>.\<close>

fun resolve_parts :: "json \<Rightarrow> string list \<Rightarrow> json option" where
  "resolve_parts current [] = Some current"
| "resolve_parts current (part # parts) =
     (case current of
        JObj kvs \<Rightarrow>
          (case map_of kvs part of None \<Rightarrow> None | Some v \<Rightarrow> resolve_parts v parts)
      | JList xs \<Rightarrow>
          (if isdigit part \<and> int_of_digits part < length xs
           then resolve_parts (xs ! int_of_digits part) parts else None)
      | _ \<Rightarrow> None)"

definition resolve :: "(string \<times> json) list \<Rightarrow> string \<Rightarrow> (json option) result" where
  "resolve results path =
     (if path = [] \<or> hd path = CHR ''.'' \<or> last path = CHR ''.''
      then plan_error ''workflow result path is invalid''
      else Inr (resolve_parts (JObj results) (py_split (CHR ''.'') path)))"

definition comparison_operators :: "string list" where
  "comparison_operators = [''eq'', ''ne'', ''lt'', ''le'', ''gt'', ''ge'', ''in'', ''contains'']"

text \<open>The \<open>try\<close> block: \<open>None\<close> where Python raises \<open>TypeError\<close>.\<close>

definition compare :: "string \<Rightarrow> json \<Rightarrow> json \<Rightarrow> bool option" where
  "compare operator actual expected =
     (if operator = ''eq'' then Some (py_eq actual expected)
      else if operator = ''ne'' then Some (\<not> py_eq actual expected)
      else if operator = ''lt'' then map_option (\<lambda>c. c = Less) (py_cmp actual expected)
      else if operator = ''le'' then map_option (\<lambda>c. c \<noteq> Greater) (py_cmp actual expected)
      else if operator = ''gt'' then map_option (\<lambda>c. c = Greater) (py_cmp actual expected)
      else if operator = ''ge'' then map_option (\<lambda>c. c \<noteq> Less) (py_cmp actual expected)
      else if operator = ''in'' then py_in actual expected
      else py_in expected actual)"

definition eval_comparison ::
  "string \<Rightarrow> json \<Rightarrow> (string \<times> json) list \<Rightarrow> bool result" where
  "eval_comparison operator operand results =
     (case operand of
        JList [JStr path, expected] \<Rightarrow>
          ebind (resolve results path) (\<lambda>found.
            case found of
              None \<Rightarrow> Inr False
            | Some actual \<Rightarrow>
                (case compare operator actual expected of
                   None \<Rightarrow> plan_error ''workflow predicate operands are incompatible''
                 | Some b \<Rightarrow> Inr b))
      | _ \<Rightarrow> plan_error ''comparison predicate requires path and literal'')"

definition eval_leaf :: "string \<Rightarrow> json \<Rightarrow> (string \<times> json) list \<Rightarrow> bool result" where
  "eval_leaf operator operand results =
     (if operator = ''exists'' then
        (case operand of
           JStr path \<Rightarrow> ebind (resolve results path) (\<lambda>found. Inr (found \<noteq> None))
         | _ \<Rightarrow> plan_error ''exists predicate requires a result path'')
      else if operator \<notin> set comparison_operators
      then plan_error ''workflow predicate operator is unsupported''
      else eval_comparison operator operand results)"

text \<open>
  \<open>_evaluate\<close>, with the node counter as the last argument and second component of the
  result. \<open>evaluate_items\<close> is the list comprehension over the operands of \<open>all\<close> and
  \<open>any\<close>: operands that are not dicts are skipped, and no operand is short-circuited.
\<close>

fun evaluate_node ::
  "predicate_limits \<Rightarrow> (string \<times> json) list \<Rightarrow> nat \<Rightarrow> (string \<times> json) list \<Rightarrow> nat
   \<Rightarrow> (bool \<times> nat) result"
  and evaluate_items ::
  "predicate_limits \<Rightarrow> (string \<times> json) list \<Rightarrow> nat \<Rightarrow> json list \<Rightarrow> nat
   \<Rightarrow> (bool list \<times> nat) result" where
  "evaluate_node lim results depth predicate nodes =
     (if max_depth lim < depth \<or> max_nodes lim < Suc nodes
      then plan_error ''workflow predicate exceeds configured bounds''
      else case predicate of
        [(operator, operand)] \<Rightarrow>
          (if operator = ''all'' \<or> operator = ''any'' then
             (case operand of
                JList (item # items) \<Rightarrow>
                  (case evaluate_items lim results (Suc depth) (item # items) (Suc nodes) of
                     Inl e \<Rightarrow> Inl e
                   | Inr (values, n) \<Rightarrow>
                       (if length values \<noteq> length (item # items)
                        then plan_error ''logical predicate operand is invalid''
                        else Inr (if operator = ''all'' then list_all id values
                                  else list_ex id values, n)))
              | _ \<Rightarrow> plan_error (operator @ '' predicate requires operands''))
           else if operator = ''not'' then
             (case operand of
                JObj inner \<Rightarrow>
                  (case evaluate_node lim results (Suc depth) inner (Suc nodes) of
                     Inl e \<Rightarrow> Inl e
                   | Inr (b, n) \<Rightarrow> Inr (\<not> b, n))
              | _ \<Rightarrow> plan_error ''not predicate requires one predicate'')
           else
             (case eval_leaf operator operand results of
                Inl e \<Rightarrow> Inl e
              | Inr b \<Rightarrow> Inr (b, Suc nodes)))
      | _ \<Rightarrow> plan_error ''workflow predicate requires exactly one operator'')"
| "evaluate_items lim results depth [] nodes = Inr ([], nodes)"
| "evaluate_items lim results depth (item # items) nodes =
     (case item of
        JObj inner \<Rightarrow>
          (case evaluate_node lim results depth inner nodes of
             Inl e \<Rightarrow> Inl e
           | Inr (b, n) \<Rightarrow>
               (case evaluate_items lim results depth items n of
                  Inl e \<Rightarrow> Inl e
                | Inr (bs, n') \<Rightarrow> Inr (b # bs, n')))
      | _ \<Rightarrow> evaluate_items lim results depth items nodes)"

definition evaluate ::
  "predicate_limits \<Rightarrow> (string \<times> json) list \<Rightarrow> (string \<times> json) list \<Rightarrow> bool result" where
  "evaluate lim predicate results =
     (case evaluate_node lim results 0 predicate 0 of
        Inl e \<Rightarrow> Inl e
      | Inr (b, _) \<Rightarrow> Inr b)"

definition validate_loop :: "int \<Rightarrow> unit result" where
  "validate_loop maximum_iterations =
     (if maximum_iterations < 1 \<or> maximum_iterations > 10000
      then plan_error ''workflow loop requires a bounded positive maximum iteration count''
      else Inr ())"

record bounded_predicate_loop =
  completion_condition :: "(string \<times> json) list"
  maximum_iterations :: int
  evaluator_limits :: predicate_limits

definition make_loop ::
  "(string \<times> json) list \<Rightarrow> int \<Rightarrow> predicate_limits option \<Rightarrow> bounded_predicate_loop result" where
  "make_loop condition iterations lim =
     ebind (validate_loop iterations) (\<lambda>_.
       Inr \<lparr>completion_condition = condition, maximum_iterations = iterations,
            evaluator_limits = (case lim of None \<Rightarrow> default_limits | Some l \<Rightarrow> l)\<rparr>)"

definition loop_iterations :: "bounded_predicate_loop \<Rightarrow> int list" where
  "loop_iterations loop = [1..maximum_iterations loop]"

definition is_complete :: "bounded_predicate_loop \<Rightarrow> (string \<times> json) list \<Rightarrow> bool result" where
  "is_complete loop results =
     evaluate (evaluator_limits loop) (completion_condition loop) results"


declare evaluate_node.simps [simp del]

subsection \<open>What a predicate means, and what evaluating it costs\<close>

text \<open>
  The meaning of a predicate without the bounds: the same tree walk with no counters. The
  nodes it visits and its nesting depth are functions of the predicate alone.
\<close>

fun meaning :: "(string \<times> json) list \<Rightarrow> (string \<times> json) list \<Rightarrow> bool result"
  and meaning_items :: "(string \<times> json) list \<Rightarrow> json list \<Rightarrow> (bool list) result" where
  "meaning results predicate =
     (case predicate of
        [(operator, operand)] \<Rightarrow>
          (if operator = ''all'' \<or> operator = ''any'' then
             (case operand of
                JList (item # items) \<Rightarrow>
                  (case meaning_items results (item # items) of
                     Inl e \<Rightarrow> Inl e
                   | Inr values \<Rightarrow>
                       (if list_all is_dict (item # items)
                        then Inr (if operator = ''all'' then list_all id values
                                  else list_ex id values)
                        else plan_error ''logical predicate operand is invalid''))
              | _ \<Rightarrow> plan_error (operator @ '' predicate requires operands''))
           else if operator = ''not'' then
             (case operand of
                JObj inner \<Rightarrow>
                  (case meaning results inner of Inl e \<Rightarrow> Inl e | Inr b \<Rightarrow> Inr (\<not> b))
              | _ \<Rightarrow> plan_error ''not predicate requires one predicate'')
           else eval_leaf operator operand results)
      | _ \<Rightarrow> plan_error ''workflow predicate requires exactly one operator'')"
| "meaning_items results [] = Inr []"
| "meaning_items results (item # items) =
     (case item of
        JObj inner \<Rightarrow>
          (case meaning results inner of
             Inl e \<Rightarrow> Inl e
           | Inr b \<Rightarrow>
               (case meaning_items results items of Inl e \<Rightarrow> Inl e | Inr bs \<Rightarrow> Inr (b # bs)))
      | _ \<Rightarrow> meaning_items results items)"

fun node_count :: "(string \<times> json) list \<Rightarrow> nat"
  and items_count :: "json list \<Rightarrow> nat" where
  "node_count predicate =
     Suc (case predicate of
            [(operator, operand)] \<Rightarrow>
              (if operator = ''all'' \<or> operator = ''any''
               then (case operand of JList items \<Rightarrow> items_count items | _ \<Rightarrow> 0)
               else if operator = ''not''
               then (case operand of JObj inner \<Rightarrow> node_count inner | _ \<Rightarrow> 0)
               else 0)
          | _ \<Rightarrow> 0)"
| "items_count [] = 0"
| "items_count (item # items) =
     (case item of JObj inner \<Rightarrow> node_count inner | _ \<Rightarrow> 0) + items_count items"

fun node_depth :: "(string \<times> json) list \<Rightarrow> nat"
  and items_depth :: "json list \<Rightarrow> nat" where
  "node_depth predicate =
     (case predicate of
        [(operator, operand)] \<Rightarrow>
          (if operator = ''all'' \<or> operator = ''any''
           then (case operand of JList items \<Rightarrow> items_depth items | _ \<Rightarrow> 0)
           else if operator = ''not''
           then (case operand of JObj inner \<Rightarrow> Suc (node_depth inner) | _ \<Rightarrow> 0)
           else 0)
      | _ \<Rightarrow> 0)"
| "items_depth [] = 0"
| "items_depth (item # items) =
     max (case item of JObj inner \<Rightarrow> Suc (node_depth inner) | _ \<Rightarrow> 0) (items_depth items)"

declare meaning.simps [simp del] node_count.simps [simp del] node_depth.simps [simp del]

lemma evaluate_items_length:
  "evaluate_items lim results depth items nodes = Inr (bs, n) \<Longrightarrow>
   length bs = length (filter is_dict items)"
  by (induction items arbitrary: nodes bs n)
     (auto split: json.splits sum.splits prod.splits)


lemma filter_length_eq_iff: "length (filter P xs) = length xs \<longleftrightarrow> list_all P xs"
  by (metis filter_True length_filter_less less_irrefl list_all_iff)

lemma evaluate_node_cases:
  "evaluate_node lim results depth [(operator, operand)] nodes = Inr (b, n) \<longleftrightarrow>
     depth \<le> max_depth lim \<and> Suc nodes \<le> max_nodes lim \<and>
     (if operator = ''all'' \<or> operator = ''any'' then
        \<exists>item items bs. operand = JList (item # items) \<and>
          evaluate_items lim results (Suc depth) (item # items) (Suc nodes) = Inr (bs, n) \<and>
          list_all is_dict (item # items) \<and>
          b = (if operator = ''all'' then list_all id bs else list_ex id bs)
      else if operator = ''not'' then
        \<exists>inner. operand = JObj inner \<and>
          evaluate_node lim results (Suc depth) inner (Suc nodes) = Inr (\<not> b, n)
      else eval_leaf operator operand results = Inr b \<and> n = Suc nodes)"
proof -
  have len: "length bs = length (item # items) \<longleftrightarrow> list_all is_dict (item # items)"
    if "evaluate_items lim results (Suc depth) (item # items) (Suc nodes) = Inr (bs, n)"
    for item items bs n
    using evaluate_items_length[OF that] filter_length_eq_iff by metis
  show ?thesis
    apply (subst evaluate_node.simps)
    apply (cases "depth \<le> max_depth lim \<and> Suc nodes \<le> max_nodes lim")
     apply (cases "operator = ''all'' \<or> operator = ''any''")
    subgoal
      by (cases operand; force split: list.splits sum.splits simp del: evaluate_items.simps dest: len)
    subgoal
      by (cases "operand"; cases "operator = ''not''";
          force split: sum.splits if_splits simp del: evaluate_items.simps simp: Let_def)
    by (auto split: if_splits)
qed

lemma evaluate_node_not_single:
  "(\<nexists>operator operand. predicate = [(operator, operand)]) \<Longrightarrow>
   evaluate_node lim results depth predicate nodes \<noteq> Inr bn"
  by (subst evaluate_node.simps) (auto split: list.splits)

lemma meaning_cases:
  "meaning results [(operator, operand)] = Inr b \<longleftrightarrow>
     (if operator = ''all'' \<or> operator = ''any'' then
        \<exists>item items bs. operand = JList (item # items) \<and>
          meaning_items results (item # items) = Inr bs \<and>
          list_all is_dict (item # items) \<and>
          b = (if operator = ''all'' then list_all id bs else list_ex id bs)
      else if operator = ''not'' then
        \<exists>inner. operand = JObj inner \<and> meaning results inner = Inr (\<not> b)
      else eval_leaf operator operand results = Inr b)"
  by (subst meaning.simps)
     (cases operand; force split: list.splits sum.splits simp del: meaning_items.simps)

lemma meaning_not_single:
  "(\<nexists>operator operand. predicate = [(operator, operand)]) \<Longrightarrow>
   meaning results predicate \<noteq> Inr b"
  by (subst meaning.simps) (auto split: list.splits)

lemma node_count_cases:
  "node_count [(operator, operand)] =
     Suc (case operand of
            JList items \<Rightarrow> (if operator = ''all'' \<or> operator = ''any'' then items_count items else 0)
          | JObj inner \<Rightarrow> (if operator = ''not'' then node_count inner else 0)
          | _ \<Rightarrow> 0)"
  by (subst node_count.simps) (auto split: json.splits)

lemma node_depth_cases:
  "node_depth [(operator, operand)] =
     (case operand of
        JList items \<Rightarrow> (if operator = ''all'' \<or> operator = ''any'' then items_depth items else 0)
      | JObj inner \<Rightarrow> (if operator = ''not'' then Suc (node_depth inner) else 0)
      | _ \<Rightarrow> 0)"
  by (subst node_depth.simps) (auto split: json.splits)

lemma evaluate_bounded:
  "\<And>b n. evaluate_node lim results depth predicate nodes = Inr (b, n) \<longleftrightarrow>
     meaning results predicate = Inr b \<and> n = nodes + node_count predicate \<and>
     n \<le> max_nodes lim \<and> depth + node_depth predicate \<le> max_depth lim"
  "\<And>bs n. depth \<le> Suc (max_depth lim) \<and> nodes \<le> max_nodes lim \<Longrightarrow>
   evaluate_items lim results depth items nodes = Inr (bs, n) \<longleftrightarrow>
     meaning_items results items = Inr bs \<and> n = nodes + items_count items \<and>
     n \<le> max_nodes lim \<and> depth + items_depth items \<le> Suc (max_depth lim)"
proof (induction lim results depth predicate nodes and lim results depth items nodes
       rule: evaluate_node_evaluate_items.induct)
  case (1 lim results depth predicate nodes)
  show ?case
  proof (cases "\<exists>operator operand. predicate = [(operator, operand)]")
    case False
    then show ?thesis
      by (simp add: evaluate_node_not_single meaning_not_single)
  next
    case True
    then obtain operator operand where p: "predicate = [(operator, operand)]" by blast
    show ?thesis
    proof (cases "depth \<le> max_depth lim \<and> Suc nodes \<le> max_nodes lim")
      case False
      then show ?thesis
        unfolding p evaluate_node_cases by (auto simp: node_count.simps)
    next
      case ok: True
      then have guard: "\<not> (max_depth lim < depth \<or> max_nodes lim < Suc nodes)" by auto
      have items: "evaluate_items lim results (Suc depth) (item # items) (Suc nodes) = Inr (bs, n) \<longleftrightarrow>
          meaning_items results (item # items) = Inr bs \<and>
          n = Suc nodes + items_count (item # items) \<and> n \<le> max_nodes lim \<and>
          depth + items_depth (item # items) \<le> max_depth lim"
        if "operator = ''all'' \<or> operator = ''any''" "operand = JList (item # items)"
        for item items bs n
        using "1.IH"(1) [OF guard p refl refl that(1) that(2) refl] ok by auto
      have inner: "evaluate_node lim results (Suc depth) inner (Suc nodes) = Inr (b, n) \<longleftrightarrow>
          meaning results inner = Inr b \<and> n = Suc nodes + node_count inner \<and>
          n \<le> max_nodes lim \<and> Suc depth + node_depth inner \<le> max_depth lim"
        if "operator = ''not''" "operand = JObj inner" for inner b n
        using "1.IH"(2) [OF guard p refl refl _ that(1) that(2)] that(1) by auto
      note unfolded = evaluate_node_cases meaning_cases node_count_cases node_depth_cases
      consider (junct) item rest where "operator = ''all'' \<or> operator = ''any''"
            "operand = JList (item # rest)"
        | (no_junct) "operator = ''all'' \<or> operator = ''any''"
            "\<nexists>item rest. operand = JList (item # rest)"
        | (neg) inn where "operator = ''not''" "operand = JObj inn"
        | (no_neg) "operator = ''not''" "\<nexists>inn. operand = JObj inn"
        | (leaf) "operator \<noteq> ''all''" "operator \<noteq> ''any''" "operator \<noteq> ''not''"
        by blast
      then show ?thesis
      proof cases
        case junct
        then show ?thesis
          unfolding p unfolded using ok items [OF junct]
          by (simp del: evaluate_items.simps meaning_items.simps items_count.simps
              items_depth.simps) blast
      next
        case no_junct
        then show ?thesis
          unfolding p unfolded by (simp only: if_True) blast
      next
        case neg
        then show ?thesis
          unfolding p unfolded using ok inner [OF neg] by auto
      next
        case no_neg
        then show ?thesis
          unfolding p unfolded by simp
      next
        case leaf
        then show ?thesis
          unfolding p unfolded using ok by (auto split: json.splits)
      qed
    qed
  qed
next
  case (2 lim results depth nodes)
  then show ?case by auto
next
  case (3 lim results depth item items nodes)
  show ?case
  proof (cases item)
    case (JObj inner)
    show ?thesis
    proof (cases "evaluate_node lim results depth inner nodes")
      case (Inl e)
      then have "\<not> (meaning results inner = Inr b' \<and> n' = nodes + node_count inner \<and>
          n' \<le> max_nodes lim \<and> depth + node_depth inner \<le> max_depth lim)" for b' n'
        using "3.IH"(6) [OF JObj] by simp
      then show ?thesis using JObj Inl by (fastforce split: sum.splits)
    next
      case (Inr r)
      obtain b' n' where r: "r = (b', n')" by (cases r)
      then have node: "meaning results inner = Inr b'" "n' = nodes + node_count inner"
          "n' \<le> max_nodes lim" "depth + node_depth inner \<le> max_depth lim"
        using "3.IH"(6) [OF JObj, of b' n'] Inr by auto
      have rest: "evaluate_items lim results depth items n' = Inr (bs', m) \<longleftrightarrow>
          meaning_items results items = Inr bs' \<and> m = n' + items_count items \<and>
          m \<le> max_nodes lim \<and> depth + items_depth items \<le> Suc (max_depth lim)" for bs' m
        using "3.IH"(7) [OF JObj Inr r [symmetric]] "3.prems" node(3) by blast
      show ?thesis
      proof (cases "evaluate_items lim results depth items n'")
        case (Inl e)
        then show ?thesis
          using rest [of _ "n' + items_count items"] node JObj \<open>evaluate_node _ _ _ _ _ = Inr r\<close> r
          by (auto simp: nat_add_max_right split: sum.splits)
      next
        case (Inr q)
        then show ?thesis
          using rest [of "fst q" "snd q"] node JObj \<open>evaluate_node _ _ _ _ _ = Inr r\<close> r
          by (auto simp: nat_add_max_right split: sum.splits prod.splits)
      qed
    qed
  qed (use 3 in auto)
qed

text \<open>
  Evaluating a workflow predicate is exact: it returns a boolean precisely when the
  predicate is well formed and means that boolean on the results (the meaning combines the same
  leaf comparisons without counting), the number of nodes it visits is at most \<open>max_nodes\<close> and its nesting is at most \<open>max_depth\<close>. So the bounds
  refuse every predicate that exceeds them and never change the value of one that does not.
\<close>

theorem evaluate_correct:
  "evaluate lim predicate results = Inr b \<longleftrightarrow>
     meaning results predicate = Inr b \<and>
     node_count predicate \<le> max_nodes lim \<and> node_depth predicate \<le> max_depth lim"
proof (cases "evaluate_node lim results 0 predicate 0")
  case (Inl e)
  then show ?thesis
    using evaluate_bounded(1) [of lim results 0 predicate 0 b "node_count predicate"]
    by (simp add: evaluate_def)
next
  case (Inr r)
  then show ?thesis
    using evaluate_bounded(1) [of lim results 0 predicate 0 "fst r" "snd r"]
    by (auto simp: evaluate_def split: prod.splits)
qed

lemma evaluate_example:
  "evaluate default_limits
     [(''all'', JList [JObj [(''eq'', JList [JStr ''review.accepted'', JBool True])],
                       JObj [(''not'', JObj [(''exists'', JStr ''review.issues.0'')])]])]
     [(''review'', JObj [(''accepted'', JInt 1), (''issues'', JList [])])] = Inr True"
  by code_simp

end
