(* ===== verification/Graphs.thy ===== *)
theory Graphs
  imports Prelude
begin

section \<open>Dependency graphs\<close>

text \<open>
  What the plan validator and the mission assignment validator say about dependencies. A
  graph is a finite set of nodes with the set each node depends on; an edge leaves the set
  of nodes only in a graph that has not been checked yet. A \<^emph>\<open>core\<close> is a non-empty set of
  nodes each of which depends on another of the set: the obstacle to every order of
  execution, and the same thing as a cycle.
\<close>

definition dep_edges :: "'a set \<Rightarrow> ('a \<Rightarrow> 'a set) \<Rightarrow> 'a rel" where
  "dep_edges V d = {(x, y). x \<in> V \<and> y \<in> V \<and> y \<in> d x}"

definition has_core :: "'a set \<Rightarrow> ('a \<Rightarrow> 'a set) \<Rightarrow> bool" where
  "has_core V d \<longleftrightarrow> (\<exists>C \<subseteq> V. C \<noteq> {} \<and> (\<forall>x \<in> C. d x \<inter> C \<noteq> {}))"

lemma dep_edges_subset: "dep_edges V d \<subseteq> V \<times> V"
  by (auto simp: dep_edges_def)

lemma finite_dep_edges: "finite V \<Longrightarrow> finite (dep_edges V d)"
  by (rule finite_subset [OF dep_edges_subset]) simp

lemma core_of_cycle:
  assumes "\<not> acyclic (dep_edges V d)"
  shows "has_core V d"
proof -
  let ?E = "dep_edges V d" and ?C = "{y. (y, y) \<in> (dep_edges V d)\<^sup>+}"
  have "?C \<noteq> {}" using assms by (auto simp: acyclic_def)
  moreover have "?C \<subseteq> V"
    using trancl_subset_Sigma [OF dep_edges_subset [of V d]] by auto
  moreover have "d y \<inter> ?C \<noteq> {}" if y: "y \<in> ?C" for y
  proof -
    from y obtain z where z: "(y, z) \<in> ?E" "(z, y) \<in> ?E\<^sup>*"
      by (auto dest: tranclD)
    then have "(z, z) \<in> ?E\<^sup>+" by (rule rtrancl_into_trancl1 [rotated])
    with z(1) show ?thesis by (auto simp: dep_edges_def)
  qed
  ultimately show ?thesis unfolding has_core_def by blast
qed

lemma cycle_of_core:
  assumes "finite V" and "has_core V d"
  shows "\<not> acyclic (dep_edges V d)"
proof
  assume "acyclic (dep_edges V d)"
  then have wf: "wf ((dep_edges V d)\<inverse>)"
    using assms(1) by (intro finite_acyclic_wf_converse finite_dep_edges)
  obtain C where C: "C \<subseteq> V" "C \<noteq> {}" "\<And>x. x \<in> C \<Longrightarrow> d x \<inter> C \<noteq> {}"
    using assms(2) by (auto simp: has_core_def)
  obtain x where "x \<in> C" "\<And>y. (y, x) \<in> (dep_edges V d)\<inverse> \<Longrightarrow> y \<notin> C"
    using wfE_min [OF wf, of _ C] C(2) by blast
  with C show False by (fastforce simp: dep_edges_def)
qed

lemma core_iff_cycle: "finite V \<Longrightarrow> has_core V d \<longleftrightarrow> \<not> acyclic (dep_edges V d)"
  using core_of_cycle cycle_of_core by blast

text \<open>
  Without a cycle, whatever has been done already, some remaining node depends on nothing
  that remains: work can always proceed.
\<close>

lemma ready_node_exists:
  assumes "finite V" and "acyclic (dep_edges V d)" and "R \<subseteq> V" and "R \<noteq> {}"
  obtains x where "x \<in> R" and "d x \<inter> R = {}"
proof -
  have "\<not> has_core V d" using assms(1,2) by (simp add: core_iff_cycle)
  then have "\<exists>x \<in> R. d x \<inter> R = {}" using assms(3,4) unfolding has_core_def by blast
  with that show thesis by blast
qed

subsection \<open>Peeling\<close>

text \<open>
  The loop of \<open>PlanValidator._has_cycle\<close>: remove the nodes that depend on nothing that
  remains, until nothing remains (no cycle) or nothing can be removed (a cycle).
\<close>

function peel :: "('a \<Rightarrow> 'a set) \<Rightarrow> 'a list \<Rightarrow> bool" where
  "peel d remaining =
     (if remaining = [] then False
      else let ready = filter (\<lambda>t. d t \<inter> set remaining = {}) remaining
           in if ready = [] then True
              else peel d (filter (\<lambda>t. t \<notin> set ready) remaining))"
  by pat_completeness auto
termination
proof (relation "measure (\<lambda>(d, remaining). length remaining)", goal_cases)
  case 1
  show ?case by simp
next
  case (2 d remaining ready)
  then obtain t where "t \<in> set ready" "t \<in> set remaining"
    by (auto simp: filter_empty_conv)
  then have "length (filter (\<lambda>t. t \<notin> set ready) remaining) < length remaining"
    by (intro length_filter_less [of t]) auto
  then show ?case by simp
qed

declare peel.simps [simp del]

lemma peel_iff_core: "peel d remaining \<longleftrightarrow> has_core (set remaining) d"
proof (induction d remaining rule: peel.induct)
  case (1 d remaining)
  let ?ready = "filter (\<lambda>t. d t \<inter> set remaining = {}) remaining"
  let ?rest = "filter (\<lambda>t. t \<notin> set ?ready) remaining"
  consider "remaining = []" | "remaining \<noteq> []" "?ready = []" | "remaining \<noteq> []" "?ready \<noteq> []"
    by blast
  then show ?case
  proof cases
    case 1
    then show ?thesis by (simp add: peel.simps has_core_def)
  next
    case 2
    then have "has_core (set remaining) d"
      unfolding has_core_def
      by (intro exI [of _ "set remaining"]) (auto simp: filter_empty_conv)
    with 2 show ?thesis by (simp add: peel.simps [of d remaining])
  next
    case 3
    have "has_core (set ?rest) d \<longleftrightarrow> has_core (set remaining) d"
    proof
      assume "has_core (set ?rest) d"
      moreover have "set ?rest \<subseteq> set remaining" by auto
      ultimately show "has_core (set remaining) d" unfolding has_core_def by (meson order_trans)
    next
      assume "has_core (set remaining) d"
      then obtain C where C: "C \<subseteq> set remaining" "C \<noteq> {}" "\<forall>x \<in> C. d x \<inter> C \<noteq> {}"
        by (auto simp: has_core_def)
      then have "C \<subseteq> set ?rest" by auto
      with C show "has_core (set ?rest) d" unfolding has_core_def by blast
    qed
    moreover have "peel d remaining =
        (if remaining = [] then False else if ?ready = [] then True else peel d ?rest)"
      by (subst peel.simps) (simp only: Let_def)
    moreover have "\<dots> = peel d ?rest"
      by (rule trans [OF if_not_P [OF 3(1)] if_not_P [OF 3(2)]])
    ultimately show ?thesis
      using "1.IH" [OF 3(1) refl 3(2)] by simp
  qed
qed

subsection \<open>Depth-first search\<close>

text \<open>
  \<open>_require_acyclic.visit\<close>: \<open>visiting\<close> is the path from the root (the source adds a node
  before its dependencies and removes it after), \<open>visited\<close> the finished nodes, the most
  recent first. \<open>g\<close> is the dictionary of dependency lists; a missing key is \<open>KeyError\<close>.
\<close>

function dfs_visit ::
  "'e \<Rightarrow> 'e \<Rightarrow> ('a \<times> 'a list) list \<Rightarrow> 'a list \<Rightarrow> 'a list \<Rightarrow> 'a \<Rightarrow> 'e + 'a list"
  and dfs_all ::
  "'e \<Rightarrow> 'e \<Rightarrow> ('a \<times> 'a list) list \<Rightarrow> 'a list \<Rightarrow> 'a list \<Rightarrow> 'a list \<Rightarrow> 'e + 'a list" where
  "dfs_visit cyc missing g visiting visited t =
     (if t \<in> set visiting then Inl cyc
      else if t \<in> set visited then Inr visited
      else case map_of g t of
             None \<Rightarrow> Inl missing
           | Some ds \<Rightarrow>
               (case dfs_all cyc missing g (t # visiting) visited ds of
                  Inl e \<Rightarrow> Inl e
                | Inr v \<Rightarrow> Inr (t # v)))"
| "dfs_all cyc missing g visiting visited [] = Inr visited"
| "dfs_all cyc missing g visiting visited (d # ds) =
     (case dfs_visit cyc missing g visiting visited d of
        Inl e \<Rightarrow> Inl e
      | Inr v \<Rightarrow> dfs_all cyc missing g visiting v ds)"
  by pat_completeness auto
termination
proof (relation "inv_image (less_than <*lex*> less_than)
    (\<lambda>x. case x of
       Inl (c, m, g, visiting, visited, t) \<Rightarrow> (card (fst ` set g - set visiting), 0)
     | Inr (c, m, g, visiting, visited, ds) \<Rightarrow>
         (card (fst ` set g - set visiting), Suc (length ds)))", goal_cases)
  case 1
  show ?case by (intro wf_inv_image wf_lex_prod) auto
next
  case (2 c m g visiting visited t ds)
  then have "t \<in> fst ` set g - set visiting"
    by (force dest: map_of_SomeD)
  then have "card (fst ` set g - set visiting - {t}) < card (fst ` set g - set visiting)"
    by (intro card_Diff1_less) auto
  moreover have "fst ` set g - set (t # visiting) = fst ` set g - set visiting - {t}" by auto
  ultimately show ?case by simp
qed auto

declare dfs_visit.simps [simp del]

definition deps_of :: "('a \<times> 'a list) list \<Rightarrow> 'a \<Rightarrow> 'a set" where
  "deps_of g t = (case map_of g t of None \<Rightarrow> {} | Some ds \<Rightarrow> set ds)"

text \<open>A finished list is in topological order: every node's dependencies come after it.\<close>

fun topological :: "('a \<Rightarrow> 'a set) \<Rightarrow> 'a list \<Rightarrow> bool" where
  "topological d [] = True"
| "topological d (t # v) = (d t \<subseteq> set v \<and> topological d v)"

lemma topological_closed: "topological d v \<Longrightarrow> x \<in> set v \<Longrightarrow> d x \<subseteq> set v"
  by (induction v) auto

lemma topological_no_core: "topological d v \<Longrightarrow> \<not> has_core (set v) d"
proof (induction v)
  case Nil
  then show ?case by (simp add: has_core_def)
next
  case (Cons t v)
  show ?case
  proof
    assume "has_core (set (t # v)) d"
    then obtain C where C: "C \<subseteq> insert t (set v)" "C \<noteq> {}" "\<And>x. x \<in> C \<Longrightarrow> d x \<inter> C \<noteq> {}"
      by (auto simp: has_core_def)
    have closed: "x \<in> C \<Longrightarrow> d x \<subseteq> set v" for x
      using C(1) Cons.prems topological_closed [of d v] by auto
    have "C \<inter> set v \<noteq> {}" using C(2,3) closed by blast
    moreover have "x \<in> C \<inter> set v \<Longrightarrow> d x \<inter> (C \<inter> set v) \<noteq> {}" for x
      using C(3) closed by blast
    ultimately have "has_core (set v) d"
      unfolding has_core_def by (intro exI [of _ "C \<inter> set v"]) blast
    with Cons show False by simp
  qed
qed

lemma dfs_finishes:
  "dfs_visit cyc missing g visiting visited t = Inr v \<Longrightarrow> topological (deps_of g) visited \<Longrightarrow>
   topological (deps_of g) v \<and> set visited \<subseteq> set v \<and> t \<in> set v"
  "dfs_all cyc missing g visiting visited ds = Inr v \<Longrightarrow> topological (deps_of g) visited \<Longrightarrow>
   topological (deps_of g) v \<and> set visited \<subseteq> set v \<and> set ds \<subseteq> set v"
proof (induction cyc missing g visiting visited t and cyc missing g visiting visited ds
    arbitrary: v and v rule: dfs_visit_dfs_all.induct)
  case (1 cyc missing g visiting visited t)
  show ?case
  proof (cases "t \<in> set visiting \<or> t \<in> set visited")
    case True
    with "1.prems" show ?thesis
      by (auto simp: dfs_visit.simps [of _ _ _ _ _ t] split: if_splits)
  next
    case False
    with "1.prems"(1) obtain ds w where ds: "map_of g t = Some ds"
      and w: "dfs_all cyc missing g (t # visiting) visited ds = Inr w" and v: "v = t # w"
      by (auto simp: dfs_visit.simps [of _ _ _ _ _ t] split: option.splits sum.splits)
    have "topological (deps_of g) w \<and> set visited \<subseteq> set w \<and> set ds \<subseteq> set w"
      using False ds w "1.prems"(2) by (intro "1.IH") auto
    then show ?thesis using ds v by (auto simp: deps_of_def [of g t])
  qed
next
  case (2 cyc missing g visiting visited)
  then show ?case by simp
next
  case (3 cyc missing g visiting visited d ds)
  then obtain w where w: "dfs_visit cyc missing g visiting visited d = Inr w"
      "dfs_all cyc missing g visiting w ds = Inr v"
    by (auto split: sum.splits)
  then show ?case using "3.IH" "3.prems"(2) by fastforce
qed

text \<open>In a closed graph every dependency is a node.\<close>

abbreviation nodes_of :: "('a \<times> 'a list) list \<Rightarrow> 'a set" where
  "nodes_of g \<equiv> fst ` set g"

definition closed_graph :: "('a \<times> 'a list) list \<Rightarrow> bool" where
  "closed_graph g \<longleftrightarrow> (\<forall>t \<in> nodes_of g. deps_of g t \<subseteq> nodes_of g)"

abbreviation graph_edges :: "('a \<times> 'a list) list \<Rightarrow> 'a rel" where
  "graph_edges g \<equiv> dep_edges (nodes_of g) (deps_of g)"

lemma map_of_nodes: "t \<in> nodes_of g \<Longrightarrow> \<exists>ds. map_of g t = Some ds"
  by (metis map_of_eq_None_iff not_None_eq)

lemma closed_graph_edge:
  "closed_graph g \<Longrightarrow> t \<in> nodes_of g \<Longrightarrow> y \<in> deps_of g t \<Longrightarrow>
   (t, y) \<in> graph_edges g \<and> y \<in> nodes_of g"
  by (auto simp: closed_graph_def dep_edges_def)

lemma dfs_acyclic_returns:
  assumes closed: "closed_graph g" and acyclic: "acyclic (graph_edges g)"
  shows "t \<in> nodes_of g \<Longrightarrow> (\<forall>x \<in> set visiting. (x, t) \<in> (graph_edges g)\<^sup>+) \<Longrightarrow>
      \<exists>v. dfs_visit cyc missing g visiting visited t = Inr v"
    "set ds \<subseteq> nodes_of g \<Longrightarrow>
      (\<forall>x \<in> set visiting. \<forall>y \<in> set ds. (x, y) \<in> (graph_edges g)\<^sup>+) \<Longrightarrow>
      \<exists>v. dfs_all cyc missing g visiting visited ds = Inr v"
  using closed acyclic
proof (induction cyc missing g visiting visited t and cyc missing g visiting visited ds
    rule: dfs_visit_dfs_all.induct)
  case (1 cyc missing g visiting visited t)
  have notin: "t \<notin> set visiting"
    using "1.prems" by (auto simp: acyclic_def)
  obtain ds where ds: "map_of g t = Some ds"
    using map_of_nodes [OF "1.prems"(1)] by blast
  then have d: "deps_of g t = set ds" by (simp add: deps_of_def)
  show ?case
  proof (cases "t \<in> set visited")
    case True
    with notin show ?thesis by (simp add: dfs_visit.simps)
  next
    case False
    have edge: "(t, y) \<in> graph_edges g \<and> y \<in> nodes_of g" if "y \<in> set ds" for y
      using closed_graph_edge [OF "1.prems"(3,1)] that d by simp
    then have "\<forall>x \<in> set (t # visiting). \<forall>y \<in> set ds. (x, y) \<in> (graph_edges g)\<^sup>+"
      using "1.prems"(2) by (auto intro: trancl_into_trancl)
    moreover have "set ds \<subseteq> nodes_of g" using edge by auto
    ultimately obtain v where "dfs_all cyc missing g (t # visiting) visited ds = Inr v"
      using "1.IH" [OF notin False ds] "1.prems"(3,4) by blast
    then show ?thesis using notin False ds by (simp add: dfs_visit.simps)
  qed
next
  case (2 cyc missing g visiting visited)
  then show ?case by simp
next
  case (3 cyc missing g visiting visited d ds)
  then obtain v where v: "dfs_visit cyc missing g visiting visited d = Inr v"
    by (auto simp del: map_of_eq_None_iff)
  with 3 obtain w where "dfs_all cyc missing g visiting v ds = Inr w"
    by fastforce
  with v show ?case by simp
qed

lemma dfs_error:
  "closed_graph g \<Longrightarrow> t \<in> nodes_of g \<Longrightarrow>
   dfs_visit cyc missing g visiting visited t = Inl e \<Longrightarrow> e = cyc"
  "closed_graph g \<Longrightarrow> set ds \<subseteq> nodes_of g \<Longrightarrow>
   dfs_all cyc missing g visiting visited ds = Inl e \<Longrightarrow> e = cyc"
proof (induction cyc missing g visiting visited t and cyc missing g visiting visited ds
    rule: dfs_visit_dfs_all.induct)
  case (1 cyc missing g visiting visited t)
  obtain ds where ds: "map_of g t = Some ds"
    using map_of_nodes [OF "1.prems"(2)] by blast
  have "set ds \<subseteq> nodes_of g"
    using ds "1.prems"(1,2) by (auto simp: closed_graph_def deps_of_def dest!: bspec)
  with "1.prems" "1.IH" [OF _ _ ds] ds show ?case
    by (auto simp: dfs_visit.simps [of _ _ _ _ _ t] split: if_splits sum.splits)
next
  case (2 cyc missing g visiting visited)
  then show ?case by simp
next
  case (3 cyc missing g visiting visited d ds)
  then show ?case by (auto split: sum.splits)
qed

theorem dfs_cycle_iff:
  assumes "closed_graph g"
  shows "dfs_all cyc missing g [] [] (map fst g) = Inl e \<longleftrightarrow>
           e = cyc \<and> \<not> acyclic (graph_edges g)"
proof (cases "dfs_all cyc missing g [] [] (map fst g)")
  case (Inl e')
  then have "e' = cyc" using dfs_error(2) [OF assms, of "map fst g"] by auto
  moreover have "\<not> acyclic (graph_edges g)"
    using dfs_acyclic_returns(2) [OF assms, of "map fst g" "[]" cyc missing "[]"] Inl by auto
  ultimately show ?thesis using Inl by auto
next
  case (Inr v)
  have "topological (deps_of g) v" and "nodes_of g \<subseteq> set v"
    using dfs_finishes(2) [OF Inr] by auto
  then have "\<not> has_core (nodes_of g) (deps_of g)"
    using topological_no_core unfolding has_core_def by (metis order_trans)
  then show ?thesis using Inr by (simp add: core_iff_cycle)
qed

subsection \<open>Ancestors\<close>

text \<open>
  \<open>_ancestors\<close>: \<open>pending\<close> is the stack the source pops from the end, \<open>found\<close> the set it
  returns.
\<close>

function ancestors_loop ::
  "'e \<Rightarrow> ('a \<times> 'a list) list \<Rightarrow> 'a list \<Rightarrow> 'a list \<Rightarrow> 'e + 'a list" where
  "ancestors_loop missing g found pending =
     (if pending = [] then Inr found
      else if last pending \<in> set found
      then ancestors_loop missing g found (butlast pending)
      else case map_of g (last pending) of
             None \<Rightarrow> Inl missing
           | Some ds \<Rightarrow>
               ancestors_loop missing g (last pending # found) (butlast pending @ ds))"
  by pat_completeness auto
termination
proof (relation "inv_image (less_than <*lex*> less_than)
    (\<lambda>(m, g, found, pending). (card (fst ` set g - set found), length pending))", goal_cases)
  case 1
  show ?case by (intro wf_inv_image wf_lex_prod) auto
next
  case (3 m g found pending ds)
  then have "last pending \<in> fst ` set g - set found"
    by (force dest: map_of_SomeD)
  then have "card (fst ` set g - set found - {last pending}) < card (fst ` set g - set found)"
    by (intro card_Diff1_less) auto
  moreover have "fst ` set g - set (last pending # found) =
      fst ` set g - set found - {last pending}" by auto
  ultimately show ?case by simp
qed auto

declare ancestors_loop.simps [simp del]

lemma ancestors_loop_spec:
  assumes "closed_graph g" and "set pending \<subseteq> nodes_of g" and "set found \<subseteq> nodes_of g"
    and "\<forall>x \<in> set found. deps_of g x \<subseteq> set found \<union> set pending"
  shows "\<exists>v. ancestors_loop missing g found pending = Inr v \<and>
           set found \<union> set pending \<subseteq> set v \<and> (\<forall>x \<in> set v. deps_of g x \<subseteq> set v) \<and>
           set v \<subseteq> set found \<union> (graph_edges g)\<^sup>* `` set pending"
  using assms
proof (induction missing g found pending rule: ancestors_loop.induct)
  case (1 missing g found pending)
  let ?d = "last pending" and ?E = "graph_edges g"
  show ?case
  proof (cases "pending = []")
    case True
    with "1.prems" show ?thesis by (simp add: ancestors_loop.simps)
  next
    case ne: False
    then have split: "set pending = insert ?d (set (butlast pending))"
      by (metis append_butlast_last_id list.set(1) list.simps(15) set_append sup_bot_right
          Un_insert_right)
    show ?thesis
    proof (cases "?d \<in> set found")
      case True
      have "\<exists>v. ancestors_loop missing g found (butlast pending) = Inr v \<and>
          set found \<union> set (butlast pending) \<subseteq> set v \<and> (\<forall>x \<in> set v. deps_of g x \<subseteq> set v) \<and>
          set v \<subseteq> set found \<union> ?E\<^sup>* `` set (butlast pending)"
        using "1.prems" split True by (intro "1.IH"(1) [OF ne True]) auto
      then obtain v where v: "ancestors_loop missing g found (butlast pending) = Inr v"
          "set found \<union> set (butlast pending) \<subseteq> set v" "\<forall>x \<in> set v. deps_of g x \<subseteq> set v"
          "set v \<subseteq> set found \<union> ?E\<^sup>* `` set (butlast pending)" by blast
      have "ancestors_loop missing g found pending = Inr v"
        using ne True v(1) by (simp add: ancestors_loop.simps [of missing g found pending])
      moreover have "set v \<subseteq> set found \<union> ?E\<^sup>* `` set pending" using v(4) split by auto
      ultimately show ?thesis using v True split by auto
    next
      case False
      obtain ds where ds: "map_of g ?d = Some ds"
        using map_of_nodes [of ?d g] "1.prems"(2) split by auto
      then have deps: "deps_of g ?d = set ds" by (simp add: deps_of_def)
      have edge: "(?d, y) \<in> ?E \<and> y \<in> nodes_of g" if "y \<in> set ds" for y
        using closed_graph_edge [OF "1.prems"(1), of ?d y] "1.prems"(2) split deps that by auto
      have "\<exists>v. ancestors_loop missing g (?d # found) (butlast pending @ ds) = Inr v \<and>
          set (?d # found) \<union> set (butlast pending @ ds) \<subseteq> set v \<and>
          (\<forall>x \<in> set v. deps_of g x \<subseteq> set v) \<and>
          set v \<subseteq> set (?d # found) \<union> ?E\<^sup>* `` set (butlast pending @ ds)"
        using "1.prems" split deps edge by (intro "1.IH"(2) [OF ne False ds]) auto
      then obtain v where v: "ancestors_loop missing g (?d # found) (butlast pending @ ds) = Inr v"
          "set (?d # found) \<union> set (butlast pending @ ds) \<subseteq> set v"
          "\<forall>x \<in> set v. deps_of g x \<subseteq> set v"
          "set v \<subseteq> set (?d # found) \<union> ?E\<^sup>* `` set (butlast pending @ ds)" by blast
      have "(?d, y) \<in> ?E\<^sup>*" if "y \<in> ?E\<^sup>* `` set ds" for y
        using edge that by (auto intro: converse_rtrancl_into_rtrancl)
      then have "?E\<^sup>* `` set ds \<subseteq> ?E\<^sup>* `` set pending"
        unfolding split by blast
      moreover have "?d \<in> ?E\<^sup>* `` set pending"
        and "?E\<^sup>* `` set (butlast pending) \<subseteq> ?E\<^sup>* `` set pending"
        unfolding split by blast+
      ultimately have "set v \<subseteq> set found \<union> ?E\<^sup>* `` set pending"
        using v(4) unfolding set_append Image_Un list.set(2) by blast
      moreover have "ancestors_loop missing g found pending = Inr v"
        using ne False ds v(1) by (simp add: ancestors_loop.simps [of missing g found pending])
      ultimately show ?thesis using v split by auto
    qed
  qed
qed

lemma closed_under_reach:
  assumes "(x, y) \<in> (graph_edges g)\<^sup>*" and "x \<in> S" and "\<And>z. z \<in> S \<Longrightarrow> deps_of g z \<subseteq> S"
  shows "y \<in> S"
  using assms by (induction rule: rtrancl_induct) (auto simp: dep_edges_def)

theorem ancestors_loop_correct:
  assumes closed: "closed_graph g" and t: "t \<in> nodes_of g" and ds: "map_of g t = Some ds"
  obtains v where "ancestors_loop missing g [] ds = Inr v"
    and "set v = {y. (t, y) \<in> (graph_edges g)\<^sup>+}"
proof -
  have deps: "deps_of g t = set ds" using ds by (simp add: deps_of_def)
  have edge: "(t, y) \<in> graph_edges g \<and> y \<in> nodes_of g" if "y \<in> set ds" for y
    using closed_graph_edge [OF closed t] deps that by simp
  obtain v where v: "ancestors_loop missing g [] ds = Inr v" "set ds \<subseteq> set v"
      "\<forall>x \<in> set v. deps_of g x \<subseteq> set v" "set v \<subseteq> (graph_edges g)\<^sup>* `` set ds"
    using ancestors_loop_spec [OF closed, of ds "[]" missing] edge
    by (auto simp: subset_eq)
  have "y \<in> set v" if "(t, y) \<in> (graph_edges g)\<^sup>+" for y
  proof -
    from that obtain z where z: "(t, z) \<in> graph_edges g" "(z, y) \<in> (graph_edges g)\<^sup>*"
      by (auto dest: tranclD)
    then have "z \<in> set v" using v(2) deps by (auto simp: dep_edges_def)
    then show ?thesis using closed_under_reach [OF z(2)] v(3) by blast
  qed
  moreover have "(t, y) \<in> (graph_edges g)\<^sup>+" if "y \<in> set v" for y
    using v(4) that edge by (fastforce intro: rtrancl_into_trancl2)
  ultimately show thesis using v(1) that by blast
qed

end
