(* ===== verification/Assignments.thy ===== *)
theory Assignments
  imports Graphs
begin

section \<open>Mission assignment graphs\<close>

text \<open>
  \<open>missions/assignment_graph.py\<close> and the assignment record of \<open>missions/models.py\<close>: which
  sets of task assignments a mission may run. The latest revision of every task forms a
  dependency graph; the validator refuses unknown dependencies and cycles, and demands the
  separation of production, evaluation and reporting along the graph. The main theorem is
  that acceptance is exactly the relational statement \<open>separated\<close>.
\<close>

datatype crew_assignment_kind = PRODUCTION | CONTRIBUTOR | EVALUATION | REPORTING | AUDIT

datatype assignment_change_kind = IN_PLAN_LOCAL | FORMAL_REASSIGNMENT | REPLANNED

record executive_confirmation =
  ec_confirmation_id :: string
  ec_identity_id :: string
  ec_disposition :: string
  ec_rationale :: string
  ec_evidence_references :: "string list"
  ec_coverage :: "string list"
  ec_confirmed_at :: instant

record mission_assignment_change =
  mac_prior_assignment_id :: string
  mac_prior_assignment_revision :: int
  mac_requested_by_identity :: string
  mac_change_kind :: assignment_change_kind
  mac_rationale :: string
  mac_context_references :: "string list"
  mac_evidence_references :: "string list"
  mac_authority_reference :: string
  mac_prior_plan_fingerprint :: string
  mac_effective_plan_fingerprint :: string
  mac_replanning_evidence_references :: "string list"
  mac_cto_coverage_confirmation :: "executive_confirmation option"
  mac_pm_reassignment_confirmation :: "executive_confirmation option"

definition plan_and_confirmation_lineage_is_explicit :: "mission_assignment_change \<Rightarrow> bool" where
  "plan_and_confirmation_lineage_is_explicit c =
     (let cto = mac_cto_coverage_confirmation c;
          pm = mac_pm_reassignment_confirmation c;
          same_plan = mac_prior_plan_fingerprint c = mac_effective_plan_fingerprint c
      in (case cto of None \<Rightarrow> True | Some x \<Rightarrow> ec_identity_id x = ''CTO'') \<and>
         (case pm of None \<Rightarrow> True | Some x \<Rightarrow> ec_identity_id x = ''PM'') \<and>
         list_all (\<lambda>x. case x of None \<Rightarrow> True | Some y \<Rightarrow> ec_disposition y = ''confirmed'')
           [cto, pm] \<and>
         (case mac_change_kind c of
            IN_PLAN_LOCAL \<Rightarrow> same_plan \<and> mac_replanning_evidence_references c = []
          | FORMAL_REASSIGNMENT \<Rightarrow> same_plan
          | REPLANNED \<Rightarrow> \<not> same_plan \<and> mac_replanning_evidence_references c \<noteq> []))"

record mission_resource_limit =
  rl_name :: string
  rl_value :: int
  rl_unit :: string

datatype assignment_schema = Assignment_1_0 | Assignment_1_1

record mission_task_assignment =
  mta_schema_version :: assignment_schema
  mta_assignment_id :: string
  mta_mission_id :: string
  mta_crew_version :: int
  mta_task_id :: string
  mta_assignment_revision :: int
  mta_accountable_owner :: string
  mta_assignment_kind :: crew_assignment_kind
  mta_contributors :: "string list"
  mta_expected_result :: string
  mta_completion_criteria :: "string list"
  mta_dependencies :: "string list"
  mta_execution_run_id :: "string option"
  mta_execution_task_id :: "string option"
  mta_environment_context_ids :: "string list"
  mta_authority_scope :: "string list"
  mta_exact_tools :: "string list"
  mta_path_scopes :: "string list"
  mta_limits :: "mission_resource_limit list"
  mta_required_evidence :: "string list"
  mta_requires_independent_evaluation :: bool
  mta_change :: "mission_assignment_change option"
  mta_created_at :: instant

definition ownership_is_unambiguous :: "mission_task_assignment \<Rightarrow> bool" where
  "ownership_is_unambiguous a =
     (mta_accountable_owner a \<notin> set (mta_contributors a) \<and>
      distinct (mta_contributors a) \<and>
      distinct (mta_dependencies a) \<and>
      mta_task_id a \<notin> set (mta_dependencies a) \<and>
      distinct (mta_environment_context_ids a) \<and>
      (mta_execution_run_id a = None) = (mta_execution_task_id a = None) \<and>
      (mta_requires_independent_evaluation a \<longrightarrow> mta_assignment_kind a = PRODUCTION) \<and>
      (if mta_assignment_revision a = 1 then mta_change a = None
       else mta_schema_version a = Assignment_1_1 \<and> mta_change a \<noteq> None))"

subsection \<open>The validator\<close>

definition latest :: "mission_task_assignment list \<Rightarrow> (string \<times> mission_task_assignment) list" where
  "latest assignments = latest_by mta_task_id mta_assignment_revision [] assignments"

definition dependency_graph ::
  "(string \<times> mission_task_assignment) list \<Rightarrow> (string \<times> string list) list" where
  "dependency_graph l = map (\<lambda>(t, a). (t, mta_dependencies a)) l"

definition require_acyclic :: "(string \<times> mission_task_assignment) list \<Rightarrow> unit result" where
  "require_acyclic l =
     ebind (dfs_all (MishkanError PLAN ''mission assignment dependencies contain a cycle'')
              KeyError (dependency_graph l) [] [] (map fst l))
       (\<lambda>_. Inr ())"

definition ancestors_of ::
  "string \<Rightarrow> (string \<times> mission_task_assignment) list \<Rightarrow> string list result" where
  "ancestors_of t l =
     ebind (from_option KeyError (map_of (dependency_graph l) t))
       (\<lambda>ds. ancestors_loop KeyError (dependency_graph l) [] ds)"

fun ancestors_table ::
  "(string \<times> mission_task_assignment) list \<Rightarrow> string list \<Rightarrow> (string \<times> string list) list result" where
  "ancestors_table l [] = Inr []"
| "ancestors_table l (t # ts) =
     ebind (ancestors_of t l) (\<lambda>anc.
       ebind (ancestors_table l ts) (\<lambda>rest. Inr ((t, anc) # rest)))"

definition tasks_of_kind ::
  "crew_assignment_kind \<Rightarrow> (string \<times> mission_task_assignment) list \<Rightarrow> string list" where
  "tasks_of_kind k l = map fst (filter (\<lambda>(t, a). mta_assignment_kind a = k) l)"

abbreviation (input) role_conflict :: "string \<Rightarrow> unit result" where
  "role_conflict m \<equiv> Inl (MishkanError ROLE_CONFLICT m)"

fun require_evaluated ::
  "(string \<times> string list) list \<Rightarrow> string list \<Rightarrow> string list
   \<Rightarrow> (string \<times> mission_task_assignment) list \<Rightarrow> unit result" where
  "require_evaluated anc evaluation reporting [] = Inr ()"
| "require_evaluated anc evaluation reporting ((t, a) # rest) =
     (if \<not> mta_requires_independent_evaluation a
      then require_evaluated anc evaluation reporting rest
      else let downstream = filter (\<lambda>e. t \<in> deps_of anc e) evaluation
           in if downstream = []
              then role_conflict ''production work lacks a downstream independent evaluation''
              else if \<not> list_ex (\<lambda>r. set downstream \<inter> deps_of anc r \<noteq> {}) reporting
              then role_conflict ''independently evaluated production lacks downstream reporting''
              else require_evaluated anc evaluation reporting rest)"

definition run_task_bindings ::
  "(string \<times> mission_task_assignment) list \<Rightarrow> (string \<times> string) list" where
  "run_task_bindings l =
     concat (map (\<lambda>(t, a). case (mta_execution_run_id a, mta_execution_task_id a) of
                   (Some r, Some x) \<Rightarrow> [(r, x)] | _ \<Rightarrow> []) l)"

definition check_separation ::
  "(string \<times> mission_task_assignment) list \<Rightarrow> (string \<times> string list) list \<Rightarrow> unit result" where
  "check_separation l anc =
     (let evaluation = tasks_of_kind EVALUATION l;
          reporting = tasks_of_kind REPORTING l;
          production = tasks_of_kind PRODUCTION l
      in if list_ex (\<lambda>e. deps_of anc e \<inter> set production = {}) evaluation
         then role_conflict ''independent evaluation has no upstream production result''
         else if 1 < length l \<and> reporting = []
         then role_conflict ''multi-task mission has no separately attributable reporting task''
         else ebind (require_evaluated anc evaluation reporting l) (\<lambda>_.
           if distinct (run_task_bindings l) then Inr ()
           else Inl (MishkanError PLAN
             ''mission assignments cannot share one durable run-task binding'')))"

definition validate :: "mission_task_assignment list \<Rightarrow> unit result" where
  "validate assignments =
     (let l = latest assignments
      in if l = []
         then Inl (MishkanError MISSION ''mission has no accountable task assignments'')
         else if list_ex (\<lambda>(t, a). \<not> set (mta_dependencies a) \<subseteq> set (map fst l)) l
         then Inl (MishkanError PLAN ''mission assignment references unknown dependencies'')
         else ebind (require_acyclic l) (\<lambda>_.
           ebind (ancestors_table l (map fst l)) (check_separation l)))"

subsection \<open>What acceptance means\<close>

text \<open>
  \<open>upstream l t s\<close>: some chain of dependencies leads from task \<open>t\<close> to task \<open>s\<close>.
\<close>

definition upstream :: "(string \<times> mission_task_assignment) list \<Rightarrow> string rel" where
  "upstream l = (graph_edges (dependency_graph l))\<^sup>+"

definition separated :: "(string \<times> mission_task_assignment) list \<Rightarrow> bool" where
  "separated l \<longleftrightarrow>
     l \<noteq> [] \<and>
     (\<forall>(t, a) \<in> set l. set (mta_dependencies a) \<subseteq> fst ` set l) \<and>
     irrefl (upstream l) \<and>
     (\<forall>(e, a) \<in> set l. mta_assignment_kind a = EVALUATION \<longrightarrow>
        (\<exists>(p, b) \<in> set l. mta_assignment_kind b = PRODUCTION \<and> (e, p) \<in> upstream l)) \<and>
     (length l = 1 \<or> (\<exists>(r, b) \<in> set l. mta_assignment_kind b = REPORTING)) \<and>
     (\<forall>(t, a) \<in> set l. mta_requires_independent_evaluation a \<longrightarrow>
        (\<exists>(e, b) \<in> set l. \<exists>(r, c) \<in> set l.
           mta_assignment_kind b = EVALUATION \<and> mta_assignment_kind c = REPORTING \<and>
           (e, t) \<in> upstream l \<and> (r, e) \<in> upstream l)) \<and>
     distinct (run_task_bindings l)"

lemma latest_keyed:
  "(t, a) \<in> set (latest xs) \<Longrightarrow> mta_task_id a = t \<and> a \<in> set xs \<and>
     (\<forall>b \<in> set xs. mta_task_id b = t \<longrightarrow> mta_assignment_revision b \<le> mta_assignment_revision a)"
  unfolding latest_def by (rule latest_by_keyed)

lemma latest_distinct: "distinct (map fst (latest xs))"
  by (simp add: latest_def latest_by_distinct)

lemma latest_dom: "fst ` set (latest xs) = mta_task_id ` set xs"
  by (simp add: latest_def latest_by_dom)

lemma latest_eq_Nil_iff: "latest xs = [] \<longleftrightarrow> xs = []"
  by (metis latest_dom image_is_empty set_empty)

lemma nodes_dependency_graph: "nodes_of (dependency_graph l) = fst ` set l"
  by (force simp: dependency_graph_def)

lemma map_fst_dependency_graph: "map fst (dependency_graph l) = map fst l"
  by (simp add: dependency_graph_def case_prod_beta)

lemma deps_of_dependency_graph:
  "distinct (map fst l) \<Longrightarrow> (t, a) \<in> set l \<Longrightarrow>
   deps_of (dependency_graph l) t = set (mta_dependencies a)"
proof -
  assume d: "distinct (map fst l)" and m: "(t, a) \<in> set l"
  have "(t, mta_dependencies a) \<in> set (dependency_graph l)"
    using m by (force simp: dependency_graph_def)
  then have "map_of (dependency_graph l) t = Some (mta_dependencies a)"
    using d by (simp add: map_fst_dependency_graph)
  then show ?thesis by (simp add: deps_of_def)
qed

lemma closed_dependency_graph:
  assumes "distinct (map fst l)"
    and "\<forall>(t, a) \<in> set l. set (mta_dependencies a) \<subseteq> fst ` set l"
  shows "closed_graph (dependency_graph l)"
  unfolding closed_graph_def nodes_dependency_graph
proof
  fix t assume "t \<in> fst ` set l"
  then obtain a where "(t, a) \<in> set l" by force
  then show "deps_of (dependency_graph l) t \<subseteq> fst ` set l"
    using assms deps_of_dependency_graph [of l t a] by auto
qed

lemma require_acyclic_iff:
  assumes "closed_graph (dependency_graph l)"
  shows "require_acyclic l =
     (if irrefl (upstream l) then Inr ()
      else Inl (MishkanError PLAN ''mission assignment dependencies contain a cycle''))"
proof -
  let ?cyc = "MishkanError PLAN ''mission assignment dependencies contain a cycle''"
  let ?r = "dfs_all ?cyc KeyError (dependency_graph l) [] [] (map fst l)"
  have *: "?r = Inl e \<longleftrightarrow> e = ?cyc \<and> \<not> irrefl (upstream l)" for e
    using dfs_cycle_iff [OF assms, of ?cyc KeyError e]
    by (simp add: upstream_def acyclic_irrefl map_fst_dependency_graph)
  show ?thesis
  proof (cases ?r)
    case (Inl e)
    then show ?thesis using * [of e] by (simp add: require_acyclic_def)
  next
    case (Inr v)
    then show ?thesis using * [of ?cyc] by (simp add: require_acyclic_def)
  qed
qed

lemma ancestors_of_correct:
  assumes "closed_graph (dependency_graph l)" and "t \<in> fst ` set l"
  obtains v where "ancestors_of t l = Inr v" and "set v = {y. (t, y) \<in> upstream l}"
proof -
  have node: "t \<in> nodes_of (dependency_graph l)" using assms(2) by (simp only: nodes_dependency_graph)
  then obtain ds where ds: "map_of (dependency_graph l) t = Some ds" using map_of_nodes by metis
  obtain v where "ancestors_loop KeyError (dependency_graph l) [] ds = Inr v"
      "set v = {y. (t, y) \<in> upstream l}"
    unfolding upstream_def by (rule ancestors_loop_correct [OF assms(1) node ds])
  then show thesis using that ds by (simp add: ancestors_of_def)
qed

lemma ancestors_table_correct:
  assumes "closed_graph (dependency_graph l)" and "set ts \<subseteq> fst ` set l"
  shows "\<exists>anc. ancestors_table l ts = Inr anc \<and>
           (\<forall>t \<in> set ts. deps_of anc t = {y. (t, y) \<in> upstream l})"
  using assms(2)
proof (induction ts)
  case Nil
  then show ?case by simp
next
  case (Cons t ts)
  obtain v where v: "ancestors_of t l = Inr v" "set v = {y. (t, y) \<in> upstream l}"
    using ancestors_of_correct [OF assms(1), of t] Cons.prems by auto
  obtain anc where anc: "ancestors_table l ts = Inr anc"
      "\<forall>t \<in> set ts. deps_of anc t = {y. (t, y) \<in> upstream l}"
    using Cons by auto
  show ?case using v anc by (auto simp: deps_of_def)
qed

lemma in_tasks_of_kind:
  "t \<in> set (tasks_of_kind k l) \<longleftrightarrow> (\<exists>a. (t, a) \<in> set l \<and> mta_assignment_kind a = k)"
  by (force simp: tasks_of_kind_def)

lemma require_evaluated_iff:
  "require_evaluated anc evaluation reporting l = Inr () \<longleftrightarrow>
     (\<forall>(t, a) \<in> set l. mta_requires_independent_evaluation a \<longrightarrow>
        (\<exists>e \<in> set evaluation. \<exists>r \<in> set reporting. t \<in> deps_of anc e \<and> e \<in> deps_of anc r))"
proof (induction l)
  case Nil
  then show ?case by simp
next
  case (Cons x l)
  obtain t a where x: "x = (t, a)" by (cases x)
  show ?case
  proof (cases "mta_requires_independent_evaluation a")
    case False
    then show ?thesis using Cons x by simp
  next
    case True
    let ?down = "filter (\<lambda>e. t \<in> deps_of anc e) evaluation"
    have "(?down \<noteq> [] \<and> list_ex (\<lambda>r. set ?down \<inter> deps_of anc r \<noteq> {}) reporting) \<longleftrightarrow>
        (\<exists>e \<in> set evaluation. \<exists>r \<in> set reporting. t \<in> deps_of anc e \<and> e \<in> deps_of anc r)"
      by (fastforce simp: list_ex_iff filter_empty_conv)
    then show ?thesis using True Cons x by (auto simp: Let_def)
  qed
qed

lemma require_evaluated_error:
  "require_evaluated anc evaluation reporting l = Inl e \<Longrightarrow> \<exists>m. e = MishkanError ROLE_CONFLICT m"
  by (induction l) (auto simp: Let_def split: if_splits)

lemma gates_Inr_iff:
  "(if a then Inl e1 else if b then Inl e2
    else ebind r (\<lambda>_. if d then Inr () else Inl e3)) = Inr () \<longleftrightarrow>
   \<not> a \<and> \<not> b \<and> r = Inr () \<and> d"
  by (cases r) auto

lemma check_separation_iff:
  assumes anc: "\<forall>t \<in> fst ` set l. deps_of anc t = {y. (t, y) \<in> upstream l}"
  shows "check_separation l anc = Inr () \<longleftrightarrow>
     (\<forall>e \<in> set (tasks_of_kind EVALUATION l). \<exists>p \<in> set (tasks_of_kind PRODUCTION l).
        (e, p) \<in> upstream l) \<and>
     (length l \<le> 1 \<or> tasks_of_kind REPORTING l \<noteq> []) \<and>
     (\<forall>(t, a) \<in> set l. mta_requires_independent_evaluation a \<longrightarrow>
        (\<exists>e \<in> set (tasks_of_kind EVALUATION l). \<exists>r \<in> set (tasks_of_kind REPORTING l).
           (e, t) \<in> upstream l \<and> (r, e) \<in> upstream l)) \<and>
     distinct (run_task_bindings l)"
proof -
  have in_l: "e \<in> fst ` set l" if "e \<in> set (tasks_of_kind k l)" for e k
    using that by (force simp: in_tasks_of_kind)
  have anc_e: "deps_of anc e = {y. (e, y) \<in> upstream l}" if "e \<in> set (tasks_of_kind k l)" for e k
    using anc in_l [OF that] by blast
  have "list_ex (\<lambda>e. deps_of anc e \<inter> set (tasks_of_kind PRODUCTION l) = {})
          (tasks_of_kind EVALUATION l) \<longleftrightarrow>
        (\<exists>e \<in> set (tasks_of_kind EVALUATION l).
           {y. (e, y) \<in> upstream l} \<inter> set (tasks_of_kind PRODUCTION l) = {})"
    unfolding list_ex_iff by (rule bex_cong [OF refl]) (simp only: anc_e)
  also have "\<dots> \<longleftrightarrow> \<not> (\<forall>e \<in> set (tasks_of_kind EVALUATION l).
      \<exists>p \<in> set (tasks_of_kind PRODUCTION l). (e, p) \<in> upstream l)" by blast
  finally have ev: "list_ex (\<lambda>e. deps_of anc e \<inter> set (tasks_of_kind PRODUCTION l) = {})
          (tasks_of_kind EVALUATION l) \<longleftrightarrow> \<not> (\<forall>e \<in> set (tasks_of_kind EVALUATION l).
      \<exists>p \<in> set (tasks_of_kind PRODUCTION l). (e, p) \<in> upstream l)" .
  have "(\<exists>e \<in> set (tasks_of_kind EVALUATION l). \<exists>r \<in> set (tasks_of_kind REPORTING l).
           t \<in> deps_of anc e \<and> e \<in> deps_of anc r) \<longleftrightarrow>
        (\<exists>e \<in> set (tasks_of_kind EVALUATION l). \<exists>r \<in> set (tasks_of_kind REPORTING l).
           (e, t) \<in> upstream l \<and> (r, e) \<in> upstream l)" for t
    using anc_e [of _ EVALUATION] anc_e [of _ REPORTING] by blast
  then have down: "require_evaluated anc (tasks_of_kind EVALUATION l) (tasks_of_kind REPORTING l) l =
          Inr () \<longleftrightarrow>
        (\<forall>(t, a) \<in> set l. mta_requires_independent_evaluation a \<longrightarrow>
          (\<exists>e \<in> set (tasks_of_kind EVALUATION l). \<exists>r \<in> set (tasks_of_kind REPORTING l).
             (e, t) \<in> upstream l \<and> (r, e) \<in> upstream l))"
    unfolding require_evaluated_iff by (simp only:)
  show ?thesis
    unfolding check_separation_def Let_def gates_Inr_iff ev down not_not de_Morgan_conj not_less ..
qed

lemma separated_tasks:
  "separated l \<longleftrightarrow>
     l \<noteq> [] \<and>
     (\<forall>(t, a) \<in> set l. set (mta_dependencies a) \<subseteq> fst ` set l) \<and>
     irrefl (upstream l) \<and>
     (\<forall>e \<in> set (tasks_of_kind EVALUATION l). \<exists>p \<in> set (tasks_of_kind PRODUCTION l).
        (e, p) \<in> upstream l) \<and>
     (length l \<le> 1 \<or> tasks_of_kind REPORTING l \<noteq> []) \<and>
     (\<forall>(t, a) \<in> set l. mta_requires_independent_evaluation a \<longrightarrow>
        (\<exists>e \<in> set (tasks_of_kind EVALUATION l). \<exists>r \<in> set (tasks_of_kind REPORTING l).
           (e, t) \<in> upstream l \<and> (r, e) \<in> upstream l)) \<and>
     distinct (run_task_bindings l)"
proof -
  have len: "l \<noteq> [] \<Longrightarrow> (length l = 1) = (length l \<le> 1)" by (cases l) auto
  have rep: "(\<exists>(r, b) \<in> set l. mta_assignment_kind b = REPORTING) \<longleftrightarrow> tasks_of_kind REPORTING l \<noteq> []"
    by (force simp: tasks_of_kind_def filter_empty_conv)
  have ev: "(\<forall>(e, a) \<in> set l. mta_assignment_kind a = EVALUATION \<longrightarrow>
        (\<exists>(p, b) \<in> set l. mta_assignment_kind b = PRODUCTION \<and> (e, p) \<in> upstream l)) \<longleftrightarrow>
      (\<forall>e \<in> set (tasks_of_kind EVALUATION l). \<exists>p \<in> set (tasks_of_kind PRODUCTION l).
        (e, p) \<in> upstream l)"
    by (fastforce simp: in_tasks_of_kind)
  have down: "(\<exists>(e, b) \<in> set l. \<exists>(r, c) \<in> set l.
           mta_assignment_kind b = EVALUATION \<and> mta_assignment_kind c = REPORTING \<and>
           (e, t) \<in> upstream l \<and> (r, e) \<in> upstream l) \<longleftrightarrow>
        (\<exists>e \<in> set (tasks_of_kind EVALUATION l). \<exists>r \<in> set (tasks_of_kind REPORTING l).
           (e, t) \<in> upstream l \<and> (r, e) \<in> upstream l)" for t
    by (fastforce simp: in_tasks_of_kind)
  show ?thesis
    unfolding separated_def ev rep down using len by blast
qed

lemma validate_cases:
  assumes "latest xs \<noteq> []"
    and "\<forall>(t, a) \<in> set (latest xs). set (mta_dependencies a) \<subseteq> fst ` set (latest xs)"
  obtains (cycle) "\<not> irrefl (upstream (latest xs))"
      "validate xs = Inl (MishkanError PLAN ''mission assignment dependencies contain a cycle'')"
  | (acyclic) anc where "irrefl (upstream (latest xs))"
      "\<forall>t \<in> fst ` set (latest xs). deps_of anc t = {y. (t, y) \<in> upstream (latest xs)}"
      "validate xs = check_separation (latest xs) anc"
proof -
  let ?l = "latest xs"
  have closed: "closed_graph (dependency_graph ?l)"
    using assms(2) latest_distinct by (rule closed_dependency_graph [rotated])
  have known: "\<not> list_ex (\<lambda>(t, a). \<not> set (mta_dependencies a) \<subseteq> set (map fst ?l)) ?l"
    using assms(2) by (auto simp: list_ex_iff)
  obtain anc where anc: "ancestors_table ?l (map fst ?l) = Inr anc"
      "\<forall>t \<in> fst ` set ?l. deps_of anc t = {y. (t, y) \<in> upstream ?l}"
    using ancestors_table_correct [OF closed, of "map fst ?l"] by auto
  show thesis
  proof (cases "irrefl (upstream ?l)")
    case False
    show thesis
      by (rule cycle) (use False assms(1) known in
        \<open>simp_all add: validate_def Let_def require_acyclic_iff [OF closed] del: set_map\<close>)
  next
    case True
    show thesis
      by (rule acyclic [OF True anc(2)]) (use True assms(1) known anc(1) in
        \<open>simp add: validate_def Let_def require_acyclic_iff [OF closed] del: set_map\<close>)
  qed
qed

lemma validate_separated: "validate assignments = Inr () \<longleftrightarrow> separated (latest assignments)"
proof (cases "latest assignments \<noteq> [] \<and> (\<forall>(t, a) \<in> set (latest assignments).
    set (mta_dependencies a) \<subseteq> fst ` set (latest assignments))")
  case False
  then have "validate assignments \<noteq> Inr ()"
    by (auto simp: validate_def Let_def list_ex_iff)
  then show ?thesis using False unfolding separated_def by blast
next
  case True
  then have ne: "latest assignments \<noteq> []" and known: "\<forall>(t, a) \<in> set (latest assignments).
    set (mta_dependencies a) \<subseteq> fst ` set (latest assignments)" by blast+
  show ?thesis
  proof (cases rule: validate_cases [OF ne known])
    case 1
    then show ?thesis by (simp add: separated_tasks)
  next
    case (2 anc)
    show ?thesis
      unfolding 2(3) check_separation_iff [OF 2(2)] separated_tasks
      using 2(1) ne known by argo
  qed
qed

text \<open>
  Claim C11. Mission assignments are accepted exactly when the latest revision of every task
  forms a separated graph: some task, every dependency known, no task upstream of itself,
  every evaluation downstream of a production, a reporting task as soon as there are two
  tasks, every production that demands it evaluated downstream and that evaluation reported
  downstream, and no two tasks on one durable run task.
\<close>

theorem validate_iff_separated:
  "validate assignments = Inr () \<longleftrightarrow> separated (latest assignments)"
  by (rule validate_separated)

text \<open>
  The validator fails only with its own refusals: whatever the assignments, it
  never meets a key it does not have, so no caller sees a \<open>KeyError\<close>, and the code of the
  failure says what is wrong: no assignment at all, a broken plan, or a broken separation.
\<close>

theorem validate_failure_codes:
  "(case validate assignments of
      Inr _ \<Rightarrow> True
    | Inl (MishkanError code _) \<Rightarrow>
        (if assignments = [] then code = MISSION else code \<in> {PLAN, ROLE_CONFLICT})
    | Inl _ \<Rightarrow> False)"
proof (cases "latest assignments \<noteq> [] \<and> (\<forall>(t, a) \<in> set (latest assignments).
    set (mta_dependencies a) \<subseteq> fst ` set (latest assignments))")
  case False
  then show ?thesis
    by (auto simp: validate_def Let_def list_ex_iff latest_eq_Nil_iff)
next
  case True
  then have ne: "latest assignments \<noteq> []" and known: "\<forall>(t, a) \<in> set (latest assignments).
    set (mta_dependencies a) \<subseteq> fst ` set (latest assignments)" by blast+
  show ?thesis
  proof (cases rule: validate_cases [OF ne known])
    case 1
    then show ?thesis using ne by (simp add: latest_eq_Nil_iff)
  next
    case (2 anc)
    have "(\<exists>m. e = MishkanError PLAN m) \<or> (\<exists>m. e = MishkanError ROLE_CONFLICT m)"
      if "validate assignments = Inl e" for e
      using that unfolding 2(3) check_separation_def
      by (auto simp: Let_def ebind_Inl_iff dest: require_evaluated_error split: if_splits)
    then show ?thesis using ne
      by (cases "validate assignments") (auto simp: latest_eq_Nil_iff)
  qed
qed

end
