(* ===== verification/PlanModel.thy ===== *)
theory PlanModel
  imports Json
begin

section \<open>Planning, execution and review envelopes\<close>

text \<open>
  The immutable values of \<open>planning/models.py\<close>, \<open>repository/models.py\<close> and the parts of
  \<open>tools/models.py\<close> a plan refers to, with the validators pydantic runs when one is built.
  A validator is a predicate \<open>\<dots>_valid\<close> that holds where the constructor does not raise.
  Length bounds and identifier patterns of single fields are in the validators where the
  code relies on them; a digest of a value (SHA-256 of its canonical JSON) is a parameter
  wherever it is computed, and a field where it is only carried.
\<close>

subsection \<open>Execution contexts\<close>

datatype context_kind = RepositoryKind | ProspectiveWorkspaceKind

record repository_binding =
  rb_repository_id :: string
  rb_root :: string
  rb_base_revision :: string
  rb_remote_url :: "string option"
  rb_working_tree_dirty :: bool
  rb_working_tree_fingerprint :: string

record prospective_workspace_binding =
  pw_workspace_id :: string
  pw_root :: string
  pw_discovery_revision :: string
  pw_workspace_fingerprint :: string

datatype context_binding =
    RepositoryBinding repository_binding
  | ProspectiveWorkspaceBinding prospective_workspace_binding

fun binding_kind :: "context_binding \<Rightarrow> context_kind" where
  "binding_kind (RepositoryBinding b) = RepositoryKind"
| "binding_kind (ProspectiveWorkspaceBinding b) = ProspectiveWorkspaceKind"

fun binding_context_id :: "context_binding \<Rightarrow> string" where
  "binding_context_id (RepositoryBinding b) = rb_repository_id b"
| "binding_context_id (ProspectiveWorkspaceBinding b) = pw_workspace_id b"

fun binding_context_revision :: "context_binding \<Rightarrow> string" where
  "binding_context_revision (RepositoryBinding b) = rb_base_revision b"
| "binding_context_revision (ProspectiveWorkspaceBinding b) = pw_discovery_revision b"

record discovery_fact =
  fact_kind :: string
  fact_value :: string
  fact_citations :: "string list"

record discovery_snapshot =
  ds_binding :: context_binding
  ds_facts :: "discovery_fact list"
  ds_unknowns :: "string list"
  ds_fingerprint :: string

definition cited_paths :: "discovery_snapshot \<Rightarrow> string set" where
  "cited_paths d = set (concat (map fact_citations (ds_facts d)))"

record repository_establishment =
  re_establishment_id :: string
  re_run_id :: string
  re_prospective_workspace :: prospective_workspace_binding
  re_repository :: repository_binding
  re_evidence_references :: "string list"
  re_established_by :: string
  re_established_at :: instant

record plan_execution_context =
  pec_kind :: context_kind
  pec_context_id :: string
  pec_revision :: string
  pec_repository_id :: "string option"
  pec_repository_revision :: "string option"
  pec_prospective_workspace_id :: "string option"
  pec_discovery_revision :: "string option"

definition identity_matches_kind :: "plan_execution_context \<Rightarrow> bool" where
  "identity_matches_kind c =
     (if pec_kind c = RepositoryKind then
        pec_repository_id c = Some (pec_context_id c) \<and>
        pec_repository_revision c = Some (pec_revision c) \<and>
        pec_prospective_workspace_id c = None \<and>
        pec_discovery_revision c = None
      else
        pec_prospective_workspace_id c = Some (pec_context_id c) \<and>
        pec_discovery_revision c = Some (pec_revision c) \<and>
        pec_repository_id c = None \<and>
        pec_repository_revision c = None)"

fun from_binding :: "context_binding \<Rightarrow> plan_execution_context" where
  "from_binding (RepositoryBinding b) =
     \<lparr>pec_kind = RepositoryKind, pec_context_id = rb_repository_id b,
      pec_revision = rb_base_revision b,
      pec_repository_id = Some (rb_repository_id b),
      pec_repository_revision = Some (rb_base_revision b),
      pec_prospective_workspace_id = None, pec_discovery_revision = None\<rparr>"
| "from_binding (ProspectiveWorkspaceBinding b) =
     \<lparr>pec_kind = ProspectiveWorkspaceKind, pec_context_id = pw_workspace_id b,
      pec_revision = pw_discovery_revision b,
      pec_repository_id = None, pec_repository_revision = None,
      pec_prospective_workspace_id = Some (pw_workspace_id b),
      pec_discovery_revision = Some (pw_discovery_revision b)\<rparr>"

lemma from_binding_valid: "identity_matches_kind (from_binding b)"
  by (cases b) (auto simp: identity_matches_kind_def)

text \<open>A context is determined by its kind, identity and revision.\<close>

lemma context_determined:
  assumes "identity_matches_kind c" and "identity_matches_kind d"
    and "pec_kind c = pec_kind d" and "pec_context_id c = pec_context_id d"
    and "pec_revision c = pec_revision d"
  shows "c = (d :: plan_execution_context)"
  using assms by (cases c; cases d) (auto simp: identity_matches_kind_def split: if_splits)

subsection \<open>Tool contracts and bindings\<close>

datatype effect_class =
    READ | FILESYSTEM_WRITE | COMMAND | NETWORK | REPOSITORY_WRITE
  | REPOSITORY_REMOTE_WRITE | DEPLOYMENT | RELEASE | MIGRATION | REGISTRY_LIFECYCLE

record resource_request =
  rq_timeout_seconds :: int
  rq_memory_mb :: "int option"
  rq_network :: bool
  rq_concurrency :: int

record tool_contract =
  tc_tool_id :: string
  tc_version :: string
  tc_effect_class :: effect_class
  tc_source_id :: string
  tc_adapter :: string
  tc_input_schema :: json
  tc_target_scopes :: "string list"
  tc_target_arguments :: "(string \<times> string list) list"
  tc_credential_refs :: "string list"
  tc_credential_arguments :: "string list"
  tc_policy_arguments :: "string list"
  tc_resources :: resource_request
  tc_provenance_fingerprint :: string

record registry_snapshot =
  rs_tools :: "tool_contract list"
  rs_fingerprint :: string

definition registry_require :: "registry_snapshot \<Rightarrow> string \<Rightarrow> tool_contract result" where
  "registry_require s tool_id =
     (case filter (\<lambda>t. tc_tool_id t = tool_id) (rs_tools s) of
        [t] \<Rightarrow> Inr t
      | _ \<Rightarrow> Inl (ValueError ''registry snapshot does not contain exactly one''))"

lemma registry_require_Inr:
  "registry_require s tool_id = Inr t \<Longrightarrow> t \<in> set (rs_tools s) \<and> tc_tool_id t = tool_id"
proof -
  assume "registry_require s tool_id = Inr t"
  then have "filter (\<lambda>t. tc_tool_id t = tool_id) (rs_tools s) = [t]"
    by (auto simp: registry_require_def split: list.splits)
  then have "t \<in> set (filter (\<lambda>t. tc_tool_id t = tool_id) (rs_tools s))" by simp
  then show ?thesis by simp
qed

record tool_binding =
  tb_task_id :: string
  tb_role :: string
  tb_tool_id :: string
  tb_tool_version :: string
  tb_contract_fingerprint :: string
  tb_registry_fingerprint :: string
  tb_allowed_targets :: "string list"
  tb_allowed_call_fingerprints :: "string list"

definition bind_tool ::
  "registry_snapshot \<Rightarrow> string \<Rightarrow> string \<Rightarrow> string \<Rightarrow> string list \<Rightarrow> string list
   \<Rightarrow> tool_binding result" where
  "bind_tool snapshot task_id role tool_id allowed_targets allowed_call_fingerprints =
     ebind (registry_require snapshot tool_id) (\<lambda>tool.
       if distinct allowed_targets \<and> distinct allowed_call_fingerprints
       then Inr \<lparr>tb_task_id = task_id, tb_role = role, tb_tool_id = tc_tool_id tool,
                 tb_tool_version = tc_version tool,
                 tb_contract_fingerprint = tc_provenance_fingerprint tool,
                 tb_registry_fingerprint = rs_fingerprint snapshot,
                 tb_allowed_targets = allowed_targets,
                 tb_allowed_call_fingerprints = allowed_call_fingerprints\<rparr>
       else Inl (ValueError ''tool binding values must be unique''))"

subsection \<open>Plans\<close>

record planned_tool_call =
  pc_call_id :: string
  pc_tool_id :: string
  pc_arguments :: "(string \<times> json) list"

record plan_task =
  pt_task_id :: string
  pt_title :: string
  pt_purpose :: string
  pt_assigned_role :: string
  pt_tools :: "string list"
  pt_tool_calls :: "planned_tool_call list"
  pt_evidence_paths :: "string list"
  pt_depends_on :: "string list"

definition plan_task_valid :: "plan_task \<Rightarrow> bool" where
  "plan_task_valid t \<longleftrightarrow>
     pt_tools t \<noteq> [] \<and> pt_evidence_paths t \<noteq> [] \<and>
     distinct (pt_tools t) \<and> distinct (pt_evidence_paths t) \<and> distinct (pt_depends_on t) \<and>
     distinct (map pc_call_id (pt_tool_calls t)) \<and>
     pc_tool_id ` set (pt_tool_calls t) \<subseteq> set (pt_tools t)"

datatype plan_schema = Plan_1_0 | Plan_1_1 | Plan_1_2

record plan_candidate =
  plan_schema_version :: plan_schema
  plan_objective :: string
  plan_outcome_id :: string
  plan_repository_revision :: "string option"
  plan_execution_ctx :: "plan_execution_context option"
  plan_tasks :: "plan_task list"

text \<open>The dependency graph of a plan: its tasks and what each declares.\<close>

definition plan_graph :: "'a plan_candidate_scheme \<Rightarrow> (string \<times> string list) list" where
  "plan_graph p = map (\<lambda>t. (pt_task_id t, pt_depends_on t)) (plan_tasks p)"

definition calls_complete :: "plan_task \<Rightarrow> bool" where
  "calls_complete t \<longleftrightarrow>
     pt_tool_calls t \<noteq> [] \<and> pc_tool_id ` set (pt_tool_calls t) = set (pt_tools t)"

definition versioned_call_contract_is_complete :: "'a plan_candidate_scheme \<Rightarrow> bool" where
  "versioned_call_contract_is_complete p \<longleftrightarrow>
     (plan_schema_version p \<in> {Plan_1_1, Plan_1_2} \<longrightarrow> list_all calls_complete (plan_tasks p)) \<and>
     (plan_schema_version p \<in> {Plan_1_0, Plan_1_1} \<longrightarrow> plan_repository_revision p \<noteq> None) \<and>
     (plan_schema_version p = Plan_1_2 \<longrightarrow>
        (case plan_execution_ctx p of
           None \<Rightarrow> False
         | Some c \<Rightarrow> plan_repository_revision p = pec_repository_revision c))"

definition plan_candidate_valid :: "'a plan_candidate_scheme \<Rightarrow> bool" where
  "plan_candidate_valid p \<longleftrightarrow>
     1 \<le> length (plan_tasks p) \<and> length (plan_tasks p) \<le> 12 \<and>
     list_all plan_task_valid (plan_tasks p) \<and>
     (case plan_execution_ctx p of None \<Rightarrow> True | Some c \<Rightarrow> identity_matches_kind c) \<and>
     versioned_call_contract_is_complete p"

text \<open>The template and the organization a plan is bound to.\<close>

record template_reference =
  tr_template_id :: string
  tr_version :: string
  tr_source :: string
  tr_provenance :: "string list"
  tr_catalogue_id :: string
  tr_catalogue_revision :: string
  tr_definition_fingerprint :: string

record plan_organization_binding =
  pob_organization_id :: string
  pob_organization_version :: string
  pob_organization_fingerprint :: string
  pob_mission_id :: "string option"
  pob_mission_origin_id :: "string option"
  pob_mission_template_reference :: "template_reference option"

definition mission_lineage_is_complete :: "plan_organization_binding \<Rightarrow> bool" where
  "mission_lineage_is_complete b \<longleftrightarrow>
     (pob_mission_id b = None \<longrightarrow>
        pob_mission_origin_id b = None \<and> pob_mission_template_reference b = None) \<and>
     (pob_mission_template_reference b \<noteq> None \<longrightarrow> pob_mission_origin_id b \<noteq> None)"

text \<open>
  What an accepted plan carries of \<open>policy/models.py\<close>: the approvals it was given and the decisions of
  the policy.
\<close>

datatype decision = ALLOW | REQUIRE_APPROVAL | DENY

record policy_scope =
  ps_identities :: "string list"
  ps_objective_classes :: "string list"
  ps_repositories :: "string list"
  ps_outcomes :: "string list"
  ps_roles :: "string list"
  ps_capabilities :: "string list"
  ps_effect_classes :: "string list"
  ps_effects :: "string list"
  ps_paths :: "string list"
  ps_executables :: "string list"
  ps_arguments :: "string list"
  ps_network_destinations :: "string list"
  ps_remotes :: "string list"
  ps_branches :: "string list"
  ps_environments :: "string list"
  ps_credentials :: "string list"
  ps_external_resources :: "string list"
  ps_isolation_profiles :: "string list"
  ps_max_timeout_seconds :: "int option"
  ps_max_memory_mb :: "int option"
  ps_allow_network :: "bool option"
  ps_max_concurrency :: "int option"

record approval_evidence =
  ae_id :: string
  ae_request_fingerprint :: string
  ae_plan_fingerprint :: string
  ae_policy_fingerprint :: string
  ae_approved_by :: string
  ae_expires_at :: "instant option"
  ae_revoked_at :: "instant option"

record authorization_decision =
  ad_request_fingerprint :: string
  ad_plan_fingerprint :: string
  ad_policy_fingerprint :: string
  ad_policy_revisions :: "string list"
  ad_decision :: decision
  ad_matched_rule_ids :: "string list"
  ad_matched_scope :: "policy_scope option"
  ad_decided_by :: string
  ad_approval_id :: "string option"

record accepted_plan = plan_candidate +
  ap_fingerprint :: string
  ap_discovery_fingerprint :: string
  ap_registry :: "registry_snapshot option"
  ap_tool_bindings :: "tool_binding list"
  ap_policy_fingerprint :: "string option"
  ap_approvals :: "approval_evidence list"
  ap_authorizations :: "authorization_decision list"
  ap_organization_binding :: "plan_organization_binding option"

definition binding_for ::
  "accepted_plan \<Rightarrow> string \<Rightarrow> string \<Rightarrow> string \<Rightarrow> tool_binding result" where
  "binding_for p task_id role tool_id =
     (case filter (\<lambda>b. tb_task_id b = task_id \<and> tb_role b = role \<and> tb_tool_id b = tool_id)
             (ap_tool_bindings p) of
        [b] \<Rightarrow> Inr b
      | _ \<Rightarrow> Inl (ValueError ''accepted plan does not contain one exact tool binding''))"

subsection \<open>Results and reviews\<close>

datatype result_schema = Result_1_0 | Result_1_1

record initialization_result =
  ir_schema_version :: result_schema
  ir_repository_revision :: "string option"
  ir_execution_context :: "plan_execution_context option"
  ir_task_id :: string
  ir_summary :: string
  ir_cited_paths :: "string list"
  ir_findings :: "string list"

definition result_context_is_explicit :: "initialization_result \<Rightarrow> bool" where
  "result_context_is_explicit r \<longleftrightarrow>
     (ir_schema_version r = Result_1_0 \<longrightarrow> ir_repository_revision r \<noteq> None) \<and>
     (ir_schema_version r = Result_1_1 \<longrightarrow>
        (case ir_execution_context r of
           None \<Rightarrow> False
         | Some c \<Rightarrow> ir_repository_revision r = pec_repository_revision c))"

datatype review_schema = Review_1_0 | Review_1_1

datatype verdict = Accepted | Rejected

record review_decision =
  rd_schema_version :: review_schema
  rd_task_id :: string
  rd_producer_identity :: "string option"
  rd_evaluator_identity :: "string option"
  rd_verdict :: verdict
  rd_summary :: string
  rd_checked_citations :: "string list"
  rd_issues :: "string list"

definition evaluation_lineage_is_explicit_and_separated :: "review_decision \<Rightarrow> bool" where
  "evaluation_lineage_is_explicit_and_separated r =
     (if rd_schema_version r = Review_1_0
      then rd_producer_identity r = None \<and> rd_evaluator_identity r = None
      else rd_producer_identity r \<noteq> None \<and> rd_evaluator_identity r \<noteq> None \<and>
           rd_producer_identity r \<noteq> rd_evaluator_identity r)"

subsection \<open>The deterministic checks around a task result\<close>

text \<open>\<open>planning/result_validator.py\<close>: the violations in the order the code appends them.\<close>

definition result_violations ::
  "initialization_result \<Rightarrow> plan_task \<Rightarrow> discovery_snapshot \<Rightarrow> string list" where
  "result_violations res task discovery =
     (let expected = from_binding (ds_binding discovery)
      in (if ir_schema_version res = Result_1_1
          then (if ir_execution_context res \<noteq> Some expected
                then [''execution context differs from the accepted plan''] else [])
          else if pec_kind expected \<noteq> RepositoryKind
                  \<or> ir_repository_revision res \<noteq> pec_repository_revision expected
          then [''repository revision differs from the accepted plan''] else []) @
         (if ir_task_id res \<noteq> pt_task_id task
          then [''task identifier differs from the accepted task''] else []) @
         (if \<not> set (ir_cited_paths res) \<subseteq> set (pt_evidence_paths task)
          then [''result cites unbound paths''] else []))"

definition verify_result ::
  "initialization_result \<Rightarrow> plan_task \<Rightarrow> discovery_snapshot \<Rightarrow> initialization_result result" where
  "verify_result res task discovery =
     (if result_violations res task discovery \<noteq> []
      then Inl (MishkanError OUTPUT_CONTRACT ''CrewAI task result was refused'')
      else Inr res)"

definition review_violations :: "review_decision \<Rightarrow> initialization_result \<Rightarrow> string list" where
  "review_violations review res =
     (if rd_task_id review \<noteq> ir_task_id res
      then [''review task identifier differs from the result''] else []) @
     (if \<not> set (ir_cited_paths res) \<subseteq> set (rd_checked_citations review)
      then [''review did not check result citations''] else []) @
     (if rd_verdict review \<noteq> Accepted
      then [''independent review rejected the result''] else [])"

definition accept_review ::
  "review_decision \<Rightarrow> initialization_result \<Rightarrow> review_decision result" where
  "accept_review review res =
     (if review_violations review res \<noteq> []
      then Inl (MishkanError OUTPUT_CONTRACT
        ''independent CrewAI review did not authorize result acceptance'')
      else Inr review)"

text \<open>
  A result and its review pass the deterministic checks exactly when the result is
  for this task and this execution context, cites only evidence paths of the task, and the
  review is an acceptance of the same task that checked every citation of the result.
\<close>

theorem accepted_evidence_iff:
  "verify_result res task discovery = Inr res' \<and> accept_review review res' = Inr review' \<longleftrightarrow>
     res' = res \<and> review' = review \<and>
     ir_task_id res = pt_task_id task \<and> rd_task_id review = ir_task_id res \<and>
     rd_verdict review = Accepted \<and>
     set (ir_cited_paths res) \<subseteq> set (pt_evidence_paths task) \<inter> set (rd_checked_citations review) \<and>
     (if ir_schema_version res = Result_1_1
      then ir_execution_context res = Some (from_binding (ds_binding discovery))
      else binding_kind (ds_binding discovery) = RepositoryKind \<and>
           ir_repository_revision res = Some (binding_context_revision (ds_binding discovery)))"
  by (cases "ds_binding discovery")
     (auto simp: verify_result_def accept_review_def result_violations_def
       review_violations_def Let_def split: if_splits)

end
