(* ===== verification/RunStore.thy ===== *)
theory RunStore
  imports PlanModel
begin

section \<open>The durable run repository\<close>

text \<open>
  \<open>LocalRunRepository\<close> of \<open>persistence/sqlite.py\<close>: the tables it owns and the operations
  on runs, plans, tasks, results and cancellation. One record holds the database; an
  operation is one transaction and returns either the failure (the transaction is rolled
  back, the store is unchanged) or the new store with the returned value. A JSON payload
  column holds the value it serialises; surrogate row identifiers that nothing reads are
  left out; the clock is the argument \<open>now\<close>.
\<close>

datatype run_state =
    RPlanning | RAwaitingApproval | RQueued | RRunning | RBlocked | RCancelling
  | RCompleted | RFailed | RCancelled

datatype task_state =
    TPending | TEligible | TLeased | TExecuting | TValidating | TAccepted | TRejected
  | TFailed | TCancelled

datatype call_status = CCompleted | CFailed | CCancelled | CUncertain | CRefused

datatype effect_settlement = SAbsent | SCompleted | SUncertain

text \<open>The state column of a planned call: \<open>reserved\<close>, \<open>dispatching\<close> or a \<open>CallStatus\<close>.\<close>

datatype call_state = Reserved | Dispatching | Terminal call_status

record tool_result_envelope =
  te_call_id :: string
  te_run_id :: string
  te_task_attempt_id :: string
  te_tool_id :: string
  te_tool_version :: string
  te_status :: call_status
  te_started_at :: instant
  te_completed_at :: instant
  te_output :: "json option"
  te_actual_targets :: "json option"
  te_external_references :: "string list"
  te_adapter_evidence :: json
  te_retryable :: bool
  te_error_code :: "string option"
  te_reason :: string

subsection \<open>Rows\<close>

record run_row =
  rn_id :: string
  rn_resume_key :: string
  rn_context_kind :: context_kind
  rn_context_id :: string
  rn_context_revision :: string
  rn_repository_id :: "string option"
  rn_repository_revision :: "string option"
  rn_discovery_fingerprint :: string
  rn_objective :: string
  rn_outcome_id :: string
  rn_status :: run_state
  rn_revision :: int
  rn_cancellation_requested :: bool
  rn_created_at :: instant
  rn_updated_at :: instant

record repository_establishment_row =
  ra_establishment_id :: string
  ra_run_id :: string
  ra_payload :: repository_establishment

record plan_row =
  pl_run_id :: string
  pl_fingerprint :: string
  pl_payload :: accepted_plan
  pl_accepted_at :: instant

record task_row =
  tk_run_id :: string
  tk_task_key :: string
  tk_position :: nat
  tk_status :: task_state
  tk_revision :: int
  tk_attempt_count :: int
  tk_contract :: plan_task
  tk_updated_at :: instant

record planned_tool_call_row =
  cl_id :: string
  cl_run_id :: string
  cl_task_attempt_id :: string
  cl_planned_call_id :: string
  cl_request_fingerprint :: string
  cl_tool_id :: string
  cl_tool_version :: string
  cl_effect_class :: effect_class
  cl_declared_effects :: "string list"
  cl_state :: call_state
  cl_effect_settlement :: "effect_settlement option"
  cl_result_payload :: "tool_result_envelope option"

record result_row =
  rr_id :: string
  rr_run_id :: string
  rr_task_key :: string
  rr_payload :: initialization_result
  rr_accepted_at :: instant

record acceptance_row =
  ac_run_id :: string
  ac_task_key :: string
  ac_result_id :: string
  ac_review :: review_decision
  ac_accepted_at :: instant

record review_rejection_row =
  rj_run_id :: string
  rj_task_key :: string
  rj_task_attempt :: int
  rj_review_sequence :: int
  rj_result :: initialization_result
  rj_review :: review_decision
  rj_recorded_at :: instant

text \<open>
  The outbox in cursor order. Generated row identifiers are \<open>None\<close>; the detail payload is
  represented by the task it names.
\<close>

record outbox_row =
  ev_id :: "string option"
  ev_aggregate_id :: string
  ev_task_id :: "string option"
  ev_identity_id :: "string option"
  ev_security_relevant :: bool
  ev_event_type :: string
  ev_source :: string

text \<open>
  Sessions of the other stateful tools, which recovery consults: the request payload is
  \<open>None\<close> when the stored text is not JSON.
\<close>

record execution_session_row =
  xs_id :: string
  xs_run_id :: string
  xs_state :: string
  xs_request :: "json option"
  xs_effect_settlement :: "effect_settlement option"

record browser_session_row =
  bs_id :: string
  bs_run_id :: string
  bs_state :: string

record mcp_call_row =
  mc_id :: string
  mc_state :: string
  mc_request :: "json option"

record store =
  runs :: "run_row list"
  establishments :: "repository_establishment_row list"
  plans :: "plan_row list"
  tasks :: "task_row list"
  planned_calls :: "planned_tool_call_row list"
  results :: "result_row list"
  acceptances :: "acceptance_row list"
  rejections :: "review_rejection_row list"
  outbox :: "outbox_row list"
  execution_sessions :: "execution_session_row list"
  browser_sessions :: "browser_session_row list"
  mcp_calls :: "mcp_call_row list"

definition empty_store :: store where
  "empty_store = \<lparr>runs = [], establishments = [], plans = [], tasks = [], planned_calls = [],
     results = [], acceptances = [], rejections = [], outbox = [], execution_sessions = [],
     browser_sessions = [], mcp_calls = []\<rparr>"

abbreviation task_key :: "task_row \<Rightarrow> string \<times> string" where
  "task_key t \<equiv> (tk_run_id t, tk_task_key t)"

abbreviation result_key :: "result_row \<Rightarrow> string \<times> string" where
  "result_key r \<equiv> (rr_run_id r, rr_task_key r)"

abbreviation acceptance_key :: "acceptance_row \<Rightarrow> string \<times> string" where
  "acceptance_key a \<equiv> (ac_run_id a, ac_task_key a)"

abbreviation rejection_key :: "review_rejection_row \<Rightarrow> string \<times> string \<times> int \<times> int" where
  "rejection_key r \<equiv> (rj_run_id r, rj_task_key r, rj_task_attempt r, rj_review_sequence r)"

abbreviation call_key :: "planned_tool_call_row \<Rightarrow> string \<times> string \<times> string" where
  "call_key c \<equiv> (cl_run_id c, cl_task_attempt_id c, cl_planned_call_id c)"

subsection \<open>The environment of the repository\<close>

text \<open>
  What the class is given or calls outside this code: the optional content inspector (which
  contents it returns unchanged), SHA-256, the repository inspector's observation of a
  directory, and path resolution.
\<close>

datatype content =
    TextContent string
  | PlanContent accepted_plan
  | ResultContent initialization_result
  | ReviewContent review_decision
  | EstablishmentContent repository_establishment
  | EnvelopeContent tool_result_envelope

record environment =
  env_inspector :: "(content \<Rightarrow> bool) option"
  env_sha256 :: "string \<Rightarrow> string"
  env_observe :: "string \<Rightarrow> repository_binding result"
  env_resolve :: "string \<Rightarrow> string"

definition require_safe_content :: "environment \<Rightarrow> content list \<Rightarrow> unit result" where
  "require_safe_content env payloads =
     (case env_inspector env of
        None \<Rightarrow> Inr ()
      | Some unchanged \<Rightarrow>
          if list_all unchanged payloads then Inr ()
          else Inl (MishkanError SECRET_CONTENT
            ''run evidence requires redaction and cannot be persisted faithfully''))"

subsection \<open>Helpers of the class\<close>

definition add_event :: "string \<Rightarrow> string \<Rightarrow> string option \<Rightarrow> store \<Rightarrow> store" where
  "add_event aggregate_id event_type task_id s =
     s\<lparr>outbox := outbox s @
       [\<lparr>ev_id = None, ev_aggregate_id = aggregate_id,
         ev_task_id = (case task_id of None \<Rightarrow> None | Some t \<Rightarrow> if t = [] then None else Some t),
         ev_identity_id = None,
         ev_security_relevant = (take 9 event_type = ''security.''),
         ev_event_type = event_type, ev_source = ''mishkan.runtime''\<rparr>]\<rparr>"

definition get_run :: "store \<Rightarrow> string \<Rightarrow> run_row option" where
  "get_run s run_id = tbl_get rn_id run_id (runs s)"

definition require_run :: "store \<Rightarrow> string \<Rightarrow> run_row result" where
  "require_run s run_id =
     from_option (MishkanError RUN_INTERRUPTED ''run state does not exist'') (get_run s run_id)"

definition get_task :: "store \<Rightarrow> string \<Rightarrow> string \<Rightarrow> task_row option" where
  "get_task s run_id task_id = tbl_get task_key (run_id, task_id) (tasks s)"

definition require_task :: "store \<Rightarrow> string \<Rightarrow> string \<Rightarrow> task_row result" where
  "require_task s run_id task_id =
     from_option (MishkanError RUN_INTERRUPTED ''run task does not exist'')
       (get_task s run_id task_id)"

definition upd_run :: "string \<Rightarrow> (run_row \<Rightarrow> run_row) \<Rightarrow> store \<Rightarrow> store" where
  "upd_run run_id f s = s\<lparr>runs := tbl_upd rn_id run_id f (runs s)\<rparr>"

definition upd_task :: "string \<Rightarrow> string \<Rightarrow> (task_row \<Rightarrow> task_row) \<Rightarrow> store \<Rightarrow> store" where
  "upd_task run_id task_id f s = s\<lparr>tasks := tbl_upd task_key (run_id, task_id) f (tasks s)\<rparr>"

text \<open>The assignments \<open>status\<close>, \<open>revision += 1\<close>, \<open>updated_at\<close> every transition repeats.\<close>

definition set_run_status :: "run_state \<Rightarrow> instant \<Rightarrow> run_row \<Rightarrow> run_row" where
  "set_run_status st now r =
     r\<lparr>rn_status := st, rn_revision := rn_revision r + 1, rn_updated_at := now\<rparr>"

definition set_task_status :: "task_state \<Rightarrow> instant \<Rightarrow> task_row \<Rightarrow> task_row" where
  "set_task_status st now t =
     t\<lparr>tk_status := st, tk_revision := tk_revision t + 1, tk_updated_at := now\<rparr>"

definition run_tasks :: "store \<Rightarrow> string \<Rightarrow> task_row list" where
  "run_tasks s run_id = filter (\<lambda>t. tk_run_id t = run_id) (tasks s)"

definition dependencies_accepted :: "store \<Rightarrow> string \<Rightarrow> task_row \<Rightarrow> bool" where
  "dependencies_accepted s run_id task =
     (let depends_on = pt_depends_on (tk_contract task)
      in if depends_on = [] then True
         else let accepted = map tk_task_key
                (filter (\<lambda>t. tk_run_id t = run_id \<and> tk_task_key t \<in> set depends_on \<and>
                   tk_status t = TAccepted) (tasks s))
              in set accepted = set depends_on)"

definition release_dependents :: "string \<Rightarrow> instant \<Rightarrow> store \<Rightarrow> store" where
  "release_dependents run_id now s =
     s\<lparr>tasks := tbl_map_where
         (\<lambda>t. tk_run_id t = run_id \<and> tk_status t = TPending \<and> dependencies_accepted s run_id t)
         (set_task_status TEligible now) (tasks s)\<rparr>"

definition run_execution_context :: "run_row \<Rightarrow> plan_execution_context result" where
  "run_execution_context run =
     (let prospective = (rn_context_kind run = ProspectiveWorkspaceKind);
          c = \<lparr>pec_kind = rn_context_kind run, pec_context_id = rn_context_id run,
               pec_revision = rn_context_revision run,
               pec_repository_id = rn_repository_id run,
               pec_repository_revision = rn_repository_revision run,
               pec_prospective_workspace_id =
                 (if prospective then Some (rn_context_id run) else None),
               pec_discovery_revision =
                 (if prospective then Some (rn_context_revision run) else None)\<rparr>
      in if identity_matches_kind c then Inr c
         else Inl (ValueError ''execution context identity does not match its kind''))"

definition result_matches_run_context :: "initialization_result \<Rightarrow> run_row \<Rightarrow> bool" where
  "result_matches_run_context res run =
     (if ir_schema_version res = Result_1_1
      then (case ir_execution_context res of
              None \<Rightarrow> False
            | Some c \<Rightarrow>
                pec_kind c = rn_context_kind run \<and> pec_context_id c = rn_context_id run \<and>
                pec_revision c = rn_context_revision run \<and>
                pec_repository_id c = rn_repository_id run \<and>
                pec_repository_revision c = rn_repository_revision run)
      else rn_context_kind run = RepositoryKind \<and>
           ir_repository_revision res = rn_repository_revision run)"

fun kind_name :: "context_kind \<Rightarrow> string" where
  "kind_name RepositoryKind = ''repository''"
| "kind_name ProspectiveWorkspaceKind = ''prospective_workspace''"

text \<open>The text that is hashed into the resume key: six fields joined by a NUL character.\<close>

fun nul_join :: "string list \<Rightarrow> string" where
  "nul_join [] = []"
| "nul_join [x] = x"
| "nul_join (x # y # rest) = x @ CHR 0x00 # nul_join (y # rest)"

definition resume_source :: "discovery_snapshot \<Rightarrow> string \<Rightarrow> string \<Rightarrow> string" where
  "resume_source discovery objective outcome_id =
     nul_join [kind_name (binding_kind (ds_binding discovery)),
       binding_context_id (ds_binding discovery),
       binding_context_revision (ds_binding discovery),
       ds_fingerprint discovery, objective, outcome_id]"

definition resume_key ::
  "environment \<Rightarrow> discovery_snapshot \<Rightarrow> string \<Rightarrow> string \<Rightarrow> string" where
  "resume_key env discovery objective outcome_id =
     env_sha256 env (resume_source discovery objective outcome_id)"

subsection \<open>Snapshots\<close>

record run_snapshot =
  sn_run_id :: string
  sn_resumed :: bool
  sn_plan :: "accepted_plan option"
  sn_results :: "initialization_result list"
  sn_reviews :: "review_decision list"
  sn_execution_context :: plan_execution_context
  sn_repository_establishment :: "repository_establishment option"

definition completed_task_ids :: "run_snapshot \<Rightarrow> string set" where
  "completed_task_ids sn = ir_task_id ` set (sn_results sn)"

definition get_plan :: "store \<Rightarrow> string \<Rightarrow> plan_row option" where
  "get_plan s run_id = tbl_get pl_run_id run_id (plans s)"

definition take_snapshot :: "store \<Rightarrow> run_row \<Rightarrow> bool \<Rightarrow> run_snapshot result" where
  "take_snapshot s run resumed =
     ebind (run_execution_context run) (\<lambda>context. Inr
       \<lparr>sn_run_id = rn_id run, sn_resumed = resumed,
        sn_plan = map_option pl_payload (get_plan s (rn_id run)),
        sn_results = map rr_payload (sort_key rr_accepted_at
          (filter (\<lambda>r. rr_run_id r = rn_id run) (results s))),
        sn_reviews = map ac_review (sort_key ac_accepted_at
          (filter (\<lambda>a. ac_run_id a = rn_id run) (acceptances s))),
        sn_execution_context = context,
        sn_repository_establishment =
          map_option ra_payload (tbl_get ra_run_id (rn_id run) (establishments s))\<rparr>)"

text \<open>Return the store with the snapshot of a run as it is at the end of the transaction.\<close>

definition with_snapshot :: "store \<Rightarrow> string \<Rightarrow> bool \<Rightarrow> (store \<times> run_snapshot) result" where
  "with_snapshot s run_id resumed =
     ebind (require_run s run_id) (\<lambda>run.
       ebind (take_snapshot s run resumed) (\<lambda>sn. Inr (s, sn)))"


subsection \<open>Runs and plans\<close>

definition start_or_resume ::
  "environment \<Rightarrow> instant \<Rightarrow> string \<Rightarrow> discovery_snapshot \<Rightarrow> string \<Rightarrow> string \<Rightarrow> store
   \<Rightarrow> (store \<times> run_snapshot) result" where
  "start_or_resume env now new_id discovery objective outcome_id s =
     ebind (require_safe_content env [TextContent objective]) (\<lambda>_.
       let key = resume_key env discovery objective outcome_id
       in case tbl_get rn_resume_key key (runs s) of
            Some run \<Rightarrow> with_snapshot s (rn_id run) True
          | None \<Rightarrow>
              let context = from_binding (ds_binding discovery);
                  run = \<lparr>rn_id = new_id, rn_resume_key = key,
                         rn_context_kind = pec_kind context,
                         rn_context_id = pec_context_id context,
                         rn_context_revision = pec_revision context,
                         rn_repository_id = pec_repository_id context,
                         rn_repository_revision = pec_repository_revision context,
                         rn_discovery_fingerprint = ds_fingerprint discovery,
                         rn_objective = objective, rn_outcome_id = outcome_id,
                         rn_status = RPlanning, rn_revision = 0,
                         rn_cancellation_requested = False,
                         rn_created_at = now, rn_updated_at = now\<rparr>
              in ebind (tbl_insert rn_id run (runs s)) (\<lambda>rows.
                   with_snapshot
                     (add_event new_id ''run.started'' None (s\<lparr>runs := rows\<rparr>)) new_id False))"

definition snapshot :: "string \<Rightarrow> store \<Rightarrow> run_snapshot result" where
  "snapshot run_id s = ebind (require_run s run_id) (\<lambda>run. take_snapshot s run True)"

definition task_count :: "string \<Rightarrow> store \<Rightarrow> nat result" where
  "task_count run_id s =
     ebind (require_run s run_id) (\<lambda>_.
       case get_plan s run_id of
         None \<Rightarrow> Inr 0
       | Some p \<Rightarrow> Inr (length (plan_tasks (pl_payload p))))"

text \<open>The task rows of an accepted plan, in plan order.\<close>

fun task_rows_from :: "string \<Rightarrow> instant \<Rightarrow> nat \<Rightarrow> plan_task list \<Rightarrow> task_row list" where
  "task_rows_from run_id now position [] = []"
| "task_rows_from run_id now position (t # ts) =
     \<lparr>tk_run_id = run_id, tk_task_key = pt_task_id t, tk_position = position,
      tk_status = (if pt_depends_on t = [] then TEligible else TPending),
      tk_revision = 0, tk_attempt_count = 0, tk_contract = t, tk_updated_at = now\<rparr>
     # task_rows_from run_id now (Suc position) ts"

fun insert_task_rows :: "task_row list \<Rightarrow> task_row list \<Rightarrow> task_row list result" where
  "insert_task_rows rows [] = Inr rows"
| "insert_task_rows rows (t # ts) =
     ebind (tbl_insert task_key t rows) (\<lambda>rows'. insert_task_rows rows' ts)"

text \<open>The selection and binding events, with the set of tools already selected.\<close>

fun binding_events ::
  "registry_snapshot \<Rightarrow> string \<Rightarrow> (string \<times> string) list \<Rightarrow> tool_binding list \<Rightarrow> store
   \<Rightarrow> store result" where
  "binding_events registry run_id selected [] s = Inr s"
| "binding_events registry run_id selected (b # bs) s =
     ebind (registry_require registry (tb_tool_id b)) (\<lambda>contract.
       let selection = (tc_tool_id contract, tc_version contract);
           s1 = (if selection \<in> set selected then s
                 else add_event run_id ''tool.selected'' None s);
           s2 = add_event run_id ''tool.bound'' (Some (tb_task_id b)) s1
       in binding_events registry run_id
            (if selection \<in> set selected then selected else selection # selected) bs s2)"

definition check_plan_context :: "run_row \<Rightarrow> accepted_plan \<Rightarrow> unit result" where
  "check_plan_context run p =
     ebind (run_execution_context run) (\<lambda>expected.
       if plan_schema_version p = Plan_1_2 \<and> plan_execution_ctx p \<noteq> Some expected
       then Inl (MishkanError REVISION_MISMATCH
         ''accepted plan execution context differs from its run'')
       else if plan_schema_version p \<noteq> Plan_1_2 \<and> rn_context_kind run \<noteq> RepositoryKind
       then Inl (MishkanError PLAN
         ''prospective workspace run requires an explicit plan 1.2 context'')
       else Inr ())"

definition install_plan ::
  "instant \<Rightarrow> string \<Rightarrow> accepted_plan \<Rightarrow> store \<Rightarrow> store result" where
  "install_plan now run_id p s =
     (let row = \<lparr>pl_run_id = run_id, pl_fingerprint = ap_fingerprint p, pl_payload = p,
                 pl_accepted_at = now\<rparr>
      in ebind (tbl_insert pl_run_id row (plans s)) (\<lambda>plan_rows.
         ebind (insert_task_rows (tasks s) (task_rows_from run_id now 0 (plan_tasks p)))
           (\<lambda>task_rows.
             let s1 = upd_run run_id (set_run_status RQueued now)
                        (s\<lparr>plans := plan_rows, tasks := task_rows\<rparr>);
                 s2 = add_event run_id ''plan.accepted'' None s1
             in ebind (case ap_registry p of
                         None \<Rightarrow> Inr s2
                       | Some registry \<Rightarrow>
                           binding_events registry run_id [] (ap_tool_bindings p) s2)
                  (\<lambda>s3. Inr (add_event run_id ''run.queued'' None s3)))))"

definition accept_plan ::
  "environment \<Rightarrow> instant \<Rightarrow> string \<Rightarrow> accepted_plan \<Rightarrow> store \<Rightarrow> (store \<times> run_snapshot) result"
  where
  "accept_plan env now run_id p s =
     ebind (require_safe_content env [PlanContent p]) (\<lambda>_.
     ebind (require_run s run_id) (\<lambda>run.
     ebind (check_plan_context run p) (\<lambda>_.
       case get_plan s run_id of
         Some existing \<Rightarrow>
           if pl_payload existing \<noteq> p
           then Inl (MishkanError DUPLICATE_RESULT ''run already has a different accepted plan'')
           else with_snapshot s run_id True
       | None \<Rightarrow>
           ebind (install_plan now run_id p s) (\<lambda>s'. with_snapshot s' run_id False))))"

definition establishment_in_context :: "run_row \<Rightarrow> repository_establishment \<Rightarrow> bool" where
  "establishment_in_context run e \<longleftrightarrow>
     rn_context_kind run = ProspectiveWorkspaceKind \<and>
     rn_context_id run = pw_workspace_id (re_prospective_workspace e) \<and>
     rn_context_revision run = pw_discovery_revision (re_prospective_workspace e)"

definition record_repository_establishment ::
  "environment \<Rightarrow> repository_establishment \<Rightarrow> store \<Rightarrow> (store \<times> run_snapshot) result" where
  "record_repository_establishment env e s =
     ebind (env_observe env (rb_root (re_repository e))) (\<lambda>observed.
     if observed \<noteq> re_repository e
     then Inl (MishkanError REVISION_MISMATCH
       ''repository establishment does not match the currently observed repository'')
     else if env_resolve env (pw_root (re_prospective_workspace e)) \<noteq>
             env_resolve env (rb_root observed)
     then Inl (MishkanError PROJECT
       ''repository was not established at the prospective workspace root'')
     else ebind (require_safe_content env [EstablishmentContent e]) (\<lambda>_.
       ebind (require_run s (re_run_id e)) (\<lambda>run.
         if \<not> establishment_in_context run e
         then Inl (MishkanError REVISION_MISMATCH
           ''repository establishment does not descend from the run context'')
         else case tbl_get ra_run_id (rn_id run) (establishments s) of
                Some existing \<Rightarrow>
                  if ra_payload existing \<noteq> e
                  then Inl (MishkanError DUPLICATE_RESULT
                    ''prospective run already established a different repository'')
                  else with_snapshot s (rn_id run) True
              | None \<Rightarrow>
                  let row = \<lparr>ra_establishment_id = re_establishment_id e, ra_run_id = rn_id run,
                             ra_payload = e\<rparr>
                  in ebind (tbl_insert ra_establishment_id row (establishments s)) (\<lambda>rows.
                       with_snapshot
                         (add_event (rn_id run) ''run.repository_established'' None
                           (s\<lparr>establishments := rows\<rparr>)) (rn_id run) False))))"

subsection \<open>Lifecycle of a run and its tasks\<close>

definition mark_awaiting_approval :: "instant \<Rightarrow> string \<Rightarrow> store \<Rightarrow> (store \<times> unit) result" where
  "mark_awaiting_approval now run_id s =
     ebind (require_run s run_id) (\<lambda>run.
       if rn_status run = RAwaitingApproval then Inr (s, ())
       else if rn_status run \<noteq> RPlanning
       then Inl (MishkanError REVISION_MISMATCH ''run is not planning'')
       else Inr (add_event run_id ''run.awaiting_approval'' None
                  (upd_run run_id (set_run_status RAwaitingApproval now) s), ()))"

definition start_run :: "instant \<Rightarrow> string \<Rightarrow> store \<Rightarrow> (store \<times> unit) result" where
  "start_run now run_id s =
     ebind (require_run s run_id) (\<lambda>run.
       if rn_status run = RRunning \<or> rn_status run = RCompleted then Inr (s, ())
       else if rn_status run \<noteq> RQueued
       then Inl (MishkanError REVISION_MISMATCH ''run is not queued'')
       else Inr (add_event run_id ''run.running'' None
                  (upd_run run_id (set_run_status RRunning now) s), ()))"

definition claim_task :: "instant \<Rightarrow> string \<Rightarrow> string \<Rightarrow> store \<Rightarrow> (store \<times> int) result" where
  "claim_task now run_id task_id s =
     ebind (require_run s run_id) (\<lambda>run.
     ebind (require_task s run_id task_id) (\<lambda>task.
       if rn_cancellation_requested run \<or> rn_status run \<noteq> RRunning
       then Inl (MishkanError RUN_INTERRUPTED ''run is not accepting task claims'')
       else if tk_status task \<noteq> TEligible
       then Inl (MishkanError REVISION_MISMATCH ''task is not eligible for execution'')
       else Inr (add_event run_id ''task.claimed'' (Some task_id)
                  (upd_task run_id task_id
                    (\<lambda>t. set_task_status TExecuting now
                       (t\<lparr>tk_attempt_count := tk_attempt_count t + 1\<rparr>)) s),
                 tk_attempt_count task + 1)))"

definition mark_validating :: "instant \<Rightarrow> string \<Rightarrow> string \<Rightarrow> store \<Rightarrow> (store \<times> unit) result" where
  "mark_validating now run_id task_id s =
     ebind (require_task s run_id task_id) (\<lambda>task.
       if tk_status task \<noteq> TExecuting
       then Inl (MishkanError REVISION_MISMATCH ''task is not executing'')
       else Inr (add_event run_id ''task.validating'' (Some task_id)
                  (upd_task run_id task_id (set_task_status TValidating now) s), ()))"

definition mark_task_failure ::
  "instant \<Rightarrow> string \<Rightarrow> string \<Rightarrow> bool \<Rightarrow> store \<Rightarrow> (store \<times> unit) result" where
  "mark_task_failure now run_id task_id rejected s =
     ebind (require_run s run_id) (\<lambda>run.
     ebind (require_task s run_id task_id) (\<lambda>task.
       if tk_status task \<noteq> TExecuting \<and> tk_status task \<noteq> TValidating
       then Inl (MishkanError REVISION_MISMATCH ''task is not active'')
       else let st = (if rejected then TRejected else TFailed);
                s1 = add_event run_id (if rejected then ''task.rejected'' else ''task.failed'')
                       (Some task_id) (upd_task run_id task_id (set_task_status st now) s)
            in Inr (add_event run_id ''run.failed'' (Some task_id)
                      (upd_run run_id (set_run_status RFailed now) s1), ())))"

definition review_rejection :: "review_rejection_row \<Rightarrow> review_rejection_row result" where
  "review_rejection row =
     (if rd_verdict (rj_review row) \<noteq> Rejected
      then Inl (ValueError ''task review rejection requires a rejected review'')
      else if ir_task_id (rj_result row) \<noteq> rj_task_key row \<or>
              rd_task_id (rj_review row) \<noteq> rj_task_key row
      then Inl (ValueError ''task review rejection evidence identifies different tasks'')
      else if rj_task_attempt row < 1 \<or> rj_review_sequence row < 1
      then Inl (ValueError ''greater_than_equal'')
      else Inr row)"

definition record_rejected_review ::
  "environment \<Rightarrow> instant \<Rightarrow> string \<Rightarrow> initialization_result \<Rightarrow> review_decision \<Rightarrow> int \<Rightarrow> store
   \<Rightarrow> (store \<times> review_rejection_row) result" where
  "record_rejected_review env now run_id res review review_sequence s =
     ebind (require_safe_content env [ResultContent res, ReviewContent review]) (\<lambda>_.
     ebind (require_run s run_id) (\<lambda>run.
     ebind (require_task s run_id (ir_task_id res)) (\<lambda>task.
       if tk_status task \<noteq> TValidating
       then Inl (MishkanError REVISION_MISMATCH ''task is not validating'')
       else if rd_task_id review \<noteq> ir_task_id res \<or> rd_verdict review \<noteq> Rejected
       then Inl (MishkanError OUTPUT_CONTRACT
         ''rejection evidence does not match the validating task'')
       else if \<not> result_matches_run_context res run
       then Inl (MishkanError REVISION_MISMATCH
         ''rejected result revision differs from the run base revision'')
       else
         let key = (run_id, ir_task_id res, tk_attempt_count task, review_sequence)
         in case tbl_get rejection_key key (rejections s) of
              Some existing \<Rightarrow>
                if rj_result existing \<noteq> res \<or> rj_review existing \<noteq> review
                then Inl (MishkanError DUPLICATE_RESULT
                  ''review rejection identity was reused for different evidence'')
                else ebind (review_rejection existing) (\<lambda>r. Inr (s, r))
            | None \<Rightarrow>
                let row = \<lparr>rj_run_id = run_id, rj_task_key = ir_task_id res,
                           rj_task_attempt = tk_attempt_count task,
                           rj_review_sequence = review_sequence, rj_result = res,
                           rj_review = review, rj_recorded_at = now\<rparr>
                in ebind (tbl_insert rejection_key row (rejections s)) (\<lambda>rows.
                   ebind (review_rejection row) (\<lambda>r.
                     Inr (add_event run_id ''task.review_rejected'' (Some (ir_task_id res))
                            (s\<lparr>rejections := rows\<rparr>), r))))))"

definition rejected_reviews :: "string \<Rightarrow> store \<Rightarrow> review_rejection_row list result" where
  "rejected_reviews run_id s =
     traverse review_rejection
       (sort_key rj_task_attempt (sort_key rj_review_sequence (sort_key rj_recorded_at
         (filter (\<lambda>r. rj_run_id r = run_id) (rejections s)))))"

subsection \<open>Cancellation\<close>

definition waiting :: "task_row \<Rightarrow> bool" where
  "waiting t \<longleftrightarrow> tk_status t = TPending \<or> tk_status t = TEligible"

definition active :: "task_row \<Rightarrow> bool" where
  "active t \<longleftrightarrow> tk_status t = TLeased \<or> tk_status t = TExecuting \<or> tk_status t = TValidating"

definition add_task_events :: "string \<Rightarrow> string \<Rightarrow> task_row list \<Rightarrow> store \<Rightarrow> store" where
  "add_task_events run_id event_type ts s =
     fold (\<lambda>t. add_event run_id event_type (Some (tk_task_key t))) ts s"

definition cancel_run :: "instant \<Rightarrow> string \<Rightarrow> store \<Rightarrow> (store \<times> run_snapshot) result" where
  "cancel_run now run_id s =
     ebind (require_run s run_id) (\<lambda>run.
       if rn_status run = RCompleted \<or> rn_status run = RCancelled
       then with_snapshot s run_id True
       else
         let affected = run_tasks s run_id;
             s1 = s\<lparr>tasks := tbl_map_where (\<lambda>t. tk_run_id t = run_id \<and> waiting t)
                      (set_task_status TCancelled now) (tasks s)\<rparr>;
             s2 = add_task_events run_id ''task.cancellation_requested''
                    (filter active affected) s1;
             final = (if list_ex active affected then RCancelling else RCancelled);
             s3 = upd_run run_id
                    (\<lambda>r. set_run_status final now (r\<lparr>rn_cancellation_requested := True\<rparr>)) s2
         in with_snapshot (add_event run_id ''run.cancellation_requested'' None s3) run_id False)"

definition requested :: "string \<Rightarrow> store \<Rightarrow> bool" where
  "requested run_id s =
     (case get_run s run_id of None \<Rightarrow> False | Some run \<Rightarrow> rn_cancellation_requested run)"

definition settle_cancellation ::
  "instant \<Rightarrow> string \<Rightarrow> store \<Rightarrow> (store \<times> run_snapshot) result" where
  "settle_cancellation now run_id s =
     ebind (require_run s run_id) (\<lambda>run.
       if \<not> rn_cancellation_requested run
       then Inl (MishkanError REVISION_MISMATCH ''run cancellation has not been requested'')
       else if rn_status run = RCancelled then with_snapshot s run_id True
       else
         let open_task = (\<lambda>t. waiting t \<or> active t);
             s1 = s\<lparr>tasks := tbl_map_where (\<lambda>t. tk_run_id t = run_id \<and> open_task t)
                      (set_task_status TCancelled now) (tasks s)\<rparr>;
             s2 = add_task_events run_id ''task.cancelled''
                    (filter open_task (run_tasks s run_id)) s1;
             s3 = upd_run run_id (set_run_status RCancelled now) s2
         in with_snapshot (add_event run_id ''run.cancelled'' None s3) run_id False)"

subsection \<open>Acceptance of results\<close>

definition replay_acceptance ::
  "string \<Rightarrow> initialization_result \<Rightarrow> review_decision \<Rightarrow> result_row \<Rightarrow> store
   \<Rightarrow> (store \<times> run_snapshot) result" where
  "replay_acceptance run_id res review existing s =
     (if rr_payload existing \<noteq> res
      then Inl (MishkanError DUPLICATE_RESULT ''task already has a different accepted result'')
      else case tbl_get acceptance_key (run_id, ir_task_id res) (acceptances s) of
             None \<Rightarrow> Inl (MishkanError DUPLICATE_RESULT
               ''task already has different review evidence'')
           | Some acceptance \<Rightarrow>
               if ac_review acceptance \<noteq> review
               then Inl (MishkanError DUPLICATE_RESULT
                 ''task already has different review evidence'')
               else with_snapshot
                 (add_event run_id ''task.completion_duplicated'' (Some (ir_task_id res)) s)
                 run_id True)"

definition check_acceptance ::
  "run_row \<Rightarrow> task_row \<Rightarrow> review_decision \<Rightarrow> store \<Rightarrow> unit result" where
  "check_acceptance run task review s =
     (if rn_cancellation_requested run
      then Inl (MishkanError RUN_INTERRUPTED ''run cancellation prevents new result acceptance'')
      else if \<not> dependencies_accepted s (rn_id run) task
      then Inl (MishkanError RUN_INTERRUPTED ''task dependencies are not durably accepted'')
      else if tk_status task \<noteq> TValidating
      then Inl (MishkanError REVISION_MISMATCH
        ''task result can be accepted only from validating state'')
      else if rd_verdict review \<noteq> Accepted
      then Inl (MishkanError OUTPUT_CONTRACT
        ''rejected review cannot become a durable task acceptance'')
      else if rd_schema_version review = Review_1_1 \<and>
              rd_producer_identity review \<noteq> Some (pt_assigned_role (tk_contract task))
      then Inl (MishkanError ROLE_CONFLICT
        ''review producer identity differs from the accepted task owner'')
      else Inr ())"

definition install_acceptance ::
  "instant \<Rightarrow> string \<Rightarrow> string \<Rightarrow> initialization_result \<Rightarrow> review_decision \<Rightarrow> store
   \<Rightarrow> store result" where
  "install_acceptance now new_id run_id res review s =
     (let tid = ir_task_id res;
          row = \<lparr>rr_id = new_id, rr_run_id = run_id, rr_task_key = tid, rr_payload = res,
                 rr_accepted_at = now\<rparr>;
          acc = \<lparr>ac_run_id = run_id, ac_task_key = tid, ac_result_id = new_id,
                 ac_review = review, ac_accepted_at = now\<rparr>
      in ebind (tbl_insert rr_id row (results s)) (\<lambda>result_rows.
         ebind (tbl_insert acceptance_key acc (acceptances s)) (\<lambda>acceptance_rows.
           let s1 = upd_task run_id tid (set_task_status TAccepted now)
                      (s\<lparr>results := result_rows, acceptances := acceptance_rows\<rparr>);
               s2 = release_dependents run_id now
                      (add_event run_id ''task.result_accepted'' (Some tid) s1)
           in Inr (if list_all (\<lambda>t. tk_status t = TAccepted) (run_tasks s2 run_id)
                   then add_event run_id ''run.completed'' None
                          (upd_run run_id (set_run_status RCompleted now) s2)
                   else s2))))"

definition accept_result ::
  "environment \<Rightarrow> instant \<Rightarrow> string \<Rightarrow> string \<Rightarrow> initialization_result \<Rightarrow> review_decision
   \<Rightarrow> store \<Rightarrow> (store \<times> run_snapshot) result" where
  "accept_result env now new_id run_id res review s =
     ebind (require_safe_content env [ResultContent res, ReviewContent review]) (\<lambda>_.
     ebind (require_run s run_id) (\<lambda>run.
     ebind (from_option (MishkanError OUTPUT_CONTRACT ''result does not identify an accepted task'')
              (get_task s run_id (ir_task_id res))) (\<lambda>task.
       if \<not> result_matches_run_context res run
       then Inl (MishkanError REVISION_MISMATCH
         ''result revision differs from the run base revision'')
       else case tbl_get result_key (run_id, ir_task_id res) (results s) of
              Some existing \<Rightarrow> replay_acceptance run_id res review existing s
            | None \<Rightarrow>
                ebind (check_acceptance run task review s) (\<lambda>_.
                ebind (install_acceptance now new_id run_id res review s) (\<lambda>s'.
                  with_snapshot s' run_id False)))))"

subsection \<open>Reads and audit records\<close>

definition task_states :: "string \<Rightarrow> store \<Rightarrow> (string \<times> task_state) list" where
  "task_states run_id s =
     map (\<lambda>t. (tk_task_key t, tk_status t)) (sort_key tk_position (run_tasks s run_id))"

definition task_contract :: "string \<Rightarrow> string \<Rightarrow> store \<Rightarrow> plan_task result" where
  "task_contract run_id task_id s =
     ebind (require_task s run_id task_id) (\<lambda>t. Inr (tk_contract t))"

definition run_state_of :: "string \<Rightarrow> store \<Rightarrow> run_state result" where
  "run_state_of run_id s = ebind (require_run s run_id) (\<lambda>r. Inr (rn_status r))"

definition outbox_events :: "store \<Rightarrow> (nat \<times> outbox_row) list" where
  "outbox_events s = enumerate 1 (outbox s)"

record audit_event =
  au_id :: string
  au_event_type :: string
  au_run_id :: string
  au_task_attempt_id :: string
  au_identity :: string
  au_decision :: string

definition ascii_lower :: "char \<Rightarrow> char" where
  "ascii_lower c = (let n = of_char c :: nat in if 65 \<le> n \<and> n \<le> 90 then char_of (n + 32) else c)"

definition record_audit ::
  "environment \<Rightarrow> (audit_event \<Rightarrow> content) \<Rightarrow> audit_event \<Rightarrow> store \<Rightarrow> (store \<times> unit) result" where
  "record_audit env dump audit s =
     ebind (require_safe_content env [dump audit]) (\<lambda>_.
     ebind (require_run s (au_run_id audit)) (\<lambda>_.
       let row = \<lparr>ev_id = Some (au_id audit), ev_aggregate_id = au_run_id audit,
                  ev_task_id = Some (au_task_attempt_id audit),
                  ev_identity_id = Some (au_identity audit),
                  ev_security_relevant =
                    (map ascii_lower (au_decision audit) \<notin>
                       {''allow'', ''allowed'', ''completed''}),
                  ev_event_type = au_event_type audit, ev_source = ''mishkan.gateway''\<rparr>
       in ebind (tbl_insert ev_id row (outbox s)) (\<lambda>rows. Inr (s\<lparr>outbox := rows\<rparr>, ()))))"

end
