(* ===== verification/CallJournal.thy ===== *)
theory CallJournal
  imports RunStore
begin

section \<open>The planned-call journal and recovery\<close>

text \<open>
  The planned-call half of \<open>LocalRunRepository\<close>: the journal that makes tool effects
  restart-safe (reserve, mark dispatching, complete), the effects a run leaves unresolved,
  and the recovery of an interrupted run.
\<close>

fun call_status_name :: "call_status \<Rightarrow> string" where
  "call_status_name CCompleted = ''completed''"
| "call_status_name CFailed = ''failed''"
| "call_status_name CCancelled = ''cancelled''"
| "call_status_name CUncertain = ''uncertain''"
| "call_status_name CRefused = ''refused''"

fun call_state_name :: "call_state \<Rightarrow> string" where
  "call_state_name Reserved = ''reserved''"
| "call_state_name Dispatching = ''dispatching''"
| "call_state_name (Terminal st) = call_status_name st"

definition get_call :: "store \<Rightarrow> string \<Rightarrow> planned_tool_call_row option" where
  "get_call s invocation_id = tbl_get cl_id invocation_id (planned_calls s)"

definition upd_call ::
  "string \<Rightarrow> (planned_tool_call_row \<Rightarrow> planned_tool_call_row) \<Rightarrow> store \<Rightarrow> store" where
  "upd_call invocation_id f s =
     s\<lparr>planned_calls := tbl_upd cl_id invocation_id f (planned_calls s)\<rparr>"

record call_identity =
  ci_invocation_id :: string
  ci_run_id :: string
  ci_task_attempt_id :: string
  ci_planned_call_id :: string
  ci_request_fingerprint :: string
  ci_tool_id :: string
  ci_tool_version :: string
  ci_effect_class :: effect_class
  ci_declared_effects :: "string list"

definition new_call :: "call_identity \<Rightarrow> planned_tool_call_row" where
  "new_call i = \<lparr>cl_id = ci_invocation_id i, cl_run_id = ci_run_id i,
     cl_task_attempt_id = ci_task_attempt_id i, cl_planned_call_id = ci_planned_call_id i,
     cl_request_fingerprint = ci_request_fingerprint i, cl_tool_id = ci_tool_id i,
     cl_tool_version = ci_tool_version i, cl_effect_class = ci_effect_class i,
     cl_declared_effects = ci_declared_effects i, cl_state = Reserved,
     cl_effect_settlement = None, cl_result_payload = None\<rparr>"

definition same_identity :: "planned_tool_call_row \<Rightarrow> call_identity \<Rightarrow> bool" where
  "same_identity row i \<longleftrightarrow>
     (cl_id row, cl_request_fingerprint row, cl_tool_id row, cl_tool_version row,
      cl_effect_class row) =
     (ci_invocation_id i, ci_request_fingerprint i, ci_tool_id i, ci_tool_version i,
      ci_effect_class i) \<and>
     cl_declared_effects row = ci_declared_effects i"

definition unreconciled :: "planned_tool_call_row \<Rightarrow> bool" where
  "unreconciled row \<longleftrightarrow>
     cl_state row = Dispatching \<or> cl_state row = Terminal CUncertain \<or>
     cl_effect_settlement row = Some SUncertain"

definition insert_call :: "planned_tool_call_row \<Rightarrow> store \<Rightarrow> store result" where
  "insert_call row s =
     ebind (tbl_insert cl_id row (planned_calls s)) (\<lambda>rows. Inr (s\<lparr>planned_calls := rows\<rparr>))"

definition reset_call :: "planned_tool_call_row \<Rightarrow> planned_tool_call_row" where
  "reset_call row =
     row\<lparr>cl_state := Reserved, cl_effect_settlement := None, cl_result_payload := None\<rparr>"

definition reserve_existing ::
  "planned_tool_call_row \<Rightarrow> call_identity \<Rightarrow> store
   \<Rightarrow> (store \<times> tool_result_envelope option) result" where
  "reserve_existing row i s =
     (if \<not> same_identity row i
      then Inl (MishkanError DUPLICATE_RESULT
        ''planned call identity was reused for different content'')
      else if cl_state row = Terminal CCompleted \<and> cl_result_payload row \<noteq> None
      then Inr (s, cl_result_payload row)
      else if unreconciled row
      then Inl (MishkanError RUN_INTERRUPTED ''planned call has an unreconciled effect'')
      else if cl_state row \<in> {Terminal CFailed, Terminal CCancelled, Terminal CRefused}
      then (if cl_effect_settlement row \<noteq> Some SAbsent
            then Inl (MishkanError RUN_INTERRUPTED
              ''planned call cannot be retried without absent-effect proof'')
            else Inr (add_event (ci_run_id i) ''tool.call_retry_reserved'' None
                        (upd_call (cl_id row) reset_call s), None))
      else Inr (s, None))"

definition reserve_planned_call ::
  "call_identity \<Rightarrow> store \<Rightarrow> (store \<times> tool_result_envelope option) result" where
  "reserve_planned_call i s =
     ebind (require_run s (ci_run_id i)) (\<lambda>_.
       case tbl_get call_key (ci_run_id i, ci_task_attempt_id i, ci_planned_call_id i)
              (planned_calls s) of
         None \<Rightarrow> ebind (insert_call (new_call i) s) (\<lambda>s'. Inr (s', None))
       | Some row \<Rightarrow> reserve_existing row i s)"

definition mark_planned_call_dispatching ::
  "string \<Rightarrow> string \<Rightarrow> store \<Rightarrow> (store \<times> unit) result" where
  "mark_planned_call_dispatching invocation_id request_fingerprint s =
     (let differs = Inl (MishkanError DUPLICATE_RESULT ''planned call reservation differs'')
      in case get_call s invocation_id of
           None \<Rightarrow> differs
         | Some row \<Rightarrow>
             if cl_request_fingerprint row \<noteq> request_fingerprint then differs
             else if cl_state row \<noteq> Reserved
             then Inl (MishkanError REVISION_MISMATCH
               ''planned call is not reserved for dispatch'')
             else Inr (upd_call invocation_id (\<lambda>c. c\<lparr>cl_state := Dispatching\<rparr>) s, ()))"

definition complete_planned_call ::
  "environment \<Rightarrow> string \<Rightarrow> string \<Rightarrow> tool_result_envelope \<Rightarrow> effect_settlement \<Rightarrow> store
   \<Rightarrow> (store \<times> tool_result_envelope) result" where
  "complete_planned_call env invocation_id request_fingerprint res settlement s =
     ebind (require_safe_content env [EnvelopeContent res]) (\<lambda>_.
       let differs = Inl (MishkanError DUPLICATE_RESULT ''planned call reservation differs'')
       in case get_call s invocation_id of
            None \<Rightarrow> differs
          | Some row \<Rightarrow>
              if cl_request_fingerprint row \<noteq> request_fingerprint then differs
              else case cl_result_payload row of
                     Some existing \<Rightarrow>
                       if existing \<noteq> res \<or> cl_effect_settlement row \<noteq> Some settlement
                       then Inl (MishkanError DUPLICATE_RESULT
                         ''planned call completion differs from its durable result'')
                       else Inr (s, existing)
                   | None \<Rightarrow>
                       if cl_state row \<noteq> Reserved \<and> cl_state row \<noteq> Dispatching
                       then Inl (MishkanError REVISION_MISMATCH
                         ''planned call cannot accept a completion from its current state'')
                       else Inr (upd_call invocation_id
                              (\<lambda>c. c\<lparr>cl_state := Terminal (te_status res),
                                     cl_effect_settlement := Some settlement,
                                     cl_result_payload := Some res\<rparr>) s, res))"

subsection \<open>Unresolved effects\<close>

definition planned_blocker :: "planned_tool_call_row \<Rightarrow> string" where
  "planned_blocker row =
     ''planned-call:'' @ cl_task_attempt_id row @ '':'' @ cl_planned_call_id row @ '':'' @
     call_state_name (cl_state row)"

definition unresolved_planned :: "store \<Rightarrow> string \<Rightarrow> string list" where
  "unresolved_planned s run_id =
     map planned_blocker
       (sort_key cl_task_attempt_id (sort_key cl_planned_call_id
         (filter (\<lambda>c. cl_run_id c = run_id \<and> unreconciled c) (planned_calls s))))"

definition unresolved_planned_effects :: "string \<Rightarrow> store \<Rightarrow> string list result" where
  "unresolved_planned_effects run_id s =
     ebind (require_run s run_id) (\<lambda>_. Inr (unresolved_planned s run_id))"

text \<open>Python's truth value of a decoded JSON value.\<close>

fun json_truth :: "json \<Rightarrow> bool" where
  "json_truth JNull = False"
| "json_truth (JBool b) = b"
| "json_truth (JInt n) = (n \<noteq> 0)"
| "json_truth (JStr x) = (x \<noteq> [])"
| "json_truth (JList xs) = (xs \<noteq> [])"
| "json_truth (JObj kvs) = (kvs \<noteq> [])"

definition execution_blocker :: "execution_session_row \<Rightarrow> string option" where
  "execution_blocker x =
     (case xs_request x of
        Some (JObj kvs) \<Rightarrow>
          let declared = (case map_of kvs ''declared_effects'' of
                            None \<Rightarrow> JList [] | Some v \<Rightarrow> v);
              stateful_active = xs_state x \<in> {''starting'', ''running'', ''ready'', ''cancelling''}
                \<and> json_truth declared
          in if stateful_active \<or> xs_state x = ''uncertain'' \<or>
                xs_effect_settlement x = Some SUncertain
             then Some (''execution:'' @ xs_id x @ '':'' @ xs_state x) else None
      | _ \<Rightarrow> Some (''execution:'' @ xs_id x @ '':corrupt''))"

definition browser_blocker :: "browser_session_row \<Rightarrow> string option" where
  "browser_blocker b =
     (if bs_state b = ''uncertain'' then Some (''browser:'' @ bs_id b @ '':'' @ bs_state b) else None)"

definition mcp_blocker :: "string \<Rightarrow> mcp_call_row \<Rightarrow> string option" where
  "mcp_blocker run_id m =
     (case mc_request m of
        None \<Rightarrow> Some (''mcp:'' @ mc_id m @ '':corrupt'')
      | Some (JObj kvs) \<Rightarrow>
          if map_of kvs ''run_id'' = Some (JStr run_id) \<and>
             mc_state m \<in> {''dispatching'', ''running'', ''cancel_requested'', ''uncertain''}
          then Some (''mcp:'' @ mc_id m @ '':'' @ mc_state m) else None
      | Some _ \<Rightarrow> None)"

definition unresolved_durable :: "store \<Rightarrow> string \<Rightarrow> string list" where
  "unresolved_durable s run_id =
     dict_fromkeys
       (unresolved_planned s run_id @
        List.map_filter execution_blocker
          (filter (\<lambda>x. xs_run_id x = run_id) (execution_sessions s)) @
        List.map_filter browser_blocker
          (filter (\<lambda>b. bs_run_id b = run_id) (browser_sessions s)) @
        List.map_filter (mcp_blocker run_id) (mcp_calls s))"

subsection \<open>Recovery\<close>

definition retry_safe :: "string \<Rightarrow> planned_tool_call_row \<Rightarrow> bool" where
  "retry_safe run_id c \<longleftrightarrow>
     cl_run_id c = run_id \<and> cl_state c = Dispatching \<and> cl_declared_effects c = []"

definition reconcile_call :: "planned_tool_call_row \<Rightarrow> planned_tool_call_row" where
  "reconcile_call c = c\<lparr>cl_state := Terminal CFailed, cl_effect_settlement := Some SAbsent\<rparr>"

definition add_events :: "string \<Rightarrow> string \<Rightarrow> nat \<Rightarrow> store \<Rightarrow> store" where
  "add_events run_id event_type n s = ((add_event run_id event_type None) ^^ n) s"

text \<open>The first transaction: reconcile what had no effect, and block the run on the rest.\<close>

definition recover_effects :: "instant \<Rightarrow> string \<Rightarrow> store \<Rightarrow> (store \<times> string list) result" where
  "recover_effects now run_id s =
     ebind (require_run s run_id) (\<lambda>run.
       let safe = filter (retry_safe run_id) (planned_calls s);
           s1 = add_events run_id ''tool.call_retry_reconciled'' (length safe)
                  (s\<lparr>planned_calls :=
                       tbl_map_where (retry_safe run_id) reconcile_call (planned_calls s)\<rparr>);
           s2 = (if safe = [] then s1
                 else add_event run_id ''run.retry_safe_calls_reconciled'' None s1);
           unresolved = unresolved_durable s2 run_id;
           s3 = (if unresolved \<noteq> [] \<and> rn_status run \<noteq> RBlocked
                 then add_event run_id ''run.blocked'' None
                        (upd_run run_id (set_run_status RBlocked now) s2)
                 else s2)
       in Inr (s3, unresolved))"

definition interrupted :: "task_row \<Rightarrow> bool" where
  "interrupted t \<longleftrightarrow> tk_status t \<in> {TExecuting, TValidating, TRejected, TFailed}"

text \<open>The second transaction: resume the run and release its interrupted tasks.\<close>

definition recover_tasks :: "instant \<Rightarrow> string \<Rightarrow> store \<Rightarrow> (store \<times> string list) result" where
  "recover_tasks now run_id s =
     ebind (require_run s run_id) (\<lambda>run.
       if rn_cancellation_requested run then Inr (s, [])
       else
         let s1 = (if rn_status run = RBlocked \<or> rn_status run = RFailed
                   then add_event run_id ''run.running'' None
                          (upd_run run_id (set_run_status RRunning now) s)
                   else s);
             release = (\<lambda>t. tk_run_id t = run_id \<and> interrupted t \<and>
                          dependencies_accepted s1 run_id t);
             released = map tk_task_key (filter release (tasks s1));
             s2 = s1\<lparr>tasks := tbl_map_where release (set_task_status TEligible now) (tasks s1)\<rparr>;
             s3 = (if released = [] then s2
                   else add_event run_id ''run.interrupted_tasks_released'' None s2)
         in Inr (s3, released))"

text \<open>
  The whole method. The first transaction has committed when the method raises, so the
  store is returned beside the result.
\<close>

definition recover_interrupted :: "instant \<Rightarrow> string \<Rightarrow> store \<Rightarrow> store \<times> string list result" where
  "recover_interrupted now run_id s =
     (case recover_effects now run_id s of
        Inl e \<Rightarrow> (s, Inl e)
      | Inr (s1, unresolved) \<Rightarrow>
          if unresolved \<noteq> []
          then (s1, Inl (MishkanError RUN_INTERRUPTED
                 ''run contains unreconciled stateful effects''))
          else case recover_tasks now run_id s1 of
                 Inl e \<Rightarrow> (s1, Inl e)
               | Inr (s2, released) \<Rightarrow> (s2, Inr released))"

end
