(* ===== verification/RunInvariant.thy ===== *)
theory RunInvariant
  imports CallJournal
begin

section \<open>The invariant of the run repository\<close>

text \<open>
  \<open>run_wf\<close> says what every reachable store satisfies: keys are unique; a task has left
  \<open>pending\<close> only when all its dependencies are accepted, and is still pending only while one
  is not; results and acceptances are exactly those of the accepted tasks; the task rows of
  a run are the tasks of its accepted plan; a completed run has nothing left to accept. The
  operations are built from few updates, and the lemmas of this theory say which of them
  keep the invariant under which guard.
\<close>

definition accepted_keys :: "store \<Rightarrow> (string \<times> string) set" where
  "accepted_keys s = task_key ` {t \<in> set (tasks s). tk_status t = TAccepted}"

definition deps_in :: "(string \<times> string) set \<Rightarrow> task_row \<Rightarrow> bool" where
  "deps_in acc t \<longleftrightarrow> (\<forall>d \<in> set (pt_depends_on (tk_contract t)). (tk_run_id t, d) \<in> acc)"

definition cancelled_runs :: "store \<Rightarrow> string set" where
  "cancelled_runs s = rn_id ` {r \<in> set (runs s). rn_cancellation_requested r}"

definition task_ok :: "(string \<times> string) set \<Rightarrow> string set \<Rightarrow> task_row \<Rightarrow> bool" where
  "task_ok acc cancelled t \<longleftrightarrow>
     (tk_status t \<noteq> TPending \<and> tk_status t \<noteq> TCancelled \<longrightarrow> deps_in acc t) \<and>
     (tk_status t = TPending \<longrightarrow> \<not> deps_in acc t) \<and>
     (tk_status t = TCancelled \<longrightarrow> tk_run_id t \<in> cancelled) \<and>
     tk_task_key t = pt_task_id (tk_contract t)"

definition run_ok :: "store \<Rightarrow> run_row \<Rightarrow> bool" where
  "run_ok s r \<longleftrightarrow>
     (rn_status r = RCompleted \<longrightarrow>
        \<not> rn_cancellation_requested r \<and> rn_id r \<in> pl_run_id ` set (plans s) \<and>
        (\<forall>t \<in> set (tasks s). tk_run_id t = rn_id r \<longrightarrow> tk_status t = TAccepted)) \<and>
     (rn_status r = RCancelling \<or> rn_status r = RCancelled \<longrightarrow> rn_cancellation_requested r)"

definition keys_wf :: "store \<Rightarrow> bool" where
  "keys_wf s \<longleftrightarrow>
     tbl_wf rn_id (runs s) \<and> tbl_wf rn_resume_key (runs s) \<and> tbl_wf pl_run_id (plans s) \<and>
     tbl_wf task_key (tasks s) \<and> tbl_wf result_key (results s) \<and>
     tbl_wf acceptance_key (acceptances s)"

definition plans_wf :: "store \<Rightarrow> bool" where
  "plans_wf s \<longleftrightarrow>
     pl_run_id ` set (plans s) \<subseteq> rn_id ` set (runs s) \<and>
     tk_run_id ` set (tasks s) \<subseteq> pl_run_id ` set (plans s) \<and>
     (\<forall>p \<in> set (plans s).
        map tk_contract (run_tasks s (pl_run_id p)) = plan_tasks (pl_payload p))"

definition results_wf :: "store \<Rightarrow> bool" where
  "results_wf s \<longleftrightarrow>
     result_key ` set (results s) = accepted_keys s \<and>
     acceptance_key ` set (acceptances s) = accepted_keys s"

definition run_wf :: "store \<Rightarrow> bool" where
  "run_wf s \<longleftrightarrow>
     keys_wf s \<and> plans_wf s \<and> results_wf s \<and>
     (\<forall>t \<in> set (tasks s). task_ok (accepted_keys s) (cancelled_runs s) t) \<and>
     (\<forall>r \<in> set (runs s). run_ok s r)"

lemma run_wf_empty: "run_wf empty_store"
  by (simp add: run_wf_def keys_wf_def plans_wf_def results_wf_def accepted_keys_def
      empty_store_def)

lemma deps_in_mono: "deps_in acc t \<Longrightarrow> acc \<subseteq> acc' \<Longrightarrow> deps_in acc' t"
  by (auto simp: deps_in_def)

lemma dependencies_accepted_iff:
  "dependencies_accepted s (tk_run_id t) t \<longleftrightarrow> deps_in (accepted_keys s) t"
proof -
  have "set (map tk_task_key (filter (\<lambda>u. tk_run_id u = tk_run_id t \<and>
          tk_task_key u \<in> set (pt_depends_on (tk_contract t)) \<and> tk_status u = TAccepted) (tasks s))) =
        {d \<in> set (pt_depends_on (tk_contract t)). (tk_run_id t, d) \<in> accepted_keys s}"
    by (auto simp: accepted_keys_def image_iff)
  then show ?thesis
    by (auto simp: dependencies_accepted_def deps_in_def Let_def)
qed

subsection \<open>The invariant reads only the run tables\<close>

lemma run_wf_cong:
  assumes "runs s' = runs s" "plans s' = plans s" "tasks s' = tasks s" "results s' = results s"
    "acceptances s' = acceptances s"
  shows "run_wf s' = run_wf s"
  by (simp add: run_wf_def keys_wf_def plans_wf_def results_wf_def accepted_keys_def
      cancelled_runs_def run_ok_def run_tasks_def assms)

lemma add_event_tables [simp]:
  "runs (add_event a e t s) = runs s" "plans (add_event a e t s) = plans s"
  "tasks (add_event a e t s) = tasks s" "results (add_event a e t s) = results s"
  "acceptances (add_event a e t s) = acceptances s"
  "establishments (add_event a e t s) = establishments s"
  "planned_calls (add_event a e t s) = planned_calls s"
  "rejections (add_event a e t s) = rejections s"
  "execution_sessions (add_event a e t s) = execution_sessions s"
  "browser_sessions (add_event a e t s) = browser_sessions s"
  "mcp_calls (add_event a e t s) = mcp_calls s"
  by (simp_all add: add_event_def)

lemma run_wf_add_event [simp]: "run_wf (add_event a e t s) = run_wf s"
  by (rule run_wf_cong) simp_all

lemma run_tasks_add_event [simp]: "run_tasks (add_event a e t s) r = run_tasks s r"
  by (simp add: run_tasks_def)

lemma add_task_events_tables [simp]:
  "runs (add_task_events a e ts s) = runs s" "plans (add_task_events a e ts s) = plans s"
  "tasks (add_task_events a e ts s) = tasks s" "results (add_task_events a e ts s) = results s"
  "acceptances (add_task_events a e ts s) = acceptances s"
  "establishments (add_task_events a e ts s) = establishments s"
  "planned_calls (add_task_events a e ts s) = planned_calls s"
  "rejections (add_task_events a e ts s) = rejections s"
  by (induction ts arbitrary: s) (simp_all add: add_task_events_def)

lemma add_events_tables [simp]:
  "runs (add_events a e n s) = runs s" "plans (add_events a e n s) = plans s"
  "tasks (add_events a e n s) = tasks s" "results (add_events a e n s) = results s"
  "acceptances (add_events a e n s) = acceptances s"
  "establishments (add_events a e n s) = establishments s"
  "planned_calls (add_events a e n s) = planned_calls s"
  "rejections (add_events a e n s) = rejections s"
  "execution_sessions (add_events a e n s) = execution_sessions s"
  "browser_sessions (add_events a e n s) = browser_sessions s"
  "mcp_calls (add_events a e n s) = mcp_calls s"
  by (induction n) (simp_all add: add_events_def)

lemma with_snapshot_Inr: "with_snapshot s run_id b = Inr (s', sn) \<Longrightarrow> s' = s"
  by (auto simp: with_snapshot_def ebind_Inr_iff)

lemma require_run_Inr: "require_run s run_id = Inr r \<longleftrightarrow> get_run s run_id = Some r"
  by (simp add: require_run_def)

lemma require_task_Inr: "require_task s run_id k = Inr t \<longleftrightarrow> get_task s run_id k = Some t"
  by (simp add: require_task_def)

lemma get_run_SomeD: "get_run s run_id = Some r \<Longrightarrow> r \<in> set (runs s) \<and> rn_id r = run_id"
  by (auto simp: get_run_def dest: tbl_get_SomeD)

lemma get_task_SomeD:
  "get_task s run_id k = Some t \<Longrightarrow> t \<in> set (tasks s) \<and> tk_run_id t = run_id \<and> tk_task_key t = k"
  by (auto simp: get_task_def dest: tbl_get_SomeD)

lemma wf_runs_unique:
  "run_wf s \<Longrightarrow> r \<in> set (runs s) \<Longrightarrow> r' \<in> set (runs s) \<Longrightarrow> rn_id r = rn_id r' \<Longrightarrow> r = r'"
  by (auto simp: run_wf_def keys_wf_def distinct_map dest: inj_onD)

lemma wf_tasks_unique:
  "run_wf s \<Longrightarrow> t \<in> set (tasks s) \<Longrightarrow> t' \<in> set (tasks s) \<Longrightarrow> task_key t = task_key t' \<Longrightarrow> t = t'"
  unfolding run_wf_def keys_wf_def distinct_map by (blast dest: inj_onD)

subsection \<open>Updates that keep the invariant\<close>

text \<open>
  A move of tasks: rows that satisfy \<open>P\<close> are not accepted, and get a status that is neither
  accepted nor pending; a row that is not cancelled by the move has its dependencies accepted.
\<close>

lemma accepted_keys_map:
  assumes "tasks s' = map g (tasks s)" and "\<And>t. task_key (g t) = task_key t"
  shows "accepted_keys s' = task_key ` {t \<in> set (tasks s). tk_status (g t) = TAccepted}"
proof -
  have "{t \<in> g ` set (tasks s). tk_status t = TAccepted} =
      g ` {t \<in> set (tasks s). tk_status (g t) = TAccepted}" by blast
  then show ?thesis unfolding accepted_keys_def assms(1) set_map by (simp only: image_image assms(2))
qed

lemma accepted_keys_move:
  assumes "\<And>t. task_key (f t) = task_key t"
    and "\<And>t. t \<in> set (tasks s) \<Longrightarrow> P t \<Longrightarrow> tk_status t \<noteq> TAccepted \<and> tk_status (f t) \<noteq> TAccepted"
  shows "accepted_keys (s\<lparr>tasks := tbl_map_where P f (tasks s)\<rparr>) = accepted_keys s"
proof -
  have "{t \<in> set (tbl_map_where P f (tasks s)). tk_status t = TAccepted} =
      {t \<in> set (tasks s). tk_status t = TAccepted}"
    using assms(2) by (auto simp: tbl_map_where_def image_iff)
  then show ?thesis by (simp add: accepted_keys_def)
qed

lemma run_wf_move:
  assumes wf: "run_wf s"
    and key: "\<And>t. task_key (f t) = task_key t" and contract: "\<And>t. tk_contract (f t) = tk_contract t"
    and old: "\<And>t. t \<in> set (tasks s) \<Longrightarrow> P t \<Longrightarrow> tk_status t \<noteq> TAccepted"
    and new: "\<And>t. t \<in> set (tasks s) \<Longrightarrow> P t \<Longrightarrow>
      tk_status (f t) \<noteq> TAccepted \<and> tk_status (f t) \<noteq> TPending \<and>
      (if tk_status (f t) = TCancelled then tk_run_id t \<in> cancelled_runs s
       else deps_in (accepted_keys s) t)"
  shows "run_wf (s\<lparr>tasks := tbl_map_where P f (tasks s)\<rparr>)" (is "run_wf ?s")
proof -
  have acc: "accepted_keys ?s = accepted_keys s"
    using key old new by (intro accepted_keys_move) auto
  have canc: "cancelled_runs ?s = cancelled_runs s" by (simp add: cancelled_runs_def)
  have run_id: "tk_run_id (f t) = tk_run_id t" and tkey: "tk_task_key (f t) = tk_task_key t" for t
    using key [of t] by auto
  have keys: "map task_key (tasks ?s) = map task_key (tasks s)"
    using key by (simp add: tbl_map_where_key)
  have "map tk_contract (run_tasks ?s r) = map tk_contract (run_tasks s r)" for r
    unfolding run_tasks_def
    by (induction "tasks s") (auto simp: tbl_map_where_def filter_map comp_def run_id contract
        intro!: map_cong filter_cong)
  moreover have "tk_run_id ` set (tasks ?s) = tk_run_id ` set (tasks s)"
    using tbl_map_where_key [of tk_run_id f P "tasks s", OF run_id] by (simp flip: set_map)
  ultimately have plans: "plans_wf ?s"
    using wf by (simp add: run_wf_def plans_wf_def)
  have tasks: "task_ok (accepted_keys s) (cancelled_runs s) t" if "t \<in> set (tasks ?s)" for t
  proof -
    have "t \<in> set (tbl_map_where P f (tasks s))" using that by simp
    then show ?thesis
    proof (cases rule: in_tbl_map_whereE)
    case other
    then show ?thesis using wf by (simp add: run_wf_def)
  next
    case (changed t0)
    then have "tk_task_key t0 = pt_task_id (tk_contract t0)"
      using wf by (simp add: run_wf_def task_ok_def)
    then show ?thesis
      using changed new [of t0] by (auto simp: task_ok_def deps_in_def run_id tkey contract
          split: if_splits)
    qed
  qed
  have runs: "run_ok ?s r" if "r \<in> set (runs s)" for r
  proof -
    have r: "run_ok s r" using wf that by (simp add: run_wf_def)
    have "tk_status t = TAccepted"
      if c: "rn_status r = RCompleted" and t: "t \<in> set (tasks ?s)" "tk_run_id t = rn_id r" for t
    proof -
      have "t \<in> set (tbl_map_where P f (tasks s))" using t(1) by simp
      then show ?thesis
      proof (cases rule: in_tbl_map_whereE)
        case other
        then show ?thesis using r c t(2) by (simp add: run_ok_def)
      next
        case (changed t0)
        then have "tk_status t0 = TAccepted"
          using r c t(2) run_id by (auto simp: run_ok_def)
        then show ?thesis using old changed by blast
      qed
    qed
    then show ?thesis using r by (simp add: run_ok_def)
  qed
  show ?thesis
    using wf plans tasks runs acc canc keys
    by (simp add: run_wf_def keys_wf_def results_wf_def)
qed

text \<open>An update of one run: the cancellation request is never withdrawn.\<close>

lemma task_ok_cancelled_mono: "task_ok acc c t \<Longrightarrow> c \<subseteq> c' \<Longrightarrow> task_ok acc c' t"
  by (auto simp: task_ok_def)

lemma run_wf_upd_run:
  assumes wf: "run_wf s"
    and keys: "\<And>r. rn_id (f r) = rn_id r" "\<And>r. rn_resume_key (f r) = rn_resume_key r"
    and grows: "\<And>r. rn_cancellation_requested r \<Longrightarrow> rn_cancellation_requested (f r)"
    and ok: "\<And>r. r \<in> set (runs s) \<Longrightarrow> rn_id r = run_id \<Longrightarrow> run_ok s (f r)"
  shows "run_wf (upd_run run_id f s)"
proof -
  let ?s = "upd_run run_id f s"
  have same: "accepted_keys ?s = accepted_keys s" "tasks ?s = tasks s" "plans ?s = plans s"
    "results ?s = results s" "acceptances ?s = acceptances s"
    by (simp_all add: upd_run_def accepted_keys_def)
  have rows: "runs ?s = tbl_upd rn_id run_id f (runs s)" by (simp add: upd_run_def)
  have ids: "map rn_id (runs ?s) = map rn_id (runs s)"
    "map rn_resume_key (runs ?s) = map rn_resume_key (runs s)"
    unfolding rows using keys by (auto intro: tbl_upd_keys tbl_upd_other_key)
  have id_set: "rn_id ` set (runs ?s) = rn_id ` set (runs s)"
    using ids(1) by (metis set_map)
  have "cancelled_runs s \<subseteq> cancelled_runs ?s"
  proof
    fix x assume "x \<in> cancelled_runs s"
    then obtain r where r: "r \<in> set (runs s)" "rn_cancellation_requested r" "x = rn_id r"
      by (auto simp: cancelled_runs_def)
    let ?r = "if rn_id r = run_id then f r else r"
    have "?r \<in> set (runs ?s)" using r(1) by (auto simp: rows set_tbl_upd)
    moreover have "rn_cancellation_requested ?r" "x = rn_id ?r" using r grows keys(1) by auto
    ultimately show "x \<in> cancelled_runs ?s" unfolding cancelled_runs_def by blast
  qed
  then have tasks: "task_ok (accepted_keys s) (cancelled_runs ?s) t" if "t \<in> set (tasks s)" for t
    using wf that task_ok_cancelled_mono by (fastforce simp: run_wf_def)
  have "run_ok s r" if "r \<in> set (runs ?s)" for r
    using that wf ok unfolding rows by (auto elim!: in_tbl_updE simp: run_wf_def)
  then have runs: "run_ok ?s r" if "r \<in> set (runs ?s)" for r
    using that same by (simp add: run_ok_def)
  show ?thesis
    using wf ids id_set tasks runs same
    by (simp add: run_wf_def keys_wf_def results_wf_def plans_wf_def run_tasks_def)
qed

lemma set_run_status_simps [simp]:
  "rn_id (set_run_status st now r) = rn_id r"
  "rn_resume_key (set_run_status st now r) = rn_resume_key r"
  "rn_cancellation_requested (set_run_status st now r) = rn_cancellation_requested r"
  "rn_status (set_run_status st now r) = st"
  "rn_revision (set_run_status st now r) = rn_revision r + 1"
  by (simp_all add: set_run_status_def)

lemma set_task_status_simps [simp]:
  "tk_run_id (set_task_status st now t) = tk_run_id t"
  "tk_task_key (set_task_status st now t) = tk_task_key t"
  "tk_contract (set_task_status st now t) = tk_contract t"
  "tk_attempt_count (set_task_status st now t) = tk_attempt_count t"
  "tk_position (set_task_status st now t) = tk_position t"
  "tk_status (set_task_status st now t) = st"
  "tk_revision (set_task_status st now t) = tk_revision t + 1"
  by (simp_all add: set_task_status_def)

lemma run_wf_set_run_status:
  assumes "run_wf s" and "st \<notin> {RCompleted, RCancelling, RCancelled}"
  shows "run_wf (upd_run run_id (set_run_status st now) s)"
  using assms by (intro run_wf_upd_run) (auto simp: run_ok_def)

lemma upd_task_as_move:
  "upd_task run_id k f s = s\<lparr>tasks := tbl_map_where (\<lambda>t. task_key t = (run_id, k)) f (tasks s)\<rparr>"
  by (simp add: upd_task_def tbl_upd_def tbl_map_where_def)

lemma run_wf_upd_task:
  assumes wf: "run_wf s" and task: "get_task s run_id k = Some t"
    and old: "tk_status t \<notin> {TAccepted, TPending, TCancelled}"
    and st: "\<And>t. tk_status (f t) = st" "st \<notin> {TAccepted, TPending, TCancelled}"
    and keep: "\<And>t. task_key (f t) = task_key t" "\<And>t. tk_contract (f t) = tk_contract t"
  shows "run_wf (upd_task run_id k f s)"
proof -
  have t: "t \<in> set (tasks s)" "task_key t = (run_id, k)" using get_task_SomeD [OF task] by auto
  have only: "t' = t" if "t' \<in> set (tasks s)" "task_key t' = (run_id, k)" for t'
    using wf_tasks_unique [OF wf that(1) t(1)] that(2) t(2) by simp
  have "deps_in (accepted_keys s) t" using wf t(1) old by (simp add: run_wf_def task_ok_def)
  then show ?thesis
    unfolding upd_task_as_move using wf keep only old st
    by (intro run_wf_move) (auto split: if_splits)
qed

text \<open>A new run, and a new plan with its tasks.\<close>

lemma run_wf_new_run:
  assumes wf: "run_wf s" and fresh: "rn_id r \<notin> rn_id ` set (runs s)"
    "rn_resume_key r \<notin> rn_resume_key ` set (runs s)"
    and st: "rn_status r = RPlanning" "\<not> rn_cancellation_requested r"
  shows "run_wf (s\<lparr>runs := runs s @ [r]\<rparr>)" (is "run_wf ?s")
proof -
  have "accepted_keys ?s = accepted_keys s" "cancelled_runs ?s = cancelled_runs s"
    using st by (auto simp: accepted_keys_def cancelled_runs_def)
  moreover have "run_ok ?s x" if "x \<in> insert r (set (runs s))" for x
    using that wf st by (auto simp: run_ok_def run_wf_def)
  ultimately show ?thesis
    using wf fresh
    by (auto simp: run_wf_def keys_wf_def plans_wf_def results_wf_def run_tasks_def)
qed

lemma task_rows_from_props:
  "t \<in> set (task_rows_from run_id now n ts) \<Longrightarrow>
     tk_run_id t = run_id \<and> tk_contract t \<in> set ts \<and>
     tk_task_key t = pt_task_id (tk_contract t) \<and>
     tk_status t = (if pt_depends_on (tk_contract t) = [] then TEligible else TPending)"
  by (induction ts arbitrary: n) auto

lemma task_rows_from_contracts: "map tk_contract (task_rows_from run_id now n ts) = ts"
  by (induction ts arbitrary: n) auto

lemma insert_task_rows_Inr:
  "insert_task_rows rows ts = Inr rows' \<Longrightarrow>
     rows' = rows @ ts \<and> (tbl_wf task_key rows \<longrightarrow> tbl_wf task_key rows')"
proof (induction ts arbitrary: rows)
  case (Cons t ts)
  then have t: "task_key t \<notin> task_key ` set rows"
    and rest: "insert_task_rows (rows @ [t]) ts = Inr rows'"
    by (auto simp: ebind_Inr_iff tbl_insert_Inr_iff simp del: prod.inject)
  have "tbl_wf task_key rows \<Longrightarrow> tbl_wf task_key (rows @ [t])" using t by simp
  then have "tbl_wf task_key rows \<longrightarrow> tbl_wf task_key rows'" using Cons.IH [OF rest] by blast
  moreover have "rows' = rows @ t # ts" using Cons.IH [OF rest] by simp
  ultimately show ?case by blast
qed simp

lemma run_wf_new_plan:
  assumes wf: "run_wf s" and run: "run_id \<in> rn_id ` set (runs s)"
    and p: "pl_run_id p = run_id" "run_id \<notin> pl_run_id ` set (plans s)"
    and rows: "insert_task_rows (tasks s) (task_rows_from run_id now 0 (plan_tasks (pl_payload p)))
      = Inr rows"
  shows "run_wf (s\<lparr>plans := plans s @ [p], tasks := rows\<rparr>)" (is "run_wf ?s")
proof -
  let ?new = "task_rows_from run_id now 0 (plan_tasks (pl_payload p))"
  have rows': "rows = tasks s @ ?new" "tbl_wf task_key rows"
    using insert_task_rows_Inr [OF rows] wf unfolding run_wf_def keys_wf_def by blast+
  have acc: "accepted_keys ?s = accepted_keys s" "cancelled_runs ?s = cancelled_runs s"
    by (auto simp: accepted_keys_def cancelled_runs_def rows'(1) dest: task_rows_from_props
        split: if_splits)
  have no_old: "tk_run_id t \<noteq> run_id" if "t \<in> set (tasks s)" for t
    using wf that p(2) by (auto simp: run_wf_def plans_wf_def)
  have unaccepted: "(run_id, d) \<notin> accepted_keys s" for d
    using no_old by (auto simp: accepted_keys_def)
  have new_ok: "task_ok (accepted_keys s) (cancelled_runs s) t" if "t \<in> set ?new" for t
    using task_rows_from_props [OF that] unaccepted
    by (auto simp: task_ok_def deps_in_def neq_Nil_conv split: if_splits)
  have tasks: "task_ok (accepted_keys s) (cancelled_runs s) t" if "t \<in> set rows" for t
    using that wf new_ok by (auto simp: rows'(1) run_wf_def)
  have runs: "run_ok ?s r" if "r \<in> set (runs s)" for r
  proof -
    have r: "run_ok s r" using wf that by (simp add: run_wf_def)
    then have "rn_status r = RCompleted \<Longrightarrow> rn_id r \<noteq> run_id"
      using p(2) by (auto simp: run_ok_def)
    then show ?thesis using r by (auto simp: run_ok_def rows'(1) dest: task_rows_from_props)
  qed
  have "run_tasks ?s r = (if r = run_id then ?new else run_tasks s r)" for r
    using no_old by (auto simp: run_tasks_def rows'(1) filter_empty_conv
        intro!: filter_True filter_False dest: task_rows_from_props)
  moreover have "pl_run_id q \<noteq> run_id" if "q \<in> set (plans s)" for q
    using p(2) that by auto
  ultimately have plans: "plans_wf ?s"
    using wf p run by (auto simp: run_wf_def plans_wf_def rows'(1) task_rows_from_contracts
        dest: task_rows_from_props)
  show ?thesis
    using wf plans tasks runs acc p rows'(2)
    by (simp add: run_wf_def keys_wf_def results_wf_def)
qed

text \<open>Cancellation of the tasks of a run.\<close>

lemma run_wf_cancel:
  assumes wf: "run_wf s" and run: "get_run s run_id = Some r"
    and keys: "\<And>r. rn_id (f r) = rn_id r" "\<And>r. rn_resume_key (f r) = rn_resume_key r"
    and f: "\<And>r. rn_cancellation_requested r \<Longrightarrow> rn_cancellation_requested (f r)"
    and flag: "rn_cancellation_requested (f r)" and st: "rn_status (f r) \<noteq> RCompleted"
    and P: "\<And>t. P t \<Longrightarrow> tk_run_id t = run_id \<and> tk_status t \<noteq> TAccepted"
  shows "run_wf (upd_run run_id f
    (s\<lparr>tasks := tbl_map_where P (set_task_status TCancelled now) (tasks s)\<rparr>))"
proof -
  have r: "r \<in> set (runs s)" "rn_id r = run_id" using get_run_SomeD [OF run] by auto
  have only: "x = r" if "x \<in> set (runs s)" "rn_id x = run_id" for x
    using wf_runs_unique [OF wf that(1) r(1)] that(2) r(2) by simp
  let ?s = "upd_run run_id f s"
  have wf': "run_wf ?s"
    using flag st only by (intro run_wf_upd_run [OF wf keys f]) (auto simp: run_ok_def)
  have "f r \<in> set (runs ?s)" using r by (auto simp: upd_run_def set_tbl_upd)
  then have canc: "run_id \<in> cancelled_runs ?s"
    using flag keys(1) r(2) unfolding cancelled_runs_def by (metis (mono_tags) image_eqI mem_Collect_eq)
  have "run_wf (?s\<lparr>tasks := tbl_map_where P (set_task_status TCancelled now) (tasks ?s)\<rparr>)"
    using P canc by (intro run_wf_move [OF wf']) auto
  moreover have "run_wf (upd_run run_id f
      (s\<lparr>tasks := tbl_map_where P (set_task_status TCancelled now) (tasks s)\<rparr>)) =
    run_wf (?s\<lparr>tasks := tbl_map_where P (set_task_status TCancelled now) (tasks ?s)\<rparr>)"
    by (rule run_wf_cong) (simp_all add: upd_run_def)
  ultimately show ?thesis by simp
qed

text \<open>The acceptance of a validating task, with the release of the tasks that waited for it.\<close>

lemma run_wf_accept:
  assumes wf: "run_wf s" and run: "get_run s run_id = Some r" "\<not> rn_cancellation_requested r"
    and task: "get_task s run_id k = Some t" "tk_status t \<notin> {TAccepted, TPending, TCancelled}"
    and none: "tbl_get result_key (run_id, k) (results s) = None"
    and k: "ir_task_id res = k"
    and install: "install_acceptance now new_id run_id res review s = Inr s'"
  shows "run_wf s'"
proof -
  have t: "t \<in> set (tasks s)" "task_key t = (run_id, k)" using get_task_SomeD [OF task(1)] by auto
  have only: "t' = t" if "t' \<in> set (tasks s)" "task_key t' = (run_id, k)" for t'
    using wf_tasks_unique [OF wf that(1) t(1)] that(2) t(2) by simp
  have key_iff: "(task_key u = (run_id, k)) = (u = t)" if "u \<in> set (tasks s)" for u
    using only [OF that] t(2) by blast
  define row where "row = \<lparr>rr_id = new_id, rr_run_id = run_id, rr_task_key = k, rr_payload = res,
    rr_accepted_at = now\<rparr>"
  define acc_row where "acc_row = \<lparr>ac_run_id = run_id, ac_task_key = k, ac_result_id = new_id,
    ac_review = review, ac_accepted_at = now\<rparr>"
  define s1 where "s1 = upd_task run_id k (set_task_status TAccepted now)
    (s\<lparr>results := results s @ [row], acceptances := acceptances s @ [acc_row]\<rparr>)"
  define s2 where "s2 = release_dependents run_id now
    (add_event run_id ''task.result_accepted'' (Some k) s1)"
  have fresh: "(run_id, k) \<notin> acceptance_key ` set (acceptances s)"
    and s': "s' = (if list_all (\<lambda>t. tk_status t = TAccepted) (run_tasks s2 run_id)
      then add_event run_id ''run.completed'' None (upd_run run_id (set_run_status RCompleted now) s2)
      else s2)"
    using install by (auto simp: install_acceptance_def Let_def ebind_Inr_iff tbl_insert_Inr_iff k
        row_def acc_row_def s1_def s2_def)
  let ?acc = "insert (run_id, k) (accepted_keys s)"
  have tasks1: "tasks s1 = map (\<lambda>u. if task_key u = (run_id, k) then set_task_status TAccepted now u
      else u) (tasks s)"
    by (simp add: s1_def upd_task_def tbl_upd_def)
  have acc1: "accepted_keys s1 = ?acc"
  proof -
    have "accepted_keys s1 = task_key ` {u \<in> set (tasks s).
        tk_status (if task_key u = (run_id, k) then set_task_status TAccepted now u else u) = TAccepted}"
      by (rule accepted_keys_map [OF tasks1]) simp
    also have "{u \<in> set (tasks s).
        tk_status (if task_key u = (run_id, k) then set_task_status TAccepted now u else u) = TAccepted} =
        insert t {u \<in> set (tasks s). tk_status u = TAccepted}" (is "?A = ?B")
    proof (rule set_eqI)
      fix u
      show "u \<in> ?A \<longleftrightarrow> u \<in> ?B"
        using key_iff [of u] t(1) by (cases "u = t") (simp_all cong: conj_cong)
    qed
    finally show ?thesis using t(2) by (simp add: accepted_keys_def)
  qed
  have acc1': "accepted_keys (add_event run_id ''task.result_accepted'' (Some k) s1) = ?acc"
    using acc1 by (simp add: accepted_keys_def)
  define h where "h u = (if task_key u = (run_id, k) then set_task_status TAccepted now u
      else if tk_run_id u = run_id \<and> tk_status u = TPending \<and> deps_in ?acc u
      then set_task_status TEligible now u else u)" for u
  have dep1: "dependencies_accepted (add_event run_id ''task.result_accepted'' (Some k) s1) run_id u
      \<longleftrightarrow> deps_in ?acc u" if "tk_run_id u = run_id" for u
    using that dependencies_accepted_iff [of "add_event run_id ''task.result_accepted'' (Some k) s1" u]
    by (simp add: acc1')
  have tasks2: "tasks s2 = map h (tasks s)"
  proof -
    let ?e = "add_event run_id ''task.result_accepted'' (Some k) s1"
    let ?a = "\<lambda>u. if task_key u = (run_id, k) then set_task_status TAccepted now u else u"
    let ?r = "\<lambda>u. if tk_run_id u = run_id \<and> tk_status u = TPending \<and>
        dependencies_accepted ?e run_id u then set_task_status TEligible now u else u"
    have "tasks s2 = map (\<lambda>u. ?r (?a u)) (tasks s)"
      by (simp add: s2_def release_dependents_def tbl_map_where_def tasks1 comp_def)
    moreover have "?r (?a u) = h u" for u
    proof (cases "task_key u = (run_id, k)")
      case True
      then show ?thesis by (simp add: h_def)
    next
      case False
      then show ?thesis using dep1 [of u] by (simp add: h_def cong: conj_cong)
    qed
    ultimately show ?thesis by (simp only:)
  qed
  have frame: "runs s2 = runs s" "plans s2 = plans s" "results s2 = results s @ [row]"
    "acceptances s2 = acceptances s @ [acc_row]"
    by (simp_all add: s2_def release_dependents_def s1_def upd_task_def)
  have h: "task_key (h u) = task_key u" "tk_contract (h u) = tk_contract u" for u
    by (simp_all add: h_def)
  then have hk: "tk_run_id (h u) = tk_run_id u" "tk_task_key (h u) = tk_task_key u" for u
    by auto
  have acc2: "accepted_keys s2 = ?acc"
  proof -
    have "accepted_keys s2 = task_key ` {u \<in> set (tasks s). tk_status (h u) = TAccepted}"
      by (rule accepted_keys_map [OF tasks2 h(1)])
    also have "{u \<in> set (tasks s). tk_status (h u) = TAccepted} =
        insert t {u \<in> set (tasks s). tk_status u = TAccepted}" (is "?A = ?B")
    proof (rule set_eqI)
      fix u
      show "u \<in> ?A \<longleftrightarrow> u \<in> ?B"
        using key_iff [of u] t(1) unfolding h_def by (cases "u = t") (simp_all cong: conj_cong)
    qed
    finally show ?thesis using t(2) by (simp add: accepted_keys_def)
  qed
  have canc: "cancelled_runs s2 = cancelled_runs s" by (simp add: cancelled_runs_def frame)
  have run_tasks2: "run_tasks s2 x = map h (run_tasks s x)" for x
    by (simp add: run_tasks_def tasks2 filter_map comp_def hk)
  have keys: "map task_key (tasks s2) = map task_key (tasks s)"
    by (simp add: tasks2 comp_def hk)
  have tasks: "task_ok ?acc (cancelled_runs s) (h u)" if u: "u \<in> set (tasks s)" for u
  proof -
    have ok: "task_ok (accepted_keys s) (cancelled_runs s) u" using wf u by (simp add: run_wf_def)
    have deps: "deps_in acc (h u) = deps_in acc u" for acc by (simp add: deps_in_def hk h)
    consider "task_key u = (run_id, k)" | "task_key u \<noteq> (run_id, k)" "tk_run_id u = run_id"
      | "tk_run_id u \<noteq> run_id" by blast
    then show ?thesis
    proof cases
      case 1
      then have "deps_in (accepted_keys s) u" using only [OF u] task(2) ok by (simp add: task_ok_def)
      then have "deps_in ?acc u" by (rule deps_in_mono) blast
      then show ?thesis using 1 ok by (simp add: task_ok_def deps hk h) (simp add: h_def)
    next
      case 2
      then have st: "h u = (if tk_status u = TPending \<and> deps_in ?acc u
          then set_task_status TEligible now u else u)" by (simp add: h_def)
      have "deps_in (accepted_keys s) u \<Longrightarrow> deps_in ?acc u" by (rule deps_in_mono) blast+
      then show ?thesis using st ok deps [of ?acc] unfolding task_ok_def hk h by auto
    next
      case 3
      then have "h u = u" and "deps_in ?acc u = deps_in (accepted_keys s) u"
        by (auto simp: h_def deps_in_def)
      then show ?thesis using ok by (simp add: task_ok_def)
    qed
  qed
  have runs: "run_ok s2 x" if x: "x \<in> set (runs s)" for x
  proof -
    have ok: "run_ok s x" using wf x by (simp add: run_wf_def)
    have "rn_id x \<noteq> run_id" if "rn_status x = RCompleted"
      using that ok t task(2) by (force simp: run_ok_def)
    then show ?thesis using ok by (auto simp: run_ok_def frame tasks2 hk h_def)
  qed
  have "plans_wf s2"
    using wf unfolding run_wf_def plans_wf_def
    by (simp add: frame run_tasks2 comp_def h(2) tasks2 image_image hk)
  then have wf2: "run_wf s2"
    using wf runs tasks keys acc2 canc none fresh
    by (auto simp: run_wf_def keys_wf_def results_wf_def frame tasks2 row_def acc_row_def
        tbl_get_None_iff simp del: map_map)
  show ?thesis
  proof (cases "list_all (\<lambda>t. tk_status t = TAccepted) (run_tasks s2 run_id)")
    case False
    then show ?thesis using wf2 by (simp add: s')
  next
    case True
    have "run_id \<in> pl_run_id ` set (plans s2)"
      using wf t by (auto simp: run_wf_def plans_wf_def frame)
    moreover have "x = r" if "x \<in> set (runs s2)" "rn_id x = run_id" for x
      using that wf_runs_unique [OF wf] get_run_SomeD [OF run(1)] frame by auto
    ultimately have "run_wf (upd_run run_id (set_run_status RCompleted now) s2)"
      using True run(2)
      by (intro run_wf_upd_run [OF wf2]) (auto simp: run_ok_def run_tasks_def list_all_iff)
    then show ?thesis using True by (simp add: s')
  qed
qed

end
