(* ===== verification/RunMachine.thy ===== *)
theory RunMachine
  imports RunInvariant
begin

section \<open>The run repository as a machine\<close>

text \<open>
  Every public operation keeps \<open>run_wf\<close>; the operations, with a move for the tables other
  components own, are the steps of one machine, to which the machine locales are applied.
  The theorems say what no sequence of calls can do: start a task before its dependencies
  are accepted, change an accepted result, or accept work after a cancellation.
\<close>

lemma start_or_resume_wf:
  assumes "run_wf s" and "start_or_resume env now new_id d obj out s = Inr (s', sn)"
  shows "run_wf s'"
proof (cases "tbl_get rn_resume_key (resume_key env d obj out) (runs s)")
  case (Some run)
  then show ?thesis using assms
    by (auto simp: start_or_resume_def ebind_Inr_iff dest: with_snapshot_Inr)
next
  case None
  then have fresh: "resume_key env d obj out \<notin> rn_resume_key ` set (runs s)"
    by (simp add: tbl_get_None_iff)
  show ?thesis using assms None fresh
    by (auto simp: start_or_resume_def ebind_Inr_iff Let_def tbl_insert_Inr_iff
        dest!: with_snapshot_Inr intro!: run_wf_new_run)
qed

lemma binding_events_tables:
  "binding_events registry run_id sel bs s = Inr s' \<Longrightarrow>
     runs s' = runs s \<and> plans s' = plans s \<and> tasks s' = tasks s \<and> results s' = results s \<and>
     acceptances s' = acceptances s \<and> planned_calls s' = planned_calls s \<and>
     establishments s' = establishments s \<and> rejections s' = rejections s"
  by (induction bs arbitrary: sel s) (fastforce simp: ebind_Inr_iff Let_def split: if_splits)+

lemma install_plan_Inr:
  assumes "install_plan now run_id p s = Inr s'"
  obtains rows row where
    "row = \<lparr>pl_run_id = run_id, pl_fingerprint = ap_fingerprint p, pl_payload = p,
            pl_accepted_at = now\<rparr>"
    "run_id \<notin> pl_run_id ` set (plans s)"
    "insert_task_rows (tasks s) (task_rows_from run_id now 0 (plan_tasks p)) = Inr rows"
    "runs s' = tbl_upd rn_id run_id (set_run_status RQueued now) (runs s)"
    "plans s' = plans s @ [row]" "tasks s' = rows" "results s' = results s"
    "acceptances s' = acceptances s" "planned_calls s' = planned_calls s"
  using assms
  by (cases "ap_registry p")
     (auto simp: install_plan_def Let_def ebind_Inr_iff tbl_insert_Inr_iff upd_run_def
      dest!: binding_events_tables)

lemma install_plan_wf:
  assumes wf: "run_wf s" and run: "get_run s run_id = Some r"
    and install: "install_plan now run_id p s = Inr s'"
  shows "run_wf s'"
  using install
proof (rule install_plan_Inr)
  fix rows row
  assume row: "row = \<lparr>pl_run_id = run_id, pl_fingerprint = ap_fingerprint p, pl_payload = p,
            pl_accepted_at = now\<rparr>"
    and fresh: "run_id \<notin> pl_run_id ` set (plans s)"
    and rows: "insert_task_rows (tasks s) (task_rows_from run_id now 0 (plan_tasks p)) = Inr rows"
    and s': "runs s' = tbl_upd rn_id run_id (set_run_status RQueued now) (runs s)"
      "plans s' = plans s @ [row]" "tasks s' = rows" "results s' = results s"
      "acceptances s' = acceptances s"
  let ?s = "s\<lparr>plans := plans s @ [row], tasks := rows\<rparr>"
  have "run_wf ?s"
    using wf get_run_SomeD [OF run] fresh rows row by (intro run_wf_new_plan) auto
  then have "run_wf (upd_run run_id (set_run_status RQueued now) ?s)"
    by (rule run_wf_set_run_status) simp
  moreover have "run_wf s' = run_wf (upd_run run_id (set_run_status RQueued now) ?s)"
    by (rule run_wf_cong) (simp_all add: s' upd_run_def)
  ultimately show ?thesis by simp
qed

lemma accept_plan_cases:
  assumes "accept_plan env now run_id p s = Inr (s', sn)"
  obtains (again) "s' = s" "\<exists>row. get_plan s run_id = Some row \<and> pl_payload row = p"
  | (new) r where "get_run s run_id = Some r" "get_plan s run_id = None"
      "install_plan now run_id p s = Inr s'" "check_plan_context r p = Inr ()"
  using assms
  by (cases "get_plan s run_id")
     (auto simp: accept_plan_def ebind_Inr_iff require_run_Inr split: if_splits
      dest!: with_snapshot_Inr)

lemma accept_plan_wf:
  assumes "run_wf s" and "accept_plan env now run_id p s = Inr (s', sn)"
  shows "run_wf s'"
  using assms(2)
proof (cases rule: accept_plan_cases)
  case again
  then show ?thesis using assms(1) by simp
next
  case (new r)
  then show ?thesis using install_plan_wf [OF assms(1)] by blast
qed

lemma record_repository_establishment_frame:
  assumes "record_repository_establishment env e s = Inr (s', sn)"
  shows "runs s' = runs s \<and> plans s' = plans s \<and> tasks s' = tasks s \<and> results s' = results s \<and>
     acceptances s' = acceptances s \<and> planned_calls s' = planned_calls s"
  using assms unfolding record_repository_establishment_def
  by (auto simp: ebind_Inr_iff Let_def split: if_splits option.splits dest!: with_snapshot_Inr)

lemma mark_awaiting_approval_wf:
  assumes "run_wf s" and "mark_awaiting_approval now run_id s = Inr (s', u)"
  shows "run_wf s'"
  using assms by (auto simp: mark_awaiting_approval_def ebind_Inr_iff split: if_splits
      intro: run_wf_set_run_status)

lemma start_run_wf:
  assumes "run_wf s" and "start_run now run_id s = Inr (s', u)"
  shows "run_wf s'"
  using assms by (auto simp: start_run_def ebind_Inr_iff split: if_splits
      intro: run_wf_set_run_status)

lemma claim_task_Inr:
  "claim_task now run_id k s = Inr (s', attempt) \<longleftrightarrow>
     (\<exists>r t. get_run s run_id = Some r \<and> get_task s run_id k = Some t \<and>
        \<not> rn_cancellation_requested r \<and> rn_status r = RRunning \<and> tk_status t = TEligible \<and>
        attempt = tk_attempt_count t + 1 \<and>
        s' = add_event run_id ''task.claimed'' (Some k)
               (upd_task run_id k (\<lambda>t. set_task_status TExecuting now
                  (t\<lparr>tk_attempt_count := tk_attempt_count t + 1\<rparr>)) s))"
  by (auto simp: claim_task_def ebind_Inr_iff require_run_Inr require_task_Inr)

lemma claim_task_wf:
  assumes wf: "run_wf s" and claim: "claim_task now run_id k s = Inr (s', attempt)"
  shows "run_wf s'"
proof -
  obtain t where t: "get_task s run_id k = Some t" "tk_status t = TEligible"
    and s': "s' = add_event run_id ''task.claimed'' (Some k)
               (upd_task run_id k (\<lambda>t. set_task_status TExecuting now
                  (t\<lparr>tk_attempt_count := tk_attempt_count t + 1\<rparr>)) s)"
    using claim unfolding claim_task_Inr by blast
  have "run_wf (upd_task run_id k (\<lambda>t. set_task_status TExecuting now
                  (t\<lparr>tk_attempt_count := tk_attempt_count t + 1\<rparr>)) s)"
    using t by (intro run_wf_upd_task [OF wf t(1), where st = TExecuting]) simp_all
  then show ?thesis by (simp add: s')
qed

lemma mark_validating_Inr:
  "mark_validating now run_id k s = Inr (s', u) \<longleftrightarrow>
     (\<exists>t. get_task s run_id k = Some t \<and> tk_status t = TExecuting \<and>
        s' = add_event run_id ''task.validating'' (Some k)
               (upd_task run_id k (set_task_status TValidating now) s))"
  by (auto simp: mark_validating_def ebind_Inr_iff require_task_Inr)

lemma mark_validating_wf:
  assumes wf: "run_wf s" and mark: "mark_validating now run_id k s = Inr (s', u)"
  shows "run_wf s'"
proof -
  obtain t where t: "get_task s run_id k = Some t" "tk_status t = TExecuting"
    and s': "s' = add_event run_id ''task.validating'' (Some k)
               (upd_task run_id k (set_task_status TValidating now) s)"
    using mark unfolding mark_validating_Inr by blast
  have "run_wf (upd_task run_id k (set_task_status TValidating now) s)"
    using t by (intro run_wf_upd_task [OF wf t(1), where st = TValidating]) simp_all
  then show ?thesis by (simp add: s')
qed

lemma mark_task_failure_Inr:
  assumes "mark_task_failure now run_id k rejected s = Inr (s', u)"
  obtains t where "get_task s run_id k = Some t" "tk_status t \<in> {TExecuting, TValidating}"
    "s' = add_event run_id ''run.failed'' (Some k)
       (upd_run run_id (set_run_status RFailed now)
         (add_event run_id (if rejected then ''task.rejected'' else ''task.failed'') (Some k)
           (upd_task run_id k (set_task_status (if rejected then TRejected else TFailed) now) s)))"
  using assms by (auto simp: mark_task_failure_def ebind_Inr_iff require_task_Inr Let_def
      split: if_splits)

lemma mark_task_failure_wf:
  assumes wf: "run_wf s" and mark: "mark_task_failure now run_id k rejected s = Inr (s', u)"
  shows "run_wf s'"
  using mark
proof (rule mark_task_failure_Inr)
  fix t
  let ?st = "if rejected then TRejected else TFailed"
  let ?s1 = "upd_task run_id k (set_task_status ?st now) s"
  assume t: "get_task s run_id k = Some t" "tk_status t \<in> {TExecuting, TValidating}"
    and s': "s' = add_event run_id ''run.failed'' (Some k)
       (upd_run run_id (set_run_status RFailed now)
         (add_event run_id (if rejected then ''task.rejected'' else ''task.failed'') (Some k) ?s1))"
  have "run_wf ?s1"
    using t by (intro run_wf_upd_task [OF wf t(1), where st = ?st]) auto
  then show ?thesis by (simp add: s' run_wf_set_run_status)
qed

lemma record_rejected_review_frame:
  assumes "record_rejected_review env now run_id res review n s = Inr (s', r)"
  shows "runs s' = runs s \<and> plans s' = plans s \<and> tasks s' = tasks s \<and> results s' = results s \<and>
     acceptances s' = acceptances s \<and> planned_calls s' = planned_calls s"
  using assms unfolding record_rejected_review_def
  by (auto simp: ebind_Inr_iff Let_def split: if_splits option.splits)

lemma cancel_run_cases:
  assumes "cancel_run now run_id s = Inr (s', sn)"
  obtains (settled) r where "get_run s run_id = Some r" "rn_status r \<in> {RCompleted, RCancelled}"
      "s' = s"
  | (now) r final where "get_run s run_id = Some r" "rn_status r \<notin> {RCompleted, RCancelled}"
      "final = (if list_ex active (run_tasks s run_id) then RCancelling else RCancelled)"
      "runs s' = tbl_upd rn_id run_id
        (\<lambda>r. set_run_status final now (r\<lparr>rn_cancellation_requested := True\<rparr>)) (runs s)"
      "tasks s' = tbl_map_where (\<lambda>t. tk_run_id t = run_id \<and> waiting t)
        (set_task_status TCancelled now) (tasks s)"
      "plans s' = plans s" "results s' = results s" "acceptances s' = acceptances s"
      "planned_calls s' = planned_calls s"
proof -
  obtain r where r: "get_run s run_id = Some r"
    using assms by (auto simp: cancel_run_def ebind_Inr_iff require_run_Inr)
  show thesis
  proof (cases "rn_status r \<in> {RCompleted, RCancelled}")
    case True
    then have "with_snapshot s run_id True = Inr (s', sn)"
      using assms r by (auto simp: cancel_run_def ebind_Inr_iff require_run_Inr)
    then show thesis using settled [OF r True] by (auto dest: with_snapshot_Inr)
  next
    case False
    let ?final = "if list_ex active (run_tasks s run_id) then RCancelling else RCancelled"
    let ?s = "add_event run_id ''run.cancellation_requested'' None
      (upd_run run_id (\<lambda>r. set_run_status ?final now (r\<lparr>rn_cancellation_requested := True\<rparr>))
        (add_task_events run_id ''task.cancellation_requested''
          (filter active (run_tasks s run_id))
          (s\<lparr>tasks := tbl_map_where (\<lambda>t. tk_run_id t = run_id \<and> waiting t)
             (set_task_status TCancelled now) (tasks s)\<rparr>)))"
    have "with_snapshot ?s run_id False = Inr (s', sn)"
      using assms r False by (simp add: cancel_run_def ebind_Inr_iff require_run_Inr Let_def)
    then have "s' = ?s" by (rule with_snapshot_Inr)
    then show thesis by (intro now [OF r False refl]) (simp_all add: upd_run_def)
  qed
qed

lemma cancel_run_wf:
  assumes wf: "run_wf s" and cancel: "cancel_run now run_id s = Inr (s', sn)"
  shows "run_wf s'"
  using cancel
proof (cases rule: cancel_run_cases)
  case (settled r)
  then show ?thesis using wf by simp
next
  case (now r final)
  let ?f = "\<lambda>r. set_run_status final now (r\<lparr>rn_cancellation_requested := True\<rparr>)"
  let ?s = "upd_run run_id ?f (s\<lparr>tasks := tbl_map_where
    (\<lambda>t. tk_run_id t = run_id \<and> waiting t) (set_task_status TCancelled now) (tasks s)\<rparr>)"
  have "run_wf ?s"
    using now(3) by (intro run_wf_cancel [OF wf now(1)]) (auto simp: waiting_def)
  moreover have "run_wf s' = run_wf ?s"
    by (rule run_wf_cong) (simp_all add: now upd_run_def)
  ultimately show ?thesis by simp
qed

lemma settle_cancellation_cases:
  assumes "settle_cancellation now run_id s = Inr (s', sn)"
  obtains (settled) "s' = s"
  | (now) r where "get_run s run_id = Some r" "rn_cancellation_requested r"
      "rn_status r \<noteq> RCancelled"
      "runs s' = tbl_upd rn_id run_id (set_run_status RCancelled now) (runs s)"
      "tasks s' = tbl_map_where (\<lambda>t. tk_run_id t = run_id \<and> (waiting t \<or> active t))
        (set_task_status TCancelled now) (tasks s)"
      "plans s' = plans s" "results s' = results s" "acceptances s' = acceptances s"
      "planned_calls s' = planned_calls s"
proof -
  obtain r where r: "get_run s run_id = Some r" and req: "rn_cancellation_requested r"
    using assms by (auto simp: settle_cancellation_def ebind_Inr_iff require_run_Inr split: if_splits)
  show thesis
  proof (cases "rn_status r = RCancelled")
    case True
    then have "with_snapshot s run_id True = Inr (s', sn)"
      using assms r req by (simp add: settle_cancellation_def ebind_Inr_iff require_run_Inr)
    then show thesis using settled by (auto dest: with_snapshot_Inr)
  next
    case False
    let ?s = "add_event run_id ''run.cancelled'' None
      (upd_run run_id (set_run_status RCancelled now)
        (add_task_events run_id ''task.cancelled''
          (filter (\<lambda>t. waiting t \<or> active t) (run_tasks s run_id))
          (s\<lparr>tasks := tbl_map_where (\<lambda>t. tk_run_id t = run_id \<and> (waiting t \<or> active t))
             (set_task_status TCancelled now) (tasks s)\<rparr>)))"
    have "with_snapshot ?s run_id False = Inr (s', sn)"
      using assms r req False by (simp add: settle_cancellation_def ebind_Inr_iff require_run_Inr Let_def)
    then have "s' = ?s" by (rule with_snapshot_Inr)
    then show thesis by (intro now [OF r req False]) (simp_all add: upd_run_def)
  qed
qed

lemma settle_cancellation_wf:
  assumes wf: "run_wf s" and settle: "settle_cancellation now run_id s = Inr (s', sn)"
  shows "run_wf s'"
  using settle
proof (cases rule: settle_cancellation_cases)
  case settled
  then show ?thesis using wf by simp
next
  case (now r)
  let ?s = "upd_run run_id (set_run_status RCancelled now) (s\<lparr>tasks := tbl_map_where
    (\<lambda>t. tk_run_id t = run_id \<and> (waiting t \<or> active t)) (set_task_status TCancelled now) (tasks s)\<rparr>)"
  have "run_wf ?s"
    using now(2) by (intro run_wf_cancel [OF wf now(1)]) (auto simp: waiting_def active_def)
  moreover have "run_wf s' = run_wf ?s"
    by (rule run_wf_cong) (simp_all add: now upd_run_def)
  ultimately show ?thesis by simp
qed

lemma check_acceptance_Inr:
  "check_acceptance run task review s = Inr u \<longleftrightarrow>
     \<not> rn_cancellation_requested run \<and> dependencies_accepted s (rn_id run) task \<and>
     tk_status task = TValidating \<and> rd_verdict review = Accepted \<and>
     (rd_schema_version review = Review_1_1 \<longrightarrow>
        rd_producer_identity review = Some (pt_assigned_role (tk_contract task)))"
  by (auto simp: check_acceptance_def)

lemma accept_result_cases:
  assumes "accept_result env now new_id run_id res review s = Inr (s', sn)"
  obtains (replay) row acc where "tbl_get result_key (run_id, ir_task_id res) (results s) = Some row"
      "rr_payload row = res"
      "tbl_get acceptance_key (run_id, ir_task_id res) (acceptances s) = Some acc"
      "ac_review acc = review"
      "s' = add_event run_id ''task.completion_duplicated'' (Some (ir_task_id res)) s"
  | (new) r t where "get_run s run_id = Some r" "get_task s run_id (ir_task_id res) = Some t"
      "tbl_get result_key (run_id, ir_task_id res) (results s) = None"
      "result_matches_run_context res r"
      "check_acceptance r t review s = Inr ()"
      "install_acceptance now new_id run_id res review s = Inr s'"
proof -
  from assms obtain r t where rt: "get_run s run_id = Some r"
      "get_task s run_id (ir_task_id res) = Some t" "result_matches_run_context res r"
    and rest: "(case tbl_get result_key (run_id, ir_task_id res) (results s) of
              Some existing \<Rightarrow> replay_acceptance run_id res review existing s
            | None \<Rightarrow>
                ebind (check_acceptance r t review s) (\<lambda>_.
                ebind (install_acceptance now new_id run_id res review s) (\<lambda>s'.
                  with_snapshot s' run_id False))) = Inr (s', sn)"
    unfolding accept_result_def
    by (auto simp: ebind_Inr_iff require_run_Inr split: if_splits)
  show thesis
  proof (cases "tbl_get result_key (run_id, ir_task_id res) (results s)")
    case None
    with rest show thesis
      using rt by (auto simp: ebind_Inr_iff dest!: with_snapshot_Inr intro!: new)
  next
    case (Some row)
    with rest show thesis
      by (auto simp: replay_acceptance_def split: if_splits option.splits
          dest!: with_snapshot_Inr intro!: replay)
  qed
qed

lemma accept_result_wf:
  assumes wf: "run_wf s" and accept: "accept_result env now new_id run_id res review s = Inr (s', sn)"
  shows "run_wf s'"
  using accept
proof (cases rule: accept_result_cases)
  case (replay row acc)
  then show ?thesis using wf by simp
next
  case (new r t)
  then have "\<not> rn_cancellation_requested r" "tk_status t = TValidating"
    by (auto simp: check_acceptance_Inr)
  then show ?thesis using run_wf_accept [OF wf new(1) _ new(2) _ new(3) refl new(6)] by simp
qed

lemma reserve_planned_call_frame:
  assumes "reserve_planned_call i s = Inr (s', r)"
  shows "runs s' = runs s \<and> plans s' = plans s \<and> tasks s' = tasks s \<and> results s' = results s \<and>
     acceptances s' = acceptances s"
  using assms unfolding reserve_planned_call_def reserve_existing_def insert_call_def
  by (auto simp: ebind_Inr_iff upd_call_def split: if_splits option.splits)

lemma mark_planned_call_dispatching_frame:
  assumes "mark_planned_call_dispatching i f s = Inr (s', r)"
  shows "runs s' = runs s \<and> plans s' = plans s \<and> tasks s' = tasks s \<and> results s' = results s \<and>
     acceptances s' = acceptances s"
  using assms unfolding mark_planned_call_dispatching_def
  by (auto simp: upd_call_def Let_def split: if_splits option.splits)

lemma complete_planned_call_frame:
  assumes "complete_planned_call env i f res st s = Inr (s', r)"
  shows "runs s' = runs s \<and> plans s' = plans s \<and> tasks s' = tasks s \<and> results s' = results s \<and>
     acceptances s' = acceptances s"
  using assms unfolding complete_planned_call_def
  by (auto simp: upd_call_def Let_def ebind_Inr_iff split: if_splits option.splits)

lemma record_audit_frame:
  assumes "record_audit env dump audit s = Inr (s', u)"
  shows "runs s' = runs s \<and> plans s' = plans s \<and> tasks s' = tasks s \<and> results s' = results s \<and>
     acceptances s' = acceptances s \<and> planned_calls s' = planned_calls s"
  using assms by (auto simp: record_audit_def ebind_Inr_iff Let_def)

lemma run_wf_frame:
  "runs s' = runs s \<and> plans s' = plans s \<and> tasks s' = tasks s \<and> results s' = results s \<and>
     acceptances s' = acceptances s \<Longrightarrow> run_wf s \<Longrightarrow> run_wf s'"
  using run_wf_cong by blast

lemma recover_effects_tables:
  assumes "recover_effects now run_id s = Inr (s', un)"
  shows "plans s' = plans s \<and> tasks s' = tasks s \<and> results s' = results s \<and>
     acceptances s' = acceptances s \<and>
     planned_calls s' = tbl_map_where (retry_safe run_id) reconcile_call (planned_calls s) \<and>
     (runs s' = runs s \<or> runs s' = tbl_upd rn_id run_id (set_run_status RBlocked now) (runs s))"
  using assms unfolding recover_effects_def
  by (auto simp: ebind_Inr_iff Let_def upd_run_def split: if_splits)

lemma recover_effects_wf:
  assumes wf: "run_wf s" and rec: "recover_effects now run_id s = Inr (s', un)"
  shows "run_wf s'"
proof -
  note t = recover_effects_tables [OF rec]
  show ?thesis
  proof (cases "runs s' = runs s")
    case True
    then show ?thesis using t wf run_wf_frame by blast
  next
    case False
    then have "runs s' = runs (upd_run run_id (set_run_status RBlocked now) s)"
      using t by (simp add: upd_run_def)
    moreover have "run_wf (upd_run run_id (set_run_status RBlocked now) s)"
      using wf by (rule run_wf_set_run_status) simp
    ultimately show ?thesis using t
      by (elim run_wf_frame [rotated]) (simp add: upd_run_def)
  qed
qed

lemma recover_tasks_cases:
  assumes "recover_tasks now run_id s = Inr (s', released)"
  obtains (cancelled) r where "get_run s run_id = Some r" "rn_cancellation_requested r" "s' = s"
      "released = []"
  | (released) r s1 P where "get_run s run_id = Some r" "\<not> rn_cancellation_requested r"
      "P = (\<lambda>t. tk_run_id t = run_id \<and> interrupted t \<and> dependencies_accepted s1 run_id t)"
      "s1 = s \<or> s1 = add_event run_id ''run.running'' None
         (upd_run run_id (set_run_status RRunning now) s)"
      "rn_status r = RBlocked \<or> rn_status r = RFailed \<longleftrightarrow> s1 \<noteq> s"
      "tasks s' = tbl_map_where P (set_task_status TEligible now) (tasks s)"
      "released = map tk_task_key (filter P (tasks s))"
      "runs s' = runs s1" "plans s' = plans s" "results s' = results s"
      "acceptances s' = acceptances s" "planned_calls s' = planned_calls s"
proof -
  obtain r where r: "get_run s run_id = Some r"
    using assms by (auto simp: recover_tasks_def ebind_Inr_iff require_run_Inr)
  show thesis
  proof (cases "rn_cancellation_requested r")
    case True
    then show thesis using assms r
      by (intro cancelled [of r]) (auto simp: recover_tasks_def ebind_Inr_iff require_run_Inr)
  next
    case False
    define s1 where "s1 = (if rn_status r = RBlocked \<or> rn_status r = RFailed
                   then add_event run_id ''run.running'' None
                          (upd_run run_id (set_run_status RRunning now) s)
                   else s)"
    have outbox: "add_event run_id ''run.running'' None
        (upd_run run_id (set_run_status RRunning now) s) \<noteq> s"
    proof
      assume "add_event run_id ''run.running'' None
        (upd_run run_id (set_run_status RRunning now) s) = s"
      then have "length (outbox (add_event run_id ''run.running'' None
        (upd_run run_id (set_run_status RRunning now) s))) = length (outbox s)" by simp
      then show False by (simp add: add_event_def upd_run_def)
    qed
    have tabs: "tasks s1 = tasks s" "plans s1 = plans s" "results s1 = results s"
      "acceptances s1 = acceptances s" "planned_calls s1 = planned_calls s"
      by (simp_all add: s1_def upd_run_def)
    define P where "P = (\<lambda>t. tk_run_id t = run_id \<and> interrupted t \<and>
      dependencies_accepted s1 run_id t)"
    define rel where "rel = map tk_task_key (filter P (tasks s))"
    let ?moved = "s1\<lparr>tasks := tbl_map_where P (set_task_status TEligible now) (tasks s)\<rparr>"
    let ?s = "if rel = [] then ?moved
      else add_event run_id ''run.interrupted_tasks_released'' None ?moved"
    have "recover_tasks now run_id s = Inr (?s, rel)"
      unfolding recover_tasks_def require_run_Inr [THEN iffD2, OF r] ebind_simps Let_def
        s1_def [symmetric] P_def [symmetric] tabs(1)
      using False by (simp add: rel_def)
    then have final: "s' = ?s" and rel': "released = rel" using assms by simp_all
    have status: "rn_status r = RBlocked \<or> rn_status r = RFailed \<longleftrightarrow> s1 \<noteq> s"
      using outbox by (simp add: s1_def)
    have s1: "s1 = s \<or> s1 = add_event run_id ''run.running'' None
         (upd_run run_id (set_run_status RRunning now) s)"
      by (simp add: s1_def)
    show thesis
      by (rule released [OF r False P_def s1 status])
         (simp_all add: final rel' rel_def tabs)
  qed
qed

lemma recover_tasks_wf:
  assumes wf: "run_wf s" and rec: "recover_tasks now run_id s = Inr (s', rel)"
  shows "run_wf s'"
  using rec
proof (cases rule: recover_tasks_cases)
  case (cancelled r)
  then show ?thesis using wf by simp
next
  case (released r s1 P)
  have wf1: "run_wf s1"
    using released(4) wf by (auto intro: run_wf_set_run_status)
  have tabs: "tasks s1 = tasks s" "plans s1 = plans s" "results s1 = results s"
    "acceptances s1 = acceptances s"
    using released(4) by (auto simp: upd_run_def)
  have "run_wf (s1\<lparr>tasks := tbl_map_where P (set_task_status TEligible now) (tasks s1)\<rparr>)"
    using dependencies_accepted_iff [of s1]
    by (intro run_wf_move [OF wf1]) (auto simp: released(3) interrupted_def)
  moreover have "run_wf s' =
      run_wf (s1\<lparr>tasks := tbl_map_where P (set_task_status TEligible now) (tasks s1)\<rparr>)"
    by (rule run_wf_cong) (simp_all add: released tabs)
  ultimately show ?thesis by simp
qed

lemma recover_interrupted_cases:
  obtains (unknown) e where "recover_interrupted now run_id s = (s, Inl e)"
      "recover_effects now run_id s = Inl e"
  | (blocked) s1 un where "recover_effects now run_id s = Inr (s1, un)" "un \<noteq> []"
      "recover_interrupted now run_id s =
        (s1, Inl (MishkanError RUN_INTERRUPTED ''run contains unreconciled stateful effects''))"
  | (failed) s1 e where "recover_effects now run_id s = Inr (s1, [])"
      "recover_tasks now run_id s1 = Inl e" "recover_interrupted now run_id s = (s1, Inl e)"
  | (released) s1 s2 rel where "recover_effects now run_id s = Inr (s1, [])"
      "recover_tasks now run_id s1 = Inr (s2, rel)"
      "recover_interrupted now run_id s = (s2, Inr rel)"
proof -
  consider e where "recover_effects now run_id s = Inl e"
    | s1 un where "recover_effects now run_id s = Inr (s1, un)" by (metis sum.exhaust prod.exhaust)
  then show thesis
  proof cases
    case 1
    then show thesis using unknown by (simp add: recover_interrupted_def)
  next
    case (2 s1 un)
    show thesis
    proof (cases "un = []")
      case False
      then show thesis using blocked [OF 2] 2 by (simp add: recover_interrupted_def)
    next
      case True
      then show thesis using failed released 2
        by (cases "recover_tasks now run_id s1") (auto simp: recover_interrupted_def)
    qed
  qed
qed

lemma recover_interrupted_wf:
  assumes "run_wf s"
  shows "run_wf (fst (recover_interrupted now run_id s))"
proof (cases rule: recover_interrupted_cases [of now run_id s])
  case (unknown e)
  then show ?thesis using assms by simp
next
  case (blocked s1 un)
  then show ?thesis using recover_effects_wf [OF assms blocked(1)] by simp
next
  case (failed s1 e)
  then show ?thesis using recover_effects_wf [OF assms failed(1)] by simp
next
  case (released s1 s2 rel)
  then show ?thesis
    using recover_tasks_wf [OF recover_effects_wf [OF assms released(1)] released(2)] by simp
qed

subsection \<open>The machine\<close>

datatype run_op =
    StartOrResume instant string discovery_snapshot string string
  | AcceptPlan instant string accepted_plan
  | RecordEstablishment repository_establishment
  | MarkAwaitingApproval instant string
  | StartRun instant string
  | ClaimTask instant string string
  | MarkValidating instant string string
  | MarkTaskFailure instant string string bool
  | RecordRejectedReview instant string initialization_result review_decision int
  | CancelRun instant string
  | SettleCancellation instant string
  | AcceptResult instant string string initialization_result review_decision
  | ReservePlannedCall call_identity
  | MarkDispatching string string
  | CompletePlannedCall string string tool_result_envelope effect_settlement
  | RecoverInterrupted instant string
  | RecordAudit content audit_event
  | OtherTools "execution_session_row list" "browser_session_row list" "mcp_call_row list"

text \<open>The state after a transaction: rolled back when it raised.\<close>

definition commit :: "'s \<Rightarrow> ('s \<times> 'a) result \<Rightarrow> 's" where
  "commit s r = (case r of Inl _ \<Rightarrow> s | Inr (s', _) \<Rightarrow> s')"

lemma commit_simps [simp]: "commit s (Inl e) = s" "commit s (Inr (s', a)) = s'"
  by (simp_all add: commit_def)

fun step :: "environment \<Rightarrow> run_op \<Rightarrow> store \<Rightarrow> store" where
  "step env (StartOrResume now new_id d obj out) s =
     commit s (start_or_resume env now new_id d obj out s)"
| "step env (AcceptPlan now run_id p) s = commit s (accept_plan env now run_id p s)"
| "step env (RecordEstablishment e) s = commit s (record_repository_establishment env e s)"
| "step env (MarkAwaitingApproval now run_id) s = commit s (mark_awaiting_approval now run_id s)"
| "step env (StartRun now run_id) s = commit s (start_run now run_id s)"
| "step env (ClaimTask now run_id k) s = commit s (claim_task now run_id k s)"
| "step env (MarkValidating now run_id k) s = commit s (mark_validating now run_id k s)"
| "step env (MarkTaskFailure now run_id k rejected) s =
     commit s (mark_task_failure now run_id k rejected s)"
| "step env (RecordRejectedReview now run_id res review n) s =
     commit s (record_rejected_review env now run_id res review n s)"
| "step env (CancelRun now run_id) s = commit s (cancel_run now run_id s)"
| "step env (SettleCancellation now run_id) s = commit s (settle_cancellation now run_id s)"
| "step env (AcceptResult now new_id run_id res review) s =
     commit s (accept_result env now new_id run_id res review s)"
| "step env (ReservePlannedCall i) s = commit s (reserve_planned_call i s)"
| "step env (MarkDispatching i f) s = commit s (mark_planned_call_dispatching i f s)"
| "step env (CompletePlannedCall i f res st) s = commit s (complete_planned_call env i f res st s)"
| "step env (RecoverInterrupted now run_id) s = fst (recover_interrupted now run_id s)"
| "step env (RecordAudit c a) s = commit s (record_audit env (\<lambda>_. c) a s)"
| "step env (OtherTools xs bs ms) s =
     s\<lparr>execution_sessions := xs, browser_sessions := bs, mcp_calls := ms\<rparr>"

lemma commit_keeps:
  "P s \<Longrightarrow> (\<And>s' a. r = Inr (s', a) \<Longrightarrow> P s') \<Longrightarrow> P (commit s r)"
  by (cases r) (auto simp: commit_def)

text \<open>The operations that do not touch the run tables keep the invariant trivially.\<close>

lemma frame_ops_wf:
  "record_repository_establishment env e s = Inr (s', sn) \<Longrightarrow> run_wf s \<Longrightarrow> run_wf s'"
  "record_rejected_review env now run_id res review n s = Inr (s', r) \<Longrightarrow> run_wf s \<Longrightarrow> run_wf s'"
  "reserve_planned_call i s = Inr (s', o1) \<Longrightarrow> run_wf s \<Longrightarrow> run_wf s'"
  "mark_planned_call_dispatching j f s = Inr (s', u) \<Longrightarrow> run_wf s \<Longrightarrow> run_wf s'"
  "complete_planned_call env j f te st s = Inr (s', te') \<Longrightarrow> run_wf s \<Longrightarrow> run_wf s'"
  "record_audit env dump audit s = Inr (s', u) \<Longrightarrow> run_wf s \<Longrightarrow> run_wf s'"
  using record_repository_establishment_frame record_rejected_review_frame
    reserve_planned_call_frame mark_planned_call_dispatching_frame complete_planned_call_frame
    record_audit_frame
  by (metis run_wf_frame)+

lemmas op_wf = start_or_resume_wf [rotated] accept_plan_wf [rotated]
  mark_awaiting_approval_wf [rotated] start_run_wf [rotated] claim_task_wf [rotated]
  mark_validating_wf [rotated] mark_task_failure_wf [rotated] cancel_run_wf [rotated]
  settle_cancellation_wf [rotated] accept_result_wf [rotated] frame_ops_wf

lemma step_wf: "run_wf s \<Longrightarrow> run_wf (step env x s)"
proof (cases x)
  case (OtherTools xs bs ms)
  assume "run_wf s"
  moreover have "run_wf (s\<lparr>execution_sessions := xs, browser_sessions := bs, mcp_calls := ms\<rparr>) =
      run_wf s" by (rule run_wf_cong) simp_all
  ultimately show ?thesis by (simp add: OtherTools)
next
  case (RecoverInterrupted now run_id)
  assume "run_wf s"
  then show ?thesis by (simp add: RecoverInterrupted recover_interrupted_wf)
qed (simp only: step.simps; rule commit_keeps [where P = run_wf]; (assumption | erule op_wf))+

interpretation store_machine: machine_invariant "step env" run_wf for env
  by unfold_locales (rule step_wf)

end
