(* ===== verification/Schedules.thy ===== *)
theory Schedules
  imports RunMachine Complex_Main
begin

section \<open>Schedules and their occurrences\<close>

text \<open>
  The contracts of \<open>scheduling/models.py\<close>, the repository of \<open>scheduling/repository.py\<close> and the
  mutations of \<open>scheduling/service.py\<close>. A row keeps the record its payload was dumped from; the
  other columns are fields of the record. Reading a row validates the payload again, so a read
  can fail. Stored times are ISO strings in UTC, whose order is the order of the instants.
\<close>

subsection \<open>Contracts\<close>

datatype schedule_state = ScheduleActive | SchedulePaused | ScheduleCompleted | ScheduleRemoved

datatype overlap_mode = OverlapBlock | OverlapAllow

datatype occurrence_source = FromInternal | FromManual | FromExternal

datatype occurrence_state =
  OPending | ODispatching | ORetryWaiting | OAccepted | OMisfired | OCoalesced | OOverlapBlocked
  | OFailed | OCancelled | OUncertain

record cron_spec =
  ct_expression :: string
  ct_timezone :: string

datatype schedule_trigger = DateTrigger instant | CronTrigger cron_spec

record mission_request =
  ms_project_id :: string
  ms_workspace_id :: "string option"
  ms_objective :: string
  ms_outcome_id :: "string option"
  ms_template_reference :: "template_reference option"
  ms_inputs :: "(string \<times> string) list"

record schedule_record =
  sr_id :: string
  sr_mission :: mission_request
  sr_trigger :: schedule_trigger
  sr_state :: schedule_state
  sr_overlap_key :: string
  sr_overlap_mode :: overlap_mode
  sr_created_by :: string
  sr_policy_fingerprint :: string
  sr_next_fire_at :: "instant option"
  sr_last_evaluated_at :: "instant option"
  sr_revision :: int
  sr_created_at :: instant
  sr_updated_at :: instant

record schedule_occurrence =
  oc_id :: string
  oc_key :: string
  oc_schedule_id :: string
  oc_schedule_revision :: int
  oc_source :: occurrence_source
  oc_state :: occurrence_state
  oc_scheduled_for :: instant
  oc_attempt_count :: int
  oc_run_command_id :: "string option"
  oc_run_id :: "string option"
  oc_next_attempt_at :: "instant option"
  oc_error_code :: "error_code option"
  oc_error_message :: "string option"
  oc_created_at :: instant
  oc_updated_at :: instant

record schedule_create_request =
  sq_schedule_id :: string
  sq_mission :: mission_request
  sq_trigger :: schedule_trigger
  sq_overlap_mode :: overlap_mode

record schedule_fire_request =
  sf_source :: occurrence_source
  sf_observed_at :: instant

text \<open>
  The configuration, and what the code takes from libraries: SHA-256, the JSON text of the
  mission context, the ISO text of an instant, the name-based identifier of a command, and the
  next instant of a cron expression after a previous one (None when there is none, an
  expression that APScheduler refuses is not valid).
\<close>

record scheduling_env =
  se_misfire_grace_seconds :: int
  se_coalesce :: bool
  se_max_catch_up :: nat
  se_max_attempts :: int
  se_retry_initial :: rat
  se_retry_multiplier :: rat
  se_retry_max :: rat
  se_sha256 :: "string \<Rightarrow> string"
  se_dump_context :: "template_reference option \<Rightarrow> (string \<times> string) list \<Rightarrow> string"
  se_isoformat :: "instant \<Rightarrow> string"
  se_command_id :: "string \<Rightarrow> int \<Rightarrow> string"
  se_cron_valid :: "cron_spec \<Rightarrow> bool"
  se_cron_next :: "cron_spec \<Rightarrow> instant option \<Rightarrow> instant \<Rightarrow> instant option"

definition bounded_length :: "nat \<Rightarrow> nat \<Rightarrow> string \<Rightarrow> bool" where
  "bounded_length lo hi v \<longleftrightarrow> lo \<le> length v \<and> length v \<le> hi"

definition target_key :: "scheduling_env \<Rightarrow> mission_request \<Rightarrow> string" where
  "target_key env m =
     (let kind = (if ms_workspace_id m \<noteq> None then ''workspace'' else ''project'');
          identity = (case ms_workspace_id m of
            Some w \<Rightarrow> if w \<noteq> [] then w else ms_project_id m | None \<Rightarrow> ms_project_id m)
      in kind @ '':sha256:'' @ se_sha256 env (kind @ '':'' @ identity))"

definition rendered_objective :: "scheduling_env \<Rightarrow> mission_request \<Rightarrow> string" where
  "rendered_objective env m =
     (if ms_template_reference m = None \<and> ms_inputs m = [] then ms_objective m
      else ms_objective m @ [CHR 0x0A, CHR 0x0A] @ ''MISHKAN scheduled mission context (data):'' @
        [CHR 0x0A] @ se_dump_context env (ms_template_reference m) (ms_inputs m))"

definition mission_request_valid :: "scheduling_env \<Rightarrow> mission_request \<Rightarrow> bool" where
  "mission_request_valid env m \<longleftrightarrow>
     bounded_length 1 256 (ms_project_id m) \<and>
     (case ms_workspace_id m of None \<Rightarrow> True | Some w \<Rightarrow> bounded_length 1 256 w) \<and>
     bounded_length 3 8192 (ms_objective m) \<and>
     (case ms_outcome_id m of None \<Rightarrow> True | Some u \<Rightarrow> bounded_length 1 160 u) \<and>
     (ms_workspace_id m = None) = (ms_outcome_id m = None) \<and>
     length (ms_inputs m) \<le> 256 \<and>
     list_all (\<lambda>(k, v). bounded_length 1 256 k \<and> length v \<le> 16384) (ms_inputs m) \<and>
     length (rendered_objective env m) \<le> 2000"

definition schedule_valid :: "scheduling_env \<Rightarrow> schedule_record \<Rightarrow> bool" where
  "schedule_valid env r \<longleftrightarrow>
     mission_request_valid env (sr_mission r) \<and>
     bounded_length 1 256 (sr_overlap_key r) \<and> bounded_length 1 256 (sr_created_by r) \<and>
     length (sr_policy_fingerprint r) = 64 \<and>
     list_all (\<lambda>c. c \<in> set ''0123456789abcdef'') (sr_policy_fingerprint r) \<and>
     1 \<le> sr_revision r \<and> sr_overlap_key r = target_key env (sr_mission r) \<and>
     (sr_state r = ScheduleCompleted \<longrightarrow> sr_next_fire_at r = None)"

text \<open>\<open>ScheduleOccurrence\<close>: the bounds of the fields, and \<open>state_fields_are_coherent\<close>.\<close>

definition state_fields_are_coherent :: "schedule_occurrence \<Rightarrow> bool" where
  "state_fields_are_coherent r \<longleftrightarrow>
     (oc_state r = OAccepted \<longrightarrow> oc_run_command_id r \<noteq> None \<and> oc_run_id r \<noteq> None) \<and>
     (oc_state r = ORetryWaiting \<longleftrightarrow> oc_next_attempt_at r \<noteq> None)"

definition occurrence_valid :: "schedule_occurrence \<Rightarrow> bool" where
  "occurrence_valid r \<longleftrightarrow>
     bounded_length 1 256 (oc_key r) \<and> 1 \<le> oc_schedule_revision r \<and> 0 \<le> oc_attempt_count r \<and>
     (case oc_run_id r of None \<Rightarrow> True | Some i \<Rightarrow> bounded_length 1 256 i) \<and>
     (case oc_error_message r of None \<Rightarrow> True | Some m \<Rightarrow> bounded_length 1 4096 m) \<and>
     state_fields_are_coherent r"

subsection \<open>The repository\<close>

record scheduling =
  sg_store :: store
  sg_schedules :: "schedule_record list"
  sg_occurrences :: "schedule_occurrence list"

definition stored_schedule :: "scheduling_env \<Rightarrow> schedule_record \<Rightarrow> schedule_record result" where
  "stored_schedule env row =
     (if schedule_valid env row then Inr row else Inl (ValueError ''schedule payload is invalid''))"

definition stored_occurrence :: "schedule_occurrence \<Rightarrow> schedule_occurrence result" where
  "stored_occurrence row =
     (if occurrence_valid row then Inr row else Inl (ValueError ''occurrence payload is invalid''))"

definition schedule_of :: "scheduling_env \<Rightarrow> string \<Rightarrow> scheduling \<Rightarrow> schedule_record result" where
  "schedule_of env k s =
     ebind (from_option (MishkanError SCHEDULE ''schedule does not exist'')
       (tbl_get sr_id k (sg_schedules s))) (stored_schedule env)"

definition occurrence_of :: "string \<Rightarrow> scheduling \<Rightarrow> schedule_occurrence result" where
  "occurrence_of k s =
     ebind (from_option (MishkanError SCHEDULE ''schedule occurrence does not exist'')
       (tbl_get oc_id k (sg_occurrences s))) stored_occurrence"

definition occurrence_key :: "scheduling_env \<Rightarrow> string \<Rightarrow> instant \<Rightarrow> string" where
  "occurrence_key env schedule_id scheduled_for =
     ''scheduled:'' @ schedule_id @ '':'' @ se_isoformat env scheduled_for"

definition schedule_event :: "string \<Rightarrow> string \<Rightarrow> scheduling \<Rightarrow> scheduling" where
  "schedule_event aggregate_id event_type s =
     s\<lparr>sg_store := (sg_store s)\<lparr>outbox := outbox (sg_store s) @
       [\<lparr>ev_id = None, ev_aggregate_id = aggregate_id, ev_task_id = None, ev_identity_id = None,
         ev_security_relevant = False, ev_event_type = event_type,
         ev_source = ''mishkand.scheduling''\<rparr>]\<rparr>\<rparr>"

text \<open>
  Records compare as Python values: the inputs of the mission are a dictionary, whose order does
  not count (its keys are distinct).
\<close>

definition same_schedule :: "schedule_record \<Rightarrow> schedule_record \<Rightarrow> bool" where
  "same_schedule a b \<longleftrightarrow>
     (let ordered = (\<lambda>r. r\<lparr>sr_mission := (sr_mission r)\<lparr>ms_inputs := []\<rparr>\<rparr>)
      in ordered a = ordered b \<and> set (ms_inputs (sr_mission a)) = set (ms_inputs (sr_mission b)))"

definition create_in_session ::
  "scheduling_env \<Rightarrow> schedule_record \<Rightarrow> scheduling \<Rightarrow> (scheduling \<times> schedule_record) result" where
  "create_in_session env r s =
     (case tbl_get sr_id (sr_id r) (sg_schedules s) of
        Some row \<Rightarrow>
          ebind (stored_schedule env row) (\<lambda>durable.
            if \<not> same_schedule durable r
            then Inl (MishkanError DUPLICATE_RESULT
              ''schedule identity already contains different content'')
            else Inr (s, durable))
      | None \<Rightarrow> Inr (s\<lparr>sg_schedules := sg_schedules s @ [r]\<rparr>, r))"

definition update_schedule_in_session ::
  "scheduling_env \<Rightarrow> instant \<Rightarrow> string \<Rightarrow> int \<Rightarrow> schedule_state \<Rightarrow> instant option \<Rightarrow> instant option
   \<Rightarrow> scheduling \<Rightarrow> (scheduling \<times> schedule_record) result" where
  "update_schedule_in_session env now k expected_revision st next_fire evaluated s =
     ebind (schedule_of env k s) (\<lambda>current.
       if sr_revision current \<noteq> expected_revision
       then Inl (MishkanError REVISION_MISMATCH ''schedule revision changed'')
       else let updated = current\<lparr>sr_state := st, sr_next_fire_at := next_fire,
                  sr_last_evaluated_at := (case evaluated of
                    None \<Rightarrow> sr_last_evaluated_at current | Some t \<Rightarrow> Some t),
                  sr_revision := sr_revision current + 1, sr_updated_at := now\<rparr>
            in Inr (s\<lparr>sg_schedules := tbl_upd sr_id k (\<lambda>_. updated) (sg_schedules s)\<rparr>, updated))"

definition find_occurrence :: "string \<Rightarrow> string \<Rightarrow> scheduling \<Rightarrow> schedule_occurrence option" where
  "find_occurrence schedule_id key s =
     find (\<lambda>r. oc_schedule_id r = schedule_id \<and> oc_key r = key) (sg_occurrences s)"

definition create_occurrence_in_session ::
  "schedule_occurrence \<Rightarrow> scheduling \<Rightarrow> (scheduling \<times> schedule_occurrence) result" where
  "create_occurrence_in_session r s =
     (if tbl_get sr_id (oc_schedule_id r) (sg_schedules s) = None
      then Inl (MishkanError SCHEDULE ''schedule does not exist'')
      else case find_occurrence (oc_schedule_id r) (oc_key r) s of
        Some row \<Rightarrow>
          ebind (stored_occurrence row) (\<lambda>durable.
            if oc_scheduled_for durable \<noteq> oc_scheduled_for r \<or>
               oc_schedule_id durable \<noteq> oc_schedule_id r
            then Inl (MishkanError DUPLICATE_RESULT
              ''schedule occurrence key already contains different content'')
            else Inr (s, durable))
      | None \<Rightarrow>
          ebind (tbl_insert oc_id r (sg_occurrences s)) (\<lambda>rows.
            Inr (s\<lparr>sg_occurrences := rows\<rparr>, r)))"

text \<open>The same operations in a transaction of their own, with the event they record.\<close>

definition create_stored ::
  "scheduling_env \<Rightarrow> instant \<Rightarrow> schedule_create_request \<Rightarrow> string \<Rightarrow> string \<Rightarrow> instant
   \<Rightarrow> scheduling \<Rightarrow> (scheduling \<times> schedule_record) result" where
  "create_stored env now req actor policy_fingerprint fire_at s =
     (let r = \<lparr>sr_id = sq_schedule_id req, sr_mission = sq_mission req, sr_trigger = sq_trigger req,
           sr_state = ScheduleActive, sr_overlap_key = target_key env (sq_mission req),
           sr_overlap_mode = sq_overlap_mode req, sr_created_by = actor,
           sr_policy_fingerprint = policy_fingerprint, sr_next_fire_at = Some fire_at,
           sr_last_evaluated_at = None, sr_revision = 1, sr_created_at = now, sr_updated_at = now\<rparr>
      in ebind (stored_schedule env r) (\<lambda>r.
         ebind (create_in_session env r s) (\<lambda>(s1, durable).
           Inr (schedule_event (sr_id durable) ''schedule.created'' s1, durable))))"

definition update_schedule ::
  "scheduling_env \<Rightarrow> instant \<Rightarrow> string \<Rightarrow> int \<Rightarrow> schedule_state \<Rightarrow> instant option \<Rightarrow> string
   \<Rightarrow> instant option \<Rightarrow> scheduling \<Rightarrow> (scheduling \<times> schedule_record) result" where
  "update_schedule env now k expected_revision st next_fire event_type evaluated s =
     ebind (update_schedule_in_session env now k expected_revision st next_fire evaluated s)
       (\<lambda>(s1, updated). Inr (schedule_event k event_type s1, updated))"

definition create_occurrence ::
  "instant \<Rightarrow> string \<Rightarrow> schedule_record \<Rightarrow> string \<Rightarrow> occurrence_source \<Rightarrow> instant
   \<Rightarrow> scheduling \<Rightarrow> (scheduling \<times> schedule_occurrence) result" where
  "create_occurrence now new_id sched key source scheduled_for s =
     ebind (stored_occurrence \<lparr>oc_id = new_id, oc_key = key, oc_schedule_id = sr_id sched,
         oc_schedule_revision = sr_revision sched, oc_source = source, oc_state = OPending,
         oc_scheduled_for = scheduled_for, oc_attempt_count = 0, oc_run_command_id = None,
         oc_run_id = None, oc_next_attempt_at = None, oc_error_code = None,
         oc_error_message = None, oc_created_at = now, oc_updated_at = now\<rparr>) (\<lambda>r.
     ebind (create_occurrence_in_session r s) (\<lambda>(s1, durable).
       Inr (schedule_event (sr_id sched) ''schedule.occurrence_created'' s1, durable)))"

definition upd_occurrence ::
  "string \<Rightarrow> (schedule_occurrence \<Rightarrow> schedule_occurrence) \<Rightarrow> scheduling \<Rightarrow> scheduling" where
  "upd_occurrence k f s = s\<lparr>sg_occurrences := tbl_upd oc_id k f (sg_occurrences s)\<rparr>"

definition claim_dispatch ::
  "instant \<Rightarrow> string \<Rightarrow> string \<Rightarrow> scheduling \<Rightarrow> (scheduling \<times> schedule_occurrence) result" where
  "claim_dispatch now k run_command_id s =
     ebind (occurrence_of k s) (\<lambda>current.
       if oc_state current = ODispatching
       then (if oc_run_command_id current \<noteq> Some run_command_id
             then Inl (MishkanError REVISION_MISMATCH
               ''schedule occurrence is already dispatching another command'')
             else Inr (s, current))
       else if oc_state current \<notin> {OPending, ORetryWaiting}
       then Inl (MishkanError REVISION_MISMATCH ''schedule occurrence is not dispatchable'')
       else let updated = current\<lparr>oc_state := ODispatching,
                  oc_attempt_count := oc_attempt_count current + 1,
                  oc_run_command_id := Some run_command_id, oc_next_attempt_at := None,
                  oc_error_code := None, oc_error_message := None, oc_updated_at := now\<rparr>
            in Inr (schedule_event (oc_schedule_id updated) ''schedule.occurrence_dispatching''
                      (upd_occurrence k (\<lambda>_. updated) s), updated))"

definition terminal :: "occurrence_state \<Rightarrow> bool" where
  "terminal st \<longleftrightarrow> st \<in> {OAccepted, OMisfired, OCoalesced, OOverlapBlocked, OFailed, OCancelled,
     OUncertain}"

fun state_name :: "occurrence_state \<Rightarrow> string" where
  "state_name OPending = ''pending''"
| "state_name ODispatching = ''dispatching''"
| "state_name ORetryWaiting = ''retry_waiting''"
| "state_name OAccepted = ''accepted''"
| "state_name OMisfired = ''misfired''"
| "state_name OCoalesced = ''coalesced''"
| "state_name OOverlapBlocked = ''overlap_blocked''"
| "state_name OFailed = ''failed''"
| "state_name OCancelled = ''cancelled''"
| "state_name OUncertain = ''uncertain''"

record settlement =
  st_state :: occurrence_state
  st_run_id :: "string option"
  st_next_attempt_at :: "instant option"
  st_error_code :: "error_code option"
  st_error_message :: "string option"

definition settle_occurrence ::
  "instant \<Rightarrow> string \<Rightarrow> settlement \<Rightarrow> scheduling \<Rightarrow> (scheduling \<times> schedule_occurrence) result" where
  "settle_occurrence now k x s =
     (if st_state x \<in> {OPending, ODispatching}
      then Inl (MishkanError SCHEDULE ''invalid occurrence settlement state'')
      else ebind (occurrence_of k s) (\<lambda>current.
        if terminal (oc_state current)
        then (if oc_state current = st_state x \<and> oc_run_id current = st_run_id x
              then Inr (s, current)
              else Inl (MishkanError REVISION_MISMATCH ''schedule occurrence is already terminal''))
        else let updated = current\<lparr>oc_state := st_state x, oc_run_id := st_run_id x,
                   oc_next_attempt_at := st_next_attempt_at x, oc_error_code := st_error_code x,
                   oc_error_message := st_error_message x, oc_updated_at := now\<rparr>
             in Inr (schedule_event (oc_schedule_id updated)
                       (''schedule.occurrence_'' @ state_name (st_state x))
                       (upd_occurrence k (\<lambda>_. updated) s), updated)))"

text \<open>The two queries of \<open>has_active_overlap\<close>: they join the rows, and read no payload.\<close>

definition shares_target :: "string \<Rightarrow> scheduling \<Rightarrow> schedule_occurrence \<Rightarrow> bool" where
  "shares_target overlap_key s r \<longleftrightarrow>
     (case tbl_get sr_id (oc_schedule_id r) (sg_schedules s) of
        None \<Rightarrow> False | Some row \<Rightarrow> sr_overlap_key row = overlap_key)"

definition terminal_run :: "run_state \<Rightarrow> bool" where
  "terminal_run st \<longleftrightarrow> st \<in> {RCompleted, RFailed, RCancelled}"

definition run_open :: "schedule_occurrence \<Rightarrow> scheduling \<Rightarrow> bool" where
  "run_open r s \<longleftrightarrow>
     (case oc_run_id r of None \<Rightarrow> False
      | Some k \<Rightarrow> (case get_run (sg_store s) k of
                     None \<Rightarrow> False | Some run \<Rightarrow> \<not> terminal_run (rn_status run)))"

definition has_active_overlap :: "schedule_record \<Rightarrow> string \<Rightarrow> scheduling \<Rightarrow> bool" where
  "has_active_overlap sched excluding s \<longleftrightarrow>
     list_ex (\<lambda>r. shares_target (sr_overlap_key sched) s r \<and> oc_id r \<noteq> excluding \<and>
       oc_state r = ODispatching) (sg_occurrences s) \<or>
     list_ex (\<lambda>r. shares_target (sr_overlap_key sched) s r \<and> oc_id r \<noteq> excluding \<and>
       oc_state r = OAccepted \<and> run_open r s) (sg_occurrences s)"

subsection \<open>Queries\<close>

definition list_schedules ::
  "scheduling_env \<Rightarrow> schedule_state option \<Rightarrow> int \<Rightarrow> int \<Rightarrow> scheduling \<Rightarrow> schedule_record list result" where
  "list_schedules env st offset limit s =
     (if offset < 0 \<or> limit < 1 \<or> 10000 < limit
      then Inl (MishkanError SCHEDULE ''schedule query bounds are invalid'')
      else traverse (stored_schedule env) (take (nat limit) (drop (nat offset)
        (sort_key sr_created_at (sort_key sr_id
          (filter (\<lambda>r. case st of None \<Rightarrow> True | Some x \<Rightarrow> sr_state r = x) (sg_schedules s)))))))"

definition list_occurrences ::
  "string option \<Rightarrow> int \<Rightarrow> int \<Rightarrow> scheduling \<Rightarrow> schedule_occurrence list result" where
  "list_occurrences schedule_id offset limit s =
     (if offset < 0 \<or> limit < 1 \<or> 10000 < limit
      then Inl (MishkanError SCHEDULE ''schedule history bounds are invalid'')
      else traverse stored_occurrence (take (nat limit) (drop (nat offset)
        (sort_key (\<lambda>r. - oc_scheduled_for r) (sort_key oc_id
          (filter (\<lambda>r. case schedule_id of None \<Rightarrow> True | Some k \<Rightarrow> oc_schedule_id r = k)
            (sg_occurrences s)))))))"

definition due_schedules :: "scheduling_env \<Rightarrow> instant \<Rightarrow> nat \<Rightarrow> scheduling \<Rightarrow> schedule_record list result" where
  "due_schedules env now limit s =
     traverse (stored_schedule env) (take limit
       (sort_key (\<lambda>r. the (sr_next_fire_at r)) (sort_key sr_id
         (filter (\<lambda>r. sr_state r = ScheduleActive \<and>
            (case sr_next_fire_at r of None \<Rightarrow> False | Some t \<Rightarrow> t \<le> now)) (sg_schedules s)))))"

definition due_retries :: "instant \<Rightarrow> nat \<Rightarrow> scheduling \<Rightarrow> schedule_occurrence list result" where
  "due_retries now limit s =
     traverse stored_occurrence (take limit
       (sort_key (\<lambda>r. the (oc_next_attempt_at r)) (sort_key oc_id
         (filter (\<lambda>r. oc_state r = ORetryWaiting \<and>
            (case oc_next_attempt_at r of None \<Rightarrow> False | Some t \<Rightarrow> t \<le> now)) (sg_occurrences s)))))"

definition interrupted_dispatches :: "nat \<Rightarrow> scheduling \<Rightarrow> schedule_occurrence list result" where
  "interrupted_dispatches limit s =
     traverse stored_occurrence (take limit (sort_key oc_updated_at (sort_key oc_id
       (filter (\<lambda>r. oc_state r = ODispatching) (sg_occurrences s)))))"

definition pending_occurrences :: "nat \<Rightarrow> scheduling \<Rightarrow> schedule_occurrence list result" where
  "pending_occurrences limit s =
     traverse stored_occurrence (take limit (sort_key oc_created_at (sort_key oc_id
       (filter (\<lambda>r. oc_state r = OPending) (sg_occurrences s)))))"

subsection \<open>The trigger clock\<close>

definition trigger_initial :: "scheduling_env \<Rightarrow> schedule_trigger \<Rightarrow> instant \<Rightarrow> instant result" where
  "trigger_initial env trigger now =
     (case trigger of
        DateTrigger run_at \<Rightarrow>
          if run_at \<le> now
          then Inl (MishkanError SCHEDULE ''one-shot schedule must be created for a future instant'')
          else Inr run_at
      | CronTrigger c \<Rightarrow>
          if \<not> se_cron_valid env c then Inl (MishkanError SCHEDULE ''cron expression is invalid'')
          else from_option (MishkanError SCHEDULE ''cron schedule has no future occurrence'')
                 (se_cron_next env c None now))"

definition next_after :: "scheduling_env \<Rightarrow> schedule_trigger \<Rightarrow> instant \<Rightarrow> instant option result" where
  "next_after env trigger previous =
     (case trigger of
        DateTrigger run_at \<Rightarrow> Inr None
      | CronTrigger c \<Rightarrow>
          if \<not> se_cron_valid env c then Inl (MishkanError SCHEDULE ''cron expression is invalid'')
          else Inr (se_cron_next env c (Some previous) previous))"

subsection \<open>Mutations\<close>

definition create_schedule ::
  "scheduling_env \<Rightarrow> instant \<Rightarrow> schedule_create_request \<Rightarrow> string \<Rightarrow> string \<Rightarrow> int
   \<Rightarrow> scheduling \<Rightarrow> (scheduling \<times> schedule_record) result" where
  "create_schedule env now req actor policy_fingerprint revision s =
     ebind (trigger_initial env (sq_trigger req) now) (\<lambda>next_fire.
       let r = \<lparr>sr_id = sq_schedule_id req, sr_mission = sq_mission req, sr_trigger = sq_trigger req,
             sr_state = ScheduleActive, sr_overlap_key = target_key env (sq_mission req),
             sr_overlap_mode = sq_overlap_mode req, sr_created_by = actor,
             sr_policy_fingerprint = policy_fingerprint, sr_next_fire_at = Some next_fire,
             sr_last_evaluated_at = None, sr_revision = revision, sr_created_at = now,
             sr_updated_at = now\<rparr>
       in ebind (stored_schedule env r) (\<lambda>r. create_in_session env r s))"

definition transition ::
  "scheduling_env \<Rightarrow> instant \<Rightarrow> string \<Rightarrow> schedule_state \<Rightarrow> int
   \<Rightarrow> scheduling \<Rightarrow> (scheduling \<times> schedule_record) result" where
  "transition env now k st expected_revision s =
     ebind (schedule_of env k s) (\<lambda>current.
       if sr_state current = ScheduleRemoved
       then Inl (MishkanError SCHEDULE ''removed schedule cannot transition'')
       else if st = ScheduleActive \<and> sr_state current = ScheduleCompleted
       then Inl (MishkanError SCHEDULE ''completed one-shot schedule cannot resume'')
       else update_schedule_in_session env now k expected_revision st
              (if st = ScheduleRemoved then None else sr_next_fire_at current) None s)"

definition run_now ::
  "scheduling_env \<Rightarrow> instant \<Rightarrow> string \<Rightarrow> string \<Rightarrow> string \<Rightarrow> int
   \<Rightarrow> scheduling \<Rightarrow> (scheduling \<times> schedule_record \<times> schedule_occurrence) result" where
  "run_now env now new_id k command_id expected_revision s =
     ebind (schedule_of env k s) (\<lambda>current.
       if sr_state current = ScheduleRemoved
       then Inl (MishkanError SCHEDULE ''removed schedule cannot run'')
       else
         let r = \<lparr>oc_id = new_id, oc_key = ''manual:'' @ k @ '':'' @ command_id, oc_schedule_id = k,
               oc_schedule_revision = sr_revision current, oc_source = FromManual,
               oc_state = OPending, oc_scheduled_for = now, oc_attempt_count = 0,
               oc_run_command_id = None, oc_run_id = None, oc_next_attempt_at = None,
               oc_error_code = None, oc_error_message = None, oc_created_at = now,
               oc_updated_at = now\<rparr>
         in ebind (stored_occurrence r) (\<lambda>r.
            ebind (create_occurrence_in_session r s) (\<lambda>(s1, durable).
            ebind (update_schedule_in_session env now k expected_revision (sr_state current)
                     (sr_next_fire_at current) (Some now) s1) (\<lambda>(s2, updated).
              Inr (s2, updated, durable)))))"

text \<open>
  \<open>_due_slots\<close>: the loop runs while fewer than the bound are collected, so the bound is its
  fuel; the value it starts from is due.
\<close>

fun slots_from :: "scheduling_env \<Rightarrow> schedule_trigger \<Rightarrow> instant \<Rightarrow> nat \<Rightarrow> instant option \<Rightarrow> instant list result" where
  "slots_from env trigger observed 0 candidate = Inr []"
| "slots_from env trigger observed (Suc n) None = Inr []"
| "slots_from env trigger observed (Suc n) (Some c) =
     (if c \<le> observed
      then ebind (next_after env trigger c) (\<lambda>next_slot.
           ebind (slots_from env trigger observed n next_slot) (\<lambda>slots. Inr (c # slots)))
      else Inr [])"

definition due_slots :: "scheduling_env \<Rightarrow> schedule_record \<Rightarrow> instant \<Rightarrow> instant list result" where
  "due_slots env r observed =
     (case sr_next_fire_at r of
        None \<Rightarrow> Inl AssertionError
      | Some c \<Rightarrow>
          ebind (slots_from env (sr_trigger r) observed (se_max_catch_up env) (Some c)) (\<lambda>slots.
            if slots = [] then Inl (MishkanError SCHEDULE ''schedule has no due occurrence'')
            else Inr slots))"

definition fired_occurrence ::
  "scheduling_env \<Rightarrow> instant \<Rightarrow> string \<Rightarrow> schedule_record \<Rightarrow> instant \<Rightarrow> occurrence_source
   \<Rightarrow> occurrence_state \<Rightarrow> string option \<Rightarrow> schedule_occurrence" where
  "fired_occurrence env now new_id sched slot source st message =
     \<lparr>oc_id = new_id, oc_key = occurrence_key env (sr_id sched) slot, oc_schedule_id = sr_id sched,
      oc_schedule_revision = sr_revision sched, oc_source = source, oc_state = st,
      oc_scheduled_for = slot, oc_attempt_count = 0, oc_run_command_id = None, oc_run_id = None,
      oc_next_attempt_at = None, oc_error_code = (if st \<noteq> OPending then Some SCHEDULE else None),
      oc_error_message = message, oc_created_at = now, oc_updated_at = now\<rparr>"

fun create_occurrences :: "schedule_occurrence list \<Rightarrow> scheduling \<Rightarrow> scheduling result" where
  "create_occurrences [] s = Inr s"
| "create_occurrences (r # rs) s =
     ebind (create_occurrence_in_session r s) (\<lambda>(s1, _). create_occurrences rs s1)"

definition coalesced_occurrences ::
  "scheduling_env \<Rightarrow> instant \<Rightarrow> (nat \<Rightarrow> string) \<Rightarrow> schedule_record \<Rightarrow> occurrence_source
   \<Rightarrow> instant list \<Rightarrow> schedule_occurrence list" where
  "coalesced_occurrences env now new_id sched source slots =
     map (\<lambda>(i, slot). fired_occurrence env now (new_id i) sched slot source OCoalesced
       (Some ''coalesced by configured schedule policy'')) (enumerate 0 slots)"

definition misfired :: "scheduling_env \<Rightarrow> instant \<Rightarrow> instant \<Rightarrow> bool" where
  "misfired env observed slot \<longleftrightarrow> se_misfire_grace_seconds env * 1000000 < observed - slot"

definition fire ::
  "scheduling_env \<Rightarrow> instant \<Rightarrow> (nat \<Rightarrow> string) \<Rightarrow> string \<Rightarrow> schedule_fire_request \<Rightarrow> int
   \<Rightarrow> scheduling \<Rightarrow> (scheduling \<times> schedule_record \<times> schedule_occurrence \<times> schedule_occurrence list) result" where
  "fire env now new_id k req expected_revision s =
     ebind (schedule_of env k s) (\<lambda>current.
       if sr_state current \<noteq> ScheduleActive \<or> sr_next_fire_at current = None
       then Inl (MishkanError SCHEDULE ''schedule is not active'')
       else if sf_observed_at req < the (sr_next_fire_at current)
       then Inl (MishkanError SCHEDULE ''schedule trigger arrived before the next due instant'')
       else ebind (due_slots env current (sf_observed_at req)) (\<lambda>due.
         let selected = (if se_coalesce env then last due else hd due);
             coalesced = coalesced_occurrences env now new_id current (sf_source req)
               (if se_coalesce env then butlast due else []);
             late = misfired env (sf_observed_at req) selected;
             r = fired_occurrence env now (new_id (length due)) current selected (sf_source req)
               (if late then OMisfired else OPending)
               (if late then Some ''schedule occurrence exceeded its configured misfire grace''
                else None)
         in ebind (traverse stored_occurrence coalesced) (\<lambda>coalesced.
            ebind (create_occurrences coalesced s) (\<lambda>s1.
            ebind (stored_occurrence r) (\<lambda>r.
            ebind (create_occurrence_in_session r s1) (\<lambda>(s2, durable).
            ebind (next_after env (sr_trigger current) selected) (\<lambda>next_fire.
            ebind (update_schedule_in_session env now k expected_revision
                     (if next_fire \<noteq> None then ScheduleActive else ScheduleCompleted)
                     next_fire (Some (sf_observed_at req)) s2) (\<lambda>(s3, updated).
              Inr (s3, updated, durable, coalesced)))))))))"

end
