(* ===== verification/ScheduleDriver.thy ===== *)
theory ScheduleDriver
  imports Schedules
begin

section \<open>The schedule driver\<close>

text \<open>
  \<open>scheduling/driver.py\<close>: dispatch of occurrences under the dispatch lock, settlement of the
  commands they start, and reconciliation after a restart. A coroutine is cut at its awaits:
  every function below is the code between two of them, and any others run in between. The
  driver keeps, besides the durable state, the lock with what its holder has read, and the
  claims that are waiting for the outcome of their command.
\<close>

subsection \<open>Commands and their results\<close>

datatype command_status = CommandAccepted | CommandRefused | CommandDuplicate

record error_envelope =
  ee_code :: error_code
  ee_message :: string
  ee_retryable :: bool

record command_result =
  cx_status :: command_status
  cx_payload :: "(string \<times> json) list"
  cx_error :: "error_envelope option"

record run_command =
  rc_command_id :: string
  rc_command_type :: string
  rc_actor_id :: string
  rc_payload :: "(string \<times> string) list"

definition run_command_of ::
  "scheduling_env \<Rightarrow> schedule_record \<Rightarrow> schedule_occurrence \<Rightarrow> run_command result" where
  "run_command_of env sched r =
     (case oc_run_command_id r of
        None \<Rightarrow> Inl AssertionError
      | Some command_id \<Rightarrow>
          (case ms_workspace_id (sr_mission sched) of
             None \<Rightarrow> Inr \<lparr>rc_command_id = command_id, rc_command_type = ''run.initialize'',
               rc_actor_id = sr_created_by sched,
               rc_payload = [(''schema_version'', ''1.0''),
                 (''objective'', rendered_objective env (sr_mission sched))]\<rparr>
           | Some w \<Rightarrow>
               (case ms_outcome_id (sr_mission sched) of
                  None \<Rightarrow> Inl AssertionError
                | Some u \<Rightarrow> Inr \<lparr>rc_command_id = command_id, rc_command_type = ''run.prospective.create'',
                    rc_actor_id = sr_created_by sched,
                    rc_payload = [(''schema_version'', ''1.0''), (''workspace_id'', w),
                      (''objective'', rendered_objective env (sr_mission sched)), (''outcome_id'', u)]\<rparr>)))"

subsection \<open>Settlement\<close>

text \<open>\<open>timedelta(seconds=x)\<close> in microseconds: the nearest one, ties to even.\<close>

definition timedelta :: "rat \<Rightarrow> int" where
  "timedelta x =
     (let y = x * 1000000; f = floor y; d = y - of_int f
      in if d < 1 / 2 then f else if 1 / 2 < d then f + 1 else if even f then f else f + 1)"

definition retry_delay :: "scheduling_env \<Rightarrow> int \<Rightarrow> rat" where
  "retry_delay env attempts =
     min (se_retry_initial env * se_retry_multiplier env ^ nat (max 0 (attempts - 1)))
         (se_retry_max env)"

definition uncertain :: "error_code \<Rightarrow> string \<Rightarrow> settlement" where
  "uncertain code message = \<lparr>st_state = OUncertain, st_run_id = None, st_next_attempt_at = None,
     st_error_code = Some code, st_error_message = Some message\<rparr>"

definition settlement_of ::
  "scheduling_env \<Rightarrow> instant \<Rightarrow> schedule_occurrence \<Rightarrow> command_result \<Rightarrow> settlement" where
  "settlement_of env now r result =
     (if cx_status result = CommandAccepted then
        (case map_of (cx_payload result) ''run_id'' of
           Some (JStr run_id) \<Rightarrow>
             if run_id = []
             then uncertain OUTPUT_CONTRACT ''accepted scheduled run omitted its durable run identity''
             else \<lparr>st_state = OAccepted, st_run_id = Some run_id, st_next_attempt_at = None,
                    st_error_code = None, st_error_message = None\<rparr>
         | _ \<Rightarrow> uncertain OUTPUT_CONTRACT ''accepted scheduled run omitted its durable run identity'')
      else (case cx_error result of
          None \<Rightarrow> \<lparr>st_state = OFailed, st_run_id = None, st_next_attempt_at = None,
            st_error_code = Some SCHEDULE, st_error_message = Some ''scheduled run was refused''\<rparr>
        | Some e \<Rightarrow>
            if ee_retryable e \<and> oc_attempt_count r < se_max_attempts env
            then \<lparr>st_state = ORetryWaiting, st_run_id = None,
                   st_next_attempt_at = Some (now + timedelta (retry_delay env (oc_attempt_count r))),
                   st_error_code = Some (ee_code e), st_error_message = Some (ee_message e)\<rparr>
            else \<lparr>st_state = (if ee_code e = RUN_INTERRUPTED then OUncertain else OFailed),
                   st_run_id = None, st_next_attempt_at = None, st_error_code = Some (ee_code e),
                   st_error_message = Some (ee_message e)\<rparr>))"

definition reconciled ::
  "scheduling_env \<Rightarrow> instant \<Rightarrow> (string \<times> command_result) list \<Rightarrow> schedule_occurrence \<Rightarrow> settlement" where
  "reconciled env now stored r =
     (case oc_run_command_id r of
        None \<Rightarrow> uncertain RUN_INTERRUPTED ''dispatching occurrence has no durable run command identity''
      | Some command_id \<Rightarrow>
          (case map_of stored command_id of
             None \<Rightarrow> uncertain RUN_INTERRUPTED ''run command outcome is absent after interrupted dispatch''
           | Some result \<Rightarrow> settlement_of env now r result))"

subsection \<open>The state of the driver\<close>

datatype dispatch_phase = ToCheck | Overlapping | Clear

record driver =
  dr_state :: scheduling
  dr_results :: "(string \<times> command_result) list"
  dr_lock :: "(schedule_occurrence \<times> schedule_record \<times> dispatch_phase) option"
  dr_claims :: "schedule_occurrence list"

definition empty_driver :: driver where
  "empty_driver = \<lparr>dr_state = \<lparr>sg_store = empty_store, sg_schedules = [], sg_occurrences = []\<rparr>,
     dr_results = [], dr_lock = None, dr_claims = []\<rparr>"

definition with_state :: "driver \<Rightarrow> (scheduling \<times> 'a) result \<Rightarrow> driver" where
  "with_state d r = d\<lparr>dr_state := commit (dr_state d) r\<rparr>"

text \<open>The first part of \<open>dispatch\<close>: the occurrence and its schedule are read under the lock.\<close>

definition dispatch_read :: "scheduling_env \<Rightarrow> string \<Rightarrow> driver \<Rightarrow> driver" where
  "dispatch_read env k d =
     (if dr_lock d \<noteq> None then d
      else case occurrence_of k (dr_state d) of
        Inl e \<Rightarrow> d
      | Inr r \<Rightarrow>
          if oc_state r \<notin> {OPending, ORetryWaiting} then d
          else (case schedule_of env (oc_schedule_id r) (dr_state d) of
                  Inl e \<Rightarrow> d
                | Inr sched \<Rightarrow> d\<lparr>dr_lock := Some (r, sched, ToCheck)\<rparr>))"

text \<open>The overlap query.\<close>

definition dispatch_check :: "driver \<Rightarrow> driver" where
  "dispatch_check d =
     (case dr_lock d of
        Some (r, sched, ToCheck) \<Rightarrow>
          d\<lparr>dr_lock := Some (r, sched,
            if sr_overlap_mode sched = OverlapBlock \<and>
               has_active_overlap sched (oc_id r) (dr_state d) then Overlapping else Clear)\<rparr>
      | _ \<Rightarrow> d)"

text \<open>The last part: the occurrence is settled or claimed, and the lock released.\<close>

definition overlap_blocked :: settlement where
  "overlap_blocked = \<lparr>st_state = OOverlapBlocked, st_run_id = None, st_next_attempt_at = None,
     st_error_code = Some SCHEDULE,
     st_error_message = Some ''another run for the same schedule target remains active''\<rparr>"

definition dispatch_finish :: "scheduling_env \<Rightarrow> instant \<Rightarrow> driver \<Rightarrow> driver" where
  "dispatch_finish env now d =
     (case dr_lock d of
        Some (r, sched, Overlapping) \<Rightarrow>
          with_state (d\<lparr>dr_lock := None\<rparr>) (settle_occurrence now (oc_id r) overlap_blocked (dr_state d))
      | Some (r, sched, Clear) \<Rightarrow>
          (case claim_dispatch now (oc_id r) (se_command_id env (oc_id r) (oc_attempt_count r + 1))
                  (dr_state d) of
             Inl e \<Rightarrow> d\<lparr>dr_lock := None\<rparr>
           | Inr (s, claimed) \<Rightarrow>
               d\<lparr>dr_lock := None, dr_state := s, dr_claims := dr_claims d @ [claimed]\<rparr>)
      | _ \<Rightarrow> d)"

text \<open>The outcome of a claim: the result of its command, or what is durable about it.\<close>

definition settle_claim :: "instant \<Rightarrow> nat \<Rightarrow> (schedule_occurrence \<Rightarrow> settlement) \<Rightarrow> driver \<Rightarrow> driver" where
  "settle_claim now i f d =
     (if i < length (dr_claims d)
      then with_state (d\<lparr>dr_claims := take i (dr_claims d) @ drop (Suc i) (dr_claims d)\<rparr>)
             (settle_occurrence now (oc_id (dr_claims d ! i)) (f (dr_claims d ! i)) (dr_state d))
      else d)"

text \<open>
  A restart drops the memory of the driver; \<open>reconcile\<close> then reads the interrupted dispatches,
  before any command is served.
\<close>

definition restart :: "scheduling_env \<Rightarrow> driver \<Rightarrow> driver" where
  "restart env d =
     d\<lparr>dr_lock := None,
       dr_claims := (case interrupted_dispatches (se_max_catch_up env) (dr_state d) of
         Inl e \<Rightarrow> [] | Inr rs \<Rightarrow> rs)\<rparr>"

datatype driver_op =
    CreateSchedule instant schedule_create_request string string int
  | Transition instant string schedule_state int
  | RunNow instant string string string int
  | Fire instant "nat \<Rightarrow> string" string schedule_fire_request int
  | DispatchRead string
  | DispatchCheck
  | DispatchFinish instant
  | CommandReturned instant nat command_result
  | CommandLost instant nat
  | CommandStored string command_result
  | Restart
  | RunStep run_op

fun driver_step :: "environment \<Rightarrow> scheduling_env \<Rightarrow> driver_op \<Rightarrow> driver \<Rightarrow> driver" where
  "driver_step renv env (CreateSchedule now req actor fp n) d =
     with_state d (create_schedule env now req actor fp n (dr_state d))"
| "driver_step renv env (Transition now k st n) d =
     with_state d (transition env now k st n (dr_state d))"
| "driver_step renv env (RunNow now new_id k command_id n) d =
     with_state d (run_now env now new_id k command_id n (dr_state d))"
| "driver_step renv env (Fire now new_id k req n) d =
     with_state d (fire env now new_id k req n (dr_state d))"
| "driver_step renv env (DispatchRead k) d = dispatch_read env k d"
| "driver_step renv env DispatchCheck d = dispatch_check d"
| "driver_step renv env (DispatchFinish now) d = dispatch_finish env now d"
| "driver_step renv env (CommandReturned now i result) d =
     settle_claim now i (\<lambda>r. settlement_of env now r result) d"
| "driver_step renv env (CommandLost now i) d =
     settle_claim now i (reconciled env now (dr_results d)) d"
| "driver_step renv env (CommandStored k result) d =
     (if k \<in> fst ` set (dr_results d) then d
      else d\<lparr>dr_results := dr_results d @ [(k, result)]\<rparr>)"
| "driver_step renv env Restart d = restart env d"
| "driver_step renv env (RunStep x) d =
     d\<lparr>dr_state := (dr_state d)\<lparr>sg_store := step renv x (sg_store (dr_state d))\<rparr>\<rparr>"

end
