(* ===== verification/CommandModel.thy ===== *)
theory CommandModel
  imports ScheduleDriver
begin

section \<open>Commands, receipts and the event stream\<close>

text \<open>
  The envelopes of \<open>application/contracts.py\<close> and \<open>events/models.py\<close>, and the rows
  \<open>SQLiteApplicationRepository\<close> of \<open>persistence/application.py\<close> owns: the commands with their
  receipts, the revision of every aggregate, the outbox with its cursor, evidence holds and
  retention plans. The runs and tasks it only reads are the rows of \<open>RunStore\<close>; the tables the
  mutation of a command writes are the type parameter of \<open>ledger\<close>.
\<close>

type_synonym payload = "(string \<times> json) list"

subsection \<open>Patterns and truth values\<close>

text \<open>\<open>^[a-z][a-z0-9_.-]{lo,hi}$\<close>.\<close>

definition is_lower :: "char \<Rightarrow> bool" where
  "is_lower c \<longleftrightarrow> CHR ''a'' \<le> c \<and> c \<le> CHR ''z''"

definition name_pattern :: "nat \<Rightarrow> nat \<Rightarrow> string \<Rightarrow> bool" where
  "name_pattern lo hi s =
     (case s of [] \<Rightarrow> False
      | c # rest \<Rightarrow> is_lower c \<and> lo \<le> length rest \<and> length rest \<le> hi \<and>
          list_all (\<lambda>x. is_lower x \<or> is_digit x \<or> x \<in> set ''_.-'') rest)"

definition length_between :: "nat \<Rightarrow> nat \<Rightarrow> string \<Rightarrow> bool" where
  "length_between lo hi s \<longleftrightarrow> lo \<le> length s \<and> length s \<le> hi"

definition optional_between :: "nat \<Rightarrow> nat \<Rightarrow> string option \<Rightarrow> bool" where
  "optional_between lo hi x = (case x of None \<Rightarrow> True | Some s \<Rightarrow> length_between lo hi s)"

fun truthy :: "json \<Rightarrow> bool" where
  "truthy JNull = False"
| "truthy (JBool b) = b"
| "truthy (JInt n) = (n \<noteq> 0)"
| "truthy (JStr s) = (s \<noteq> [])"
| "truthy (JList xs) = (xs \<noteq> [])"
| "truthy (JObj xs) = (xs \<noteq> [])"

subsection \<open>The text of the error codes\<close>

fun error_code_text :: "error_code \<Rightarrow> string" where
  "error_code_text CONFIGURATION = ''ERR-CFG-001''"
| "error_code_text PROJECT = ''ERR-PRJ-001''"
| "error_code_text PLAN = ''ERR-PLN-001''"
| "error_code_text AUTHORIZATION_MISSING = ''ERR-PLN-002''"
| "error_code_text DECISION_INSUFFICIENT = ''ERR-DEC-001''"
| "error_code_text DECISION_VALIDATION = ''ERR-DEC-002''"
| "error_code_text AUTHORITY_NOT_GRANTED = ''ERR-POL-001''"
| "error_code_text POLICY_CONFLICT = ''ERR-POL-002''"
| "error_code_text ROLE_CONFLICT = ''ERR-ROL-001''"
| "error_code_text OUTPUT_CONTRACT = ''ERR-OUT-001''"
| "error_code_text REVISION_MISMATCH = ''ERR-REV-001''"
| "error_code_text RUN_INTERRUPTED = ''ERR-RUN-001''"
| "error_code_text DUPLICATE_RESULT = ''ERR-RUN-002''"
| "error_code_text OPTIONAL_DEPENDENCY = ''ERR-DEP-001''"
| "error_code_text REQUIRED_DEPENDENCY = ''ERR-DEP-002''"
| "error_code_text SECRET_CONTENT = ''ERR-SEC-001''"
| "error_code_text SKILL_CONTRACT = ''ERR-SKL-001''"
| "error_code_text SKILL_TRUST = ''ERR-SKL-002''"
| "error_code_text SKILL_SELECTION = ''ERR-SKL-003''"
| "error_code_text TOOL_CONTRACT = ''ERR-TOL-001''"
| "error_code_text TOOL_UNAVAILABLE = ''ERR-TOL-002''"
| "error_code_text TOOL_SCHEMA = ''ERR-TOL-003''"
| "error_code_text TOOL_EFFECT = ''ERR-TOL-004''"
| "error_code_text TOOL_DRIFT = ''ERR-TOL-005''"
| "error_code_text CONTEXT_FAILURE = ''ERR-CTX-001''"
| "error_code_text MISSION = ''ERR-MSN-001''"
| "error_code_text FILE_FAILURE = ''ERR-FIL-001''"
| "error_code_text EDIT_FAILURE = ''ERR-EDT-001''"
| "error_code_text EXECUTION = ''ERR-EXE-001''"
| "error_code_text WEB = ''ERR-WEB-001''"
| "error_code_text BROWSER = ''ERR-BRW-001''"
| "error_code_text ARTIFACT = ''ERR-ART-001''"
| "error_code_text MCP = ''ERR-MCP-001''"
| "error_code_text ENGINEERING = ''ERR-ENG-001''"
| "error_code_text SCHEDULE = ''ERR-SCH-001''"
| "error_code_text WORKER = ''ERR-WRK-001''"
| "error_code_text VERSION = ''ERR-VER-001''"

subsection \<open>Commands and results\<close>

record error_report =
  xe_code :: error_code
  xe_message :: string
  xe_details :: payload
  xe_retryable :: bool

record application_command =
  cmd_command_id :: string
  cmd_command_type :: string
  cmd_actor_id :: string
  cmd_target_type :: string
  cmd_target_id :: "string option"
  cmd_expected_revision :: "int option"
  cmd_issued_at :: instant
  cmd_payload :: payload

definition command_valid :: "application_command \<Rightarrow> bool" where
  "command_valid c \<longleftrightarrow>
     name_pattern 2 127 (cmd_command_type c) \<and> length_between 1 256 (cmd_actor_id c) \<and>
     name_pattern 1 63 (cmd_target_type c) \<and> optional_between 1 256 (cmd_target_id c) \<and>
     (case cmd_expected_revision c of None \<Rightarrow> True | Some n \<Rightarrow> 0 \<le> n)"

text \<open>What is hashed: the command without its identifier.\<close>

definition command_body :: "application_command \<Rightarrow> application_command" where
  "command_body c = c\<lparr>cmd_command_id := []\<rparr>"

record receipt =
  rcp_command_id :: string
  rcp_status :: command_status
  rcp_target_type :: string
  rcp_target_id :: string
  rcp_revision :: "int option"
  rcp_event_cursor :: "int option"
  rcp_payload :: payload
  rcp_error :: "error_report option"
  rcp_completed_at :: instant

subsection \<open>Events, holds and retention\<close>

record event_row =
  evr_cursor :: int
  evr_id :: string
  evr_aggregate_id :: string
  evr_entity_type :: string
  evr_run_id :: "string option"
  evr_task_id :: "string option"
  evr_identity_id :: "string option"
  evr_team_id :: "string option"
  evr_security_relevant :: bool
  evr_event_type :: string
  evr_source :: string
  evr_payload :: payload
  evr_occurred_at :: instant
  evr_command_id :: "string option"
  evr_correlation_id :: "string option"
  evr_causation_id :: "string option"
  evr_sensitivity :: string

text \<open>The constraints of \<open>EventEnvelope\<close>, which is built when a row is read, not when it is written.\<close>

definition envelope_valid :: "event_row \<Rightarrow> bool" where
  "envelope_valid e \<longleftrightarrow>
     1 \<le> evr_cursor e \<and> name_pattern 2 127 (evr_event_type e) \<and>
     length_between 1 128 (evr_source e) \<and> length_between 1 64 (evr_entity_type e) \<and>
     length_between 1 256 (evr_aggregate_id e) \<and> optional_between 1 256 (evr_run_id e) \<and>
     optional_between 1 256 (evr_task_id e) \<and> optional_between 1 256 (evr_identity_id e) \<and>
     optional_between 1 256 (evr_team_id e) \<and> length_between 1 32 (evr_sensitivity e)"

record event_page =
  pag_after_cursor :: int
  pag_next_cursor :: int
  pag_retained_from_cursor :: int
  pag_events :: "event_row list"

definition page_valid :: "event_page \<Rightarrow> bool" where
  "page_valid p \<longleftrightarrow>
     0 \<le> pag_after_cursor p \<and> 0 \<le> pag_next_cursor p \<and> 0 \<le> pag_retained_from_cursor p"

datatype hold_scope = AllEvents | RunEvents | OneEvent

record event_hold =
  hld_id :: string
  hld_scope :: hold_scope
  hld_scope_id :: "string option"
  hld_reason :: string
  hld_actor_id :: string
  hld_created_at :: instant
  hld_released_at :: "instant option"

definition scope_has_exact_target :: "event_hold \<Rightarrow> bool" where
  "scope_has_exact_target h =
     ((if hld_scope h = AllEvents then hld_scope_id h = None else hld_scope_id h \<noteq> None) \<and>
      optional_between 1 256 (hld_scope_id h) \<and> length_between 1 2048 (hld_reason h) \<and>
      length_between 1 256 (hld_actor_id h))"

record retention_policy =
  rpy_max_age_days :: int
  rpy_batch_size :: nat

definition retention_policy_valid :: "retention_policy \<Rightarrow> bool" where
  "retention_policy_valid p \<longleftrightarrow>
     1 \<le> rpy_max_age_days p \<and> rpy_max_age_days p \<le> 36500 \<and>
     1 \<le> rpy_batch_size p \<and> rpy_batch_size p \<le> 1000"

datatype retention_state = Planned | Applied

record retention_plan =
  rtp_id :: string
  rtp_policy :: retention_policy
  rtp_policy_fingerprint :: string
  rtp_cutoff :: instant
  rtp_candidates :: "(string \<times> int) list"
  rtp_state :: retention_state
  rtp_deleted_count :: nat
  rtp_created_at :: instant
  rtp_applied_at :: "instant option"

subsection \<open>The database\<close>

record command_row =
  crw_command_id :: string
  crw_fingerprint :: string
  crw_command_type :: string
  crw_actor_id :: string
  crw_target_type :: string
  crw_target_id :: string
  crw_expected_revision :: "int option"
  crw_issued_at :: instant
  crw_status :: command_status
  crw_result_payload :: receipt
  crw_event_cursor :: "int option"
  crw_completed_at :: instant

record aggregate_revision_row =
  agr_entity_type :: string
  agr_entity_id :: string
  agr_revision :: int
  agr_updated_at :: instant

abbreviation agr_key :: "aggregate_revision_row \<Rightarrow> string \<times> string" where
  "agr_key r \<equiv> (agr_entity_type r, agr_entity_id r)"

text \<open>
  \<open>lgr_high_water\<close> is the sequence of the autoincremented cursor: a cursor is never given twice,
  also after its row was deleted. A task row carries its surrogate identifier, which the
  snapshot reports.
\<close>

record 'a ledger =
  lgr_commands :: "command_row list"
  lgr_revisions :: "aggregate_revision_row list"
  lgr_high_water :: int
  lgr_events :: "event_row list"
  lgr_holds :: "event_hold list"
  lgr_plans :: "retention_plan list"
  lgr_runs :: "run_row list"
  lgr_tasks :: "(string \<times> task_row) list"
  lgr_tables :: 'a

definition empty_ledger :: "'a \<Rightarrow> 'a ledger" where
  "empty_ledger a = \<lparr>lgr_commands = [], lgr_revisions = [], lgr_high_water = 0, lgr_events = [],
     lgr_holds = [], lgr_plans = [], lgr_runs = [], lgr_tasks = [], lgr_tables = a\<rparr>"

text \<open>SHA-256 of the canonical JSON text of a command body and of a retention policy.\<close>

record digests =
  dg_command :: "application_command \<Rightarrow> string"
  dg_policy :: "retention_policy \<Rightarrow> string"

definition fingerprint :: "digests \<Rightarrow> application_command \<Rightarrow> string" where
  "fingerprint env c = dg_command env (command_body c)"

definition plan_is_consistent :: "digests \<Rightarrow> retention_plan \<Rightarrow> bool" where
  "plan_is_consistent env p \<longleftrightarrow>
     rtp_policy_fingerprint p = dg_policy env (rtp_policy p) \<and>
     length (rtp_candidates p) \<le> rpy_batch_size (rtp_policy p) \<and>
     (rtp_state p = Planned \<longrightarrow> rtp_applied_at p = None) \<and>
     (rtp_state p = Applied \<longrightarrow> rtp_applied_at p \<noteq> None)"

end
