(* ===== verification/Commands.thy ===== *)
theory Commands
  imports CommandModel
begin

section \<open>The command ledger\<close>

text \<open>
  \<open>SQLiteApplicationRepository\<close> of \<open>persistence/application.py\<close>, method by method: the six calls
  that settle or reserve a command, the queries on receipts and revisions, the event stream with
  its cursor, evidence holds, retention, and the bounded projections. The identifier of the event
  a call writes is its argument \<open>new_id\<close>.
\<close>

subsection \<open>Shared parts of the calls\<close>

definition get_command :: "'a ledger \<Rightarrow> string \<Rightarrow> command_row option" where
  "get_command s k = tbl_get crw_command_id k (lgr_commands s)"

definition replay_stored ::
  "digests \<Rightarrow> command_row \<Rightarrow> application_command \<Rightarrow> receipt result" where
  "replay_stored env row c =
     (if crw_fingerprint row \<noteq> fingerprint env c
      then Inl (MishkanError DUPLICATE_RESULT
        ''command identity was already used for different content'')
      else Inr (crw_result_payload row))"

definition request_of :: "payload \<Rightarrow> payload" where
  "request_of p = (case map_of p ''request'' of Some (JObj r) \<Rightarrow> r | _ \<Rightarrow> [])"

definition selected_dimension :: "payload \<Rightarrow> string \<Rightarrow> string option" where
  "selected_dimension p name =
     (case (case map_of p name of Some v \<Rightarrow> Some v | None \<Rightarrow> map_of (request_of p) name) of
        Some (JStr s) \<Rightarrow> if s = [] then None else Some s
      | _ \<Rightarrow> None)"

definition event_for ::
  "application_command \<Rightarrow> string \<Rightarrow> string \<Rightarrow> string \<Rightarrow> payload \<Rightarrow> string \<Rightarrow> instant \<Rightarrow> string \<Rightarrow>
   int \<Rightarrow> event_row" where
  "event_for c target event_type source body sensitivity now new_id cursor =
     \<lparr>evr_cursor = cursor, evr_id = new_id, evr_aggregate_id = target,
      evr_entity_type = cmd_target_type c,
      evr_run_id = (if cmd_target_type c = ''run'' then Some target
        else selected_dimension (cmd_payload c) ''run_id''),
      evr_task_id = selected_dimension (cmd_payload c) ''task_id'',
      evr_identity_id = Some (cmd_actor_id c),
      evr_team_id = selected_dimension (cmd_payload c) ''team_id'',
      evr_security_relevant = (sensitivity = ''security''),
      evr_event_type = event_type, evr_source = source, evr_payload = body,
      evr_occurred_at = now, evr_command_id = Some (cmd_command_id c),
      evr_correlation_id = Some (cmd_command_id c), evr_causation_id = None,
      evr_sensitivity = sensitivity\<rparr>"

text \<open>\<open>session.add\<close> and \<open>session.flush\<close> of an event: the identifier is unique, the cursor new.\<close>

definition append_event :: "(int \<Rightarrow> event_row) \<Rightarrow> 'a ledger \<Rightarrow> ('a ledger \<times> int) result" where
  "append_event mk s =
     (let cursor = lgr_high_water s + 1
      in ebind (tbl_insert evr_id (mk cursor) (lgr_events s)) (\<lambda>rows.
           Inr (s\<lparr>lgr_high_water := cursor, lgr_events := rows\<rparr>, cursor)))"

definition command_row_of :: "digests \<Rightarrow> application_command \<Rightarrow> receipt \<Rightarrow> command_row" where
  "command_row_of env c r =
     \<lparr>crw_command_id = cmd_command_id c, crw_fingerprint = fingerprint env c,
      crw_command_type = cmd_command_type c, crw_actor_id = cmd_actor_id c,
      crw_target_type = cmd_target_type c, crw_target_id = rcp_target_id r,
      crw_expected_revision = cmd_expected_revision c, crw_issued_at = cmd_issued_at c,
      crw_status = rcp_status r, crw_result_payload = r, crw_event_cursor = rcp_event_cursor r,
      crw_completed_at = rcp_completed_at r\<rparr>"

text \<open>The key of the new row was looked up in the same transaction.\<close>

definition add_command ::
  "digests \<Rightarrow> application_command \<Rightarrow> receipt \<Rightarrow> 'a ledger \<Rightarrow> 'a ledger" where
  "add_command env c r s = s\<lparr>lgr_commands := lgr_commands s @ [command_row_of env c r]\<rparr>"

definition settle_row :: "string \<Rightarrow> receipt \<Rightarrow> 'a ledger \<Rightarrow> 'a ledger" where
  "settle_row k r s =
     s\<lparr>lgr_commands := tbl_upd crw_command_id k
         (\<lambda>row. row\<lparr>crw_status := rcp_status r, crw_result_payload := r,
            crw_event_cursor := rcp_event_cursor r, crw_completed_at := rcp_completed_at r\<rparr>)
         (lgr_commands s)\<rparr>"

definition current_revision :: "'a ledger \<Rightarrow> string \<Rightarrow> string \<Rightarrow> int" where
  "current_revision s ty target =
     (case tbl_get agr_key (ty, target) (lgr_revisions s) of
        None \<Rightarrow> 0 | Some r \<Rightarrow> agr_revision r)"

definition check_revision ::
  "string \<Rightarrow> application_command \<Rightarrow> string \<Rightarrow> 'a ledger \<Rightarrow> unit result" where
  "check_revision message c target s =
     (case cmd_expected_revision c of
        None \<Rightarrow> Inr ()
      | Some n \<Rightarrow>
          if n \<noteq> current_revision s (cmd_target_type c) target
          then Inl (MishkanError REVISION_MISMATCH message) else Inr ())"

definition set_revision ::
  "instant \<Rightarrow> string \<Rightarrow> string \<Rightarrow> int \<Rightarrow> 'a ledger \<Rightarrow> 'a ledger" where
  "set_revision now ty target n s =
     s\<lparr>lgr_revisions :=
         (case tbl_get agr_key (ty, target) (lgr_revisions s) of
            None \<Rightarrow> lgr_revisions s @ [\<lparr>agr_entity_type = ty, agr_entity_id = target,
              agr_revision = n, agr_updated_at = now\<rparr>]
          | Some r \<Rightarrow> tbl_upd agr_key (ty, target)
              (\<lambda>row. row\<lparr>agr_revision := n, agr_updated_at := now\<rparr>) (lgr_revisions s))\<rparr>"

text \<open>
  The one other writer of revisions is the worker registry (\<open>workers/repository.py\<close>): the enrolment
  of a worker inserts revision 1 of its aggregate, the rotation of its certificate and its
  revocation advance it, all without a command.
\<close>

definition enroll_worker_revision :: "instant \<Rightarrow> string \<Rightarrow> 'a ledger \<Rightarrow> ('a ledger \<times> unit) result" where
  "enroll_worker_revision now worker_id s =
     ebind (tbl_insert agr_key \<lparr>agr_entity_type = ''worker'', agr_entity_id = worker_id,
         agr_revision = 1, agr_updated_at = now\<rparr> (lgr_revisions s))
       (\<lambda>rows. Inr (s\<lparr>lgr_revisions := rows\<rparr>, ()))"

definition advance_worker_revision ::
  "instant \<Rightarrow> string \<Rightarrow> int \<Rightarrow> 'a ledger \<Rightarrow> ('a ledger \<times> unit) result" where
  "advance_worker_revision now worker_id expected s =
     (case tbl_get agr_key (''worker'', worker_id) (lgr_revisions s) of
        Some row \<Rightarrow>
          if agr_revision row \<noteq> expected
          then Inl (MishkanError WORKER ''worker aggregate revision is inconsistent'')
          else Inr (set_revision now ''worker'' worker_id (expected + 1) s, ())
      | None \<Rightarrow> Inl (MishkanError WORKER ''worker aggregate revision is inconsistent''))"

definition stale :: string where
  "stale = ''application command expected a stale aggregate revision''"

text \<open>
  The receipts: accepted with the new revision and event, refused with an error, and the refusal
  that a reservation leaves until it is settled.
\<close>

definition accepted_receipt ::
  "application_command \<Rightarrow> string \<Rightarrow> int \<Rightarrow> int \<Rightarrow> payload \<Rightarrow> instant \<Rightarrow> receipt" where
  "accepted_receipt c target n cursor body now =
     \<lparr>rcp_command_id = cmd_command_id c, rcp_status = CommandAccepted,
      rcp_target_type = cmd_target_type c, rcp_target_id = target, rcp_revision = Some n,
      rcp_event_cursor = Some cursor, rcp_payload = body, rcp_error = None,
      rcp_completed_at = now\<rparr>"

definition refused_receipt ::
  "application_command \<Rightarrow> string \<Rightarrow> int option \<Rightarrow> error_report \<Rightarrow> instant \<Rightarrow> receipt" where
  "refused_receipt c target cursor e now =
     \<lparr>rcp_command_id = cmd_command_id c, rcp_status = CommandRefused,
      rcp_target_type = cmd_target_type c, rcp_target_id = target, rcp_revision = None,
      rcp_event_cursor = cursor, rcp_payload = [], rcp_error = Some e, rcp_completed_at = now\<rparr>"

definition interrupted_report :: "application_command \<Rightarrow> error_report" where
  "interrupted_report c =
     \<lparr>xe_code = RUN_INTERRUPTED,
      xe_message = ''command was interrupted before its effect could be accepted'',
      xe_details = [(''command_id'', JStr (cmd_command_id c)),
        (''reconciliation_required'', JBool True), (''automatic_retry'', JBool False)],
      xe_retryable = False\<rparr>"

definition awaits_settlement :: "receipt \<Rightarrow> bool" where
  "awaits_settlement r =
     (rcp_status r = CommandRefused \<and>
      (case rcp_error r of None \<Rightarrow> False
       | Some e \<Rightarrow> (case map_of (xe_details e) ''reconciliation_required'' of
           None \<Rightarrow> False | Some v \<Rightarrow> truthy v)))"

text \<open>
  \<open>except IntegrityError\<close>: the transaction is rolled back and the command looked up again.
\<close>

definition on_integrity ::
  "digests \<Rightarrow> application_command \<Rightarrow> string \<Rightarrow> 'a ledger \<Rightarrow> ('a ledger \<times> receipt) result \<Rightarrow>
   ('a ledger \<times> receipt) result" where
  "on_integrity env c message s outcome =
     (if outcome = Inl IntegrityError
      then (case get_command s (cmd_command_id c) of
              Some row \<Rightarrow> ebind (replay_stored env row c) (\<lambda>r. Inr (s, r))
            | None \<Rightarrow> Inl (MishkanError DUPLICATE_RESULT message))
      else outcome)"

subsection \<open>Settling commands\<close>

definition refuse_command ::
  "digests \<Rightarrow> instant \<Rightarrow> string \<Rightarrow> application_command \<Rightarrow> string \<Rightarrow> error_report \<Rightarrow> payload \<Rightarrow>
   'a ledger \<Rightarrow> ('a ledger \<times> receipt) result" where
  "refuse_command env now new_id c target e event_payload s =
     (case get_command s (cmd_command_id c) of
        Some row \<Rightarrow> ebind (replay_stored env row c) (\<lambda>r. Inr (s, r))
      | None \<Rightarrow>
          ebind (append_event (event_for c target ''application.command_refused''
              ''mishkand.policy'' event_payload ''security'' now new_id) s) (\<lambda>(s1, cursor).
            let r = refused_receipt c target (Some cursor) e now
            in Inr (add_command env c r s1, r)))"

definition accept_command ::
  "digests \<Rightarrow> instant \<Rightarrow> string \<Rightarrow> application_command \<Rightarrow> string \<Rightarrow> string \<Rightarrow> payload \<Rightarrow> payload \<Rightarrow>
   string \<Rightarrow> string \<Rightarrow> 'a ledger \<Rightarrow> ('a ledger \<times> receipt) result" where
  "accept_command env now new_id c target event_type result_payload event_payload source sensitivity s =
     on_integrity env c ''application command could not be committed uniquely'' s
       (case get_command s (cmd_command_id c) of
          Some row \<Rightarrow> ebind (replay_stored env row c) (\<lambda>r. Inr (s, r))
        | None \<Rightarrow>
            ebind (check_revision stale c target s) (\<lambda>_.
              let n = current_revision s (cmd_target_type c) target + 1;
                  s1 = set_revision now (cmd_target_type c) target n s
              in ebind (append_event (event_for c target event_type source event_payload
                     sensitivity now new_id) s1) (\<lambda>(s2, cursor).
                   let r = accepted_receipt c target n cursor result_payload now
                   in Inr (add_command env c r s2, r))))"

text \<open>
  The mutation gets the tables it owns and the next revision, and may raise; it runs in the same
  transaction, before the revision, the event and the receipt are written.
\<close>

type_synonym 'a mutation = "'a \<Rightarrow> int \<Rightarrow> ('a \<times> payload \<times> payload) result"

definition accept_with_mutation ::
  "digests \<Rightarrow> instant \<Rightarrow> string \<Rightarrow> application_command \<Rightarrow> string \<Rightarrow> string \<Rightarrow> 'a mutation \<Rightarrow>
   string \<Rightarrow> string \<Rightarrow> 'a ledger \<Rightarrow> ('a ledger \<times> receipt) result" where
  "accept_with_mutation env now new_id c target event_type mutation source sensitivity s =
     on_integrity env c ''application command mutation could not be committed uniquely'' s
       (case get_command s (cmd_command_id c) of
          Some row \<Rightarrow> ebind (replay_stored env row c) (\<lambda>r. Inr (s, r))
        | None \<Rightarrow>
            ebind (check_revision stale c target s) (\<lambda>_.
              let n = current_revision s (cmd_target_type c) target + 1
              in ebind (mutation (lgr_tables s) n) (\<lambda>(tables, result_payload, event_payload).
                   let s1 = set_revision now (cmd_target_type c) target n
                         (s\<lparr>lgr_tables := tables\<rparr>)
                   in ebind (append_event (event_for c target event_type source event_payload
                          sensitivity now new_id) s1) (\<lambda>(s2, cursor).
                        let r = accepted_receipt c target n cursor result_payload now
                        in Inr (add_command env c r s2, r)))))"

text \<open>\<open>None\<close> gives the caller the right to execute the effect.\<close>

definition reserve_command ::
  "digests \<Rightarrow> instant \<Rightarrow> application_command \<Rightarrow> string \<Rightarrow> 'a ledger \<Rightarrow>
   ('a ledger \<times> receipt option) result" where
  "reserve_command env now c target s =
     (case get_command s (cmd_command_id c) of
        Some row \<Rightarrow> ebind (replay_stored env row c) (\<lambda>r. Inr (s, Some r))
      | None \<Rightarrow>
          ebind (check_revision stale c target s) (\<lambda>_.
            Inr (add_command env c (refused_receipt c target None (interrupted_report c) now) s, None)))"

definition reserved_row ::
  "digests \<Rightarrow> application_command \<Rightarrow> 'a ledger \<Rightarrow> command_row result" where
  "reserved_row env c s =
     (case get_command s (cmd_command_id c) of
        None \<Rightarrow> Inl (MishkanError RUN_INTERRUPTED ''command was not reserved'')
      | Some row \<Rightarrow>
          if crw_fingerprint row \<noteq> fingerprint env c
          then Inl (MishkanError DUPLICATE_RESULT
            ''command identity was already used for different content'')
          else Inr row)"

definition complete_reserved ::
  "digests \<Rightarrow> instant \<Rightarrow> string \<Rightarrow> application_command \<Rightarrow> string \<Rightarrow> string \<Rightarrow> payload \<Rightarrow> payload \<Rightarrow>
   string \<Rightarrow> string \<Rightarrow> 'a ledger \<Rightarrow> ('a ledger \<times> receipt) result" where
  "complete_reserved env now new_id c target event_type result_payload event_payload source
       sensitivity s =
     ebind (reserved_row env c s) (\<lambda>row.
       let current = crw_result_payload row
       in if rcp_status current = CommandAccepted then Inr (s, current)
          else if \<not> awaits_settlement current then Inr (s, current)
          else ebind (check_revision ''aggregate revision changed while command effect was executing''
                 c target s) (\<lambda>_.
               let n = current_revision s (cmd_target_type c) target + 1;
                   s1 = set_revision now (cmd_target_type c) target n s
               in ebind (append_event (event_for c target event_type source event_payload
                      sensitivity now new_id) s1) (\<lambda>(s2, cursor).
                    let r = accepted_receipt c target n cursor result_payload now
                    in Inr (settle_row (cmd_command_id c) r s2, r))))"

definition verify_reserved_precondition ::
  "digests \<Rightarrow> application_command \<Rightarrow> string \<Rightarrow> 'a ledger \<Rightarrow> unit result" where
  "verify_reserved_precondition env c target s =
     ebind (reserved_row env c s) (\<lambda>row.
       if \<not> awaits_settlement (crw_result_payload row)
       then Inl (MishkanError DUPLICATE_RESULT ''reserved command is already settled'')
       else check_revision ''aggregate revision changed before command effect dispatch'' c target s)"

definition fail_reserved ::
  "digests \<Rightarrow> instant \<Rightarrow> string \<Rightarrow> application_command \<Rightarrow> string \<Rightarrow> error_report \<Rightarrow> payload \<Rightarrow> string \<Rightarrow>
   'a ledger \<Rightarrow> ('a ledger \<times> receipt) result" where
  "fail_reserved env now new_id c target e event_payload sensitivity s =
     ebind (reserved_row env c s) (\<lambda>row.
       if \<not> awaits_settlement (crw_result_payload row) then Inr (s, crw_result_payload row)
       else
         let body = fold (\<lambda>(k, v). AList.update k v) event_payload
               [(''command_type'', JStr (cmd_command_type c)),
                (''error_code'', JStr (error_code_text (xe_code e)))]
         in ebind (append_event (event_for c target ''application.command_effect_unaccepted''
                ''mishkand'' body sensitivity now new_id) s) (\<lambda>(s1, cursor).
              let r = refused_receipt c target (Some cursor) e now
              in Inr (settle_row (cmd_command_id c) r s1, r)))"

subsection \<open>Receipts and revisions\<close>

definition command_result_of :: "'a ledger \<Rightarrow> string \<Rightarrow> receipt option" where
  "command_result_of s k = map_option crw_result_payload (get_command s k)"

definition has_accepted_result_for_target ::
  "string \<Rightarrow> string \<Rightarrow> string \<Rightarrow> payload \<Rightarrow> 'a ledger \<Rightarrow> bool" where
  "has_accepted_result_for_target command_type target_type target_id result_payload s =
     list_ex (\<lambda>row. crw_command_type row = command_type \<and> crw_target_type row = target_type \<and>
         crw_target_id row = target_id \<and> crw_status row = CommandAccepted \<and>
         py_eq (JObj (rcp_payload (crw_result_payload row))) (JObj result_payload))
       (lgr_commands s)"

definition replay ::
  "digests \<Rightarrow> application_command \<Rightarrow> 'a ledger \<Rightarrow> receipt option result" where
  "replay env c s =
     (case get_command s (cmd_command_id c) of
        None \<Rightarrow> Inr None
      | Some row \<Rightarrow> ebind (replay_stored env row c) (\<lambda>r. Inr (Some r)))"

definition require_expected_revision ::
  "application_command \<Rightarrow> string \<Rightarrow> 'a ledger \<Rightarrow> unit result" where
  "require_expected_revision c target s = check_revision stale c target s"

subsection \<open>The event stream\<close>

datatype filter_time = Aware instant | Naive

definition normalized_time :: "filter_time option \<Rightarrow> instant option result" where
  "normalized_time t =
     (case t of None \<Rightarrow> Inr None
      | Some Naive \<Rightarrow> Inl (MishkanError OUTPUT_CONTRACT
          ''event time filters require an explicit timezone offset'')
      | Some (Aware i) \<Rightarrow> Inr (Some i))"

record event_filter =
  ef_event_types :: "string list"
  ef_entity_type :: "string option"
  ef_entity_id :: "string option"
  ef_run_id :: "string option"
  ef_task_id :: "string option"
  ef_identity_id :: "string option"
  ef_team_id :: "string option"
  ef_occurred_after :: "filter_time option"
  ef_occurred_before :: "filter_time option"
  ef_security_relevant :: "bool option"

definition wanted :: "'v option \<Rightarrow> 'v option \<Rightarrow> bool" where
  "wanted f v = (case f of None \<Rightarrow> True | Some x \<Rightarrow> v = Some x)"

definition matches_filter ::
  "event_filter \<Rightarrow> instant option \<Rightarrow> instant option \<Rightarrow> event_row \<Rightarrow> bool" where
  "matches_filter f lo hi e \<longleftrightarrow>
     (ef_event_types f = [] \<or> evr_event_type e \<in> set (ef_event_types f)) \<and>
     wanted (ef_entity_type f) (Some (evr_entity_type e)) \<and>
     wanted (ef_entity_id f) (Some (evr_aggregate_id e)) \<and>
     wanted (ef_run_id f) (evr_run_id e) \<and> wanted (ef_task_id f) (evr_task_id e) \<and>
     wanted (ef_identity_id f) (evr_identity_id e) \<and> wanted (ef_team_id f) (evr_team_id e) \<and>
     (case lo of None \<Rightarrow> True | Some t \<Rightarrow> t \<le> evr_occurred_at e) \<and>
     (case hi of None \<Rightarrow> True | Some t \<Rightarrow> evr_occurred_at e \<le> t) \<and>
     wanted (ef_security_relevant f) (Some (evr_security_relevant e))"

text \<open>\<open>min\<close> over the column, 0 for an empty table.\<close>

definition retained_from :: "'a ledger \<Rightarrow> int" where
  "retained_from s =
     (case lgr_events s of [] \<Rightarrow> 0
      | e # rest \<Rightarrow> fold (\<lambda>x m. min m (evr_cursor x)) rest (evr_cursor e))"

text \<open>Building the envelope of a row raises the validation error of Pydantic, a \<open>ValueError\<close>.\<close>

definition read_event :: "event_row \<Rightarrow> event_row result" where
  "read_event e = (if envelope_valid e then Inr e else Inl (ValueError ''EventEnvelope''))"

definition page_of :: "int \<Rightarrow> int \<Rightarrow> event_row list \<Rightarrow> event_page result" where
  "page_of after_cursor retained rows =
     ebind (traverse read_event rows) (\<lambda>envelopes.
       let p = \<lparr>pag_after_cursor = after_cursor,
             pag_next_cursor = (if envelopes = [] then after_cursor else evr_cursor (last envelopes)),
             pag_retained_from_cursor = retained, pag_events = envelopes\<rparr>
       in if page_valid p then Inr p else Inl (ValueError ''EventPage''))"

definition events ::
  "int \<Rightarrow> int \<Rightarrow> event_filter \<Rightarrow> 'a ledger \<Rightarrow> event_page result" where
  "events after_cursor limit f s =
     (if limit < 1 \<or> 1000 < limit
      then Inl (MishkanError OUTPUT_CONTRACT ''event query limit is outside the supported bound'')
      else
        let retained = retained_from s
        in if retained \<noteq> 0 \<and> after_cursor \<noteq> 0 \<and> after_cursor < retained - 1
           then Inl (MishkanError RUN_INTERRUPTED ''event cursor is older than the retained stream'')
           else ebind (normalized_time (ef_occurred_after f)) (\<lambda>lo.
             ebind (normalized_time (ef_occurred_before f)) (\<lambda>hi.
               page_of after_cursor retained (take (nat limit) (sort_key evr_cursor
                 (filter (\<lambda>e. after_cursor < evr_cursor e \<and> matches_filter f lo hi e)
                   (lgr_events s)))))))"

subsection \<open>Evidence holds\<close>

definition create_event_hold ::
  "instant \<Rightarrow> string \<Rightarrow> hold_scope \<Rightarrow> string option \<Rightarrow> string \<Rightarrow> string \<Rightarrow> 'a ledger \<Rightarrow>
   ('a ledger \<times> event_hold) result" where
  "create_event_hold now new_id scope scope_id reason actor s =
     (let h = \<lparr>hld_id = new_id, hld_scope = scope, hld_scope_id = scope_id, hld_reason = reason,
            hld_actor_id = actor, hld_created_at = now, hld_released_at = None\<rparr>
      in if \<not> scope_has_exact_target h then Inl (ValueError ''EventHold'')
         else if scope = RunEvents \<and> scope_id \<notin> (Some \<circ> rn_id) ` set (lgr_runs s)
         then Inl (MishkanError OUTPUT_CONTRACT ''event hold run does not exist'')
         else if scope = OneEvent \<and> scope_id \<notin> (Some \<circ> evr_id) ` set (lgr_events s)
         then Inl (MishkanError OUTPUT_CONTRACT ''event hold event does not exist'')
         else ebind (tbl_insert hld_id h (lgr_holds s)) (\<lambda>rows. Inr (s\<lparr>lgr_holds := rows\<rparr>, h)))"

definition release_event_hold ::
  "instant \<Rightarrow> string \<Rightarrow> 'a ledger \<Rightarrow> ('a ledger \<times> event_hold) result" where
  "release_event_hold now hold_id s =
     (case tbl_get hld_id hold_id (lgr_holds s) of
        None \<Rightarrow> Inl (MishkanError OUTPUT_CONTRACT ''event hold does not exist'')
      | Some h \<Rightarrow>
          let h' = (if hld_released_at h = None then h\<lparr>hld_released_at := Some now\<rparr> else h)
          in Inr (s\<lparr>lgr_holds := tbl_upd hld_id hold_id (\<lambda>_. h') (lgr_holds s)\<rparr>, h'))"

definition event_holds :: "bool \<Rightarrow> 'a ledger \<Rightarrow> event_hold list" where
  "event_holds active_only s =
     sort_key hld_created_at
       (if active_only then filter (\<lambda>h. hld_released_at h = None) (lgr_holds s) else lgr_holds s)"

subsection \<open>Retention\<close>

definition active_holds :: "'a ledger \<Rightarrow> event_hold list" where
  "active_holds s = filter (\<lambda>h. hld_released_at h = None) (lgr_holds s)"

definition held_by :: "hold_scope \<Rightarrow> 'a ledger \<Rightarrow> string list" where
  "held_by scope s =
     List.map_filter hld_scope_id (filter (\<lambda>h. hld_scope h = scope) (active_holds s))"

definition incomplete_runs :: "'a ledger \<Rightarrow> string list" where
  "incomplete_runs s =
     map rn_id (filter (\<lambda>r. rn_status r \<notin> {RCompleted, RFailed, RCancelled}) (lgr_runs s))"

definition protected_run :: "'a ledger \<Rightarrow> event_row \<Rightarrow> bool" where
  "protected_run s e =
     (case evr_run_id e of None \<Rightarrow> False
      | Some r \<Rightarrow> r \<in> set (incomplete_runs s) \<or> r \<in> set (held_by RunEvents s))"

definition eligible_retention_rows ::
  "instant \<Rightarrow> nat \<Rightarrow> string list option \<Rightarrow> 'a ledger \<Rightarrow> event_row list" where
  "eligible_retention_rows cutoff limit candidates s =
     (if list_ex (\<lambda>h. hld_scope h = AllEvents) (active_holds s) then []
      else if candidates = Some [] then []
      else take limit (sort_key evr_cursor (filter (\<lambda>e.
             evr_occurred_at e < cutoff \<and>
             (case candidates of None \<Rightarrow> True | Some ids \<Rightarrow> evr_id e \<in> set ids) \<and>
             \<not> protected_run s e \<and> evr_id e \<notin> set (held_by OneEvent s)) (lgr_events s))))"

definition days :: "int \<Rightarrow> int" where
  "days n = n * 86400 * 1000000"

definition plan_event_retention ::
  "digests \<Rightarrow> instant \<Rightarrow> string \<Rightarrow> retention_policy \<Rightarrow> 'a ledger \<Rightarrow>
   ('a ledger \<times> retention_plan) result" where
  "plan_event_retention env now new_id policy s =
     (let cutoff = now - days (rpy_max_age_days policy);
          candidates = eligible_retention_rows cutoff (rpy_batch_size policy) None s;
          p = \<lparr>rtp_id = new_id, rtp_policy = policy, rtp_policy_fingerprint = dg_policy env policy,
               rtp_cutoff = cutoff, rtp_candidates = map (\<lambda>e. (evr_id e, evr_cursor e)) candidates,
               rtp_state = Planned, rtp_deleted_count = 0, rtp_created_at = now,
               rtp_applied_at = None\<rparr>
      in ebind (tbl_insert rtp_id p (lgr_plans s)) (\<lambda>rows. Inr (s\<lparr>lgr_plans := rows\<rparr>, p)))"

definition read_plan :: "digests \<Rightarrow> retention_plan \<Rightarrow> retention_plan result" where
  "read_plan env p =
     (if plan_is_consistent env p then Inr p else Inl (ValueError ''EventRetentionPlan''))"

definition apply_event_retention ::
  "digests \<Rightarrow> instant \<Rightarrow> string \<Rightarrow> 'a ledger \<Rightarrow> ('a ledger \<times> retention_plan) result" where
  "apply_event_retention env now plan_id s =
     (case tbl_get rtp_id plan_id (lgr_plans s) of
        None \<Rightarrow> Inl (MishkanError OUTPUT_CONTRACT ''event retention plan does not exist'')
      | Some p \<Rightarrow>
          if rtp_state p = Applied then ebind (read_plan env p) (\<lambda>q. Inr (s, q))
          else if dg_policy env (rtp_policy p) \<noteq> rtp_policy_fingerprint p
          then Inl (MishkanError OUTPUT_CONTRACT
            ''stored event retention policy fingerprint is invalid'')
          else
            let eligible = remdups (map evr_id (eligible_retention_rows (rtp_cutoff p)
                  (rpy_batch_size (rtp_policy p)) (Some (map fst (rtp_candidates p))) s));
                p' = p\<lparr>rtp_state := Applied, rtp_deleted_count := length eligible,
                       rtp_applied_at := Some now\<rparr>
            in ebind (read_plan env p') (\<lambda>q.
                 Inr (s\<lparr>lgr_events := filter (\<lambda>e. evr_id e \<notin> set eligible) (lgr_events s),
                        lgr_plans := tbl_upd rtp_id plan_id (\<lambda>_. p') (lgr_plans s)\<rparr>, q)))"

definition event_retention_plans :: "digests \<Rightarrow> 'a ledger \<Rightarrow> retention_plan list result" where
  "event_retention_plans env s = traverse (read_plan env) (sort_key rtp_created_at (lgr_plans s))"

subsection \<open>Bounded projections\<close>

definition query_bound :: "int \<Rightarrow> int \<Rightarrow> unit result" where
  "query_bound offset limit =
     (if offset < 0 \<or> limit < 1 \<or> 1000 < limit
      then Inl (MishkanError OUTPUT_CONTRACT ''query bound is invalid'') else Inr ())"

record run_head =
  rh_id :: string
  rh_status :: run_state
  rh_revision :: int

record task_head =
  th_id :: string
  th_run_id :: string
  th_status :: task_state
  th_revision :: int

record snapshot_envelope =
  se_cursor :: int
  se_runs :: "run_head list"
  se_tasks :: "task_head list"

definition max_cursor :: "'a ledger \<Rightarrow> int" where
  "max_cursor s = fold (\<lambda>e m. max m (evr_cursor e)) (lgr_events s) 0"

definition ledger_snapshot :: "int \<Rightarrow> 'a ledger \<Rightarrow> snapshot_envelope result" where
  "ledger_snapshot limit s =
     ebind (query_bound 0 limit) (\<lambda>_.
       Inr \<lparr>se_cursor = max_cursor s,
            se_runs = map (\<lambda>r. \<lparr>rh_id = rn_id r, rh_status = rn_status r, rh_revision = rn_revision r\<rparr>)
              (take (nat limit) (sort_key rn_created_at (lgr_runs s))),
            se_tasks = map (\<lambda>(k, t). \<lparr>th_id = k, th_run_id = tk_run_id t, th_status = tk_status t,
                th_revision = tk_revision t\<rparr>)
              (take (nat limit) (sort_key (tk_run_id \<circ> snd) (sort_key (tk_position \<circ> snd)
                (lgr_tasks s))))\<rparr>)"

text \<open>The mapping \<open>runs\<close> returns for a run has ten of the columns of its row.\<close>

definition runs_page :: "int \<Rightarrow> int \<Rightarrow> 'a ledger \<Rightarrow> run_row list result" where
  "runs_page offset limit s =
     ebind (query_bound offset limit) (\<lambda>_.
       Inr (take (nat limit) (drop (nat offset) (sort_key rn_created_at (sort_key rn_id (lgr_runs s))))))"

definition tasks_page :: "string \<Rightarrow> int \<Rightarrow> int \<Rightarrow> 'a ledger \<Rightarrow> (string \<times> task_row) list result" where
  "tasks_page run_id offset limit s =
     ebind (query_bound offset limit) (\<lambda>_.
       Inr (take (nat limit) (drop (nat offset) (sort_key (tk_position \<circ> snd)
         (filter (\<lambda>t. tk_run_id (snd t) = run_id) (lgr_tasks s))))))"

end
