(* ===== verification/CommandMachine.thy ===== *)
theory CommandMachine
  imports Commands
begin

section \<open>The command ledger as a machine\<close>

text \<open>
  The calls of the ledger as steps, with the things other code does to the same database: the
  worker registry writes the revisions of workers, repositories append events to the outbox, change
  runs and tasks, and change the tables of the mutations. The relation \<open>moves\<close> lists what a step can do to commands and revisions; the
  invariants are proved by cases on it.
\<close>

datatype 'a ledger_op =
    Refuse instant string application_command string error_report payload
  | Accept instant string application_command string string payload payload string string
  | AcceptWithMutation instant string application_command string string "'a mutation" string string
  | Reserve instant application_command string
  | CompleteReserved instant string application_command string string payload payload string string
  | FailReserved instant string application_command string error_report payload string
  | CreateEventHold instant string hold_scope "string option" string string
  | ReleaseEventHold instant string
  | PlanEventRetention instant string retention_policy
  | ApplyEventRetention instant string
  | EnrollWorkerRevision instant string
  | AdvanceWorkerRevision instant string int
  | AppendEvent event_row
  | ChangeRuns "run_row list" "(string \<times> task_row) list"
  | ChangeTables 'a

definition committed :: "'s \<Rightarrow> ('s \<times> 'b) result \<Rightarrow> 's" where
  "committed s r = (case r of Inl _ \<Rightarrow> s | Inr (s', _) \<Rightarrow> s')"

lemma kept_simps [simp]:
  "committed s (Inl e) = s"
  "committed s (Inr (s', b)) = s'"
  by (simp_all add: committed_def)

fun command_of :: "'a ledger_op \<Rightarrow> application_command option" where
  "command_of (Refuse now nid c target e body) = Some c"
| "command_of (Accept now nid c target ty res body src sens) = Some c"
| "command_of (AcceptWithMutation now nid c target ty mutation src sens) = Some c"
| "command_of (Reserve now c target) = Some c"
| "command_of (CompleteReserved now nid c target ty res body src sens) = Some c"
| "command_of (FailReserved now nid c target e body sens) = Some c"
| "command_of x = None"

definition accepted_by_model :: "'a ledger_op \<Rightarrow> bool" where
  "accepted_by_model x =
     ((case command_of x of None \<Rightarrow> True | Some c \<Rightarrow> command_valid c) \<and>
      (case x of PlanEventRetention now nid policy \<Rightarrow> retention_policy_valid policy | _ \<Rightarrow> True))"

fun perform_ledger :: "digests \<Rightarrow> 'a ledger_op \<Rightarrow> 'a ledger \<Rightarrow> 'a ledger" where
  "perform_ledger env (Refuse now nid c target e body) s = committed s (refuse_command env now nid c target e body s)"
| "perform_ledger env (Accept now nid c target ty res body src sens) s =
     committed s (accept_command env now nid c target ty res body src sens s)"
| "perform_ledger env (AcceptWithMutation now nid c target ty mutation src sens) s =
     committed s (accept_with_mutation env now nid c target ty mutation src sens s)"
| "perform_ledger env (Reserve now c target) s = committed s (reserve_command env now c target s)"
| "perform_ledger env (CompleteReserved now nid c target ty res body src sens) s =
     committed s (complete_reserved env now nid c target ty res body src sens s)"
| "perform_ledger env (FailReserved now nid c target e body sens) s =
     committed s (fail_reserved env now nid c target e body sens s)"
| "perform_ledger env (CreateEventHold now nid scope scope_id reason actor) s =
     committed s (create_event_hold now nid scope scope_id reason actor s)"
| "perform_ledger env (ReleaseEventHold now hold_id) s = committed s (release_event_hold now hold_id s)"
| "perform_ledger env (PlanEventRetention now nid policy) s =
     committed s (plan_event_retention env now nid policy s)"
| "perform_ledger env (ApplyEventRetention now plan_id) s =
     committed s (apply_event_retention env now plan_id s)"
| "perform_ledger env (EnrollWorkerRevision now worker_id) s = committed s (enroll_worker_revision now worker_id s)"
| "perform_ledger env (AdvanceWorkerRevision now worker_id n) s =
     committed s (advance_worker_revision now worker_id n s)"
| "perform_ledger env (AppendEvent e) s = committed s (append_event (\<lambda>n. e\<lparr>evr_cursor := n\<rparr>) s)"
| "perform_ledger env (ChangeRuns rs ts) s = s\<lparr>lgr_runs := rs, lgr_tasks := ts\<rparr>"
| "perform_ledger env (ChangeTables a) s = s\<lparr>lgr_tables := a\<rparr>"

definition ledger_step :: "digests \<Rightarrow> 'a ledger_op \<Rightarrow> 'a ledger \<Rightarrow> 'a ledger" where
  "ledger_step env x s = (if accepted_by_model x then perform_ledger env x s else s)"

abbreviation ledger_after :: "digests \<Rightarrow> 'a \<Rightarrow> 'a ledger_op list \<Rightarrow> 'a ledger" where
  "ledger_after env a ops \<equiv> run_ops (ledger_step env) ops (empty_ledger a)"

subsection \<open>What the parts of a call change\<close>

lemma append_event_Inr:
  "append_event mk s = Inr (s', cursor) \<longleftrightarrow>
     evr_id (mk (lgr_high_water s + 1)) \<notin> evr_id ` set (lgr_events s) \<and>
     cursor = lgr_high_water s + 1 \<and>
     s' = s\<lparr>lgr_high_water := cursor, lgr_events := lgr_events s @ [mk cursor]\<rparr>"
  by (auto simp: append_event_def Let_def ebind_Inr_iff tbl_insert_Inr_iff)

lemma event_for_simps [simp]:
  "evr_id (event_for c target ty src body sens now nid n) = nid"
  "evr_cursor (event_for c target ty src body sens now nid n) = n"
  by (simp_all add: event_for_def)

lemma set_revision_simps [simp]:
  "lgr_commands (set_revision now ty target n s) = lgr_commands s"
  "lgr_high_water (set_revision now ty target n s) = lgr_high_water s"
  "lgr_events (set_revision now ty target n s) = lgr_events s"
  "lgr_holds (set_revision now ty target n s) = lgr_holds s"
  "lgr_plans (set_revision now ty target n s) = lgr_plans s"
  "lgr_runs (set_revision now ty target n s) = lgr_runs s"
  "lgr_tables (set_revision now ty target n s) = lgr_tables s"
  by (simp_all add: set_revision_def)

lemma add_command_simps [simp]:
  "lgr_commands (add_command env c r s) = lgr_commands s @ [command_row_of env c r]"
  "lgr_revisions (add_command env c r s) = lgr_revisions s"
  "lgr_high_water (add_command env c r s) = lgr_high_water s"
  "lgr_events (add_command env c r s) = lgr_events s"
  "lgr_holds (add_command env c r s) = lgr_holds s"
  "lgr_plans (add_command env c r s) = lgr_plans s"
  "lgr_runs (add_command env c r s) = lgr_runs s"
  by (simp_all add: add_command_def)

lemma settle_row_simps [simp]:
  "lgr_revisions (settle_row k r s) = lgr_revisions s"
  "lgr_high_water (settle_row k r s) = lgr_high_water s"
  "lgr_events (settle_row k r s) = lgr_events s"
  "lgr_holds (settle_row k r s) = lgr_holds s"
  "lgr_plans (settle_row k r s) = lgr_plans s"
  "lgr_runs (settle_row k r s) = lgr_runs s"
  by (simp_all add: settle_row_def)

lemma current_revision_set:
  "current_revision (set_revision now ty target n s) ty' target' =
     (if (ty', target') = (ty, target) then n else current_revision s ty' target')"
proof (cases "tbl_get agr_key (ty, target) (lgr_revisions s)")
  case None
  then show ?thesis
    by (auto simp: set_revision_def current_revision_def tbl_get_append tbl_simps split: option.splits)
next
  case (Some r)
  then show ?thesis
    by (auto simp: set_revision_def current_revision_def tbl_simps split: option.splits)
qed

lemma current_revision_cong:
  "lgr_revisions s' = lgr_revisions s \<Longrightarrow> current_revision s' ty target = current_revision s ty target"
  by (simp add: current_revision_def)

lemma on_integrity_Inr:
  "on_integrity env c m s outcome = Inr (s', r) \<longleftrightarrow>
     outcome = Inr (s', r) \<or>
     (outcome = Inl IntegrityError \<and> s' = s \<and>
        (\<exists>row. get_command s (cmd_command_id c) = Some row \<and> replay_stored env row c = Inr r))"
  by (auto simp: on_integrity_def ebind_Inr_iff split: option.splits)

lemma replay_stored_Inr:
  "replay_stored env row c = Inr r \<longleftrightarrow>
     crw_fingerprint row = fingerprint env c \<and> r = crw_result_payload row"
  by (auto simp: replay_stored_def)

lemma reserved_row_Inr:
  "reserved_row env c s = Inr row \<longleftrightarrow>
     get_command s (cmd_command_id c) = Some row \<and> crw_fingerprint row = fingerprint env c"
  by (auto simp: reserved_row_def split: option.splits)

lemma check_revision_Inr:
  "check_revision m c target s = Inr u \<longleftrightarrow>
     (case cmd_expected_revision c of None \<Rightarrow> True
      | Some n \<Rightarrow> n = current_revision s (cmd_target_type c) target)"
  by (auto simp: check_revision_def split: option.splits)

lemmas ledger_Inr = Let_def ebind_Inr_iff append_event_Inr on_integrity_Inr replay_stored_Inr
  reserved_row_Inr tbl_insert_Inr_iff

subsection \<open>Moves\<close>

text \<open>The event a settling call writes is the next one of the stream.\<close>

abbreviation next_revision :: "'a ledger \<Rightarrow> application_command \<Rightarrow> string \<Rightarrow> int" where
  "next_revision s c target \<equiv> current_revision s (cmd_target_type c) target + 1"

abbreviation next_cursor :: "'a ledger \<Rightarrow> int" where
  "next_cursor s \<equiv> lgr_high_water s + 1"

inductive moves :: "digests \<Rightarrow> 'a ledger \<Rightarrow> 'a ledger \<Rightarrow> bool" for env s s' where
  Idle: "moves env s s'"
    if "lgr_commands s' = lgr_commands s" "lgr_revisions s' = lgr_revisions s"
      "lgr_high_water s \<le> lgr_high_water s'"
| Elsewhere: "moves env s s'"
    if "lgr_commands s' = lgr_commands s" "lgr_high_water s' = lgr_high_water s"
      "\<And>ty target. current_revision s ty target \<le> current_revision s' ty target"
      "\<And>ty target. ty \<noteq> ''worker'' \<Longrightarrow> current_revision s' ty target = current_revision s ty target"
| Recorded: "moves env s s'"
    if "get_command s (cmd_command_id c) = None"
      "lgr_commands s' = lgr_commands s @ [command_row_of env c (refused_receipt c target cursor e now)]"
      "lgr_revisions s' = lgr_revisions s" "lgr_high_water s \<le> lgr_high_water s'"
| Accepted: "moves env s s'"
    if "get_command s (cmd_command_id c) = None"
      "lgr_commands s' = lgr_commands s @ [command_row_of env c
         (accepted_receipt c target (next_revision s c target) (next_cursor s) body now)]"
      "lgr_revisions s' =
         lgr_revisions (set_revision now (cmd_target_type c) target (next_revision s c target) s)"
      "lgr_high_water s' = next_cursor s"
| Completed: "moves env s s'"
    if "get_command s (cmd_command_id c) = Some row" "crw_fingerprint row = fingerprint env c"
      "awaits_settlement (crw_result_payload row)"
      "lgr_commands s' = lgr_commands (settle_row (cmd_command_id c)
         (accepted_receipt c target (next_revision s c target) (next_cursor s) body now) s)"
      "lgr_revisions s' =
         lgr_revisions (set_revision now (cmd_target_type c) target (next_revision s c target) s)"
      "lgr_high_water s' = next_cursor s"
| Failed: "moves env s s'"
    if "get_command s (cmd_command_id c) = Some row" "crw_fingerprint row = fingerprint env c"
      "awaits_settlement (crw_result_payload row)"
      "lgr_commands s' = lgr_commands (settle_row (cmd_command_id c) (refused_receipt c target cursor e now) s)"
      "lgr_revisions s' = lgr_revisions s" "lgr_high_water s \<le> lgr_high_water s'"

lemma moves_refl [simp]: "moves env s s"
  by (rule Idle) simp_all

lemma settle_row_cong:
  "lgr_commands s' = lgr_commands s \<Longrightarrow>
   lgr_commands (settle_row k r s') = lgr_commands (settle_row k r s)"
  by (simp add: settle_row_def)

lemma set_revision_cong:
  "lgr_revisions s' = lgr_revisions s \<Longrightarrow>
   lgr_revisions (set_revision now ty target n s') = lgr_revisions (set_revision now ty target n s)"
  by (simp add: set_revision_def split: option.split)

lemma kept_moves:
  assumes "\<And>s' b. r = Inr (s', b) \<Longrightarrow> moves env s s'"
  shows "moves env s (committed s r)"
proof (cases r)
  case (Inr p)
  then show ?thesis using assms [of "fst p" "snd p"] by (cases p) simp
qed simp

lemma refuse_moves: "refuse_command env now nid c target e body s = Inr (s', r) \<Longrightarrow> moves env s s'"
  by (auto simp: refuse_command_def ledger_Inr intro: Recorded split: option.splits)

lemma accept_moves:
  assumes "accept_command env now nid c target ty res body src sens s = Inr (s', r)"
  shows "moves env s s'"
  using assms by (auto simp: accept_command_def ledger_Inr intro: Accepted split: option.splits)

lemma accept_with_mutation_moves:
  assumes "accept_with_mutation env now nid c target ty mutation src sens s = Inr (s', r)"
  shows "moves env s s'"
proof -
  have "s' = s \<or> (get_command s (cmd_command_id c) = None \<and>
      (\<exists>body. lgr_commands s' = lgr_commands s @ [command_row_of env c
         (accepted_receipt c target (next_revision s c target) (next_cursor s) body now)]) \<and>
      lgr_revisions s' =
         lgr_revisions (set_revision now (cmd_target_type c) target (next_revision s c target) s) \<and>
      lgr_high_water s' = next_cursor s)"
    using assms
    by (auto simp: accept_with_mutation_def ledger_Inr split: option.splits intro!: set_revision_cong)
  then show ?thesis by (auto intro: Accepted)
qed

lemma reserve_moves: "reserve_command env now c target s = Inr (s', r) \<Longrightarrow> moves env s s'"
  by (auto simp: reserve_command_def ledger_Inr intro: Recorded split: option.splits)

lemma complete_reserved_moves:
  assumes "complete_reserved env now nid c target ty res body src sens s = Inr (s', r)"
  shows "moves env s s'"
proof -
  have "s' = s \<or> (\<exists>row. get_command s (cmd_command_id c) = Some row \<and>
      crw_fingerprint row = fingerprint env c \<and> awaits_settlement (crw_result_payload row) \<and>
      lgr_commands s' = lgr_commands (settle_row (cmd_command_id c)
         (accepted_receipt c target (next_revision s c target) (next_cursor s) res now) s) \<and>
      lgr_revisions s' =
         lgr_revisions (set_revision now (cmd_target_type c) target (next_revision s c target) s) \<and>
      lgr_high_water s' = next_cursor s)"
    using assms
    by (auto simp: complete_reserved_def ledger_Inr split: if_splits intro!: settle_row_cong)
  then show ?thesis by (auto intro: Completed)
qed

lemma fail_reserved_moves:
  assumes "fail_reserved env now nid c target e body sens s = Inr (s', r)"
  shows "moves env s s'"
proof -
  have "s' = s \<or> (\<exists>row cursor. get_command s (cmd_command_id c) = Some row \<and>
      crw_fingerprint row = fingerprint env c \<and> awaits_settlement (crw_result_payload row) \<and>
      lgr_commands s' = lgr_commands (settle_row (cmd_command_id c) (refused_receipt c target cursor e now) s) \<and>
      lgr_revisions s' = lgr_revisions s \<and> lgr_high_water s \<le> lgr_high_water s')"
    using assms
    by (auto simp: fail_reserved_def ledger_Inr split: if_splits intro!: exI settle_row_cong)
  then show ?thesis by (auto intro: Failed)
qed

lemma create_event_hold_moves:
  "create_event_hold now nid scope scope_id reason actor s = Inr (s', h) \<Longrightarrow> moves env s s'"
  by (auto simp: create_event_hold_def ledger_Inr intro: Idle split: if_splits)

lemma release_event_hold_moves: "release_event_hold now k s = Inr (s', h) \<Longrightarrow> moves env s s'"
  by (auto simp: release_event_hold_def Let_def intro: Idle split: option.splits)

lemma plan_event_retention_moves:
  "plan_event_retention env now nid policy s = Inr (s', p) \<Longrightarrow> moves env s s'"
  by (auto simp: plan_event_retention_def ledger_Inr intro: Idle)

lemma apply_event_retention_moves:
  "apply_event_retention env now k s = Inr (s', p) \<Longrightarrow> moves env s s'"
  by (auto simp: apply_event_retention_def ledger_Inr intro: Idle split: option.splits if_splits)

lemma append_event_moves: "append_event mk s = Inr (s', n) \<Longrightarrow> moves env s s'"
  by (auto simp: append_event_Inr intro: Idle)

lemma enroll_worker_moves:
  assumes "enroll_worker_revision now k s = Inr (s', u)"
  shows "moves env s s'"
proof -
  have "tbl_get agr_key (''worker'', k) (lgr_revisions s) = None"
    using assms by (auto simp: enroll_worker_revision_def ledger_Inr tbl_get_None_iff)
  then have s': "s' = set_revision now ''worker'' k 1 s" "current_revision s ''worker'' k = 0"
    using assms
    by (simp_all add: enroll_worker_revision_def ledger_Inr set_revision_def current_revision_def)
  show ?thesis
    by (rule Elsewhere) (simp_all add: s' current_revision_set)
qed

lemma advance_worker_moves:
  assumes "advance_worker_revision now k n s = Inr (s', u)"
  shows "moves env s s'"
proof -
  have s': "s' = set_revision now ''worker'' k (n + 1) s" "current_revision s ''worker'' k = n"
    using assms by (auto simp: advance_worker_revision_def current_revision_def split: option.splits if_splits)
  show ?thesis
    by (rule Elsewhere) (simp_all add: s' current_revision_set)
qed

lemmas call_moves = enroll_worker_moves advance_worker_moves refuse_moves accept_moves accept_with_mutation_moves reserve_moves
  complete_reserved_moves fail_reserved_moves create_event_hold_moves release_event_hold_moves
  plan_event_retention_moves apply_event_retention_moves append_event_moves

lemma ledger_step_moves: "moves env s (ledger_step env x s)"
  unfolding ledger_step_def
  by (cases x; auto intro!: kept_moves dest: call_moves intro: Idle)

end
