(* ===== verification/CommandInvariant.thy ===== *)
theory CommandInvariant
  imports CommandMachine
begin

section \<open>The invariant of the command ledger\<close>

text \<open>
  \<open>ledger_wf\<close>: one row per command, coherent with its receipt; the accepted receipts of an
  aggregate carry revisions from 1 to its current one, each at most once and, but for workers, each
  exactly once, in the order of their events; the stream is ordered by cursor. \<open>commands_leq\<close>: what later calls leave of a command.
\<close>

subsection \<open>One row of a table\<close>

lemma tbl_upd_split:
  assumes "tbl_wf key rows" "tbl_get key k rows = Some r"
  shows "\<exists>xs ys. rows = xs @ r # ys \<and> tbl_upd key k f rows = xs @ f r # ys"
proof -
  have "r \<in> set rows" "key r = k" using assms(2) by (auto dest: tbl_get_SomeD)
  then obtain xs ys where rows: "rows = xs @ r # ys" by (auto dest: split_list)
  then have "k \<notin> key ` set xs" "k \<notin> key ` set ys" using assms(1) \<open>key r = k\<close> by auto
  then show ?thesis
    using rows \<open>key r = k\<close> tbl_upd_fresh [of k key xs f] tbl_upd_fresh [of k key ys f]
    by (auto simp: tbl_upd_def)
qed

subsection \<open>Receipts\<close>

lemma receipt_simps [simp]:
  "rcp_status (accepted_receipt c target n cursor body now) = CommandAccepted"
  "rcp_status (refused_receipt c target m e now) = CommandRefused"
  "rcp_revision (accepted_receipt c target n cursor body now) = Some n"
  "rcp_event_cursor (accepted_receipt c target n cursor body now) = Some cursor"
  "rcp_target_type (accepted_receipt c target n cursor body now) = cmd_target_type c"
  "rcp_target_id (accepted_receipt c target n cursor body now) = target"
  "rcp_command_id (accepted_receipt c target n cursor body now) = cmd_command_id c"
  "rcp_command_id (refused_receipt c target m e now) = cmd_command_id c"
  "rcp_revision (refused_receipt c target m e now) = None"
  "rcp_error (refused_receipt c target m e now) = Some e"
  "rcp_error (accepted_receipt c target n cursor body now) = None"
  by (simp_all add: accepted_receipt_def refused_receipt_def)

lemma accepted_is_final [simp]: "rcp_status r = CommandAccepted \<Longrightarrow> \<not> awaits_settlement r"
  by (simp add: awaits_settlement_def)

lemma awaits_refused: "awaits_settlement r \<Longrightarrow> rcp_status r = CommandRefused"
  by (simp add: awaits_settlement_def)

lemma command_row_of_simps [simp]:
  "crw_command_id (command_row_of env c r) = cmd_command_id c"
  "crw_result_payload (command_row_of env c r) = r"
  "crw_status (command_row_of env c r) = rcp_status r"
  "crw_fingerprint (command_row_of env c r) = fingerprint env c"
  by (simp_all add: command_row_of_def)

definition command_row_ok :: "command_row \<Rightarrow> bool" where
  "command_row_ok row \<longleftrightarrow>
     (let r = crw_result_payload row
      in crw_status row = rcp_status r \<and> rcp_command_id r = crw_command_id row \<and>
         (if rcp_status r = CommandAccepted
          then rcp_error r = None \<and> rcp_revision r \<noteq> None \<and> rcp_event_cursor r \<noteq> None
          else rcp_status r = CommandRefused \<and> rcp_error r \<noteq> None \<and> rcp_revision r = None))"

definition concerns :: "string \<Rightarrow> string \<Rightarrow> receipt \<Rightarrow> bool" where
  "concerns ty target r \<longleftrightarrow>
     rcp_status r = CommandAccepted \<and> rcp_target_type r = ty \<and> rcp_target_id r = target"

text \<open>The accepted receipts of an aggregate as pairs of revision and event cursor.\<close>

definition accepted_pairs :: "'a ledger \<Rightarrow> string \<Rightarrow> string \<Rightarrow> (int \<times> int) list" where
  "accepted_pairs s ty target =
     map (\<lambda>row. (the (rcp_revision (crw_result_payload row)), the (rcp_event_cursor (crw_result_payload row))))
       (filter (\<lambda>row. concerns ty target (crw_result_payload row)) (lgr_commands s))"

definition accepted_revisions :: "'a ledger \<Rightarrow> string \<Rightarrow> string \<Rightarrow> int list" where
  "accepted_revisions s ty target = map fst (accepted_pairs s ty target)"

definition numbered :: "'a ledger \<Rightarrow> bool" where
  "numbered s \<longleftrightarrow> (\<forall>ty target.
     0 \<le> current_revision s ty target \<and>
     mset (accepted_revisions s ty target) \<subseteq># mset [1..current_revision s ty target] \<and>
     (ty \<noteq> ''worker'' \<longrightarrow>
        mset (accepted_revisions s ty target) = mset [1..current_revision s ty target]))"

definition ordered :: "'a ledger \<Rightarrow> bool" where
  "ordered s \<longleftrightarrow> (\<forall>ty target. \<forall>p \<in> set (accepted_pairs s ty target).
     snd p \<le> lgr_high_water s \<and>
     (\<forall>q \<in> set (accepted_pairs s ty target). fst p < fst q \<longrightarrow> snd p < snd q))"

definition commands_wf :: "'a ledger \<Rightarrow> bool" where
  "commands_wf s \<longleftrightarrow>
     tbl_wf crw_command_id (lgr_commands s) \<and> list_all command_row_ok (lgr_commands s) \<and>
     numbered s \<and> ordered s"

subsection \<open>What a settled row does to the accepted receipts\<close>

lemma accepted_pairs_cong:
  "lgr_commands s' = lgr_commands s \<Longrightarrow> accepted_pairs s' ty target = accepted_pairs s ty target"
  by (simp add: accepted_pairs_def)

lemma accepted_pairs_snoc:
  "lgr_commands s' = lgr_commands s @ [row] \<Longrightarrow>
   accepted_pairs s' ty target = accepted_pairs s ty target @
     (if concerns ty target (crw_result_payload row)
      then [(the (rcp_revision (crw_result_payload row)), the (rcp_event_cursor (crw_result_payload row)))]
      else [])"
  by (simp add: accepted_pairs_def)

lemma accepted_pairs_settled:
  assumes wf: "tbl_wf crw_command_id (lgr_commands s)"
    and row: "get_command s k = Some row" and awaits: "awaits_settlement (crw_result_payload row)"
    and s': "lgr_commands s' = lgr_commands (settle_row k r s)"
  shows "mset (accepted_pairs s' ty target) = mset (accepted_pairs s ty target) +
     (if concerns ty target r then {#(the (rcp_revision r), the (rcp_event_cursor r))#} else {#})"
proof -
  let ?f = "\<lambda>row. row\<lparr>crw_status := rcp_status r, crw_result_payload := r,
            crw_event_cursor := rcp_event_cursor r, crw_completed_at := rcp_completed_at r\<rparr>"
  obtain xs ys where rows: "lgr_commands s = xs @ row # ys"
    and "tbl_upd crw_command_id k ?f (lgr_commands s) = xs @ ?f row # ys"
    using tbl_upd_split [OF wf row [unfolded get_command_def], of ?f] by blast
  then have upd: "lgr_commands s' = xs @ ?f row # ys" using s' by (simp add: settle_row_def)
  have "\<not> concerns ty target (crw_result_payload row)"
    using awaits_refused [OF awaits] by (simp add: concerns_def)
  then show ?thesis by (simp add: accepted_pairs_def rows upd)
qed

lemma settled_rows_ok:
  assumes "list_all command_row_ok (lgr_commands s)" "rcp_command_id r = k"
    and "if rcp_status r = CommandAccepted
      then rcp_error r = None \<and> rcp_revision r \<noteq> None \<and> rcp_event_cursor r \<noteq> None
      else rcp_status r = CommandRefused \<and> rcp_error r \<noteq> None \<and> rcp_revision r = None"
  shows "list_all command_row_ok (lgr_commands (settle_row k r s))"
proof -
  have "command_row_ok row'" if "row' \<in> set (lgr_commands (settle_row k r s))" for row'
    using that assms unfolding settle_row_def
    by (auto simp: list_all_iff elim!: in_tbl_updE) (auto simp: command_row_ok_def Let_def split: if_splits)
  then show ?thesis by (simp add: list_all_iff)
qed

lemma settle_row_keys:
  "map crw_command_id (lgr_commands (settle_row k r s)) = map crw_command_id (lgr_commands s)"
  unfolding settle_row_def by (simp add: tbl_upd_keys)

lemma upto_snoc: "0 \<le> (n::int) \<Longrightarrow> mset [1..n + 1] = mset [1..n] + {#n + 1#}"
  using upto_rec2 [of 1 "n + 1"] by simp

lemma numberedD:
  assumes "numbered s"
  shows "0 \<le> current_revision s ty target"
    and "mset (map fst (accepted_pairs s ty target)) \<subseteq># mset [1..current_revision s ty target]"
    and "ty \<noteq> ''worker'' \<Longrightarrow>
      mset (map fst (accepted_pairs s ty target)) = mset [1..current_revision s ty target]"
  using assms unfolding numbered_def accepted_revisions_def by simp_all

lemma numbered_bound:
  assumes "numbered s" "p \<in> set (accepted_pairs s ty target)"
  shows "fst p \<le> current_revision s ty target"
proof -
  have "fst p \<in># mset (map fst (accepted_pairs s ty target))" using assms(2) by force
  then show ?thesis using mset_subset_eqD [OF numberedD(2) [OF assms(1)]]
    by (metis atLeastAtMost_iff set_mset_mset set_upto)
qed

lemma numbered_same:
  assumes "numbered s" "\<And>ty target. mset (accepted_pairs s' ty target) = mset (accepted_pairs s ty target)"
    and "lgr_revisions s' = lgr_revisions s"
  shows "numbered s'"
proof -
  have "mset (map fst (accepted_pairs s' ty target)) = mset (map fst (accepted_pairs s ty target))"
    for ty target using assms(2) [of ty target] by (metis mset_map)
  then show ?thesis
    using assms(1) by (simp add: numbered_def accepted_revisions_def current_revision_cong [OF assms(3)])
qed

lemma numbered_next:
  assumes "numbered s"
    and pairs: "\<And>ty target. mset (accepted_pairs s' ty target) = mset (accepted_pairs s ty target) +
       (if concerns ty target r then {#(n, cursor)#} else {#})"
    and r: "rcp_status r = CommandAccepted" "rcp_target_type r = cmd_target_type c" "rcp_target_id r = tgt"
    and n: "n = next_revision s c tgt"
    and rev: "lgr_revisions s' = lgr_revisions (set_revision now (cmd_target_type c) tgt n s)"
  shows "numbered s'"
  unfolding numbered_def accepted_revisions_def
proof (intro allI)
  fix ty target
  have cur: "current_revision s' ty target =
      (if (ty, target) = (cmd_target_type c, tgt) then n else current_revision s ty target)"
    by (simp add: current_revision_cong [OF rev] current_revision_set)
  have mset': "mset (map fst (accepted_pairs s' ty target)) =
      mset (map fst (accepted_pairs s ty target)) + (if concerns ty target r then {#n#} else {#})"
    using arg_cong [where f = "image_mset fst", OF pairs [of ty target]] by simp
  show "0 \<le> current_revision s' ty target \<and>
      mset (map fst (accepted_pairs s' ty target)) \<subseteq># mset [1..current_revision s' ty target] \<and>
      (ty \<noteq> ''worker'' \<longrightarrow>
        mset (map fst (accepted_pairs s' ty target)) = mset [1..current_revision s' ty target])"
    unfolding cur mset' using numberedD [OF assms(1), of ty target] r n
    by (auto simp: concerns_def upto_snoc)
qed

lemma numbered_elsewhere:
  assumes "numbered s" "lgr_commands s' = lgr_commands s"
    and le: "\<And>ty target. current_revision s ty target \<le> current_revision s' ty target"
    and same: "\<And>ty target. ty \<noteq> ''worker'' \<Longrightarrow> current_revision s' ty target = current_revision s ty target"
  shows "numbered s'"
  unfolding numbered_def accepted_revisions_def accepted_pairs_cong [OF assms(2)]
proof (intro allI conjI impI)
  fix ty target
  show "0 \<le> current_revision s' ty target" using numberedD(1) [OF assms(1), of ty target] le [of ty target] by simp
  have "mset [1..current_revision s ty target] \<subseteq># mset [1..current_revision s' ty target]"
    using le [of ty target]
    by (simp add: mset_set_set [OF distinct_upto, symmetric] subset_imp_msubset_mset_set)
  then show "mset (map fst (accepted_pairs s ty target)) \<subseteq># mset [1..current_revision s' ty target]"
    using numberedD(2) [OF assms(1)] by (rule subset_mset.order_trans [rotated])
  show "mset (map fst (accepted_pairs s ty target)) = mset [1..current_revision s' ty target]"
    if "ty \<noteq> ''worker''"
    using numberedD(3) [OF assms(1) that] same [OF that] by simp
qed

lemma ordered_same:
  assumes "ordered s" "\<And>ty target. mset (accepted_pairs s' ty target) = mset (accepted_pairs s ty target)"
    and "lgr_high_water s \<le> lgr_high_water s'"
  shows "ordered s'"
proof -
  have "set (accepted_pairs s' ty target) = set (accepted_pairs s ty target)" for ty target
    using assms(2) by (metis set_mset_mset)
  then show ?thesis using assms(1,3) unfolding ordered_def by fastforce
qed

lemma ordered_next:
  assumes wf: "ordered s" "numbered s"
    and pairs: "\<And>ty target. mset (accepted_pairs s' ty target) = mset (accepted_pairs s ty target) +
       (if concerns ty target r then {#(n, next_cursor s)#} else {#})"
    and r: "rcp_target_type r = cmd_target_type c" "rcp_target_id r = tgt"
    and n: "n = next_revision s c tgt" and high: "lgr_high_water s' = next_cursor s"
  shows "ordered s'"
  unfolding ordered_def
proof (intro allI ballI)
  fix ty target p
  have sets: "set (accepted_pairs s' ty target) = set (accepted_pairs s ty target) \<union>
      (if concerns ty target r then {(n, next_cursor s)} else {})"
    using arg_cong [where f = set_mset, OF pairs [of ty target]] by (auto split: if_splits)
  have old: "snd q \<le> lgr_high_water s" if "q \<in> set (accepted_pairs s ty target)" for q
    using that wf(1) unfolding ordered_def by blast
  have bound: "fst q < n" if "q \<in> set (accepted_pairs s ty target)" "concerns ty target r" for q
    using numbered_bound [OF wf(2) that(1)] that(2) r n by (auto simp: concerns_def)
  assume p: "p \<in> set (accepted_pairs s' ty target)"
  have "snd p < snd q" if q: "q \<in> set (accepted_pairs s' ty target)" and less: "fst p < fst q" for q
  proof (cases "q \<in> set (accepted_pairs s ty target)")
    case True
    then have "p \<in> set (accepted_pairs s ty target)"
      using p less bound [OF True] unfolding sets by (auto split: if_splits)
    then show ?thesis using True less wf(1) unfolding ordered_def by blast
  next
    case False
    then have "q = (n, next_cursor s)" using q unfolding sets by (auto split: if_splits)
    then show ?thesis using p less old unfolding sets by (fastforce split: if_splits)
  qed
  moreover have "snd p \<le> lgr_high_water s'"
    using p old high unfolding sets by (fastforce split: if_splits)
  ultimately show "snd p \<le> lgr_high_water s' \<and>
      (\<forall>q \<in> set (accepted_pairs s' ty target). fst p < fst q \<longrightarrow> snd p < snd q)" by blast
qed

lemma concerns_refused [simp]: "\<not> concerns ty target (refused_receipt c tgt m e now)"
  by (simp add: concerns_def)

lemma get_command_None: "get_command s k = None \<longleftrightarrow> k \<notin> crw_command_id ` set (lgr_commands s)"
  by (simp add: get_command_def tbl_get_None_iff)

lemma new_row_ok:
  "list_all command_row_ok (lgr_commands s) \<Longrightarrow> command_row_ok row \<Longrightarrow> lgr_commands s' = lgr_commands s @ [row] \<Longrightarrow>
   list_all command_row_ok (lgr_commands s')"
  by simp

lemma moves_commands_wf:
  assumes "moves env s s'" "commands_wf s"
  shows "commands_wf s'"
  using assms(1)
proof cases
  case Idle
  then show ?thesis
    using assms(2) numbered_same [of s s'] ordered_same [of s s'] accepted_pairs_cong [of s' s]
    unfolding commands_wf_def by simp
next
  case Elsewhere
  have "numbered s'"
    by (rule numbered_elsewhere [OF _ Elsewhere(1,3,4)]) (use assms(2) in \<open>simp_all add: commands_wf_def\<close>)
  then show ?thesis
    using assms(2) Elsewhere ordered_same [of s s'] accepted_pairs_cong [of s' s]
    unfolding commands_wf_def by simp
next
  case (Recorded c target cursor e now)
  have "mset (accepted_pairs s' ty tgt) = mset (accepted_pairs s ty tgt)" for ty tgt
    by (simp add: accepted_pairs_snoc [OF Recorded(2)])
  then show ?thesis
    using Recorded assms(2) numbered_same [of s s'] ordered_same [of s s']
    unfolding commands_wf_def by (auto simp: get_command_None command_row_ok_def)
next
  case (Accepted c target body now)
  let ?r = "accepted_receipt c target (next_revision s c target) (next_cursor s) body now"
  have pairs: "mset (accepted_pairs s' ty tgt) = mset (accepted_pairs s ty tgt) +
      (if concerns ty tgt ?r then {#(next_revision s c target, next_cursor s)#} else {#})" for ty tgt
    by (simp add: accepted_pairs_snoc [OF Accepted(2)])
  have "numbered s'"
    by (rule numbered_next [OF _ pairs _ _ _ refl Accepted(3)]) (use assms(2) in \<open>simp_all add: commands_wf_def\<close>)
  moreover have "ordered s'"
    by (rule ordered_next [OF _ _ pairs _ _ refl Accepted(4)]) (use assms(2) in \<open>simp_all add: commands_wf_def\<close>)
  ultimately show ?thesis
    using Accepted(1,2) assms(2) unfolding commands_wf_def by (auto simp: get_command_None command_row_ok_def)
next
  case (Completed c row target body now)
  let ?r = "accepted_receipt c target (next_revision s c target) (next_cursor s) body now"
  have wf: "tbl_wf crw_command_id (lgr_commands s)" using assms(2) by (simp add: commands_wf_def)
  have pairs: "mset (accepted_pairs s' ty tgt) = mset (accepted_pairs s ty tgt) +
      (if concerns ty tgt ?r then {#(next_revision s c target, next_cursor s)#} else {#})" for ty tgt
    using accepted_pairs_settled [OF wf Completed(1,3,4)] by simp
  have "numbered s'"
    by (rule numbered_next [OF _ pairs _ _ _ refl Completed(5)]) (use assms(2) in \<open>simp_all add: commands_wf_def\<close>)
  moreover have "ordered s'"
    by (rule ordered_next [OF _ _ pairs _ _ refl Completed(6)]) (use assms(2) in \<open>simp_all add: commands_wf_def\<close>)
  ultimately show ?thesis
    using Completed(4) assms(2) settled_rows_ok [of s ?r] unfolding commands_wf_def
    by (simp add: settle_row_keys)
next
  case (Failed c row target cursor e now)
  have wf: "tbl_wf crw_command_id (lgr_commands s)" using assms(2) by (simp add: commands_wf_def)
  have pairs: "mset (accepted_pairs s' ty tgt) = mset (accepted_pairs s ty tgt)" for ty tgt
    using accepted_pairs_settled [OF wf Failed(1,3,4)] by simp
  then show ?thesis
    using Failed(4,5,6) assms(2) settled_rows_ok [of s "refused_receipt c target cursor e now"]
      numbered_same [of s s'] ordered_same [of s s']
    unfolding commands_wf_def by (simp add: settle_row_keys)
qed

subsection \<open>What later calls leave of a command\<close>

definition row_leq :: "command_row \<Rightarrow> command_row \<Rightarrow> bool" where
  "row_leq a b \<longleftrightarrow>
     crw_command_id b = crw_command_id a \<and> crw_fingerprint b = crw_fingerprint a \<and>
     (\<not> awaits_settlement (crw_result_payload a) \<longrightarrow> b = a)"

definition commands_leq :: "'a ledger \<Rightarrow> 'a ledger \<Rightarrow> bool" where
  "commands_leq s s' \<longleftrightarrow>
     (\<forall>k row. get_command s k = Some row \<longrightarrow> (\<exists>row'. get_command s' k = Some row' \<and> row_leq row row')) \<and>
     (\<forall>ty target. current_revision s ty target \<le> current_revision s' ty target)"

lemma row_leq_refl: "row_leq a a"
  by (simp add: row_leq_def)

lemma row_leq_trans: "row_leq a b \<Longrightarrow> row_leq b c \<Longrightarrow> row_leq a c"
  by (auto simp: row_leq_def)

lemma commands_leq_refl: "commands_leq s s"
  by (auto simp: commands_leq_def intro: row_leq_refl)

lemma commands_leq_trans:
  assumes "commands_leq s t" "commands_leq t u"
  shows "commands_leq s u"
  unfolding commands_leq_def
proof (intro conjI allI impI)
  fix k row assume "get_command s k = Some row"
  then obtain row1 where 1: "get_command t k = Some row1" "row_leq row row1"
    using assms(1) unfolding commands_leq_def by blast
  then obtain row2 where "get_command u k = Some row2" "row_leq row1 row2"
    using assms(2) unfolding commands_leq_def by blast
  then show "\<exists>row'. get_command u k = Some row' \<and> row_leq row row'"
    using row_leq_trans [OF 1(2)] by blast
next
  fix ty target
  show "current_revision s ty target \<le> current_revision u ty target"
    using assms unfolding commands_leq_def by (meson order_trans)
qed

lemma get_command_snoc:
  "lgr_commands s' = lgr_commands s @ [row] \<Longrightarrow> get_command s k = Some r \<Longrightarrow> get_command s' k = Some r"
  by (simp add: get_command_def tbl_get_append)

lemma get_command_settled:
  "lgr_commands s' = lgr_commands (settle_row k r s) \<Longrightarrow> get_command s' j =
     (if j = k then map_option (\<lambda>row. row\<lparr>crw_status := rcp_status r, crw_result_payload := r,
            crw_event_cursor := rcp_event_cursor r, crw_completed_at := rcp_completed_at r\<rparr>)
        (get_command s j) else get_command s j)"
  by (simp add: get_command_def settle_row_def tbl_get_upd)

lemma settled_leq:
  assumes "get_command s k = Some row" "awaits_settlement (crw_result_payload row)"
    and "lgr_commands s' = lgr_commands (settle_row k r s)" "get_command s j = Some a"
  shows "\<exists>b. get_command s' j = Some b \<and> row_leq a b"
  using assms get_command_settled [OF assms(3), of j] by (auto simp: row_leq_def)

lemma moves_commands_leq:
  assumes "moves env s s'"
  shows "commands_leq s s'"
  using assms
proof cases
  case Idle
  then show ?thesis
    by (auto simp: commands_leq_def get_command_def current_revision_cong [OF Idle(2)] intro: row_leq_refl)
next
  case Elsewhere
  then show ?thesis
    by (auto simp: commands_leq_def get_command_def intro: row_leq_refl)
next
  case (Recorded c target cursor e now)
  then show ?thesis
    using get_command_snoc [OF Recorded(2)]
    by (auto simp: commands_leq_def current_revision_cong [OF Recorded(3)] intro: row_leq_refl)
next
  case (Accepted c target body now)
  then show ?thesis
    using get_command_snoc [OF Accepted(2)]
    by (auto simp: commands_leq_def current_revision_cong [OF Accepted(3)] current_revision_set
        intro: row_leq_refl)
next
  case (Completed c row target body now)
  then show ?thesis
    using settled_leq [OF Completed(1,3,4)]
    by (auto simp: commands_leq_def current_revision_cong [OF Completed(5)] current_revision_set)
next
  case (Failed c row target cursor e now)
  then show ?thesis
    using settled_leq [OF Failed(1,3,4)]
    by (auto simp: commands_leq_def current_revision_cong [OF Failed(5)])
qed

interpretation ledger_machine: machine_monotone "ledger_step env" commands_wf commands_leq
  by unfold_locales
    (auto intro: moves_commands_wf [OF ledger_step_moves] moves_commands_leq [OF ledger_step_moves]
      commands_leq_refl commands_leq_trans)

lemma empty_commands_wf: "commands_wf (empty_ledger a)"
  by (simp add: commands_wf_def numbered_def ordered_def accepted_revisions_def accepted_pairs_def
      current_revision_def empty_ledger_def tbl_get_def)

lemma reachable_commands_wf: "commands_wf (ledger_after env a ops)"
  by (rule ledger_machine.run_inv [OF empty_commands_wf])

end
