(* ===== verification/CommandStream.thy ===== *)
theory CommandStream
  imports CommandInvariant
begin

section \<open>The event stream of the ledger\<close>

text \<open>
  The stream grows at its end by one event at a time, under a cursor that is never reused, and
  loses events only to a retention plan. In every reachable ledger it is ordered by cursor, so
  that a client that follows the cursor of its last page reads it completely; and an event that
  an active hold covers is never deleted.
\<close>

subsection \<open>What a step does to the stream\<close>

definition stream_grows :: "'a ledger \<Rightarrow> 'a ledger \<Rightarrow> bool" where
  "stream_grows s s' \<longleftrightarrow>
     (\<exists>e. lgr_events s' = lgr_events s @ [e] \<and> evr_cursor e = next_cursor s \<and>
        evr_id e \<notin> evr_id ` set (lgr_events s) \<and> lgr_high_water s' = next_cursor s)"

definition removed_by :: "retention_plan \<Rightarrow> 'a ledger \<Rightarrow> string set" where
  "removed_by p s =
     evr_id ` set (eligible_retention_rows (rtp_cutoff p) (rpy_batch_size (rtp_policy p))
       (Some (map fst (rtp_candidates p))) s)"

definition stream_pruned :: "string \<Rightarrow> 'a ledger \<Rightarrow> 'a ledger \<Rightarrow> bool" where
  "stream_pruned k s s' \<longleftrightarrow>
     (\<exists>p. tbl_get rtp_id k (lgr_plans s) = Some p \<and> rtp_state p = Planned \<and>
        lgr_events s' = filter (\<lambda>e. evr_id e \<notin> removed_by p s) (lgr_events s) \<and>
        lgr_high_water s' = lgr_high_water s)"

definition stream_same :: "'a ledger \<Rightarrow> 'a ledger \<Rightarrow> bool" where
  "stream_same s s' \<longleftrightarrow> lgr_events s' = lgr_events s \<and> lgr_high_water s' = lgr_high_water s"

definition stream_step :: "'a ledger_op \<Rightarrow> 'a ledger \<Rightarrow> 'a ledger \<Rightarrow> bool" where
  "stream_step x s s' \<longleftrightarrow>
     stream_same s s' \<or> stream_grows s s' \<or>
     (\<exists>now k. x = ApplyEventRetention now k \<and> stream_pruned k s s')"

lemma stream_same_refl [simp]: "stream_same s s"
  by (simp add: stream_same_def)

lemma append_grows:
  "append_event mk s0 = Inr (s', cursor) \<Longrightarrow> lgr_events s0 = lgr_events s \<Longrightarrow>
   lgr_high_water s0 = lgr_high_water s \<Longrightarrow> evr_cursor (mk (next_cursor s)) = next_cursor s \<Longrightarrow>
   stream_grows s s'"
  by (auto simp: append_event_Inr stream_grows_def)

lemma grows_cong:
  "stream_grows s t \<Longrightarrow> lgr_events s' = lgr_events t \<Longrightarrow> lgr_high_water s' = lgr_high_water t \<Longrightarrow>
   stream_grows s s'"
  by (auto simp: stream_grows_def)

lemma kept_stream:
  assumes "\<And>s' b. r = Inr (s', b) \<Longrightarrow> stream_same s s' \<or> stream_grows s s'"
  shows "stream_step x s (committed s r)"
proof (cases r)
  case (Inr p)
  then show ?thesis using assms [of "fst p" "snd p"] by (cases p) (auto simp: stream_step_def)
qed (simp add: stream_step_def)

lemma refuse_stream:
  "refuse_command env now nid c target e body s = Inr (s', r) \<Longrightarrow> stream_same s s' \<or> stream_grows s s'"
  by (auto simp: refuse_command_def ledger_Inr stream_grows_def split: option.splits)

lemma accept_stream:
  "accept_command env now nid c target ty res body src sens s = Inr (s', r) \<Longrightarrow>
   stream_same s s' \<or> stream_grows s s'"
  by (auto simp: accept_command_def ledger_Inr stream_grows_def split: option.splits)

lemma accept_with_mutation_stream:
  "accept_with_mutation env now nid c target ty mutation src sens s = Inr (s', r) \<Longrightarrow>
   stream_same s s' \<or> stream_grows s s'"
  by (auto simp: accept_with_mutation_def ledger_Inr stream_grows_def split: option.splits)

lemma reserve_stream:
  "reserve_command env now c target s = Inr (s', r) \<Longrightarrow> stream_same s s' \<or> stream_grows s s'"
  by (auto simp: reserve_command_def ledger_Inr stream_same_def split: option.splits)

lemma complete_reserved_stream:
  "complete_reserved env now nid c target ty res body src sens s = Inr (s', r) \<Longrightarrow>
   stream_same s s' \<or> stream_grows s s'"
  by (auto simp: complete_reserved_def ledger_Inr stream_grows_def split: if_splits)

lemma fail_reserved_stream:
  "fail_reserved env now nid c target e body sens s = Inr (s', r) \<Longrightarrow>
   stream_same s s' \<or> stream_grows s s'"
  by (auto simp: fail_reserved_def ledger_Inr stream_grows_def split: if_splits)

lemma create_event_hold_stream:
  "create_event_hold now nid scope scope_id reason actor s = Inr (s', h) \<Longrightarrow>
   stream_same s s' \<or> stream_grows s s'"
  by (auto simp: create_event_hold_def ledger_Inr stream_same_def split: if_splits)

lemma release_event_hold_stream:
  "release_event_hold now k s = Inr (s', h) \<Longrightarrow> stream_same s s' \<or> stream_grows s s'"
  by (auto simp: release_event_hold_def Let_def stream_same_def split: option.splits)

lemma plan_event_retention_stream:
  "plan_event_retention env now nid policy s = Inr (s', p) \<Longrightarrow> stream_same s s' \<or> stream_grows s s'"
  by (auto simp: plan_event_retention_def ledger_Inr stream_same_def)

lemma append_event_stream:
  "append_event (\<lambda>n. e\<lparr>evr_cursor := n\<rparr>) s = Inr (s', n) \<Longrightarrow> stream_same s s' \<or> stream_grows s s'"
  by (auto simp: append_event_Inr stream_grows_def)

lemma worker_revision_stream:
  "enroll_worker_revision now k s = Inr (s', u) \<Longrightarrow> stream_same s s' \<or> stream_grows s s'"
  "advance_worker_revision now k n s = Inr (s', u) \<Longrightarrow> stream_same s s' \<or> stream_grows s s'"
  by (auto simp: enroll_worker_revision_def advance_worker_revision_def ledger_Inr stream_same_def
      split: option.splits if_splits)

lemma read_plan_Inr: "read_plan env p = Inr q \<longleftrightarrow> q = p \<and> plan_is_consistent env p"
  by (auto simp: read_plan_def)

lemma apply_event_retention_stream:
  "apply_event_retention env now k s = Inr (s', p) \<Longrightarrow> stream_same s s' \<or> stream_pruned k s s'"
  by (auto simp: apply_event_retention_def ledger_Inr stream_pruned_def removed_by_def
      split: option.splits if_splits) (metis retention_state.exhaust)

lemmas call_stream = worker_revision_stream refuse_stream accept_stream accept_with_mutation_stream reserve_stream
  complete_reserved_stream fail_reserved_stream create_event_hold_stream release_event_hold_stream
  plan_event_retention_stream append_event_stream

lemma apply_retention_step:
  "stream_step (ApplyEventRetention now k) s (committed s (apply_event_retention env now k s))"
proof (cases "apply_event_retention env now k s")
  case (Inr p)
  then show ?thesis
    using apply_event_retention_stream [of env now k s "fst p" "snd p"]
    by (cases p) (auto simp: stream_step_def)
qed (simp add: stream_step_def)

lemma changed_outside_stream:
  "stream_step x s (s\<lparr>lgr_runs := rs, lgr_tasks := ts\<rparr>)"
  "stream_step x s (s\<lparr>lgr_tables := a\<rparr>)"
  by (simp_all add: stream_step_def stream_same_def)

lemma ledger_stream_step: "stream_step x s (ledger_step env x s)"
proof (cases "accepted_by_model x")
  case True
  then show ?thesis
    unfolding ledger_step_def
    by (cases x) (auto intro!: kept_stream apply_retention_step changed_outside_stream dest: call_stream)
qed (simp add: ledger_step_def stream_step_def)

subsection \<open>The stream is ordered by cursor\<close>

definition stream_wf :: "'a ledger \<Rightarrow> bool" where
  "stream_wf s \<longleftrightarrow>
     0 \<le> lgr_high_water s \<and> sorted_wrt (<) (map evr_cursor (lgr_events s)) \<and>
     (\<forall>e \<in> set (lgr_events s). 1 \<le> evr_cursor e \<and> evr_cursor e \<le> lgr_high_water s) \<and>
     distinct (map evr_id (lgr_events s))"

lemma stream_grows_wf:
  assumes "stream_wf s" "stream_grows s s'"
  shows "stream_wf s'"
proof -
  obtain e where e: "lgr_events s' = lgr_events s @ [e]" "evr_cursor e = next_cursor s"
    "evr_id e \<notin> evr_id ` set (lgr_events s)" "lgr_high_water s' = next_cursor s"
    using assms(2) unfolding stream_grows_def by blast
  have bound: "1 \<le> evr_cursor x \<and> evr_cursor x \<le> lgr_high_water s" if "x \<in> set (lgr_events s)" for x
    using assms(1) that by (simp add: stream_wf_def)
  have "sorted_wrt (<) (map evr_cursor (lgr_events s'))"
    using assms(1) bound e(1,2) by (fastforce simp: stream_wf_def sorted_wrt_append)
  then show ?thesis
    using assms(1) bound e by (fastforce simp: stream_wf_def)
qed

lemma sorted_map_filter:
  "sorted_wrt R (map f xs) \<Longrightarrow> sorted_wrt R (map f (filter P xs))"
  by (simp add: sorted_wrt_map sorted_wrt_filter)

lemma stream_pruned_wf: "stream_wf s \<Longrightarrow> stream_pruned k s s' \<Longrightarrow> stream_wf s'"
  unfolding stream_wf_def stream_pruned_def
  by (auto simp: sorted_map_filter distinct_map_filter)

lemma stream_same_wf: "stream_wf s \<Longrightarrow> stream_same s s' \<Longrightarrow> stream_wf s'"
  by (simp add: stream_same_def stream_wf_def)

lemma stream_step_wf: "stream_wf s \<Longrightarrow> stream_step x s s' \<Longrightarrow> stream_wf s'"
  unfolding stream_step_def by (auto intro: stream_same_wf stream_grows_wf stream_pruned_wf)

interpretation stream_machine: machine_invariant "ledger_step env" stream_wf
  by unfold_locales (rule stream_step_wf [OF _ ledger_stream_step])

lemma empty_stream_wf: "stream_wf (empty_ledger a)"
  by (simp add: stream_wf_def empty_ledger_def)

lemma reachable_stream_wf: "stream_wf (ledger_after env a ops)"
  by (rule stream_machine.run_inv [OF empty_stream_wf])

subsection \<open>Following the cursor\<close>

text \<open>What a client does: it asks for the page after the last cursor it saw until a page is empty.\<close>

fun drain :: "nat \<Rightarrow> int \<Rightarrow> int \<Rightarrow> event_filter \<Rightarrow> 'a ledger \<Rightarrow> event_row list result" where
  "drain 0 after_cursor limit f s = Inr []"
| "drain (Suc n) after_cursor limit f s =
     ebind (events after_cursor limit f s) (\<lambda>p.
       if pag_events p = [] then Inr []
       else ebind (drain n (pag_next_cursor p) limit f s) (\<lambda>rest. Inr (pag_events p @ rest)))"

definition selected_events ::
  "int \<Rightarrow> event_filter \<Rightarrow> instant option \<Rightarrow> instant option \<Rightarrow> 'a ledger \<Rightarrow> event_row list" where
  "selected_events after_cursor f lo hi s =
     filter (\<lambda>e. after_cursor < evr_cursor e \<and> matches_filter f lo hi e) (lgr_events s)"

lemma selected_sorted:
  "stream_wf s \<Longrightarrow> sorted_wrt (<) (map evr_cursor (selected_events a f lo hi s))"
  by (simp add: selected_events_def stream_wf_def sorted_map_filter)

lemma selected_sort:
  assumes "stream_wf s"
  shows "sort_key evr_cursor (selected_events a f lo hi s) = selected_events a f lo hi s"
proof (rule sort_key_id_if_sorted)
  show "sorted (map evr_cursor (selected_events a f lo hi s))"
    using selected_sorted [OF assms] by (rule strict_sorted_imp_sorted)
qed

lemma fold_min_least:
  "(\<And>e. e \<in> set xs \<Longrightarrow> m \<le> evr_cursor e) \<Longrightarrow> fold (\<lambda>x k. min k (evr_cursor x)) xs m = m"
  by (induction xs) auto

lemma retained_le:
  assumes "stream_wf s" "e \<in> set (lgr_events s)"
  shows "retained_from s \<le> evr_cursor e \<and> 1 \<le> retained_from s"
proof (cases "lgr_events s")
  case (Cons a rest)
  then have less: "\<And>e. e \<in> set rest \<Longrightarrow> evr_cursor a < evr_cursor e"
    using assms(1) by (auto simp: stream_wf_def)
  then have "retained_from s = evr_cursor a"
    using Cons fold_min_least [of rest "evr_cursor a"] by (simp add: retained_from_def less_imp_le)
  moreover have "1 \<le> evr_cursor a" using Cons assms(1) by (simp add: stream_wf_def)
  ultimately show ?thesis using Cons assms(2) less by force
qed (use assms in simp)

lemma retained_nonneg: "stream_wf s \<Longrightarrow> 0 \<le> retained_from s"
  using retained_le [of s "hd (lgr_events s)"]
  by (cases "lgr_events s") (auto simp: retained_from_def)

lemma traverse_read: "list_all envelope_valid xs \<Longrightarrow> traverse read_event xs = Inr xs"
  by (induction xs) (auto simp: read_event_def)

lemma normalized_filter:
  "normalized_time t = Inr i \<longleftrightarrow> (t = None \<and> i = None) \<or> (\<exists>x. t = Some (Aware x) \<and> i = Some x)"
  by (auto simp: normalized_time_def split: option.splits filter_time.splits)

lemma events_page:
  assumes wf: "stream_wf s" and valid: "list_all envelope_valid (lgr_events s)"
    and limit: "1 \<le> limit" "limit \<le> 1000" and a: "0 \<le> a" "a = 0 \<or> retained_from s \<le> a + 1"
    and lo: "normalized_time (ef_occurred_after f) = Inr lo"
    and hi: "normalized_time (ef_occurred_before f) = Inr hi"
  shows "events a limit f s = Inr
     (let rows = take (nat limit) (selected_events a f lo hi s)
      in \<lparr>pag_after_cursor = a, pag_next_cursor = (if rows = [] then a else evr_cursor (last rows)),
          pag_retained_from_cursor = retained_from s, pag_events = rows\<rparr>)"
proof -
  let ?rows = "take (nat limit) (selected_events a f lo hi s)"
  have sub: "set ?rows \<subseteq> set (lgr_events s)"
    by (auto simp: selected_events_def dest: in_set_takeD)
  have "traverse read_event ?rows = Inr ?rows"
    using valid sub by (intro traverse_read) (auto simp: list_all_iff)
  moreover have "0 \<le> evr_cursor (last ?rows)" if "?rows \<noteq> []"
    using last_in_set [OF that] sub wf unfolding stream_wf_def by force
  ultimately have "page_of a (retained_from s) ?rows = Inr
      \<lparr>pag_after_cursor = a, pag_next_cursor = (if ?rows = [] then a else evr_cursor (last ?rows)),
       pag_retained_from_cursor = retained_from s, pag_events = ?rows\<rparr>"
    using a retained_nonneg [OF wf] by (simp add: page_of_def page_valid_def Let_def)
  then show ?thesis
    using limit a lo hi selected_sort [OF wf, of a f lo hi]
    by (auto simp: events_def Let_def selected_events_def)
qed

lemma filter_after_last_taken:
  assumes "sorted_wrt (<) (map c xs)" "xs \<noteq> []" "0 < k"
  shows "filter (\<lambda>e. (c (last (take k xs)) :: int) < c e) xs = drop k xs"
proof -
  have sorted: "sorted_wrt (\<lambda>x y. c x < c y) (take k xs @ drop k xs)"
    using assms(1) by (simp add: sorted_wrt_map)
  have split: "xs = take k xs @ drop k xs" by simp
  have ne: "take k xs \<noteq> []" using assms(2,3) by simp
  obtain ys where ys: "take k xs = ys @ [last (take k xs)]" using ne by (metis append_butlast_last_id)
  have "sorted_wrt (\<lambda>x y. c x < c y) (ys @ [last (take k xs)])" using sorted ys
    by (metis sorted_wrt_append)
  then have "\<not> c (last (take k xs)) < c e" if "e \<in> set (take k xs)" for e
    using that ys by (metis (no_types, lifting) Un_iff empty_iff empty_set insert_iff less_asym
        list.simps(15) set_append sorted_wrt_append less_irrefl list.set_intros(1))
  moreover have "c (last (take k xs)) < c e" if "e \<in> set (drop k xs)" for e
    using that sorted last_in_set [OF ne] unfolding sorted_wrt_append by blast
  ultimately have "filter (\<lambda>e. c (last (take k xs)) < c e) (take k xs) = []"
    "filter (\<lambda>e. c (last (take k xs)) < c e) (drop k xs) = drop k xs"
    by (auto simp: filter_empty_conv filter_id_conv)
  then show ?thesis using split by (metis append_Nil filter_append)
qed

lemma selected_after_page:
  assumes "stream_wf s" "selected_events a f lo hi s \<noteq> []" "0 < k"
  shows "selected_events (evr_cursor (last (take k (selected_events a f lo hi s)))) f lo hi s =
    drop k (selected_events a f lo hi s)"
proof -
  let ?m = "selected_events a f lo hi s" and ?c = "evr_cursor (last (take k (selected_events a f lo hi s)))"
  have "take k ?m \<noteq> []" using assms(2,3) by simp
  then have "last (take k ?m) \<in> set ?m" by (rule in_set_takeD [OF last_in_set])
  then have "a < ?c" by (simp add: selected_events_def)
  then have "selected_events ?c f lo hi s = filter (\<lambda>e. ?c < evr_cursor e) ?m"
    unfolding selected_events_def by (auto intro!: filter_cong)
  then show ?thesis
    using filter_after_last_taken [OF selected_sorted [OF assms(1)] assms(2,3)] by simp
qed

lemma drain_complete:
  assumes wf: "stream_wf s" and valid: "list_all envelope_valid (lgr_events s)"
    and limit: "1 \<le> limit" "limit \<le> 1000"
    and lo: "normalized_time (ef_occurred_after f) = Inr lo"
    and hi: "normalized_time (ef_occurred_before f) = Inr hi"
  shows "0 \<le> a \<Longrightarrow> a = 0 \<or> retained_from s \<le> a + 1 \<Longrightarrow>
    length (selected_events a f lo hi s) < n \<Longrightarrow>
    drain n a limit f s = Inr (selected_events a f lo hi s)"
proof (induction n arbitrary: a)
  case (Suc n)
  let ?m = "selected_events a f lo hi s" and ?k = "nat limit"
  note page = events_page [OF wf valid limit Suc.prems(1,2) lo hi]
  show ?case
  proof (cases "?m = []")
    case True
    then show ?thesis by (simp add: page Let_def)
  next
    case False
    have k: "0 < ?k" using limit by simp
    then have ne: "take ?k ?m \<noteq> []" using False by simp
    let ?next = "evr_cursor (last (take ?k ?m))"
    have "last (take ?k ?m) \<in> set (lgr_events s)"
      using in_set_takeD [OF last_in_set [OF ne]] by (simp add: selected_events_def)
    then have "0 \<le> ?next" "retained_from s \<le> ?next + 1"
      using retained_le [OF wf] wf by (force simp: stream_wf_def)+
    moreover have rest: "selected_events ?next f lo hi s = drop ?k ?m"
      using selected_after_page [OF wf False k] .
    moreover have "length (drop ?k ?m) < n" using Suc.prems(3) k False by (cases ?m) auto
    ultimately have "drain n ?next limit f s = Inr (drop ?k ?m)" using Suc.IH [of ?next] by simp
    then show ?thesis using ne by (simp add: page Let_def)
  qed
qed simp

subsection \<open>Retention\<close>

lemma active_hold_iff: "h \<in> set (active_holds s) \<longleftrightarrow> h \<in> set (lgr_holds s) \<and> hld_released_at h = None"
  by (auto simp: active_holds_def)

lemma held_by_iff:
  "k \<in> set (held_by scope s) \<longleftrightarrow>
     (\<exists>h \<in> set (active_holds s). hld_scope h = scope \<and> hld_scope_id h = Some k)"
  by (force simp: held_by_def List.map_filter_def)

lemma eligibleD:
  assumes "e \<in> set (eligible_retention_rows cutoff limit candidates s)"
  shows "e \<in> set (lgr_events s)" and "evr_occurred_at e < cutoff"
    and "candidates = Some ids \<Longrightarrow> evr_id e \<in> set ids"
    and "\<not> protected_run s e" and "evr_id e \<notin> set (held_by OneEvent s)"
    and "\<forall>h \<in> set (active_holds s). hld_scope h \<noteq> AllEvents"
  using assms unfolding eligible_retention_rows_def
  by (auto simp: list_ex_iff dest!: in_set_takeD split: if_splits)

lemma removedD:
  assumes "stream_wf s" "evr_id e \<in> removed_by p s" "e \<in> set (lgr_events s)"
  shows "e \<in> set (eligible_retention_rows (rtp_cutoff p) (rpy_batch_size (rtp_policy p))
      (Some (map fst (rtp_candidates p))) s)"
proof -
  obtain e' where e': "e' \<in> set (eligible_retention_rows (rtp_cutoff p) (rpy_batch_size (rtp_policy p))
      (Some (map fst (rtp_candidates p))) s)" "evr_id e' = evr_id e"
    using assms(2) by (auto simp: removed_by_def)
  then have "e' = e"
    using eligibleD(1) [OF e'(1)] assms(1,3) by (metis stream_wf_def distinct_map inj_onD)
  then show ?thesis using e'(1) by simp
qed

text \<open>An active hold and the events it covers.\<close>

definition hold_covers :: "event_hold \<Rightarrow> event_row \<Rightarrow> bool" where
  "hold_covers h e \<longleftrightarrow>
     (case hld_scope h of AllEvents \<Rightarrow> True
      | RunEvents \<Rightarrow> evr_run_id e \<noteq> None \<and> evr_run_id e = hld_scope_id h
      | OneEvent \<Rightarrow> hld_scope_id h = Some (evr_id e))"

lemma covered_not_eligible:
  assumes "h \<in> set (active_holds s)" "hold_covers h e"
    and "e \<in> set (eligible_retention_rows cutoff limit candidates s)"
  shows False
proof (cases "hld_scope h")
  case AllEvents
  then show ?thesis using eligibleD(6) [OF assms(3)] assms(1) by blast
next
  case RunEvents
  then obtain r where "evr_run_id e = Some r" "hld_scope_id h = Some r"
    using assms(2) by (cases "hld_scope_id h") (auto simp: hold_covers_def)
  then have "r \<in> set (held_by RunEvents s)" using RunEvents assms(1) held_by_iff by blast
  then show ?thesis using eligibleD(4) [OF assms(3)] \<open>evr_run_id e = Some r\<close> by (simp add: protected_run_def)
next
  case OneEvent
  then have "evr_id e \<in> set (held_by OneEvent s)"
    using assms(1,2) unfolding held_by_iff by (auto simp: hold_covers_def)
  then show ?thesis using eligibleD(5) [OF assms(3)] by blast
qed

lemma covered_event_kept:
  assumes "stream_wf s" "h \<in> set (active_holds s)" "hold_covers h e" "e \<in> set (lgr_events s)"
  shows "e \<in> set (lgr_events (ledger_step env x s))"
  using ledger_stream_step [of x s env] unfolding stream_step_def
proof (elim disjE exE conjE)
  fix now k assume "stream_pruned k s (ledger_step env x s)"
  then obtain p where
    "lgr_events (ledger_step env x s) = filter (\<lambda>e. evr_id e \<notin> removed_by p s) (lgr_events s)"
    by (auto simp: stream_pruned_def)
  then show ?thesis
    using covered_not_eligible [OF assms(2,3) removedD [OF assms(1) _ assms(4)]] assms(4) by auto
qed (use assms(4) in \<open>auto simp: stream_same_def stream_grows_def\<close>)

text \<open>A hold stays active until it is released.\<close>

lemma kept_holds:
  assumes "\<And>s' b. r = Inr (s', b) \<Longrightarrow> h \<in> set (active_holds s')" "h \<in> set (active_holds s)"
  shows "h \<in> set (active_holds (committed s r))"
proof (cases r)
  case (Inr p)
  then show ?thesis using assms(1) [of "fst p" "snd p"] by (cases p) simp
qed (use assms(2) in simp)

lemma call_active_holds:
  "refuse_command env now nid c target e body s = Inr (s', r) \<Longrightarrow> active_holds s' = active_holds s"
  "accept_command env now nid c target ty res body src sens s = Inr (s', r) \<Longrightarrow> active_holds s' = active_holds s"
  "accept_with_mutation env now nid c target ty mutation src sens s = Inr (s', r) \<Longrightarrow>
     active_holds s' = active_holds s"
  "reserve_command env now c target s = Inr (s', q) \<Longrightarrow> active_holds s' = active_holds s"
  "complete_reserved env now nid c target ty res body src sens s = Inr (s', r) \<Longrightarrow>
     active_holds s' = active_holds s"
  "fail_reserved env now nid c target e body sens s = Inr (s', r) \<Longrightarrow> active_holds s' = active_holds s"
  "plan_event_retention env now nid policy s = Inr (s', p) \<Longrightarrow> active_holds s' = active_holds s"
  "apply_event_retention env now k s = Inr (s', p) \<Longrightarrow> active_holds s' = active_holds s"
  "append_event mk s = Inr (s', n) \<Longrightarrow> active_holds s' = active_holds s"
  "enroll_worker_revision now k s = Inr (s', u) \<Longrightarrow> active_holds s' = active_holds s"
  "advance_worker_revision now k m s = Inr (s', u) \<Longrightarrow> active_holds s' = active_holds s"
  by (auto simp: active_holds_def enroll_worker_revision_def advance_worker_revision_def refuse_command_def accept_command_def accept_with_mutation_def reserve_command_def complete_reserved_def
      fail_reserved_def plan_event_retention_def apply_event_retention_def ledger_Inr
      split: option.splits if_splits)

lemma active_holds_outside [simp]:
  "active_holds (s\<lparr>lgr_runs := rs, lgr_tasks := ts\<rparr>) = active_holds s"
  "active_holds (s\<lparr>lgr_tables := a\<rparr>) = active_holds s"
  by (simp_all add: active_holds_def)

lemma release_other_hold:
  assumes "release_event_hold now k s = Inr (s', h')" "k \<noteq> hld_id h" "h \<in> set (active_holds s)"
  shows "h \<in> set (active_holds s')"
  using assms by (auto simp: release_event_hold_def Let_def active_hold_iff set_tbl_upd split: option.splits)

lemma create_hold_keeps:
  assumes "create_event_hold now nid scope scope_id reason actor s = Inr (s', h')" "h \<in> set (active_holds s)"
  shows "h \<in> set (active_holds s')"
  using assms by (auto simp: create_event_hold_def ledger_Inr active_hold_iff split: if_splits)

lemma hold_stays_active:
  assumes "h \<in> set (active_holds s)" "\<forall>now. x \<noteq> ReleaseEventHold now (hld_id h)"
  shows "h \<in> set (active_holds (ledger_step env x s))"
proof (cases "accepted_by_model x")
  case True
  show ?thesis
    unfolding ledger_step_def using True assms
    by (cases x)
      (auto intro!: kept_holds intro: release_other_hold create_hold_keeps dest: call_active_holds)
qed (use assms in \<open>simp add: ledger_step_def\<close>)

end
