(* ===== verification/CommandProperties.thy ===== *)
theory CommandProperties
  imports CommandStream
begin

section \<open>Properties of the command ledger\<close>

text \<open>
  What holds of the ledger in every history of its calls, interleaved with whatever other code
  does to the same database, and a history after which the stream cannot be read. The example:
  two accepted commands on one aggregate, one of them reserved first, and one refused.
\<close>

definition demo_digests :: digests where
  "demo_digests = \<lparr>dg_command = (\<lambda>c. cmd_actor_id c @ ''/'' @ cmd_command_type c),
     dg_policy = (\<lambda>p. ''policy'')\<rparr>"

definition demo_command :: "string \<Rightarrow> string \<Rightarrow> payload \<Rightarrow> application_command" where
  "demo_command k ty body =
     \<lparr>cmd_command_id = k, cmd_command_type = ty, cmd_actor_id = ''owner'',
      cmd_target_type = ''mission'', cmd_target_id = Some ''m1'', cmd_expected_revision = None,
      cmd_issued_at = 0, cmd_payload = body\<rparr>"

definition demo_error :: error_report where
  "demo_error = \<lparr>xe_code = MISSION, xe_message = ''no'', xe_details = [], xe_retryable = False\<rparr>"

definition demo_history :: "unit ledger_op list" where
  "demo_history =
     [Reserve 1 (demo_command ''c1'' ''mission.run'' []) ''m1'',
      Accept 2 ''e1'' (demo_command ''c2'' ''mission.pause'' []) ''m1'' ''mission.paused'' [] []
        ''mishkand'' ''internal'',
      Refuse 3 ''e2'' (demo_command ''c3'' ''mission.stop'' []) ''m1'' demo_error [],
      CompleteReserved 4 ''e3'' (demo_command ''c1'' ''mission.run'' []) ''m1'' ''mission.started''
        [(''run_id'', JStr ''r1'')] [] ''mishkand'' ''internal'']"

subsection \<open>Revisions\<close>

text \<open>
  Claim C27. The accepted commands of an aggregate are numbered by its revisions: in every reachable
  ledger the receipts accepted for an aggregate carry revisions between 1 and its current revision,
  no two the same, and a later revision has a later event in the stream. For every kind of aggregate
  but the workers, whose registry advances the revision without a command, they carry all of them.
\<close>

theorem accepted_commands_are_numbered:
  "mset (accepted_revisions (ledger_after env a ops) ty target) \<subseteq>#
     mset [1..current_revision (ledger_after env a ops) ty target] \<and>
   (ty \<noteq> ''worker'' \<longrightarrow> mset (accepted_revisions (ledger_after env a ops) ty target) =
     mset [1..current_revision (ledger_after env a ops) ty target]) \<and>
   (\<forall>p \<in> set (accepted_pairs (ledger_after env a ops) ty target).
      \<forall>q \<in> set (accepted_pairs (ledger_after env a ops) ty target). fst p < fst q \<longrightarrow> snd p < snd q)"
  using reachable_commands_wf [of env ops a]
  unfolding commands_wf_def numbered_def ordered_def by blast

definition worker_history :: "unit ledger_op list" where
  "worker_history = [EnrollWorkerRevision 1 ''w1'',
     Accept 2 ''e0'' ((demo_command ''c0'' ''worker.drain'' [])\<lparr>cmd_target_type := ''worker'', cmd_target_id := Some ''w1''\<rparr>)
       ''w1'' ''worker.drained'' [] [] ''mishkand'' ''internal'', AdvanceWorkerRevision 3 ''w1'' 2]"

theorem accepted_commands_are_numbered_witness:
  "let s = ledger_after demo_digests () (demo_history @ worker_history)
   in accepted_pairs s ''mission'' ''m1'' = [(2, 3), (1, 1)] \<and> current_revision s ''mission'' ''m1'' = 2 \<and>
      mset (accepted_revisions s ''mission'' ''m1'') = mset [1..current_revision s ''mission'' ''m1''] \<and>
      accepted_revisions s ''worker'' ''w1'' = [2] \<and> current_revision s ''worker'' ''w1'' = 3"
proof -
  let ?s = "ledger_after demo_digests () (demo_history @ worker_history)"
  have "accepted_pairs ?s ''mission'' ''m1'' = [(2, 3), (1, 1)]"
    and "current_revision ?s ''mission'' ''m1'' = 2"
    and "accepted_revisions ?s ''worker'' ''w1'' = [2]" and "current_revision ?s ''worker'' ''w1'' = 3"
    by code_simp+
  moreover have "mset (accepted_revisions ?s ''mission'' ''m1'') = mset [1..current_revision ?s ''mission'' ''m1'']"
    using accepted_commands_are_numbered [of demo_digests "demo_history @ worker_history" "()" "''mission''" "''m1''"]
    by simp
  ultimately show ?thesis unfolding Let_def by blast
qed

subsection \<open>Commands happen once\<close>

lemma final_row_kept:
  assumes "commands_wf s" "get_command s k = Some row" "\<not> awaits_settlement (crw_result_payload row)"
  shows "get_command (run_ops (ledger_step env) ops s) k = Some row"
  using ledger_machine.run_leq [OF assms(1), of env ops] assms(2,3)
  unfolding commands_leq_def row_leq_def by blast

lemma row_kept:
  assumes "commands_wf s" "get_command s k = Some row"
  shows "\<exists>row'. get_command (run_ops (ledger_step env) ops s) k = Some row' \<and>
    crw_fingerprint row' = crw_fingerprint row"
  using ledger_machine.run_leq [OF assms(1), of env ops] assms(2)
  unfolding commands_leq_def row_leq_def by blast

lemma accepted_row:
  assumes "accept_with_mutation env now nid c target ty mutation src sens s = Inr (s', r)"
    and "rcp_status r = CommandAccepted"
  shows "\<exists>row. get_command s' (cmd_command_id c) = Some row \<and>
    crw_fingerprint row = fingerprint env c \<and> crw_result_payload row = r"
  using assms
  by (auto simp: accept_with_mutation_def ledger_Inr get_command_def tbl_get_append tbl_simps
      split: option.splits)

text \<open>
  Claim C28. An accepted command is executed once and answered forever: once a mutation was
  accepted, then after any further calls every attempt to accept, refuse, reserve, complete or
  fail the same command, whatever its other arguments, runs nothing, changes nothing and returns
  the receipt of the acceptance.
\<close>

theorem accepted_command_is_replayed:
  assumes "accept_with_mutation env now nid c target ty mutation src sens (ledger_after env a ops) =
      Inr (s', r)"
    and "rcp_status r = CommandAccepted"
  shows "accept_with_mutation env now' nid' c target' ty' mutation' src' sens'
      (run_ops (ledger_step env) ops' s') = Inr (run_ops (ledger_step env) ops' s', r) \<and>
    accept_command env now' nid' c target' ty' res body src' sens'
      (run_ops (ledger_step env) ops' s') = Inr (run_ops (ledger_step env) ops' s', r) \<and>
    refuse_command env now' nid' c target' e body
      (run_ops (ledger_step env) ops' s') = Inr (run_ops (ledger_step env) ops' s', r) \<and>
    reserve_command env now' c target'
      (run_ops (ledger_step env) ops' s') = Inr (run_ops (ledger_step env) ops' s', Some r) \<and>
    complete_reserved env now' nid' c target' ty' res body src' sens'
      (run_ops (ledger_step env) ops' s') = Inr (run_ops (ledger_step env) ops' s', r) \<and>
    fail_reserved env now' nid' c target' e body sens'
      (run_ops (ledger_step env) ops' s') = Inr (run_ops (ledger_step env) ops' s', r)"
proof -
  obtain row where row: "get_command s' (cmd_command_id c) = Some row"
      "crw_fingerprint row = fingerprint env c" "crw_result_payload row = r"
    using accepted_row [OF assms] by blast
  have "commands_wf s'"
    using moves_commands_wf [OF accept_with_mutation_moves [OF assms(1)] reachable_commands_wf] .
  then have kept_row: "get_command (run_ops (ledger_step env) ops' s') (cmd_command_id c) = Some row"
    by (rule final_row_kept [OF _ row(1)]) (use row(3) assms(2) in simp_all)
  show ?thesis
    by (simp add: accept_with_mutation_def accept_command_def refuse_command_def reserve_command_def complete_reserved_def
        fail_reserved_def reserved_row_def replay_stored_def on_integrity_def kept_row row assms(2))
qed

definition demo_mutation :: "unit mutation" where
  "demo_mutation a n = Inr (a, [(''revision'', JInt n)], [])"

theorem accepted_command_is_replayed_witness:
  "\<exists>s' r. accept_with_mutation demo_digests 5 ''e4'' (demo_command ''c4'' ''mission.end'' []) ''m1''
      ''mission.ended'' demo_mutation ''mishkand'' ''internal'' (ledger_after demo_digests () demo_history) =
      Inr (s', r) \<and> rcp_revision r = Some 3 \<and>
    reserve_command demo_digests 9 (demo_command ''c4'' ''mission.end'' []) ''m1''
      (run_ops (ledger_step demo_digests) demo_history s') =
      Inr (run_ops (ledger_step demo_digests) demo_history s', Some r)"
proof -
  let ?s = "ledger_after demo_digests () demo_history" and ?c = "demo_command ''c4'' ''mission.end'' []"
  let ?out = "accept_with_mutation demo_digests 5 ''e4'' ?c ''m1'' ''mission.ended'' demo_mutation
      ''mishkand'' ''internal'' ?s"
  have "\<not> is_error ?out" by code_simp
  then have out: "?out = Inr (fst (projr ?out), snd (projr ?out))" by (rule not_error_pair)
  have status: "rcp_status (snd (projr ?out)) = CommandAccepted" by code_simp
  have "rcp_revision (snd (projr ?out)) = Some 3" by code_simp
  then show ?thesis
    using out accepted_command_is_replayed [OF out status, of 9 _ "''m1''" _ _ _ _ demo_history] by blast
qed

text \<open>
  Claim C29. An effect is dispatched at most once: after a reservation that gave its caller the
  right to execute the effect, every further reservation under the same command identity, after
  any calls, is answered with a receipt when the content is the same and refused when it is not.
\<close>

theorem reserved_effect_is_dispatched_once:
  assumes "reserve_command env now c target (ledger_after env a ops) = Inr (s', None)"
    and "cmd_command_id c' = cmd_command_id c"
  shows "reserve_command env now' c' target' (run_ops (ledger_step env) ops' s') =
    (if fingerprint env c' = fingerprint env c
     then Inr (run_ops (ledger_step env) ops' s',
       command_result_of (run_ops (ledger_step env) ops' s') (cmd_command_id c))
     else Inl (MishkanError DUPLICATE_RESULT ''command identity was already used for different content''))
    \<and> command_result_of (run_ops (ledger_step env) ops' s') (cmd_command_id c) \<noteq> None"
proof -
  have "\<exists>row. get_command s' (cmd_command_id c) = Some row \<and> crw_fingerprint row = fingerprint env c"
    using assms(1)
    by (auto simp: reserve_command_def ledger_Inr get_command_def tbl_get_append tbl_simps split: option.splits)
  moreover have "commands_wf s'"
    using moves_commands_wf [OF reserve_moves [OF assms(1)] reachable_commands_wf] .
  ultimately obtain row where
    "get_command (run_ops (ledger_step env) ops' s') (cmd_command_id c) = Some row"
    "crw_fingerprint row = fingerprint env c"
    using row_kept by metis
  then show ?thesis
    using assms(2) by (simp add: reserve_command_def replay_stored_def command_result_of_def)
qed

theorem reserved_effect_is_dispatched_once_witness:
  "\<exists>s'. reserve_command demo_digests 1 (demo_command ''c1'' ''mission.run'' []) ''m1'' (empty_ledger ()) =
      Inr (s', None) \<and>
    command_result_of (run_ops (ledger_step demo_digests) demo_history s') ''c1'' \<noteq> None"
proof -
  let ?c = "demo_command ''c1'' ''mission.run'' []"
  let ?out = "reserve_command demo_digests 1 ?c ''m1'' (ledger_after demo_digests () [])"
  have "\<not> is_error ?out" by code_simp
  then have pair: "?out = Inr (fst (projr ?out), snd (projr ?out))" by (rule not_error_pair)
  have "snd (projr ?out) = None" by code_simp
  then have out: "?out = Inr (fst (projr ?out), None)" using pair by metis
  have "cmd_command_id ?c = ''c1''" by (simp add: demo_command_def)
  then show ?thesis
    using out reserved_effect_is_dispatched_once [OF out refl, of 9 "''m1''" demo_history] by auto
qed

subsection \<open>The stream\<close>

text \<open>
  Claim C30. Following the cursor reads the whole stream: in every reachable ledger all of whose rows
  are valid envelopes, a client that starts at the beginning or after a cursor that is still
  retained and asks for page after page, of any size from 1 to 1000 and under any filter whose times
  are aware, ends after finitely many pages and has received exactly the matching events after its
  cursor, in stream order, none twice.
\<close>

theorem cursor_reading_is_complete:
  assumes "list_all envelope_valid (lgr_events (ledger_after env a ops))"
    and "1 \<le> limit" "limit \<le> 1000" "0 \<le> c"
    and "c = 0 \<or> retained_from (ledger_after env a ops) \<le> c + 1"
    and "normalized_time (ef_occurred_after f) = Inr lo" "normalized_time (ef_occurred_before f) = Inr hi"
    and "length (lgr_events (ledger_after env a ops)) < n"
  shows "drain n c limit f (ledger_after env a ops) =
    Inr (filter (\<lambda>e. c < evr_cursor e \<and> matches_filter f lo hi e) (lgr_events (ledger_after env a ops)))"
proof -
  let ?s = "ledger_after env a ops"
  have "length (selected_events c f lo hi ?s) \<le> length (lgr_events ?s)"
    by (simp add: selected_events_def)
  then show ?thesis
    using drain_complete [OF reachable_stream_wf assms(1,2,3,6,7,4,5)] assms(8)
    unfolding selected_events_def by (meson le_less_trans)
qed

definition no_filter :: event_filter where
  "no_filter = \<lparr>ef_event_types = [], ef_entity_type = None, ef_entity_id = None, ef_run_id = None,
     ef_task_id = None, ef_identity_id = None, ef_team_id = None, ef_occurred_after = None,
     ef_occurred_before = None, ef_security_relevant = None\<rparr>"

theorem cursor_reading_is_complete_witness:
  "\<exists>es. drain 5 1 1 no_filter (ledger_after demo_digests () demo_history) = Inr es \<and>
     map evr_cursor es = [2, 3]"
proof -
  let ?s = "ledger_after demo_digests () demo_history"
  have valid: "list_all envelope_valid (lgr_events ?s)" by code_simp
  have kept_from: "retained_from ?s \<le> 1 + 1" by code_simp
  have len: "length (lgr_events ?s) < 5" by code_simp
  have "map evr_cursor (filter (\<lambda>e. 1 < evr_cursor e \<and> matches_filter no_filter None None e)
      (lgr_events ?s)) = [2, 3]" by code_simp
  moreover have "normalized_time (ef_occurred_after no_filter) = Inr None"
    "normalized_time (ef_occurred_before no_filter) = Inr None"
    by (simp_all add: no_filter_def normalized_time_def)
  ultimately show ?thesis
    using cursor_reading_is_complete [OF valid _ _ _ disjI2 [OF kept_from] _ _ len, of 1 no_filter None None]
    by simp
qed

text \<open>
  Claim C31. Held evidence survives: while a hold stays active, no call deletes an event it covers.
  From any reachable ledger, after any calls other than the release of this hold, and whatever
  retention plans are made and applied among them, the event is still in the stream, unchanged.
\<close>

theorem held_events_survive:
  assumes "h \<in> set (active_holds (ledger_after env a ops))" "hold_covers h e"
    and "e \<in> set (lgr_events (ledger_after env a ops))"
    and "\<forall>now. ReleaseEventHold now (hld_id h) \<notin> set ops'"
  shows "e \<in> set (lgr_events (run_ops (ledger_step env) ops' (ledger_after env a ops)))"
proof -
  have survives: "e \<in> set (lgr_events (run_ops (ledger_step env) ops' s))"
    if "stream_wf s" "h \<in> set (active_holds s)" "e \<in> set (lgr_events s)" for s :: "'a ledger"
    using that assms(4)
  proof (induction ops' arbitrary: s)
    case (Cons x xs)
    have "h \<in> set (active_holds (ledger_step env x s))"
      by (rule hold_stays_active [OF Cons.prems(2)]) (use Cons.prems(4) in auto)
    moreover have "e \<in> set (lgr_events (ledger_step env x s))"
      using covered_event_kept [OF Cons.prems(1,2) assms(2) Cons.prems(3)] .
    moreover have "stream_wf (ledger_step env x s)"
      using stream_machine.step_inv [OF Cons.prems(1)] .
    ultimately show ?case using Cons by simp
  qed simp
  show ?thesis by (rule survives [OF reachable_stream_wf assms(1,3)])
qed

definition demo_retention :: retention_policy where
  "demo_retention = \<lparr>rpy_max_age_days = 1, rpy_batch_size = 10\<rparr>"

definition held_history :: "unit ledger_op list" where
  "held_history = demo_history @ [CreateEventHold 10 ''h1'' OneEvent (Some ''e2'') ''audit'' ''owner'']"

definition retention_calls :: "unit ledger_op list" where
  "retention_calls = [PlanEventRetention (days 2) ''p1'' demo_retention, ApplyEventRetention (days 3) ''p1'']"

theorem held_events_survive_witness:
  "let s = ledger_after demo_digests () held_history; e = lgr_events s ! 1
   in e \<in> set (lgr_events (run_ops (ledger_step demo_digests) retention_calls s)) \<and>
      map evr_id (lgr_events (run_ops (ledger_step demo_digests) retention_calls s)) = [''e2'']"
proof -
  let ?s = "ledger_after demo_digests () held_history"
  let ?h = "hd (lgr_holds ?s)" and ?e = "lgr_events ?s ! 1"
  have "length (lgr_events ?s) = 3" by code_simp
  then have e: "?e \<in> set (lgr_events ?s)" by simp
  have "active_holds ?s = [?h]" by code_simp
  then have h: "?h \<in> set (active_holds ?s)" by simp
  have covered: "hold_covers ?h ?e" by code_simp
  have unreleased: "\<forall>now. ReleaseEventHold now (hld_id ?h) \<notin> set retention_calls"
    by (simp add: retention_calls_def)
  have "map evr_id (lgr_events (run_ops (ledger_step demo_digests) retention_calls ?s)) = [''e2'']"
    by code_simp
  then show ?thesis using held_events_survive [OF h covered e unreleased] by (simp add: Let_def)
qed

text \<open>Whatever a call deletes was old enough, planned, and unprotected at that moment.\<close>

lemma deleted_events_were_eligible:
  assumes "e \<in> set (lgr_events (ledger_after env a ops))"
    and "e \<notin> set (lgr_events (ledger_step env x (ledger_after env a ops)))"
  shows "\<exists>now k p. x = ApplyEventRetention now k \<and>
    tbl_get rtp_id k (lgr_plans (ledger_after env a ops)) = Some p \<and> rtp_state p = Planned \<and>
    evr_occurred_at e < rtp_cutoff p \<and> evr_id e \<in> fst ` set (rtp_candidates p) \<and>
    \<not> protected_run (ledger_after env a ops) e \<and>
    evr_id e \<notin> set (held_by OneEvent (ledger_after env a ops))"
proof -
  let ?s = "ledger_after env a ops"
  obtain now k p where x: "x = ApplyEventRetention now k"
    and p: "tbl_get rtp_id k (lgr_plans ?s) = Some p" "rtp_state p = Planned"
    and del: "evr_id e \<in> removed_by p ?s"
    using ledger_stream_step [of x ?s env] assms
    unfolding stream_step_def stream_same_def stream_grows_def stream_pruned_def by auto
  note el = removedD [OF reachable_stream_wf del assms(1)]
  show ?thesis using x p eligibleD [OF el] eligibleD(3) [OF el refl] by auto
qed

subsection \<open>A row no reader can read\<close>

text \<open>
  A row that is not a valid envelope is written without complaint and stops every reader: the
  dimensions of an event are copied from the payload of the command without a bound, also for a
  command the policy refuses.
\<close>

lemma unreadable_first:
  assumes "stream_wf s" "e \<in> set (lgr_events s)" "\<not> envelope_valid e"
    and "\<And>x. x \<in> set (lgr_events s) \<Longrightarrow> evr_cursor e \<le> evr_cursor x \<or> evr_cursor x \<le> c"
    and "c < evr_cursor e" "0 \<le> c" "c = 0 \<or> retained_from s \<le> c + 1" "1 \<le> limit" "limit \<le> 1000"
  shows "events c limit no_filter s = Inl (ValueError ''EventEnvelope'')"
proof -
  let ?m = "selected_events c no_filter None None s"
  have match: "matches_filter no_filter None None x" for x
    by (simp add: matches_filter_def no_filter_def wanted_def)
  have "e \<in> set ?m" using assms(2,5) match by (simp add: selected_events_def)
  moreover have "evr_cursor e \<le> evr_cursor x" if "x \<in> set ?m" for x
    using that assms(4) by (force simp: selected_events_def)
  ultimately have "hd ?m = e"
  proof (cases ?m)
    case (Cons y ys)
    then have "evr_cursor y \<le> evr_cursor e"
      using selected_sorted [OF assms(1), of c no_filter None None] \<open>e \<in> set ?m\<close> by force
    then have "evr_cursor y = evr_cursor e"
      using \<open>\<And>x. x \<in> set ?m \<Longrightarrow> evr_cursor e \<le> evr_cursor x\<close> [of y] Cons by simp
    moreover have "distinct (map evr_cursor (lgr_events s))"
      using assms(1) by (simp add: stream_wf_def strict_sorted_iff)
    moreover have "y \<in> set (lgr_events s)" using Cons by (auto simp: selected_events_def dest: filter_eq_ConsD)
    ultimately show ?thesis using Cons assms(2) by (metis distinct_map inj_onD list.sel(1))
  qed simp
  then have "traverse read_event (take (nat limit) ?m) = Inl (ValueError ''EventEnvelope'')"
    using \<open>e \<in> set ?m\<close> assms(3,8) by (cases ?m; cases "nat limit") (auto simp: read_event_def)
  then show ?thesis
    using assms(6-9) selected_sort [OF assms(1), of c no_filter None None]
    by (auto simp: events_def Let_def page_of_def normalized_time_def selected_events_def no_filter_def)
qed

lemma other_calls_keep_events:
  assumes "e \<in> set (lgr_events s)" "\<forall>now k. x \<noteq> ApplyEventRetention now k"
  shows "e \<in> set (lgr_events (ledger_step env x s)) \<and>
    (\<forall>y \<in> set (lgr_events (ledger_step env x s)). y \<in> set (lgr_events s) \<or> lgr_high_water s < evr_cursor y) \<and>
    lgr_high_water s \<le> lgr_high_water (ledger_step env x s)"
  using ledger_stream_step [of x s env] assms
  unfolding stream_step_def stream_same_def stream_grows_def by auto

lemma other_calls_keep_event:
  assumes "e \<in> set (lgr_events s)" "\<forall>now k. ApplyEventRetention now k \<notin> set ops"
  shows "e \<in> set (lgr_events (run_ops (ledger_step env) ops s)) \<and>
    (\<forall>y \<in> set (lgr_events (run_ops (ledger_step env) ops s)).
       y \<in> set (lgr_events s) \<or> lgr_high_water s < evr_cursor y) \<and>
    lgr_high_water s \<le> lgr_high_water (run_ops (ledger_step env) ops s)"
  using assms
proof (induction ops arbitrary: s)
  case (Cons x xs)
  have step: "e \<in> set (lgr_events (ledger_step env x s))"
    "\<forall>y \<in> set (lgr_events (ledger_step env x s)). y \<in> set (lgr_events s) \<or> lgr_high_water s < evr_cursor y"
    "lgr_high_water s \<le> lgr_high_water (ledger_step env x s)"
    using other_calls_keep_events [OF Cons.prems(1), of x env] Cons.prems(2) by auto
  show ?case using Cons.IH [OF step(1)] Cons.prems(2) step by fastforce
qed simp

text \<open>
  Claim C32. A refused command can stop the event stream: after the refusal of a command that was
  not seen before, does not target a run and names a run by more than 256 characters in its payload,
  every unfiltered read of the stream from the cursor before it, with a limit from 1 to 1000, fails
  with a validation error, whatever is called afterwards, until a retention plan is applied.
\<close>

theorem refused_command_stops_readers:
  assumes "refuse_command env now nid c target e body (ledger_after env a ops) = Inr (s', r)"
    and "get_command (ledger_after env a ops) (cmd_command_id c) = None"
    and "cmd_target_type c \<noteq> ''run''"
    and "selected_dimension (cmd_payload c) ''run_id'' = Some x" "256 < length x"
    and "\<forall>now k. ApplyEventRetention now k \<notin> set ops'" "1 \<le> limit" "limit \<le> 1000"
  shows "events (lgr_high_water (ledger_after env a ops)) limit no_filter
      (run_ops (ledger_step env) ops' s') = Inl (ValueError ''EventEnvelope'')"
proof -
  let ?s = "ledger_after env a ops" and ?t = "run_ops (ledger_step env) ops' s'"
  let ?e = "event_for c target ''application.command_refused'' ''mishkand.policy'' body ''security''
      now nid (next_cursor ?s)"
  have s': "lgr_events s' = lgr_events ?s @ [?e]" "lgr_high_water s' = next_cursor ?s"
    using assms(1,2) by (auto simp: refuse_command_def ledger_Inr)
  have wf: "stream_wf ?s" by (rule reachable_stream_wf)
  then have wf': "stream_wf s'" by (rule stream_grows_wf) (use assms(1,2) in \<open>auto simp: refuse_command_def ledger_Inr stream_grows_def\<close>)
  have wft: "stream_wf ?t" by (rule stream_machine.run_inv [OF wf'])
  have bad: "\<not> envelope_valid ?e"
    using assms(3-5) by (simp add: envelope_valid_def event_for_def optional_between_def length_between_def)
  have in_t: "?e \<in> set (lgr_events ?t)"
    and others: "\<forall>y \<in> set (lgr_events ?t). y \<in> set (lgr_events s') \<or> lgr_high_water s' < evr_cursor y"
    using other_calls_keep_event [of ?e s' ops' env] s'(1) assms(6) by auto
  have "evr_cursor ?e \<le> evr_cursor y \<or> evr_cursor y \<le> lgr_high_water ?s" if "y \<in> set (lgr_events ?t)" for y
    using others that s' wf by (auto simp: stream_wf_def)
  moreover have "retained_from ?t \<le> lgr_high_water ?s + 1"
    using retained_le [OF wft in_t] by simp
  moreover have "0 \<le> lgr_high_water ?s" using wf by (simp add: stream_wf_def)
  ultimately show ?thesis
    using unreadable_first [OF wft in_t bad _ _ _ _ assms(7,8), of "lgr_high_water ?s"] by simp
qed

definition long_run_id :: payload where
  "long_run_id = [(''run_id'', JStr (replicate 257 (CHR ''x'')))]"

theorem refused_command_stops_readers_witness:
  "let s = ledger_after demo_digests () demo_history;
       out = refuse_command demo_digests 5 ''e9'' (demo_command ''c9'' ''mission.run'' long_run_id) ''m1'' demo_error [] s
   in events (lgr_high_water s) 100 no_filter
        (run_ops (ledger_step demo_digests) demo_history (fst (projr out))) =
      Inl (ValueError ''EventEnvelope'')"
proof -
  let ?s = "ledger_after demo_digests () demo_history" and ?c = "demo_command ''c9'' ''mission.run'' long_run_id"
  let ?out = "refuse_command demo_digests 5 ''e9'' ?c ''m1'' demo_error [] ?s"
  have "\<not> is_error ?out" by code_simp
  then have out: "?out = Inr (fst (projr ?out), snd (projr ?out))" by (rule not_error_pair)
  have fresh: "get_command ?s (cmd_command_id ?c) = None" by code_simp
  have run: "cmd_target_type ?c \<noteq> ''run''" by (simp add: demo_command_def)
  have long: "selected_dimension (cmd_payload ?c) ''run_id'' = Some (replicate 257 (CHR ''x''))"
    by (simp add: demo_command_def long_run_id_def selected_dimension_def)
  have unpruned: "\<forall>now k. ApplyEventRetention now k \<notin> set demo_history" by (simp add: demo_history_def)
  show ?thesis
    unfolding Let_def
    by (rule refused_command_stops_readers [OF out fresh run long _ unpruned]) simp_all
qed

end
