(* ===== verification/RunSafety.thy ===== *)
theory RunSafety
  imports RunMachine
begin

section \<open>What no sequence of calls can undo\<close>

text \<open>
  Over the machine of \<open>RunMachine\<close>: the relation \<open>evolves\<close> between the store before and after any
  number of calls. Rows are never deleted, identity columns never change, revisions and attempts
  only grow, an accepted task and its evidence are permanent, and a requested cancellation stays
  requested.
\<close>

subsection \<open>Evolution of the rows\<close>

definition run_leq :: "run_row \<Rightarrow> run_row \<Rightarrow> bool" where
  "run_leq r r' \<longleftrightarrow>
     rn_id r' = rn_id r \<and> rn_resume_key r' = rn_resume_key r \<and>
     rn_context_kind r' = rn_context_kind r \<and> rn_context_id r' = rn_context_id r \<and>
     rn_context_revision r' = rn_context_revision r \<and>
     rn_repository_id r' = rn_repository_id r \<and>
     rn_repository_revision r' = rn_repository_revision r \<and>
     rn_objective r' = rn_objective r \<and> rn_outcome_id r' = rn_outcome_id r \<and>
     rn_revision r \<le> rn_revision r' \<and>
     (rn_cancellation_requested r \<longrightarrow> rn_cancellation_requested r')"

definition task_leq :: "task_row \<Rightarrow> task_row \<Rightarrow> bool" where
  "task_leq t t' \<longleftrightarrow>
     task_key t' = task_key t \<and> tk_contract t' = tk_contract t \<and>
     tk_attempt_count t \<le> tk_attempt_count t' \<and> tk_revision t \<le> tk_revision t' \<and>
     (tk_status t = TAccepted \<longrightarrow> t' = t)"

definition rows_leq :: "('r \<Rightarrow> 'r \<Rightarrow> bool) \<Rightarrow> 'r list \<Rightarrow> 'r list \<Rightarrow> bool" where
  "rows_leq R xs ys \<longleftrightarrow> (\<forall>x \<in> set xs. \<exists>y \<in> set ys. R x y)"

definition evolves :: "store \<Rightarrow> store \<Rightarrow> bool" where
  "evolves s s' \<longleftrightarrow>
     rows_leq run_leq (runs s) (runs s') \<and> rows_leq task_leq (tasks s) (tasks s') \<and>
     set (plans s) \<subseteq> set (plans s') \<and> set (results s) \<subseteq> set (results s') \<and>
     set (acceptances s) \<subseteq> set (acceptances s')"

lemma run_leq_refl [simp]: "run_leq r r"
  by (simp add: run_leq_def)

lemma run_leq_trans: "run_leq a b \<Longrightarrow> run_leq b c \<Longrightarrow> run_leq a c"
  by (auto simp: run_leq_def)

lemma task_leq_refl [simp]: "task_leq t t"
  by (simp add: task_leq_def)

lemma task_leq_trans: "task_leq a b \<Longrightarrow> task_leq b c \<Longrightarrow> task_leq a c"
  unfolding task_leq_def by (metis order_trans)

lemma rows_leq_trans:
  "(\<And>a b c. R a b \<Longrightarrow> R b c \<Longrightarrow> R a c) \<Longrightarrow> rows_leq R xs ys \<Longrightarrow> rows_leq R ys zs \<Longrightarrow> rows_leq R xs zs"
  unfolding rows_leq_def by meson

lemma rows_leq_refl: "(\<And>a. R a a) \<Longrightarrow> rows_leq R xs xs"
  unfolding rows_leq_def by blast

lemma rows_leq_append: "(\<And>a. R a a) \<Longrightarrow> rows_leq R xs (xs @ ys)"
  unfolding rows_leq_def by auto

lemma rows_leq_map:
  assumes "\<And>x. x \<in> set xs \<Longrightarrow> R x (g x)"
  shows "rows_leq R xs (map g xs)"
  using assms unfolding rows_leq_def set_map by blast

lemma run_rows_append: "rows_leq run_leq xs (xs @ ys)"
  by (rule rows_leq_append) simp

lemma task_rows_append: "rows_leq task_leq xs (xs @ ys)"
  by (rule rows_leq_append) simp

lemma run_rows_upd:
  "(\<And>r. r \<in> set xs \<Longrightarrow> rn_id r = k \<Longrightarrow> run_leq r (f r)) \<Longrightarrow> rows_leq run_leq xs (tbl_upd rn_id k f xs)"
  unfolding tbl_upd_def by (rule rows_leq_map) simp

lemma task_rows_upd:
  "(\<And>t. t \<in> set xs \<Longrightarrow> task_key t = k \<Longrightarrow> task_leq t (f t)) \<Longrightarrow>
   rows_leq task_leq xs (tbl_upd task_key k f xs)"
  unfolding tbl_upd_def by (rule rows_leq_map) simp

lemma task_rows_move:
  "(\<And>t. t \<in> set xs \<Longrightarrow> P t \<Longrightarrow> task_leq t (f t)) \<Longrightarrow> rows_leq task_leq xs (tbl_map_where P f xs)"
  unfolding tbl_map_where_def by (rule rows_leq_map) simp

lemma evolves_refl: "evolves s s"
  by (simp add: evolves_def rows_leq_refl)

lemma evolves_trans: "evolves a b \<Longrightarrow> evolves b c \<Longrightarrow> evolves a c"
  unfolding evolves_def
  using rows_leq_trans [of run_leq] rows_leq_trans [of task_leq] run_leq_trans task_leq_trans
  by (meson subset_trans)

lemma evolves_frame:
  "runs s' = runs s \<and> plans s' = plans s \<and> tasks s' = tasks s \<and> results s' = results s \<and>
     acceptances s' = acceptances s \<Longrightarrow> evolves s s'"
  using evolves_refl by (simp add: evolves_def)

lemma evolves_rows:
  assumes "rows_leq run_leq (runs s) (runs s')" "rows_leq task_leq (tasks s) (tasks s')"
    "plans s' = plans s" "results s' = results s" "acceptances s' = acceptances s"
  shows "evolves s s'"
  using assms by (simp add: evolves_def)

lemma runs_unchanged: "rows_leq run_leq xs xs"
  by (rule rows_leq_refl) simp

lemma tasks_unchanged: "rows_leq task_leq xs xs"
  by (rule rows_leq_refl) simp

lemma run_leq_set_status: "run_leq r (set_run_status st now r)"
  by (simp add: run_leq_def set_run_status_def)

lemma run_leq_request:
  "run_leq r (set_run_status st now (r\<lparr>rn_cancellation_requested := True\<rparr>))"
  by (simp add: run_leq_def set_run_status_def)

lemma task_leq_set_status: "tk_status t \<noteq> TAccepted \<Longrightarrow> task_leq t (set_task_status st now t)"
  by (simp add: task_leq_def set_task_status_def)

lemma evolves_set_run: "evolves s (upd_run run_id (set_run_status st now) s)"
  by (rule evolves_rows)
     (auto simp: upd_run_def tasks_unchanged intro!: run_rows_upd run_leq_set_status)

lemma evolves_add_event: "evolves s (add_event a e t s)"
  by (rule evolves_frame) simp

lemma evolves_upd_task:
  assumes wf: "run_wf s" and t: "get_task s run_id k = Some t"
    and leq: "task_leq t (f t)"
  shows "evolves s (upd_task run_id k f s)"
proof (rule evolves_rows)
  have "task_leq u (f u)" if "u \<in> set (tasks s)" "task_key u = (run_id, k)" for u
    using wf_tasks_unique [OF wf that(1), of t] get_task_SomeD [OF t] that leq by simp
  then show "rows_leq task_leq (tasks s) (tasks (upd_task run_id k f s))"
    unfolding upd_task_def store.select_convs store.update_convs by (simp add: task_rows_upd del: prod.inject)
qed (simp_all add: upd_task_def runs_unchanged)

lemma install_acceptance_Inr:
  assumes "install_acceptance now new_id run_id res review s = Inr s'"
  obtains row acc s1 s2 where
    "row = \<lparr>rr_id = new_id, rr_run_id = run_id, rr_task_key = ir_task_id res, rr_payload = res,
            rr_accepted_at = now\<rparr>"
    "acc = \<lparr>ac_run_id = run_id, ac_task_key = ir_task_id res, ac_result_id = new_id,
            ac_review = review, ac_accepted_at = now\<rparr>"
    "new_id \<notin> rr_id ` set (results s)"
    "s1 = upd_task run_id (ir_task_id res) (set_task_status TAccepted now)
       (s\<lparr>results := results s @ [row], acceptances := acceptances s @ [acc]\<rparr>)"
    "s2 = release_dependents run_id now
       (add_event run_id ''task.result_accepted'' (Some (ir_task_id res)) s1)"
    "s' = (if list_all (\<lambda>t. tk_status t = TAccepted) (run_tasks s2 run_id)
       then add_event run_id ''run.completed'' None (upd_run run_id (set_run_status RCompleted now) s2)
       else s2)"
  using assms
  by (intro that [OF refl refl _ refl refl])
     (auto simp: install_acceptance_def Let_def ebind_Inr_iff tbl_insert_Inr_iff)

lemma install_acceptance_evolves:
  assumes wf: "run_wf s" and t: "get_task s run_id (ir_task_id res) = Some t"
    and st: "tk_status t \<noteq> TAccepted"
    and install: "install_acceptance now new_id run_id res review s = Inr s'"
  shows "evolves s s'"
  using install
proof (rule install_acceptance_Inr)
  fix row acc s1 s2
  let ?k = "ir_task_id res"
  let ?s0 = "s\<lparr>results := results s @ [row], acceptances := acceptances s @ [acc]\<rparr>"
  assume s1: "s1 = upd_task run_id ?k (set_task_status TAccepted now) ?s0"
    and s2: "s2 = release_dependents run_id now (add_event run_id ''task.result_accepted'' (Some ?k) s1)"
    and s': "s' = (if list_all (\<lambda>t. tk_status t = TAccepted) (run_tasks s2 run_id)
       then add_event run_id ''run.completed'' None (upd_run run_id (set_run_status RCompleted now) s2)
       else s2)"
  have "evolves s (upd_task run_id ?k (set_task_status TAccepted now) s)"
    using st by (intro evolves_upd_task [OF wf t] task_leq_set_status) simp
  then have "evolves s s1" by (auto simp: evolves_def s1 upd_task_def)
  moreover have "evolves s1 s2"
    unfolding s2 by (rule evolves_rows)
      (auto simp: release_dependents_def runs_unchanged intro!: task_rows_move task_leq_set_status)
  moreover have "evolves s2 s'"
    using evolves_trans [OF evolves_set_run evolves_add_event] evolves_refl by (simp add: s')
  ultimately show ?thesis by (blast intro: evolves_trans)
qed

lemma start_or_resume_evolves:
  assumes "start_or_resume env now new_id d obj out s = Inr (s', sn)"
  shows "evolves s s'"
proof (cases "tbl_get rn_resume_key (resume_key env d obj out) (runs s)")
  case (Some run)
  then show ?thesis using assms
    by (auto simp: start_or_resume_def ebind_Inr_iff evolves_refl dest: with_snapshot_Inr)
next
  case None
  then show ?thesis using assms
    by (auto simp: start_or_resume_def ebind_Inr_iff Let_def tbl_insert_Inr_iff tasks_unchanged
        dest!: with_snapshot_Inr intro!: evolves_rows run_rows_append)
qed

lemma accept_plan_evolves:
  assumes wf: "run_wf s" and plan: "accept_plan env now run_id p s = Inr (s', sn)"
  shows "evolves s s'"
  using plan
proof (cases rule: accept_plan_cases)
  case again
  then show ?thesis by (simp add: evolves_refl)
next
  case (new r)
  from new(3) show ?thesis
  proof (rule install_plan_Inr)
    fix rows row
    assume "insert_task_rows (tasks s) (task_rows_from run_id now 0 (plan_tasks p)) = Inr rows"
      and s': "runs s' = tbl_upd rn_id run_id (set_run_status RQueued now) (runs s)"
      "plans s' = plans s @ [row]" "tasks s' = rows" "results s' = results s"
      "acceptances s' = acceptances s"
    then have "rows_leq task_leq (tasks s) (tasks s')"
      using insert_task_rows_Inr [of "tasks s"] task_rows_append by metis
    moreover have "rows_leq run_leq (runs s) (runs s')"
      unfolding s' by (rule run_rows_upd) (rule run_leq_set_status)
    ultimately show ?thesis by (auto simp: evolves_def s')
  qed
qed

lemma status_ops_evolve:
  "mark_awaiting_approval now run_id s = Inr (s', u) \<Longrightarrow> evolves s s'"
  "start_run now run_id s = Inr (s', u) \<Longrightarrow> evolves s s'"
  by (auto simp: mark_awaiting_approval_def start_run_def ebind_Inr_iff evolves_refl split: if_splits
      intro: evolves_trans [OF evolves_set_run evolves_add_event])

lemma claim_task_evolves:
  assumes wf: "run_wf s" and claim: "claim_task now run_id k s = Inr (s', n)"
  shows "evolves s s'"
proof -
  obtain t where t: "get_task s run_id k = Some t" "tk_status t = TEligible"
    and s': "s' = add_event run_id ''task.claimed'' (Some k)
               (upd_task run_id k (\<lambda>t. set_task_status TExecuting now
                  (t\<lparr>tk_attempt_count := tk_attempt_count t + 1\<rparr>)) s)"
    using claim unfolding claim_task_Inr by blast
  show ?thesis unfolding s'
    by (rule evolves_trans [OF evolves_upd_task [OF wf t(1)] evolves_add_event])
       (simp add: task_leq_def t(2))
qed

lemma mark_validating_evolves:
  assumes wf: "run_wf s" and mark: "mark_validating now run_id k s = Inr (s', u)"
  shows "evolves s s'"
proof -
  obtain t where t: "get_task s run_id k = Some t" "tk_status t = TExecuting"
    and s': "s' = add_event run_id ''task.validating'' (Some k)
               (upd_task run_id k (set_task_status TValidating now) s)"
    using mark unfolding mark_validating_Inr by blast
  show ?thesis unfolding s'
    using t by (intro evolves_trans [OF evolves_upd_task [OF wf t(1)] evolves_add_event]
        task_leq_set_status) simp
qed

lemma mark_task_failure_evolves:
  assumes wf: "run_wf s" and mark: "mark_task_failure now run_id k rejected s = Inr (s', u)"
  shows "evolves s s'"
  using mark
proof (rule mark_task_failure_Inr)
  fix t
  let ?st = "if rejected then TRejected else TFailed"
  let ?s1 = "upd_task run_id k (set_task_status ?st now) s"
  assume t: "get_task s run_id k = Some t" "tk_status t \<in> {TExecuting, TValidating}"
    and s': "s' = add_event run_id ''run.failed'' (Some k)
       (upd_run run_id (set_run_status RFailed now)
         (add_event run_id (if rejected then ''task.rejected'' else ''task.failed'') (Some k) ?s1))"
  have "evolves s ?s1"
    using t by (intro evolves_upd_task [OF wf t(1)] task_leq_set_status) auto
  then show ?thesis unfolding s'
    by (blast intro: evolves_trans evolves_set_run evolves_add_event)
qed

lemma cancel_run_evolves:
  assumes "cancel_run now run_id s = Inr (s', sn)"
  shows "evolves s s'"
  using assms
proof (cases rule: cancel_run_cases)
  case (settled r)
  then show ?thesis by (simp add: evolves_refl)
next
  case (now r final)
  then show ?thesis
    by (intro evolves_rows) (auto simp: waiting_def intro!: run_rows_upd task_rows_move
        run_leq_request task_leq_set_status)
qed

lemma settle_cancellation_evolves:
  assumes "settle_cancellation now run_id s = Inr (s', sn)"
  shows "evolves s s'"
  using assms
proof (cases rule: settle_cancellation_cases)
  case settled
  then show ?thesis by (simp add: evolves_refl)
next
  case (now r)
  then show ?thesis
    by (intro evolves_rows) (auto simp: waiting_def active_def intro!: run_rows_upd task_rows_move
        run_leq_set_status task_leq_set_status)
qed

lemma accept_result_evolves:
  assumes wf: "run_wf s" and accept: "accept_result env now new_id run_id res review s = Inr (s', sn)"
  shows "evolves s s'"
  using accept
proof (cases rule: accept_result_cases)
  case (replay row acc)
  then show ?thesis by (simp add: evolves_add_event)
next
  case (new r t)
  then show ?thesis using install_acceptance_evolves [OF wf new(2) _ new(6)]
    by (simp add: check_acceptance_Inr)
qed

lemma recover_effects_evolves:
  assumes "recover_effects now run_id s = Inr (s', un)"
  shows "evolves s s'"
proof -
  note t = recover_effects_tables [OF assms]
  have "rows_leq run_leq (runs s) (tbl_upd rn_id run_id (set_run_status RBlocked now) (runs s))"
    by (rule run_rows_upd) (rule run_leq_set_status)
  then have "rows_leq run_leq (runs s) (runs s')" using t runs_unchanged by metis
  then show ?thesis using t tasks_unchanged by (simp add: evolves_def)
qed

lemma recover_tasks_evolves:
  assumes "recover_tasks now run_id s = Inr (s', rel)"
  shows "evolves s s'"
  using assms
proof (cases rule: recover_tasks_cases)
  case (cancelled r)
  then show ?thesis by (simp add: evolves_refl)
next
  case (released r s1 P)
  have "rows_leq run_leq (runs s) (tbl_upd rn_id run_id (set_run_status RRunning now) (runs s))"
    by (rule run_rows_upd) (rule run_leq_set_status)
  moreover have "runs s1 = runs s \<or>
      runs s1 = tbl_upd rn_id run_id (set_run_status RRunning now) (runs s)"
    using released(4) by (auto simp: upd_run_def)
  ultimately have "rows_leq run_leq (runs s) (runs s')"
    using released(8) runs_unchanged by metis
  moreover have "rows_leq task_leq (tasks s) (tasks s')"
    unfolding released(6)
    by (rule task_rows_move) (auto simp: released(3) interrupted_def intro: task_leq_set_status)
  ultimately show ?thesis using released(9-11) by (simp add: evolves_def)
qed

lemma recover_interrupted_evolves: "evolves s (fst (recover_interrupted now run_id s))"
proof (cases rule: recover_interrupted_cases [of now run_id s])
  case (released s1 s2 rel)
  then show ?thesis
    using evolves_trans [OF recover_effects_evolves recover_tasks_evolves] by simp
qed (simp_all add: evolves_refl recover_effects_evolves)

lemma frame_ops_evolve:
  "record_repository_establishment env e s = Inr (s', sn) \<Longrightarrow> evolves s s'"
  "record_rejected_review env now run_id res review n s = Inr (s', r) \<Longrightarrow> evolves s s'"
  "reserve_planned_call i s = Inr (s', o1) \<Longrightarrow> evolves s s'"
  "mark_planned_call_dispatching j f s = Inr (s', u) \<Longrightarrow> evolves s s'"
  "complete_planned_call env j f te st s = Inr (s', te') \<Longrightarrow> evolves s s'"
  "record_audit env dump audit s = Inr (s', u) \<Longrightarrow> evolves s s'"
  using record_repository_establishment_frame record_rejected_review_frame
    reserve_planned_call_frame mark_planned_call_dispatching_frame complete_planned_call_frame
    record_audit_frame
  by (metis evolves_frame)+

lemmas op_evolves = start_or_resume_evolves status_ops_evolve cancel_run_evolves
  settle_cancellation_evolves frame_ops_evolve

lemmas op_evolves_wf = accept_plan_evolves claim_task_evolves mark_validating_evolves
  mark_task_failure_evolves accept_result_evolves

lemma step_evolves: "run_wf s \<Longrightarrow> evolves s (step env x s)"
proof (cases x)
  case (OtherTools xs bs ms)
  then show ?thesis by (simp add: evolves_frame)
next
  case (RecoverInterrupted now run_id)
  then show ?thesis by (simp add: recover_interrupted_evolves)
qed (simp only: step.simps; rule commit_keeps [where P = "evolves s"];
  (rule evolves_refl | erule op_evolves | erule op_evolves_wf [rotated], assumption))+

interpretation store_history: machine_monotone "step env" run_wf evolves for env
  by unfold_locales (auto intro: evolves_refl evolves_trans step_evolves)

end
