(* ===== verification/RunProperties.thy ===== *)
theory RunProperties
  imports RunSafety Graphs
begin

section \<open>The guarantees of the run repository\<close>

text \<open>
  The theorems of the repository, over every store a sequence of calls can reach from the
  empty one, and the small example run on which they are exercised: a plan of two tasks, the
  second of which depends on the first.
\<close>

abbreviation reach :: "environment \<Rightarrow> run_op list \<Rightarrow> store" where
  "reach env ops \<equiv> run_ops (step env) ops empty_store"

lemma reach_wf: "run_wf (reach env ops)"
  by (rule store_machine.run_inv [OF run_wf_empty])

lemma reach_append: "reach env (xs @ ys) = run_ops (step env) ys (reach env xs)"
  by (simp add: run_ops_append)

subsection \<open>An example run\<close>

definition demo_env :: environment where
  "demo_env = \<lparr>env_inspector = None, env_sha256 = (\<lambda>x. x),
     env_observe = (\<lambda>_. Inl KeyError), env_resolve = (\<lambda>p. p)\<rparr>"

definition demo_binding :: repository_binding where
  "demo_binding = \<lparr>rb_repository_id = ''repo'', rb_root = ''/r'', rb_base_revision = ''c1'',
     rb_remote_url = None, rb_working_tree_dirty = False, rb_working_tree_fingerprint = ''w''\<rparr>"

definition demo_discovery :: discovery_snapshot where
  "demo_discovery = \<lparr>ds_binding = RepositoryBinding demo_binding, ds_facts = [], ds_unknowns = [],
     ds_fingerprint = ''d''\<rparr>"

definition demo_task :: "string \<Rightarrow> string list \<Rightarrow> plan_task" where
  "demo_task k deps = \<lparr>pt_task_id = k, pt_title = k, pt_purpose = k, pt_assigned_role = ''DEV'',
     pt_tools = [''fs''], pt_tool_calls = [], pt_evidence_paths = [''README''],
     pt_depends_on = deps\<rparr>"

definition demo_plan :: accepted_plan where
  "demo_plan = \<lparr>plan_schema_version = Plan_1_0, plan_objective = ''o'', plan_outcome_id = ''u'',
     plan_repository_revision = Some ''c1'', plan_execution_ctx = None,
     plan_tasks = [demo_task ''a'' [], demo_task ''b'' [''a'']], ap_fingerprint = ''p'',
     ap_discovery_fingerprint = ''d'', ap_registry = None, ap_tool_bindings = [],
     ap_policy_fingerprint = None, ap_approvals = [], ap_authorizations = [],
     ap_organization_binding = None\<rparr>"

definition demo_result :: "string \<Rightarrow> initialization_result" where
  "demo_result k = \<lparr>ir_schema_version = Result_1_0, ir_repository_revision = Some ''c1'',
     ir_execution_context = None, ir_task_id = k, ir_summary = ''s'',
     ir_cited_paths = [''README''], ir_findings = []\<rparr>"

definition demo_review :: "string \<Rightarrow> review_decision" where
  "demo_review k = \<lparr>rd_schema_version = Review_1_0, rd_task_id = k, rd_producer_identity = None,
     rd_evaluator_identity = None, rd_verdict = Accepted, rd_summary = ''ok'',
     rd_checked_citations = [''README''], rd_issues = []\<rparr>"

definition demo_start :: "run_op list" where
  "demo_start = [StartOrResume 1 ''r'' demo_discovery ''o'' ''u'', MarkAwaitingApproval 2 ''r'',
     AcceptPlan 3 ''r'' demo_plan, StartRun 4 ''r'']"

definition demo_first :: "run_op list" where
  "demo_first = [ClaimTask 5 ''r'' ''a'', MarkValidating 6 ''r'' ''a'',
     AcceptResult 7 ''x'' ''r'' (demo_result ''a'') (demo_review ''a'')]"

definition demo_second :: "run_op list" where
  "demo_second = [ClaimTask 8 ''r'' ''b'', MarkValidating 9 ''r'' ''b'',
     AcceptResult 10 ''y'' ''r'' (demo_result ''b'') (demo_review ''b'')]"


subsection \<open>Invariant and history\<close>

text \<open>
  Claim C1. Every store a sequence of calls can reach is well formed: unique keys; the task
  rows of a run are the tasks of its accepted plan; a task that has left pending (and was not
  cancelled) has all its dependencies accepted, and a pending task still misses one; accepted
  results and acceptances are exactly those of the accepted tasks; only a run whose
  cancellation was requested has cancelled tasks or is cancelling or cancelled; a completed
  run has a plan, no cancellation request, and only accepted tasks.
\<close>

theorem reachable_store_wf: "run_wf (run_ops (step env) ops empty_store)"
  by (rule store_machine.run_inv [OF run_wf_empty])

text \<open>
  Accepted evidence is permanent and unique: whatever is called afterwards, every
  stored result and acceptance stays as it was stored, every accepted plan stays, and no task
  of a run ever has a second result or a second acceptance.
\<close>

theorem accepted_evidence_permanent:
  "let s = run_ops (step env) before empty_store; s' = run_ops (step env) after s
   in set (results s) \<subseteq> set (results s') \<and> set (acceptances s) \<subseteq> set (acceptances s') \<and>
      set (plans s) \<subseteq> set (plans s') \<and>
      distinct (map result_key (results s')) \<and> distinct (map acceptance_key (acceptances s')) \<and>
      distinct (map pl_run_id (plans s'))"
proof -
  have "evolves (reach env before) (run_ops (step env) after (reach env before))"
    by (rule store_history.run_leq [OF reach_wf])
  moreover have "keys_wf (run_ops (step env) after (reach env before))"
    using store_machine.run_inv [OF reach_wf] by (simp add: run_wf_def)
  ultimately show ?thesis by (simp add: evolves_def keys_wf_def Let_def)
qed

text \<open>
  Claim C2. A task can be claimed only when it may run: its run is running and not being
  cancelled, every dependency of its accepted contract has a stored accepted result, and the
  claim moves it to executing with the next attempt number.
\<close>

theorem claim_only_ready_tasks:
  assumes "claim_task now run_id k (run_ops (step env) ops empty_store) = Inr (s', attempt)"
  shows "\<exists>r t. get_run (run_ops (step env) ops empty_store) run_id = Some r \<and>
      rn_status r = RRunning \<and> \<not> rn_cancellation_requested r \<and>
      get_task (run_ops (step env) ops empty_store) run_id k = Some t \<and>
      attempt = tk_attempt_count t + 1 \<and>
      {(run_id, d) | d. d \<in> set (pt_depends_on (tk_contract t))} \<subseteq>
        result_key ` set (results (run_ops (step env) ops empty_store)) \<and>
      (\<exists>t'. get_task s' run_id k = Some t' \<and> tk_status t' = TExecuting \<and>
         tk_attempt_count t' = attempt)"
proof -
  let ?s = "reach env ops"
  obtain r t where rt: "get_run ?s run_id = Some r" "get_task ?s run_id k = Some t"
      "\<not> rn_cancellation_requested r" "rn_status r = RRunning" "tk_status t = TEligible"
      "attempt = tk_attempt_count t + 1"
    and s': "s' = add_event run_id ''task.claimed'' (Some k)
               (upd_task run_id k (\<lambda>t. set_task_status TExecuting now
                  (t\<lparr>tk_attempt_count := tk_attempt_count t + 1\<rparr>)) ?s)"
    using assms unfolding claim_task_Inr by blast
  have t: "t \<in> set (tasks ?s)" "tk_run_id t = run_id" using get_task_SomeD [OF rt(2)] by auto
  have "deps_in (accepted_keys ?s) t" and "accepted_keys ?s = result_key ` set (results ?s)"
    using reach_wf [of env ops] t(1) rt(5) by (auto simp: run_wf_def task_ok_def results_wf_def)
  then have "{(run_id, d) | d. d \<in> set (pt_depends_on (tk_contract t))} \<subseteq>
        result_key ` set (results ?s)"
    using t(2) by (auto simp: deps_in_def)
  moreover have "get_task s' run_id k = Some (set_task_status TExecuting now
      (t\<lparr>tk_attempt_count := tk_attempt_count t + 1\<rparr>))"
    using rt(2) by (simp add: s' get_task_def upd_task_def tbl_get_upd)
  ultimately show ?thesis using rt by simp
qed

theorem claim_only_ready_tasks_witness:
  "\<exists>r t. get_run (run_ops (step demo_env) (demo_start @ demo_first) empty_store) ''r'' = Some r \<and>
      rn_status r = RRunning \<and> \<not> rn_cancellation_requested r \<and>
      get_task (run_ops (step demo_env) (demo_start @ demo_first) empty_store) ''r'' ''b'' = Some t \<and>
      1 = tk_attempt_count t + 1 \<and>
      {(''r'', d) | d. d \<in> set (pt_depends_on (tk_contract t))} \<subseteq>
        result_key ` set (results (run_ops (step demo_env) (demo_start @ demo_first) empty_store)) \<and>
      (\<exists>t'. get_task (fst (projr (claim_task 8 ''r'' ''b''
             (run_ops (step demo_env) (demo_start @ demo_first) empty_store)))) ''r'' ''b'' = Some t' \<and>
         tk_status t' = TExecuting \<and> tk_attempt_count t' = 1)"
proof (rule claim_only_ready_tasks)
  have "(case claim_task 8 ''r'' ''b'' (run_ops (step demo_env) (demo_start @ demo_first) empty_store) of
      Inl _ \<Rightarrow> False | Inr (s, n) \<Rightarrow> n = 1)"
    by code_simp
  then show "claim_task 8 ''r'' ''b'' (run_ops (step demo_env) (demo_start @ demo_first) empty_store) =
      Inr (fst (projr (claim_task 8 ''r'' ''b''
             (run_ops (step demo_env) (demo_start @ demo_first) empty_store))), 1)"
    by (auto split: sum.splits)
qed

subsection \<open>Cancellation\<close>

definition run_evidence :: "string \<Rightarrow> store \<Rightarrow> result_row list \<times> acceptance_row list" where
  "run_evidence run_id s =
     (filter (\<lambda>r. rr_run_id r = run_id) (results s),
      filter (\<lambda>a. ac_run_id a = run_id) (acceptances s))"

definition frozen :: "string \<Rightarrow> store \<Rightarrow> store \<Rightarrow> bool" where
  "frozen run_id s s' \<longleftrightarrow>
     (requested run_id s \<longrightarrow> requested run_id s' \<and> run_evidence run_id s' = run_evidence run_id s)"

lemma evolves_requested:
  assumes "run_wf s'" and "evolves s s'" and "requested run_id s"
  shows "requested run_id s'"
proof -
  obtain r where r: "get_run s run_id = Some r" "rn_cancellation_requested r"
    using assms(3) by (auto simp: requested_def split: option.splits)
  then obtain r' where r': "r' \<in> set (runs s')" "run_leq r r'"
    using assms(2) get_run_SomeD [OF r(1)] by (auto simp: evolves_def rows_leq_def)
  then have "get_run s' run_id = Some r'"
    using assms(1) get_run_SomeD [OF r(1)]
    by (auto simp: get_run_def tbl_get_Some_iff run_wf_def keys_wf_def run_leq_def)
  then show ?thesis using r' r(2) by (simp add: requested_def run_leq_def)
qed

lemma install_acceptance_evidence:
  assumes "install_acceptance now new_id run_id res review s = Inr s'" and "run_id \<noteq> other"
  shows "run_evidence other s' = run_evidence other s"
  using assms(1)
  by (rule install_acceptance_Inr)
     (use assms(2) in \<open>auto simp: run_evidence_def release_dependents_def upd_task_def upd_run_def\<close>)

lemma accept_result_frozen:
  assumes "accept_result env now new_id run_id res review s = Inr (s', sn)"
    and "requested other s"
  shows "run_evidence other s' = run_evidence other s"
  using assms(1)
proof (cases rule: accept_result_cases)
  case (replay row acc)
  then show ?thesis by (simp add: run_evidence_def)
next
  case (new r t)
  then have "run_id \<noteq> other" using assms(2) by (auto simp: requested_def check_acceptance_Inr)
  then show ?thesis using install_acceptance_evidence [OF new(6)] by simp
qed

definition same_evidence :: "store \<Rightarrow> store \<Rightarrow> bool" where
  "same_evidence s s' \<longleftrightarrow> results s' = results s \<and> acceptances s' = acceptances s"

lemma same_evidence_refl: "same_evidence s s"
  by (simp add: same_evidence_def)

lemma same_evidence_frozen: "same_evidence s s' \<Longrightarrow> run_evidence run_id s' = run_evidence run_id s"
  by (simp add: same_evidence_def run_evidence_def)

lemma accept_plan_evidence:
  assumes "accept_plan env now run_id p s = Inr (s', sn)"
  shows "same_evidence s s'"
  using assms
proof (cases rule: accept_plan_cases)
  case again
  then show ?thesis by (simp add: same_evidence_refl)
next
  case (new r)
  from new(3) show ?thesis by (rule install_plan_Inr) (simp add: same_evidence_def)
qed

lemma start_or_resume_evidence:
  assumes "start_or_resume env now new_id d obj out s = Inr (s', sn)"
  shows "same_evidence s s'"
  using assms
  by (cases "tbl_get rn_resume_key (resume_key env d obj out) (runs s)")
     (auto simp: start_or_resume_def ebind_Inr_iff Let_def same_evidence_def dest!: with_snapshot_Inr)

lemma cancel_evidence:
  "cancel_run now run_id s = Inr (s', sn) \<Longrightarrow> same_evidence s s'"
  "settle_cancellation now run_id s = Inr (s', sn) \<Longrightarrow> same_evidence s s'"
  by (auto simp: same_evidence_def elim: cancel_run_cases settle_cancellation_cases)

lemma small_ops_evidence:
  "mark_awaiting_approval now run_id s = Inr (s', u) \<Longrightarrow> same_evidence s s'"
  "start_run now run_id s = Inr (s', u) \<Longrightarrow> same_evidence s s'"
  "claim_task now run_id k s = Inr (s', n) \<Longrightarrow> same_evidence s s'"
  "mark_validating now run_id k s = Inr (s', u) \<Longrightarrow> same_evidence s s'"
  "mark_task_failure now run_id k rejected s = Inr (s', u) \<Longrightarrow> same_evidence s s'"
  by (auto simp: same_evidence_def mark_awaiting_approval_def start_run_def claim_task_Inr
      mark_validating_Inr ebind_Inr_iff upd_run_def upd_task_def elim!: mark_task_failure_Inr
      split: if_splits)

lemma frame_ops_evidence:
  "record_repository_establishment env e s = Inr (s', sn) \<Longrightarrow> same_evidence s s'"
  "record_rejected_review env now run_id res review n s = Inr (s', r) \<Longrightarrow> same_evidence s s'"
  "reserve_planned_call i s = Inr (s', o1) \<Longrightarrow> same_evidence s s'"
  "mark_planned_call_dispatching j f s = Inr (s', u) \<Longrightarrow> same_evidence s s'"
  "complete_planned_call env j f te st s = Inr (s', te') \<Longrightarrow> same_evidence s s'"
  "record_audit env dump audit s = Inr (s', u) \<Longrightarrow> same_evidence s s'"
  using record_repository_establishment_frame record_rejected_review_frame
    reserve_planned_call_frame mark_planned_call_dispatching_frame complete_planned_call_frame
    record_audit_frame
  by (metis same_evidence_def)+

lemmas op_evidence = accept_plan_evidence start_or_resume_evidence cancel_evidence
  small_ops_evidence frame_ops_evidence

lemma recover_interrupted_evidence: "same_evidence s (fst (recover_interrupted now run_id s))"
proof (cases rule: recover_interrupted_cases [of now run_id s])
  case (released s1 s2 rel)
  from released(2) have "same_evidence s1 s2"
    by (cases rule: recover_tasks_cases) (auto simp: same_evidence_def)
  then show ?thesis
    using recover_effects_tables [OF released(1)] released(3) by (simp add: same_evidence_def)
qed (auto simp: same_evidence_def dest!: recover_effects_tables)

lemma step_evidence:
  "(\<nexists>now new_id run_id res review. x = AcceptResult now new_id run_id res review) \<Longrightarrow>
   same_evidence s (step env x s)"
proof (cases x)
  case (OtherTools xs bs ms)
  then show ?thesis by (simp add: same_evidence_def)
next
  case (RecoverInterrupted now run_id)
  then show ?thesis by (simp add: recover_interrupted_evidence)
next
  case (AcceptResult now new_id run_id res review)
  moreover assume "\<nexists>now new_id run_id res review. x = AcceptResult now new_id run_id res review"
  ultimately show ?thesis by blast
qed (simp only: step.simps; rule commit_keeps [where P = "same_evidence s"];
  (rule same_evidence_refl | erule op_evidence))+

lemma step_frozen:
  assumes "run_wf s"
  shows "frozen run_id s (step env x s)"
proof -
  have "requested run_id (step env x s)" if "requested run_id s"
    using that assms by (meson evolves_requested step_evolves step_wf)
  moreover have "run_evidence run_id (step env x s) = run_evidence run_id s" if "requested run_id s"
  proof (cases "\<exists>now new_id run_id res review. x = AcceptResult now new_id run_id res review")
    case True
    then obtain now new_id r res review where x: "x = AcceptResult now new_id r res review" by blast
    show ?thesis unfolding x step.simps
      by (rule commit_keeps [where P = "\<lambda>s'. run_evidence run_id s' = run_evidence run_id s"])
         (simp_all add: accept_result_frozen [OF _ that])
  next
    case False
    then show ?thesis by (simp add: same_evidence_frozen step_evidence)
  qed
  ultimately show ?thesis by (simp add: frozen_def)
qed

interpretation cancelled_run: machine_monotone "step env" run_wf "frozen run_id" for env run_id
proof
  show "frozen run_id s s" for s by (simp add: frozen_def)
  show "frozen run_id s t \<Longrightarrow> frozen run_id t u \<Longrightarrow> frozen run_id s u" for s t u
    by (simp add: frozen_def)
qed (rule step_frozen)

text \<open>
  Claim C19. A cancellation is final: once the cancellation of a run has been requested, it
  stays requested whatever is called, the accepted evidence of the run never changes again,
  and no task of the run can be claimed.
\<close>

theorem cancellation_is_final:
  assumes "requested run_id (run_ops (step env) before empty_store)"
  shows "requested run_id (run_ops (step env) (before @ after) empty_store) \<and>
    run_evidence run_id (run_ops (step env) (before @ after) empty_store) =
      run_evidence run_id (run_ops (step env) before empty_store) \<and>
    is_error (claim_task now run_id k (run_ops (step env) (before @ after) empty_store))"
proof -
  let ?s = "reach env before" and ?s' = "reach env (before @ after)"
  have "frozen run_id ?s ?s'"
    using cancelled_run.run_leq [OF reach_wf] by (simp add: reach_append)
  then have req: "requested run_id ?s'" and ev: "run_evidence run_id ?s' = run_evidence run_id ?s"
    using assms by (simp_all add: frozen_def)
  have "is_error (claim_task now run_id k ?s')"
  proof (cases "claim_task now run_id k ?s'")
    case (Inr x)
    then show ?thesis using req by (cases x) (auto simp: claim_task_Inr requested_def)
  qed simp
  with req ev show ?thesis by simp
qed

theorem cancellation_is_final_witness:
  "requested ''r'' (run_ops (step demo_env)
      ((demo_start @ demo_first @ [CancelRun 8 ''r'']) @ demo_second) empty_store) \<and>
    run_evidence ''r'' (run_ops (step demo_env)
      ((demo_start @ demo_first @ [CancelRun 8 ''r'']) @ demo_second) empty_store) =
    run_evidence ''r'' (run_ops (step demo_env)
      (demo_start @ demo_first @ [CancelRun 8 ''r'']) empty_store) \<and>
    is_error (claim_task 9 ''r'' ''b'' (run_ops (step demo_env)
      ((demo_start @ demo_first @ [CancelRun 8 ''r'']) @ demo_second) empty_store))"
  by (rule cancellation_is_final) code_simp

subsection \<open>Completion and progress\<close>

text \<open>
  A completed run is complete: it has an accepted plan, was never cancelled, and
  the tasks with a stored result, and with a stored acceptance, are exactly the tasks of its
  plan.
\<close>

theorem completed_run_has_all_results:
  assumes "r \<in> set (runs (run_ops (step env) ops empty_store))" and "rn_status r = RCompleted"
  shows "\<exists>p \<in> set (plans (run_ops (step env) ops empty_store)). pl_run_id p = rn_id r \<and>
      \<not> rn_cancellation_requested r \<and>
      rr_task_key ` {x \<in> set (results (run_ops (step env) ops empty_store)). rr_run_id x = rn_id r} =
        pt_task_id ` set (plan_tasks (pl_payload p)) \<and>
      ac_task_key ` {x \<in> set (acceptances (run_ops (step env) ops empty_store)).
          ac_run_id x = rn_id r} = pt_task_id ` set (plan_tasks (pl_payload p))"
proof -
  let ?s = "reach env ops"
  have wf: "run_wf ?s" by (rule reach_wf)
  have fin: "\<not> rn_cancellation_requested r" "rn_id r \<in> pl_run_id ` set (plans ?s)"
      "\<And>t. t \<in> set (tasks ?s) \<Longrightarrow> tk_run_id t = rn_id r \<Longrightarrow> tk_status t = TAccepted"
    using wf assms by (auto simp: run_wf_def run_ok_def)
  obtain p where p: "p \<in> set (plans ?s)" "pl_run_id p = rn_id r" using fin(2) by auto
  have "map tk_contract (run_tasks ?s (rn_id r)) = plan_tasks (pl_payload p)"
    using wf p by (auto simp: run_wf_def plans_wf_def)
  then have "pt_task_id ` set (plan_tasks (pl_payload p)) =
      (\<lambda>t. pt_task_id (tk_contract t)) ` {t \<in> set (tasks ?s). tk_run_id t = rn_id r}"
    by (simp add: image_image run_tasks_def flip: \<open>map tk_contract _ = _\<close>)
  also have "\<dots> = tk_task_key ` {t \<in> set (tasks ?s). tk_run_id t = rn_id r}"
    using wf by (intro image_cong) (auto simp: run_wf_def task_ok_def)
  also have "\<dots> = {k. (rn_id r, k) \<in> accepted_keys ?s}"
  proof -
    have "{t \<in> set (tasks ?s). tk_run_id t = rn_id r} =
        {t \<in> set (tasks ?s). tk_run_id t = rn_id r \<and> tk_status t = TAccepted}"
      using fin(3) by blast
    then show ?thesis by (force simp: accepted_keys_def)
  qed
  finally have keys: "pt_task_id ` set (plan_tasks (pl_payload p)) =
      {k. (rn_id r, k) \<in> accepted_keys ?s}" .
  have "rr_task_key ` {x \<in> set (results ?s). rr_run_id x = rn_id r} =
      {k. (rn_id r, k) \<in> result_key ` set (results ?s)}" by force
  moreover have "ac_task_key ` {x \<in> set (acceptances ?s). ac_run_id x = rn_id r} =
      {k. (rn_id r, k) \<in> acceptance_key ` set (acceptances ?s)}" by force
  ultimately show ?thesis
    using p(2) fin(1) keys wf
    by (intro bexI [OF _ p(1)]) (simp add: run_wf_def results_wf_def)
qed

definition demo_run :: "run_op list" where
  "demo_run = demo_start @ demo_first @ demo_second"

theorem completed_run_has_all_results_witness:
  "\<exists>p \<in> set (plans (reach demo_env demo_run)).
      pl_run_id p = rn_id (hd (runs (reach demo_env demo_run))) \<and>
      \<not> rn_cancellation_requested (hd (runs (reach demo_env demo_run))) \<and>
      rr_task_key ` {x \<in> set (results (reach demo_env demo_run)).
          rr_run_id x = rn_id (hd (runs (reach demo_env demo_run)))} =
        pt_task_id ` set (plan_tasks (pl_payload p)) \<and>
      ac_task_key ` {x \<in> set (acceptances (reach demo_env demo_run)).
          ac_run_id x = rn_id (hd (runs (reach demo_env demo_run)))} =
        pt_task_id ` set (plan_tasks (pl_payload p))"
proof (rule completed_run_has_all_results)
  have "runs (reach demo_env demo_run) \<noteq> []" by code_simp
  then show "hd (runs (reach demo_env demo_run)) \<in> set (runs (reach demo_env demo_run))" by simp
  show "rn_status (hd (runs (reach demo_env demo_run))) = RCompleted" by code_simp
qed

lemma requested_iff: "run_wf s \<Longrightarrow> requested x s \<longleftrightarrow> x \<in> cancelled_runs s"
proof
  assume "requested x s"
  then show "x \<in> cancelled_runs s"
    by (auto simp: requested_def cancelled_runs_def image_iff split: option.splits dest!: get_run_SomeD)
next
  assume wf: "run_wf s" and "x \<in> cancelled_runs s"
  then obtain r where r: "r \<in> set (runs s)" "rn_id r = x" "rn_cancellation_requested r"
    by (auto simp: cancelled_runs_def)
  then have "get_run s x = Some r"
    using wf by (simp add: get_run_def tbl_get_Some_iff run_wf_def keys_wf_def)
  then show "requested x s" using r(3) by (simp add: requested_def)
qed

lemma wf_task_of_plan:
  assumes wf: "run_wf s" and p: "p \<in> set (plans s)"
    and k: "k \<in> nodes_of (plan_graph (pl_payload p))"
  obtains t where "get_task s (pl_run_id p) k = Some t"
    "deps_of (plan_graph (pl_payload p)) k = set (pt_depends_on (tk_contract t))"
proof -
  have tasks: "map tk_contract (run_tasks s (pl_run_id p)) = plan_tasks (pl_payload p)"
    using wf p by (auto simp: run_wf_def plans_wf_def)
  have keys: "tk_task_key t = pt_task_id (tk_contract t)" if "t \<in> set (tasks s)" for t
    using wf that by (simp add: run_wf_def task_ok_def)
  obtain c where c: "c \<in> set (plan_tasks (pl_payload p))" "pt_task_id c = k"
    using k by (auto simp: plan_graph_def)
  then obtain t where t: "t \<in> set (run_tasks s (pl_run_id p))" "tk_contract t = c"
    using tasks by (metis (no_types, opaque_lifting) imageE list.set_map)
  then have in_s: "t \<in> set (tasks s)" "tk_run_id t = pl_run_id p" by (auto simp: run_tasks_def)
  have get: "get_task s (pl_run_id p) k = Some t"
    using wf in_s keys [OF in_s(1)] t(2) c(2)
    by (auto simp: get_task_def tbl_get_Some_iff run_wf_def keys_wf_def)
  have inj: "x = c" if x: "x \<in> set (plan_tasks (pl_payload p))" "pt_task_id x = k" for x
  proof -
    obtain u where u: "u \<in> set (run_tasks s (pl_run_id p))" "tk_contract u = x"
      using x(1) tasks by (metis (no_types, opaque_lifting) imageE list.set_map)
    then have "u = t"
      using wf_tasks_unique [OF wf, of u t] in_s keys [of u] keys [of t] x(2) t(2) c(2)
      by (auto simp: run_tasks_def)
    then show ?thesis using u(2) t(2) by simp
  qed
  obtain ds where ds: "map_of (plan_graph (pl_payload p)) k = Some ds"
    using map_of_nodes [OF k] by blast
  then have "(k, ds) \<in> set (plan_graph (pl_payload p))" by (rule map_of_SomeD)
  then obtain x where x: "x \<in> set (plan_tasks (pl_payload p))" "pt_task_id x = k"
      "pt_depends_on x = ds" by (auto simp: plan_graph_def)
  then have "ds = pt_depends_on c" using inj by blast
  then have "deps_of (plan_graph (pl_payload p)) k = set (pt_depends_on (tk_contract t))"
    using ds t(2) by (simp add: deps_of_def)
  then show thesis using that get by blast
qed

lemma ready_task_of_run:
  assumes "p \<in> set (plans (run_ops (step env) ops empty_store))"
    and "closed_graph (plan_graph (pl_payload p))" and "acyclic (graph_edges (plan_graph (pl_payload p)))"
    and "\<not> requested (pl_run_id p) (run_ops (step env) ops empty_store)"
    and "c \<in> set (plan_tasks (pl_payload p))"
    and "(pl_run_id p, pt_task_id c) \<notin> result_key ` set (results (run_ops (step env) ops empty_store))"
  shows "\<exists>t. t \<in> set (run_tasks (run_ops (step env) ops empty_store) (pl_run_id p)) \<and>
      tk_status t \<in> {TEligible, TLeased, TExecuting, TValidating, TRejected, TFailed} \<and>
      dependencies_accepted (run_ops (step env) ops empty_store) (pl_run_id p) t"
proof -
  let ?s = "reach env ops" and ?g = "plan_graph (pl_payload p)" and ?r = "pl_run_id p"
  have wf: "run_wf ?s" by (rule reach_wf)
  have acc: "accepted_keys ?s = result_key ` set (results ?s)"
    using wf by (simp add: run_wf_def results_wf_def)
  let ?rest = "{k \<in> nodes_of ?g. (?r, k) \<notin> accepted_keys ?s}"
  have "pt_task_id c \<in> ?rest" using assms(5,6) acc by (force simp: plan_graph_def)
  then have "?rest \<noteq> {}" by blast
  then obtain k where k: "k \<in> ?rest" "deps_of ?g k \<inter> ?rest = {}"
    using ready_node_exists [OF _ assms(3), of ?rest] by auto
  obtain t where t: "get_task ?s ?r k = Some t" "deps_of ?g k = set (pt_depends_on (tk_contract t))"
    using wf_task_of_plan [OF wf assms(1)] k(1) by blast
  have in_s: "t \<in> set (tasks ?s)" "tk_run_id t = ?r" "tk_task_key t = k"
    using get_task_SomeD [OF t(1)] by auto
  have "deps_of ?g k \<subseteq> nodes_of ?g" using assms(2) k(1) unfolding closed_graph_def by blast
  then have deps: "deps_in (accepted_keys ?s) t" using k(2) t(2) in_s(2) by (auto simp: deps_in_def)
  have "?r \<notin> cancelled_runs ?s"
    using assms(4) wf by (simp add: requested_iff)
  then have "tk_status t \<noteq> TPending" "tk_status t \<noteq> TCancelled"
    using wf in_s(1,2) deps by (auto simp: run_wf_def task_ok_def)
  moreover have "tk_status t \<noteq> TAccepted"
  proof
    assume "tk_status t = TAccepted"
    then have "task_key t \<in> accepted_keys ?s"
      using in_s(1) unfolding accepted_keys_def by (intro imageI) simp
    then show False using k(1) in_s by simp
  qed
  ultimately have "tk_status t \<in> {TEligible, TLeased, TExecuting, TValidating, TRejected, TFailed}"
    by (cases "tk_status t") auto
  moreover have "t \<in> set (run_tasks ?s ?r)" using in_s by (simp add: run_tasks_def)
  ultimately show ?thesis
    using dependencies_accepted_iff [of ?s t] deps in_s(2) by auto
qed

text \<open>
  Progress: while a run with an acyclic, closed accepted plan is not cancelled and
  some task of the plan has no accepted result, there is a task of the plan that is not
  waiting: it is not accepted, not pending and not cancelled, and all its dependencies have
  accepted results. So the work of a run never deadlocks on its dependencies.
\<close>

theorem run_makes_progress:
  assumes "p \<in> set (plans (run_ops (step env) ops empty_store))"
    and "closed_graph (plan_graph (pl_payload p))" and "acyclic (graph_edges (plan_graph (pl_payload p)))"
    and "\<not> requested (pl_run_id p) (run_ops (step env) ops empty_store)"
    and "c \<in> set (plan_tasks (pl_payload p))"
    and "(pl_run_id p, pt_task_id c) \<notin> result_key ` set (results (run_ops (step env) ops empty_store))"
  shows "\<exists>t. t \<in> set (run_tasks (run_ops (step env) ops empty_store) (pl_run_id p)) \<and>
      tk_status t \<in> {TEligible, TLeased, TExecuting, TValidating, TRejected, TFailed} \<and>
      dependencies_accepted (run_ops (step env) ops empty_store) (pl_run_id p) t"
  by (rule ready_task_of_run [OF assms])

lemma demo_plan_acyclic:
  "closed_graph (plan_graph demo_plan) \<and> acyclic (graph_edges (plan_graph demo_plan))"
proof -
  have closed: "closed_graph (plan_graph demo_plan)"
    by (simp add: closed_graph_def plan_graph_def demo_plan_def demo_task_def deps_of_def)
  have "\<not> peel (deps_of (plan_graph demo_plan)) (map fst (plan_graph demo_plan))"
    by code_simp
  then show ?thesis using closed by (simp add: peel_iff_core core_iff_cycle)
qed

theorem run_makes_progress_witness:
  "\<exists>t. t \<in> set (run_tasks (reach demo_env (demo_start @ demo_first))
        (pl_run_id (hd (plans (reach demo_env (demo_start @ demo_first)))))) \<and>
      tk_status t \<in> {TEligible, TLeased, TExecuting, TValidating, TRejected, TFailed} \<and>
      dependencies_accepted (reach demo_env (demo_start @ demo_first))
        (pl_run_id (hd (plans (reach demo_env (demo_start @ demo_first))))) t"
proof (rule run_makes_progress [where c = "demo_task ''b'' [''a'']"])
  let ?s = "reach demo_env (demo_start @ demo_first)"
  have "plans ?s \<noteq> []" by code_simp
  then show "hd (plans ?s) \<in> set (plans ?s)" by simp
  have plan: "pl_payload (hd (plans ?s)) = demo_plan" by code_simp
  show "closed_graph (plan_graph (pl_payload (hd (plans ?s))))"
    and "acyclic (graph_edges (plan_graph (pl_payload (hd (plans ?s)))))"
    using demo_plan_acyclic by (simp_all only: plan)
  show "\<not> requested (pl_run_id (hd (plans ?s))) ?s" by code_simp
  show "demo_task ''b'' [''a''] \<in> set (plan_tasks (pl_payload (hd (plans ?s))))"
    by (simp only: plan) code_simp
  show "(pl_run_id (hd (plans ?s)), pt_task_id (demo_task ''b'' [''a''])) \<notin>
      result_key ` set (results ?s)" by code_simp
qed

end
