(* ===== verification/RunIdempotence.thy ===== *)
theory RunIdempotence
  imports RunProperties
begin

section \<open>Repeated calls, recovery and the call journal\<close>

text \<open>
  Calls of the run repository that are repeated after any history of other calls: starting is
  resuming, an acceptance is replayed with its stored evidence, and a redelivery that differs from
  what is stored is refused.
\<close>

subsection \<open>Idempotent calls\<close>

lemma with_snapshot_Inr_iff:
  "with_snapshot s run_id b = Inr (s', sn) \<longleftrightarrow>
     s' = s \<and> (\<exists>r. get_run s run_id = Some r \<and> take_snapshot s r b = Inr sn)"
  by (auto simp: with_snapshot_def ebind_Inr_iff require_run_Inr)

lemma take_snapshot_resumed:
  "take_snapshot s r b = Inr sn \<Longrightarrow> take_snapshot s r b' = Inr (sn\<lparr>sn_resumed := b'\<rparr>)"
  by (auto simp: take_snapshot_def ebind_Inr_iff)

lemma with_snapshot_again:
  "with_snapshot s run_id b = Inr (s', sn) \<Longrightarrow>
   with_snapshot s run_id b' = Inr (s, sn\<lparr>sn_resumed := b'\<rparr>)"
  using take_snapshot_resumed by (auto simp: with_snapshot_Inr_iff)

text \<open>
  Starting is resuming: after a run was started or resumed for a discovery, an
  objective and an outcome, starting it again, at any time and with any fresh identifier,
  creates nothing and returns the same run with the same evidence, marked as resumed.
\<close>

theorem start_again_resumes:
  assumes "start_or_resume env now new_id discovery objective outcome_id s = Inr (s', sn)"
  shows "start_or_resume env now' new_id' discovery objective outcome_id s' =
    Inr (s', sn\<lparr>sn_resumed := True\<rparr>)"
proof (cases "tbl_get rn_resume_key (resume_key env discovery objective outcome_id) (runs s)")
  case (Some run)
  then have "with_snapshot s (rn_id run) True = Inr (s', sn)" and
      safe: "require_safe_content env [TextContent objective] = Inr ()"
    using assms by (auto simp: start_or_resume_def ebind_Inr_iff)
  then show ?thesis
    using Some with_snapshot_again with_snapshot_Inr by (fastforce simp: start_or_resume_def)
next
  case None
  define key where "key = resume_key env discovery objective outcome_id"
  obtain run rows where run: "rn_id run = new_id" "rn_resume_key run = key"
    and rows: "rows = runs s @ [run]"
    and snap: "with_snapshot (add_event new_id ''run.started'' None (s\<lparr>runs := rows\<rparr>)) new_id False =
      Inr (s', sn)" and safe: "require_safe_content env [TextContent objective] = Inr ()"
    using assms None
    by (force simp: start_or_resume_def ebind_Inr_iff Let_def tbl_insert_Inr_iff key_def)
  have s': "s' = add_event new_id ''run.started'' None (s\<lparr>runs := rows\<rparr>)"
    using snap by (rule with_snapshot_Inr)
  have "tbl_get rn_resume_key key (runs s') = Some run"
    using tbl_get_snoc [OF None [folded key_def] run(2)] by (simp add: s' rows)
  then show ?thesis
    using safe run(1) with_snapshot_again [OF snap [folded s'], of True]
    by (simp add: start_or_resume_def key_def)
qed

theorem start_again_resumes_witness:
  "start_or_resume demo_env 9 ''other'' demo_discovery ''o'' ''u''
      (fst (projr (start_or_resume demo_env 1 ''r'' demo_discovery ''o'' ''u'' empty_store))) =
    Inr (fst (projr (start_or_resume demo_env 1 ''r'' demo_discovery ''o'' ''u'' empty_store)),
      (snd (projr (start_or_resume demo_env 1 ''r'' demo_discovery ''o'' ''u'' empty_store)))
        \<lparr>sn_resumed := True\<rparr>)"
proof (rule start_again_resumes)
  have "\<not> is_error (start_or_resume demo_env 1 ''r'' demo_discovery ''o'' ''u'' empty_store)"
    by code_simp
  then show "start_or_resume demo_env 1 ''r'' demo_discovery ''o'' ''u'' empty_store =
      Inr (fst (projr (start_or_resume demo_env 1 ''r'' demo_discovery ''o'' ''u'' empty_store)),
        snd (projr (start_or_resume demo_env 1 ''r'' demo_discovery ''o'' ''u'' empty_store)))"
    by (rule not_error_pair)
qed

lemma install_acceptance_tables:
  assumes "install_acceptance now new_id run_id res review s = Inr s'"
  obtains row acc where "rr_payload row = res" "result_key row = (run_id, ir_task_id res)"
    "ac_review acc = review" "acceptance_key acc = (run_id, ir_task_id res)"
    "results s' = results s @ [row]" "acceptances s' = acceptances s @ [acc]"
    "acceptance_key acc \<notin> acceptance_key ` set (acceptances s)"
proof -
  have fresh: "(run_id, ir_task_id res) \<notin> acceptance_key ` set (acceptances s)"
    using assms by (auto simp: install_acceptance_def Let_def ebind_Inr_iff tbl_insert_Inr_iff)
  from assms show thesis
    by (rule install_acceptance_Inr)
       (rule that, use fresh in \<open>auto simp: release_dependents_def upd_task_def upd_run_def\<close>)
qed

lemma accept_result_stored:
  assumes "accept_result env now new_id run_id res review s = Inr (s', sn)"
  shows "(\<exists>row. tbl_get result_key (run_id, ir_task_id res) (results s') = Some row \<and>
            rr_payload row = res) \<and>
         (\<exists>acc. tbl_get acceptance_key (run_id, ir_task_id res) (acceptances s') = Some acc \<and>
            ac_review acc = review)"
  using assms
proof (cases rule: accept_result_cases)
  case (replay row acc)
  then show ?thesis by simp
next
  case (new r t)
  from new(6) show ?thesis
  proof (rule install_acceptance_tables)
    fix row acc
    assume row: "rr_payload row = res" "result_key row = (run_id, ir_task_id res)"
      and acc: "ac_review acc = review" "acceptance_key acc = (run_id, ir_task_id res)"
        "acceptance_key acc \<notin> acceptance_key ` set (acceptances s)"
      and s': "results s' = results s @ [row]" "acceptances s' = acceptances s @ [acc]"
    have "tbl_get result_key (run_id, ir_task_id res) (results s') = Some row"
      using tbl_get_snoc [of result_key, OF new(3) row(2)] by (simp only: s')
    moreover have "tbl_get acceptance_key (run_id, ir_task_id res) (acceptances s) = None"
      using acc(2,3) by (simp only: tbl_get_None_iff not_False_eq_True)
    then have "tbl_get acceptance_key (run_id, ir_task_id res) (acceptances s') = Some acc"
      using tbl_get_snoc [of acceptance_key, OF _ acc(2)] by (simp only: s')
    ultimately show ?thesis using row(1) acc(1) by blast
  qed
qed

lemma install_acceptance_runs:
  assumes "install_acceptance now new_id run_id res review s = Inr s'"
  shows "runs s' = runs s \<or> runs s' = tbl_upd rn_id run_id (set_run_status RCompleted now) (runs s)"
  using assms by (rule install_acceptance_Inr)
    (auto simp: release_dependents_def upd_task_def upd_run_def)

lemma install_acceptance_tasks:
  assumes "install_acceptance now new_id run_id res review s = Inr s'"
  shows "map task_key (tasks s') = map task_key (tasks s)"
  using assms by (rule install_acceptance_Inr)
    (auto simp: release_dependents_def upd_task_def upd_run_def tbl_map_where_def tbl_upd_def)

lemma accept_result_context:
  assumes "accept_result env now new_id run_id res review s = Inr (s', sn)"
  shows "require_safe_content env [ResultContent res, ReviewContent review] = Inr () \<and>
    (\<exists>r t. get_run s' run_id = Some r \<and> get_task s' run_id (ir_task_id res) = Some t \<and>
       result_matches_run_context res r) \<and> (\<exists>b. with_snapshot s' run_id b = Inr (s', sn))"
proof -
  have safe: "require_safe_content env [ResultContent res, ReviewContent review] = Inr ()"
    using assms by (auto simp: accept_result_def ebind_Inr_iff)
  from assms obtain r t where rt: "get_run s run_id = Some r"
      "get_task s run_id (ir_task_id res) = Some t" "result_matches_run_context res r"
    unfolding accept_result_def by (auto simp: ebind_Inr_iff require_run_Inr split: if_splits)
  have snap: "\<exists>b. with_snapshot s' run_id b = Inr (s', sn)"
    using assms rt unfolding accept_result_def replay_acceptance_def
    by (auto simp: ebind_Inr_iff require_run_Inr split: option.splits if_splits
        dest: with_snapshot_Inr)
  have "\<exists>r t. get_run s' run_id = Some r \<and> get_task s' run_id (ir_task_id res) = Some t \<and>
       result_matches_run_context res r"
    using assms
  proof (cases rule: accept_result_cases)
    case (replay row acc)
    then show ?thesis using rt by (simp add: get_run_def get_task_def)
  next
    case (new r0 t0)
    have "get_run s' run_id = Some r \<or> get_run s' run_id = Some (set_run_status RCompleted now r)"
      using install_acceptance_runs [OF new(6)] rt(1) by (auto simp: get_run_def tbl_get_upd)
    moreover have "result_matches_run_context res (set_run_status RCompleted now r)"
      using rt(3) by (cases "ir_execution_context res")
        (auto simp: result_matches_run_context_def set_run_status_def split: if_splits)
    moreover have "get_task s' run_id (ir_task_id res) = None \<longleftrightarrow>
        get_task s run_id (ir_task_id res) = None"
      using arg_cong [OF install_acceptance_tasks [OF new(6)], of set]
      unfolding get_task_def tbl_get_None_iff set_map by (simp only:)
    ultimately show ?thesis using rt by auto
  qed
  with safe snap show ?thesis by blast
qed

text \<open>
  Claim C7. A task is accepted exactly once: after a result was accepted with its review,
  delivering the same pair again only records a duplicate event and returns the stored
  evidence, and any other result or review for the task is refused.
\<close>

theorem accepted_exactly_once:
  assumes "accept_result env now new_id run_id res review s = Inr (s', sn)"
    and "ir_task_id res' = ir_task_id res"
  shows "if res' = res \<and> review' = review
    then accept_result env now' new_id' run_id res' review' s' =
           Inr (add_event run_id ''task.completion_duplicated'' (Some (ir_task_id res)) s',
                sn\<lparr>sn_resumed := True\<rparr>)
    else is_error (accept_result env now' new_id' run_id res' review' s')"
proof -
  obtain row acc where row: "tbl_get result_key (run_id, ir_task_id res) (results s') = Some row"
      "rr_payload row = res"
    and acc: "tbl_get acceptance_key (run_id, ir_task_id res) (acceptances s') = Some acc"
      "ac_review acc = review"
    using accept_result_stored [OF assms(1)] by blast
  show ?thesis
  proof (cases "res' = res \<and> review' = review")
    case True
    let ?s = "add_event run_id ''task.completion_duplicated'' (Some (ir_task_id res)) s'"
    note ctx = accept_result_context [OF assms(1)]
    then obtain r t where rt: "get_run s' run_id = Some r"
        "get_task s' run_id (ir_task_id res) = Some t" "result_matches_run_context res r" by blast
    obtain b where "with_snapshot s' run_id b = Inr (s', sn)" using ctx by blast
    then have "with_snapshot s' run_id True = Inr (s', sn\<lparr>sn_resumed := True\<rparr>)"
      by (rule with_snapshot_again)
    then have "with_snapshot ?s run_id True = Inr (?s, sn\<lparr>sn_resumed := True\<rparr>)"
      by (auto simp: with_snapshot_Inr_iff get_run_def take_snapshot_def get_plan_def ebind_Inr_iff)
    then have "accept_result env now' new_id' run_id res review s' =
        Inr (?s, sn\<lparr>sn_resumed := True\<rparr>)"
      using ctx rt row acc by (simp add: accept_result_def require_run_def replay_acceptance_def)
    then show ?thesis using True by simp
  next
    case False
    have "is_error (accept_result env now' new_id' run_id res' review' s')"
    proof (cases "accept_result env now' new_id' run_id res' review' s'")
      case (Inr x)
      then obtain s2 sn2 where "accept_result env now' new_id' run_id res' review' s' = Inr (s2, sn2)"
        by (cases x) auto
      then show ?thesis using False row acc assms(2)
        by (cases rule: accept_result_cases) auto
    qed simp
    then show ?thesis using False by auto
  qed
qed

theorem accepted_exactly_once_witness:
  "let s = reach demo_env (demo_start @ [ClaimTask 5 ''r'' ''a'', MarkValidating 6 ''r'' ''a'']);
       s' = fst (projr (accept_result demo_env 7 ''x'' ''r'' (demo_result ''a'') (demo_review ''a'') s));
       sn = snd (projr (accept_result demo_env 7 ''x'' ''r'' (demo_result ''a'') (demo_review ''a'') s))
   in (if demo_result ''a'' = demo_result ''a'' \<and> demo_review ''a'' = demo_review ''a''
    then accept_result demo_env 8 ''y'' ''r'' (demo_result ''a'') (demo_review ''a'') s' =
           Inr (add_event ''r'' ''task.completion_duplicated'' (Some (ir_task_id (demo_result ''a''))) s',
                sn\<lparr>sn_resumed := True\<rparr>)
    else is_error (accept_result demo_env 8 ''y'' ''r'' (demo_result ''a'') (demo_review ''a'') s'))"
  unfolding Let_def
proof (rule accepted_exactly_once)
  let ?s = "reach demo_env (demo_start @ [ClaimTask 5 ''r'' ''a'', MarkValidating 6 ''r'' ''a''])"
  have "\<not> is_error (accept_result demo_env 7 ''x'' ''r'' (demo_result ''a'') (demo_review ''a'') ?s)"
    by code_simp
  then show "accept_result demo_env 7 ''x'' ''r'' (demo_result ''a'') (demo_review ''a'') ?s =
      Inr (fst (projr (accept_result demo_env 7 ''x'' ''r'' (demo_result ''a'') (demo_review ''a'') ?s)),
        snd (projr (accept_result demo_env 7 ''x'' ''r'' (demo_result ''a'') (demo_review ''a'') ?s)))"
    by (rule not_error_pair)
qed simp

end
