(* ===== verification/JournalProperties.thy ===== *)
theory JournalProperties
  imports RunIdempotence
begin

section \<open>Recovery and the planned-call journal\<close>

text \<open>
  What the journal guarantees about effects. A row moves only along the transitions of
  \<open>call_transition\<close>, under a unique identity; a call whose effects were declared and which
  was dispatched is dispatched again only after a completion proved the effect absent; and
  recovery releases work only when nothing is unresolved.
\<close>

subsection \<open>Transitions of a call\<close>

definition retryable :: "planned_tool_call_row \<Rightarrow> bool" where
  "retryable c \<longleftrightarrow>
     cl_state c \<in> {Terminal CFailed, Terminal CCancelled, Terminal CRefused} \<and>
     cl_effect_settlement c = Some SAbsent"

definition completed_with ::
  "tool_result_envelope \<Rightarrow> effect_settlement \<Rightarrow> planned_tool_call_row \<Rightarrow> planned_tool_call_row" where
  "completed_with res settlement c =
     c\<lparr>cl_state := Terminal (te_status res), cl_effect_settlement := Some settlement,
       cl_result_payload := Some res\<rparr>"

text \<open>The label is the call of the repository that makes the move.\<close>

inductive call_transition ::
  "run_op \<Rightarrow> planned_tool_call_row \<Rightarrow> planned_tool_call_row \<Rightarrow> bool" where
  stay: "call_transition x c c"
| dispatch: "cl_state c = Reserved \<Longrightarrow>
     call_transition (MarkDispatching (cl_id c) (cl_request_fingerprint c)) c
       (c\<lparr>cl_state := Dispatching\<rparr>)"
| complete: "cl_state c \<in> {Reserved, Dispatching} \<Longrightarrow> cl_result_payload c = None \<Longrightarrow>
     call_transition (CompletePlannedCall (cl_id c) (cl_request_fingerprint c) res settlement) c
       (completed_with res settlement c)"
| reconcile: "cl_state c = Dispatching \<Longrightarrow> cl_declared_effects c = [] \<Longrightarrow>
     call_transition (RecoverInterrupted now (cl_run_id c)) c (reconcile_call c)"
| retry: "retryable c \<Longrightarrow> same_identity c i \<Longrightarrow>
     call_transition (ReservePlannedCall i) c (reset_call c)"

inductive_cases call_transitionE: "call_transition x c c'"

lemma call_transition_identity:
  "call_transition x c c' \<Longrightarrow>
     cl_id c' = cl_id c \<and> call_key c' = call_key c \<and>
     cl_request_fingerprint c' = cl_request_fingerprint c \<and> cl_tool_id c' = cl_tool_id c \<and>
     cl_tool_version c' = cl_tool_version c \<and> cl_effect_class c' = cl_effect_class c \<and>
     cl_declared_effects c' = cl_declared_effects c"
  by (induction rule: call_transition.induct)
     (simp_all add: completed_with_def reconcile_call_def reset_call_def)

definition journal_wf :: "store \<Rightarrow> bool" where
  "journal_wf s \<longleftrightarrow>
     tbl_wf cl_id (planned_calls s) \<and> tbl_wf call_key (planned_calls s)"

text \<open>The effect of a step on the journal: new rows at the end, old rows along transitions.\<close>

definition calls_step :: "run_op \<Rightarrow> store \<Rightarrow> store \<Rightarrow> bool" where
  "calls_step x s s' \<longleftrightarrow>
     (\<exists>g new. planned_calls s' = map g (planned_calls s) @ new \<and>
        (\<forall>c \<in> set (planned_calls s). call_transition x c (g c)) \<and>
        (new = [] \<or> (\<exists>i. new = [new_call i] \<and> cl_id (new_call i) \<notin> cl_id ` set (planned_calls s) \<and>
           call_key (new_call i) \<notin> call_key ` set (planned_calls s))))"

lemma calls_step_same: "planned_calls s' = planned_calls s \<Longrightarrow> calls_step x s s'"
  unfolding calls_step_def by (intro exI [of _ id] exI [of _ "[]"]) (simp add: stay)

lemma calls_step_map:
  assumes "planned_calls s' = map g (planned_calls s)"
    and "\<And>c. c \<in> set (planned_calls s) \<Longrightarrow> call_transition x c (g c)"
  shows "calls_step x s s'"
  unfolding calls_step_def using assms by (intro exI [of _ g] exI [of _ "[]"]) simp

lemma calls_step_upd:
  assumes wf: "tbl_wf cl_id (planned_calls s)"
    and c: "c \<in> set (planned_calls s)" "cl_id c = i" and t: "call_transition x c (f c)"
    and s': "planned_calls s' = tbl_upd cl_id i f (planned_calls s)"
  shows "calls_step x s s'"
proof (rule calls_step_map)
  show "planned_calls s' = map (\<lambda>r. if cl_id r = i then f r else r) (planned_calls s)"
    by (simp add: s' tbl_upd_def)
next
  fix r assume r: "r \<in> set (planned_calls s)"
  have "r = c" if "cl_id r = i"
    using wf r c that by (auto simp: distinct_map dest: inj_onD)
  then show "call_transition x r (if cl_id r = i then f r else r)" using t stay by auto
qed

lemma calls_step_wf:
  assumes "journal_wf s" and "calls_step x s s'"
  shows "journal_wf s'"
proof -
  from assms(2) obtain g new where s': "planned_calls s' = map g (planned_calls s) @ new"
    and g: "\<forall>c \<in> set (planned_calls s). call_transition x c (g c)"
    and new: "new = [] \<or> (\<exists>i. new = [new_call i] \<and>
        cl_id (new_call i) \<notin> cl_id ` set (planned_calls s) \<and>
        call_key (new_call i) \<notin> call_key ` set (planned_calls s))"
    unfolding calls_step_def by blast
  have ids: "map cl_id (map g (planned_calls s)) = map cl_id (planned_calls s)"
    using g call_transition_identity by (auto intro!: map_cong)
  have keys: "map call_key (map g (planned_calls s)) = map call_key (planned_calls s)"
    unfolding map_map comp_def using g call_transition_identity by (intro map_cong refl) blast
  have sets: "cl_id ` set (map g (planned_calls s)) = cl_id ` set (planned_calls s)"
    "call_key ` set (map g (planned_calls s)) = call_key ` set (planned_calls s)"
    using arg_cong [OF ids, of set] arg_cong [OF keys, of set] by (simp_all only: set_map)
  have "tbl_wf cl_id (map g (planned_calls s))" "tbl_wf call_key (map g (planned_calls s))"
    using assms(1) unfolding journal_wf_def ids keys by blast+
  moreover have "tbl_wf cl_id (map g (planned_calls s) @ [new_call i]) \<and>
      tbl_wf call_key (map g (planned_calls s) @ [new_call i])"
    if "cl_id (new_call i) \<notin> cl_id ` set (planned_calls s)"
      "call_key (new_call i) \<notin> call_key ` set (planned_calls s)" for i
    unfolding tbl_wf_snoc sets using that calculation by blast
  ultimately show ?thesis
    using new unfolding journal_wf_def s' by (elim disjE exE conjE) (simp_all only: append_Nil2, blast)
qed

lemma reserve_existing_Inr:
  assumes "reserve_existing row i s = Inr (s', r)"
  shows "s' = s \<or> (retryable row \<and> same_identity row i \<and> planned_calls s' =
      tbl_upd cl_id (cl_id row) reset_call (planned_calls s))"
proof -
  have "planned_calls (add_event (ci_run_id i) ''tool.call_retry_reserved'' None
      (upd_call (cl_id row) reset_call s)) = tbl_upd cl_id (cl_id row) reset_call (planned_calls s)"
    by (simp add: upd_call_def)
  then show ?thesis
    using assms unfolding reserve_existing_def retryable_def
    by (simp only: split: if_splits) blast+
qed

lemma reserve_planned_call_step:
  assumes wf: "journal_wf s" and res: "reserve_planned_call i s = Inr (s', r)"
  shows "calls_step (ReservePlannedCall i) s s'"
proof (cases "tbl_get call_key (ci_run_id i, ci_task_attempt_id i, ci_planned_call_id i)
              (planned_calls s)")
  case None
  then have "call_key (new_call i) \<notin> call_key ` set (planned_calls s)"
    by (simp add: new_call_def tbl_get_None_iff del: prod.inject)
  moreover have "cl_id (new_call i) \<notin> cl_id ` set (planned_calls s)"
    and "planned_calls s' = planned_calls s @ [new_call i]"
    using res None
    by (auto simp: reserve_planned_call_def insert_call_def ebind_Inr_iff tbl_insert_Inr_iff)
  ultimately show ?thesis
    unfolding calls_step_def
    by (intro exI [of _ id] exI [of _ "[new_call i]"] conjI disjI2 exI [of _ i])
       (simp_all add: stay)
next
  case (Some row)
  then have row: "row \<in> set (planned_calls s)" by (auto dest: tbl_get_SomeD)
  have "s' = s \<or> (retryable row \<and> same_identity row i \<and> planned_calls s' =
      tbl_upd cl_id (cl_id row) reset_call (planned_calls s))"
    using reserve_existing_Inr [of row i s s' r] res Some
    by (auto simp: reserve_planned_call_def ebind_Inr_iff)
  then show ?thesis
  proof
    assume "s' = s"
    then show ?thesis by (simp add: calls_step_same)
  next
    assume "retryable row \<and> same_identity row i \<and> planned_calls s' =
      tbl_upd cl_id (cl_id row) reset_call (planned_calls s)"
    then show ?thesis
      using wf by (intro calls_step_upd [OF _ row refl]) (auto simp: journal_wf_def intro: retry)
  qed
qed

lemma get_call_SomeD: "get_call s i = Some c \<Longrightarrow> c \<in> set (planned_calls s) \<and> cl_id c = i"
  by (auto simp: get_call_def dest: tbl_get_SomeD)

lemma mark_planned_call_dispatching_Inr:
  "mark_planned_call_dispatching i f s = Inr (s', u) \<longleftrightarrow>
     (\<exists>c. get_call s i = Some c \<and> cl_request_fingerprint c = f \<and> cl_state c = Reserved \<and>
        s' = upd_call i (\<lambda>c. c\<lparr>cl_state := Dispatching\<rparr>) s)"
  by (auto simp: mark_planned_call_dispatching_def Let_def split: option.splits)

lemma complete_planned_call_cases:
  assumes "complete_planned_call env i f res st s = Inr (s', r)"
  obtains (again) c where "get_call s i = Some c" "cl_result_payload c = Some res"
      "cl_effect_settlement c = Some st" "s' = s" "r = res"
  | (new) c where "get_call s i = Some c" "cl_result_payload c = None"
      "cl_request_fingerprint c = f" "cl_state c \<in> {Reserved, Dispatching}"
      "s' = upd_call i (completed_with res st) s" "r = res"
proof -
  obtain c where c: "get_call s i = Some c" "cl_request_fingerprint c = f"
    using assms unfolding complete_planned_call_def
    by (cases "get_call s i") (auto simp: Let_def ebind_Inr_iff split: if_splits)
  show thesis
  proof (cases "cl_result_payload c")
    case (Some existing)
    then show thesis using assms c unfolding complete_planned_call_def
      by (intro again [OF c(1)]) (auto simp: Let_def ebind_Inr_iff split: if_splits)
  next
    case None
    then have "cl_state c \<in> {Reserved, Dispatching}"
      and "s' = upd_call i (completed_with res st) s" "r = res"
      using assms c unfolding complete_planned_call_def
      by (auto simp: Let_def ebind_Inr_iff completed_with_def [abs_def] split: if_splits)
    then show thesis using new [OF c(1) None c(2)] by blast
  qed
qed

lemma mark_planned_call_dispatching_step:
  assumes wf: "journal_wf s" and mark: "mark_planned_call_dispatching j f s = Inr (s', u)"
  shows "calls_step (MarkDispatching j f) s s'"
proof -
  obtain c where c: "get_call s j = Some c" "cl_request_fingerprint c = f" "cl_state c = Reserved"
      "s' = upd_call j (\<lambda>c. c\<lparr>cl_state := Dispatching\<rparr>) s"
    using mark unfolding mark_planned_call_dispatching_Inr by blast
  have ids: "tbl_wf cl_id (planned_calls s)" using wf by (simp add: journal_wf_def)
  have in_s: "c \<in> set (planned_calls s)" "cl_id c = j" using get_call_SomeD [OF c(1)] by auto
  show ?thesis
    using dispatch [OF c(3)] c(2,4) in_s(2)
    by (intro calls_step_upd [OF ids in_s]) (auto simp: upd_call_def)
qed

lemma complete_planned_call_step:
  assumes wf: "journal_wf s" and comp: "complete_planned_call env j f te st s = Inr (s', te')"
  shows "calls_step (CompletePlannedCall j f te st) s s'"
  using comp
proof (cases rule: complete_planned_call_cases)
  case (again c)
  then show ?thesis by (simp add: calls_step_same)
next
  case (new c)
  have ids: "tbl_wf cl_id (planned_calls s)" using wf by (simp add: journal_wf_def)
  have in_s: "c \<in> set (planned_calls s)" "cl_id c = j" using get_call_SomeD [OF new(1)] by auto
  show ?thesis
    using call_transition.complete [OF new(4,2), of te st] new(3,5) in_s(2)
    by (intro calls_step_upd [OF ids in_s]) (auto simp: upd_call_def)
qed

lemma other_ops_calls:
  "accept_plan env now run_id p s = Inr (s', sn) \<Longrightarrow> planned_calls s' = planned_calls s"
  "start_or_resume env now new_id d obj out s = Inr (s', sn) \<Longrightarrow> planned_calls s' = planned_calls s"
  "cancel_run now run_id s = Inr (s', sn) \<Longrightarrow> planned_calls s' = planned_calls s"
  "settle_cancellation now run_id s = Inr (s', sn) \<Longrightarrow> planned_calls s' = planned_calls s"
  "mark_awaiting_approval now run_id s = Inr (s', u) \<Longrightarrow> planned_calls s' = planned_calls s"
  "start_run now run_id s = Inr (s', u) \<Longrightarrow> planned_calls s' = planned_calls s"
  "claim_task now run_id k s = Inr (s', n) \<Longrightarrow> planned_calls s' = planned_calls s"
  "mark_validating now run_id k s = Inr (s', u) \<Longrightarrow> planned_calls s' = planned_calls s"
  "mark_task_failure now run_id k rejected s = Inr (s', u) \<Longrightarrow> planned_calls s' = planned_calls s"
  "record_repository_establishment env e s = Inr (s', sn) \<Longrightarrow> planned_calls s' = planned_calls s"
  "record_rejected_review env now run_id res review n s = Inr (s', r) \<Longrightarrow>
     planned_calls s' = planned_calls s"
  "record_audit env dump audit s = Inr (s', u) \<Longrightarrow> planned_calls s' = planned_calls s"
  "accept_result env now new_id run_id res review s = Inr (s', sn) \<Longrightarrow>
     planned_calls s' = planned_calls s"
proof -
  show "accept_plan env now run_id p s = Inr (s', sn) \<Longrightarrow> planned_calls s' = planned_calls s"
    by (auto elim!: accept_plan_cases elim: install_plan_Inr)
  show "start_or_resume env now new_id d obj out s = Inr (s', sn) \<Longrightarrow>
      planned_calls s' = planned_calls s"
    by (cases "tbl_get rn_resume_key (resume_key env d obj out) (runs s)")
       (auto simp: start_or_resume_def ebind_Inr_iff Let_def dest!: with_snapshot_Inr)
  show "accept_result env now new_id run_id res review s = Inr (s', sn) \<Longrightarrow>
     planned_calls s' = planned_calls s"
    by (erule accept_result_cases, simp, erule install_acceptance_Inr)
       (simp add: release_dependents_def upd_task_def upd_run_def)
qed (auto simp: mark_awaiting_approval_def start_run_def claim_task_Inr
      mark_validating_Inr ebind_Inr_iff upd_run_def upd_task_def elim!: mark_task_failure_Inr
      elim: cancel_run_cases settle_cancellation_cases split: if_splits
      dest: record_repository_establishment_frame record_rejected_review_frame record_audit_frame)

lemma recover_interrupted_calls:
  "planned_calls (fst (recover_interrupted now run_id s)) = planned_calls s \<or>
   planned_calls (fst (recover_interrupted now run_id s)) =
     tbl_map_where (retry_safe run_id) reconcile_call (planned_calls s)"
proof (cases rule: recover_interrupted_cases [of now run_id s])
  case (released s1 s2 rel)
  from released(2) have "planned_calls s2 = planned_calls s1"
    by (cases rule: recover_tasks_cases) auto
  then show ?thesis using recover_effects_tables [OF released(1)] released(3) by simp
qed (auto dest!: recover_effects_tables)

lemma step_calls:
  assumes "journal_wf s"
  shows "calls_step x s (step env x s)"
proof (cases x)
  case (OtherTools xs bs ms)
  then show ?thesis by (simp add: calls_step_same)
next
  case (RecoverInterrupted now run_id)
  have "calls_step x s s'" if "planned_calls s' =
      tbl_map_where (retry_safe run_id) reconcile_call (planned_calls s)" for s'
    using that unfolding tbl_map_where_def RecoverInterrupted
    by (rule calls_step_map) (auto simp: retry_safe_def intro: stay reconcile)
  then show ?thesis
    using recover_interrupted_calls [of now run_id s] calls_step_same
    by (auto simp: RecoverInterrupted)
qed (simp only: step.simps; rule commit_keeps [where P = "calls_step x s" for x];
  (rule calls_step_same, rule refl | rule calls_step_same, erule other_ops_calls
   | erule reserve_planned_call_step [OF assms] mark_planned_call_dispatching_step [OF assms]
       complete_planned_call_step [OF assms]))+

interpretation journal_machine: machine_invariant "step env" journal_wf for env
  by unfold_locales (rule calls_step_wf [OF _ step_calls])

lemma reach_journal_wf: "journal_wf (reach env ops)"
  by (rule journal_machine.run_inv) (simp add: journal_wf_def empty_store_def)

text \<open>
  The journal of planned calls: in every reachable store call identifiers and call
  identities are unique, and every further call of the repository keeps each row, with its
  identity, fingerprint, tool and declared effects, and moves it along \<open>call_transition\<close> or
  leaves it; the only new row is a reservation under a fresh identity.
\<close>

theorem journal_moves_along_transitions:
  "journal_wf (run_ops (step env) ops empty_store) \<and>
   calls_step x (run_ops (step env) ops empty_store) (step env x (run_ops (step env) ops empty_store))"
  by (simp add: reach_journal_wf step_calls)

subsection \<open>At most one dispatch without proof of absence\<close>

text \<open>
  A call whose declared effect may have happened: it was dispatched, or it ended in a way
  that does not prove the effect absent.
\<close>

definition effect_possible :: "planned_tool_call_row \<Rightarrow> bool" where
  "effect_possible c \<longleftrightarrow>
     cl_declared_effects c \<noteq> [] \<and>
     (cl_state c = Dispatching \<or>
      (\<exists>st. cl_state c = Terminal st) \<and> cl_result_payload c \<noteq> None \<and> \<not> retryable c)"

definition proves_absence :: "string \<Rightarrow> run_op \<Rightarrow> bool" where
  "proves_absence i x =
     (case x of
        CompletePlannedCall j f res settlement \<Rightarrow>
          j = i \<and> settlement = SAbsent \<and> te_status res \<in> {CFailed, CCancelled, CRefused}
      | _ \<Rightarrow> False)"

definition effect_open :: "string \<Rightarrow> store \<Rightarrow> bool" where
  "effect_open i s \<longleftrightarrow> (\<exists>c. get_call s i = Some c \<and> effect_possible c)"

lemma get_call_iff: "journal_wf s \<Longrightarrow> get_call s i = Some c \<longleftrightarrow> c \<in> set (planned_calls s) \<and> cl_id c = i"
  by (simp add: get_call_def tbl_get_Some_iff journal_wf_def)

lemma calls_step_get:
  assumes "journal_wf s" and "calls_step x s s'" and "get_call s i = Some c"
  obtains c' where "get_call s' i = Some c'" "call_transition x c c'"
proof -
  obtain g new where g: "planned_calls s' = map g (planned_calls s) @ new"
      "\<forall>c \<in> set (planned_calls s). call_transition x c (g c)"
    using assms(2) unfolding calls_step_def by blast
  have c: "c \<in> set (planned_calls s)" "cl_id c = i" using get_call_SomeD [OF assms(3)] by auto
  then have "g c \<in> set (planned_calls s')" "call_transition x c (g c)" using g by auto
  moreover have "cl_id (g c) = i" using call_transition_identity [OF calculation(2)] c(2) by simp
  ultimately have "get_call s' i = Some (g c)"
    using get_call_iff [OF calls_step_wf [OF assms(1,2)]] by blast
  then show thesis using that \<open>call_transition x c (g c)\<close> by blast
qed

lemma effect_possible_transition:
  assumes "call_transition x c c'" and "effect_possible c" and "\<not> proves_absence (cl_id c) x"
  shows "effect_possible c'"
  using assms(1)
proof (cases rule: call_transition.cases)
  case (complete res settlement)
  then show ?thesis using assms(2,3)
    by (auto simp: effect_possible_def completed_with_def retryable_def proves_absence_def)
qed (use assms(2) in \<open>auto simp: effect_possible_def retryable_def\<close>)

lemma effect_open_step:
  assumes wf: "journal_wf s" and effect: "effect_open i s" and x: "\<not> proves_absence i x"
  shows "effect_open i (step env x s)"
proof -
  obtain c where c: "get_call s i = Some c" "effect_possible c"
    using effect by (auto simp: effect_open_def)
  obtain c' where c': "get_call (step env x s) i = Some c'" "call_transition x c c'"
    using calls_step_get [OF wf step_calls [OF wf] c(1)] by blast
  have "cl_id c = i" using get_call_SomeD [OF c(1)] by simp
  then show ?thesis
    using effect_possible_transition [OF c'(2) c(2)] x c'(1) by (auto simp: effect_open_def)
qed

lemma effect_open_run:
  "journal_wf s \<Longrightarrow> effect_open i s \<Longrightarrow> \<not> list_ex (proves_absence i) xs \<Longrightarrow>
   effect_open i (run_ops (step env) xs s)"
  by (induction xs arbitrary: s)
     (auto intro: effect_open_step journal_machine.step_inv)

text \<open>
  Claim C3. Effects happen at most once without proof: when a call that declared effects has
  been dispatched, it can be dispatched again, after any further calls of the repository,
  only if among them is a completion of this very call that failed, was cancelled or was
  refused with its effect proved absent.
\<close>

theorem redispatch_needs_absence_proof:
  assumes "get_call (run_ops (step env) before empty_store) i = Some c"
    and "cl_state c = Dispatching" and "cl_declared_effects c \<noteq> []"
    and "mark_planned_call_dispatching i f (run_ops (step env) (before @ after) empty_store) =
      Inr (s', u)"
  shows "list_ex (proves_absence i) after"
proof (rule ccontr)
  assume "\<not> ?thesis"
  moreover have "effect_open i (reach env before)"
    using assms(1-3) by (simp add: effect_open_def effect_possible_def)
  ultimately have "effect_open i (reach env (before @ after))"
    using effect_open_run [OF reach_journal_wf] by (simp add: reach_append)
  then show False
    using assms(4) unfolding mark_planned_call_dispatching_Inr
    by (auto simp: effect_open_def effect_possible_def)
qed

definition demo_call :: call_identity where
  "demo_call = \<lparr>ci_invocation_id = ''i'', ci_run_id = ''r'', ci_task_attempt_id = ''a1'',
     ci_planned_call_id = ''c'', ci_request_fingerprint = ''f'', ci_tool_id = ''fs'',
     ci_tool_version = ''1'', ci_effect_class = FILESYSTEM_WRITE,
     ci_declared_effects = [''write'']\<rparr>"

definition demo_envelope :: "call_status \<Rightarrow> tool_result_envelope" where
  "demo_envelope st = \<lparr>te_call_id = ''i'', te_run_id = ''r'', te_task_attempt_id = ''a1'',
     te_tool_id = ''fs'', te_tool_version = ''1'', te_status = st, te_started_at = 1,
     te_completed_at = 2, te_output = None, te_actual_targets = None,
     te_external_references = [], te_adapter_evidence = JNull, te_retryable = False,
     te_error_code = None, te_reason = ''x''\<rparr>"

definition demo_dispatch :: "run_op list" where
  "demo_dispatch = demo_start @ [ReservePlannedCall demo_call, MarkDispatching ''i'' ''f'']"

definition demo_retry :: "run_op list" where
  "demo_retry = [CompletePlannedCall ''i'' ''f'' (demo_envelope CFailed) SAbsent,
     ReservePlannedCall demo_call]"

theorem redispatch_needs_absence_proof_witness:
  "list_ex (proves_absence ''i'') demo_retry"
proof (rule redispatch_needs_absence_proof)
  let ?s = "run_ops (step demo_env) demo_dispatch empty_store"
  have "get_call ?s ''i'' \<noteq> None" by code_simp
  then show "get_call ?s ''i'' = Some (the (get_call ?s ''i''))" by simp
  show "cl_state (the (get_call ?s ''i'')) = Dispatching" by code_simp
  show "cl_declared_effects (the (get_call ?s ''i'')) \<noteq> []" by code_simp
  have "\<not> is_error (mark_planned_call_dispatching ''i'' ''f''
      (run_ops (step demo_env) (demo_dispatch @ demo_retry) empty_store))" by code_simp
  then show "mark_planned_call_dispatching ''i'' ''f''
      (run_ops (step demo_env) (demo_dispatch @ demo_retry) empty_store) =
    Inr (fst (projr (mark_planned_call_dispatching ''i'' ''f''
          (run_ops (step demo_env) (demo_dispatch @ demo_retry) empty_store))),
      snd (projr (mark_planned_call_dispatching ''i'' ''f''
          (run_ops (step demo_env) (demo_dispatch @ demo_retry) empty_store))))"
    by (rule not_error_pair)
qed

end
