(* ===== verification/Recovery.thy ===== *)
theory Recovery
  imports JournalProperties
begin

section \<open>Recovery of interrupted runs\<close>

text \<open>
  \<open>LocalRunRepository.recover_interrupted\<close>, with its parts defined in \<open>CallJournal\<close>: what a recovery
  that returns has settled and released, and the two histories in which accepting a plan or
  recovering reopens a run that had ended.
\<close>

lemma run_tasks_move:
  "tasks s' = tbl_map_where P f (tasks s) \<Longrightarrow> (\<And>t. tk_run_id (f t) = tk_run_id t) \<Longrightarrow>
   run_tasks s' r = tbl_map_where P f (run_tasks s r)"
  unfolding run_tasks_def tbl_map_where_def
  by (simp add: filter_map comp_def)

lemma unresolved_durable_cong:
  assumes "planned_calls s' = planned_calls s" "execution_sessions s' = execution_sessions s"
    "browser_sessions s' = browser_sessions s" "mcp_calls s' = mcp_calls s"
  shows "unresolved_durable s' run_id = unresolved_durable s run_id"
  by (simp add: unresolved_durable_def unresolved_planned_def assms)

lemma recover_effects_none:
  assumes "recover_effects now run_id s = Inr (s', [])"
  shows "unresolved_durable s' run_id = [] \<and> runs s' = runs s"
  using assms unfolding recover_effects_def
  by (auto simp: ebind_Inr_iff Let_def split: if_splits)

lemma recover_tasks_sessions:
  assumes "recover_tasks now run_id s = Inr (s', rel)"
  shows "planned_calls s' = planned_calls s \<and> execution_sessions s' = execution_sessions s \<and>
    browser_sessions s' = browser_sessions s \<and> mcp_calls s' = mcp_calls s"
  using assms unfolding recover_tasks_def
  by (auto simp: ebind_Inr_iff Let_def upd_run_def split: if_splits)

lemma filter_map_where_gone:
  "(\<And>x. x \<in> set xs \<Longrightarrow> Q x \<longleftrightarrow> P x) \<Longrightarrow> (\<And>x. \<not> Q (f x)) \<Longrightarrow>
   filter Q (tbl_map_where P f xs) = []"
  by (induction xs) (auto simp: tbl_map_where_def)

lemma filter_map_where_kept:
  "(\<And>x. x \<in> set xs \<Longrightarrow> P x \<Longrightarrow> \<not> Q x) \<Longrightarrow> (\<And>x. \<not> Q (f x)) \<Longrightarrow>
   filter Q (tbl_map_where P f xs) = filter Q xs"
  by (induction xs) (auto simp: tbl_map_where_def)

text \<open>
  Claim C20. Recovery is safe and complete: when the recovery of a run returns, no effect of
  the run is unresolved; and unless the run is being cancelled, every interrupted task of the
  run (executing, validating, rejected or failed) has been released and is eligible again,
  exactly those tasks are reported, and every accepted task is untouched.
\<close>

theorem recovery_releases_interrupted:
  assumes "recover_interrupted now run_id (run_ops (step env) ops empty_store) = (s', Inr released)"
  shows "unresolved_durable s' run_id = [] \<and>
    (if requested run_id (run_ops (step env) ops empty_store)
     then released = [] \<and> run_tasks s' run_id = run_tasks (run_ops (step env) ops empty_store) run_id
     else released = map tk_task_key
            (filter interrupted (run_tasks (run_ops (step env) ops empty_store) run_id)) \<and>
          filter interrupted (run_tasks s' run_id) = [] \<and>
          run_tasks s' run_id = map (\<lambda>t. if interrupted t then set_task_status TEligible now t else t)
            (run_tasks (run_ops (step env) ops empty_store) run_id))"
proof -
  let ?s = "reach env ops"
  have wf: "run_wf ?s" by (rule reach_wf)
  from assms obtain s1 where s1: "recover_effects now run_id ?s = Inr (s1, [])"
      "recover_tasks now run_id s1 = Inr (s', released)"
    by (cases rule: recover_interrupted_cases [of now run_id ?s]) auto
  have wf1: "run_wf s1" by (rule recover_effects_wf [OF wf s1(1)])
  have none: "unresolved_durable s1 run_id = []" and runs1: "runs s1 = runs ?s"
    using recover_effects_none [OF s1(1)] by auto
  have tasks1: "tasks s1 = tasks ?s" using recover_effects_tables [OF s1(1)] by simp
  have rt: "run_tasks s1 run_id = run_tasks ?s run_id" by (simp add: run_tasks_def tasks1)
  have "unresolved_durable s' run_id = []"
    using recover_tasks_sessions [OF s1(2)] none unresolved_durable_cong [of s' s1] by simp
  moreover have "if requested run_id ?s
     then released = [] \<and> run_tasks s' run_id = run_tasks ?s run_id
     else released = map tk_task_key (filter interrupted (run_tasks ?s run_id)) \<and>
          filter interrupted (run_tasks s' run_id) = [] \<and>
          run_tasks s' run_id = map (\<lambda>t. if interrupted t then set_task_status TEligible now t else t)
            (run_tasks ?s run_id)"
    using s1(2)
  proof (cases rule: recover_tasks_cases)
    case (cancelled r)
    then have "requested run_id ?s" by (simp add: requested_def get_run_def runs1)
    then show ?thesis using cancelled rt by simp
  next
    case (released r s2 P)
    have req: "\<not> requested run_id ?s"
      using released(1,2) by (simp add: requested_def get_run_def runs1)
    have tasks2: "tasks s2 = tasks s1" using released(4) by (auto simp: upd_run_def)
    have acc2: "accepted_keys s2 = accepted_keys s1" by (simp add: accepted_keys_def tasks2)
    have P: "P t = (tk_run_id t = run_id \<and> interrupted t)" if t: "t \<in> set (tasks s1)" for t
    proof -
      have "deps_in (accepted_keys s1) t" if "interrupted t"
        using wf1 t that by (auto simp: run_wf_def task_ok_def interrupted_def)
      then show ?thesis
        using dependencies_accepted_iff [of s2 t] acc2 by (auto simp: released(3))
    qed
    have moved: "run_tasks s' run_id =
        map (\<lambda>t. if P t then set_task_status TEligible now t else t) (run_tasks s1 run_id)"
      using run_tasks_move [OF released(6), of run_id] by (simp add: tbl_map_where_def)
    also have "\<dots> = map (\<lambda>t. if interrupted t then set_task_status TEligible now t else t)
        (run_tasks s1 run_id)"
      using P by (intro map_cong) (auto simp: run_tasks_def)
    finally have moved': "run_tasks s' run_id =
        map (\<lambda>t. if interrupted t then set_task_status TEligible now t else t)
          (run_tasks ?s run_id)" by (simp only: rt)
    have gone: "filter interrupted (run_tasks s' run_id) = []"
      unfolding moved' by (auto simp: filter_empty_conv interrupted_def)
    have "filter P (tasks s1) = filter interrupted (run_tasks s1 run_id)"
      unfolding run_tasks_def filter_filter using P by (intro filter_cong) auto
    then show ?thesis using req moved' gone released(7) rt by simp
  qed
  ultimately show ?thesis by blast
qed

definition demo_failed :: "run_op list" where
  "demo_failed = demo_start @ [ClaimTask 5 ''r'' ''a'', MarkTaskFailure 6 ''r'' ''a'' False]"

theorem recovery_releases_interrupted_witness:
  "let s = run_ops (step demo_env) demo_failed empty_store;
       s' = fst (recover_interrupted 7 ''r'' s)
   in unresolved_durable s' ''r'' = [] \<and>
    (if requested ''r'' s
     then [''a''] = [] \<and> run_tasks s' ''r'' = run_tasks s ''r''
     else [''a''] = map tk_task_key (filter interrupted (run_tasks s ''r'')) \<and>
          filter interrupted (run_tasks s' ''r'') = [] \<and>
          run_tasks s' ''r'' = map (\<lambda>t. if interrupted t then set_task_status TEligible 7 t else t)
            (run_tasks s ''r''))"
  unfolding Let_def
proof (rule recovery_releases_interrupted)
  have "snd (recover_interrupted 7 ''r'' (run_ops (step demo_env) demo_failed empty_store)) =
      Inr [''a'']" by code_simp
  then show "recover_interrupted 7 ''r'' (run_ops (step demo_env) demo_failed empty_store) =
      (fst (recover_interrupted 7 ''r'' (run_ops (step demo_env) demo_failed empty_store)), Inr [''a''])"
    by (metis prod.collapse)
qed

subsection \<open>Terminal states that are left again\<close>

text \<open>
  A cancelled run can be queued again: cancelling a run that waits for the
  approval of its plan makes it cancelled, and a later acceptance of the plan, which does not
  look at the state of the run, puts it back into the queue and makes its first task eligible
  although the cancellation stays requested.
\<close>

theorem cancelled_run_is_requeued_by_plan:
  "let before = [StartOrResume 1 ''r'' demo_discovery ''o'' ''u'', MarkAwaitingApproval 2 ''r'',
         CancelRun 3 ''r''];
       s = run_ops (step demo_env) before empty_store;
       s' = run_ops (step demo_env) (before @ [AcceptPlan 4 ''r'' demo_plan]) empty_store
   in map rn_status (runs s) = [RCancelled] \<and> map rn_status (runs s') = [RQueued] \<and>
      requested ''r'' s' \<and> map tk_status (tasks s') = [TEligible, TPending]"
  by code_simp

text \<open>
  A completed run can be reopened: when another tool leaves an unresolved effect
  with a completed run, its recovery blocks the run, and the next recovery, once the effect
  is settled, makes it running; with no task left to accept, nothing completes it again.
\<close>

theorem completed_run_is_reopened_by_recovery:
  "let s = run_ops (step demo_env) demo_run empty_store;
       xs = [OtherTools [] [\<lparr>bs_id = ''b'', bs_run_id = ''r'', bs_state = ''uncertain''\<rparr>] [],
             RecoverInterrupted 11 ''r''];
       ys = [OtherTools [] [] [], RecoverInterrupted 12 ''r'']
   in map rn_status (runs s) = [RCompleted] \<and>
      map rn_status (runs (run_ops (step demo_env) xs s)) = [RBlocked] \<and>
      map rn_status (runs (run_ops (step demo_env) (xs @ ys) s)) = [RRunning] \<and>
      list_all (\<lambda>t. tk_status t = TAccepted) (tasks (run_ops (step demo_env) (xs @ ys) s))"
  by code_simp

end
