(* ===== verification/Policy.thy ===== *)
theory Policy
  imports PlanModel
begin

section \<open>Closed-world policy authorization\<close>

text \<open>
  \<open>policy/models.py\<close> and \<open>policy/evaluator.py\<close>: the scopes, rules and documents of a
  policy, the shell-style patterns of their selectors (\<open>fnmatch.fnmatchcase\<close>), and
  \<open>PolicyAuthority.evaluate\<close>. Fingerprints are SHA-256 values of canonical JSON: the
  fingerprint of a request is the argument \<open>fp\<close>, the one of a policy a field.
\<close>

subsection \<open>Patterns\<close>

text \<open>
  The characters of a bracket expression: single characters and ranges; a range with its
  ends in the wrong order is empty.
\<close>

fun in_class :: "string \<Rightarrow> char \<Rightarrow> bool" where
  "in_class [] c = False"
| "in_class [a] c = (c = a)"
| "in_class [a, b] c = (c = a \<or> c = b)"
| "in_class (a # b # d # rest) c =
     (if b = CHR ''-'' then (a \<le> c \<and> c \<le> d) \<or> in_class rest c
      else c = a \<or> in_class (b # d # rest) c)"

text \<open>
  What follows an opening bracket: the negation, the members up to the closing bracket (a
  bracket in the first place is a member) and the rest of the pattern; \<open>None\<close> when there is
  no closing bracket, so that the opening one is literal.
\<close>

definition bracket :: "string \<Rightarrow> (bool \<times> string \<times> string) option" where
  "bracket pat =
     (let (negated, body) = (case pat of
            [] \<Rightarrow> (False, [])
          | c # cs \<Rightarrow> if c = CHR ''!'' then (True, cs) else (False, pat))
      in case body of
           [] \<Rightarrow> None
         | c # cs \<Rightarrow>
             (case dropWhile (\<lambda>x. x \<noteq> CHR '']'') cs of
                [] \<Rightarrow> None
              | _ # rest \<Rightarrow> Some (negated, c # takeWhile (\<lambda>x. x \<noteq> CHR '']'') cs, rest)))"

lemma bracket_shorter: "bracket pat = Some (n, members, rest) \<Longrightarrow> length rest < length pat"
proof -
  assume br: "bracket pat = Some (n, members, rest)"
  have drop: "length rest < length cs" if "dropWhile P cs = x # rest" for P x and cs :: string
    using length_dropWhile_le [of P cs] that by simp
  define body where "body = (case pat of [] \<Rightarrow> [] | c # cs \<Rightarrow> if c = CHR ''!'' then cs else pat)"
  have len: "length body \<le> length pat" by (simp add: body_def split: list.split)
  obtain c cs where body: "body = c # cs"
    using br by (cases body) (auto simp: bracket_def body_def Let_def split: list.splits if_splits)
  obtain x where "dropWhile (\<lambda>x. x \<noteq> CHR '']'') cs = x # rest"
    using br body by (auto simp: bracket_def body_def Let_def split: list.splits if_splits)
  then have "length rest < length cs" by (rule drop)
  then show ?thesis using len body by simp
qed

function fnmatch :: "string \<Rightarrow> string \<Rightarrow> bool" where
  "fnmatch [] s = (s = [])"
| "fnmatch (p # ps) s =
     (if p = CHR ''*'' then
        fnmatch ps s \<or> (case s of [] \<Rightarrow> False | _ # cs \<Rightarrow> fnmatch (p # ps) cs)
      else case s of
        [] \<Rightarrow> False
      | c # cs \<Rightarrow>
          if p = CHR ''?'' then fnmatch ps cs
          else if p = CHR ''['' then
            (case bracket ps of
               None \<Rightarrow> c = p \<and> fnmatch ps cs
             | Some (negated, members, rest) \<Rightarrow>
                 in_class members c \<noteq> negated \<and> fnmatch rest cs)
          else c = p \<and> fnmatch ps cs)"
  by pat_completeness auto
termination
  by (relation "measure (\<lambda>(p, s). length p + length s)") (auto dest: bracket_shorter)

declare fnmatch.simps(2) [simp del]

lemma fnmatch_star: "fnmatch ''*'' s"
  by (induction s) (simp_all add: fnmatch.simps(2))

definition literal :: "string \<Rightarrow> bool" where
  "literal pat \<longleftrightarrow> set pat \<inter> set ''*?['' = {}"

lemma fnmatch_literal: "literal pat \<Longrightarrow> fnmatch pat s \<longleftrightarrow> s = pat"
proof (induction pat arbitrary: s)
  case (Cons p ps)
  then show ?case by (cases s) (auto simp: fnmatch.simps(2) literal_def)
qed (simp add: fnmatch.simps)

lemma fnmatch_prefix: "literal pre \<Longrightarrow> fnmatch (pre @ ''*'') s \<longleftrightarrow> take (length pre) s = pre"
proof (induction pre arbitrary: s)
  case Nil
  then show ?case by (simp add: fnmatch_star)
next
  case (Cons p ps)
  then show ?case by (cases s) (auto simp: fnmatch.simps(2) literal_def)
qed

subsection \<open>Policies\<close>

definition default_scope :: policy_scope where
  "default_scope = \<lparr>ps_identities = [''*''], ps_objective_classes = [''*''],
     ps_repositories = [''*''], ps_outcomes = [''*''], ps_roles = [''*''],
     ps_capabilities = [''*''], ps_effect_classes = [''*''], ps_effects = [''*''],
     ps_paths = [''*''], ps_executables = [''*''], ps_arguments = [''*''],
     ps_network_destinations = [''*''], ps_remotes = [''*''], ps_branches = [''*''],
     ps_environments = [''*''], ps_credentials = [''*''], ps_external_resources = [''*''],
     ps_isolation_profiles = [''*''], ps_max_timeout_seconds = None, ps_max_memory_mb = None,
     ps_allow_network = None, ps_max_concurrency = None\<rparr>"

record policy_rule =
  pr_rule_id :: string
  pr_priority :: int
  pr_decision :: decision
  pr_scope :: policy_scope

record policy_document =
  pd_source_id :: string
  pd_revision :: string
  pd_priority :: int
  pd_effective_from :: "instant option"
  pd_retired_at :: "instant option"
  pd_rules :: "policy_rule list"

definition policy_document_valid :: "policy_document \<Rightarrow> bool" where
  "policy_document_valid d \<longleftrightarrow>
     pd_rules d \<noteq> [] \<and> distinct (map pr_rule_id (pd_rules d)) \<and>
     (case (pd_effective_from d, pd_retired_at d) of
        (Some a, Some b) \<Rightarrow> a < b | _ \<Rightarrow> True)"

record effective_policy =
  ep_documents :: "policy_document list"
  ep_source_uris :: "string list"
  ep_fingerprint :: string

record authorization_request =
  ar_plan_fingerprint :: string
  ar_identity :: string
  ar_objective_class :: string
  ar_repository :: string
  ar_outcome :: string
  ar_role :: string
  ar_capability :: string
  ar_effect_class :: string
  ar_effects :: "string list"
  ar_paths :: "string list"
  ar_executables :: "string list"
  ar_arguments :: "string list"
  ar_network_destinations :: "string list"
  ar_remotes :: "string list"
  ar_branches :: "string list"
  ar_environments :: "string list"
  ar_credentials :: "string list"
  ar_external_resources :: "string list"
  ar_isolation_profile :: "string option"
  ar_resources :: resource_request

definition is_active_for ::
  "instant \<Rightarrow> (authorization_request \<Rightarrow> string) \<Rightarrow> approval_evidence \<Rightarrow> authorization_request
   \<Rightarrow> effective_policy \<Rightarrow> bool" where
  "is_active_for now fp approval request policy \<longleftrightarrow>
     ae_request_fingerprint approval = fp request \<and>
     ae_plan_fingerprint approval = ar_plan_fingerprint request \<and>
     ae_policy_fingerprint approval = ep_fingerprint policy \<and>
     ae_revoked_at approval = None \<and>
     (case ae_expires_at approval of None \<Rightarrow> True | Some t \<Rightarrow> now < t)"

subsection \<open>Evaluation\<close>

definition matches_one :: "string \<Rightarrow> string list \<Rightarrow> bool" where
  "matches_one value selectors = list_ex (\<lambda>selector. fnmatch selector value) selectors"

definition matches_all :: "string list \<Rightarrow> string list \<Rightarrow> bool" where
  "matches_all vals selectors = list_all (\<lambda>v. matches_one v selectors) vals"

definition exceeds :: "int \<Rightarrow> int option \<Rightarrow> bool" where
  "exceeds v bound = (case bound of None \<Rightarrow> False | Some b \<Rightarrow> b < v)"

text \<open>\<open>_matches\<close>: the test of a request against the scope of a rule.\<close>

definition matches :: "authorization_request \<Rightarrow> policy_scope \<Rightarrow> bool" where
  "matches request scope =
     (list_all (\<lambda>(v, selectors). matches_one v selectors)
        [(ar_identity request, ps_identities scope),
         (ar_objective_class request, ps_objective_classes scope),
         (ar_repository request, ps_repositories scope),
         (ar_outcome request, ps_outcomes scope),
         (ar_role request, ps_roles scope),
         (ar_capability request, ps_capabilities scope),
         (ar_effect_class request, ps_effect_classes scope)] \<and>
      list_all (\<lambda>(vs, selectors). matches_all vs selectors)
        [(ar_paths request, ps_paths scope),
         (ar_executables request, ps_executables scope),
         (ar_arguments request, ps_arguments scope),
         (ar_network_destinations request, ps_network_destinations scope),
         (ar_remotes request, ps_remotes scope),
         (ar_branches request, ps_branches scope),
         (ar_environments request, ps_environments scope),
         (ar_credentials request, ps_credentials scope),
         (ar_external_resources request, ps_external_resources scope),
         (ar_effects request, ps_effects scope)] \<and>
      (case ar_isolation_profile request of
         None \<Rightarrow> True | Some p \<Rightarrow> matches_one p (ps_isolation_profiles scope)) \<and>
      \<not> (exceeds (rq_timeout_seconds (ar_resources request)) (ps_max_timeout_seconds scope) \<or>
         exceeds (case rq_memory_mb (ar_resources request) of None \<Rightarrow> 0 | Some m \<Rightarrow> m)
           (ps_max_memory_mb scope) \<or>
         (case ps_allow_network scope of
            None \<Rightarrow> False | Some n \<Rightarrow> rq_network (ar_resources request) \<noteq> n) \<or>
         exceeds (rq_concurrency (ar_resources request)) (ps_max_concurrency scope)))"

definition selector_score :: "string list \<Rightarrow> int" where
  "selector_score selectors =
     (if selectors = [''*''] then 0
      else 1 + int (length (filter (\<lambda>item. CHR ''*'' \<notin> set item \<and> CHR ''?'' \<notin> set item) selectors)))"

definition specificity :: "policy_scope \<Rightarrow> int" where
  "specificity scope =
     sum_list (map selector_score
       [ps_identities scope, ps_objective_classes scope, ps_repositories scope, ps_outcomes scope,
        ps_roles scope, ps_capabilities scope, ps_effect_classes scope, ps_effects scope,
        ps_paths scope, ps_executables scope, ps_arguments scope, ps_network_destinations scope,
        ps_remotes scope, ps_branches scope, ps_environments scope, ps_credentials scope,
        ps_external_resources scope, ps_isolation_profiles scope]) +
     (if ps_max_timeout_seconds scope \<noteq> None then 1 else 0) +
     (if ps_max_memory_mb scope \<noteq> None then 1 else 0) +
     (if ps_allow_network scope \<noteq> None then 1 else 0) +
     (if ps_max_concurrency scope \<noteq> None then 1 else 0)"

type_synonym match = "policy_document \<times> policy_rule"

definition score :: "match \<Rightarrow> int \<times> int \<times> int" where
  "score m = (pd_priority (fst m), pr_priority (snd m), specificity (pr_scope (snd m)))"

text \<open>Python's comparison of tuples of integers.\<close>

fun score_less :: "int \<times> int \<times> int \<Rightarrow> int \<times> int \<times> int \<Rightarrow> bool" where
  "score_less (a, b, c) (a', b', c') \<longleftrightarrow>
     a < a' \<or> a = a' \<and> (b < b' \<or> b = b' \<and> c < c')"

fun max_score :: "int \<times> int \<times> int \<Rightarrow> (int \<times> int \<times> int) list \<Rightarrow> int \<times> int \<times> int" where
  "max_score best [] = best"
| "max_score best (x # xs) = max_score (if score_less best x then x else best) xs"

definition in_force :: "instant \<Rightarrow> policy_document \<Rightarrow> bool" where
  "in_force now d \<longleftrightarrow>
     (case pd_effective_from d of None \<Rightarrow> True | Some t \<Rightarrow> t \<le> now) \<and>
     (case pd_retired_at d of None \<Rightarrow> True | Some t \<Rightarrow> now < t)"

definition policy_matches ::
  "instant \<Rightarrow> authorization_request \<Rightarrow> effective_policy \<Rightarrow> match list" where
  "policy_matches now request policy =
     concat (map (\<lambda>d. map (Pair d)
       (filter (\<lambda>r. in_force now d \<and> matches request (pr_scope r)) (pd_rules d)))
       (ep_documents policy))"

definition winners :: "match list \<Rightarrow> match list" where
  "winners ms =
     (case ms of
        [] \<Rightarrow> []
      | m # rest \<Rightarrow>
          let best = max_score (score m) (map score rest)
          in filter (\<lambda>x. score x = best) ms)"

definition revision_labels :: "effective_policy \<Rightarrow> string list" where
  "revision_labels policy =
     map (\<lambda>d. pd_source_id d @ ''@'' @ pd_revision d) (ep_documents policy)"

definition decision_of ::
  "instant \<Rightarrow> (authorization_request \<Rightarrow> string) \<Rightarrow> authorization_request \<Rightarrow> effective_policy
   \<Rightarrow> approval_evidence option \<Rightarrow> match list \<Rightarrow> authorization_decision result" where
  "decision_of now fp request policy approval ws =
     (let (doc, rule) = hd (sort_key (\<lambda>m. pr_rule_id (snd m)) ws);
          base = \<lparr>ad_request_fingerprint = fp request,
                  ad_plan_fingerprint = ar_plan_fingerprint request,
                  ad_policy_fingerprint = ep_fingerprint policy,
                  ad_policy_revisions = revision_labels policy,
                  ad_decision = pr_decision rule,
                  ad_matched_rule_ids = sort (map (\<lambda>m. pr_rule_id (snd m)) ws),
                  ad_matched_scope = Some (pr_scope rule),
                  ad_decided_by = ''policy:'' @ pd_source_id doc @ '':'' @ pr_rule_id rule,
                  ad_approval_id = None\<rparr>
      in case (pr_decision rule, approval) of
           (REQUIRE_APPROVAL, Some a) \<Rightarrow>
             if is_active_for now fp a request policy
             then Inr (base\<lparr>ad_decision := ALLOW, ad_approval_id := Some (ae_id a),
                            ad_decided_by := ae_approved_by a\<rparr>)
             else Inl (MishkanError AUTHORIZATION_MISSING
               ''approval does not match the exact request and policy'')
         | _ \<Rightarrow> Inr base)"

definition evaluate_policy ::
  "instant \<Rightarrow> (authorization_request \<Rightarrow> string) \<Rightarrow> authorization_request \<Rightarrow> effective_policy
   \<Rightarrow> approval_evidence option \<Rightarrow> authorization_decision result" where
  "evaluate_policy now fp request policy approval =
     (let ms = policy_matches now request policy
      in if ms = []
         then Inr \<lparr>ad_request_fingerprint = fp request,
                   ad_plan_fingerprint = ar_plan_fingerprint request,
                   ad_policy_fingerprint = ep_fingerprint policy,
                   ad_policy_revisions = revision_labels policy, ad_decision = DENY,
                   ad_matched_rule_ids = [], ad_matched_scope = None,
                   ad_decided_by = ''closed-world-default'', ad_approval_id = None\<rparr>
         else let ws = winners ms
              in if length (remdups (map (\<lambda>m. pr_decision (snd m)) ws)) \<noteq> 1
                 then Inl (MishkanError POLICY_CONFLICT ''equally ranked policy rules conflict'')
                 else decision_of now fp request policy approval ws)"

subsection \<open>The winning rules\<close>

lemma score_less_irrefl [simp]: "\<not> score_less x x"
  by (cases x) auto

lemma score_less_trans: "score_less x y \<Longrightarrow> score_less y z \<Longrightarrow> score_less x z"
  by (cases x; cases y; cases z) auto

lemma score_less_linear: "score_less x y \<or> x = y \<or> score_less y x"
  by (cases x; cases y) auto

lemma max_score_props:
  "max_score best xs \<in> insert best (set xs) \<and>
   (\<forall>y \<in> insert best (set xs). \<not> score_less (max_score best xs) y)"
proof (induction xs arbitrary: best)
  case (Cons x xs)
  show ?case
  proof (cases "score_less best x")
    case True
    then have "\<not> score_less (max_score x xs) best"
      using Cons.IH [of x] score_less_trans by blast
    then show ?thesis using Cons.IH [of x] True by auto
  next
    case False
    then have "\<not> score_less (max_score best xs) x"
      using Cons.IH [of best] score_less_trans score_less_linear [of best x] by blast
    then show ?thesis using Cons.IH [of best] False by auto
  qed
qed simp

definition top_matches :: "match set \<Rightarrow> match set" where
  "top_matches M = {m \<in> M. \<forall>m' \<in> M. \<not> score_less (score m) (score m')}"

lemma set_winners: "set (winners ms) = top_matches (set ms)"
proof (cases ms)
  case Nil
  then show ?thesis by (simp add: winners_def top_matches_def)
next
  case (Cons m rest)
  let ?best = "max_score (score m) (map score rest)"
  have scores: "insert (score m) (set (map score rest)) = score ` set ms" by (simp add: Cons)
  have best: "?best \<in> score ` set ms" "\<And>x. x \<in> set ms \<Longrightarrow> \<not> score_less ?best (score x)"
    using max_score_props [of "score m" "map score rest"] unfolding scores by auto
  have "score x = ?best \<longleftrightarrow> (\<forall>m' \<in> set ms. \<not> score_less (score x) (score m'))"
    if "x \<in> set ms" for x
    using best that score_less_linear [of "score x" ?best] by auto
  then show ?thesis
    unfolding winners_def top_matches_def Cons list.case Let_def set_filter
    by (auto simp: Cons)
qed

lemma winners_not_Nil: "ms \<noteq> [] \<Longrightarrow> winners ms \<noteq> []"
proof (cases ms)
  case (Cons m rest)
  let ?best = "max_score (score m) (map score rest)"
  have "?best \<in> score ` set ms"
    using max_score_props [of "score m" "map score rest"] by (auto simp: Cons)
  then show ?thesis by (auto simp: winners_def Cons filter_empty_conv Let_def)
qed simp

lemma length_remdups_one: "length (remdups xs) = 1 \<longleftrightarrow> (\<exists>x. set xs = {x})"
  by (metis One_nat_def card_1_singleton_iff length_remdups_card_conv)

subsection \<open>The verdict\<close>

text \<open>
  The verdict a set of matching rules gives, whatever their order: the rules of the highest
  rank must agree; an approval can satisfy only a rule that asks for one.
\<close>

definition verdict ::
  "bool \<Rightarrow> bool \<Rightarrow> match set \<Rightarrow> decision result" where
  "verdict approval_given approval_active M =
     (let D = (\<lambda>m. pr_decision (snd m)) ` top_matches M
      in if M = {} \<or> D = {DENY} then Inr DENY
         else if D = {ALLOW} then Inr ALLOW
         else if D = {REQUIRE_APPROVAL} then
           (if \<not> approval_given then Inr REQUIRE_APPROVAL
            else if approval_active then Inr ALLOW
            else Inl (MishkanError AUTHORIZATION_MISSING
              ''approval does not match the exact request and policy''))
         else Inl (MishkanError POLICY_CONFLICT ''equally ranked policy rules conflict''))"

definition approval_ok ::
  "instant \<Rightarrow> (authorization_request \<Rightarrow> string) \<Rightarrow> authorization_request \<Rightarrow> effective_policy
   \<Rightarrow> approval_evidence option \<Rightarrow> bool" where
  "approval_ok now fp request policy approval =
     (case approval of None \<Rightarrow> False | Some a \<Rightarrow> is_active_for now fp a request policy)"

lemma decision_of_verdict:
  assumes ne: "ms \<noteq> []" and one: "(\<lambda>m. pr_decision (snd m)) ` set (winners ms) = {d}"
  shows "map_sum id ad_decision (decision_of now fp request policy approval (winners ms)) =
    verdict (approval \<noteq> None) (approval_ok now fp request policy approval) (set ms)"
proof -
  obtain doc rule where w: "hd (sort_key (\<lambda>m. pr_rule_id (snd m)) (winners ms)) = (doc, rule)"
    by (cases "hd (sort_key (\<lambda>m. pr_rule_id (snd m)) (winners ms))")
  have "sort_key (\<lambda>m. pr_rule_id (snd m)) (winners ms) \<noteq> []"
    using winners_not_Nil [OF ne] by (metis set_empty set_sort)
  then have "(doc, rule) \<in> set (winners ms)" using w by (metis list.set_sel(1) set_sort)
  then have "pr_decision rule = d" using one by force
  then show ?thesis
    using w ne one unfolding set_winners
    by (cases d; cases approval)
       (auto simp: decision_of_def verdict_def approval_ok_def Let_def)
qed

lemma evaluate_policy_map:
  "map_sum id ad_decision (evaluate_policy now fp request policy approval) =
   verdict (approval \<noteq> None) (approval_ok now fp request policy approval)
     (set (policy_matches now request policy))"
proof -
  let ?ms = "policy_matches now request policy"
  let ?D = "(\<lambda>m. pr_decision (snd m)) ` set (winners ?ms)"
  consider (none) "?ms = []" | (one) d where "?ms \<noteq> []" "?D = {d}"
    | (many) "?ms \<noteq> []" "\<nexists>d. ?D = {d}" by blast
  then show ?thesis
  proof cases
    case none
    then show ?thesis by (simp add: evaluate_policy_def verdict_def)
  next
    case one
    then have "length (remdups (map (\<lambda>m. pr_decision (snd m)) (winners ?ms))) = 1"
      by (simp add: length_remdups_one del: One_nat_def)
    then show ?thesis
      using decision_of_verdict [OF one] one(1) by (simp add: evaluate_policy_def Let_def)
  next
    case many
    then have "length (remdups (map (\<lambda>m. pr_decision (snd m)) (winners ?ms))) \<noteq> 1"
      by (simp add: length_remdups_one del: One_nat_def)
    moreover have "?D \<noteq> {x}" for x using many(2) by blast
    ultimately show ?thesis
      using many(1) by (simp add: evaluate_policy_def verdict_def Let_def set_winners del: One_nat_def)
  qed
qed

text \<open>
  The policy decision is the verdict of the set of matching rules in force: without
  a matching rule it is deny; otherwise the rules of the highest rank (document priority, rule
  priority, specificity) must agree, or the evaluation fails with a policy conflict; an
  approval turns only an asked-for approval into an allow, and only when it is active for the
  exact request, plan and policy; a deny is never overridden.
\<close>

theorem evaluate_policy_verdict:
  "map_sum id ad_decision (evaluate_policy now fp request policy approval) =
   verdict (approval \<noteq> None) (approval_ok now fp request policy approval)
     (set (policy_matches now request policy))"
  by (rule evaluate_policy_map)

lemma set_policy_matches:
  "set (policy_matches now request policy) =
     {(d, r). d \<in> set (ep_documents policy) \<and> r \<in> set (pd_rules d) \<and> in_force now d \<and>
        matches request (pr_scope r)}"
  by (auto simp: policy_matches_def)

text \<open>A granted request: a rule of the policy allows it, or asks for an approval it has.\<close>

definition granted ::
  "instant \<Rightarrow> (authorization_request \<Rightarrow> string) \<Rightarrow> effective_policy \<Rightarrow> authorization_request
   \<Rightarrow> approval_evidence option \<Rightarrow> bool" where
  "granted now fp policy request approval \<longleftrightarrow>
     (\<exists>d \<in> set (ep_documents policy). \<exists>r \<in> set (pd_rules d).
        in_force now d \<and> matches request (pr_scope r) \<and>
        (pr_decision r = ALLOW \<or>
         pr_decision r = REQUIRE_APPROVAL \<and> approval_ok now fp request policy approval))"

lemma top_matches_subset: "top_matches M \<subseteq> M"
  by (auto simp: top_matches_def)

lemma verdict_allow:
  assumes "verdict given active M = Inr ALLOW"
  shows "\<exists>m \<in> M. pr_decision (snd m) = ALLOW \<or> pr_decision (snd m) = REQUIRE_APPROVAL \<and> active"
proof -
  let ?D = "(\<lambda>m. pr_decision (snd m)) ` top_matches M"
  have "?D = {ALLOW} \<or> ?D = {REQUIRE_APPROVAL} \<and> active"
    using assms by (auto simp: verdict_def Let_def split: if_splits)
  then obtain x where x: "x \<in> ?D" "x = ALLOW \<or> x = REQUIRE_APPROVAL \<and> active" by blast
  then obtain m where "m \<in> top_matches M"
      "pr_decision (snd m) = ALLOW \<or> pr_decision (snd m) = REQUIRE_APPROVAL \<and> active"
    by (metis (no_types, lifting) imageE)
  then show ?thesis using top_matches_subset by blast
qed

lemma allow_is_granted:
  assumes "evaluate_policy now fp request policy approval = Inr d" and "ad_decision d = ALLOW"
  shows "granted now fp policy request approval"
proof -
  have "verdict (approval \<noteq> None) (approval_ok now fp request policy approval)
      (set (policy_matches now request policy)) = Inr ALLOW"
    using evaluate_policy_map [of now fp request policy approval] assms by simp
  from verdict_allow [OF this] obtain doc rule
    where "(doc, rule) \<in> set (policy_matches now request policy)"
      "pr_decision rule = ALLOW \<or>
       pr_decision rule = REQUIRE_APPROVAL \<and> approval_ok now fp request policy approval"
    by fastforce
  then show ?thesis unfolding set_policy_matches granted_def by blast
qed

lemma decision_of_request:
  "decision_of now fp request policy approval ws = Inr d \<Longrightarrow>
   ad_request_fingerprint d = fp request \<and> ad_plan_fingerprint d = ar_plan_fingerprint request \<and>
   ad_policy_fingerprint d = ep_fingerprint policy"
  by (auto simp: decision_of_def Let_def split: prod.splits decision.splits option.splits if_splits)

lemma evaluate_policy_request:
  "evaluate_policy now fp request policy approval = Inr d \<Longrightarrow>
   ad_request_fingerprint d = fp request \<and> ad_plan_fingerprint d = ar_plan_fingerprint request \<and>
   ad_policy_fingerprint d = ep_fingerprint policy"
  by (auto simp: evaluate_policy_def Let_def split: if_splits dest: decision_of_request)

text \<open>
  Claim C6. Closed world: a request is allowed only when a rule of the policy that is in force
  matches it and allows it, or asks for an approval and the approval given is the one for
  exactly this request, plan and policy, neither revoked nor expired; and the decision names
  exactly this request, plan and policy.
\<close>

theorem policy_is_closed_world:
  assumes "evaluate_policy now fp request policy approval = Inr d" and "ad_decision d = ALLOW"
  shows "granted now fp policy request approval \<and> ad_request_fingerprint d = fp request \<and>
    ad_plan_fingerprint d = ar_plan_fingerprint request \<and>
    ad_policy_fingerprint d = ep_fingerprint policy"
  using allow_is_granted [OF assms] evaluate_policy_request [OF assms(1)] by simp

definition demo_rule :: "string \<Rightarrow> decision \<Rightarrow> policy_scope \<Rightarrow> policy_rule" where
  "demo_rule i d scope = \<lparr>pr_rule_id = i, pr_priority = 0, pr_decision = d, pr_scope = scope\<rparr>"

definition demo_policy :: effective_policy where
  "demo_policy = \<lparr>ep_documents = [\<lparr>pd_source_id = ''base'', pd_revision = ''1'', pd_priority = 0,
       pd_effective_from = None, pd_retired_at = None,
       pd_rules = [demo_rule ''read'' ALLOW
           (default_scope\<lparr>ps_effect_classes := [''read''], ps_paths := [''docs/*'']\<rparr>),
         demo_rule ''write'' REQUIRE_APPROVAL
           (default_scope\<lparr>ps_effect_classes := [''filesystem_write'']\<rparr>),
         demo_rule ''secret'' DENY (default_scope\<lparr>ps_paths := [''docs/[!a-y]*'']\<rparr>)]\<rparr>],
     ep_source_uris = [''u''], ep_fingerprint = ''P''\<rparr>"

definition demo_request :: "string \<Rightarrow> string list \<Rightarrow> authorization_request" where
  "demo_request effect paths = \<lparr>ar_plan_fingerprint = ''F'', ar_identity = ''role:DEV'',
     ar_objective_class = ''init'', ar_repository = ''repo'', ar_outcome = ''u'',
     ar_role = ''DEV'', ar_capability = ''fs'', ar_effect_class = effect, ar_effects = [],
     ar_paths = paths, ar_executables = [], ar_arguments = [], ar_network_destinations = [],
     ar_remotes = [], ar_branches = [], ar_environments = [], ar_credentials = [],
     ar_external_resources = [], ar_isolation_profile = None,
     ar_resources = \<lparr>rq_timeout_seconds = 60, rq_memory_mb = None, rq_network = False,
       rq_concurrency = 1\<rparr>\<rparr>"

lemma demo_decisions:
  "map_sum id ad_decision (evaluate_policy 0 ar_effect_class (demo_request ''read'' [''docs/a''])
     demo_policy None) = Inr ALLOW"
  "map_sum id ad_decision (evaluate_policy 0 ar_effect_class (demo_request ''read'' [''src/a''])
     demo_policy None) = Inr DENY"
  "map_sum id ad_decision (evaluate_policy 0 ar_effect_class
     (demo_request ''filesystem_write'' [''src/a'']) demo_policy None) = Inr REQUIRE_APPROVAL"
  "is_error (evaluate_policy 0 ar_effect_class (demo_request ''filesystem_write'' [''docs/z''])
     (demo_policy\<lparr>ep_documents := ep_documents demo_policy @ [(hd (ep_documents demo_policy))
        \<lparr>pd_rules := [demo_rule ''open'' ALLOW (default_scope\<lparr>ps_paths := [''docs/z'']\<rparr>)]\<rparr>]\<rparr>) None)"
  by code_simp+

theorem policy_is_closed_world_witness:
  "let d = projr (evaluate_policy 0 ar_effect_class (demo_request ''read'' [''docs/a'']) demo_policy None)
   in granted 0 ar_effect_class demo_policy (demo_request ''read'' [''docs/a'']) None \<and>
    ad_request_fingerprint d = ar_effect_class (demo_request ''read'' [''docs/a'']) \<and>
    ad_plan_fingerprint d = ar_plan_fingerprint (demo_request ''read'' [''docs/a'']) \<and>
    ad_policy_fingerprint d = ep_fingerprint demo_policy"
  unfolding Let_def
proof (rule policy_is_closed_world)
  let ?e = "evaluate_policy 0 ar_effect_class (demo_request ''read'' [''docs/a'']) demo_policy None"
  have *: "map_sum id ad_decision ?e = Inr ALLOW" by (rule demo_decisions(1))
  show "?e = Inr (projr ?e)" using * by (cases ?e) auto
  show "ad_decision (projr ?e) = ALLOW" using * by (cases ?e) auto
qed

text \<open>
  The order in which policy documents are configured does not matter: two policies
  with the same documents and fingerprint give every request the same decision, or the same
  failure.
\<close>

theorem policy_order_irrelevant:
  assumes "set (ep_documents policy') = set (ep_documents policy)"
    and "ep_fingerprint policy' = ep_fingerprint policy"
  shows "map_sum id ad_decision (evaluate_policy now fp request policy' approval) =
    map_sum id ad_decision (evaluate_policy now fp request policy approval)"
proof -
  have "approval_ok now fp request policy' approval = approval_ok now fp request policy approval"
    using assms(2) by (simp add: approval_ok_def is_active_for_def split: option.split)
  then show ?thesis unfolding evaluate_policy_map set_policy_matches assms(1) by simp
qed

theorem policy_order_irrelevant_witness:
  "let d = hd (ep_documents demo_policy); d' = d\<lparr>pd_source_id := ''other''\<rparr>;
       p = demo_policy\<lparr>ep_documents := [d, d']\<rparr>; p' = demo_policy\<lparr>ep_documents := [d', d]\<rparr>
   in map_sum id ad_decision (evaluate_policy 0 ar_effect_class (demo_request ''read'' [''docs/a'']) p' None) =
      map_sum id ad_decision (evaluate_policy 0 ar_effect_class (demo_request ''read'' [''docs/a'']) p None)"
  unfolding Let_def by (rule policy_order_irrelevant) auto

end
