(* ===== verification/PlanCheck.thy ===== *)
theory PlanCheck
  imports Policy Graphs
begin

section \<open>Acceptance of proposed plans\<close>

text \<open>
  \<open>planning/validator.py\<close> and the target selectors of \<open>tools/gateway.py\<close>. The violations
  of a candidate are structured values (the code renders them as sentences, and derives the
  categories of the error message from the sentences). The registry snapshot, the JSON schema
  validator, the content inspector and the fingerprints are parameters of the validator.
\<close>

subsection \<open>Targets of a call\<close>

record declared_targets =
  dt_paths :: "string list"
  dt_executables :: "string list"
  dt_network_destinations :: "string list"
  dt_repositories :: "string list"
  dt_remotes :: "string list"
  dt_branches :: "string list"
  dt_environments :: "string list"
  dt_external_resources :: "string list"

type_synonym arguments = "(string \<times> json) list"

fun select_part :: "string \<Rightarrow> json \<Rightarrow> json list" where
  "select_part part (JObj kvs) =
     (if part = ''@keys'' then map (\<lambda>kv. JStr (fst kv)) kvs
      else if part = ''*'' then map snd kvs
      else case map_of kvs part of None \<Rightarrow> [] | Some v \<Rightarrow> [v])"
| "select_part part (JList xs) =
     (if part = ''*'' then xs
      else if isdigit part then
        (if int_of_digits part < length xs then [xs ! int_of_digits part] else [])
      else [])"
| "select_part part _ = []"

definition select_argument_nodes :: "arguments \<Rightarrow> string \<Rightarrow> json list" where
  "select_argument_nodes args selector =
     foldl (\<lambda>current part. concat (map (select_part part) current)) [JObj args]
       (py_split CHR ''.'' selector)"

fun str_of :: "json \<Rightarrow> string" where
  "str_of (JStr s) = s"
| "str_of _ = []"

fun flatten_value :: "json \<Rightarrow> string list" where
  "flatten_value (JStr s) = [s]"
| "flatten_value (JList xs) = (if list_all is_str xs then map str_of xs else [])"
| "flatten_value _ = []"

definition select_argument_values :: "arguments \<Rightarrow> string \<Rightarrow> string list" where
  "select_argument_values args selector =
     concat (map flatten_value (select_argument_nodes args selector))"

definition target_fields :: "string list" where
  "target_fields = [''path'', ''executable'', ''network'', ''repository'', ''remote'', ''branch'',
     ''environment'', ''external_resource'']"

definition declared_targets_for :: "tool_contract \<Rightarrow> arguments \<Rightarrow> declared_targets result" where
  "declared_targets_for contract args =
     (let scopes = tc_target_arguments contract;
          get = (\<lambda>scope. case map_of scopes scope of
                   None \<Rightarrow> []
                 | Some selectors \<Rightarrow>
                     dict_fromkeys (concat (map (select_argument_values args) selectors)))
      in if list_ex (\<lambda>s. fst s \<notin> set target_fields) scopes
         then Inl (MishkanError TOOL_CONTRACT
           ''tool contract declares an unsupported target scope'')
         else Inr \<lparr>dt_paths = get ''path'', dt_executables = get ''executable'',
                   dt_network_destinations = get ''network'', dt_repositories = get ''repository'',
                   dt_remotes = get ''remote'', dt_branches = get ''branch'',
                   dt_environments = get ''environment'',
                   dt_external_resources = get ''external_resource''\<rparr>)"

definition credential_references_for :: "tool_contract \<Rightarrow> arguments \<Rightarrow> string list" where
  "credential_references_for contract args =
     dict_fromkeys (tc_credential_refs contract @
       concat (map (select_argument_values args) (tc_credential_arguments contract)))"

definition policy_argument_values_for :: "tool_contract \<Rightarrow> arguments \<Rightarrow> string list" where
  "policy_argument_values_for contract args =
     concat (map (select_argument_values args) (tc_policy_arguments contract))"

subsection \<open>Organization and environment\<close>

record role_definition =
  ro_name :: string
  ro_allowed_tools :: "string list"

record outcome_definition =
  oc_outcome_id :: string
  oc_objective_class :: string
  oc_task_roles :: "string list"
  oc_review_roles :: "string list"
  oc_allowed_tools :: "string list"
  oc_max_tasks :: nat

text \<open>\<open>{role.name: set(role.allowed_tools) for role in organization.roles}\<close>\<close>

definition role_tools :: "role_definition list \<Rightarrow> string \<Rightarrow> string list option" where
  "role_tools org = map_of (rev (map (\<lambda>r. (ro_name r, ro_allowed_tools r)) org))"

datatype inspection = Unchanged | Redacted | Blocked

text \<open>
  What the validator was built with, and what it takes from libraries. \<open>pe_organization\<close> is the
  binding made of its roster and of the mission arguments of \<open>accept\<close>; the fingerprint of the
  plan covers it.
\<close>

record plan_environment =
  pe_snapshot :: "string list \<Rightarrow> registry_snapshot result"
  pe_max_agent_iterations :: "nat option"
  pe_policy :: effective_policy
  pe_organization :: plan_organization_binding
  pe_now :: instant
  pe_schema_ok :: "json \<Rightarrow> arguments \<Rightarrow> bool"
  pe_inspect :: "(arguments \<Rightarrow> inspection) option"
  pe_fp_request :: "authorization_request \<Rightarrow> string"
  pe_fp_arguments :: "arguments \<Rightarrow> string"
  pe_fp_plan :: "plan_candidate \<Rightarrow> discovery_snapshot \<Rightarrow> registry_snapshot \<Rightarrow> tool_binding list
     \<Rightarrow> string"

datatype plan_violation =
    ContextMismatch | ProspectiveNeedsExplicitContext | RevisionMismatch | OutcomeMismatch
  | TooManyTasks | DuplicateTaskIds
  | IterationBound string
  | UnauthorizedRole string
  | UnauthorizedTools string "string list"
  | ToolsOutsideRole string "string list"
  | AbsentPaths string "string list"
  | UnknownDependencies string "string list"
  | SelfDependency string
  | DependencyCycle
  | SchemaViolation string string
  | NeedsRedaction string string
  | BlockedContent string string
  | BindingNotAllowed string string decision

datatype plan_failure = Refused "plan_violation list" | Raised failure

subsection \<open>Structural violations\<close>

text \<open>\<open>Path(p).as_posix()\<close> for a POSIX path: empty and \<open>.\<close> components disappear.\<close>

fun join_path :: "string list \<Rightarrow> string" where
  "join_path [] = []"
| "join_path [x] = x"
| "join_path (x # y # rest) = x @ ''/'' @ join_path (y # rest)"

definition as_posix :: "string \<Rightarrow> string" where
  "as_posix p =
     (let parts = filter (\<lambda>x. x \<noteq> [] \<and> x \<noteq> ''.'') (py_split CHR ''/'' p);
          root = (if take 2 p = ''//'' \<and> take 3 p \<noteq> ''///'' then ''//''
                  else if take 1 p = ''/'' then ''/'' else [])
      in if root = [] \<and> parts = [] then ''.'' else root @ join_path parts)"

definition context_violations :: "plan_candidate \<Rightarrow> discovery_snapshot \<Rightarrow> plan_violation list" where
  "context_violations c d =
     (let discovered = from_binding (ds_binding d)
      in if plan_schema_version c = Plan_1_2
         then (if plan_execution_ctx c \<noteq> Some discovered then [ContextMismatch] else [])
         else if pec_kind discovered \<noteq> RepositoryKind then [ProspectiveNeedsExplicitContext]
         else if plan_repository_revision c \<noteq> pec_repository_revision discovered
         then [RevisionMismatch] else [])"

definition when_some :: "'a list \<Rightarrow> ('a list \<Rightarrow> 'b) \<Rightarrow> 'b list" where
  "when_some xs f = (if xs = [] then [] else [f xs])"

definition task_violations ::
  "plan_environment \<Rightarrow> role_definition list \<Rightarrow> outcome_definition \<Rightarrow> discovery_snapshot
   \<Rightarrow> string list \<Rightarrow> plan_task \<Rightarrow> plan_violation list" where
  "task_violations env org outcome d task_ids t =
     (let tid = pt_task_id t; role = pt_assigned_role t;
          eligible = (case role_tools org role of None \<Rightarrow> [] | Some ts \<Rightarrow> ts)
      in (case pe_max_agent_iterations env of
            None \<Rightarrow> []
          | Some n \<Rightarrow> if n < length (pt_tool_calls t) + 1 then [IterationBound tid] else []) @
         (if role \<notin> set (oc_task_roles outcome) \<or> role \<notin> ro_name ` set org
          then [UnauthorizedRole tid] else []) @
         when_some (sorted_set (filter (\<lambda>x. x \<notin> set (oc_allowed_tools outcome)) (pt_tools t)))
           (UnauthorizedTools tid) @
         when_some (sorted_set (filter (\<lambda>x. x \<notin> set eligible) (pt_tools t)))
           (ToolsOutsideRole tid) @
         when_some (sort (filter (\<lambda>p. as_posix p \<notin> cited_paths d) (pt_evidence_paths t)))
           (AbsentPaths tid) @
         when_some (sorted_set (filter (\<lambda>x. x \<notin> set task_ids) (pt_depends_on t)))
           (UnknownDependencies tid) @
         (if tid \<in> set (pt_depends_on t) then [SelfDependency tid] else []))"

definition plan_deps :: "plan_task list \<Rightarrow> string \<Rightarrow> string set" where
  "plan_deps ts k =
     (case map_of (rev (map (\<lambda>t. (pt_task_id t, pt_depends_on t)) ts)) k of
        None \<Rightarrow> {} | Some ds \<Rightarrow> set ds)"

definition has_cycle :: "plan_candidate \<Rightarrow> bool" where
  "has_cycle c =
     peel (plan_deps (plan_tasks c)) (remdups (map pt_task_id (plan_tasks c)))"

definition structural_violations ::
  "plan_environment \<Rightarrow> role_definition list \<Rightarrow> outcome_definition \<Rightarrow> discovery_snapshot
   \<Rightarrow> plan_candidate \<Rightarrow> plan_violation list" where
  "structural_violations env org outcome d c =
     (let task_ids = map pt_task_id (plan_tasks c)
      in context_violations c d @
         (if plan_outcome_id c \<noteq> oc_outcome_id outcome then [OutcomeMismatch] else []) @
         (if oc_max_tasks outcome < length (plan_tasks c) then [TooManyTasks] else []) @
         (if distinct task_ids then [] else [DuplicateTaskIds]) @
         concat (map (task_violations env org outcome d task_ids) (plan_tasks c)) @
         (if has_cycle c then [DependencyCycle] else []))"

subsection \<open>Calls and bindings\<close>

definition call_violations ::
  "plan_environment \<Rightarrow> registry_snapshot \<Rightarrow> plan_task \<Rightarrow> planned_tool_call
   \<Rightarrow> plan_violation list result" where
  "call_violations env registry t call =
     ebind (registry_require registry (pc_tool_id call)) (\<lambda>contract. Inr
       (if \<not> pe_schema_ok env (tc_input_schema contract) (pc_arguments call)
        then [SchemaViolation (pt_task_id t) (pc_call_id call)]
        else case pe_inspect env of
               None \<Rightarrow> []
             | Some inspect \<Rightarrow>
                 (case inspect (pc_arguments call) of
                    Unchanged \<Rightarrow> []
                  | Redacted \<Rightarrow> [NeedsRedaction (pt_task_id t) (pc_call_id call)]
                  | Blocked \<Rightarrow> [BlockedContent (pt_task_id t) (pc_call_id call)])))"

definition planned_call_violations ::
  "plan_environment \<Rightarrow> registry_snapshot \<Rightarrow> plan_candidate \<Rightarrow> plan_violation list result" where
  "planned_call_violations env registry c =
     ebind (traverse (\<lambda>(t, call). call_violations env registry t call)
              (concat (map (\<lambda>t. map (Pair t) (pt_tool_calls t)) (plan_tasks c))))
       (\<lambda>vss. Inr (concat vss))"

definition binding_targets :: "planned_tool_call list \<Rightarrow> tool_contract \<Rightarrow> string list result" where
  "binding_targets calls contract =
     ebind (traverse (\<lambda>call. declared_targets_for contract (pc_arguments call)) calls) (\<lambda>tss.
       Inr (dict_fromkeys (concat (map (\<lambda>dt.
         dt_paths dt @ dt_executables dt @ dt_network_destinations dt @ dt_repositories dt @
         dt_remotes dt @ dt_branches dt @ dt_environments dt @ dt_external_resources dt) tss))))"

definition calls_of :: "plan_task \<Rightarrow> string \<Rightarrow> planned_tool_call list" where
  "calls_of t tool_id = filter (\<lambda>call. pc_tool_id call = tool_id) (pt_tool_calls t)"

definition task_binding ::
  "plan_environment \<Rightarrow> registry_snapshot \<Rightarrow> plan_task \<Rightarrow> string \<Rightarrow> string \<Rightarrow> string
   \<Rightarrow> tool_binding result" where
  "task_binding env registry t task_id role tool_id =
     ebind (registry_require registry tool_id) (\<lambda>contract.
     ebind (binding_targets (calls_of t tool_id) contract) (\<lambda>targets.
       bind_tool registry task_id role tool_id
         (if targets = [] then pt_evidence_paths t else targets)
         (map (\<lambda>call. pe_fp_arguments env (pc_arguments call)) (calls_of t tool_id))))"

text \<open>The bindings a review role gets: the read tools of the task that the role may use.\<close>

definition review_binding ::
  "plan_environment \<Rightarrow> role_definition list \<Rightarrow> registry_snapshot \<Rightarrow> plan_task
   \<Rightarrow> string \<times> string \<Rightarrow> tool_binding list result" where
  "review_binding env org registry t = (\<lambda>(role, tool_id).
     ebind (registry_require registry tool_id) (\<lambda>contract.
       if tc_effect_class contract \<noteq> READ then Inr []
       else case role_tools org role of
              None \<Rightarrow> Inl KeyError
            | Some allowed \<Rightarrow>
                if tool_id \<notin> set allowed then Inr []
                else ebind (task_binding env registry t (''review-'' @ pt_task_id t) role tool_id)
                       (\<lambda>b. Inr [b])))"

definition task_bindings ::
  "plan_environment \<Rightarrow> role_definition list \<Rightarrow> outcome_definition \<Rightarrow> registry_snapshot
   \<Rightarrow> plan_task \<Rightarrow> tool_binding list result" where
  "task_bindings env org outcome registry t =
     ebind (traverse (task_binding env registry t (pt_task_id t) (pt_assigned_role t)) (pt_tools t))
       (\<lambda>own.
     ebind (traverse (review_binding env org registry t)
              (List.product (oc_review_roles outcome) (pt_tools t))) (\<lambda>reviews.
       Inr (own @ concat reviews)))"

definition bindings ::
  "plan_environment \<Rightarrow> role_definition list \<Rightarrow> outcome_definition \<Rightarrow> registry_snapshot
   \<Rightarrow> plan_candidate \<Rightarrow> tool_binding list result" where
  "bindings env org outcome registry c =
     ebind (traverse (task_bindings env org outcome registry) (plan_tasks c)) (\<lambda>bss.
       Inr (concat bss))"


subsection \<open>Authorization of the bindings\<close>

fun effect_name :: "effect_class \<Rightarrow> string" where
  "effect_name READ = ''read''"
| "effect_name FILESYSTEM_WRITE = ''filesystem_write''"
| "effect_name COMMAND = ''command''"
| "effect_name NETWORK = ''network''"
| "effect_name REPOSITORY_WRITE = ''repository_write''"
| "effect_name REPOSITORY_REMOTE_WRITE = ''repository_remote_write''"
| "effect_name DEPLOYMENT = ''deployment''"
| "effect_name RELEASE = ''release''"
| "effect_name MIGRATION = ''migration''"
| "effect_name REGISTRY_LIFECYCLE = ''registry_lifecycle''"

text \<open>\<open>security_identifier\<close> on ASCII text: every character is visible.\<close>

definition visible :: "string \<Rightarrow> bool" where
  "visible s = list_all (\<lambda>c. 32 \<le> (of_char c :: nat) \<and> (of_char c :: nat) < 127) s"

definition scope_valid :: "string list \<Rightarrow> bool" where
  "scope_valid xs \<longleftrightarrow> distinct xs \<and> list_all visible xs"

definition request_valid :: "authorization_request \<Rightarrow> bool" where
  "request_valid r \<longleftrightarrow>
     list_all (\<lambda>s. s \<noteq> [] \<and> visible s)
       [ar_identity r, ar_objective_class r, ar_repository r, ar_outcome r, ar_role r,
        ar_capability r, ar_effect_class r] \<and>
     list_all scope_valid
       [ar_paths r, ar_executables r, ar_network_destinations r, ar_remotes r, ar_branches r,
        ar_environments r, ar_credentials r, ar_external_resources r, ar_effects r] \<and>
     list_all (\<lambda>a. CHR 0x00 \<notin> set a) (ar_arguments r) \<and>
     (case ar_isolation_profile r of None \<Rightarrow> True | Some p \<Rightarrow> visible p)"

definition make_request :: "authorization_request \<Rightarrow> authorization_request result" where
  "make_request r =
     (if request_valid r then Inr r
      else Inl (ValueError ''security identifiers must use stable visible Unicode''))"

definition base_request ::
  "string \<Rightarrow> discovery_snapshot \<Rightarrow> outcome_definition \<Rightarrow> tool_binding \<Rightarrow> tool_contract
   \<Rightarrow> authorization_request" where
  "base_request fp d outcome b contract =
     \<lparr>ar_plan_fingerprint = fp, ar_identity = ''role:'' @ tb_role b,
      ar_objective_class = oc_objective_class outcome,
      ar_repository = binding_context_id (ds_binding d),
      ar_outcome = oc_outcome_id outcome, ar_role = tb_role b, ar_capability = tb_tool_id b,
      ar_effect_class = effect_name (tc_effect_class contract), ar_effects = [], ar_paths = [],
      ar_executables = [], ar_arguments = [], ar_network_destinations = [], ar_remotes = [],
      ar_branches = [], ar_environments = [], ar_credentials = [], ar_external_resources = [],
      ar_isolation_profile = None, ar_resources = tc_resources contract\<rparr>"

definition call_request ::
  "string \<Rightarrow> discovery_snapshot \<Rightarrow> outcome_definition \<Rightarrow> tool_binding \<Rightarrow> tool_contract
   \<Rightarrow> planned_tool_call \<Rightarrow> authorization_request result" where
  "call_request fp d outcome b contract call =
     ebind (declared_targets_for contract (pc_arguments call)) (\<lambda>dt.
       make_request ((base_request fp d outcome b contract)
         \<lparr>ar_paths := dt_paths dt, ar_executables := dt_executables dt,
          ar_arguments := policy_argument_values_for contract (pc_arguments call),
          ar_network_destinations := dt_network_destinations dt, ar_remotes := dt_remotes dt,
          ar_branches := dt_branches dt, ar_environments := dt_environments dt,
          ar_credentials := credential_references_for contract (pc_arguments call),
          ar_external_resources := dt_external_resources dt\<rparr>))"

definition legacy_requests ::
  "string \<Rightarrow> discovery_snapshot \<Rightarrow> outcome_definition \<Rightarrow> tool_binding \<Rightarrow> tool_contract
   \<Rightarrow> authorization_request list result" where
  "legacy_requests fp d outcome b contract =
     traverse (\<lambda>paths. make_request ((base_request fp d outcome b contract)
         \<lparr>ar_paths := paths, ar_credentials := tc_credential_refs contract\<rparr>))
       (if ''path'' \<in> set (tc_target_scopes contract)
        then map (\<lambda>target. [target]) (tb_allowed_targets b) else [[]])"

text \<open>\<open>binding.task_id.removeprefix("review-")\<close> for the bindings of review roles.\<close>

definition source_task_id :: "outcome_definition \<Rightarrow> tool_binding \<Rightarrow> string" where
  "source_task_id outcome b =
     (if tb_role b \<in> set (oc_review_roles outcome) \<and> take 7 (tb_task_id b) = ''review-''
      then drop 7 (tb_task_id b) else tb_task_id b)"

definition task_by_id :: "plan_candidate \<Rightarrow> string \<Rightarrow> plan_task option" where
  "task_by_id c = map_of (rev (map (\<lambda>t. (pt_task_id t, t)) (plan_tasks c)))"

definition binding_requests ::
  "string \<Rightarrow> discovery_snapshot \<Rightarrow> outcome_definition \<Rightarrow> registry_snapshot \<Rightarrow> plan_candidate
   \<Rightarrow> tool_binding \<Rightarrow> authorization_request list result" where
  "binding_requests fp d outcome registry c b =
     ebind (registry_require registry (tb_tool_id b)) (\<lambda>contract.
     ebind (from_option KeyError (task_by_id c (source_task_id outcome b))) (\<lambda>t.
       let calls = calls_of t (tb_tool_id b)
       in if calls \<noteq> [] then traverse (call_request fp d outcome b contract) calls
          else legacy_requests fp d outcome b contract))"

type_synonym evaluator =
  "authorization_request \<Rightarrow> approval_evidence option \<Rightarrow> authorization_decision result"

definition approval_for ::
  "(authorization_request \<Rightarrow> string) \<Rightarrow> approval_evidence list \<Rightarrow> authorization_request
   \<Rightarrow> approval_evidence option" where
  "approval_for fp approvals request =
     find (\<lambda>e. ae_request_fingerprint e = fp request) approvals"

definition authorize_binding ::
  "evaluator \<Rightarrow> (authorization_request \<Rightarrow> string) \<Rightarrow> approval_evidence list
   \<Rightarrow> (tool_binding \<Rightarrow> authorization_request list result) \<Rightarrow> tool_binding
   \<Rightarrow> (tool_binding \<times> authorization_decision) list result" where
  "authorize_binding evaluate fp approvals requests b =
     ebind (requests b) (\<lambda>rs.
       traverse (\<lambda>r. ebind (evaluate r (approval_for fp approvals r)) (\<lambda>d. Inr (b, d))) rs)"

definition authorize_all ::
  "evaluator \<Rightarrow> (authorization_request \<Rightarrow> string) \<Rightarrow> approval_evidence list
   \<Rightarrow> (tool_binding \<Rightarrow> authorization_request list result) \<Rightarrow> tool_binding list
   \<Rightarrow> (tool_binding \<times> authorization_decision) list result" where
  "authorize_all evaluate fp approvals requests bs =
     ebind (traverse (authorize_binding evaluate fp approvals requests) bs) (\<lambda>dss.
       Inr (concat dss))"

definition denied :: "(tool_binding \<times> authorization_decision) list \<Rightarrow> plan_violation list" where
  "denied ds = map (\<lambda>(b, d). BindingNotAllowed (tb_task_id b) (tb_tool_id b) (ad_decision d))
     (filter (\<lambda>(b, d). ad_decision d \<noteq> ALLOW) ds)"

subsection \<open>Acceptance\<close>

definition raising :: "'a result \<Rightarrow> plan_failure + 'a" where
  "raising r = (case r of Inl e \<Rightarrow> Inl (Raised e) | Inr a \<Rightarrow> Inr a)"

definition refusing :: "plan_violation list \<Rightarrow> plan_failure + unit" where
  "refusing vs = (if vs \<noteq> [] then Inl (Refused vs) else Inr ())"

lemma raising_Inr [simp]: "raising r = Inr a \<longleftrightarrow> r = Inr a"
  by (cases r) (simp_all add: raising_def)

lemma refusing_Inr [simp]: "refusing vs = Inr u \<longleftrightarrow> vs = []"
  by (simp add: refusing_def)

definition make_accepted_plan ::
  "plan_environment \<Rightarrow> plan_candidate \<Rightarrow> discovery_snapshot \<Rightarrow> registry_snapshot
   \<Rightarrow> tool_binding list \<Rightarrow> string \<Rightarrow> approval_evidence list \<Rightarrow> authorization_decision list
   \<Rightarrow> accepted_plan" where
  "make_accepted_plan env c d registry bs fp approvals authorizations =
     plan_candidate.extend c
       (accepted_plan.fields fp (ds_fingerprint d) (Some registry) bs
         (Some (ep_fingerprint (pe_policy env))) approvals authorizations
         (Some (pe_organization env)))"

text \<open>
  The validator of \<open>AcceptedPlan\<close>: a plan of schema 1.1 or 1.2 carries its registry, its
  bindings, the policy and at least one authorization.
\<close>

definition governed_plan_has_complete_lineage :: "accepted_plan \<Rightarrow> bool" where
  "governed_plan_has_complete_lineage p \<longleftrightarrow>
     (plan_schema_version p \<in> {Plan_1_1, Plan_1_2} \<longrightarrow>
        ap_registry p \<noteq> None \<and> ap_tool_bindings p \<noteq> [] \<and> ap_policy_fingerprint p \<noteq> None \<and>
        ap_authorizations p \<noteq> [])"

text \<open>The accepted plan, with the decisions it records.\<close>

definition accept ::
  "plan_environment \<Rightarrow> plan_candidate \<Rightarrow> discovery_snapshot \<Rightarrow> role_definition list
   \<Rightarrow> outcome_definition \<Rightarrow> approval_evidence list
   \<Rightarrow> plan_failure + (accepted_plan \<times> authorization_decision list)" where
  "accept env c d org outcome approvals =
     ebind (refusing (structural_violations env org outcome d c)) (\<lambda>_.
     ebind (raising (pe_snapshot env (dict_fromkeys (concat (map pt_tools (plan_tasks c))))))
       (\<lambda>registry.
     ebind (raising (planned_call_violations env registry c)) (\<lambda>vs.
     ebind (refusing vs) (\<lambda>_.
     ebind (raising (bindings env org outcome registry c)) (\<lambda>bs.
     ebind (raising (if mission_lineage_is_complete (pe_organization env) then Inr ()
         else Inl (ValueError ''mission lineage is incomplete''))) (\<lambda>_.
       let fp = pe_fp_plan env c d registry bs;
           evaluate = (\<lambda>r a. evaluate_policy (pe_now env) (pe_fp_request env) r (pe_policy env) a)
       in ebind (raising (authorize_all evaluate (pe_fp_request env) approvals
                   (binding_requests fp d outcome registry c) bs)) (\<lambda>ds.
          ebind (refusing (denied ds)) (\<lambda>_.
            let p = make_accepted_plan env c d registry bs fp approvals (map snd ds)
            in if governed_plan_has_complete_lineage p then Inr (p, map snd ds)
               else Inl (Raised (ValueError
                 ''accepted plan 1.1 requires complete policy and tool lineage''))))))))))"

end
