(* ===== verification/PlanProperties.thy ===== *)
theory PlanProperties
  imports PlanCheck
begin

section \<open>What acceptance of a plan guarantees\<close>

text \<open>
  The interface between the validator and the policy authority as a locale, interpreted on
  the evaluation of \<open>Policy\<close>; the structure of every accepted plan; and that every binding,
  and every planned call, of an accepted plan is granted by the policy.
\<close>

subsection \<open>The authority the validator relies on\<close>

locale policy_authority =
  fixes evaluate :: evaluator
    and request_granted :: "authorization_request \<Rightarrow> approval_evidence option \<Rightarrow> bool"
  assumes allow_granted:
    "evaluate r a = Inr d \<Longrightarrow> ad_decision d = ALLOW \<Longrightarrow> request_granted r a"
begin

lemma authorize_binding_granted:
  assumes "authorize_binding evaluate fp approvals requests b = Inr ds" and "denied ds = []"
  obtains rs where "requests b = Inr rs"
    and "\<And>r. r \<in> set rs \<Longrightarrow> request_granted r (approval_for fp approvals r)"
proof -
  obtain rs where rs: "requests b = Inr rs"
    and each: "map (\<lambda>r. ebind (evaluate r (approval_for fp approvals r)) (\<lambda>d. Inr (b, d))) rs =
      map Inr ds"
    using assms(1) by (auto simp: authorize_binding_def ebind_Inr_iff traverse_Inr_iff)
  have "request_granted r (approval_for fp approvals r)" if r: "r \<in> set rs" for r
  proof -
    have "ebind (evaluate r (approval_for fp approvals r)) (\<lambda>d. Inr (b, d)) \<in> Inr ` set ds"
      using r arg_cong [OF each, of set] by (metis (no_types, lifting) image_eqI list.set_map)
    then obtain d where d: "evaluate r (approval_for fp approvals r) = Inr d" "(b, d) \<in> set ds"
      by (auto simp: ebind_Inr_iff)
    have "ad_decision d = ALLOW"
      using assms(2) d(2) by (auto simp: denied_def filter_empty_conv)
    then show ?thesis by (rule allow_granted [OF d(1)])
  qed
  with rs that show thesis by blast
qed

lemma authorize_all_granted:
  assumes "authorize_all evaluate fp approvals requests bs = Inr ds" and "denied ds = []"
    and "b \<in> set bs"
  obtains rs where "requests b = Inr rs"
    and "\<And>r. r \<in> set rs \<Longrightarrow> request_granted r (approval_for fp approvals r)"
proof -
  obtain dss where dss: "map (authorize_binding evaluate fp approvals requests) bs = map Inr dss"
    and ds: "ds = concat dss"
    using assms(1) by (auto simp: authorize_all_def ebind_Inr_iff traverse_Inr_iff)
  have "authorize_binding evaluate fp approvals requests b \<in> Inr ` set dss"
    using assms(3) arg_cong [OF dss, of set] by (metis (no_types, lifting) image_eqI list.set_map)
  then obtain x where x: "authorize_binding evaluate fp approvals requests b = Inr x" "x \<in> set dss"
    by auto
  have "denied x = []" using assms(2) x(2) ds by (auto simp: denied_def filter_empty_conv)
  with x(1) show thesis by (rule authorize_binding_granted) (rule that)
qed

end

interpretation policy: policy_authority
  "\<lambda>r a. evaluate_policy now fp r p a" "\<lambda>r a. granted now fp p r a" for now fp p
  by unfold_locales (rule allow_is_granted)

subsection \<open>Structure of an accepted plan\<close>

lemma accept_Inr:
  assumes "accept env c d org outcome approvals = Inr (p, ads)"
  obtains registry bs ds where
    "structural_violations env org outcome d c = []"
    "pe_snapshot env (dict_fromkeys (concat (map pt_tools (plan_tasks c)))) = Inr registry"
    "planned_call_violations env registry c = Inr []"
    "bindings env org outcome registry c = Inr bs"
    "authorize_all (\<lambda>r a. evaluate_policy (pe_now env) (pe_fp_request env) r (pe_policy env) a)
       (pe_fp_request env) approvals
       (binding_requests (pe_fp_plan env c d registry bs) d outcome registry c) bs = Inr ds"
    "denied ds = []"
    "p = make_accepted_plan env c d registry bs (pe_fp_plan env c d registry bs) approvals (map snd ds)"
    "ads = map snd ds"
  using assms unfolding accept_def ebind_Inr_iff Let_def refusing_Inr raising_Inr
  by (auto split: if_splits intro: that)

lemma make_accepted_plan_fields:
  "plan_tasks (make_accepted_plan env c d registry bs fp approvals ads) = plan_tasks c"
  "ap_registry (make_accepted_plan env c d registry bs fp approvals ads) = Some registry"
  "ap_tool_bindings (make_accepted_plan env c d registry bs fp approvals ads) = bs"
  "ap_fingerprint (make_accepted_plan env c d registry bs fp approvals ads) = fp"
  "plan_graph (make_accepted_plan env c d registry bs fp approvals ads) = plan_graph c"
  by (simp_all add: make_accepted_plan_def plan_candidate.defs accepted_plan.defs plan_graph_def)

lemma structural_violations_Nil:
  assumes "structural_violations env org outcome d c = []"
  shows "context_violations c d = []" and "plan_outcome_id c = oc_outcome_id outcome"
    and "length (plan_tasks c) \<le> oc_max_tasks outcome"
    and "distinct (map pt_task_id (plan_tasks c))"
    and "\<And>t. t \<in> set (plan_tasks c) \<Longrightarrow>
      task_violations env org outcome d (map pt_task_id (plan_tasks c)) t = []"
    and "\<not> has_cycle c"
  using assms by (auto simp: structural_violations_def Let_def split: if_splits)

lemma when_some_Nil [simp]: "when_some xs f = [] \<longleftrightarrow> xs = []"
  by (simp add: when_some_def)

lemma task_violations_Nil:
  assumes "task_violations env org outcome d ids t = []"
  shows "pt_assigned_role t \<in> set (oc_task_roles outcome)"
    and "pt_assigned_role t \<in> ro_name ` set org"
    and "set (pt_tools t) \<subseteq> set (oc_allowed_tools outcome)"
    and "set (pt_tools t) \<subseteq>
      set (case role_tools org (pt_assigned_role t) of None \<Rightarrow> [] | Some ts \<Rightarrow> ts)"
    and "as_posix ` set (pt_evidence_paths t) \<subseteq> cited_paths d"
    and "set (pt_depends_on t) \<subseteq> set ids"
proof -
  have sort_Nil: "sort xs = [] \<longleftrightarrow> xs = []" for xs :: "string list"
    by (metis set_empty set_sort)
  show "pt_assigned_role t \<in> set (oc_task_roles outcome)"
    and "pt_assigned_role t \<in> ro_name ` set org"
    using assms by (auto simp: task_violations_def Let_def split: if_splits)
  show "set (pt_tools t) \<subseteq> set (oc_allowed_tools outcome)"
    and "set (pt_depends_on t) \<subseteq> set ids"
    and "as_posix ` set (pt_evidence_paths t) \<subseteq> cited_paths d"
    and "set (pt_tools t) \<subseteq>
      set (case role_tools org (pt_assigned_role t) of None \<Rightarrow> [] | Some ts \<Rightarrow> ts)"
    using assms by (auto simp: task_violations_def Let_def filter_empty_conv sort_Nil)
qed

lemma plan_deps_distinct:
  assumes "distinct (map pt_task_id (plan_tasks c))"
  shows "plan_deps (plan_tasks c) = deps_of (plan_graph c)"
proof
  fix k
  have "distinct (map fst (map (\<lambda>t. (pt_task_id t, pt_depends_on t)) (plan_tasks c)))"
    using assms by (simp add: comp_def)
  then have "map_of (rev (map (\<lambda>t. (pt_task_id t, pt_depends_on t)) (plan_tasks c))) =
      map_of (map (\<lambda>t. (pt_task_id t, pt_depends_on t)) (plan_tasks c))"
    by (rule map_of_rev_distinct)
  then show "plan_deps (plan_tasks c) k = deps_of (plan_graph c) k"
    by (simp add: plan_deps_def deps_of_def plan_graph_def)
qed

lemma nodes_plan_graph: "nodes_of (plan_graph c) = pt_task_id ` set (plan_tasks c)"
  by (force simp: plan_graph_def)

lemma accepted_graph:
  assumes "structural_violations env org outcome d c = []"
  shows "closed_graph (plan_graph c) \<and> acyclic (graph_edges (plan_graph c))"
proof
  note sv = structural_violations_Nil [OF assms]
  have ids: "set (remdups (map pt_task_id (plan_tasks c))) = nodes_of (plan_graph c)"
    by (simp add: nodes_plan_graph)
  show "acyclic (graph_edges (plan_graph c))"
    using sv(6) unfolding has_cycle_def plan_deps_distinct [OF sv(4)] peel_iff_core ids
    by (simp add: core_iff_cycle)
  show "closed_graph (plan_graph c)"
    unfolding closed_graph_def
  proof
    fix k assume k: "k \<in> nodes_of (plan_graph c)"
    obtain ds where ds: "map_of (plan_graph c) k = Some ds" using map_of_nodes [OF k] by blast
    then obtain t where t: "t \<in> set (plan_tasks c)" "ds = pt_depends_on t"
      by (auto simp: plan_graph_def dest!: map_of_SomeD)
    then have "set ds \<subseteq> pt_task_id ` set (plan_tasks c)"
      using task_violations_Nil(6) [OF sv(5) [OF t(1)]] by simp
    then show "deps_of (plan_graph c) k \<subseteq> nodes_of (plan_graph c)"
      using ds by (simp add: deps_of_def nodes_plan_graph)
  qed
qed

definition plan_structure ::
  "role_definition list \<Rightarrow> outcome_definition \<Rightarrow> discovery_snapshot \<Rightarrow> accepted_plan \<Rightarrow> bool" where
  "plan_structure org outcome d p \<longleftrightarrow>
     distinct (map pt_task_id (plan_tasks p)) \<and>
     length (plan_tasks p) \<le> oc_max_tasks outcome \<and>
     closed_graph (plan_graph p) \<and> acyclic (graph_edges (plan_graph p)) \<and>
     (\<forall>t \<in> set (plan_tasks p).
        pt_assigned_role t \<in> set (oc_task_roles outcome) \<inter> ro_name ` set org \<and>
        set (pt_tools t) \<subseteq> set (oc_allowed_tools outcome) \<inter>
          set (case role_tools org (pt_assigned_role t) of None \<Rightarrow> [] | Some ts \<Rightarrow> ts) \<and>
        as_posix ` set (pt_evidence_paths t) \<subseteq> cited_paths d)"

text \<open>
  An accepted plan is executable and within its authority: its tasks have distinct
  identifiers and stay within the limit of the outcome, their dependencies exist and have no
  cycle, every task is assigned to a role that the outcome allows and the organization
  defines, uses only tools that the outcome and its role allow, and cites only paths the
  discovery cited.
\<close>

theorem accepted_plan_structure:
  assumes "accept env c d org outcome approvals = Inr (p, ads)"
  shows "plan_structure org outcome d p"
  using assms
proof (rule accept_Inr)
  fix registry bs ds
  assume sv: "structural_violations env org outcome d c = []"
    and p: "p = make_accepted_plan env c d registry bs (pe_fp_plan env c d registry bs) approvals (map snd ds)"
  note s = structural_violations_Nil [OF sv]
  show ?thesis
    using s(3,4) accepted_graph [OF sv] task_violations_Nil(1-5) [OF s(5)]
    by (auto simp: plan_structure_def p make_accepted_plan_fields)
qed


subsection \<open>Every planned call is authorized\<close>

lemma traverse_member:
  assumes "traverse f xs = Inr ys" and "x \<in> set xs"
  obtains y where "y \<in> set ys" and "f x = Inr y"
proof -
  have "f x \<in> Inr ` set ys"
    using assms(2) arg_cong [OF assms(1) [unfolded traverse_Inr_iff], of set]
    by (metis (no_types, lifting) image_eqI list.set_map)
  then show thesis using that by blast
qed

lemma task_binding_fields:
  assumes "task_binding env registry t task_id role tool_id = Inr b"
  shows "tb_task_id b = task_id" and "tb_role b = role" and "tb_tool_id b = tool_id"
  using assms
  by (auto simp: task_binding_def bind_tool_def ebind_Inr_iff split: if_splits
      dest: registry_require_Inr)

lemma bindings_member:
  assumes bs: "bindings env org outcome registry c = Inr bs"
    and t: "t \<in> set (plan_tasks c)" and tool: "tool_id \<in> set (pt_tools t)"
  obtains b where "b \<in> set bs" and "tb_task_id b = pt_task_id t"
    and "tb_role b = pt_assigned_role t" and "tb_tool_id b = tool_id"
proof -
  obtain bss where bss: "traverse (task_bindings env org outcome registry) (plan_tasks c) = Inr bss"
    "bs = concat bss"
    using bs by (auto simp: bindings_def ebind_Inr_iff)
  obtain xs where xs: "xs \<in> set bss" "task_bindings env org outcome registry t = Inr xs"
    using traverse_member [OF bss(1) t] by blast
  obtain own where own:
    "traverse (task_binding env registry t (pt_task_id t) (pt_assigned_role t)) (pt_tools t) = Inr own"
    and sub: "set own \<subseteq> set xs"
    using xs(2) unfolding task_bindings_def ebind_Inr_iff by auto
  obtain b where b: "b \<in> set own"
    "task_binding env registry t (pt_task_id t) (pt_assigned_role t) tool_id = Inr b"
    using traverse_member [OF own tool] by blast
  have "b \<in> set bs" using b(1) sub xs(1) bss(2) by auto
  then show thesis using task_binding_fields [OF b(2)] by (rule that)
qed

lemma task_by_id_member:
  assumes "distinct (map pt_task_id (plan_tasks c))" and "t \<in> set (plan_tasks c)"
  shows "task_by_id c (pt_task_id t) = Some t"
proof -
  let ?kvs = "map (\<lambda>t. (pt_task_id t, t)) (plan_tasks c)"
  have d: "distinct (map fst ?kvs)" using assms(1) by (simp add: comp_def)
  have "map_of ?kvs (pt_task_id t) = Some t"
    using assms(2) by (intro map_of_is_SomeI [OF d]) auto
  then show ?thesis by (simp add: task_by_id_def map_of_rev_distinct [OF d])
qed

lemma binding_requests_own:
  assumes "binding_requests fp d outcome registry c b = Inr rs"
    and "task_by_id c (source_task_id outcome b) = Some t" and "call \<in> set (calls_of t (tb_tool_id b))"
  obtains contract r where "registry_require registry (tb_tool_id b) = Inr contract"
    and "call_request fp d outcome b contract call = Inr r" and "r \<in> set rs"
proof -
  obtain contract where contract: "registry_require registry (tb_tool_id b) = Inr contract"
    and rs: "traverse (call_request fp d outcome b contract) (calls_of t (tb_tool_id b)) = Inr rs"
    using assms by (auto simp: binding_requests_def ebind_Inr_iff Let_def split: if_splits)
  obtain r where "r \<in> set rs" "call_request fp d outcome b contract call = Inr r"
    using traverse_member [OF rs assms(3)] by blast
  with contract show thesis using that by blast
qed

definition call_granted ::
  "plan_environment \<Rightarrow> discovery_snapshot \<Rightarrow> outcome_definition \<Rightarrow> approval_evidence list
   \<Rightarrow> accepted_plan \<Rightarrow> plan_task \<Rightarrow> planned_tool_call \<Rightarrow> bool" where
  "call_granted env d outcome approvals p t call \<longleftrightarrow>
     (\<exists>registry contract b r.
        ap_registry p = Some registry \<and> b \<in> set (ap_tool_bindings p) \<and>
        tb_task_id b = pt_task_id t \<and> tb_role b = pt_assigned_role t \<and>
        tb_tool_id b = pc_tool_id call \<and>
        registry_require registry (pc_tool_id call) = Inr contract \<and>
        call_request (ap_fingerprint p) d outcome b contract call = Inr r \<and>
        granted (pe_now env) (pe_fp_request env) (pe_policy env) r
          (approval_for (pe_fp_request env) approvals r))"

text \<open>
  Claim C5. Where no role both produces and reviews, every call of every task of an accepted
  plan has a binding of its task, role and tool in the plan, and the authorization request
  built from the arguments of that very call is granted by a rule in force (allowed, or
  approved by evidence bound to the request).
\<close>

theorem accepted_calls_granted:
  assumes acc: "accept env c d org outcome approvals = Inr (p, ads)"
    and roles: "set (oc_task_roles outcome) \<inter> set (oc_review_roles outcome) = {}"
    and t: "t \<in> set (plan_tasks c)" "call \<in> set (pt_tool_calls t)"
    and bound: "pc_tool_id call \<in> set (pt_tools t)"
  shows "call_granted env d outcome approvals p t call"
  using acc
proof (rule accept_Inr)
  fix registry bs ds
  let ?fp = "pe_fp_plan env c d registry bs"
  assume sv: "structural_violations env org outcome d c = []"
    and bs: "bindings env org outcome registry c = Inr bs"
    and auth: "authorize_all (\<lambda>r a. evaluate_policy (pe_now env) (pe_fp_request env) r (pe_policy env) a)
       (pe_fp_request env) approvals (binding_requests ?fp d outcome registry c) bs = Inr ds"
    and ok: "denied ds = []"
    and p: "p = make_accepted_plan env c d registry bs ?fp approvals (map snd ds)"
  note s = structural_violations_Nil [OF sv]
  obtain b where b: "b \<in> set bs" "tb_task_id b = pt_task_id t" "tb_role b = pt_assigned_role t"
    "tb_tool_id b = pc_tool_id call"
    by (rule bindings_member [OF bs t(1) bound])
  obtain rs where rs: "binding_requests ?fp d outcome registry c b = Inr rs"
    and granted: "\<And>r. r \<in> set rs \<Longrightarrow> granted (pe_now env) (pe_fp_request env) (pe_policy env) r
       (approval_for (pe_fp_request env) approvals r)"
    using policy.authorize_all_granted [OF auth ok b(1)] by blast
  have "source_task_id outcome b = pt_task_id t"
    using roles b(2,3) task_violations_Nil(1) [OF s(5) [OF t(1)]] by (auto simp: source_task_id_def)
  then have src: "task_by_id c (source_task_id outcome b) = Some t"
    using task_by_id_member [OF s(4) t(1)] by simp
  have own: "call \<in> set (calls_of t (tb_tool_id b))" using t(2) b(4) by (simp add: calls_of_def)
  obtain contract r where "registry_require registry (tb_tool_id b) = Inr contract"
    "call_request ?fp d outcome b contract call = Inr r" "r \<in> set rs"
    by (rule binding_requests_own [OF rs src own])
  with b granted show ?thesis
    unfolding call_granted_def p make_accepted_plan_fields by auto
qed

subsection \<open>A plan that is accepted\<close>

definition demo_contract :: tool_contract where
  "demo_contract = \<lparr>tc_tool_id = ''fs'', tc_version = ''1'', tc_effect_class = READ,
     tc_source_id = ''builtin'', tc_adapter = ''fs'', tc_input_schema = JObj [],
     tc_target_scopes = [''path''], tc_target_arguments = [(''path'', [''path''])],
     tc_credential_refs = [], tc_credential_arguments = [], tc_policy_arguments = [],
     tc_resources = \<lparr>rq_timeout_seconds = 60, rq_memory_mb = None, rq_network = False,
       rq_concurrency = 1\<rparr>, tc_provenance_fingerprint = ''t''\<rparr>"

definition demo_registry :: registry_snapshot where
  "demo_registry = \<lparr>rs_tools = [demo_contract], rs_fingerprint = ''s''\<rparr>"

definition demo_plan_env :: plan_environment where
  "demo_plan_env = \<lparr>pe_snapshot = (\<lambda>_. Inr demo_registry), pe_max_agent_iterations = Some 5,
     pe_policy = demo_policy,
     pe_organization = \<lparr>pob_organization_id = ''org'', pob_organization_version = ''1'',
       pob_organization_fingerprint = ''f'', pob_mission_id = None, pob_mission_origin_id = None,
       pob_mission_template_reference = None\<rparr>,
     pe_now = 0, pe_schema_ok = (\<lambda>_ _. True), pe_inspect = None,
     pe_fp_request = ar_effect_class, pe_fp_arguments = (\<lambda>args. concat (map fst args)),
     pe_fp_plan = (\<lambda>_ _ _ _. ''f'')\<rparr>"

definition demo_outcome :: "string list \<Rightarrow> string list \<Rightarrow> outcome_definition" where
  "demo_outcome task_roles review_roles = \<lparr>oc_outcome_id = ''u'', oc_objective_class = ''init'',
     oc_task_roles = task_roles, oc_review_roles = review_roles, oc_allowed_tools = [''fs''],
     oc_max_tasks = 6\<rparr>"

definition demo_org :: "role_definition list" where
  "demo_org = [\<lparr>ro_name = ''DEV'', ro_allowed_tools = [''fs'']\<rparr>,
     \<lparr>ro_name = ''QA'', ro_allowed_tools = [''fs'']\<rparr>]"

definition demo_repository :: discovery_snapshot where
  "demo_repository = \<lparr>ds_binding = RepositoryBinding \<lparr>rb_repository_id = ''repo'', rb_root = ''/r'',
       rb_base_revision = ''c1'', rb_remote_url = None, rb_working_tree_dirty = False,
       rb_working_tree_fingerprint = ''w''\<rparr>,
     ds_facts = [\<lparr>fact_kind = ''k'', fact_value = ''v'', fact_citations = [''README'']\<rparr>],
     ds_unknowns = [], ds_fingerprint = ''d''\<rparr>"

definition fs_call :: "string \<Rightarrow> planned_tool_call" where
  "fs_call path =
     \<lparr>pc_call_id = ''c'', pc_tool_id = ''fs'', pc_arguments = [(''path'', JStr path)]\<rparr>"

definition planned :: "string \<Rightarrow> string \<Rightarrow> string \<Rightarrow> string list \<Rightarrow> plan_task" where
  "planned k role path deps = \<lparr>pt_task_id = k, pt_title = k, pt_purpose = k,
     pt_assigned_role = role, pt_tools = [''fs''], pt_tool_calls = [fs_call path],
     pt_evidence_paths = [''README''], pt_depends_on = deps\<rparr>"

definition candidate :: "plan_task list \<Rightarrow> plan_candidate" where
  "candidate ts = \<lparr>plan_schema_version = Plan_1_1, plan_objective = ''o'', plan_outcome_id = ''u'',
     plan_repository_revision = Some ''c1'', plan_execution_ctx = None, plan_tasks = ts\<rparr>"

abbreviation demo_accept ::
  "string list \<Rightarrow> string list \<Rightarrow> plan_task list
   \<Rightarrow> plan_failure + (accepted_plan \<times> authorization_decision list)" where
  "demo_accept task_roles review_roles ts \<equiv> accept demo_plan_env (candidate ts) demo_repository
     demo_org (demo_outcome task_roles review_roles) []"

lemma demo_accepted:
  "\<not> is_error (demo_accept [''DEV''] [''QA'']
     [planned ''a'' ''DEV'' ''docs/a'' [], planned ''b'' ''DEV'' ''docs/b'' [''a'']])"
  by code_simp

theorem accepted_plan_structure_witness:
  "plan_structure demo_org (demo_outcome [''DEV''] [''QA'']) demo_repository
     (fst (projr (demo_accept [''DEV''] [''QA'']
       [planned ''a'' ''DEV'' ''docs/a'' [], planned ''b'' ''DEV'' ''docs/b'' [''a'']])))"
  by (rule accepted_plan_structure [OF not_error_pair [OF demo_accepted]])

theorem accepted_calls_granted_witness:
  "call_granted demo_plan_env demo_repository (demo_outcome [''DEV''] [''QA'']) []
     (fst (projr (demo_accept [''DEV''] [''QA'']
       [planned ''a'' ''DEV'' ''docs/a'' [], planned ''b'' ''DEV'' ''docs/b'' [''a'']])))
     (planned ''b'' ''DEV'' ''docs/b'' [''a'']) (fs_call ''docs/b'')"
  by (rule accepted_calls_granted [OF not_error_pair [OF demo_accepted]])
     (simp_all add: demo_outcome_def candidate_def planned_def fs_call_def)

text \<open>
  Where a role both produces and reviews, the prefix \<open>review-\<close> is removed from the identifiers
  of its production bindings too. With a tool that writes (no review binding is made for it)
  and a policy that allows writing below \<open>docs\<close> only, the call of the task \<open>review-a\<close> on
  \<open>src/x\<close> is authorized by the calls of the task \<open>a\<close>; under a name without the prefix the same
  plan is refused.
\<close>

definition write_env :: plan_environment where
  "write_env = demo_plan_env
     \<lparr>pe_snapshot := (\<lambda>_. Inr (demo_registry
        \<lparr>rs_tools := [demo_contract\<lparr>tc_effect_class := FILESYSTEM_WRITE\<rparr>]\<rparr>)),
      pe_policy := \<lparr>ep_documents = [(hd (ep_documents demo_policy))
        \<lparr>pd_rules := [demo_rule ''write'' ALLOW
           (default_scope\<lparr>ps_effect_classes := [''filesystem_write''],
              ps_paths := [''docs/*'']\<rparr>)]\<rparr>],
        ep_source_uris = [''u''], ep_fingerprint = ''P''\<rparr>\<rparr>"

abbreviation write_accept ::
  "string list \<Rightarrow> string \<Rightarrow> plan_failure + (accepted_plan \<times> authorization_decision list)" where
  "write_accept review_roles k \<equiv> accept write_env
     (candidate [planned ''a'' ''DEV'' ''docs/a'' [], planned k ''DEV'' ''src/x'' []])
     demo_repository demo_org (demo_outcome [''DEV''] review_roles) []"

text \<open>
  Where a role both produces and reviews, a task named after another one
  (\<open>review-a\<close>) is accepted although the policy denies its call: the binding of the accepted
  plan allows the target, while the decision taken was the one for the call of the other
  task. The same plan is refused under another name, and where the roles are disjoint.
\<close>

theorem overlapping_roles_authorize_other_task:
  "let outcome = demo_outcome [''DEV''] [''DEV''];
       p = fst (projr (write_accept [''DEV''] ''review-a''));
       b = ap_tool_bindings p ! 1;
       request = call_request (ap_fingerprint p) demo_repository outcome b
         (hd (rs_tools (the (ap_registry p)))) (fs_call ''src/x'')
   in \<not> is_error (write_accept [''DEV''] ''review-a'') \<and>
      tb_task_id b = ''review-a'' \<and> tb_allowed_targets b = [''src/x''] \<and>
      map_sum id ad_decision (evaluate_policy (pe_now write_env) (pe_fp_request write_env)
        (projr request) (pe_policy write_env) None) = Inr DENY \<and>
      is_error (write_accept [''DEV''] ''x'') \<and> is_error (write_accept [''QA''] ''review-a'')"
  by code_simp

end
