(* ===== verification/WorkerModel.thy ===== *)
theory WorkerModel
  imports RunSafety Complex_Main
begin

section \<open>Workers, leases and completions\<close>

text \<open>
  The records of \<open>workers/models.py\<close> that take part in the coordination of remote work, the
  rows \<open>workers/coordination.py\<close> keeps about them (declared in \<open>persistence/sqlite.py\<close>), and the
  state they form together with the run repository. Identifiers are strings; the database id
  of a task row is the key of the row (run and task identifier). A payload column holds the
  value it was dumped from. Fingerprints, sizes and dumps are the parameters of a coordinator.
\<close>

subsection \<open>States\<close>

datatype worker_state = WActive | WRevoked

datatype worker_availability = NEVER_SEEN | ONLINE | STALE | REVOKED

datatype envelope_state =
  ELeased | EExecuting | EValidating | ECompleted | EExpired | EReconciliation | ECancelled

datatype lease_state = LActive | LCompleted | LExpired | LCancelled

datatype completion_state = CDelivered | CAccepted | CRejected | CDuplicate | CStale

datatype placement_state = PQueued | PLeased | PCompleted | PCancelled

datatype effect_report = NotApplicable | Proven | EffectsUncertain

subsection \<open>Capabilities and resources\<close>

record capability_observation =
  co_capability_id :: string
  co_version :: string
  co_fingerprint :: string

record capability_requirement =
  cq_capability_id :: string
  cq_acceptable_versions :: "string list"
  cq_required_fingerprint :: "string option"

definition observation_matches :: "capability_requirement \<Rightarrow> capability_observation \<Rightarrow> bool" where
  "observation_matches q ob \<longleftrightarrow>
     co_capability_id ob = cq_capability_id q \<and>
     (cq_acceptable_versions q = [] \<or> co_version ob \<in> set (cq_acceptable_versions q)) \<and>
     (case cq_required_fingerprint q of None \<Rightarrow> True | Some f \<Rightarrow> co_fingerprint ob = f)"

definition satisfied_by :: "capability_requirement \<Rightarrow> capability_observation list \<Rightarrow> bool" where
  "satisfied_by q obs = list_ex (observation_matches q) obs"

record resource_snapshot =
  wr_logical_cpu_count :: int
  wr_available_memory_bytes :: int
  wr_max_concurrency :: int
  wr_active_tasks :: int

record resource_limits =
  rl_timeout_seconds :: int
  rl_memory_bytes :: "int option"
  rl_cpu_count :: "int option"
  rl_max_result_bytes :: int

record worker_heartbeat =
  wh_worker_id :: string
  wh_sequence :: int
  wh_capabilities :: "capability_observation list"
  wh_resources :: resource_snapshot
  wh_active_lease_ids :: "string list"

record task_input =
  ti_name :: string
  ti_artifact_id :: string
  ti_digest :: string

record path_scope =
  sc_root_id :: string
  sc_relative_path :: string
  sc_permissions :: "string list"

subsection \<open>Envelopes, requests and submissions\<close>

record task_envelope =
  te_id :: string
  te_run_id :: string
  te_task_row_id :: "string \<times> string"
  te_task_id :: string
  te_task_attempt :: int
  te_worker_id :: string
  te_context_revision :: string
  te_repository_id :: "string option"
  te_repository_revision :: "string option"
  te_plan_fingerprint :: string
  te_task_contract :: plan_task
  te_role_fingerprint :: string
  te_inputs :: "task_input list"
  te_policy_fingerprint :: string
  te_path_scopes :: "path_scope list"
  te_requirements :: "capability_requirement list"
  te_resources :: resource_limits
  te_deadline :: instant
  te_stateful_effects :: bool

definition identities_and_context_are_complete :: "task_envelope \<Rightarrow> bool" where
  "identities_and_context_are_complete e \<longleftrightarrow>
     (te_repository_id e = None) = (te_repository_revision e = None) \<and>
     distinct (map cq_capability_id (te_requirements e)) \<and>
     distinct (map ti_name (te_inputs e))"

record placement_request =
  pr_id :: string
  pr_run_id :: string
  pr_task_id :: string
  pr_preferred_worker_id :: "string option"
  pr_role_fingerprint :: string
  pr_inputs :: "task_input list"
  pr_policy_fingerprint :: string
  pr_path_scopes :: "path_scope list"
  pr_requirements :: "capability_requirement list"
  pr_resources :: resource_limits
  pr_deadline :: instant
  pr_stateful_effects :: bool
  pr_created_at :: instant

record completion_submission =
  su_id :: string
  su_envelope_id :: string
  su_lease_id :: string
  su_context_revision :: string
  su_repository_revision :: "string option"
  su_result :: json
  su_artifact_ids :: "string list"
  su_unified_patch :: "string option"
  su_effect_evidence :: "string list"
  su_effect_report :: effect_report

record artifact_upload_request =
  au_expected_size :: int
  au_producer_identity :: string
  au_run_id :: "string option"
  au_task_attempt_id :: "string option"

subsection \<open>Rows\<close>

record worker_row =
  wk_id :: string
  wk_state :: worker_state
  wk_created_at :: instant

record heartbeat_row =
  hb_worker_id :: string
  hb_sequence :: int
  hb_fingerprint :: string
  hb_payload :: worker_heartbeat
  hb_observed_at :: instant
  hb_expires_at :: instant

record placement_row =
  pm_id :: string
  pm_run_id :: string
  pm_task_row_id :: "string \<times> string"
  pm_task_key :: string
  pm_state :: placement_state
  pm_preferred_worker_id :: "string option"
  pm_selected_worker_id :: "string option"
  pm_current_envelope_id :: "string option"
  pm_request_fingerprint :: string
  pm_request :: placement_request
  pm_revision :: int
  pm_created_at :: instant
  pm_updated_at :: instant

record envelope_row =
  en_id :: string
  en_run_id :: string
  en_task_row_id :: "string \<times> string"
  en_task_key :: string
  en_task_attempt :: int
  en_worker_id :: string
  en_state :: envelope_state
  en_fingerprint :: string
  en_stateful_effects :: bool
  en_payload :: task_envelope
  en_deadline :: instant
  en_updated_at :: instant

record lease_row =
  le_id :: string
  le_envelope_id :: string
  le_worker_id :: string
  le_claim_id :: "string option"
  le_token_digest :: string
  le_state :: lease_state
  le_revision :: int
  le_issued_at :: instant
  le_expires_at :: instant
  le_last_renewed_at :: instant
  le_completed_at :: "instant option"

record completion_row =
  cm_id :: string
  cm_envelope_id :: string
  cm_lease_id :: string
  cm_worker_id :: string
  cm_fingerprint :: string
  cm_state :: completion_state
  cm_payload :: completion_submission
  cm_received_at :: instant
  cm_accepted_at :: "instant option"
  cm_decided_at :: "instant option"
  cm_decision_reason :: "string option"

record task_acceptance_row =
  ta_task_row_id :: "string \<times> string"
  ta_completion_id :: string
  ta_envelope_id :: string
  ta_accepted_at :: instant

datatype upload_state = Staging | Committed

record upload_row =
  up_upload_id :: string
  up_lease_id :: string
  up_worker_id :: string
  up_artifact_id :: "string option"
  up_expected_size :: int
  up_state :: upload_state

text \<open>
  The coordination state. The artifact rows belong to the artifact service; coordination reads
  their lifecycle.
\<close>

record coordination =
  co_store :: store
  co_workers :: "worker_row list"
  co_heartbeats :: "heartbeat_row list"
  co_placements :: "placement_row list"
  co_envelopes :: "envelope_row list"
  co_leases :: "lease_row list"
  co_completions :: "completion_row list"
  co_task_acceptances :: "task_acceptance_row list"
  co_uploads :: "upload_row list"
  co_artifacts :: "(string \<times> string) list"

definition empty_coordination :: coordination where
  "empty_coordination = \<lparr>co_store = empty_store, co_workers = [], co_heartbeats = [],
     co_placements = [], co_envelopes = [], co_leases = [], co_completions = [],
     co_task_acceptances = [], co_uploads = [], co_artifacts = []\<rparr>"

text \<open>
  The configuration of a coordinator, and what it relies on outside this code: SHA-256
  fingerprints of canonical JSON, the encoded length and the JSON dump of a value.
\<close>

record coordinator =
  cc_heartbeat_timeout_seconds :: int
  cc_lease_seconds :: int
  cc_max_worker_concurrency :: int
  cc_max_completion_bytes :: int
  cc_fp_heartbeat :: "worker_heartbeat \<Rightarrow> string"
  cc_fp_envelope :: "task_envelope \<Rightarrow> string"
  cc_fp_request :: "placement_request \<Rightarrow> string"
  cc_fp_submission :: "completion_submission \<Rightarrow> string"
  cc_size :: "completion_submission \<Rightarrow> int"
  cc_dump_result :: "initialization_result \<Rightarrow> json"

definition coordinator_valid :: "coordinator \<Rightarrow> unit result" where
  "coordinator_valid cc =
     (if cc_heartbeat_timeout_seconds cc < 1 \<or> cc_lease_seconds cc < 1
      then Inl (MishkanError CONFIGURATION ''worker timing bounds are invalid'')
      else if cc_max_worker_concurrency cc < 1 \<or> cc_max_completion_bytes cc < 1
      then Inl (MishkanError CONFIGURATION ''worker resource bounds are invalid'')
      else Inr ())"

text \<open>\<open>timedelta(seconds=n)\<close> on instants in microseconds.\<close>

definition seconds :: "int \<Rightarrow> int" where
  "seconds n = n * 1000000"

abbreviation worker_error :: "string \<Rightarrow> 'a result" where
  "worker_error m \<equiv> Inl (MishkanError WORKER m)"

subsection \<open>Lookups and updates\<close>

definition get_worker :: "string \<Rightarrow> coordination \<Rightarrow> worker_row option" where
  "get_worker k s = tbl_get wk_id k (co_workers s)"

definition get_heartbeat :: "string \<Rightarrow> coordination \<Rightarrow> heartbeat_row option" where
  "get_heartbeat k s = tbl_get hb_worker_id k (co_heartbeats s)"

definition get_envelope :: "string \<Rightarrow> coordination \<Rightarrow> envelope_row option" where
  "get_envelope k s = tbl_get en_id k (co_envelopes s)"

definition get_lease :: "string \<Rightarrow> coordination \<Rightarrow> lease_row option" where
  "get_lease k s = tbl_get le_id k (co_leases s)"

definition get_completion :: "string \<Rightarrow> coordination \<Rightarrow> completion_row option" where
  "get_completion k s = tbl_get cm_id k (co_completions s)"

definition get_upload :: "string \<Rightarrow> coordination \<Rightarrow> upload_row option" where
  "get_upload k s = tbl_get up_upload_id k (co_uploads s)"

definition row_task :: "string \<times> string \<Rightarrow> coordination \<Rightarrow> task_row option" where
  "row_task k s = get_task (co_store s) (fst k) (snd k)"

definition upd_store :: "(store \<Rightarrow> store) \<Rightarrow> coordination \<Rightarrow> coordination" where
  "upd_store f s = s\<lparr>co_store := f (co_store s)\<rparr>"

definition upd_envelope :: "string \<Rightarrow> (envelope_row \<Rightarrow> envelope_row) \<Rightarrow> coordination \<Rightarrow> coordination" where
  "upd_envelope k f s = s\<lparr>co_envelopes := tbl_upd en_id k f (co_envelopes s)\<rparr>"

definition upd_lease :: "string \<Rightarrow> (lease_row \<Rightarrow> lease_row) \<Rightarrow> coordination \<Rightarrow> coordination" where
  "upd_lease k f s = s\<lparr>co_leases := tbl_upd le_id k f (co_leases s)\<rparr>"

definition upd_completion ::
  "string \<Rightarrow> (completion_row \<Rightarrow> completion_row) \<Rightarrow> coordination \<Rightarrow> coordination" where
  "upd_completion k f s = s\<lparr>co_completions := tbl_upd cm_id k f (co_completions s)\<rparr>"

text \<open>The placement whose current envelope is the given one, if any (\<open>session.scalar\<close>: the first).\<close>

definition upd_placement_of ::
  "string \<Rightarrow> (placement_row \<Rightarrow> placement_row) \<Rightarrow> coordination \<Rightarrow> coordination" where
  "upd_placement_of envelope_id f s =
     (case find (\<lambda>p. pm_current_envelope_id p = Some envelope_id) (co_placements s) of
        None \<Rightarrow> s
      | Some p \<Rightarrow> s\<lparr>co_placements := tbl_upd pm_id (pm_id p) f (co_placements s)\<rparr>)"

definition set_envelope_state :: "envelope_state \<Rightarrow> instant \<Rightarrow> envelope_row \<Rightarrow> envelope_row" where
  "set_envelope_state st now e = e\<lparr>en_state := st, en_updated_at := now\<rparr>"

definition set_placement :: "placement_state \<Rightarrow> instant \<Rightarrow> placement_row \<Rightarrow> placement_row" where
  "set_placement st now p =
     p\<lparr>pm_state := st, pm_revision := pm_revision p + 1, pm_updated_at := now\<rparr>"

definition requeue_placement :: "instant \<Rightarrow> placement_row \<Rightarrow> placement_row" where
  "requeue_placement now p =
     set_placement PQueued now (p\<lparr>pm_selected_worker_id := None, pm_current_envelope_id := None\<rparr>)"

definition move_task :: "string \<times> string \<Rightarrow> task_state \<Rightarrow> instant \<Rightarrow> coordination \<Rightarrow> coordination" where
  "move_task k st now s = upd_store (upd_task (fst k) (snd k) (set_task_status st now)) s"

text \<open>\<open>_event\<close>: a row of the shared outbox.\<close>

definition worker_event ::
  "string \<Rightarrow> string \<Rightarrow> string option \<Rightarrow> bool \<Rightarrow> coordination \<Rightarrow> coordination" where
  "worker_event aggregate_id event_type task_id security_relevant s =
     upd_store (\<lambda>st. st\<lparr>outbox := outbox st @
       [\<lparr>ev_id = None, ev_aggregate_id = aggregate_id, ev_task_id = task_id,
         ev_identity_id = None, ev_security_relevant = security_relevant,
         ev_event_type = event_type, ev_source = ''mishkan.worker_coordination''\<rparr>]\<rparr>) s"

end
