(* ===== verification/Leases.thy ===== *)
theory Leases
  imports WorkerModel
begin

section \<open>The coordination of remote work\<close>

text \<open>
  \<open>WorkerCoordinationRepository\<close> of \<open>workers/coordination.py\<close>: every operation that changes
  state, in the order of the file, as a function from the coordination state to a failure
  (the transaction is rolled back) or a new state with a result. The clock reading and the
  fresh identifiers an operation draws are its arguments; two readings of the clock within
  one operation are the same instant.
\<close>

subsection \<open>Guards\<close>

definition active_worker :: "string \<Rightarrow> coordination \<Rightarrow> worker_row result" where
  "active_worker worker_id s =
     (case get_worker worker_id s of
        None \<Rightarrow> worker_error ''worker identity is not active''
      | Some w \<Rightarrow> if wk_state w \<noteq> WActive then worker_error ''worker identity is not active''
                  else Inr w)"

definition require_resource_capacity :: "worker_heartbeat \<Rightarrow> resource_limits \<Rightarrow> unit result" where
  "require_resource_capacity ad limits =
     (if (case rl_memory_bytes limits of None \<Rightarrow> False
          | Some m \<Rightarrow> wr_available_memory_bytes (wh_resources ad) < m)
      then worker_error ''worker memory does not satisfy task bounds''
      else if (case rl_cpu_count limits of None \<Rightarrow> False
               | Some n \<Rightarrow> wr_logical_cpu_count (wh_resources ad) < n)
      then worker_error ''worker CPU does not satisfy task bounds''
      else Inr ())"

definition validate_envelope ::
  "task_envelope \<Rightarrow> run_row option \<Rightarrow> task_row option \<Rightarrow> plan_row option \<Rightarrow> task_row result" where
  "validate_envelope e run task plan =
     (case (run, task, plan) of
        (Some r, Some t, Some p) \<Rightarrow>
          (if rn_status r \<noteq> RRunning \<or> rn_cancellation_requested r
           then Inl (MishkanError RUN_INTERRUPTED ''run does not accept remote work'')
           else if tk_run_id t \<noteq> rn_id r \<or> tk_task_key t \<noteq> te_task_id e
           then worker_error ''remote task identity differs from accepted task''
           else if rn_context_revision r \<noteq> te_context_revision e
           then Inl (MishkanError REVISION_MISMATCH
             ''execution-context revision differs from the immutable envelope'')
           else if rn_repository_id r \<noteq> te_repository_id e \<or>
                   rn_repository_revision r \<noteq> te_repository_revision e
           then Inl (MishkanError REVISION_MISMATCH
             ''repository identity or revision differs from the immutable envelope'')
           else if pl_fingerprint p \<noteq> te_plan_fingerprint e
           then Inl (MishkanError REVISION_MISMATCH ''plan fingerprint changed'')
           else if tk_contract t \<noteq> te_task_contract e
           then Inl (MishkanError REVISION_MISMATCH ''task contract changed'')
           else Inr t)
      | _ \<Rightarrow> worker_error ''remote task authority is incomplete'')"

definition hex_digits :: string where
  "hex_digits = ''0123456789abcdef''"

definition require_digest :: "string \<Rightarrow> unit result" where
  "require_digest v =
     (if length v \<noteq> 64 \<or> \<not> list_all (\<lambda>c. c \<in> set hex_digits) v
      then worker_error ''worker lease credential digest is invalid'' else Inr ())"

definition require_token :: "lease_row \<Rightarrow> string \<Rightarrow> unit result" where
  "require_token lease token =
     ebind (require_digest token) (\<lambda>_.
       if le_token_digest lease \<noteq> token
       then worker_error ''worker lease credential is invalid'' else Inr ())"

definition active_lease ::
  "instant \<Rightarrow> string \<Rightarrow> string \<Rightarrow> string \<Rightarrow> coordination \<Rightarrow> (lease_row \<times> envelope_row) result" where
  "active_lease now worker_id lease_id token s =
     ebind (active_worker worker_id s) (\<lambda>_.
     case get_lease lease_id s of
       None \<Rightarrow> worker_error ''worker lease is invalid''
     | Some lease \<Rightarrow>
         if le_worker_id lease \<noteq> worker_id then worker_error ''worker lease is invalid''
         else ebind (require_token lease token) (\<lambda>_.
           if le_state lease \<noteq> LActive then worker_error ''worker lease is not active''
           else if le_expires_at lease \<le> now then worker_error ''worker lease has expired''
           else case get_envelope (le_envelope_id lease) s of
                  None \<Rightarrow> worker_error ''worker envelope is invalid''
                | Some e \<Rightarrow>
                    if en_worker_id e \<noteq> worker_id then worker_error ''worker envelope is invalid''
                    else Inr (lease, e)))"

definition stored_envelope :: "coordinator \<Rightarrow> envelope_row \<Rightarrow> task_envelope result" where
  "stored_envelope cc row =
     (if cc_fp_envelope cc (en_payload row) \<noteq> en_fingerprint row
      then worker_error ''immutable task envelope fingerprint drifted'' else Inr (en_payload row))"

definition stored_placement :: "coordinator \<Rightarrow> placement_row \<Rightarrow> placement_row result" where
  "stored_placement cc row =
     (if cc_fp_request cc (pm_request row) \<noteq> pm_request_fingerprint row
      then worker_error ''remote placement fingerprint drifted'' else Inr row)"

subsection \<open>Heartbeats\<close>

record heartbeat_record =
  hr_heartbeat :: worker_heartbeat
  hr_sequence :: int
  hr_fingerprint :: string
  hr_observed_at :: instant
  hr_expires_at :: instant
  hr_availability :: worker_availability

definition heartbeat_view :: "heartbeat_row \<Rightarrow> worker_state \<Rightarrow> instant \<Rightarrow> heartbeat_record" where
  "heartbeat_view row st now =
     \<lparr>hr_heartbeat = hb_payload row, hr_sequence = hb_sequence row,
      hr_fingerprint = hb_fingerprint row, hr_observed_at = hb_observed_at row,
      hr_expires_at = hb_expires_at row,
      hr_availability = (if st = WRevoked then REVOKED
        else if hb_expires_at row \<le> now then STALE else ONLINE)\<rparr>"

definition active_lease_ids :: "string \<Rightarrow> coordination \<Rightarrow> string set" where
  "active_lease_ids worker_id s =
     set (map le_id (filter (\<lambda>l. le_worker_id l = worker_id \<and> le_state l = LActive) (co_leases s)))"

definition write_heartbeat ::
  "coordinator \<Rightarrow> instant \<Rightarrow> worker_heartbeat \<Rightarrow> coordination \<Rightarrow> coordination" where
  "write_heartbeat cc now hb s =
     (let row = \<lparr>hb_worker_id = wh_worker_id hb, hb_sequence = wh_sequence hb,
            hb_fingerprint = cc_fp_heartbeat cc hb, hb_payload = hb, hb_observed_at = now,
            hb_expires_at = now + seconds (cc_heartbeat_timeout_seconds cc)\<rparr>
      in worker_event (wh_worker_id hb) ''worker.heartbeat_recorded'' None False
           (s\<lparr>co_heartbeats :=
             (case get_heartbeat (wh_worker_id hb) s of
                None \<Rightarrow> co_heartbeats s @ [row]
              | Some _ \<Rightarrow> tbl_upd hb_worker_id (wh_worker_id hb) (\<lambda>_. row) (co_heartbeats s))\<rparr>))"

definition record_heartbeat ::
  "coordinator \<Rightarrow> instant \<Rightarrow> worker_heartbeat \<Rightarrow> coordination
   \<Rightarrow> (coordination \<times> heartbeat_record) result" where
  "record_heartbeat cc now hb s =
     ebind (active_worker (wh_worker_id hb) s) (\<lambda>w.
       if cc_max_worker_concurrency cc < wr_max_concurrency (wh_resources hb)
       then worker_error ''worker advertised concurrency exceeds the configured bound''
       else if \<not> list_all (\<lambda>i. i \<in> active_lease_ids (wh_worker_id hb) s) (wh_active_lease_ids hb)
       then worker_error ''worker heartbeat advertises an unknown active lease''
       else
         let s' = write_heartbeat cc now hb s;
             accepted = (case get_heartbeat (wh_worker_id hb) s' of
                None \<Rightarrow> Inl AssertionError
              | Some row \<Rightarrow> Inr (s', heartbeat_view row (wk_state w) now))
         in case get_heartbeat (wh_worker_id hb) s of
              None \<Rightarrow> accepted
            | Some row \<Rightarrow>
                if wh_sequence hb \<le> hb_sequence row
                then (if wh_sequence hb = hb_sequence row \<and>
                         cc_fp_heartbeat cc hb = hb_fingerprint row
                      then Inr (s, heartbeat_view row (wk_state w) now)
                      else Inl (MishkanError REVISION_MISMATCH
                        ''worker heartbeat sequence is stale or reused''))
                else accepted)"

definition heartbeat :: "instant \<Rightarrow> string \<Rightarrow> coordination \<Rightarrow> heartbeat_record result" where
  "heartbeat now worker_id s =
     (case (get_worker worker_id s, get_heartbeat worker_id s) of
        (Some w, Some row) \<Rightarrow> Inr (heartbeat_view row (wk_state w) now)
      | _ \<Rightarrow> worker_error ''worker heartbeat does not exist'')"

record worker_status =
  ws_identity :: worker_row
  ws_availability :: worker_availability
  ws_heartbeat :: "heartbeat_record option"

definition status_view :: "worker_row \<Rightarrow> heartbeat_row option \<Rightarrow> instant \<Rightarrow> worker_status" where
  "status_view w hb now =
     (let view = map_option (\<lambda>row. heartbeat_view row (wk_state w) now) hb
      in \<lparr>ws_identity = w,
          ws_availability = (if wk_state w = WRevoked then REVOKED
            else case view of None \<Rightarrow> NEVER_SEEN | Some v \<Rightarrow> hr_availability v),
          ws_heartbeat = view\<rparr>)"

definition worker_status_of :: "instant \<Rightarrow> string \<Rightarrow> coordination \<Rightarrow> worker_status result" where
  "worker_status_of now worker_id s =
     (case get_worker worker_id s of
        None \<Rightarrow> worker_error ''worker identity does not exist''
      | Some w \<Rightarrow> Inr (status_view w (get_heartbeat worker_id s) now))"

definition worker_statuses ::
  "instant \<Rightarrow> int \<Rightarrow> int \<Rightarrow> coordination \<Rightarrow> worker_status list result" where
  "worker_statuses now offset limit s =
     (if offset < 0 \<or> limit < 1 \<or> 10000 < limit
      then Inl (MishkanError OUTPUT_CONTRACT ''worker status bounds are invalid'')
      else Inr (map (\<lambda>w. status_view w (get_heartbeat (wk_id w) s) now)
        (take (nat limit) (drop (nat offset)
          (sort_key wk_created_at (sort_key wk_id (co_workers s)))))))"

definition worker_fits ::
  "capability_requirement list \<Rightarrow> resource_limits \<Rightarrow> heartbeat_record \<Rightarrow> bool" where
  "worker_fits requirements limits v \<longleftrightarrow>
     hr_availability v = ONLINE \<and>
     wr_active_tasks (wh_resources (hr_heartbeat v)) < wr_max_concurrency (wh_resources (hr_heartbeat v)) \<and>
     require_resource_capacity (hr_heartbeat v) limits = Inr () \<and>
     list_all (\<lambda>q. satisfied_by q (wh_capabilities (hr_heartbeat v))) requirements"

text \<open>
  The compatible workers by load, then by identifier. The rows come newest first, which the
  final order hides; the load is a quotient of two bounded integers, compared exactly.
\<close>

definition compatible_workers ::
  "instant \<Rightarrow> capability_requirement list \<Rightarrow> resource_limits \<Rightarrow> coordination
   \<Rightarrow> heartbeat_record list" where
  "compatible_workers now requirements limits s =
     (let load = (\<lambda>v. of_int (wr_active_tasks (wh_resources (hr_heartbeat v)))
                    / (of_int (wr_max_concurrency (wh_resources (hr_heartbeat v))) :: rat));
          rows = filter (\<lambda>row. case get_worker (hb_worker_id row) s of
                   None \<Rightarrow> False | Some w \<Rightarrow> wk_state w = WActive) (co_heartbeats s)
      in sort_key load (sort_key (\<lambda>v. wh_worker_id (hr_heartbeat v))
           (filter (worker_fits requirements limits)
             (map (\<lambda>row. heartbeat_view row WActive now) rows))))"

subsection \<open>Placements\<close>

definition task_accepts_placement :: "placement_request \<Rightarrow> coordination \<Rightarrow> task_row result" where
  "task_accepts_placement req s =
     (case (get_run (co_store s) (pr_run_id req), get_task (co_store s) (pr_run_id req) (pr_task_id req)) of
        (Some run, Some task) \<Rightarrow>
          (if rn_status run \<noteq> RRunning \<or> rn_cancellation_requested run
           then Inl (MishkanError RUN_INTERRUPTED ''run does not accept remote work'')
           else if tk_status task \<noteq> TEligible
           then Inl (MishkanError REVISION_MISMATCH ''task is not eligible for remote placement'')
           else Inr task)
      | _ \<Rightarrow> worker_error ''remote placement task does not exist'')"

definition new_placement :: "coordinator \<Rightarrow> instant \<Rightarrow> placement_request \<Rightarrow> placement_row" where
  "new_placement cc now req =
     \<lparr>pm_id = pr_id req, pm_run_id = pr_run_id req, pm_task_row_id = (pr_run_id req, pr_task_id req),
      pm_task_key = pr_task_id req, pm_state = PQueued,
      pm_preferred_worker_id = pr_preferred_worker_id req, pm_selected_worker_id = None,
      pm_current_envelope_id = None, pm_request_fingerprint = cc_fp_request cc req,
      pm_request = req, pm_revision = 1, pm_created_at = pr_created_at req, pm_updated_at = now\<rparr>"

definition queue_placement ::
  "coordinator \<Rightarrow> instant \<Rightarrow> placement_request \<Rightarrow> coordination
   \<Rightarrow> (coordination \<times> placement_row) result" where
  "queue_placement cc now req s =
     (if pr_deadline req \<le> now then worker_error ''remote placement deadline has expired''
      else ebind (task_accepts_placement req s) (\<lambda>task.
      ebind (case pr_preferred_worker_id req of None \<Rightarrow> Inr ()
             | Some w \<Rightarrow> ebind (active_worker w s) (\<lambda>_. Inr ())) (\<lambda>_.
      case tbl_get pm_task_row_id (task_key task) (co_placements s) of
        Some existing \<Rightarrow>
          (if pm_request_fingerprint existing \<noteq> cc_fp_request cc req
           then Inl (MishkanError DUPLICATE_RESULT
             ''remote task already has a different placement request'')
           else ebind (stored_placement cc existing) (\<lambda>p. Inr (s, p)))
      | None \<Rightarrow>
          (let row = new_placement cc now req
           in ebind (tbl_insert pm_id row (co_placements s)) (\<lambda>rows.
              ebind (stored_placement cc row) (\<lambda>p.
                Inr (worker_event (pr_run_id req) ''worker.task_placement_queued''
                       (Some (pr_task_id req)) True (s\<lparr>co_placements := rows\<rparr>), p)))))))"


subsection \<open>Claims and leases\<close>

text \<open>Rows are inserted under their primary key and every unique constraint of their table.\<close>

definition insert_envelope :: "envelope_row \<Rightarrow> coordination \<Rightarrow> coordination result" where
  "insert_envelope row s =
     (if en_id row \<in> en_id ` set (co_envelopes s) \<or>
         en_fingerprint row \<in> en_fingerprint ` set (co_envelopes s) \<or>
         (en_task_row_id row, en_task_attempt row) \<in>
           (\<lambda>e. (en_task_row_id e, en_task_attempt e)) ` set (co_envelopes s)
      then Inl IntegrityError
      else Inr (s\<lparr>co_envelopes := co_envelopes s @ [row]\<rparr>))"

definition insert_lease :: "lease_row \<Rightarrow> coordination \<Rightarrow> coordination result" where
  "insert_lease row s =
     (if le_id row \<in> le_id ` set (co_leases s) \<or>
         le_envelope_id row \<in> le_envelope_id ` set (co_leases s) \<or>
         le_token_digest row \<in> le_token_digest ` set (co_leases s) \<or>
         (le_claim_id row \<noteq> None \<and> le_claim_id row \<in> le_claim_id ` set (co_leases s))
      then Inl IntegrityError
      else Inr (s\<lparr>co_leases := co_leases s @ [row]\<rparr>))"

definition envelope_row_of :: "coordinator \<Rightarrow> instant \<Rightarrow> task_envelope \<Rightarrow> envelope_row" where
  "envelope_row_of cc now e =
     \<lparr>en_id = te_id e, en_run_id = te_run_id e, en_task_row_id = te_task_row_id e,
      en_task_key = te_task_id e, en_task_attempt = te_task_attempt e,
      en_worker_id = te_worker_id e, en_state = ELeased, en_fingerprint = cc_fp_envelope cc e,
      en_stateful_effects = te_stateful_effects e, en_payload = e, en_deadline = te_deadline e,
      en_updated_at = now\<rparr>"

definition lease_row_of ::
  "coordinator \<Rightarrow> instant \<Rightarrow> string \<Rightarrow> string option \<Rightarrow> string \<Rightarrow> task_envelope \<Rightarrow> lease_row" where
  "lease_row_of cc now lease_id claim_id token e =
     \<lparr>le_id = lease_id, le_envelope_id = te_id e, le_worker_id = te_worker_id e,
      le_claim_id = claim_id, le_token_digest = token, le_state = LActive, le_revision = 1,
      le_issued_at = now,
      le_expires_at = min (te_deadline e) (now + seconds (cc_lease_seconds cc)),
      le_last_renewed_at = now, le_completed_at = None\<rparr>"

text \<open>The envelope and the lease are stored, and the task becomes leased for its next attempt.\<close>

definition lease_task :: "task_envelope \<Rightarrow> instant \<Rightarrow> coordination \<Rightarrow> coordination" where
  "lease_task e now s =
     upd_store (upd_task (fst (te_task_row_id e)) (snd (te_task_row_id e))
       (\<lambda>t. set_task_status TLeased now (t\<lparr>tk_attempt_count := te_task_attempt e\<rparr>))) s"

definition grant_lease ::
  "coordinator \<Rightarrow> instant \<Rightarrow> string \<Rightarrow> string option \<Rightarrow> string \<Rightarrow> task_envelope \<Rightarrow> coordination
   \<Rightarrow> (coordination \<times> lease_row) result" where
  "grant_lease cc now lease_id claim_id token e s =
     (let lease = lease_row_of cc now lease_id claim_id token e
      in ebind (insert_envelope (envelope_row_of cc now e) s) (\<lambda>s1.
         ebind (insert_lease lease s1) (\<lambda>s2. Inr (lease_task e now s2, lease))))"

definition live_heartbeat :: "instant \<Rightarrow> string \<Rightarrow> coordination \<Rightarrow> worker_heartbeat result" where
  "live_heartbeat now worker_id s =
     (case get_heartbeat worker_id s of
        None \<Rightarrow> worker_error ''worker heartbeat is unavailable or stale''
      | Some row \<Rightarrow> if hb_expires_at row \<le> now
                    then worker_error ''worker heartbeat is unavailable or stale''
                    else Inr (hb_payload row))"

definition active_count :: "string \<Rightarrow> coordination \<Rightarrow> int" where
  "active_count worker_id s =
     int (length (filter (\<lambda>l. le_worker_id l = worker_id \<and> le_state l = LActive) (co_leases s)))"

definition lease_capacity :: "coordinator \<Rightarrow> worker_heartbeat \<Rightarrow> int" where
  "lease_capacity cc ad = min (wr_max_concurrency (wh_resources ad)) (cc_max_worker_concurrency cc)"

definition queued_for :: "string \<Rightarrow> coordination \<Rightarrow> placement_row list" where
  "queued_for worker_id s =
     sort_key pm_created_at (sort_key pm_id
       (filter (\<lambda>p. pm_state p = PQueued \<and> pm_preferred_worker_id p \<in> {None, Some worker_id})
         (co_placements s)))"

text \<open>
  The loop over the queued placements: the ones whose deadline has passed are cancelled on
  the way, up to the first that the worker can take.
\<close>

fun scan_placements ::
  "instant \<Rightarrow> worker_heartbeat \<Rightarrow> placement_row list \<Rightarrow> string list \<times> placement_row option" where
  "scan_placements now ad [] = ([], None)"
| "scan_placements now ad (p # ps) =
     (if pr_deadline (pm_request p) \<le> now
      then (let (late, sel) = scan_placements now ad ps in (pm_id p # late, sel))
      else if \<not> list_all (\<lambda>q. satisfied_by q (wh_capabilities ad)) (pr_requirements (pm_request p))
      then scan_placements now ad ps
      else if require_resource_capacity ad (pr_resources (pm_request p)) \<noteq> Inr ()
      then scan_placements now ad ps
      else ([], Some p))"

definition cancel_placements :: "instant \<Rightarrow> string list \<Rightarrow> coordination \<Rightarrow> coordination" where
  "cancel_placements now ids s =
     s\<lparr>co_placements := tbl_map_where (\<lambda>p. pm_id p \<in> set ids) (set_placement PCancelled now)
         (co_placements s)\<rparr>"

definition envelope_for ::
  "instant \<Rightarrow> string \<Rightarrow> string \<Rightarrow> placement_row \<Rightarrow> run_row \<Rightarrow> task_row \<Rightarrow> plan_row \<Rightarrow> task_envelope" where
  "envelope_for now worker_id envelope_id p run task plan =
     (let req = pm_request p
      in \<lparr>te_id = envelope_id, te_run_id = rn_id run, te_task_row_id = task_key task,
          te_task_id = tk_task_key task, te_task_attempt = tk_attempt_count task + 1,
          te_worker_id = worker_id, te_context_revision = rn_context_revision run,
          te_repository_id = rn_repository_id run,
          te_repository_revision = rn_repository_revision run,
          te_plan_fingerprint = pl_fingerprint plan, te_task_contract = tk_contract task,
          te_role_fingerprint = pr_role_fingerprint req, te_inputs = pr_inputs req,
          te_policy_fingerprint = pr_policy_fingerprint req, te_path_scopes = pr_path_scopes req,
          te_requirements = pr_requirements req, te_resources = pr_resources req,
          te_deadline = min (pr_deadline req) (now + seconds (rl_timeout_seconds (pr_resources req))),
          te_stateful_effects = pr_stateful_effects req\<rparr>)"

record claim_request =
  cr_id :: string
  cr_token :: string

text \<open>A claim that was answered before is answered with the same envelope and lease.\<close>

definition repeat_claim ::
  "coordinator \<Rightarrow> string \<Rightarrow> claim_request \<Rightarrow> lease_row \<Rightarrow> coordination
   \<Rightarrow> (coordination \<times> (task_envelope \<times> lease_row) option) result" where
  "repeat_claim cc worker_id req previous s =
     ebind (require_token previous (cr_token req)) (\<lambda>_.
       if le_worker_id previous \<noteq> worker_id
       then worker_error ''worker claim belongs to another identity''
       else case get_envelope (le_envelope_id previous) s of
              None \<Rightarrow> worker_error ''claimed task envelope is missing''
            | Some row \<Rightarrow> ebind (stored_envelope cc row) (\<lambda>e. Inr (s, Some (e, previous))))"

definition claim_placement ::
  "coordinator \<Rightarrow> instant \<Rightarrow> string \<Rightarrow> claim_request \<Rightarrow> string \<Rightarrow> string \<Rightarrow> placement_row
   \<Rightarrow> coordination \<Rightarrow> (coordination \<times> (task_envelope \<times> lease_row) option) result" where
  "claim_placement cc now worker_id req envelope_id lease_id p s =
     (case (get_run (co_store s) (pm_run_id p), row_task (pm_task_row_id p) s,
            tbl_get pl_run_id (pm_run_id p) (plans (co_store s))) of
        (Some run, Some task, Some plan) \<Rightarrow>
          (let e = envelope_for now worker_id envelope_id p run task plan
           in if \<not> identities_and_context_are_complete e
              then Inl (ValueError ''repository identity and revision must be supplied together'')
              else ebind (validate_envelope e (Some run) (Some task) (Some plan)) (\<lambda>_.
              if tk_status task \<noteq> TEligible
              then Inl (MishkanError REVISION_MISMATCH ''placed task is no longer eligible'')
              else ebind (grant_lease cc now lease_id (Some (cr_id req)) (cr_token req) e s)
                (\<lambda>(s1, lease).
                  Inr (worker_event (rn_id run) ''worker.task_claimed'' (Some (tk_task_key task)) True
                         (s1\<lparr>co_placements := tbl_upd pm_id (pm_id p)
                            (\<lambda>x. set_placement PLeased now (x\<lparr>pm_selected_worker_id := Some worker_id,
                               pm_current_envelope_id := Some (te_id e)\<rparr>)) (co_placements s1)\<rparr>),
                       Some (e, lease)))))
      | _ \<Rightarrow> worker_error ''remote placement authority is incomplete'')"

definition claim_next ::
  "coordinator \<Rightarrow> instant \<Rightarrow> string \<Rightarrow> claim_request \<Rightarrow> string \<Rightarrow> string \<Rightarrow> coordination
   \<Rightarrow> (coordination \<times> (task_envelope \<times> lease_row) option) result" where
  "claim_next cc now worker_id req envelope_id lease_id s =
     ebind (require_digest (cr_token req)) (\<lambda>_.
     ebind (active_worker worker_id s) (\<lambda>_.
     case tbl_get le_claim_id (Some (cr_id req)) (co_leases s) of
       Some previous \<Rightarrow> repeat_claim cc worker_id req previous s
     | None \<Rightarrow>
         ebind (live_heartbeat now worker_id s) (\<lambda>ad.
           if lease_capacity cc ad \<le> active_count worker_id s then Inr (s, None)
           else case scan_placements now ad (queued_for worker_id s) of
                  (late, None) \<Rightarrow> Inr (cancel_placements now late s, None)
                | (late, Some p) \<Rightarrow>
                    claim_placement cc now worker_id req envelope_id lease_id p
                      (cancel_placements now late s))))"

text \<open>\<open>issue_lease\<close>: every unique constraint that is violated becomes one refusal.\<close>

definition duplicate_on_integrity :: "'a result \<Rightarrow> 'a result" where
  "duplicate_on_integrity r =
     (if (case r of Inl IntegrityError \<Rightarrow> True | _ \<Rightarrow> False)
      then Inl (MishkanError DUPLICATE_RESULT
        ''remote task envelope, lease, or token identity already exists'') else r)"

definition check_worker_for ::
  "coordinator \<Rightarrow> instant \<Rightarrow> task_envelope \<Rightarrow> coordination \<Rightarrow> unit result" where
  "check_worker_for cc now e s =
     ebind (active_worker (te_worker_id e) s) (\<lambda>_.
     ebind (live_heartbeat now (te_worker_id e) s) (\<lambda>ad.
       if wr_max_concurrency (wh_resources ad) \<le> wr_active_tasks (wh_resources ad)
       then worker_error ''worker has no advertised task capacity''
       else if lease_capacity cc ad \<le> active_count (te_worker_id e) s
       then worker_error ''worker has reached its authoritative lease capacity''
       else if \<not> list_all (\<lambda>q. satisfied_by q (wh_capabilities ad)) (te_requirements e)
       then worker_error ''worker does not satisfy the immutable task requirements''
       else require_resource_capacity ad (te_resources e)))"

definition issue_lease ::
  "coordinator \<Rightarrow> instant \<Rightarrow> task_envelope \<Rightarrow> string \<Rightarrow> string \<Rightarrow> coordination
   \<Rightarrow> (coordination \<times> lease_row) result" where
  "issue_lease cc now e0 lease_id token s =
     ebind (require_digest token) (\<lambda>_.
     let e = e0\<lparr>te_deadline := min (te_deadline e0)
                 (now + seconds (rl_timeout_seconds (te_resources e0)))\<rparr>
     in if te_deadline e \<le> now then worker_error ''remote task deadline has expired''
        else ebind (check_worker_for cc now e s) (\<lambda>_.
        ebind (validate_envelope e (get_run (co_store s) (te_run_id e)) (row_task (te_task_row_id e) s)
                 (tbl_get pl_run_id (te_run_id e) (plans (co_store s)))) (\<lambda>task.
          if tk_status task \<noteq> TEligible
          then Inl (MishkanError REVISION_MISMATCH ''task is not eligible for a remote lease'')
          else if te_task_attempt e \<noteq> tk_attempt_count task + 1
          then Inl (MishkanError REVISION_MISMATCH
            ''remote task attempt is not the next accepted attempt'')
          else ebind (duplicate_on_integrity (grant_lease cc now lease_id None token e s))
            (\<lambda>(s1, lease).
              Inr (worker_event (te_run_id e) ''worker.task_leased'' (Some (te_task_id e)) True s1,
                   lease)))))"

subsection \<open>The life of a lease\<close>

definition begin_execution ::
  "instant \<Rightarrow> string \<Rightarrow> string \<Rightarrow> string \<Rightarrow> coordination \<Rightarrow> (coordination \<times> lease_row) result" where
  "begin_execution now worker_id lease_id token s =
     ebind (active_lease now worker_id lease_id token s) (\<lambda>(lease, e).
       if en_state e = EExecuting then Inr (s, lease)
       else if en_state e \<noteq> ELeased then worker_error ''remote task envelope cannot start''
       else case row_task (en_task_row_id e) s of
              None \<Rightarrow> worker_error ''leased task state is inconsistent''
            | Some task \<Rightarrow>
                if tk_status task \<noteq> TLeased then worker_error ''leased task state is inconsistent''
                else Inr (worker_event (en_run_id e) ''worker.task_execution_started''
                            (Some (en_task_key e)) True
                            (move_task (en_task_row_id e) TExecuting now
                              (upd_envelope (en_id e) (set_envelope_state EExecuting now) s)),
                          lease))"

definition renew_lease ::
  "coordinator \<Rightarrow> instant \<Rightarrow> string \<Rightarrow> string \<Rightarrow> string \<Rightarrow> int \<Rightarrow> coordination
   \<Rightarrow> (coordination \<times> lease_row) result" where
  "renew_lease cc now worker_id lease_id token expected_revision s =
     ebind (active_lease now worker_id lease_id token s) (\<lambda>(lease, e).
       if le_revision lease \<noteq> expected_revision
       then Inl (MishkanError REVISION_MISMATCH ''worker lease revision changed'')
       else let renewed_until = min (en_deadline e) (now + seconds (cc_lease_seconds cc))
            in if renewed_until \<le> now then worker_error ''remote task deadline has expired''
               else let renewed = lease\<lparr>le_revision := le_revision lease + 1,
                          le_expires_at := renewed_until, le_last_renewed_at := now\<rparr>
                    in Inr (worker_event (en_run_id e) ''worker.lease_renewed'' (Some (en_task_key e))
                              False (upd_lease lease_id (\<lambda>_. renewed) s),
                            renewed))"


subsection \<open>Completions\<close>

definition completion_stale_reason ::
  "instant \<Rightarrow> task_envelope \<Rightarrow> lease_row \<Rightarrow> completion_submission \<Rightarrow> string option" where
  "completion_stale_reason now e lease sub =
     (if le_state lease \<noteq> LActive then Some ''lease is not active''
      else if le_expires_at lease \<le> now then Some ''lease expired before completion delivery''
      else if su_context_revision sub \<noteq> te_context_revision e
      then Some ''execution-context revision differs from the immutable envelope''
      else if su_repository_revision sub \<noteq> te_repository_revision e
      then Some ''repository revision differs from the immutable envelope''
      else if te_stateful_effects e \<and> su_effect_report sub = NotApplicable
      then Some ''stateful task omitted effect-settlement evidence''
      else None)"

definition submitted_artifacts :: "completion_submission \<Rightarrow> string list" where
  "submitted_artifacts sub =
     su_artifact_ids sub @ su_effect_evidence sub @
     (case su_unified_patch sub of None \<Rightarrow> [] | Some a \<Rightarrow> [a])"

definition artifact_available :: "string \<Rightarrow> coordination \<Rightarrow> bool" where
  "artifact_available a s \<longleftrightarrow>
     (case map_of (co_artifacts s) a of None \<Rightarrow> False | Some l \<Rightarrow> l = ''available'')"

definition artifact_of_lease :: "lease_row \<Rightarrow> coordination \<Rightarrow> string \<Rightarrow> bool" where
  "artifact_of_lease lease s a \<longleftrightarrow>
     list_ex (\<lambda>u. up_artifact_id u = Some a \<and> up_lease_id u = le_id lease \<and>
         up_worker_id u = le_worker_id lease \<and> up_state u = Committed) (co_uploads s) \<and>
     artifact_available a s"

definition validate_completion_artifacts ::
  "lease_row \<Rightarrow> completion_submission \<Rightarrow> coordination \<Rightarrow> unit result" where
  "validate_completion_artifacts lease sub s =
     (if list_all (artifact_of_lease lease s) (submitted_artifacts sub) then Inr ()
      else Inl (MishkanError ARTIFACT
        ''worker completion references an artifact outside its active lease''))"

definition completion_row_of ::
  "coordinator \<Rightarrow> instant \<Rightarrow> string \<Rightarrow> completion_submission \<Rightarrow> completion_state \<Rightarrow> string option
   \<Rightarrow> completion_row" where
  "completion_row_of cc now worker_id sub st reason =
     \<lparr>cm_id = su_id sub, cm_envelope_id = su_envelope_id sub, cm_lease_id = su_lease_id sub,
      cm_worker_id = worker_id, cm_fingerprint = cc_fp_submission cc sub, cm_state = st,
      cm_payload = sub, cm_received_at = now, cm_accepted_at = None,
      cm_decided_at = (if st \<noteq> CDelivered then Some now else None), cm_decision_reason = reason\<rparr>"

definition delivery_state :: "string \<Rightarrow> string option \<Rightarrow> coordination \<Rightarrow> completion_state" where
  "delivery_state envelope_id reason s =
     (if list_ex (\<lambda>c. cm_envelope_id c = envelope_id) (co_completions s) then CDuplicate
      else if reason \<noteq> None then CStale else CDelivered)"

definition complete_lease ::
  "instant \<Rightarrow> lease_row \<Rightarrow> envelope_row \<Rightarrow> coordination \<Rightarrow> coordination result" where
  "complete_lease now lease e s =
     (case row_task (en_task_row_id e) s of
        None \<Rightarrow> worker_error ''remote task state is inconsistent''
      | Some task \<Rightarrow>
          if tk_status task \<notin> {TLeased, TExecuting}
          then worker_error ''remote task state is inconsistent''
          else Inr (move_task (en_task_row_id e) TValidating now
                 (upd_envelope (en_id e) (set_envelope_state EValidating now)
                   (upd_lease (le_id lease)
                     (\<lambda>l. l\<lparr>le_state := LCompleted, le_completed_at := Some now\<rparr>) s))))"

fun delivery_event :: "completion_state \<Rightarrow> string" where
  "delivery_event CDelivered = ''worker.completion_delivered''"
| "delivery_event CAccepted = ''worker.completion_accepted''"
| "delivery_event CRejected = ''worker.completion_rejected''"
| "delivery_event CDuplicate = ''worker.completion_duplicate''"
| "delivery_event CStale = ''worker.completion_stale''"

definition deliver_new ::
  "coordinator \<Rightarrow> instant \<Rightarrow> string \<Rightarrow> completion_submission \<Rightarrow> lease_row \<Rightarrow> envelope_row
   \<Rightarrow> task_envelope \<Rightarrow> coordination \<Rightarrow> (coordination \<times> completion_row) result" where
  "deliver_new cc now worker_id sub lease e immutable s =
     (let reason = completion_stale_reason now immutable lease sub;
          st = delivery_state (en_id e) reason s;
          row = completion_row_of cc now worker_id sub st reason;
          s1 = s\<lparr>co_completions := co_completions s @ [row]\<rparr>
      in ebind (if st = CDelivered then complete_lease now lease e s1 else Inr s1) (\<lambda>s2.
           Inr (worker_event (en_run_id e) (delivery_event st) (Some (en_task_key e))
                  (st \<noteq> CDelivered) s2, row)))"

definition deliver_completion ::
  "coordinator \<Rightarrow> instant \<Rightarrow> string \<Rightarrow> completion_submission \<Rightarrow> string \<Rightarrow> coordination
   \<Rightarrow> (coordination \<times> completion_row) result" where
  "deliver_completion cc now worker_id sub token s =
     (if cc_max_completion_bytes cc < cc_size cc sub
      then worker_error ''worker completion exceeds configured bounds''
      else case get_completion (su_id sub) s of
        Some existing \<Rightarrow>
          (if cm_fingerprint existing \<noteq> cc_fp_submission cc sub
           then Inl (MishkanError DUPLICATE_RESULT
             ''worker completion identity was reused for different content'')
           else Inr (s, existing))
      | None \<Rightarrow>
          (case (get_envelope (su_envelope_id sub) s, get_lease (su_lease_id sub) s) of
             (Some e, Some lease) \<Rightarrow>
               (if en_worker_id e \<noteq> worker_id \<or> le_worker_id lease \<noteq> worker_id \<or>
                   le_envelope_id lease \<noteq> en_id e
                then worker_error ''completion authority does not match worker''
                else ebind (require_token lease token) (\<lambda>_.
                     ebind (stored_envelope cc e) (\<lambda>immutable.
                     ebind (validate_completion_artifacts lease sub s) (\<lambda>_.
                       deliver_new cc now worker_id sub lease e immutable s))))
           | _ \<Rightarrow> worker_error ''completion lease or envelope does not exist''))"

definition check_completion ::
  "coordinator \<Rightarrow> completion_row \<Rightarrow> run_row \<Rightarrow> task_row \<Rightarrow> initialization_result \<Rightarrow> review_decision
   \<Rightarrow> store \<Rightarrow> unit result" where
  "check_completion cc c run task res review s =
     (if cm_state c \<noteq> CDelivered
      then worker_error ''worker completion is not eligible for acceptance''
      else if su_result (cm_payload c) \<noteq> cc_dump_result cc res
      then Inl (MishkanError OUTPUT_CONTRACT
        ''validated result differs from the delivered worker result'')
      else if ir_task_id res \<noteq> tk_task_key task \<or> rd_task_id review \<noteq> tk_task_key task
      then Inl (MishkanError OUTPUT_CONTRACT ''completion identifies another task'')
      else if rd_verdict review \<noteq> Accepted
      then Inl (MishkanError OUTPUT_CONTRACT ''rejected review cannot be accepted'')
      else if rn_cancellation_requested run
      then Inl (MishkanError RUN_INTERRUPTED ''run cancellation blocks acceptance'')
      else if ir_repository_revision res \<noteq> rn_repository_revision run
      then Inl (MishkanError REVISION_MISMATCH
        ''completion repository revision differs from the accepted run'')
      else if rd_schema_version review = Review_1_1 \<and>
              rd_producer_identity review \<noteq> Some (pt_assigned_role (tk_contract task))
      then Inl (MishkanError ROLE_CONFLICT
        ''review producer identity differs from the accepted task owner'')
      else if \<not> dependencies_accepted s (rn_id run) task
      then Inl (MishkanError RUN_INTERRUPTED ''task dependencies are not durably accepted'')
      else if tbl_get result_key (rn_id run, tk_task_key task) (results s) \<noteq> None
      then Inl (MishkanError DUPLICATE_RESULT
        ''task already has an accepted result outside this delivery'')
      else Inr ())"

text \<open>The result and acceptance rows of the run repository, and the acceptance of the delivery.\<close>

definition insert_evidence ::
  "instant \<Rightarrow> string \<Rightarrow> completion_row \<Rightarrow> envelope_row \<Rightarrow> task_row \<Rightarrow> initialization_result
   \<Rightarrow> review_decision \<Rightarrow> coordination \<Rightarrow> coordination result" where
  "insert_evidence now result_id c e task res review s =
     (let st = co_store s; run_id = tk_run_id task; k = tk_task_key task
      in ebind (tbl_insert rr_id \<lparr>rr_id = result_id, rr_run_id = run_id, rr_task_key = k,
                  rr_payload = res, rr_accepted_at = now\<rparr> (results st)) (\<lambda>result_rows.
         ebind (tbl_insert acceptance_key \<lparr>ac_run_id = run_id, ac_task_key = k,
                  ac_result_id = result_id, ac_review = review, ac_accepted_at = now\<rparr>
                  (acceptances st)) (\<lambda>acceptance_rows.
         if cm_id c \<in> ta_completion_id ` set (co_task_acceptances s) then Inl IntegrityError
         else Inr (s\<lparr>co_store := st\<lparr>results := result_rows, acceptances := acceptance_rows\<rparr>,
                co_task_acceptances := co_task_acceptances s @
                  [\<lparr>ta_task_row_id = task_key task, ta_completion_id = cm_id c,
                    ta_envelope_id = en_id e, ta_accepted_at = now\<rparr>]\<rparr>))))"

definition finish_run :: "instant \<Rightarrow> string \<Rightarrow> coordination \<Rightarrow> coordination" where
  "finish_run now run_id s =
     (if list_all (\<lambda>t. tk_status t = TAccepted) (run_tasks (co_store s) run_id)
      then worker_event run_id ''run.completed'' None True
             (upd_store (upd_run run_id (set_run_status RCompleted now)) s)
      else s)"

definition mark_accepted :: "instant \<Rightarrow> string \<Rightarrow> string \<Rightarrow> coordination \<Rightarrow> coordination" where
  "mark_accepted now completion_id envelope_id s =
     upd_placement_of envelope_id (set_placement PCompleted now)
       (upd_envelope envelope_id (set_envelope_state ECompleted now)
         (upd_completion completion_id
           (\<lambda>c. c\<lparr>cm_state := CAccepted, cm_accepted_at := Some now, cm_decided_at := Some now\<rparr>) s))"

definition accept_delivered ::
  "coordinator \<Rightarrow> instant \<Rightarrow> string \<Rightarrow> completion_row \<Rightarrow> envelope_row \<Rightarrow> run_row \<Rightarrow> task_row
   \<Rightarrow> initialization_result \<Rightarrow> review_decision \<Rightarrow> coordination \<Rightarrow> coordination result" where
  "accept_delivered cc now result_id c e run task res review s =
     ebind (check_completion cc c run task res review (co_store s)) (\<lambda>_.
     ebind (insert_evidence now result_id c e task res review s) (\<lambda>s1.
       Inr (finish_run now (rn_id run)
         (upd_store (release_dependents (rn_id run) now)
           (worker_event (rn_id run) ''worker.completion_accepted'' (Some (tk_task_key task)) True
             (move_task (task_key task) TAccepted now (mark_accepted now (cm_id c) (en_id e) s1)))))))"

definition accept_completion ::
  "coordinator \<Rightarrow> instant \<Rightarrow> string \<Rightarrow> string \<Rightarrow> initialization_result \<Rightarrow> review_decision
   \<Rightarrow> coordination \<Rightarrow> (coordination \<times> completion_row option) result" where
  "accept_completion cc now result_id completion_id res review s =
     (case get_completion completion_id s of
        None \<Rightarrow> worker_error ''worker completion does not exist''
      | Some c \<Rightarrow>
     (case get_envelope (cm_envelope_id c) s of
        None \<Rightarrow> worker_error ''worker completion envelope is missing''
      | Some e \<Rightarrow>
     (case (row_task (en_task_row_id e) s, get_run (co_store s) (en_run_id e)) of
        (Some task, Some run) \<Rightarrow>
          (case tbl_get ta_task_row_id (task_key task) (co_task_acceptances s) of
             Some existing \<Rightarrow>
               (let s1 = (if ta_completion_id existing \<noteq> cm_id c
                    then upd_completion (cm_id c) (\<lambda>c. c\<lparr>cm_state := CDuplicate,
                           cm_decided_at := Some now, cm_decision_reason :=
                             Some ''another valid completion was already accepted''\<rparr>) s
                    else s)
                in Inr (s1, get_completion completion_id s1))
           | None \<Rightarrow>
               ebind (accept_delivered cc now result_id c e run task res review s) (\<lambda>s1.
                 Inr (s1, get_completion completion_id s1)))
      | _ \<Rightarrow> worker_error ''worker completion task authority is missing'')))"

subsection \<open>Expiry and reconciliation\<close>

text \<open>One lease of the loop of \<open>expire_leases\<close>; a lease without an envelope is skipped.\<close>

definition release_expired :: "instant \<Rightarrow> envelope_row \<Rightarrow> coordination \<Rightarrow> coordination" where
  "release_expired now e s =
     (if en_stateful_effects e
      then upd_envelope (en_id e) (set_envelope_state EReconciliation now) s
      else let s1 = upd_envelope (en_id e) (set_envelope_state EExpired now) s;
               s2 = (case row_task (en_task_row_id e) s1 of
                       None \<Rightarrow> s1
                     | Some task \<Rightarrow>
                         if tk_status task \<in> {TLeased, TExecuting}
                         then move_task (en_task_row_id e) TEligible now s1 else s1)
           in upd_placement_of (en_id e) (requeue_placement now) s2)"

definition expire_one ::
  "instant \<Rightarrow> lease_row \<Rightarrow> coordination \<times> string list \<Rightarrow> coordination \<times> string list" where
  "expire_one now lease acc =
     (let (s, expired) = acc
      in case get_envelope (le_envelope_id lease) s of
           None \<Rightarrow> (s, expired)
         | Some e \<Rightarrow>
             (worker_event (en_run_id e) ''worker.lease_expired'' (Some (en_task_key e))
                (en_stateful_effects e)
                (release_expired now e
                  (upd_lease (le_id lease)
                    (\<lambda>l. l\<lparr>le_state := LExpired, le_revision := le_revision l + 1\<rparr>) s)),
              expired @ [le_id lease]))"

definition due_leases :: "instant \<Rightarrow> coordination \<Rightarrow> lease_row list" where
  "due_leases now s = filter (\<lambda>l. le_state l = LActive \<and> le_expires_at l \<le> now) (co_leases s)"

definition expire_leases :: "instant \<Rightarrow> coordination \<Rightarrow> (coordination \<times> string list) result" where
  "expire_leases now s = Inr (fold (expire_one now) (due_leases now s) (s, []))"

definition reconcile_expired_envelope ::
  "instant \<Rightarrow> string \<Rightarrow> effect_report \<Rightarrow> coordination \<Rightarrow> (coordination \<times> unit) result" where
  "reconcile_expired_envelope now envelope_id report s =
     (case get_envelope envelope_id s of
        None \<Rightarrow> worker_error ''remote task is not awaiting reconciliation''
      | Some e \<Rightarrow>
          if en_state e \<noteq> EReconciliation
          then worker_error ''remote task is not awaiting reconciliation''
          else if report \<noteq> Proven
          then worker_error ''stateful task remains blocked until effects are proven settled''
          else case row_task (en_task_row_id e) s of
                 None \<Rightarrow> worker_error ''remote task state is inconsistent''
               | Some task \<Rightarrow>
                   if tk_status task \<notin> {TLeased, TExecuting}
                   then worker_error ''remote task state is inconsistent''
                   else Inr (worker_event (en_run_id e) ''worker.effects_reconciled''
                               (Some (en_task_key e)) True
                               (move_task (en_task_row_id e) TEligible now
                                 (upd_placement_of (en_id e) (requeue_placement now)
                                   (upd_envelope (en_id e) (set_envelope_state EExpired now) s))),
                             ()))"

subsection \<open>Reads\<close>

definition envelope_of :: "coordinator \<Rightarrow> string \<Rightarrow> coordination \<Rightarrow> task_envelope result" where
  "envelope_of cc envelope_id s =
     ebind (from_option (MishkanError WORKER ''remote task envelope does not exist'')
       (get_envelope envelope_id s)) (stored_envelope cc)"

definition placement_of :: "coordinator \<Rightarrow> string \<Rightarrow> coordination \<Rightarrow> placement_row result" where
  "placement_of cc placement_id s =
     ebind (from_option (MishkanError WORKER ''remote task placement does not exist'')
       (tbl_get pm_id placement_id (co_placements s))) (stored_placement cc)"

definition completion_of :: "string \<Rightarrow> coordination \<Rightarrow> completion_row result" where
  "completion_of completion_id s =
     from_option (MishkanError WORKER ''worker completion does not exist'')
       (get_completion completion_id s)"

subsection \<open>Artifacts of a lease\<close>

definition leased_envelopes :: "instant \<Rightarrow> string \<Rightarrow> coordination \<Rightarrow> envelope_row list" where
  "leased_envelopes now worker_id s =
     filter (\<lambda>e. list_ex (\<lambda>l. le_envelope_id l = en_id e \<and> le_worker_id l = worker_id \<and>
         le_state l = LActive \<and> now < le_expires_at l) (co_leases s)) (co_envelopes s)"

fun grants_input :: "coordinator \<Rightarrow> string \<Rightarrow> envelope_row list \<Rightarrow> bool result" where
  "grants_input cc artifact_id [] = Inr False"
| "grants_input cc artifact_id (row # rows) =
     ebind (stored_envelope cc row) (\<lambda>e.
       if artifact_id \<in> set (map ti_artifact_id (te_inputs e)) then Inr True
       else grants_input cc artifact_id rows)"

definition authorize_input_artifact ::
  "coordinator \<Rightarrow> instant \<Rightarrow> string \<Rightarrow> string \<Rightarrow> coordination \<Rightarrow> unit result" where
  "authorize_input_artifact cc now worker_id artifact_id s =
     ebind (active_worker worker_id s) (\<lambda>_.
     ebind (grants_input cc artifact_id (leased_envelopes now worker_id s)) (\<lambda>ok.
       if ok then Inr ()
       else Inl (MishkanError AUTHORITY_NOT_GRANTED
         ''worker has no active lease for the requested input artifact'')))"

definition reserved_bytes :: "string \<Rightarrow> coordination \<Rightarrow> int" where
  "reserved_bytes lease_id s =
     sum_list (map up_expected_size (filter (\<lambda>u. up_lease_id u = lease_id) (co_uploads s)))"

definition register_artifact_upload ::
  "coordinator \<Rightarrow> instant \<Rightarrow> string \<Rightarrow> string \<Rightarrow> string \<Rightarrow> artifact_upload_request \<Rightarrow> string
   \<Rightarrow> coordination \<Rightarrow> (coordination \<times> unit) result" where
  "register_artifact_upload cc now worker_id lease_id upload_id req token s =
     ebind (active_lease now worker_id lease_id token s) (\<lambda>(lease, row).
     ebind (stored_envelope cc row) (\<lambda>e.
       if rl_max_result_bytes (te_resources e) < reserved_bytes (le_id lease) s + au_expected_size req
       then Inl (MishkanError ARTIFACT ''worker artifacts exceed the immutable task result bound'')
       else if au_producer_identity req \<noteq> ''worker:'' @ worker_id \<or>
               au_run_id req \<noteq> Some (te_run_id e) \<or> au_task_attempt_id req \<noteq> Some (te_id e)
       then Inl (MishkanError AUTHORITY_NOT_GRANTED
         ''worker artifact provenance differs from its active lease'')
       else case get_upload upload_id s of
              Some existing \<Rightarrow>
                (if up_lease_id existing \<noteq> le_id lease \<or> up_worker_id existing \<noteq> worker_id \<or>
                    up_expected_size existing \<noteq> au_expected_size req
                 then Inl (MishkanError DUPLICATE_RESULT
                   ''worker artifact upload identity was reused'')
                 else Inr (s, ()))
            | None \<Rightarrow> Inr (s\<lparr>co_uploads := co_uploads s @
                [\<lparr>up_upload_id = upload_id, up_lease_id = le_id lease, up_worker_id = worker_id,
                  up_artifact_id = None, up_expected_size = au_expected_size req,
                  up_state = Staging\<rparr>]\<rparr>, ())))"

definition owned_upload :: "string \<Rightarrow> string \<Rightarrow> coordination \<Rightarrow> upload_row result" where
  "owned_upload worker_id upload_id s =
     (case get_upload upload_id s of
        None \<Rightarrow> Inl (MishkanError AUTHORITY_NOT_GRANTED ''worker upload is not owned'')
      | Some row \<Rightarrow> if up_worker_id row \<noteq> worker_id
                    then Inl (MishkanError AUTHORITY_NOT_GRANTED ''worker upload is not owned'')
                    else Inr row)"

definition authorize_artifact_upload ::
  "instant \<Rightarrow> string \<Rightarrow> string \<Rightarrow> string \<Rightarrow> coordination \<Rightarrow> string result" where
  "authorize_artifact_upload now worker_id upload_id token s =
     ebind (owned_upload worker_id upload_id s) (\<lambda>row.
     ebind (active_lease now worker_id (up_lease_id row) token s) (\<lambda>_. Inr (up_lease_id row)))"

definition complete_artifact_upload ::
  "instant \<Rightarrow> string \<Rightarrow> string \<Rightarrow> string \<Rightarrow> string \<Rightarrow> coordination \<Rightarrow> (coordination \<times> unit) result" where
  "complete_artifact_upload now worker_id upload_id artifact_id token s =
     ebind (owned_upload worker_id upload_id s) (\<lambda>row.
     ebind (active_lease now worker_id (up_lease_id row) token s) (\<lambda>_.
       if up_state row = Committed \<and> up_artifact_id row = Some artifact_id then Inr (s, ())
       else if up_state row \<noteq> Staging
       then Inl (MishkanError ARTIFACT ''worker upload is not committable'')
       else if \<not> artifact_available artifact_id s
       then Inl (MishkanError ARTIFACT ''worker artifact is not available'')
       else if Some artifact_id \<in> up_artifact_id ` set (co_uploads s) then Inl IntegrityError
       else Inr (s\<lparr>co_uploads := tbl_upd up_upload_id upload_id
              (\<lambda>u. u\<lparr>up_artifact_id := Some artifact_id, up_state := Committed\<rparr>) (co_uploads s)\<rparr>, ())))"

end
