(* ===== verification/LeaseStore.thy ===== *)
theory LeaseStore
  imports Leases
begin

section \<open>Remote work keeps the run repository well formed\<close>

text \<open>
  Coordination changes the rows of the run repository. This theory shows that every operation
  of the coordination respects its invariant and only lets the store evolve, so both survive
  every interleaving of local and remote work.
\<close>

definition store_step :: "coordination \<Rightarrow> coordination \<Rightarrow> bool" where
  "store_step s s' \<longleftrightarrow>
     (run_wf (co_store s) \<longrightarrow> run_wf (co_store s') \<and> evolves (co_store s) (co_store s'))"

lemma store_step_refl [simp]: "store_step s s"
  by (simp add: store_step_def evolves_refl)

lemma store_step_trans: "store_step s t \<Longrightarrow> store_step t u \<Longrightarrow> store_step s u"
  unfolding store_step_def using evolves_trans by blast

lemma store_step_same: "co_store s' = co_store s \<Longrightarrow> store_step s s'"
  by (simp add: store_step_def evolves_refl)

lemma store_step_tables:
  assumes "runs (co_store s') = runs (co_store s)" "plans (co_store s') = plans (co_store s)"
    "tasks (co_store s') = tasks (co_store s)" "results (co_store s') = results (co_store s)"
    "acceptances (co_store s') = acceptances (co_store s)"
  shows "store_step s s'"
  using run_wf_cong [OF assms] evolves_frame [of "co_store s'" "co_store s"] assms
  by (simp add: store_step_def)

subsection \<open>What the updates leave alone\<close>

lemma upd_envelope_fields [simp]:
  "co_store (upd_envelope k f s) = co_store s" "co_leases (upd_envelope k f s) = co_leases s"
  "co_completions (upd_envelope k f s) = co_completions s"
  "co_task_acceptances (upd_envelope k f s) = co_task_acceptances s"
  "co_placements (upd_envelope k f s) = co_placements s"
  by (simp_all add: upd_envelope_def)

lemma upd_lease_fields [simp]:
  "co_store (upd_lease k f s) = co_store s" "co_envelopes (upd_lease k f s) = co_envelopes s"
  "co_completions (upd_lease k f s) = co_completions s"
  "co_task_acceptances (upd_lease k f s) = co_task_acceptances s"
  "co_placements (upd_lease k f s) = co_placements s"
  by (simp_all add: upd_lease_def)

lemma upd_completion_fields [simp]:
  "co_store (upd_completion k f s) = co_store s" "co_envelopes (upd_completion k f s) = co_envelopes s"
  "co_leases (upd_completion k f s) = co_leases s"
  "co_task_acceptances (upd_completion k f s) = co_task_acceptances s"
  "co_placements (upd_completion k f s) = co_placements s"
  by (simp_all add: upd_completion_def)

lemma upd_placement_fields [simp]:
  "co_store (upd_placement_of k f s) = co_store s"
  "co_envelopes (upd_placement_of k f s) = co_envelopes s"
  "co_leases (upd_placement_of k f s) = co_leases s"
  "co_completions (upd_placement_of k f s) = co_completions s"
  "co_task_acceptances (upd_placement_of k f s) = co_task_acceptances s"
  by (simp_all add: upd_placement_of_def split: option.split)

lemma upd_store_fields [simp]:
  "co_store (upd_store g s) = g (co_store s)"
  "co_envelopes (upd_store g s) = co_envelopes s" "co_leases (upd_store g s) = co_leases s"
  "co_completions (upd_store g s) = co_completions s"
  "co_task_acceptances (upd_store g s) = co_task_acceptances s"
  "co_placements (upd_store g s) = co_placements s"
  by (simp_all add: upd_store_def)

lemma worker_event_fields [simp]:
  "co_envelopes (worker_event a e t b s) = co_envelopes s"
  "co_leases (worker_event a e t b s) = co_leases s"
  "co_completions (worker_event a e t b s) = co_completions s"
  "co_task_acceptances (worker_event a e t b s) = co_task_acceptances s"
  "co_placements (worker_event a e t b s) = co_placements s"
  "runs (co_store (worker_event a e t b s)) = runs (co_store s)"
  "plans (co_store (worker_event a e t b s)) = plans (co_store s)"
  "tasks (co_store (worker_event a e t b s)) = tasks (co_store s)"
  "results (co_store (worker_event a e t b s)) = results (co_store s)"
  "acceptances (co_store (worker_event a e t b s)) = acceptances (co_store s)"
  by (simp_all add: worker_event_def)

lemma move_task_fields [simp]:
  "co_envelopes (move_task k st now s) = co_envelopes s"
  "co_leases (move_task k st now s) = co_leases s"
  "co_completions (move_task k st now s) = co_completions s"
  "co_task_acceptances (move_task k st now s) = co_task_acceptances s"
  "co_placements (move_task k st now s) = co_placements s"
  by (simp_all add: move_task_def)

lemma store_step_event: "store_step s t \<Longrightarrow> store_step s (worker_event a e k b t)"
  by (erule store_step_trans) (rule store_step_tables, simp_all)

lemma row_task_cong: "tasks (co_store s') = tasks (co_store s) \<Longrightarrow> row_task k s' = row_task k s"
  by (simp add: row_task_def get_task_def)

subsection \<open>Moves of a task\<close>

definition live :: "task_state \<Rightarrow> bool" where
  "live st \<longleftrightarrow> st \<notin> {TAccepted, TPending, TCancelled}"

lemma live_simps [simp]:
  "live TEligible" "live TLeased" "live TExecuting" "live TValidating"
  by (simp_all add: live_def)

lemma store_step_upd:
  assumes t: "row_task k s = Some t" "live (tk_status t)"
    and st: "\<And>u. tk_status (f u) = st" "live st"
    and keep: "\<And>u. task_key (f u) = task_key u" "\<And>u. tk_contract (f u) = tk_contract u"
    and grow: "task_leq t (f t)"
  shows "store_step s (upd_store (upd_task (fst k) (snd k) f) s)"
proof -
  have get: "get_task (co_store s) (fst k) (snd k) = Some t" using t(1) by (simp add: row_task_def)
  show ?thesis
    using t(2) st keep grow run_wf_upd_task [OF _ get, of f st] evolves_upd_task [OF _ get, of f]
    by (simp add: store_step_def live_def)
qed

lemma store_step_move:
  assumes "row_task k s = Some t" "live (tk_status t)" "live st"
  shows "store_step s (move_task k st now s)"
  unfolding move_task_def using assms
  by (intro store_step_upd [where st = st and t = t] task_leq_set_status) (auto simp: live_def)

lemma store_step_lease:
  assumes "row_task (te_task_row_id e) s = Some t" "tk_status t = TEligible"
    and "tk_attempt_count t \<le> te_task_attempt e"
  shows "store_step s (lease_task e now s)"
  unfolding lease_task_def using assms
  by (intro store_step_upd [where st = TLeased and t = t]) (auto simp: task_leq_def)

subsection \<open>The acceptance of a completion is an acceptance of the run repository\<close>

lemma release_dependents_outbox:
  "release_dependents run_id now (s\<lparr>outbox := x\<rparr>) = (release_dependents run_id now s)\<lparr>outbox := x\<rparr>"
  by (simp add: release_dependents_def dependencies_accepted_def)

lemma check_completion_Inr:
  assumes "check_completion cc c run task res review s = Inr u"
  shows "cm_state c = CDelivered" and "ir_task_id res = tk_task_key task"
    and "rd_task_id review = tk_task_key task" and "rd_verdict review = Accepted"
    and "\<not> rn_cancellation_requested run" and "dependencies_accepted s (rn_id run) task"
    and "tbl_get result_key (rn_id run, tk_task_key task) (results s) = None"
    and "su_result (cm_payload c) = cc_dump_result cc res"
  using assms by (auto simp: check_completion_def split: if_splits)

text \<open>The run tables after the acceptance are those of \<open>install_acceptance\<close>.\<close>

lemma accept_delivered_tables:
  assumes accept: "accept_delivered cc now result_id c e run task res review s = Inr s'"
    and run: "tk_run_id task = rn_id run"
  obtains st where "install_acceptance now result_id (rn_id run) res review (co_store s) = Inr st"
    and "runs (co_store s') = runs st" and "plans (co_store s') = plans st"
    and "tasks (co_store s') = tasks st" and "results (co_store s') = results st"
    and "acceptances (co_store s') = acceptances st"
proof -
  obtain s1 where check: "check_completion cc c run task res review (co_store s) = Inr ()"
    and ev: "insert_evidence now result_id c e task res review s = Inr s1"
    and s': "s' = finish_run now (rn_id run) (upd_store (release_dependents (rn_id run) now)
      (worker_event (rn_id run) ''worker.completion_accepted'' (Some (tk_task_key task)) True
        (move_task (task_key task) TAccepted now (mark_accepted now (cm_id c) (en_id e) s1))))"
    using accept by (auto simp: accept_delivered_def ebind_Inr_iff)
  have k: "ir_task_id res = tk_task_key task" using check_completion_Inr(2) [OF check] .
  obtain rr aa where rows: "tbl_insert rr_id \<lparr>rr_id = result_id, rr_run_id = rn_id run,
        rr_task_key = tk_task_key task, rr_payload = res, rr_accepted_at = now\<rparr> (results (co_store s)) = Inr rr"
      "tbl_insert acceptance_key \<lparr>ac_run_id = rn_id run, ac_task_key = tk_task_key task,
        ac_result_id = result_id, ac_review = review, ac_accepted_at = now\<rparr>
        (acceptances (co_store s)) = Inr aa"
    and s1: "co_store s1 = (co_store s)\<lparr>results := rr, acceptances := aa\<rparr>"
    using ev by (auto simp: insert_evidence_def Let_def ebind_Inr_iff run split: if_splits)
  define a where "a = upd_task (rn_id run) (tk_task_key task) (set_task_status TAccepted now) (co_store s1)"
  have moved: "tasks (co_store (worker_event (rn_id run) ''worker.completion_accepted''
      (Some (tk_task_key task)) True (move_task (task_key task) TAccepted now
        (mark_accepted now (cm_id c) (en_id e) s1)))) = tasks a"
    by (simp add: a_def move_task_def upd_task_def mark_accepted_def run)
  let ?l = "release_dependents (rn_id run) now
    (add_event (rn_id run) ''task.result_accepted'' (Some (tk_task_key task)) a)"
  let ?w = "release_dependents (rn_id run) now (co_store (worker_event (rn_id run)
    ''worker.completion_accepted'' (Some (tk_task_key task)) True (move_task (task_key task) TAccepted now
        (mark_accepted now (cm_id c) (en_id e) s1))))"
  have same: "runs ?w = runs ?l" "plans ?w = plans ?l" "tasks ?w = tasks ?l" "results ?w = results ?l"
    "acceptances ?w = acceptances ?l"
    by (simp_all add: release_dependents_def dependencies_accepted_def moved)
      (simp_all add: a_def move_task_def upd_task_def mark_accepted_def run)
  show thesis
  proof
    show "install_acceptance now result_id (rn_id run) res review (co_store s) =
      Inr (if list_all (\<lambda>t. tk_status t = TAccepted) (run_tasks ?l (rn_id run))
        then add_event (rn_id run) ''run.completed'' None
          (upd_run (rn_id run) (set_run_status RCompleted now) ?l) else ?l)"
      by (simp add: install_acceptance_def Let_def k rows a_def s1)
  qed (simp_all add: s' finish_run_def same run_tasks_def upd_run_def)
qed

lemma accept_delivered_store:
  assumes accept: "accept_delivered cc now result_id c e run task res review s = Inr s'"
    and run: "get_run (co_store s) (en_run_id e) = Some run"
    and task: "row_task (en_task_row_id e) s = Some task"
    and same: "fst (en_task_row_id e) = en_run_id e"
  shows "store_step s s'"
  unfolding store_step_def
proof
  assume wf: "run_wf (co_store s)"
  have ids: "rn_id run = en_run_id e" "run \<in> set (runs (co_store s))" using get_run_SomeD [OF run] by auto
  have t: "task \<in> set (tasks (co_store s))" "tk_run_id task = en_run_id e"
    "get_task (co_store s) (en_run_id e) (tk_task_key task) = Some task"
    using task same get_task_SomeD [of "co_store s" "en_run_id e" "snd (en_task_row_id e)" task]
    by (auto simp: row_task_def)
  obtain u where check: "check_completion cc c run task res review (co_store s) = Inr u"
    using accept by (auto simp: accept_delivered_def ebind_Inr_iff)
  note c = check_completion_Inr [OF check]
  have ok: "task_ok (accepted_keys (co_store s)) (cancelled_runs (co_store s)) task"
    using wf t(1) by (simp add: run_wf_def)
  have deps: "deps_in (accepted_keys (co_store s)) task"
    using c(6) dependencies_accepted_iff [of "co_store s" task] ids(1) t(2) by simp
  have "rn_id run \<notin> cancelled_runs (co_store s)"
    using c(5) wf_runs_unique [OF wf _ ids(2)] by (auto simp: cancelled_runs_def)
  moreover have "tk_status task \<noteq> TAccepted"
  proof
    assume "tk_status task = TAccepted"
    then have "task_key task \<in> accepted_keys (co_store s)" using t(1) unfolding accepted_keys_def by blast
    then have "task_key task \<in> result_key ` set (results (co_store s))"
      using wf by (simp add: run_wf_def results_wf_def)
    then show False using c(7) ids(1) t(2) by (simp add: tbl_get_None_iff)
  qed
  ultimately have live: "tk_status task \<notin> {TAccepted, TPending, TCancelled}"
    using ok deps ids(1) t(2) by (auto simp: task_ok_def)
  obtain st where st: "install_acceptance now result_id (rn_id run) res review (co_store s) = Inr st"
    and tables: "runs (co_store s') = runs st" "plans (co_store s') = plans st"
      "tasks (co_store s') = tasks st" "results (co_store s') = results st"
      "acceptances (co_store s') = acceptances st"
    using accept_delivered_tables [OF accept] t(2) ids(1) by metis
  have k: "get_task (co_store s) (rn_id run) (ir_task_id res) = Some task" using t(3) ids(1) c(2) by simp
  have none: "tbl_get result_key (rn_id run, ir_task_id res) (results (co_store s)) = None"
    using c(7) c(2) by simp
  have "run_wf st"
    using run_wf_accept [OF wf _ c(5) k live none refl st] run ids(1) by simp
  moreover have "evolves (co_store s) st"
    using install_acceptance_evolves [OF wf k _ st] live by simp
  ultimately show "run_wf (co_store s') \<and> evolves (co_store s) (co_store s')"
    using run_wf_cong [OF tables] tables by (simp add: evolves_def)
qed

end
