(* ===== verification/LeaseInvariant.thy ===== *)
theory LeaseInvariant
  imports LeaseStore
begin

section \<open>The invariant of the leases\<close>

text \<open>
  \<open>leases_wf\<close> relates the leases, envelopes and completions of a coordination: unique keys; a
  lease belongs to the worker of its envelope and never outlives the deadline; an active
  lease has an envelope that is leased or executing, a completed lease one that is validating
  or completed; a delivered or accepted completion comes
  from a completed lease, and an envelope has at most one of them; no worker holds more active
  leases than the coordinator allows.
\<close>

definition lease_ok :: "envelope_row list \<Rightarrow> lease_row \<Rightarrow> bool" where
  "lease_ok es l \<longleftrightarrow>
     (\<exists>e \<in> set es. en_id e = le_envelope_id l \<and> en_worker_id e = le_worker_id l \<and>
        le_expires_at l \<le> en_deadline e \<and>
        (le_state l = LActive \<longrightarrow> en_state e \<in> {ELeased, EExecuting}) \<and>
        (le_state l = LCompleted \<longrightarrow> en_state e \<in> {EValidating, ECompleted}))"

definition decisive :: "completion_row \<Rightarrow> bool" where
  "decisive c \<longleftrightarrow> cm_state c \<in> {CDelivered, CAccepted}"

definition held :: "string \<Rightarrow> lease_row \<Rightarrow> bool" where
  "held w l \<longleftrightarrow> le_worker_id l = w \<and> le_state l = LActive"

abbreviation attempt_key :: "envelope_row \<Rightarrow> (string \<times> string) \<times> int" where
  "attempt_key e \<equiv> (en_task_row_id e, en_task_attempt e)"

definition leases_keys :: "lease_row list \<Rightarrow> envelope_row list \<Rightarrow> completion_row list \<Rightarrow> bool" where
  "leases_keys ls es cs \<longleftrightarrow>
     tbl_wf le_id ls \<and> tbl_wf le_envelope_id ls \<and> tbl_wf le_token_digest ls \<and>
     tbl_wf en_id es \<and> tbl_wf attempt_key es \<and> tbl_wf cm_id cs"

definition leases_wf ::
  "int \<Rightarrow> lease_row list \<Rightarrow> envelope_row list \<Rightarrow> completion_row list \<Rightarrow> bool" where
  "leases_wf n ls es cs \<longleftrightarrow>
     leases_keys ls es cs \<and>
     (\<forall>l \<in> set ls. lease_ok es l) \<and>
     (\<forall>e \<in> set es. en_task_row_id e = (en_run_id e, en_task_key e)) \<and>
     (\<forall>c \<in> set cs. decisive c \<longrightarrow>
        (\<exists>l \<in> set ls. le_envelope_id l = cm_envelope_id c \<and> le_state l = LCompleted)) \<and>
     distinct (map cm_envelope_id (filter decisive cs)) \<and>
     (\<forall>w. int (length (filter (held w) ls)) \<le> max 0 n)"

lemma leases_wf_Nil: "leases_wf n [] [] []"
  by (simp add: leases_wf_def leases_keys_def)

lemma leases_wfD:
  assumes "leases_wf n ls es cs"
  shows "leases_keys ls es cs" and "l \<in> set ls \<Longrightarrow> lease_ok es l"
    and "e \<in> set es \<Longrightarrow> en_task_row_id e = (en_run_id e, en_task_key e)"
    and "c \<in> set cs \<Longrightarrow> decisive c \<Longrightarrow>
      \<exists>l \<in> set ls. le_envelope_id l = cm_envelope_id c \<and> le_state l = LCompleted"
    and "distinct (map cm_envelope_id (filter decisive cs))"
    and "int (length (filter (held w) ls)) \<le> max 0 n"
  using assms unfolding leases_wf_def by blast+

lemma leases_wfI:
  assumes "leases_keys ls es cs" and "\<And>l. l \<in> set ls \<Longrightarrow> lease_ok es l"
    and "\<And>e. e \<in> set es \<Longrightarrow> en_task_row_id e = (en_run_id e, en_task_key e)"
    and "\<And>c. c \<in> set cs \<Longrightarrow> decisive c \<Longrightarrow>
      \<exists>l \<in> set ls. le_envelope_id l = cm_envelope_id c \<and> le_state l = LCompleted"
    and "distinct (map cm_envelope_id (filter decisive cs))"
    and "\<And>w. int (length (filter (held w) ls)) \<le> max 0 n"
  shows "leases_wf n ls es cs"
  using assms unfolding leases_wf_def by blast

lemma active_count_held: "active_count w s = int (length (filter (held w) (co_leases s)))"
  by (simp add: active_count_def held_def [abs_def])

text \<open>Updates of a row never create active leases here.\<close>

lemma length_filter_upd:
  assumes "\<And>r. r \<in> set rows \<Longrightarrow> key r = k \<Longrightarrow> P (f r) \<Longrightarrow> P r"
  shows "length (filter P (tbl_upd key k f rows)) \<le> length (filter P rows)"
  using assms by (induction rows) (auto simp: tbl_upd_def intro: le_SucI)

lemma tbl_upd_where:
  "tbl_wf key rows \<Longrightarrow> tbl_get key k rows = Some r \<Longrightarrow> x \<in> set rows \<Longrightarrow> key x = k \<Longrightarrow> x = r"
  by (metis tbl_get_Some_iff option.inject)

lemma upd_get_other:
  assumes "x \<in> set (tbl_upd key k f rows)" and "tbl_wf key rows" and "tbl_get key k rows = Some r"
  obtains (other) "x \<in> set rows" "key x \<noteq> k" | (new) "x = f r"
  using assms(1)
proof (cases rule: in_tbl_updE)
  case (same r0)
  then show ?thesis using tbl_upd_where [OF assms(2,3)] that(2) by blast
qed (use that in blast)

subsection \<open>A step of one lease and its envelope\<close>

lemma leases_wf_step:
  assumes wf: "leases_wf n ls es cs"
    and l: "tbl_get le_id k ls = Some l" "le_state l = LActive"
    and e: "tbl_get en_id (le_envelope_id l) es = Some e"
    and f: "le_id (f l) = le_id l" "le_envelope_id (f l) = le_envelope_id l"
      "le_worker_id (f l) = le_worker_id l" "le_token_digest (f l) = le_token_digest l"
    and g: "en_id (g e) = en_id e" "attempt_key (g e) = attempt_key e"
      "en_worker_id (g e) = en_worker_id e" "en_deadline (g e) = en_deadline e"
      "en_run_id (g e) = en_run_id e" "en_task_key (g e) = en_task_key e"
    and active: "le_state (f l) = LActive \<longrightarrow> en_state (g e) \<in> {ELeased, EExecuting}"
    and completed: "le_state (f l) = LCompleted \<longrightarrow> en_state (g e) \<in> {EValidating, ECompleted}"
    and expiry: "le_expires_at (f l) \<le> en_deadline e"
  shows "leases_wf n (tbl_upd le_id k (\<lambda>_. f l) ls) (tbl_upd en_id (en_id e) (\<lambda>_. g e) es) cs"
proof -
  let ?ls = "tbl_upd le_id k (\<lambda>_. f l) ls" and ?es = "tbl_upd en_id (en_id e) (\<lambda>_. g e) es"
  note w = wf [unfolded leases_wf_def leases_keys_def]
  have l_in: "l \<in> set ls" "le_id l = k" and e_in: "e \<in> set es" "en_id e = le_envelope_id l"
    using l(1) e by (auto dest: tbl_get_SomeD)
  have lkeys: "tbl_wf le_id ls" and ekeys: "tbl_wf en_id es" using w by auto
  have ls: "?ls = tbl_upd le_id k (\<lambda>x. if x = l then f l else x) ls"
    using tbl_upd_where [OF _ l(1)] w by (auto simp: tbl_upd_def)
  have es: "?es = tbl_upd en_id (en_id e) (\<lambda>x. if x = e then g e else x) es"
    using tbl_upd_where [OF _ e] w e_in(2) by (auto simp: tbl_upd_def)
  have keys: "leases_keys ?ls ?es cs"
    unfolding leases_keys_def ls es using w f g
    by (auto simp: tbl_upd_keys tbl_upd_other_key)
  have env: "\<exists>e' \<in> set ?es. en_id e' = en_id x \<and> en_worker_id e' = en_worker_id x \<and>
      en_deadline e' = en_deadline x \<and> (x \<noteq> e \<longrightarrow> e' = x) \<and> (x = e \<longrightarrow> e' = g e)"
    if "x \<in> set es" for x
  proof (cases "x = e")
    case True
    have "g e \<in> set ?es" using e_in by (auto simp: set_tbl_upd)
    then show ?thesis using True g by blast
  next
    case False
    then have "en_id x \<noteq> en_id e" using w e_in that by (metis e tbl_upd_where)
    then have "x \<in> set ?es" using that by (auto simp: set_tbl_upd)
    then show ?thesis using False by blast
  qed
  have ok: "lease_ok ?es x" if x: "x \<in> set ?ls" for x
    using x lkeys l(1)
  proof (cases rule: upd_get_other)
    case other
    have "lease_ok es x" by (rule leases_wfD(2) [OF wf other(1)])
    then obtain e' where e': "e' \<in> set es" "en_id e' = le_envelope_id x"
      "en_worker_id e' = le_worker_id x" "le_expires_at x \<le> en_deadline e'"
      "le_state x = LActive \<longrightarrow> en_state e' \<in> {ELeased, EExecuting}"
      "le_state x = LCompleted \<longrightarrow> en_state e' \<in> {EValidating, ECompleted}"
      unfolding lease_ok_def by blast
    have "e' \<noteq> e"
    proof
      assume "e' = e"
      then have "le_envelope_id x = le_envelope_id l" using e' e_in by simp
      then have "x = l" using w other(1) l_in(1) by (meson distinct_map inj_onD)
      then show False using other(2) l_in(2) by simp
    qed
    then show ?thesis using env [OF e'(1)] e' by (auto simp: lease_ok_def)
  next
    case new
    obtain e' where e': "e' \<in> set es" "en_id e' = le_envelope_id l" "en_worker_id e' = le_worker_id l"
      using w l_in by (auto simp: lease_ok_def)
    then have "e' = e" using w e by (metis tbl_upd_where)
    then show ?thesis
      using env [OF e_in(1)] e' f active completed expiry new unfolding lease_ok_def by (metis e_in(2))
  qed
  have run: "en_task_row_id x = (en_run_id x, en_task_key x)" if "x \<in> set ?es" for x
    using that ekeys e [folded e_in(2)]
  proof (cases rule: upd_get_other [where f = "\<lambda>_. g e"])
    case other
    then show ?thesis using leases_wfD(3) [OF wf] by blast
  next
    case new
    then show ?thesis using leases_wfD(3) [OF wf e_in(1)] g by simp
  qed
  have comp: "\<exists>x \<in> set ?ls. le_envelope_id x = cm_envelope_id c \<and> le_state x = LCompleted"
    if c: "c \<in> set cs" "decisive c" for c
  proof -
    obtain x where x: "x \<in> set ls" "le_envelope_id x = cm_envelope_id c" "le_state x = LCompleted"
      using w c by blast
    then have "le_id x \<noteq> k" using l tbl_upd_where [OF _ l(1) x(1)] w by auto
    then have "x \<in> set ?ls" using x(1) by (auto simp: set_tbl_upd)
    then show ?thesis using x by blast
  qed
  have "length (filter (held u) ?ls) \<le> length (filter (held u) ls)" for u
    unfolding ls using f l by (intro length_filter_upd) (auto simp: held_def split: if_splits)
  then have cap: "int (length (filter (held u) ?ls)) \<le> max 0 n" for u
    using w by (meson of_nat_le_iff order_trans)
  show ?thesis unfolding leases_wf_def using w keys ok run comp cap by blast
qed


subsection \<open>Envelopes without an active lease\<close>

lemma leases_wf_envelope:
  assumes wf: "leases_wf n ls es cs"
    and idle: "\<And>l. l \<in> set ls \<Longrightarrow> le_envelope_id l = k \<Longrightarrow> le_state l \<noteq> LActive"
    and fin: "\<And>l e. l \<in> set ls \<Longrightarrow> le_envelope_id l = k \<Longrightarrow> le_state l = LCompleted \<Longrightarrow>
      en_state (g e) \<in> {EValidating, ECompleted}"
    and g: "\<And>e. en_id (g e) = en_id e" "\<And>e. attempt_key (g e) = attempt_key e"
      "\<And>e. en_worker_id (g e) = en_worker_id e" "\<And>e. en_deadline (g e) = en_deadline e"
      "\<And>e. en_run_id (g e) = en_run_id e" "\<And>e. en_task_key (g e) = en_task_key e"
  shows "leases_wf n ls (tbl_upd en_id k g es) cs"
proof -
  note w = wf [unfolded leases_wf_def leases_keys_def]
  have keys: "leases_keys ls (tbl_upd en_id k g es) cs"
    unfolding leases_keys_def using w g by (auto simp: tbl_upd_keys tbl_upd_other_key)
  have ok: "lease_ok (tbl_upd en_id k g es) l" if l: "l \<in> set ls" for l
  proof -
    have "lease_ok es l" using w l by blast
    then obtain e where e: "e \<in> set es" "en_id e = le_envelope_id l" "en_worker_id e = le_worker_id l"
      "le_expires_at l \<le> en_deadline e" "le_state l = LActive \<longrightarrow> en_state e \<in> {ELeased, EExecuting}"
      "le_state l = LCompleted \<longrightarrow> en_state e \<in> {EValidating, ECompleted}"
      unfolding lease_ok_def by blast
    let ?e = "if en_id e = k then g e else e"
    have "?e \<in> set (tbl_upd en_id k g es)" using e(1) by (auto simp: set_tbl_upd)
    moreover have "le_state l = LActive \<longrightarrow> en_state ?e \<in> {ELeased, EExecuting}"
      using e idle [OF l] by auto
    moreover have "le_state l = LCompleted \<longrightarrow> en_state ?e \<in> {EValidating, ECompleted}"
      using e fin [OF l] by auto
    ultimately show ?thesis unfolding lease_ok_def using e g by (intro bexI [of _ ?e]) auto
  qed
  have "en_task_row_id x = (en_run_id x, en_task_key x)" if "x \<in> set (tbl_upd en_id k g es)" for x
    using that
  proof (cases rule: in_tbl_updE)
    case (same e)
    then have "attempt_key x = attempt_key e" "en_run_id x = en_run_id e" "en_task_key x = en_task_key e"
      using g by auto
    then show ?thesis using w same(1) by simp
  qed (use w in blast)
  then show ?thesis unfolding leases_wf_def using w keys ok by blast
qed

subsection \<open>Completions\<close>

lemma leases_wf_completion_added:
  assumes wf: "leases_wf n ls es cs" and new: "tbl_get cm_id (cm_id c) cs = None"
    and ok: "decisive c \<Longrightarrow> (\<exists>l \<in> set ls. le_envelope_id l = cm_envelope_id c \<and> le_state l = LCompleted) \<and>
      (\<forall>c' \<in> set cs. cm_envelope_id c' \<noteq> cm_envelope_id c)"
  shows "leases_wf n ls es (cs @ [c])"
proof (rule leases_wfI)
  show "leases_keys ls es (cs @ [c])"
    using leases_wfD(1) [OF wf] new by (auto simp: leases_keys_def tbl_get_None_iff)
  show "\<exists>l \<in> set ls. le_envelope_id l = cm_envelope_id x \<and> le_state l = LCompleted"
    if "x \<in> set (cs @ [c])" "decisive x" for x
    using that ok leases_wfD(4) [OF wf] by auto
  show "distinct (map cm_envelope_id (filter decisive (cs @ [c])))"
    using leases_wfD(5) [OF wf] ok by auto
qed (use leases_wfD [OF wf] in blast)+

lemma distinct_map_filter_upd:
  assumes "distinct (map h (filter P rows))" and "\<And>r. P (f r) \<Longrightarrow> key r = k \<Longrightarrow> r \<in> set rows \<Longrightarrow> P r"
    and h: "\<And>r. h (f r) = h r"
  shows "distinct (map h (filter P (tbl_upd key k f rows))) \<and>
    set (map h (filter P (tbl_upd key k f rows))) \<subseteq> set (map h (filter P rows))"
  using assms(1,2)
proof (induction rows)
  case (Cons r rows)
  let ?u = "tbl_upd key k f rows" and ?r = "if key r = k then f r else r"
  have "distinct (map h (filter P rows))" using Cons.prems(1) by (cases "P r") simp_all
  then have IH: "distinct (map h (filter P ?u))" "h ` set (filter P ?u) \<subseteq> h ` set (filter P rows)"
    using Cons.IH [OF _ Cons.prems(2) [OF _ _ list.set_intros(2)]] unfolding set_map by blast+
  have upd: "tbl_upd key k f (r # rows) = ?r # ?u" by (simp add: tbl_upd_def)
  show ?case
  proof (cases "P ?r")
    case True
    then have "P r" using Cons.prems(2) [of r] by (cases "key r = k") simp_all
    moreover have "h ?r = h r" using h by simp
    moreover have "h r \<notin> h ` set (filter P rows)" using Cons.prems(1) \<open>P r\<close> by simp
    ultimately show ?thesis using IH True unfolding upd by (simp del: split_paired_All) blast
  next
    case False
    then show ?thesis using IH unfolding upd by (simp add: subset_insertI2)
  qed
qed (simp add: tbl_upd_def)

text \<open>A completion never becomes decisive by an update.\<close>

lemma leases_wf_completion_updated:
  assumes wf: "leases_wf n ls es cs"
    and f: "\<And>c. cm_id (f c) = cm_id c" "\<And>c. cm_envelope_id (f c) = cm_envelope_id c"
    and dec: "\<And>c. c \<in> set cs \<Longrightarrow> cm_id c = k \<Longrightarrow> decisive (f c) \<Longrightarrow> decisive c"
  shows "leases_wf n ls es (tbl_upd cm_id k f cs)"
proof -
  note w = wf [unfolded leases_wf_def leases_keys_def]
  have "\<exists>l \<in> set ls. le_envelope_id l = cm_envelope_id c \<and> le_state l = LCompleted"
    if "c \<in> set (tbl_upd cm_id k f cs)" "decisive c" for c
    using that(1)
  proof (cases rule: in_tbl_updE)
    case (same c0)
    then have "decisive c0" using dec that(2) by blast
    then show ?thesis using leases_wfD(4) [OF wf same(1)] same(3) f by simp
  qed (use leases_wfD(4) [OF wf] that in blast)
  moreover have "distinct (map cm_envelope_id (filter decisive (tbl_upd cm_id k f cs)))"
    using distinct_map_filter_upd [of cm_envelope_id decisive cs f cm_id k] w f dec by blast
  moreover have "leases_keys ls es (tbl_upd cm_id k f cs)"
    unfolding leases_keys_def using w f by (auto simp: tbl_upd_keys)
  ultimately show ?thesis unfolding leases_wf_def using w by blast
qed

subsection \<open>A new lease\<close>

lemma leases_wf_granted:
  assumes wf: "leases_wf n ls es cs"
    and e: "en_id e \<notin> en_id ` set es" "attempt_key e \<notin> attempt_key ` set es"
      "en_task_row_id e = (en_run_id e, en_task_key e)" "en_state e = ELeased"
    and l: "le_id l \<notin> le_id ` set ls" "le_envelope_id l \<notin> le_envelope_id ` set ls"
      "le_token_digest l \<notin> le_token_digest ` set ls"
      "le_envelope_id l = en_id e" "le_worker_id l = en_worker_id e" "le_expires_at l \<le> en_deadline e"
      "le_state l = LActive"
    and cap: "int (length (filter (held (le_worker_id l)) ls)) < n"
  shows "leases_wf n (ls @ [l]) (es @ [e]) cs"
proof -
  note w = wf [unfolded leases_wf_def leases_keys_def]
  have "leases_keys (ls @ [l]) (es @ [e]) cs"
    unfolding leases_keys_def tbl_wf_snoc using w e(1,2) l(1-3) by blast
  moreover have "lease_ok (es @ [e]) x" if "x \<in> insert l (set ls)" for x
  proof (cases "x = l")
    case True
    then show ?thesis using e l by (auto simp: lease_ok_def)
  next
    case False
    then have "lease_ok es x" using that w by blast
    then show ?thesis unfolding lease_ok_def set_append by blast
  qed
  moreover have "\<exists>l' \<in> set (ls @ [l]). le_envelope_id l' = cm_envelope_id c \<and> le_state l' = LCompleted"
    if "c \<in> set cs" "decisive c" for c
    using w that by fastforce
  moreover have "int (length (filter (held u) (ls @ [l]))) \<le> max 0 n" for u
  proof (cases "held u l")
    case True
    then show ?thesis using cap by (simp add: held_def)
  next
    case False
    then show ?thesis using w by simp
  qed
  ultimately show ?thesis unfolding leases_wf_def using w e(3) by (auto simp del: length_filter_conv_card)
qed

end
