(* ===== verification/LeaseMachine.thy ===== *)
theory LeaseMachine
  imports LeaseInvariant
begin

section \<open>The machine of local and remote work\<close>

text \<open>
  The calls of \<open>RunStore\<close> and \<open>CallJournal\<close> and the operations of \<open>Leases\<close> as steps on one
  coordination state, and the proof that every step keeps \<open>coord_wf\<close>: the invariant of the run
  tables together with the invariant of leases, envelopes and completions.
\<close>

definition lease_tables_wf :: "coordinator \<Rightarrow> coordination \<Rightarrow> bool" where
  "lease_tables_wf cc s \<longleftrightarrow>
     leases_wf (cc_max_worker_concurrency cc) (co_leases s) (co_envelopes s) (co_completions s)"

definition coord_wf :: "coordinator \<Rightarrow> coordination \<Rightarrow> bool" where
  "coord_wf cc s \<longleftrightarrow> run_wf (co_store s) \<and> lease_tables_wf cc s"

lemma lease_tables_cong:
  "co_leases s' = co_leases s \<Longrightarrow> co_envelopes s' = co_envelopes s \<Longrightarrow>
   co_completions s' = co_completions s \<Longrightarrow> lease_tables_wf cc s' = lease_tables_wf cc s"
  by (simp add: lease_tables_wf_def)

lemma lease_tables_simps [simp]:
  "lease_tables_wf cc (worker_event a e t b s) = lease_tables_wf cc s"
  "lease_tables_wf cc (move_task k st now s) = lease_tables_wf cc s"
  "lease_tables_wf cc (upd_store g s) = lease_tables_wf cc s"
  "lease_tables_wf cc (upd_placement_of eid h s) = lease_tables_wf cc s"
  by (rule lease_tables_cong; simp)+

lemma coord_wf_empty: "coord_wf cc empty_coordination"
  by (simp add: coord_wf_def lease_tables_wf_def empty_coordination_def run_wf_empty leases_wf_Nil)

subsection \<open>What a guard gives\<close>

lemma active_lease_Inr:
  assumes "active_lease now worker_id lease_id token s = Inr (l, e)"
  shows "get_lease lease_id s = Some l" and "get_envelope (le_envelope_id l) s = Some e"
    and "le_worker_id l = worker_id" and "en_worker_id e = worker_id"
    and "le_state l = LActive" and "now < le_expires_at l" and "le_token_digest l = token"
  using assms
  by (auto simp: active_lease_def require_token_def ebind_Inr_iff split: option.splits if_splits)

lemma validate_envelope_Inr:
  assumes "validate_envelope e run task plan = Inr t"
  obtains r p where "run = Some r" and "task = Some t" and "plan = Some p"
    and "rn_status r = RRunning" and "\<not> rn_cancellation_requested r"
    and "tk_run_id t = rn_id r" and "tk_task_key t = te_task_id e"
  using assms by (auto simp: validate_envelope_def split: option.splits if_splits)

lemma row_task_SomeD:
  "row_task k s = Some t \<Longrightarrow> t \<in> set (tasks (co_store s)) \<and> task_key t = k"
  by (cases k) (auto simp: row_task_def dest: get_task_SomeD)

lemma store_step_event_other:
  "co_store t = co_store s \<Longrightarrow> store_step s (worker_event a e k b t)"
  by (rule store_step_event [OF store_step_same])

lemma store_step_other: "store_step s u \<Longrightarrow> co_store t = co_store u \<Longrightarrow> store_step s t"
  by (simp add: store_step_def)

text \<open>A move of a task after updates outside the run repository.\<close>

lemma store_step_moved:
  assumes u: "co_store u = co_store s"
    and t: "row_task k s = Some t" "live (tk_status t)" "live st"
  shows "store_step s (move_task k st now u)"
proof -
  have "row_task k u = Some t" using t(1) u by (simp add: row_task_def)
  then have "store_step u (move_task k st now u)" using t(2,3) by (rule store_step_move)
  then show ?thesis by (simp add: store_step_def u)
qed

subsection \<open>Updates of one lease and its envelope\<close>

lemma tbl_upd_const:
  assumes "tbl_wf key rows" and "tbl_get key k rows = Some r"
  shows "tbl_upd key k f rows = tbl_upd key k (\<lambda>_. f r) rows"
  using tbl_upd_where [OF assms] by (auto simp: tbl_upd_def)

lemma lease_tables_step:
  assumes wf: "lease_tables_wf cc s"
    and l: "get_lease k s = Some l" "le_state l = LActive"
    and e: "get_envelope (le_envelope_id l) s = Some e"
    and f: "le_id (f l) = le_id l" "le_envelope_id (f l) = le_envelope_id l"
      "le_worker_id (f l) = le_worker_id l" "le_token_digest (f l) = le_token_digest l"
    and active: "le_state (f l) = LActive \<longrightarrow> st \<in> {ELeased, EExecuting}"
    and completed: "le_state (f l) = LCompleted \<longrightarrow> st \<in> {EValidating, ECompleted}"
    and expiry: "le_expires_at (f l) \<le> en_deadline e"
  shows "lease_tables_wf cc (upd_envelope (en_id e) (set_envelope_state st now) (upd_lease k f s))"
proof -
  have keys: "tbl_wf le_id (co_leases s)" "tbl_wf en_id (co_envelopes s)"
    using wf by (auto simp: lease_tables_wf_def leases_wf_def leases_keys_def)
  have id: "en_id e = le_envelope_id l" using e by (auto simp: get_envelope_def dest: tbl_get_SomeD)
  note row_l = l(1) [unfolded get_lease_def] and row_e = e [unfolded get_envelope_def]
  have "leases_wf (cc_max_worker_concurrency cc) (tbl_upd le_id k (\<lambda>_. f l) (co_leases s))
      (tbl_upd en_id (en_id e) (\<lambda>_. set_envelope_state st now e) (co_envelopes s)) (co_completions s)"
    using f active completed expiry
    by (intro leases_wf_step [OF wf [unfolded lease_tables_wf_def] row_l l(2) row_e])
       (simp_all add: set_envelope_state_def)
  moreover have "tbl_upd le_id k f (co_leases s) = tbl_upd le_id k (\<lambda>_. f l) (co_leases s)"
    by (rule tbl_upd_const [OF keys(1) row_l])
  moreover have "tbl_upd en_id (en_id e) (set_envelope_state st now) (co_envelopes s) =
      tbl_upd en_id (en_id e) (\<lambda>_. set_envelope_state st now e) (co_envelopes s)"
    by (rule tbl_upd_const [OF keys(2) row_e [folded id]])
  ultimately show ?thesis by (simp add: lease_tables_wf_def upd_envelope_def upd_lease_def)
qed

text \<open>The same for a lease alone: the envelope keeps its state.\<close>

lemma upd_same: "tbl_upd key k (\<lambda>x. x) rows = rows"
  by (induction rows) (auto simp: tbl_upd_def)

lemma lease_tables_lease:
  assumes wf: "lease_tables_wf cc s"
    and l: "get_lease k s = Some l" "le_state l = LActive"
    and e: "get_envelope (le_envelope_id l) s = Some e" "en_state e \<in> {ELeased, EExecuting}"
    and f: "le_id (f l) = le_id l" "le_envelope_id (f l) = le_envelope_id l"
      "le_worker_id (f l) = le_worker_id l" "le_token_digest (f l) = le_token_digest l"
    and expiry: "le_expires_at (f l) \<le> en_deadline e"
    and open_still: "le_state (f l) = LActive"
  shows "lease_tables_wf cc (upd_lease k f s)"
proof -
  have keys: "tbl_wf le_id (co_leases s)" "tbl_wf en_id (co_envelopes s)"
    using wf by (auto simp: lease_tables_wf_def leases_wf_def leases_keys_def)
  have id: "en_id e = le_envelope_id l" using e(1) by (auto simp: get_envelope_def dest: tbl_get_SomeD)
  note row_l = l(1) [unfolded get_lease_def] and row_e = e(1) [unfolded get_envelope_def]
  have "leases_wf (cc_max_worker_concurrency cc) (tbl_upd le_id k (\<lambda>_. f l) (co_leases s))
      (tbl_upd en_id (en_id e) (\<lambda>_. e) (co_envelopes s)) (co_completions s)"
    using f expiry e(2) open_still
    by (intro leases_wf_step [OF wf [unfolded lease_tables_wf_def] row_l l(2) row_e, where g = "\<lambda>x. x"])
       simp_all
  moreover have "tbl_upd en_id (en_id e) (\<lambda>_. e) (co_envelopes s) = co_envelopes s"
    using tbl_upd_const [OF keys(2) row_e [folded id], of "\<lambda>x. x"] upd_same by metis
  moreover have "tbl_upd le_id k f (co_leases s) = tbl_upd le_id k (\<lambda>_. f l) (co_leases s)"
    by (rule tbl_upd_const [OF keys(1) row_l])
  ultimately show ?thesis by (simp add: lease_tables_wf_def upd_lease_def)
qed

lemma upd_lease_id: "upd_lease k (\<lambda>l. l) s = s"
  by (simp add: upd_lease_def upd_same)

lemma active_envelope:
  assumes wf: "lease_tables_wf cc s" and l: "l \<in> set (co_leases s)"
    and e: "get_envelope (le_envelope_id l) s = Some e"
  shows "le_expires_at l \<le> en_deadline e"
    and "le_state l = LActive \<Longrightarrow> en_state e \<in> {ELeased, EExecuting}"
    and "le_state l = LCompleted \<Longrightarrow> en_state e \<in> {EValidating, ECompleted}"
proof -
  have w: "leases_wf (cc_max_worker_concurrency cc) (co_leases s) (co_envelopes s) (co_completions s)"
    using wf by (simp add: lease_tables_wf_def)
  obtain e' where e': "e' \<in> set (co_envelopes s)" "en_id e' = le_envelope_id l"
      "le_expires_at l \<le> en_deadline e'" "le_state l = LActive \<longrightarrow> en_state e' \<in> {ELeased, EExecuting}"
      "le_state l = LCompleted \<longrightarrow> en_state e' \<in> {EValidating, ECompleted}"
    using leases_wfD(2) [OF w l] unfolding lease_ok_def by blast
  have "e' = e"
    using tbl_upd_where [OF _ e [unfolded get_envelope_def] e'(1,2)] w
    by (simp add: leases_wf_def leases_keys_def)
  then show "le_expires_at l \<le> en_deadline e"
    and "le_state l = LActive \<Longrightarrow> en_state e \<in> {ELeased, EExecuting}"
    and "le_state l = LCompleted \<Longrightarrow> en_state e \<in> {EValidating, ECompleted}" using e' by auto
qed

lemma get_lease_SomeD: "get_lease k s = Some l \<Longrightarrow> l \<in> set (co_leases s) \<and> le_id l = k"
  by (auto simp: get_lease_def dest: tbl_get_SomeD)

subsection \<open>The operations on a lease\<close>

lemma begin_execution_wf:
  assumes "begin_execution now w k token s = Inr (s', r)" and wf: "lease_tables_wf cc s"
  shows "lease_tables_wf cc s' \<and> store_step s s'"
proof -
  obtain l e where al: "active_lease now w k token s = Inr (l, e)"
    using assms(1) by (auto simp: begin_execution_def ebind_Inr_iff)
  note a = active_lease_Inr [OF al]
  have expiry: "le_expires_at l \<le> en_deadline e"
    using active_envelope(1) [OF wf _ a(2)] get_lease_SomeD [OF a(1)] by blast
  consider "s' = s" | task where "row_task (en_task_row_id e) s = Some task" "tk_status task = TLeased"
    "s' = worker_event (en_run_id e) ''worker.task_execution_started'' (Some (en_task_key e)) True
       (move_task (en_task_row_id e) TExecuting now
         (upd_envelope (en_id e) (set_envelope_state EExecuting now) s))"
    using assms(1) unfolding begin_execution_def al ebind_simps prod.case
    by (cases "row_task (en_task_row_id e) s") (simp_all split: if_splits)
  then show ?thesis
  proof cases
    case 1
    then show ?thesis using wf by simp
  next
    case (2 task)
    have "lease_tables_wf cc (upd_envelope (en_id e) (set_envelope_state EExecuting now) s)"
      using lease_tables_step [OF wf a(1,5,2), of "\<lambda>l. l", unfolded upd_lease_id] expiry a(5)
      by simp
    moreover have "store_step s (move_task (en_task_row_id e) TExecuting now
        (upd_envelope (en_id e) (set_envelope_state EExecuting now) s))"
      using 2(1,2) by (intro store_step_moved [where t = task]) simp_all
    ultimately show ?thesis unfolding 2(3) by (simp add: store_step_event)
  qed
qed

lemma renew_lease_wf:
  assumes "renew_lease cc' now w k token n s = Inr (s', r)" and wf: "lease_tables_wf cc s"
  shows "lease_tables_wf cc s' \<and> store_step s s'"
proof -
  obtain l e where al: "active_lease now w k token s = Inr (l, e)"
    using assms(1) by (auto simp: renew_lease_def ebind_Inr_iff)
  note a = active_lease_Inr [OF al]
  let ?u = "min (en_deadline e) (now + seconds (cc_lease_seconds cc'))"
  have s': "s' = worker_event (en_run_id e) ''worker.lease_renewed'' (Some (en_task_key e)) False
      (upd_lease k (\<lambda>_. l\<lparr>le_revision := le_revision l + 1, le_expires_at := ?u,
         le_last_renewed_at := now\<rparr>) s)"
    using assms(1) al by (auto simp: renew_lease_def Let_def split: if_splits)
  have "lease_tables_wf cc (upd_lease k (\<lambda>_. l\<lparr>le_revision := le_revision l + 1, le_expires_at := ?u,
      le_last_renewed_at := now\<rparr>) s)"
    using active_envelope(2) [OF wf _ a(2) a(5)] get_lease_SomeD [OF a(1)] a(5)
    by (intro lease_tables_lease [OF wf a(1,5,2)]) simp_all
  then show ?thesis unfolding s' by (simp add: store_step_event store_step_same)
qed


subsection \<open>Deliveries\<close>

lemma lease_tables_completion:
  assumes wf: "lease_tables_wf cc s" and new: "get_completion (cm_id c) s = None"
    and ok: "decisive c \<Longrightarrow>
      (\<exists>l \<in> set (co_leases s). le_envelope_id l = cm_envelope_id c \<and> le_state l = LCompleted) \<and>
      (\<forall>c' \<in> set (co_completions s). cm_envelope_id c' \<noteq> cm_envelope_id c)"
  shows "lease_tables_wf cc (s\<lparr>co_completions := co_completions s @ [c]\<rparr>)"
  using leases_wf_completion_added [OF wf [unfolded lease_tables_wf_def]
      new [unfolded get_completion_def] ok]
  by (simp add: lease_tables_wf_def)

lemma completion_stale_None:
  "completion_stale_reason now e l sub = None \<Longrightarrow> le_state l = LActive \<and> now < le_expires_at l"
  by (auto simp: completion_stale_reason_def split: if_splits)

lemma complete_lease_Inr:
  assumes "complete_lease now l e s = Inr s'"
  obtains task where "row_task (en_task_row_id e) s = Some task"
    and "tk_status task \<in> {TLeased, TExecuting}"
    and "s' = move_task (en_task_row_id e) TValidating now
       (upd_envelope (en_id e) (set_envelope_state EValidating now)
         (upd_lease (le_id l) (\<lambda>l. l\<lparr>le_state := LCompleted, le_completed_at := Some now\<rparr>) s))"
  using assms by (cases "row_task (en_task_row_id e) s") (auto simp: complete_lease_def split: if_splits)

lemma deliver_new_wf:
  assumes deliver: "deliver_new cc' now w sub l e imm s = Inr (s', row)"
    and wf: "lease_tables_wf cc s" and new: "get_completion (su_id sub) s = None"
    and l: "get_lease (su_lease_id sub) s = Some l" and e: "get_envelope (su_envelope_id sub) s = Some e"
    and env: "le_envelope_id l = en_id e"
  shows "lease_tables_wf cc s' \<and> store_step s s'"
proof -
  let ?reason = "completion_stale_reason now imm l sub"
  let ?st = "delivery_state (en_id e) ?reason s"
  let ?row = "completion_row_of cc' now w sub ?st ?reason"
  let ?s1 = "s\<lparr>co_completions := co_completions s @ [?row]\<rparr>"
  obtain s2 where s2: "(if ?st = CDelivered then complete_lease now l e ?s1 else Inr ?s1) = Inr s2"
    and s': "s' = worker_event (en_run_id e) (delivery_event ?st) (Some (en_task_key e))
        (?st \<noteq> CDelivered) s2"
    using deliver unfolding deliver_new_def Let_def ebind_Inr_iff by blast
  have id: "su_envelope_id sub = en_id e" "le_id l = su_lease_id sub"
    using e get_lease_SomeD [OF l] by (auto simp: get_envelope_def dest: tbl_get_SomeD)
  have fields: "cm_id ?row = su_id sub" "cm_envelope_id ?row = en_id e" "cm_state ?row = ?st"
    by (simp_all add: completion_row_of_def id)
  have "lease_tables_wf cc s2 \<and> store_step s s2"
  proof (cases "?st = CDelivered")
    case False
    then have dec: "\<not> decisive ?row" unfolding decisive_def fields(3)
      by (auto simp: delivery_state_def split: if_splits)
    have "s2 = ?s1" using s2 False by simp
    moreover have "lease_tables_wf cc ?s1"
      using new dec by (intro lease_tables_completion [OF wf]) (simp_all add: fields)
    ultimately show ?thesis by (simp add: store_step_same)
  next
    case True
    then have prior: "\<forall>c \<in> set (co_completions s). cm_envelope_id c \<noteq> en_id e" and "?reason = None"
      by (auto simp: delivery_state_def list_ex_iff split: if_splits)
    then have active: "le_state l = LActive" using completion_stale_None by blast
    have "complete_lease now l e ?s1 = Inr s2" using s2 True by simp
    then obtain task where task: "row_task (en_task_row_id e) ?s1 = Some task"
        "tk_status task \<in> {TLeased, TExecuting}"
      and s2': "s2 = move_task (en_task_row_id e) TValidating now
        (upd_envelope (en_id e) (set_envelope_state EValidating now) (upd_lease (le_id l)
          (\<lambda>l. l\<lparr>le_state := LCompleted, le_completed_at := Some now\<rparr>) ?s1))"
      by (rule complete_lease_Inr)
    let ?t = "upd_envelope (en_id e) (set_envelope_state EValidating now) (upd_lease (le_id l)
        (\<lambda>l. l\<lparr>le_state := LCompleted, le_completed_at := Some now\<rparr>) s)"
    have e': "get_envelope (le_envelope_id l) s = Some e" using e id env by simp
    have l': "get_lease (le_id l) s = Some l" using l id by simp
    have expiry: "le_expires_at l \<le> en_deadline e"
      using active_envelope(1) [OF wf _ e'] get_lease_SomeD [OF l] by blast
    have t: "lease_tables_wf cc ?t"
      using expiry by (intro lease_tables_step [OF wf l' active e']) simp_all
    have "l\<lparr>le_state := LCompleted, le_completed_at := Some now\<rparr> \<in> set (co_leases ?t)"
      using get_lease_SomeD [OF l'] by (auto simp: upd_lease_def set_tbl_upd)
    then have fin: "\<exists>x \<in> set (co_leases ?t). le_envelope_id x = cm_envelope_id ?row \<and> le_state x = LCompleted"
      using env fields(2) by (elim bexI [rotated]) simp
    have "lease_tables_wf cc (?t\<lparr>co_completions := co_completions ?t @ [?row]\<rparr>)"
      using new prior fin
      by (intro lease_tables_completion [OF t]) (simp_all add: fields get_completion_def)
    then have "lease_tables_wf cc s2"
      unfolding s2' lease_tables_simps
      by (rule lease_tables_cong [THEN iffD1, rotated 3]) (simp_all add: upd_envelope_def upd_lease_def)
    moreover have "store_step s s2"
      unfolding s2' using task
      by (intro store_step_moved [where t = task]) (auto simp: row_task_def)
    ultimately show ?thesis by blast
  qed
  then show ?thesis unfolding s' by (simp add: store_step_event)
qed

lemma deliver_completion_wf:
  assumes "deliver_completion cc' now w sub token s = Inr (s', row)" and wf: "lease_tables_wf cc s"
  shows "lease_tables_wf cc s' \<and> store_step s s'"
proof (cases "get_completion (su_id sub) s")
  case (Some c)
  then have "s' = s" using assms(1) by (auto simp: deliver_completion_def split: if_splits)
  then show ?thesis using wf by simp
next
  case None
  obtain e l where e: "get_envelope (su_envelope_id sub) s = Some e" and l: "get_lease (su_lease_id sub) s = Some l"
    using assms(1) None by (auto simp: deliver_completion_def split: if_splits option.splits)
  obtain imm where "le_envelope_id l = en_id e" "deliver_new cc' now w sub l e imm s = Inr (s', row)"
    using assms(1) None e l unfolding deliver_completion_def
    by (auto simp: ebind_Inr_iff split: if_splits)
  then show ?thesis using deliver_new_wf [OF _ wf None l e] by blast
qed


subsection \<open>Expiry and reconciliation\<close>

lemma release_expired_fields [simp]:
  "co_leases (release_expired now e s) = co_leases s"
  "co_completions (release_expired now e s) = co_completions s"
  "co_envelopes (release_expired now e s) = tbl_upd en_id (en_id e)
     (set_envelope_state (if en_stateful_effects e then EReconciliation else EExpired) now)
     (co_envelopes s)"
  by (auto simp: release_expired_def Let_def upd_envelope_def split: option.split)

lemma release_expired_store: "store_step s (release_expired now e s)"
proof (cases "en_stateful_effects e")
  case False
  let ?s1 = "upd_envelope (en_id e) (set_envelope_state EExpired now) s"
  let ?s2 = "case row_task (en_task_row_id e) ?s1 of None \<Rightarrow> ?s1
     | Some task \<Rightarrow> if tk_status task \<in> {TLeased, TExecuting}
         then move_task (en_task_row_id e) TEligible now ?s1 else ?s1"
  have "store_step s ?s2"
  proof (cases "row_task (en_task_row_id e) ?s1")
    case (Some task)
    then have "row_task (en_task_row_id e) s = Some task" by (simp add: row_task_def)
    then have "tk_status task \<in> {TLeased, TExecuting} \<Longrightarrow>
        store_step s (move_task (en_task_row_id e) TEligible now ?s1)"
      by (intro store_step_moved [where t = task]) auto
    then show ?thesis using Some by (simp add: store_step_same)
  qed (simp add: store_step_same)
  then have "store_step s (upd_placement_of (en_id e) (requeue_placement now) ?s2)"
    by (simp add: store_step_def)
  then show ?thesis unfolding release_expired_def Let_def using False by (simp only: if_False)
qed (simp add: release_expired_def store_step_same)

text \<open>A lease that is due is still due when its turn in the loop comes.\<close>

lemma expire_one_other:
  assumes "le_id l \<noteq> k" and "get_lease k s = Some l'"
  shows "get_lease k (fst (expire_one now l (s, xs))) = Some l'"
  using assms
  by (auto simp: expire_one_def get_lease_def upd_lease_def tbl_get_upd split: option.split)

lemma expire_one_wf:
  assumes wf: "lease_tables_wf cc s" and l: "get_lease (le_id l) s = Some l" "le_state l = LActive"
  shows "lease_tables_wf cc (fst (expire_one now l (s, xs))) \<and> store_step s (fst (expire_one now l (s, xs)))"
proof (cases "get_envelope (le_envelope_id l) s")
  case None
  then show ?thesis using wf by (simp add: expire_one_def)
next
  case (Some e)
  let ?f = "\<lambda>l. l\<lparr>le_state := LExpired, le_revision := le_revision l + 1\<rparr>"
  let ?st = "if en_stateful_effects e then EReconciliation else EExpired"
  have expiry: "le_expires_at l \<le> en_deadline e"
    using active_envelope(1) [OF wf _ Some] get_lease_SomeD [OF l(1)] by blast
  have "lease_tables_wf cc (upd_envelope (en_id e) (set_envelope_state ?st now) (upd_lease (le_id l) ?f s))"
    using expiry by (intro lease_tables_step [OF wf l Some]) simp_all
  then have "lease_tables_wf cc (release_expired now e (upd_lease (le_id l) ?f s))"
    by (rule lease_tables_cong [THEN iffD1, rotated 3]) (simp_all add: upd_envelope_def)
  moreover have "store_step s (release_expired now e (upd_lease (le_id l) ?f s))"
    using release_expired_store [of "upd_lease (le_id l) ?f s"] by (simp add: store_step_def)
  ultimately show ?thesis using Some by (simp add: expire_one_def store_step_event)
qed

lemma expire_fold_wf:
  assumes "lease_tables_wf cc s" and "distinct (map le_id ls)"
    and "\<And>l. l \<in> set ls \<Longrightarrow> get_lease (le_id l) s = Some l \<and> le_state l = LActive"
  shows "lease_tables_wf cc (fst (fold (expire_one now) ls (s, xs))) \<and>
    store_step s (fst (fold (expire_one now) ls (s, xs)))"
  using assms
proof (induction ls arbitrary: s xs)
  case (Cons l ls)
  let ?s1 = "fst (expire_one now l (s, xs))" and ?x1 = "snd (expire_one now l (s, xs))"
  have first: "lease_tables_wf cc ?s1 \<and> store_step s ?s1"
    using Cons.prems by (intro expire_one_wf) auto
  have "get_lease (le_id x) ?s1 = Some x \<and> le_state x = LActive" if "x \<in> set ls" for x
    using Cons.prems that by (auto intro!: expire_one_other)
  then have "lease_tables_wf cc (fst (fold (expire_one now) ls (?s1, ?x1))) \<and>
      store_step ?s1 (fst (fold (expire_one now) ls (?s1, ?x1)))"
    using first Cons.prems(2) by (intro Cons.IH) auto
  then show ?case using first store_step_trans [of s ?s1] by simp
qed simp

lemma expire_leases_wf:
  assumes "expire_leases now s = Inr (s', xs)" and wf: "lease_tables_wf cc s"
  shows "lease_tables_wf cc s' \<and> store_step s s'"
proof -
  have keys: "tbl_wf le_id (co_leases s)"
    using wf by (auto simp: lease_tables_wf_def leases_wf_def leases_keys_def)
  have s': "s' = fst (fold (expire_one now) (due_leases now s) (s, []))"
    using assms(1) by (simp add: expire_leases_def)
  show ?thesis unfolding s'
  proof (rule expire_fold_wf [OF wf])
    show "distinct (map le_id (due_leases now s))"
      using keys by (simp add: due_leases_def distinct_map_filter)
    show "get_lease (le_id l) s = Some l \<and> le_state l = LActive" if "l \<in> set (due_leases now s)" for l
      using that keys by (auto simp: due_leases_def get_lease_def tbl_get_Some_iff)
  qed
qed

lemma lease_tables_envelope:
  assumes wf: "lease_tables_wf cc s"
    and "\<And>l. l \<in> set (co_leases s) \<Longrightarrow> le_envelope_id l = k \<Longrightarrow> le_state l \<noteq> LActive"
    and "\<And>l. l \<in> set (co_leases s) \<Longrightarrow> le_envelope_id l = k \<Longrightarrow> le_state l = LCompleted \<Longrightarrow>
      st \<in> {EValidating, ECompleted}"
  shows "lease_tables_wf cc (upd_envelope k (set_envelope_state st now) s)"
  using leases_wf_envelope [OF wf [unfolded lease_tables_wf_def] assms(2),
      of k "set_envelope_state st now"] assms(3)
  by (simp add: lease_tables_wf_def upd_envelope_def set_envelope_state_def)

lemma reconcile_wf:
  assumes "reconcile_expired_envelope now k rep s = Inr (s', u)" and wf: "lease_tables_wf cc s"
  shows "lease_tables_wf cc s' \<and> store_step s s'"
proof -
  obtain e task where e: "get_envelope k s = Some e" "en_state e = EReconciliation"
    and task: "row_task (en_task_row_id e) s = Some task" "tk_status task \<in> {TLeased, TExecuting}"
    and s': "s' = worker_event (en_run_id e) ''worker.effects_reconciled'' (Some (en_task_key e)) True
      (move_task (en_task_row_id e) TEligible now (upd_placement_of (en_id e) (requeue_placement now)
        (upd_envelope (en_id e) (set_envelope_state EExpired now) s)))"
    using assms(1) by (auto simp: reconcile_expired_envelope_def split: option.splits if_splits)
  have id: "en_id e = k" using e(1) by (auto simp: get_envelope_def dest: tbl_get_SomeD)
  have idle: "le_state l \<noteq> LActive \<and> le_state l \<noteq> LCompleted"
    if "l \<in> set (co_leases s)" "le_envelope_id l = en_id e" for l
  proof -
    have "get_envelope (le_envelope_id l) s = Some e" using that(2) id e(1) by simp
    then show ?thesis using active_envelope(2,3) [OF wf that(1)] e(2) by auto
  qed
  have "lease_tables_wf cc (upd_envelope (en_id e) (set_envelope_state EExpired now) s)"
    using idle by (intro lease_tables_envelope [OF wf]) auto
  moreover have "store_step s (move_task (en_task_row_id e) TEligible now
      (upd_placement_of (en_id e) (requeue_placement now)
        (upd_envelope (en_id e) (set_envelope_state EExpired now) s)))"
    using task by (intro store_step_moved [where t = task]) auto
  ultimately show ?thesis unfolding s' by (simp add: store_step_event)
qed


subsection \<open>Grants\<close>

lemma insert_envelope_Inr:
  "insert_envelope row s = Inr s' \<longleftrightarrow>
     en_id row \<notin> en_id ` set (co_envelopes s) \<and>
     en_fingerprint row \<notin> en_fingerprint ` set (co_envelopes s) \<and>
     attempt_key row \<notin> attempt_key ` set (co_envelopes s) \<and>
     s' = s\<lparr>co_envelopes := co_envelopes s @ [row]\<rparr>"
  by (auto simp: insert_envelope_def)

lemma insert_lease_Inr:
  "insert_lease row s = Inr s' \<longleftrightarrow>
     le_id row \<notin> le_id ` set (co_leases s) \<and>
     le_envelope_id row \<notin> le_envelope_id ` set (co_leases s) \<and>
     le_token_digest row \<notin> le_token_digest ` set (co_leases s) \<and>
     (le_claim_id row = None \<or> le_claim_id row \<notin> le_claim_id ` set (co_leases s)) \<and>
     s' = s\<lparr>co_leases := co_leases s @ [row]\<rparr>"
  by (auto simp: insert_lease_def)

lemma grant_lease_Inr:
  assumes "grant_lease cc now lease_id claim token e s = Inr (s', lease)"
  shows "lease = lease_row_of cc now lease_id claim token e"
    and "s' = lease_task e now (s\<lparr>co_envelopes := co_envelopes s @ [envelope_row_of cc now e],
      co_leases := co_leases s @ [lease]\<rparr>)"
    and "te_id e \<notin> en_id ` set (co_envelopes s)"
    and "(te_task_row_id e, te_task_attempt e) \<notin> attempt_key ` set (co_envelopes s)"
    and "lease_id \<notin> le_id ` set (co_leases s)" and "te_id e \<notin> le_envelope_id ` set (co_leases s)"
    and "token \<notin> le_token_digest ` set (co_leases s)"
  using assms
  by (auto simp: grant_lease_def Let_def ebind_Inr_iff insert_envelope_Inr insert_lease_Inr
      envelope_row_of_def lease_row_of_def)

lemma lease_task_fields [simp]:
  "co_leases (lease_task e now s) = co_leases s" "co_envelopes (lease_task e now s) = co_envelopes s"
  "co_completions (lease_task e now s) = co_completions s"
  "co_placements (lease_task e now s) = co_placements s"
  by (simp_all add: lease_task_def)

lemma grant_lease_wf:
  assumes grant: "grant_lease cc now lease_id claim token e s = Inr (s', lease)"
    and wf: "lease_tables_wf cc s"
    and task: "row_task (te_task_row_id e) s = Some t" "tk_status t = TEligible"
      "te_task_attempt e = tk_attempt_count t + 1"
    and row: "te_task_row_id e = (te_run_id e, te_task_id e)"
    and cap: "active_count (te_worker_id e) s < cc_max_worker_concurrency cc"
  shows "lease_tables_wf cc s' \<and> store_step s s'"
proof -
  note g = grant_lease_Inr [OF grant]
  let ?e = "envelope_row_of cc now e"
  have "leases_wf (cc_max_worker_concurrency cc) (co_leases s @ [lease]) (co_envelopes s @ [?e]) (co_completions s)"
    using g(3-7) row cap
    by (intro leases_wf_granted [OF wf [unfolded lease_tables_wf_def]])
       (simp_all add: envelope_row_of_def g(1) lease_row_of_def active_count_held)
  then have "lease_tables_wf cc s'" by (simp add: lease_tables_wf_def g(2))
  moreover have "store_step s s'"
  proof -
    let ?u = "s\<lparr>co_envelopes := co_envelopes s @ [?e], co_leases := co_leases s @ [lease]\<rparr>"
    have "store_step ?u (lease_task e now ?u)"
      using task by (intro store_step_lease [where t = t]) (simp_all add: row_task_def)
    then show ?thesis unfolding g(2) by (simp add: store_step_def)
  qed
  ultimately show ?thesis by blast
qed

lemma issue_lease_Inr:
  assumes issue: "issue_lease cc now e0 lease_id token s = Inr (s', lease)"
  obtains e task s1 where "grant_lease cc now lease_id None token e s = Inr (s1, lease)"
    and "row_task (te_task_row_id e) s = Some task" and "tk_status task = TEligible"
    and "te_task_attempt e = tk_attempt_count task + 1"
    and "te_task_row_id e = (te_run_id e, te_task_id e)"
    and "active_count (te_worker_id e) s < cc_max_worker_concurrency cc"
    and "s' = worker_event (te_run_id e) ''worker.task_leased'' (Some (te_task_id e)) True s1"
proof -
  define e where "e = e0\<lparr>te_deadline := min (te_deadline e0)
    (now + seconds (rl_timeout_seconds (te_resources e0)))\<rparr>"
  obtain task s1 where check: "check_worker_for cc now e s = Inr ()"
    and val: "validate_envelope e (get_run (co_store s) (te_run_id e)) (row_task (te_task_row_id e) s)
        (tbl_get pl_run_id (te_run_id e) (plans (co_store s))) = Inr task"
    and elig: "tk_status task = TEligible" "te_task_attempt e = tk_attempt_count task + 1"
    and grant: "duplicate_on_integrity (grant_lease cc now lease_id None token e s) = Inr (s1, lease)"
    and s': "s' = worker_event (te_run_id e) ''worker.task_leased'' (Some (te_task_id e)) True s1"
    using issue unfolding issue_lease_def Let_def e_def [symmetric] ebind_Inr_iff
    by (auto split: if_splits simp: ebind_Inr_iff)
  obtain r where r: "get_run (co_store s) (te_run_id e) = Some r"
    and task: "row_task (te_task_row_id e) s = Some task" "tk_run_id task = rn_id r"
      "tk_task_key task = te_task_id e"
    using val by (rule validate_envelope_Inr) auto
  have row: "te_task_row_id e = (te_run_id e, te_task_id e)"
    using row_task_SomeD [OF task(1)] task(2,3) get_run_SomeD [OF r] by auto
  have cap: "active_count (te_worker_id e) s < cc_max_worker_concurrency cc"
    using check by (auto simp: check_worker_for_def ebind_Inr_iff lease_capacity_def split: if_splits)
  have "grant_lease cc now lease_id None token e s = Inr (s1, lease)"
    using grant by (simp add: duplicate_on_integrity_def split: if_splits)
  then show thesis using that task(1) elig row cap s' by blast
qed

lemma issue_lease_wf:
  assumes issue: "issue_lease cc now e0 lease_id token s = Inr (s', lease)" and wf: "lease_tables_wf cc s"
  shows "lease_tables_wf cc s' \<and> store_step s s'"
  using issue
proof (rule issue_lease_Inr)
  fix e task s1
  assume "grant_lease cc now lease_id None token e s = Inr (s1, lease)"
    "row_task (te_task_row_id e) s = Some task" "tk_status task = TEligible"
    "te_task_attempt e = tk_attempt_count task + 1" "te_task_row_id e = (te_run_id e, te_task_id e)"
    "active_count (te_worker_id e) s < cc_max_worker_concurrency cc"
    and s': "s' = worker_event (te_run_id e) ''worker.task_leased'' (Some (te_task_id e)) True s1"
  then have "lease_tables_wf cc s1 \<and> store_step s s1" using grant_lease_wf wf by blast
  then show ?thesis unfolding s' by (simp add: store_step_event)
qed

lemma cancel_placements_fields [simp]:
  "co_store (cancel_placements now ids s) = co_store s"
  "co_leases (cancel_placements now ids s) = co_leases s"
  "co_envelopes (cancel_placements now ids s) = co_envelopes s"
  "co_completions (cancel_placements now ids s) = co_completions s"
  by (simp_all add: cancel_placements_def)

lemma claim_placement_Inr:
  assumes claim: "claim_placement cc now w req eid lid p s = Inr (s', out)"
  obtains e task s1 lease rows where
      "grant_lease cc now lid (Some (cr_id req)) (cr_token req) e s = Inr (s1, lease)"
    and "row_task (te_task_row_id e) s = Some task" and "tk_status task = TEligible"
    and "te_task_attempt e = tk_attempt_count task + 1"
    and "te_task_row_id e = (te_run_id e, te_task_id e)" and "te_worker_id e = w"
    and "out = Some (e, lease)"
    and "s' = worker_event (te_run_id e) ''worker.task_claimed'' (Some (te_task_id e)) True
       (s1\<lparr>co_placements := rows\<rparr>)"
proof -
  obtain run task plan where found: "get_run (co_store s) (pm_run_id p) = Some run"
      "row_task (pm_task_row_id p) s = Some task" "tbl_get pl_run_id (pm_run_id p) (plans (co_store s)) = Some plan"
    using claim by (auto simp: claim_placement_def split: option.splits)
  define e where "e = envelope_for now w eid p run task plan"
  obtain t s1 lease where val: "validate_envelope e (Some run) (Some task) (Some plan) = Inr t"
    and elig: "tk_status task = TEligible" and out: "out = Some (e, lease)"
    and grant: "grant_lease cc now lid (Some (cr_id req)) (cr_token req) e s = Inr (s1, lease)"
    and s': "s' = worker_event (rn_id run) ''worker.task_claimed'' (Some (tk_task_key task)) True
      (s1\<lparr>co_placements := tbl_upd pm_id (pm_id p)
         (\<lambda>x. set_placement PLeased now (x\<lparr>pm_selected_worker_id := Some w,
            pm_current_envelope_id := Some (te_id e)\<rparr>)) (co_placements s1)\<rparr>)"
    using claim unfolding claim_placement_def found option.case prod.case Let_def e_def [symmetric]
    by (auto split: if_splits simp: ebind_Inr_iff)
  have same: "tk_run_id task = rn_id run" "tk_task_key task = te_task_id e"
    using val by (rule validate_envelope_Inr, auto)+
  have fields: "te_task_row_id e = task_key task" "te_run_id e = rn_id run" "te_worker_id e = w"
    "te_task_attempt e = tk_attempt_count task + 1"
    by (simp_all add: e_def envelope_for_def Let_def)
  have "row_task (te_task_row_id e) s = Some task"
    using found(2) row_task_SomeD [OF found(2)] fields(1) by simp
  then show thesis
    by (rule that [OF grant _ elig fields(4) _ fields(3) out]) (simp_all add: fields(1,2) same s')
qed

lemma claim_placement_wf:
  assumes claim: "claim_placement cc now w req eid lid p s = Inr (s', out)"
    and wf: "lease_tables_wf cc s" and cap: "active_count w s < cc_max_worker_concurrency cc"
  shows "lease_tables_wf cc s' \<and> store_step s s'"
  using claim
proof (rule claim_placement_Inr)
  fix e task s1 lease rows
  assume grant: "grant_lease cc now lid (Some (cr_id req)) (cr_token req) e s = Inr (s1, lease)"
    and e: "row_task (te_task_row_id e) s = Some task" "tk_status task = TEligible"
      "te_task_attempt e = tk_attempt_count task + 1" "te_task_row_id e = (te_run_id e, te_task_id e)"
      "te_worker_id e = w"
    and s': "s' = worker_event (te_run_id e) ''worker.task_claimed'' (Some (te_task_id e)) True
       (s1\<lparr>co_placements := rows\<rparr>)"
  have "lease_tables_wf cc s1 \<and> store_step s s1"
    using grant_lease_wf [OF grant wf e(1-4)] cap e(5) by simp
  then show ?thesis unfolding s'
    by (auto intro!: store_step_event intro: store_step_other simp: lease_tables_wf_def)
qed

lemma claim_next_cases:
  assumes claim: "claim_next cc now w req eid lid s = Inr (s', out)"
  obtains (unchanged) "s' = s"
  | (late) ids where "s' = cancel_placements now ids s"
  | (placed) ids p where "claim_placement cc now w req eid lid p (cancel_placements now ids s) = Inr (s', out)"
      "active_count w s < cc_max_worker_concurrency cc"
proof (cases "tbl_get le_claim_id (Some (cr_id req)) (co_leases s)")
  case (Some previous)
  then have "repeat_claim cc w req previous s = Inr (s', out)"
    using claim by (auto simp: claim_next_def ebind_Inr_iff)
  then have "s' = s"
    by (auto simp: repeat_claim_def ebind_Inr_iff split: if_splits option.splits)
  then show ?thesis by (rule unchanged)
next
  case None
  obtain ad where main: "(if lease_capacity cc ad \<le> active_count w s then Inr (s, None)
      else case scan_placements now ad (queued_for w s) of
             (late, None) \<Rightarrow> Inr (cancel_placements now late s, None)
           | (late, Some p) \<Rightarrow> claim_placement cc now w req eid lid p (cancel_placements now late s))
      = Inr (s', out)"
    using claim unfolding claim_next_def ebind_Inr_iff None option.case by blast
  show ?thesis
  proof (cases "lease_capacity cc ad \<le> active_count w s")
    case True
    then show ?thesis using main unchanged by simp
  next
    case False
    then have cap: "active_count w s < cc_max_worker_concurrency cc" by (auto simp: lease_capacity_def)
    obtain ids sel where scan: "scan_placements now ad (queued_for w s) = (ids, sel)" by fastforce
    then show ?thesis
      using main False late placed [OF _ cap] by (cases sel) auto
  qed
qed

lemma claim_next_wf:
  assumes claim: "claim_next cc now w req eid lid s = Inr (s', out)" and wf: "lease_tables_wf cc s"
  shows "lease_tables_wf cc s' \<and> store_step s s'"
  using claim
proof (cases rule: claim_next_cases)
  case unchanged
  then show ?thesis using wf by simp
next
  case (late ids)
  then show ?thesis using wf by (simp add: lease_tables_wf_def store_step_same)
next
  case (placed ids p)
  let ?t = "cancel_placements now ids s"
  have "lease_tables_wf cc ?t" using wf by (simp add: lease_tables_wf_def)
  moreover have "active_count w ?t < cc_max_worker_concurrency cc"
    using placed(2) by (simp add: active_count_def)
  ultimately have "lease_tables_wf cc s' \<and> store_step ?t s'" by (rule claim_placement_wf [OF placed(1)])
  then show ?thesis by (simp add: store_step_def)
qed

subsection \<open>Acceptances\<close>

lemma mark_accepted_tables:
  assumes wf: "lease_tables_wf cc s" and c: "get_completion k s = Some c" "cm_state c = CDelivered"
    and e: "cm_envelope_id c = eid"
  shows "lease_tables_wf cc (mark_accepted now k eid s)"
proof -
  let ?f = "\<lambda>c. c\<lparr>cm_state := CAccepted, cm_accepted_at := Some now, cm_decided_at := Some now\<rparr>"
  have w: "leases_wf (cc_max_worker_concurrency cc) (co_leases s) (co_envelopes s) (co_completions s)"
    using wf by (simp add: lease_tables_wf_def)
  have keys: "tbl_wf cm_id (co_completions s)" "tbl_wf le_envelope_id (co_leases s)"
    using leases_wfD(1) [OF w] by (auto simp: leases_keys_def)
  have c_in: "c \<in> set (co_completions s)" "cm_id c = k"
    using c(1) by (auto simp: get_completion_def dest: tbl_get_SomeD)
  have "decisive x" if "x \<in> set (co_completions s)" "cm_id x = k" for x
    using tbl_upd_where [OF keys(1) c(1) [unfolded get_completion_def] that] c(2)
    by (simp add: decisive_def)
  then have "leases_wf (cc_max_worker_concurrency cc) (co_leases s) (co_envelopes s)
      (tbl_upd cm_id k ?f (co_completions s))"
    by (intro leases_wf_completion_updated [OF w]) simp_all
  then have t: "lease_tables_wf cc (upd_completion k ?f s)"
    by (simp add: lease_tables_wf_def upd_completion_def)
  obtain l where l: "l \<in> set (co_leases s)" "le_envelope_id l = eid" "le_state l = LCompleted"
    using leases_wfD(4) [OF w c_in(1)] c(2) e by (auto simp: decisive_def)
  have "x = l" if "x \<in> set (co_leases s)" "le_envelope_id x = eid" for x
    using that l keys(2) by (metis distinct_map inj_onD)
  then show ?thesis
    using l(3) unfolding mark_accepted_def lease_tables_simps
    by (intro lease_tables_envelope [OF t]) auto
qed

lemma insert_evidence_fields:
  assumes "insert_evidence now rid c e task res review s = Inr s'"
  shows "co_leases s' = co_leases s" and "co_envelopes s' = co_envelopes s"
    and "co_completions s' = co_completions s" and "co_placements s' = co_placements s"
  using assms by (auto simp: insert_evidence_def Let_def ebind_Inr_iff split: if_splits)

lemma finish_run_fields [simp]:
  "co_leases (finish_run now r s) = co_leases s" "co_envelopes (finish_run now r s) = co_envelopes s"
  "co_completions (finish_run now r s) = co_completions s"
  by (simp_all add: finish_run_def)

lemma accept_completion_cases:
  assumes "accept_completion cc now rid k res review s = Inr (s', out)"
  obtains (known) c f where "get_completion k s = Some c"
      "s' = s \<or> s' = upd_completion k f s"
      "f = (\<lambda>c. c\<lparr>cm_state := CDuplicate, cm_decided_at := Some now,
         cm_decision_reason := Some ''another valid completion was already accepted''\<rparr>)"
  | (new) c e task run where "get_completion k s = Some c" "get_envelope (cm_envelope_id c) s = Some e"
      "row_task (en_task_row_id e) s = Some task" "get_run (co_store s) (en_run_id e) = Some run"
      "tbl_get ta_task_row_id (task_key task) (co_task_acceptances s) = None"
      "accept_delivered cc now rid c e run task res review s = Inr s'"
proof -
  obtain c e task run where r: "get_completion k s = Some c" "get_envelope (cm_envelope_id c) s = Some e"
      "row_task (en_task_row_id e) s = Some task" "get_run (co_store s) (en_run_id e) = Some run"
    using assms by (auto simp: accept_completion_def split: option.splits)
  have id: "cm_id c = k" using r(1) by (auto simp: get_completion_def dest: tbl_get_SomeD)
  show thesis
  proof (cases "tbl_get ta_task_row_id (task_key task) (co_task_acceptances s)")
    case None
    then show ?thesis using assms r
      by (intro new [OF r]) (auto simp: accept_completion_def ebind_Inr_iff)
  next
    case (Some a)
    then show ?thesis using assms r id
      by (intro known [OF r(1) _ refl]) (auto simp: accept_completion_def Let_def)
  qed
qed

lemma accept_completion_wf:
  assumes accept: "accept_completion cc' now rid k res review s = Inr (s', out)"
    and wf: "lease_tables_wf cc s"
  shows "lease_tables_wf cc s' \<and> store_step s s'"
  using accept
proof (cases rule: accept_completion_cases)
  case (known c f)
  have "lease_tables_wf cc (upd_completion k f s)"
    using leases_wf_completion_updated [OF wf [unfolded lease_tables_wf_def], of f k]
    by (simp add: lease_tables_wf_def upd_completion_def known(3) decisive_def)
  then show ?thesis using known(2) wf by (auto simp: store_step_same)
next
  case (new c e task run)
  have w: "leases_wf (cc_max_worker_concurrency cc) (co_leases s) (co_envelopes s) (co_completions s)"
    using wf by (simp add: lease_tables_wf_def)
  have e: "e \<in> set (co_envelopes s)" "en_id e = cm_envelope_id c"
    using new(2) by (auto simp: get_envelope_def dest: tbl_get_SomeD)
  have id: "cm_id c = k" using new(1) by (auto simp: get_completion_def dest: tbl_get_SomeD)
  obtain u s1 where check: "check_completion cc' c run task res review (co_store s) = Inr u"
    and ev: "insert_evidence now rid c e task res review s = Inr s1"
    and s': "s' = finish_run now (rn_id run) (upd_store (release_dependents (rn_id run) now)
      (worker_event (rn_id run) ''worker.completion_accepted'' (Some (tk_task_key task)) True
        (move_task (task_key task) TAccepted now (mark_accepted now (cm_id c) (en_id e) s1))))"
    using new(6) by (auto simp: accept_delivered_def ebind_Inr_iff)
  note f = insert_evidence_fields [OF ev]
  have "lease_tables_wf cc s1" using wf f by (simp add: lease_tables_wf_def)
  moreover have "get_completion k s1 = Some c" using new(1) f by (simp add: get_completion_def)
  ultimately have "lease_tables_wf cc (mark_accepted now k (en_id e) s1)"
    using check_completion_Inr(1) [OF check] e(2) by (intro mark_accepted_tables) auto
  then have "lease_tables_wf cc s'"
    unfolding s' id by (rule lease_tables_cong [THEN iffD1, rotated 3]) simp_all
  moreover have "store_step s s'"
    using accept_delivered_store [OF new(6,4,3)] leases_wfD(3) [OF w e(1)] by simp
  ultimately show ?thesis by blast
qed


subsection \<open>Heartbeats, placements and uploads\<close>

lemma frame_tables:
  assumes "co_leases s' = co_leases s" "co_envelopes s' = co_envelopes s"
    "co_completions s' = co_completions s" "store_step s s'" "lease_tables_wf cc s"
  shows "lease_tables_wf cc s' \<and> store_step s s'"
  using lease_tables_cong [OF assms(1-3)] assms(4,5) by simp

lemma record_heartbeat_wf:
  assumes "record_heartbeat cc' now hb s = Inr (s', r)" and wf: "lease_tables_wf cc s"
  shows "lease_tables_wf cc s' \<and> store_step s s'"
proof -
  have "s' = s \<or> s' = write_heartbeat cc' now hb s"
    using assms(1) by (auto simp: record_heartbeat_def ebind_Inr_iff Let_def split: if_splits option.splits)
  then show ?thesis using wf
    by (auto simp: write_heartbeat_def Let_def lease_tables_wf_def intro: store_step_event_other)
qed

lemma queue_placement_wf:
  assumes "queue_placement cc' now req s = Inr (s', r)" and wf: "lease_tables_wf cc s"
  shows "lease_tables_wf cc s' \<and> store_step s s'"
proof -
  obtain rows where "s' = s \<or> s' = worker_event (pr_run_id req) ''worker.task_placement_queued''
      (Some (pr_task_id req)) True (s\<lparr>co_placements := rows\<rparr>)"
    using assms(1)
    by (auto simp: queue_placement_def ebind_Inr_iff Let_def split: if_splits option.splits)
  then show ?thesis using wf
    by (auto simp: lease_tables_wf_def intro: store_step_event_other)
qed

lemma uploads_wf:
  assumes "lease_tables_wf cc s"
  shows "register_artifact_upload cc' now w k uid rq token s = Inr (s', u) \<Longrightarrow>
      lease_tables_wf cc s' \<and> store_step s s'"
    and "complete_artifact_upload now w uid aid token s = Inr (s', u) \<Longrightarrow>
      lease_tables_wf cc s' \<and> store_step s s'"
proof -
  assume "register_artifact_upload cc' now w k uid rq token s = Inr (s', u)"
  then obtain us where "s' = s \<or> s' = s\<lparr>co_uploads := us\<rparr>"
    by (auto simp: register_artifact_upload_def ebind_Inr_iff split: if_splits option.splits)
  then show "lease_tables_wf cc s' \<and> store_step s s'"
    using assms by (auto simp: lease_tables_wf_def intro: store_step_same)
next
  assume "complete_artifact_upload now w uid aid token s = Inr (s', u)"
  then obtain us where "s' = s \<or> s' = s\<lparr>co_uploads := us\<rparr>"
    by (auto simp: complete_artifact_upload_def ebind_Inr_iff split: if_splits)
  then show "lease_tables_wf cc s' \<and> store_step s s'"
    using assms by (auto simp: lease_tables_wf_def intro: store_step_same)
qed

subsection \<open>The machine\<close>

text \<open>
  Everything that changes the shared state: the calls of the run repository, the operations
  of the coordination, and the rows that belong to worker administration and artifacts.
\<close>

datatype coord_op =
    Local run_op
  | RecordHeartbeat instant worker_heartbeat
  | QueuePlacement instant placement_request
  | ClaimNext instant string claim_request string string
  | IssueLease instant task_envelope string string
  | BeginExecution instant string string string
  | RenewLease instant string string string int
  | DeliverCompletion instant string completion_submission string
  | AcceptCompletion instant string string initialization_result review_decision
  | ExpireLeases instant
  | ReconcileEnvelope instant string effect_report
  | RegisterUpload instant string string string artifact_upload_request string
  | CompleteUpload instant string string string string
  | OtherRows "worker_row list" "(string \<times> string) list"

fun co_step :: "environment \<Rightarrow> coordinator \<Rightarrow> coord_op \<Rightarrow> coordination \<Rightarrow> coordination" where
  "co_step env cc (Local x) s = upd_store (step env x) s"
| "co_step env cc (RecordHeartbeat now hb) s = commit s (record_heartbeat cc now hb s)"
| "co_step env cc (QueuePlacement now req) s = commit s (queue_placement cc now req s)"
| "co_step env cc (ClaimNext now w req eid lid) s = commit s (claim_next cc now w req eid lid s)"
| "co_step env cc (IssueLease now e lid token) s = commit s (issue_lease cc now e lid token s)"
| "co_step env cc (BeginExecution now w k token) s = commit s (begin_execution now w k token s)"
| "co_step env cc (RenewLease now w k token n) s = commit s (renew_lease cc now w k token n s)"
| "co_step env cc (DeliverCompletion now w sub token) s =
     commit s (deliver_completion cc now w sub token s)"
| "co_step env cc (AcceptCompletion now rid k res review) s =
     commit s (accept_completion cc now rid k res review s)"
| "co_step env cc (ExpireLeases now) s = commit s (expire_leases now s)"
| "co_step env cc (ReconcileEnvelope now k rep) s = commit s (reconcile_expired_envelope now k rep s)"
| "co_step env cc (RegisterUpload now w k uid rq token) s =
     commit s (register_artifact_upload cc now w k uid rq token s)"
| "co_step env cc (CompleteUpload now w uid aid token) s =
     commit s (complete_artifact_upload now w uid aid token s)"
| "co_step env cc (OtherRows ws arts) s = s\<lparr>co_workers := ws, co_artifacts := arts\<rparr>"

lemmas lease_op_wf = record_heartbeat_wf queue_placement_wf claim_next_wf issue_lease_wf
  begin_execution_wf renew_lease_wf deliver_completion_wf accept_completion_wf expire_leases_wf
  reconcile_wf uploads_wf [rotated]

lemma co_step_tables:
  assumes wf: "lease_tables_wf cc s"
  shows "lease_tables_wf cc (co_step env cc x s) \<and> store_step s (co_step env cc x s)"
proof (cases x)
  case (Local y)
  have "store_step s (upd_store (step env y) s)"
    by (simp add: store_step_def step_wf step_evolves)
  then show ?thesis using wf by (simp add: Local)
next
  case (OtherRows ws arts)
  then show ?thesis using wf by (simp add: lease_tables_wf_def store_step_same)
qed (simp only: co_step.simps;
     rule commit_keeps [where P = "\<lambda>t. lease_tables_wf cc t \<and> store_step s t"],
     simp add: wf, erule lease_op_wf, rule wf)+

lemma co_step_wf:
  "coord_wf cc s \<Longrightarrow> coord_wf cc (co_step env cc x s) \<and> evolves (co_store s) (co_store (co_step env cc x s))"
  using co_step_tables [of cc s env x] by (simp add: coord_wf_def store_step_def)

interpretation lease_machine: machine_invariant "co_step env cc" "coord_wf cc" for env cc
  by unfold_locales (simp add: co_step_wf)

interpretation lease_history: machine_monotone "co_step env cc" "coord_wf cc"
  "\<lambda>s t. evolves (co_store s) (co_store t)" for env cc
  by unfold_locales (auto intro: evolves_refl evolves_trans simp: co_step_wf)

end
