(* ===== verification/LeaseExclusive.thy ===== *)
theory LeaseExclusive
  imports LeaseMachine
begin

section \<open>Exclusive leases\<close>

text \<open>
  The task row of an envelope that is leased, executing or awaiting reconciliation belongs to
  that envelope: it is leased or executing, with the attempt of the envelope. A validating
  envelope has a task that is validating or accepted. Coordination keeps this; the local calls
  of the run repository do, unless they move a task that a remote envelope holds.
\<close>

definition occupied :: "envelope_row \<Rightarrow> bool" where
  "occupied e \<longleftrightarrow> en_state e \<in> {ELeased, EExecuting, EReconciliation}"

definition remote_ok :: "envelope_row \<Rightarrow> task_row option \<Rightarrow> bool" where
  "remote_ok e row =
     (case row of
        None \<Rightarrow> \<not> occupied e \<and> en_state e \<notin> {EValidating, ECompleted}
      | Some t \<Rightarrow>
          (occupied e \<longrightarrow> tk_status t \<in> {TLeased, TExecuting} \<and> tk_attempt_count t = en_task_attempt e) \<and>
          (en_state e = EValidating \<longrightarrow> tk_status t \<in> {TValidating, TAccepted}) \<and>
          (en_state e = ECompleted \<longrightarrow> tk_status t = TAccepted))"

definition exclusive :: "coordination \<Rightarrow> bool" where
  "exclusive s \<longleftrightarrow> (\<forall>e \<in> set (co_envelopes s). remote_ok e (row_task (en_task_row_id e) s))"

text \<open>The rows that envelopes hold, and the local calls that would move one of them.\<close>

definition remote_rows :: "coordination \<Rightarrow> (string \<times> string) set" where
  "remote_rows s = en_task_row_id `
     {e \<in> set (co_envelopes s). occupied e \<or> en_state e = EValidating}"

fun disturbs :: "coordination \<Rightarrow> coord_op \<Rightarrow> bool" where
  "disturbs s (Local (MarkValidating now r k)) \<longleftrightarrow> (r, k) \<in> remote_rows s"
| "disturbs s (Local (MarkTaskFailure now r k rejected)) \<longleftrightarrow> (r, k) \<in> remote_rows s"
| "disturbs s (Local (SettleCancellation now r)) \<longleftrightarrow> r \<in> fst ` remote_rows s"
| "disturbs s (Local (RecoverInterrupted now r)) \<longleftrightarrow> r \<in> fst ` remote_rows s"
| "disturbs s x \<longleftrightarrow> False"

subsection \<open>Calm changes of the task rows\<close>

definition kept :: "(string \<times> string) set \<Rightarrow> task_row \<Rightarrow> bool" where
  "kept R t \<longleftrightarrow>
     tk_status t = TAccepted \<or> task_key t \<in> R \<and> tk_status t \<in> {TLeased, TExecuting, TValidating}"

definition same_hold :: "task_row \<Rightarrow> task_row \<Rightarrow> bool" where
  "same_hold t t' \<longleftrightarrow> tk_attempt_count t' = tk_attempt_count t \<and>
     (tk_status t' = tk_status t \<or> tk_status t = TValidating \<and> tk_status t' = TAccepted \<or>
      tk_status t \<in> {TLeased, TExecuting} \<and> tk_status t' \<in> {TLeased, TExecuting})"

definition calm :: "(string \<times> string) set \<Rightarrow> store \<Rightarrow> store \<Rightarrow> bool" where
  "calm R st st' \<longleftrightarrow>
     (\<forall>k t. tbl_get task_key k (tasks st) = Some t \<longrightarrow> kept R t \<longrightarrow>
        (\<exists>t'. tbl_get task_key k (tasks st') = Some t' \<and> same_hold t t'))"

lemma same_hold_refl [simp]: "same_hold t t"
  by (simp add: same_hold_def)

lemma calm_tasks: "tasks st' = tasks st \<Longrightarrow> calm R st st'"
  by (simp add: calm_def)

lemma tbl_get_map:
  assumes "\<And>r. key (h r) = key r"
  shows "tbl_get key k (map h rows) = map_option h (tbl_get key k rows)"
  using assms by (induction rows) (auto simp: tbl_get_def)

lemma calm_map:
  assumes "tasks st' = map h (tasks st)" and "\<And>t. task_key (h t) = task_key t"
    and "\<And>t. t \<in> set (tasks st) \<Longrightarrow> kept R t \<Longrightarrow> same_hold t (h t)"
  shows "calm R st st'"
  unfolding calm_def
proof (intro allI impI)
  fix k t assume t: "tbl_get task_key k (tasks st) = Some t" "kept R t"
  have "tbl_get task_key k (tasks st') = map_option h (tbl_get task_key k (tasks st))"
    unfolding assms(1) by (rule tbl_get_map) (rule assms(2))
  moreover have "t \<in> set (tasks st)" using t(1) by (auto dest: tbl_get_SomeD)
  ultimately show "\<exists>t'. tbl_get task_key k (tasks st') = Some t' \<and> same_hold t t'"
    using t assms(3) by auto
qed

lemma calm_move:
  assumes "tasks st' = tbl_map_where P (set_task_status x now) (tasks st)"
    and "\<And>t. t \<in> set (tasks st) \<Longrightarrow> P t \<Longrightarrow> kept R t \<Longrightarrow> False"
  shows "calm R st st'"
  using assms(1) unfolding tbl_map_where_def by (rule calm_map) (use assms(2) in auto)

lemma calm_append: "tasks st' = tasks st @ ts \<Longrightarrow> calm R st st'"
  by (auto simp: calm_def tbl_get_append)

lemma calm_upd_task:
  assumes wf: "run_wf st" and t: "get_task st r k = Some t"
    and key: "\<And>u. task_key (f u) = task_key u" and ok: "kept R t \<Longrightarrow> same_hold t (f t)"
  shows "calm R st (upd_task r k f st)"
proof (rule calm_map)
  show "tasks (upd_task r k f st) = map (\<lambda>u. if task_key u = (r, k) then f u else u) (tasks st)"
    by (simp add: upd_task_def tbl_upd_def)
  show "task_key (if task_key u = (r, k) then f u else u) = task_key u" for u
    using key by (simp del: prod.inject)
  fix u assume u: "u \<in> set (tasks st)" "kept R u"
  show "same_hold u (if task_key u = (r, k) then f u else u)"
  proof (cases "task_key u = (r, k)")
    case True
    then have "u = t" using wf_tasks_unique [OF wf u(1), of t] get_task_SomeD [OF t] by simp
    then show ?thesis using True ok u(2) by simp
  next
    case False
    then show ?thesis by (simp only: if_False same_hold_refl)
  qed
qed

lemma calm_add_event [simp]: "calm R st (add_event a e t st') = calm R st st'"
  by (simp add: calm_def)

lemma calm_upd_run [simp]: "calm R st (upd_run r f st') = calm R st st'"
  by (simp add: calm_def upd_run_def)

lemma calm_trans_run:
  assumes "calm R st u" and "\<And>t. t \<in> set (tasks u) \<Longrightarrow> tk_status t = TPending \<Longrightarrow> True"
    and "st' = release_dependents r now u"
  shows "calm R st st'"
  unfolding calm_def
proof (intro allI impI)
  fix k t assume "tbl_get task_key k (tasks st) = Some t" "kept R t"
  then obtain t1 where t1: "tbl_get task_key k (tasks u) = Some t1" "same_hold t t1"
    using assms(1) unfolding calm_def by blast
  have busy: "tk_status t1 \<noteq> TPending"
    using t1(2) \<open>kept R t\<close> by (auto simp: same_hold_def kept_def)
  let ?h = "\<lambda>x. if tk_run_id x = r \<and> tk_status x = TPending \<and> dependencies_accepted u r x
      then set_task_status TEligible now x else x"
  have "tbl_get task_key k (tasks st') = map_option ?h (tbl_get task_key k (tasks u))"
    unfolding assms(3)
    by (simp add: release_dependents_def tbl_map_where_def tbl_get_map cong: if_cong)
  then show "\<exists>t'. tbl_get task_key k (tasks st') = Some t' \<and> same_hold t t'"
    using t1 busy by auto
qed

lemma calm_release: "calm R st u \<Longrightarrow> calm R st (release_dependents r now u)"
  using calm_trans_run by blast

subsection \<open>Local calls\<close>

lemma calm_install_acceptance:
  assumes wf: "run_wf st" and t: "get_task st r (ir_task_id res) = Some t" "tk_status t = TValidating"
    and install: "install_acceptance now nid r res review st = Inr st'"
  shows "calm R st st'"
  using install
proof (rule install_acceptance_Inr)
  fix row acc s1 s2
  let ?s0 = "st\<lparr>results := results st @ [row], acceptances := acceptances st @ [acc]\<rparr>"
  assume s1: "s1 = upd_task r (ir_task_id res) (set_task_status TAccepted now) ?s0"
    and s2: "s2 = release_dependents r now
      (add_event r ''task.result_accepted'' (Some (ir_task_id res)) s1)"
    and st': "st' = (if list_all (\<lambda>t. tk_status t = TAccepted) (run_tasks s2 r)
       then add_event r ''run.completed'' None (upd_run r (set_run_status RCompleted now) s2) else s2)"
  have "calm R st (upd_task r (ir_task_id res) (set_task_status TAccepted now) st)"
    using t by (intro calm_upd_task [OF wf t(1)]) (simp_all add: same_hold_def)
  then have "calm R st s1" by (simp add: calm_def s1 upd_task_def)
  then have "calm R st s2" unfolding s2 by (intro calm_release) simp
  then show ?thesis by (simp add: st')
qed

lemma calm_claim:
  assumes wf: "run_wf st" and claim: "claim_task now r k st = Inr (st', n)"
  shows "calm R st st'"
proof -
  obtain t where t: "get_task st r k = Some t" "tk_status t = TEligible"
    and st': "st' = add_event r ''task.claimed'' (Some k)
       (upd_task r k (\<lambda>t. set_task_status TExecuting now
          (t\<lparr>tk_attempt_count := tk_attempt_count t + 1\<rparr>)) st)"
    using claim unfolding claim_task_Inr by blast
  show ?thesis unfolding st' calm_add_event
    using t by (intro calm_upd_task [OF wf t(1)]) (auto simp: kept_def)
qed

lemma calm_outside:
  assumes wf: "run_wf st" and t: "get_task st r k = Some t" "tk_status t \<noteq> TAccepted"
    and "(r, k) \<notin> R" and key: "\<And>u. task_key (f u) = task_key u"
  shows "calm R st (upd_task r k f st)"
proof (rule calm_upd_task [OF wf t(1) key])
  assume "kept R t"
  moreover have "task_key t = (r, k)" using get_task_SomeD [OF t(1)] by simp
  ultimately show "same_hold t (f t)" using t(2) assms(4) unfolding kept_def by simp
qed

lemma calm_mark:
  assumes wf: "run_wf st" and out: "(r, k) \<notin> R"
  shows "mark_validating now r k st = Inr (st', u) \<Longrightarrow> calm R st st'"
    and "mark_task_failure now r k rejected st = Inr (st', u) \<Longrightarrow> calm R st st'"
proof -
  assume "mark_validating now r k st = Inr (st', u)"
  then obtain t where t: "get_task st r k = Some t" "tk_status t = TExecuting"
    and st': "st' = add_event r ''task.validating'' (Some k)
      (upd_task r k (set_task_status TValidating now) st)"
    unfolding mark_validating_Inr by blast
  show "calm R st st'" unfolding st' calm_add_event
    using t out by (intro calm_outside [OF wf t(1)]) simp_all
next
  assume "mark_task_failure now r k rejected st = Inr (st', u)"
  then show "calm R st st'"
  proof (rule mark_task_failure_Inr)
    fix t
    assume t: "get_task st r k = Some t" "tk_status t \<in> {TExecuting, TValidating}"
      and st': "st' = add_event r ''run.failed'' (Some k) (upd_run r (set_run_status RFailed now)
        (add_event r (if rejected then ''task.rejected'' else ''task.failed'') (Some k)
          (upd_task r k (set_task_status (if rejected then TRejected else TFailed) now) st)))"
    show ?thesis unfolding st' calm_add_event calm_upd_run
      using t out by (intro calm_outside [OF wf t(1)]) auto
  qed
qed

lemma calm_recover_tasks:
  assumes "recover_tasks now r st = Inr (st', rel)" and "r \<notin> fst ` R"
  shows "calm R st st'"
  using assms(1)
proof (cases rule: recover_tasks_cases)
  case cancelled
  then show ?thesis by (simp add: calm_tasks)
next
  case (released run s1 P)
  have "False" if "t \<in> set (tasks st)" "P t" "kept R t" for t
    using that assms(2) released(3) by (force simp: kept_def interrupted_def)
  then show ?thesis using released(6) by (intro calm_move)
qed

lemma calm_recover:
  assumes "r \<notin> fst ` R"
  shows "calm R st (fst (recover_interrupted now r st))"
proof (cases rule: recover_interrupted_cases [of now r st])
  case (released s1 s2 rel)
  have "tasks s1 = tasks st" using recover_effects_tables [OF released(1)] by blast
  then have "calm R st s2"
    using calm_recover_tasks [OF released(2) assms] by (simp add: calm_def)
  then show ?thesis using released(3) by simp
next
  case (blocked s1 un)
  then show ?thesis using recover_effects_tables [OF blocked(1)] by (simp add: calm_tasks)
next
  case (failed s1 e)
  then show ?thesis using recover_effects_tables [OF failed(1)] by (simp add: calm_tasks)
qed (simp add: calm_tasks)

lemma calm_accept_plan:
  assumes "accept_plan env now r p st = Inr (st', sn)"
  shows "calm R st st'"
  using assms
proof (cases rule: accept_plan_cases)
  case again
  then show ?thesis by (simp add: calm_tasks)
next
  case (new run)
  from new(3) show ?thesis
  proof (rule install_plan_Inr)
    fix rows row
    assume "insert_task_rows (tasks st) (task_rows_from r now 0 (plan_tasks p)) = Inr rows"
      and st': "tasks st' = rows"
    then have "tasks st' = tasks st @ task_rows_from r now 0 (plan_tasks p)"
      using insert_task_rows_Inr by blast
    then show ?thesis by (rule calm_append)
  qed
qed

lemma start_or_resume_tasks:
  assumes "start_or_resume env now nid d obj out st = Inr (st', sn)"
  shows "tasks st' = tasks st"
proof (cases "tbl_get rn_resume_key (resume_key env d obj out) (runs st)")
  case (Some run)
  then show ?thesis using assms
    by (auto simp: start_or_resume_def ebind_Inr_iff dest: with_snapshot_Inr)
next
  case None
  show ?thesis using assms None
    by (auto simp: start_or_resume_def ebind_Inr_iff Let_def tbl_insert_Inr_iff
        dest!: with_snapshot_Inr)
qed

lemma calm_frames:
  "start_or_resume env now nid d obj out st = Inr (st', sn) \<Longrightarrow> calm R st st'"
  "mark_awaiting_approval now r st = Inr (st', u) \<Longrightarrow> calm R st st'"
  "start_run now r st = Inr (st', u) \<Longrightarrow> calm R st st'"
  "record_repository_establishment env e st = Inr (st', sn) \<Longrightarrow> calm R st st'"
  "record_rejected_review env now r res review n st = Inr (st', rj) \<Longrightarrow> calm R st st'"
  "reserve_planned_call i st = Inr (st', o1) \<Longrightarrow> calm R st st'"
  "mark_planned_call_dispatching j f st = Inr (st', u) \<Longrightarrow> calm R st st'"
  "complete_planned_call env j f te x st = Inr (st', te') \<Longrightarrow> calm R st st'"
  "record_audit env dump audit st = Inr (st', u) \<Longrightarrow> calm R st st'"
proof -
  note frames = record_repository_establishment_frame record_rejected_review_frame
    reserve_planned_call_frame mark_planned_call_dispatching_frame complete_planned_call_frame
    record_audit_frame start_or_resume_tasks
  show "start_or_resume env now nid d obj out st = Inr (st', sn) \<Longrightarrow> calm R st st'"
    "record_repository_establishment env e st = Inr (st', sn) \<Longrightarrow> calm R st st'"
    "record_rejected_review env now r res review n st = Inr (st', rj) \<Longrightarrow> calm R st st'"
    "reserve_planned_call i st = Inr (st', o1) \<Longrightarrow> calm R st st'"
    "mark_planned_call_dispatching j f st = Inr (st', u) \<Longrightarrow> calm R st st'"
    "complete_planned_call env j f te x st = Inr (st', te') \<Longrightarrow> calm R st st'"
    "record_audit env dump audit st = Inr (st', u) \<Longrightarrow> calm R st st'"
    by (auto dest: frames intro!: calm_tasks)
  show "mark_awaiting_approval now r st = Inr (st', u) \<Longrightarrow> calm R st st'"
    by (rule calm_tasks) (auto simp: mark_awaiting_approval_def ebind_Inr_iff upd_run_def split: if_splits)
  show "start_run now r st = Inr (st', u) \<Longrightarrow> calm R st st'"
    by (rule calm_tasks) (auto simp: start_run_def ebind_Inr_iff upd_run_def split: if_splits option.splits)
qed

lemma calm_cancel_run:
  assumes "cancel_run now r st = Inr (st', sn)"
  shows "calm R st st'"
  using assms
proof (cases rule: cancel_run_cases)
  case settled
  then show ?thesis by (simp add: calm_tasks)
next
  case (now run final)
  have "False" if "t \<in> set (tasks st)" "tk_run_id t = r \<and> waiting t" "kept R t" for t
    using that by (force simp: kept_def waiting_def)
  then show ?thesis using now(5) by (intro calm_move)
qed

lemma calm_settle_cancellation:
  assumes "settle_cancellation now r st = Inr (st', sn)" and "r \<notin> fst ` R"
  shows "calm R st st'"
  using assms(1)
proof (cases rule: settle_cancellation_cases)
  case settled
  then show ?thesis by (simp add: calm_tasks)
next
  case (now run)
  have "False" if "t \<in> set (tasks st)" "tk_run_id t = r \<and> (waiting t \<or> active t)" "kept R t" for t
    using that assms(2) by (force simp: kept_def waiting_def active_def)
  then show ?thesis using now(5) by (intro calm_move)
qed

lemma calm_accept_result:
  assumes wf: "run_wf st" and "accept_result env now nid r res review st = Inr (st', sn)"
  shows "calm R st st'"
  using assms(2)
proof (cases rule: accept_result_cases)
  case replay
  then show ?thesis by (simp add: calm_tasks)
next
  case (new run t)
  then show ?thesis
    by (intro calm_install_acceptance [OF wf new(2) _ new(6)]) (simp add: check_acceptance_Inr)
qed

lemmas calm_ops = calm_frames calm_accept_plan calm_cancel_run

lemma calm_local:
  assumes wf: "run_wf (co_store s)" and "\<not> disturbs s (Local y)"
  shows "calm (remote_rows s) (co_store s) (step env y (co_store s))"
proof (cases y)
  case (RecoverInterrupted now r)
  then show ?thesis using assms(2) by (simp add: calm_recover)
next
  case (SettleCancellation now r)
  then have "r \<notin> fst ` remote_rows s" using assms(2) by simp
  then show ?thesis unfolding SettleCancellation step.simps
    by (intro commit_keeps [where P = "calm (remote_rows s) (co_store s)"])
      (simp add: calm_tasks, erule calm_settle_cancellation)
next
  case (MarkValidating now r k)
  then have "(r, k) \<notin> remote_rows s" using assms(2) by simp
  then show ?thesis unfolding MarkValidating step.simps
    by (intro commit_keeps [where P = "calm (remote_rows s) (co_store s)"])
      (simp add: calm_tasks, rule calm_mark(1) [OF wf])
next
  case (MarkTaskFailure now r k rejected)
  then have "(r, k) \<notin> remote_rows s" using assms(2) by simp
  then show ?thesis unfolding MarkTaskFailure step.simps
    by (intro commit_keeps [where P = "calm (remote_rows s) (co_store s)"])
      (simp add: calm_tasks, rule calm_mark(2) [OF wf])
next
  case (ClaimTask now r k)
  show ?thesis unfolding ClaimTask step.simps
    by (intro commit_keeps [where P = "calm (remote_rows s) (co_store s)"])
      (simp add: calm_tasks, rule calm_claim [OF wf])
next
  case (AcceptResult now nid r res review)
  show ?thesis unfolding AcceptResult step.simps
    by (intro commit_keeps [where P = "calm (remote_rows s) (co_store s)"])
      (simp add: calm_tasks, rule calm_accept_result [OF wf])
next
  case (OtherTools xs bs ms)
  then show ?thesis by (simp add: calm_tasks)
qed (simp only: step.simps; rule commit_keeps [where P = "calm (remote_rows s) (co_store s)"],
  simp add: calm_tasks, erule calm_ops)+

subsection \<open>Steps of the coordination\<close>

lemma calm_refl: "calm R st st"
  by (rule calm_tasks) simp

lemma row_task_get: "row_task k s = tbl_get task_key k (tasks (co_store s))"
  by (cases k) (simp add: row_task_def get_task_def)

lemma remote_ok_kept:
  assumes "remote_ok e (Some t)" and "task_key t = en_task_row_id e" and "e \<in> set (co_envelopes s)"
    and "occupied e \<or> en_state e \<in> {EValidating, ECompleted}"
  shows "kept (remote_rows s) t"
proof -
  have "en_task_row_id e \<in> remote_rows s" if "occupied e \<or> en_state e = EValidating"
    using that assms(3) unfolding remote_rows_def by blast
  then show ?thesis using assms unfolding kept_def remote_ok_def option.case by auto
qed

lemma remote_ok_same_hold:
  "remote_ok e (Some t) \<Longrightarrow> same_hold t t' \<Longrightarrow> remote_ok e (Some t')"
  by (auto simp: remote_ok_def same_hold_def)

lemma exclusive_calm:
  assumes ex: "exclusive s" and calm: "calm (remote_rows s) (co_store s) (co_store s')"
    and env: "co_envelopes s' = co_envelopes s"
  shows "exclusive s'"
  unfolding exclusive_def
proof
  fix e assume "e \<in> set (co_envelopes s')"
  then have e: "e \<in> set (co_envelopes s)" "remote_ok e (row_task (en_task_row_id e) s)"
    using ex by (auto simp: env exclusive_def)
  show "remote_ok e (row_task (en_task_row_id e) s')"
  proof (cases "occupied e \<or> en_state e \<in> {EValidating, ECompleted}")
    case True
    then obtain t where t: "row_task (en_task_row_id e) s = Some t" "remote_ok e (Some t)"
      using e(2) by (cases "row_task (en_task_row_id e) s") (auto simp: remote_ok_def)
    have "task_key t = en_task_row_id e" using row_task_SomeD [OF t(1)] by blast
    then have "kept (remote_rows s) t" using t(2) e(1) True by (intro remote_ok_kept) auto
    then obtain t' where "row_task (en_task_row_id e) s' = Some t'" "same_hold t t'"
      using calm t(1) unfolding calm_def row_task_get by blast
    then show ?thesis using t(2) remote_ok_same_hold by metis
  next
    case False
    then show ?thesis by (cases "row_task (en_task_row_id e) s'") (auto simp: remote_ok_def)
  qed
qed

lemma exclusive_envelopes:
  assumes ex: "exclusive s" and store: "co_store s' = co_store s"
    and env: "\<And>e. e \<in> set (co_envelopes s') \<Longrightarrow> e \<notin> set (co_envelopes s) \<Longrightarrow>
      remote_ok e (row_task (en_task_row_id e) s)"
  shows "exclusive s'"
  using ex env unfolding exclusive_def row_task_get store by blast

text \<open>
  Rows of one envelope. While it is occupied no other envelope of the same task is occupied,
  validating or completed: the task is leased or executing with the attempt of one envelope.
\<close>

lemma tbl_upd_setE:
  assumes "x \<in> set (co_envelopes (upd_envelope k f s))" and "x \<notin> set (co_envelopes s)"
  obtains e where "e \<in> set (co_envelopes s)" "en_id e = k" "x = f e"
  using assms by (auto simp: upd_envelope_def tbl_upd_def)

lemma attempts_unique:
  assumes wf: "lease_tables_wf cc s" and e: "e \<in> set (co_envelopes s)" "e' \<in> set (co_envelopes s)"
    and same: "en_task_row_id e = en_task_row_id e'" "en_task_attempt e = en_task_attempt e'"
  shows "e = e'"
proof -
  have "distinct (map attempt_key (co_envelopes s))"
    using wf by (simp add: lease_tables_wf_def leases_wf_def leases_keys_def)
  moreover have "attempt_key e = attempt_key e'" using same by simp
  ultimately show ?thesis using e by (meson distinct_map inj_onD)
qed

lemma ids_unique:
  assumes wf: "lease_tables_wf cc s" and e: "get_envelope k s = Some e"
    and e': "e' \<in> set (co_envelopes s)" "en_id e' = k"
  shows "e' = e"
  using tbl_upd_where [OF _ e [unfolded get_envelope_def] e'] wf
  by (simp add: lease_tables_wf_def leases_wf_def leases_keys_def)

lemma occupied_task:
  assumes "exclusive s" and "e \<in> set (co_envelopes s)" and "occupied e"
  obtains t where "row_task (en_task_row_id e) s = Some t" "tk_status t \<in> {TLeased, TExecuting}"
    "tk_attempt_count t = en_task_attempt e"
  using assms unfolding exclusive_def remote_ok_def
  by (cases "row_task (en_task_row_id e) s") auto

lemma occupied_alone:
  assumes ex: "exclusive s" and wf: "lease_tables_wf cc s"
    and e: "e \<in> set (co_envelopes s)" "occupied e"
    and e': "e' \<in> set (co_envelopes s)" "en_task_row_id e' = en_task_row_id e" "e' \<noteq> e"
  shows "\<not> occupied e' \<and> en_state e' \<notin> {EValidating, ECompleted}"
proof -
  obtain t where t: "row_task (en_task_row_id e) s = Some t" "tk_status t \<in> {TLeased, TExecuting}"
      "tk_attempt_count t = en_task_attempt e"
    by (rule occupied_task [OF ex e])
  have "remote_ok e' (Some t)" using ex e' t(1) unfolding exclusive_def by metis
  moreover have "en_task_attempt e' \<noteq> en_task_attempt e"
    using attempts_unique [OF wf e'(1) e(1)] e' by blast
  ultimately show ?thesis using t(2,3) unfolding remote_ok_def by auto
qed

lemma exclusive_set_state:
  assumes ex: "exclusive s" and wf: "lease_tables_wf cc s" and e: "get_envelope k s = Some e"
    and ok: "remote_ok (set_envelope_state st now e) (row_task (en_task_row_id e) s)"
  shows "exclusive (upd_envelope k (set_envelope_state st now) s)"
proof (rule exclusive_envelopes [OF ex])
  fix x assume "x \<in> set (co_envelopes (upd_envelope k (set_envelope_state st now) s))"
    "x \<notin> set (co_envelopes s)"
  then obtain e' where e': "e' \<in> set (co_envelopes s)" "en_id e' = k" "x = set_envelope_state st now e'"
    by (rule tbl_upd_setE)
  then have "e' = e" using ids_unique [OF wf e] by blast
  then show "remote_ok x (row_task (en_task_row_id x) s)" using ok e'(3) by (simp add: set_envelope_state_def)
qed simp

text \<open>A change of one task row, and of envelopes.\<close>

lemma exclusive_row_change:
  assumes ex: "exclusive s" and t: "row_task k s = Some t"
    and tasks: "tasks (co_store s') = tbl_upd task_key k f (tasks (co_store s))"
    and f: "\<And>u. task_key (f u) = task_key u"
    and ok: "\<And>x. x \<in> set (co_envelopes s') \<Longrightarrow>
      x \<in> set (co_envelopes s) \<and> en_task_row_id x \<noteq> k \<or>
      en_task_row_id x = k \<and> remote_ok x (Some (f t))"
  shows "exclusive s'"
  unfolding exclusive_def
proof
  fix x assume x: "x \<in> set (co_envelopes s')"
  have get: "row_task j s' = (if k = j then map_option f (row_task j s) else row_task j s)" for j
    unfolding row_task_get tasks by (rule tbl_get_upd) (rule f)
  from ok [OF x] show "remote_ok x (row_task (en_task_row_id x) s')"
  proof
    assume "x \<in> set (co_envelopes s) \<and> en_task_row_id x \<noteq> k"
    then show ?thesis using ex unfolding exclusive_def get by auto
  next
    assume "en_task_row_id x = k \<and> remote_ok x (Some (f t))"
    then show ?thesis unfolding get using t by simp
  qed
qed

lemma exclusive_cong:
  assumes "co_envelopes s' = co_envelopes s" and "tasks (co_store s') = tasks (co_store s)"
  shows "exclusive s' = exclusive s"
  by (simp add: exclusive_def row_task_get assms)

lemma exclusive_simps [simp]:
  "exclusive (worker_event a e k b s) = exclusive s"
  "exclusive (upd_placement_of eid h s) = exclusive s"
  "exclusive (upd_lease k' f s) = exclusive s"
  "exclusive (upd_completion k' g s) = exclusive s"
  by (rule exclusive_cong; simp)+

lemma move_task_tasks:
  "tasks (co_store (move_task k st now s)) = tbl_upd task_key k (set_task_status st now) (tasks (co_store s))"
  by (simp add: move_task_def upd_task_def)

text \<open>The envelope that occupies a task and the task move together.\<close>

lemma exclusive_handover:
  assumes ex: "exclusive s" and wf: "lease_tables_wf cc s"
    and e: "get_envelope k s = Some e" "occupied e"
    and t: "row_task (en_task_row_id e) s = Some t"
    and ok: "remote_ok (set_envelope_state st now e) (Some (set_task_status ts now t))"
  shows "exclusive (move_task (en_task_row_id e) ts now (upd_envelope k (set_envelope_state st now) s))"
proof (rule exclusive_row_change [OF ex t])
  fix x
  assume "x \<in> set (co_envelopes (move_task (en_task_row_id e) ts now
      (upd_envelope k (set_envelope_state st now) s)))"
  then have "x \<in> set (tbl_upd en_id k (set_envelope_state st now) (co_envelopes s))"
    by (simp add: upd_envelope_def)
  then show "x \<in> set (co_envelopes s) \<and> en_task_row_id x \<noteq> en_task_row_id e \<or>
      en_task_row_id x = en_task_row_id e \<and> remote_ok x (Some (set_task_status ts now t))"
  proof (cases rule: in_tbl_updE)
    case other
    have e_in: "e \<in> set (co_envelopes s)" "en_id e = k"
      using e(1) by (auto simp: get_envelope_def dest: tbl_get_SomeD)
    then have "x \<noteq> e" using other(2) by blast
    then have "en_task_row_id x = en_task_row_id e \<Longrightarrow> \<not> occupied x \<and> en_state x \<notin> {EValidating, ECompleted}"
      using occupied_alone [OF ex wf e_in(1) e(2) other(1)] by blast
    then show ?thesis using other(1) by (auto simp: remote_ok_def)
  next
    case (same e')
    have "e' = e" by (rule ids_unique [OF wf e(1) same(1,2)])
    then show ?thesis using same(3) ok by (simp add: set_envelope_state_def)
  qed
qed (simp_all add: move_task_tasks)

lemma exclusive_begin:
  assumes "begin_execution now w k token s = Inr (s', r)" and wf: "lease_tables_wf cc s"
    and ex: "exclusive s"
  shows "exclusive s'"
proof -
  obtain l e where al: "active_lease now w k token s = Inr (l, e)"
    using assms(1) by (auto simp: begin_execution_def ebind_Inr_iff)
  note a = active_lease_Inr [OF al]
  have e: "en_id e = le_envelope_id l" "e \<in> set (co_envelopes s)"
    using a(2) by (auto simp: get_envelope_def dest: tbl_get_SomeD)
  consider "s' = s" | task where "row_task (en_task_row_id e) s = Some task" "tk_status task = TLeased"
    "en_state e = ELeased"
    "s' = worker_event (en_run_id e) ''worker.task_execution_started'' (Some (en_task_key e)) True
       (move_task (en_task_row_id e) TExecuting now
         (upd_envelope (en_id e) (set_envelope_state EExecuting now) s))"
    using assms(1) unfolding begin_execution_def al ebind_simps prod.case
    by (cases "row_task (en_task_row_id e) s") (simp_all split: if_splits)
  then show ?thesis
  proof cases
    case (2 task)
    then have occ: "occupied e" by (simp add: occupied_def)
    obtain t where "row_task (en_task_row_id e) s = Some t" "tk_attempt_count t = en_task_attempt e"
      by (rule occupied_task [OF ex e(2) occ])
    then have "remote_ok (set_envelope_state EExecuting now e) (Some (set_task_status TExecuting now task))"
      using 2(1) by (simp add: remote_ok_def set_envelope_state_def set_task_status_def)
    then show ?thesis
      unfolding 2(4) exclusive_simps using a(2) e(1) by (intro exclusive_handover [OF ex wf _ occ 2(1)]) simp_all
  qed (use ex in simp)
qed

lemma exclusive_reconcile:
  assumes "reconcile_expired_envelope now k rep s = Inr (s', u)" and wf: "lease_tables_wf cc s"
    and ex: "exclusive s"
  shows "exclusive s'"
proof -
  obtain e task where e: "get_envelope k s = Some e" "en_state e = EReconciliation"
    and task: "row_task (en_task_row_id e) s = Some task"
    and s': "s' = worker_event (en_run_id e) ''worker.effects_reconciled'' (Some (en_task_key e)) True
      (move_task (en_task_row_id e) TEligible now (upd_placement_of (en_id e) (requeue_placement now)
        (upd_envelope (en_id e) (set_envelope_state EExpired now) s)))"
    using assms(1) by (auto simp: reconcile_expired_envelope_def split: option.splits if_splits)
  have "exclusive (move_task (en_task_row_id e) TEligible now
      (upd_envelope k (set_envelope_state EExpired now) s))"
    using e(2) by (intro exclusive_handover [OF ex wf e(1) _ task])
      (simp_all add: occupied_def remote_ok_def set_envelope_state_def)
  moreover have "en_id e = k" using e(1) by (auto simp: get_envelope_def dest: tbl_get_SomeD)
  ultimately show ?thesis unfolding s' exclusive_simps
    by (elim exclusive_cong [THEN iffD1, rotated 2]) (simp_all add: move_task_tasks)
qed

lemma exclusive_deliver_new:
  assumes deliver: "deliver_new cc' now w sub l e imm s = Inr (s', row)"
    and wf: "lease_tables_wf cc s" and ex: "exclusive s"
    and l: "get_lease (su_lease_id sub) s = Some l" and e: "get_envelope (su_envelope_id sub) s = Some e"
    and env: "le_envelope_id l = en_id e"
  shows "exclusive s'"
proof -
  let ?reason = "completion_stale_reason now imm l sub"
  let ?st = "delivery_state (en_id e) ?reason s"
  let ?s1 = "s\<lparr>co_completions := co_completions s @ [completion_row_of cc' now w sub ?st ?reason]\<rparr>"
  obtain s2 where s2: "(if ?st = CDelivered then complete_lease now l e ?s1 else Inr ?s1) = Inr s2"
    and s': "s' = worker_event (en_run_id e) (delivery_event ?st) (Some (en_task_key e))
        (?st \<noteq> CDelivered) s2"
    using deliver unfolding deliver_new_def Let_def ebind_Inr_iff by blast
  have ex1: "exclusive ?s1" and wf1: "lease_tables_wf cc s"
    using ex wf exclusive_cong [of ?s1 s] by simp_all
  show ?thesis
  proof (cases "?st = CDelivered")
    case False
    then have "s2 = ?s1" using s2 by simp
    then show ?thesis using ex1 unfolding s' by simp
  next
    case True
    then have "?reason = None" by (auto simp: delivery_state_def split: if_splits)
    then have active: "le_state l = LActive" using completion_stale_None by blast
    have "complete_lease now l e ?s1 = Inr s2" using s2 True by simp
    then obtain task where task: "row_task (en_task_row_id e) ?s1 = Some task"
      and s2': "s2 = move_task (en_task_row_id e) TValidating now
        (upd_envelope (en_id e) (set_envelope_state EValidating now) (upd_lease (le_id l)
          (\<lambda>l. l\<lparr>le_state := LCompleted, le_completed_at := Some now\<rparr>) ?s1))"
      by (rule complete_lease_Inr)
    have id: "su_envelope_id sub = en_id e" using e by (auto simp: get_envelope_def dest: tbl_get_SomeD)
    have "en_state e \<in> {ELeased, EExecuting}"
      using active_envelope(2) [OF wf _ _ active] get_lease_SomeD [OF l] e env id by simp
    then have occ: "occupied e" by (auto simp: occupied_def)
    have "exclusive (move_task (en_task_row_id e) TValidating now
        (upd_envelope (en_id e) (set_envelope_state EValidating now) s))"
      using e id task
      by (intro exclusive_handover [OF ex wf _ occ]) 
        (simp_all add: remote_ok_def set_envelope_state_def occupied_def row_task_def)
    then show ?thesis unfolding s' s2' exclusive_simps
      by (elim exclusive_cong [THEN iffD1, rotated 2]) (simp_all add: move_task_tasks upd_envelope_def)
  qed
qed

lemma exclusive_deliver:
  assumes "deliver_completion cc' now w sub token s = Inr (s', row)" and wf: "lease_tables_wf cc s"
    and ex: "exclusive s"
  shows "exclusive s'"
proof (cases "get_completion (su_id sub) s")
  case (Some c)
  then have "s' = s" using assms(1) by (auto simp: deliver_completion_def split: if_splits)
  then show ?thesis using ex by simp
next
  case None
  obtain e l where e: "get_envelope (su_envelope_id sub) s = Some e" and l: "get_lease (su_lease_id sub) s = Some l"
    using assms(1) None by (auto simp: deliver_completion_def split: if_splits option.splits)
  obtain imm where "le_envelope_id l = en_id e" "deliver_new cc' now w sub l e imm s = Inr (s', row)"
    using assms(1) None e l unfolding deliver_completion_def
    by (auto simp: ebind_Inr_iff split: if_splits)
  then show ?thesis using exclusive_deliver_new [OF _ wf ex l e] by blast
qed

subsection \<open>Expiry\<close>

lemma exclusive_expire_one:
  assumes wf: "lease_tables_wf cc s" and ex: "exclusive s"
    and l: "get_lease (le_id l) s = Some l" "le_state l = LActive"
  shows "exclusive (fst (expire_one now l (s, xs)))"
proof (cases "get_envelope (le_envelope_id l) s")
  case None
  then show ?thesis using ex by (simp add: expire_one_def)
next
  case (Some e)
  let ?s0 = "upd_lease (le_id l) (\<lambda>l. l\<lparr>le_state := LExpired, le_revision := le_revision l + 1\<rparr>) s"
  have e: "en_id e = le_envelope_id l" "e \<in> set (co_envelopes s)"
    using Some by (auto simp: get_envelope_def dest: tbl_get_SomeD)
  have "en_state e \<in> {ELeased, EExecuting}"
    using active_envelope(2) [OF wf _ Some l(2)] get_lease_SomeD [OF l(1)] by blast
  then have occ: "occupied e" by (auto simp: occupied_def)
  obtain t where t: "row_task (en_task_row_id e) s = Some t" "tk_status t \<in> {TLeased, TExecuting}"
      "tk_attempt_count t = en_task_attempt e"
    by (rule occupied_task [OF ex e(2) occ])
  have get: "get_envelope (en_id e) s = Some e" using Some e(1) by simp
  have "exclusive (release_expired now e ?s0)"
  proof (cases "en_stateful_effects e")
    case True
    have "exclusive (upd_envelope (en_id e) (set_envelope_state EReconciliation now) s)"
      using t by (intro exclusive_set_state [OF ex wf get])
        (simp add: remote_ok_def set_envelope_state_def)
    then show ?thesis
      by (elim exclusive_cong [THEN iffD1, rotated 2])
        (simp_all add: release_expired_def True upd_envelope_def)
  next
    case False
    have "exclusive (move_task (en_task_row_id e) TEligible now
        (upd_envelope (en_id e) (set_envelope_state EExpired now) s))"
      by (intro exclusive_handover [OF ex wf get occ t(1)])
        (simp add: remote_ok_def set_envelope_state_def occupied_def)
    moreover have "row_task (en_task_row_id e) (upd_envelope (en_id e) (set_envelope_state EExpired now) ?s0) = Some t"
      using t(1) by (simp add: row_task_def)
    ultimately show ?thesis
      using t(2) by (elim exclusive_cong [THEN iffD1, rotated 2])
        (simp_all add: release_expired_def False upd_envelope_def move_task_tasks)
  qed
  then show ?thesis using Some by (simp add: expire_one_def)
qed

lemma exclusive_expire_fold:
  assumes "lease_tables_wf cc s" and "exclusive s" and "distinct (map le_id ls)"
    and "\<And>l. l \<in> set ls \<Longrightarrow> get_lease (le_id l) s = Some l \<and> le_state l = LActive"
  shows "exclusive (fst (fold (expire_one now) ls (s, xs)))"
  using assms
proof (induction ls arbitrary: s xs)
  case (Cons l ls)
  let ?s1 = "fst (expire_one now l (s, xs))" and ?x1 = "snd (expire_one now l (s, xs))"
  have "lease_tables_wf cc ?s1" "exclusive ?s1"
    using Cons.prems expire_one_wf [of cc s l now xs] exclusive_expire_one [of cc s l now xs] by simp_all
  moreover have "get_lease (le_id x) ?s1 = Some x \<and> le_state x = LActive" if "x \<in> set ls" for x
    using Cons.prems that by (auto intro!: expire_one_other)
  ultimately have "exclusive (fst (fold (expire_one now) ls (?s1, ?x1)))"
    using Cons.prems(3) by (intro Cons.IH) auto
  then show ?case by simp
qed simp

lemma exclusive_expire:
  assumes "expire_leases now s = Inr (s', xs)" and wf: "lease_tables_wf cc s" and ex: "exclusive s"
  shows "exclusive s'"
proof -
  have keys: "tbl_wf le_id (co_leases s)"
    using wf by (auto simp: lease_tables_wf_def leases_wf_def leases_keys_def)
  have s': "s' = fst (fold (expire_one now) (due_leases now s) (s, []))"
    using assms(1) by (simp add: expire_leases_def)
  show ?thesis unfolding s'
  proof (rule exclusive_expire_fold [OF wf ex])
    show "distinct (map le_id (due_leases now s))"
      using keys by (simp add: due_leases_def distinct_map_filter)
    show "get_lease (le_id l) s = Some l \<and> le_state l = LActive" if "l \<in> set (due_leases now s)" for l
      using that keys by (auto simp: due_leases_def get_lease_def tbl_get_Some_iff)
  qed
qed

subsection \<open>Grants and acceptances\<close>

lemma eligible_row_free:
  assumes "exclusive s" and "row_task k s = Some t" and "tk_status t = TEligible"
    and "x \<in> set (co_envelopes s)" and "en_task_row_id x = k"
  shows "\<not> occupied x \<and> en_state x \<notin> {EValidating, ECompleted}"
  using assms unfolding exclusive_def remote_ok_def by fastforce

lemma exclusive_grant:
  assumes grant: "grant_lease cc' now lease_id claim token e s = Inr (s', lease)" and ex: "exclusive s"
    and task: "row_task (te_task_row_id e) s = Some t" "tk_status t = TEligible"
  shows "exclusive s'"
proof (rule exclusive_row_change [OF ex task(1)])
  note g = grant_lease_Inr [OF grant]
  let ?f = "\<lambda>t. set_task_status TLeased now (t\<lparr>tk_attempt_count := te_task_attempt e\<rparr>)"
  show "tasks (co_store s') = tbl_upd task_key (te_task_row_id e) ?f (tasks (co_store s))"
    by (simp add: g(2) lease_task_def upd_task_def)
  fix x assume "x \<in> set (co_envelopes s')"
  then consider "x \<in> set (co_envelopes s)" | "x = envelope_row_of cc' now e" by (auto simp: g(2))
  then show "x \<in> set (co_envelopes s) \<and> en_task_row_id x \<noteq> te_task_row_id e \<or>
      en_task_row_id x = te_task_row_id e \<and> remote_ok x (Some (?f t))"
  proof cases
    case 1
    then show ?thesis using eligible_row_free [OF ex task 1] by (auto simp: remote_ok_def)
  next
    case 2
    then show ?thesis by (simp add: remote_ok_def envelope_row_of_def)
  qed
qed simp_all

end
