(* ===== verification/LeaseHistory.thy ===== *)
theory LeaseHistory
  imports LeaseExclusive
begin

section \<open>Histories of exclusive leases\<close>

text \<open>
  Every step that does not disturb a remote task keeps the leases exclusive, and so does a
  history of such steps.
\<close>

lemma exclusive_issue:
  assumes "issue_lease cc' now e0 lid token s = Inr (s', lease)" and ex: "exclusive s"
  shows "exclusive s'"
  using assms(1) by (rule issue_lease_Inr) (simp add: exclusive_grant [OF _ ex])

lemma exclusive_claim_placement:
  assumes "claim_placement cc' now w req eid lid p s = Inr (s', out)" and ex: "exclusive s"
  shows "exclusive s'"
  using assms(1)
proof (rule claim_placement_Inr)
  fix e task s1 lease rows
  assume "grant_lease cc' now lid (Some (cr_id req)) (cr_token req) e s = Inr (s1, lease)"
    "row_task (te_task_row_id e) s = Some task" "tk_status task = TEligible"
    and s': "s' = worker_event (te_run_id e) ''worker.task_claimed'' (Some (te_task_id e)) True
       (s1\<lparr>co_placements := rows\<rparr>)"
  then have "exclusive s1" using exclusive_grant [OF _ ex] by blast
  then show ?thesis unfolding s' exclusive_simps
    by (rule exclusive_cong [THEN iffD1, rotated 2]) simp_all
qed

lemma exclusive_claim_next:
  assumes "claim_next cc' now w req eid lid s = Inr (s', out)" and ex: "exclusive s"
  shows "exclusive s'"
  using assms(1)
proof (cases rule: claim_next_cases)
  case unchanged
  then show ?thesis using ex by simp
next
  case (late ids)
  then show ?thesis using ex exclusive_cong [of s' s] by simp
next
  case (placed ids p)
  have "exclusive (cancel_placements now ids s)"
    using ex exclusive_cong [of "cancel_placements now ids s" s] by simp
  then show ?thesis by (rule exclusive_claim_placement [OF placed(1)])
qed

lemma mark_accepted_envelopes:
  "co_envelopes (mark_accepted now k eid s) =
     tbl_upd en_id eid (set_envelope_state ECompleted now) (co_envelopes s)"
  by (simp add: mark_accepted_def upd_envelope_def)

lemma exclusive_accepted:
  assumes ex: "exclusive s" and wf: "lease_tables_wf cc s" and e: "get_envelope eid s = Some e"
    and t: "row_task (en_task_row_id e) s = Some t" "tk_status t \<in> {TValidating, TAccepted}"
  shows "exclusive (upd_envelope eid (set_envelope_state ECompleted now)
    (move_task (en_task_row_id e) TAccepted now s))"
proof (rule exclusive_row_change [OF ex t(1)])
  fix x
  assume "x \<in> set (co_envelopes (upd_envelope eid (set_envelope_state ECompleted now)
    (move_task (en_task_row_id e) TAccepted now s)))"
  then have "x \<in> set (tbl_upd en_id eid (set_envelope_state ECompleted now) (co_envelopes s))"
    by (simp add: upd_envelope_def)
  then show "x \<in> set (co_envelopes s) \<and> en_task_row_id x \<noteq> en_task_row_id e \<or>
      en_task_row_id x = en_task_row_id e \<and> remote_ok x (Some (set_task_status TAccepted now t))"
  proof (cases rule: in_tbl_updE)
    case other
    then have "en_task_row_id x = en_task_row_id e \<Longrightarrow> remote_ok x (Some t)"
      using ex t(1) unfolding exclusive_def by metis
    moreover have "same_hold t (set_task_status TAccepted now t)"
      using t(2) by (auto simp: same_hold_def)
    ultimately show ?thesis using other(1) remote_ok_same_hold by blast
  next
    case (same e')
    have "e' = e" by (rule ids_unique [OF wf e same(1,2)])
    then show ?thesis using same(3) by (simp add: remote_ok_def occupied_def set_envelope_state_def)
  qed
qed (simp_all add: move_task_tasks)

lemma insert_evidence_tasks:
  "insert_evidence now rid c e task res review s = Inr s' \<Longrightarrow> tasks (co_store s') = tasks (co_store s)"
  by (auto simp: insert_evidence_def Let_def ebind_Inr_iff split: if_splits)

lemma exclusive_accept_delivered:
  assumes accept: "accept_delivered cc' now rid c e run task res review s = Inr s'"
    and wf: "lease_tables_wf cc s" and ex: "exclusive s"
    and c: "c \<in> set (co_completions s)" and e: "get_envelope (cm_envelope_id c) s = Some e"
    and t: "row_task (en_task_row_id e) s = Some task"
  shows "exclusive s'"
proof -
  have w: "leases_wf (cc_max_worker_concurrency cc) (co_leases s) (co_envelopes s) (co_completions s)"
    using wf by (simp add: lease_tables_wf_def)
  obtain s1 where check: "check_completion cc' c run task res review (co_store s) = Inr ()"
    and ev: "insert_evidence now rid c e task res review s = Inr s1"
    and s': "s' = finish_run now (rn_id run) (upd_store (release_dependents (rn_id run) now)
      (worker_event (rn_id run) ''worker.completion_accepted'' (Some (tk_task_key task)) True
        (move_task (task_key task) TAccepted now (mark_accepted now (cm_id c) (en_id e) s1))))"
    using accept by (auto simp: accept_delivered_def ebind_Inr_iff)
  have id: "en_id e = cm_envelope_id c" "e \<in> set (co_envelopes s)"
    using e by (auto simp: get_envelope_def dest: tbl_get_SomeD)
  have key: "task_key task = en_task_row_id e" using row_task_SomeD [OF t] by blast
  obtain l where l: "l \<in> set (co_leases s)" "le_envelope_id l = cm_envelope_id c" "le_state l = LCompleted"
    using leases_wfD(4) [OF w c] check_completion_Inr(1) [OF check] by (auto simp: decisive_def)
  have "en_state e \<in> {EValidating, ECompleted}"
    using active_envelope(3) [OF wf l(1) _ l(3)] e l(2) by simp
  moreover have "remote_ok e (Some task)" using ex id(2) t unfolding exclusive_def by metis
  ultimately have st: "tk_status task \<in> {TValidating, TAccepted}" by (auto simp: remote_ok_def)
  let ?m = "worker_event (rn_id run) ''worker.completion_accepted'' (Some (tk_task_key task)) True
        (move_task (task_key task) TAccepted now (mark_accepted now (cm_id c) (en_id e) s1))"
  have "exclusive (upd_envelope (en_id e) (set_envelope_state ECompleted now)
      (move_task (en_task_row_id e) TAccepted now s))"
    using e id(1) st by (intro exclusive_accepted [OF ex wf _ t]) simp_all
  then have "exclusive ?m"
    unfolding exclusive_simps
    by (rule exclusive_cong [THEN iffD1, rotated 2])
      (simp_all add: mark_accepted_envelopes upd_envelope_def insert_evidence_fields [OF ev] move_task_tasks
        insert_evidence_tasks [OF ev] key mark_accepted_def)
  then have "exclusive (upd_store (release_dependents (rn_id run) now) ?m)"
    by (rule exclusive_calm) (simp_all add: calm_release calm_refl)
  then show ?thesis unfolding s'
    by (rule exclusive_cong [THEN iffD1, rotated 2]) (simp_all add: finish_run_def upd_run_def)
qed

lemma exclusive_accept:
  assumes "accept_completion cc' now rid k res review s = Inr (s', out)"
    and wf: "lease_tables_wf cc s" and ex: "exclusive s"
  shows "exclusive s'"
  using assms(1)
proof (cases rule: accept_completion_cases)
  case (known c f)
  then show ?thesis using ex by auto
next
  case (new c e task run)
  have "c \<in> set (co_completions s)"
    using new(1) by (auto simp: get_completion_def dest: tbl_get_SomeD)
  then show ?thesis using exclusive_accept_delivered [OF new(6) wf ex _ new(2,3)] by blast
qed

lemma exclusive_frame:
  "co_envelopes s' = co_envelopes s \<Longrightarrow> tasks (co_store s') = tasks (co_store s) \<Longrightarrow>
     exclusive s \<Longrightarrow> exclusive s'"
  using exclusive_cong by blast

lemma exclusive_frames:
  assumes ex: "exclusive s"
  shows "record_heartbeat cc' now hb s = Inr (s', hr) \<Longrightarrow> exclusive s'"
    and "queue_placement cc' now rq s = Inr (s', p) \<Longrightarrow> exclusive s'"
    and "renew_lease cc' now w k token n s = Inr (s', l) \<Longrightarrow> exclusive s'"
    and "register_artifact_upload cc' now w k uid au token s = Inr (s', u) \<Longrightarrow> exclusive s'"
    and "complete_artifact_upload now w uid aid token s = Inr (s', u) \<Longrightarrow> exclusive s'"
proof -
  assume "record_heartbeat cc' now hb s = Inr (s', hr)"
  then have "s' = s \<or> s' = write_heartbeat cc' now hb s"
    by (auto simp: record_heartbeat_def ebind_Inr_iff Let_def split: if_splits option.splits)
  then show "exclusive s'"
    using ex exclusive_frame [of "write_heartbeat cc' now hb s" s] by (auto simp: write_heartbeat_def Let_def)
next
  assume "queue_placement cc' now rq s = Inr (s', p)"
  then obtain rows where "s' = s \<or> s' = worker_event (pr_run_id rq) ''worker.task_placement_queued''
      (Some (pr_task_id rq)) True (s\<lparr>co_placements := rows\<rparr>)"
    by (auto simp: queue_placement_def ebind_Inr_iff Let_def split: if_splits option.splits)
  then show "exclusive s'" using ex exclusive_frame [of "s\<lparr>co_placements := rows\<rparr>" s] by auto
next
  assume "renew_lease cc' now w k token n s = Inr (s', l)"
  then obtain a b r where "s' = worker_event a ''worker.lease_renewed'' b False (upd_lease k (\<lambda>_. r) s)"
    by (auto simp: renew_lease_def ebind_Inr_iff Let_def split: if_splits)
  then show "exclusive s'" using ex by simp
next
  assume "register_artifact_upload cc' now w k uid au token s = Inr (s', u)"
  then obtain us where "s' = s \<or> s' = s\<lparr>co_uploads := us\<rparr>"
    by (auto simp: register_artifact_upload_def ebind_Inr_iff split: if_splits option.splits)
  then show "exclusive s'" using ex exclusive_frame [of "s\<lparr>co_uploads := us\<rparr>" s] by auto
next
  assume "complete_artifact_upload now w uid aid token s = Inr (s', u)"
  then obtain us where "s' = s \<or> s' = s\<lparr>co_uploads := us\<rparr>"
    by (auto simp: complete_artifact_upload_def ebind_Inr_iff split: if_splits)
  then show "exclusive s'" using ex exclusive_frame [of "s\<lparr>co_uploads := us\<rparr>" s] by auto
qed

lemmas exclusive_ops = exclusive_frames [rotated] exclusive_claim_next exclusive_issue exclusive_begin
  exclusive_deliver exclusive_accept exclusive_expire exclusive_reconcile

lemma exclusive_step:
  assumes wf: "coord_wf cc s" and ex: "exclusive s" and calm: "\<not> disturbs s x"
  shows "exclusive (co_step env cc x s)"
proof -
  have t: "lease_tables_wf cc s" using wf by (simp add: coord_wf_def)
  show ?thesis
  proof (cases x)
    case (Local y)
    have "calm (remote_rows s) (co_store s) (step env y (co_store s))"
      using wf calm unfolding Local by (intro calm_local) (simp_all add: coord_wf_def)
    then show ?thesis unfolding Local co_step.simps by (intro exclusive_calm [OF ex]) simp_all
  next
    case (OtherRows ws arts)
    then show ?thesis using ex exclusive_frame [of "s\<lparr>co_workers := ws, co_artifacts := arts\<rparr>" s] by simp
  qed (simp only: co_step.simps; rule commit_keeps [where P = exclusive], rule ex,
    (erule exclusive_ops; (rule t | rule ex)))+
qed

text \<open>Histories in which no local call disturbs a remote task.\<close>

fun undisturbed :: "environment \<Rightarrow> coordinator \<Rightarrow> coord_op list \<Rightarrow> coordination \<Rightarrow> bool" where
  "undisturbed env cc [] s \<longleftrightarrow> True"
| "undisturbed env cc (x # xs) s \<longleftrightarrow> \<not> disturbs s x \<and> undisturbed env cc xs (co_step env cc x s)"

lemma exclusive_history:
  assumes "coord_wf cc s" and "exclusive s" and "undisturbed env cc ops s"
  shows "exclusive (run_ops (co_step env cc) ops s) \<and> coord_wf cc (run_ops (co_step env cc) ops s)"
  using assms
proof (induction ops arbitrary: s)
  case (Cons x xs)
  have "exclusive (co_step env cc x s)" using Cons.prems exclusive_step by simp
  moreover have "coord_wf cc (co_step env cc x s)" using co_step_wf [OF Cons.prems(1)] by blast
  ultimately show ?case using Cons.IH Cons.prems(3) by simp
qed simp

text \<open>Two active leases on one task are the same lease.\<close>

lemma exclusive_leases:
  assumes ex: "exclusive s" and wf: "lease_tables_wf cc s"
    and l: "l \<in> set (co_leases s)" "l' \<in> set (co_leases s)" "le_state l = LActive" "le_state l' = LActive"
    and e: "get_envelope (le_envelope_id l) s = Some e" "get_envelope (le_envelope_id l') s = Some e'"
    and same: "en_task_row_id e = en_task_row_id e'"
  shows "l = l'"
proof -
  have e_in: "e \<in> set (co_envelopes s)" "en_id e = le_envelope_id l"
    "e' \<in> set (co_envelopes s)" "en_id e' = le_envelope_id l'"
    using e by (auto simp: get_envelope_def dest: tbl_get_SomeD)
  have "en_state e \<in> {ELeased, EExecuting}" "en_state e' \<in> {ELeased, EExecuting}"
    using active_envelope(2) [OF wf l(1) e(1) l(3)] active_envelope(2) [OF wf l(2) e(2) l(4)] by auto
  then have occ: "occupied e" "occupied e'" by (auto simp: occupied_def)
  have "e' = e" using occupied_alone [OF ex wf e_in(1) occ(1) e_in(3)] same occ(2) by metis
  then have "le_envelope_id l = le_envelope_id l'" using e_in by simp
  moreover have "tbl_wf le_envelope_id (co_leases s)"
    using wf by (simp add: lease_tables_wf_def leases_wf_def leases_keys_def)
  ultimately show ?thesis using l(1,2) by (meson distinct_map inj_onD)
qed

end
