(* ===== verification/LeaseProperties.thy ===== *)
theory LeaseProperties
  imports LeaseHistory RunProperties
begin

section \<open>The guarantees of remote work\<close>

text \<open>
  The theorems of the coordination of remote work, over every state that local calls and
  coordination reach together, and the example history on which they are exercised: the run of
  two tasks of the run repository, whose first task is placed on a worker.
\<close>

abbreviation coreach :: "environment \<Rightarrow> coordinator \<Rightarrow> coord_op list \<Rightarrow> coordination" where
  "coreach env cc ops \<equiv> run_ops (co_step env cc) ops empty_coordination"

lemma coreach_wf: "coord_wf cc (coreach env cc ops)"
  by (rule lease_machine.run_inv [OF coord_wf_empty])

lemma coreach_tables: "leases_wf (cc_max_worker_concurrency cc) (co_leases (coreach env cc ops))
    (co_envelopes (coreach env cc ops)) (co_completions (coreach env cc ops))"
  using coreach_wf [of cc env ops] by (simp add: coord_wf_def lease_tables_wf_def)

subsection \<open>An example history\<close>

definition demo_cc :: coordinator where
  "demo_cc = \<lparr>cc_heartbeat_timeout_seconds = 60, cc_lease_seconds = 60,
     cc_max_worker_concurrency = 2, cc_max_completion_bytes = 1000,
     cc_fp_heartbeat = wh_worker_id, cc_fp_envelope = te_id, cc_fp_request = pr_id,
     cc_fp_submission = su_id, cc_size = (\<lambda>_. 1), cc_dump_result = (\<lambda>r. JStr (ir_task_id r))\<rparr>"

definition demo_token :: "char \<Rightarrow> string" where
  "demo_token c = replicate 64 c"

definition demo_limits :: resource_limits where
  "demo_limits = \<lparr>rl_timeout_seconds = 600, rl_memory_bytes = None, rl_cpu_count = None,
     rl_max_result_bytes = 10\<rparr>"

definition demo_heartbeat :: worker_heartbeat where
  "demo_heartbeat = \<lparr>wh_worker_id = ''w'', wh_sequence = 1, wh_capabilities = [],
     wh_resources = \<lparr>wr_logical_cpu_count = 1, wr_available_memory_bytes = 1,
       wr_max_concurrency = 2, wr_active_tasks = 0\<rparr>, wh_active_lease_ids = []\<rparr>"

definition demo_placement :: placement_request where
  "demo_placement = \<lparr>pr_id = ''q'', pr_run_id = ''r'', pr_task_id = ''a'',
     pr_preferred_worker_id = None, pr_role_fingerprint = ''f'', pr_inputs = [],
     pr_policy_fingerprint = ''f'', pr_path_scopes = [], pr_requirements = [],
     pr_resources = demo_limits, pr_deadline = 1000000000, pr_stateful_effects = False,
     pr_created_at = 6\<rparr>"

definition demo_submission :: completion_submission where
  "demo_submission = \<lparr>su_id = ''c'', su_envelope_id = ''e'', su_lease_id = ''l'',
     su_context_revision = rn_context_revision (hd (runs (reach demo_env demo_start))),
     su_repository_revision = Some ''c1'', su_result = JStr ''a'', su_artifact_ids = [],
     su_unified_patch = None, su_effect_evidence = [], su_effect_report = NotApplicable\<rparr>"

definition demo_leased :: "coord_op list" where
  "demo_leased = map Local demo_start @
     [OtherRows [\<lparr>wk_id = ''w'', wk_state = WActive, wk_created_at = 0\<rparr>] [],
      RecordHeartbeat 5 demo_heartbeat, QueuePlacement 6 demo_placement,
      ClaimNext 7 ''w'' \<lparr>cr_id = ''k'', cr_token = demo_token CHR ''a''\<rparr> ''e'' ''l'',
      BeginExecution 8 ''w'' ''l'' (demo_token CHR ''a'')]"

definition demo_delivered :: "coord_op list" where
  "demo_delivered = demo_leased @ [DeliverCompletion 9 ''w'' demo_submission (demo_token CHR ''a'')]"

text \<open>The example evaluated once, for the witnesses below.\<close>

lemma demo_leased_facts:
  "let s = coreach demo_env demo_cc demo_leased
   in co_leases s \<noteq> [] \<and> le_state (hd (co_leases s)) = LActive \<and> le_state (last (co_leases s)) = LActive \<and>
      get_envelope (le_envelope_id (hd (co_leases s))) s = Some (hd (co_envelopes s)) \<and>
      get_envelope (le_envelope_id (last (co_leases s))) s = Some (hd (co_envelopes s))"
  by code_simp

subsection \<open>Invariants of every interleaving\<close>

text \<open>
  Claim C15. Remote work keeps the promises of the run repository: in every state that local
  calls and coordination reach together, in any order, the run tables are well formed, and
  whatever happens afterwards every stored result, acceptance and plan stays, with one result
  and one acceptance for a task.
\<close>

theorem remote_work_keeps_run_invariant:
  "let s = run_ops (co_step env cc) before empty_coordination;
       s' = run_ops (co_step env cc) after s
   in run_wf (co_store s') \<and>
      set (results (co_store s)) \<subseteq> set (results (co_store s')) \<and>
      set (acceptances (co_store s)) \<subseteq> set (acceptances (co_store s')) \<and>
      set (plans (co_store s)) \<subseteq> set (plans (co_store s')) \<and>
      distinct (map result_key (results (co_store s'))) \<and>
      distinct (map acceptance_key (acceptances (co_store s')))"
proof -
  let ?s = "coreach env cc before" and ?s' = "run_ops (co_step env cc) after (coreach env cc before)"
  have "evolves (co_store ?s) (co_store ?s')" by (rule lease_history.run_leq [OF coreach_wf])
  moreover have wf: "run_wf (co_store ?s')"
    using lease_machine.run_inv [OF coreach_wf] by (simp add: coord_wf_def)
  moreover have "keys_wf (co_store ?s')" using wf by (simp add: run_wf_def)
  ultimately show ?thesis by (simp add: evolves_def keys_wf_def Let_def)
qed

text \<open>
  The lease tables of every reachable state are consistent: identifiers, envelopes
  and credentials of leases, and the attempts of a task, are never reused; every lease belongs
  to a stored envelope of the same worker and does not outlive its deadline; an active lease
  has a leased or executing envelope, a completed one a validating or completed envelope; a
  delivered or accepted completion has a completed lease, one per envelope; and no worker has
  more active leases than the bound.
\<close>

theorem lease_discipline:
  "let s = run_ops (co_step env cc) ops empty_coordination
   in leases_wf (cc_max_worker_concurrency cc) (co_leases s) (co_envelopes s) (co_completions s)"
  using coreach_tables by (simp add: Let_def)

text \<open>
  Claim C9. The configured concurrency bound holds for every worker at every moment, however
  claims, direct grants, expiries and deliveries interleave.
\<close>

theorem worker_capacity_bound:
  "active_count w (run_ops (co_step env cc) ops empty_coordination)
     \<le> max 0 (cc_max_worker_concurrency cc)"
  unfolding active_count_held by (rule leases_wfD(6) [OF coreach_tables])

text \<open>
  Claim C10. An envelope has at most one completion that counts: of all completions ever
  delivered for it, one at most is delivered or accepted; the others are duplicates, stale or
  rejected.
\<close>

theorem one_decisive_completion:
  "distinct (map cm_envelope_id
     (filter (\<lambda>c. cm_state c \<in> {CDelivered, CAccepted})
       (co_completions (run_ops (co_step env cc) ops empty_coordination))))"
proof -
  have "(\<lambda>c. cm_state c \<in> {CDelivered, CAccepted}) = decisive" by (rule ext) (simp add: decisive_def)
  then show ?thesis using leases_wfD(5) [OF coreach_tables] by metis
qed

subsection \<open>Exclusive leases\<close>

text \<open>
  Claim C4. A task has at most one active lease, in every history in which no local call
  releases, settles or fails a task that a remote envelope holds.
\<close>

theorem exclusive_lease:
  assumes "undisturbed env cc ops empty_coordination"
    and "l \<in> set (co_leases (run_ops (co_step env cc) ops empty_coordination))"
    and "l' \<in> set (co_leases (run_ops (co_step env cc) ops empty_coordination))"
    and "le_state l = LActive" and "le_state l' = LActive"
    and "get_envelope (le_envelope_id l) (run_ops (co_step env cc) ops empty_coordination) = Some e"
    and "get_envelope (le_envelope_id l') (run_ops (co_step env cc) ops empty_coordination) = Some e'"
    and "en_task_row_id e = en_task_row_id e'"
  shows "l = l'"
proof -
  have "exclusive empty_coordination" by (simp add: exclusive_def empty_coordination_def)
  then have "exclusive (coreach env cc ops)"
    using exclusive_history [OF coord_wf_empty _ assms(1)] by blast
  moreover have "lease_tables_wf cc (coreach env cc ops)"
    using coreach_wf [of cc env ops] by (simp add: coord_wf_def)
  ultimately show ?thesis using assms(2-8) by (rule exclusive_leases)
qed

theorem exclusive_lease_witness:
  "hd (co_leases (run_ops (co_step demo_env demo_cc) demo_leased empty_coordination)) =
   last (co_leases (run_ops (co_step demo_env demo_cc) demo_leased empty_coordination))"
proof -
  let ?s = "run_ops (co_step demo_env demo_cc) demo_leased empty_coordination"
  let ?l = "hd (co_leases ?s)" and ?l' = "last (co_leases ?s)"
  have u: "undisturbed demo_env demo_cc demo_leased empty_coordination" by code_simp
  note f = demo_leased_facts [unfolded Let_def]
  have ne: "co_leases ?s \<noteq> []" using f by blast
  show ?thesis
    using exclusive_lease [OF u hd_in_set [OF ne] last_in_set [OF ne]] f by blast
qed

text \<open>
  The condition is needed: a recovery of the run while a worker executes one of its
  tasks makes the task eligible again without ending the lease, a local claim then starts the
  next attempt, and the completion of the superseded attempt is still delivered and moves the
  task of the running attempt to validation.
\<close>

theorem recovery_duplicates_remote_execution:
  "let s = run_ops (co_step demo_env demo_cc)
         (demo_leased @ [Local (RecoverInterrupted 9 ''r''), Local (ClaimTask 10 ''r'' ''a'')])
         empty_coordination;
       s' = co_step demo_env demo_cc
         (DeliverCompletion 11 ''w'' demo_submission (demo_token CHR ''a'')) s
   in map le_state (co_leases s) = [LActive] \<and>
      map (\<lambda>e. (en_state e, en_task_attempt e)) (co_envelopes s) = [(EExecuting, 1)] \<and>
      map (\<lambda>t. (tk_status t, tk_attempt_count t)) (take 1 (tasks (co_store s))) = [(TExecuting, 2)] \<and>
      map cm_state (co_completions s') = [CDelivered] \<and>
      map (\<lambda>t. (tk_status t, tk_attempt_count t)) (take 1 (tasks (co_store s'))) = [(TValidating, 2)]"
  by code_simp

subsection \<open>Fencing\<close>

definition lapsed :: "instant \<Rightarrow> lease_row \<Rightarrow> bool" where
  "lapsed now l \<longleftrightarrow> le_state l \<noteq> LActive \<or> le_expires_at l \<le> now"

lemma lapsed_inactive:
  assumes "get_lease k s = Some l" and "lapsed now l"
  shows "\<exists>e. active_lease now w k token s = Inl e"
proof (cases "active_lease now w k token s")
  case (Inr p)
  then obtain l' e where "active_lease now w k token s = Inr (l', e)" by (cases p) simp
  then show ?thesis using active_lease_Inr(1,5,6) [of now w k token s l' e] assms
    by (auto simp: lapsed_def)
qed blast

text \<open>A delivery under a lapsed lease is recorded and nothing else.\<close>

lemma late_delivery:
  assumes "deliver_completion cc now w sub token s = Inr (s', row)" and "get_lease (su_lease_id sub) s = Some l"
    and "lapsed now l"
  shows "(row \<in> set (co_completions s) \<and> s' = s \<or>
      cm_state row \<in> {CStale, CDuplicate} \<and> co_completions s' = co_completions s @ [row]) \<and>
    co_leases s' = co_leases s \<and> co_envelopes s' = co_envelopes s \<and>
    co_placements s' = co_placements s \<and> tasks (co_store s') = tasks (co_store s)"
proof (cases "get_completion (su_id sub) s")
  case (Some c)
  then have "row = c \<and> s' = s" using assms(1) by (auto simp: deliver_completion_def split: if_splits)
  then show ?thesis using Some by (auto simp: get_completion_def dest: tbl_get_SomeD)
next
  case None
  obtain e imm where new: "deliver_new cc now w sub l e imm s = Inr (s', row)"
    using assms(1,2) None
    by (auto simp: deliver_completion_def ebind_Inr_iff split: if_splits option.splits)
  have "completion_stale_reason now imm l sub \<noteq> None"
    using assms(3) by (auto simp: completion_stale_reason_def lapsed_def)
  then have "delivery_state (en_id e) (completion_stale_reason now imm l sub) s \<in> {CStale, CDuplicate}"
    by (simp add: delivery_state_def)
  then show ?thesis using new
    by (auto simp: deliver_new_def Let_def completion_row_of_def)
qed

text \<open>
  Claim C8. A lease that was completed, cancelled or has expired is fenced: its holder can
  neither start, renew nor upload under it, and whatever completion it still delivers only
  adds a stale or duplicate record (or returns the one already stored) and changes no lease,
  envelope, task or placement.
\<close>

theorem stale_lease_is_fenced:
  assumes "get_lease k s = Some l" and "le_state l \<noteq> LActive \<or> le_expires_at l \<le> now"
  shows "(\<exists>e. begin_execution now w k token s = Inl e) \<and>
    (\<exists>e. renew_lease cc now w k token n s = Inl e) \<and>
    (\<exists>e. register_artifact_upload cc now w k uid req token s = Inl e) \<and>
    (deliver_completion cc now w sub token s = Inr (s', row) \<and> su_lease_id sub = k \<longrightarrow>
       (row \<in> set (co_completions s) \<and> s' = s \<or>
        cm_state row \<in> {CStale, CDuplicate} \<and> co_completions s' = co_completions s @ [row]) \<and>
       co_leases s' = co_leases s \<and> co_envelopes s' = co_envelopes s \<and>
       co_placements s' = co_placements s \<and> tasks (co_store s') = tasks (co_store s))"
proof (intro conjI)
  obtain e where al: "active_lease now w k token s = Inl e"
    using lapsed_inactive assms by (metis lapsed_def)
  show "\<exists>e. begin_execution now w k token s = Inl e" "\<exists>e. renew_lease cc now w k token n s = Inl e"
    "\<exists>e. register_artifact_upload cc now w k uid req token s = Inl e"
    by (simp_all add: begin_execution_def renew_lease_def register_artifact_upload_def al)
  show "deliver_completion cc now w sub token s = Inr (s', row) \<and> su_lease_id sub = k \<longrightarrow>
       (row \<in> set (co_completions s) \<and> s' = s \<or>
        cm_state row \<in> {CStale, CDuplicate} \<and> co_completions s' = co_completions s @ [row]) \<and>
       co_leases s' = co_leases s \<and> co_envelopes s' = co_envelopes s \<and>
       co_placements s' = co_placements s \<and> tasks (co_store s') = tasks (co_store s)"
    using late_delivery [of cc now w sub token s s' row l] assms by (auto simp: lapsed_def)
qed

definition demo_lapsed :: coordination where
  "demo_lapsed = run_ops (co_step demo_env demo_cc) (demo_leased @ [ExpireLeases 100000000])
     empty_coordination"

theorem stale_lease_is_fenced_witness:
  "(\<exists>e. begin_execution 100000001 ''w'' ''l'' (demo_token CHR ''a'') demo_lapsed = Inl e) \<and>
   cm_state (snd (projr (deliver_completion demo_cc 100000001 ''w'' demo_submission
     (demo_token CHR ''a'') demo_lapsed))) \<in> {CStale, CDuplicate} \<and>
   tasks (co_store (fst (projr (deliver_completion demo_cc 100000001 ''w'' demo_submission
     (demo_token CHR ''a'') demo_lapsed)))) = tasks (co_store demo_lapsed)"
proof -
  let ?r = "deliver_completion demo_cc 100000001 ''w'' demo_submission (demo_token CHR ''a'') demo_lapsed"
  have facts: "let s = demo_lapsed; r = deliver_completion demo_cc 100000001 ''w'' demo_submission
        (demo_token CHR ''a'') s; l = hd (co_leases s)
      in get_lease ''l'' s = Some l \<and> (le_state l \<noteq> LActive \<or> le_expires_at l \<le> 100000001) \<and>
         \<not> isl r \<and> co_completions s = []" by code_simp
  note facts = facts [unfolded Let_def]
  have l: "get_lease ''l'' demo_lapsed = Some (hd (co_leases demo_lapsed))"
    and st: "le_state (hd (co_leases demo_lapsed)) \<noteq> LActive \<or>
      le_expires_at (hd (co_leases demo_lapsed)) \<le> 100000001"
    and ok: "\<not> isl ?r" and fresh: "co_completions demo_lapsed = []" using facts by blast+
  have r: "?r = Inr (fst (projr ?r), snd (projr ?r)) \<and> su_lease_id demo_submission = ''l''"
    using ok by (simp add: demo_submission_def)
  note f = stale_lease_is_fenced [OF l st, where w = "''w''" and token = "demo_token CHR ''a''"
      and cc = demo_cc and sub = demo_submission and s' = "fst (projr ?r)" and row = "snd (projr ?r)"]
  show ?thesis using conjunct1 [OF f] mp [OF conjunct2 [OF conjunct2 [OF conjunct2 [OF f]]] r] fresh
    by simp
qed

subsection \<open>Acceptances and retries\<close>

lemma get_completion_SomeD: "get_completion k s = Some c \<Longrightarrow> c \<in> set (co_completions s) \<and> cm_id c = k"
  by (auto simp: get_completion_def dest: tbl_get_SomeD)

lemma answered:
  "\<not> isl r \<Longrightarrow> snd (projr r) \<noteq> None \<Longrightarrow> r = Inr (fst (projr r), Some (the (snd (projr r))))"
  by (cases r) auto

lemma accept_completion_found:
  assumes "accept_completion cc now rid k res review s = Inr (s', out)"
  obtains c e task run where "get_completion k s = Some c" "get_envelope (cm_envelope_id c) s = Some e"
    "row_task (en_task_row_id e) s = Some task" "get_run (co_store s) (en_run_id e) = Some run"
    "out = get_completion k s'"
  using assms
  by (auto simp: accept_completion_def Let_def ebind_Inr_iff split: option.splits)

text \<open>What a completed acceptance leaves behind.\<close>

lemma accept_completion_again:
  assumes "get_completion k s = Some c" "get_envelope (cm_envelope_id c) s = Some e"
    and "row_task (en_task_row_id e) s = Some task" "get_run (co_store s) (en_run_id e) = Some run"
    and "tbl_get ta_task_row_id (task_key task) (co_task_acceptances s) = Some a"
    and "ta_completion_id a = k"
  shows "accept_completion cc now rid k res review s = Inr (s, Some c)"
  using assms get_completion_SomeD [OF assms(1)] by (simp add: accept_completion_def)

lemma accept_completion_duplicate:
  assumes c: "get_completion k s = Some c" and e: "get_envelope (cm_envelope_id c) s = Some e"
    and t: "row_task (en_task_row_id e) s = Some task" and run: "get_run (co_store s) (en_run_id e) = Some run"
    and a: "tbl_get ta_task_row_id (task_key task) (co_task_acceptances s) = Some a"
    and other: "ta_completion_id a \<noteq> k"
    and accept: "accept_completion cc now rid k res review s = Inr (s', Some c')"
  shows "cm_state c' = CDuplicate"
proof -
  let ?f = "\<lambda>c. c\<lparr>cm_state := CDuplicate, cm_decided_at := Some now, cm_decision_reason :=
     Some ''another valid completion was already accepted''\<rparr>"
  have id: "cm_id c = k" using get_completion_SomeD [OF c] by blast
  have "s' = upd_completion k ?f s" "Some c' = get_completion k s'"
    using accept other unfolding accept_completion_def c e t run a option.case prod.case Let_def id
    by (simp_all add: eq_commute)
  then show ?thesis
    using c by (simp add: get_completion_def upd_completion_def tbl_get_upd)
qed

lemma accept_delivered_rows:
  assumes accept: "accept_delivered cc now rid c e run task res review s = Inr s'"
  shows "co_completions s' = tbl_upd cm_id (cm_id c) (\<lambda>c. c\<lparr>cm_state := CAccepted,
      cm_accepted_at := Some now, cm_decided_at := Some now\<rparr>) (co_completions s)"
    and "co_envelopes s' = tbl_upd en_id (en_id e) (set_envelope_state ECompleted now) (co_envelopes s)"
    and "co_task_acceptances s' = co_task_acceptances s @
      [\<lparr>ta_task_row_id = task_key task, ta_completion_id = cm_id c, ta_envelope_id = en_id e,
        ta_accepted_at = now\<rparr>]"
proof -
  obtain s1 where ev: "insert_evidence now rid c e task res review s = Inr s1"
    and s': "s' = finish_run now (rn_id run) (upd_store (release_dependents (rn_id run) now)
      (worker_event (rn_id run) ''worker.completion_accepted'' (Some (tk_task_key task)) True
        (move_task (task_key task) TAccepted now (mark_accepted now (cm_id c) (en_id e) s1))))"
    using accept by (auto simp: accept_delivered_def ebind_Inr_iff)
  note f = insert_evidence_fields [OF ev]
  have "co_task_acceptances s1 = co_task_acceptances s @
      [\<lparr>ta_task_row_id = task_key task, ta_completion_id = cm_id c, ta_envelope_id = en_id e,
        ta_accepted_at = now\<rparr>]"
    using ev by (auto simp: insert_evidence_def Let_def ebind_Inr_iff split: if_splits)
  then show "co_completions s' = tbl_upd cm_id (cm_id c) (\<lambda>c. c\<lparr>cm_state := CAccepted,
      cm_accepted_at := Some now, cm_decided_at := Some now\<rparr>) (co_completions s)"
    "co_envelopes s' = tbl_upd en_id (en_id e) (set_envelope_state ECompleted now) (co_envelopes s)"
    "co_task_acceptances s' = co_task_acceptances s @
      [\<lparr>ta_task_row_id = task_key task, ta_completion_id = cm_id c, ta_envelope_id = en_id e,
        ta_accepted_at = now\<rparr>]"
    by (simp_all add: s' finish_run_def mark_accepted_def upd_completion_def upd_envelope_def
        upd_placement_of_def f split: option.split)
qed

lemma evolves_row:
  assumes "evolves (co_store s) (co_store s')" and "row_task k s = Some t"
  obtains t' where "row_task k s' = Some t'" "task_key t' = task_key t"
proof -
  obtain u where u: "u \<in> set (tasks (co_store s'))" "task_key u = k"
    using assms row_task_SomeD [OF assms(2)] unfolding evolves_def rows_leq_def task_leq_def by metis
  then have "row_task k s' \<noteq> None" unfolding row_task_get tbl_get_None_iff by blast
  then obtain t' where "row_task k s' = Some t'" by blast
  then show thesis
    using that row_task_SomeD [of k s' t'] row_task_SomeD [OF assms(2)] by simp
qed

lemma evolves_run:
  assumes "evolves (co_store s) (co_store s')" and "get_run (co_store s) r = Some run"
  obtains run' where "get_run (co_store s') r = Some run'"
proof -
  obtain u where "u \<in> set (runs (co_store s'))" "rn_id u = r"
    using assms get_run_SomeD [OF assms(2)] unfolding evolves_def rows_leq_def run_leq_def by metis
  then have "get_run (co_store s') r \<noteq> None" unfolding get_run_def tbl_get_None_iff by blast
  then show thesis using that by blast
qed

lemma demo_delivered_facts:
  "let s = coreach demo_env demo_cc demo_delivered;
       r = accept_completion demo_cc 10 ''x'' ''c'' (demo_result ''a'') (demo_review ''a'') s;
       c = hd (co_completions s)
   in \<not> isl r \<and> snd (projr r) \<noteq> None \<and> cm_state (the (snd (projr r))) = CAccepted \<and>
      get_completion ''c'' s = Some c \<and> cm_state c = CDelivered \<and> cm_envelope_id c = ''e''"
  by code_simp

text \<open>
  Accepting a remote completion is idempotent: once a completion is accepted, asking
  again for its acceptance, at any later time and with whatever result and review, changes
  nothing and answers with the same accepted record.
\<close>

theorem remote_acceptance_idempotent:
  assumes "accept_completion cc now rid k res review
      (run_ops (co_step env cc) ops empty_coordination) = Inr (s', Some c)"
    and "cm_state c = CAccepted"
  shows "accept_completion cc now' rid' k res' review' s' = Inr (s', Some c)"
proof -
  let ?s = "coreach env cc ops"
  obtain c0 e task run where r: "get_completion k ?s = Some c0"
      "get_envelope (cm_envelope_id c0) ?s = Some e" "row_task (en_task_row_id e) ?s = Some task"
      "get_run (co_store ?s) (en_run_id e) = Some run" "Some c = get_completion k s'"
    by (rule accept_completion_found [OF assms(1)])
  have id: "cm_id c0 = k" "en_id e = cm_envelope_id c0" "task_key task = en_task_row_id e"
    using get_completion_SomeD [OF r(1)] r(2) row_task_SomeD [OF r(3)]
    by (auto simp: get_envelope_def dest: tbl_get_SomeD)
  show ?thesis
  proof (cases "tbl_get ta_task_row_id (task_key task) (co_task_acceptances ?s)")
    case (Some a)
    have "ta_completion_id a = k"
    proof (rule ccontr)
      assume "ta_completion_id a \<noteq> k"
      then have "cm_state c = CDuplicate"
        using accept_completion_duplicate [OF r(1-4) Some _ assms(1)] by blast
      then show False using assms(2) by simp
    qed
    moreover from this have "s' = ?s"
      using accept_completion_again [OF r(1-4) Some, of cc now rid res review] assms(1) by simp
    ultimately show ?thesis
      using accept_completion_again [OF r(1-4) Some] r(1,5) by simp
  next
    case None
    then have acc: "accept_delivered cc now rid c0 e run task res review ?s = Inr s'"
      using assms(1) r by (simp add: accept_completion_def ebind_Inr_iff)
    note rows = accept_delivered_rows [OF acc]
    have step: "s' = co_step env cc (AcceptCompletion now rid k res review) ?s"
      using assms(1) by simp
    have ev: "evolves (co_store ?s) (co_store s')"
      unfolding step using co_step_wf [OF coreach_wf] by blast
    obtain t' where t': "row_task (en_task_row_id e) s' = Some t'" "task_key t' = task_key task"
      by (rule evolves_row [OF ev r(3)])
    obtain run' where run': "get_run (co_store s') (en_run_id e) = Some run'"
      by (rule evolves_run [OF ev r(4)])
    have c: "cm_envelope_id c = cm_envelope_id c0"
      using r(1,5) rows(1) id by (auto simp: get_completion_def tbl_get_upd)
    have "get_envelope (cm_envelope_id c) s' = Some (set_envelope_state ECompleted now e)"
      using r(2) id unfolding c get_envelope_def rows(2)
      by (simp add: tbl_get_upd set_envelope_state_def)
    moreover have "tbl_get ta_task_row_id (task_key t') (co_task_acceptances s') =
        Some \<lparr>ta_task_row_id = task_key task, ta_completion_id = k, ta_envelope_id = en_id e,
          ta_accepted_at = now\<rparr>"
      using None unfolding rows(3) t'(2) id(1) by (intro tbl_get_snoc) simp_all
    ultimately show ?thesis
      using r(5) t'(1) run'
      by (intro accept_completion_again [where e = "set_envelope_state ECompleted now e" and task = t'
          and run = run' and a = "\<lparr>ta_task_row_id = task_key task, ta_completion_id = k,
            ta_envelope_id = en_id e, ta_accepted_at = now\<rparr>"])
        (simp_all add: set_envelope_state_def)
  qed
qed

theorem remote_acceptance_idempotent_witness:
  "accept_completion demo_cc 20 ''z'' ''c'' (demo_result ''b'') (demo_review ''b'')
     (fst (projr (accept_completion demo_cc 10 ''x'' ''c'' (demo_result ''a'') (demo_review ''a'')
       (run_ops (co_step demo_env demo_cc) demo_delivered empty_coordination)))) =
   accept_completion demo_cc 10 ''x'' ''c'' (demo_result ''a'') (demo_review ''a'')
     (run_ops (co_step demo_env demo_cc) demo_delivered empty_coordination)"
proof -
  let ?r = "accept_completion demo_cc 10 ''x'' ''c'' (demo_result ''a'') (demo_review ''a'')
     (run_ops (co_step demo_env demo_cc) demo_delivered empty_coordination)"
  note f = demo_delivered_facts [unfolded Let_def]
  have r: "?r = Inr (fst (projr ?r), Some (the (snd (projr ?r))))" using f by (intro answered) blast+
  have a: "cm_state (the (snd (projr ?r))) = CAccepted" using f by blast
  show ?thesis
    using trans [OF remote_acceptance_idempotent [OF r a] r [symmetric]] .
qed

text \<open>
  A remote acceptance does to the run repository what a local one does: when the
  completion that was delivered becomes accepted, the runs, plans, tasks, results and
  acceptances afterwards are those that the local installation of the same result and review
  for the run of its envelope gives.
\<close>

theorem remote_acceptance_is_local_acceptance:
  assumes "accept_completion cc now rid k res review
      (run_ops (co_step env cc) ops empty_coordination) = Inr (s', Some c)"
    and "cm_state c = CAccepted"
    and "get_completion k (run_ops (co_step env cc) ops empty_coordination) = Some c0"
    and "cm_state c0 = CDelivered"
  shows "\<exists>e st. get_envelope (cm_envelope_id c0) (run_ops (co_step env cc) ops empty_coordination) = Some e \<and>
    install_acceptance now rid (en_run_id e) res review
      (co_store (run_ops (co_step env cc) ops empty_coordination)) = Inr st \<and>
    runs (co_store s') = runs st \<and> plans (co_store s') = plans st \<and> tasks (co_store s') = tasks st \<and>
    results (co_store s') = results st \<and> acceptances (co_store s') = acceptances st"
proof -
  let ?s = "coreach env cc ops"
  obtain e task run where r: "get_envelope (cm_envelope_id c0) ?s = Some e"
      "row_task (en_task_row_id e) ?s = Some task" "get_run (co_store ?s) (en_run_id e) = Some run"
      "Some c = get_completion k s'"
    using accept_completion_found [OF assms(1)] assms(3) by (metis option.inject)
  have e: "e \<in> set (co_envelopes ?s)" using r(1) by (auto simp: get_envelope_def dest: tbl_get_SomeD)
  have run: "rn_id run = en_run_id e" using get_run_SomeD [OF r(3)] by blast
  have key: "tk_run_id task = rn_id run"
    using row_task_SomeD [OF r(2)] leases_wfD(3) [OF coreach_tables e] run by simp
  have None: "tbl_get ta_task_row_id (task_key task) (co_task_acceptances ?s) = None"
  proof (rule ccontr)
    assume "tbl_get ta_task_row_id (task_key task) (co_task_acceptances ?s) \<noteq> None"
    then obtain a where a: "tbl_get ta_task_row_id (task_key task) (co_task_acceptances ?s) = Some a" by blast
    show False
    proof (cases "ta_completion_id a = k")
      case True
      then show False
        using accept_completion_again [OF assms(3) r(1-3) a] assms(1,2,4) by simp
    next
      case False
      then show False
        using accept_completion_duplicate [OF assms(3) r(1-3) a _ assms(1)] assms(2) by simp
    qed
  qed
  have "accept_delivered cc now rid c0 e run task res review ?s = Inr s'"
    using assms(1) unfolding accept_completion_def assms(3) r(1-3) None option.case prod.case
    by (simp add: ebind_Inr_iff)
  from accept_delivered_tables [OF this key] r(1) run show ?thesis by metis
qed

theorem remote_acceptance_is_local_acceptance_witness:
  "\<exists>e st. get_envelope ''e'' (run_ops (co_step demo_env demo_cc) demo_delivered empty_coordination) = Some e \<and>
    install_acceptance 10 ''x'' (en_run_id e) (demo_result ''a'') (demo_review ''a'')
      (co_store (run_ops (co_step demo_env demo_cc) demo_delivered empty_coordination)) = Inr st"
proof -
  let ?s = "run_ops (co_step demo_env demo_cc) demo_delivered empty_coordination"
  let ?r = "accept_completion demo_cc 10 ''x'' ''c'' (demo_result ''a'') (demo_review ''a'') ?s"
  note f = demo_delivered_facts [unfolded Let_def]
  have r: "?r = Inr (fst (projr ?r), Some (the (snd (projr ?r))))" using f by (intro answered) blast+
  have a: "cm_state (the (snd (projr ?r))) = CAccepted"
    and c: "get_completion ''c'' ?s = Some (hd (co_completions ?s))"
    and d: "cm_state (hd (co_completions ?s)) = CDelivered" "cm_envelope_id (hd (co_completions ?s)) = ''e''"
    using f by blast+
  show ?thesis
    using remote_acceptance_is_local_acceptance [OF r a c d(1)] unfolding d(2) by blast
qed

text \<open>
  Registering an upload again is not idempotent, although the code means to answer a
  repeated registration: the bytes reserved by the first registration are counted against the
  repetition, so it is refused as soon as twice the size exceeds the bound of the task.
\<close>

theorem upload_retry_refused:
  "let request = \<lparr>au_expected_size = 6, au_producer_identity = ''worker:w'',
         au_run_id = Some ''r'', au_task_attempt_id = Some ''e''\<rparr>;
       s = run_ops (co_step demo_env demo_cc) demo_leased empty_coordination;
       first = register_artifact_upload demo_cc 9 ''w'' ''l'' ''u'' request (demo_token CHR ''a'') s
   in \<not> isl first \<and> map up_upload_id (co_uploads (fst (projr first))) = [''u''] \<and>
      register_artifact_upload demo_cc 10 ''w'' ''l'' ''u'' request (demo_token CHR ''a'')
        (fst (projr first)) =
      Inl (MishkanError ARTIFACT ''worker artifacts exceed the immutable task result bound'')"
  by code_simp

end
