(* ===== verification/ScheduleInvariant.thy ===== *)
theory ScheduleInvariant
  imports ScheduleDriver
begin

section \<open>The invariant of scheduling\<close>

text \<open>
  \<open>tables_wf\<close> and the row invariants of schedules and occurrences, and that every operation of the
  repository, the mutation service and the driver keeps them.
\<close>

subsection \<open>Tables\<close>

definition overlap_sig :: "scheduling \<Rightarrow> string \<Rightarrow> (string \<times> overlap_mode) option" where
  "overlap_sig s k =
     map_option (\<lambda>r. (sr_overlap_key r, sr_overlap_mode r)) (tbl_get sr_id k (sg_schedules s))"

abbreviation slot_key :: "schedule_occurrence \<Rightarrow> string \<times> string" where
  "slot_key r \<equiv> (oc_schedule_id r, oc_key r)"

definition tables_wf :: "scheduling \<Rightarrow> bool" where
  "tables_wf s \<longleftrightarrow>
     tbl_wf sr_id (sg_schedules s) \<and> tbl_wf oc_id (sg_occurrences s) \<and>
     tbl_wf slot_key (sg_occurrences s) \<and>
     (\<forall>r \<in> set (sg_occurrences s). overlap_sig s (oc_schedule_id r) \<noteq> None)"

text \<open>
  The rows: how many attempts an occurrence can have in its state, the coherence of its fields,
  the command of the attempt that is being dispatched, and the key of a fired slot.
\<close>

definition attempts_ok :: "scheduling_env \<Rightarrow> schedule_occurrence \<Rightarrow> bool" where
  "attempts_ok env r \<longleftrightarrow>
     0 \<le> oc_attempt_count r \<and> oc_attempt_count r \<le> max 1 (se_max_attempts env) \<and>
     (oc_state r = OPending \<longrightarrow> oc_attempt_count r = 0) \<and>
     (oc_state r = ORetryWaiting \<longrightarrow> oc_attempt_count r < se_max_attempts env) \<and>
     (oc_state r = ODispatching \<longrightarrow> 1 \<le> oc_attempt_count r \<and>
        oc_run_command_id r = Some (se_command_id env (oc_id r) (oc_attempt_count r)))"

definition row_ok :: "scheduling_env \<Rightarrow> schedule_occurrence \<Rightarrow> bool" where
  "row_ok env r \<longleftrightarrow> attempts_ok env r \<and> state_fields_are_coherent r \<and>
     (oc_source r \<noteq> FromManual \<longrightarrow>
        oc_key r = occurrence_key env (oc_schedule_id r) (oc_scheduled_for r))"

text \<open>What mutations add: occurrences that were never dispatched.\<close>

definition idle :: "scheduling_env \<Rightarrow> schedule_occurrence \<Rightarrow> bool" where
  "idle env r \<longleftrightarrow> row_ok env r \<and> oc_state r \<in> {OPending, OMisfired, OCoalesced}"

definition grows :: "scheduling_env \<Rightarrow> scheduling \<Rightarrow> scheduling \<Rightarrow> bool" where
  "grows env s s' \<longleftrightarrow> tables_wf s' \<and>
     (\<forall>k v. overlap_sig s k = Some v \<longrightarrow> overlap_sig s' k = Some v) \<and>
     (\<exists>new. sg_occurrences s' = sg_occurrences s @ new \<and> (\<forall>r \<in> set new. idle env r))"

lemma grows_refl: "tables_wf s \<Longrightarrow> grows env s s"
  by (simp add: grows_def)

lemma grows_trans: "grows env s t \<Longrightarrow> grows env t u \<Longrightarrow> grows env s u"
  unfolding grows_def by fastforce

lemma tables_wf_cong:
  "sg_schedules s' = sg_schedules s \<Longrightarrow> sg_occurrences s' = sg_occurrences s \<Longrightarrow>
   tables_wf s' = tables_wf s"
  by (simp add: tables_wf_def overlap_sig_def)

subsection \<open>Mutations\<close>

lemma schedule_of_Inr:
  "schedule_of env k s = Inr r \<Longrightarrow> tbl_get sr_id k (sg_schedules s) = Some r \<and> schedule_valid env r \<and> sr_id r = k"
  by (auto simp: schedule_of_def stored_schedule_def ebind_Inr_iff split: if_splits dest: tbl_get_SomeD)

lemma occurrence_of_Inr:
  "occurrence_of k s = Inr r \<Longrightarrow> tbl_get oc_id k (sg_occurrences s) = Some r \<and> occurrence_valid r \<and>
     oc_id r = k \<and> r \<in> set (sg_occurrences s)"
  by (auto simp: occurrence_of_def stored_occurrence_def ebind_Inr_iff split: if_splits dest: tbl_get_SomeD)

lemma grows_update:
  assumes "update_schedule_in_session env now k n st next_fire evaluated s = Inr (s', r)"
    and wf: "tables_wf s"
  shows "grows env' s s'"
proof -
  obtain c where c: "tbl_get sr_id k (sg_schedules s) = Some c" "sr_id c = k"
    and r: "sr_id r = k" "sr_overlap_key r = sr_overlap_key c" "sr_overlap_mode r = sr_overlap_mode c"
    and s': "s' = s\<lparr>sg_schedules := tbl_upd sr_id k (\<lambda>_. r) (sg_schedules s)\<rparr>"
    using assms(1)
    by (auto simp: update_schedule_in_session_def ebind_Inr_iff Let_def split: if_splits dest!: schedule_of_Inr)
  have keys: "map sr_id (tbl_upd sr_id k (\<lambda>_. r) (sg_schedules s)) = map sr_id (sg_schedules s)"
    using r(1) by (auto simp: tbl_upd_def)
  have "tbl_get sr_id j (tbl_upd sr_id k (\<lambda>_. r) rows) =
      (if k = j then map_option (\<lambda>_. r) (tbl_get sr_id j rows) else tbl_get sr_id j rows)" for j rows
    using r(1) by (induction rows) (auto simp: tbl_get_def tbl_upd_def)
  then have sig: "overlap_sig s' j = overlap_sig s j" for j
    using c r unfolding overlap_sig_def s' by auto
  then show ?thesis
    using wf keys unfolding grows_def tables_wf_def by (simp add: s')
qed

lemma grows_create_schedule:
  assumes "create_in_session env r s = Inr (s', r')" and wf: "tables_wf s"
  shows "grows env' s s'"
proof (cases "tbl_get sr_id (sr_id r) (sg_schedules s)")
  case (Some row)
  then have "s' = s" using assms(1) by (auto simp: create_in_session_def ebind_Inr_iff split: if_splits)
  then show ?thesis using wf grows_refl by simp
next
  case None
  then have s': "s' = s\<lparr>sg_schedules := sg_schedules s @ [r]\<rparr>"
    using assms(1) by (auto simp: create_in_session_def)
  have "overlap_sig s k = Some v \<Longrightarrow> overlap_sig s' k = Some v" for k v
    by (auto simp: overlap_sig_def s' tbl_get_append)
  then show ?thesis
    using wf None unfolding grows_def tables_wf_def s' tbl_get_None_iff by fastforce
qed

lemma find_occurrence_None:
  "find_occurrence k key s = None \<longleftrightarrow> (k, key) \<notin> slot_key ` set (sg_occurrences s)"
  by (auto simp: find_occurrence_def find_None_iff)

lemma create_occurrence_cases:
  assumes "create_occurrence_in_session r s = Inr (s', r')"
  obtains (existing) row where "find_occurrence (oc_schedule_id r) (oc_key r) s = Some row" "s' = s" "r' = row"
  | (new) "find_occurrence (oc_schedule_id r) (oc_key r) s = None"
      "tbl_get sr_id (oc_schedule_id r) (sg_schedules s) \<noteq> None"
      "oc_id r \<notin> oc_id ` set (sg_occurrences s)"
      "s' = s\<lparr>sg_occurrences := sg_occurrences s @ [r]\<rparr>" "r' = r"
proof (cases "find_occurrence (oc_schedule_id r) (oc_key r) s")
  case (Some row)
  have "s' = s \<and> r' = row"
    using assms unfolding create_occurrence_in_session_def Some option.case stored_occurrence_def
    by (simp split: if_splits)
  then show ?thesis using existing [OF Some] by blast
next
  case None
  have there: "tbl_get sr_id (oc_schedule_id r) (sg_schedules s) \<noteq> None"
    and ins: "ebind (tbl_insert oc_id r (sg_occurrences s)) (\<lambda>rows.
      Inr (s\<lparr>sg_occurrences := rows\<rparr>, r)) = Inr (s', r')"
    using assms unfolding create_occurrence_in_session_def None option.case by (simp_all split: if_splits)
  from ins show ?thesis
    by (intro new [OF None there]) (auto simp: ebind_Inr_iff tbl_insert_Inr_iff)
qed

lemma grows_create_occurrence:
  assumes create: "create_occurrence_in_session r s = Inr (s', r')" and wf: "tables_wf s" and "idle env r"
  shows "grows env s s'"
  using create
proof (cases rule: create_occurrence_cases)
  case existing
  then show ?thesis using wf grows_refl by simp
next
  case new
  have sig: "overlap_sig s' k = overlap_sig s k" for k by (simp add: overlap_sig_def new(4))
  have "tables_wf s'"
    using wf new(2,3) new(1) [unfolded find_occurrence_None]
    unfolding tables_wf_def sig by (auto simp: new(4) overlap_sig_def)
  then show ?thesis using sig \<open>idle env r\<close> by (auto simp: grows_def new(4))
qed

lemma grows_create_occurrences:
  assumes "create_occurrences rs s = Inr s'" and "tables_wf s" and "\<And>r. r \<in> set rs \<Longrightarrow> idle env r"
  shows "grows env s s'"
  using assms
proof (induction rs arbitrary: s)
  case Nil
  then show ?case by (simp add: grows_refl)
next
  case (Cons r rs)
  then obtain s1 r' where r: "create_occurrence_in_session r s = Inr (s1, r')"
    and rest: "create_occurrences rs s1 = Inr s'" by (auto simp: ebind_Inr_iff)
  have "grows env s s1" using Cons.prems by (intro grows_create_occurrence [OF r]) auto
  moreover from this have "grows env s1 s'" using rest Cons.prems
    by (intro Cons.IH) (auto simp: grows_def)
  ultimately show ?case by (rule grows_trans)
qed

lemma traverse_stored: "traverse stored_occurrence rs = Inr rs' \<Longrightarrow> rs' = rs"
  by (induction rs arbitrary: rs') (auto simp: ebind_Inr_iff stored_occurrence_def split: if_splits)

lemma idle_fired:
  assumes "st \<in> {OPending, OMisfired, OCoalesced}"
  shows "idle env (fired_occurrence env now new_id sched slot src st msg)"
  using assms
  by (auto simp: idle_def row_ok_def attempts_ok_def state_fields_are_coherent_def fired_occurrence_def)

abbreviation selected_slot :: "scheduling_env \<Rightarrow> instant list \<Rightarrow> instant" where
  "selected_slot env due \<equiv> (if se_coalesce env then last due else hd due)"

abbreviation coalesced_slots :: "scheduling_env \<Rightarrow> instant list \<Rightarrow> instant list" where
  "coalesced_slots env due \<equiv> (if se_coalesce env then butlast due else [])"

lemma fire_Inr:
  assumes fire: "fire env now new_id k req n s = Inr (s', updated, durable, cs)"
  obtains current due st msg s1 s2 next_fire where
    "schedule_of env k s = Inr current" and "sr_state current = ScheduleActive"
    and "due_slots env current (sf_observed_at req) = Inr due"
    and "cs = coalesced_occurrences env now new_id current (sf_source req) (coalesced_slots env due)"
    and "st = (if misfired env (sf_observed_at req) (selected_slot env due) then OMisfired else OPending)"
    and "create_occurrences cs s = Inr s1"
    and "create_occurrence_in_session (fired_occurrence env now (new_id (length due)) current
      (selected_slot env due) (sf_source req) st msg) s1 = Inr (s2, durable)"
    and "next_after env (sr_trigger current) (selected_slot env due) = Inr next_fire"
    and "update_schedule_in_session env now k n
      (if next_fire \<noteq> None then ScheduleActive else ScheduleCompleted) next_fire
      (Some (sf_observed_at req)) s2 = Inr (s', updated)"
proof -
  obtain current where c: "schedule_of env k s = Inr current"
    using fire unfolding fire_def ebind_Inr_iff by blast
  have st: "sr_state current = ScheduleActive" "sr_next_fire_at current \<noteq> None"
    "\<not> sf_observed_at req < the (sr_next_fire_at current)"
    using fire unfolding fire_def c ebind_simps by (simp_all split: if_splits)
  obtain due where due: "due_slots env current (sf_observed_at req) = Inr due"
    using fire st unfolding fire_def c ebind_simps by (auto simp: ebind_Inr_iff)
  let ?slot = "selected_slot env due"
  let ?late = "misfired env (sf_observed_at req) ?slot"
  let ?cs = "coalesced_occurrences env now new_id current (sf_source req) (coalesced_slots env due)"
  let ?r = "fired_occurrence env now (new_id (length due)) current ?slot (sf_source req)
    (if ?late then OMisfired else OPending)
    (if ?late then Some ''schedule occurrence exceeded its configured misfire grace'' else None)"
  have rest: "ebind (traverse stored_occurrence ?cs) (\<lambda>coalesced.
      ebind (create_occurrences coalesced s) (\<lambda>s1. ebind (stored_occurrence ?r) (\<lambda>r.
      ebind (create_occurrence_in_session r s1) (\<lambda>(s2, durable).
      ebind (next_after env (sr_trigger current) ?slot) (\<lambda>next_fire.
      ebind (update_schedule_in_session env now k n
        (if next_fire \<noteq> None then ScheduleActive else ScheduleCompleted) next_fire
        (Some (sf_observed_at req)) s2) (\<lambda>(s3, updated).
          Inr (s3, updated, durable, coalesced))))))) = Inr (s', updated, durable, cs)"
    using fire st unfolding fire_def c ebind_simps due Let_def by simp
  then obtain s1 s2 d next_fire where
      "traverse stored_occurrence ?cs = Inr cs" "create_occurrences cs s = Inr s1"
      "stored_occurrence ?r = Inr d" "create_occurrence_in_session d s1 = Inr (s2, durable)"
      "next_after env (sr_trigger current) ?slot = Inr next_fire"
      "update_schedule_in_session env now k n
        (if next_fire \<noteq> None then ScheduleActive else ScheduleCompleted) next_fire
        (Some (sf_observed_at req)) s2 = Inr (s', updated)"
    by (auto simp: ebind_Inr_iff split: prod.splits simp del: not_None_eq)
  moreover from this have "cs = ?cs" "d = ?r"
    by (auto dest: traverse_stored simp: stored_occurrence_def split: if_splits)
  ultimately show thesis
    by (intro that [OF c st(1) due]) simp_all
qed

lemma idle_coalesced:
  "r \<in> set (coalesced_occurrences env now new_id sched src slots) \<Longrightarrow> idle env r"
  by (auto simp: coalesced_occurrences_def intro: idle_fired)

lemma grows_fire:
  assumes fire: "fire env now new_id k req n s = Inr (s', updated, durable, cs)" and wf: "tables_wf s"
  shows "grows env s s'"
  using fire
proof (rule fire_Inr)
  fix current due st msg s1 s2 next_fire
  assume cs: "cs = coalesced_occurrences env now new_id current (sf_source req) (coalesced_slots env due)"
    and "st = (if misfired env (sf_observed_at req) (selected_slot env due) then OMisfired else OPending)"
    and s1: "create_occurrences cs s = Inr s1"
    and s2: "create_occurrence_in_session (fired_occurrence env now (new_id (length due)) current
      (selected_slot env due) (sf_source req) st msg) s1 = Inr (s2, durable)"
    and s3: "update_schedule_in_session env now k n
      (if next_fire \<noteq> None then ScheduleActive else ScheduleCompleted) next_fire
      (Some (sf_observed_at req)) s2 = Inr (s', updated)"
  then have st: "st \<in> {OPending, OMisfired}" by simp
  have g1: "grows env s s1" using s1 wf by (rule grows_create_occurrences) (auto simp: cs idle_coalesced)
  moreover have g2: "grows env s1 s2"
    using g1 st by (intro grows_create_occurrence [OF s2] idle_fired) (auto simp: grows_def)
  moreover have "grows env s2 s'" using g2 by (intro grows_update [OF s3]) (simp add: grows_def)
  ultimately show ?thesis using grows_trans by blast
qed

lemma grows_run_now:
  assumes run: "run_now env now new_id k command_id n s = Inr (s', out)" and wf: "tables_wf s"
  shows "grows env s s'"
proof -
  obtain r s1 durable st next_fire ev updated where
      s1: "create_occurrence_in_session r s = Inr (s1, durable)" and r: "idle env r"
    and s2: "update_schedule_in_session env now k n st next_fire ev s1 = Inr (s', updated)"
    using run
    by (auto simp: run_now_def ebind_Inr_iff Let_def stored_occurrence_def idle_def row_ok_def
        attempts_ok_def state_fields_are_coherent_def split: if_splits)
  have g1: "grows env s s1" by (rule grows_create_occurrence [OF s1 wf r])
  moreover have "grows env s1 s'" using g1 by (intro grows_update [OF s2]) (simp add: grows_def)
  ultimately show ?thesis by (rule grows_trans)
qed

lemma grows_transition:
  assumes "transition env now k st n s = Inr (s', r)" and wf: "tables_wf s"
  shows "grows env' s s'"
proof -
  obtain next_fire where "update_schedule_in_session env now k n st next_fire None s = Inr (s', r)"
    using assms(1) by (auto simp: transition_def ebind_Inr_iff split: if_splits)
  then show ?thesis using wf by (rule grows_update)
qed

lemma grows_create:
  assumes "create_schedule env now req actor fp n s = Inr (s', r)" and wf: "tables_wf s"
  shows "grows env' s s'"
proof -
  obtain x where "create_in_session env x s = Inr (s', r)"
    using assms(1) by (auto simp: create_schedule_def ebind_Inr_iff Let_def)
  then show ?thesis using wf by (rule grows_create_schedule)
qed

end
