(* ===== verification/ScheduleMachine.thy ===== *)
theory ScheduleMachine
  imports ScheduleInvariant
begin

section \<open>The machine of scheduling\<close>

text \<open>
  The invariant of the driver and the moves of an occurrence: what a single occurrence can do is
  an inductive relation, and every step of the driver moves every occurrence along it.
\<close>

subsection \<open>The moves of an occurrence\<close>

definition same_slot :: "schedule_occurrence \<Rightarrow> schedule_occurrence \<Rightarrow> bool" where
  "same_slot r r' \<longleftrightarrow> oc_id r' = oc_id r \<and> slot_key r' = slot_key r \<and>
     oc_scheduled_for r' = oc_scheduled_for r \<and> oc_source r' = oc_source r"

inductive occurrence_moves :: "scheduling_env \<Rightarrow> schedule_occurrence \<Rightarrow> schedule_occurrence \<Rightarrow> bool"
  for env where
  stays: "occurrence_moves env r r"
| claimed: "same_slot r r' \<Longrightarrow> oc_state r \<in> {OPending, ORetryWaiting} \<Longrightarrow> oc_state r' = ODispatching \<Longrightarrow>
     oc_attempt_count r' = oc_attempt_count r + 1 \<Longrightarrow>
     oc_run_command_id r' = Some (se_command_id env (oc_id r) (oc_attempt_count r')) \<Longrightarrow>
     oc_next_attempt_at r' = None \<Longrightarrow> occurrence_moves env r r'"
| blocked: "same_slot r r' \<Longrightarrow> oc_state r \<in> {OPending, ORetryWaiting} \<Longrightarrow>
     oc_state r' = OOverlapBlocked \<Longrightarrow> oc_attempt_count r' = oc_attempt_count r \<Longrightarrow>
     oc_next_attempt_at r' = None \<Longrightarrow> occurrence_moves env r r'"
| settled: "same_slot r r' \<Longrightarrow> oc_state r = ODispatching \<Longrightarrow>
     oc_state r' \<in> {OAccepted, OFailed, OUncertain} \<Longrightarrow> oc_attempt_count r' = oc_attempt_count r \<Longrightarrow>
     oc_run_command_id r' = oc_run_command_id r \<Longrightarrow> oc_next_attempt_at r' = None \<Longrightarrow>
     oc_state r' = OAccepted \<longrightarrow> oc_run_id r' \<noteq> None \<Longrightarrow> occurrence_moves env r r'"
| postponed: "same_slot r r' \<Longrightarrow> oc_state r = ODispatching \<Longrightarrow> oc_state r' = ORetryWaiting \<Longrightarrow>
     oc_attempt_count r' = oc_attempt_count r \<Longrightarrow> oc_attempt_count r < se_max_attempts env \<Longrightarrow>
     oc_next_attempt_at r' \<noteq> None \<Longrightarrow> occurrence_moves env r r'"

inductive_cases moves_from: "occurrence_moves env r r'"

lemma moves_same_slot: "occurrence_moves env r r' \<Longrightarrow> same_slot r r'"
  by (induction rule: occurrence_moves.induct) (simp_all add: same_slot_def)

lemma moves_row_ok: "occurrence_moves env r r' \<Longrightarrow> row_ok env r \<Longrightarrow> row_ok env r'"
  by (induction rule: occurrence_moves.induct)
    (auto simp: row_ok_def attempts_ok_def state_fields_are_coherent_def same_slot_def)

lemma moves_terminal: "occurrence_moves env r r' \<Longrightarrow> terminal (oc_state r) \<Longrightarrow> r' = r"
  by (induction rule: occurrence_moves.induct) (auto simp: terminal_def)

text \<open>Every change of state uses up some of the attempts that are left.\<close>

definition potential :: "scheduling_env \<Rightarrow> schedule_occurrence \<Rightarrow> nat" where
  "potential env r =
     (let left = nat (max 1 (se_max_attempts env) - oc_attempt_count r)
      in if terminal (oc_state r) then 0
         else if oc_state r = ODispatching then 2 * left + 1 else 2 * left)"

lemma moves_potential:
  assumes "occurrence_moves env r r'" and "row_ok env r"
  shows "r' = r \<or> potential env r' < potential env r"
  using assms
  by (induction rule: occurrence_moves.induct)
    (auto simp: potential_def terminal_def row_ok_def attempts_ok_def Let_def)

definition rows_move ::
  "scheduling_env \<Rightarrow> schedule_occurrence list \<Rightarrow> schedule_occurrence list \<Rightarrow> bool" where
  "rows_move env rs rs' \<longleftrightarrow> list_all2 (occurrence_moves env) rs (take (length rs) rs')"

lemma rows_move_append: "rows_move env rs (rs @ new)"
  by (simp add: rows_move_def list.rel_refl stays)

lemma rows_move_refl: "rows_move env rs rs"
  using rows_move_append [of env rs "[]"] by simp

lemma rows_move_upd:
  assumes "tbl_wf oc_id rs" and "tbl_get oc_id k rs = Some r" and "occurrence_moves env r r'"
  shows "rows_move env rs (tbl_upd oc_id k (\<lambda>_. r') rs)"
proof -
  have "occurrence_moves env x (if oc_id x = k then r' else x)" if "x \<in> set rs" for x
  proof (cases "oc_id x = k")
    case True
    then have "x = r" using assms(1,2) that tbl_get_Some_iff [OF assms(1)] by (metis option.inject)
    then show ?thesis using True assms(3) by simp
  qed (simp add: stays)
  then show ?thesis
    unfolding rows_move_def tbl_upd_def
    by (simp add: list.rel_map(2) list_all2_same)
qed

lemma rows_move_member:
  assumes "rows_move env rs rs'" and "r \<in> set rs"
  obtains r' where "r' \<in> set rs'" "occurrence_moves env r r'"
proof -
  obtain i where i: "i < length rs" "rs ! i = r" using assms(2) by (auto simp: in_set_conv_nth)
  have "occurrence_moves env (rs ! i) (take (length rs) rs' ! i)"
    and "length (take (length rs) rs') = length rs"
    using assms(1) i(1) by (auto simp: rows_move_def list_all2_conv_all_nth)
  then show thesis using i that [of "rs' ! i"] by (auto simp: nth_mem)
qed

subsection \<open>The invariant of the driver\<close>

definition dispatch_excl :: "scheduling \<Rightarrow> bool" where
  "dispatch_excl s \<longleftrightarrow>
     (\<forall>r \<in> set (sg_occurrences s). \<forall>r' \<in> set (sg_occurrences s). \<forall>key.
        oc_state r = ODispatching \<and> oc_state r' = ODispatching \<and>
        overlap_sig s (oc_schedule_id r) = Some (key, OverlapBlock) \<and>
        overlap_sig s (oc_schedule_id r') = Some (key, OverlapBlock) \<longrightarrow> r = r')"

definition claims_ok :: "scheduling \<Rightarrow> schedule_occurrence list \<Rightarrow> bool" where
  "claims_ok s cs \<longleftrightarrow> tbl_wf oc_id cs \<and>
     (\<forall>c \<in> set cs. \<exists>r \<in> set (sg_occurrences s).
        oc_id r = oc_id c \<and> oc_state r = ODispatching \<and> oc_attempt_count r = oc_attempt_count c)"

definition waits :: "scheduling \<Rightarrow> schedule_occurrence \<Rightarrow> bool" where
  "waits s x \<longleftrightarrow> (\<exists>r \<in> set (sg_occurrences s). oc_id r = oc_id x \<and>
     oc_schedule_id r = oc_schedule_id x \<and> oc_attempt_count r = oc_attempt_count x \<and>
     oc_state r \<in> {OPending, ORetryWaiting})"

definition target_free :: "scheduling \<Rightarrow> string \<Rightarrow> string \<Rightarrow> bool" where
  "target_free s key k \<longleftrightarrow> (\<forall>r \<in> set (sg_occurrences s). \<forall>m.
     oc_state r = ODispatching \<and> overlap_sig s (oc_schedule_id r) = Some (key, m) \<longrightarrow> oc_id r = k)"

definition lock_ok ::
  "scheduling \<Rightarrow> (schedule_occurrence \<times> schedule_record \<times> dispatch_phase) option \<Rightarrow> bool" where
  "lock_ok s lock \<longleftrightarrow>
     (case lock of None \<Rightarrow> True
      | Some (x, sched, ph) \<Rightarrow> waits s x \<and>
          overlap_sig s (oc_schedule_id x) = Some (sr_overlap_key sched, sr_overlap_mode sched) \<and>
          (ph = Clear \<and> sr_overlap_mode sched = OverlapBlock \<longrightarrow>
             target_free s (sr_overlap_key sched) (oc_id x)))"

definition rows_ok :: "scheduling_env \<Rightarrow> scheduling \<Rightarrow> bool" where
  "rows_ok env s \<longleftrightarrow> (\<forall>r \<in> set (sg_occurrences s). row_ok env r)"

definition driver_wf :: "scheduling_env \<Rightarrow> driver \<Rightarrow> bool" where
  "driver_wf env d \<longleftrightarrow> tables_wf (dr_state d) \<and> rows_ok env (dr_state d) \<and>
     dispatch_excl (dr_state d) \<and> claims_ok (dr_state d) (dr_claims d) \<and>
     lock_ok (dr_state d) (dr_lock d)"

lemma driver_wf_empty: "driver_wf env empty_driver"
  by (simp add: driver_wf_def empty_driver_def tables_wf_def rows_ok_def dispatch_excl_def
      claims_ok_def lock_ok_def)

text \<open>A change of the state that keeps the memory of the driver.\<close>

definition state_step :: "scheduling_env \<Rightarrow> driver \<Rightarrow> driver \<Rightarrow> bool" where
  "state_step env d d' \<longleftrightarrow> driver_wf env d' \<and>
     rows_move env (sg_occurrences (dr_state d)) (sg_occurrences (dr_state d'))"

lemma grows_sig:
  assumes "grows env s s'" and "tables_wf s" and "r \<in> set (sg_occurrences s)"
  shows "overlap_sig s' (oc_schedule_id r) = overlap_sig s (oc_schedule_id r)"
  using assms unfolding grows_def tables_wf_def by (metis not_None_eq)

lemma grows_dispatching:
  assumes "grows env s s'" and "r \<in> set (sg_occurrences s')" and "oc_state r = ODispatching"
  shows "r \<in> set (sg_occurrences s)"
  using assms unfolding grows_def idle_def by fastforce

lemma grows_old: "grows env s s' \<Longrightarrow> r \<in> set (sg_occurrences s) \<Longrightarrow> r \<in> set (sg_occurrences s')"
  unfolding grows_def by auto

lemma grows_waits: "grows env s s' \<Longrightarrow> waits s x \<Longrightarrow> waits s' x"
  unfolding waits_def using grows_old by blast

lemma grows_lock:
  assumes g: "grows env s s'" and wf: "tables_wf s" and "lock_ok s lock"
  shows "lock_ok s' lock"
proof (cases lock)
  case (Some p)
  obtain x sched ph where p: "p = (x, sched, ph)" by (cases p) auto
  have l: "waits s x" "overlap_sig s (oc_schedule_id x) = Some (sr_overlap_key sched, sr_overlap_mode sched)"
    "ph = Clear \<and> sr_overlap_mode sched = OverlapBlock \<longrightarrow> target_free s (sr_overlap_key sched) (oc_id x)"
    using assms(3) by (simp_all add: lock_ok_def Some p)
  have "target_free s' key k" if "target_free s key k" for key k
    unfolding target_free_def
    using that [unfolded target_free_def] grows_dispatching [OF g] grows_sig [OF g wf] by metis
  moreover have "overlap_sig s' (oc_schedule_id x) = Some (sr_overlap_key sched, sr_overlap_mode sched)"
    using g l(2) unfolding grows_def by blast
  ultimately show ?thesis using l grows_waits [OF g] by (simp add: lock_ok_def Some p)
qed (simp add: lock_ok_def)

lemma grows_driver:
  assumes g: "grows env (dr_state d) s'" and wf: "driver_wf env d"
  shows "state_step env d (d\<lparr>dr_state := s'\<rparr>)"
proof -
  let ?s = "dr_state d"
  have w: "tables_wf ?s" "rows_ok env ?s" "dispatch_excl ?s" "claims_ok ?s (dr_claims d)"
    "lock_ok ?s (dr_lock d)"
    using wf by (simp_all add: driver_wf_def)
  obtain new where new: "sg_occurrences s' = sg_occurrences ?s @ new" "\<forall>r \<in> set new. idle env r"
    using g by (auto simp: grows_def)
  have "rows_ok env s'" using w(2) new by (auto simp: rows_ok_def idle_def)
  moreover have "dispatch_excl s'"
    unfolding dispatch_excl_def
    using w(3) [unfolded dispatch_excl_def] grows_dispatching [OF g] grows_sig [OF g w(1)] by metis
  moreover have "claims_ok s' (dr_claims d)"
    using w(4) grows_old [OF g] unfolding claims_ok_def by blast
  ultimately show ?thesis
    using g grows_lock [OF g w(1,5)] rows_move_append [of env _ new] new(1)
    by (simp add: state_step_def driver_wf_def grows_def)
qed

lemma state_step_refl: "driver_wf env d \<Longrightarrow> state_step env d d"
  by (simp add: state_step_def rows_move_refl)

lemma with_state_grows:
  assumes "driver_wf env d" and "\<And>s' x. r = Inr (s', x) \<Longrightarrow> grows env (dr_state d) s'"
  shows "state_step env d (with_state d r)"
proof (cases r)
  case (Inl e)
  then show ?thesis using state_step_refl [OF assms(1)] by (simp add: with_state_def)
next
  case (Inr p)
  then obtain s' x where "r = Inr (s', x)" by (cases p) auto
  then show ?thesis
    using grows_driver [OF assms(2) assms(1)] by (simp add: with_state_def)
qed

subsection \<open>Moves of one occurrence in the state\<close>

lemma claim_dispatch_cases:
  assumes "claim_dispatch now k command_id s = Inr (s', r')"
  obtains (again) "s' = s" "tbl_get oc_id k (sg_occurrences s) = Some r'" "oc_state r' = ODispatching"
  | (claimed) r where "tbl_get oc_id k (sg_occurrences s) = Some r" "oc_state r \<in> {OPending, ORetryWaiting}"
      "r' = r\<lparr>oc_state := ODispatching, oc_attempt_count := oc_attempt_count r + 1,
         oc_run_command_id := Some command_id, oc_next_attempt_at := None,
         oc_error_code := None, oc_error_message := None, oc_updated_at := now\<rparr>"
      "sg_schedules s' = sg_schedules s" "sg_occurrences s' = tbl_upd oc_id k (\<lambda>_. r') (sg_occurrences s)"
proof -
  obtain r where r: "occurrence_of k s = Inr r" using assms by (auto simp: claim_dispatch_def ebind_Inr_iff)
  note get = occurrence_of_Inr [OF r, THEN conjunct1]
  show thesis
  proof (cases "oc_state r = ODispatching")
    case True
    then show ?thesis using assms get r
      by (intro again) (auto simp: claim_dispatch_def split: if_splits)
  next
    case False
    then show ?thesis using assms r
      by (intro claimed [OF get])
        (auto simp: claim_dispatch_def Let_def schedule_event_def upd_occurrence_def split: if_splits)
  qed
qed

lemma settle_cases:
  assumes "settle_occurrence now k x s = Inr (s', r')"
  obtains (again) "s' = s"
  | (settled) r where "tbl_get oc_id k (sg_occurrences s) = Some r" "\<not> terminal (oc_state r)"
      "r' = r\<lparr>oc_state := st_state x, oc_run_id := st_run_id x, oc_next_attempt_at := st_next_attempt_at x,
         oc_error_code := st_error_code x, oc_error_message := st_error_message x, oc_updated_at := now\<rparr>"
      "sg_schedules s' = sg_schedules s" "sg_occurrences s' = tbl_upd oc_id k (\<lambda>_. r') (sg_occurrences s)"
proof -
  obtain r where r: "occurrence_of k s = Inr r"
    using assms by (auto simp: settle_occurrence_def ebind_Inr_iff split: if_splits)
  note get = occurrence_of_Inr [OF r, THEN conjunct1]
  show thesis
  proof (cases "terminal (oc_state r)")
    case True
    then show ?thesis using assms r
      by (intro again) (auto simp: settle_occurrence_def split: if_splits)
  next
    case False
    then show ?thesis using assms r
      by (intro settled [OF get])
        (auto simp: settle_occurrence_def Let_def schedule_event_def upd_occurrence_def split: if_splits)
  qed
qed

lemma unique_row:
  "tables_wf s \<Longrightarrow> tbl_get oc_id k (sg_occurrences s) = Some r \<Longrightarrow> x \<in> set (sg_occurrences s) \<Longrightarrow>
   oc_id x = k \<Longrightarrow> x = r"
  unfolding tables_wf_def by (metis tbl_get_Some_iff option.inject)

text \<open>The state after the move of one row.\<close>

definition moved ::
  "scheduling_env \<Rightarrow> scheduling \<Rightarrow> string \<Rightarrow> schedule_occurrence \<Rightarrow> schedule_occurrence \<Rightarrow> scheduling \<Rightarrow> bool" where
  "moved env s k r r' s' \<longleftrightarrow>
     tbl_get oc_id k (sg_occurrences s) = Some r \<and> occurrence_moves env r r' \<and>
     sg_schedules s' = sg_schedules s \<and> sg_occurrences s' = tbl_upd oc_id k (\<lambda>_. r') (sg_occurrences s)"

lemma movedD:
  assumes m: "moved env s k r r' s'" and wf: "tables_wf s"
  shows "overlap_sig s' = overlap_sig s" and "oc_id r = k" and "oc_id r' = k"
    and "oc_schedule_id r' = oc_schedule_id r" and "r \<in> set (sg_occurrences s)"
    and "rows_move env (sg_occurrences s) (sg_occurrences s')"
    and "\<And>x. x \<in> set (sg_occurrences s') \<longleftrightarrow> x = r' \<or> x \<in> set (sg_occurrences s) \<and> oc_id x \<noteq> k"
proof -
  have get: "tbl_get oc_id k (sg_occurrences s) = Some r" and mv: "occurrence_moves env r r'"
    and s': "sg_schedules s' = sg_schedules s"
      "sg_occurrences s' = tbl_upd oc_id k (\<lambda>_. r') (sg_occurrences s)"
    using m by (simp_all add: moved_def)
  have same: "same_slot r r'" using mv by (rule moves_same_slot)
  show "overlap_sig s' = overlap_sig s" by (simp add: overlap_sig_def fun_eq_iff s')
  show r: "oc_id r = k" "r \<in> set (sg_occurrences s)" using tbl_get_SomeD [OF get] by auto
  show r': "oc_id r' = k" "oc_schedule_id r' = oc_schedule_id r"
    using r same by (auto simp: same_slot_def)
  have ids: "tbl_wf oc_id (sg_occurrences s)" using wf by (simp add: tables_wf_def)
  show "rows_move env (sg_occurrences s) (sg_occurrences s')"
    unfolding s' using ids get mv by (rule rows_move_upd)
  show "x \<in> set (sg_occurrences s') \<longleftrightarrow> x = r' \<or> x \<in> set (sg_occurrences s) \<and> oc_id x \<noteq> k" for x
    using r by (auto simp: s' tbl_upd_def)
qed

lemma moved_tables:
  assumes m: "moved env s k r r' s'" and wf: "tables_wf s"
  shows "tables_wf s'"
proof -
  note d = movedD [OF m wf]
  have same: "same_slot r r'" using m by (auto simp: moved_def dest: moves_same_slot)
  let ?u = "\<lambda>x. if oc_id x = k then r' else x"
  have id: "oc_id (?u x) = oc_id x" for x using d(3) by simp
  have slot: "slot_key (?u x) = slot_key x" if "x \<in> set (sg_occurrences s)" for x
    using unique_row [OF wf _ that] m same by (auto simp: moved_def same_slot_def)
  have "map oc_id (sg_occurrences s') = map oc_id (sg_occurrences s)"
    using m id by (simp add: moved_def tbl_upd_def)
  moreover have "map slot_key (sg_occurrences s') = map slot_key (sg_occurrences s)"
    using m slot by (simp add: moved_def tbl_upd_def del: prod.inject cong: map_cong)
  moreover have "overlap_sig s (oc_schedule_id x) \<noteq> None" if "x \<in> set (sg_occurrences s')" for x
    using that wf d by (auto simp: tables_wf_def)
  ultimately show ?thesis using wf m d(1) unfolding tables_wf_def moved_def by simp
qed

lemma moved_rows:
  assumes m: "moved env s k r r' s'" and wf: "tables_wf s" and rows: "rows_ok env s"
  shows "rows_ok env s'"
proof -
  note d = movedD [OF m wf]
  have "row_ok env r" using rows d(5) by (simp add: rows_ok_def)
  then have "row_ok env r'" using m moves_row_ok by (auto simp: moved_def)
  then show ?thesis using rows d(7) by (auto simp: rows_ok_def)
qed

text \<open>A move keeps the exclusion unless it starts a dispatch where the target is not free.\<close>

lemma moved_excl:
  assumes m: "moved env s k r r' s'" and wf: "tables_wf s" and ex: "dispatch_excl s"
    and free: "oc_state r' = ODispatching \<Longrightarrow>
      overlap_sig s (oc_schedule_id r) = Some (key, OverlapBlock) \<Longrightarrow> target_free s key k"
    and key: "\<And>j. overlap_sig s (oc_schedule_id r) = Some (j, OverlapBlock) \<Longrightarrow> j = key"
  shows "dispatch_excl s'"
  unfolding dispatch_excl_def
proof (intro ballI allI impI, elim conjE)
  fix x y j
  assume xy: "x \<in> set (sg_occurrences s')" "y \<in> set (sg_occurrences s')" "oc_state x = ODispatching"
    "oc_state y = ODispatching" "overlap_sig s' (oc_schedule_id x) = Some (j, OverlapBlock)"
    "overlap_sig s' (oc_schedule_id y) = Some (j, OverlapBlock)"
  note d = movedD [OF m wf]
  have other: "z = r'" if "z \<in> set (sg_occurrences s')" "oc_state z = ODispatching"
      "overlap_sig s (oc_schedule_id z) = Some (j, OverlapBlock)"
      "oc_state r' = ODispatching" "overlap_sig s (oc_schedule_id r') = Some (j, OverlapBlock)" for z
  proof (rule ccontr)
    assume "z \<noteq> r'"
    then have z: "z \<in> set (sg_occurrences s)" "oc_id z \<noteq> k" using that(1) d(7) by auto
    have "overlap_sig s (oc_schedule_id r) = Some (j, OverlapBlock)" using that(5) d(4) by simp
    then have "target_free s j k" using free that(4) key by metis
    then show False using z that(2,3) unfolding target_free_def by blast
  qed
  show "x = y"
  proof (cases "x = r' \<or> y = r'")
    case True
    then show ?thesis using other [of x] other [of y] xy d(1) by metis
  next
    case False
    then have "x \<in> set (sg_occurrences s)" "y \<in> set (sg_occurrences s)" using xy(1,2) d(7) by auto
    then show ?thesis using ex xy(3-6) d(1) unfolding dispatch_excl_def by metis
  qed
qed

lemma claims_ok_moved:
  assumes m: "moved env s k r r' s'" and wf: "tables_wf s" and c: "claims_ok s cs"
    and out: "k \<notin> oc_id ` set cs"
  shows "claims_ok s' cs"
  unfolding claims_ok_def
proof (intro conjI ballI)
  show "tbl_wf oc_id cs" using c by (simp add: claims_ok_def)
  fix x assume x: "x \<in> set cs"
  then obtain y where "y \<in> set (sg_occurrences s)" "oc_id y = oc_id x" "oc_state y = ODispatching"
      "oc_attempt_count y = oc_attempt_count x"
    using c unfolding claims_ok_def by blast
  moreover from this have "oc_id y \<noteq> k" using out x by (metis image_eqI)
  ultimately show "\<exists>r \<in> set (sg_occurrences s'). oc_id r = oc_id x \<and> oc_state r = ODispatching \<and>
      oc_attempt_count r = oc_attempt_count x"
    using movedD(7) [OF m wf] by blast
qed

lemma lock_ok_moved:
  assumes m: "moved env s k r r' s'" and wf: "tables_wf s" and lock: "lock_ok s lock"
    and disp: "oc_state r = ODispatching" and st: "oc_state r' \<noteq> ODispatching"
  shows "lock_ok s' lock"
proof (cases lock)
  case (Some p)
  obtain x sched ph where p: "p = (x, sched, ph)" by (cases p) auto
  note d = movedD [OF m wf]
  have l: "waits s x" "overlap_sig s (oc_schedule_id x) = Some (sr_overlap_key sched, sr_overlap_mode sched)"
    "ph = Clear \<and> sr_overlap_mode sched = OverlapBlock \<longrightarrow> target_free s (sr_overlap_key sched) (oc_id x)"
    using lock by (simp_all add: lock_ok_def Some p)
  obtain y where y: "y \<in> set (sg_occurrences s)" "oc_id y = oc_id x" "oc_schedule_id y = oc_schedule_id x"
      "oc_attempt_count y = oc_attempt_count x" "oc_state y \<in> {OPending, ORetryWaiting}"
    using l(1) unfolding waits_def by blast
  have "oc_id y \<noteq> k" using unique_row [OF wf _ y(1), of k r] m y(5) disp by (auto simp: moved_def)
  then have "waits s' x" using y d(7) unfolding waits_def by blast
  moreover have "target_free s' key j" if "target_free s key j" for key j
    using that st d(1,7) unfolding target_free_def by metis
  ultimately show ?thesis using l(2,3) d(1) by (simp add: lock_ok_def Some p)
qed (simp add: lock_ok_def)

subsection \<open>The parts of a dispatch\<close>

lemma dispatch_read_step:
  assumes wf: "driver_wf env d"
  shows "state_step env d (dispatch_read env k d)"
proof (cases "dr_lock d")
  case None
  show ?thesis
  proof (cases "occurrence_of k (dr_state d)")
    case (Inr r)
    note r = occurrence_of_Inr [OF Inr]
    show ?thesis
    proof (cases "schedule_of env (oc_schedule_id r) (dr_state d)")
      case (Inr sched)
      have "waits (dr_state d) r" if "oc_state r \<in> {OPending, ORetryWaiting}"
        using that r unfolding waits_def by blast
      moreover have "overlap_sig (dr_state d) (oc_schedule_id r) = Some (sr_overlap_key sched, sr_overlap_mode sched)"
        using schedule_of_Inr [OF Inr] by (simp add: overlap_sig_def)
      ultimately show ?thesis
        using wf None Inr \<open>occurrence_of k (dr_state d) = Inr r\<close>
        by (auto simp: dispatch_read_def state_step_def driver_wf_def lock_ok_def rows_move_refl)
    qed (use state_step_refl [OF wf] None Inr in \<open>auto simp: dispatch_read_def\<close>)
  qed (use state_step_refl [OF wf] None in \<open>auto simp: dispatch_read_def\<close>)
qed (use state_step_refl [OF wf] in \<open>simp add: dispatch_read_def\<close>)

lemma shares_target_sig: "shares_target key s r \<longleftrightarrow> (\<exists>m. overlap_sig s (oc_schedule_id r) = Some (key, m))"
  by (auto simp: shares_target_def overlap_sig_def split: option.splits)

lemma no_overlap_free: "\<not> has_active_overlap sched k s \<Longrightarrow> target_free s (sr_overlap_key sched) k"
  by (auto simp: has_active_overlap_def target_free_def list_ex_iff shares_target_sig)

lemma dispatch_check_step:
  assumes wf: "driver_wf env d"
  shows "state_step env d (dispatch_check d)"
proof (cases "\<exists>r sched. dr_lock d = Some (r, sched, ToCheck)")
  case True
  then obtain r sched where l: "dr_lock d = Some (r, sched, ToCheck)" by blast
  then show ?thesis
    using wf no_overlap_free [of sched "oc_id r" "dr_state d"]
    by (auto simp: dispatch_check_def state_step_def driver_wf_def lock_ok_def rows_move_refl)
next
  case False
  then have "dispatch_check d = d"
    by (auto simp: dispatch_check_def split: option.splits dispatch_phase.splits)
  then show ?thesis using state_step_refl [OF wf] by simp
qed

lemma wf_unlocked: "driver_wf env d \<Longrightarrow> driver_wf env (d\<lparr>dr_lock := None\<rparr>)"
  by (simp add: driver_wf_def lock_ok_def)

lemma waits_row:
  assumes "waits s x" and "tables_wf s" and "tbl_get oc_id (oc_id x) (sg_occurrences s) = Some r"
  shows "oc_state r \<in> {OPending, ORetryWaiting} \<and> oc_attempt_count r = oc_attempt_count x \<and>
    oc_schedule_id r = oc_schedule_id x"
  using assms unique_row [OF assms(2,3)] unfolding waits_def by metis

lemma waiting_not_claimed:
  assumes "claims_ok s cs" and "tables_wf s" and "tbl_get oc_id k (sg_occurrences s) = Some r"
    and "oc_state r \<in> {OPending, ORetryWaiting}"
  shows "k \<notin> oc_id ` set cs"
proof
  assume "k \<in> oc_id ` set cs"
  then obtain y where "y \<in> set (sg_occurrences s)" "oc_id y = k" "oc_state y = ODispatching"
    using assms(1) unfolding claims_ok_def by fastforce
  then show False using unique_row [OF assms(2,3)] assms(4) by auto
qed

text \<open>A step that moves one row and gives the driver new claims.\<close>

lemma moved_driver:
  assumes wf: "driver_wf env d" and m: "moved env (dr_state d) k r r' (dr_state d')"
    and free: "oc_state r' = ODispatching \<Longrightarrow>
      overlap_sig (dr_state d) (oc_schedule_id r) = Some (key, OverlapBlock) \<Longrightarrow>
      target_free (dr_state d) key k"
    and key: "\<And>j. overlap_sig (dr_state d) (oc_schedule_id r) = Some (j, OverlapBlock) \<Longrightarrow> j = key"
    and claims: "claims_ok (dr_state d') (dr_claims d')"
    and lock: "lock_ok (dr_state d') (dr_lock d')"
  shows "state_step env d d'"
proof -
  have w: "tables_wf (dr_state d)" "rows_ok env (dr_state d)" "dispatch_excl (dr_state d)"
    using wf by (simp_all add: driver_wf_def)
  have "dispatch_excl (dr_state d')" using free key by (rule moved_excl [OF m w(1,3)])
  then show ?thesis
    using moved_tables [OF m w(1)] moved_rows [OF m w(1,2)] claims lock movedD(6) [OF m w(1)]
    by (simp add: state_step_def driver_wf_def)
qed

lemma same_state_driver:
  assumes "driver_wf env d" and "dr_state d' = dr_state d"
    and "claims_ok (dr_state d) (dr_claims d')" and "lock_ok (dr_state d) (dr_lock d')"
  shows "state_step env d d'"
  using assms by (simp add: state_step_def driver_wf_def rows_move_refl)

lemma claims_ok_subset:
  "claims_ok s cs \<Longrightarrow> tbl_wf oc_id cs' \<Longrightarrow> set cs' \<subseteq> set cs \<Longrightarrow> claims_ok s cs'"
  unfolding claims_ok_def by blast

lemma dispatch_blocked_step:
  assumes wf: "driver_wf env d" and l: "dr_lock d = Some (x, sched, Overlapping)"
  shows "state_step env d (dispatch_finish env now d)"
proof (cases "settle_occurrence now (oc_id x) overlap_blocked (dr_state d)")
  case (Inl e)
  then show ?thesis
    using wf l by (intro same_state_driver)
      (simp_all add: dispatch_finish_def with_state_def driver_wf_def lock_ok_def)
next
  case (Inr p)
  then obtain s' r' where settle: "settle_occurrence now (oc_id x) overlap_blocked (dr_state d) = Inr (s', r')"
    by (cases p) auto
  let ?s = "dr_state d"
  have d': "dispatch_finish env now d = d\<lparr>dr_lock := None, dr_state := s'\<rparr>"
    using l settle by (simp add: dispatch_finish_def with_state_def)
  have w: "tables_wf ?s" "claims_ok ?s (dr_claims d)" "waits ?s x"
    using wf l by (simp_all add: driver_wf_def lock_ok_def)
  show ?thesis using settle
  proof (cases rule: settle_cases)
    case again
    then show ?thesis using wf w d' by (intro same_state_driver) (simp_all add: lock_ok_def)
  next
    case (settled r)
    have st: "oc_state r \<in> {OPending, ORetryWaiting}" using waits_row [OF w(3,1) settled(1)] by blast
    have "occurrence_moves env r r'"
      using st by (intro blocked) (simp_all add: settled(3) same_slot_def overlap_blocked_def)
    then have m: "moved env ?s (oc_id x) r r' s'" using settled by (simp add: moved_def)
    have "claims_ok s' (dr_claims d)"
      using waiting_not_claimed [OF w(2,1) settled(1) st] by (rule claims_ok_moved [OF m w(1,2)])
    then show ?thesis using m settled(3)
      by (intro moved_driver [OF wf, of "oc_id x" r r' _ "fst (the (overlap_sig ?s (oc_schedule_id r)))"])
        (simp_all add: d' overlap_blocked_def lock_ok_def)
  qed
qed

lemma dispatch_claim_step:
  assumes wf: "driver_wf env d" and l: "dr_lock d = Some (x, sched, Clear)"
  shows "state_step env d (dispatch_finish env now d)"
proof (cases "claim_dispatch now (oc_id x) (se_command_id env (oc_id x) (oc_attempt_count x + 1)) (dr_state d)")
  case (Inl e)
  then show ?thesis
    using wf l by (intro same_state_driver) (simp_all add: dispatch_finish_def driver_wf_def lock_ok_def)
next
  case (Inr p)
  let ?s = "dr_state d"
  let ?c = "se_command_id env (oc_id x) (oc_attempt_count x + 1)"
  obtain s' r' where claim: "claim_dispatch now (oc_id x) ?c ?s = Inr (s', r')" using Inr by (cases p) auto
  have d': "dispatch_finish env now d = d\<lparr>dr_lock := None, dr_state := s', dr_claims := dr_claims d @ [r']\<rparr>"
    using l claim by (simp add: dispatch_finish_def)
  have w: "tables_wf ?s" "claims_ok ?s (dr_claims d)" "waits ?s x"
      "overlap_sig ?s (oc_schedule_id x) = Some (sr_overlap_key sched, sr_overlap_mode sched)"
      "sr_overlap_mode sched = OverlapBlock \<longrightarrow> target_free ?s (sr_overlap_key sched) (oc_id x)"
    using wf l by (simp_all add: driver_wf_def lock_ok_def)
  show ?thesis using claim
  proof (cases rule: claim_dispatch_cases)
    case again
    then show ?thesis using waits_row [OF w(3,1)] by auto
  next
    case (claimed r)
    have row: "oc_state r \<in> {OPending, ORetryWaiting}" "oc_attempt_count r = oc_attempt_count x"
        "oc_schedule_id r = oc_schedule_id x"
      using waits_row [OF w(3,1) claimed(1)] by auto
    have id: "oc_id r = oc_id x" using tbl_get_SomeD [OF claimed(1)] by auto
    have "occurrence_moves env r r'"
      using row(1) by (intro occurrence_moves.claimed) (simp_all add: claimed(3) same_slot_def id row(2))
    then have m: "moved env ?s (oc_id x) r r' s'" using claimed by (simp add: moved_def)
    have out: "oc_id x \<notin> oc_id ` set (dr_claims d)" by (rule waiting_not_claimed [OF w(2,1) claimed(1) row(1)])
    have "claims_ok s' (dr_claims d)" by (rule claims_ok_moved [OF m w(1,2) out])
    moreover have "oc_id r' = oc_id x" "oc_state r' = ODispatching" by (simp_all add: claimed(3) id)
    ultimately have claims: "claims_ok s' (dr_claims d @ [r'])"
      using out movedD(7) [OF m w(1), of r'] unfolding claims_ok_def by auto
    have free: "target_free ?s (sr_overlap_key sched) (oc_id x)"
      if "overlap_sig ?s (oc_schedule_id r) = Some (sr_overlap_key sched, OverlapBlock)"
      using that w(4,5) row(3) by simp
    have key: "j = sr_overlap_key sched"
      if "overlap_sig ?s (oc_schedule_id r) = Some (j, OverlapBlock)" for j
      using that w(4) row(3) by simp
    show ?thesis
    proof (rule moved_driver [OF wf _ free key])
      show "moved env ?s (oc_id x) r r' (dr_state (dispatch_finish env now d))" using m by (simp add: d')
      show "claims_ok (dr_state (dispatch_finish env now d)) (dr_claims (dispatch_finish env now d))"
        using claims by (simp add: d')
      show "lock_ok (dr_state (dispatch_finish env now d)) (dr_lock (dispatch_finish env now d))"
        by (simp add: d' lock_ok_def)
    qed
  qed
qed

lemma dispatch_finish_step: "driver_wf env d \<Longrightarrow> state_step env d (dispatch_finish env now d)"
  using dispatch_blocked_step [of env d _ _ now] dispatch_claim_step [of env d _ _ now]
    state_step_refl [of env d]
  by (fastforce simp: dispatch_finish_def split: option.splits dispatch_phase.splits)

subsection \<open>Settlement\<close>

definition settlement_ok :: "scheduling_env \<Rightarrow> schedule_occurrence \<Rightarrow> settlement \<Rightarrow> bool" where
  "settlement_ok env c x \<longleftrightarrow>
     (if st_state x = ORetryWaiting
      then oc_attempt_count c < se_max_attempts env \<and> st_next_attempt_at x \<noteq> None
      else st_state x \<in> {OAccepted, OFailed, OUncertain} \<and> st_next_attempt_at x = None \<and>
        (st_state x = OAccepted \<longrightarrow> st_run_id x \<noteq> None))"

lemma settlement_of_ok: "settlement_ok env c (settlement_of env now c result)"
  by (simp add: settlement_ok_def settlement_of_def uncertain_def split: option.splits json.splits)

lemma reconciled_ok: "settlement_ok env c (reconciled env now stored c)"
  using settlement_of_ok
  by (simp add: reconciled_def split: option.splits) (simp add: settlement_ok_def uncertain_def)

lemma settle_claim_step:
  assumes wf: "driver_wf env d" and ok: "\<And>c. settlement_ok env c (f c)"
  shows "state_step env d (settle_claim now i f d)"
proof (cases "i < length (dr_claims d)")
  case False
  then show ?thesis using state_step_refl [OF wf] by (simp add: settle_claim_def)
next
  case True
  let ?s = "dr_state d" and ?c = "dr_claims d ! i"
  let ?cs = "take i (dr_claims d) @ drop (Suc i) (dr_claims d)"
  have w: "tables_wf ?s" "rows_ok env ?s" "claims_ok ?s (dr_claims d)" "lock_ok ?s (dr_lock d)"
    using wf by (simp_all add: driver_wf_def)
  have split: "dr_claims d = take i (dr_claims d) @ ?c # drop (Suc i) (dr_claims d)"
    using True by (rule id_take_nth_drop)
  have "tbl_wf oc_id (take i (dr_claims d) @ ?c # drop (Suc i) (dr_claims d))"
    using w(3) unfolding split [symmetric] by (simp add: claims_ok_def)
  then have ids: "tbl_wf oc_id ?cs" "oc_id ?c \<notin> oc_id ` set ?cs" by auto
  have sub: "set ?cs \<subseteq> set (dr_claims d)" by (auto dest: in_set_takeD in_set_dropD)
  have cs: "claims_ok ?s ?cs" using w(3) ids(1) sub by (rule claims_ok_subset)
  show ?thesis
  proof (cases "settle_occurrence now (oc_id ?c) (f ?c) ?s")
    case (Inl e)
    then show ?thesis using True cs w
      by (intro same_state_driver [OF wf]) (simp_all add: settle_claim_def with_state_def)
  next
    case (Inr p)
    then obtain s' r' where settle: "settle_occurrence now (oc_id ?c) (f ?c) ?s = Inr (s', r')"
      by (cases p) auto
    have d': "settle_claim now i f d = d\<lparr>dr_claims := ?cs, dr_state := s'\<rparr>"
      using True settle by (simp add: settle_claim_def with_state_def)
    show ?thesis using settle
    proof (cases rule: settle_cases)
      case again
      then show ?thesis using cs w by (intro same_state_driver [OF wf]) (simp_all add: d')
    next
      case (settled r)
      obtain y where "y \<in> set (sg_occurrences ?s)" "oc_id y = oc_id ?c" "oc_state y = ODispatching"
          "oc_attempt_count y = oc_attempt_count ?c"
        using w(3) nth_mem [OF True] unfolding claims_ok_def by blast
      then have row: "oc_state r = ODispatching" "oc_attempt_count r = oc_attempt_count ?c"
        using unique_row [OF w(1) settled(1)] by auto
      have new: "oc_state r' \<noteq> ODispatching"
        using ok [of ?c] by (auto simp: settled(3) settlement_ok_def split: if_splits)
      have "occurrence_moves env r r'"
      proof (cases "st_state (f ?c) = ORetryWaiting")
        case True
        then show ?thesis using ok [of ?c] row
          by (intro postponed) (simp_all add: settled(3) same_slot_def settlement_ok_def)
      next
        case False
        then show ?thesis using ok [of ?c] row
          by (intro occurrence_moves.settled) (simp_all add: settled(3) same_slot_def settlement_ok_def)
      qed
      then have m: "moved env ?s (oc_id ?c) r r' s'" using settled by (simp add: moved_def)
      have "claims_ok s' ?cs" by (rule claims_ok_moved [OF m w(1) cs ids(2)])
      moreover have "lock_ok s' (dr_lock d)" by (rule lock_ok_moved [OF m w(1,4) row(1) new])
      ultimately show ?thesis using m new
        by (intro moved_driver [OF wf, of "oc_id ?c" r r' _ "fst (the (overlap_sig ?s (oc_schedule_id r)))"])
          (simp_all add: d')
    qed
  qed
qed

subsection \<open>Every step\<close>

lemma restart_step:
  assumes wf: "driver_wf env d"
  shows "state_step env d (restart env d)"
proof (rule same_state_driver [OF wf])
  let ?s = "dr_state d"
  have ids: "distinct (map oc_id (sg_occurrences ?s))" using wf
    by (simp add: driver_wf_def tables_wf_def)
  have claims: "claims_ok ?s rs" if q: "interrupted_dispatches n ?s = Inr rs" for n rs
  proof -
    let ?all = "sort_key oc_updated_at (sort_key oc_id
      (filter (\<lambda>r. oc_state r = ODispatching) (sg_occurrences ?s)))"
    have rs: "rs = take n ?all" using q traverse_stored unfolding interrupted_dispatches_def by blast
    have "distinct (map oc_id ?all)"
      using ids by (simp add: distinct_map inj_on_def)
    then have "distinct (map oc_id rs)" by (simp add: rs take_map [symmetric])
    then show ?thesis
      by (auto simp: claims_ok_def rs dest!: in_set_takeD)
  qed
  show "claims_ok ?s (dr_claims (restart env d))"
    using claims by (auto simp: restart_def claims_ok_def [of _ "[]"] split: sum.splits)
qed (simp_all add: restart_def lock_ok_def)

lemma run_step_state: "driver_wf env d \<Longrightarrow> state_step env d (d\<lparr>dr_state := (dr_state d)\<lparr>sg_store := x\<rparr>\<rparr>)"
proof -
  have "overlap_sig (s\<lparr>sg_store := x\<rparr>) = overlap_sig s" for s by (simp add: overlap_sig_def fun_eq_iff)
  then show "driver_wf env d \<Longrightarrow> state_step env d (d\<lparr>dr_state := (dr_state d)\<lparr>sg_store := x\<rparr>\<rparr>)"
    by (simp add: state_step_def driver_wf_def tables_wf_def rows_ok_def dispatch_excl_def claims_ok_def
        lock_ok_def waits_def target_free_def rows_move_refl cong: option.case_cong)
qed

lemma driver_step_state:
  assumes wf: "driver_wf env d"
  shows "state_step env d (driver_step renv env x d)"
proof -
  have t: "tables_wf (dr_state d)" using wf by (simp add: driver_wf_def)
  show ?thesis
  proof (cases x)
    case (CreateSchedule now req actor fp n)
    then show ?thesis using grows_create [OF _ t] by (auto intro!: with_state_grows [OF wf])
  next
    case (Transition now k st n)
    then show ?thesis using grows_transition [OF _ t] by (auto intro!: with_state_grows [OF wf])
  next
    case (RunNow now new_id k command_id n)
    then show ?thesis using grows_run_now [OF _ t] by (auto intro!: with_state_grows [OF wf])
  next
    case (Fire now new_id k req n)
    then show ?thesis using grows_fire [OF _ t]
      by (auto intro!: with_state_grows [OF wf] split: prod.splits)
  next
    case (DispatchRead k)
    then show ?thesis using dispatch_read_step [OF wf] by simp
  next
    case DispatchCheck
    then show ?thesis using dispatch_check_step [OF wf] by simp
  next
    case (DispatchFinish now)
    then show ?thesis using dispatch_finish_step [OF wf] by simp
  next
    case (CommandReturned now i result)
    then show ?thesis using settle_claim_step [OF wf settlement_of_ok] by simp
  next
    case (CommandLost now i)
    then show ?thesis using settle_claim_step [OF wf reconciled_ok] by simp
  next
    case (CommandStored k result)
    then show ?thesis using wf by (auto intro!: same_state_driver simp: driver_wf_def)
  next
    case Restart
    then show ?thesis using restart_step [OF wf] by simp
  next
    case (RunStep y)
    then show ?thesis using run_step_state [OF wf] by simp
  qed
qed

end
