(* ===== verification/ScheduleSlots.thy ===== *)
theory ScheduleSlots
  imports ScheduleMachine
begin

section \<open>The slots of a schedule\<close>

text \<open>
  The instants a schedule fires at are consumed in order: in every reachable state the fired
  occurrences of a schedule lie before its next instant, so no slot is fired twice, and a
  successful fire adds exactly the occurrences of the slots it consumes. What is used of the
  cron library is that the instant after a previous one is later.
\<close>

definition cron_advances :: "scheduling_env \<Rightarrow> bool" where
  "cron_advances env \<longleftrightarrow> (\<forall>c p t. se_cron_next env c (Some p) p = Some t \<longrightarrow> p < t)"

definition next_of :: "scheduling \<Rightarrow> string \<Rightarrow> instant option" where
  "next_of s k = (case tbl_get sr_id k (sg_schedules s) of None \<Rightarrow> None | Some r \<Rightarrow> sr_next_fire_at r)"

definition manual_key :: "string \<Rightarrow> bool" where
  "manual_key key \<longleftrightarrow> take 7 key = ''manual:''"

definition slot_consumed :: "scheduling_env \<Rightarrow> scheduling \<Rightarrow> schedule_occurrence \<Rightarrow> bool" where
  "slot_consumed env s r \<longleftrightarrow> manual_key (oc_key r) \<or>
     oc_key r = occurrence_key env (oc_schedule_id r) (oc_scheduled_for r) \<and>
     (\<forall>t. next_of s (oc_schedule_id r) = Some t \<longrightarrow> oc_scheduled_for r < t)"

definition slots_consumed :: "scheduling_env \<Rightarrow> scheduling \<Rightarrow> bool" where
  "slots_consumed env s \<longleftrightarrow> (\<forall>r \<in> set (sg_occurrences s). slot_consumed env s r)"

lemma scheduled_not_manual: "\<not> manual_key (occurrence_key env k t)"
  by (simp add: manual_key_def occurrence_key_def)

subsection \<open>Due slots\<close>

lemma next_after_later:
  "next_after env trigger c = Inr (Some t) \<Longrightarrow> cron_advances env \<Longrightarrow> c < t"
  by (auto simp: next_after_def cron_advances_def split: schedule_trigger.splits if_splits)

lemma slots_from_increasing:
  assumes "slots_from env trigger observed n candidate = Inr slots" and "cron_advances env"
  shows "sorted_wrt (<) slots \<and>
    (\<forall>x \<in> set slots. x \<le> observed \<and> (\<forall>c. candidate = Some c \<longrightarrow> c \<le> x)) \<and>
    (candidate = None \<longrightarrow> slots = [])"
  using assms
proof (induction env trigger observed n candidate arbitrary: slots rule: slots_from.induct)
  case (3 e trigger observed n c)
  show ?case
  proof (cases "c \<le> observed")
    case True
    then obtain next_slot rest where n: "next_after e trigger c = Inr next_slot"
      and rest: "slots_from e trigger observed n next_slot = Inr rest" and slots: "slots = c # rest"
      using "3.prems" by (auto simp: ebind_Inr_iff)
    have ih: "sorted_wrt (<) rest" "\<forall>x \<in> set rest. x \<le> observed \<and> (\<forall>c. next_slot = Some c \<longrightarrow> c \<le> x)"
        "next_slot = None \<longrightarrow> rest = []"
      using "3.IH" [OF True rest "3.prems"(2)] by auto
    have later: "c < x" if "x \<in> set rest" for x
    proof (cases next_slot)
      case (Some t)
      then have "t \<le> x" using ih(2) that by simp
      moreover have "c < t" using next_after_later [of e trigger c t] n Some "3.prems"(2) by simp
      ultimately show ?thesis by simp
    qed (use ih(3) that in simp)
    have "\<forall>x \<in> set slots. x \<le> observed \<and> c \<le> x"
      using ih(2) True later by (auto simp: slots intro: less_imp_le)
    then show ?thesis using ih(1) later by (simp add: slots)
  qed (use "3.prems"(1) in simp)
qed simp_all


lemma due_slots_increasing:
  assumes "due_slots env r observed = Inr due" and "cron_advances env"
  obtains c where "sr_next_fire_at r = Some c" and "due \<noteq> []" and "sorted_wrt (<) due"
    and "\<And>x. x \<in> set due \<Longrightarrow> c \<le> x \<and> x \<le> observed"
proof -
  obtain c where c: "sr_next_fire_at r = Some c" using assms(1) by (auto simp: due_slots_def split: option.splits)
  have "slots_from env (sr_trigger r) observed (se_max_catch_up env) (Some c) = Inr due" "due \<noteq> []"
    using assms(1) by (auto simp: due_slots_def c ebind_Inr_iff split: if_splits)
  then show thesis using slots_from_increasing [OF _ assms(2)] by (intro that [OF c]) blast+
qed

text \<open>The slots a fire consumes: all due ones when they are coalesced, the first one otherwise.\<close>

definition consumed_slots :: "scheduling_env \<Rightarrow> instant list \<Rightarrow> instant list" where
  "consumed_slots env due = coalesced_slots env due @ [selected_slot env due]"

lemma consumed_slots_increasing:
  assumes "sorted_wrt (<) due" and "due \<noteq> []"
  shows "sorted_wrt (<) (consumed_slots env due)" and "set (consumed_slots env due) \<subseteq> set due"
    and "\<And>x. x \<in> set (consumed_slots env due) \<Longrightarrow> x \<le> selected_slot env due"
proof -
  have due: "butlast due @ [last due] = due" using assms(2) by simp
  have all: "x \<le> last due" if "x \<in> set due" for x
    using assms(1) that by (cases due rule: rev_cases) (auto simp: sorted_wrt_append order_le_less)
  show "sorted_wrt (<) (consumed_slots env due)" using assms by (simp add: consumed_slots_def due)
  show "set (consumed_slots env due) \<subseteq> set due"
    using assms(2) by (auto simp: consumed_slots_def dest: in_set_butlastD)
  show "\<And>x. x \<in> set (consumed_slots env due) \<Longrightarrow> x \<le> selected_slot env due"
    using all by (auto simp: consumed_slots_def dest: in_set_butlastD)
qed

subsection \<open>What the operations do to the next instants\<close>

lemma update_next:
  assumes "update_schedule_in_session env now k n st next_fire evaluated s = Inr (s', r)"
  shows "next_of s' j = (if j = k then next_fire else next_of s j)"
    and "sg_occurrences s' = sg_occurrences s" and "sr_next_fire_at r = next_fire"
proof -
  obtain c where c: "tbl_get sr_id k (sg_schedules s) = Some c" "sr_id r = k" "sr_next_fire_at r = next_fire"
    and s': "s' = s\<lparr>sg_schedules := tbl_upd sr_id k (\<lambda>_. r) (sg_schedules s)\<rparr>"
    using assms
    by (auto simp: update_schedule_in_session_def ebind_Inr_iff Let_def split: if_splits dest!: schedule_of_Inr)
  have "tbl_get sr_id j (tbl_upd sr_id k (\<lambda>_. r) rows) =
      (if k = j then map_option (\<lambda>_. r) (tbl_get sr_id j rows) else tbl_get sr_id j rows)" for rows
    using c(2) by (induction rows) (auto simp: tbl_get_def tbl_upd_def)
  then show "next_of s' j = (if j = k then next_fire else next_of s j)"
    using c unfolding next_of_def s' by auto
  show "sg_occurrences s' = sg_occurrences s" by (simp add: s')
  show "sr_next_fire_at r = next_fire" by (rule c(3))
qed

lemma create_occurrences_fresh:
  assumes "create_occurrences rs s = Inr s'" and "distinct (map slot_key rs)"
    and "\<And>r. r \<in> set rs \<Longrightarrow> slot_key r \<notin> slot_key ` set (sg_occurrences s)"
  shows "sg_occurrences s' = sg_occurrences s @ rs \<and> sg_schedules s' = sg_schedules s"
  using assms
proof (induction rs arbitrary: s)
  case (Cons r rs)
  then obtain s1 r' where r: "create_occurrence_in_session r s = Inr (s1, r')"
    and rest: "create_occurrences rs s1 = Inr s'" by (auto simp: ebind_Inr_iff)
  from r have s1: "s1 = s\<lparr>sg_occurrences := sg_occurrences s @ [r]\<rparr>"
  proof (cases rule: create_occurrence_cases)
    case (existing row)
    then have "slot_key r \<in> slot_key ` set (sg_occurrences s)"
      using find_occurrence_None [of "oc_schedule_id r" "oc_key r" s] by simp
    then show ?thesis using Cons.prems(3) [of r] by simp
  qed simp
  have "sg_occurrences s' = sg_occurrences s1 @ rs \<and> sg_schedules s' = sg_schedules s1"
    using Cons.prems(2,3) by (intro Cons.IH [OF rest]) (auto simp: s1 image_iff simp del: prod.inject)
  then show ?case by (simp add: s1)
qed simp

lemma slot_consumed_cong:
  "next_of s' (oc_schedule_id r) = next_of s (oc_schedule_id r) \<or> next_of s' (oc_schedule_id r) = None \<Longrightarrow>
   slot_consumed env s r \<Longrightarrow> slot_consumed env s' r"
  by (auto simp: slot_consumed_def)

lemma slots_consumed_same:
  assumes "slots_consumed env s" and "sg_occurrences s' = sg_occurrences s"
    and "\<And>k. overlap_sig s k \<noteq> None \<Longrightarrow> next_of s' k = next_of s k \<or> next_of s' k = None" and "tables_wf s"
  shows "slots_consumed env s'"
  unfolding slots_consumed_def
proof
  fix r assume r: "r \<in> set (sg_occurrences s')"
  then have "overlap_sig s (oc_schedule_id r) \<noteq> None" "slot_consumed env s r"
    using assms(1,2,4) by (auto simp: tables_wf_def slots_consumed_def)
  then show "slot_consumed env s' r" using assms(3) slot_consumed_cong by blast
qed

lemma coalesced_map:
  "map slot_key (coalesced_occurrences env now new_id sched src slots) =
     map (\<lambda>x. (sr_id sched, occurrence_key env (sr_id sched) x)) slots"
  "map oc_scheduled_for (coalesced_occurrences env now new_id sched src slots) = slots"
proof -
  have *: "map (\<lambda>p. g (snd p)) (enumerate i xs) = map g xs" for g :: "int \<Rightarrow> 'z" and i xs
    by (induction xs arbitrary: i) simp_all
  show "map slot_key (coalesced_occurrences env now new_id sched src slots) =
     map (\<lambda>x. (sr_id sched, occurrence_key env (sr_id sched) x)) slots"
    using * [of "\<lambda>x. (sr_id sched, occurrence_key env (sr_id sched) x)"]
    by (simp add: coalesced_occurrences_def fired_occurrence_def comp_def split_def)
  show "map oc_scheduled_for (coalesced_occurrences env now new_id sched src slots) = slots"
    using * [of "\<lambda>x. x"]
    by (simp add: coalesced_occurrences_def fired_occurrence_def comp_def split_def)
qed

lemma fire_exact:
  assumes fire: "fire env now new_id k req n s = Inr (s', updated, durable, cs)"
    and wf: "tables_wf s" and used: "slots_consumed env s" and adv: "cron_advances env"
    and inj: "inj (se_isoformat env)"
  obtains due current st msg where "due_slots env current (sf_observed_at req) = Inr due"
    and "schedule_of env k s = Inr current"
    and "sg_occurrences s' = sg_occurrences s @ cs @ [durable]"
    and "cs = coalesced_occurrences env now new_id current (sf_source req) (coalesced_slots env due)"
    and "durable = fired_occurrence env now (new_id (length due)) current (selected_slot env due)
      (sf_source req) st msg"
    and "st = (if misfired env (sf_observed_at req) (selected_slot env due) then OMisfired else OPending)"
    and "\<And>t. next_of s' k = Some t \<Longrightarrow> selected_slot env due < t"
    and "next_of s' k = sr_next_fire_at updated"
    and "\<And>j. j \<noteq> k \<Longrightarrow> next_of s' j = next_of s j"
  using fire
proof (rule fire_Inr)
  fix current due st msg s1 s2 next_fire
  let ?slot = "selected_slot env due"
  let ?r = "fired_occurrence env now (new_id (length due)) current ?slot (sf_source req) st msg"
  assume cur: "schedule_of env k s = Inr current" and due: "due_slots env current (sf_observed_at req) = Inr due"
    and cs: "cs = coalesced_occurrences env now new_id current (sf_source req) (coalesced_slots env due)"
    and st: "st = (if misfired env (sf_observed_at req) ?slot then OMisfired else OPending)"
    and s1: "create_occurrences cs s = Inr s1"
    and s2: "create_occurrence_in_session ?r s1 = Inr (s2, durable)"
    and next_fire: "next_after env (sr_trigger current) ?slot = Inr next_fire"
    and s3: "update_schedule_in_session env now k n
      (if next_fire \<noteq> None then ScheduleActive else ScheduleCompleted) next_fire
      (Some (sf_observed_at req)) s2 = Inr (s', updated)"
  obtain c where c: "sr_next_fire_at current = Some c" "due \<noteq> []" "sorted_wrt (<) due"
    and later: "\<And>x. x \<in> set due \<Longrightarrow> c \<le> x \<and> x \<le> sf_observed_at req"
    using due_slots_increasing [OF due adv] by blast
  have k: "sr_id current = k" and next_s: "next_of s k = Some c"
    using schedule_of_Inr [OF cur] c(1) by (simp_all add: next_of_def)
  have unused: "(k, occurrence_key env k x) \<notin> slot_key ` set (sg_occurrences s)" if "c \<le> x" for x
  proof
    assume "(k, occurrence_key env k x) \<in> slot_key ` set (sg_occurrences s)"
    then obtain r where r: "r \<in> set (sg_occurrences s)" "oc_schedule_id r = k" "oc_key r = occurrence_key env k x"
      by auto
    then have "occurrence_key env k x = occurrence_key env k (oc_scheduled_for r)" "oc_scheduled_for r < c"
      using used scheduled_not_manual [of env k x] next_s by (auto simp: slots_consumed_def slot_consumed_def)
    then have "se_isoformat env x = se_isoformat env (oc_scheduled_for r)" "oc_scheduled_for r < x"
      using that by (simp_all add: occurrence_key_def)
    then show False using inj by (auto simp: inj_def)
  qed
  have keys: "map slot_key cs = map (\<lambda>x. (k, occurrence_key env k x)) (coalesced_slots env due)"
    by (simp add: cs coalesced_map k)
  have inc: "sorted_wrt (<) (coalesced_slots env due @ [?slot])" "set (coalesced_slots env due) \<subseteq> set due"
    "?slot \<in> set due"
    using consumed_slots_increasing [OF c(3,2)] by (auto simp: consumed_slots_def)
  have inj': "inj (\<lambda>x. (k, occurrence_key env k x))"
    using inj by (auto simp: inj_def occurrence_key_def)
  have dist: "distinct (coalesced_slots env due @ [?slot])"
    using inc(1) by (rule strict_sorted_iff [THEN iffD1, THEN conjunct2])
  have rows1: "sg_occurrences s1 = sg_occurrences s @ cs \<and> sg_schedules s1 = sg_schedules s"
  proof (rule create_occurrences_fresh [OF s1])
    show "distinct (map slot_key cs)" unfolding keys
      using dist inj' by (simp add: distinct_map inj_on_def inj_def)
    fix r assume "r \<in> set cs"
    then have "slot_key r \<in> set (map slot_key cs)" by simp
    then obtain x where "x \<in> set (coalesced_slots env due)" "slot_key r = (k, occurrence_key env k x)"
      unfolding keys by auto
    then show "slot_key r \<notin> slot_key ` set (sg_occurrences s)"
      using unused [of x] inc(2) later by (simp del: prod.inject) blast
  qed
  have slot: "slot_key ?r = (k, occurrence_key env k ?slot)" by (simp add: fired_occurrence_def k)
  have fresh: "slot_key ?r \<notin> slot_key ` set (sg_occurrences s1)"
  proof
    assume "slot_key ?r \<in> slot_key ` set (sg_occurrences s1)"
    then have "(k, occurrence_key env k ?slot) \<in> set (map slot_key cs)"
      using unused [of ?slot] inc(3) later [of ?slot] rows1 unfolding slot by (simp add: image_Un del: prod.inject)
    then obtain x where x: "x \<in> set (coalesced_slots env due)"
        "(k, occurrence_key env k ?slot) = (k, occurrence_key env k x)"
      unfolding keys set_map by blast
    from inj' x(2) have "?slot = x" by (rule injD)
    then show False using dist x(1) by simp
  qed
  from s2 have "s2 = s1\<lparr>sg_occurrences := sg_occurrences s1 @ [?r]\<rparr> \<and> durable = ?r"
  proof (cases rule: create_occurrence_cases)
    case (existing row)
    then have "slot_key ?r \<in> slot_key ` set (sg_occurrences s1)"
      using find_occurrence_None [of "oc_schedule_id ?r" "oc_key ?r" s1] by simp
    then show ?thesis using fresh by simp
  qed simp
  note s2' = this
  have n2: "next_of s2 j = next_of s j" for j using s2' rows1 by (simp add: next_of_def)
  show thesis
  proof (rule that [OF due cur _ cs _ st])
    show "sg_occurrences s' = sg_occurrences s @ cs @ [durable]"
      using update_next(2) [OF s3] s2' rows1 by simp
    show "durable = ?r" using s2' by simp
    show "next_of s' k = Some t \<Longrightarrow> ?slot < t" for t
      using update_next(1) [OF s3, of k] next_fire next_after_later [OF _ adv] by simp
    show "next_of s' k = sr_next_fire_at updated" using update_next(1,3) [OF s3] by simp
    show "j \<noteq> k \<Longrightarrow> next_of s' j = next_of s j" for j using update_next(1) [OF s3, of j] n2 by simp
  qed
qed

subsection \<open>Every step keeps the slots consumed\<close>

lemma same_slot_consumed: "same_slot r r' \<Longrightarrow> slot_consumed env s r \<Longrightarrow> slot_consumed env s r'"
  by (simp add: same_slot_def slot_consumed_def)

lemma slots_consumed_fire:
  assumes fire: "fire env now new_id k req n s = Inr (s', updated, durable, cs)"
    and wf: "tables_wf s" and used: "slots_consumed env s" and adv: "cron_advances env"
    and inj: "inj (se_isoformat env)"
  shows "slots_consumed env s'"
  using fire_exact [OF assms]
proof cases
  case (1 due current st msg)
  obtain c where c: "sr_next_fire_at current = Some c" "due \<noteq> []" "sorted_wrt (<) due"
    and later: "\<And>x. x \<in> set due \<Longrightarrow> c \<le> x \<and> x \<le> sf_observed_at req"
    using due_slots_increasing [OF 1(1) adv] by blast
  have k: "sr_id current = k" and next_s: "next_of s k = Some c"
    using schedule_of_Inr [OF 1(2)] c(1) by (simp_all add: next_of_def)
  let ?slot = "selected_slot env due"
  have slot: "x \<le> ?slot" if "x \<in> set (consumed_slots env due)" for x
    using consumed_slots_increasing(3) [OF c(3,2) that] .
  have "slot_consumed env s' r" if "r \<in> set (sg_occurrences s)" for r
  proof (cases "oc_schedule_id r = k")
    case True
    have "c \<le> ?slot" using later [of ?slot] consumed_slots_increasing(2) [OF c(3,2)]
      by (auto simp: consumed_slots_def)
    then show ?thesis using used that 1(7) True next_s
      unfolding slots_consumed_def slot_consumed_def by force
  next
    case False
    then show ?thesis using used that 1(9) [OF False] slot_consumed_cong
      unfolding slots_consumed_def by blast
  qed
  moreover have "slot_consumed env s' r" if r: "r \<in> set (cs @ [durable])" for r
  proof -
    have "map oc_scheduled_for (cs @ [durable]) = consumed_slots env due"
      by (simp add: 1(4,5) coalesced_map consumed_slots_def fired_occurrence_def)
    then have "oc_scheduled_for r \<in> set (consumed_slots env due)"
      using r by (metis image_eqI set_map)
    moreover have "oc_schedule_id r = k" "oc_key r = occurrence_key env k (oc_scheduled_for r)"
      using r by (auto simp: 1(4,5) coalesced_occurrences_def fired_occurrence_def k)
    ultimately show ?thesis using slot 1(7) unfolding slot_consumed_def by force
  qed
  ultimately show ?thesis by (auto simp: slots_consumed_def 1(3))
qed

lemma create_schedule_next:
  assumes "create_schedule env now req actor fp n s = Inr (s', r)"
  shows "overlap_sig s k \<noteq> None \<longrightarrow> next_of s' k = next_of s k" and "sg_occurrences s' = sg_occurrences s"
proof -
  obtain x where x: "create_in_session env x s = Inr (s', r)"
    using assms(1) by (auto simp: create_schedule_def ebind_Inr_iff Let_def)
  then have "s' = s \<or> s' = s\<lparr>sg_schedules := sg_schedules s @ [x]\<rparr>"
    by (auto simp: create_in_session_def ebind_Inr_iff split: option.splits if_splits)
  then show "overlap_sig s k \<noteq> None \<longrightarrow> next_of s' k = next_of s k" "sg_occurrences s' = sg_occurrences s"
    by (auto simp: next_of_def overlap_sig_def tbl_get_append)
qed

lemma transition_next:
  assumes "transition env now k st n s = Inr (s', r)"
  shows "next_of s' j = next_of s j \<or> next_of s' j = None" and "sg_occurrences s' = sg_occurrences s"
proof -
  obtain c where c: "schedule_of env k s = Inr c"
    "update_schedule_in_session env now k n st (if st = ScheduleRemoved then None else sr_next_fire_at c) None s
      = Inr (s', r)"
    using assms(1) by (auto simp: transition_def ebind_Inr_iff split: if_splits)
  then show "next_of s' j = next_of s j \<or> next_of s' j = None" "sg_occurrences s' = sg_occurrences s"
    using update_next(1,2) [OF c(2)] schedule_of_Inr [OF c(1)] by (simp_all add: next_of_def)
qed

lemma slots_consumed_run_now:
  assumes run: "run_now env now new_id k command_id n s = Inr (s', out)" and wf: "tables_wf s"
    and used: "slots_consumed env s"
  shows "slots_consumed env s'"
proof -
  obtain c r s1 durable updated where c: "schedule_of env k s = Inr c"
    and s1: "create_occurrence_in_session r s = Inr (s1, durable)" and r: "manual_key (oc_key r)"
    and s2: "update_schedule_in_session env now k n (sr_state c) (sr_next_fire_at c) (Some now) s1
      = Inr (s', updated)"
    using run by (auto simp: run_now_def ebind_Inr_iff Let_def stored_occurrence_def manual_key_def split: if_splits)
  from s1 have rows: "sg_schedules s1 = sg_schedules s \<and>
      (sg_occurrences s1 = sg_occurrences s \<or> sg_occurrences s1 = sg_occurrences s @ [r])"
    by (cases rule: create_occurrence_cases) simp_all
  have n: "next_of s' j = next_of s j" for j
    using update_next(1) [OF s2, of j] schedule_of_Inr [OF c] rows by (simp add: next_of_def)
  have "slot_consumed env s' x" if "slot_consumed env s x" for x
    using that n by (simp add: slot_consumed_def)
  moreover have "slot_consumed env s' r" using r by (simp add: slot_consumed_def)
  ultimately show ?thesis using used rows update_next(2) [OF s2] by (auto simp: slots_consumed_def)
qed

text \<open>What a dispatch or a settlement changes: the occurrences move, the schedules stay.\<close>

definition same_schedules :: "scheduling \<Rightarrow> scheduling \<Rightarrow> bool" where
  "same_schedules s s' \<longleftrightarrow> sg_schedules s' = sg_schedules s \<and>
     length (sg_occurrences s') = length (sg_occurrences s)"

lemma same_schedules_refl: "sg_schedules s' = sg_schedules s \<Longrightarrow> sg_occurrences s' = sg_occurrences s \<Longrightarrow> same_schedules s s'"
  by (simp add: same_schedules_def)

lemma same_state:
  "dr_state (dispatch_read env k d) = dr_state d" "dr_state (dispatch_check d) = dr_state d"
  "dr_state (restart env d) = dr_state d"
  by (simp_all add: dispatch_read_def dispatch_check_def restart_def
      split: option.splits sum.splits dispatch_phase.splits)

lemma same_schedules_claim: "claim_dispatch now k c s = Inr (s', r) \<Longrightarrow> same_schedules s s'"
  by (erule claim_dispatch_cases) (simp_all add: same_schedules_def tbl_upd_def)

lemma same_schedules_settle: "settle_occurrence now k x s = Inr (s', r) \<Longrightarrow> same_schedules s s'"
  by (erule settle_cases) (simp_all add: same_schedules_def tbl_upd_def)

lemma same_schedules_with_settle:
  assumes "dr_state d' = dr_state d"
  shows "same_schedules (dr_state d) (dr_state (with_state d' (settle_occurrence now k x (dr_state d))))"
proof (cases "settle_occurrence now k x (dr_state d)")
  case (Inr p)
  then show ?thesis using same_schedules_settle [of now k x "dr_state d" "fst p" "snd p"]
    by (cases p) (simp add: with_state_def)
qed (simp add: with_state_def same_schedules_def assms)

lemma same_schedules_finish: "same_schedules (dr_state d) (dr_state (dispatch_finish env now d))"
proof (cases "dr_lock d")
  case (Some p)
  obtain x sched ph where p: "p = (x, sched, ph)" by (cases p) auto
  show ?thesis
  proof (cases ph)
    case Overlapping
    then show ?thesis by (simp add: dispatch_finish_def Some p same_schedules_with_settle)
  next
    case Clear
    then show ?thesis using same_schedules_claim
      by (auto simp: dispatch_finish_def Some p split: sum.splits) (simp add: same_schedules_def)
  qed (simp add: dispatch_finish_def Some p same_schedules_def)
qed (simp add: dispatch_finish_def same_schedules_def)

lemma same_schedules_settle_claim: "same_schedules (dr_state d) (dr_state (settle_claim now i f d))"
proof (cases "i < length (dr_claims d)")
  case True
  then show ?thesis by (simp add: settle_claim_def same_schedules_with_settle)
qed (simp add: settle_claim_def same_schedules_def)

lemma slots_consumed_rows:
  assumes "rows_move env (sg_occurrences s) (sg_occurrences s')" and "same_schedules s s'"
    and "slots_consumed env s"
  shows "slots_consumed env s'"
  unfolding slots_consumed_def
proof
  fix r' assume "r' \<in> set (sg_occurrences s')"
  then obtain i where i: "i < length (sg_occurrences s)" "sg_occurrences s' ! i = r'"
    using assms(2) by (auto simp: in_set_conv_nth same_schedules_def)
  then have "occurrence_moves env (sg_occurrences s ! i) r'"
    using assms(1,2) by (auto simp: rows_move_def same_schedules_def list_all2_conv_all_nth)
  then have "same_slot (sg_occurrences s ! i) r'" by (rule moves_same_slot)
  moreover have "slot_consumed env s (sg_occurrences s ! i)"
    using assms(3) i(1) by (simp add: slots_consumed_def)
  moreover have "next_of s' = next_of s" using assms(2) by (simp add: same_schedules_def next_of_def fun_eq_iff)
  ultimately show "slot_consumed env s' r'" by (simp add: same_slot_def slot_consumed_def)
qed

definition slots_inv :: "scheduling_env \<Rightarrow> driver \<Rightarrow> bool" where
  "slots_inv env d \<longleftrightarrow> driver_wf env d \<and>
     (cron_advances env \<and> inj (se_isoformat env) \<longrightarrow> slots_consumed env (dr_state d))"

lemma slots_consumed_grows_step:
  assumes "slots_consumed env (dr_state d)"
    and "\<And>s' x. r = Inr (s', x) \<Longrightarrow> slots_consumed env s'"
  shows "slots_consumed env (dr_state (with_state d r))"
  using assms by (cases r) (auto simp: with_state_def)

lemma slots_consumed_step:
  assumes wf: "driver_wf env d" and used: "slots_consumed env (dr_state d)"
    and lib: "cron_advances env" "inj (se_isoformat env)"
  shows "slots_consumed env (dr_state (driver_step renv env x d))"
proof -
  have t: "tables_wf (dr_state d)" using wf by (simp add: driver_wf_def)
  have rows: "rows_move env (sg_occurrences (dr_state d)) (sg_occurrences (dr_state (driver_step renv env x d)))"
    using driver_step_state [OF wf] by (simp add: state_step_def)
  have moves: "slots_consumed env (dr_state (driver_step renv env x d))"
    if "same_schedules (dr_state d) (dr_state (driver_step renv env x d))"
    using slots_consumed_rows [OF rows that used] .
  have cong: "slots_consumed env s'"
    if "sg_occurrences s' = sg_occurrences (dr_state d)"
      "\<And>k. overlap_sig (dr_state d) k \<noteq> None \<Longrightarrow> next_of s' k = next_of (dr_state d) k \<or> next_of s' k = None" for s'
    using slots_consumed_same [OF used that t] .
  show ?thesis
  proof (cases x)
    case (CreateSchedule now req actor fp n)
    have "slots_consumed env s'" if "create_schedule env now req actor fp n (dr_state d) = Inr (s', r)" for s' r
    proof (rule cong)
      show "sg_occurrences s' = sg_occurrences (dr_state d)" by (rule create_schedule_next(2) [OF that])
      show "overlap_sig (dr_state d) j \<noteq> None \<Longrightarrow> next_of s' j = next_of (dr_state d) j \<or> next_of s' j = None" for j
        by (intro disjI1 create_schedule_next(1) [OF that, THEN mp])
    qed
    then show ?thesis unfolding CreateSchedule driver_step.simps using used by (intro slots_consumed_grows_step)
  next
    case (Transition now k st n)
    have "slots_consumed env s'" if "transition env now k st n (dr_state d) = Inr (s', r)" for s' r
      by (intro cong transition_next [OF that])
    then show ?thesis unfolding Transition driver_step.simps using used by (intro slots_consumed_grows_step)
  next
    case (RunNow now new_id k command_id n)
    show ?thesis unfolding RunNow driver_step.simps
      by (intro slots_consumed_grows_step used) (rule slots_consumed_run_now [OF _ t used])
  next
    case (Fire now new_id k req n)
    have "slots_consumed env s'" if "fire env now new_id k req n (dr_state d) = Inr (s', p)" for s' p
      using that by (cases p) (simp add: slots_consumed_fire [OF _ t used lib])
    then show ?thesis unfolding Fire driver_step.simps using used by (intro slots_consumed_grows_step)
  next
    case (DispatchRead k)
    show ?thesis by (rule moves) (simp add: DispatchRead same_state same_schedules_refl)
  next
    case DispatchCheck
    show ?thesis by (rule moves) (simp add: DispatchCheck same_state same_schedules_refl)
  next
    case (CommandStored k result)
    show ?thesis by (rule moves) (simp add: CommandStored same_state same_schedules_refl)
  next
    case Restart
    show ?thesis by (rule moves) (simp add: Restart same_state same_schedules_refl)
  next
    case (RunStep y)
    show ?thesis by (rule moves) (simp add: RunStep same_state same_schedules_refl)
  next
    case (DispatchFinish now)
    show ?thesis by (rule moves) (simp add: DispatchFinish same_schedules_finish)
  next
    case (CommandReturned now i result)
    show ?thesis by (rule moves) (simp add: CommandReturned same_schedules_settle_claim)
  next
    case (CommandLost now i)
    show ?thesis by (rule moves) (simp add: CommandLost same_schedules_settle_claim)
  qed
qed

lemma driver_wf_step: "driver_wf env d \<Longrightarrow> driver_wf env (driver_step renv env x d)"
  using driver_step_state by (auto simp: state_step_def)

text \<open>The driver is a machine, and the rows that are final never change.\<close>

definition keeps_terminal :: "driver \<Rightarrow> driver \<Rightarrow> bool" where
  "keeps_terminal d d' \<longleftrightarrow> (\<forall>r \<in> set (sg_occurrences (dr_state d)).
     terminal (oc_state r) \<longrightarrow> r \<in> set (sg_occurrences (dr_state d')))"

lemma state_step_terminal:
  assumes "state_step env d d'"
  shows "keeps_terminal d d'"
  unfolding keeps_terminal_def
proof (intro ballI impI)
  fix r assume r: "r \<in> set (sg_occurrences (dr_state d))" "terminal (oc_state r)"
  have "rows_move env (sg_occurrences (dr_state d)) (sg_occurrences (dr_state d'))"
    using assms by (simp add: state_step_def)
  then obtain r' where r': "r' \<in> set (sg_occurrences (dr_state d'))" "occurrence_moves env r r'"
    using r(1) by (rule rows_move_member)
  have "r' = r" using r'(2) r(2) by (rule moves_terminal)
  then show "r \<in> set (sg_occurrences (dr_state d'))" using r'(1) by simp
qed

interpretation schedule_driver:
  machine_monotone "driver_step renv env" "slots_inv env" keeps_terminal for renv env
proof
  show "slots_inv env d \<Longrightarrow> slots_inv env (driver_step renv env x d)" for x d
    using driver_wf_step slots_consumed_step by (auto simp: slots_inv_def)
  show "slots_inv env d \<Longrightarrow> keeps_terminal d (driver_step renv env x d)" for x d
    by (rule state_step_terminal [OF driver_step_state]) (simp add: slots_inv_def)
qed (auto simp: keeps_terminal_def)

lemma slots_inv_empty: "slots_inv env empty_driver"
  by (simp add: slots_inv_def driver_wf_empty) (simp add: slots_consumed_def empty_driver_def)

lemma reachable_driver:
  "slots_inv env (run_ops (driver_step renv env) xs empty_driver)"
  by (rule schedule_driver.run_inv [OF slots_inv_empty])

end
