(* ===== verification/ScheduleProperties.thy ===== *)
theory ScheduleProperties
  imports ScheduleSlots
begin

section \<open>Properties of scheduling\<close>

text \<open>
  What holds of every history of the driver and the services it drives, and histories that
  show it happen.
\<close>

subsection \<open>Histories\<close>

definition demo_scheduling :: scheduling_env where
  "demo_scheduling = \<lparr>se_misfire_grace_seconds = 1, se_coalesce = True, se_max_catch_up = 5,
     se_max_attempts = 2, se_retry_initial = 1, se_retry_multiplier = 2, se_retry_max = 4,
     se_sha256 = (\<lambda>x. x), se_dump_context = (\<lambda>_ _. ''''),
     se_isoformat = (\<lambda>t. (if t < 0 then ''-'' else '''') @ replicate (nat \<bar>t\<bar>) CHR ''0''),
     se_command_id = (\<lambda>k n. k @ replicate (nat n) CHR ''1''), se_cron_valid = (\<lambda>_. True),
     se_cron_next = (\<lambda>_ previous now. Some ((case previous of None \<Rightarrow> now | Some t \<Rightarrow> t) + 10))\<rparr>"

definition demo_runs :: environment where
  "demo_runs = \<lparr>env_inspector = None, env_sha256 = (\<lambda>x. x),
     env_observe = (\<lambda>_. Inl KeyError), env_resolve = (\<lambda>p. p)\<rparr>"

definition demo_request :: "string \<Rightarrow> schedule_create_request" where
  "demo_request k = \<lparr>sq_schedule_id = k,
     sq_mission = \<lparr>ms_project_id = ''p'', ms_workspace_id = None, ms_objective = ''tidy'',
       ms_outcome_id = None, ms_template_reference = None, ms_inputs = []\<rparr>,
     sq_trigger = CronTrigger \<lparr>ct_expression = ''* * * * *'', ct_timezone = ''UTC''\<rparr>,
     sq_overlap_mode = OverlapBlock\<rparr>"

abbreviation demo_fingerprint :: string where
  "demo_fingerprint \<equiv> replicate 64 CHR ''a''"

definition demo_fire :: "string \<Rightarrow> instant \<Rightarrow> schedule_fire_request \<Rightarrow> driver_op" where
  "demo_fire k now req = Fire now (\<lambda>i. k @ replicate i CHR ''x'') k req 1"

definition demo_wake :: "instant \<Rightarrow> schedule_fire_request" where
  "demo_wake t = \<lparr>sf_source = FromInternal, sf_observed_at = t\<rparr>"

definition demo_created :: "driver_op list" where
  "demo_created = [CreateSchedule 5 (demo_request ''s'') ''me'' demo_fingerprint 1]"

definition demo_dispatch :: "string \<Rightarrow> driver_op list" where
  "demo_dispatch k = [DispatchRead k, DispatchCheck, DispatchFinish 40]"

abbreviation driven :: "environment \<Rightarrow> scheduling_env \<Rightarrow> driver_op list \<Rightarrow> driver" where
  "driven renv env xs \<equiv> run_ops (driver_step renv env) xs empty_driver"

lemma driven_wf: "driver_wf env (driven renv env xs)"
  using reachable_driver by (simp add: slots_inv_def)

subsection \<open>Rows\<close>

text \<open>
  Claim C25. The occurrences of every reachable state are well typed: the identifiers and the
  keys of the slots of each schedule are unique, every occurrence belongs to a stored
  schedule, its attempts lie between zero and the configured maximum (one at least), its
  fields cohere with its state, and a dispatching occurrence carries the command identifier
  of its current attempt.
\<close>

theorem occurrences_well_typed:
  "let rows = sg_occurrences (dr_state (driven renv env xs))
   in distinct (map oc_id rows) \<and> distinct (map (\<lambda>r. (oc_schedule_id r, oc_key r)) rows) \<and>
      oc_schedule_id ` set rows \<subseteq> sr_id ` set (sg_schedules (dr_state (driven renv env xs))) \<and>
      list_all (\<lambda>r. 0 \<le> oc_attempt_count r \<and> oc_attempt_count r \<le> max 1 (se_max_attempts env) \<and>
        state_fields_are_coherent r \<and>
        (if oc_state r = ODispatching
         then oc_run_command_id r = Some (se_command_id env (oc_id r) (oc_attempt_count r)) else True)) rows"
proof -
  have "tables_wf (dr_state (driven renv env xs))" "rows_ok env (dr_state (driven renv env xs))"
    using driven_wf by (simp_all add: driver_wf_def)
  moreover have "overlap_sig s k = None \<longleftrightarrow> k \<notin> sr_id ` set (sg_schedules s)" for s k
    by (simp add: overlap_sig_def tbl_get_None_iff)
  ultimately show ?thesis
    by (auto simp: Let_def tables_wf_def rows_ok_def row_ok_def attempts_ok_def list_all_iff)
qed

subsection \<open>The lifecycle of an occurrence\<close>

text \<open>
  Claim C24. The driver refines the lifecycle of an occurrence: in every reachable state, every
  step keeps the order of the occurrences and moves each of them along the relation
  \<open>occurrence_moves\<close> (stay, be claimed with a new attempt, be blocked, be settled, wait for a
  retry while attempts are left), or adds occurrences at the end.
\<close>

theorem driver_refines_lifecycle:
  "let d = driven renv env xs; rows = sg_occurrences (dr_state d);
       rows' = sg_occurrences (dr_state (driver_step renv env x d))
   in list_all2 (occurrence_moves env) rows (take (length rows) rows')"
  using driver_step_state [OF driven_wf [of env renv xs], of renv x]
  by (simp add: Let_def state_step_def rows_move_def)

text \<open>How often a history changes an occurrence.\<close>

definition occurrence_row :: "string \<Rightarrow> driver \<Rightarrow> schedule_occurrence option" where
  "occurrence_row k d = tbl_get oc_id k (sg_occurrences (dr_state d))"

fun row_changes :: "environment \<Rightarrow> scheduling_env \<Rightarrow> string \<Rightarrow> driver_op list \<Rightarrow> driver \<Rightarrow> nat" where
  "row_changes renv env k [] d = 0"
| "row_changes renv env k (x # xs) d =
     (if occurrence_row k d \<noteq> None \<and>
         occurrence_row k (driver_step renv env x d) \<noteq> occurrence_row k d then 1 else 0) +
     row_changes renv env k xs (driver_step renv env x d)"

lemma occurrence_row_moves:
  assumes st: "state_step env d d'" and wf: "driver_wf env d" and r: "occurrence_row k d = Some r"
  obtains r' where "occurrence_row k d' = Some r'" "occurrence_moves env r r'"
proof -
  have rows: "rows_move env (sg_occurrences (dr_state d)) (sg_occurrences (dr_state d'))"
    and ids: "distinct (map oc_id (sg_occurrences (dr_state d')))"
    using st by (simp_all add: state_step_def driver_wf_def tables_wf_def)
  have "r \<in> set (sg_occurrences (dr_state d))" "oc_id r = k"
    using tbl_get_SomeD [OF r [unfolded occurrence_row_def]] by simp_all
  moreover from rows this(1) obtain r' where
      r': "r' \<in> set (sg_occurrences (dr_state d'))" "occurrence_moves env r r'"
    by (rule rows_move_member)
  ultimately have "occurrence_row k d' = Some r'"
    using moves_same_slot [OF r'(2)] tbl_get_Some_iff [OF ids] by (simp add: occurrence_row_def same_slot_def)
  then show thesis using that r'(2) by blast
qed

definition row_potential :: "scheduling_env \<Rightarrow> string \<Rightarrow> driver \<Rightarrow> nat" where
  "row_potential env k d = (case occurrence_row k d of
     None \<Rightarrow> 2 * nat (max 1 (se_max_attempts env)) | Some r \<Rightarrow> potential env r)"

lemma row_ok_potential: "row_ok env r \<Longrightarrow> potential env r \<le> 2 * nat (max 1 (se_max_attempts env))"
  by (auto simp: potential_def row_ok_def attempts_ok_def Let_def)

lemma occurrence_row_ok: "driver_wf env d \<Longrightarrow> occurrence_row k d = Some r \<Longrightarrow> row_ok env r"
  by (auto simp: driver_wf_def rows_ok_def occurrence_row_def dest: tbl_get_SomeD)

lemma row_potential_step:
  assumes wf: "driver_wf env d"
  shows "(if occurrence_row k d \<noteq> None \<and>
            occurrence_row k (driver_step renv env x d) \<noteq> occurrence_row k d then 1 else 0) +
         row_potential env k (driver_step renv env x d) \<le> row_potential env k d"
proof (cases "occurrence_row k d")
  case None
  then show ?thesis
    using occurrence_row_ok [OF driver_wf_step [OF wf]] row_ok_potential
    by (auto simp: row_potential_def split: option.splits)
next
  case (Some r)
  obtain r' where r': "occurrence_row k (driver_step renv env x d) = Some r'" "occurrence_moves env r r'"
    using occurrence_row_moves [OF driver_step_state [OF wf] wf Some] .
  then show ?thesis
    using moves_potential [OF r'(2) occurrence_row_ok [OF wf Some]] Some by (auto simp: row_potential_def)
qed

lemma row_changes_bound: "driver_wf env d \<Longrightarrow> row_changes renv env k xs d \<le> row_potential env k d"
proof (induction xs arbitrary: d)
  case (Cons x xs)
  have "row_changes renv env k xs (driver_step renv env x d) \<le> row_potential env k (driver_step renv env x d)"
    by (rule Cons.IH [OF driver_wf_step [OF Cons.prems]])
  then show ?case using row_potential_step [OF Cons.prems, of k renv x] by simp
qed simp

text \<open>
  Claim C23. Every occurrence comes to rest: in a history of any length, with any interleaving
  of dispatches, settlements, retries, restarts and other mutations, an occurrence is changed
  at most twice per configured attempt after it was created.
\<close>

theorem occurrence_changes_terminate:
  "row_changes renv env k xs empty_driver \<le> 2 * nat (max 1 (se_max_attempts env))"
  using row_changes_bound [OF driver_wf_empty, of renv env k xs]
  by (simp add: row_potential_def occurrence_row_def empty_driver_def tbl_get_def)

subsection \<open>Overlap\<close>

definition blocking_dispatch :: "string \<Rightarrow> scheduling \<Rightarrow> schedule_occurrence \<Rightarrow> bool" where
  "blocking_dispatch key s r \<longleftrightarrow> oc_state r = ODispatching \<and>
     (case tbl_get sr_id (oc_schedule_id r) (sg_schedules s) of
        None \<Rightarrow> False
      | Some sched \<Rightarrow> sr_overlap_key sched = key \<and> sr_overlap_mode sched = OverlapBlock)"

lemma blocking_sig:
  "blocking_dispatch key s r \<longleftrightarrow>
     oc_state r = ODispatching \<and> overlap_sig s (oc_schedule_id r) = Some (key, OverlapBlock)"
  by (auto simp: blocking_dispatch_def overlap_sig_def split: option.splits)

text \<open>
  Claim C21. No overlap: however dispatches, settlements, reconciliations and restarts
  interleave, at most one occurrence is dispatching among all the schedules that block
  overlaps and share a target.
\<close>

theorem no_overlapping_dispatch:
  "let s = dr_state (driven renv env xs)
   in length (filter (blocking_dispatch key s) (sg_occurrences s)) \<le> 1"
proof -
  let ?s = "dr_state (driven renv env xs)"
  have wf: "distinct (sg_occurrences ?s)" "dispatch_excl ?s"
    using driven_wf [of env renv xs] by (simp_all add: driver_wf_def tables_wf_def distinct_map)
  have "x = y" if "x \<in> set (filter (blocking_dispatch key ?s) (sg_occurrences ?s))"
      "y \<in> set (filter (blocking_dispatch key ?s) (sg_occurrences ?s))" for x y
    using that wf(2) unfolding dispatch_excl_def blocking_sig set_filter by blast
  then have "card (set (filter (blocking_dispatch key ?s) (sg_occurrences ?s))) \<le> 1"
    by (intro card_le_Suc0_iff_eq [THEN iffD2, unfolded One_nat_def [symmetric]]) auto
  then show ?thesis using wf(1) by (simp only: Let_def distinct_card [OF distinct_filter])
qed

subsection \<open>Firing\<close>

text \<open>
  Claim C22. A slot fires once: when the cron library always moves forward and instants have
  distinct texts, a fire that succeeds after any history adds exactly the occurrences it
  returns. They are for increasing instants, all of them observed and later than every
  occurrence the schedule fired before, the last one is pending unless it is past the misfire
  grace, the others are coalesced, and the next instant lies behind all of them.
\<close>

theorem fire_consumes_slots_once:
  assumes fire: "fire env now new_id k req n (dr_state (driven renv env xs)) = Inr (s', updated, durable, cs)"
    and later: "\<forall>c p t. se_cron_next env c (Some p) p = Some t \<longrightarrow> p < t"
    and iso: "inj (se_isoformat env)"
  shows "sg_occurrences s' = sg_occurrences (dr_state (driven renv env xs)) @ cs @ [durable] \<and>
     sorted_wrt (<) (map oc_scheduled_for (cs @ [durable])) \<and>
     list_all (\<lambda>r. oc_schedule_id r = k \<and> oc_scheduled_for r \<le> sf_observed_at req \<and>
       list_all (\<lambda>x. oc_scheduled_for x < oc_scheduled_for r)
         (filter (\<lambda>x. oc_schedule_id x = k \<and> oc_source x \<noteq> FromManual)
           (sg_occurrences (dr_state (driven renv env xs))))) (cs @ [durable]) \<and>
     list_all (\<lambda>r. oc_state r = OCoalesced) cs \<and>
     oc_state durable = (if misfired env (sf_observed_at req) (oc_scheduled_for durable)
       then OMisfired else OPending) \<and>
     (case sr_next_fire_at updated of None \<Rightarrow> True | Some t \<Rightarrow> oc_scheduled_for durable < t)"
proof -
  let ?s = "dr_state (driven renv env xs)"
  have adv: "cron_advances env" using later by (simp add: cron_advances_def)
  have wf: "tables_wf ?s" "rows_ok env ?s" using driven_wf by (simp_all add: driver_wf_def)
  have used: "slots_consumed env ?s"
    using reachable_driver [of env renv xs] adv iso by (simp add: slots_inv_def)
  show ?thesis
    using fire_exact [OF fire wf(1) used adv iso]
  proof cases
    case (1 due current st msg)
    obtain c where c: "sr_next_fire_at current = Some c" "due \<noteq> []" "sorted_wrt (<) due"
      and due: "\<And>x. x \<in> set due \<Longrightarrow> c \<le> x \<and> x \<le> sf_observed_at req"
      using due_slots_increasing [OF 1(1) adv] by blast
    have k: "sr_id current = k" and next_s: "next_of ?s k = Some c"
      using schedule_of_Inr [OF 1(2)] c(1) by (simp_all add: next_of_def)
    have slots: "map oc_scheduled_for (cs @ [durable]) = consumed_slots env due"
      by (simp add: 1(4,5) coalesced_map consumed_slots_def fired_occurrence_def)
    have old: "oc_scheduled_for x < c"
      if "x \<in> set (sg_occurrences ?s)" "oc_schedule_id x = k" "oc_source x \<noteq> FromManual" for x
    proof -
      have "slot_consumed env ?s x" "oc_key x = occurrence_key env k (oc_scheduled_for x)"
        using used wf(2) that by (auto simp: slots_consumed_def rows_ok_def row_ok_def)
      then show ?thesis using scheduled_not_manual next_s that(2) by (simp add: slot_consumed_def)
    qed
    have new: "oc_schedule_id r = k \<and> c \<le> oc_scheduled_for r \<and> oc_scheduled_for r \<le> sf_observed_at req"
      if "r \<in> set (cs @ [durable])" for r
    proof -
      have "oc_scheduled_for r \<in> set (consumed_slots env due)"
        using that unfolding slots [symmetric] by (metis image_eqI set_map)
      then have "oc_scheduled_for r \<in> set due" using consumed_slots_increasing(2) [OF c(3,2)] by blast
      moreover have "oc_schedule_id r = k"
        using that by (auto simp: 1(4,5) coalesced_occurrences_def fired_occurrence_def k)
      ultimately show ?thesis using due by blast
    qed
    have "list_all (\<lambda>r. oc_state r = OCoalesced) cs"
      by (auto simp: 1(4) coalesced_occurrences_def fired_occurrence_def list_all_iff)
    moreover have "oc_state durable = st" "oc_scheduled_for durable = selected_slot env due"
      by (simp_all add: 1(5) fired_occurrence_def)
    moreover have "case sr_next_fire_at updated of None \<Rightarrow> True | Some t \<Rightarrow> oc_scheduled_for durable < t"
      using 1(7,8) calculation(3) by (auto split: option.splits)
    moreover have "sorted_wrt (<) (map oc_scheduled_for (cs @ [durable]))"
      unfolding slots by (rule consumed_slots_increasing(1) [OF c(3,2)])
    moreover have "list_all (\<lambda>r. oc_schedule_id r = k \<and> oc_scheduled_for r \<le> sf_observed_at req \<and>
       list_all (\<lambda>x. oc_scheduled_for x < oc_scheduled_for r)
         (filter (\<lambda>x. oc_schedule_id x = k \<and> oc_source x \<noteq> FromManual) (sg_occurrences ?s)))
       (cs @ [durable])"
      unfolding list_all_iff set_filter using new old by (fastforce simp del: set_append)
    ultimately show ?thesis using 1(3,6) by simp
  qed
qed

lemma demo_scheduling_library:
  "\<forall>c p t. se_cron_next demo_scheduling c (Some p) p = Some t \<longrightarrow> p < t"
  "inj (se_isoformat demo_scheduling)"
proof -
  show "\<forall>c p t. se_cron_next demo_scheduling c (Some p) p = Some t \<longrightarrow> p < t"
    by (simp add: demo_scheduling_def)
  have "t = u" if "se_isoformat demo_scheduling t = se_isoformat demo_scheduling u" for t u
  proof -
    have neg: "(hd (se_isoformat demo_scheduling x) = CHR ''-'') = (x < 0)" if "x \<noteq> 0" for x
      using that by (cases "nat \<bar>x\<bar>") (auto simp: demo_scheduling_def)
    have len: "int (length (se_isoformat demo_scheduling x)) = (if x < 0 then 1 - x else x)" for x
      by (simp add: demo_scheduling_def)
    have same: "(if t < 0 then 1 - t else t) = (if u < 0 then 1 - u else u)"
      using len [of t] len [of u] that by simp
    show ?thesis
    proof (cases "t = 0 \<or> u = 0")
      case True
      then show ?thesis using same by (simp split: if_splits)
    next
      case False
      then have "t < 0 \<longleftrightarrow> u < 0" using neg [of t] neg [of u] that by simp
      then show ?thesis using same by (simp split: if_splits)
    qed
  qed
  then show "inj (se_isoformat demo_scheduling)" by (rule injI)
qed

text \<open>The wake-up at 35 of a schedule that is due since 15, every 10 units.\<close>

definition demo_fired :: "scheduling \<times> schedule_record \<times> schedule_occurrence \<times> schedule_occurrence list" where
  "demo_fired = projr (fire demo_scheduling 36 (\<lambda>i. replicate i CHR ''x'') ''s'' (demo_wake 35) 1
     (dr_state (driven demo_runs demo_scheduling demo_created)))"

theorem fire_consumes_slots_once_witness:
  "case demo_fired of (s', updated, durable, cs) \<Rightarrow>
     sg_occurrences s' = cs @ [durable] \<and> map oc_scheduled_for (cs @ [durable]) = [15, 25, 35] \<and>
     oc_state durable = OPending \<and> sr_next_fire_at updated = Some 45 \<and>
     sorted_wrt (<) (map oc_scheduled_for (cs @ [durable]))"
proof -
  obtain s' updated durable cs where f: "demo_fired = (s', updated, durable, cs)" by (cases demo_fired) auto
  have eval: "(case fire demo_scheduling 36 (\<lambda>i. replicate i CHR ''x'') ''s'' (demo_wake 35) 1
     (dr_state (driven demo_runs demo_scheduling demo_created)) of Inl _ \<Rightarrow> False
     | Inr (s', updated, durable, cs) \<Rightarrow> map oc_scheduled_for (cs @ [durable]) = [15, 25, 35] \<and>
         oc_state durable = OPending \<and> sr_next_fire_at updated = Some 45) \<and>
     sg_occurrences (dr_state (driven demo_runs demo_scheduling demo_created)) = []"
    by code_simp
  then have fire: "fire demo_scheduling 36 (\<lambda>i. replicate i CHR ''x'') ''s'' (demo_wake 35) 1
     (dr_state (driven demo_runs demo_scheduling demo_created)) = Inr (s', updated, durable, cs)"
    using f by (auto simp: demo_fired_def split: sum.splits)
  have "\<not> misfired demo_scheduling (sf_observed_at (demo_wake 35)) 35" by code_simp
  then show ?thesis
    using fire_consumes_slots_once [OF fire demo_scheduling_library] eval unfolding f fire by simp
qed

subsection \<open>Errors that are too long\<close>

lemma traverse_fails: "x \<in> set xs \<Longrightarrow> f x = Inl e \<Longrightarrow> \<exists>e'. traverse f xs = Inl e'"
proof (induction xs)
  case (Cons y ys)
  then show ?case by (cases "f y"; cases "traverse f ys") auto
qed simp

lemma settle_waiting:
  assumes "settle_occurrence now k x s = Inr (s', r')" and "oc_state r' = ORetryWaiting"
  shows "tbl_get oc_id k (sg_occurrences s') = Some r'"
proof -
  obtain r where r: "occurrence_of k s = Inr r"
    using assms by (auto simp: settle_occurrence_def ebind_Inr_iff split: if_splits)
  note get = occurrence_of_Inr [OF r]
  have live: "\<not> terminal (oc_state r)"
  proof
    assume t: "terminal (oc_state r)"
    then have "r' = r" using assms(1) r by (auto simp: settle_occurrence_def split: if_splits)
    then show False using t assms(2) by (simp add: terminal_def)
  qed
  note unfold = settle_occurrence_def Let_def schedule_event_def upd_occurrence_def
  have rows: "sg_occurrences s' = tbl_upd oc_id k (\<lambda>_. r') (sg_occurrences s)"
    using assms(1) r live by (auto simp: unfold split: if_splits)
  have "oc_id r' = oc_id r" using assms(1) r live by (auto simp: unfold split: if_splits)
  then have new: "oc_id r' = k" using get by simp
  have "tbl_get oc_id k rows = Some r \<Longrightarrow> tbl_get oc_id k (tbl_upd oc_id k (\<lambda>_. r') rows) = Some r'" for rows
    using new by (induction rows) (auto simp: tbl_get_def tbl_upd_def)
  then show ?thesis using get rows by simp
qed

text \<open>
  A command that is refused with a message of more than 4096 characters stops the
  retries of all schedules: the settlement stores the message without checking it, so the
  stored occurrence can no longer be read, and once it is due every query for due retries
  fails (unless its limit cuts the occurrence off).
\<close>

theorem long_error_stops_retries:
  assumes settle: "settle_occurrence now k (settlement_of env now c result) s = Inr (s', r)"
    and retry: "oc_state r = ORetryWaiting" "oc_next_attempt_at r = Some t" "t \<le> now'"
    and long: "oc_error_message r = Some m" "4096 < length m"
    and limit: "length (sg_occurrences s') \<le> limit"
  shows "occurrence_of k s' = Inl (ValueError ''occurrence payload is invalid'') \<and>
    (\<exists>e. due_retries now' limit s' = Inl e)"
proof -
  have get: "tbl_get oc_id k (sg_occurrences s') = Some r"
    using settle_waiting [OF settle retry(1)] .
  have row: "stored_occurrence r = Inl (ValueError ''occurrence payload is invalid'')"
    using long by (simp add: stored_occurrence_def occurrence_valid_def bounded_length_def)
  let ?due = "filter (\<lambda>r. oc_state r = ORetryWaiting \<and>
    (case oc_next_attempt_at r of None \<Rightarrow> False | Some t \<Rightarrow> t \<le> now')) (sg_occurrences s')"
  let ?sorted = "sort_key (\<lambda>r. the (oc_next_attempt_at r)) (sort_key oc_id ?due)"
  have "r \<in> set ?sorted" using tbl_get_SomeD [OF get] retry by simp
  moreover have "length ?due \<le> length (sg_occurrences s')" by (rule length_filter_le)
  then have "length ?sorted \<le> limit" unfolding length_sort using limit by (rule order_trans)
  ultimately have "r \<in> set (take limit ?sorted)" by simp
  then have "\<exists>e. traverse stored_occurrence (take limit ?sorted) = Inl e"
    using row by (rule traverse_fails [where f = stored_occurrence])
  then show ?thesis using get row by (simp add: due_retries_def occurrence_of_def)
qed


text \<open>Two refused dispatches, one of them with a message that is too long.\<close>

definition demo_refused :: "string \<Rightarrow> command_result" where
  "demo_refused m = \<lparr>cx_status = CommandRefused, cx_payload = [],
     cx_error = Some \<lparr>ee_code = SCHEDULE, ee_message = m, ee_retryable = True\<rparr>\<rparr>"

definition demo_claimed :: driver where
  "demo_claimed = driven demo_runs demo_scheduling
     (demo_created @ [demo_fire ''s'' 36 (demo_wake 15)] @ demo_dispatch ''sx'')"

lemma demo_long_settled:
  assumes "length m = 4097"
  shows "\<exists>s' r. settle_occurrence 50 ''sx'' (settlement_of demo_scheduling 50 (dr_claims demo_claimed ! 0)
      (demo_refused m)) (dr_state demo_claimed) = Inr (s', r) \<and> oc_state r = ORetryWaiting \<and>
      oc_next_attempt_at r = Some 1000050 \<and> oc_error_message r = Some m \<and>
      length (sg_occurrences s') = 1"
proof -
  have "let d = demo_claimed in
      (case occurrence_of ''sx'' (dr_state d) of Inl _ \<Rightarrow> False | Inr r \<Rightarrow> oc_state r = ODispatching) \<and>
      length (sg_occurrences (dr_state d)) = 1 \<and> oc_attempt_count (dr_claims d ! 0) = 1"
    unfolding demo_claimed_def by code_simp
  then obtain r where r: "occurrence_of ''sx'' (dr_state demo_claimed) = Inr r" "oc_state r = ODispatching"
    "length (sg_occurrences (dr_state demo_claimed)) = 1" "oc_attempt_count (dr_claims demo_claimed ! 0) = 1"
    by (auto simp: Let_def split: sum.splits)
  have x: "settlement_of demo_scheduling 50 (dr_claims demo_claimed ! 0) (demo_refused m) =
      \<lparr>st_state = ORetryWaiting, st_run_id = None, st_next_attempt_at = Some 1000050,
       st_error_code = Some SCHEDULE, st_error_message = Some m\<rparr>"
    using r(4) by (simp add: settlement_of_def demo_refused_def demo_scheduling_def retry_delay_def
        timedelta_def)
  show ?thesis unfolding x using r
    by (simp add: settle_occurrence_def terminal_def Let_def schedule_event_def upd_occurrence_def tbl_upd_def)
qed

theorem long_error_stops_retries_witness:
  "\<exists>s' r e. settle_occurrence 50 ''sx'' (settlement_of demo_scheduling 50 (dr_claims demo_claimed ! 0)
      (demo_refused (replicate 4097 CHR ''a''))) (dr_state demo_claimed) = Inr (s', r) \<and>
     occurrence_of ''sx'' s' = Inl (ValueError ''occurrence payload is invalid'') \<and>
     due_retries 1000050 20 s' = Inl e"
proof -
  obtain s' r where settle: "settle_occurrence 50 ''sx'' (settlement_of demo_scheduling 50
      (dr_claims demo_claimed ! 0) (demo_refused (replicate 4097 CHR ''a''))) (dr_state demo_claimed) = Inr (s', r)"
    and r: "oc_state r = ORetryWaiting" "oc_next_attempt_at r = Some 1000050"
      "oc_error_message r = Some (replicate 4097 CHR ''a'')" "length (sg_occurrences s') = 1"
    using demo_long_settled [of "replicate 4097 CHR ''a''"] by auto
  show ?thesis
    using long_error_stops_retries [OF settle r(1,2) _ r(3), of 1000050 20] settle r(4)
    by (simp add: length_replicate)
qed

subsection \<open>Completed schedules\<close>

text \<open>
  A completed schedule cannot be resumed, but it can be paused and then resumed: it is then
  active without a next instant, so it never fires again.
\<close>

lemma completed_schedule_resumes:
  assumes "schedule_of env k s = Inr c" and "sr_state c = ScheduleCompleted"
  shows "\<exists>s1 r1 s2 r2. transition env now k SchedulePaused (sr_revision c) s = Inr (s1, r1) \<and>
     transition env now k ScheduleActive (sr_revision c + 1) s1 = Inr (s2, r2) \<and>
     sr_state r2 = ScheduleActive \<and> sr_next_fire_at r2 = None"
proof -
  have c: "tbl_get sr_id k (sg_schedules s) = Some c" "schedule_valid env c" "sr_id c = k"
    "sr_next_fire_at c = None"
    using schedule_of_Inr [OF assms(1)] assms(2) by (auto simp: schedule_valid_def)
  let ?r = "c\<lparr>sr_state := SchedulePaused, sr_next_fire_at := None, sr_revision := sr_revision c + 1,
    sr_updated_at := now\<rparr>"
  let ?s = "s\<lparr>sg_schedules := tbl_upd sr_id k (\<lambda>_. ?r) (sg_schedules s)\<rparr>"
  have paused: "transition env now k SchedulePaused (sr_revision c) s = Inr (?s, ?r)"
    using assms c by (simp add: transition_def update_schedule_in_session_def Let_def)
  have "tbl_get sr_id k (tbl_upd sr_id k (\<lambda>_. ?r) rows) = Some ?r"
    if "tbl_get sr_id k rows = Some c" for rows
    using that c(3) by (induction rows) (auto simp: tbl_get_def tbl_upd_def)
  moreover have "schedule_valid env ?r" using c(2) unfolding schedule_valid_def by auto
  ultimately have "schedule_of env k ?s = Inr ?r"
    using c(1) by (simp add: schedule_of_def stored_schedule_def)
  then have "\<exists>s2 r2. transition env now k ScheduleActive (sr_revision c + 1) ?s = Inr (s2, r2) \<and>
     sr_state r2 = ScheduleActive \<and> sr_next_fire_at r2 = None"
    by (simp add: transition_def update_schedule_in_session_def Let_def)
  then show ?thesis using paused by blast
qed

end
