(* ===== verification/Organization.thy ===== *)
theory Organization
  imports Prelude
begin

section \<open>The organization\<close>

text \<open>
  The roster of \<open>organization/models.py\<close>: branches, pools and professional identities, and the
  validator that makes its references complete. Free text that no operation reads (names,
  responsibilities) is kept, patterns and lengths of identifiers are not.
\<close>

datatype independence_class =
  ExecutiveClass | ProductionClass | IndependentAssurance | ResearchClass | DocumentationClass

record branch_definition =
  br_branch_id :: string
  br_name :: string
  br_executive_sponsor :: "string option"
  br_independent :: bool

record pool_definition =
  po_pool_id :: string
  po_name :: string
  po_members :: "string list"

record professional_identity =
  pi_identity_id :: string
  pi_branch_id :: string
  pi_responsibility :: string
  pi_independence_class :: independence_class
  pi_authority_limits :: "string list"
  pi_pool_memberships :: "string list"
  pi_mission_lead_eligible :: bool

record organization_roster =
  og_organization_id :: string
  og_organization_version :: string
  og_branches :: "branch_definition list"
  og_pools :: "pool_definition list"
  og_identities :: "professional_identity list"

definition declared_members :: "professional_identity list \<Rightarrow> string \<Rightarrow> string list" where
  "declared_members identities pool =
     map pi_identity_id (filter (\<lambda>i. pool \<in> set (pi_pool_memberships i)) identities)"

definition references_are_complete_and_unambiguous :: "organization_roster \<Rightarrow> bool" where
  "references_are_complete_and_unambiguous org =
     (let branches = map br_branch_id (og_branches org); pools = map po_pool_id (og_pools org);
          identities = map pi_identity_id (og_identities org)
      in distinct branches \<and> distinct pools \<and> distinct identities \<and>
         ''Mission_Lead'' \<notin> set identities \<and>
         list_all (\<lambda>b. case br_executive_sponsor b of
           None \<Rightarrow> True | Some x \<Rightarrow> x \<in> set identities) (og_branches org) \<and>
         list_all (\<lambda>i. pi_branch_id i \<in> set branches \<and> set (pi_pool_memberships i) \<subseteq> set pools \<and>
           distinct (pi_pool_memberships i)) (og_identities org) \<and>
         list_all (\<lambda>p. distinct (po_members p) \<and> set (po_members p) \<subseteq> set identities \<and>
           set (po_members p) = set (declared_members (og_identities org) (po_pool_id p))) (og_pools org))"

definition find_identity :: "organization_roster \<Rightarrow> string \<Rightarrow> professional_identity option" where
  "find_identity org k = map_of (rev (map (\<lambda>i. (pi_identity_id i, i)) (og_identities org))) k"

end
