(* ===== verification/MissionModel.thy ===== *)
theory MissionModel
  imports Assignments PlanModel Organization
begin

section \<open>Mission contracts\<close>

text \<open>
  The immutable values of \<open>missions/models.py\<close> (the assignment graph is in \<open>Assignments\<close>) and
  their validators. Every field is kept, because the repository compares whole payloads; the
  generated identifiers and the instants are given by the caller.
\<close>

subsection \<open>Missions\<close>

datatype mission_origin_kind =
    OriginCeo | OriginPm | OriginCto | OriginIncident | OriginProjectEvidence
  | OriginIndependentFinding | OriginDependency | OriginMaintenance | OriginProposal

datatype mission_state =
    MProposed | MClarifying | MPlanned | MActive | MPaused | MBlocked | MEvaluating
  | MRemediating | MCompleted | MFailed | MCancelled

datatype mission_brief_status = BriefClarifying | BriefAwaiting | BriefConfirmed | BriefRejected

datatype mission_run_acceptance = BindingPending | BindingAccepted | BindingRejected

datatype origin_schema = Origin_1_0 | Origin_1_1

record mission_origin =
  mo_schema_version :: origin_schema
  mo_origin_id :: string
  mo_kind :: mission_origin_kind
  mo_actor_id :: string
  mo_objective :: string
  mo_source_references :: "string list"
  mo_template_id :: "string option"
  mo_template_reference :: "template_reference option"
  mo_created_at :: instant

definition optional_template_has_exact_lineage :: "mission_origin \<Rightarrow> bool" where
  "optional_template_has_exact_lineage og \<longleftrightarrow>
     (if mo_schema_version og = Origin_1_0 then mo_template_reference og = None
      else (mo_template_id og = None) = (mo_template_reference og = None) \<and>
           (case mo_template_reference og of None \<Rightarrow> True
            | Some r \<Rightarrow> Some (tr_template_id r) = mo_template_id og))"

record mission_record =
  mr_mission_id :: string
  mr_revision :: int
  mr_state :: mission_state
  mr_origin :: mission_origin
  mr_organization_id :: string
  mr_organization_version :: string
  mr_current_brief_version :: "int option"
  mr_current_crew_version :: "int option"
  mr_current_environment_plan_version :: "int option"
  mr_created_at :: instant
  mr_updated_at :: instant

definition advanced_states_have_a_brief :: "mission_record \<Rightarrow> bool" where
  "advanced_states_have_a_brief m \<longleftrightarrow>
     mr_state m \<in> {MProposed, MClarifying} \<or> mr_current_brief_version m \<noteq> None"

subsection \<open>Briefs\<close>

record mission_environment_intent =
  mei_known_locations :: "string list"
  mei_target_platforms :: "string list"
  mei_target_architectures :: "string list"
  mei_existing_definition_references :: "string list"
  mei_isolation_requirements :: "string list"
  mei_network_requirements :: "string list"
  mei_credential_references :: "string list"
  mei_resource_constraints :: "string list"
  mei_required_evidence :: "string list"
  mei_known_unknowns :: "string list"
  mei_environment_dependent :: bool

definition dependent_work_declares_evidence_or_unknowns :: "mission_environment_intent \<Rightarrow> bool" where
  "dependent_work_declares_evidence_or_unknowns i \<longleftrightarrow>
     (mei_environment_dependent i \<longrightarrow> mei_required_evidence i \<noteq> [] \<or> mei_known_unknowns i \<noteq> [])"

record mission_brief =
  mb_brief_id :: string
  mb_mission_id :: string
  mb_version :: int
  mb_organization_id :: string
  mb_organization_version :: string
  mb_status :: mission_brief_status
  mb_objective :: string
  mb_problem :: string
  mb_desired_outcome :: string
  mb_scope :: "string list"
  mb_exclusions :: "string list"
  mb_acceptance_criteria :: "string list"
  mb_constraints :: "string list"
  mb_risks :: "string list"
  mb_authority_scope :: "string list"
  mb_proposed_crew :: "string list"
  mb_evidence_requirements :: "string list"
  mb_escalation_conditions :: "string list"
  mb_environment_intent :: mission_environment_intent
  mb_pm_confirmation :: "executive_confirmation option"
  mb_cto_confirmation :: "executive_confirmation option"
  mb_created_at :: instant

text \<open>\<open>required in text\<close> and \<open>" ".join\<close> of Python strings; \<open>lower\<close> of ASCII text.\<close>

fun contains_string :: "string \<Rightarrow> string \<Rightarrow> bool" where
  "contains_string pat [] = (pat = [])"
| "contains_string pat (c # s) = (take (length pat) (c # s) = pat \<or> contains_string pat s)"

fun join_with :: "string \<Rightarrow> string list \<Rightarrow> string" where
  "join_with sep [] = []"
| "join_with sep [x] = x"
| "join_with sep (x # y # xs) = x @ sep @ join_with sep (y # xs)"

definition lower_char :: "char \<Rightarrow> char" where
  "lower_char c = (let n = of_char c :: nat in if 65 \<le> n \<and> n \<le> 90 then char_of (n + 32) else c)"

definition lower :: "string \<Rightarrow> string" where
  "lower s = map lower_char s"

definition covers :: "string list \<Rightarrow> executive_confirmation \<Rightarrow> bool" where
  "covers required c =
     (let coverage = lower (join_with '' '' (ec_coverage c))
      in list_all (\<lambda>x. contains_string x coverage) required)"

definition status_matches_executive_confirmations :: "mission_brief \<Rightarrow> bool" where
  "status_matches_executive_confirmations b =
     (let pm = mb_pm_confirmation b; cto = mb_cto_confirmation b
      in (case pm of None \<Rightarrow> True | Some c \<Rightarrow> ec_identity_id c = ''PM'') \<and>
         (case cto of None \<Rightarrow> True | Some c \<Rightarrow> ec_identity_id c = ''CTO'') \<and>
         (mb_status b = BriefConfirmed \<longrightarrow>
            (case (pm, cto) of
               (Some p, Some c) \<Rightarrow>
                 ec_disposition p = ''confirmed'' \<and> ec_disposition c = ''confirmed'' \<and>
                 covers [''product'', ''developer-experience'', ''composition''] p \<and>
                 covers [''technical'', ''platform'', ''security'', ''quality'', ''operability''] c
             | _ \<Rightarrow> False)) \<and>
         (mb_status b = BriefRejected \<longrightarrow>
            list_ex (\<lambda>x. case x of None \<Rightarrow> False | Some c \<Rightarrow> ec_disposition c = ''rejected'') [pm, cto]) \<and>
         distinct (mb_proposed_crew b))"

subsection \<open>Crews\<close>

record crew_selection_evidence =
  ce_project_references :: "string list"
  ce_competence_references :: "string list"
  ce_availability_references :: "string list"
  ce_conflict_assessment :: string
  ce_risk_coverage :: "string list"
  ce_independence_references :: "string list"

record mission_crew_member =
  cw_identity_id :: string
  cw_assignment_kind :: crew_assignment_kind
  cw_responsibility :: string
  cw_selection_evidence :: crew_selection_evidence

record mission_crew_revision =
  cr_crew_id :: string
  cr_mission_id :: string
  cr_version :: int
  cr_organization_id :: string
  cr_organization_version :: string
  cr_brief_version :: int
  cr_mission_lead_id :: string
  cr_members :: "mission_crew_member list"
  cr_pm_composition_confirmation_id :: string
  cr_cto_coverage_confirmation_id :: string
  cr_revision_reason :: string
  cr_created_at :: instant

text \<open>\<open>{member.identity_id: member}\<close>: the last member of an identity.\<close>

definition member_of :: "mission_crew_revision \<Rightarrow> string \<Rightarrow> mission_crew_member option" where
  "member_of crew k = map_of (rev (map (\<lambda>m. (cw_identity_id m, m)) (cr_members crew))) k"

definition crew_has_one_identity_per_separated_responsibility :: "mission_crew_revision \<Rightarrow> bool" where
  "crew_has_one_identity_per_separated_responsibility crew \<longleftrightarrow>
     distinct (map cw_identity_id (cr_members crew)) \<and>
     (case member_of crew (cr_mission_lead_id crew) of
        None \<Rightarrow> False | Some m \<Rightarrow> cw_assignment_kind m \<noteq> REPORTING)"

subsection \<open>Run bindings\<close>

datatype binding_schema = Binding_1_0 | Binding_1_1

record mission_run_binding =
  rb_schema_version :: binding_schema
  rb_binding_id :: string
  rb_mission_id :: string
  rb_binding_key :: string
  rb_binding_revision :: int
  rb_mission_task_id :: string
  rb_assignment_id :: "string option"
  rb_assignment_revision :: "int option"
  rb_run_id :: string
  rb_execution_task_id :: string
  rb_plan_fingerprint :: "string option"
  rb_execution_context :: plan_execution_context
  rb_depends_on_binding_keys :: "string list"
  rb_authority_scope :: "string list"
  rb_path_scopes :: "string list"
  rb_result_references :: "string list"
  rb_acceptance_references :: "string list"
  rb_acceptance :: mission_run_acceptance
  rb_recorded_by :: string
  rb_created_at :: instant

definition result_and_acceptance_are_explicit :: "mission_run_binding \<Rightarrow> bool" where
  "result_and_acceptance_are_explicit b \<longleftrightarrow>
     (rb_schema_version b = Binding_1_1 \<longrightarrow>
        rb_assignment_id b \<noteq> None \<and> rb_assignment_revision b \<noteq> None \<and> rb_plan_fingerprint b \<noteq> None) \<and>
     (rb_schema_version b = Binding_1_0 \<longrightarrow>
        rb_assignment_id b = None \<and> rb_assignment_revision b = None \<and> rb_plan_fingerprint b = None) \<and>
     distinct (rb_depends_on_binding_keys b) \<and>
     rb_binding_key b \<notin> set (rb_depends_on_binding_keys b) \<and>
     distinct (rb_result_references b) \<and> distinct (rb_acceptance_references b) \<and>
     (if rb_acceptance b = BindingPending
      then rb_result_references b = [] \<and> rb_acceptance_references b = []
      else rb_result_references b \<noteq> [] \<and> rb_acceptance_references b \<noteq> [])"

subsection \<open>Reports\<close>

record mission_run_report_task =
  rt_mission_task_id :: string
  rt_execution_task_id :: string
  rt_accountable_owner :: string
  rt_assignment_kind :: crew_assignment_kind
  rt_result_references :: "string list"
  rt_acceptance_references :: "string list"
  rt_outcome_summary :: string
  rt_evidence_references :: "string list"
  rt_residual_risks :: "string list"
  rt_failures :: "string list"

definition evidence_is_unique :: "mission_run_report_task \<Rightarrow> bool" where
  "evidence_is_unique t \<longleftrightarrow>
     distinct (rt_result_references t) \<and> distinct (rt_acceptance_references t) \<and>
     distinct (rt_evidence_references t) \<and> distinct (rt_residual_risks t) \<and>
     distinct (rt_failures t)"

record mission_run_report =
  rp_report_id :: string
  rp_mission_id :: string
  rp_mission_revision :: int
  rp_run_id :: string
  rp_execution_context :: plan_execution_context
  rp_plan_fingerprint :: string
  rp_reporter_identity :: string
  rp_reporting_mission_task_id :: string
  rp_reporting_execution_task_id :: string
  rp_task_results :: "mission_run_report_task list"
  rp_delivered_outcomes :: "string list"
  rp_validation_summary :: "string list"
  rp_residual_risks :: "string list"
  rp_failures :: "string list"
  rp_unresolved_decisions :: "string list"
  rp_created_at :: instant

definition reporter_and_task_coverage_are_explicit :: "mission_run_report \<Rightarrow> bool" where
  "reporter_and_task_coverage_are_explicit r =
     (let reporting = filter (\<lambda>t. rt_mission_task_id t = rp_reporting_mission_task_id r \<and>
            rt_execution_task_id t = rp_reporting_execution_task_id r) (rp_task_results r)
      in distinct (map rt_mission_task_id (rp_task_results r)) \<and>
         distinct (map rt_execution_task_id (rp_task_results r)) \<and>
         (case reporting of
            [t] \<Rightarrow> rt_assignment_kind t = REPORTING \<and> rt_accountable_owner t = rp_reporter_identity r
          | _ \<Rightarrow> False))"

subsection \<open>Transitions\<close>

record mission_transition =
  tn_transition_id :: string
  tn_mission_id :: string
  tn_from_state :: mission_state
  tn_to_state :: mission_state
  tn_actor_or_cause :: string
  tn_reason :: string
  tn_decision_id :: "string option"
  tn_affected_scope :: "string list"
  tn_evidence_references :: "string list"
  tn_created_at :: instant

definition transition_changes_state :: "mission_transition \<Rightarrow> bool" where
  "transition_changes_state t \<longleftrightarrow> tn_from_state t \<noteq> tn_to_state t"

end
