(* ===== verification/ConversationModel.thy ===== *)
theory ConversationModel
  imports Complex_Main MissionModel
begin

section \<open>Conversation contracts\<close>

text \<open>
  The immutable values of \<open>conversations/models.py\<close> and their validators: channels, messages,
  structured decisions, escalations and the interventions of the CEO. Lengths of texts and
  patterns of identifiers are left out.
\<close>

datatype channel_class = ExecutiveChannel | MissionChannel | BranchChannel | DirectChannel

datatype message_purpose =
  Discussion | Collaboration | Consultation | HandoffContext | ReviewPurpose | EvidenceChallenge

datatype escalation_state = EscalationOpen | EscalationAnswered

datatype decision_evidence_class =
  EvidenceVerified | EvidenceAssumption | EvidencePreference | EvidenceInference | EvidenceUnknown

datatype decision_status = DecisionStaged | DecisionAccepted | DecisionRejected | DecisionInconclusive

datatype decision_validation_status = ValidationPending | ValidationPassed | ValidationFailed

datatype explanation_depth = Concise | Standard | Deep

record explanation_preference =
  xp_requested_by :: string
  xp_depth :: explanation_depth
  xp_focus_areas :: "string list"
  xp_request_reference :: string

definition focus_areas_are_unique :: "explanation_preference \<Rightarrow> bool" where
  "focus_areas_are_unique p \<longleftrightarrow> distinct (xp_focus_areas p)"

datatype intervention_kind =
    Comment | AnswerEscalation | AcceptProposal | RejectProposal | Suspend | Resume
  | RequestReassignment | ConfirmReassignment | Stop | AcceptRisk

datatype intervention_target =
  TargetMission | TargetTask | TargetProposal | TargetAssignment | TargetRisk | TargetEscalation

datatype intervention_result =
    ResultUnchanged | ResultAnswered | ResultAccepted | ResultRejected | ResultPaused
  | ResultActive | ResultReassignmentRequested | ResultReassignmentConfirmed | ResultCancelled
  | ResultRiskAccepted

subsection \<open>Channels and messages\<close>

record conversation_channel =
  ch_conversation_id :: string
  ch_channel_class :: channel_class
  ch_title :: string
  ch_participants :: "string list"
  ch_mission_id :: "string option"
  ch_branch_id :: "string option"
  ch_direct_authorization_reference :: "string option"
  ch_created_by :: string
  ch_created_at :: instant

definition channel_scope_matches_class :: "conversation_channel \<Rightarrow> bool" where
  "channel_scope_matches_class c \<longleftrightarrow> distinct (ch_participants c) \<and>
     (case ch_channel_class c of
        ExecutiveChannel \<Rightarrow> {''CEO'', ''PM'', ''CTO''} \<subseteq> set (ch_participants c) \<and>
          ch_mission_id c = None \<and> ch_branch_id c = None
      | MissionChannel \<Rightarrow> ch_mission_id c \<noteq> None
      | BranchChannel \<Rightarrow> ch_branch_id c \<noteq> None
      | DirectChannel \<Rightarrow> length (ch_participants c) = 2 \<and>
          ch_direct_authorization_reference c \<noteq> None)"

datatype message_schema = Message_1_0 | Message_1_1

record conversation_message =
  mm_schema_version :: message_schema
  mm_message_id :: string
  mm_conversation_id :: string
  mm_author_identity :: string
  mm_purpose :: message_purpose
  mm_body :: string
  mm_reply_to_message_id :: "string option"
  mm_scope :: "string list"
  mm_evidence_references :: "string list"
  mm_created_at :: instant

definition collaborative_purpose_is_attributable :: "conversation_message \<Rightarrow> bool" where
  "collaborative_purpose_is_attributable m \<longleftrightarrow>
     (if mm_schema_version m = Message_1_0 then mm_purpose m = Discussion \<and> mm_scope m = []
      else mm_purpose m \<noteq> Discussion \<longrightarrow>
        mm_scope m \<noteq> [] \<and> mm_evidence_references m \<noteq> [])"

subsection \<open>Decisions\<close>

record context_element =
  ct_statement :: string
  ct_provenance_reference :: string

record decision_context =
  dx_question :: string
  dx_objective_reference :: string
  dx_effective_policy_reference :: string
  dx_requirements :: "context_element list"
  dx_repository_evidence :: "context_element list"
  dx_constraints :: "context_element list"
  dx_declared_preferences :: "context_element list"
  dx_risks :: "context_element list"
  dx_material_unknowns :: "context_element list"

definition provenance_references :: "decision_context \<Rightarrow> string list" where
  "provenance_references c =
     dx_objective_reference c # dx_effective_policy_reference c #
     map ct_provenance_reference (concat [dx_requirements c, dx_repository_evidence c,
       dx_constraints c, dx_declared_preferences c, dx_risks c, dx_material_unknowns c])"

record evidence_claim =
  cl_claim :: string
  cl_classification :: decision_evidence_class
  cl_source_reference :: "string option"

definition verified_claim_has_a_source :: "evidence_claim \<Rightarrow> bool" where
  "verified_claim_has_a_source c \<longleftrightarrow>
     (cl_classification c = EvidenceVerified \<longrightarrow> cl_source_reference c \<noteq> None)"

text \<open>Weights and confidences are numbers the code only carries.\<close>

record decision_criterion =
  cn_criterion_id :: string
  cn_description :: string
  cn_provenance_references :: "string list"
  cn_weight :: "rat option"

record criterion_assessment =
  as_criterion_id :: string
  as_assessment :: string
  as_evidence_references :: "string list"

record decision_alternative =
  da_option_id :: string
  da_description :: string
  da_credible :: bool
  da_rejection_reason :: "string option"
  da_assessments :: "criterion_assessment list"

definition rejected_candidate_explains_why_it_is_not_credible :: "decision_alternative \<Rightarrow> bool" where
  "rejected_candidate_explains_why_it_is_not_credible a \<longleftrightarrow>
     da_credible a = (da_rejection_reason a = None)"

record decision_recommendation =
  rc_recommended_option_id :: "string option"
  rc_evidence_insufficient :: bool
  rc_rationale :: string
  rc_tradeoffs :: "string list"
  rc_risks :: "string list"
  rc_confidence :: rat
  rc_confidence_basis :: string
  rc_unresolved_questions :: "string list"
  rc_expected_consequences :: "string list"
  rc_reversal_or_migration :: "string list"

definition recommends_exactly_one_option_or_declares_insufficiency ::
  "decision_recommendation \<Rightarrow> bool" where
  "recommends_exactly_one_option_or_declares_insufficiency r \<longleftrightarrow>
     rc_evidence_insufficient r = (rc_recommended_option_id r = None)"

record decision_validation =
  dv_validation_type :: string
  dv_planned_evidence :: "string list"
  dv_status :: decision_validation_status
  dv_evaluator_identity :: "string option"
  dv_evidence_references :: "string list"
  dv_findings :: "string list"

definition settled_validation_has_evaluator_and_evidence :: "decision_validation \<Rightarrow> bool" where
  "settled_validation_has_evaluator_and_evidence v \<longleftrightarrow>
     (if dv_status v = ValidationPending
      then dv_evaluator_identity v = None \<and> dv_evidence_references v = []
      else dv_evaluator_identity v \<noteq> None \<and> dv_evidence_references v \<noteq> [])"

datatype decision_schema = Decision_1_0 | Decision_1_1

record mission_decision =
  md_schema_version :: decision_schema
  md_decision_id :: string
  md_mission_id :: string
  md_conversation_id :: string
  md_actor_id :: string
  md_subject :: string
  md_disposition :: string
  md_reason :: string
  md_scope :: "string list"
  md_evidence_references :: "string list"
  md_authority_reference :: string
  md_decision_status :: "decision_status option"
  md_producer_identity :: "string option"
  md_deciding_identity :: "string option"
  md_changes_durable_authority :: "bool option"
  md_context :: "decision_context option"
  md_evidence :: "evidence_claim list"
  md_criteria :: "decision_criterion list"
  md_alternatives :: "decision_alternative list"
  md_alternatives_search :: "string option"
  md_recommendation :: "decision_recommendation option"
  md_validation :: "decision_validation option"
  md_explanation_preference :: "explanation_preference option"
  md_supersedes_decision_id :: "string option"
  md_created_at :: instant

fun decision_status_value :: "decision_status \<Rightarrow> string" where
  "decision_status_value DecisionStaged = ''staged''"
| "decision_status_value DecisionAccepted = ''accepted''"
| "decision_status_value DecisionRejected = ''rejected''"
| "decision_status_value DecisionInconclusive = ''inconclusive''"

definition alternatives_are_compared :: "mission_decision \<Rightarrow> decision_recommendation \<Rightarrow> bool" where
  "alternatives_are_compared d recommendation =
     (let criteria = map cn_criterion_id (md_criteria d);
          credible = filter da_credible (md_alternatives d)
      in distinct criteria \<and> distinct (map da_option_id (md_alternatives d)) \<and>
         list_all (\<lambda>a. distinct (map as_criterion_id (da_assessments a)) \<and>
           as_criterion_id ` set (da_assessments a) = set criteria) (md_alternatives d) \<and>
         (length credible = 1 \<longrightarrow> md_alternatives_search d \<noteq> None \<and>
           list_ex (\<lambda>a. \<not> da_credible a) (md_alternatives d)) \<and>
         (1 < length credible \<longrightarrow> md_alternatives_search d \<noteq> None) \<and>
         (case rc_recommended_option_id recommendation of
            None \<Rightarrow> True | Some k \<Rightarrow> k \<in> da_option_id ` set credible) \<and>
         (credible = [] \<longrightarrow> rc_evidence_insufficient recommendation))"

definition evidence_is_traceable :: "mission_decision \<Rightarrow> decision_context \<Rightarrow> bool" where
  "evidence_is_traceable d context \<longleftrightarrow>
     list_all (\<lambda>c. list_all (\<lambda>r. r \<in> set (provenance_references context) \<or>
         Some r \<in> set (map cl_source_reference (md_evidence d))) (cn_provenance_references c))
       (md_criteria d) \<and>
     list_all (\<lambda>c. cl_classification c = EvidenceVerified \<longrightarrow>
       (case cl_source_reference c of None \<Rightarrow> False
        | Some r \<Rightarrow> r \<in> set (md_evidence_references d))) (md_evidence d)"

definition consequential_decision_contract_is_complete :: "mission_decision \<Rightarrow> bool" where
  "consequential_decision_contract_is_complete d =
     (if md_schema_version d = Decision_1_0
      then md_decision_status d = None \<and> md_producer_identity d = None \<and>
           md_changes_durable_authority d = None \<and> md_context d = None \<and>
           md_recommendation d = None \<and> md_validation d = None \<and> md_evidence d = [] \<and>
           md_criteria d = [] \<and> md_alternatives d = [] \<and> md_alternatives_search d = None \<and>
           md_deciding_identity d = None \<and> md_supersedes_decision_id d = None \<and>
           md_explanation_preference d = None
      else case (md_decision_status d, md_producer_identity d, md_context d, md_recommendation d,
                 md_validation d) of
        (Some st, Some producer, Some context, Some recommendation, Some validation) \<Rightarrow>
          md_changes_durable_authority d \<noteq> None \<and> md_evidence d \<noteq> [] \<and> md_criteria d \<noteq> [] \<and>
          md_alternatives d \<noteq> [] \<and> md_disposition d = decision_status_value st \<and>
          (if st \<in> {DecisionStaged, DecisionInconclusive}
           then md_actor_id d = producer \<and> md_deciding_identity d = None \<and>
                md_supersedes_decision_id d = None
           else md_deciding_identity d = Some (md_actor_id d) \<and>
                md_supersedes_decision_id d \<noteq> None) \<and>
          (st = DecisionInconclusive) = rc_evidence_insufficient recommendation \<and>
          dv_evaluator_identity validation \<noteq> Some producer \<and>
          (st = DecisionAccepted \<longrightarrow> dv_status validation = ValidationPassed) \<and>
          alternatives_are_compared d recommendation \<and> evidence_is_traceable d context
      | _ \<Rightarrow> False)"

subsection \<open>Escalations\<close>

record escalation_option =
  eo_option_id :: string
  eo_description :: string
  eo_consequences :: "string list"
  eo_risks :: "string list"

record executive_recommendation =
  er_identity_id :: string
  er_recommended_option_id :: string
  er_rationale :: string
  er_evidence_references :: "string list"

record mission_escalation =
  es_escalation_id :: string
  es_mission_id :: string
  es_conversation_id :: string
  es_state :: escalation_state
  es_raised_by :: string
  es_blocked_scope :: "string list"
  es_decision_required :: string
  es_reason :: string
  es_options :: "escalation_option list"
  es_recommendations :: "executive_recommendation list"
  es_uncertainty :: "string list"
  es_independent_work_continuing :: "string list"
  es_deadline :: "instant option"
  es_evidence_references :: "string list"
  es_answer_intervention_id :: "string option"
  es_created_at :: instant
  es_updated_at :: instant

definition escalation_is_actionable :: "mission_escalation \<Rightarrow> bool" where
  "escalation_is_actionable e =
     (let options = map eo_option_id (es_options e);
          identities = map er_identity_id (es_recommendations e)
      in distinct options \<and> length identities = 2 \<and> set identities = {''PM'', ''CTO''} \<and>
         er_recommended_option_id ` set (es_recommendations e) \<subseteq> set options \<and>
         (es_state e = EscalationOpen) = (es_answer_intervention_id e = None) \<and>
         set (es_blocked_scope e) \<inter> set (es_independent_work_continuing e) = {} \<and>
         (case es_deadline e of None \<Rightarrow> True | Some t \<Rightarrow> es_created_at e < t) \<and>
         es_created_at e \<le> es_updated_at e)"

subsection \<open>Interventions\<close>

datatype intervention_schema = Intervention_1_0 | Intervention_1_1

record mission_intervention =
  iv_schema_version :: intervention_schema
  iv_intervention_id :: string
  iv_mission_id :: string
  iv_conversation_id :: string
  iv_actor_id :: string
  iv_kind :: intervention_kind
  iv_target_kind :: intervention_target
  iv_target_id :: string
  iv_reason :: string
  iv_scope :: "string list"
  iv_confirmation :: string
  iv_authority_reference :: string
  iv_evidence_references :: "string list"
  iv_escalation_id :: "string option"
  iv_selected_option_id :: "string option"
  iv_effect :: string
  iv_resulting_target_state :: "intervention_result option"
  iv_resulting_mission_state :: "mission_state option"
  iv_created_at :: instant

fun allowed_targets :: "intervention_kind \<Rightarrow> intervention_target list" where
  "allowed_targets Comment = [TargetMission, TargetTask, TargetProposal, TargetAssignment, TargetRisk,
     TargetEscalation]"
| "allowed_targets AnswerEscalation = [TargetEscalation]"
| "allowed_targets AcceptProposal = [TargetProposal]"
| "allowed_targets RejectProposal = [TargetProposal]"
| "allowed_targets Suspend = [TargetMission, TargetTask]"
| "allowed_targets Resume = [TargetMission, TargetTask]"
| "allowed_targets RequestReassignment = [TargetTask, TargetAssignment]"
| "allowed_targets ConfirmReassignment = [TargetTask, TargetAssignment]"
| "allowed_targets Stop = [TargetMission, TargetTask]"
| "allowed_targets AcceptRisk = [TargetRisk]"

fun expected_target_state :: "intervention_kind \<Rightarrow> intervention_result" where
  "expected_target_state Comment = ResultUnchanged"
| "expected_target_state AnswerEscalation = ResultAnswered"
| "expected_target_state AcceptProposal = ResultAccepted"
| "expected_target_state RejectProposal = ResultRejected"
| "expected_target_state Suspend = ResultPaused"
| "expected_target_state Resume = ResultActive"
| "expected_target_state RequestReassignment = ResultReassignmentRequested"
| "expected_target_state ConfirmReassignment = ResultReassignmentConfirmed"
| "expected_target_state Stop = ResultCancelled"
| "expected_target_state AcceptRisk = ResultRiskAccepted"

fun mission_result :: "intervention_kind \<Rightarrow> mission_state option" where
  "mission_result Suspend = Some MPaused"
| "mission_result Resume = Some MActive"
| "mission_result Stop = Some MCancelled"
| "mission_result _ = None"

definition kind_matches_target_and_state :: "mission_intervention \<Rightarrow> bool" where
  "kind_matches_target_and_state i \<longleftrightarrow>
     iv_actor_id i = ''CEO'' \<and> iv_target_kind i \<in> set (allowed_targets (iv_kind i)) \<and>
     (if iv_kind i = AnswerEscalation
      then iv_escalation_id i = Some (iv_target_id i) \<and>
           (iv_schema_version i = Intervention_1_1 \<longrightarrow> iv_selected_option_id i \<noteq> None)
      else iv_escalation_id i = None \<and> iv_selected_option_id i = None) \<and>
     (if iv_schema_version i = Intervention_1_0
      then iv_resulting_target_state i = None \<and> iv_selected_option_id i = None
      else iv_resulting_target_state i = Some (expected_target_state (iv_kind i))) \<and>
     iv_resulting_mission_state i =
       (if iv_target_kind i = TargetMission then mission_result (iv_kind i) else None)"

end
