(* ===== verification/MissionEnvironment.thy ===== *)
theory MissionEnvironment
  imports MissionModel ConversationModel
begin

section \<open>Mission environment plans\<close>

text \<open>
  \<open>missions/environment.py\<close>: the contracts of environment planning and the validator that
  checks the lineage of a plan and its choices against what was observed. Of an observation
  (\<open>environment/models.py\<close>) and a profile (\<open>environment/profile.py\<close>) the records hold what the
  validator reads; SHA-256 is a parameter.
\<close>

subsection \<open>Observations and profiles\<close>

datatype availability_state = AvailableTrue | AvailableFalse | AvailableUnknown

datatype environment_outcome =
  ReuseExisting | HostNative | GenerateEnvironment | ProposeProjectChange | UnresolvedOutcome

record engine_observation =
  eo_engine_id :: string
  eo_adapter_id :: "string option"
  eo_semantics :: "string list"
  eo_facts :: "(string \<times> availability_state) list"

definition dimensions_are_independent_and_complete :: "engine_observation \<Rightarrow> bool" where
  "dimensions_are_independent_and_complete e \<longleftrightarrow>
     distinct (map fst (eo_facts e)) \<and> length (eo_facts e) = 9"

text \<open>\<open>next\<close> of a generator without a match raises.\<close>

definition engine_fact :: "engine_observation \<Rightarrow> string \<Rightarrow> availability_state result" where
  "engine_fact e dimension =
     from_option (RuntimeError ''StopIteration'') (map_of (eo_facts e) dimension)"

record environment_observation =
  eb_observation_id :: string
  eb_revision :: int
  eb_context_id :: string
  eb_execution_location :: string
  eb_platform :: string
  eb_architecture :: string
  eb_descriptor_formats :: "string list"
  eb_engines :: "engine_observation list"
  eb_fingerprint :: string

record environment_adapter =
  ea_adapter_id :: string
  ea_engine_id :: string
  ea_descriptor_formats :: "string list"

type_synonym environment_profile = "environment_adapter list"

subsection \<open>Contracts\<close>

record environment_alternative =
  al_alternative_id :: string
  al_requested_outcome :: environment_outcome
  al_required_semantics :: "string list"
  al_allowed_descriptor_formats :: "string list"
  al_required_engine_ids :: "string list"
  al_eligible_engine_ids :: "string list"
  al_constraints :: "string list"
  al_evidence_references :: "string list"
  al_requires_consequential_decision :: bool
  al_consequential_decision_id :: "string option"
  al_consequential_option_id :: "string option"

definition outcome_has_compatible_shape :: "environment_alternative \<Rightarrow> bool" where
  "outcome_has_compatible_shape a \<longleftrightarrow>
     (al_requested_outcome a = UnresolvedOutcome \<longrightarrow>
        al_required_engine_ids a = [] \<and> al_eligible_engine_ids a = [] \<and>
        al_allowed_descriptor_formats a = []) \<and>
     (al_requested_outcome a \<in> {GenerateEnvironment, ProposeProjectChange} \<longrightarrow>
        al_allowed_descriptor_formats a \<noteq> []) \<and>
     set (al_required_engine_ids a) \<subseteq> set (al_eligible_engine_ids a) \<and>
     al_requires_consequential_decision a =
       (al_consequential_decision_id a \<noteq> None \<and> al_consequential_option_id a \<noteq> None)"

record environment_context_request =
  xr_context_id :: string
  xr_observation_id :: string
  xr_observation_revision :: int
  xr_observation_fingerprint :: string
  xr_target_platform :: string
  xr_target_architecture :: string
  xr_execution_location :: string
  xr_affected_task_ids :: "string list"
  xr_alternatives :: "environment_alternative list"
  xr_evidence_references :: "string list"

definition context_identities_are_unique :: "environment_context_request \<Rightarrow> bool" where
  "context_identities_are_unique x \<longleftrightarrow>
     distinct (xr_affected_task_ids x) \<and> distinct (map al_alternative_id (xr_alternatives x))"

record environment_planning_request =
  pq_request_id :: string
  pq_mission_id :: string
  pq_mission_revision :: int
  pq_brief_version :: int
  pq_crew_version :: int
  pq_planning_task_id :: string
  pq_owner_identity :: string
  pq_contexts :: "environment_context_request list"
  pq_evidence_references :: "string list"

definition planning_request_valid :: "environment_planning_request \<Rightarrow> bool" where
  "planning_request_valid r \<longleftrightarrow> distinct (map xr_context_id (pq_contexts r))"

record environment_decision =
  ed_context_id :: string
  ed_selected_alternative_id :: string
  ed_requested_outcome :: environment_outcome
  ed_rationale :: string
  ed_constraints :: "string list"
  ed_declared_effects :: "string list"
  ed_verification_checks :: "string list"
  ed_cleanup_criteria :: "string list"
  ed_alternatives_considered :: "string list"
  ed_unknowns :: "string list"
  ed_evidence_references :: "string list"
  ed_required_semantics :: "string list"
  ed_allowed_descriptor_formats :: "string list"
  ed_required_engine_ids :: "string list"
  ed_eligible_engine_ids :: "string list"
  ed_requires_consequential_decision :: bool
  ed_consequential_decision_id :: "string option"
  ed_consequential_option_id :: "string option"

definition consequential_link_is_complete :: "environment_decision \<Rightarrow> bool" where
  "consequential_link_is_complete e \<longleftrightarrow>
     ed_requires_consequential_decision e =
       (ed_consequential_decision_id e \<noteq> None \<and> ed_consequential_option_id e \<noteq> None)"

record planning_lineage =
  ln_coordination_id :: string
  ln_task_id :: string
  ln_model_route :: string
  ln_output_fingerprint :: string
  ln_produced_at :: instant

record environment_plan =
  en_plan_id :: string
  en_plan_mission_id :: string
  en_version :: int
  en_mission_revision :: int
  en_brief_version :: int
  en_crew_version :: int
  en_source_request_id :: string
  en_planning_task_id :: string
  en_owner_identity :: string
  en_evidence_references :: "string list"
  en_contexts :: "environment_context_request list"
  en_decisions :: "environment_decision list"
  en_lineage :: planning_lineage
  en_plan_created_at :: instant

definition decisions_cover_exact_contexts :: "environment_plan \<Rightarrow> bool" where
  "decisions_cover_exact_contexts p \<longleftrightarrow>
     distinct (map ed_context_id (en_decisions p)) \<and>
     ed_context_id ` set (en_decisions p) = xr_context_id ` set (en_contexts p)"

record environment_plan_acceptance =
  ep_plan :: environment_plan
  ep_accepted_by :: string
  ep_accepted_policy_fingerprint :: string
  ep_accepted_at :: instant

record environment_binding_request =
  eq_request_id :: string
  eq_mission_id :: string
  eq_plan_fingerprint :: string
  eq_owner_identity :: string
  eq_context_id :: string
  eq_observation_id :: string
  eq_observation_revision :: int
  eq_observation_fingerprint :: string
  eq_requested_outcome :: environment_outcome
  eq_target_platform :: string
  eq_target_architecture :: string
  eq_execution_location :: string
  eq_required_semantics :: "string list"
  eq_allowed_descriptor_formats :: "string list"
  eq_required_engine_ids :: "string list"
  eq_authorized_engine_ids :: "string list"
  eq_affected_task_ids :: "string list"
  eq_verification_checks :: "string list"
  eq_policy_fingerprint :: string
  eq_rationale :: string

text \<open>A dictionary built by a comprehension keeps the last value of a key.\<close>

definition last_of :: "('a \<Rightarrow> 'k) \<Rightarrow> 'a list \<Rightarrow> 'k \<Rightarrow> 'a option" where
  "last_of key xs k = map_of (rev (map (\<lambda>x. (key x, x)) xs)) k"

text \<open>The fingerprint of a plan and the name-based identifier of a request are parameters.\<close>

definition binding_request ::
  "(environment_plan \<Rightarrow> string) \<Rightarrow> (string \<Rightarrow> string \<Rightarrow> string) \<Rightarrow> environment_plan \<Rightarrow> string \<Rightarrow> string
   \<Rightarrow> environment_binding_request result" where
  "binding_request fp uuid p k policy =
     (case (last_of xr_context_id (en_contexts p) k, last_of ed_context_id (en_decisions p) k) of
        (Some c, Some e) \<Rightarrow> Inr
          \<lparr>eq_request_id = uuid (en_plan_id p) (''context:'' @ k),
           eq_mission_id = en_plan_mission_id p, eq_plan_fingerprint = fp p,
           eq_owner_identity = en_owner_identity p, eq_context_id = xr_context_id c,
           eq_observation_id = xr_observation_id c,
           eq_observation_revision = xr_observation_revision c,
           eq_observation_fingerprint = xr_observation_fingerprint c,
           eq_requested_outcome = ed_requested_outcome e,
           eq_target_platform = xr_target_platform c,
           eq_target_architecture = xr_target_architecture c,
           eq_execution_location = xr_execution_location c,
           eq_required_semantics = ed_required_semantics e,
           eq_allowed_descriptor_formats = ed_allowed_descriptor_formats e,
           eq_required_engine_ids = ed_required_engine_ids e,
           eq_authorized_engine_ids = ed_eligible_engine_ids e,
           eq_affected_task_ids = xr_affected_task_ids c,
           eq_verification_checks = ed_verification_checks e,
           eq_policy_fingerprint = policy, eq_rationale = ed_rationale e\<rparr>
      | _ \<Rightarrow> Inl (ValueError
          ''mission environment plan does not contain the requested context''))"

subsection \<open>The validator\<close>

abbreviation (input) plan_error :: "string \<Rightarrow> 'a result" where
  "plan_error m \<equiv> Inl (MishkanError PLAN m)"

fun check_engines ::
  "environment_observation \<Rightarrow> environment_profile option \<Rightarrow> environment_alternative \<Rightarrow> string list
   \<Rightarrow> unit result" where
  "check_engines ob profile a [] = Inr ()"
| "check_engines ob profile a (k # ks) =
     (case last_of eo_engine_id (eb_engines ob) k of
        None \<Rightarrow> plan_error ''environment alternative claims an engine that is not observed eligible''
      | Some engine \<Rightarrow>
          ebind (engine_fact engine ''eligible'') (\<lambda>eligible.
            if eligible \<noteq> AvailableTrue
            then plan_error ''environment alternative claims an engine that is not observed eligible''
            else if \<not> set (al_required_semantics a) \<subseteq> set (eo_semantics engine)
            then plan_error ''environment alternative requires unsupported engine semantics''
            else ebind
              (case profile of
                 None \<Rightarrow> Inr ()
               | Some adapters \<Rightarrow>
                   (case last_of ea_adapter_id adapters
                           (case eo_adapter_id engine of None \<Rightarrow> '''' | Some x \<Rightarrow> x) of
                      None \<Rightarrow> plan_error
                        ''environment alternative has no compatible configured adapter''
                    | Some adapter \<Rightarrow>
                        if ea_engine_id adapter \<noteq> eo_engine_id engine
                        then plan_error
                          ''environment alternative has no compatible configured adapter''
                        else if \<not> set (al_allowed_descriptor_formats a) \<subseteq>
                                  set (ea_descriptor_formats adapter)
                        then plan_error ''environment alternative requests a descriptor unsupported by its adapter''
                        else Inr ()))
              (\<lambda>_. check_engines ob profile a ks)))"

fun check_alternatives ::
  "environment_observation \<Rightarrow> environment_profile option \<Rightarrow> environment_alternative list
   \<Rightarrow> unit result" where
  "check_alternatives ob profile [] = Inr ()"
| "check_alternatives ob profile (a # rest) =
     (if al_requested_outcome a = UnresolvedOutcome then check_alternatives ob profile rest
      else if al_requested_outcome a = ReuseExisting \<and>
              (eb_descriptor_formats ob = [] \<or>
               al_allowed_descriptor_formats a \<noteq> [] \<and>
               set (eb_descriptor_formats ob) \<inter> set (al_allowed_descriptor_formats a) = {})
      then plan_error ''reuse alternative has no matching observed descriptor''
      else if al_eligible_engine_ids a = [] \<and> al_requested_outcome a \<noteq> ReuseExisting
      then plan_error ''executable environment alternative has no eligible engine''
      else ebind (check_engines ob profile a (al_eligible_engine_ids a)) (\<lambda>_.
        check_alternatives ob profile rest))"

definition validate_context ::
  "environment_context_request \<Rightarrow> environment_observation \<Rightarrow> environment_profile option
   \<Rightarrow> unit result" where
  "validate_context c ob profile =
     (if xr_context_id c \<noteq> eb_context_id ob \<or> xr_observation_revision c \<noteq> eb_revision ob \<or>
         xr_observation_fingerprint c \<noteq> eb_fingerprint ob \<or>
         xr_target_platform c \<noteq> eb_platform ob \<or> xr_target_architecture c \<noteq> eb_architecture ob \<or>
         xr_execution_location c \<noteq> eb_execution_location ob
      then Inl (MishkanError REVISION_MISMATCH
        ''environment planning context differs from its observation'')
      else check_alternatives ob profile (xr_alternatives c))"

text \<open>The tasks that declare a context, among the latest assignments.\<close>

definition declaring_tasks :: "(string \<times> mission_task_assignment) list \<Rightarrow> string \<Rightarrow> string list" where
  "declaring_tasks l k =
     map (\<lambda>(t, a). mta_task_id a) (filter (\<lambda>(t, a). k \<in> set (mta_environment_context_ids a)) l)"

fun validate_contexts ::
  "(string \<times> mission_task_assignment) list \<Rightarrow> environment_observation list
   \<Rightarrow> environment_profile option \<Rightarrow> environment_context_request list \<Rightarrow> unit result" where
  "validate_contexts l observations profile [] = Inr ()"
| "validate_contexts l observations profile (c # cs) =
     (if \<not> set (xr_affected_task_ids c) \<subseteq> fst ` set l
      then plan_error ''environment context references unassigned mission tasks''
      else if set (xr_affected_task_ids c) \<noteq> set (declaring_tasks l (xr_context_id c))
      then plan_error ''environment context task scope differs from assignment dependencies''
      else case last_of eb_observation_id observations (xr_observation_id c) of
        None \<Rightarrow> Inl (MishkanError REQUIRED_DEPENDENCY
          ''environment planning observation does not exist'')
      | Some ob \<Rightarrow>
          ebind (validate_context c ob profile) (\<lambda>_. validate_contexts l observations profile cs))"

definition assurance_kind :: "crew_assignment_kind \<Rightarrow> bool" where
  "assurance_kind k \<longleftrightarrow> k \<in> {EVALUATION, REPORTING, AUDIT}"

definition validate_request ::
  "environment_planning_request \<Rightarrow> mission_record \<Rightarrow> mission_brief \<Rightarrow> mission_crew_revision
   \<Rightarrow> mission_task_assignment list \<Rightarrow> environment_observation list \<Rightarrow> environment_profile option
   \<Rightarrow> unit result" where
  "validate_request r mission brief crew assignments observations profile =
     (let l = latest assignments
      in if pq_mission_id r \<noteq> mr_mission_id mission \<or> pq_mission_revision r \<noteq> mr_revision mission
      then Inl (MishkanError REVISION_MISMATCH ''mission changed before environment planning'')
      else if pq_brief_version r \<noteq> mb_version brief \<or> pq_crew_version r \<noteq> cr_version crew
      then Inl (MishkanError REVISION_MISMATCH
        ''environment planning request does not reference the current Brief and crew'')
      else if \<not> mei_environment_dependent (mb_environment_intent brief)
      then plan_error ''mission does not declare environment-dependent work''
      else case member_of crew (pq_owner_identity r) of
        None \<Rightarrow> Inl (MishkanError ROLE_CONFLICT
          ''environment plan owner is not a member of the current Mission Crew'')
      | Some owner \<Rightarrow>
          if assurance_kind (cw_assignment_kind owner)
          then Inl (MishkanError ROLE_CONFLICT
            ''independent assurance or reporting identity cannot own environment production planning'')
          else (case map_of l (pq_planning_task_id r) of
              None \<Rightarrow> Inl (MishkanError ROLE_CONFLICT
                ''environment planning task is not assigned to the declared accountable owner'')
            | Some planning \<Rightarrow>
                if mta_accountable_owner planning \<noteq> pq_owner_identity r
                then Inl (MishkanError ROLE_CONFLICT
                  ''environment planning task is not assigned to the declared accountable owner'')
                else if \<not> set (concat (map (\<lambda>(t, a). mta_environment_context_ids a) l)) \<subseteq>
                          xr_context_id ` set (pq_contexts r)
                then plan_error ''environment planning omits declared task contexts''
                else validate_contexts l observations profile (pq_contexts r)))"

definition choice_of :: "environment_alternative \<Rightarrow> string list \<times> string list \<times> string list \<times>
  string list \<times> bool \<times> string option \<times> string option" where
  "choice_of a = (al_required_semantics a, al_allowed_descriptor_formats a,
     al_required_engine_ids a, al_eligible_engine_ids a, al_requires_consequential_decision a,
     al_consequential_decision_id a, al_consequential_option_id a)"

definition chosen :: "environment_decision \<Rightarrow> string list \<times> string list \<times> string list \<times>
  string list \<times> bool \<times> string option \<times> string option" where
  "chosen e = (ed_required_semantics e, ed_allowed_descriptor_formats e, ed_required_engine_ids e,
     ed_eligible_engine_ids e, ed_requires_consequential_decision e,
     ed_consequential_decision_id e, ed_consequential_option_id e)"

fun validate_decisions ::
  "environment_plan \<Rightarrow> (environment_context_request \<times> environment_decision) list \<Rightarrow> unit result" where
  "validate_decisions p [] = Inr ()"
| "validate_decisions p ((c, e) # rest) =
     (case last_of al_alternative_id (xr_alternatives c) (ed_selected_alternative_id e) of
        None \<Rightarrow> plan_error ''CrewAI environment decision does not select an exposed alternative''
      | Some a \<Rightarrow>
          if ed_requested_outcome e \<noteq> al_requested_outcome a
          then plan_error ''CrewAI environment decision does not select an exposed alternative''
          else if set (ed_alternatives_considered e) \<noteq> al_alternative_id ` set (xr_alternatives c)
          then plan_error ''CrewAI environment decision did not compare every eligible alternative''
          else if chosen e \<noteq> choice_of a
          then plan_error
            ''environment plan altered resolver constraints after choosing an alternative''
          else if \<not> set (ed_evidence_references e) \<subseteq> set (en_evidence_references p) \<union>
                    set (xr_evidence_references c) \<union> set (al_evidence_references a)
          then plan_error
            ''environment decision references evidence absent from its planning input''
          else validate_decisions p rest)"

text \<open>\<open>zip\<close> with \<open>strict=True\<close> raises for lists of different lengths, at the end of the shorter.\<close>

definition validate_plan ::
  "environment_plan \<Rightarrow> mission_record \<Rightarrow> mission_brief \<Rightarrow> mission_crew_revision
   \<Rightarrow> mission_task_assignment list \<Rightarrow> environment_observation list \<Rightarrow> environment_profile option
   \<Rightarrow> unit result" where
  "validate_plan p mission brief crew assignments observations profile =
     (let r = \<lparr>pq_request_id = en_source_request_id p, pq_mission_id = en_plan_mission_id p,
            pq_mission_revision = en_mission_revision p, pq_brief_version = en_brief_version p,
            pq_crew_version = en_crew_version p, pq_planning_task_id = en_planning_task_id p,
            pq_owner_identity = en_owner_identity p, pq_contexts = en_contexts p,
            pq_evidence_references = en_evidence_references p\<rparr>
      in if \<not> planning_request_valid r
         then Inl (ValueError ''mission environment context identities must be unique'')
         else ebind (validate_request r mission brief crew assignments observations profile) (\<lambda>_.
           ebind (validate_decisions p (zip (sort_key xr_context_id (en_contexts p))
                    (sort_key ed_context_id (en_decisions p)))) (\<lambda>_.
             if length (en_contexts p) \<noteq> length (en_decisions p)
             then Inl (ValueError ''zip() arguments have different lengths'') else Inr ())))"

text \<open>The decisions are a dictionary from identifiers to decisions.\<close>

fun validate_consequential ::
  "environment_plan \<Rightarrow> (string \<rightharpoonup> mission_decision) \<Rightarrow> environment_decision list \<Rightarrow> unit result" where
  "validate_consequential p decisions [] = Inr ()"
| "validate_consequential p decisions (e # rest) =
     (if \<not> ed_requires_consequential_decision e then validate_consequential p decisions rest
      else case (ed_consequential_decision_id e, ed_consequential_option_id e) of
        (Some k, Some option_id) \<Rightarrow>
          (case decisions k of
             None \<Rightarrow> Inl (MishkanError DECISION_VALIDATION
               ''consequential environment choice has no durable decision'')
           | Some decision \<Rightarrow>
               (case last_of xr_context_id (en_contexts p) (ed_context_id e) of
                  None \<Rightarrow> Inl KeyError
                | Some c \<Rightarrow>
                    if md_mission_id decision = en_plan_mission_id p \<and>
                       md_schema_version decision = Decision_1_1 \<and>
                       md_decision_status decision = Some DecisionAccepted \<and>
                       md_changes_durable_authority decision = Some True \<and>
                       (case md_recommendation decision of
                          None \<Rightarrow> False
                        | Some x \<Rightarrow> rc_recommended_option_id x = Some option_id) \<and>
                       insert (''environment:'' @ xr_context_id c)
                         ((\<lambda>t. ''task:'' @ t) ` set (xr_affected_task_ids c)) \<subseteq>
                         set (md_scope decision) \<and>
                       set (ed_evidence_references e) \<subseteq> set (md_evidence_references decision)
                    then validate_consequential p decisions rest
                    else Inl (MishkanError DECISION_VALIDATION
                      ''consequential environment choice lacks its accepted PLN-012-018 decision'')))
      | _ \<Rightarrow> Inl AssertionError)"

definition validate_consequential_decisions ::
  "environment_plan \<Rightarrow> (string \<rightharpoonup> mission_decision) \<Rightarrow> unit result" where
  "validate_consequential_decisions p decisions = validate_consequential p decisions (en_decisions p)"

end
