(* ===== verification/Missions.thy ===== *)
theory Missions
  imports RunMachine MissionEnvironment
begin

section \<open>The mission repository\<close>

text \<open>
  \<open>SQLiteMissionRepository\<close> of \<open>missions/repository.py\<close>. One record holds the tables of the
  organization, the missions, their Briefs, crews, assignments, run bindings, reports,
  transitions and environment plans, beside the run tables of \<open>RunStore\<close> in the same database
  and the tables of the conversations. A payload column holds the value it serialises, a table is
  in the order of insertion, an operation is one transaction: a failure, or the new database with
  the returned value. A mission row is validated when it is read (\<open>model_validate_json\<close>), because
  it is the only payload of this repository that is updated by \<open>model_copy\<close>, which does not validate.
\<close>

record mission_db =
  db_store :: store
  db_rosters :: "organization_roster list"
  db_missions :: "mission_record list"
  db_briefs :: "mission_brief list"
  db_crews :: "mission_crew_revision list"
  db_assignments :: "mission_task_assignment list"
  db_bindings :: "mission_run_binding list"
  db_reports :: "mission_run_report list"
  db_transitions :: "mission_transition list"
  db_environment_plans :: "environment_plan_acceptance list"
  db_channels :: "conversation_channel list"
  db_messages :: "conversation_message list"
  db_decisions :: "mission_decision list"
  db_escalations :: "mission_escalation list"
  db_interventions :: "mission_intervention list"

definition empty_db :: mission_db where
  "empty_db = \<lparr>db_store = empty_store, db_rosters = [], db_missions = [], db_briefs = [],
     db_crews = [], db_assignments = [], db_bindings = [], db_reports = [], db_transitions = [],
     db_environment_plans = [], db_channels = [], db_messages = [], db_decisions = [],
     db_escalations = [], db_interventions = []\<rparr>"

subsection \<open>Helpers of the class\<close>

definition guard :: "bool \<Rightarrow> failure \<Rightarrow> unit result" where
  "guard b e = (if b then Inr () else Inl e)"

lemma guard_Inr [simp]: "guard b e = Inr u \<longleftrightarrow> b"
  by (simp add: guard_def)

text \<open>\<open>_idempotent\<close>: the stored payload must equal the requested one; nothing is written.\<close>

definition idempotent_write :: "'p \<Rightarrow> 'p \<Rightarrow> mission_db \<Rightarrow> (mission_db \<times> 'p) result" where
  "idempotent_write existing wanted db =
     ebind (guard (existing = wanted) (MishkanError DUPLICATE_RESULT
       ''durable mission identity already contains different content'')) (\<lambda>_. Inr (db, wanted))"

definition mission_event :: "string \<Rightarrow> string \<Rightarrow> string \<Rightarrow> mission_db \<Rightarrow> mission_db" where
  "mission_event source aggregate_id event_type db =
     db\<lparr>db_store := (db_store db)\<lparr>outbox := outbox (db_store db) @
       [\<lparr>ev_id = None, ev_aggregate_id = aggregate_id, ev_task_id = None, ev_identity_id = None,
         ev_security_relevant = False, ev_event_type = event_type, ev_source = source\<rparr>]\<rparr>\<rparr>"

definition get_mission :: "mission_db \<Rightarrow> string \<Rightarrow> mission_record option" where
  "get_mission db mission_id = tbl_get mr_mission_id mission_id (db_missions db)"

definition require_mission_row :: "mission_db \<Rightarrow> string \<Rightarrow> mission_record result" where
  "require_mission_row db mission_id =
     from_option (MishkanError MISSION ''mission does not exist'') (get_mission db mission_id)"

text \<open>\<open>MissionRecord.model_validate_json\<close>, here and wherever a mission row is read.\<close>

definition read_mission :: "mission_record \<Rightarrow> mission_record result" where
  "read_mission m =
     (if advanced_states_have_a_brief m then Inr m
      else Inl (ValueError ''advanced mission states require a durable Mission Brief''))"

definition require_mission :: "mission_db \<Rightarrow> string \<Rightarrow> mission_record result" where
  "require_mission db mission_id = ebind (require_mission_row db mission_id) read_mission"

definition require_revision :: "mission_record \<Rightarrow> int \<Rightarrow> unit result" where
  "require_revision m expected =
     guard (mr_revision m = expected)
       (MishkanError REVISION_MISMATCH ''mission revision changed before mutation'')"

definition roster_key :: "organization_roster \<Rightarrow> string \<times> string" where
  "roster_key og = (og_organization_id og, og_organization_version og)"

definition require_organization :: "mission_db \<Rightarrow> string \<Rightarrow> string \<Rightarrow> organization_roster result" where
  "require_organization db organization_id version =
     from_option (MishkanError MISSION ''mission organization version is not registered'')
       (tbl_get roster_key (organization_id, version) (db_rosters db))"

definition brief_key :: "mission_brief \<Rightarrow> string \<times> int" where
  "brief_key b = (mb_mission_id b, mb_version b)"

definition brief_row :: "mission_db \<Rightarrow> string \<Rightarrow> int \<Rightarrow> mission_brief result" where
  "brief_row db mission_id version =
     from_option (MishkanError MISSION ''Mission Brief revision does not exist'')
       (tbl_get brief_key (mission_id, version) (db_briefs db))"

definition crew_key :: "mission_crew_revision \<Rightarrow> string \<times> int" where
  "crew_key c = (cr_mission_id c, cr_version c)"

definition crew_row :: "mission_db \<Rightarrow> string \<Rightarrow> int \<Rightarrow> mission_crew_revision result" where
  "crew_row db mission_id version =
     from_option (MishkanError MISSION ''Mission Crew revision does not exist'')
       (tbl_get crew_key (mission_id, version) (db_crews db))"

definition update_mission_row :: "mission_record \<Rightarrow> mission_db \<Rightarrow> mission_db" where
  "update_mission_row m db =
     db\<lparr>db_missions := tbl_upd mr_mission_id (mr_mission_id m) (\<lambda>_. m) (db_missions db)\<rparr>"

text \<open>\<open>order_by(revision.desc()).limit(1)\<close>: the newest of the rows.\<close>

definition newest :: "('a \<Rightarrow> int) \<Rightarrow> 'a list \<Rightarrow> 'a option" where
  "newest rv rows =
     (case rows of [] \<Rightarrow> None | r # rs \<Rightarrow> Some (fold (\<lambda>a c. if rv c < rv a then a else c) rs r))"

definition terminal_mission :: "mission_state \<Rightarrow> bool" where
  "terminal_mission st \<longleftrightarrow> st \<in> {MCompleted, MFailed, MCancelled}"

fun mission_transitions :: "mission_state \<Rightarrow> mission_state list" where
  "mission_transitions MProposed = [MClarifying, MCancelled]"
| "mission_transitions MClarifying = [MPlanned, MBlocked, MCancelled]"
| "mission_transitions MPlanned = [MActive, MPaused, MBlocked, MCancelled]"
| "mission_transitions MActive = [MPaused, MBlocked, MEvaluating, MFailed, MCancelled]"
| "mission_transitions MPaused = [MActive, MBlocked, MCancelled]"
| "mission_transitions MBlocked = [MActive, MPaused, MFailed, MCancelled]"
| "mission_transitions MEvaluating = [MRemediating, MCompleted, MFailed, MPaused]"
| "mission_transitions MRemediating = [MActive, MEvaluating, MFailed, MCancelled]"
| "mission_transitions _ = []"

abbreviation (input) missions_event :: "string \<Rightarrow> string \<Rightarrow> mission_db \<Rightarrow> mission_db" where
  "missions_event \<equiv> mission_event ''mishkan.missions''"

subsection \<open>Organizations, missions, Briefs\<close>

definition record_organization ::
  "bool \<Rightarrow> organization_roster \<Rightarrow> mission_db \<Rightarrow> (mission_db \<times> organization_roster) result" where
  "record_organization emit_event organization db =
     (case tbl_get roster_key (roster_key organization) (db_rosters db) of
        Some existing \<Rightarrow> idempotent_write existing organization db
      | None \<Rightarrow>
          let db' = db\<lparr>db_rosters := db_rosters db @ [organization]\<rparr>
          in Inr (if emit_event
                  then missions_event (og_organization_id organization)
                         ''organization.roster_recorded'' db'
                  else db', organization))"

definition create_mission :: "mission_record \<Rightarrow> mission_db \<Rightarrow> (mission_db \<times> mission_record) result" where
  "create_mission m db =
     (if mr_revision m \<noteq> 0 \<or> mr_state m \<noteq> MProposed
      then Inl (MishkanError MISSION ''new mission must begin as an unpersisted proposed record'')
      else let durable = m\<lparr>mr_revision := 1\<rparr>
           in ebind (require_organization db (mr_organization_id durable)
                       (mr_organization_version durable)) (\<lambda>_.
              case get_mission db (mr_mission_id durable) of
                Some existing \<Rightarrow> idempotent_write existing durable db
              | None \<Rightarrow>
                  Inr (missions_event (mr_mission_id durable) ''mission.proposed''
                         (db\<lparr>db_missions := db_missions db @ [durable]\<rparr>), durable)))"

definition next_version :: "int option \<Rightarrow> int" where
  "next_version current = (case current of None \<Rightarrow> 0 | Some v \<Rightarrow> v) + 1"

definition check_brief :: "mission_brief \<Rightarrow> mission_record \<Rightarrow> mission_db \<Rightarrow> unit result" where
  "check_brief brief m db =
     ebind (guard (\<not> terminal_mission (mr_state m))
       (MishkanError MISSION ''terminal mission cannot accept a new Brief'')) (\<lambda>_.
     ebind (guard (mb_organization_id brief = mr_organization_id m \<and>
                   mb_organization_version brief = mr_organization_version m)
       (MishkanError MISSION ''Mission Brief organization does not match'')) (\<lambda>_.
     ebind (guard (mb_version brief = next_version (mr_current_brief_version m))
       (MishkanError REVISION_MISMATCH ''Mission Brief version is stale or skips a revision'')) (\<lambda>_.
     ebind (require_organization db (mr_organization_id m) (mr_organization_version m)) (\<lambda>roster.
     ebind (guard (set (mb_proposed_crew brief) \<subseteq> pi_identity_id ` set (og_identities roster))
       (MishkanError MISSION ''Mission Brief proposes unknown professional identities'')) (\<lambda>_.
     guard (tbl_get brief_key (brief_key brief) (db_briefs db) = None)
       (MishkanError DUPLICATE_RESULT
         ''Mission Brief version already has another immutable identity''))))))"

definition record_brief ::
  "instant \<Rightarrow> mission_brief \<Rightarrow> int \<Rightarrow> mission_db \<Rightarrow> (mission_db \<times> mission_brief) result" where
  "record_brief now brief expected_revision db =
     (case tbl_get mb_brief_id (mb_brief_id brief) (db_briefs db) of
        Some existing \<Rightarrow> idempotent_write existing brief db
      | None \<Rightarrow>
          ebind (require_mission db (mb_mission_id brief)) (\<lambda>m.
          ebind (require_revision m expected_revision) (\<lambda>_.
          ebind (check_brief brief m db) (\<lambda>_.
          let updated = m\<lparr>mr_revision := mr_revision m + 1, mr_state := MClarifying,
                          mr_current_brief_version := Some (mb_version brief),
                          mr_updated_at := now\<rparr>
          in Inr (missions_event (mb_mission_id brief) ''mission.brief_recorded''
                    (update_mission_row updated (db\<lparr>db_briefs := db_briefs db @ [brief]\<rparr>)),
                  brief)))))"

subsection \<open>Crews\<close>

fun required_prefix :: "crew_assignment_kind \<Rightarrow> string option" where
  "required_prefix EVALUATION = Some ''evaluation.''"
| "required_prefix REPORTING = Some ''reporting.''"
| "required_prefix AUDIT = Some ''audit.''"
| "required_prefix _ = None"

definition starts_with :: "string \<Rightarrow> string \<Rightarrow> bool" where
  "starts_with s pat \<longleftrightarrow> take (length pat) s = pat"

definition require_assignment_authority ::
  "crew_assignment_kind \<Rightarrow> string list \<Rightarrow> unit result" where
  "require_assignment_authority k authority_limits =
     (case required_prefix k of
        None \<Rightarrow> Inr ()
      | Some p \<Rightarrow> guard (list_ex (\<lambda>a. starts_with a p) authority_limits)
          (MishkanError ROLE_CONFLICT
            ''professional profile does not cover the assigned independent responsibility''))"

fun check_members ::
  "organization_roster \<Rightarrow> string \<Rightarrow> mission_crew_member list \<Rightarrow> unit result" where
  "check_members roster lead [] = Inr ()"
| "check_members roster lead (w # ws) =
     (case find_identity roster (cw_identity_id w) of
        None \<Rightarrow> Inl (MishkanError MISSION ''Mission Crew identity is unknown'')
      | Some i \<Rightarrow>
          ebind (guard (\<not> (cw_identity_id w = lead \<and> \<not> pi_mission_lead_eligible i))
            (MishkanError ROLE_CONFLICT
              ''selected professional identity cannot hold Mission Lead responsibility'')) (\<lambda>_.
          ebind (require_assignment_authority (cw_assignment_kind w) (pi_authority_limits i)) (\<lambda>_.
          check_members roster lead ws)))"

definition check_crew_brief :: "mission_crew_revision \<Rightarrow> mission_brief \<Rightarrow> unit result" where
  "check_crew_brief crew brief =
     ebind (guard (mb_status brief = BriefConfirmed)
       (MishkanError MISSION ''Mission Crew requires a jointly confirmed Mission Brief'')) (\<lambda>_.
     case (mb_pm_confirmation brief, mb_cto_confirmation brief) of
       (Some pm, Some cto) \<Rightarrow>
         guard (cr_pm_composition_confirmation_id crew = ec_confirmation_id pm \<and>
                cr_cto_coverage_confirmation_id crew = ec_confirmation_id cto)
           (MishkanError MISSION ''Mission Crew confirmation lineage does not match its Brief'')
     | _ \<Rightarrow> Inl (MishkanError MISSION ''Mission Brief confirmations are incomplete''))"

definition check_crew :: "mission_crew_revision \<Rightarrow> mission_record \<Rightarrow> mission_db \<Rightarrow> unit result" where
  "check_crew crew m db =
     ebind (guard (cr_organization_id crew = mr_organization_id m \<and>
                   cr_organization_version crew = mr_organization_version m)
       (MishkanError MISSION ''Mission Crew organization does not match'')) (\<lambda>_.
     ebind (guard (Some (cr_brief_version crew) = mr_current_brief_version m)
       (MishkanError REVISION_MISMATCH
         ''Mission Crew does not reference the current Mission Brief'')) (\<lambda>_.
     ebind (brief_row db (cr_mission_id crew) (cr_brief_version crew)) (\<lambda>brief.
     ebind (check_crew_brief crew brief) (\<lambda>_.
     ebind (guard (cr_version crew = next_version (mr_current_crew_version m))
       (MishkanError REVISION_MISMATCH ''Mission Crew version is stale or skips a revision'')) (\<lambda>_.
     ebind (guard (cw_identity_id ` set (cr_members crew) = set (mb_proposed_crew brief))
       (MishkanError MISSION
         ''Mission Crew must match the current PM/CTO-confirmed composition'')) (\<lambda>_.
     ebind (require_organization db (mr_organization_id m) (mr_organization_version m)) (\<lambda>roster.
     ebind (check_members roster (cr_mission_lead_id crew) (cr_members crew)) (\<lambda>_.
     guard (tbl_get crew_key (crew_key crew) (db_crews db) = None)
       (MishkanError DUPLICATE_RESULT
         ''Mission Crew version already has another immutable identity'')))))))))"

definition record_crew ::
  "instant \<Rightarrow> mission_crew_revision \<Rightarrow> int \<Rightarrow> mission_db \<Rightarrow> (mission_db \<times> mission_crew_revision) result" where
  "record_crew now crew expected_revision db =
     (case tbl_get cr_crew_id (cr_crew_id crew) (db_crews db) of
        Some existing \<Rightarrow> idempotent_write existing crew db
      | None \<Rightarrow>
          ebind (require_mission db (cr_mission_id crew)) (\<lambda>m.
          ebind (require_revision m expected_revision) (\<lambda>_.
          ebind (check_crew crew m db) (\<lambda>_.
          let updated = m\<lparr>mr_revision := mr_revision m + 1,
                          mr_current_crew_version := Some (cr_version crew),
                          mr_updated_at := now\<rparr>
          in Inr (missions_event (cr_mission_id crew) ''mission.crew_recorded''
                    (update_mission_row updated (db\<lparr>db_crews := db_crews db @ [crew]\<rparr>)),
                  crew)))))"

subsection \<open>Assignments\<close>

fun allowed_contributor_kinds :: "crew_assignment_kind \<Rightarrow> crew_assignment_kind list" where
  "allowed_contributor_kinds PRODUCTION = [PRODUCTION, CONTRIBUTOR]"
| "allowed_contributor_kinds CONTRIBUTOR = [PRODUCTION, CONTRIBUTOR]"
| "allowed_contributor_kinds EVALUATION = [EVALUATION, AUDIT]"
| "allowed_contributor_kinds REPORTING = [REPORTING]"
| "allowed_contributor_kinds AUDIT = [EVALUATION, AUDIT]"

text \<open>The fields a change outside of replanning must preserve.\<close>

definition contract_changed :: "mission_task_assignment \<Rightarrow> mission_task_assignment \<Rightarrow> bool" where
  "contract_changed p a \<longleftrightarrow>
     mta_task_id p \<noteq> mta_task_id a \<or> mta_assignment_kind p \<noteq> mta_assignment_kind a \<or>
     mta_expected_result p \<noteq> mta_expected_result a \<or>
     mta_completion_criteria p \<noteq> mta_completion_criteria a \<or>
     mta_dependencies p \<noteq> mta_dependencies a \<or>
     mta_execution_run_id p \<noteq> mta_execution_run_id a \<or>
     mta_execution_task_id p \<noteq> mta_execution_task_id a \<or>
     mta_environment_context_ids p \<noteq> mta_environment_context_ids a \<or>
     mta_authority_scope p \<noteq> mta_authority_scope a \<or> mta_exact_tools p \<noteq> mta_exact_tools a \<or>
     mta_path_scopes p \<noteq> mta_path_scopes a \<or> mta_limits p \<noteq> mta_limits a \<or>
     mta_required_evidence p \<noteq> mta_required_evidence a \<or>
     mta_requires_independent_evaluation p \<noteq> mta_requires_independent_evaluation a"

text \<open>Every required word occurs in some item of the coverage.\<close>

definition reassignment_covered :: "executive_confirmation \<Rightarrow> bool" where
  "reassignment_covered cto =
     (let coverage = map lower (ec_coverage cto)
      in list_all (\<lambda>required. list_ex (\<lambda>item. contains_string required item) coverage)
           [''technical'', ''security'', ''quality''])"

definition require_reassignment :: "mission_assignment_change \<Rightarrow> unit result" where
  "require_reassignment change =
     ebind (guard (mac_change_kind change \<noteq> IN_PLAN_LOCAL)
       (MishkanError AUTHORITY_NOT_GRANTED
         ''local Mission Lead authority cannot change formal ownership or composition'')) (\<lambda>_.
     case (mac_cto_coverage_confirmation change, mac_pm_reassignment_confirmation change) of
       (Some cto, Some pm) \<Rightarrow>
         ebind (guard (reassignment_covered cto)
           (MishkanError ROLE_CONFLICT
             ''CTO reassignment confirmation omits technical, security, or quality coverage'')) (\<lambda>_.
         guard (ec_confirmed_at cto \<le> ec_confirmed_at pm)
           (MishkanError AUTHORITY_NOT_GRANTED
             ''PM reassignment confirmation must follow CTO coverage confirmation''))
     | _ \<Rightarrow> Inl (MishkanError AUTHORITY_NOT_GRANTED
             ''formal reassignment requires CTO coverage then PM confirmation''))"

definition require_assignment_change_governance ::
  "mission_task_assignment \<Rightarrow> mission_task_assignment \<Rightarrow> mission_crew_revision \<Rightarrow> unit result" where
  "require_assignment_change_governance a prior crew =
     ebind (from_option (MishkanError MISSION
              ''revised assignment is missing its governed change lineage'') (mta_change a)) (\<lambda>change.
     ebind (guard (mac_prior_assignment_id change = mta_assignment_id prior \<and>
                   mac_prior_assignment_revision change = mta_assignment_revision prior)
       (MishkanError REVISION_MISMATCH
         ''assignment change does not reference the exact prior assignment'')) (\<lambda>_.
     ebind (guard (mac_requested_by_identity change = cr_mission_lead_id crew)
       (MishkanError AUTHORITY_NOT_GRANTED
         ''only the current Mission Lead may request an assignment change'')) (\<lambda>_.
     let contract = contract_changed prior a;
         composition = mta_accountable_owner prior \<noteq> mta_accountable_owner a \<or>
                       mta_crew_version prior \<noteq> mta_crew_version a
     in ebind (guard (contract \<longrightarrow> mac_change_kind change = REPLANNED)
          (MishkanError PLAN
            ''assignment change outside the accepted task contract requires replanning'')) (\<lambda>_.
        ebind (if composition then require_reassignment change
               else guard (mac_change_kind change \<noteq> FORMAL_REASSIGNMENT)
                 (MishkanError MISSION
                   ''formal reassignment must change accountable ownership or crew composition'')) (\<lambda>_.
        guard (contract \<or> composition \<or> mta_contributors prior \<noteq> mta_contributors a)
          (MishkanError MISSION ''assignment revision does not change anything''))))))"

definition task_rows :: "mission_db \<Rightarrow> string \<Rightarrow> string \<Rightarrow> mission_task_assignment list" where
  "task_rows db mission_id task_id =
     filter (\<lambda>a. mta_mission_id a = mission_id \<and> mta_task_id a = task_id) (db_assignments db)"

definition current_assignment ::
  "mission_db \<Rightarrow> string \<Rightarrow> string \<Rightarrow> mission_task_assignment option" where
  "current_assignment db mission_id task_id =
     newest mta_assignment_revision (task_rows db mission_id task_id)"

definition check_assignment_crew ::
  "mission_task_assignment \<Rightarrow> mission_crew_revision \<Rightarrow> unit result" where
  "check_assignment_crew a crew =
     (let assigned = mta_accountable_owner a # mta_contributors a
      in ebind (guard (list_all (\<lambda>i. member_of crew i \<noteq> None) assigned)
           (MishkanError MISSION
             ''task assignment contains identities outside the current Mission Crew'')) (\<lambda>_.
         ebind (from_option KeyError (member_of crew (mta_accountable_owner a))) (\<lambda>owner.
         ebind (guard (cw_assignment_kind owner = mta_assignment_kind a)
           (MishkanError ROLE_CONFLICT
             ''task responsibility differs from its accountable crew assignment'')) (\<lambda>_.
         guard (list_all (\<lambda>i. case member_of crew i of None \<Rightarrow> False
                   | Some w \<Rightarrow> cw_assignment_kind w \<in> set (allowed_contributor_kinds (mta_assignment_kind a)))
                 (mta_contributors a))
           (MishkanError ROLE_CONFLICT
             ''task contributors violate responsibility separation'')))))"

definition check_assignment :: "mission_task_assignment \<Rightarrow> mission_db \<Rightarrow> unit result" where
  "check_assignment a db =
     ebind (require_mission db (mta_mission_id a)) (\<lambda>m.
     ebind (guard (Some (mta_crew_version a) = mr_current_crew_version m)
       (MishkanError REVISION_MISMATCH
         ''task assignment does not reference the current Mission Crew'')) (\<lambda>_.
     ebind (crew_row db (mta_mission_id a) (mta_crew_version a)) (\<lambda>crew.
     ebind (brief_row db (mta_mission_id a) (cr_brief_version crew)) (\<lambda>brief.
     ebind (guard (mta_environment_context_ids a = [] \<or>
                   mei_environment_dependent (mb_environment_intent brief))
       (MishkanError PLAN ''task cannot declare environment contexts when the Brief has no environment-dependent work'')) (\<lambda>_.
     ebind (check_assignment_crew a crew) (\<lambda>_.
     let prior = current_assignment db (mta_mission_id a) (mta_task_id a)
     in ebind (guard (mta_assignment_revision a =
                      1 + (case prior of None \<Rightarrow> 0 | Some p \<Rightarrow> mta_assignment_revision p))
          (MishkanError REVISION_MISMATCH
            ''task assignment revision is stale or skips a revision'')) (\<lambda>_.
        case prior of
          None \<Rightarrow> Inr ()
        | Some p \<Rightarrow> require_assignment_change_governance a p crew)))))))"

definition record_assignment ::
  "mission_task_assignment \<Rightarrow> mission_db \<Rightarrow> (mission_db \<times> mission_task_assignment) result" where
  "record_assignment a db =
     (case tbl_get mta_assignment_id (mta_assignment_id a) (db_assignments db) of
        Some existing \<Rightarrow> idempotent_write existing a db
      | None \<Rightarrow>
          ebind (check_assignment a db) (\<lambda>_.
          Inr (missions_event (mta_mission_id a) ''mission.task_assigned''
                 (db\<lparr>db_assignments := db_assignments db @ [a]\<rparr>), a)))"

subsection \<open>Lifecycle transitions\<close>

definition mission_assignments :: "mission_db \<Rightarrow> string \<Rightarrow> mission_task_assignment list" where
  "mission_assignments db mission_id =
     filter (\<lambda>a. mta_mission_id a = mission_id) (db_assignments db)"

text \<open>What activation requires of the current crew and of the assignment graph.\<close>

definition check_activation :: "mission_record \<Rightarrow> mission_db \<Rightarrow> unit result" where
  "check_activation m db =
     ebind (from_option AssertionError (mr_current_crew_version m)) (\<lambda>version.
     ebind (crew_row db (mr_mission_id m) version) (\<lambda>crew.
     ebind (guard (Some (cr_brief_version crew) = mr_current_brief_version m)
       (MishkanError REVISION_MISMATCH
         ''current Mission Crew does not reference the current Mission Brief'')) (\<lambda>_.
     let rows = mission_assignments db (mr_mission_id m)
     in ebind (guard (list_all (\<lambda>(t, a). mta_crew_version a = version) (latest rows))
          (MishkanError REVISION_MISMATCH
            ''mission task assignments do not reference the current Mission Crew'')) (\<lambda>_.
        validate rows))))"

definition check_transition :: "mission_transition \<Rightarrow> mission_record \<Rightarrow> mission_db \<Rightarrow> unit result" where
  "check_transition t m db =
     ebind (guard (tn_from_state t = mr_state m)
       (MishkanError REVISION_MISMATCH ''mission transition starts from a stale state'')) (\<lambda>_.
     ebind (guard (tn_to_state t \<in> set (mission_transitions (mr_state m)))
       (MishkanError MISSION ''mission lifecycle transition is not permitted'')) (\<lambda>_.
     ebind (guard (tn_to_state t \<in> {MClarifying, MCancelled} \<or>
                   mr_current_brief_version m \<noteq> None \<and> mr_current_crew_version m \<noteq> None)
       (MishkanError MISSION
         ''mission cannot advance without a current Brief and Mission Crew'')) (\<lambda>_.
     if tn_to_state t = MActive then check_activation m db else Inr ())))"

definition transition ::
  "instant \<Rightarrow> mission_transition \<Rightarrow> int \<Rightarrow> mission_db \<Rightarrow> (mission_db \<times> mission_transition) result" where
  "transition now t expected_revision db =
     (case tbl_get tn_transition_id (tn_transition_id t) (db_transitions db) of
        Some existing \<Rightarrow> idempotent_write existing t db
      | None \<Rightarrow>
          ebind (require_mission db (tn_mission_id t)) (\<lambda>m.
          ebind (require_revision m expected_revision) (\<lambda>_.
          ebind (check_transition t m db) (\<lambda>_.
          let updated = m\<lparr>mr_state := tn_to_state t, mr_revision := mr_revision m + 1,
                          mr_updated_at := now\<rparr>
          in Inr (missions_event (tn_mission_id t) ''mission.state_transitioned''
                    ((update_mission_row updated db)\<lparr>db_transitions := db_transitions db @ [t]\<rparr>),
                  t)))))"

subsection \<open>Run bindings\<close>

text \<open>
  The context of a run as a binding must state it: repository fields for a repository, workspace
  fields for a prospective workspace. A third kind is not representable in a run row.
\<close>

definition binding_context :: "run_row \<Rightarrow> plan_execution_context result" where
  "binding_context run =
     (let c = (case rn_context_kind run of
            RepositoryKind \<Rightarrow>
              \<lparr>pec_kind = RepositoryKind, pec_context_id = rn_context_id run,
               pec_revision = rn_context_revision run,
               pec_repository_id = rn_repository_id run,
               pec_repository_revision = rn_repository_revision run,
               pec_prospective_workspace_id = None, pec_discovery_revision = None\<rparr>
          | ProspectiveWorkspaceKind \<Rightarrow>
              \<lparr>pec_kind = ProspectiveWorkspaceKind, pec_context_id = rn_context_id run,
               pec_revision = rn_context_revision run,
               pec_repository_id = None, pec_repository_revision = None,
               pec_prospective_workspace_id = Some (rn_context_id run),
               pec_discovery_revision = Some (rn_context_revision run)\<rparr>)
      in if identity_matches_kind c then Inr c
         else Inl (ValueError ''execution context identity does not match its kind''))"

definition plan_carries_mission :: "accepted_plan \<Rightarrow> mission_record \<Rightarrow> string \<Rightarrow> unit result" where
  "plan_carries_mission plan m mission_id =
     (let refused = MishkanError PLAN
            ''accepted run plan does not carry this mission and organization identity''
      in ebind (from_option refused (ap_organization_binding plan)) (\<lambda>organization.
         ebind (guard (pob_organization_id organization = mr_organization_id m \<and>
                       pob_organization_version organization = mr_organization_version m \<and>
                       pob_mission_id organization = Some mission_id) refused) (\<lambda>_.
         guard (mo_schema_version (mr_origin m) = Origin_1_1 \<longrightarrow>
                  pob_mission_origin_id organization = Some (mo_origin_id (mr_origin m)) \<and>
                  pob_mission_template_reference organization = mo_template_reference (mr_origin m))
           (MishkanError PLAN
             ''accepted run plan does not preserve the exact mission origin and template''))))"

definition binding_within_assignment ::
  "mission_run_binding \<Rightarrow> mission_task_assignment \<Rightarrow> plan_task \<Rightarrow> accepted_plan \<Rightarrow> bool" where
  "binding_within_assignment b a task plan \<longleftrightarrow>
     rb_schema_version b = Binding_1_1 \<and>
     rb_assignment_id b = Some (mta_assignment_id a) \<and>
     rb_assignment_revision b = Some (mta_assignment_revision a) \<and>
     mta_execution_run_id a = Some (rb_run_id b) \<and>
     mta_execution_task_id a = Some (rb_execution_task_id b) \<and>
     mta_accountable_owner a = pt_assigned_role task \<and> mta_exact_tools a = pt_tools task \<and>
     rb_plan_fingerprint b = Some (ap_fingerprint plan) \<and>
     mta_authority_scope a = rb_authority_scope b \<and> mta_path_scopes a = rb_path_scopes b"

fun check_tool_identities :: "registry_snapshot \<Rightarrow> tool_binding list \<Rightarrow> unit result" where
  "check_tool_identities registry [] = Inr ()"
| "check_tool_identities registry (item # items) =
     (case registry_require registry (tb_tool_id item) of
        Inl _ \<Rightarrow> Inl (MishkanError PLAN
          ''mission tool binding is absent from its immutable registry snapshot'')
      | Inr contract \<Rightarrow>
          ebind (guard (tb_tool_version item = tc_version contract \<and>
                        tb_contract_fingerprint item = tc_provenance_fingerprint contract \<and>
                        tb_registry_fingerprint item = rs_fingerprint registry)
            (MishkanError PLAN
              ''mission tool identity or version differs from its immutable registry snapshot'')) (\<lambda>_.
          check_tool_identities registry items))"

fun can_change_workspace :: "registry_snapshot \<Rightarrow> string list \<Rightarrow> bool result" where
  "can_change_workspace registry [] = Inr False"
| "can_change_workspace registry (tool_id # tool_ids) =
     ebind (registry_require registry tool_id) (\<lambda>contract.
       if tc_effect_class contract \<noteq> READ then Inr True
       else can_change_workspace registry tool_ids)"

definition require_exact_tool_resolution ::
  "accepted_plan \<Rightarrow> string \<Rightarrow> mission_task_assignment \<Rightarrow> unit result" where
  "require_exact_tool_resolution plan execution_task_id a =
     ebind (from_option (MishkanError PLAN
              ''mission execution requires an immutable tool registry snapshot'')
             (ap_registry plan)) (\<lambda>registry.
     let items = filter (\<lambda>i. tb_task_id i = execution_task_id \<and>
                             tb_role i = mta_accountable_owner a) (ap_tool_bindings plan);
         bound_ids = map tb_tool_id items
     in ebind (guard (distinct bound_ids \<and> set bound_ids = set (mta_exact_tools a))
          (MishkanError AUTHORITY_NOT_GRANTED
            ''mission task does not have one exact resolved binding for every assigned tool'')) (\<lambda>_.
        ebind (check_tool_identities registry items) (\<lambda>_.
        ebind (can_change_workspace registry (mta_exact_tools a)) (\<lambda>changing.
        guard (\<not> (mta_assignment_kind a = PRODUCTION \<and> changing \<and>
                  \<not> mta_requires_independent_evaluation a))
          (MishkanError ROLE_CONFLICT
            ''workspace-changing production requires independent downstream evaluation'')))))"

text \<open>The fields every revision of a binding preserves.\<close>

definition binding_lineage :: "mission_run_binding \<Rightarrow> mission_run_binding \<Rightarrow> bool" where
  "binding_lineage p b \<longleftrightarrow>
     rb_schema_version p = rb_schema_version b \<and> rb_mission_id p = rb_mission_id b \<and>
     rb_binding_key p = rb_binding_key b \<and> rb_mission_task_id p = rb_mission_task_id b \<and>
     rb_assignment_id p = rb_assignment_id b \<and>
     rb_assignment_revision p = rb_assignment_revision b \<and> rb_run_id p = rb_run_id b \<and>
     rb_execution_task_id p = rb_execution_task_id b \<and>
     rb_plan_fingerprint p = rb_plan_fingerprint b \<and>
     rb_execution_context p = rb_execution_context b \<and>
     rb_depends_on_binding_keys p = rb_depends_on_binding_keys b \<and>
     rb_authority_scope p = rb_authority_scope b \<and> rb_path_scopes p = rb_path_scopes b"

definition require_run_binding_transition ::
  "mission_run_binding \<Rightarrow> mission_run_binding \<Rightarrow> unit result" where
  "require_run_binding_transition prior b =
     ebind (guard (binding_lineage prior b)
       (MishkanError REVISION_MISMATCH
         ''mission run settlement cannot rewrite its accepted binding lineage'')) (\<lambda>_.
     ebind (guard (rb_acceptance prior = BindingPending)
       (MishkanError DUPLICATE_RESULT ''settled mission run binding is terminal'')) (\<lambda>_.
     guard (rb_acceptance b \<noteq> BindingPending)
       (MishkanError REVISION_MISMATCH
         ''mission run binding revision must settle its pending relationship'')))"

definition mission_bindings :: "mission_db \<Rightarrow> string \<Rightarrow> mission_run_binding list" where
  "mission_bindings db mission_id = filter (\<lambda>b. rb_mission_id b = mission_id) (db_bindings db)"

text \<open>The newest binding of every key (the revisions of a key are distinct).\<close>

definition latest_bindings :: "mission_run_binding list \<Rightarrow> (string \<times> mission_run_binding) list" where
  "latest_bindings rows = latest_by rb_binding_key rb_binding_revision [] rows"

definition binding_graph ::
  "(string \<times> mission_run_binding) list \<Rightarrow> (string \<times> string list) list" where
  "binding_graph l = map (\<lambda>(k, b). (k, rb_depends_on_binding_keys b)) l"

text \<open>\<open>graph.get(key, set())\<close>: a key the graph does not have depends on nothing.\<close>

definition with_leaves :: "(string \<times> string list) list \<Rightarrow> (string \<times> string list) list" where
  "with_leaves g =
     g @ map (\<lambda>k. (k, [])) (filter (\<lambda>k. map_of g k = None) (concat (map snd g)))"

definition require_run_binding_dependencies ::
  "mission_run_binding \<Rightarrow> mission_db \<Rightarrow> unit result" where
  "require_run_binding_dependencies b db =
     (let l = latest_bindings (mission_bindings db (rb_mission_id b))
      in ebind (guard (set (rb_depends_on_binding_keys b) \<subseteq> fst ` set l)
           (MishkanError PLAN
             ''mission run binding references unknown mission-level dependencies'')) (\<lambda>_.
         let g = AList.update (rb_binding_key b) (rb_depends_on_binding_keys b) (binding_graph l)
         in ebind (dfs_all (MishkanError PLAN ''mission run dependencies contain a cycle'') KeyError
                     (with_leaves g) [] [] (map fst g)) (\<lambda>_. Inr ())))"

definition run_reference :: "string \<Rightarrow> mission_run_binding \<Rightarrow> string" where
  "run_reference kind b = kind @ '':'' @ rb_run_id b @ '':'' @ rb_execution_task_id b"

definition require_run_binding_settlement ::
  "mission_run_binding \<Rightarrow> mission_task_assignment \<Rightarrow> mission_db \<Rightarrow> unit result" where
  "require_run_binding_settlement b a db =
     (let key = (rb_run_id b, rb_execution_task_id b)
      in if rb_acceptance b = BindingPending then Inr ()
         else ebind (guard (run_reference ''run-result'' b \<in> set (rb_result_references b))
           (MishkanError OUTPUT_CONTRACT
             ''mission run settlement omits its exact durable result reference'')) (\<lambda>_.
         if rb_acceptance b = BindingAccepted
         then case tbl_get acceptance_key key (acceptances (db_store db)) of
                Some acceptance \<Rightarrow>
                  ebind (guard (tbl_get result_key key (results (db_store db)) \<noteq> None \<and>
                                run_reference ''run-acceptance'' b \<in> set (rb_acceptance_references b))
                    (MishkanError DECISION_VALIDATION
                      ''mission run acceptance is not backed by durable task acceptance'')) (\<lambda>_.
                  guard (rd_schema_version (ac_review acceptance) = Review_1_1 \<and>
                         rd_producer_identity (ac_review acceptance) = Some (mta_accountable_owner a))
                    (MishkanError ROLE_CONFLICT
                      ''mission task acceptance lacks exact separated producer and evaluator lineage''))
              | None \<Rightarrow> Inl (MishkanError DECISION_VALIDATION
                  ''mission run acceptance is not backed by durable task acceptance'')
         else guard (list_ex (\<lambda>r. (rj_run_id r, rj_task_key r) = key) (rejections (db_store db)) \<and>
                     run_reference ''run-rejection'' b \<in> set (rb_acceptance_references b))
                (MishkanError DECISION_VALIDATION
                  ''mission run rejection is not backed by durable review evidence'')))"

definition key_rows :: "mission_db \<Rightarrow> string \<Rightarrow> string \<Rightarrow> mission_run_binding list" where
  "key_rows db mission_id key =
     filter (\<lambda>b. rb_mission_id b = mission_id \<and> rb_binding_key b = key) (db_bindings db)"

definition check_binding_plan ::
  "mission_run_binding \<Rightarrow> mission_db \<Rightarrow> (accepted_plan \<times> plan_task) result" where
  "check_binding_plan b db =
     ebind (require_mission db (rb_mission_id b)) (\<lambda>m.
     ebind (from_option (MishkanError MISSION ''mission run binding references no run'')
             (get_run (db_store db) (rb_run_id b))) (\<lambda>run.
     ebind (binding_context run) (\<lambda>observed.
     ebind (guard (rb_execution_context b = observed)
       (MishkanError REVISION_MISMATCH
         ''mission run binding context differs from the exact durable run context'')) (\<lambda>_.
     ebind (from_option (MishkanError PLAN ''mission run binding requires an accepted plan'')
             (get_plan (db_store db) (rb_run_id b))) (\<lambda>row.
     let plan = pl_payload row
     in ebind (plan_carries_mission plan m (rb_mission_id b)) (\<lambda>_.
        ebind (from_option (MishkanError PLAN
                 ''mission run binding references no exact accepted plan task'')
                (find (\<lambda>t. pt_task_id t = rb_execution_task_id b) (plan_tasks plan))) (\<lambda>task.
        Inr (plan, task))))))))"

definition check_binding_revision :: "mission_run_binding \<Rightarrow> mission_db \<Rightarrow> unit result" where
  "check_binding_revision b db =
     (let prior = newest rb_binding_revision (key_rows db (rb_mission_id b) (rb_binding_key b))
      in ebind (guard (rb_binding_revision b =
                       1 + (case prior of None \<Rightarrow> 0 | Some p \<Rightarrow> rb_binding_revision p))
           (MishkanError REVISION_MISMATCH
             ''mission run binding revision is stale or skips a revision'')) (\<lambda>_.
         case prior of None \<Rightarrow> Inr () | Some p \<Rightarrow> require_run_binding_transition p b))"

definition check_binding :: "mission_run_binding \<Rightarrow> mission_db \<Rightarrow> unit result" where
  "check_binding b db =
     ebind (check_binding_plan b db) (\<lambda>(plan, task).
     ebind (from_option (MishkanError MISSION
              ''mission run binding references no current mission task assignment'')
             (current_assignment db (rb_mission_id b) (rb_mission_task_id b))) (\<lambda>a.
     ebind (guard (binding_within_assignment b a task plan)
       (MishkanError AUTHORITY_NOT_GRANTED
         ''mission run binding exceeds or contradicts its accepted task assignment'')) (\<lambda>_.
     ebind (require_exact_tool_resolution plan (pt_task_id task) a) (\<lambda>_.
     ebind (check_binding_revision b db) (\<lambda>_.
     ebind (require_run_binding_dependencies b db) (\<lambda>_.
     ebind (require_run_binding_settlement b a db) (\<lambda>_.
     guard (\<not> list_ex (\<lambda>x. rb_run_id x = rb_run_id b \<and> rb_binding_key x \<noteq> rb_binding_key b \<and>
                rb_execution_task_id x = rb_execution_task_id b)
              (mission_bindings db (rb_mission_id b)))
       (MishkanError MISSION ''one run task cannot be bound to multiple mission tasks''))))))))"

definition record_run_binding ::
  "mission_run_binding \<Rightarrow> mission_db \<Rightarrow> (mission_db \<times> mission_run_binding) result" where
  "record_run_binding b db =
     (case tbl_get rb_binding_id (rb_binding_id b) (db_bindings db) of
        Some existing \<Rightarrow> idempotent_write existing b db
      | None \<Rightarrow>
          ebind (check_binding b db) (\<lambda>_.
          Inr (missions_event (rb_mission_id b) ''mission.run_bound''
                 (db\<lparr>db_bindings := db_bindings db @ [b]\<rparr>), b)))"

subsection \<open>Run reports\<close>

definition check_report_run :: "mission_run_report \<Rightarrow> mission_db \<Rightarrow> accepted_plan result" where
  "check_report_run r db =
     ebind (require_mission db (rp_mission_id r)) (\<lambda>m.
     ebind (guard (rp_mission_revision r = mr_revision m)
       (MishkanError REVISION_MISMATCH ''mission changed before its run report was recorded'')) (\<lambda>_.
     ebind (guard (mr_state m = MEvaluating)
       (MishkanError MISSION ''mission run report requires the evaluating mission state'')) (\<lambda>_.
     ebind (guard (\<not> list_ex (\<lambda>x. rp_mission_id x = rp_mission_id r \<and> rp_run_id x = rp_run_id r)
                      (db_reports db))
       (MishkanError DUPLICATE_RESULT ''mission run already has another immutable report'')) (\<lambda>_.
     case (get_run (db_store db) (rp_run_id r), get_plan (db_store db) (rp_run_id r)) of
       (Some run, Some row) \<Rightarrow>
         let plan = pl_payload row
         in ebind (guard (rn_status run = RCompleted \<and> 2 \<le> length (plan_tasks plan))
              (MishkanError MISSION ''run report requires one completed multi-task run'')) (\<lambda>_.
            ebind (guard (rp_plan_fingerprint r = ap_fingerprint plan)
              (MishkanError REVISION_MISMATCH
                ''mission run report references another accepted plan'')) (\<lambda>_.
            ebind (run_execution_context run) (\<lambda>observed.
            ebind (guard (rp_execution_context r = observed)
              (MishkanError REVISION_MISMATCH
                ''mission run report execution context differs from its run'')) (\<lambda>_.
            Inr plan))))
     | _ \<Rightarrow> Inl (MishkanError RUN_INTERRUPTED ''reported run or plan does not exist'')))))"

text \<open>One reported task against its assignment, the newest binding of its run task and its review.\<close>

definition report_task_matches ::
  "string \<Rightarrow> mission_run_report_task \<Rightarrow> mission_task_assignment \<Rightarrow> mission_run_binding \<Rightarrow> bool" where
  "report_task_matches run_id item a b \<longleftrightarrow>
     mta_execution_run_id a = Some run_id \<and>
     mta_execution_task_id a = Some (rt_execution_task_id item) \<and>
     mta_accountable_owner a = rt_accountable_owner item \<and>
     mta_assignment_kind a = rt_assignment_kind item \<and>
     rb_mission_task_id b = rt_mission_task_id item \<and> rb_acceptance b = BindingAccepted \<and>
     rb_result_references b = rt_result_references item \<and>
     rb_acceptance_references b = rt_acceptance_references item"

fun check_report_tasks ::
  "string \<Rightarrow> string \<Rightarrow> (string \<times> mission_task_assignment) list \<Rightarrow>
   (string \<Rightarrow> mission_run_binding option) \<Rightarrow> (string \<Rightarrow> acceptance_row option) \<Rightarrow>
   mission_run_report_task list \<Rightarrow> unit result" where
  "check_report_tasks run_id reporter l by_task reviews [] = Inr ()"
| "check_report_tasks run_id reporter l by_task reviews (item # items) =
     (let contradiction = MishkanError MISSION
            ''mission run report contradicts an accepted assignment or result binding''
      in ebind (from_option contradiction (map_of l (rt_mission_task_id item))) (\<lambda>a.
         ebind (from_option contradiction (by_task (rt_execution_task_id item))) (\<lambda>b.
         ebind (guard (report_task_matches run_id item a b) contradiction) (\<lambda>_.
         ebind (guard (set (rt_result_references item) \<union> set (rt_acceptance_references item)
                         \<subseteq> set (rt_evidence_references item))
           (MishkanError MISSION ''mission run report omits accepted result evidence'')) (\<lambda>_.
         ebind (from_option KeyError (reviews (rt_execution_task_id item))) (\<lambda>acceptance.
         ebind (guard (rd_evaluator_identity (ac_review acceptance) \<noteq> Some reporter)
           (MishkanError ROLE_CONFLICT
             ''task acceptance evaluator cannot report that same task'')) (\<lambda>_.
         check_report_tasks run_id reporter l by_task reviews items)))))))"

definition check_report_coverage ::
  "mission_run_report \<Rightarrow> accepted_plan \<Rightarrow> mission_db \<Rightarrow> unit result" where
  "check_report_coverage r plan db =
     (let run_id = rp_run_id r;
          expected = pt_task_id ` set (plan_tasks plan);
          accepted = rr_task_key ` {x \<in> set (results (db_store db)). rr_run_id x = run_id};
          reviewed = ac_task_key ` {x \<in> set (acceptances (db_store db)). ac_run_id x = run_id}
      in ebind (guard (rt_execution_task_id ` set (rp_task_results r) = expected)
           (MishkanError MISSION
             ''mission run report does not cover the exact accepted plan tasks'')) (\<lambda>_.
         guard (accepted = expected \<and> reviewed = expected)
           (MishkanError MISSION
             ''mission run report requires every task result to be durably accepted'')))"

definition run_task_binding :: "mission_db \<Rightarrow> string \<Rightarrow> string \<Rightarrow> string \<Rightarrow> mission_run_binding option" where
  "run_task_binding db mission_id run_id execution_task_id =
     last_of rb_execution_task_id
       (map snd (latest_bindings (filter (\<lambda>b. rb_run_id b = run_id) (mission_bindings db mission_id))))
       execution_task_id"

definition check_report :: "mission_run_report \<Rightarrow> mission_db \<Rightarrow> unit result" where
  "check_report r db =
     ebind (check_report_run r db) (\<lambda>plan.
     let l = latest (mission_assignments db (rp_mission_id r))
     in ebind (validate (map snd l)) (\<lambda>_.
        ebind (check_report_coverage r plan db) (\<lambda>_.
        ebind (check_report_tasks (rp_run_id r) (rp_reporter_identity r) l
                 (run_task_binding db (rp_mission_id r) (rp_run_id r))
                 (\<lambda>k. tbl_get acceptance_key (rp_run_id r, k) (acceptances (db_store db)))
                 (rp_task_results r)) (\<lambda>_.
        ebind (from_option KeyError (map_of l (rp_reporting_mission_task_id r))) (\<lambda>reporting.
        guard (mta_assignment_kind reporting = REPORTING \<and>
               mta_accountable_owner reporting = rp_reporter_identity r \<and>
               mta_execution_run_id reporting = Some (rp_run_id r) \<and>
               mta_execution_task_id reporting = Some (rp_reporting_execution_task_id r))
          (MishkanError ROLE_CONFLICT
            ''mission run report is not attributable to its independent Reporter task''))))))"

definition record_run_report ::
  "mission_run_report \<Rightarrow> mission_db \<Rightarrow> (mission_db \<times> mission_run_report) result" where
  "record_run_report r db =
     (case tbl_get rp_report_id (rp_report_id r) (db_reports db) of
        Some existing \<Rightarrow> idempotent_write existing r db
      | None \<Rightarrow>
          ebind (check_report r db) (\<lambda>_.
          Inr (missions_event (rp_mission_id r) ''mission.run_reported''
                 (db\<lparr>db_reports := db_reports db @ [r]\<rparr>), r)))"

subsection \<open>Environment plans\<close>

definition environment_plan_key :: "environment_plan_acceptance \<Rightarrow> string \<times> int" where
  "environment_plan_key e = (en_plan_mission_id (ep_plan e), en_version (ep_plan e))"

definition eligible_plan_owner :: "mission_crew_revision \<Rightarrow> string \<Rightarrow> bool" where
  "eligible_plan_owner crew owner =
     (case member_of crew owner of None \<Rightarrow> False
      | Some w \<Rightarrow> cw_assignment_kind w \<notin> {EVALUATION, REPORTING, AUDIT})"

definition check_environment_plan :: "environment_plan \<Rightarrow> mission_record \<Rightarrow> mission_db \<Rightarrow> unit result" where
  "check_environment_plan plan m db =
     ebind (guard (en_mission_revision plan = mr_revision m)
       (MishkanError REVISION_MISMATCH
         ''environment plan was authored against a stale mission revision'')) (\<lambda>_.
     ebind (guard (Some (en_brief_version plan) = mr_current_brief_version m \<and>
                   Some (en_crew_version plan) = mr_current_crew_version m)
       (MishkanError REVISION_MISMATCH
         ''environment plan does not reference the current Brief and crew'')) (\<lambda>_.
     ebind (guard (en_version plan = next_version (mr_current_environment_plan_version m))
       (MishkanError REVISION_MISMATCH
         ''environment plan version is stale or skips a revision'')) (\<lambda>_.
     ebind (crew_row db (en_plan_mission_id plan) (en_crew_version plan)) (\<lambda>crew.
     ebind (guard (eligible_plan_owner crew (en_owner_identity plan))
       (MishkanError ROLE_CONFLICT
         ''environment plan owner is not an eligible current crew member'')) (\<lambda>_.
     let l = latest (mission_assignments db (en_plan_mission_id plan))
     in ebind (guard (case map_of l (en_planning_task_id plan) of None \<Rightarrow> False
                      | Some a \<Rightarrow> mta_accountable_owner a = en_owner_identity plan)
          (MishkanError ROLE_CONFLICT
            ''environment planning assignment does not belong to the plan owner'')) (\<lambda>_.
        ebind (guard (\<Union>(set ` xr_affected_task_ids ` set (en_contexts plan)) \<subseteq> fst ` set l)
          (MishkanError PLAN ''environment plan references unassigned dependent tasks'')) (\<lambda>_.
        guard (\<not> list_ex (\<lambda>e. environment_plan_key e = (en_plan_mission_id plan, en_version plan))
                 (db_environment_plans db))
          (MishkanError DUPLICATE_RESULT
            ''environment plan version already has another immutable identity''))))))))"

text \<open>
  The stored fingerprint of a plan is unique in its table; it covers the mission and the version,
  so that it differs whenever the version does (SHA-256 without collisions).
\<close>

definition accept_environment_plan ::
  "instant \<Rightarrow> environment_plan_acceptance \<Rightarrow> int \<Rightarrow> mission_db
   \<Rightarrow> (mission_db \<times> environment_plan_acceptance) result" where
  "accept_environment_plan now acceptance expected_revision db =
     (let plan = ep_plan acceptance
      in case tbl_get (\<lambda>e. en_plan_id (ep_plan e)) (en_plan_id plan) (db_environment_plans db) of
           Some existing \<Rightarrow> idempotent_write existing acceptance db
         | None \<Rightarrow>
             ebind (require_mission db (en_plan_mission_id plan)) (\<lambda>m.
             ebind (require_revision m expected_revision) (\<lambda>_.
             ebind (check_environment_plan plan m db) (\<lambda>_.
             let updated = m\<lparr>mr_revision := mr_revision m + 1,
                             mr_current_environment_plan_version := Some (en_version plan),
                             mr_updated_at := now\<rparr>
             in Inr (missions_event (en_plan_mission_id plan) ''mission.environment_plan_accepted''
                       ((update_mission_row updated db)
                          \<lparr>db_environment_plans := db_environment_plans db @ [acceptance]\<rparr>),
                     acceptance)))))"

subsection \<open>Queries\<close>

text \<open>\<open>ORDER BY\<close> is a stable sort on the key, \<open>LIMIT\<close> a prefix (a negative limit is no limit).\<close>

definition limited :: "int \<Rightarrow> 'a list \<Rightarrow> 'a list" where
  "limited limit rows = (if limit < 0 then rows else take (nat limit) rows)"

definition selected_version :: "int option \<Rightarrow> int option \<Rightarrow> int option" where
  "selected_version version current =
     (case version of None \<Rightarrow> current | Some v \<Rightarrow> if v = 0 then current else Some v)"

definition mission :: "string \<Rightarrow> mission_db \<Rightarrow> mission_record result" where
  "mission mission_id db = require_mission db mission_id"

definition list_missions :: "int \<Rightarrow> mission_db \<Rightarrow> mission_record list result" where
  "list_missions limit db =
     (if 1 \<le> limit \<and> limit \<le> 1000
      then traverse read_mission (limited limit (sort_key (\<lambda>m. - mr_updated_at m) (db_missions db)))
      else Inl (MishkanError OUTPUT_CONTRACT ''mission query limit is out of bounds''))"

definition brief_of :: "string \<Rightarrow> int option \<Rightarrow> mission_db \<Rightarrow> mission_brief result" where
  "brief_of mission_id version db =
     ebind (require_mission db mission_id) (\<lambda>m.
     ebind (from_option (MishkanError MISSION ''mission has no Mission Brief'')
             (selected_version version (mr_current_brief_version m))) (\<lambda>selected.
     brief_row db mission_id selected))"

definition crew_of :: "string \<Rightarrow> int option \<Rightarrow> mission_db \<Rightarrow> mission_crew_revision result" where
  "crew_of mission_id version db =
     ebind (require_mission db mission_id) (\<lambda>m.
     ebind (from_option (MishkanError MISSION ''mission has no Mission Crew'')
             (selected_version version (mr_current_crew_version m))) (\<lambda>selected.
     crew_row db mission_id selected))"

definition environment_plan_of ::
  "string \<Rightarrow> int option \<Rightarrow> mission_db \<Rightarrow> environment_plan_acceptance result" where
  "environment_plan_of mission_id version db =
     ebind (require_mission db mission_id) (\<lambda>m.
     ebind (from_option (MishkanError MISSION ''mission has no accepted environment plan'')
             (selected_version version (mr_current_environment_plan_version m))) (\<lambda>selected.
     from_option (MishkanError MISSION ''environment plan revision does not exist'')
       (tbl_get environment_plan_key (mission_id, selected) (db_environment_plans db))))"

definition environment_plan_by_id :: "string \<Rightarrow> mission_db \<Rightarrow> environment_plan_acceptance result" where
  "environment_plan_by_id plan_id db =
     from_option (MishkanError MISSION ''accepted environment plan does not exist'')
       (tbl_get (\<lambda>e. en_plan_id (ep_plan e)) plan_id (db_environment_plans db))"

text \<open>The listings of a mission's rows: the mission must exist (its payload is not read).\<close>

definition mission_rows ::
  "mission_db \<Rightarrow> string \<Rightarrow> ('a \<Rightarrow> string) \<Rightarrow> ('a \<Rightarrow> 'k::linorder) \<Rightarrow> int \<Rightarrow> 'a list \<Rightarrow> 'a list result" where
  "mission_rows db mission_id owner order_key limit rows =
     ebind (require_mission_row db mission_id) (\<lambda>_.
     Inr (limited limit (sort_key order_key (filter (\<lambda>x. owner x = mission_id) rows))))"

definition assignments_of :: "string \<Rightarrow> int \<Rightarrow> mission_db \<Rightarrow> mission_task_assignment list result" where
  "assignments_of mission_id limit db =
     ebind (require_mission_row db mission_id) (\<lambda>_.
     Inr (limited limit (sort_key mta_task_id
       (sort_key mta_assignment_revision (mission_assignments db mission_id)))))"

definition run_bindings_of :: "string \<Rightarrow> int \<Rightarrow> mission_db \<Rightarrow> mission_run_binding list result" where
  "run_bindings_of mission_id limit db =
     ebind (require_mission_row db mission_id) (\<lambda>_.
     Inr (limited limit (sort_key rb_binding_key
       (sort_key rb_binding_revision (mission_bindings db mission_id)))))"

definition run_reports_of :: "string \<Rightarrow> int \<Rightarrow> mission_db \<Rightarrow> mission_run_report list result" where
  "run_reports_of mission_id limit db =
     mission_rows db mission_id rp_mission_id rp_created_at limit (db_reports db)"

definition transitions_of :: "string \<Rightarrow> int \<Rightarrow> mission_db \<Rightarrow> mission_transition list result" where
  "transitions_of mission_id limit db =
     mission_rows db mission_id tn_mission_id tn_created_at limit (db_transitions db)"

end
