(* ===== verification/Conversations.thy ===== *)
theory Conversations
  imports Missions
begin

section \<open>The conversation repository\<close>

text \<open>
  \<open>SQLiteConversationRepository\<close> of \<open>conversations/repository.py\<close>: the durable channels and
  messages, the mission decisions and their settlement, the escalations, and the interventions of
  the CEO, which change the mission rows of \<open>Missions\<close> directly. The unique indexes (one executive
  channel, one settlement of a decision) are covered by the checks of one transaction.
\<close>

abbreviation (input) conversations_event :: "string \<Rightarrow> string \<Rightarrow> mission_db \<Rightarrow> mission_db" where
  "conversations_event \<equiv> mission_event ''mishkan.conversations''"

subsection \<open>Helpers of the class\<close>

definition idempotent_record :: "'p \<Rightarrow> 'p \<Rightarrow> mission_db \<Rightarrow> (mission_db \<times> 'p) result" where
  "idempotent_record existing wanted db =
     ebind (guard (existing = wanted) (MishkanError DUPLICATE_RESULT
       ''immutable record identity was reused with different content'')) (\<lambda>_. Inr (db, wanted))"

definition require_channel :: "mission_db \<Rightarrow> string \<Rightarrow> conversation_channel result" where
  "require_channel db conversation_id =
     from_option (MishkanError MISSION ''conversation does not exist'')
       (tbl_get ch_conversation_id conversation_id (db_channels db))"

definition require_mission_channel :: "mission_db \<Rightarrow> string \<Rightarrow> string \<Rightarrow> unit result" where
  "require_mission_channel db mission_id conversation_id =
     ebind (require_mission_row db mission_id) (\<lambda>_.
     ebind (require_channel db conversation_id) (\<lambda>channel.
     guard (ch_channel_class channel = ExecutiveChannel \<or> ch_mission_id channel = Some mission_id)
       (MishkanError MISSION ''conversation does not govern the referenced mission'')))"

definition organization :: "mission_db \<Rightarrow> organization_roster result" where
  "organization db =
     (case db_rosters db of
        [og] \<Rightarrow> Inr og
      | _ \<Rightarrow> Inl (MishkanError REQUIRED_DEPENDENCY
          ''conversation authority requires exactly one recorded organization''))"

subsection \<open>Channels and messages\<close>

definition check_channel :: "conversation_channel \<Rightarrow> mission_db \<Rightarrow> unit result" where
  "check_channel c db =
     ebind (case ch_mission_id c of None \<Rightarrow> Inr ()
            | Some k \<Rightarrow> ebind (require_mission_row db k) (\<lambda>_. Inr ())) (\<lambda>_.
     ebind (organization db) (\<lambda>roster.
     let known = insert ''CEO'' (pi_identity_id ` set (og_identities roster))
     in ebind (guard (set (ch_participants c) \<subseteq> known)
          (MishkanError ROLE_CONFLICT
            ''conversation references unknown professional identities'')) (\<lambda>_.
        ebind (guard (ch_created_by c \<in> known)
          (MishkanError ROLE_CONFLICT
            ''conversation creator is not a known professional identity'')) (\<lambda>_.
        ebind (guard (ch_channel_class c = BranchChannel \<longrightarrow>
                  ch_branch_id c \<in> Some ` br_branch_id ` set (og_branches roster))
          (MishkanError ROLE_CONFLICT
            ''conversation references an unknown organization branch'')) (\<lambda>_.
        guard (ch_channel_class c = ExecutiveChannel \<longrightarrow>
                 \<not> list_ex (\<lambda>x. ch_channel_class x = ExecutiveChannel) (db_channels db))
          (MishkanError DUPLICATE_RESULT
            ''the organization already has a durable Executive channel''))))))"

definition create_channel ::
  "conversation_channel \<Rightarrow> mission_db \<Rightarrow> (mission_db \<times> conversation_channel) result" where
  "create_channel c db =
     (case tbl_get ch_conversation_id (ch_conversation_id c) (db_channels db) of
        Some existing \<Rightarrow> idempotent_record existing c db
      | None \<Rightarrow>
          ebind (check_channel c db) (\<lambda>_.
          Inr (conversations_event (ch_conversation_id c) ''conversation.created''
                 (db\<lparr>db_channels := db_channels db @ [c]\<rparr>), c)))"

definition check_message :: "conversation_message \<Rightarrow> mission_db \<Rightarrow> unit result" where
  "check_message m db =
     ebind (require_channel db (mm_conversation_id m)) (\<lambda>channel.
     ebind (guard (mm_author_identity m \<in> set (ch_participants channel))
       (MishkanError AUTHORITY_NOT_GRANTED
         ''message author is not a participant in the conversation'')) (\<lambda>_.
     guard (case mm_reply_to_message_id m of None \<Rightarrow> True
            | Some k \<Rightarrow> (case tbl_get mm_message_id k (db_messages db) of None \<Rightarrow> False
                | Some replied \<Rightarrow> mm_conversation_id replied = mm_conversation_id m))
       (MishkanError MISSION ''reply target is not part of this conversation'')))"

definition post_message ::
  "conversation_message \<Rightarrow> mission_db \<Rightarrow> (mission_db \<times> conversation_message) result" where
  "post_message m db =
     (case tbl_get mm_message_id (mm_message_id m) (db_messages db) of
        Some existing \<Rightarrow> idempotent_record existing m db
      | None \<Rightarrow>
          ebind (check_message m db) (\<lambda>_.
          Inr (conversations_event (mm_conversation_id m) ''conversation.message_posted''
                 (db\<lparr>db_messages := db_messages db @ [m]\<rparr>), m)))"

subsection \<open>Decisions\<close>

definition recommendation_preserved :: "mission_decision \<Rightarrow> mission_decision \<Rightarrow> bool" where
  "recommendation_preserved prior d \<longleftrightarrow>
     md_mission_id prior = md_mission_id d \<and> md_conversation_id prior = md_conversation_id d \<and>
     md_producer_identity prior = md_producer_identity d \<and> md_subject prior = md_subject d \<and>
     md_scope prior = md_scope d \<and> md_authority_reference prior = md_authority_reference d \<and>
     md_changes_durable_authority prior = md_changes_durable_authority d \<and>
     md_context prior = md_context d \<and> md_evidence prior = md_evidence d \<and>
     md_criteria prior = md_criteria d \<and> md_alternatives prior = md_alternatives d \<and>
     md_alternatives_search prior = md_alternatives_search d \<and>
     md_recommendation prior = md_recommendation d"

definition settles :: "mission_decision \<Rightarrow> bool" where
  "settles d \<longleftrightarrow> md_schema_version d = Decision_1_1 \<and>
     md_decision_status d \<in> {Some DecisionAccepted, Some DecisionRejected}"

definition staged :: "mission_decision \<Rightarrow> bool" where
  "staged d \<longleftrightarrow> md_schema_version d = Decision_1_1 \<and> md_decision_status d = Some DecisionStaged"

definition require_decision_lineage :: "mission_decision \<Rightarrow> mission_db \<Rightarrow> unit result" where
  "require_decision_lineage d db =
     (if \<not> settles d then Inr ()
      else ebind (from_option AssertionError (md_supersedes_decision_id d)) (\<lambda>prior_id.
        ebind (from_option (MishkanError DECISION_VALIDATION
                 ''settled decision does not reference an existing staged recommendation'')
                (tbl_get md_decision_id prior_id (db_decisions db))) (\<lambda>prior.
        ebind (guard (staged prior)
          (MishkanError DECISION_VALIDATION
            ''settled decision lineage must reference a staged decision 1.1'')) (\<lambda>_.
        ebind (guard (recommendation_preserved prior d)
          (MishkanError DECISION_VALIDATION
            ''settled decision changes its staged recommendation or context'')) (\<lambda>_.
        ebind (guard (set (md_evidence_references prior) \<subseteq> set (md_evidence_references d))
          (MishkanError DECISION_VALIDATION
            ''settled decision dropped staged evidence lineage'')) (\<lambda>_.
        guard (\<not> list_ex (\<lambda>x. md_mission_id x = md_mission_id d \<and>
                   md_schema_version x = Decision_1_1 \<and>
                   md_supersedes_decision_id x = md_supersedes_decision_id d) (db_decisions db))
          (MishkanError DECISION_VALIDATION
            ''staged recommendation already has a durable disposition'')))))))"

definition record_decision ::
  "mission_decision \<Rightarrow> mission_db \<Rightarrow> (mission_db \<times> mission_decision) result" where
  "record_decision d db =
     (case tbl_get md_decision_id (md_decision_id d) (db_decisions db) of
        Some existing \<Rightarrow> idempotent_record existing d db
      | None \<Rightarrow>
          ebind (require_mission_channel db (md_mission_id d) (md_conversation_id d)) (\<lambda>_.
          ebind (require_decision_lineage d db) (\<lambda>_.
          Inr (conversations_event (md_mission_id d) ''mission.decision_recorded''
                 (db\<lparr>db_decisions := db_decisions db @ [d]\<rparr>), d))))"

subsection \<open>Escalations\<close>

definition create_escalation ::
  "mission_escalation \<Rightarrow> mission_db \<Rightarrow> (mission_db \<times> mission_escalation) result" where
  "create_escalation e db =
     (if es_state e \<noteq> EscalationOpen
      then Inl (MishkanError MISSION ''new escalation must begin open'')
      else case tbl_get es_escalation_id (es_escalation_id e) (db_escalations db) of
        Some existing \<Rightarrow> idempotent_record existing e db
      | None \<Rightarrow>
          ebind (require_mission_channel db (es_mission_id e) (es_conversation_id e)) (\<lambda>_.
          Inr (conversations_event (es_mission_id e) ''mission.escalation_opened''
                 (db\<lparr>db_escalations := db_escalations db @ [e]\<rparr>), e)))"

text \<open>An answered escalation is written by \<open>model_copy\<close> and validated when it is read again.\<close>

definition read_escalation :: "mission_escalation \<Rightarrow> mission_escalation result" where
  "read_escalation e =
     (if escalation_is_actionable e then Inr e
      else Inl (ValueError ''escalation is not actionable''))"

subsection \<open>The target of an intervention\<close>

definition mission_risks :: "mission_db \<Rightarrow> string \<Rightarrow> string set result" where
  "mission_risks db mission_id =
     (let briefs = filter (\<lambda>b. mb_mission_id b = mission_id) (db_briefs db);
          decisions = filter (\<lambda>d. md_mission_id d = mission_id) (db_decisions db);
          reports = filter (\<lambda>r. rp_mission_id r = mission_id) (db_reports db)
      in ebind (traverse read_escalation
                  (filter (\<lambda>e. es_mission_id e = mission_id) (db_escalations db))) (\<lambda>escalations.
         Inr ((case newest mb_version briefs of None \<Rightarrow> {} | Some b \<Rightarrow> set (mb_risks b)) \<union>
              \<Union>((\<lambda>d. (case md_context d of None \<Rightarrow> {} | Some c \<Rightarrow> ct_statement ` set (dx_risks c)) \<union>
                     (case md_recommendation d of None \<Rightarrow> {} | Some x \<Rightarrow> set (rc_risks x)))
                 ` set decisions) \<union>
              \<Union>((\<lambda>e. \<Union>(set ` eo_risks ` set (es_options e))) ` set escalations) \<union>
              \<Union>((\<lambda>r. set (rp_residual_risks r) \<union>
                     \<Union>(set ` rt_residual_risks ` set (rp_task_results r))) ` set reports))))"

text \<open>The history of a target: the mission's interventions on it by their instants.\<close>

definition target_history :: "mission_db \<Rightarrow> mission_intervention \<Rightarrow> mission_intervention list" where
  "target_history db i =
     filter (\<lambda>x. iv_target_kind x = iv_target_kind i \<and> iv_target_id x = iv_target_id i)
       (sort_key iv_created_at
          (filter (\<lambda>x. iv_mission_id x = iv_mission_id i) (db_interventions db)))"

definition last_kind :: "intervention_kind set \<Rightarrow> mission_intervention list \<Rightarrow> intervention_kind option" where
  "last_kind kinds history =
     (case rev (filter (\<lambda>x. iv_kind x \<in> kinds) history) of
        [] \<Rightarrow> None | x # _ \<Rightarrow> Some (iv_kind x))"

definition validate_task_control :: "mission_db \<Rightarrow> mission_intervention \<Rightarrow> unit result" where
  "validate_task_control db i =
     (if current_assignment db (iv_mission_id i) (iv_target_id i) = None
      then Inl (MishkanError MISSION ''intervention task is not assigned'')
      else if iv_kind i \<notin> {Suspend, Resume, Stop} then Inr ()
      else let last = last_kind {Suspend, Resume, Stop} (target_history db i)
           in ebind (guard (last \<noteq> Some Stop)
                (MishkanError MISSION ''stopped mission task cannot be controlled again'')) (\<lambda>_.
              ebind (guard (iv_kind i = Resume \<longrightarrow> last = Some Suspend)
                (MishkanError MISSION ''only a suspended mission task can resume'')) (\<lambda>_.
              guard (\<not> (iv_kind i = Suspend \<and> last = Some Suspend))
                (MishkanError MISSION ''mission task is already suspended''))))"

definition validate_intervention_target :: "mission_db \<Rightarrow> mission_intervention \<Rightarrow> unit result" where
  "validate_intervention_target db i =
     (case iv_target_kind i of
        TargetMission \<Rightarrow>
          guard (iv_target_id i = iv_mission_id i)
            (MishkanError OUTPUT_CONTRACT
              ''mission intervention target differs from its mission identity'')
      | TargetAssignment \<Rightarrow>
          guard (case tbl_get mta_assignment_id (iv_target_id i) (db_assignments db) of
                   None \<Rightarrow> False | Some a \<Rightarrow> mta_mission_id a = iv_mission_id i)
            (MishkanError MISSION
              ''intervention assignment is absent or belongs to another mission'')
      | TargetProposal \<Rightarrow>
          (case tbl_get md_decision_id (iv_target_id i) (db_decisions db) of
             None \<Rightarrow> Inl (MishkanError MISSION
               ''intervention proposal is absent or belongs to another mission'')
           | Some d \<Rightarrow>
               ebind (guard (md_mission_id d = iv_mission_id i) (MishkanError MISSION
                 ''intervention proposal is absent or belongs to another mission'')) (\<lambda>_.
               guard (staged d) (MishkanError DECISION_VALIDATION
                 ''CEO proposal disposition requires a staged durable recommendation'')))
      | TargetRisk \<Rightarrow>
          ebind (mission_risks db (iv_mission_id i)) (\<lambda>risks.
          guard (iv_target_id i \<in> risks)
            (MishkanError MISSION ''intervention risk is not present in durable mission evidence''))
      | TargetEscalation \<Rightarrow>
          guard (case tbl_get es_escalation_id (iv_target_id i) (db_escalations db) of
                   None \<Rightarrow> False | Some e \<Rightarrow> es_mission_id e = iv_mission_id i)
            (MishkanError MISSION
              ''intervention escalation is absent or belongs to another mission'')
      | TargetTask \<Rightarrow> validate_task_control db i)"

definition validate_intervention_sequence :: "mission_db \<Rightarrow> mission_intervention \<Rightarrow> unit result" where
  "validate_intervention_sequence db i =
     (let prior = target_history db i;
          kinds = map iv_kind prior;
          last = last_kind {RequestReassignment, ConfirmReassignment} prior
      in ebind (guard (list_all (\<lambda>x. iv_created_at x < iv_created_at i) prior)
           (MishkanError REVISION_MISMATCH
             ''intervention timestamp does not follow its target history'')) (\<lambda>_.
         ebind (guard (\<not> (iv_kind i \<in> {AcceptProposal, RejectProposal} \<and>
                          list_ex (\<lambda>k. k \<in> {AcceptProposal, RejectProposal}) kinds))
           (MishkanError DUPLICATE_RESULT
             ''mission proposal already has a durable CEO disposition'')) (\<lambda>_.
         ebind (guard (\<not> (iv_kind i = AcceptRisk \<and> AcceptRisk \<in> set kinds))
           (MishkanError DUPLICATE_RESULT
             ''mission risk already has a durable CEO acceptance'')) (\<lambda>_.
         ebind (guard (\<not> (iv_kind i = RequestReassignment \<and> last = Some RequestReassignment))
           (MishkanError MISSION ''reassignment request is already pending'')) (\<lambda>_.
         guard (iv_kind i = ConfirmReassignment \<longrightarrow> last = Some RequestReassignment)
           (MishkanError MISSION
             ''reassignment confirmation requires a pending CEO request''))))))"

subsection \<open>Applying an intervention\<close>

text \<open>The answer of an escalation, when the intervention names one.\<close>

definition answer_escalation :: "instant \<Rightarrow> mission_intervention \<Rightarrow> mission_db \<Rightarrow> mission_db result" where
  "answer_escalation now i db =
     (case iv_escalation_id i of
        None \<Rightarrow> Inr db
      | Some k \<Rightarrow>
          (case tbl_get es_escalation_id k (db_escalations db) of
             None \<Rightarrow> Inl (MishkanError MISSION
               ''intervention escalation is absent or belongs to another mission'')
           | Some row \<Rightarrow>
               ebind (guard (es_mission_id row = iv_mission_id i) (MishkanError MISSION
                 ''intervention escalation is absent or belongs to another mission'')) (\<lambda>_.
               ebind (read_escalation row) (\<lambda>e.
               ebind (guard (es_state e = EscalationOpen)
                 (MishkanError MISSION ''escalation is already settled'')) (\<lambda>_.
               ebind (guard (iv_selected_option_id i \<in> Some ` eo_option_id ` set (es_options e))
                 (MishkanError MISSION
                   ''escalation answer does not select an available option'')) (\<lambda>_.
               let answered = e\<lparr>es_state := EscalationAnswered,
                                es_answer_intervention_id := Some (iv_intervention_id i),
                                es_updated_at := now\<rparr>
               in Inr (db\<lparr>db_escalations :=
                    tbl_upd es_escalation_id k (\<lambda>_. answered) (db_escalations db)\<rparr>)))))))"

definition transition_state ::
  "mission_record \<Rightarrow> mission_intervention \<Rightarrow> mission_state option result" where
  "transition_state m i =
     (if iv_target_kind i \<noteq> TargetMission then Inr None
      else case iv_resulting_mission_state i of
        None \<Rightarrow> Inr None
      | Some st \<Rightarrow>
          ebind (guard (\<not> terminal_mission (mr_state m))
            (MishkanError MISSION ''terminal mission cannot be intervened upon'')) (\<lambda>_.
          ebind (guard (\<not> (iv_kind i = Resume \<and> mr_state m \<notin> {MPaused, MBlocked}))
            (MishkanError MISSION ''only paused or blocked missions can resume'')) (\<lambda>_.
          Inr (Some st))))"

definition check_intervention :: "mission_intervention \<Rightarrow> mission_db \<Rightarrow> unit result" where
  "check_intervention i db =
     ebind (require_mission_channel db (iv_mission_id i) (iv_conversation_id i)) (\<lambda>_.
     ebind (validate_intervention_target db i) (\<lambda>_.
     validate_intervention_sequence db i))"

definition apply_intervention ::
  "instant \<Rightarrow> mission_intervention \<Rightarrow> int \<Rightarrow> mission_db \<Rightarrow> (mission_db \<times> mission_intervention) result" where
  "apply_intervention now i expected_revision db =
     (if iv_schema_version i \<noteq> Intervention_1_1
      then Inl (MishkanError VERSION ''new mission interventions require settlement contract 1.1'')
      else case tbl_get iv_intervention_id (iv_intervention_id i) (db_interventions db) of
        Some existing \<Rightarrow> idempotent_record existing i db
      | None \<Rightarrow>
          ebind (require_mission db (iv_mission_id i)) (\<lambda>m.
          ebind (guard (mr_revision m = expected_revision)
            (MishkanError REVISION_MISMATCH
              ''mission intervention expected revision is stale'')) (\<lambda>_.
          ebind (check_intervention i db) (\<lambda>_.
          ebind (answer_escalation now i db) (\<lambda>db'.
          ebind (transition_state m i) (\<lambda>next_state.
          ebind (from_option AssertionError (iv_resulting_target_state i)) (\<lambda>_.
          let updated = m\<lparr>mr_state := (case next_state of None \<Rightarrow> mr_state m | Some st \<Rightarrow> st),
                          mr_revision := mr_revision m + 1, mr_updated_at := now\<rparr>
          in Inr (conversations_event (iv_mission_id i) ''mission.intervention_applied''
                    ((update_mission_row updated db')
                       \<lparr>db_interventions := db_interventions db' @ [i]\<rparr>), i))))))))"

subsection \<open>Queries\<close>

definition channel :: "string \<Rightarrow> mission_db \<Rightarrow> conversation_channel result" where
  "channel conversation_id db = require_channel db conversation_id"

definition channels :: "string option \<Rightarrow> int \<Rightarrow> mission_db \<Rightarrow> conversation_channel list" where
  "channels mission_id limit db =
     limited limit (sort_key ch_created_at
       (filter (\<lambda>c. mission_id = None \<or> ch_mission_id c = mission_id) (db_channels db)))"

definition messages :: "string \<Rightarrow> int \<Rightarrow> mission_db \<Rightarrow> conversation_message list result" where
  "messages conversation_id limit db =
     ebind (require_channel db conversation_id) (\<lambda>_.
     Inr (limited limit (sort_key mm_created_at
       (filter (\<lambda>m. mm_conversation_id m = conversation_id) (db_messages db)))))"

definition escalations ::
  "string \<Rightarrow> escalation_state option \<Rightarrow> int \<Rightarrow> mission_db \<Rightarrow> mission_escalation list result" where
  "escalations mission_id st limit db =
     ebind (require_mission_row db mission_id) (\<lambda>_.
     traverse read_escalation (limited limit (sort_key es_created_at
       (filter (\<lambda>e. es_mission_id e = mission_id \<and> (st = None \<or> Some (es_state e) = st))
          (db_escalations db)))))"

definition decisions :: "string \<Rightarrow> int \<Rightarrow> mission_db \<Rightarrow> mission_decision list result" where
  "decisions mission_id limit db =
     mission_rows db mission_id md_mission_id md_created_at limit (db_decisions db)"

definition decision :: "string \<Rightarrow> mission_db \<Rightarrow> mission_decision result" where
  "decision decision_id db =
     from_option (MishkanError DECISION_VALIDATION ''mission decision does not exist'')
       (tbl_get md_decision_id decision_id (db_decisions db))"

definition interventions :: "string \<Rightarrow> int \<Rightarrow> mission_db \<Rightarrow> mission_intervention list result" where
  "interventions mission_id limit db =
     mission_rows db mission_id iv_mission_id iv_created_at limit (db_interventions db)"

end
