(* ===== verification/MissionMachine.thy ===== *)
theory MissionMachine
  imports Conversations RunSafety
begin

section \<open>The mission database as a machine\<close>

text \<open>
  The operations of the two mission repositories and of the run repository on one database, as
  steps: an argument that violates its own contract cannot be constructed (Pydantic), and an
  operation that raises leaves the database as it was. The relation \<open>writes\<close> lists what a step can
  do to the tables; every invariant is proved by cases on it.
\<close>

datatype mission_op =
    RecordOrganization bool organization_roster
  | CreateMission mission_record
  | RecordBrief instant mission_brief int
  | RecordCrew instant mission_crew_revision int
  | RecordAssignment mission_task_assignment
  | Transition instant mission_transition int
  | RecordRunBinding mission_run_binding
  | RecordRunReport mission_run_report
  | AcceptEnvironmentPlan instant environment_plan_acceptance int
  | CreateChannel conversation_channel
  | PostMessage conversation_message
  | RecordDecision mission_decision
  | CreateEscalation mission_escalation
  | ApplyIntervention instant mission_intervention int
  | RunStep run_op

definition mission_record_valid :: "mission_record \<Rightarrow> bool" where
  "mission_record_valid m \<longleftrightarrow>
     optional_template_has_exact_lineage (mr_origin m) \<and> advanced_states_have_a_brief m"

definition brief_valid :: "mission_brief \<Rightarrow> bool" where
  "brief_valid b \<longleftrightarrow>
     status_matches_executive_confirmations b \<and>
     dependent_work_declares_evidence_or_unknowns (mb_environment_intent b)"

definition assignment_valid :: "mission_task_assignment \<Rightarrow> bool" where
  "assignment_valid a \<longleftrightarrow>
     ownership_is_unambiguous a \<and>
     (case mta_change a of None \<Rightarrow> True | Some c \<Rightarrow> plan_and_confirmation_lineage_is_explicit c)"

definition run_binding_valid :: "mission_run_binding \<Rightarrow> bool" where
  "run_binding_valid b \<longleftrightarrow>
     result_and_acceptance_are_explicit b \<and> identity_matches_kind (rb_execution_context b)"

definition run_report_valid :: "mission_run_report \<Rightarrow> bool" where
  "run_report_valid r \<longleftrightarrow>
     reporter_and_task_coverage_are_explicit r \<and> list_all evidence_is_unique (rp_task_results r) \<and>
     identity_matches_kind (rp_execution_context r)"

definition environment_plan_valid :: "environment_plan \<Rightarrow> bool" where
  "environment_plan_valid p \<longleftrightarrow>
     decisions_cover_exact_contexts p \<and> list_all context_identities_are_unique (en_contexts p) \<and>
     list_all consequential_link_is_complete (en_decisions p)"

definition decision_valid :: "mission_decision \<Rightarrow> bool" where
  "decision_valid d \<longleftrightarrow>
     consequential_decision_contract_is_complete d \<and>
     list_all verified_claim_has_a_source (md_evidence d) \<and>
     list_all rejected_candidate_explains_why_it_is_not_credible (md_alternatives d) \<and>
     (case md_recommendation d of None \<Rightarrow> True
      | Some r \<Rightarrow> recommends_exactly_one_option_or_declares_insufficiency r) \<and>
     (case md_validation d of None \<Rightarrow> True
      | Some v \<Rightarrow> settled_validation_has_evaluator_and_evidence v) \<and>
     (case md_explanation_preference d of None \<Rightarrow> True | Some p \<Rightarrow> focus_areas_are_unique p)"

fun constructible :: "mission_op \<Rightarrow> bool" where
  "constructible (RecordOrganization emit og) = references_are_complete_and_unambiguous og"
| "constructible (CreateMission m) = mission_record_valid m"
| "constructible (RecordBrief now b n) = brief_valid b"
| "constructible (RecordCrew now c n) = crew_has_one_identity_per_separated_responsibility c"
| "constructible (RecordAssignment a) = assignment_valid a"
| "constructible (Transition now t n) = transition_changes_state t"
| "constructible (RecordRunBinding b) = run_binding_valid b"
| "constructible (RecordRunReport r) = run_report_valid r"
| "constructible (AcceptEnvironmentPlan now e n) = environment_plan_valid (ep_plan e)"
| "constructible (CreateChannel c) = channel_scope_matches_class c"
| "constructible (PostMessage m) = collaborative_purpose_is_attributable m"
| "constructible (RecordDecision d) = decision_valid d"
| "constructible (CreateEscalation e) = escalation_is_actionable e"
| "constructible (ApplyIntervention now i n) = kind_matches_target_and_state i"
| "constructible (RunStep x) = True"

fun perform :: "environment \<Rightarrow> mission_op \<Rightarrow> mission_db \<Rightarrow> mission_db" where
  "perform env (RecordOrganization emit og) db = commit db (record_organization emit og db)"
| "perform env (CreateMission m) db = commit db (create_mission m db)"
| "perform env (RecordBrief now b n) db = commit db (record_brief now b n db)"
| "perform env (RecordCrew now c n) db = commit db (record_crew now c n db)"
| "perform env (RecordAssignment a) db = commit db (record_assignment a db)"
| "perform env (Transition now t n) db = commit db (transition now t n db)"
| "perform env (RecordRunBinding b) db = commit db (record_run_binding b db)"
| "perform env (RecordRunReport r) db = commit db (record_run_report r db)"
| "perform env (AcceptEnvironmentPlan now e n) db = commit db (accept_environment_plan now e n db)"
| "perform env (CreateChannel c) db = commit db (create_channel c db)"
| "perform env (PostMessage m) db = commit db (post_message m db)"
| "perform env (RecordDecision d) db = commit db (record_decision d db)"
| "perform env (CreateEscalation e) db = commit db (create_escalation e db)"
| "perform env (ApplyIntervention now i n) db = commit db (apply_intervention now i n db)"
| "perform env (RunStep x) db = db\<lparr>db_store := step env x (db_store db)\<rparr>"

definition mission_step :: "environment \<Rightarrow> mission_op \<Rightarrow> mission_db \<Rightarrow> mission_db" where
  "mission_step env x db = (if constructible x then perform env x db else db)"

abbreviation after :: "environment \<Rightarrow> mission_op list \<Rightarrow> mission_db" where
  "after env ops \<equiv> run_ops (mission_step env) ops empty_db"

subsection \<open>What a step writes\<close>

lemma mission_event_tables [simp]:
  "db_rosters (mission_event src a t db) = db_rosters db"
  "db_missions (mission_event src a t db) = db_missions db"
  "db_briefs (mission_event src a t db) = db_briefs db"
  "db_crews (mission_event src a t db) = db_crews db"
  "db_assignments (mission_event src a t db) = db_assignments db"
  "db_bindings (mission_event src a t db) = db_bindings db"
  "db_reports (mission_event src a t db) = db_reports db"
  "db_transitions (mission_event src a t db) = db_transitions db"
  "db_environment_plans (mission_event src a t db) = db_environment_plans db"
  "db_channels (mission_event src a t db) = db_channels db"
  "db_messages (mission_event src a t db) = db_messages db"
  "db_decisions (mission_event src a t db) = db_decisions db"
  "db_escalations (mission_event src a t db) = db_escalations db"
  "db_interventions (mission_event src a t db) = db_interventions db"
  "runs (db_store (mission_event src a t db)) = runs (db_store db)"
  "plans (db_store (mission_event src a t db)) = plans (db_store db)"
  "tasks (db_store (mission_event src a t db)) = tasks (db_store db)"
  "results (db_store (mission_event src a t db)) = results (db_store db)"
  "acceptances (db_store (mission_event src a t db)) = acceptances (db_store db)"
  "rejections (db_store (mission_event src a t db)) = rejections (db_store db)"
  by (simp_all add: mission_event_def)

lemma update_mission_row_tables [simp]:
  "db_store (update_mission_row m db) = db_store db"
  "db_rosters (update_mission_row m db) = db_rosters db"
  "db_briefs (update_mission_row m db) = db_briefs db"
  "db_crews (update_mission_row m db) = db_crews db"
  "db_assignments (update_mission_row m db) = db_assignments db"
  "db_bindings (update_mission_row m db) = db_bindings db"
  "db_reports (update_mission_row m db) = db_reports db"
  "db_transitions (update_mission_row m db) = db_transitions db"
  "db_environment_plans (update_mission_row m db) = db_environment_plans db"
  "db_channels (update_mission_row m db) = db_channels db"
  "db_messages (update_mission_row m db) = db_messages db"
  "db_decisions (update_mission_row m db) = db_decisions db"
  "db_escalations (update_mission_row m db) = db_escalations db"
  "db_interventions (update_mission_row m db) = db_interventions db"
  "db_missions (update_mission_row m db) =
     tbl_upd mr_mission_id (mr_mission_id m) (\<lambda>_. m) (db_missions db)"
  by (simp_all add: update_mission_row_def)

text \<open>The successor of a mission row: the same mission one revision later.\<close>

definition succeeds :: "mission_record \<Rightarrow> mission_record \<Rightarrow> bool" where
  "succeeds m m' \<longleftrightarrow>
     mr_mission_id m' = mr_mission_id m \<and> mr_origin m' = mr_origin m \<and>
     mr_organization_id m' = mr_organization_id m \<and>
     mr_organization_version m' = mr_organization_version m \<and>
     mr_created_at m' = mr_created_at m \<and> mr_revision m' = mr_revision m + 1 \<and>
     (terminal_mission (mr_state m) \<longrightarrow> mr_state m' = mr_state m) \<and>
     (mr_current_brief_version m \<noteq> None \<longrightarrow> mr_current_brief_version m' \<noteq> None)"

inductive writes :: "environment \<Rightarrow> mission_db \<Rightarrow> mission_db \<Rightarrow> bool" for env where
  WNone: "writes env db db"
| WRun: "writes env db (db\<lparr>db_store := step env x (db_store db)\<rparr>)"
| WOrganizationQuiet:
    "tbl_get roster_key (roster_key og) (db_rosters db) = None \<Longrightarrow>
     references_are_complete_and_unambiguous og \<Longrightarrow>
     writes env db (db\<lparr>db_rosters := db_rosters db @ [og]\<rparr>)"
| WOrganization:
    "tbl_get roster_key (roster_key og) (db_rosters db) = None \<Longrightarrow>
     references_are_complete_and_unambiguous og \<Longrightarrow>
     writes env db (mission_event src a t (db\<lparr>db_rosters := db_rosters db @ [og]\<rparr>))"
| WMission:
    "get_mission db (mr_mission_id m) = None \<Longrightarrow> mr_revision m = 1 \<Longrightarrow> mr_state m = MProposed \<Longrightarrow>
     writes env db (mission_event src a t (db\<lparr>db_missions := db_missions db @ [m]\<rparr>))"
| WBrief:
    "tbl_get mb_brief_id (mb_brief_id b) (db_briefs db) = None \<Longrightarrow> brief_valid b \<Longrightarrow>
     get_mission db (mb_mission_id b) = Some m \<Longrightarrow> check_brief b m db = Inr () \<Longrightarrow>
     m' = m\<lparr>mr_revision := mr_revision m + 1, mr_state := MClarifying,
            mr_current_brief_version := Some (mb_version b), mr_updated_at := now\<rparr> \<Longrightarrow>
     writes env db (mission_event src a t
       (update_mission_row m' (db\<lparr>db_briefs := db_briefs db @ [b]\<rparr>)))"
| WCrew:
    "tbl_get cr_crew_id (cr_crew_id c) (db_crews db) = None \<Longrightarrow>
     crew_has_one_identity_per_separated_responsibility c \<Longrightarrow>
     get_mission db (cr_mission_id c) = Some m \<Longrightarrow> check_crew c m db = Inr () \<Longrightarrow>
     m' = m\<lparr>mr_revision := mr_revision m + 1, mr_current_crew_version := Some (cr_version c),
            mr_updated_at := now\<rparr> \<Longrightarrow>
     writes env db (mission_event src a t
       (update_mission_row m' (db\<lparr>db_crews := db_crews db @ [c]\<rparr>)))"
| WAssignment:
    "tbl_get mta_assignment_id (mta_assignment_id g) (db_assignments db) = None \<Longrightarrow>
     assignment_valid g \<Longrightarrow> check_assignment g db = Inr () \<Longrightarrow>
     writes env db (mission_event src a t (db\<lparr>db_assignments := db_assignments db @ [g]\<rparr>))"
| WTransition:
    "tbl_get tn_transition_id (tn_transition_id n) (db_transitions db) = None \<Longrightarrow>
     get_mission db (tn_mission_id n) = Some m \<Longrightarrow> check_transition n m db = Inr () \<Longrightarrow>
     m' = m\<lparr>mr_state := tn_to_state n, mr_revision := mr_revision m + 1, mr_updated_at := now\<rparr> \<Longrightarrow>
     writes env db (mission_event src a t
       ((update_mission_row m' db)\<lparr>db_transitions := db_transitions db @ [n]\<rparr>))"
| WBinding:
    "tbl_get rb_binding_id (rb_binding_id b) (db_bindings db) = None \<Longrightarrow> run_binding_valid b \<Longrightarrow>
     check_binding b db = Inr () \<Longrightarrow>
     writes env db (mission_event src a t (db\<lparr>db_bindings := db_bindings db @ [b]\<rparr>))"
| WReport:
    "tbl_get rp_report_id (rp_report_id r) (db_reports db) = None \<Longrightarrow> run_report_valid r \<Longrightarrow>
     check_report r db = Inr () \<Longrightarrow>
     writes env db (mission_event src a t (db\<lparr>db_reports := db_reports db @ [r]\<rparr>))"
| WEnvironmentPlan:
    "tbl_get (\<lambda>e. en_plan_id (ep_plan e)) (en_plan_id (ep_plan e)) (db_environment_plans db) = None \<Longrightarrow>
     get_mission db (en_plan_mission_id (ep_plan e)) = Some m \<Longrightarrow>
     check_environment_plan (ep_plan e) m db = Inr () \<Longrightarrow>
     m' = m\<lparr>mr_revision := mr_revision m + 1,
            mr_current_environment_plan_version := Some (en_version (ep_plan e)),
            mr_updated_at := now\<rparr> \<Longrightarrow>
     writes env db (mission_event src a t
       ((update_mission_row m' db)\<lparr>db_environment_plans := db_environment_plans db @ [e]\<rparr>))"
| WChannel:
    "tbl_get ch_conversation_id (ch_conversation_id c) (db_channels db) = None \<Longrightarrow>
     channel_scope_matches_class c \<Longrightarrow> check_channel c db = Inr () \<Longrightarrow>
     writes env db (mission_event src a t (db\<lparr>db_channels := db_channels db @ [c]\<rparr>))"
| WMessage:
    "tbl_get mm_message_id (mm_message_id g) (db_messages db) = None \<Longrightarrow> check_message g db = Inr () \<Longrightarrow>
     writes env db (mission_event src a t (db\<lparr>db_messages := db_messages db @ [g]\<rparr>))"
| WDecision:
    "tbl_get md_decision_id (md_decision_id d) (db_decisions db) = None \<Longrightarrow> decision_valid d \<Longrightarrow>
     require_decision_lineage d db = Inr () \<Longrightarrow>
     writes env db (mission_event src a t (db\<lparr>db_decisions := db_decisions db @ [d]\<rparr>))"
| WEscalation:
    "tbl_get es_escalation_id (es_escalation_id e) (db_escalations db) = None \<Longrightarrow>
     escalation_is_actionable e \<Longrightarrow> es_state e = EscalationOpen \<Longrightarrow>
     writes env db (mission_event src a t (db\<lparr>db_escalations := db_escalations db @ [e]\<rparr>))"
| WIntervention:
    "tbl_get iv_intervention_id (iv_intervention_id i) (db_interventions db) = None \<Longrightarrow>
     kind_matches_target_and_state i \<Longrightarrow> iv_schema_version i = Intervention_1_1 \<Longrightarrow>
     get_mission db (iv_mission_id i) = Some m \<Longrightarrow> check_intervention i db = Inr () \<Longrightarrow>
     answer_escalation now i db = Inr (db\<lparr>db_escalations := es\<rparr>) \<Longrightarrow>
     transition_state m i = Inr next_state \<Longrightarrow>
     m' = m\<lparr>mr_state := (case next_state of None \<Rightarrow> mr_state m | Some st \<Rightarrow> st),
            mr_revision := mr_revision m + 1, mr_updated_at := now\<rparr> \<Longrightarrow>
     writes env db (mission_event src a t
       ((update_mission_row m' (db\<lparr>db_escalations := es\<rparr>))
          \<lparr>db_interventions := db_interventions db @ [i]\<rparr>))"

lemma idempotent_Inr:
  "idempotent_write e w db = Inr (db', x) \<longleftrightarrow> e = w \<and> db' = db \<and> x = w"
  "idempotent_record e w db = Inr (db', x) \<longleftrightarrow> e = w \<and> db' = db \<and> x = w"
  by (auto simp: idempotent_write_def idempotent_record_def ebind_Inr_iff)

lemma require_mission_Inr:
  "require_mission db k = Inr m \<longleftrightarrow> get_mission db k = Some m \<and> advanced_states_have_a_brief m"
  by (auto simp: require_mission_def require_mission_row_def read_mission_def ebind_Inr_iff)

lemma answer_escalation_Inr:
  "answer_escalation now i db = Inr db' \<Longrightarrow> \<exists>es. db' = db\<lparr>db_escalations := es\<rparr>"
  by (rule exI [of _ "db_escalations db'"])
    (auto simp: answer_escalation_def ebind_Inr_iff read_escalation_def Let_def
      split: option.splits if_splits)

lemmas op_defs = record_organization_def create_mission_def record_brief_def record_crew_def
  record_assignment_def transition_def record_run_binding_def record_run_report_def
  accept_environment_plan_def create_channel_def post_message_def record_decision_def
  create_escalation_def apply_intervention_def

lemma commit_write:
  "(\<And>db' r. x = Inr (db', r) \<Longrightarrow> writes env db db') \<Longrightarrow> writes env db (commit db x)"
  by (rule commit_keeps [where P = "writes env db"]) (auto intro: WNone)

lemmas op_Inr = Let_def ebind_Inr_iff idempotent_Inr require_mission_Inr require_revision_def

lemma record_organization_writes:
  "record_organization emit og db = Inr (db', x) \<Longrightarrow> references_are_complete_and_unambiguous og \<Longrightarrow>
   writes env db db'"
  by (auto simp: record_organization_def op_Inr intro: writes.intros split: option.splits if_splits)

lemma create_mission_writes:
  "create_mission m db = Inr (db', x) \<Longrightarrow> writes env db db'"
  by (auto simp: create_mission_def op_Inr intro: WNone WMission split: option.splits if_splits)

lemma record_brief_writes:
  "record_brief now b n db = Inr (db', x) \<Longrightarrow> brief_valid b \<Longrightarrow> writes env db db'"
  by (auto simp: record_brief_def op_Inr intro: WNone WBrief split: option.splits)

lemma record_crew_writes:
  "record_crew now c n db = Inr (db', x) \<Longrightarrow> crew_has_one_identity_per_separated_responsibility c \<Longrightarrow>
   writes env db db'"
  by (auto simp: record_crew_def op_Inr intro: WNone WCrew split: option.splits)

lemma record_assignment_writes:
  "record_assignment g db = Inr (db', x) \<Longrightarrow> assignment_valid g \<Longrightarrow> writes env db db'"
  by (auto simp: record_assignment_def op_Inr intro: WNone WAssignment split: option.splits)

lemma transition_writes: "transition now t n db = Inr (db', x) \<Longrightarrow> writes env db db'"
  by (auto simp: transition_def op_Inr intro: WNone WTransition split: option.splits)

lemma record_run_binding_writes:
  "record_run_binding b db = Inr (db', x) \<Longrightarrow> run_binding_valid b \<Longrightarrow> writes env db db'"
  by (auto simp: record_run_binding_def op_Inr intro: WNone WBinding split: option.splits)

lemma record_run_report_writes:
  "record_run_report r db = Inr (db', x) \<Longrightarrow> run_report_valid r \<Longrightarrow> writes env db db'"
  by (auto simp: record_run_report_def op_Inr intro: WNone WReport split: option.splits)

lemma accept_environment_plan_writes:
  "accept_environment_plan now e n db = Inr (db', x) \<Longrightarrow> writes env db db'"
  by (auto simp: accept_environment_plan_def op_Inr intro: WNone WEnvironmentPlan split: option.splits)

lemma create_channel_writes:
  "create_channel c db = Inr (db', x) \<Longrightarrow> channel_scope_matches_class c \<Longrightarrow> writes env db db'"
  by (auto simp: create_channel_def op_Inr intro: WNone WChannel split: option.splits)

lemma post_message_writes: "post_message g db = Inr (db', x) \<Longrightarrow> writes env db db'"
  by (auto simp: post_message_def op_Inr intro: WNone WMessage split: option.splits)

lemma record_decision_writes:
  "record_decision d db = Inr (db', x) \<Longrightarrow> decision_valid d \<Longrightarrow> writes env db db'"
  by (auto simp: record_decision_def op_Inr intro: WNone WDecision split: option.splits)

lemma create_escalation_writes:
  "create_escalation e db = Inr (db', x) \<Longrightarrow> escalation_is_actionable e \<Longrightarrow> writes env db db'"
  by (auto simp: create_escalation_def op_Inr intro: WNone WEscalation split: option.splits if_splits)

lemma apply_intervention_writes:
  assumes "apply_intervention now i n db = Inr (db', x)" and "kind_matches_target_and_state i"
  shows "writes env db db'"
proof (cases "tbl_get iv_intervention_id (iv_intervention_id i) (db_interventions db)")
  case None
  then obtain m d st where *: "iv_schema_version i = Intervention_1_1"
      "get_mission db (iv_mission_id i) = Some m" "check_intervention i db = Inr ()"
      "answer_escalation now i db = Inr d" "transition_state m i = Inr st"
      "db' = conversations_event (iv_mission_id i) ''mission.intervention_applied''
         ((update_mission_row
             (m\<lparr>mr_state := (case st of None \<Rightarrow> mr_state m | Some s \<Rightarrow> s),
                mr_revision := mr_revision m + 1, mr_updated_at := now\<rparr>) d)
            \<lparr>db_interventions := db_interventions d @ [i]\<rparr>)"
    using assms(1) by (auto simp: apply_intervention_def op_Inr split: if_splits)
  moreover obtain es where "d = db\<lparr>db_escalations := es\<rparr>"
    using *(4) answer_escalation_Inr by blast
  ultimately show ?thesis
    using WIntervention [OF None assms(2), of m now es st] by simp
next
  case (Some e)
  then show ?thesis
    using assms(1) by (auto simp: apply_intervention_def op_Inr intro: WNone split: if_splits)
qed

lemmas op_writes = record_organization_writes create_mission_writes record_brief_writes
  record_crew_writes record_assignment_writes transition_writes record_run_binding_writes
  record_run_report_writes accept_environment_plan_writes create_channel_writes
  post_message_writes record_decision_writes create_escalation_writes apply_intervention_writes

lemma mission_step_writes: "writes env db (mission_step env x db)"
proof (cases "constructible x")
  case True
  then show ?thesis
    by (cases x) (auto simp: mission_step_def intro: op_writes commit_write WRun)
next
  case False
  then show ?thesis by (simp add: mission_step_def WNone)
qed

end
