(* ===== verification/MissionInvariant.thy ===== *)
theory MissionInvariant
  imports MissionMachine "HOL-Library.Sublist"
begin

section \<open>What the mission database keeps\<close>

text \<open>
  The invariants of the mission machine, each over the tables it concerns and proved by cases on
  \<open>writes\<close>: the history of the missions (what may change and what is append-only), the run bindings
  (lineage, settlement, acyclic dependencies, durable evidence), the decisions (one settlement) and
  the interventions (their order per target).
\<close>

subsection \<open>History\<close>

definition mission_leq :: "mission_record \<Rightarrow> mission_record \<Rightarrow> bool" where
  "mission_leq m m' \<longleftrightarrow>
     mr_mission_id m' = mr_mission_id m \<and> mr_origin m' = mr_origin m \<and>
     mr_organization_id m' = mr_organization_id m \<and>
     mr_organization_version m' = mr_organization_version m \<and>
     mr_created_at m' = mr_created_at m \<and> mr_revision m \<le> mr_revision m' \<and>
     (mr_revision m' = mr_revision m \<longrightarrow> m' = m) \<and>
     (terminal_mission (mr_state m) \<longrightarrow> mr_state m' = mr_state m) \<and>
     (mr_current_brief_version m \<noteq> None \<longrightarrow> mr_current_brief_version m' \<noteq> None)"

definition append_only :: "mission_db \<Rightarrow> mission_db \<Rightarrow> bool" where
  "append_only db db' \<longleftrightarrow>
     prefix (db_rosters db) (db_rosters db') \<and> prefix (db_briefs db) (db_briefs db') \<and>
     prefix (db_crews db) (db_crews db') \<and> prefix (db_assignments db) (db_assignments db') \<and>
     prefix (db_bindings db) (db_bindings db') \<and> prefix (db_reports db) (db_reports db') \<and>
     prefix (db_transitions db) (db_transitions db') \<and>
     prefix (db_environment_plans db) (db_environment_plans db') \<and>
     prefix (db_channels db) (db_channels db') \<and> prefix (db_messages db) (db_messages db') \<and>
     prefix (db_decisions db) (db_decisions db') \<and>
     prefix (db_interventions db) (db_interventions db')"

definition mission_history :: "mission_db \<Rightarrow> mission_db \<Rightarrow> bool" where
  "mission_history db db' \<longleftrightarrow>
     evolves (db_store db) (db_store db') \<and>
     rows_leq mission_leq (db_missions db) (db_missions db') \<and> append_only db db'"

definition rows_wf :: "mission_db \<Rightarrow> bool" where
  "rows_wf db \<longleftrightarrow> run_wf (db_store db) \<and> tbl_wf mr_mission_id (db_missions db)"

lemma tbl_wf_inj: "tbl_wf key rows \<Longrightarrow> a \<in> set rows \<Longrightarrow> b \<in> set rows \<Longrightarrow> key a = key b \<Longrightarrow> a = b"
  unfolding distinct_map by (blast dest: inj_onD)

lemma run_wf_event [simp]: "run_wf (db_store (mission_event src a t db)) = run_wf (db_store db)"
  by (rule run_wf_cong) simp_all

lemma evolves_event [simp]: "evolves (db_store db) (db_store (mission_event src a t db'))
    \<longleftrightarrow> evolves (db_store db) (db_store db')"
  by (simp add: evolves_def)

lemma mission_leq_refl [simp]: "mission_leq m m"
  by (simp add: mission_leq_def)

lemma mission_leq_trans: "mission_leq a b \<Longrightarrow> mission_leq b c \<Longrightarrow> mission_leq a c"
  by (auto simp: mission_leq_def)

lemma succeeds_leq: "succeeds m m' \<Longrightarrow> mission_leq m m'"
  by (simp add: succeeds_def mission_leq_def)

lemma get_mission_SomeD:
  "get_mission db k = Some m \<Longrightarrow> m \<in> set (db_missions db) \<and> mr_mission_id m = k"
  unfolding get_mission_def by (drule tbl_get_SomeD) simp

lemma missions_upd_keys:
  "mr_mission_id m' = k \<Longrightarrow>
   map mr_mission_id (tbl_upd mr_mission_id k (\<lambda>_. m') rows) = map mr_mission_id rows"
  by (simp add: tbl_upd_def)

lemma missions_upd_leq:
  assumes "tbl_wf mr_mission_id rows" and "m \<in> set rows" and "mission_leq m m'"
    and "mr_mission_id m' = mr_mission_id m"
  shows "rows_leq mission_leq rows (tbl_upd mr_mission_id (mr_mission_id m) (\<lambda>_. m') rows)"
  unfolding rows_leq_def
proof
  fix x assume x: "x \<in> set rows"
  show "\<exists>y \<in> set (tbl_upd mr_mission_id (mr_mission_id m) (\<lambda>_. m') rows). mission_leq x y"
  proof (cases "mr_mission_id x = mr_mission_id m")
    case True
    then have "x = m" by (rule tbl_wf_inj [OF assms(1) x assms(2)])
    then show ?thesis using assms(3) x by (force simp: set_tbl_upd)
  next
    case False
    then show ?thesis using x by (force simp: set_tbl_upd)
  qed
qed

text \<open>A mission row is only ever replaced by its successor, under its own key.\<close>

lemma check_transition_succeeds:
  "check_transition n m db = Inr () \<Longrightarrow>
   succeeds m (m\<lparr>mr_state := tn_to_state n, mr_revision := mr_revision m + 1, mr_updated_at := now\<rparr>)"
  by (cases "mr_state m")
    (auto simp: check_transition_def succeeds_def terminal_mission_def ebind_Inr_iff)

lemma transition_state_succeeds:
  "transition_state m i = Inr st \<Longrightarrow>
   succeeds m (m\<lparr>mr_state := (case st of None \<Rightarrow> mr_state m | Some s \<Rightarrow> s),
                 mr_revision := mr_revision m + 1, mr_updated_at := now\<rparr>)"
  by (auto simp: transition_state_def succeeds_def ebind_Inr_iff split: option.splits if_splits)

lemma check_brief_succeeds:
  "check_brief b m db = Inr () \<Longrightarrow>
   succeeds m (m\<lparr>mr_revision := mr_revision m + 1, mr_state := MClarifying,
                 mr_current_brief_version := Some v, mr_updated_at := now\<rparr>)"
  by (simp add: check_brief_def succeeds_def ebind_Inr_iff)

lemma writes_missions:
  assumes "writes env db db'"
  obtains (same) "db_missions db' = db_missions db"
  | (new) m where "db_missions db' = db_missions db @ [m]" "get_mission db (mr_mission_id m) = None"
      "mr_revision m = 1" "mr_state m = MProposed"
  | (upd) m m' where "get_mission db (mr_mission_id m) = Some m" "succeeds m m'"
      "db_missions db' = tbl_upd mr_mission_id (mr_mission_id m) (\<lambda>_. m') (db_missions db)"
  using assms
proof cases
  case (WBrief b m m' now)
  then show ?thesis
    using upd [of m m'] check_brief_succeeds get_mission_SomeD [of db "mb_mission_id b" m] by auto
next
  case (WCrew c m m' now)
  then show ?thesis
    using upd [of m m'] get_mission_SomeD [of db "cr_mission_id c" m] by (auto simp: succeeds_def)
next
  case (WTransition n m m' now)
  then show ?thesis
    using upd [of m m'] check_transition_succeeds get_mission_SomeD [of db "tn_mission_id n" m] by auto
next
  case (WEnvironmentPlan e m m' now)
  then show ?thesis
    using upd [of m m'] get_mission_SomeD [of db "en_plan_mission_id (ep_plan e)" m]
    by (auto simp: succeeds_def)
next
  case (WIntervention i m now es next_state m')
  then show ?thesis
    using upd [of m m'] transition_state_succeeds get_mission_SomeD [of db "iv_mission_id i" m] by auto
next
  case (WMission m)
  then show ?thesis using new [of m] by simp
qed (use same in simp_all)

lemma writes_missions_wf:
  "writes env db db' \<Longrightarrow> tbl_wf mr_mission_id (db_missions db) \<Longrightarrow>
   tbl_wf mr_mission_id (db_missions db')"
  by (cases rule: writes_missions, assumption)
    (auto simp: get_mission_def tbl_get_None_iff missions_upd_keys succeeds_def)

lemma writes_store:
  assumes "writes env db db'"
  obtains (same) "\<And>s. evolves s (db_store db') = evolves s (db_store db)"
      "run_wf (db_store db') = run_wf (db_store db)"
  | (run) x where "db_store db' = step env x (db_store db)"
  using assms
proof cases
  case (WRun x)
  then show ?thesis using run [of x] by simp
qed (rule same; simp add: evolves_def; fail)+

lemma writes_append_only: "writes env db db' \<Longrightarrow> append_only db db'"
  by (cases rule: writes.cases, assumption) (simp_all add: append_only_def)

lemma rows_wf_step: "rows_wf db \<Longrightarrow> rows_wf (mission_step env x db)"
  using mission_step_writes [of env db x] writes_missions_wf writes_store [of env db] step_wf
  unfolding rows_wf_def by metis

lemma mission_history_step: "rows_wf db \<Longrightarrow> mission_history db (mission_step env x db)"
proof -
  assume wf: "rows_wf db"
  let ?db' = "mission_step env x db"
  have w: "writes env db ?db'" by (rule mission_step_writes)
  have "evolves (db_store db) (db_store ?db')"
    using w by (cases rule: writes_store) (use wf in \<open>auto simp: rows_wf_def evolves_refl step_evolves\<close>)
  moreover have "rows_leq mission_leq (db_missions db) (db_missions ?db')"
    using w
  proof (cases rule: writes_missions)
    case (upd m m')
    then show ?thesis
      using missions_upd_leq [of "db_missions db" m m'] wf get_mission_SomeD [OF upd(1)]
        succeeds_leq [OF upd(2)]
      by (simp add: rows_wf_def succeeds_def)
  qed (simp_all add: rows_leq_refl rows_leq_append)
  ultimately show ?thesis using writes_append_only [OF w] by (simp add: mission_history_def)
qed

lemma mission_history_refl: "mission_history db db"
  by (simp add: mission_history_def append_only_def evolves_refl rows_leq_refl)

lemma append_only_trans: "append_only a b \<Longrightarrow> append_only b c \<Longrightarrow> append_only a c"
  unfolding append_only_def by (elim conjE, intro conjI; erule (1) prefix_order.trans)

lemma mission_rows_trans:
  "rows_leq mission_leq xs ys \<Longrightarrow> rows_leq mission_leq ys zs \<Longrightarrow> rows_leq mission_leq xs zs"
  unfolding rows_leq_def using mission_leq_trans by blast

lemma mission_history_trans:
  assumes "mission_history a b" and "mission_history b c"
  shows "mission_history a c"
proof -
  have "evolves (db_store a) (db_store c)"
    using assms unfolding mission_history_def by (elim conjE) (rule evolves_trans)
  moreover have "rows_leq mission_leq (db_missions a) (db_missions c)"
    using assms unfolding mission_history_def by (elim conjE) (rule mission_rows_trans)
  moreover have "append_only a c"
    using assms unfolding mission_history_def by (elim conjE) (rule append_only_trans)
  ultimately show ?thesis by (simp add: mission_history_def)
qed

interpretation missions_history: machine_monotone "mission_step env" rows_wf mission_history for env
  by unfold_locales
    (auto intro: rows_wf_step mission_history_step mission_history_refl mission_history_trans)

lemma rows_wf_empty: "rows_wf empty_db"
  by (simp add: rows_wf_def empty_db_def run_wf_empty)

subsection \<open>Briefs and crews\<close>

text \<open>
  The versions of a mission's Briefs and crews are unique, and a mission that has any of them has a
  current Brief (so that its row can be read in every state).
\<close>

definition has_brief :: "mission_db \<Rightarrow> string \<Rightarrow> bool" where
  "has_brief db k \<longleftrightarrow>
     (\<exists>m \<in> set (db_missions db). mr_mission_id m = k \<and> mr_current_brief_version m \<noteq> None)"

definition versions_wf :: "mission_db \<Rightarrow> bool" where
  "versions_wf db \<longleftrightarrow>
     tbl_wf brief_key (db_briefs db) \<and> tbl_wf crew_key (db_crews db) \<and>
     (\<forall>k \<in> mb_mission_id ` set (db_briefs db) \<union> cr_mission_id ` set (db_crews db). has_brief db k)"

lemma has_brief_mono:
  assumes "mission_history db db'" and "has_brief db k"
  shows "has_brief db' k"
proof -
  obtain m where m: "m \<in> set (db_missions db)" "mr_mission_id m = k" "mr_current_brief_version m \<noteq> None"
    using assms(2) by (auto simp: has_brief_def)
  then obtain m' where "m' \<in> set (db_missions db')" "mission_leq m m'"
    using assms(1) unfolding mission_history_def rows_leq_def by blast
  then show ?thesis using m by (auto simp: has_brief_def mission_leq_def)
qed

lemma writes_versions:
  assumes "writes env db db'"
  obtains (same) "db_briefs db' = db_briefs db" "db_crews db' = db_crews db"
  | (brief) b where "db_briefs db' = db_briefs db @ [b]" "db_crews db' = db_crews db"
      "brief_key b \<notin> brief_key ` set (db_briefs db)" "has_brief db' (mb_mission_id b)"
  | (crew) c where "db_crews db' = db_crews db @ [c]" "db_briefs db' = db_briefs db"
      "crew_key c \<notin> crew_key ` set (db_crews db)" "has_brief db (cr_mission_id c)"
  using assms
proof cases
  case (WBrief b m m' now)
  have m: "m \<in> set (db_missions db)" "mr_mission_id m = mb_mission_id b"
    using get_mission_SomeD [OF WBrief(4)] by auto
  have "m' \<in> set (db_missions db')"
    unfolding WBrief(1,6) using m by (auto simp: set_tbl_upd)
  then have "has_brief db' (mb_mission_id b)"
    using m(2) unfolding has_brief_def by (intro bexI [of _ m']) (simp_all add: WBrief(6))
  moreover have "brief_key b \<notin> brief_key ` set (db_briefs db)"
    using WBrief(5) by (auto simp: check_brief_def ebind_Inr_iff tbl_get_None_iff)
  ultimately show ?thesis using brief [of b] by (simp add: WBrief(1))
next
  case (WCrew c m m' now)
  have "mr_current_brief_version m = Some (cr_brief_version c)"
      and "crew_key c \<notin> crew_key ` set (db_crews db)"
    using WCrew(5) by (auto simp: check_crew_def ebind_Inr_iff tbl_get_None_iff)
  moreover have "m \<in> set (db_missions db)" "mr_mission_id m = cr_mission_id c"
    using get_mission_SomeD [OF WCrew(4)] by auto
  ultimately show ?thesis using crew [of c] by (auto simp: WCrew(1) has_brief_def)
qed (rule same; simp; fail)+

lemma versions_wf_step:
  assumes wf: "versions_wf db" and rows: "rows_wf db"
  shows "versions_wf (mission_step env x db)"
proof -
  have hist: "mission_history db (mission_step env x db)" by (rule mission_history_step [OF rows])
  from mission_step_writes [of env db x] show ?thesis
  proof (cases rule: writes_versions)
    case same
    then show ?thesis using wf has_brief_mono [OF hist] by (simp add: versions_wf_def)
  next
    case (brief b)
    then show ?thesis using wf has_brief_mono [OF hist] by (auto simp: versions_wf_def)
  next
    case (crew c)
    then show ?thesis using wf has_brief_mono [OF hist] by (auto simp: versions_wf_def)
  qed
qed

interpretation versions_machine:
  machine_invariant "mission_step env" "\<lambda>db. rows_wf db \<and> versions_wf db" for env
  by unfold_locales (simp add: rows_wf_step versions_wf_step)

lemma versions_wf_empty: "versions_wf empty_db"
  by (simp add: versions_wf_def empty_db_def)

end
