(* ===== verification/MissionBindings.thy ===== *)
theory MissionBindings
  imports MissionInvariant
begin

section \<open>Run bindings\<close>

text \<open>
  The invariant of the run bindings of the missions: a binding key has a pending revision and at
  most one settled one with the same lineage, the newest bindings of a mission form an acyclic
  closed graph, and an accepted binding is backed by the durable evidence of the run repository.
\<close>

subsection \<open>The newest row\<close>

lemma newest_SomeD:
  "newest rv rows = Some a \<Longrightarrow> a \<in> set rows \<and> (\<forall>b \<in> set rows. rv b \<le> rv a)"
proof (cases rows)
  case (Cons r rs)
  moreover assume "newest rv rows = Some a"
  ultimately show ?thesis using fold_max_rv [of rv rs r] by (simp add: newest_def)
qed (simp add: newest_def)

lemma newest_None_iff [simp]: "newest rv rows = None \<longleftrightarrow> rows = []"
  by (simp add: newest_def split: list.split)

lemma latest_by_newest:
  "map_of (latest_by key rv [] rows) k = newest rv (filter (\<lambda>a. key a = k) rows)"
  using latest_by_get_None [of "[]" k key rv rows] by (simp add: newest_def split: list.split)

lemma latest_by_snoc:
  "latest_by key rv acc (xs @ [b]) =
     (case map_of (latest_by key rv acc xs) (key b) of
        None \<Rightarrow> AList.update (key b) b (latest_by key rv acc xs)
      | Some c \<Rightarrow> if rv c < rv b then AList.update (key b) b (latest_by key rv acc xs)
                  else latest_by key rv acc xs)"
  by (induction xs arbitrary: acc) (simp_all split: option.split)

lemma map_update_snd:
  "map (\<lambda>(k, v). (k, f v)) (AList.update k v l) = AList.update k (f v) (map (\<lambda>(k, v). (k, f v)) l)"
  by (induction l) auto

subsection \<open>The invariant\<close>

abbreviation revision_key :: "mission_run_binding \<Rightarrow> string \<times> string \<times> int" where
  "revision_key b \<equiv> (rb_mission_id b, rb_binding_key b, rb_binding_revision b)"

definition settles_pending :: "mission_run_binding list \<Rightarrow> mission_run_binding \<Rightarrow> bool" where
  "settles_pending bs b \<longleftrightarrow>
     rb_binding_revision b = 2 \<and> rb_acceptance b \<noteq> BindingPending \<and>
     (\<exists>p \<in> set bs. binding_lineage p b \<and> rb_binding_revision p = 1 \<and>
        rb_acceptance p = BindingPending)"

definition bindings_chained :: "mission_run_binding list \<Rightarrow> bool" where
  "bindings_chained bs \<longleftrightarrow>
     distinct (map revision_key bs) \<and>
     (\<forall>b \<in> set bs. rb_binding_revision b = 1 \<or> settles_pending bs b)"

definition mission_graph :: "mission_run_binding list \<Rightarrow> string \<Rightarrow> (string \<times> string list) list" where
  "mission_graph bs k = binding_graph (latest_bindings (filter (\<lambda>b. rb_mission_id b = k) bs))"

definition bindings_acyclic :: "mission_run_binding list \<Rightarrow> bool" where
  "bindings_acyclic bs \<longleftrightarrow>
     (\<forall>k. closed_graph (mission_graph bs k) \<and> acyclic (graph_edges (mission_graph bs k)))"

text \<open>The durable evidence of an accepted binding, in the tables of the run repository.\<close>

definition evidenced :: "store \<Rightarrow> mission_task_assignment list \<Rightarrow> mission_run_binding \<Rightarrow> bool" where
  "evidenced s gs b \<longleftrightarrow>
     (\<exists>p \<in> set (plans s). pl_run_id p = rb_run_id b \<and>
        rb_plan_fingerprint b = Some (ap_fingerprint (pl_payload p)) \<and>
        rb_execution_task_id b \<in> pt_task_id ` set (plan_tasks (pl_payload p)) \<and>
        (\<exists>og. ap_organization_binding (pl_payload p) = Some og \<and>
           pob_mission_id og = Some (rb_mission_id b))) \<and>
     (rb_acceptance b = BindingAccepted \<longrightarrow>
        (rb_run_id b, rb_execution_task_id b) \<in> result_key ` set (results s) \<and>
        (\<exists>a \<in> set (acceptances s). \<exists>g \<in> set gs.
           acceptance_key a = (rb_run_id b, rb_execution_task_id b) \<and>
           rb_assignment_id b = Some (mta_assignment_id g) \<and>
           mta_task_id g = rb_mission_task_id b \<and>
           rd_producer_identity (ac_review a) = Some (mta_accountable_owner g)))"

definition bindings_evidenced :: "mission_db \<Rightarrow> bool" where
  "bindings_evidenced db \<longleftrightarrow>
     (\<forall>b \<in> set (db_bindings db). evidenced (db_store db) (db_assignments db) b)"

subsection \<open>A new binding\<close>

lemma require_run_binding_transition_Inr:
  "require_run_binding_transition p b = Inr () \<longleftrightarrow>
     binding_lineage p b \<and> rb_acceptance p = BindingPending \<and> rb_acceptance b \<noteq> BindingPending"
  by (auto simp: require_run_binding_transition_def ebind_Inr_iff)

lemma bindings_chained_snoc:
  assumes chained: "bindings_chained (db_bindings db)" and check: "check_binding_revision b db = Inr ()"
  shows "bindings_chained (db_bindings db @ [b])"
    and "\<forall>c \<in> set (db_bindings db). rb_mission_id c = rb_mission_id b \<and>
           rb_binding_key c = rb_binding_key b \<longrightarrow> rb_binding_revision c < rb_binding_revision b"
proof -
  let ?bs = "db_bindings db" and ?rows = "key_rows db (rb_mission_id b) (rb_binding_key b)"
  have in_rows: "c \<in> set ?rows \<longleftrightarrow> c \<in> set ?bs \<and> rb_mission_id c = rb_mission_id b \<and>
      rb_binding_key c = rb_binding_key b" for c by (auto simp: key_rows_def)
  have old: "\<forall>c \<in> set (?bs @ [b]). c \<in> set ?bs \<longrightarrow> rb_binding_revision c = 1 \<or>
      settles_pending (?bs @ [b]) c"
    using chained by (auto simp: bindings_chained_def settles_pending_def)
  have "(\<forall>c \<in> set ?rows. rb_binding_revision c < rb_binding_revision b) \<and>
      (rb_binding_revision b = 1 \<or> settles_pending (?bs @ [b]) b)"
  proof (cases "newest rb_binding_revision ?rows")
    case None
    then have "?rows = []" by simp
    moreover have "rb_binding_revision b = 1"
      using check None
      by (simp add: check_binding_revision_def Let_def ebind_Inr_iff del: newest_None_iff)
    ultimately show ?thesis by simp
  next
    case (Some p)
    have p: "rb_binding_revision b = 1 + rb_binding_revision p" "binding_lineage p b"
        "rb_acceptance p = BindingPending" "rb_acceptance b \<noteq> BindingPending"
      using check Some by (simp_all add: check_binding_revision_def Let_def ebind_Inr_iff
          require_run_binding_transition_Inr)
    have max: "p \<in> set ?rows" "\<forall>c \<in> set ?rows. rb_binding_revision c \<le> rb_binding_revision p"
      using newest_SomeD [OF Some] by auto
    moreover have "rb_binding_revision p = 1"
      using chained max(1) p(3) unfolding in_rows bindings_chained_def settles_pending_def by blast
    ultimately show ?thesis
      using p unfolding settles_pending_def in_rows by (auto simp: key_rows_def)
  qed
  then have rows: "\<forall>c \<in> set ?rows. rb_binding_revision c < rb_binding_revision b"
    and new: "rb_binding_revision b = 1 \<or> settles_pending (?bs @ [b]) b" by auto
  show less: "\<forall>c \<in> set ?bs. rb_mission_id c = rb_mission_id b \<and>
      rb_binding_key c = rb_binding_key b \<longrightarrow> rb_binding_revision c < rb_binding_revision b"
  proof (intro ballI impI)
    fix c assume "c \<in> set ?bs" and "rb_mission_id c = rb_mission_id b \<and> rb_binding_key c = rb_binding_key b"
    then have "c \<in> set ?rows" by (simp add: in_rows)
    then show "rb_binding_revision c < rb_binding_revision b" using rows by blast
  qed
  have "revision_key b \<notin> revision_key ` set ?bs"
  proof
    assume "revision_key b \<in> revision_key ` set ?bs"
    then obtain c where "c \<in> set ?bs" and "revision_key b = revision_key c" by blast
    moreover from this have "rb_binding_revision c < rb_binding_revision b"
      using bspec [OF less, of c] by simp
    ultimately show False by simp
  qed
  then have "distinct (map revision_key (?bs @ [b]))"
    using chained by (simp add: bindings_chained_def)
  then show "bindings_chained (?bs @ [b])"
    using old new by (simp add: bindings_chained_def)
qed

lemma binding_graph_update:
  "binding_graph (AList.update k b l) =
     AList.update k (rb_depends_on_binding_keys b) (binding_graph l)"
  unfolding binding_graph_def by (rule map_update_snd)

lemma nodes_binding_graph: "nodes_of (binding_graph l) = fst ` set l"
  by (force simp: binding_graph_def)

lemma with_leaves_closed:
  assumes "closed_graph g" and "distinct (map fst g)"
  shows "with_leaves g = g"
proof -
  have "map_of g y \<noteq> None" if "(x, ds) \<in> set g" "y \<in> set ds" for x ds y
  proof -
    have "x \<in> nodes_of g" using that(1) by force
    then have "deps_of g x \<subseteq> nodes_of g" using assms(1) unfolding closed_graph_def by blast
    moreover have "y \<in> deps_of g x" using that assms(2) by (simp add: deps_of_def)
    ultimately show ?thesis unfolding map_of_eq_None_iff by blast
  qed
  then have "filter (\<lambda>k. map_of g k = None) (concat (map snd g)) = []"
    by (auto simp: filter_empty_conv)
  then show ?thesis by (simp add: with_leaves_def)
qed

lemma closed_graph_update:
  assumes "closed_graph g" and "set ds \<subseteq> nodes_of g"
  shows "closed_graph (AList.update k ds g)"
  using assms by (auto simp: closed_graph_def deps_of_def update_conv' dom_update)

lemma bindings_acyclic_snoc:
  assumes acyclic: "bindings_acyclic (db_bindings db)"
    and check: "require_run_binding_dependencies b db = Inr ()"
    and newer: "\<forall>c \<in> set (db_bindings db). rb_mission_id c = rb_mission_id b \<and>
           rb_binding_key c = rb_binding_key b \<longrightarrow> rb_binding_revision c < rb_binding_revision b"
  shows "bindings_acyclic (db_bindings db @ [b])"
  unfolding bindings_acyclic_def
proof
  fix k
  show "closed_graph (mission_graph (db_bindings db @ [b]) k) \<and>
      acyclic (graph_edges (mission_graph (db_bindings db @ [b]) k))"
  proof (cases "k = rb_mission_id b")
    case False
    then have "mission_graph (db_bindings db @ [b]) k = mission_graph (db_bindings db) k"
      by (simp add: mission_graph_def)
    then show ?thesis using acyclic by (simp add: bindings_acyclic_def)
  next
    case True
    let ?rows = "mission_bindings db (rb_mission_id b)"
    let ?l = "latest_bindings ?rows" and ?ds = "rb_depends_on_binding_keys b"
    let ?g = "AList.update (rb_binding_key b) ?ds (binding_graph ?l)"
    have "rb_binding_revision c < rb_binding_revision b" if "map_of ?l (rb_binding_key b) = Some c" for c
      using latest_by_Some [OF that [unfolded latest_bindings_def]] newer
      by (simp add: mission_bindings_def)
    then have "latest_bindings (?rows @ [b]) = AList.update (rb_binding_key b) b ?l"
      by (simp add: latest_bindings_def latest_by_snoc split: option.split)
    then have g: "mission_graph (db_bindings db @ [b]) k = ?g"
      using True by (simp add: mission_graph_def mission_bindings_def binding_graph_update)
    have old: "mission_graph (db_bindings db) k = binding_graph ?l"
      using True by (simp add: mission_graph_def mission_bindings_def)
    have ds: "set ?ds \<subseteq> nodes_of (binding_graph ?l)"
      using check by (simp add: require_run_binding_dependencies_def Let_def ebind_Inr_iff nodes_binding_graph)
    have closed: "closed_graph ?g"
      by (rule closed_graph_update [OF _ ds])
        (use acyclic in \<open>simp add: bindings_acyclic_def flip: old\<close>)
    have "distinct (map fst (binding_graph ?l))"
      using latest_by_distinct [of "[]" rb_binding_key rb_binding_revision ?rows]
      by (simp add: binding_graph_def latest_bindings_def case_prod_beta comp_def)
    then have "distinct (map fst ?g)" by (rule distinct_update)
    then have leaves: "with_leaves ?g = ?g" by (rule with_leaves_closed [OF closed])
    let ?cyc = "MishkanError PLAN ''mission run dependencies contain a cycle''"
    obtain v where "dfs_all ?cyc KeyError ?g [] [] (map fst ?g) = Inr v"
      using check unfolding require_run_binding_dependencies_def Let_def ebind_Inr_iff leaves by auto
    then have "acyclic (graph_edges ?g)"
      using dfs_cycle_iff [OF closed, of ?cyc KeyError ?cyc] by auto
    then show ?thesis using closed g by simp
  qed
qed

lemma evidenced_mono:
  assumes "evidenced s gs b" and "set (plans s) \<subseteq> set (plans s')"
    and "set (results s) \<subseteq> set (results s')" and "set (acceptances s) \<subseteq> set (acceptances s')"
    and "set gs \<subseteq> set gs'"
  shows "evidenced s' gs' b"
  using assms unfolding evidenced_def by blast

subsection \<open>The steps\<close>

lemma check_binding_Inr:
  assumes "check_binding b db = Inr ()"
  obtains plan task g where "check_binding_plan b db = Inr (plan, task)"
    and "current_assignment db (rb_mission_id b) (rb_mission_task_id b) = Some g"
    and "binding_within_assignment b g task plan"
    and "check_binding_revision b db = Inr ()" and "require_run_binding_dependencies b db = Inr ()"
    and "require_run_binding_settlement b g db = Inr ()"
  using assms by (auto simp: check_binding_def ebind_Inr_iff)

lemma check_binding_plan_Inr:
  assumes "check_binding_plan b db = Inr (plan, task)"
  obtains p og where "p \<in> set (plans (db_store db))" and "pl_run_id p = rb_run_id b"
    and "pl_payload p = plan" and "task \<in> set (plan_tasks plan)"
    and "pt_task_id task = rb_execution_task_id b"
    and "ap_organization_binding plan = Some og" and "pob_mission_id og = Some (rb_mission_id b)"
proof -
  obtain p og where p: "get_plan (db_store db) (rb_run_id b) = Some p" "pl_payload p = plan"
      "ap_organization_binding plan = Some og" "pob_mission_id og = Some (rb_mission_id b)"
      "find (\<lambda>t. pt_task_id t = rb_execution_task_id b) (plan_tasks plan) = Some task"
    using assms by (auto simp: check_binding_plan_def plan_carries_mission_def Let_def ebind_Inr_iff)
  moreover have "p \<in> set (plans (db_store db)) \<and> pl_run_id p = rb_run_id b"
    using p(1) tbl_get_SomeD [of pl_run_id "rb_run_id b" "plans (db_store db)" p]
    by (auto simp: get_plan_def)
  ultimately show thesis using that find_Some_cases [OF p(5)] by blast
qed

lemma settlement_Inr:
  assumes "require_run_binding_settlement b g db = Inr ()" and "rb_acceptance b = BindingAccepted"
  obtains a where "a \<in> set (acceptances (db_store db))"
    and "acceptance_key a = (rb_run_id b, rb_execution_task_id b)"
    and "(rb_run_id b, rb_execution_task_id b) \<in> result_key ` set (results (db_store db))"
    and "rd_producer_identity (ac_review a) = Some (mta_accountable_owner g)"
proof -
  let ?k = "(rb_run_id b, rb_execution_task_id b)"
  obtain a where a: "tbl_get acceptance_key ?k (acceptances (db_store db)) = Some a"
      "tbl_get result_key ?k (results (db_store db)) \<noteq> None"
      "rd_producer_identity (ac_review a) = Some (mta_accountable_owner g)"
    using assms by (auto simp: require_run_binding_settlement_def Let_def ebind_Inr_iff
        split: option.splits)
  then show thesis
    using that tbl_get_SomeD [OF a(1)] by (auto simp: tbl_get_None_iff)
qed

lemma check_binding_evidenced:
  assumes "check_binding b db = Inr ()"
  shows "evidenced (db_store db) (db_assignments db) b"
proof -
  obtain plan task g where c: "check_binding_plan b db = Inr (plan, task)"
      "current_assignment db (rb_mission_id b) (rb_mission_task_id b) = Some g"
      "binding_within_assignment b g task plan" "require_run_binding_settlement b g db = Inr ()"
    using check_binding_Inr [OF assms] by metis
  have g: "g \<in> set (db_assignments db)" "mta_task_id g = rb_mission_task_id b"
    using newest_SomeD [OF c(2) [unfolded current_assignment_def]] by (auto simp: task_rows_def)
  have w: "rb_plan_fingerprint b = Some (ap_fingerprint plan)"
      "rb_assignment_id b = Some (mta_assignment_id g)"
    using c(3) by (simp_all add: binding_within_assignment_def)
  obtain p og where p: "p \<in> set (plans (db_store db))" "pl_run_id p = rb_run_id b"
      "pl_payload p = plan" "task \<in> set (plan_tasks plan)"
      "pt_task_id task = rb_execution_task_id b" "ap_organization_binding plan = Some og"
      "pob_mission_id og = Some (rb_mission_id b)"
    by (rule check_binding_plan_Inr [OF c(1)])
  show ?thesis
    unfolding evidenced_def
  proof (intro conjI impI)
    show "\<exists>p \<in> set (plans (db_store db)). pl_run_id p = rb_run_id b \<and>
        rb_plan_fingerprint b = Some (ap_fingerprint (pl_payload p)) \<and>
        rb_execution_task_id b \<in> pt_task_id ` set (plan_tasks (pl_payload p)) \<and>
        (\<exists>og. ap_organization_binding (pl_payload p) = Some og \<and>
           pob_mission_id og = Some (rb_mission_id b))"
      using p w(1) by (intro bexI [of _ p]) (auto intro!: image_eqI [of _ _ task])
    assume acc: "rb_acceptance b = BindingAccepted"
    obtain a where a: "a \<in> set (acceptances (db_store db))"
        "acceptance_key a = (rb_run_id b, rb_execution_task_id b)"
        "(rb_run_id b, rb_execution_task_id b) \<in> result_key ` set (results (db_store db))"
        "rd_producer_identity (ac_review a) = Some (mta_accountable_owner g)"
      by (rule settlement_Inr [OF c(4) acc])
    show "(rb_run_id b, rb_execution_task_id b) \<in> result_key ` set (results (db_store db))"
      by (rule a(3))
    show "\<exists>a \<in> set (acceptances (db_store db)). \<exists>g \<in> set (db_assignments db).
        acceptance_key a = (rb_run_id b, rb_execution_task_id b) \<and>
        rb_assignment_id b = Some (mta_assignment_id g) \<and> mta_task_id g = rb_mission_task_id b \<and>
        rd_producer_identity (ac_review a) = Some (mta_accountable_owner g)"
      using a g w(2) by blast
  qed
qed

lemma writes_bindings:
  assumes "writes env db db'"
  obtains (same) "db_bindings db' = db_bindings db"
  | (new) b where "db_bindings db' = db_bindings db @ [b]" "check_binding b db = Inr ()"
      "run_binding_valid b" "tbl_get rb_binding_id (rb_binding_id b) (db_bindings db) = None"
  using assms
proof cases
  case (WBinding b)
  then show ?thesis using new [of b] by simp
qed (rule same; simp; fail)+

definition bindings_wf :: "mission_db \<Rightarrow> bool" where
  "bindings_wf db \<longleftrightarrow>
     bindings_chained (db_bindings db) \<and> bindings_acyclic (db_bindings db) \<and> bindings_evidenced db"

lemma mission_history_evidenced:
  assumes "mission_history db db'" and "evidenced (db_store db) (db_assignments db) b"
  shows "evidenced (db_store db') (db_assignments db') b"
  using assms(2)
  by (rule evidenced_mono)
    (use assms(1) in \<open>simp_all add: mission_history_def evolves_def append_only_def set_mono_prefix\<close>)

lemma bindings_wf_step:
  assumes wf: "bindings_wf db" and rows: "rows_wf db"
  shows "bindings_wf (mission_step env x db)"
proof -
  let ?db' = "mission_step env x db"
  have hist: "mission_history db ?db'" by (rule mission_history_step [OF rows])
  from mission_step_writes [of env db x] show ?thesis
  proof (cases rule: writes_bindings)
    case same
    then show ?thesis
      using wf mission_history_evidenced [OF hist] by (simp add: bindings_wf_def bindings_evidenced_def)
  next
    case (new b)
    have rev: "check_binding_revision b db = Inr ()" and
        deps: "require_run_binding_dependencies b db = Inr ()"
      using check_binding_Inr [OF new(2)] by metis+
    have chained: "bindings_chained (db_bindings db)" using wf by (simp add: bindings_wf_def)
    have "bindings_chained (db_bindings ?db')"
      using bindings_chained_snoc(1) [OF chained rev] new(1) by simp
    moreover have "bindings_acyclic (db_bindings ?db')"
      using bindings_acyclic_snoc [OF _ deps bindings_chained_snoc(2) [OF chained rev]] wf new(1)
      by (simp add: bindings_wf_def)
    moreover have "bindings_evidenced ?db'"
      using wf new(1) mission_history_evidenced [OF hist] check_binding_evidenced [OF new(2)]
      by (simp add: bindings_wf_def bindings_evidenced_def)
    ultimately show ?thesis by (simp add: bindings_wf_def)
  qed
qed

interpretation bindings_machine:
  machine_invariant "mission_step env" "\<lambda>db. rows_wf db \<and> bindings_wf db" for env
  by unfold_locales (simp add: rows_wf_step bindings_wf_step)

lemma bindings_wf_empty: "bindings_wf empty_db"
  by (simp add: bindings_wf_def bindings_chained_def bindings_acyclic_def bindings_evidenced_def
      empty_db_def mission_graph_def latest_bindings_def binding_graph_def closed_graph_def
      dep_edges_def acyclic_def)

end
