(* ===== verification/MissionReports.thy ===== *)
theory MissionReports
  imports MissionBindings
begin

section \<open>Run reports\<close>

text \<open>
  A recorded run report covers exactly the tasks of the accepted plan, each with an accepted
  binding and a durable acceptance whose evaluator is not the reporter.
\<close>

definition item_evidenced :: "store \<Rightarrow> mission_run_binding list \<Rightarrow> mission_run_report \<Rightarrow>
    mission_run_report_task \<Rightarrow> bool" where
  "item_evidenced s bs r item \<longleftrightarrow>
     (\<exists>a \<in> set (acceptances s). acceptance_key a = (rp_run_id r, rt_execution_task_id item) \<and>
        rd_evaluator_identity (ac_review a) \<noteq> Some (rp_reporter_identity r)) \<and>
     (\<exists>b \<in> set bs. rb_mission_id b = rp_mission_id r \<and> rb_run_id b = rp_run_id r \<and>
        rb_execution_task_id b = rt_execution_task_id item \<and>
        rb_mission_task_id b = rt_mission_task_id item \<and> rb_acceptance b = BindingAccepted \<and>
        set (rb_result_references b) \<union> set (rb_acceptance_references b)
          \<subseteq> set (rt_evidence_references item))"

definition report_evidenced :: "store \<Rightarrow> mission_run_binding list \<Rightarrow> mission_run_report \<Rightarrow> bool" where
  "report_evidenced s bs r \<longleftrightarrow>
     (\<exists>p \<in> set (plans s). pl_run_id p = rp_run_id r \<and>
        rp_plan_fingerprint r = ap_fingerprint (pl_payload p) \<and>
        rt_execution_task_id ` set (rp_task_results r) = pt_task_id ` set (plan_tasks (pl_payload p))) \<and>
     (\<forall>item \<in> set (rp_task_results r). item_evidenced s bs r item)"

lemma item_evidenced_mono:
  assumes "item_evidenced s bs r item" and "set (acceptances s) \<subseteq> set (acceptances s')"
    and "set bs \<subseteq> set bs'"
  shows "item_evidenced s' bs' r item"
  using assms unfolding item_evidenced_def by blast

lemma report_evidenced_mono:
  assumes "report_evidenced s bs r" and "set (plans s) \<subseteq> set (plans s')"
    and "set (acceptances s) \<subseteq> set (acceptances s')" and "set bs \<subseteq> set bs'"
  shows "report_evidenced s' bs' r"
  using assms item_evidenced_mono [OF _ assms(3,4)] unfolding report_evidenced_def by blast

lemma check_report_tasks_Inr:
  assumes "check_report_tasks run_id reporter l by_task reviews items = Inr ()" and "item \<in> set items"
  obtains g b a where "map_of l (rt_mission_task_id item) = Some g"
    and "by_task (rt_execution_task_id item) = Some b" and "report_task_matches run_id item g b"
    and "set (rt_result_references item) \<union> set (rt_acceptance_references item)
           \<subseteq> set (rt_evidence_references item)"
    and "reviews (rt_execution_task_id item) = Some a"
    and "rd_evaluator_identity (ac_review a) \<noteq> Some reporter"
  using assms
proof (induction items)
  case (Cons x items)
  show ?case
  proof (cases "item = x")
    case True
    then show ?thesis using Cons.prems(1,2) by (auto simp: Let_def ebind_Inr_iff)
  next
    case False
    then have "item \<in> set items" using Cons.prems(3) by simp
    moreover have "check_report_tasks run_id reporter l by_task reviews items = Inr ()"
      using Cons.prems(2) by (auto simp: Let_def ebind_Inr_iff)
    ultimately show ?thesis using Cons.IH Cons.prems(1) by blast
  qed
qed simp

lemma last_of_SomeD: "last_of key xs k = Some x \<Longrightarrow> x \<in> set xs \<and> key x = k"
  unfolding last_of_def by (drule map_of_SomeD) auto

lemma run_task_binding_SomeD:
  assumes "run_task_binding db mission_id run_id k = Some b"
  shows "b \<in> set (db_bindings db) \<and> rb_mission_id b = mission_id \<and> rb_run_id b = run_id \<and>
     rb_execution_task_id b = k"
proof -
  let ?rows = "filter (\<lambda>b. rb_run_id b = run_id) (mission_bindings db mission_id)"
  have b: "b \<in> snd ` set (latest_bindings ?rows)" "rb_execution_task_id b = k"
    using last_of_SomeD [OF assms [unfolded run_task_binding_def]] by auto
  then obtain j where "(j, b) \<in> set (latest_bindings ?rows)" by force
  then have "b \<in> set ?rows"
    using latest_by_keyed [of j b rb_binding_key rb_binding_revision ?rows]
    by (simp add: latest_bindings_def)
  then show ?thesis using b(2) by (simp add: mission_bindings_def)
qed

lemma check_report_evidenced:
  assumes "check_report r db = Inr ()"
  shows "report_evidenced (db_store db) (db_bindings db) r"
proof -
  obtain plan where run: "check_report_run r db = Inr plan"
      and cover: "check_report_coverage r plan db = Inr ()"
      and items: "check_report_tasks (rp_run_id r) (rp_reporter_identity r)
          (latest (mission_assignments db (rp_mission_id r)))
          (run_task_binding db (rp_mission_id r) (rp_run_id r))
          (\<lambda>k. tbl_get acceptance_key (rp_run_id r, k) (acceptances (db_store db)))
          (rp_task_results r) = Inr ()"
    using assms by (auto simp: check_report_def Let_def ebind_Inr_iff)
  obtain p where "get_plan (db_store db) (rp_run_id r) = Some p" "pl_payload p = plan"
      "rp_plan_fingerprint r = ap_fingerprint plan"
    using run by (auto simp: check_report_run_def Let_def ebind_Inr_iff split: option.splits)
  then have p: "p \<in> set (plans (db_store db))" "pl_run_id p = rp_run_id r" "pl_payload p = plan"
      "rp_plan_fingerprint r = ap_fingerprint plan"
    using tbl_get_SomeD [of pl_run_id "rp_run_id r" "plans (db_store db)" p]
    by (auto simp: get_plan_def)
  have tasks: "rt_execution_task_id ` set (rp_task_results r) = pt_task_id ` set (plan_tasks plan)"
    using cover by (simp add: check_report_coverage_def Let_def ebind_Inr_iff)
  have "item_evidenced (db_store db) (db_bindings db) r item"
    if item: "item \<in> set (rp_task_results r)" for item
  proof (rule check_report_tasks_Inr [OF items item])
    fix g b a
    assume b: "run_task_binding db (rp_mission_id r) (rp_run_id r) (rt_execution_task_id item) = Some b"
      and m: "report_task_matches (rp_run_id r) item g b"
      and e: "set (rt_result_references item) \<union> set (rt_acceptance_references item)
           \<subseteq> set (rt_evidence_references item)"
      and a: "tbl_get acceptance_key (rp_run_id r, rt_execution_task_id item)
           (acceptances (db_store db)) = Some a"
      and ev: "rd_evaluator_identity (ac_review a) \<noteq> Some (rp_reporter_identity r)"
    show ?thesis
      unfolding item_evidenced_def
    proof
      show "\<exists>a \<in> set (acceptances (db_store db)).
          acceptance_key a = (rp_run_id r, rt_execution_task_id item) \<and>
          rd_evaluator_identity (ac_review a) \<noteq> Some (rp_reporter_identity r)"
        using tbl_get_SomeD [OF a] ev by blast
      show "\<exists>b \<in> set (db_bindings db). rb_mission_id b = rp_mission_id r \<and> rb_run_id b = rp_run_id r \<and>
          rb_execution_task_id b = rt_execution_task_id item \<and>
          rb_mission_task_id b = rt_mission_task_id item \<and> rb_acceptance b = BindingAccepted \<and>
          set (rb_result_references b) \<union> set (rb_acceptance_references b)
            \<subseteq> set (rt_evidence_references item)"
        using run_task_binding_SomeD [OF b] m e
        by (intro bexI [of _ b]) (simp_all add: report_task_matches_def)
    qed
  qed
  then show ?thesis using p tasks unfolding report_evidenced_def by blast
qed

definition reports_wf :: "mission_db \<Rightarrow> bool" where
  "reports_wf db \<longleftrightarrow>
     (\<forall>r \<in> set (db_reports db). report_evidenced (db_store db) (db_bindings db) r) \<and>
     distinct (map (\<lambda>r. (rp_mission_id r, rp_run_id r)) (db_reports db))"

lemma writes_reports:
  assumes "writes env db db'"
  obtains (same) "db_reports db' = db_reports db"
  | (new) r where "db_reports db' = db_reports db @ [r]" "check_report r db = Inr ()"
  using assms
proof cases
  case (WReport r)
  then show ?thesis using new [of r] by simp
qed (rule same; simp; fail)+

lemma reports_wf_step:
  assumes wf: "reports_wf db" and rows: "rows_wf db"
  shows "reports_wf (mission_step env x db)"
proof -
  let ?db' = "mission_step env x db"
  have "mission_history db ?db'" by (rule mission_history_step [OF rows])
  then have mono: "report_evidenced (db_store ?db') (db_bindings ?db') r"
    if "report_evidenced (db_store db) (db_bindings db) r" for r
    by (intro report_evidenced_mono [OF that])
      (simp_all add: mission_history_def evolves_def append_only_def set_mono_prefix)
  from mission_step_writes [of env db x] show ?thesis
  proof (cases rule: writes_reports)
    case same
    then show ?thesis using wf mono by (simp add: reports_wf_def)
  next
    case (new r)
    have "\<not> list_ex (\<lambda>x. rp_mission_id x = rp_mission_id r \<and> rp_run_id x = rp_run_id r) (db_reports db)"
      using new(2) by (auto simp: check_report_def check_report_run_def ebind_Inr_iff)
    then show ?thesis
      using wf new(1) mono mono [OF check_report_evidenced [OF new(2)]]
      by (auto simp: reports_wf_def list_ex_iff)
  qed
qed

interpretation reports_machine:
  machine_invariant "mission_step env" "\<lambda>db. rows_wf db \<and> reports_wf db" for env
  by unfold_locales (simp add: rows_wf_step reports_wf_step)

lemma reports_wf_empty: "reports_wf empty_db"
  by (simp add: reports_wf_def empty_db_def)

end
