(* ===== verification/MissionGovernance.thy ===== *)
theory MissionGovernance
  imports MissionInvariant
begin

section \<open>Decisions, interventions and channels\<close>

text \<open>
  The invariants of the conversation tables: a staged recommendation has at most one settlement,
  which preserves it; the interventions on one target follow each other in time and obey the
  control protocol; there is one executive channel; an escalation is answered once.
\<close>

subsection \<open>Decisions\<close>

definition settlement_of_staged :: "mission_decision list \<Rightarrow> mission_decision \<Rightarrow> bool" where
  "settlement_of_staged ds d \<longleftrightarrow>
     (\<exists>p \<in> set ds. md_supersedes_decision_id d = Some (md_decision_id p) \<and> staged p \<and>
        recommendation_preserved p d \<and>
        set (md_evidence_references p) \<subseteq> set (md_evidence_references d))"

definition decisions_settled_once :: "mission_decision list \<Rightarrow> bool" where
  "decisions_settled_once ds \<longleftrightarrow>
     tbl_wf md_decision_id ds \<and>
     (\<forall>d \<in> set ds. settles d \<longrightarrow> settlement_of_staged ds d) \<and>
     (\<forall>d \<in> set ds. \<forall>e \<in> set ds. settles d \<and> settles e \<and>
        md_supersedes_decision_id d = md_supersedes_decision_id e \<longrightarrow> d = e)"

lemma require_decision_lineage_Inr:
  assumes "require_decision_lineage d db = Inr ()" and "settles d"
  shows "settlement_of_staged (db_decisions db) d"
    and "\<not> list_ex (\<lambda>x. md_mission_id x = md_mission_id d \<and> md_schema_version x = Decision_1_1 \<and>
           md_supersedes_decision_id x = md_supersedes_decision_id d) (db_decisions db)"
proof -
  obtain k p where *: "md_supersedes_decision_id d = Some k"
      "tbl_get md_decision_id k (db_decisions db) = Some p" "staged p" "recommendation_preserved p d"
      "set (md_evidence_references p) \<subseteq> set (md_evidence_references d)"
    and fresh: "\<not> list_ex (\<lambda>x. md_mission_id x = md_mission_id d \<and>
           md_schema_version x = Decision_1_1 \<and>
           md_supersedes_decision_id x = md_supersedes_decision_id d) (db_decisions db)"
    using assms by (auto simp: require_decision_lineage_def ebind_Inr_iff)
  show "settlement_of_staged (db_decisions db) d"
    using * tbl_get_SomeD [OF *(2)] unfolding settlement_of_staged_def by blast
  show "\<not> list_ex (\<lambda>x. md_mission_id x = md_mission_id d \<and> md_schema_version x = Decision_1_1 \<and>
           md_supersedes_decision_id x = md_supersedes_decision_id d) (db_decisions db)"
    by (rule fresh)
qed

lemma decisions_settled_once_snoc:
  assumes once: "decisions_settled_once ds"
    and lineage: "settles d \<Longrightarrow> settlement_of_staged ds d"
    and fresh: "settles d \<Longrightarrow> \<not> list_ex (\<lambda>x. md_mission_id x = md_mission_id d \<and>
           md_schema_version x = Decision_1_1 \<and>
           md_supersedes_decision_id x = md_supersedes_decision_id d) ds"
    and id: "md_decision_id d \<notin> md_decision_id ` set ds"
  shows "decisions_settled_once (ds @ [d])"
proof -
  have mono: "settlement_of_staged ds x \<Longrightarrow> settlement_of_staged (ds @ [d]) x" for x
    by (auto simp: settlement_of_staged_def)
  have wf: "tbl_wf md_decision_id ds" using once by (simp add: decisions_settled_once_def)
  have no: False if e: "e \<in> set ds" "settles e" and d: "settles d"
      and same: "md_supersedes_decision_id e = md_supersedes_decision_id d" for e
  proof -
    obtain p where p: "p \<in> set ds" "md_supersedes_decision_id d = Some (md_decision_id p)"
        "recommendation_preserved p d"
      using lineage [OF d] by (auto simp: settlement_of_staged_def)
    have "settlement_of_staged ds e" using once e by (simp add: decisions_settled_once_def)
    then obtain q where q: "q \<in> set ds" "md_supersedes_decision_id e = Some (md_decision_id q)"
        "recommendation_preserved q e"
      by (auto simp: settlement_of_staged_def)
    have "md_decision_id p = md_decision_id q" using p(2) q(2) same by simp
    then have "p = q" by (rule tbl_wf_inj [OF wf p(1) q(1)])
    then have "md_mission_id e = md_mission_id d" using p(3) q(3) by (simp add: recommendation_preserved_def)
    moreover have "md_schema_version e = Decision_1_1" using e(2) by (simp add: settles_def)
    ultimately show False using fresh [OF d] e(1) same by (auto simp: list_ex_iff)
  qed
  have "settles x \<longrightarrow> settlement_of_staged (ds @ [d]) x" if "x \<in> set (ds @ [d])" for x
    using that once lineage mono by (auto simp: decisions_settled_once_def)
  moreover have "x = y" if "x \<in> set (ds @ [d])" "y \<in> set (ds @ [d])" "settles x" "settles y"
      "md_supersedes_decision_id x = md_supersedes_decision_id y" for x y
  proof (cases "x = d \<or> y = d")
    case True
    then show ?thesis using that no [of x] no [of y] by auto
  next
    case False
    then show ?thesis using that once by (simp add: decisions_settled_once_def)
  qed
  ultimately show ?thesis using wf id by (simp add: decisions_settled_once_def)
qed

lemma decisions_step:
  assumes "decisions_settled_once (db_decisions db)"
  shows "decisions_settled_once (db_decisions (mission_step env x db))"
  using mission_step_writes [of env db x]
proof cases
  case (WDecision d)
  have "decisions_settled_once (db_decisions db @ [d])"
  proof (rule decisions_settled_once_snoc [OF assms])
    show "settles d \<Longrightarrow> settlement_of_staged (db_decisions db) d"
      by (rule require_decision_lineage_Inr(1) [OF WDecision(4)])
    show "settles d \<Longrightarrow> \<not> list_ex (\<lambda>x. md_mission_id x = md_mission_id d \<and>
        md_schema_version x = Decision_1_1 \<and>
        md_supersedes_decision_id x = md_supersedes_decision_id d) (db_decisions db)"
      by (rule require_decision_lineage_Inr(2) [OF WDecision(4)])
    show "md_decision_id d \<notin> md_decision_id ` set (db_decisions db)"
      using WDecision(2) by (simp add: tbl_get_None_iff)
  qed
  then show ?thesis by (simp add: WDecision(1))
qed (use assms in simp_all)

subsection \<open>Interventions\<close>

definition controls :: "intervention_kind set" where
  "controls = {Suspend, Resume, Stop}"

definition same_target :: "mission_intervention \<Rightarrow> mission_intervention \<Rightarrow> bool" where
  "same_target i j \<longleftrightarrow> iv_mission_id i = iv_mission_id j \<and> iv_target_kind i = iv_target_kind j \<and>
     iv_target_id i = iv_target_id j"

text \<open>What an earlier intervention on a target excludes of a later one.\<close>

definition may_follow :: "mission_intervention \<Rightarrow> mission_intervention \<Rightarrow> bool" where
  "may_follow i j \<longleftrightarrow>
     (same_target i j \<longrightarrow>
        iv_created_at i < iv_created_at j \<and>
        \<not> (iv_kind i \<in> {AcceptProposal, RejectProposal} \<and>
           iv_kind j \<in> {AcceptProposal, RejectProposal}) \<and>
        \<not> (iv_kind i = AcceptRisk \<and> iv_kind j = AcceptRisk) \<and>
        (iv_target_kind i = TargetTask \<and> iv_kind i = Stop \<longrightarrow> iv_kind j \<notin> controls))"

abbreviation interventions_ordered :: "mission_intervention list \<Rightarrow> bool" where
  "interventions_ordered \<equiv> sorted_wrt may_follow"

lemma target_history_alt:
  assumes "interventions_ordered (db_interventions db)"
  shows "target_history db i = filter (\<lambda>x. same_target x i) (db_interventions db)"
proof -
  let ?xs = "filter (\<lambda>x. same_target x i) (db_interventions db)"
  have "sorted_wrt (\<lambda>x y. iv_created_at x \<le> iv_created_at y) ?xs"
  proof (rule sorted_wrt_mono_rel [of ?xs may_follow])
    show "interventions_ordered ?xs" by (rule sorted_wrt_filter [OF assms])
    show "iv_created_at x \<le> iv_created_at y"
      if "x \<in> set ?xs" "y \<in> set ?xs" "may_follow x y" for x y
      using that by (simp add: may_follow_def same_target_def)
  qed
  then have "sorted (map iv_created_at ?xs)" by (simp add: sorted_map)
  then have "sort_key iv_created_at ?xs = ?xs" by (rule sort_key_id_if_sorted)
  moreover have "target_history db i = sort_key iv_created_at
      (filter (\<lambda>x. iv_target_kind x = iv_target_kind i \<and> iv_target_id x = iv_target_id i)
        (filter (\<lambda>x. iv_mission_id x = iv_mission_id i) (db_interventions db)))"
    by (simp only: target_history_def filter_sort)
  moreover have "filter (\<lambda>x. iv_target_kind x = iv_target_kind i \<and> iv_target_id x = iv_target_id i)
      (filter (\<lambda>x. iv_mission_id x = iv_mission_id i) (db_interventions db)) = ?xs"
    by (simp add: same_target_def conj_ac)
  ultimately show ?thesis by simp
qed

text \<open>Once a task was stopped, the last control of its history is that stop.\<close>

lemma last_control_Stop:
  assumes "interventions_ordered h" and "\<forall>x \<in> set h. \<forall>y \<in> set h. same_target x y"
    and "s \<in> set h" and "iv_kind s = Stop" and "iv_target_kind s = TargetTask"
  shows "last_kind controls h = Some Stop"
proof -
  obtain xs ys where h: "h = xs @ s # ys" using assms(3) by (meson split_list)
  have "may_follow s y \<and> same_target s y" if "y \<in> set ys" for y
    using assms(1,2) that unfolding h by (auto simp: sorted_wrt_append)
  then have "filter (\<lambda>x. iv_kind x \<in> controls) ys = []"
    using assms(4,5) by (auto simp: may_follow_def filter_empty_conv)
  then show ?thesis using assms(4) by (simp add: last_kind_def h controls_def)
qed

lemma check_intervention_may_follow:
  assumes "check_intervention i db = Inr ()" and ord: "interventions_ordered (db_interventions db)"
    and x: "x \<in> set (db_interventions db)"
  shows "may_follow x i"
  unfolding may_follow_def
proof (intro impI conjI)
  assume same: "same_target x i"
  let ?h = "target_history db i"
  have h: "?h = filter (\<lambda>x. same_target x i) (db_interventions db)" by (rule target_history_alt [OF ord])
  have xh: "x \<in> set ?h" using x same by (simp add: h)
  have seq: "validate_intervention_sequence db i = Inr ()"
    and tgt: "validate_intervention_target db i = Inr ()"
    using assms(1) by (auto simp: check_intervention_def ebind_Inr_iff)
  have s: "list_all (\<lambda>x. iv_created_at x < iv_created_at i) ?h"
      "\<not> (iv_kind i \<in> {AcceptProposal, RejectProposal} \<and>
          list_ex (\<lambda>k. k \<in> {AcceptProposal, RejectProposal}) (map iv_kind ?h))"
      "\<not> (iv_kind i = AcceptRisk \<and> AcceptRisk \<in> set (map iv_kind ?h))"
    using seq by (simp_all only: validate_intervention_sequence_def Let_def ebind_Inr_iff guard_Inr) blast+
  show "iv_created_at x < iv_created_at i" using s(1) xh by (simp add: list_all_iff)
  show "\<not> (iv_kind x \<in> {AcceptProposal, RejectProposal} \<and> iv_kind i \<in> {AcceptProposal, RejectProposal})"
    using s(2) xh by (auto simp: list_ex_iff)
  show "\<not> (iv_kind x = AcceptRisk \<and> iv_kind i = AcceptRisk)" using s(3) xh by force
  assume stop: "iv_target_kind x = TargetTask \<and> iv_kind x = Stop"
  show "iv_kind i \<notin> controls"
  proof
    assume ctl: "iv_kind i \<in> controls"
    have "last_kind controls ?h = Some Stop"
    proof (rule last_control_Stop [of ?h x])
      show "interventions_ordered ?h" unfolding h by (rule sorted_wrt_filter [OF ord])
      show "\<forall>x \<in> set ?h. \<forall>y \<in> set ?h. same_target x y" unfolding h by (auto simp: same_target_def)
    qed (use xh stop in auto)
    moreover have "validate_task_control db i = Inr ()"
      using tgt same stop by (simp add: validate_intervention_target_def same_target_def)
    ultimately show False
      using ctl by (auto simp: validate_task_control_def controls_def Let_def ebind_Inr_iff
          split: if_splits)
  qed
qed

lemma interventions_step:
  assumes "interventions_ordered (db_interventions db)"
  shows "interventions_ordered (db_interventions (mission_step env x db))"
  using mission_step_writes [of env db x]
proof cases
  case (WIntervention i m now es next_state m')
  have "interventions_ordered (db_interventions db @ [i])"
    using assms check_intervention_may_follow [OF WIntervention(6) assms] by (simp add: sorted_wrt_append)
  then show ?thesis by (simp add: WIntervention(1))
qed (use assms in simp_all)

subsection \<open>Channels\<close>

definition channels_wf :: "conversation_channel list \<Rightarrow> bool" where
  "channels_wf cs \<longleftrightarrow> tbl_wf ch_conversation_id cs \<and>
     length (filter (\<lambda>c. ch_channel_class c = ExecutiveChannel) cs) \<le> 1 \<and>
     list_all channel_scope_matches_class cs"

lemma channels_step:
  assumes "channels_wf (db_channels db)"
  shows "channels_wf (db_channels (mission_step env x db))"
  using mission_step_writes [of env db x]
proof cases
  case (WChannel c)
  have "\<not> list_ex (\<lambda>x. ch_channel_class x = ExecutiveChannel) (db_channels db)"
      if "ch_channel_class c = ExecutiveChannel"
    using WChannel(4) that by (auto simp: check_channel_def Let_def ebind_Inr_iff)
  then have "ch_channel_class c = ExecutiveChannel \<Longrightarrow>
      filter (\<lambda>c. ch_channel_class c = ExecutiveChannel) (db_channels db) = []"
    by (auto simp: filter_empty_conv list_ex_iff)
  then have "channels_wf (db_channels db @ [c])"
    using assms WChannel(2,3) by (auto simp: channels_wf_def tbl_get_None_iff)
  then show ?thesis by (simp add: WChannel(1))
qed (use assms in simp_all)

definition governance_wf :: "mission_db \<Rightarrow> bool" where
  "governance_wf db \<longleftrightarrow>
     decisions_settled_once (db_decisions db) \<and> interventions_ordered (db_interventions db) \<and>
     channels_wf (db_channels db)"

interpretation governance_machine: machine_invariant "mission_step env" governance_wf for env
  by unfold_locales (simp add: governance_wf_def decisions_step interventions_step channels_step)

lemma governance_wf_empty: "governance_wf empty_db"
  by (simp add: governance_wf_def decisions_settled_once_def channels_wf_def empty_db_def)

end
