(* ===== verification/MissionExample.thy ===== *)
theory MissionExample
  imports MissionReports MissionGovernance RunProperties
begin

section \<open>An example mission\<close>

text \<open>
  One mission from its proposal to its run report, as calls of the machine: the witnesses of the
  mission properties evaluate it. Two tasks of one run: a production by DEV and a report by REP,
  both reviewed by EVA.
\<close>

definition identity :: "string \<Rightarrow> independence_class \<Rightarrow> string list \<Rightarrow> bool \<Rightarrow> professional_identity" where
  "identity k cls authority lead = \<lparr>pi_identity_id = k, pi_branch_id = ''core'',
     pi_responsibility = k, pi_independence_class = cls, pi_authority_limits = authority,
     pi_pool_memberships = [], pi_mission_lead_eligible = lead\<rparr>"

definition example_org :: organization_roster where
  "example_org = \<lparr>og_organization_id = ''org'', og_organization_version = ''1'',
     og_branches = [\<lparr>br_branch_id = ''core'', br_name = ''Core'',
       br_executive_sponsor = Some ''CTO'', br_independent = False\<rparr>],
     og_pools = [],
     og_identities = [identity ''PM'' ExecutiveClass [] False, identity ''CTO'' ExecutiveClass [] False,
       identity ''DEV'' ProductionClass [] True,
       identity ''EVA'' IndependentAssurance [''evaluation.code''] False,
       identity ''REP'' IndependentAssurance [''reporting.runs''] False]\<rparr>"

definition example_mission :: mission_record where
  "example_mission = \<lparr>mr_mission_id = ''m'', mr_revision = 0, mr_state = MProposed,
     mr_origin = \<lparr>mo_schema_version = Origin_1_0, mo_origin_id = ''o'', mo_kind = OriginCeo,
       mo_actor_id = ''CEO'', mo_objective = ''o'', mo_source_references = [],
       mo_template_id = None, mo_template_reference = None, mo_created_at = 0\<rparr>,
     mr_organization_id = ''org'', mr_organization_version = ''1'',
     mr_current_brief_version = None, mr_current_crew_version = None,
     mr_current_environment_plan_version = None, mr_created_at = 0, mr_updated_at = 0\<rparr>"

definition confirmation :: "string \<Rightarrow> string list \<Rightarrow> executive_confirmation" where
  "confirmation k coverage = \<lparr>ec_confirmation_id = ''c-'' @ k, ec_identity_id = k,
     ec_disposition = ''confirmed'', ec_rationale = ''r'', ec_evidence_references = [''e''],
     ec_coverage = coverage, ec_confirmed_at = 1\<rparr>"

definition example_brief :: mission_brief where
  "example_brief = \<lparr>mb_brief_id = ''b1'', mb_mission_id = ''m'', mb_version = 1,
     mb_organization_id = ''org'', mb_organization_version = ''1'', mb_status = BriefConfirmed,
     mb_objective = ''o'', mb_problem = ''p'', mb_desired_outcome = ''d'', mb_scope = [''s''],
     mb_exclusions = [], mb_acceptance_criteria = [''a''], mb_constraints = [], mb_risks = [''slip''],
     mb_authority_scope = [''s''], mb_proposed_crew = [''DEV'', ''REP''],
     mb_evidence_requirements = [''e''], mb_escalation_conditions = [],
     mb_environment_intent = \<lparr>mei_known_locations = [], mei_target_platforms = [],
       mei_target_architectures = [], mei_existing_definition_references = [],
       mei_isolation_requirements = [], mei_network_requirements = [],
       mei_credential_references = [], mei_resource_constraints = [], mei_required_evidence = [],
       mei_known_unknowns = [], mei_environment_dependent = False\<rparr>,
     mb_pm_confirmation = Some (confirmation ''PM'' [''product'', ''developer-experience'', ''composition'']),
     mb_cto_confirmation =
       Some (confirmation ''CTO'' [''technical'', ''platform'', ''security'', ''quality'', ''operability'']),
     mb_created_at = 1\<rparr>"

definition member :: "string \<Rightarrow> crew_assignment_kind \<Rightarrow> mission_crew_member" where
  "member k kind = \<lparr>cw_identity_id = k, cw_assignment_kind = kind, cw_responsibility = k,
     cw_selection_evidence = \<lparr>ce_project_references = [''e''], ce_competence_references = [''e''],
       ce_availability_references = [''e''], ce_conflict_assessment = ''none'',
       ce_risk_coverage = [''e''], ce_independence_references = [''e'']\<rparr>\<rparr>"

definition example_crew :: mission_crew_revision where
  "example_crew = \<lparr>cr_crew_id = ''w1'', cr_mission_id = ''m'', cr_version = 1,
     cr_organization_id = ''org'', cr_organization_version = ''1'', cr_brief_version = 1,
     cr_mission_lead_id = ''DEV'', cr_members = [member ''DEV'' PRODUCTION, member ''REP'' REPORTING],
     cr_pm_composition_confirmation_id = ''c-PM'', cr_cto_coverage_confirmation_id = ''c-CTO'',
     cr_revision_reason = ''first'', cr_created_at = 2\<rparr>"

definition assignment ::
  "string \<Rightarrow> string \<Rightarrow> crew_assignment_kind \<Rightarrow> string list \<Rightarrow> string \<Rightarrow> mission_task_assignment" where
  "assignment t owner kind deps execution_task = \<lparr>mta_schema_version = Assignment_1_1,
     mta_assignment_id = ''as-'' @ t, mta_mission_id = ''m'', mta_crew_version = 1, mta_task_id = t,
     mta_assignment_revision = 1, mta_accountable_owner = owner, mta_assignment_kind = kind,
     mta_contributors = [], mta_expected_result = ''x'', mta_completion_criteria = [''c''],
     mta_dependencies = deps, mta_execution_run_id = Some ''r'',
     mta_execution_task_id = Some execution_task, mta_environment_context_ids = [],
     mta_authority_scope = [''s''], mta_exact_tools = [''fs''], mta_path_scopes = [''src''],
     mta_limits = [], mta_required_evidence = [''e''], mta_requires_independent_evaluation = False,
     mta_change = None, mta_created_at = 3\<rparr>"

definition example_registry :: registry_snapshot where
  "example_registry = \<lparr>rs_tools = [\<lparr>tc_tool_id = ''fs'', tc_version = ''1'', tc_effect_class = READ,
       tc_source_id = ''core'', tc_adapter = ''fs'', tc_input_schema = JNull, tc_target_scopes = [],
       tc_target_arguments = [], tc_credential_refs = [], tc_credential_arguments = [],
       tc_policy_arguments = [],
       tc_resources = \<lparr>rq_timeout_seconds = 1, rq_memory_mb = None, rq_network = False,
         rq_concurrency = 1\<rparr>,
       tc_provenance_fingerprint = ''pf''\<rparr>],
     rs_fingerprint = ''rf''\<rparr>"

definition tool_binding_for :: "string \<Rightarrow> string \<Rightarrow> tool_binding" where
  "tool_binding_for t role = \<lparr>tb_task_id = t, tb_role = role, tb_tool_id = ''fs'',
     tb_tool_version = ''1'', tb_contract_fingerprint = ''pf'', tb_registry_fingerprint = ''rf'',
     tb_allowed_targets = [], tb_allowed_call_fingerprints = []\<rparr>"

definition example_plan :: accepted_plan where
  "example_plan = demo_plan\<lparr>
     plan_tasks := [demo_task ''a'' [], (demo_task ''b'' [''a''])\<lparr>pt_assigned_role := ''REP''\<rparr>],
     ap_registry := Some example_registry,
     ap_tool_bindings := [tool_binding_for ''a'' ''DEV'', tool_binding_for ''b'' ''REP''],
     ap_organization_binding := Some \<lparr>pob_organization_id = ''org'', pob_organization_version = ''1'',
       pob_organization_fingerprint = ''of'', pob_mission_id = Some ''m'',
       pob_mission_origin_id = None, pob_mission_template_reference = None\<rparr>\<rparr>"

definition example_review :: "string \<Rightarrow> string \<Rightarrow> review_decision" where
  "example_review k producer = (demo_review k)\<lparr>rd_schema_version := Review_1_1,
     rd_producer_identity := Some producer, rd_evaluator_identity := Some ''EVA''\<rparr>"

definition example_binding ::
  "string \<Rightarrow> string \<Rightarrow> string \<Rightarrow> string list \<Rightarrow> mission_run_acceptance \<Rightarrow> mission_run_binding" where
  "example_binding key t execution_task deps acceptance =
     (let pending = (acceptance = BindingPending)
      in \<lparr>rb_schema_version = Binding_1_1,
          rb_binding_id = key @ (if pending then ''-1'' else ''-2''), rb_mission_id = ''m'',
          rb_binding_key = key, rb_binding_revision = (if pending then 1 else 2),
          rb_mission_task_id = t, rb_assignment_id = Some (''as-'' @ t),
          rb_assignment_revision = Some 1, rb_run_id = ''r'', rb_execution_task_id = execution_task,
          rb_plan_fingerprint = Some ''p'',
          rb_execution_context = from_binding (RepositoryBinding demo_binding),
          rb_depends_on_binding_keys = deps, rb_authority_scope = [''s''], rb_path_scopes = [''src''],
          rb_result_references = (if pending then [] else [''run-result:r:'' @ execution_task]),
          rb_acceptance_references = (if pending then [] else [''run-acceptance:r:'' @ execution_task]),
          rb_acceptance = acceptance, rb_recorded_by = ''PM'', rb_created_at = 4\<rparr>)"

definition example_transition :: "string \<Rightarrow> mission_state \<Rightarrow> mission_state \<Rightarrow> mission_transition" where
  "example_transition k src dst = \<lparr>tn_transition_id = k, tn_mission_id = ''m'',
     tn_from_state = src, tn_to_state = dst, tn_actor_or_cause = ''PM'', tn_reason = ''r'',
     tn_decision_id = None, tn_affected_scope = [''s''], tn_evidence_references = [''e''],
     tn_created_at = 5\<rparr>"

definition report_item :: "string \<Rightarrow> string \<Rightarrow> string \<Rightarrow> crew_assignment_kind \<Rightarrow> mission_run_report_task" where
  "report_item t execution_task owner kind = \<lparr>rt_mission_task_id = t,
     rt_execution_task_id = execution_task, rt_accountable_owner = owner, rt_assignment_kind = kind,
     rt_result_references = [''run-result:r:'' @ execution_task],
     rt_acceptance_references = [''run-acceptance:r:'' @ execution_task],
     rt_outcome_summary = ''ok'',
     rt_evidence_references = [''run-result:r:'' @ execution_task, ''run-acceptance:r:'' @ execution_task],
     rt_residual_risks = [], rt_failures = []\<rparr>"

definition example_report :: mission_run_report where
  "example_report = \<lparr>rp_report_id = ''rep'', rp_mission_id = ''m'', rp_mission_revision = 6,
     rp_run_id = ''r'', rp_execution_context = from_binding (RepositoryBinding demo_binding),
     rp_plan_fingerprint = ''p'', rp_reporter_identity = ''REP'',
     rp_reporting_mission_task_id = ''report'', rp_reporting_execution_task_id = ''b'',
     rp_task_results = [report_item ''work'' ''a'' ''DEV'' PRODUCTION,
       report_item ''report'' ''b'' ''REP'' REPORTING],
     rp_delivered_outcomes = [''d''], rp_validation_summary = [''v''], rp_residual_risks = [],
     rp_failures = [], rp_unresolved_decisions = [], rp_created_at = 20\<rparr>"

subsection \<open>The history\<close>

definition staffing :: "mission_op list" where
  "staffing = [RecordOrganization True example_org, CreateMission example_mission,
     RecordBrief 1 example_brief 1, RecordCrew 2 example_crew 2,
     RecordAssignment (assignment ''work'' ''DEV'' PRODUCTION [] ''a''),
     RecordAssignment (assignment ''report'' ''REP'' REPORTING [''work''] ''b'')]"

definition planning :: "mission_op list" where
  "planning = [RunStep (StartOrResume 1 ''r'' demo_discovery ''o'' ''u''),
     RunStep (MarkAwaitingApproval 2 ''r''), RunStep (AcceptPlan 3 ''r'' example_plan),
     RecordRunBinding (example_binding ''kw'' ''work'' ''a'' [] BindingPending),
     RecordRunBinding (example_binding ''kr'' ''report'' ''b'' [''kw''] BindingPending)]"

definition activating :: "mission_op list" where
  "activating = [Transition 4 (example_transition ''t1'' MClarifying MPlanned) 3,
     Transition 5 (example_transition ''t2'' MPlanned MActive) 4]"

definition executing :: "mission_op list" where
  "executing = [RunStep (StartRun 6 ''r''),
     RunStep (ClaimTask 7 ''r'' ''a''), RunStep (MarkValidating 8 ''r'' ''a''),
     RunStep (AcceptResult 9 ''x'' ''r'' (demo_result ''a'') (example_review ''a'' ''DEV'')),
     RecordRunBinding (example_binding ''kw'' ''work'' ''a'' [] BindingAccepted),
     RunStep (ClaimTask 10 ''r'' ''b''), RunStep (MarkValidating 11 ''r'' ''b''),
     RunStep (AcceptResult 12 ''y'' ''r'' (demo_result ''b'') (example_review ''b'' ''REP'')),
     RecordRunBinding (example_binding ''kr'' ''report'' ''b'' [''kw''] BindingAccepted)]"

definition reporting :: "mission_op list" where
  "reporting = [Transition 13 (example_transition ''t3'' MActive MEvaluating) 5,
     RecordRunReport example_report]"

definition example_day :: "mission_op list" where
  "example_day = staffing @ planning @ activating @ executing @ reporting"

definition example_channel :: conversation_channel where
  "example_channel = \<lparr>ch_conversation_id = ''exec'', ch_channel_class = ExecutiveChannel,
     ch_title = ''Executive'', ch_participants = [''CEO'', ''PM'', ''CTO''], ch_mission_id = None,
     ch_branch_id = None, ch_direct_authorization_reference = None, ch_created_by = ''CEO'',
     ch_created_at = 0\<rparr>"

definition intervention ::
  "string \<Rightarrow> intervention_kind \<Rightarrow> instant \<Rightarrow> mission_intervention" where
  "intervention k kind now = \<lparr>iv_schema_version = Intervention_1_1, iv_intervention_id = k,
     iv_mission_id = ''m'', iv_conversation_id = ''exec'', iv_actor_id = ''CEO'', iv_kind = kind,
     iv_target_kind = TargetMission, iv_target_id = ''m'', iv_reason = ''r'', iv_scope = [''s''],
     iv_confirmation = ''yes'', iv_authority_reference = ''ceo'', iv_evidence_references = [''e''],
     iv_escalation_id = None, iv_selected_option_id = None, iv_effect = ''x'',
     iv_resulting_target_state = Some (expected_target_state kind),
     iv_resulting_mission_state = mission_result kind, iv_created_at = now\<rparr>"

text \<open>A staged decision of the PM and its acceptance by the CEO.\<close>

definition example_decision :: "string \<Rightarrow> decision_status \<Rightarrow> mission_decision" where
  "example_decision k st =
     (let accepted = (st = DecisionAccepted)
      in \<lparr>md_schema_version = Decision_1_1, md_decision_id = k, md_mission_id = ''m'',
          md_conversation_id = ''exec'', md_actor_id = (if accepted then ''CEO'' else ''PM''),
          md_subject = ''store'', md_disposition = decision_status_value st, md_reason = ''r'',
          md_scope = [''s''], md_evidence_references = [''e''], md_authority_reference = ''ceo'',
          md_decision_status = Some st, md_producer_identity = Some ''PM'',
          md_deciding_identity = (if accepted then Some ''CEO'' else None),
          md_changes_durable_authority = Some False,
          md_context = Some \<lparr>dx_question = ''q'', dx_objective_reference = ''obj'',
            dx_effective_policy_reference = ''pol'', dx_requirements = [], dx_repository_evidence = [],
            dx_constraints = [], dx_declared_preferences = [], dx_risks = [], dx_material_unknowns = []\<rparr>,
          md_evidence = [\<lparr>cl_claim = ''c'', cl_classification = EvidenceVerified,
            cl_source_reference = Some ''e''\<rparr>],
          md_criteria = [\<lparr>cn_criterion_id = ''cost'', cn_description = ''d'',
            cn_provenance_references = [''obj''], cn_weight = None\<rparr>],
          md_alternatives =
            [\<lparr>da_option_id = ''sqlite'', da_description = ''d'', da_credible = True,
              da_rejection_reason = None, da_assessments = [\<lparr>as_criterion_id = ''cost'',
                as_assessment = ''low'', as_evidence_references = [''e'']\<rparr>]\<rparr>,
             \<lparr>da_option_id = ''files'', da_description = ''d'', da_credible = False,
              da_rejection_reason = Some ''races'', da_assessments = [\<lparr>as_criterion_id = ''cost'',
                as_assessment = ''low'', as_evidence_references = [''e'']\<rparr>]\<rparr>],
          md_alternatives_search = Some ''searched'',
          md_recommendation = Some \<lparr>rc_recommended_option_id = Some ''sqlite'',
            rc_evidence_insufficient = False, rc_rationale = ''r'', rc_tradeoffs = [], rc_risks = [''lock''],
            rc_confidence = 1, rc_confidence_basis = ''b'', rc_unresolved_questions = [],
            rc_expected_consequences = [], rc_reversal_or_migration = []\<rparr>,
          md_validation = Some \<lparr>dv_validation_type = ''t'', dv_planned_evidence = [''e''],
            dv_status = (if accepted then ValidationPassed else ValidationPending),
            dv_evaluator_identity = (if accepted then Some ''EVA'' else None),
            dv_evidence_references = (if accepted then [''e''] else []), dv_findings = []\<rparr>,
          md_explanation_preference = None,
          md_supersedes_decision_id = (if accepted then Some ''d1'' else None), md_created_at = 3\<rparr>)"

definition governing :: "mission_op list" where
  "governing = [RecordOrganization True example_org, CreateMission example_mission,
     RecordBrief 1 example_brief 1, CreateChannel example_channel,
     RecordDecision (example_decision ''d1'' DecisionStaged),
     RecordDecision (example_decision ''d2'' DecisionAccepted),
     RecordDecision (example_decision ''d3'' DecisionAccepted),
     ApplyIntervention 5 (intervention ''i1'' Suspend 5) 2,
     ApplyIntervention 6 (intervention ''i2'' Resume 6) 3]"

subsection \<open>What the histories end in\<close>

lemma example_day_ends:
  "let db = after demo_env example_day
   in map mr_state (db_missions db) = [MEvaluating] \<and>
      db_bindings db = [example_binding ''kw'' ''work'' ''a'' [] BindingPending,
        example_binding ''kr'' ''report'' ''b'' [''kw''] BindingPending,
        example_binding ''kw'' ''work'' ''a'' [] BindingAccepted,
        example_binding ''kr'' ''report'' ''b'' [''kw''] BindingAccepted] \<and>
      db_reports db = [example_report]"
  by code_simp

lemma governing_ends:
  "let db = after demo_env governing
   in map mr_state (db_missions db) = [MActive] \<and>
      map mr_current_crew_version (db_missions db) = [None] \<and> db_assignments db = [] \<and>
      db_decisions db = [example_decision ''d1'' DecisionStaged, example_decision ''d2'' DecisionAccepted] \<and>
      db_interventions db = [intervention ''i1'' Suspend 5, intervention ''i2'' Resume 6]"
  by code_simp

end
