(* ===== verification/MissionProperties.thy ===== *)
theory MissionProperties
  imports MissionExample
begin

section \<open>Properties of the mission database\<close>

text \<open>
  The properties of missions and conversations over every history of calls of the two mission
  repositories and the run repository, and the two histories that leave the intended lifecycle.
\<close>

subsection \<open>The history of missions\<close>

lemma after_append: "after env (ops @ later) = run_ops (mission_step env) later (after env ops)"
  by (rule run_ops_append)

lemma rows_wf_after: "rows_wf (after env ops)"
  by (rule missions_history.run_inv [OF rows_wf_empty])

lemma history_after: "mission_history (after env ops) (after env (ops @ later))"
  unfolding after_append by (rule missions_history.run_leq [OF rows_wf_after])

lemma mission_leq_get:
  assumes "get_mission (after env ops) k = Some m"
  obtains m' where "get_mission (after env (ops @ later)) k = Some m'" and "mission_leq m m'"
proof -
  have m: "m \<in> set (db_missions (after env ops))" "mr_mission_id m = k"
    using get_mission_SomeD [OF assms] by auto
  obtain m' where m': "m' \<in> set (db_missions (after env (ops @ later)))" "mission_leq m m'"
    using history_after [of env ops later] m(1) unfolding mission_history_def rows_leq_def by blast
  moreover have "mr_mission_id m' = k" using m(2) m'(2) by (simp add: mission_leq_def)
  ultimately show thesis
    using that rows_wf_after [of env "ops @ later"]
    by (simp add: get_mission_def rows_wf_def tbl_get_Some_iff)
qed

text \<open>An escalation is answered once, by one intervention; nothing else of it ever changes.\<close>

definition escalation_leq :: "mission_escalation \<Rightarrow> mission_escalation \<Rightarrow> bool" where
  "escalation_leq e e' \<longleftrightarrow>
     e' = e \<or>
     es_state e = EscalationOpen \<and>
       (\<exists>k now. e' = e\<lparr>es_state := EscalationAnswered, es_answer_intervention_id := Some k, es_updated_at := now\<rparr>)"

definition escalations_kept :: "mission_db \<Rightarrow> mission_db \<Rightarrow> bool" where
  "escalations_kept db db' \<longleftrightarrow>
     list_all2 escalation_leq (db_escalations db)
       (take (length (db_escalations db)) (db_escalations db'))"

definition escalations_wf :: "mission_db \<Rightarrow> bool" where
  "escalations_wf db \<longleftrightarrow> tbl_wf es_escalation_id (db_escalations db)"

lemma escalation_leq_refl [simp]: "escalation_leq e e"
  by (simp add: escalation_leq_def)

lemma escalation_leq_trans: "escalation_leq a b \<Longrightarrow> escalation_leq b c \<Longrightarrow> escalation_leq a c"
  by (auto simp: escalation_leq_def)

lemma escalations_kept_append:
  "list_all2 escalation_leq (db_escalations db) es \<Longrightarrow> db_escalations db' = es @ new \<Longrightarrow> escalations_kept db db'"
  using list_all2_lengthD [of escalation_leq "db_escalations db" es]
  by (simp add: escalations_kept_def)

lemma escalations_refl: "list_all2 escalation_leq es es"
  by (simp add: list_all2_refl)

lemma escalations_kept_refl: "escalations_kept db db"
  by (rule escalations_kept_append [OF escalations_refl, of _ _ "[]"]) simp

lemma escalations_kept_same: "db_escalations db' = db_escalations db \<Longrightarrow> escalations_kept db db'"
  by (simp add: escalations_kept_def escalations_refl)

lemma escalations_kept_trans:
  assumes "escalations_kept a b" "escalations_kept b c"
  shows "escalations_kept a c"
proof -
  let ?n = "length (db_escalations a)"
  have n: "?n \<le> length (db_escalations b)"
    using list_all2_lengthD [OF assms(1) [unfolded escalations_kept_def]] by simp
  have "list_all2 escalation_leq (take ?n (db_escalations b))
      (take ?n (take (length (db_escalations b)) (db_escalations c)))"
    by (rule list_all2_takeI) (use assms(2) in \<open>simp add: escalations_kept_def\<close>)
  then have "list_all2 escalation_leq (take ?n (db_escalations b)) (take ?n (db_escalations c))"
    using n by (simp add: min_def)
  from list_all2_trans [OF _ assms(1) [unfolded escalations_kept_def] this, of escalation_leq]
  show ?thesis unfolding escalations_kept_def using escalation_leq_trans by blast
qed

lemma answer_escalation_kept:
  assumes "answer_escalation now i db = Inr (db\<lparr>db_escalations := es\<rparr>)" "escalations_wf db"
  shows "list_all2 escalation_leq (db_escalations db) es \<and>
    map es_escalation_id es = map es_escalation_id (db_escalations db)"
proof (cases "iv_escalation_id i")
  case None
  then have "es = db_escalations db"
    using assms(1) by (auto simp: answer_escalation_def dest: arg_cong [of _ _ db_escalations])
  then show ?thesis by (simp add: escalations_refl)
next
  case (Some k)
  then obtain row where row: "tbl_get es_escalation_id k (db_escalations db) = Some row"
      "es_state row = EscalationOpen"
    and es: "es = tbl_upd es_escalation_id k (\<lambda>_. row\<lparr>es_state := EscalationAnswered,
      es_answer_intervention_id := Some (iv_intervention_id i), es_updated_at := now\<rparr>) (db_escalations db)"
    using assms(1)
    by (auto simp: answer_escalation_def ebind_Inr_iff read_escalation_def Let_def
        split: option.splits if_splits dest: arg_cong [of _ _ db_escalations])
  have same: "e = row" if "e \<in> set (db_escalations db)" "es_escalation_id e = k" for e
    using that assms(2) tbl_get_SomeD [OF row(1)] tbl_wf_inj [of es_escalation_id "db_escalations db" e row]
    by (simp add: escalations_wf_def)
  have "list_all2 escalation_leq (db_escalations db) es"
    unfolding es tbl_upd_def list_all2_map2
    by (rule list.rel_refl_strong) (use same row(2) in \<open>auto simp: escalation_leq_def\<close>)
  moreover have "map es_escalation_id es = map es_escalation_id (db_escalations db)"
    using tbl_get_SomeD [OF row(1)] unfolding es tbl_upd_def by simp
  ultimately show ?thesis by blast
qed

lemma writes_escalations:
  assumes "writes env db db'" "escalations_wf db"
  shows "escalations_kept db db' \<and> escalations_wf db'"
  using assms(1)
proof cases
  case (WEscalation e src a t)
  have "escalations_kept db db'"
    by (rule escalations_kept_append [OF escalations_refl, of _ _ "[e]"]) (simp add: WEscalation(1))
  then show ?thesis
    using assms(2) WEscalation(1,2) by (auto simp: escalations_wf_def tbl_get_None_iff)
next
  case (WIntervention i m now es next_state m' src a t)
  then show ?thesis
    using answer_escalation_kept [OF WIntervention(7) assms(2)]
      escalations_kept_append [of db es db' "[]"] assms(2)
    by (simp add: escalations_wf_def)
qed (use assms(2) in \<open>simp_all add: escalations_wf_def escalations_kept_same\<close>)

interpretation escalation_history: machine_monotone "mission_step env" escalations_wf escalations_kept for env
  by unfold_locales
    (auto intro: escalations_kept_refl escalations_kept_trans dest: writes_escalations [OF mission_step_writes])

lemma escalations_after: "escalations_kept (after env ops) (after env (ops @ later))"
  unfolding after_append
  by (rule escalation_history.run_leq, rule escalation_history.run_inv)
    (simp add: escalations_wf_def empty_db_def)

text \<open>
  Claim C16. A mission moves only forward: after any further calls the mission is still there with
  its origin and organization, its revision did not decrease, the row is the same unless its
  revision grew, and a completed, failed or cancelled mission keeps its state. The Briefs, crews,
  assignments, bindings, reports, transitions, environment plans, channels, messages, decisions,
  interventions and organizations recorded are a prefix of those recorded later, and every
  escalation keeps its place and content until its one answer.
\<close>

theorem missions_move_forward:
  assumes "get_mission (after env ops) k = Some m"
  shows "append_only (after env ops) (after env (ops @ later)) \<and>
     escalations_kept (after env ops) (after env (ops @ later)) \<and>
     (\<exists>m'. get_mission (after env (ops @ later)) k = Some m' \<and>
        mr_origin m' = mr_origin m \<and> mr_organization_id m' = mr_organization_id m \<and>
        mr_revision m \<le> mr_revision m' \<and> (mr_revision m' = mr_revision m \<longrightarrow> m' = m) \<and>
        (mr_state m \<in> {MCompleted, MFailed, MCancelled} \<longrightarrow> mr_state m' = mr_state m))"
proof -
  obtain m' where "get_mission (after env (ops @ later)) k = Some m'" "mission_leq m m'"
    using assms by (rule mission_leq_get)
  moreover have "append_only (after env ops) (after env (ops @ later))"
    using history_after [of env ops later] by (simp add: mission_history_def)
  ultimately show ?thesis
    using escalations_after [of env ops later] by (simp add: mission_leq_def terminal_mission_def)
qed

lemma missions_move_forward_witness:
  "\<exists>m'. get_mission (after demo_env ([RecordOrganization True example_org, CreateMission example_mission]
       @ [RecordBrief 1 example_brief 1])) ''m'' = Some m' \<and> 1 \<le> mr_revision m'"
proof -
  have "get_mission (after demo_env [RecordOrganization True example_org, CreateMission example_mission])
      ''m'' = Some (example_mission\<lparr>mr_revision := 1\<rparr>)"
    by code_simp
  from missions_move_forward [OF this, of "[RecordBrief 1 example_brief 1]"] show ?thesis by auto
qed

subsection \<open>Retries\<close>

text \<open>The row of the call's own record exists.\<close>

fun recorded :: "mission_op \<Rightarrow> mission_db \<Rightarrow> bool" where
  "recorded (RecordOrganization e og) db \<longleftrightarrow>
     roster_key og \<in> roster_key ` set (db_rosters db)"
| "recorded (CreateMission m) db \<longleftrightarrow>
     mr_mission_id m \<in> mr_mission_id ` set (db_missions db)"
| "recorded (RecordBrief now b n) db \<longleftrightarrow>
     mb_brief_id b \<in> mb_brief_id ` set (db_briefs db)"
| "recorded (RecordCrew now c n) db \<longleftrightarrow>
     cr_crew_id c \<in> cr_crew_id ` set (db_crews db)"
| "recorded (RecordAssignment g) db \<longleftrightarrow>
     mta_assignment_id g \<in> mta_assignment_id ` set (db_assignments db)"
| "recorded (Transition now t n) db \<longleftrightarrow>
     tn_transition_id t \<in> tn_transition_id ` set (db_transitions db)"
| "recorded (RecordRunBinding b) db \<longleftrightarrow>
     rb_binding_id b \<in> rb_binding_id ` set (db_bindings db)"
| "recorded (RecordRunReport r) db \<longleftrightarrow>
     rp_report_id r \<in> rp_report_id ` set (db_reports db)"
| "recorded (AcceptEnvironmentPlan now e n) db \<longleftrightarrow>
     en_plan_id (ep_plan e) \<in> (\<lambda>e. en_plan_id (ep_plan e)) ` set (db_environment_plans db)"
| "recorded (CreateChannel c) db \<longleftrightarrow>
     ch_conversation_id c \<in> ch_conversation_id ` set (db_channels db)"
| "recorded (PostMessage g) db \<longleftrightarrow>
     mm_message_id g \<in> mm_message_id ` set (db_messages db)"
| "recorded (RecordDecision d) db \<longleftrightarrow>
     md_decision_id d \<in> md_decision_id ` set (db_decisions db)"
| "recorded (CreateEscalation e) db \<longleftrightarrow>
     es_escalation_id e \<in> es_escalation_id ` set (db_escalations db)"
| "recorded (ApplyIntervention now i n) db \<longleftrightarrow>
     iv_intervention_id i \<in> iv_intervention_id ` set (db_interventions db)"
| "recorded (RunStep x) db \<longleftrightarrow> False"

lemma answered_tables:
  "answer_escalation now i db = Inr db' \<Longrightarrow> db_interventions db' = db_interventions db"
  using answer_escalation_Inr by fastforce

text \<open>A call that returns has its record in the table.\<close>

lemma record_organization_recorded:
  "record_organization e og db = Inr (db', x) \<Longrightarrow> roster_key og \<in> roster_key ` set (db_rosters db')"
  by (auto simp: record_organization_def op_Inr dest!: tbl_get_SomeD split: option.splits)

lemma create_mission_recorded:
  "create_mission m db = Inr (db', x) \<Longrightarrow> mr_mission_id m \<in> mr_mission_id ` set (db_missions db')"
  by (auto simp: create_mission_def get_mission_def op_Inr dest!: tbl_get_SomeD
      intro: image_eqI [of _ _ "m\<lparr>mr_revision := 1\<rparr>"] split: option.splits if_splits)

lemma record_brief_recorded:
  "record_brief now b n db = Inr (db', x) \<Longrightarrow> mb_brief_id b \<in> mb_brief_id ` set (db_briefs db')"
  by (auto simp: record_brief_def op_Inr dest!: tbl_get_SomeD split: option.splits)

lemma record_crew_recorded:
  "record_crew now c n db = Inr (db', x) \<Longrightarrow> cr_crew_id c \<in> cr_crew_id ` set (db_crews db')"
  by (auto simp: record_crew_def op_Inr dest!: tbl_get_SomeD split: option.splits)

lemma record_assignment_recorded:
  "record_assignment g db = Inr (db', x) \<Longrightarrow> mta_assignment_id g \<in> mta_assignment_id ` set (db_assignments db')"
  by (auto simp: record_assignment_def op_Inr dest!: tbl_get_SomeD split: option.splits)

lemma transition_recorded:
  "transition now t n db = Inr (db', x) \<Longrightarrow> tn_transition_id t \<in> tn_transition_id ` set (db_transitions db')"
  by (auto simp: transition_def op_Inr dest!: tbl_get_SomeD split: option.splits)

lemma record_run_binding_recorded:
  "record_run_binding b db = Inr (db', x) \<Longrightarrow> rb_binding_id b \<in> rb_binding_id ` set (db_bindings db')"
  by (auto simp: record_run_binding_def op_Inr dest!: tbl_get_SomeD split: option.splits)

lemma record_run_report_recorded:
  "record_run_report r db = Inr (db', x) \<Longrightarrow> rp_report_id r \<in> rp_report_id ` set (db_reports db')"
  by (auto simp: record_run_report_def op_Inr dest!: tbl_get_SomeD split: option.splits)

lemma accept_environment_plan_recorded:
  "accept_environment_plan now e n db = Inr (db', x) \<Longrightarrow> en_plan_id (ep_plan e) \<in> (\<lambda>e. en_plan_id (ep_plan e)) ` set (db_environment_plans db')"
  by (auto simp: accept_environment_plan_def op_Inr dest!: tbl_get_SomeD split: option.splits)

lemma create_channel_recorded:
  "create_channel c db = Inr (db', x) \<Longrightarrow> ch_conversation_id c \<in> ch_conversation_id ` set (db_channels db')"
  by (auto simp: create_channel_def op_Inr dest!: tbl_get_SomeD split: option.splits)

lemma post_message_recorded:
  "post_message g db = Inr (db', x) \<Longrightarrow> mm_message_id g \<in> mm_message_id ` set (db_messages db')"
  by (auto simp: post_message_def op_Inr dest!: tbl_get_SomeD split: option.splits)

lemma record_decision_recorded:
  "record_decision d db = Inr (db', x) \<Longrightarrow> md_decision_id d \<in> md_decision_id ` set (db_decisions db')"
  by (auto simp: record_decision_def op_Inr dest!: tbl_get_SomeD split: option.splits)

lemma create_escalation_recorded:
  "create_escalation e db = Inr (db', x) \<Longrightarrow> es_escalation_id e \<in> es_escalation_id ` set (db_escalations db')"
  by (auto simp: create_escalation_def op_Inr dest!: tbl_get_SomeD split: option.splits if_splits)

lemma apply_intervention_recorded:
  "apply_intervention now i n db = Inr (db', x) \<Longrightarrow> iv_intervention_id i \<in> iv_intervention_id ` set (db_interventions db')"
  by (auto simp: apply_intervention_def op_Inr dest!: tbl_get_SomeD answered_tables split: option.splits if_splits)

lemmas op_recorded = record_organization_recorded create_mission_recorded record_brief_recorded record_crew_recorded
  record_assignment_recorded transition_recorded record_run_binding_recorded record_run_report_recorded
  accept_environment_plan_recorded create_channel_recorded post_message_recorded
  record_decision_recorded create_escalation_recorded apply_intervention_recorded

lemma commit_recorded:
  "(\<And>db' x. r = Inr (db', x) \<Longrightarrow> P db') \<Longrightarrow> commit db r \<noteq> db \<Longrightarrow> P (commit db r)"
  by (cases r) auto

lemma changing_step_recorded:
  assumes "mission_step env x db \<noteq> db" and "\<forall>y. x \<noteq> RunStep y"
  shows "recorded x (mission_step env x db)"
proof -
  have "mission_step env x db = perform env x db"
    using assms(1) by (auto simp: mission_step_def)
  then show ?thesis
    using assms by (cases x)
      (simp_all only: perform.simps recorded.simps, (erule commit_recorded [rotated], erule op_recorded)+, simp)
qed

text \<open>Recorded rows stay: the tables grow, mission and escalation rows keep their keys.\<close>

lemma answer_escalation_keys:
  "answer_escalation now i db = Inr db' \<Longrightarrow>
   map es_escalation_id (db_escalations db') = map es_escalation_id (db_escalations db)"
  by (auto simp: answer_escalation_def ebind_Inr_iff read_escalation_def Let_def tbl_upd_def
      dest!: tbl_get_SomeD split: option.splits if_splits)

lemma escalation_keys_stay:
  assumes "writes env db db'"
  shows "es_escalation_id ` set (db_escalations db) \<subseteq> es_escalation_id ` set (db_escalations db')"
  using assms
proof cases
  case (WIntervention i m now es next_state m')
  then have "map es_escalation_id es = map es_escalation_id (db_escalations db)"
    using answer_escalation_keys by fastforce
  then have "es_escalation_id ` set es = es_escalation_id ` set (db_escalations db)"
    by (metis set_map)
  then show ?thesis by (simp add: WIntervention(1))
qed auto

lemma mission_keys_stay:
  assumes "writes env db db'"
  shows "mr_mission_id ` set (db_missions db) \<subseteq> mr_mission_id ` set (db_missions db')"
  using assms
proof (cases rule: writes_missions)
  case (upd m m')
  then have "map mr_mission_id (db_missions db') = map mr_mission_id (db_missions db)"
    by (simp add: missions_upd_keys succeeds_def)
  then show ?thesis by (metis set_map order_refl)
qed auto

lemma recorded_stays: "recorded x db \<Longrightarrow> recorded x (mission_step env y db)"
proof -
  assume r: "recorded x db"
  have w: "writes env db (mission_step env y db)" by (rule mission_step_writes)
  have "append_only db (mission_step env y db)" by (rule writes_append_only [OF w])
  then show ?thesis
    using r mission_keys_stay [OF w] escalation_keys_stay [OF w]
    by (cases x) (auto simp: append_only_def dest!: set_mono_prefix)
qed

lemma recorded_run: "recorded x db \<Longrightarrow> recorded x (run_ops (mission_step env) later db)"
  by (induction later arbitrary: db) (simp_all add: recorded_stays)

lemma idempotent_commit:
  "commit db (idempotent_write e w db) = db" "commit db (idempotent_record e w db) = db"
  by (simp_all add: idempotent_write_def idempotent_record_def guard_def)

lemma recorded_lookup: "k \<in> key ` set rows \<Longrightarrow> \<exists>r. tbl_get key k rows = Some r"
  using tbl_get_None_iff [of key k rows] by (cases "tbl_get key k rows") auto

lemma recorded_step: "recorded x db \<Longrightarrow> mission_step env x db = db"
proof -
  assume "recorded x db"
  then have "perform env x db = db"
    by (cases x)
      (auto dest!: recorded_lookup simp: op_defs get_mission_def idempotent_commit Let_def guard_def
        require_organization_def ebind_def split: sum.split)
  then show ?thesis by (simp add: mission_step_def)
qed

text \<open>
  Every write happens once: a call that changed the database, repeated with the same
  argument after any other calls, changes nothing (it returns the stored record or is refused),
  so that a client may retry each call of the mission repositories.
\<close>

theorem mission_writes_happen_once:
  assumes "mission_step env x db \<noteq> db" and "\<forall>y. x \<noteq> RunStep y"
  shows "mission_step env x (run_ops (mission_step env) later (mission_step env x db)) =
     run_ops (mission_step env) later (mission_step env x db)"
  by (intro recorded_step recorded_run changing_step_recorded assms)

lemma mission_writes_happen_once_witness:
  "let x = RecordOrganization True example_org; db = after demo_env [x]
   in mission_step demo_env x (mission_step demo_env (CreateMission example_mission) db) =
      mission_step demo_env (CreateMission example_mission) db"
proof -
  have "mission_step demo_env (RecordOrganization True example_org) empty_db \<noteq> empty_db"
  proof
    assume "mission_step demo_env (RecordOrganization True example_org) empty_db = empty_db"
    then have "db_rosters (mission_step demo_env (RecordOrganization True example_org) empty_db) = []"
      by (simp add: empty_db_def)
    moreover have "db_rosters (mission_step demo_env (RecordOrganization True example_org) empty_db)
        = [example_org]" by code_simp
    ultimately show False by simp
  qed
  from mission_writes_happen_once [OF this, of "[CreateMission example_mission]"] show ?thesis by simp
qed

subsection \<open>Reading back\<close>

lemma mission_stays_readable:
  assumes "has_brief db k" and "rows_wf db"
  shows "\<exists>m. require_mission db k = Inr m"
proof -
  obtain m where "m \<in> set (db_missions db)" "mr_mission_id m = k" "mr_current_brief_version m \<noteq> None"
    using assms(1) by (auto simp: has_brief_def)
  then have "get_mission db k = Some m \<and> advanced_states_have_a_brief m"
    using assms(2) by (simp add: get_mission_def rows_wf_def tbl_get_Some_iff advanced_states_have_a_brief_def)
  then show ?thesis unfolding require_mission_Inr by blast
qed

lemma selected_positive: "1 \<le> v \<Longrightarrow> selected_version (Some v) c = Some v"
  by (simp add: selected_version_def)

text \<open>
  Claim C26. What was recorded is read back for ever, after any further calls: asking for the version
  of a recorded Brief returns exactly that Brief, asking for the version of a recorded crew returns
  exactly that crew, and asking for a recorded decision returns exactly that decision. (Versions
  count from 1; the query reads 0 as the current version.)
\<close>

theorem recorded_revisions_are_read_back:
  "(\<forall>b \<in> set (db_briefs (after env ops)). 1 \<le> mb_version b \<longrightarrow>
      brief_of (mb_mission_id b) (Some (mb_version b)) (after env (ops @ later)) = Inr b) \<and>
   (\<forall>c \<in> set (db_crews (after env ops)). 1 \<le> cr_version c \<longrightarrow>
      crew_of (cr_mission_id c) (Some (cr_version c)) (after env (ops @ later)) = Inr c) \<and>
   (\<forall>d \<in> set (db_decisions (after env ops)). decision (md_decision_id d) (after env (ops @ later)) = Inr d)"
  (is "?briefs \<and> ?crews \<and> ?decisions")
proof -
  let ?db = "after env (ops @ later)"
  have wf: "rows_wf ?db \<and> versions_wf ?db"
    by (rule versions_machine.run_inv) (simp add: rows_wf_empty versions_wf_empty)
  have "append_only (after env ops) ?db"
    using history_after [of env ops later] by (simp add: mission_history_def)
  then have in_later: "set (db_briefs (after env ops)) \<subseteq> set (db_briefs ?db)"
      "set (db_crews (after env ops)) \<subseteq> set (db_crews ?db)"
      "set (db_decisions (after env ops)) \<subseteq> set (db_decisions ?db)"
    by (auto simp: append_only_def dest: set_mono_prefix)
  have ?briefs
  proof (intro ballI impI)
    fix b assume b: "b \<in> set (db_briefs (after env ops))" "1 \<le> mb_version b"
    then have "tbl_get brief_key (mb_mission_id b, mb_version b) (db_briefs ?db) = Some b"
      using wf in_later(1) by (auto simp: versions_wf_def tbl_get_Some_iff brief_key_def)
    moreover obtain m where "require_mission ?db (mb_mission_id b) = Inr m"
      using mission_stays_readable [of ?db "mb_mission_id b"] wf b(1) in_later(1)
      unfolding versions_wf_def by blast
    ultimately show "brief_of (mb_mission_id b) (Some (mb_version b)) ?db = Inr b"
      using b(2) by (simp add: brief_of_def brief_row_def selected_positive)
  qed
  moreover have ?crews
  proof (intro ballI impI)
    fix c assume c: "c \<in> set (db_crews (after env ops))" "1 \<le> cr_version c"
    then have "tbl_get crew_key (cr_mission_id c, cr_version c) (db_crews ?db) = Some c"
      using wf in_later(2) by (auto simp: versions_wf_def tbl_get_Some_iff crew_key_def)
    moreover obtain m where "require_mission ?db (cr_mission_id c) = Inr m"
      using mission_stays_readable [of ?db "cr_mission_id c"] wf c(1) in_later(2)
      unfolding versions_wf_def by blast
    ultimately show "crew_of (cr_mission_id c) (Some (cr_version c)) ?db = Inr c"
      using c(2) by (simp add: crew_of_def crew_row_def selected_positive)
  qed
  moreover have ?decisions
  proof
    fix d assume "d \<in> set (db_decisions (after env ops))"
    moreover have "governance_wf ?db" by (rule governance_machine.run_inv [OF governance_wf_empty])
    ultimately show "decision (md_decision_id d) ?db = Inr d"
      using in_later(3)
      by (auto simp: decision_def governance_wf_def decisions_settled_once_def tbl_get_Some_iff)
  qed
  ultimately show ?thesis by blast
qed

lemma recorded_revisions_are_read_back_witness:
  "brief_of ''m'' (Some 1) (after demo_env ((staffing @ [CreateChannel example_channel,
     RecordDecision (example_decision ''d1'' DecisionStaged)]) @ activating)) = Inr example_brief"
proof -
  let ?ops = "staffing @ [CreateChannel example_channel, RecordDecision (example_decision ''d1'' DecisionStaged)]"
  have "db_briefs (after demo_env ?ops) = [example_brief]" by code_simp
  then have "example_brief \<in> set (db_briefs (after demo_env ?ops))" by simp
  moreover have "1 \<le> mb_version example_brief" by (simp add: example_brief_def)
  ultimately have "brief_of (mb_mission_id example_brief) (Some (mb_version example_brief))
      (after demo_env (?ops @ activating)) = Inr example_brief"
    by (rule mp [OF bspec [OF conjunct1 [OF recorded_revisions_are_read_back]]])
  then show ?thesis by (simp add: example_brief_def)
qed

subsection \<open>Activation\<close>

text \<open>
  Claim C14. A transition activates a mission only over a complete assignment: the caller saw the
  current revision, the current crew was formed for the current Brief, the newest assignment of
  every task names that crew, and these assignments form a separated graph.
\<close>

theorem activation_requires_separation:
  assumes "transition now t n db = Inr (db', r)" and "tn_to_state t = MActive"
    and "tbl_get tn_transition_id (tn_transition_id t) (db_transitions db) = None"
  shows "\<exists>m version crew. get_mission db (tn_mission_id t) = Some m \<and> mr_revision m = n \<and>
      mr_state m = tn_from_state t \<and> mr_current_crew_version m = Some version \<and>
      crew_row db (mr_mission_id m) version = Inr crew \<and>
      mr_current_brief_version m = Some (cr_brief_version crew) \<and>
      (\<forall>(k, a) \<in> set (latest (mission_assignments db (mr_mission_id m))). mta_crew_version a = version) \<and>
      separated (latest (mission_assignments db (mr_mission_id m)))"
proof -
  obtain m where m: "get_mission db (tn_mission_id t) = Some m" "mr_revision m = n"
      and c: "check_transition t m db = Inr ()"
    using assms by (auto simp: transition_def op_Inr)
  have "mr_state m = tn_from_state t" and act: "check_activation m db = Inr ()"
    using c assms(2) by (auto simp: check_transition_def ebind_Inr_iff)
  moreover obtain version crew where "mr_current_crew_version m = Some version"
      "crew_row db (mr_mission_id m) version = Inr crew"
      "mr_current_brief_version m = Some (cr_brief_version crew)"
      "list_all (\<lambda>(k, a). mta_crew_version a = version)
         (latest (mission_assignments db (mr_mission_id m)))"
      "validate (mission_assignments db (mr_mission_id m)) = Inr ()"
    using act by (auto simp: check_activation_def Let_def ebind_Inr_iff)
  ultimately show ?thesis using m by (auto simp: validate_separated list_all_iff)
qed

lemma activation_requires_separation_witness:
  "separated (latest (mission_assignments (after demo_env (staffing @
     [Transition 4 (example_transition ''t1'' MClarifying MPlanned) 3])) ''m''))"
proof -
  let ?db = "after demo_env (staffing @ [Transition 4 (example_transition ''t1'' MClarifying MPlanned) 3])"
  let ?t = "example_transition ''t2'' MPlanned MActive"
  have "\<not> is_error (transition 5 ?t 4 ?db) \<and> tn_to_state ?t = MActive \<and>
      tbl_get tn_transition_id (tn_transition_id ?t) (db_transitions ?db) = None \<and>
      map mr_mission_id (db_missions ?db) = [''m''] \<and> tn_mission_id ?t = ''m''"
    by code_simp
  then have "transition 5 ?t 4 ?db = Inr (fst (projr (transition 5 ?t 4 ?db)),
      snd (projr (transition 5 ?t 4 ?db)))" "tn_to_state ?t = MActive"
      "tbl_get tn_transition_id (tn_transition_id ?t) (db_transitions ?db) = None"
    and m: "tn_mission_id ?t = ''m''"
    using not_error_pair by blast+
  from activation_requires_separation [OF this(1-3)] obtain m where
      "get_mission ?db ''m'' = Some m" "separated (latest (mission_assignments ?db (mr_mission_id m)))"
    unfolding m by blast
  then show ?thesis using get_mission_SomeD by fastforce
qed

subsection \<open>Run bindings\<close>

lemma bindings_wf_after: "rows_wf (after env ops) \<and> bindings_wf (after env ops)"
  by (rule bindings_machine.run_inv) (simp add: rows_wf_empty bindings_wf_empty)

text \<open>
  Claim C13. Mission acceptance rests on durable run evidence: in every reachable database an
  accepted run binding names an accepted task of the run repository, with its row in the tables of
  results and of acceptances, under a plan of that mission with the bound fingerprint, and the producer of the
  accepted review is the accountable owner of the bound assignment.
\<close>

theorem accepted_bindings_are_backed:
  assumes "b \<in> set (db_bindings (after env ops))" and "rb_acceptance b = BindingAccepted"
  shows "\<exists>x \<in> set (tasks (db_store (after env ops))).
      \<exists>res \<in> set (results (db_store (after env ops))).
      \<exists>a \<in> set (acceptances (db_store (after env ops))).
      \<exists>p \<in> set (plans (db_store (after env ops))). \<exists>g \<in> set (db_assignments (after env ops)).
      task_key x = (rb_run_id b, rb_execution_task_id b) \<and> tk_status x = TAccepted \<and>
      result_key res = task_key x \<and> acceptance_key a = task_key x \<and> pl_run_id p = rb_run_id b \<and>
      rb_plan_fingerprint b = Some (ap_fingerprint (pl_payload p)) \<and>
      map_option pob_mission_id (ap_organization_binding (pl_payload p)) = Some (Some (rb_mission_id b)) \<and>
      rb_assignment_id b = Some (mta_assignment_id g) \<and>
      rd_producer_identity (ac_review a) = Some (mta_accountable_owner g)"
proof -
  let ?db = "after env ops"
  have "evidenced (db_store ?db) (db_assignments ?db) b"
    using bindings_wf_after [of env ops] assms(1) by (simp add: bindings_wf_def bindings_evidenced_def)
  then obtain p a g where p: "p \<in> set (plans (db_store ?db))" "pl_run_id p = rb_run_id b"
      "rb_plan_fingerprint b = Some (ap_fingerprint (pl_payload p))"
      "map_option pob_mission_id (ap_organization_binding (pl_payload p)) = Some (Some (rb_mission_id b))"
    and a: "a \<in> set (acceptances (db_store ?db))"
      "acceptance_key a = (rb_run_id b, rb_execution_task_id b)"
    and g: "g \<in> set (db_assignments ?db)" "rb_assignment_id b = Some (mta_assignment_id g)"
      "rd_producer_identity (ac_review a) = Some (mta_accountable_owner g)"
    using assms(2) unfolding evidenced_def by auto
  have "run_wf (db_store ?db)" using rows_wf_after [of env ops] by (simp add: rows_wf_def)
  then have "acceptance_key ` set (acceptances (db_store ?db)) = accepted_keys (db_store ?db)"
    by (simp add: run_wf_def results_wf_def)
  then have "acceptance_key a \<in> accepted_keys (db_store ?db)" using a(1) by blast
  then obtain x where x: "x \<in> set (tasks (db_store ?db))" "tk_status x = TAccepted"
      "task_key x = acceptance_key a" by (auto simp: accepted_keys_def)
  have "result_key ` set (results (db_store ?db)) = accepted_keys (db_store ?db)"
    using \<open>run_wf (db_store ?db)\<close> by (simp add: run_wf_def results_wf_def)
  then have "acceptance_key a \<in> result_key ` set (results (db_store ?db))"
    using \<open>acceptance_key a \<in> accepted_keys (db_store ?db)\<close> by (simp only:)
  then obtain res where res: "res \<in> set (results (db_store ?db))" "acceptance_key a = result_key res"
    by (rule imageE)
  show ?thesis
    using x res a p g by (intro bexI [of _ x] bexI [of _ res] bexI [of _ a] bexI [of _ p] bexI [of _ g]) auto
qed

lemma accepted_bindings_are_backed_witness:
  "\<exists>x \<in> set (tasks (db_store (after demo_env example_day))).
     task_key x = (''r'', ''a'') \<and> tk_status x = TAccepted"
proof -
  let ?b = "example_binding ''kw'' ''work'' ''a'' [] BindingAccepted"
  have "?b \<in> set (db_bindings (after demo_env example_day))"
    using example_day_ends by (simp add: Let_def)
  moreover have "rb_acceptance ?b = BindingAccepted" "rb_run_id ?b = ''r''" "rb_execution_task_id ?b = ''a''"
    by (simp_all add: example_binding_def)
  ultimately show ?thesis using accepted_bindings_are_backed [of ?b demo_env example_day] by auto
qed

lemma settled_after_pending:
  assumes "bindings_chained bs" and "b \<in> set bs" and "rb_mission_id b = rb_mission_id c"
    and "rb_binding_key b = rb_binding_key c" and "rb_binding_revision b = 1" and "settles_pending bs c"
  shows "binding_lineage b c \<and> rb_acceptance b = BindingPending"
proof -
  obtain p where p: "p \<in> set bs" "binding_lineage p c" "rb_binding_revision p = 1"
      "rb_acceptance p = BindingPending"
    using assms(6) by (auto simp: settles_pending_def)
  have wf: "tbl_wf revision_key bs" using assms(1) by (simp add: bindings_chained_def)
  have "p = b"
    using assms p by (intro tbl_wf_inj [OF wf]) (auto simp: binding_lineage_def)
  then show ?thesis using p by simp
qed

lemma settles_pending_revision: "settles_pending bs c \<Longrightarrow> rb_binding_revision c = 2"
  by (simp add: settles_pending_def)

text \<open>
  A run binding is settled once: all revisions of a binding key describe the same task of
  the same run under the same assignment and plan, and at most one of them is accepted or rejected.
\<close>

theorem bindings_are_settled_once:
  assumes "b \<in> set (db_bindings (after env ops))" and "c \<in> set (db_bindings (after env ops))"
    and "rb_mission_id b = rb_mission_id c" and "rb_binding_key b = rb_binding_key c"
  shows "binding_lineage b c \<and>
     (rb_acceptance b \<noteq> BindingPending \<and> rb_acceptance c \<noteq> BindingPending \<longrightarrow> b = c)"
proof -
  let ?bs = "db_bindings (after env ops)"
  have chained: "bindings_chained ?bs" using bindings_wf_after by (simp add: bindings_wf_def)
  then have wf: "tbl_wf revision_key ?bs"
    and b: "rb_binding_revision b = 1 \<or> settles_pending ?bs b"
    and c: "rb_binding_revision c = 1 \<or> settles_pending ?bs c"
    using assms(1,2) by (simp_all add: bindings_chained_def)
  show ?thesis
  proof (cases "rb_binding_revision b = rb_binding_revision c")
    case True
    then have "b = c" using assms by (intro tbl_wf_inj [OF wf]) auto
    then show ?thesis by (simp add: binding_lineage_def)
  next
    case False
    then consider "rb_binding_revision b = 1" "settles_pending ?bs c"
      | "rb_binding_revision c = 1" "settles_pending ?bs b"
      using b c settles_pending_revision [of ?bs b] settles_pending_revision [of ?bs c] by fastforce
    then show ?thesis
    proof cases
      case 1
      then show ?thesis using settled_after_pending [OF chained assms(1,3,4)] by simp
    next
      case 2
      then show ?thesis
        using settled_after_pending [OF chained assms(2) assms(3,4) [symmetric]]
        by (simp add: binding_lineage_def)
    qed
  qed
qed

lemma bindings_are_settled_once_witness:
  "binding_lineage (example_binding ''kw'' ''work'' ''a'' [] BindingPending)
     (example_binding ''kw'' ''work'' ''a'' [] BindingAccepted)"
proof -
  let ?b = "example_binding ''kw'' ''work'' ''a'' [] BindingPending"
  let ?c = "example_binding ''kw'' ''work'' ''a'' [] BindingAccepted"
  have "?b \<in> set (db_bindings (after demo_env example_day))"
      "?c \<in> set (db_bindings (after demo_env example_day))"
    using example_day_ends by (simp_all add: Let_def)
  moreover have "rb_mission_id ?b = rb_mission_id ?c" "rb_binding_key ?b = rb_binding_key ?c"
    by (simp_all add: example_binding_def)
  ultimately show ?thesis by (rule bindings_are_settled_once [THEN conjunct1])
qed

text \<open>
  Mission-level dependencies never deadlock: in every reachable database, as long as the
  newest binding of some key of a mission is pending, some pending binding depends only on keys
  whose newest binding is settled.
\<close>

theorem pending_bindings_never_deadlock:
  assumes "(key, b) \<in> set (latest_bindings (mission_bindings (after env ops) k))"
    and "rb_acceptance b = BindingPending"
  shows "\<exists>(j, c) \<in> set (latest_bindings (mission_bindings (after env ops) k)).
      rb_acceptance c = BindingPending \<and>
      (\<forall>d \<in> set (rb_depends_on_binding_keys c). \<exists>e.
         map_of (latest_bindings (mission_bindings (after env ops) k)) d = Some e \<and>
         rb_acceptance e \<noteq> BindingPending)"
proof -
  let ?l = "latest_bindings (mission_bindings (after env ops) k)"
  let ?g = "binding_graph ?l"
  have "?g = mission_graph (db_bindings (after env ops)) k"
    by (simp add: mission_graph_def mission_bindings_def)
  then have closed: "closed_graph ?g" and acyclic: "acyclic (graph_edges ?g)"
    using bindings_wf_after [of env ops] by (simp_all add: bindings_wf_def bindings_acyclic_def)
  have dist: "distinct (map fst ?l)" by (simp add: latest_bindings_def latest_by_distinct)
  define R where "R = {j. \<exists>c. map_of ?l j = Some c \<and> rb_acceptance c = BindingPending}"
  have "key \<in> R" using assms dist by (auto simp: R_def)
  moreover have "R \<subseteq> nodes_of ?g"
    by (auto simp: R_def nodes_binding_graph dest!: map_of_SomeD intro: rev_image_eqI)
  ultimately obtain j where j: "j \<in> R" "deps_of ?g j \<inter> R = {}"
    using ready_node_exists [of "nodes_of ?g" "deps_of ?g" R] acyclic by (metis empty_iff finite_imageI List.finite_set)
  then obtain c where c: "map_of ?l j = Some c" "rb_acceptance c = BindingPending"
    by (auto simp: R_def)
  have jn: "j \<in> nodes_of ?g" using \<open>R \<subseteq> nodes_of ?g\<close> j(1) by blast
  have "map_of ?g j = Some (rb_depends_on_binding_keys c)"
    using c(1) by (simp add: binding_graph_def map_of_map)
  then have deps: "deps_of ?g j = set (rb_depends_on_binding_keys c)" by (simp add: deps_of_def)
  have "\<exists>e. map_of ?l d = Some e \<and> rb_acceptance e \<noteq> BindingPending"
    if d: "d \<in> set (rb_depends_on_binding_keys c)" for d
  proof -
    have "d \<in> nodes_of ?g" using closed jn d deps unfolding closed_graph_def by blast
    then have "d \<in> fst ` set ?l" by (simp only: nodes_binding_graph)
    then obtain e where "map_of ?l d = Some e" by (metis map_of_eq_None_iff not_None_eq)
    then show ?thesis using j(2) d deps by (auto simp: R_def)
  qed
  then show ?thesis using c map_of_SomeD [OF c(1)] by blast
qed

lemma pending_bindings_never_deadlock_witness:
  "\<exists>(j, c) \<in> set (latest_bindings (mission_bindings (after demo_env (staffing @ planning)) ''m'')).
     rb_acceptance c = BindingPending"
proof -
  let ?l = "latest_bindings (mission_bindings (after demo_env (staffing @ planning)) ''m'')"
  let ?b = "example_binding ''kr'' ''report'' ''b'' [''kw''] BindingPending"
  have "?l = [(''kw'', example_binding ''kw'' ''work'' ''a'' [] BindingPending), (''kr'', ?b)]"
    by code_simp
  then have "(''kr'', ?b) \<in> set ?l" by simp
  moreover have "rb_acceptance ?b = BindingPending" by (simp add: example_binding_def)
  ultimately show ?thesis by (rule pending_bindings_never_deadlock [THEN bexE]) auto
qed

subsection \<open>Decisions and interventions\<close>

lemma governance_after: "governance_wf (after env ops)"
  by (rule governance_machine.run_inv [OF governance_wf_empty])

text \<open>
  Claim C18. A consequential decision is settled once and as it was staged: every accepted or
  rejected decision 1.1 of a reachable database supersedes a staged decision with the same
  context, evidence, criteria, alternatives and recommendation, and no two supersede the same one.
\<close>

theorem decisions_are_settled_once:
  assumes "d \<in> set (db_decisions (after env ops))" and "settles d"
  shows "(\<exists>p \<in> set (db_decisions (after env ops)).
        md_supersedes_decision_id d = Some (md_decision_id p) \<and>
        md_decision_status p = Some DecisionStaged \<and> recommendation_preserved p d) \<and>
     (\<forall>e \<in> set (db_decisions (after env ops)). settles e \<and>
        md_supersedes_decision_id e = md_supersedes_decision_id d \<longrightarrow> e = d)"
proof -
  have once: "decisions_settled_once (db_decisions (after env ops))"
    using governance_after by (simp add: governance_wf_def)
  then have "settlement_of_staged (db_decisions (after env ops)) d"
    using assms by (simp add: decisions_settled_once_def)
  then show ?thesis
    using once assms by (auto simp: decisions_settled_once_def settlement_of_staged_def staged_def)
qed

lemma decisions_are_settled_once_witness:
  "\<exists>p \<in> set (db_decisions (after demo_env governing)).
     md_supersedes_decision_id (example_decision ''d2'' DecisionAccepted) = Some (md_decision_id p) \<and>
     recommendation_preserved p (example_decision ''d2'' DecisionAccepted)"
proof -
  let ?d = "example_decision ''d2'' DecisionAccepted"
  have "?d \<in> set (db_decisions (after demo_env governing))"
    using governing_ends by (simp add: Let_def)
  moreover have "settles ?d" by (simp add: settles_def example_decision_def)
  ultimately show ?thesis using decisions_are_settled_once [of ?d demo_env governing] by blast
qed

text \<open>
  The interventions on a target obey the control protocol: of two different recorded
  interventions on the same target of a mission one is strictly later, never are both dispositions
  of a proposal or both acceptances of a risk, and a stopped task is not suspended, resumed or
  stopped afterwards.
\<close>

theorem interventions_follow_protocol:
  assumes "db_interventions (after env ops) = xs @ i # ys" and "j \<in> set ys" and "same_target i j"
  shows "iv_created_at i < iv_created_at j \<and>
     \<not> (iv_kind i \<in> {AcceptProposal, RejectProposal} \<and> iv_kind j \<in> {AcceptProposal, RejectProposal}) \<and>
     \<not> (iv_kind i = AcceptRisk \<and> iv_kind j = AcceptRisk) \<and>
     (iv_target_kind i = TargetTask \<and> iv_kind i = Stop \<longrightarrow> iv_kind j \<notin> {Suspend, Resume, Stop})"
proof -
  have "interventions_ordered (xs @ i # ys)"
    using governance_after [of env ops] assms(1) by (simp add: governance_wf_def)
  then have "may_follow i j" using assms(2) by (simp add: sorted_wrt_append)
  then show ?thesis using assms(3) by (simp add: may_follow_def controls_def)
qed

lemma interventions_follow_protocol_witness:
  "iv_created_at (intervention ''i1'' Suspend 5) < iv_created_at (intervention ''i2'' Resume 6)"
proof -
  have "db_interventions (after demo_env governing) =
      [] @ intervention ''i1'' Suspend 5 # [intervention ''i2'' Resume 6]"
    using governing_ends by (simp add: Let_def)
  moreover have "same_target (intervention ''i1'' Suspend 5) (intervention ''i2'' Resume 6)"
    by (simp add: same_target_def intervention_def)
  ultimately show ?thesis using interventions_follow_protocol by fastforce
qed

subsection \<open>Reports\<close>

text \<open>
  Claim C17. A run report is complete and independent: every report of a reachable database names
  the accepted plan of its run and covers exactly its tasks, for each of them the run repository
  holds an acceptance whose evaluator is not the reporter, and an accepted binding whose result and
  acceptance references the report cites as evidence; a run is reported once.
\<close>

theorem reports_are_complete_and_independent:
  assumes "r \<in> set (db_reports (after env ops))"
  shows "(\<exists>p \<in> set (plans (db_store (after env ops))). pl_run_id p = rp_run_id r \<and>
        rp_plan_fingerprint r = ap_fingerprint (pl_payload p) \<and>
        rt_execution_task_id ` set (rp_task_results r) = pt_task_id ` set (plan_tasks (pl_payload p))) \<and>
     (\<forall>item \<in> set (rp_task_results r).
        (\<exists>a \<in> set (acceptances (db_store (after env ops))).
           acceptance_key a = (rp_run_id r, rt_execution_task_id item) \<and>
           rd_evaluator_identity (ac_review a) \<noteq> Some (rp_reporter_identity r)) \<and>
        (\<exists>b \<in> set (db_bindings (after env ops)). rb_mission_id b = rp_mission_id r \<and>
           rb_run_id b = rp_run_id r \<and> rb_execution_task_id b = rt_execution_task_id item \<and>
           rb_acceptance b = BindingAccepted \<and>
           set (rb_result_references b) \<union> set (rb_acceptance_references b)
             \<subseteq> set (rt_evidence_references item))) \<and>
     (\<forall>q \<in> set (db_reports (after env ops)).
        rp_mission_id q = rp_mission_id r \<and> rp_run_id q = rp_run_id r \<longrightarrow> q = r)"
proof -
  have wf: "reports_wf (after env ops)"
    using reports_machine.run_inv [of empty_db env ops] by (simp add: rows_wf_empty reports_wf_empty)
  then have ev: "report_evidenced (db_store (after env ops)) (db_bindings (after env ops)) r"
    using assms by (simp add: reports_wf_def)
  have "tbl_wf (\<lambda>r. (rp_mission_id r, rp_run_id r)) (db_reports (after env ops))"
    using wf by (simp add: reports_wf_def)
  from tbl_wf_inj [OF this _ assms] have "q = r" if "q \<in> set (db_reports (after env ops))"
      "rp_mission_id q = rp_mission_id r" "rp_run_id q = rp_run_id r" for q
    using that by simp
  then show ?thesis using ev unfolding report_evidenced_def item_evidenced_def by blast
qed

lemma reports_are_complete_and_independent_witness:
  "\<exists>p \<in> set (plans (db_store (after demo_env example_day))). pl_run_id p = rp_run_id example_report"
proof -
  have "example_report \<in> set (db_reports (after demo_env example_day))"
    using example_day_ends by (simp add: Let_def)
  from reports_are_complete_and_independent [OF this] show ?thesis by blast
qed

subsection \<open>Two histories outside the lifecycle\<close>

text \<open>
  A CEO can activate a mission past every gate: a mission in clarification (no crew, no
  assignment, no run) that is suspended and resumed is active, although a transition to the active
  state demands a current crew and a separated assignment graph.
\<close>

theorem resume_activates_unstaffed_mission:
  "let db = after demo_env [RecordOrganization True example_org, CreateMission example_mission,
       RecordBrief 1 example_brief 1, CreateChannel example_channel,
       ApplyIntervention 5 (intervention ''i1'' Suspend 5) 2,
       ApplyIntervention 6 (intervention ''i2'' Resume 6) 3]
   in map mr_state (db_missions db) = [MActive] \<and> db_crews db = [] \<and> db_assignments db = [] \<and>
      MActive \<notin> set (mission_transitions MClarifying)"
  by code_simp

text \<open>
  Cancelling a proposed mission makes it unreadable: the permitted transition stores a
  cancelled record without a Brief, which the record's own validator refuses, so that reading the
  mission and listing the missions fail from then on.
\<close>

theorem cancelled_proposal_is_unreadable:
  "let db = after demo_env [RecordOrganization True example_org, CreateMission example_mission,
       Transition 1 (example_transition ''t'' MProposed MCancelled) 1]
   in map mr_state (db_missions db) = [MCancelled] \<and>
      mission ''m'' db = Inl (ValueError ''advanced mission states require a durable Mission Brief'') \<and>
      list_missions 100 db = Inl (ValueError ''advanced mission states require a durable Mission Brief'')"
  by code_simp

end
