(* ===== verification/TeamModel.thy ===== *)
theory TeamModel
  imports MissionModel CommandModel
begin

section \<open>Team effectiveness contracts\<close>

text \<open>
  \<open>missions/team_effectiveness.py\<close>: the immutable contracts of collaboration (plans, health
  evaluations, adaptations, retrospectives, signals, handoffs) with their validators, the
  classification of prior evidence, the checks across contracts, and the detection of
  coordination signals from assignments, handoffs and run events. Measured values are rational
  numbers (the source divides floating point numbers); \<open>casefold\<close> is that of ASCII text, and the
  length constraints of free text are left out.
\<close>

subsection \<open>Enumerations\<close>

datatype production_shape = SingleOwner | Consultative | MultiProducer

datatype collaboration_interaction =
    Delegate | Collaborate | Consult | HandOff | Challenge | Evaluate

datatype evidence_comparability =
    DirectEvidence | PartialEvidence | StaleEvidence | ConflictingEvidence | MateriallyDifferent

datatype team_health_status = Healthy | Attention | HealthBlocked | HealthUncertain

datatype team_dimension =
    OutcomeDimension | StabilityDimension | FlowDimension | CoordinationDimension
  | EpistemicSafety | LearningDimension | ResourceEfficiency

definition team_dimensions :: "team_dimension list" where
  "team_dimensions = [OutcomeDimension, StabilityDimension, FlowDimension, CoordinationDimension,
     EpistemicSafety, LearningDimension, ResourceEfficiency]"

datatype adaptation_disposition = Bounded | ApprovalRequired

datatype adaptation_kind =
    RepairContext | RequestConsultation | RequestChallenge | SplitTask | CombineTasks
  | ReduceParallelism | ReassignWithinCrew | PauseDependentWork | AddCrewMember
  | ChangeIndependence | ChangeMaterialScope | ExpandAuthority | AcceptConsequentialRisk

definition bounded_adaptations :: "adaptation_kind list" where
  "bounded_adaptations = [RepairContext, RequestConsultation, RequestChallenge, SplitTask,
     CombineTasks, ReduceParallelism, ReassignWithinCrew, PauseDependentWork]"

subsection \<open>Collaboration plans\<close>

record collaboration_responsibility =
  csp_identity_id :: string
  csp_responsibility :: string
  csp_decision_rights :: "string list"

record collaboration_edge =
  cge_source_identity :: string
  cge_target_identity :: string
  cge_interaction :: collaboration_interaction
  cge_purpose :: string
  cge_artifact_contracts :: "string list"

definition edge_identities_are_distinct :: "collaboration_edge \<Rightarrow> bool" where
  "edge_identities_are_distinct e \<longleftrightarrow> cge_source_identity e \<noteq> cge_target_identity e"

record history_citation =
  hct_project_id :: string
  hct_mission_id :: string
  hct_task_ids :: "string list"
  hct_evaluation_ids :: "string list"
  hct_comparability :: evidence_comparability
  hct_rationale :: string
  hct_evaluated_at :: instant

record history_selection =
  hsl_preferred :: "history_citation list"
  hsl_tie_breakers :: "history_citation list"
  hsl_ignored :: "history_citation list"

definition ignored_citation :: "instant \<Rightarrow> history_citation \<Rightarrow> bool" where
  "ignored_citation cutoff c \<longleftrightarrow>
     hct_evaluated_at c < cutoff \<or>
     hct_comparability c \<in> {StaleEvidence, ConflictingEvidence, MateriallyDifferent}"

fun select_loop :: "instant \<Rightarrow> history_citation list \<Rightarrow> history_selection \<Rightarrow> history_selection" where
  "select_loop cutoff [] acc = acc"
| "select_loop cutoff (c # rest) acc =
     select_loop cutoff rest
       (if ignored_citation cutoff c then acc\<lparr>hsl_ignored := hsl_ignored acc @ [c]\<rparr>
        else if hct_comparability c = DirectEvidence
        then acc\<lparr>hsl_preferred := hsl_preferred acc @ [c]\<rparr>
        else acc\<lparr>hsl_tie_breakers := hsl_tie_breakers acc @ [c]\<rparr>)"

definition select_history ::
  "history_citation list \<Rightarrow> int \<Rightarrow> instant \<Rightarrow> history_selection result" where
  "select_history citations freshness_days now =
     (if freshness_days < 1
      then Inl (ValueError ''collaboration history freshness must be positive'')
      else Inr (select_loop (now - freshness_days * 86400 * 1000000) citations
        \<lparr>hsl_preferred = [], hsl_tie_breakers = [], hsl_ignored = []\<rparr>))"

record collaboration_plan =
  cpl_plan_id :: string
  cpl_mission_id :: string
  cpl_version :: int
  cpl_brief_version :: int
  cpl_crew_version :: int
  cpl_production_shape :: production_shape
  cpl_production_owner_ids :: "string list"
  cpl_collaboration_reasons :: "string list"
  cpl_proposal_author_identity :: string
  cpl_crewai_coordination_reference :: string
  cpl_alternatives :: "string list"
  cpl_shared_outcome :: string
  cpl_user_impact :: string
  cpl_responsibilities :: "collaboration_responsibility list"
  cpl_interactions :: "collaboration_edge list"
  cpl_context_references :: "string list"
  cpl_artifact_references :: "string list"
  cpl_resource_budgets :: "mission_resource_limit list"
  cpl_communication_budget :: mission_resource_limit
  cpl_escalation_conditions :: "string list"
  cpl_permitted_adaptations :: "adaptation_kind list"
  cpl_stop_conditions :: "string list"
  cpl_history_citations :: "history_citation list"
  cpl_pm_confirmation_id :: string
  cpl_cto_confirmation_id :: string
  cpl_created_at :: instant

definition plan_identities :: "collaboration_plan \<Rightarrow> string list" where
  "plan_identities p = map csp_identity_id (cpl_responsibilities p)"

definition shape_and_edges_are_coherent :: "collaboration_plan \<Rightarrow> bool" where
  "shape_and_edges_are_coherent p \<longleftrightarrow>
     (let owners = cpl_production_owner_ids p; shape = cpl_production_shape p;
          identities = plan_identities p
      in owners \<noteq> [] \<and> distinct owners \<and>
         (shape \<in> {SingleOwner, Consultative} \<longrightarrow> length owners = 1) \<and>
         (shape = MultiProducer \<longrightarrow> 2 \<le> length owners) \<and>
         (shape \<noteq> SingleOwner \<longrightarrow> cpl_collaboration_reasons p \<noteq> []) \<and>
         (shape = Consultative \<longrightarrow>
            list_ex (\<lambda>e. cge_interaction e \<in> {Consult, Challenge}) (cpl_interactions p)) \<and>
         (shape = MultiProducer \<longrightarrow> cpl_interactions p \<noteq> []) \<and>
         distinct identities \<and> set owners \<subseteq> set identities \<and>
         list_all (\<lambda>e. cge_source_identity e \<in> set identities \<and> cge_target_identity e \<in> set identities \<and>
           edge_identities_are_distinct e) (cpl_interactions p) \<and>
         list_all (\<lambda>k. k \<in> set bounded_adaptations) (cpl_permitted_adaptations p))"

subsection \<open>Health, adaptations, retrospectives\<close>

record dimension_assessment =
  dma_dimension :: team_dimension
  dma_status :: team_health_status
  dma_observations :: "string list"
  dma_evidence_references :: "string list"

record team_health_evaluation =
  the_evaluation_id :: string
  the_mission_id :: string
  the_collaboration_plan_version :: int
  the_interval_started_at :: instant
  the_interval_ended_at :: instant
  the_evidence_cursor :: int
  the_assessments :: "dimension_assessment list"
  the_strengths :: "string list"
  the_risks :: "string list"
  the_limitations :: "string list"
  the_confidence_basis :: string
  the_status :: team_health_status
  the_evaluator_identity :: string
  the_evidence_references :: "string list"
  the_created_at :: instant

definition interval_and_dimensions_are_complete :: "team_health_evaluation \<Rightarrow> bool" where
  "interval_and_dimensions_are_complete e \<longleftrightarrow>
     the_interval_started_at e \<le> the_interval_ended_at e \<and>
     length (the_assessments e) = 7 \<and> 0 \<le> the_evidence_cursor e \<and>
     set (map dma_dimension (the_assessments e)) = set team_dimensions"

record team_health_request =
  thr_request_id :: string
  thr_mission_id :: string
  thr_collaboration_plan_version :: int
  thr_interval_started_at :: instant
  thr_interval_ended_at :: instant
  thr_evidence_cursor :: int
  thr_evaluator_identity :: string
  thr_evidence_references :: "string list"

definition interval_is_ordered :: "team_health_request \<Rightarrow> bool" where
  "interval_is_ordered r \<longleftrightarrow> thr_interval_started_at r \<le> thr_interval_ended_at r"

record crew_adaptation =
  cad_decision_id :: string
  cad_mission_id :: string
  cad_detected_condition :: string
  cad_considered_alternatives :: "string list"
  cad_expected_benefit :: string
  cad_adaptation_kinds :: "adaptation_kind list"
  cad_affected_task_ids :: "string list"
  cad_affected_assignments :: "string list"
  cad_authority_basis :: "string list"
  cad_disposition :: adaptation_disposition
  cad_before_crew_version :: int
  cad_after_crew_version :: int
  cad_before_plan_version :: int
  cad_after_plan_version :: int
  cad_approval_references :: "string list"
  cad_evidence_references :: "string list"
  cad_decided_by :: string
  cad_created_at :: instant

definition disposition_matches_authority_boundary :: "crew_adaptation \<Rightarrow> bool" where
  "disposition_matches_authority_boundary d \<longleftrightarrow>
     cad_adaptation_kinds d \<noteq> [] \<and>
     (\<not> set (cad_adaptation_kinds d) \<subseteq> set bounded_adaptations \<longrightarrow> cad_disposition d = ApprovalRequired) \<and>
     (cad_disposition d = ApprovalRequired \<longrightarrow> cad_approval_references d \<noteq> []) \<and>
     (cad_disposition d = Bounded \<longrightarrow>
        cad_approval_references d = [] \<and> cad_after_crew_version d = cad_before_crew_version d) \<and>
     cad_before_plan_version d \<le> cad_after_plan_version d"

datatype proposal_destination =
  KnowledgeProposal | SkillProposal | TemplateProposal | CompetenceProposal

record retrospective_proposal =
  rpp_proposal_id :: string
  rpp_destination :: proposal_destination
  rpp_summary :: string
  rpp_evidence_references :: "string list"

datatype retrospective_trigger = MissionClosure | MajorFailure | ExplicitRequest

record mission_retrospective =
  rts_retrospective_id :: string
  rts_mission_id :: string
  rts_collaboration_plan_version :: int
  rts_trigger :: retrospective_trigger
  rts_expected_outcomes :: "string list"
  rts_observed_outcomes :: "string list"
  rts_successful_patterns :: "string list"
  rts_failed_patterns :: "string list"
  rts_contradictions :: "string list"
  rts_rework :: "string list"
  rts_coordination_costs :: "string list"
  rts_proposals :: "retrospective_proposal list"
  rts_non_promoted_findings :: "string list"
  rts_evidence_references :: "string list"
  rts_authored_by :: string
  rts_created_at :: instant

subsection \<open>Signals and handoffs\<close>

datatype team_signal_kind =
    BlockedTime | QueueTime | Rejection | Rework | DuplicateWork | OverlappingWork
  | MissingHandoff | RepairedHandoff | DependencyDrift | ContextDrift | WorkloadConcentration
  | UnacknowledgedRisk | CoordinationCost | ModelCost | ToolCost

fun signal_kind_text :: "team_signal_kind \<Rightarrow> string" where
  "signal_kind_text BlockedTime = ''blocked_time''"
| "signal_kind_text QueueTime = ''queue_time''"
| "signal_kind_text Rejection = ''rejection''"
| "signal_kind_text Rework = ''rework''"
| "signal_kind_text DuplicateWork = ''duplicate_work''"
| "signal_kind_text OverlappingWork = ''overlapping_work''"
| "signal_kind_text MissingHandoff = ''missing_handoff''"
| "signal_kind_text RepairedHandoff = ''repaired_handoff''"
| "signal_kind_text DependencyDrift = ''dependency_drift''"
| "signal_kind_text ContextDrift = ''context_drift''"
| "signal_kind_text WorkloadConcentration = ''workload_concentration''"
| "signal_kind_text UnacknowledgedRisk = ''unacknowledged_risk''"
| "signal_kind_text CoordinationCost = ''coordination_cost''"
| "signal_kind_text ModelCost = ''model_cost''"
| "signal_kind_text ToolCost = ''tool_cost''"

record team_signal =
  tms_signal_id :: string
  tms_mission_id :: string
  tms_collaboration_plan_version :: int
  tms_kind :: team_signal_kind
  tms_task_ids :: "string list"
  tms_value :: rat
  tms_unit :: string
  tms_evidence_references :: "string list"
  tms_observed_at :: instant

definition signal_valid :: "team_signal \<Rightarrow> bool" where
  "signal_valid t \<longleftrightarrow>
     0 \<le> tms_value t \<and> length_between 1 64 (tms_unit t) \<and> tms_evidence_references t \<noteq> [] \<and>
     1 \<le> tms_collaboration_plan_version t"

record mission_handoff =
  mho_handoff_id :: string
  mho_mission_id :: string
  mho_collaboration_plan_version :: int
  mho_from_identity :: string
  mho_to_identity :: string
  mho_task_id :: string
  mho_result_references :: "string list"
  mho_artifact_references :: "string list"
  mho_decisions :: "string list"
  mho_changed_assumptions :: "string list"
  mho_uncertainty :: "string list"
  mho_failures :: "string list"
  mho_unresolved_questions :: "string list"
  mho_required_next_action :: string
  mho_acceptance_conditions :: "string list"
  mho_created_at :: instant

definition handoff_identities_are_distinct :: "mission_handoff \<Rightarrow> bool" where
  "handoff_identities_are_distinct h \<longleftrightarrow> mho_from_identity h \<noteq> mho_to_identity h"

end
