(* ===== verification/TeamSignals.thy ===== *)
theory TeamSignals
  imports TeamModel
begin

section \<open>Team effectiveness checks and signals\<close>

text \<open>
  \<open>TeamEffectivenessValidator\<close> and \<open>TeamSignalDetector\<close> of \<open>missions/team_effectiveness.py\<close>: the
  checks of a record against the plan, Brief and crew it cites, and the coordination signals
  derived without inference from assignments, handoffs and the events of a run.
\<close>

subsection \<open>Cross-contract checks\<close>

definition check_collaboration_plan ::
  "collaboration_plan \<Rightarrow> mission_brief \<Rightarrow> mission_crew_revision \<Rightarrow> unit result" where
  "check_collaboration_plan p brief crew =
     (if cpl_mission_id p \<noteq> mb_mission_id brief \<or> cpl_mission_id p \<noteq> cr_mission_id crew
      then Inl (MishkanError MISSION ''collaboration plan mission lineage differs'')
      else if cpl_brief_version p \<noteq> mb_version brief \<or> cpl_crew_version p \<noteq> cr_version crew
      then Inl (MishkanError REVISION_MISMATCH
        ''collaboration plan does not reference current Brief and crew revisions'')
      else if \<not> set (plan_identities p @ map cge_source_identity (cpl_interactions p) @
                 map cge_target_identity (cpl_interactions p)) \<subseteq> set (map cw_identity_id (cr_members crew))
      then Inl (MishkanError ROLE_CONFLICT
        ''collaboration plan references identities outside the Mission Crew'')
      else if cpl_pm_confirmation_id p \<noteq> cr_pm_composition_confirmation_id crew \<or>
              cpl_cto_confirmation_id p \<noteq> cr_cto_coverage_confirmation_id crew
      then Inl (MishkanError AUTHORITY_NOT_GRANTED
        ''collaboration plan lacks the current PM/CTO crew confirmation'')
      else Inr ())"

text \<open>\<open>{item.identity_id: item.decision_rights}.get(identity, ())\<close>.\<close>

definition decision_rights :: "collaboration_plan \<Rightarrow> string \<Rightarrow> string list" where
  "decision_rights p k =
     (case map_of (rev (map (\<lambda>r. (csp_identity_id r, csp_decision_rights r)) (cpl_responsibilities p))) k of
        None \<Rightarrow> [] | Some rights \<Rightarrow> rights)"

definition check_health_evaluation :: "team_health_evaluation \<Rightarrow> collaboration_plan \<Rightarrow> unit result" where
  "check_health_evaluation e p =
     (if the_mission_id e \<noteq> cpl_mission_id p \<or> the_collaboration_plan_version e \<noteq> cpl_version p
      then Inl (MishkanError REVISION_MISMATCH ''health evaluation lineage is stale'')
      else if the_evaluator_identity e \<in> set (cpl_production_owner_ids p)
      then Inl (MishkanError ROLE_CONFLICT
        ''a production owner cannot independently evaluate team health'')
      else if set (decision_rights p (the_evaluator_identity e)) \<inter>
              {''assignment:evaluation'', ''assignment:audit''} = {}
      then Inl (MishkanError ROLE_CONFLICT
        ''team-health evaluator lacks an independent evaluation responsibility'')
      else Inr ())"

definition check_adaptation :: "crew_adaptation \<Rightarrow> collaboration_plan \<Rightarrow> unit result" where
  "check_adaptation d p =
     (if cad_mission_id d \<noteq> cpl_mission_id p \<or> cad_before_plan_version d \<noteq> cpl_version p
      then Inl (MishkanError REVISION_MISMATCH ''adaptation starts from stale plan'')
      else if cad_disposition d = Bounded \<and>
              \<not> set (cad_adaptation_kinds d) \<subseteq> set (cpl_permitted_adaptations p)
      then Inl (MishkanError AUTHORITY_NOT_GRANTED
        ''bounded adaptation is not pre-authorized by the collaboration plan'')
      else Inr ())"

definition check_retrospective :: "mission_retrospective \<Rightarrow> collaboration_plan \<Rightarrow> unit result" where
  "check_retrospective r p =
     (if rts_mission_id r \<noteq> cpl_mission_id p \<or> rts_collaboration_plan_version r \<noteq> cpl_version p
      then Inl (MishkanError REVISION_MISMATCH ''retrospective lineage is stale'')
      else if set (decision_rights p (rts_authored_by r)) \<inter>
              {''assignment:reporting'', ''assignment:audit''} = {}
      then Inl (MishkanError ROLE_CONFLICT
        ''mission retrospective requires an independent reporting or audit identity'')
      else Inr ())"

lemma check_health_Inr:
  "check_health_evaluation e p = Inr u \<longleftrightarrow>
     the_mission_id e = cpl_mission_id p \<and> the_collaboration_plan_version e = cpl_version p \<and>
     the_evaluator_identity e \<notin> set (cpl_production_owner_ids p) \<and>
     set (decision_rights p (the_evaluator_identity e)) \<inter>
       {''assignment:evaluation'', ''assignment:audit''} \<noteq> {}"
  by (auto simp: check_health_evaluation_def)

lemma check_adaptation_Inr:
  "check_adaptation d p = Inr u \<longleftrightarrow>
     cad_mission_id d = cpl_mission_id p \<and> cad_before_plan_version d = cpl_version p \<and>
     (cad_disposition d = Bounded \<longrightarrow>
        set (cad_adaptation_kinds d) \<subseteq> set (cpl_permitted_adaptations p))"
  by (auto simp: check_adaptation_def)

lemma check_plan_Inr:
  "check_collaboration_plan p brief crew = Inr u \<longleftrightarrow>
     cpl_mission_id p = mb_mission_id brief \<and> cpl_mission_id p = cr_mission_id crew \<and>
     cpl_brief_version p = mb_version brief \<and> cpl_crew_version p = cr_version crew \<and>
     set (plan_identities p @ map cge_source_identity (cpl_interactions p) @
       map cge_target_identity (cpl_interactions p)) \<subseteq> set (map cw_identity_id (cr_members crew)) \<and>
     cpl_pm_confirmation_id p = cr_pm_composition_confirmation_id crew \<and>
     cpl_cto_confirmation_id p = cr_cto_coverage_confirmation_id crew"
  by (auto simp: check_collaboration_plan_def)

subsection \<open>The identity of a signal\<close>

text \<open>\<open>uuid5\<close> in the URL namespace (a digest) and the ISO text of an instant.\<close>

record team_env =
  tv_uuid5 :: "string \<Rightarrow> string"
  tv_isoformat :: "instant \<Rightarrow> string"

fun decimal_nat :: "nat \<Rightarrow> string" where
  "decimal_nat n =
     (if n < 10 then [char_of (48 + n)] else decimal_nat (n div 10) @ [char_of (48 + n mod 10)])"

definition decimal :: "int \<Rightarrow> string" where
  "decimal i = (if i < 0 then CHR ''-'' # decimal_nat (nat (- i)) else decimal_nat (nat i))"

definition make_signal ::
  "team_env \<Rightarrow> collaboration_plan \<Rightarrow> team_signal_kind \<Rightarrow> string list \<Rightarrow> rat \<Rightarrow> string \<Rightarrow>
   string list \<Rightarrow> instant \<Rightarrow> team_signal" where
  "make_signal env p kind task_ids v unit_name evidence observed_at =
     (let text_of = join_with ''|'' ([cpl_mission_id p, decimal (cpl_version p), signal_kind_text kind] @
            task_ids @ evidence @ [tv_isoformat env observed_at])
      in \<lparr>tms_signal_id = tv_uuid5 env (''mishkan:team-signal:'' @ text_of),
          tms_mission_id = cpl_mission_id p, tms_collaboration_plan_version = cpl_version p,
          tms_kind = kind, tms_task_ids = task_ids, tms_value = v, tms_unit = unit_name,
          tms_evidence_references = evidence, tms_observed_at = observed_at\<rparr>)"

text \<open>The constructor of \<open>TeamSignal\<close> validates: the first signal that is not valid raises.\<close>

definition validated_signals :: "team_signal list \<Rightarrow> team_signal list result" where
  "validated_signals ts =
     traverse (\<lambda>t. if signal_valid t then Inr t else Inl (ValueError ''TeamSignal'')) ts"

lemma validated_signals_Inr: "validated_signals ts = Inr us \<longleftrightarrow> us = ts \<and> list_all signal_valid ts"
  unfolding validated_signals_def by (induction ts arbitrary: us) (auto simp: ebind_Inr_iff)

subsection \<open>Signals of assignments and handoffs\<close>

abbreviation assignment_reference :: "mission_task_assignment \<Rightarrow> string" where
  "assignment_reference a \<equiv> ''assignment:'' @ mta_assignment_id a"

definition current_assignments :: "mission_task_assignment list \<Rightarrow> mission_task_assignment list" where
  "current_assignments as = map snd (latest as)"

definition drift_signal ::
  "team_env \<Rightarrow> collaboration_plan \<Rightarrow> instant \<Rightarrow> mission_task_assignment list \<Rightarrow> team_signal list" where
  "drift_signal env p now current =
     (let stale_ones = filter (\<lambda>a. mta_crew_version a \<noteq> cpl_crew_version p) current
      in if stale_ones = [] then []
         else [make_signal env p ContextDrift (map mta_task_id stale_ones)
           (of_nat (length stale_ones)) ''assignment'' (map assignment_reference stale_ones) now])"

definition owner_count :: "mission_task_assignment list \<Rightarrow> string \<Rightarrow> nat" where
  "owner_count production k = length (filter (\<lambda>a. mta_accountable_owner a = k) production)"

text \<open>\<open>max\<close> of the pairs of count and owner.\<close>

fun busiest :: "(string \<Rightarrow> nat) \<Rightarrow> string \<Rightarrow> string list \<Rightarrow> string" where
  "busiest f best [] = best"
| "busiest f best (k # ks) =
     busiest f (if f best < f k \<or> (f best = f k \<and> best < k) then k else best) ks"

definition concentration_signal ::
  "team_env \<Rightarrow> collaboration_plan \<Rightarrow> instant \<Rightarrow> rat \<Rightarrow> mission_task_assignment list \<Rightarrow>
   team_signal list" where
  "concentration_signal env p now threshold production =
     (if length production \<le> 1 then []
      else
        let owners = dict_fromkeys (map mta_accountable_owner production);
            owner = busiest (owner_count production) (hd owners) (tl owners);
            ratio = of_nat (owner_count production owner) / of_nat (length production);
            concentrated = filter (\<lambda>a. mta_accountable_owner a = owner) production
        in if threshold \<le> ratio
           then [make_signal env p WorkloadConcentration (map mta_task_id concentrated) ratio ''ratio''
             (map assignment_reference concentrated) now]
           else [])"

definition is_space :: "char \<Rightarrow> bool" where
  "is_space c \<longleftrightarrow> (let n = of_char c :: nat in (9 \<le> n \<and> n \<le> 13) \<or> (28 \<le> n \<and> n \<le> 32))"

definition py_strip :: "string \<Rightarrow> string" where
  "py_strip s = rev (dropWhile is_space (rev (dropWhile is_space s)))"

fun later_pairs :: "'a list \<Rightarrow> ('a \<times> 'a) list" where
  "later_pairs [] = []"
| "later_pairs (x # xs) = map (Pair x) xs @ later_pairs xs"

definition duplicates :: "mission_task_assignment \<Rightarrow> mission_task_assignment \<Rightarrow> bool" where
  "duplicates a b \<longleftrightarrow>
     py_strip (lower (mta_expected_result a)) = py_strip (lower (mta_expected_result b)) \<and>
     set (mta_path_scopes a) \<inter> set (mta_path_scopes b) \<noteq> {}"

definition duplicate_signal ::
  "team_env \<Rightarrow> collaboration_plan \<Rightarrow> instant \<Rightarrow> rat \<Rightarrow> mission_task_assignment list \<Rightarrow>
   team_signal list" where
  "duplicate_signal env p now threshold production =
     (let found = filter (\<lambda>(a, b). duplicates a b) (later_pairs production);
          members = concat (map (\<lambda>(a, b). [a, b]) found)
      in if found \<noteq> [] \<and> threshold \<le> of_nat (length found)
         then [make_signal env p DuplicateWork (sorted_set (map mta_task_id members))
           (of_nat (length found)) ''pair'' (sorted_set (map assignment_reference members)) now]
         else [])"

definition missing_handoffs ::
  "collaboration_plan \<Rightarrow> mission_task_assignment list \<Rightarrow> mission_handoff list \<Rightarrow> string list \<Rightarrow>
   (string \<times> collaboration_edge \<times> mission_task_assignment) list" where
  "missing_handoffs p as handoffs completed =
     concat (map (\<lambda>task_id.
         case map_of (latest as) task_id of
           None \<Rightarrow> []
         | Some a \<Rightarrow> map (\<lambda>e. (task_id, e, a)) (filter (\<lambda>e.
             cge_interaction e = HandOff \<and> cge_source_identity e = mta_accountable_owner a \<and>
             (task_id, cge_source_identity e, cge_target_identity e) \<notin>
               (\<lambda>h. (mho_task_id h, mho_from_identity h, mho_to_identity h)) ` set handoffs)
             (cpl_interactions p))) (sorted_set completed))"

definition handoff_signal ::
  "team_env \<Rightarrow> collaboration_plan \<Rightarrow> instant \<Rightarrow> rat \<Rightarrow>
   (string \<times> collaboration_edge \<times> mission_task_assignment) list \<Rightarrow> team_signal list" where
  "handoff_signal env p now threshold missing =
     (if missing \<noteq> [] \<and> threshold \<le> of_nat (length missing)
      then [make_signal env p MissingHandoff (map fst missing) (of_nat (length missing)) ''handoff''
        (map (\<lambda>(k, e, a). assignment_reference a @ '':handoff:'' @ cge_target_identity e) missing) now]
      else [])"

record detection_thresholds =
  dth_workload_concentration :: rat
  dth_duplicate_work :: rat
  dth_missing_handoff :: rat

definition detect ::
  "team_env \<Rightarrow> instant \<Rightarrow> collaboration_plan \<Rightarrow> mission_task_assignment list \<Rightarrow> mission_handoff list \<Rightarrow>
   string list \<Rightarrow> detection_thresholds \<Rightarrow> team_signal list result" where
  "detect env now p as handoffs completed th =
     (if dth_workload_concentration th < 0 \<or> 1 < dth_workload_concentration th
      then Inl (ValueError ''workload concentration threshold must be between zero and one'')
      else if dth_duplicate_work th < 0 \<or> dth_missing_handoff th < 0
      then Inl (ValueError ''team-signal occurrence thresholds must be non-negative'')
      else
        let current = current_assignments as;
            production = filter (\<lambda>a. mta_assignment_kind a \<in> {PRODUCTION, CONTRIBUTOR}) current
        in validated_signals (drift_signal env p now current @
          concentration_signal env p now (dth_workload_concentration th) production @
          duplicate_signal env p now (dth_duplicate_work th) production @
          handoff_signal env p now (dth_missing_handoff th) (missing_handoffs p as handoffs completed)))"

subsection \<open>Signals of run events\<close>

text \<open>
  \<open>event.task_id or str(payload["task_id"])\<close>; the text of a list or an object, which names no task,
  is left out.
\<close>

definition event_task :: "event_row \<Rightarrow> string option" where
  "event_task e =
     (case evr_task_id e of
        Some (c # t) \<Rightarrow> Some (c # t)
      | _ \<Rightarrow> (case map_of (evr_payload e) ''task_id'' of
                Some (JStr s) \<Rightarrow> if s = [] then None else Some s
              | Some (JInt n) \<Rightarrow> Some (decimal n)
              | Some (JBool b) \<Rightarrow> Some (if b then ''True'' else ''False'')
              | _ \<Rightarrow> None))"

definition event_tasks :: "(string \<times> string) list \<Rightarrow> event_row list \<Rightarrow> string list" where
  "event_tasks mapping es =
     dict_fromkeys (List.map_filter (\<lambda>e. Option.bind (event_task e) (map_of mapping)) es)"

definition event_signal ::
  "team_env \<Rightarrow> collaboration_plan \<Rightarrow> (string \<times> string) list \<Rightarrow> team_signal_kind \<Rightarrow> event_row list \<Rightarrow>
   rat \<Rightarrow> string \<Rightarrow> instant \<Rightarrow> team_signal" where
  "event_signal env p mapping kind es v unit_name observed_at =
     make_signal env p kind (event_tasks mapping es) v unit_name
       (map (\<lambda>e. ''event:'' @ evr_id e) es) observed_at"

record elapsed_state =
  els_pending :: "(string \<times> event_row) list"
  els_elapsed :: rat
  els_evidence :: "event_row list"

definition event_run :: "event_row \<Rightarrow> string" where
  "event_run e = (case evr_run_id e of Some (c # r) \<Rightarrow> c # r | _ \<Rightarrow> evr_aggregate_id e)"

definition seconds_between :: "event_row \<Rightarrow> event_row \<Rightarrow> rat" where
  "seconds_between a b = max 0 (of_int (evr_occurred_at b - evr_occurred_at a) / 1000000)"

fun elapsed_loop :: "string \<Rightarrow> string list \<Rightarrow> event_row list \<Rightarrow> elapsed_state \<Rightarrow> elapsed_state" where
  "elapsed_loop start_type end_types [] st = st"
| "elapsed_loop start_type end_types (e # es) st =
     elapsed_loop start_type end_types es
       (if evr_event_type e = start_type
        then st\<lparr>els_pending := AList.update (event_run e) e (els_pending st)\<rparr>
        else if evr_event_type e \<in> set end_types
        then (case map_of (els_pending st) (event_run e) of
                None \<Rightarrow> st
              | Some started \<Rightarrow>
                  st\<lparr>els_pending := AList.delete (event_run e) (els_pending st),
                     els_elapsed := els_elapsed st + seconds_between started e,
                     els_evidence := els_evidence st @ [started, e]\<rparr>)
        else st)"

definition elapsed :: "event_row list \<Rightarrow> string \<Rightarrow> string list \<Rightarrow> rat \<times> event_row list" where
  "elapsed es start_type end_types =
     (let st = elapsed_loop start_type end_types es \<lparr>els_pending = [], els_elapsed = 0, els_evidence = []\<rparr>
      in (els_elapsed st, els_evidence st))"

record signal_thresholds =
  sth_repeated_rejections :: rat
  sth_queue_time_seconds :: rat
  sth_blocked_time_seconds :: rat

definition reworked_event :: "event_row \<Rightarrow> bool" where
  "reworked_event e \<longleftrightarrow> evr_event_type e = ''task.claimed'' \<and>
     (case map_of (evr_payload e) ''attempt'' of Some (JInt n) \<Rightarrow> 1 < n | _ \<Rightarrow> False)"

definition run_ends :: "string list" where
  "run_ends = [''run.running'', ''run.failed'', ''run.cancelled'']"

definition detect_events ::
  "team_env \<Rightarrow> collaboration_plan \<Rightarrow> event_row list \<Rightarrow> (string \<times> string) list \<Rightarrow> signal_thresholds \<Rightarrow>
   team_signal list result" where
  "detect_events env p es mapping th =
     (if es = [] then Inr []
      else
        let in_order = sort_key evr_cursor es;
            observed_at = Max (set (map evr_occurred_at in_order));
            rejected = filter (\<lambda>e. evr_event_type e \<in> {''task.review_rejected'', ''task.rejected''}) in_order;
            reworked = filter reworked_event in_order;
            (queue_seconds, queue_evidence) = elapsed in_order ''run.queued'' run_ends;
            (blocked_seconds, blocked_evidence) = elapsed in_order ''run.blocked'' run_ends
        in validated_signals (
           (if sth_repeated_rejections th \<le> of_nat (length rejected)
            then [event_signal env p mapping Rejection rejected (of_nat (length rejected)) ''occurrence'' observed_at]
            else []) @
           (if reworked \<noteq> []
            then [event_signal env p mapping Rework reworked (of_nat (length reworked)) ''attempt'' observed_at]
            else []) @
           (if sth_queue_time_seconds th \<le> queue_seconds \<and> queue_evidence \<noteq> []
            then [event_signal env p mapping QueueTime queue_evidence queue_seconds ''seconds'' observed_at]
            else []) @
           (if sth_blocked_time_seconds th \<le> blocked_seconds \<and> blocked_evidence \<noteq> []
            then [event_signal env p mapping BlockedTime blocked_evidence blocked_seconds ''seconds'' observed_at]
            else [])))"

subsection \<open>When detection succeeds\<close>

lemma make_signal_simps [simp]:
  "tms_mission_id (make_signal env p k ts v u ev now) = cpl_mission_id p"
  "tms_collaboration_plan_version (make_signal env p k ts v u ev now) = cpl_version p"
  "tms_kind (make_signal env p k ts v u ev now) = k"
  "tms_task_ids (make_signal env p k ts v u ev now) = ts"
  "tms_value (make_signal env p k ts v u ev now) = v"
  "tms_unit (make_signal env p k ts v u ev now) = u"
  "tms_evidence_references (make_signal env p k ts v u ev now) = ev"
  "tms_observed_at (make_signal env p k ts v u ev now) = now"
  by (simp_all add: make_signal_def Let_def)

lemma make_signal_valid:
  "signal_valid (make_signal env p k ts v u ev now) \<longleftrightarrow>
     0 \<le> v \<and> length_between 1 64 u \<and> ev \<noteq> [] \<and> 1 \<le> cpl_version p"
  by (simp add: signal_valid_def)

lemma detected_valid:
  assumes "1 \<le> cpl_version p"
  shows "list_all signal_valid (drift_signal env p now as)"
    and "list_all signal_valid (concentration_signal env p now x as)"
    and "list_all signal_valid (duplicate_signal env p now x as)"
    and "list_all signal_valid (handoff_signal env p now x missing)"
proof -
  show "list_all signal_valid (drift_signal env p now as)"
    using assms by (simp add: drift_signal_def Let_def make_signal_valid length_between_def)
  show "list_all signal_valid (handoff_signal env p now x missing)"
    using assms by (simp add: handoff_signal_def make_signal_valid length_between_def)
  show "list_all signal_valid (duplicate_signal env p now x as)"
    using assms
    by (auto simp: duplicate_signal_def Let_def make_signal_valid length_between_def filter_empty_conv)
  show "list_all signal_valid (concentration_signal env p now x as)"
  proof (cases "length as \<le> 1")
    case False
    let ?owners = "dict_fromkeys (map mta_accountable_owner as)"
    have owners: "?owners \<noteq> []" using False by auto
    have "busiest f b ks \<in> set (b # ks)" for f b and ks :: "string list"
      by (induction ks arbitrary: b) auto
    then have "busiest (owner_count as) (hd ?owners) (tl ?owners) \<in> set (hd ?owners # tl ?owners)" .
    then have "busiest (owner_count as) (hd ?owners) (tl ?owners) \<in> set ?owners"
      using list.collapse [OF owners] by simp
    then have "busiest (owner_count as) (hd ?owners) (tl ?owners) \<in> mta_accountable_owner ` set as"
      by (simp only: set_dict_fromkeys set_map)
    then have "filter (\<lambda>a. mta_accountable_owner a =
        busiest (owner_count as) (hd ?owners) (tl ?owners)) as \<noteq> []"
      by (auto simp: filter_empty_conv)
    then show ?thesis
      using assms False by (simp add: concentration_signal_def Let_def make_signal_valid length_between_def)
  qed (simp add: concentration_signal_def)
qed

lemma elapsed_loop_nonneg:
  "0 \<le> els_elapsed st \<Longrightarrow> 0 \<le> els_elapsed (elapsed_loop a b es st)"
  by (induction es arbitrary: st) (auto simp: seconds_between_def split: option.split)

lemma elapsed_nonneg: "0 \<le> fst (elapsed es a b)"
  using elapsed_loop_nonneg by (simp add: elapsed_def Let_def)

end
