(* ===== verification/Teams.thy ===== *)
theory Teams
  imports TeamSignals MissionInvariant
begin

section \<open>The repository of team evidence\<close>

text \<open>
  \<open>SQLiteTeamEffectivenessRepository\<close> of \<open>missions/team_repository.py\<close>: six append-only tables
  beside the mission database, every operation and query. An approval cites a decision as
  \<open>decision:\<close> followed by a UUID, which is parsed as \<open>uuid.UUID\<close> parses it.
\<close>

record team_db =
  tdb_missions :: mission_db
  tdb_plans :: "collaboration_plan list"
  tdb_health :: "team_health_evaluation list"
  tdb_adaptations :: "crew_adaptation list"
  tdb_retrospectives :: "mission_retrospective list"
  tdb_signals :: "team_signal list"
  tdb_handoffs :: "mission_handoff list"

definition empty_team_db :: team_db where
  "empty_team_db = \<lparr>tdb_missions = empty_db, tdb_plans = [], tdb_health = [], tdb_adaptations = [],
     tdb_retrospectives = [], tdb_signals = [], tdb_handoffs = []\<rparr>"

subsection \<open>Helpers of the class\<close>

definition team_event :: "string \<Rightarrow> string \<Rightarrow> team_db \<Rightarrow> team_db" where
  "team_event mission_id event_type db =
     db\<lparr>tdb_missions := mission_event ''mishkan.missions.team_effectiveness'' mission_id event_type
          (tdb_missions db)\<rparr>"

definition idempotent_evidence :: "'p \<Rightarrow> 'p \<Rightarrow> team_db \<Rightarrow> (team_db \<times> 'p) result" where
  "idempotent_evidence existing wanted_record db =
     (if existing = wanted_record then Inr (db, wanted_record)
      else Inl (MishkanError DUPLICATE_RESULT
        ''durable team-evidence identity already contains different content''))"

definition plan_key :: "collaboration_plan \<Rightarrow> string \<times> int" where
  "plan_key p = (cpl_mission_id p, cpl_version p)"

definition mission_plans :: "string \<Rightarrow> team_db \<Rightarrow> collaboration_plan list" where
  "mission_plans mission_id db = filter (\<lambda>p. cpl_mission_id p = mission_id) (tdb_plans db)"

definition team_plan :: "string \<Rightarrow> int option \<Rightarrow> team_db \<Rightarrow> collaboration_plan result" where
  "team_plan mission_id version db =
     from_option (MishkanError MISSION ''mission collaboration plan does not exist'')
       (case version of
          Some n \<Rightarrow> tbl_get plan_key (mission_id, n) (tdb_plans db)
        | None \<Rightarrow> newest cpl_version (mission_plans mission_id db))"

definition next_plan_version :: "string \<Rightarrow> team_db \<Rightarrow> int" where
  "next_plan_version mission_id db =
     (case newest cpl_version (mission_plans mission_id db) of None \<Rightarrow> 0 | Some p \<Rightarrow> cpl_version p) + 1"

definition mission_context ::
  "string \<Rightarrow> team_db \<Rightarrow> (mission_record \<times> mission_brief \<times> mission_crew_revision) result" where
  "mission_context mission_id db =
     (let mdb = tdb_missions db
      in ebind (require_mission mdb mission_id) (\<lambda>m.
           case (mr_current_brief_version m, mr_current_crew_version m) of
             (Some b, Some c) \<Rightarrow>
               (case (tbl_get brief_key (mission_id, b) (db_briefs mdb),
                      tbl_get crew_key (mission_id, c) (db_crews mdb)) of
                  (Some brief, Some crew) \<Rightarrow> Inr (m, brief, crew)
                | _ \<Rightarrow> Inl AssertionError)
           | _ \<Rightarrow> Inl (MishkanError MISSION ''mission has no current Brief and crew'')))"

definition latest_tasks ::
  "string \<Rightarrow> string list \<Rightarrow> team_db \<Rightarrow> (string \<times> mission_task_assignment) list" where
  "latest_tasks mission_id task_ids db =
     latest (filter (\<lambda>a. mta_mission_id a = mission_id \<and> mta_task_id a \<in> set task_ids)
       (db_assignments (tdb_missions db)))"

definition require_tasks ::
  "string \<Rightarrow> string list \<Rightarrow> team_db \<Rightarrow> (string \<times> mission_task_assignment) list result" where
  "require_tasks mission_id task_ids db =
     (let found = latest_tasks mission_id task_ids db
      in if set task_ids \<subseteq> fst ` set found then Inr found
         else Inl (MishkanError DECISION_VALIDATION ''team evidence references unknown mission tasks''))"

subsection \<open>Collaboration plans\<close>

definition citation_ok :: "team_db \<Rightarrow> history_citation \<Rightarrow> unit result" where
  "citation_ok db c =
     ebind (guard (case get_mission (tdb_missions db) (hct_mission_id c) of
         None \<Rightarrow> False | Some m \<Rightarrow> mr_state m = MCompleted)
       (MishkanError DECISION_VALIDATION ''collaboration history must reference a completed mission'')) (\<lambda>_.
     guard (list_all (\<lambda>k. case tbl_get the_evaluation_id k (tdb_health db) of
         None \<Rightarrow> False | Some e \<Rightarrow> the_mission_id e = hct_mission_id c) (hct_evaluation_ids c))
       (MishkanError DECISION_VALIDATION ''collaboration history evaluation lineage is invalid''))"

fun validate_history_citations :: "team_db \<Rightarrow> history_citation list \<Rightarrow> unit result" where
  "validate_history_citations db [] = Inr ()"
| "validate_history_citations db (c # cs) =
     ebind (citation_ok db c) (\<lambda>_. validate_history_citations db cs)"

definition record_collaboration_plan ::
  "collaboration_plan \<Rightarrow> team_db \<Rightarrow> (team_db \<times> collaboration_plan) result" where
  "record_collaboration_plan p db =
     (case tbl_get cpl_plan_id (cpl_plan_id p) (tdb_plans db) of
        Some existing \<Rightarrow> idempotent_evidence existing p db
      | None \<Rightarrow>
          ebind (mission_context (cpl_mission_id p) db) (\<lambda>(m, brief, crew).
          ebind (check_collaboration_plan p brief crew) (\<lambda>_.
          ebind (validate_history_citations db (cpl_history_citations p)) (\<lambda>_.
          ebind (guard (cpl_version p = next_plan_version (cpl_mission_id p) db)
            (MishkanError REVISION_MISMATCH ''collaboration plan version is stale or skips a revision'')) (\<lambda>_.
          ebind (guard (mr_current_brief_version m = Some (cpl_brief_version p) \<and>
                        mr_current_crew_version m = Some (cpl_crew_version p))
            (MishkanError REVISION_MISMATCH ''collaboration plan does not use current mission revisions'')) (\<lambda>_.
          Inr (team_event (cpl_mission_id p) ''mission.collaboration_plan_recorded''
                 (db\<lparr>tdb_plans := tdb_plans db @ [p]\<rparr>), p)))))))"

subsection \<open>Health, retrospectives, signals, handoffs\<close>

definition record_health ::
  "team_health_evaluation \<Rightarrow> team_db \<Rightarrow> (team_db \<times> team_health_evaluation) result" where
  "record_health e db =
     (case tbl_get the_evaluation_id (the_evaluation_id e) (tdb_health db) of
        Some existing \<Rightarrow> idempotent_evidence existing e db
      | None \<Rightarrow>
          ebind (team_plan (the_mission_id e) (Some (the_collaboration_plan_version e)) db) (\<lambda>p.
          ebind (check_health_evaluation e p) (\<lambda>_.
          ebind (guard (case newest the_evidence_cursor
                   (filter (\<lambda>x. the_mission_id x = the_mission_id e) (tdb_health db)) of
                 None \<Rightarrow> True | Some x \<Rightarrow> the_evidence_cursor x < the_evidence_cursor e)
            (MishkanError REVISION_MISMATCH ''team-health evidence cursor must advance monotonically'')) (\<lambda>_.
          Inr (team_event (the_mission_id e) ''mission.team_health_evaluated''
                 (db\<lparr>tdb_health := tdb_health db @ [e]\<rparr>), e)))))"

definition record_retrospective ::
  "mission_retrospective \<Rightarrow> team_db \<Rightarrow> (team_db \<times> mission_retrospective) result" where
  "record_retrospective r db =
     (case tbl_get rts_retrospective_id (rts_retrospective_id r) (tdb_retrospectives db) of
        Some existing \<Rightarrow> idempotent_evidence existing r db
      | None \<Rightarrow>
          ebind (team_plan (rts_mission_id r) (Some (rts_collaboration_plan_version r)) db) (\<lambda>p.
          ebind (check_retrospective r p) (\<lambda>_.
          Inr (team_event (rts_mission_id r) ''mission.retrospective_recorded''
                 (db\<lparr>tdb_retrospectives := tdb_retrospectives db @ [r]\<rparr>), r))))"

definition record_signal :: "team_signal \<Rightarrow> team_db \<Rightarrow> (team_db \<times> team_signal) result" where
  "record_signal t db =
     (case tbl_get tms_signal_id (tms_signal_id t) (tdb_signals db) of
        Some existing \<Rightarrow> idempotent_evidence existing t db
      | None \<Rightarrow>
          ebind (team_plan (tms_mission_id t) (Some (tms_collaboration_plan_version t)) db) (\<lambda>_.
          ebind (require_tasks (tms_mission_id t) (tms_task_ids t) db) (\<lambda>_.
          Inr (team_event (tms_mission_id t) ''mission.team_signal_recorded''
                 (db\<lparr>tdb_signals := tdb_signals db @ [t]\<rparr>), t))))"

definition record_handoff :: "mission_handoff \<Rightarrow> team_db \<Rightarrow> (team_db \<times> mission_handoff) result" where
  "record_handoff h db =
     (case tbl_get mho_handoff_id (mho_handoff_id h) (tdb_handoffs db) of
        Some existing \<Rightarrow> idempotent_evidence existing h db
      | None \<Rightarrow>
          ebind (team_plan (mho_mission_id h) (Some (mho_collaboration_plan_version h)) db) (\<lambda>p.
          ebind (guard (mho_from_identity h \<in> set (plan_identities p) \<and>
                        mho_to_identity h \<in> set (plan_identities p))
            (MishkanError ROLE_CONFLICT ''handoff identities are outside the collaboration plan'')) (\<lambda>_.
          ebind (require_tasks (mho_mission_id h) [mho_task_id h] db) (\<lambda>found.
          ebind (from_option KeyError (map_of found (mho_task_id h))) (\<lambda>a.
          ebind (guard (mta_accountable_owner a = mho_from_identity h)
            (MishkanError ROLE_CONFLICT
              ''handoff producer is not the accountable owner of the task'')) (\<lambda>_.
          Inr (team_event (mho_mission_id h) ''mission.handoff_recorded''
                 (db\<lparr>tdb_handoffs := tdb_handoffs db @ [h]\<rparr>), h)))))))"

subsection \<open>Adaptations\<close>

text \<open>\<open>str.replace\<close> of a non-empty text by nothing.\<close>

fun remove_text :: "nat \<Rightarrow> string \<Rightarrow> string \<Rightarrow> string" where
  "remove_text 0 pat s = s"
| "remove_text (Suc n) pat [] = []"
| "remove_text (Suc n) pat (c # s) =
     (if take (length pat) (c # s) = pat then remove_text n pat (drop (length pat) (c # s))
      else c # remove_text n pat s)"

definition is_hex :: "char \<Rightarrow> bool" where
  "is_hex c \<longleftrightarrow> c \<in> set ''0123456789abcdef''"

definition strip_chars :: "char list \<Rightarrow> string \<Rightarrow> string" where
  "strip_chars cs s = rev (dropWhile (\<lambda>c. c \<in> set cs) (rev (dropWhile (\<lambda>c. c \<in> set cs) s)))"

text \<open>\<open>str(UUID(text))\<close>: the canonical text, or \<open>None\<close> for \<open>ValueError\<close>.\<close>

definition canonical_uuid :: "string \<Rightarrow> string option" where
  "canonical_uuid raw =
     (let plain = remove_text (length raw) ''uuid:'' (remove_text (length raw) ''urn:'' raw);
          hex = lower (filter (\<lambda>c. c \<noteq> CHR ''-'') (strip_chars ''{}'' plain))
      in if length hex = 32 \<and> list_all is_hex hex
         then Some (take 8 hex @ ''-'' @ take 4 (drop 8 hex) @ ''-'' @ take 4 (drop 12 hex) @ ''-'' @
                    take 4 (drop 16 hex) @ ''-'' @ drop 20 hex)
         else None)"

text \<open>\<open>reference.partition(":")\<close> with the prefix \<open>decision\<close>.\<close>

definition cited_decision :: "string \<Rightarrow> string option result" where
  "cited_decision reference =
     (if take 9 reference = ''decision:'' then Inr (canonical_uuid (drop 9 reference))
      else Inl (MishkanError DECISION_VALIDATION
        ''material adaptation approval must reference a mission decision''))"

definition executive_of :: "mission_decision \<Rightarrow> string" where
  "executive_of d =
     (case md_deciding_identity d of Some (c # x) \<Rightarrow> c # x | _ \<Rightarrow> md_actor_id d)"

definition is_executive :: "string \<Rightarrow> bool" where
  "is_executive k \<longleftrightarrow> k \<in> {''PM'', ''CTO''} \<or> take 3 (lower k) = ''ceo''"

definition approval_ok :: "mission_db \<Rightarrow> string \<Rightarrow> string \<Rightarrow> unit result" where
  "approval_ok mdb mission_id reference =
     ebind (cited_decision reference) (\<lambda>parsed.
     ebind (from_option (MishkanError DECISION_VALIDATION
         ''material adaptation approval identity is invalid'') parsed) (\<lambda>decision_id.
     ebind (from_option (MishkanError DECISION_VALIDATION
         ''material adaptation approval does not belong to the mission'')
         (tbl_get md_decision_id decision_id (db_decisions mdb))) (\<lambda>d.
     ebind (guard (md_mission_id d = mission_id) (MishkanError DECISION_VALIDATION
         ''material adaptation approval does not belong to the mission'')) (\<lambda>_.
     ebind (guard (md_decision_status d = Some DecisionAccepted) (MishkanError DECISION_VALIDATION
         ''material adaptation requires an accepted mission decision'')) (\<lambda>_.
     guard (is_executive (executive_of d)) (MishkanError AUTHORITY_NOT_GRANTED
         ''material adaptation requires PM, CTO, or CEO authority''))))))"

fun check_approvals :: "mission_db \<Rightarrow> string \<Rightarrow> string list \<Rightarrow> unit result" where
  "check_approvals mdb mission_id [] = Inr ()"
| "check_approvals mdb mission_id (r # rs) =
     ebind (approval_ok mdb mission_id r) (\<lambda>_. check_approvals mdb mission_id rs)"

definition validate_adaptation_lineage :: "crew_adaptation \<Rightarrow> team_db \<Rightarrow> unit result" where
  "validate_adaptation_lineage d db =
     (let found = latest_tasks (cad_mission_id d) (cad_affected_task_ids d) db
      in ebind (guard (set (cad_affected_task_ids d) \<subseteq> fst ` set found)
           (MishkanError DECISION_VALIDATION ''crew adaptation references unknown mission tasks'')) (\<lambda>_.
         ebind (guard (set (cad_affected_assignments d) \<subseteq> (mta_assignment_id \<circ> snd) ` set found)
           (MishkanError REVISION_MISMATCH
             ''crew adaptation references stale or unrelated assignments'')) (\<lambda>_.
         ebind (if cad_after_plan_version d \<noteq> cad_before_plan_version d
                then ebind (team_plan (cad_mission_id d) (Some (cad_after_plan_version d)) db) (\<lambda>_. Inr ())
                else Inr ()) (\<lambda>_.
         ebind (from_option AssertionError (get_mission (tdb_missions db) (cad_mission_id d))) (\<lambda>m.
         ebind (guard (mr_current_crew_version m = Some (cad_after_crew_version d))
           (MishkanError REVISION_MISMATCH
             ''crew adaptation after-version is not the current governed crew'')) (\<lambda>_.
         if cad_disposition d \<noteq> ApprovalRequired then Inr ()
         else check_approvals (tdb_missions db) (cad_mission_id d) (cad_approval_references d)))))))"

definition record_adaptation :: "crew_adaptation \<Rightarrow> team_db \<Rightarrow> (team_db \<times> crew_adaptation) result" where
  "record_adaptation d db =
     (case tbl_get cad_decision_id (cad_decision_id d) (tdb_adaptations db) of
        Some existing \<Rightarrow> idempotent_evidence existing d db
      | None \<Rightarrow>
          ebind (team_plan (cad_mission_id d) (Some (cad_before_plan_version d)) db) (\<lambda>p.
          ebind (check_adaptation d p) (\<lambda>_.
          ebind (validate_adaptation_lineage d db) (\<lambda>_.
          Inr (team_event (cad_mission_id d) ''mission.crew_adaptation_recorded''
                 (db\<lparr>tdb_adaptations := tdb_adaptations db @ [d]\<rparr>), d)))))"

subsection \<open>Queries\<close>

definition descending :: "('a \<Rightarrow> int) \<Rightarrow> 'a list \<Rightarrow> 'a list" where
  "descending f xs = sort_key (\<lambda>x. - f x) xs"

definition health_of :: "string \<Rightarrow> nat \<Rightarrow> team_db \<Rightarrow> team_health_evaluation list" where
  "health_of mission_id limit db =
     take limit (descending the_evidence_cursor
       (filter (\<lambda>e. the_mission_id e = mission_id) (tdb_health db)))"

definition adaptations_of :: "string \<Rightarrow> nat \<Rightarrow> team_db \<Rightarrow> crew_adaptation list" where
  "adaptations_of mission_id limit db =
     take limit (descending cad_created_at
       (filter (\<lambda>d. cad_mission_id d = mission_id) (tdb_adaptations db)))"

definition retrospectives_of :: "string \<Rightarrow> nat \<Rightarrow> team_db \<Rightarrow> mission_retrospective list" where
  "retrospectives_of mission_id limit db =
     take limit (descending rts_created_at
       (filter (\<lambda>r. rts_mission_id r = mission_id) (tdb_retrospectives db)))"

definition signals_of :: "string \<Rightarrow> nat \<Rightarrow> team_db \<Rightarrow> team_signal list" where
  "signals_of mission_id limit db =
     take limit (descending tms_observed_at
       (filter (\<lambda>t. tms_mission_id t = mission_id) (tdb_signals db)))"

definition handoffs_of :: "string \<Rightarrow> nat \<Rightarrow> team_db \<Rightarrow> mission_handoff list" where
  "handoffs_of mission_id limit db =
     take limit (descending mho_created_at
       (filter (\<lambda>h. mho_mission_id h = mission_id) (tdb_handoffs db)))"

text \<open>
  The heads of the tables: for the first missions in the order of their identifiers, the rows with
  the greatest version or cursor (the order of the joined rows is the one of the table).
\<close>

definition heads :: "('a \<Rightarrow> string) \<Rightarrow> ('a \<Rightarrow> int) \<Rightarrow> nat \<Rightarrow> 'a list \<Rightarrow> 'a list" where
  "heads key rv limit rows =
     (let selected = take limit (sorted_set (map key rows))
      in filter (\<lambda>r. key r \<in> set selected \<and>
           list_all (\<lambda>x. key x = key r \<longrightarrow> rv x \<le> rv r) rows) rows)"

record team_snapshot =
  tsn_collaboration_plans :: "collaboration_plan list"
  tsn_latest_health :: "team_health_evaluation list"
  tsn_attention_required :: nat

definition team_snapshot_of :: "int \<Rightarrow> team_db \<Rightarrow> team_snapshot result" where
  "team_snapshot_of limit db =
     (if limit < 1 then Inl (MishkanError OUTPUT_CONTRACT ''snapshot limit must be positive'')
      else
        let health = heads the_mission_id the_evidence_cursor (nat limit) (tdb_health db)
        in Inr \<lparr>tsn_collaboration_plans = heads cpl_mission_id cpl_version (nat limit) (tdb_plans db),
                tsn_latest_health = health,
                tsn_attention_required = length (filter (\<lambda>e.
                  the_status e \<in> {Attention, HealthBlocked, HealthUncertain}) health)\<rparr>)"

subsection \<open>The machine\<close>

datatype team_op =
    RecordPlan collaboration_plan
  | RecordHealth team_health_evaluation
  | RecordAdaptation crew_adaptation
  | RecordRetrospective mission_retrospective
  | RecordSignal team_signal
  | RecordHandoff mission_handoff
  | MissionCall mission_op

fun team_op_valid :: "team_op \<Rightarrow> bool" where
  "team_op_valid (RecordPlan p) = shape_and_edges_are_coherent p"
| "team_op_valid (RecordHealth e) = interval_and_dimensions_are_complete e"
| "team_op_valid (RecordAdaptation d) = disposition_matches_authority_boundary d"
| "team_op_valid (RecordSignal t) = signal_valid t"
| "team_op_valid (RecordHandoff h) = handoff_identities_are_distinct h"
| "team_op_valid _ = True"

definition team_commit :: "team_db \<Rightarrow> (team_db \<times> 'b) result \<Rightarrow> team_db" where
  "team_commit db r = (case r of Inl _ \<Rightarrow> db | Inr (db', _) \<Rightarrow> db')"

fun perform_team :: "environment \<Rightarrow> team_op \<Rightarrow> team_db \<Rightarrow> team_db" where
  "perform_team env (RecordPlan p) db = team_commit db (record_collaboration_plan p db)"
| "perform_team env (RecordHealth e) db = team_commit db (record_health e db)"
| "perform_team env (RecordAdaptation d) db = team_commit db (record_adaptation d db)"
| "perform_team env (RecordRetrospective r) db = team_commit db (record_retrospective r db)"
| "perform_team env (RecordSignal t) db = team_commit db (record_signal t db)"
| "perform_team env (RecordHandoff h) db = team_commit db (record_handoff h db)"
| "perform_team env (MissionCall x) db = db\<lparr>tdb_missions := mission_step env x (tdb_missions db)\<rparr>"

definition team_step :: "environment \<Rightarrow> team_op \<Rightarrow> team_db \<Rightarrow> team_db" where
  "team_step env x db = (if team_op_valid x then perform_team env x db else db)"

abbreviation team_after :: "environment \<Rightarrow> team_op list \<Rightarrow> team_db" where
  "team_after env ops \<equiv> run_ops (team_step env) ops empty_team_db"

end
