(* ===== verification/TeamInvariant.thy ===== *)
theory TeamInvariant
  imports Teams
begin

section \<open>The invariant of team evidence\<close>

text \<open>
  What every recorded plan, evaluation, adaptation and handoff rests on is in append-only tables
  or in the terminal state of a mission, so it is checked once and stays: \<open>team_history\<close> relates
  two databases of one history, the \<open>backed\<close> predicates are monotone along it, and the invariant
  says that every row is backed, that plan versions are consecutive and cursors increase.
\<close>

subsection \<open>What a step writes\<close>

inductive team_writes :: "environment \<Rightarrow> team_db \<Rightarrow> team_db \<Rightarrow> bool" for env db db' where
  TSame: "team_writes env db db'" if "db' = db"
| TPlan: "team_writes env db db'"
    if "shape_and_edges_are_coherent p" "tbl_get cpl_plan_id (cpl_plan_id p) (tdb_plans db) = None"
      "mission_context (cpl_mission_id p) db = Inr (m, brief, crew)"
      "check_collaboration_plan p brief crew = Inr ()"
      "validate_history_citations db (cpl_history_citations p) = Inr ()"
      "cpl_version p = next_plan_version (cpl_mission_id p) db"
      "db' = team_event (cpl_mission_id p) ''mission.collaboration_plan_recorded''
         (db\<lparr>tdb_plans := tdb_plans db @ [p]\<rparr>)"
| THealth: "team_writes env db db'"
    if "interval_and_dimensions_are_complete e"
      "tbl_get the_evaluation_id (the_evaluation_id e) (tdb_health db) = None"
      "team_plan (the_mission_id e) (Some (the_collaboration_plan_version e)) db = Inr p"
      "check_health_evaluation e p = Inr ()"
      "case newest the_evidence_cursor (filter (\<lambda>x. the_mission_id x = the_mission_id e) (tdb_health db)) of
         None \<Rightarrow> True | Some x \<Rightarrow> the_evidence_cursor x < the_evidence_cursor e"
      "db' = team_event (the_mission_id e) ''mission.team_health_evaluated''
         (db\<lparr>tdb_health := tdb_health db @ [e]\<rparr>)"
| TAdaptation: "team_writes env db db'"
    if "disposition_matches_authority_boundary d"
      "tbl_get cad_decision_id (cad_decision_id d) (tdb_adaptations db) = None"
      "team_plan (cad_mission_id d) (Some (cad_before_plan_version d)) db = Inr p"
      "check_adaptation d p = Inr ()" "validate_adaptation_lineage d db = Inr ()"
      "db' = team_event (cad_mission_id d) ''mission.crew_adaptation_recorded''
         (db\<lparr>tdb_adaptations := tdb_adaptations db @ [d]\<rparr>)"
| TRetrospective: "team_writes env db db'"
    if "team_plan (rts_mission_id r) (Some (rts_collaboration_plan_version r)) db = Inr p"
      "check_retrospective r p = Inr ()"
      "db' = team_event (rts_mission_id r) ''mission.retrospective_recorded''
         (db\<lparr>tdb_retrospectives := tdb_retrospectives db @ [r]\<rparr>)"
| TSignal: "team_writes env db db'"
    if "signal_valid t" "require_tasks (tms_mission_id t) (tms_task_ids t) db = Inr found"
      "db' = team_event (tms_mission_id t) ''mission.team_signal_recorded''
         (db\<lparr>tdb_signals := tdb_signals db @ [t]\<rparr>)"
| THandoff: "team_writes env db db'"
    if "handoff_identities_are_distinct h"
      "team_plan (mho_mission_id h) (Some (mho_collaboration_plan_version h)) db = Inr p"
      "mho_from_identity h \<in> set (plan_identities p)" "mho_to_identity h \<in> set (plan_identities p)"
      "require_tasks (mho_mission_id h) [mho_task_id h] db = Inr found"
      "map_of found (mho_task_id h) = Some a" "mta_accountable_owner a = mho_from_identity h"
      "db' = team_event (mho_mission_id h) ''mission.handoff_recorded''
         (db\<lparr>tdb_handoffs := tdb_handoffs db @ [h]\<rparr>)"
| TMission: "team_writes env db db'"
    if "db' = db\<lparr>tdb_missions := mission_step env x (tdb_missions db)\<rparr>"

lemma team_commit_writes:
  assumes "\<And>db' b. r = Inr (db', b) \<Longrightarrow> team_writes env db db'"
  shows "team_writes env db (team_commit db r)"
proof (cases r)
  case (Inl e)
  then show ?thesis by (simp add: team_commit_def TSame)
next
  case (Inr p)
  then show ?thesis using assms [of "fst p" "snd p"] by (cases p) (simp add: team_commit_def)
qed

lemma idempotent_evidence_Inr: "idempotent_evidence x y db = Inr (db', b) \<longleftrightarrow> x = y \<and> db' = db \<and> b = y"
  by (auto simp: idempotent_evidence_def)

lemmas team_Inr = Let_def ebind_Inr_iff idempotent_evidence_Inr

lemma record_plan_writes:
  "record_collaboration_plan p db = Inr (db', b) \<Longrightarrow> shape_and_edges_are_coherent p \<Longrightarrow>
   team_writes env db db'"
  by (auto simp: record_collaboration_plan_def team_Inr intro: TSame TPlan split: option.splits)

lemma record_health_writes:
  "record_health e db = Inr (db', b) \<Longrightarrow> interval_and_dimensions_are_complete e \<Longrightarrow>
   team_writes env db db'"
proof (cases "tbl_get the_evaluation_id (the_evaluation_id e) (tdb_health db)")
  case None
  assume "record_health e db = Inr (db', b)" "interval_and_dimensions_are_complete e"
  then obtain p where "team_plan (the_mission_id e) (Some (the_collaboration_plan_version e)) db = Inr p"
      "check_health_evaluation e p = Inr ()"
      "case newest the_evidence_cursor (filter (\<lambda>x. the_mission_id x = the_mission_id e) (tdb_health db)) of
         None \<Rightarrow> True | Some x \<Rightarrow> the_evidence_cursor x < the_evidence_cursor e"
      "db' = team_event (the_mission_id e) ''mission.team_health_evaluated''
         (db\<lparr>tdb_health := tdb_health db @ [e]\<rparr>)"
    using None by (auto simp: record_health_def team_Inr)
  then show ?thesis using THealth None \<open>interval_and_dimensions_are_complete e\<close> by blast
qed (simp add: record_health_def team_Inr TSame)

lemma record_adaptation_writes:
  "record_adaptation d db = Inr (db', b) \<Longrightarrow> disposition_matches_authority_boundary d \<Longrightarrow>
   team_writes env db db'"
  by (auto simp: record_adaptation_def team_Inr intro: TSame TAdaptation split: option.splits)

lemma record_retrospective_writes:
  "record_retrospective r db = Inr (db', b) \<Longrightarrow> team_writes env db db'"
  by (auto simp: record_retrospective_def team_Inr intro: TSame TRetrospective split: option.splits)

lemma record_signal_writes:
  "record_signal t db = Inr (db', b) \<Longrightarrow> signal_valid t \<Longrightarrow> team_writes env db db'"
  by (auto simp: record_signal_def team_Inr intro: TSame TSignal split: option.splits)

lemma record_handoff_writes:
  "record_handoff h db = Inr (db', b) \<Longrightarrow> handoff_identities_are_distinct h \<Longrightarrow> team_writes env db db'"
  by (auto simp: record_handoff_def team_Inr intro: TSame THandoff split: option.splits)

lemma team_step_writes: "team_writes env db (team_step env x db)"
proof (cases "team_op_valid x")
  case True
  then show ?thesis
    unfolding team_step_def
    by (cases x) (auto intro!: team_commit_writes intro: TMission record_plan_writes record_health_writes
        record_adaptation_writes record_retrospective_writes record_signal_writes record_handoff_writes)
qed (simp add: team_step_def TSame)

subsection \<open>History\<close>

definition team_history :: "team_db \<Rightarrow> team_db \<Rightarrow> bool" where
  "team_history db db' \<longleftrightarrow>
     mission_history (tdb_missions db) (tdb_missions db') \<and>
     prefix (tdb_plans db) (tdb_plans db') \<and> prefix (tdb_health db) (tdb_health db') \<and>
     prefix (tdb_adaptations db) (tdb_adaptations db') \<and>
     prefix (tdb_retrospectives db) (tdb_retrospectives db') \<and>
     prefix (tdb_signals db) (tdb_signals db') \<and> prefix (tdb_handoffs db) (tdb_handoffs db')"

lemma mission_history_event: "mission_history db (mission_event src a t db)"
  by (simp add: mission_history_def append_only_def evolves_refl rows_leq_refl)

lemma rows_wf_event: "rows_wf (mission_event src a t db) = rows_wf db"
  by (simp add: rows_wf_def)

lemma team_event_tables [simp]:
  "tdb_plans (team_event k t db) = tdb_plans db"
  "tdb_health (team_event k t db) = tdb_health db"
  "tdb_adaptations (team_event k t db) = tdb_adaptations db"
  "tdb_retrospectives (team_event k t db) = tdb_retrospectives db"
  "tdb_signals (team_event k t db) = tdb_signals db"
  "tdb_handoffs (team_event k t db) = tdb_handoffs db"
  "tdb_missions (team_event k t db) =
     mission_event ''mishkan.missions.team_effectiveness'' k t (tdb_missions db)"
  by (simp_all add: team_event_def)

lemma writes_team_history:
  assumes "team_writes env db db'" "rows_wf (tdb_missions db)"
  shows "team_history db db' \<and> rows_wf (tdb_missions db')"
  using assms(1)
proof cases
  case TSame
  then show ?thesis using assms(2) by (simp add: team_history_def mission_history_refl)
next
  case (TMission x)
  then show ?thesis
    using assms(2) mission_history_step rows_wf_step by (simp add: team_history_def)
qed (use assms(2) in \<open>simp_all add: team_history_def mission_history_event rows_wf_event\<close>)

lemma team_history_refl: "team_history db db"
  by (simp add: team_history_def mission_history_refl)

lemma team_history_trans:
  assumes "team_history a b" "team_history b c"
  shows "team_history a c"
  using assms unfolding team_history_def
  by (elim conjE, intro conjI) (erule (1) mission_history_trans prefix_order.trans)+

interpretation team_machine:
  machine_monotone "team_step env" "\<lambda>db. rows_wf (tdb_missions db)" team_history
  by unfold_locales
    (use writes_team_history [OF team_step_writes] in
      \<open>auto intro: team_history_refl team_history_trans\<close>)

subsection \<open>Backed rows\<close>

definition executive_decision :: "mission_db \<Rightarrow> string \<Rightarrow> string \<Rightarrow> bool" where
  "executive_decision mdb mission_id reference \<longleftrightarrow>
     (\<exists>dec \<in> set (db_decisions mdb). cited_decision reference = Inr (Some (md_decision_id dec)) \<and>
        md_mission_id dec = mission_id \<and> md_decision_status dec = Some DecisionAccepted \<and>
        is_executive (executive_of dec))"

definition citation_backed :: "team_db \<Rightarrow> history_citation \<Rightarrow> bool" where
  "citation_backed db c \<longleftrightarrow>
     (\<exists>m \<in> set (db_missions (tdb_missions db)).
        mr_mission_id m = hct_mission_id c \<and> mr_state m = MCompleted) \<and>
     (\<forall>k \<in> set (hct_evaluation_ids c). \<exists>e \<in> set (tdb_health db).
        the_evaluation_id e = k \<and> the_mission_id e = hct_mission_id c)"

definition plan_backed :: "team_db \<Rightarrow> collaboration_plan \<Rightarrow> bool" where
  "plan_backed db p \<longleftrightarrow>
     shape_and_edges_are_coherent p \<and>
     (\<exists>brief \<in> set (db_briefs (tdb_missions db)). brief_key brief = (cpl_mission_id p, cpl_brief_version p)) \<and>
     (\<exists>crew \<in> set (db_crews (tdb_missions db)). crew_key crew = (cpl_mission_id p, cpl_crew_version p) \<and>
        set (plan_identities p) \<subseteq> set (map cw_identity_id (cr_members crew)) \<and>
        cpl_pm_confirmation_id p = cr_pm_composition_confirmation_id crew \<and>
        cpl_cto_confirmation_id p = cr_cto_coverage_confirmation_id crew) \<and>
     (\<forall>c \<in> set (cpl_history_citations p). citation_backed db c)"

definition independent_evaluator :: "collaboration_plan \<Rightarrow> string \<Rightarrow> bool" where
  "independent_evaluator p k \<longleftrightarrow>
     k \<notin> set (cpl_production_owner_ids p) \<and>
     set (decision_rights p k) \<inter> {''assignment:evaluation'', ''assignment:audit''} \<noteq> {}"

definition health_backed :: "team_db \<Rightarrow> team_health_evaluation \<Rightarrow> bool" where
  "health_backed db e \<longleftrightarrow>
     interval_and_dimensions_are_complete e \<and>
     (\<exists>p \<in> set (tdb_plans db). plan_key p = (the_mission_id e, the_collaboration_plan_version e) \<and>
        independent_evaluator p (the_evaluator_identity e))"

definition adaptation_backed :: "team_db \<Rightarrow> crew_adaptation \<Rightarrow> bool" where
  "adaptation_backed db d \<longleftrightarrow>
     disposition_matches_authority_boundary d \<and>
     (\<exists>p \<in> set (tdb_plans db). plan_key p = (cad_mission_id d, cad_before_plan_version d) \<and>
        (cad_disposition d = Bounded \<longrightarrow>
           set (cad_adaptation_kinds d) \<subseteq> set (cpl_permitted_adaptations p))) \<and>
     (\<exists>p \<in> set (tdb_plans db). plan_key p = (cad_mission_id d, cad_after_plan_version d)) \<and>
     (cad_disposition d = ApprovalRequired \<longrightarrow>
        (\<forall>r \<in> set (cad_approval_references d). executive_decision (tdb_missions db) (cad_mission_id d) r))"

definition handoff_backed :: "team_db \<Rightarrow> mission_handoff \<Rightarrow> bool" where
  "handoff_backed db h \<longleftrightarrow>
     (\<exists>p \<in> set (tdb_plans db). plan_key p = (mho_mission_id h, mho_collaboration_plan_version h) \<and>
        mho_from_identity h \<in> set (plan_identities p) \<and> mho_to_identity h \<in> set (plan_identities p)) \<and>
     (\<exists>a \<in> set (db_assignments (tdb_missions db)). mta_mission_id a = mho_mission_id h \<and>
        mta_task_id a = mho_task_id h \<and> mta_accountable_owner a = mho_from_identity h)"

lemma prefix_set: "prefix xs ys \<Longrightarrow> x \<in> set xs \<Longrightarrow> x \<in> set ys"
  using set_mono_prefix by blast

lemma history_sets:
  assumes "team_history db db'"
  shows "set (tdb_plans db) \<subseteq> set (tdb_plans db')" and "set (tdb_health db) \<subseteq> set (tdb_health db')"
    and "set (db_crews (tdb_missions db)) \<subseteq> set (db_crews (tdb_missions db'))"
    and "set (db_briefs (tdb_missions db)) \<subseteq> set (db_briefs (tdb_missions db'))"
    and "set (db_assignments (tdb_missions db)) \<subseteq> set (db_assignments (tdb_missions db'))"
    and "set (db_decisions (tdb_missions db)) \<subseteq> set (db_decisions (tdb_missions db'))"
  using assms unfolding team_history_def mission_history_def append_only_def
  by (auto intro: set_mono_prefix [THEN subsetD])

lemma completed_stays:
  assumes "team_history db db'" "m \<in> set (db_missions (tdb_missions db))" "mr_state m = MCompleted"
  shows "\<exists>m' \<in> set (db_missions (tdb_missions db')).
    mr_mission_id m' = mr_mission_id m \<and> mr_state m' = MCompleted"
proof -
  obtain m' where "m' \<in> set (db_missions (tdb_missions db'))" "mission_leq m m'"
    using assms(1,2) unfolding team_history_def mission_history_def rows_leq_def by blast
  then show ?thesis using assms(3) by (auto simp: mission_leq_def terminal_mission_def)
qed

lemma citation_backed_mono:
  assumes "team_history db db'" "citation_backed db c"
  shows "citation_backed db' c"
proof -
  obtain m where m: "m \<in> set (db_missions (tdb_missions db))" "mr_mission_id m = hct_mission_id c"
      "mr_state m = MCompleted"
    using assms(2) unfolding citation_backed_def by blast
  show ?thesis
    using completed_stays [OF assms(1) m(1,3)] m(2) assms(2) history_sets(2) [OF assms(1)]
    unfolding citation_backed_def by (metis subsetD)
qed

lemma plan_backed_mono: "team_history db db' \<Longrightarrow> plan_backed db p \<Longrightarrow> plan_backed db' p"
  using history_sets(3,4) [of db db'] citation_backed_mono [of db db']
  unfolding plan_backed_def by blast

lemma health_backed_mono: "team_history db db' \<Longrightarrow> health_backed db e \<Longrightarrow> health_backed db' e"
  using history_sets(1) [of db db'] unfolding health_backed_def by blast

lemma adaptation_backed_mono:
  "team_history db db' \<Longrightarrow> adaptation_backed db d \<Longrightarrow> adaptation_backed db' d"
  using history_sets(1,6) [of db db'] unfolding adaptation_backed_def executive_decision_def by blast

lemma handoff_backed_mono: "team_history db db' \<Longrightarrow> handoff_backed db h \<Longrightarrow> handoff_backed db' h"
  using history_sets(1,5) [of db db'] unfolding handoff_backed_def by blast

subsection \<open>New rows are backed\<close>

lemma team_plan_Inr:
  "team_plan k (Some n) db = Inr p \<Longrightarrow> p \<in> set (tdb_plans db) \<and> plan_key p = (k, n)"
  by (auto simp: team_plan_def dest: tbl_get_SomeD)

lemma citations_backed:
  "validate_history_citations db cs = Inr () \<Longrightarrow> c \<in> set cs \<Longrightarrow> citation_backed db c"
proof (induction cs)
  case (Cons a cs)
  have "citation_backed db a" if "citation_ok db a = Inr ()"
    using that unfolding citation_ok_def citation_backed_def
    by (auto simp: ebind_Inr_iff list_all_iff split: option.splits
        dest!: get_mission_SomeD) (metis tbl_get_SomeD)
  then show ?case using Cons by (auto simp: ebind_Inr_iff)
qed simp

lemma mission_context_Inr:
  assumes "mission_context k db = Inr (m, brief, crew)"
  shows "brief \<in> set (db_briefs (tdb_missions db))" "crew \<in> set (db_crews (tdb_missions db))"
proof -
  obtain b c where bc: "mr_current_brief_version m = Some b" "mr_current_crew_version m = Some c"
      "tbl_get brief_key (k, b) (db_briefs (tdb_missions db)) = Some brief"
      "tbl_get crew_key (k, c) (db_crews (tdb_missions db)) = Some crew"
  proof -
    obtain a where "(case (mr_current_brief_version a, mr_current_crew_version a) of
        (Some b, Some c) \<Rightarrow>
          (case (tbl_get brief_key (k, b) (db_briefs (tdb_missions db)),
                 tbl_get crew_key (k, c) (db_crews (tdb_missions db))) of
             (Some brief, Some crew) \<Rightarrow> Inr (a, brief, crew) | _ \<Rightarrow> Inl AssertionError)
        | _ \<Rightarrow> Inl (MishkanError MISSION ''mission has no current Brief and crew'')) = Inr (m, brief, crew)"
      using assms unfolding mission_context_def Let_def ebind_Inr_iff by blast
    then show thesis
      by (cases "mr_current_brief_version a"; cases "mr_current_crew_version a")
        (auto intro: that split: option.split_asm)
  qed
  show "brief \<in> set (db_briefs (tdb_missions db))" "crew \<in> set (db_crews (tdb_missions db))"
    using tbl_get_SomeD [OF bc(3)] tbl_get_SomeD [OF bc(4)] by simp_all
qed

lemma approvals_backed:
  "check_approvals mdb k rs = Inr () \<Longrightarrow> r \<in> set rs \<Longrightarrow> executive_decision mdb k r"
proof (induction rs)
  case (Cons a rs)
  have "executive_decision mdb k a" if "approval_ok mdb k a = Inr ()"
    using that unfolding approval_ok_def executive_decision_def
    by (auto simp: ebind_Inr_iff dest!: tbl_get_SomeD)
  then show ?case using Cons by (auto simp: ebind_Inr_iff)
qed simp

lemma latest_tasks_found:
  assumes "map_of (latest_tasks k ts db) t = Some a"
  shows "a \<in> set (db_assignments (tdb_missions db)) \<and> mta_mission_id a = k \<and> mta_task_id a = t"
  using latest_by_Some [OF assms [unfolded latest_tasks_def latest_def]] by simp

lemma require_tasks_Inr: "require_tasks k ts db = Inr found \<Longrightarrow> found = latest_tasks k ts db"
  by (simp add: require_tasks_def Let_def split: if_splits)

subsection \<open>Versions and cursors\<close>

definition versions_in_order :: "team_db \<Rightarrow> bool" where
  "versions_in_order db \<longleftrightarrow>
     (\<forall>k. map cpl_version (mission_plans k db) = [1..int (length (mission_plans k db))])"

definition cursors_in_order :: "team_db \<Rightarrow> bool" where
  "cursors_in_order db \<longleftrightarrow>
     (\<forall>k. sorted_wrt (<) (map the_evidence_cursor (filter (\<lambda>e. the_mission_id e = k) (tdb_health db))))"

lemma newest_Some:
  assumes "newest rv rows = Some r"
  shows "r \<in> set rows \<and> (\<forall>x \<in> set rows. rv x \<le> rv r)"
proof (cases rows)
  case (Cons a as)
  then show ?thesis using assms fold_max_rv [of rv as a] by (simp add: newest_def)
qed (use assms in \<open>simp add: newest_def\<close>)

lemma newest_None: "newest rv rows = None \<longleftrightarrow> rows = []"
  by (simp add: newest_def split: list.splits)

lemma next_version_consecutive:
  assumes "versions_in_order db"
  shows "next_plan_version k db = int (length (mission_plans k db)) + 1"
proof (cases "newest cpl_version (mission_plans k db)")
  case None
  then show ?thesis using newest_None [of cpl_version "mission_plans k db"]
    by (simp add: next_plan_version_def)
next
  case (Some p)
  have set_eq: "cpl_version ` set (mission_plans k db) = {1..int (length (mission_plans k db))}"
    using assms unfolding versions_in_order_def by (metis list.set_map set_upto)
  have "mission_plans k db \<noteq> []" using newest_Some [OF Some] by auto
  then have "int (length (mission_plans k db)) \<in> cpl_version ` set (mission_plans k db)"
    unfolding set_eq by (cases "mission_plans k db") auto
  then have "int (length (mission_plans k db)) \<le> cpl_version p"
    using newest_Some [OF Some] by auto
  moreover have "cpl_version p \<in> {1..int (length (mission_plans k db))}"
    using newest_Some [OF Some] set_eq by blast
  ultimately show ?thesis using Some by (simp add: next_plan_version_def)
qed

lemma upto_last: "0 \<le> (n::int) \<Longrightarrow> [1..n + 1] = [1..n] @ [n + 1]"
  using upto_rec2 [of 1 "n + 1"] by simp

lemma versions_plan:
  assumes "versions_in_order db" "cpl_version p = next_plan_version (cpl_mission_id p) db"
    and "tdb_plans db' = tdb_plans db @ [p]"
  shows "versions_in_order db'"
  unfolding versions_in_order_def
proof
  fix k
  have old: "map cpl_version (mission_plans k db) = [1..int (length (mission_plans k db))]"
    using assms(1) by (simp add: versions_in_order_def)
  show "map cpl_version (mission_plans k db') = [1..int (length (mission_plans k db'))]"
  proof (cases "cpl_mission_id p = k")
    case True
    then have grown: "mission_plans k db' = mission_plans k db @ [p]"
      using assms(3) by (simp add: mission_plans_def)
    have "cpl_version p = int (length (mission_plans k db)) + 1"
      using assms(2) True next_version_consecutive [OF assms(1)] by simp
    then show ?thesis
      using old upto_last [of "int (length (mission_plans k db))"]
      by (simp add: grown add.commute [of 1])
  next
    case False
    then have "mission_plans k db' = mission_plans k db" using assms(3) by (simp add: mission_plans_def)
    then show ?thesis using old by simp
  qed
qed

lemma cursors_health:
  assumes "cursors_in_order db" "tdb_health db' = tdb_health db @ [e]"
    and "case newest the_evidence_cursor (filter (\<lambda>x. the_mission_id x = the_mission_id e) (tdb_health db)) of
         None \<Rightarrow> True | Some x \<Rightarrow> the_evidence_cursor x < the_evidence_cursor e"
  shows "cursors_in_order db'"
proof -
  let ?old = "filter (\<lambda>x. the_mission_id x = the_mission_id e) (tdb_health db)"
  have "the_evidence_cursor x < the_evidence_cursor e" if "x \<in> set ?old" for x
  proof (cases "newest the_evidence_cursor ?old")
    case None
    then show ?thesis using that by (simp only: newest_None) simp
  next
    case (Some y)
    have "the_evidence_cursor x \<le> the_evidence_cursor y" using newest_Some [OF Some] that by blast
    then show ?thesis using assms(3) Some by simp
  qed
  then show ?thesis
    using assms(1,2) unfolding cursors_in_order_def by (auto simp: sorted_wrt_append)
qed

subsection \<open>The invariant\<close>

definition team_wf :: "team_db \<Rightarrow> bool" where
  "team_wf db \<longleftrightarrow>
     rows_wf (tdb_missions db) \<and> versions_in_order db \<and> cursors_in_order db \<and>
     list_all (plan_backed db) (tdb_plans db) \<and> list_all (health_backed db) (tdb_health db) \<and>
     list_all (adaptation_backed db) (tdb_adaptations db) \<and>
     list_all (handoff_backed db) (tdb_handoffs db)"

lemma backed_mono:
  assumes "team_history db db'"
  shows "list_all (plan_backed db) xs \<Longrightarrow> list_all (plan_backed db') xs"
    and "list_all (health_backed db) es \<Longrightarrow> list_all (health_backed db') es"
    and "list_all (adaptation_backed db) ds \<Longrightarrow> list_all (adaptation_backed db') ds"
    and "list_all (handoff_backed db) hs \<Longrightarrow> list_all (handoff_backed db') hs"
  using plan_backed_mono [OF assms] health_backed_mono [OF assms] adaptation_backed_mono [OF assms]
    handoff_backed_mono [OF assms] by (auto simp: list_all_iff)

lemma new_plan_backed:
  assumes "shape_and_edges_are_coherent p" "mission_context (cpl_mission_id p) db = Inr (m, brief, crew)"
    "check_collaboration_plan p brief crew = Inr ()"
    "validate_history_citations db (cpl_history_citations p) = Inr ()"
  shows "plan_backed db p"
  unfolding plan_backed_def
proof (intro conjI ballI)
  have checked: "cpl_mission_id p = mb_mission_id brief" "cpl_mission_id p = cr_mission_id crew"
      "cpl_brief_version p = mb_version brief" "cpl_crew_version p = cr_version crew"
      "set (plan_identities p) \<subseteq> set (map cw_identity_id (cr_members crew))"
      "cpl_pm_confirmation_id p = cr_pm_composition_confirmation_id crew"
      "cpl_cto_confirmation_id p = cr_cto_coverage_confirmation_id crew"
    using assms(3) unfolding check_plan_Inr by auto
  show "\<exists>brief \<in> set (db_briefs (tdb_missions db)). brief_key brief = (cpl_mission_id p, cpl_brief_version p)"
    using mission_context_Inr(1) [OF assms(2)] checked by (auto simp: brief_key_def)
  show "\<exists>crew \<in> set (db_crews (tdb_missions db)). crew_key crew = (cpl_mission_id p, cpl_crew_version p) \<and>
      set (plan_identities p) \<subseteq> set (map cw_identity_id (cr_members crew)) \<and>
      cpl_pm_confirmation_id p = cr_pm_composition_confirmation_id crew \<and>
      cpl_cto_confirmation_id p = cr_cto_coverage_confirmation_id crew"
    using mission_context_Inr(2) [OF assms(2)] checked
    by (intro bexI [of _ crew]) (simp_all add: crew_key_def)
  show "citation_backed db c" if "c \<in> set (cpl_history_citations p)" for c
    using citations_backed [OF assms(4) that] .
qed (rule assms(1))

lemma new_health_backed:
  "interval_and_dimensions_are_complete e \<Longrightarrow>
   team_plan (the_mission_id e) (Some (the_collaboration_plan_version e)) db = Inr p \<Longrightarrow>
   check_health_evaluation e p = Inr () \<Longrightarrow> health_backed db e"
  using team_plan_Inr [of "the_mission_id e" "the_collaboration_plan_version e" db p]
  unfolding health_backed_def independent_evaluator_def check_health_Inr by blast

lemma new_adaptation_backed:
  assumes "disposition_matches_authority_boundary d"
    and plan: "team_plan (cad_mission_id d) (Some (cad_before_plan_version d)) db = Inr p"
    and "check_adaptation d p = Inr ()" and lineage: "validate_adaptation_lineage d db = Inr ()"
  shows "adaptation_backed db d"
  unfolding adaptation_backed_def
proof (intro conjI impI ballI)
  note p = team_plan_Inr [OF plan]
  show "\<exists>p \<in> set (tdb_plans db). plan_key p = (cad_mission_id d, cad_before_plan_version d) \<and>
      (cad_disposition d = Bounded \<longrightarrow> set (cad_adaptation_kinds d) \<subseteq> set (cpl_permitted_adaptations p))"
    using p assms(3) unfolding check_adaptation_Inr by blast
  show "\<exists>p \<in> set (tdb_plans db). plan_key p = (cad_mission_id d, cad_after_plan_version d)"
  proof (cases "cad_after_plan_version d = cad_before_plan_version d")
    case False
    then obtain q where "team_plan (cad_mission_id d) (Some (cad_after_plan_version d)) db = Inr q"
      using lineage by (auto simp: validate_adaptation_lineage_def team_Inr)
    then show ?thesis using team_plan_Inr by blast
  qed (use p in auto)
  show "executive_decision (tdb_missions db) (cad_mission_id d) r"
    if "cad_disposition d = ApprovalRequired" "r \<in> set (cad_approval_references d)" for r
    using approvals_backed [OF _ that(2)] lineage that(1)
    by (auto simp: validate_adaptation_lineage_def team_Inr)
qed (rule assms(1))

lemma new_handoff_backed:
  assumes "team_plan (mho_mission_id h) (Some (mho_collaboration_plan_version h)) db = Inr p"
    "mho_from_identity h \<in> set (plan_identities p)" "mho_to_identity h \<in> set (plan_identities p)"
    "require_tasks (mho_mission_id h) [mho_task_id h] db = Inr found"
    "map_of found (mho_task_id h) = Some a" "mta_accountable_owner a = mho_from_identity h"
  shows "handoff_backed db h"
  using team_plan_Inr [OF assms(1)] assms(2,3,6)
    latest_tasks_found [OF assms(5) [unfolded require_tasks_Inr [OF assms(4)]]]
  unfolding handoff_backed_def by blast

lemma order_cong:
  "tdb_plans db' = tdb_plans db \<Longrightarrow> versions_in_order db' = versions_in_order db"
  "tdb_health db' = tdb_health db \<Longrightarrow> cursors_in_order db' = cursors_in_order db"
  by (simp_all add: versions_in_order_def mission_plans_def cursors_in_order_def)

lemma team_wf_grows:
  assumes wf: "team_wf db" and w: "team_writes env db db'"
  shows "team_wf db'"
proof -
  have rows: "rows_wf (tdb_missions db)" and vers: "versions_in_order db" and curs: "cursors_in_order db"
    and plans: "list_all (plan_backed db) (tdb_plans db)"
    and health: "list_all (health_backed db) (tdb_health db)"
    and adapt: "list_all (adaptation_backed db) (tdb_adaptations db)"
    and hand: "list_all (handoff_backed db) (tdb_handoffs db)"
    using wf unfolding team_wf_def by blast+
  have hist: "team_history db db'" and rows': "rows_wf (tdb_missions db')"
    using writes_team_history [OF w rows] by blast+
  note old = backed_mono(1) [OF hist plans] backed_mono(2) [OF hist health]
    backed_mono(3) [OF hist adapt] backed_mono(4) [OF hist hand]
  show ?thesis
    unfolding team_wf_def
  proof (intro conjI)
    show "versions_in_order db'"
      using w
    proof cases
      case (TPlan p m brief crew)
      show ?thesis by (rule versions_plan [OF vers TPlan(6)]) (simp add: TPlan(7))
    qed (rule iffD2 [OF order_cong(1) vers], simp)+
    show "cursors_in_order db'"
      using w
    proof cases
      case (THealth e p)
      show ?thesis by (rule cursors_health [OF curs _ THealth(5)]) (simp add: THealth(6))
    qed (rule iffD2 [OF order_cong(2) curs], simp)+
    show "list_all (plan_backed db') (tdb_plans db')"
      using w
    proof cases
      case (TPlan p m brief crew)
      have "tdb_plans db' = tdb_plans db @ [p]" using TPlan(7) by simp
      then show ?thesis
        using old(1) plan_backed_mono [OF hist new_plan_backed [OF TPlan(1,3,4,5)]] by simp
    qed (use old(1) in simp_all)
    show "list_all (health_backed db') (tdb_health db')"
      using w
    proof cases
      case (THealth e p)
      have "tdb_health db' = tdb_health db @ [e]" using THealth(6) by simp
      then show ?thesis
        using old(2) health_backed_mono [OF hist new_health_backed [OF THealth(1,3,4)]] by simp
    qed (use old(2) in simp_all)
    show "list_all (adaptation_backed db') (tdb_adaptations db')"
      using w
    proof cases
      case (TAdaptation d p)
      have "tdb_adaptations db' = tdb_adaptations db @ [d]" using TAdaptation(6) by simp
      then show ?thesis
        using old(3) adaptation_backed_mono [OF hist new_adaptation_backed [OF TAdaptation(1,3,4,5)]]
        by simp
    qed (use old(3) in simp_all)
    show "list_all (handoff_backed db') (tdb_handoffs db')"
      using w
    proof cases
      case (THandoff h p found a)
      have "tdb_handoffs db' = tdb_handoffs db @ [h]" using THandoff(8) by simp
      then show ?thesis
        using old(4) handoff_backed_mono [OF hist new_handoff_backed [OF THandoff(2-7)]] by simp
    qed (use old(4) in simp_all)
  qed (rule rows')
qed

lemma team_wf_step: "team_wf db \<Longrightarrow> team_wf (team_step env x db)"
  using team_wf_grows team_step_writes by blast

interpretation team_invariant: machine_invariant "team_step env" team_wf
  by unfold_locales (rule team_wf_step)

lemma team_wf_empty: "team_wf empty_team_db"
  by (simp add: team_wf_def empty_team_db_def versions_in_order_def mission_plans_def
      cursors_in_order_def rows_wf_empty)

lemma reachable_team_wf: "team_wf (team_after env ops)"
  by (rule team_invariant.run_inv [OF team_wf_empty])

end
