(* ===== verification/TeamProperties.thy ===== *)
theory TeamProperties
  imports TeamInvariant MissionExample
begin

section \<open>Properties of team evidence\<close>

text \<open>
  What holds of the recorded evidence after every history of calls of the team repository and of
  the mission and run repositories it stands on, when the detection of signals answers, and two
  paths on which the contracts promise more than the code keeps.
\<close>

subsection \<open>A team at work\<close>

text \<open>The example mission with its crew, a plan of two versions and what is recorded beside it.\<close>

definition responsibility :: "string \<Rightarrow> string list \<Rightarrow> collaboration_responsibility" where
  "responsibility k rights =
     \<lparr>csp_identity_id = k, csp_responsibility = k, csp_decision_rights = rights\<rparr>"

definition example_collaboration :: "string \<Rightarrow> int \<Rightarrow> adaptation_kind list \<Rightarrow> collaboration_plan" where
  "example_collaboration k n permitted = \<lparr>cpl_plan_id = k, cpl_mission_id = ''m'', cpl_version = n,
     cpl_brief_version = 1, cpl_crew_version = 1, cpl_production_shape = SingleOwner,
     cpl_production_owner_ids = [''DEV''], cpl_collaboration_reasons = [],
     cpl_proposal_author_identity = ''DEV'', cpl_crewai_coordination_reference = ''c'',
     cpl_alternatives = [''a''], cpl_shared_outcome = ''o'', cpl_user_impact = ''u'',
     cpl_responsibilities = [responsibility ''DEV'' [], responsibility ''REP'' [''assignment:audit'']],
     cpl_interactions = [\<lparr>cge_source_identity = ''DEV'', cge_target_identity = ''REP'',
       cge_interaction = HandOff, cge_purpose = ''p'', cge_artifact_contracts = []\<rparr>],
     cpl_context_references = [''x''], cpl_artifact_references = [], cpl_resource_budgets = [],
     cpl_communication_budget = \<lparr>rl_name = ''messages'', rl_value = 10, rl_unit = ''message''\<rparr>,
     cpl_escalation_conditions = [''e''], cpl_permitted_adaptations = permitted,
     cpl_stop_conditions = [''s''], cpl_history_citations = [],
     cpl_pm_confirmation_id = ''c-PM'', cpl_cto_confirmation_id = ''c-CTO'', cpl_created_at = 5\<rparr>"

definition example_health :: "string \<Rightarrow> int \<Rightarrow> team_health_evaluation" where
  "example_health k cursor = \<lparr>the_evaluation_id = k, the_mission_id = ''m'',
     the_collaboration_plan_version = 1, the_interval_started_at = 1, the_interval_ended_at = 2,
     the_evidence_cursor = cursor,
     the_assessments = map (\<lambda>d. \<lparr>dma_dimension = d, dma_status = Healthy, dma_observations = [''o''],
       dma_evidence_references = [''e'']\<rparr>) team_dimensions,
     the_strengths = [], the_risks = [], the_limitations = [], the_confidence_basis = ''b'',
     the_status = Healthy, the_evaluator_identity = ''REP'', the_evidence_references = [''e''],
     the_created_at = 6\<rparr>"

definition example_adaptation :: "string \<Rightarrow> adaptation_kind \<Rightarrow> crew_adaptation" where
  "example_adaptation k kind = \<lparr>cad_decision_id = k, cad_mission_id = ''m'',
     cad_detected_condition = ''d'', cad_considered_alternatives = [''a''],
     cad_expected_benefit = ''b'', cad_adaptation_kinds = [kind], cad_affected_task_ids = [''work''],
     cad_affected_assignments = [''as-work''], cad_authority_basis = [''plan''],
     cad_disposition = Bounded, cad_before_crew_version = 1, cad_after_crew_version = 1,
     cad_before_plan_version = 1, cad_after_plan_version = 1, cad_approval_references = [],
     cad_evidence_references = [''e''], cad_decided_by = ''DEV'', cad_created_at = 7\<rparr>"

definition example_handoff :: mission_handoff where
  "example_handoff = \<lparr>mho_handoff_id = ''h'', mho_mission_id = ''m'',
     mho_collaboration_plan_version = 1, mho_from_identity = ''DEV'', mho_to_identity = ''REP'',
     mho_task_id = ''work'', mho_result_references = [], mho_artifact_references = [],
     mho_decisions = [], mho_changed_assumptions = [], mho_uncertainty = [], mho_failures = [],
     mho_unresolved_questions = [], mho_required_next_action = ''n'', mho_acceptance_conditions = [],
     mho_created_at = 8\<rparr>"

definition team_day :: "team_op list" where
  "team_day = map MissionCall staffing @
     [RecordPlan (example_collaboration ''p1'' 1 [SplitTask, CombineTasks]),
      RecordPlan (example_collaboration ''p3'' 3 [SplitTask]),
      RecordHealth (example_health ''e1'' 4), RecordHealth (example_health ''e2'' 4),
      RecordHealth (example_health ''e3'' 9),
      RecordHandoff example_handoff,
      RecordPlan (example_collaboration ''p2'' 2 [SplitTask]),
      RecordAdaptation (example_adaptation ''a1'' SplitTask),
      RecordAdaptation (example_adaptation ''a2'' PauseDependentWork)]"

lemma team_day_ends:
  "let db = team_after demo_env team_day
   in tdb_plans db = [example_collaboration ''p1'' 1 [SplitTask, CombineTasks],
        example_collaboration ''p2'' 2 [SplitTask]] \<and>
      tdb_health db = [example_health ''e1'' 4, example_health ''e3'' 9] \<and>
      tdb_adaptations db = [example_adaptation ''a1'' SplitTask] \<and>
      tdb_handoffs db = [example_handoff]"
  by code_simp

subsection \<open>Recorded evidence\<close>

text \<open>
  Claim C33. Whatever calls were made, the plans of a mission carry the versions 1, 2, ... in the
  order they were recorded; every plan is coherent and rests on a recorded Brief and on a recorded
  crew whose members contain every identity of the plan and whose PM and CTO confirmations it
  carries; the history it cites is that of completed missions with evaluations of their own; and
  every handoff goes between two identities of the plan it cites, from the accountable owner of a
  recorded assignment of the task.
\<close>

theorem collaboration_plans_are_grounded:
  "(\<forall>k. map cpl_version (mission_plans k (team_after env ops)) =
        [1..int (length (mission_plans k (team_after env ops)))]) \<and>
   (\<forall>p \<in> set (tdb_plans (team_after env ops)). plan_backed (team_after env ops) p) \<and>
   (\<forall>h \<in> set (tdb_handoffs (team_after env ops)). handoff_backed (team_after env ops) h)"
  using reachable_team_wf [of env ops] by (simp add: team_wf_def versions_in_order_def list_all_iff)

lemma collaboration_plans_are_grounded_witness:
  "map cpl_version (mission_plans ''m'' (team_after demo_env team_day)) = [1..2] \<and>
   plan_backed (team_after demo_env team_day) (example_collaboration ''p2'' 2 [SplitTask]) \<and>
   handoff_backed (team_after demo_env team_day) example_handoff"
proof -
  note ends = team_day_ends [unfolded Let_def]
  have "length (mission_plans ''m'' (team_after demo_env team_day)) = 2"
    using ends by (simp add: mission_plans_def example_collaboration_def)
  then show ?thesis
    using collaboration_plans_are_grounded [of demo_env team_day] ends by simp
qed

text \<open>
  Claim C34. Every recorded team-health evaluation assesses the seven dimensions over an ordered
  interval and cites a recorded plan of its mission, in which its evaluator is no production owner
  and holds an evaluation or audit right; the evidence cursors of the evaluations of one mission
  increase strictly in the order they were recorded.
\<close>

theorem health_evaluations_are_independent:
  "(\<forall>e \<in> set (tdb_health (team_after env ops)).
      interval_and_dimensions_are_complete e \<and>
      (\<exists>p \<in> set (tdb_plans (team_after env ops)).
         plan_key p = (the_mission_id e, the_collaboration_plan_version e) \<and>
         the_evaluator_identity e \<notin> set (cpl_production_owner_ids p) \<and>
         set (decision_rights p (the_evaluator_identity e)) \<inter>
           {''assignment:evaluation'', ''assignment:audit''} \<noteq> {})) \<and>
   (\<forall>k. sorted_wrt (<) (map the_evidence_cursor
      (filter (\<lambda>e. the_mission_id e = k) (tdb_health (team_after env ops)))))"
  using reachable_team_wf [of env ops]
  by (simp add: team_wf_def cursors_in_order_def list_all_iff health_backed_def
      independent_evaluator_def)

lemma health_evaluations_are_independent_witness:
  "\<exists>e \<in> set (tdb_health (team_after demo_env team_day)).
     \<exists>p \<in> set (tdb_plans (team_after demo_env team_day)).
       plan_key p = (the_mission_id e, the_collaboration_plan_version e) \<and>
       the_evaluator_identity e \<notin> set (cpl_production_owner_ids p)"
proof -
  have "example_health ''e3'' 9 \<in> set (tdb_health (team_after demo_env team_day))"
    using team_day_ends by (simp add: Let_def)
  then show ?thesis using health_evaluations_are_independent [of demo_env team_day] by blast
qed

text \<open>
  Claim C35. A recorded adaptation stays within authority: it cites recorded plans of its mission
  before and after; a bounded one is made only of the eight bounded kinds, all of them permitted by
  the plan it starts from, keeps the crew and needs no approval; any other kind needs approvals,
  and every approval it cites is an accepted decision of the same mission by an executive.
\<close>

theorem adaptations_stay_within_authority:
  assumes "d \<in> set (tdb_adaptations (team_after env ops))"
  shows "(\<exists>p \<in> set (tdb_plans (team_after env ops)).
       plan_key p = (cad_mission_id d, cad_before_plan_version d) \<and>
       (cad_disposition d = Bounded \<longrightarrow>
          set (cad_adaptation_kinds d) \<subseteq> set (cpl_permitted_adaptations p) \<inter> set bounded_adaptations \<and>
          cad_after_crew_version d = cad_before_crew_version d)) \<and>
     (\<exists>p \<in> set (tdb_plans (team_after env ops)).
       plan_key p = (cad_mission_id d, cad_after_plan_version d)) \<and>
     (cad_disposition d = ApprovalRequired \<longrightarrow>
        cad_approval_references d \<noteq> [] \<and>
        (\<forall>r \<in> set (cad_approval_references d).
           executive_decision (tdb_missions (team_after env ops)) (cad_mission_id d) r))"
proof -
  have backed: "adaptation_backed (team_after env ops) d"
    using reachable_team_wf [of env ops] assms by (auto simp: team_wf_def list_all_iff)
  then have shape: "disposition_matches_authority_boundary d"
    by (simp add: adaptation_backed_def)
  have "cad_disposition d = Bounded \<Longrightarrow> set (cad_adaptation_kinds d) \<subseteq> set bounded_adaptations \<and>
      cad_after_crew_version d = cad_before_crew_version d"
    using shape by (auto simp: disposition_matches_authority_boundary_def)
  moreover have "cad_disposition d = ApprovalRequired \<Longrightarrow> cad_approval_references d \<noteq> []"
    using shape by (simp add: disposition_matches_authority_boundary_def)
  ultimately show ?thesis using backed unfolding adaptation_backed_def by (auto dest: subsetD)
qed

lemma adaptations_stay_within_authority_witness:
  "\<exists>p \<in> set (tdb_plans (team_after demo_env team_day)).
     set (cad_adaptation_kinds (example_adaptation ''a1'' SplitTask)) \<subseteq>
       set (cpl_permitted_adaptations p) \<inter> set bounded_adaptations"
proof -
  have "example_adaptation ''a1'' SplitTask \<in> set (tdb_adaptations (team_after demo_env team_day))"
    using team_day_ends by (simp add: Let_def)
  from adaptations_stay_within_authority [OF this] show ?thesis
    by (auto simp: example_adaptation_def)
qed

text \<open>
  Claim C36. The check that an adaptation does not start from a stale plan never fires: the plan is
  fetched by the version the adaptation names, so a bounded adaptation that only a superseded
  version permits is recorded although the current version does not permit it.
\<close>

theorem superseded_plan_authorizes_adaptation:
  assumes "tbl_get cad_decision_id (cad_decision_id d) (tdb_adaptations db) = None"
    and old: "team_plan (cad_mission_id d) (Some (cad_before_plan_version d)) db = Inr p"
    and "cad_disposition d = Bounded"
    and "set (cad_adaptation_kinds d) \<subseteq> set (cpl_permitted_adaptations p)"
    and "validate_adaptation_lineage d db = Inr ()"
    and "team_plan (cad_mission_id d) None db = Inr q" and "cpl_version p < cpl_version q"
    and "\<not> set (cad_adaptation_kinds d) \<subseteq> set (cpl_permitted_adaptations q)"
  shows "\<exists>db'. record_adaptation d db = Inr (db', d) \<and> d \<in> set (tdb_adaptations db') \<and>
     team_plan (cad_mission_id d) None db' = Inr q"
proof -
  have "cpl_mission_id p = cad_mission_id d \<and> cpl_version p = cad_before_plan_version d"
    using team_plan_Inr [OF old] by (simp add: plan_key_def)
  then have "check_adaptation d p = Inr ()" using assms(4) by (simp add: check_adaptation_def)
  then show ?thesis
    using assms by (simp add: record_adaptation_def team_plan_def mission_plans_def)
qed

lemma superseded_plan_authorizes_adaptation_witness:
  "\<exists>db'. record_adaptation (example_adaptation ''a3'' CombineTasks) (team_after demo_env team_day) =
       Inr (db', example_adaptation ''a3'' CombineTasks) \<and>
     team_plan ''m'' None db' = Inr (example_collaboration ''p2'' 2 [SplitTask])"
proof -
  let ?db = "team_after demo_env team_day" and ?d = "example_adaptation ''a3'' CombineTasks"
  note ends = team_day_ends [unfolded Let_def]
  have plans: "tdb_plans ?db = [example_collaboration ''p1'' 1 [SplitTask, CombineTasks],
      example_collaboration ''p2'' 2 [SplitTask]]" using ends by simp
  have adaptations: "tdb_adaptations ?db = [example_adaptation ''a1'' SplitTask]" using ends by simp
  have lineage: "validate_adaptation_lineage ?d ?db = Inr ()" by code_simp
  have "\<exists>db'. record_adaptation ?d ?db = Inr (db', ?d) \<and> ?d \<in> set (tdb_adaptations db') \<and>
      team_plan (cad_mission_id ?d) None db' = Inr (example_collaboration ''p2'' 2 [SplitTask])"
    by (rule superseded_plan_authorizes_adaptation
        [where p = "example_collaboration ''p1'' 1 [SplitTask, CombineTasks]", OF _ _ _ _ lineage])
      (simp_all add: plans adaptations example_adaptation_def example_collaboration_def
        team_plan_def plan_key_def mission_plans_def newest_def tbl_get_def)
  then show ?thesis by (auto simp: example_adaptation_def)
qed

subsection \<open>Detection\<close>

lemma validated_signals_exists: "(\<exists>ts. validated_signals us = Inr ts) \<longleftrightarrow> list_all signal_valid us"
  by (simp add: validated_signals_Inr)

lemma event_signal_valid:
  "1 \<le> cpl_version p \<Longrightarrow> length_between 1 64 u \<Longrightarrow> 0 \<le> v \<Longrightarrow>
   signal_valid (event_signal env p mapping kind es v u now) \<longleftrightarrow> es \<noteq> []"
  by (simp add: event_signal_def make_signal_valid)

text \<open>
  Claim C37. Detection from run events returns its signals except in one case: a threshold of zero
  repeated rejections, which the configuration allows, with events of which none is a rejection.
  Then the signal has no evidence, its constructor raises, and the health evaluation of the mission
  fails.
\<close>

theorem event_detection_fails_exactly:
  assumes "1 \<le> cpl_version p"
  shows "(\<exists>ts. detect_events env p es mapping th = Inr ts) \<longleftrightarrow>
     es = [] \<or> 0 < sth_repeated_rejections th \<or>
     (\<exists>e \<in> set es. evr_event_type e \<in> {''task.review_rejected'', ''task.rejected''})"
proof (cases "es = []")
  case False
  let ?in_order = "sort_key evr_cursor es"
  let ?rejected = "filter (\<lambda>e. evr_event_type e \<in> {''task.review_rejected'', ''task.rejected''}) ?in_order"
  have rejected: "?rejected = [] \<longleftrightarrow>
      \<not> (\<exists>e \<in> set es. evr_event_type e \<in> {''task.review_rejected'', ''task.rejected''})"
    by (auto simp: filter_empty_conv)
  obtain q qe where queue: "elapsed ?in_order ''run.queued'' run_ends = (q, qe)" by fastforce
  obtain b be where blocked: "elapsed ?in_order ''run.blocked'' run_ends = (b, be)" by fastforce
  have "0 \<le> q" "0 \<le> b"
    using elapsed_nonneg [of ?in_order "''run.queued''" run_ends]
      elapsed_nonneg [of ?in_order "''run.blocked''" run_ends] by (simp_all add: queue blocked)
  then have "(\<exists>ts. detect_events env p es mapping th = Inr ts) \<longleftrightarrow>
      (sth_repeated_rejections th \<le> of_nat (length ?rejected) \<longrightarrow> ?rejected \<noteq> [])"
    using False assms
    by (simp add: detect_events_def Let_def queue blocked validated_signals_exists event_signal_valid
        length_between_def)
  then show ?thesis using False rejected by auto
qed (simp add: detect_events_def)

lemma event_detection_fails_exactly_witness:
  "\<not> (\<exists>ts. detect_events \<lparr>tv_uuid5 = \<lambda>s. s, tv_isoformat = \<lambda>t. []\<rparr>
      (example_collaboration ''p1'' 1 [])
      [\<lparr>evr_cursor = 1, evr_id = ''x'', evr_aggregate_id = ''r'', evr_entity_type = ''run'',
        evr_run_id = Some ''r'', evr_task_id = None, evr_identity_id = None, evr_team_id = None,
        evr_security_relevant = False, evr_event_type = ''run.queued'', evr_source = ''s'',
        evr_payload = [], evr_occurred_at = 0, evr_command_id = None, evr_correlation_id = None,
        evr_causation_id = None, evr_sensitivity = ''internal''\<rparr>] []
      \<lparr>sth_repeated_rejections = 0, sth_queue_time_seconds = 0, sth_blocked_time_seconds = 0\<rparr> = Inr ts)"
  by (subst event_detection_fails_exactly) (simp_all add: example_collaboration_def)

text \<open>
  The handoffs a completed task still lacks, by the plan: its accountable owner hands off to
  another identity, and no handoff of the task between the two is recorded.
\<close>

definition lacking_handoffs ::
  "collaboration_plan \<Rightarrow> mission_task_assignment list \<Rightarrow> mission_handoff list \<Rightarrow> string
   \<Rightarrow> collaboration_edge list" where
  "lacking_handoffs p as handoffs k =
     filter (\<lambda>e. cge_interaction e = HandOff \<and>
       Some (cge_source_identity e) = map_option mta_accountable_owner (map_of (latest as) k) \<and>
       \<not> (\<exists>h \<in> set handoffs. mho_task_id h = k \<and> mho_from_identity h = cge_source_identity e \<and>
            mho_to_identity h = cge_target_identity e)) (cpl_interactions p)"

lemma length_missing_handoffs:
  "length (missing_handoffs p as handoffs completed) =
     (\<Sum>k \<in> set completed. length (lacking_handoffs p as handoffs k))"
proof -
  have recorded: "(k, x, y) \<in> (\<lambda>h. (mho_task_id h, mho_from_identity h, mho_to_identity h)) ` set handoffs
      \<longleftrightarrow> (\<exists>h \<in> set handoffs. mho_task_id h = k \<and> mho_from_identity h = x \<and> mho_to_identity h = y)"
    for k x y by auto
  have task: "length (case map_of (latest as) k of
       None \<Rightarrow> []
     | Some a \<Rightarrow> map (\<lambda>e. (k, e, a)) (filter (\<lambda>e. cge_interaction e = HandOff \<and>
         cge_source_identity e = mta_accountable_owner a \<and>
         (k, cge_source_identity e, cge_target_identity e) \<notin>
           (\<lambda>h. (mho_task_id h, mho_from_identity h, mho_to_identity h)) ` set handoffs) (cpl_interactions p))) =
    length (lacking_handoffs p as handoffs k)" for k
    unfolding lacking_handoffs_def recorded
    by (cases "map_of (latest as) k") simp_all
  have "length (missing_handoffs p as handoffs completed) =
      sum_list (map (\<lambda>k. length (lacking_handoffs p as handoffs k)) (sorted_set completed))"
    unfolding missing_handoffs_def length_concat map_map comp_def task ..
  also have "\<dots> = (\<Sum>k \<in> set completed. length (lacking_handoffs p as handoffs k))"
    by (subst sum_list_distinct_conv_sum_set) (simp_all add: sorted_set_def)
  finally show ?thesis .
qed

lemma signals_of_plan:
  shows "t \<in> set (drift_signal env p now as) \<Longrightarrow>
      tms_mission_id t = cpl_mission_id p \<and> tms_collaboration_plan_version t = cpl_version p"
    and "t \<in> set (concentration_signal env p now c as) \<Longrightarrow>
      tms_mission_id t = cpl_mission_id p \<and> tms_collaboration_plan_version t = cpl_version p"
    and "t \<in> set (duplicate_signal env p now d as) \<Longrightarrow>
      tms_mission_id t = cpl_mission_id p \<and> tms_collaboration_plan_version t = cpl_version p"
    and "t \<in> set (handoff_signal env p now h missing) \<Longrightarrow>
      tms_mission_id t = cpl_mission_id p \<and> tms_collaboration_plan_version t = cpl_version p"
     apply (simp add: drift_signal_def Let_def split: if_splits)
    apply (simp add: concentration_signal_def Let_def split: if_splits)
   apply (simp add: duplicate_signal_def Let_def split: if_splits)
  apply (simp add: handoff_signal_def split: if_splits)
  done

lemma other_kinds:
  shows "t \<in> set (drift_signal env p now as) \<Longrightarrow> tms_kind t \<noteq> MissingHandoff"
    and "t \<in> set (concentration_signal env p now c as) \<Longrightarrow> tms_kind t \<noteq> MissingHandoff"
    and "t \<in> set (duplicate_signal env p now d as) \<Longrightarrow> tms_kind t \<noteq> MissingHandoff"
    apply (simp add: drift_signal_def Let_def split: if_splits)
   apply (simp add: concentration_signal_def Let_def split: if_splits)
  apply (simp add: duplicate_signal_def Let_def split: if_splits)
  done

text \<open>
  Claim C38. For thresholds the detector accepts, detection from assignments and handoffs returns
  valid signals of the plan's mission and version. A missing-handoff signal is among them exactly
  when a completed task lacks a handoff and the number of lacking handoffs, over all completed tasks,
  reaches the threshold.
\<close>

theorem missing_handoffs_are_reported:
  assumes "1 \<le> cpl_version p" and "0 \<le> dth_workload_concentration th"
    and "dth_workload_concentration th \<le> 1" and "0 \<le> dth_duplicate_work th"
    and "0 \<le> dth_missing_handoff th"
  shows "\<exists>ts. detect env now p as handoffs completed th = Inr ts \<and>
     (\<forall>t \<in> set ts. signal_valid t \<and> tms_mission_id t = cpl_mission_id p \<and>
        tms_collaboration_plan_version t = cpl_version p) \<and>
     ((\<exists>t \<in> set ts. tms_kind t = MissingHandoff) \<longleftrightarrow>
      (\<exists>k \<in> set completed. lacking_handoffs p as handoffs k \<noteq> []) \<and>
      dth_missing_handoff th \<le> of_nat (\<Sum>k \<in> set completed. length (lacking_handoffs p as handoffs k)))"
proof -
  let ?current = "current_assignments as"
  let ?production = "filter (\<lambda>a. mta_assignment_kind a \<in> {PRODUCTION, CONTRIBUTOR}) ?current"
  let ?missing = "missing_handoffs p as handoffs completed"
  let ?n = "\<Sum>k \<in> set completed. length (lacking_handoffs p as handoffs k)"
  let ?others = "drift_signal env p now ?current @
      concentration_signal env p now (dth_workload_concentration th) ?production @
      duplicate_signal env p now (dth_duplicate_work th) ?production"
  let ?ts = "?others @ handoff_signal env p now (dth_missing_handoff th) ?missing"
  have valid: "list_all signal_valid ?ts" using detected_valid [OF assms(1)] by simp
  have answer: "detect env now p as handoffs completed th = Inr ?ts"
    using assms valid by (simp add: detect_def Let_def validated_signals_Inr)
  have plan: "tms_mission_id t = cpl_mission_id p \<and> tms_collaboration_plan_version t = cpl_version p"
      if "t \<in> set ?ts" for t
    using that unfolding set_append by (elim UnE) (erule signals_of_plan)+
  have "tms_kind t \<noteq> MissingHandoff" if "t \<in> set ?others" for t
    using that unfolding set_append by (elim UnE) (erule other_kinds)+
  moreover have "(\<exists>t \<in> set (handoff_signal env p now (dth_missing_handoff th) ?missing).
      tms_kind t = MissingHandoff) \<longleftrightarrow> ?missing \<noteq> [] \<and> dth_missing_handoff th \<le> of_nat (length ?missing)"
    by (simp add: handoff_signal_def)
  moreover have "?missing \<noteq> [] \<longleftrightarrow> (\<exists>k \<in> set completed. lacking_handoffs p as handoffs k \<noteq> [])"
  proof -
    have "length ?missing = 0 \<longleftrightarrow> (\<forall>k \<in> set completed. lacking_handoffs p as handoffs k = [])"
      unfolding length_missing_handoffs by simp
    then show ?thesis by auto
  qed
  ultimately have "(\<exists>t \<in> set ?ts. tms_kind t = MissingHandoff) \<longleftrightarrow>
      (\<exists>k \<in> set completed. lacking_handoffs p as handoffs k \<noteq> []) \<and> dth_missing_handoff th \<le> of_nat ?n"
    unfolding length_missing_handoffs set_append by blast
  then show ?thesis
    using answer valid plan by (intro exI [of _ ?ts]) (simp add: list_all_iff)
qed

lemma missing_handoffs_are_reported_witness:
  "\<exists>ts. detect \<lparr>tv_uuid5 = \<lambda>s. s, tv_isoformat = \<lambda>t. []\<rparr> 0 (example_collaboration ''p1'' 1 [])
       [assignment ''work'' ''DEV'' PRODUCTION [] ''a''] [] [''work'']
       \<lparr>dth_workload_concentration = 1, dth_duplicate_work = 1, dth_missing_handoff = 1\<rparr> = Inr ts \<and>
     (\<exists>t \<in> set ts. tms_kind t = MissingHandoff)"
proof -
  let ?th = "\<lparr>dth_workload_concentration = 1, dth_duplicate_work = 1, dth_missing_handoff = 1\<rparr> ::
      detection_thresholds"
  let ?as = "[assignment ''work'' ''DEV'' PRODUCTION [] ''a'']"
  note reported = missing_handoffs_are_reported
    [where p = "example_collaboration ''p1'' 1 []" and th = ?th
       and env = "\<lparr>tv_uuid5 = \<lambda>s. s, tv_isoformat = \<lambda>t. []\<rparr>" and now = 0 and handoffs = "[]"
       and as = ?as and completed = "[''work'']"]
  have "length (lacking_handoffs (example_collaboration ''p1'' 1 []) ?as [] ''work'') = 1" by code_simp
  then show ?thesis using reported by (force simp: example_collaboration_def)
qed

end
