(* ===== verification/EnvironmentProperties.thy ===== *)
theory EnvironmentProperties
  imports MissionEnvironment
begin

section \<open>What an accepted environment plan relies on\<close>

text \<open>
  The choices of a plan that \<open>validate_plan\<close> accepts are alternatives the mission exposed, with the
  resolver's constraints unchanged, and the engines of an executable choice were observed eligible
  with the required semantics.
\<close>

lemma last_of_Some: "last_of key xs k = Some x \<Longrightarrow> x \<in> set xs \<and> key x = k"
  unfolding last_of_def by (drule map_of_SomeD) auto

definition engine_supports :: "environment_observation \<Rightarrow> string list \<Rightarrow> string \<Rightarrow> bool" where
  "engine_supports ob semantics k \<longleftrightarrow>
     (\<exists>engine \<in> set (eb_engines ob). eo_engine_id engine = k \<and>
        map_of (eo_facts engine) ''eligible'' = Some AvailableTrue \<and>
        set semantics \<subseteq> set (eo_semantics engine))"

lemma check_engines_Inr:
  "check_engines ob profile a ks = Inr () \<Longrightarrow> k \<in> set ks \<Longrightarrow>
   engine_supports ob (al_required_semantics a) k"
proof (induction ks)
  case (Cons j ks)
  obtain engine where engine: "last_of eo_engine_id (eb_engines ob) j = Some engine"
      "map_of (eo_facts engine) ''eligible'' = Some AvailableTrue"
      "set (al_required_semantics a) \<subseteq> set (eo_semantics engine)"
    and rest: "check_engines ob profile a ks = Inr ()"
    using Cons.prems(1)
    by (auto simp: ebind_Inr_iff engine_fact_def split: option.splits if_splits)
  show ?case
  proof (cases "k = j")
    case True
    then show ?thesis using engine last_of_Some [OF engine(1)] by (auto simp: engine_supports_def)
  next
    case False
    then show ?thesis using Cons.IH [OF rest] Cons.prems(2) by simp
  qed
qed simp

lemma check_alternatives_Inr:
  "check_alternatives ob profile alternatives = Inr () \<Longrightarrow> a \<in> set alternatives \<Longrightarrow>
   al_requested_outcome a \<noteq> UnresolvedOutcome \<Longrightarrow>
   check_engines ob profile a (al_eligible_engine_ids a) = Inr ()"
  by (induction alternatives) (auto simp: ebind_Inr_iff split: if_splits)

lemma validate_contexts_Inr:
  "validate_contexts l observations profile cs = Inr () \<Longrightarrow> c \<in> set cs \<Longrightarrow>
   \<exists>ob \<in> set observations. eb_observation_id ob = xr_observation_id c \<and>
     validate_context c ob profile = Inr ()"
proof (induction cs)
  case (Cons x cs)
  obtain ob where ob: "last_of eb_observation_id observations (xr_observation_id x) = Some ob"
      "validate_context x ob profile = Inr ()"
    and rest: "validate_contexts l observations profile cs = Inr ()"
    using Cons.prems(1) by (auto simp: ebind_Inr_iff split: option.splits if_splits)
  show ?case
  proof (cases "c = x")
    case True
    then show ?thesis using ob last_of_Some [OF ob(1)] by blast
  next
    case False
    then show ?thesis using Cons.IH [OF rest] Cons.prems(2) by simp
  qed
qed simp

lemma validate_request_contexts:
  "validate_request r m brief crew gs observations profile = Inr () \<Longrightarrow>
   validate_contexts (latest gs) observations profile (pq_contexts r) = Inr ()"
  by (auto simp: validate_request_def Let_def split: option.splits if_splits)

lemma validate_decisions_Inr:
  "validate_decisions p pairs = Inr () \<Longrightarrow> (c, e) \<in> set pairs \<Longrightarrow>
   \<exists>a \<in> set (xr_alternatives c). al_alternative_id a = ed_selected_alternative_id e \<and>
     ed_requested_outcome e = al_requested_outcome a \<and> chosen e = choice_of a"
proof (induction pairs)
  case (Cons x pairs)
  obtain c' e' where x: "x = (c', e')" by (cases x)
  obtain a where a: "last_of al_alternative_id (xr_alternatives c') (ed_selected_alternative_id e') = Some a"
      "ed_requested_outcome e' = al_requested_outcome a" "chosen e' = choice_of a"
    and rest: "validate_decisions p pairs = Inr ()"
    using Cons.prems(1) by (auto simp: x split: option.splits if_splits)
  show ?case
  proof (cases "(c, e) = (c', e')")
    case True
    then show ?thesis using a last_of_Some [OF a(1)] by auto
  next
    case False
    then show ?thesis using Cons.IH [OF rest] Cons.prems(2) by (auto simp: x)
  qed
qed simp

text \<open>Two lists with the same distinct keys, sorted by key, pair up key by key.\<close>

lemma zip_sorted_keys:
  assumes "distinct (map f xs)" and "distinct (map g ys)" and "f ` set xs = g ` set ys"
    and "y \<in> set ys"
  obtains x where "x \<in> set xs" and "f x = (g y :: 'k::linorder)"
    and "(x, y) \<in> set (zip (sort_key f xs) (sort_key g ys))"
proof -
  let ?xs = "sort_key f xs" and ?ys = "sort_key g ys"
  have dx: "distinct (map f ?xs)" and dy: "distinct (map g ?ys)"
    using assms(1,2) by (simp_all add: distinct_map)
  have "map f ?xs = map g ?ys"
    by (rule sorted_distinct_set_unique) (use dx dy assms(3) in simp_all)
  moreover obtain n where n: "n < length ?ys" "?ys ! n = y"
    using assms(4) by (metis in_set_conv_nth set_sort)
  ultimately have len: "length ?xs = length ?ys" and "f (?xs ! n) = g y"
    by (metis length_map) (metis \<open>map f ?xs = map g ?ys\<close> length_map n nth_map)
  moreover have "?xs ! n \<in> set xs" using n len by (metis nth_mem set_sort)
  moreover have "(?xs ! n, y) \<in> set (zip ?xs ?ys)" using n len by (auto simp: set_zip)
  ultimately show thesis using that by blast
qed

text \<open>
  An accepted environment plan chooses only what was observed: every decision selects an
  exposed alternative of its context with the outcome and the constraints of that alternative
  unchanged, the context matches an observation in revision, fingerprint and platform, and, unless
  the outcome is unresolved, every eligible engine was observed eligible with the required semantics.
\<close>

theorem environment_choices_are_observed:
  assumes "validate_plan p m brief crew gs observations profile = Inr ()"
    and "decisions_cover_exact_contexts p" and "e \<in> set (en_decisions p)"
  shows "\<exists>c \<in> set (en_contexts p). \<exists>a \<in> set (xr_alternatives c). \<exists>ob \<in> set observations.
      xr_context_id c = ed_context_id e \<and> al_alternative_id a = ed_selected_alternative_id e \<and>
      al_requested_outcome a = ed_requested_outcome e \<and> choice_of a = chosen e \<and>
      eb_observation_id ob = xr_observation_id c \<and> eb_revision ob = xr_observation_revision c \<and>
      eb_fingerprint ob = xr_observation_fingerprint c \<and> eb_platform ob = xr_target_platform c \<and>
      (ed_requested_outcome e \<noteq> UnresolvedOutcome \<longrightarrow>
         list_all (engine_supports ob (ed_required_semantics e)) (ed_eligible_engine_ids e))"
proof -
  define r where "r = \<lparr>pq_request_id = en_source_request_id p, pq_mission_id = en_plan_mission_id p,
      pq_mission_revision = en_mission_revision p, pq_brief_version = en_brief_version p,
      pq_crew_version = en_crew_version p, pq_planning_task_id = en_planning_task_id p,
      pq_owner_identity = en_owner_identity p, pq_contexts = en_contexts p,
      pq_evidence_references = en_evidence_references p\<rparr>"
  have "planning_request_valid r" and r: "pq_contexts r = en_contexts p"
      and req: "validate_request r m brief crew gs observations profile = Inr ()"
      and dec: "validate_decisions p (zip (sort_key xr_context_id (en_contexts p))
                    (sort_key ed_context_id (en_decisions p))) = Inr ()"
    using assms(1) by (auto simp: r_def validate_plan_def Let_def ebind_Inr_iff split: if_splits)
  have "distinct (map xr_context_id (en_contexts p))"
    using r \<open>planning_request_valid r\<close> by (simp add: planning_request_valid_def)
  moreover have "distinct (map ed_context_id (en_decisions p))"
      "xr_context_id ` set (en_contexts p) = ed_context_id ` set (en_decisions p)"
    using assms(2) by (simp_all add: decisions_cover_exact_contexts_def)
  ultimately obtain c where c: "c \<in> set (en_contexts p)" "xr_context_id c = ed_context_id e"
      "(c, e) \<in> set (zip (sort_key xr_context_id (en_contexts p)) (sort_key ed_context_id (en_decisions p)))"
    using assms(3) by (rule zip_sorted_keys)
  obtain a where a: "a \<in> set (xr_alternatives c)" "al_alternative_id a = ed_selected_alternative_id e"
      "ed_requested_outcome e = al_requested_outcome a" "chosen e = choice_of a"
    using validate_decisions_Inr [OF dec c(3)] by blast
  have "validate_contexts (latest gs) observations profile (en_contexts p) = Inr ()"
    using validate_request_contexts [OF req] by (simp add: r)
  from validate_contexts_Inr [OF this c(1)] obtain ob where
      ob: "ob \<in> set observations" "eb_observation_id ob = xr_observation_id c"
        "validate_context c ob profile = Inr ()" by blast
  have sem: "al_required_semantics a = ed_required_semantics e"
      "al_eligible_engine_ids a = ed_eligible_engine_ids e"
    using a(4) by (simp_all add: chosen_def choice_of_def)
  have "list_all (engine_supports ob (ed_required_semantics e)) (ed_eligible_engine_ids e)"
    if "ed_requested_outcome e \<noteq> UnresolvedOutcome"
  proof -
    have "check_alternatives ob profile (xr_alternatives c) = Inr ()"
      using ob(3) by (simp add: validate_context_def split: if_splits)
    then have "check_engines ob profile a (al_eligible_engine_ids a) = Inr ()"
      using a(1,3) that by (intro check_alternatives_Inr) auto
    then show ?thesis using check_engines_Inr by (auto simp: list_all_iff simp flip: sem)
  qed
  moreover have "eb_revision ob = xr_observation_revision c"
      "eb_fingerprint ob = xr_observation_fingerprint c" "eb_platform ob = xr_target_platform c"
    using ob(3) by (auto simp: validate_context_def split: if_splits)
  ultimately show ?thesis using c a ob by (intro bexI [of _ c] bexI [of _ a] bexI [of _ ob]) auto
qed

text \<open>A mission with one environment context, whose owner chose the observed container engine.\<close>

definition demo_alternative :: environment_alternative where
  "demo_alternative = \<lparr>al_alternative_id = ''alt'', al_requested_outcome = GenerateEnvironment,
     al_required_semantics = [''linux''], al_allowed_descriptor_formats = [''oci''],
     al_required_engine_ids = [''podman''], al_eligible_engine_ids = [''podman''],
     al_constraints = [''c''], al_evidence_references = [''e''],
     al_requires_consequential_decision = False, al_consequential_decision_id = None,
     al_consequential_option_id = None\<rparr>"

definition demo_context :: environment_context_request where
  "demo_context = \<lparr>xr_context_id = ''ctx'', xr_observation_id = ''ob'', xr_observation_revision = 1,
     xr_observation_fingerprint = ''fp'', xr_target_platform = ''linux'',
     xr_target_architecture = ''amd64'', xr_execution_location = ''host'',
     xr_affected_task_ids = [''t''], xr_alternatives = [demo_alternative],
     xr_evidence_references = [''e'']\<rparr>"

definition demo_choice :: environment_decision where
  "demo_choice = \<lparr>ed_context_id = ''ctx'', ed_selected_alternative_id = ''alt'',
     ed_requested_outcome = GenerateEnvironment, ed_rationale = ''r'', ed_constraints = [''c''],
     ed_declared_effects = [], ed_verification_checks = [''v''], ed_cleanup_criteria = [''c''],
     ed_alternatives_considered = [''alt''], ed_unknowns = [], ed_evidence_references = [''e''],
     ed_required_semantics = [''linux''], ed_allowed_descriptor_formats = [''oci''],
     ed_required_engine_ids = [''podman''], ed_eligible_engine_ids = [''podman''],
     ed_requires_consequential_decision = False, ed_consequential_decision_id = None,
     ed_consequential_option_id = None\<rparr>"

definition demo_environment_plan :: environment_plan where
  "demo_environment_plan = \<lparr>en_plan_id = ''p'', en_plan_mission_id = ''m'', en_version = 1,
     en_mission_revision = 3, en_brief_version = 1, en_crew_version = 1, en_source_request_id = ''q'',
     en_planning_task_id = ''t'', en_owner_identity = ''DEV'', en_evidence_references = [''e''],
     en_contexts = [demo_context], en_decisions = [demo_choice],
     en_lineage = \<lparr>ln_coordination_id = ''l'', ln_task_id = ''t'', ln_model_route = ''x'',
       ln_output_fingerprint = ''fp'', ln_produced_at = 0\<rparr>, en_plan_created_at = 0\<rparr>"

definition demo_observation :: environment_observation where
  "demo_observation = \<lparr>eb_observation_id = ''ob'', eb_revision = 1, eb_context_id = ''ctx'',
     eb_execution_location = ''host'', eb_platform = ''linux'', eb_architecture = ''amd64'',
     eb_descriptor_formats = [], eb_engines = [\<lparr>eo_engine_id = ''podman'', eo_adapter_id = None,
       eo_semantics = [''linux''], eo_facts = [(''eligible'', AvailableTrue)]\<rparr>],
     eb_fingerprint = ''fp''\<rparr>"

definition demo_planning_mission :: mission_record where
  "demo_planning_mission = \<lparr>mr_mission_id = ''m'', mr_revision = 3, mr_state = MPlanned,
     mr_origin = \<lparr>mo_schema_version = Origin_1_0, mo_origin_id = ''o'', mo_kind = OriginCeo,
       mo_actor_id = ''CEO'', mo_objective = ''o'', mo_source_references = [],
       mo_template_id = None, mo_template_reference = None, mo_created_at = 0\<rparr>,
     mr_organization_id = ''org'', mr_organization_version = ''1'',
     mr_current_brief_version = Some 1, mr_current_crew_version = Some 1,
     mr_current_environment_plan_version = None, mr_created_at = 0, mr_updated_at = 0\<rparr>"

definition demo_planning_brief :: mission_brief where
  "demo_planning_brief = \<lparr>mb_brief_id = ''b1'', mb_mission_id = ''m'', mb_version = 1,
     mb_organization_id = ''org'', mb_organization_version = ''1'', mb_status = BriefClarifying,
     mb_objective = ''o'', mb_problem = ''p'', mb_desired_outcome = ''d'', mb_scope = [''s''],
     mb_exclusions = [], mb_acceptance_criteria = [''a''], mb_constraints = [], mb_risks = [],
     mb_authority_scope = [''s''], mb_proposed_crew = [''DEV''], mb_evidence_requirements = [''e''],
     mb_escalation_conditions = [],
     mb_environment_intent = \<lparr>mei_known_locations = [], mei_target_platforms = [],
       mei_target_architectures = [], mei_existing_definition_references = [],
       mei_isolation_requirements = [], mei_network_requirements = [],
       mei_credential_references = [], mei_resource_constraints = [],
       mei_required_evidence = [''e''], mei_known_unknowns = [], mei_environment_dependent = True\<rparr>,
     mb_pm_confirmation = None, mb_cto_confirmation = None, mb_created_at = 1\<rparr>"

definition demo_planning_crew :: mission_crew_revision where
  "demo_planning_crew = \<lparr>cr_crew_id = ''w1'', cr_mission_id = ''m'', cr_version = 1,
     cr_organization_id = ''org'', cr_organization_version = ''1'', cr_brief_version = 1,
     cr_mission_lead_id = ''DEV'',
     cr_members = [\<lparr>cw_identity_id = ''DEV'', cw_assignment_kind = PRODUCTION,
       cw_responsibility = ''d'', cw_selection_evidence = \<lparr>ce_project_references = [],
         ce_competence_references = [], ce_availability_references = [],
         ce_conflict_assessment = ''n'', ce_risk_coverage = [], ce_independence_references = []\<rparr>\<rparr>],
     cr_pm_composition_confirmation_id = ''c'', cr_cto_coverage_confirmation_id = ''d'',
     cr_revision_reason = ''first'', cr_created_at = 2\<rparr>"

definition demo_planning_task :: mission_task_assignment where
  "demo_planning_task = \<lparr>mta_schema_version = Assignment_1_1, mta_assignment_id = ''a'',
     mta_mission_id = ''m'', mta_crew_version = 1, mta_task_id = ''t'', mta_assignment_revision = 1,
     mta_accountable_owner = ''DEV'', mta_assignment_kind = PRODUCTION, mta_contributors = [],
     mta_expected_result = ''x'', mta_completion_criteria = [''c''], mta_dependencies = [],
     mta_execution_run_id = None, mta_execution_task_id = None,
     mta_environment_context_ids = [''ctx''], mta_authority_scope = [''s''], mta_exact_tools = [],
     mta_path_scopes = [''src''], mta_limits = [], mta_required_evidence = [''e''],
     mta_requires_independent_evaluation = False, mta_change = None, mta_created_at = 3\<rparr>"

lemma environment_choices_are_observed_witness:
  "\<exists>a \<in> set (xr_alternatives demo_context). choice_of a = chosen demo_choice"
proof -
  have "validate_plan demo_environment_plan demo_planning_mission demo_planning_brief
      demo_planning_crew [demo_planning_task] [demo_observation] None = Inr ()"
    by code_simp
  moreover have "decisions_cover_exact_contexts demo_environment_plan" by code_simp
  moreover have "demo_choice \<in> set (en_decisions demo_environment_plan)"
    by (simp add: demo_environment_plan_def)
  ultimately obtain c a where "c \<in> set (en_contexts demo_environment_plan)"
      "a \<in> set (xr_alternatives c)" "choice_of a = chosen demo_choice"
    using environment_choices_are_observed by blast
  then show ?thesis by (auto simp: demo_environment_plan_def)
qed

end
