(* ===== verification/GatewayModel.thy ===== *)
theory GatewayModel
  imports PlanCheck CommandModel "HOL-Library.Sublist"
begin

section \<open>Capability invocations: targets and contracts\<close>

text \<open>
  \<open>tools/gateway_models.py\<close> and the checks of \<open>tools/gateway.py\<close> that need no state: the binding, the
  targets with their symbolic links, and the declared arguments. Paths are lists of their components below the root of the file
  system; text is ASCII, as in the policy. What a call meets outside this code is passed in: the
  file system as its directory entries with the resolution the operating system gives, and the
  values an adapter returns.
\<close>

subsection \<open>Envelopes\<close>

record resolved_path =
  rpa_requested :: string
  rpa_lexical_relative :: string
  rpa_relative :: string
  rpa_absolute :: "string list"
  rpa_link_chain :: "string list"

record resolved_targets =
  rtg_paths :: "resolved_path list"
  rtg_executables :: "string list"
  rtg_network_destinations :: "string list"
  rtg_repositories :: "string list"
  rtg_remotes :: "string list"
  rtg_branches :: "string list"
  rtg_environments :: "string list"
  rtg_external_resources :: "string list"

record invocation_context =
  ivc_run_id :: string
  ivc_task_attempt_id :: string
  ivc_identity :: string
  ivc_objective_class :: string
  ivc_repository :: string
  ivc_repository_revision :: string
  ivc_repository_dirty :: bool
  ivc_repository_state_fingerprint :: string
  ivc_outcome :: string
  ivc_role :: string
  ivc_plan_fingerprint :: string
  ivc_registry :: registry_snapshot
  ivc_binding :: tool_binding
  ivc_policy :: effective_policy
  ivc_resources :: resource_request
  ivc_isolation_profile :: "string option"

record artifact_candidate =
  acn_channel :: string
  acn_media_type :: string
  acn_content :: string
  acn_complete :: bool

record adapter_result =
  adr_output :: arguments
  adr_actual_targets :: resolved_targets
  adr_external_references :: "string list"
  adr_evidence :: arguments
  adr_inspection_content :: "string list"
  adr_artifact_candidates :: "artifact_candidate list"
  adr_call_status :: call_status
  adr_retryable :: bool
  adr_error_code :: "string option"
  adr_reason :: "string option"

text \<open>\<open>AdapterCall\<close> of \<open>tools/adapters.py\<close> without the callback that polls cancellation.\<close>

record adapter_call =
  acl_arguments :: arguments
  acl_targets :: resolved_targets
  acl_credentials :: "(string \<times> string) list"
  acl_execution_id :: string
  acl_resources :: resource_request
  acl_isolation_profile :: "string option"
  acl_run_id :: string
  acl_task_attempt_id :: string
  acl_acting_identity :: string
  acl_capability :: string
  acl_plan_fingerprint :: string
  acl_objective_class :: string
  acl_repository :: string
  acl_outcome :: string
  acl_role :: string

text \<open>The fields of a tool contract that only the gateway reads.\<close>

record contract_details =
  cds_result_schema :: json
  cds_artifact_output_argument :: "string option"
  cds_operation_evidence :: bool
  cds_adapter_config :: arguments

definition effect_observation :: "contract_details \<Rightarrow> arguments option" where
  "effect_observation details =
     (case map_of (cds_adapter_config details) ''effect_observation'' of
        Some (JObj configuration) \<Rightarrow> Some configuration | _ \<Rightarrow> None)"

subsection \<open>Exceptions\<close>

text \<open>
  What a step of an invocation can raise: the failures of the development, an \<open>OSError\<close> or a
  subclass of \<open>ValueError\<close> (with the name of its class), \<open>TimeoutError\<close> and \<open>CapabilityCancelled\<close>.
\<close>

datatype call_exception = Fails failure | Named string | TimesOut | IsCancelled

type_synonym 'a outcome = "call_exception + 'a"

definition raised :: "'a result \<Rightarrow> 'a outcome" where
  "raised r = (case r of Inl e \<Rightarrow> Inl (Fails e) | Inr a \<Rightarrow> Inr a)"

lemma raised_simps [simp]:
  "raised (Inl e) = Inl (Fails e)"
  "raised (Inr a) = Inr a"
  by (simp_all add: raised_def)

lemma raised_Inr_iff [simp]: "raised r = Inr a \<longleftrightarrow> r = Inr a"
  by (cases r) auto

abbreviation check :: "bool \<Rightarrow> error_code \<Rightarrow> string \<Rightarrow> unit outcome" where
  "check b code message \<equiv> (if b then Inr () else Inl (Fails (MishkanError code message)))"

subsection \<open>Paths and links\<close>

text \<open>A directory entry as \<open>lstat\<close> shows it; an absent key is an absent entry.\<close>

datatype path_entry = LinkTo string | PlainEntry | UnreadableEntry

text \<open>\<open>fsy_resolve\<close> is \<open>Path.resolve(strict=False)\<close>; \<open>None\<close> when it raises.\<close>

record file_system =
  fsy_entries :: "(string list \<times> path_entry) list"
  fsy_metadata :: "string list \<Rightarrow> arguments"
  fsy_resolve :: "string list \<Rightarrow> string list option"

text \<open>\<open>os.path.abspath\<close> of a path below a directory.\<close>

fun normalize_parts :: "string list \<Rightarrow> string list \<Rightarrow> string list" where
  "normalize_parts acc [] = acc"
| "normalize_parts acc (p # ps) =
     normalize_parts
       (if p = [] \<or> p = ''.'' then acc else if p = ''..'' then butlast acc else acc @ [p]) ps"

definition path_below :: "string list \<Rightarrow> string \<Rightarrow> string list" where
  "path_below directory value =
     normalize_parts (if take 1 value = ''/'' then [] else directory) (py_split CHR ''/'' value)"

text \<open>A POSIX path that starts with exactly two slashes is no path below any other.\<close>

definition lexically_inside :: "string list \<Rightarrow> string \<Rightarrow> bool" where
  "lexically_inside base value \<longleftrightarrow>
     \<not> (take 2 value = ''//'' \<and> take 3 value \<noteq> ''///'') \<and> prefix base (path_below base value)"

definition posix_text :: "string list \<Rightarrow> string" where
  "posix_text parts = (if parts = [] then ''.'' else join_path parts)"

definition relative_text :: "string list \<Rightarrow> string list \<Rightarrow> string" where
  "relative_text base path = posix_text (drop (length base) path)"

definition file_error :: "string \<Rightarrow> 'a outcome" where
  "file_error message = Inl (Fails (MishkanError FILE_FAILURE message))"

text \<open>The walk along a chain of links; a link that was seen closes a cycle.\<close>

function assert_acyclic_symlink ::
  "(string list \<times> path_entry) list \<Rightarrow> string list list \<Rightarrow> string list \<Rightarrow> unit outcome" where
  "assert_acyclic_symlink entries seen current =
     (if current \<in> set seen
      then file_error ''filesystem target link chain contains a cycle''
      else case map_of entries current of
        None \<Rightarrow> Inr ()
      | Some PlainEntry \<Rightarrow> Inr ()
      | Some UnreadableEntry \<Rightarrow> file_error ''filesystem target link chain cannot be inspected''
      | Some (LinkTo target) \<Rightarrow>
          assert_acyclic_symlink entries (current # seen) (path_below (butlast current) target))"
  by pat_completeness auto
termination
proof (relation "measure (\<lambda>(entries, seen, current). card (fst ` set entries - set seen))", goal_cases)
  case (2 entries seen current entry target)
  have "current \<in> fst ` set entries" using 2(2) by (metis map_of_SomeD fst_conv imageI)
  then have "fst ` set entries - set (current # seen) \<subset> fst ` set entries - set seen"
    using 2(1) by auto
  then show ?case by (simp add: psubset_card_mono del: set_simps)
qed simp

declare assert_acyclic_symlink.simps [simp del]

fun link_chain ::
  "(string list \<times> path_entry) list \<Rightarrow> string list \<Rightarrow> string list \<Rightarrow> string list \<Rightarrow> string list outcome" where
  "link_chain entries base current [] = Inr []"
| "link_chain entries base current (part # parts) =
     (let path = current @ [part]
      in case map_of entries path of
           Some UnreadableEntry \<Rightarrow> file_error ''filesystem target link chain cannot be inspected''
         | Some (LinkTo target) \<Rightarrow>
             ebind (assert_acyclic_symlink entries [] path) (\<lambda>_.
             ebind (link_chain entries base path parts) (\<lambda>chain.
             Inr ((relative_text base path @ ''->'' @ target) # chain)))
         | _ \<Rightarrow> link_chain entries base path parts)"

definition resolve_path :: "string list \<Rightarrow> file_system \<Rightarrow> string \<Rightarrow> resolved_path outcome" where
  "resolve_path base fs value =
     (let lexical = path_below base value
      in ebind (check (visible value) TOOL_SCHEMA ''filesystem target contains unstable Unicode'') (\<lambda>_.
         ebind (check (lexically_inside base value) AUTHORITY_NOT_GRANTED
           ''filesystem target is lexically outside the accepted workspace'') (\<lambda>_.
         ebind (link_chain (fsy_entries fs) base base (drop (length base) lexical)) (\<lambda>chain.
         case fsy_resolve fs lexical of
           None \<Rightarrow> file_error ''filesystem target link chain cannot be resolved''
         | Some resolved \<Rightarrow>
             ebind (check (prefix base resolved) AUTHORITY_NOT_GRANTED
               ''filesystem target resolves outside the accepted workspace'') (\<lambda>_.
             Inr \<lparr>rpa_requested = value, rpa_lexical_relative = relative_text base lexical,
                  rpa_relative = relative_text base resolved, rpa_absolute = resolved,
                  rpa_link_chain = chain\<rparr>)))))"

definition resolve_targets ::
  "string list \<Rightarrow> file_system \<Rightarrow> declared_targets \<Rightarrow> resolved_targets outcome" where
  "resolve_targets base fs declared =
     ebind (traverse (resolve_path base fs) (dt_paths declared)) (\<lambda>paths.
     ebind (check (list_all visible (dt_executables declared @ dt_network_destinations declared @
              dt_repositories declared @ dt_remotes declared @ dt_branches declared @
              dt_environments declared @ dt_external_resources declared))
        TOOL_SCHEMA ''declared target contains unstable Unicode'') (\<lambda>_.
     Inr \<lparr>rtg_paths = paths, rtg_executables = dt_executables declared,
          rtg_network_destinations = dt_network_destinations declared,
          rtg_repositories = dt_repositories declared, rtg_remotes = dt_remotes declared,
          rtg_branches = dt_branches declared, rtg_environments = dt_environments declared,
          rtg_external_resources = dt_external_resources declared\<rparr>))"

text \<open>
  The observed state of a target: what every component shows, or the failure when its resolution
  is not the authorized one any more. The digest of these entries is the list itself.
\<close>

fun path_entries ::
  "file_system \<Rightarrow> string list \<Rightarrow> string list \<Rightarrow> string list \<Rightarrow> json list outcome" where
  "path_entries fs base current [] = Inr []"
| "path_entries fs base current (part # parts) =
     (let path = current @ [part]; name = (''path'', JStr (relative_text base path))
      in case map_of (fsy_entries fs) path of
           Some UnreadableEntry \<Rightarrow> Inl (Named ''PermissionError'')
         | entry \<Rightarrow>
             ebind (path_entries fs base path parts) (\<lambda>rest.
             Inr ((case entry of
                None \<Rightarrow> JObj [name, (''missing'', JBool True)]
              | Some e \<Rightarrow> JObj (name # fsy_metadata fs path @
                  [(''link_target'', case e of LinkTo t \<Rightarrow> JStr t | _ \<Rightarrow> JNull)])) # rest)))"

definition resolved_path_fingerprint ::
  "string list \<Rightarrow> file_system \<Rightarrow> resolved_path \<Rightarrow> json outcome" where
  "resolved_path_fingerprint base fs target =
     (let lexical = path_below base (rpa_lexical_relative target)
      in ebind (path_entries fs base base (drop (length base) lexical)) (\<lambda>entries.
         case fsy_resolve fs lexical of
           None \<Rightarrow> file_error ''filesystem target changed into an invalid link chain''
         | Some resolved \<Rightarrow>
             ebind (check (resolved = rpa_absolute target \<and> prefix base resolved) FILE_FAILURE
               ''filesystem target changed its resolved identity'') (\<lambda>_.
             Inr (JList entries))))"

definition resolved_path_state ::
  "string list \<Rightarrow> file_system \<Rightarrow> resolved_targets \<Rightarrow> json list outcome" where
  "resolved_path_state base fs targets = traverse (resolved_path_fingerprint base fs) (rtg_paths targets)"

definition require_resolved_path_state ::
  "string list \<Rightarrow> file_system \<Rightarrow> resolved_targets \<Rightarrow> json list \<Rightarrow> unit outcome" where
  "require_resolved_path_state base fs targets expected =
     ebind (resolved_path_state base fs targets) (\<lambda>observed.
     check (observed = expected) FILE_FAILURE ''filesystem target changed after authorization'')"

subsection \<open>The binding of the call\<close>

definition validate_binding :: "invocation_context \<Rightarrow> tool_contract \<Rightarrow> unit outcome" where
  "validate_binding ctx contract =
     (let b = ivc_binding ctx
      in ebind (check (tb_registry_fingerprint b = rs_fingerprint (ivc_registry ctx)) TOOL_DRIFT
           ''task binding registry snapshot drifted'') (\<lambda>_.
         ebind (check (tb_contract_fingerprint b = tc_provenance_fingerprint contract) TOOL_DRIFT
           ''task binding tool contract drifted'') (\<lambda>_.
         check (tb_task_id b = hd (py_split CHR '':'' (ivc_task_attempt_id ctx)) \<and>
                tb_role b = ivc_role ctx) AUTHORITY_NOT_GRANTED
           ''tool binding does not belong to the acting task and role'')))"

definition declared_values :: "resolved_targets \<Rightarrow> (string \<times> string list) list" where
  "declared_values t =
     [(''path'', map rpa_requested (rtg_paths t)), (''executable'', rtg_executables t),
      (''network'', rtg_network_destinations t), (''repository'', rtg_repositories t),
      (''remote'', rtg_remotes t), (''branch'', rtg_branches t),
      (''environment'', rtg_environments t), (''external_resource'', rtg_external_resources t)]"

definition extracted_values :: "declared_targets \<Rightarrow> (string \<times> string list) list" where
  "extracted_values t =
     [(''path'', dt_paths t), (''executable'', dt_executables t),
      (''network'', dt_network_destinations t), (''repository'', dt_repositories t),
      (''remote'', dt_remotes t), (''branch'', dt_branches t),
      (''environment'', dt_environments t), (''external_resource'', dt_external_resources t)]"

definition validate_declared_arguments ::
  "tool_contract \<Rightarrow> arguments \<Rightarrow> resolved_targets \<Rightarrow> unit outcome" where
  "validate_declared_arguments contract args targets =
     (let declared = declared_values targets
      in ebind (check (list_all (\<lambda>(scope, vs). vs = [] \<or> scope \<in> set (tc_target_scopes contract)) declared)
           TOOL_SCHEMA ''tool invocation declared unsupported target scopes'') (\<lambda>_.
         ebind (raised (declared_targets_for contract args)) (\<lambda>d.
         ebind (if list_all (\<lambda>scope. scope \<in> set target_fields) (tc_target_scopes contract)
                then Inr () else Inl (Fails KeyError)) (\<lambda>_.
         check (list_all (\<lambda>scope. map_of declared scope = map_of (extracted_values d) scope)
             (tc_target_scopes contract))
           TOOL_SCHEMA ''declared targets do not match tool arguments''))))"

definition actual_values :: "resolved_targets \<Rightarrow> string list" where
  "actual_values t =
     map rpa_relative (rtg_paths t) @ rtg_executables t @ rtg_network_destinations t @
     rtg_repositories t @ rtg_remotes t @ rtg_branches t @ rtg_environments t @
     rtg_external_resources t"

definition validate_bound_targets :: "string list \<Rightarrow> resolved_targets \<Rightarrow> unit outcome" where
  "validate_bound_targets allowed targets =
     check (list_all (\<lambda>v. list_ex (\<lambda>item. fnmatch item v) allowed) (actual_values targets))
       AUTHORITY_NOT_GRANTED ''resolved target is outside the exact task binding''"

definition validate_bound_call ::
  "(arguments \<Rightarrow> string) \<Rightarrow> string list \<Rightarrow> arguments \<Rightarrow> unit outcome" where
  "validate_bound_call fp allowed args =
     check (allowed = [] \<or> fp args \<in> set allowed) AUTHORITY_NOT_GRANTED
       ''tool arguments differ from every exact call accepted in the task plan''"

end
