(* ===== verification/WorkspaceScan.thy ===== *)
theory WorkspaceScan
  imports GatewayModel TeamSignals
begin

section \<open>Workspace snapshots\<close>

text \<open>
  \<open>tools/effects.py\<close>: the bounded snapshot of a workspace before and after a command, and their
  comparison. The workspace is the tree of what \<open>scandir\<close>, \<open>stat\<close>, \<open>readlink\<close> and \<open>open\<close> show, with
  the places where they raise; the names are ASCII, so that the order of their bytes is the order
  of the strings. A snapshot that is complete shows every path that is not excluded.
\<close>

subsection \<open>Values\<close>

text \<open>\<open>iter\<close> of a value, and \<open>str\<close> of a value (\<open>repr\<close> is that of a list or an object).\<close>

fun py_iter :: "json \<Rightarrow> json list outcome" where
  "py_iter (JList xs) = Inr xs"
| "py_iter (JStr s) = Inr (map (\<lambda>c. JStr [c]) s)"
| "py_iter (JObj kvs) = Inr (map (JStr \<circ> fst) kvs)"
| "py_iter _ = Inl (Fails TypeError)"

fun str_text :: "(json \<Rightarrow> string) \<Rightarrow> json \<Rightarrow> string" where
  "str_text repr JNull = ''None''"
| "str_text repr (JBool b) = (if b then ''True'' else ''False'')"
| "str_text repr (JInt n) = decimal n"
| "str_text repr (JStr s) = s"
| "str_text repr v = repr v"

definition field_or :: "arguments \<Rightarrow> string \<Rightarrow> json \<Rightarrow> json" where
  "field_or kvs k otherwise = (case map_of kvs k of None \<Rightarrow> otherwise | Some v \<Rightarrow> v)"

text \<open>\<open>int\<close> of a value; \<open>parse\<close> is that of a string.\<close>

fun py_int :: "(string \<Rightarrow> int option) \<Rightarrow> json \<Rightarrow> int outcome" where
  "py_int parse (JInt n) = Inr n"
| "py_int parse (JBool b) = Inr (if b then 1 else 0)"
| "py_int parse (JStr s) =
     (case parse s of
        None \<Rightarrow> Inl (Fails (ValueError ''invalid literal for int() with base 10''))
      | Some n \<Rightarrow> Inr n)"
| "py_int parse _ = Inl (Fails TypeError)"

definition int_field :: "(string \<Rightarrow> int option) \<Rightarrow> arguments \<Rightarrow> string \<Rightarrow> int outcome" where
  "int_field parse configuration k =
     (case map_of configuration k of None \<Rightarrow> Inl (Fails KeyError) | Some v \<Rightarrow> py_int parse v)"

subsection \<open>The tree\<close>

text \<open>
  Modes are those without the type of the file. What reading a file shows: an exception, that the
  file was replaced while it was read, or its content.
\<close>

datatype file_read = ReadFails string | ReadChanged | ReadContent string

datatype workspace_node =
    Folder int "(string \<times> workspace_node) list"
  | ClosedFolder int string
  | LinkNode int string
  | ClosedLink string
  | SpecialNode int
  | FileNode int int file_read
  | NoStat string

record snapshot_limits =
  slm_max_entries :: int
  slm_max_file_bytes :: int
  slm_max_total_bytes :: int
  slm_exclusions :: "string list"

record scan_state =
  sca_entries :: "(string \<times> json) list"
  sca_omissions :: "string list"
  sca_total :: int
  sca_complete :: bool

definition omitted :: "string \<Rightarrow> scan_state \<Rightarrow> scan_state" where
  "omitted why st = st\<lparr>sca_omissions := sca_omissions st @ [why], sca_complete := False\<rparr>"

definition entered :: "string \<Rightarrow> json \<Rightarrow> scan_state \<Rightarrow> scan_state" where
  "entered path entry st = st\<lparr>sca_entries := AList.update path entry (sca_entries st)\<rparr>"

definition folder_entry :: "int \<Rightarrow> json" where
  "folder_entry mode = JObj [(''kind'', JStr ''directory''), (''mode'', JInt mode)]"

definition link_entry :: "int \<Rightarrow> string \<Rightarrow> json" where
  "link_entry mode target =
     JObj [(''kind'', JStr ''symlink''), (''mode'', JInt mode), (''target'', JStr target)]"

definition special_entry :: "int \<Rightarrow> json" where
  "special_entry mode = JObj [(''kind'', JStr ''special''), (''mode'', JInt mode)]"

definition unexamined_entry :: "int \<Rightarrow> int \<Rightarrow> json" where
  "unexamined_entry mode size_of =
     JObj [(''kind'', JStr ''file-unexamined''), (''mode'', JInt mode), (''size'', JInt size_of)]"

definition file_entry :: "(string \<Rightarrow> string) \<Rightarrow> int \<Rightarrow> string \<Rightarrow> json" where
  "file_entry sha mode content =
     JObj [(''kind'', JStr ''file''), (''mode'', JInt mode), (''size'', JInt (int (length content))),
           (''digest'', JStr (''sha256:'' @ sha content))]"

definition bytes_read :: "snapshot_limits \<Rightarrow> string \<Rightarrow> string" where
  "bytes_read limits content = take (nat (slm_max_file_bytes limits + 1)) content"

text \<open>One entry of a directory.\<close>

definition scan_entry ::
  "(string \<Rightarrow> string) \<Rightarrow> snapshot_limits \<Rightarrow> string \<Rightarrow> workspace_node \<Rightarrow> scan_state \<Rightarrow> scan_state" where
  "scan_entry sha limits relative node st =
     (case node of
        NoStat name \<Rightarrow> omitted (''stat:'' @ relative @ '':'' @ name) st
      | ClosedLink name \<Rightarrow> omitted (''link:'' @ relative @ '':'' @ name) st
      | LinkNode mode target \<Rightarrow> entered relative (link_entry mode target) st
      | SpecialNode mode \<Rightarrow>
          omitted (''special:'' @ relative) (entered relative (special_entry mode) st)
      | FileNode mode size_of reading \<Rightarrow>
          if slm_max_file_bytes limits < size_of \<or> slm_max_total_bytes limits < sca_total st + size_of
          then entered relative (unexamined_entry mode size_of)
                 (omitted (''content_limit:'' @ relative) st)
          else (case reading of
            ReadFails name \<Rightarrow> omitted (''read:'' @ relative @ '':'' @ name) st
          | ReadChanged \<Rightarrow> omitted (''changed_during_snapshot:'' @ relative) st
          | ReadContent content \<Rightarrow>
              let bytes = bytes_read limits content
              in entered relative (file_entry sha mode bytes)
                   (st\<lparr>sca_total := sca_total st + int (length bytes)\<rparr>))
      | Folder mode _ \<Rightarrow> entered relative (folder_entry mode) st
      | ClosedFolder mode _ \<Rightarrow> entered relative (folder_entry mode) st)"

fun is_folder :: "workspace_node \<Rightarrow> bool" where
  "is_folder (Folder mode children) = True"
| "is_folder (ClosedFolder mode name) = True"
| "is_folder _ = False"

type_synonym pending_folders = "(string list \<times> workspace_node) list"

text \<open>
  The entries of one directory in their order; \<open>pending\<close> is the stack of directories with its top
  first. The limit of entries clears it.
\<close>

fun scan_children ::
  "(string \<Rightarrow> string) \<Rightarrow> snapshot_limits \<Rightarrow> string list \<Rightarrow> (string \<times> workspace_node) list
   \<Rightarrow> pending_folders \<Rightarrow> scan_state \<Rightarrow> pending_folders \<times> scan_state" where
  "scan_children sha limits folder [] pending st = (pending, st)"
| "scan_children sha limits folder ((name, node) # rest) pending st =
     (let path = folder @ [name]; relative = join_path path
      in if list_ex (\<lambda>pattern. fnmatch pattern relative) (slm_exclusions limits)
         then scan_children sha limits folder rest pending st
         else if slm_max_entries limits \<le> int (length (sca_entries st))
         then ([], omitted ''entry_limit_reached'' st)
         else scan_children sha limits folder rest
                (if is_folder node then (path, node) # pending else pending)
                (scan_entry sha limits relative node st))"

definition pending_size :: "pending_folders \<Rightarrow> nat" where
  "pending_size pending = sum_list (map (\<lambda>(path, node). Suc (size node)) pending)"

lemma pending_size_simps [simp]:
  "pending_size [] = 0"
  "pending_size ((path, node) # pending) = Suc (size node) + pending_size pending"
  by (simp_all add: pending_size_def)

lemma scan_children_size:
  "scan_children sha limits folder children pending st = (pending', st') \<Longrightarrow>
   pending_size pending' \<le> pending_size pending + sum_list (map (Suc \<circ> size \<circ> snd) children)"
proof (induction children arbitrary: pending st)
  case (Cons child rest)
  obtain name node where child: "child = (name, node)" by fastforce
  let ?path = "folder @ [name]"
  consider (excluded) "scan_children sha limits folder rest pending st = (pending', st')"
    | (full) "pending' = []"
    | (entered) "scan_children sha limits folder rest
        (if is_folder node then (?path, node) # pending else pending)
        (scan_entry sha limits (join_path ?path) node st) = (pending', st')"
    using Cons.prems unfolding child scan_children.simps Let_def by (simp only: split: if_splits) auto
  then show ?case
  proof cases
    case excluded
    from Cons.IH [OF this] show ?thesis by simp
  next
    case full
    then show ?thesis by simp
  next
    case entered
    from Cons.IH [OF this] show ?thesis by (cases "is_folder node") (simp_all add: child)
  qed
qed simp

lemma sorted_children_size:
  "sum_list (map (Suc \<circ> size \<circ> snd) (sort_key fst children)) \<le> size (Folder mode children)"
proof -
  have "sum_list (map (Suc \<circ> size \<circ> snd) (sort_key fst children)) = sum_list (map (Suc \<circ> size \<circ> snd) children)"
    by (metis mset_map mset_sort sum_mset_sum_list)
  also have "\<dots> \<le> size_list (size_prod (\<lambda>x. 0) size) children"
    by (induction children) auto
  finally show ?thesis by simp
qed

function scan_pending ::
  "(string \<Rightarrow> string) \<Rightarrow> snapshot_limits \<Rightarrow> pending_folders \<Rightarrow> scan_state \<Rightarrow> scan_state" where
  "scan_pending sha limits [] st = st"
| "scan_pending sha limits ((folder, node) # pending) st =
     (case node of
        Folder mode children \<Rightarrow>
          (let (pending', st') = scan_children sha limits folder (sort_key fst children) pending st
           in scan_pending sha limits pending' st')
      | ClosedFolder mode name \<Rightarrow>
          scan_pending sha limits pending (omitted (''scan:'' @ posix_text folder @ '':'' @ name) st)
      | _ \<Rightarrow> scan_pending sha limits pending st)"
  by pat_completeness auto
termination
proof (relation "measure (\<lambda>(sha, limits, pending, st). pending_size pending)", goal_cases)
  case (2 sha limits folder node pending st mode children z pending' st')
  then have "scan_children sha limits folder (sort_key fst children) pending st = (pending', st')" by simp
  from scan_children_size [OF this] sorted_children_size [of children mode] show ?case
    using 2(1) by (simp add: 2(2,3) [symmetric])
qed simp_all

subsection \<open>Snapshots and their comparison\<close>

record workspace_snapshot =
  wss_fingerprint :: string
  wss_entries :: "(string \<times> json) list"
  wss_complete :: bool
  wss_omissions :: "string list"

record workspace_evidence =
  wse_base_fingerprint :: string
  wse_after_fingerprint :: string
  wse_changed_paths :: "string list"
  wse_scope_deviations :: "string list"
  wse_complete :: bool
  wse_omissions :: "string list"
  wse_diff :: json

text \<open>The parts of a pure POSIX path, its root first when it has one.\<close>

definition path_parts :: "string \<Rightarrow> string list" where
  "path_parts p =
     (if take 1 p \<noteq> ''/'' then []
      else if take 2 p = ''//'' \<and> take 3 p \<noteq> ''///'' then [''//''] else [''/'']) @
     filter (\<lambda>x. x \<noteq> [] \<and> x \<noteq> ''.'') (py_split CHR ''/'' p)"

definition within_scope :: "string \<Rightarrow> string \<Rightarrow> bool" where
  "within_scope path scope \<longleftrightarrow>
     scope = [] \<or> scope = ''.'' \<or> path = scope \<or> prefix (path_parts scope) (path_parts path)"

definition entry_json :: "json option \<Rightarrow> json" where
  "entry_json e = (case e of None \<Rightarrow> JNull | Some v \<Rightarrow> v)"

definition compare_snapshots ::
  "workspace_snapshot \<Rightarrow> workspace_snapshot \<Rightarrow> string list \<Rightarrow> workspace_evidence" where
  "compare_snapshots before after allowed =
     (let old = map_of (wss_entries before); new = map_of (wss_entries after);
          changed = filter (\<lambda>p. old p \<noteq> new p)
            (sorted_set (map fst (wss_entries before) @ map fst (wss_entries after)))
      in \<lparr>wse_base_fingerprint = wss_fingerprint before, wse_after_fingerprint = wss_fingerprint after,
          wse_changed_paths = changed,
          wse_scope_deviations = filter (\<lambda>p. \<not> list_ex (within_scope p) allowed) changed,
          wse_complete = (wss_complete before \<and> wss_complete after),
          wse_omissions = dict_fromkeys (wss_omissions before @ wss_omissions after),
          wse_diff = JList (map (\<lambda>p. JObj [(''path'', JStr p), (''before'', entry_json (old p)),
            (''after'', entry_json (new p))]) changed)\<rparr>)"


definition workspace_scan ::
  "(string \<Rightarrow> string) \<Rightarrow> snapshot_limits \<Rightarrow> workspace_node \<Rightarrow> scan_state" where
  "workspace_scan sha limits tree = scan_pending sha limits [([], tree)]
     \<lparr>sca_entries = [], sca_omissions = [], sca_total = 0, sca_complete = True\<rparr>"

definition snapshot_of ::
  "(string \<Rightarrow> string) \<Rightarrow> (json \<Rightarrow> string) \<Rightarrow> scan_state \<Rightarrow> workspace_snapshot" where
  "snapshot_of sha dumps st =
     \<lparr>wss_fingerprint = sha (dumps (JObj (sca_entries st))), wss_entries = sca_entries st,
      wss_complete = sca_complete st, wss_omissions = sca_omissions st\<rparr>"

definition limits_of ::
  "(string \<Rightarrow> int option) \<Rightarrow> (json \<Rightarrow> string) \<Rightarrow> arguments \<Rightarrow> snapshot_limits outcome" where
  "limits_of parse repr configuration =
     ebind (int_field parse configuration ''max_entries'') (\<lambda>max_entries.
     ebind (int_field parse configuration ''max_file_bytes'') (\<lambda>max_file_bytes.
     ebind (int_field parse configuration ''max_total_bytes'') (\<lambda>max_total_bytes.
     ebind (py_iter (field_or configuration ''exclude'' (JList []))) (\<lambda>exclude.
     Inr \<lparr>slm_max_entries = max_entries, slm_max_file_bytes = max_file_bytes,
          slm_max_total_bytes = max_total_bytes,
          slm_exclusions = map (str_text repr) exclude\<rparr>))))"

definition workspace_snapshot_of ::
  "(string \<Rightarrow> string) \<Rightarrow> (json \<Rightarrow> string) \<Rightarrow> (string \<Rightarrow> int option) \<Rightarrow> (json \<Rightarrow> string)
   \<Rightarrow> workspace_node \<Rightarrow> arguments \<Rightarrow> workspace_snapshot outcome" where
  "workspace_snapshot_of sha dumps parse repr tree configuration =
     ebind (limits_of parse repr configuration) (\<lambda>limits.
     Inr (snapshot_of sha dumps (workspace_scan sha limits tree)))"

end
