(* ===== verification/Gateway.thy ===== *)
theory Gateway
  imports WorkspaceScan CallJournal
begin

section \<open>The capability gateway\<close>

text \<open>
  \<open>CapabilityGateway.invoke\<close> of \<open>tools/gateway.py\<close>: the fixed pipeline every capability call goes
  through. The gateway is wired as the program wires it (\<open>application/initialize.py\<close>): the run
  repository is its evidence sink, its cancellation signal and its journal of planned calls. The
  steps run in a state that survives an exception: the store, the active slots of every
  capability, the calls the adapters received, and the local variables of the invocation that its
  handlers read. Adapters, the content inspector, schema validation, digests, the artifact store,
  the snapshots and the observed operation evidence are parameters.
\<close>

subsection \<open>State and parameters\<close>

record gateway_state =
  gst_store :: store
  gst_active :: "(string \<times> int) list"
  gst_calls :: "adapter_call list"
  gst_ids :: nat
  gst_call_id :: "string option"
  gst_fingerprint :: "string option"
  gst_reserved :: bool
  gst_started :: bool
  gst_effects :: "string list"
  gst_status :: "call_status option"

record put_request =
  pur_content :: string
  pur_media_type :: string
  pur_channel :: string
  pur_call_id :: string
  pur_complete :: bool

text \<open>The separators \<open>json.dumps\<close> is called with; keys are always sorted.\<close>

datatype dumps_style = Compact | Spaced | Indented

text \<open>What the observer of the repository reads: revision, dirty flag and fingerprint.\<close>

type_synonym repository_reading = "string \<times> bool \<times> string"

record gateway_env =
  gev_env :: environment
  gev_base :: "string list"
  gev_details :: "tool_contract \<Rightarrow> contract_details"
  gev_schema_ok :: "json \<Rightarrow> json \<Rightarrow> bool"
  gev_inspect :: "string list \<Rightarrow> string \<Rightarrow> string result"
  gev_dumps :: "dumps_style \<Rightarrow> json \<Rightarrow> string"
  gev_repr :: "json \<Rightarrow> string"
  gev_isoformat :: "instant \<Rightarrow> string"
  gev_loads :: "string \<Rightarrow> json option"
  gev_fp_arguments :: "arguments \<Rightarrow> string"
  gev_fp_request :: "authorization_request \<Rightarrow> string"
  gev_sha256 :: "string \<Rightarrow> string"
  gev_uuid5 :: "string \<Rightarrow> string"
  gev_new_id :: "nat \<Rightarrow> string"
  gev_credentials :: "string list \<Rightarrow> (string \<times> string) list result"
  gev_adapters :: "string \<Rightarrow> (adapter_call \<Rightarrow> adapter_result outcome) option"
  gev_artifact_store :: "(put_request \<Rightarrow> string outcome) option"
  gev_parse_int :: "string \<Rightarrow> int option"
  gev_observe :: "((string \<Rightarrow> repository_reading outcome) \<times> (string \<Rightarrow> repository_reading outcome)) option"
  gev_audit_content :: "string \<Rightarrow> audit_event \<Rightarrow> content"

text \<open>The readings of the clock and of the file system one invocation takes, in their order.\<close>

record readings =
  rds_started :: instant
  rds_decided :: instant
  rds_completed :: instant
  rds_authorized :: file_system
  rds_before :: file_system
  rds_after :: file_system
  rds_tree_before :: workspace_node
  rds_tree_after :: workspace_node

definition take_workspace_snapshot :: "gateway_env \<Rightarrow> workspace_node \<Rightarrow> arguments \<Rightarrow> workspace_snapshot outcome" where
  "take_workspace_snapshot env = workspace_snapshot_of (gev_sha256 env) (gev_dumps env Compact) (gev_parse_int env)
     (gev_repr env)"

subsection \<open>Steps that may raise\<close>

type_synonym 'a gateway = "gateway_state \<Rightarrow> 'a outcome \<times> gateway_state"

definition gbind :: "'a gateway \<Rightarrow> ('a \<Rightarrow> 'b gateway) \<Rightarrow> 'b gateway" where
  "gbind m f s = (case m s of (Inl e, s') \<Rightarrow> (Inl e, s') | (Inr a, s') \<Rightarrow> f a s')"

definition greturn :: "'a outcome \<Rightarrow> 'a gateway" where
  "greturn r s = (r, s)"

definition gset :: "(gateway_state \<Rightarrow> gateway_state) \<Rightarrow> unit gateway" where
  "gset f s = (Inr (), f s)"

text \<open>A call of the repository: a transaction that raises leaves the store.\<close>

definition on_store :: "(store \<Rightarrow> (store \<times> 'a) result) \<Rightarrow> 'a gateway" where
  "on_store f s =
     (case f (gst_store s) of
        Inl e \<Rightarrow> (Inl (Fails e), s)
      | Inr (store', a) \<Rightarrow> (Inr a, s\<lparr>gst_store := store'\<rparr>))"

definition new_id :: "gateway_env \<Rightarrow> string gateway" where
  "new_id env s = (Inr (gev_new_id env (gst_ids s)), s\<lparr>gst_ids := gst_ids s + 1\<rparr>)"

definition audit_call ::
  "gateway_env \<Rightarrow> invocation_context \<Rightarrow> string \<Rightarrow> string \<Rightarrow> string \<Rightarrow> unit gateway" where
  "audit_call env ctx event_type verdict_text reason =
     gbind (greturn (raised (gev_inspect env [] reason))) (\<lambda>inspected.
     gbind (new_id env) (\<lambda>k.
     on_store (record_audit (gev_env env) (gev_audit_content env inspected)
       \<lparr>au_id = k, au_event_type = event_type, au_run_id = ivc_run_id ctx,
        au_task_attempt_id = ivc_task_attempt_id ctx, au_identity = ivc_identity ctx,
        au_decision = verdict_text\<rparr>)))"

subsection \<open>Concurrency\<close>

definition active_slots :: "(string \<times> int) list \<Rightarrow> string \<Rightarrow> int" where
  "active_slots slots key = (case map_of slots key of None \<Rightarrow> 0 | Some n \<Rightarrow> n)"

definition slots_acquired :: "string \<Rightarrow> (string \<times> int) list \<Rightarrow> (string \<times> int) list" where
  "slots_acquired key slots = AList.update key (active_slots slots key + 1) slots"

definition slots_released :: "string \<Rightarrow> (string \<times> int) list \<Rightarrow> (string \<times> int) list" where
  "slots_released key slots =
     (let remaining = active_slots slots key - 1
      in if 0 < remaining then AList.update key remaining slots else AList.delete key slots)"

definition acquire :: "string \<Rightarrow> int \<Rightarrow> bool gateway" where
  "acquire key limit s =
     (if limit \<le> active_slots (gst_active s) key then (Inr False, s)
      else (Inr True, s\<lparr>gst_active := slots_acquired key (gst_active s)\<rparr>))"

definition release :: "string \<Rightarrow> gateway_state \<Rightarrow> gateway_state" where
  "release key s = s\<lparr>gst_active := slots_released key (gst_active s)\<rparr>"

text \<open>\<open>try: m finally: release\<close>.\<close>

definition releasing :: "string \<Rightarrow> 'a gateway \<Rightarrow> 'a gateway" where
  "releasing key m s = (let (r, s') = m s in (r, release key s'))"

subsection \<open>Operation evidence\<close>

record operation_evidence =
  oev_repository_id :: string
  oev_revision :: string
  oev_working_tree_dirty :: bool
  oev_working_tree_fingerprint :: string
  oev_scope :: "string list"
  oev_engine :: json
  oev_engine_version :: json
  oev_normalized_query :: json
  oev_freshness :: arguments
  oev_limits :: arguments
  oev_omissions :: "json list"
  oev_failures :: "json list"
  oev_truncated :: bool
  oev_continuation :: json
  oev_base_revision_token :: "string option"

definition json_option :: "('a \<Rightarrow> json) \<Rightarrow> 'a option \<Rightarrow> json" where
  "json_option f x = (case x of None \<Rightarrow> JNull | Some a \<Rightarrow> f a)"

definition evidence_json :: "operation_evidence \<Rightarrow> json" where
  "evidence_json e = JObj
     [(''repository_id'', JStr (oev_repository_id e)), (''revision'', JStr (oev_revision e)),
      (''working_tree_dirty'', JBool (oev_working_tree_dirty e)),
      (''working_tree_fingerprint'', JStr (oev_working_tree_fingerprint e)),
      (''scope'', JList (map JStr (oev_scope e))), (''engine'', oev_engine e),
      (''engine_version'', oev_engine_version e), (''normalized_query'', oev_normalized_query e),
      (''freshness'', JObj (oev_freshness e)), (''limits'', JObj (oev_limits e)),
      (''omissions'', JList (oev_omissions e)), (''failures'', JList (oev_failures e)),
      (''truncated'', JBool (oev_truncated e)), (''continuation'', oev_continuation e),
      (''base_revision_token'', json_option JStr (oev_base_revision_token e))]"

definition operation_evidence_of ::
  "gateway_env \<Rightarrow> readings \<Rightarrow> invocation_context \<Rightarrow> tool_contract \<Rightarrow> resolved_targets \<Rightarrow> arguments
   \<Rightarrow> operation_evidence option outcome" where
  "operation_evidence_of env rd ctx contract resolved args =
     (if \<not> cds_operation_evidence (gev_details env contract) then Inr None
      else ebind (case gev_observe env of
          None \<Rightarrow> Inr (ivc_repository_revision ctx, ivc_repository_dirty ctx,
            ivc_repository_state_fingerprint ctx)
        | Some (observe, _) \<Rightarrow> observe (ivc_repository_revision ctx)) (\<lambda>(revision, dirty, state).
        Inr (Some \<lparr>oev_repository_id = ivc_repository ctx, oev_revision = revision,
          oev_working_tree_dirty = dirty, oev_working_tree_fingerprint = state,
          oev_scope = map rpa_relative (rtg_paths resolved), oev_engine = JStr (tc_adapter contract),
          oev_engine_version = JStr (tc_version contract), oev_normalized_query = JObj args,
          oev_freshness = [(''kind'', JStr ''live-observation''),
            (''observed_at'', JStr (gev_isoformat env (rds_started rd)))],
          oev_limits = [(''timeout_seconds'', JInt (rq_timeout_seconds (ivc_resources ctx))),
            (''memory_mb'', json_option JInt (rq_memory_mb (ivc_resources ctx))),
            (''network'', JBool (rq_network (ivc_resources ctx))),
            (''adapter'', JObj (cds_adapter_config (gev_details env contract)))],
          oev_omissions = [], oev_failures = [], oev_truncated = False, oev_continuation = JNull,
          oev_base_revision_token = None\<rparr>)))"

definition with_field :: "string \<Rightarrow> string \<Rightarrow> arguments \<Rightarrow> arguments \<Rightarrow> arguments" where
  "with_field name entry output kvs =
     (case map_of output name of None \<Rightarrow> kvs | Some v \<Rightarrow> AList.update entry v kvs)"

definition content_base_revision_token ::
  "gateway_env \<Rightarrow> string \<Rightarrow> string \<Rightarrow> string \<Rightarrow> string \<Rightarrow> string" where
  "content_base_revision_token env repository_id revision path digest =
     ''mishkan-base-v1:'' @ gev_sha256 env (gev_dumps env Compact (JObj
       [(''schema'', JStr ''mishkan.content-base.v1''), (''repository_id'', JStr repository_id),
        (''repository_revision'', JStr revision), (''path'', JStr path),
        (''content_digest'', JStr digest)]))"

text \<open>The digest of the whole content an operation read, where its output shows one.\<close>

definition whole_content_digest ::
  "gateway_env \<Rightarrow> arguments \<Rightarrow> json list \<Rightarrow> bool \<Rightarrow> string option" where
  "whole_content_digest env output failures truncated =
     (case field_or output ''content_digest'' JNull of
        JNull \<Rightarrow>
          (case map_of output ''content'' of
             Some (JStr text) \<Rightarrow> Some (''sha256:'' @ gev_sha256 env text)
           | _ \<Rightarrow> None)
      | JStr digest \<Rightarrow>
          (if py_eq (field_or output ''byte_range'' JNull)
                (JList [JInt 0, field_or output ''total_bytes'' JNull]) \<and>
              map_of output ''truncated'' = Some (JBool False) \<and> failures = [] \<and> \<not> truncated
           then Some digest else None)
      | _ \<Rightarrow> None)"

definition complete_operation_evidence ::
  "gateway_env \<Rightarrow> operation_evidence \<Rightarrow> arguments \<Rightarrow> operation_evidence outcome" where
  "complete_operation_evidence env e output =
     ebind (py_iter (field_or output ''omissions'' (JList []))) (\<lambda>omitted.
     ebind (py_iter (field_or output ''inaccessible'' (JList []))) (\<lambda>inaccessible.
     ebind (py_iter (field_or output ''cycles'' (JList []))) (\<lambda>cycles.
     ebind (py_iter (field_or output ''failures'' (JList []))) (\<lambda>failures.
     ebind (case gev_observe env of
         None \<Rightarrow> Inr False
       | Some (_, observe) \<Rightarrow> ebind (observe (oev_revision e)) (\<lambda>reading.
           Inr (reading \<noteq> (oev_revision e, oev_working_tree_dirty e, oev_working_tree_fingerprint e))))
       (\<lambda>moved.
     let all_failures = failures @
           (if moved then [JStr ''repository-state-changed-during-operation''] else []);
         truncated = (truthy (field_or output ''truncated'' (JBool False)) \<or> moved)
     in Inr (e\<lparr>oev_engine := field_or output ''engine'' (oev_engine e),
          oev_engine_version := field_or output ''engine_version'' (oev_engine_version e),
          oev_normalized_query := field_or output ''normalized_query'' (oev_normalized_query e),
          oev_freshness := with_field ''freshness'' ''basis'' output (oev_freshness e),
          oev_limits := with_field ''limits'' ''operation'' output (oev_limits e),
          oev_omissions := omitted @
            map (\<lambda>v. JStr (''inaccessible:'' @ gev_dumps env Spaced v)) inaccessible @
            map (\<lambda>v. JStr (''cycle:'' @ str_text (gev_repr env) v)) cycles,
          oev_failures := all_failures, oev_truncated := truncated,
          oev_continuation := field_or output ''continuation_cursor''
            (field_or output ''continuation_offset'' JNull),
          oev_base_revision_token :=
            (case (whole_content_digest env output all_failures truncated, oev_scope e) of
               (Some digest, [path]) \<Rightarrow> Some (content_base_revision_token env (oev_repository_id e)
                 (oev_revision e) path digest)
             | _ \<Rightarrow> None)\<rparr>))))))"

subsection \<open>Authorization\<close>

text \<open>The contract of the request; its violation is a \<open>ValidationError\<close>.\<close>

definition validated_request :: "authorization_request \<Rightarrow> authorization_request outcome" where
  "validated_request r =
     (case make_request r of Inl _ \<Rightarrow> Inl (Named ''ValidationError'') | Inr q \<Rightarrow> Inr q)"

record authorized_call =
  acd_resolved :: resolved_targets
  acd_path_state :: "json list option"
  acd_credentials :: "string list"
  acd_evidence :: "operation_evidence option"
  acd_isolation_profile :: "string option"
  acd_request :: authorization_request
  acd_authorization :: authorization_decision

definition effective_profile ::
  "invocation_context \<Rightarrow> arguments \<Rightarrow> string option outcome" where
  "effective_profile ctx args =
     (let bound_profile = (if ivc_isolation_profile ctx = Some [] then None else ivc_isolation_profile ctx)
      in case map_of args ''isolation_profile'' of
        None \<Rightarrow> Inr bound_profile
      | Some JNull \<Rightarrow> Inr bound_profile
      | Some (JStr p) \<Rightarrow>
          (case ivc_isolation_profile ctx of
             None \<Rightarrow> Inr (Some p)
           | Some q \<Rightarrow>
               ebind (check (q = p) TOOL_DRIFT
                 ''planned isolation profile differs from the bound execution profile'') (\<lambda>_.
               Inr (Some p)))
      | Some _ \<Rightarrow> Inl (Fails (MishkanError TOOL_SCHEMA
          ''tool isolation profile must be a string identity'')))"

definition request_of_call ::
  "invocation_context \<Rightarrow> tool_contract \<Rightarrow> arguments \<Rightarrow> resolved_targets \<Rightarrow> string option
   \<Rightarrow> authorization_request" where
  "request_of_call ctx contract args resolved profile =
     \<lparr>ar_plan_fingerprint = ivc_plan_fingerprint ctx, ar_identity = ivc_identity ctx,
      ar_objective_class = ivc_objective_class ctx, ar_repository = ivc_repository ctx,
      ar_outcome = ivc_outcome ctx, ar_role = ivc_role ctx, ar_capability = tc_tool_id contract,
      ar_effect_class = effect_name (tc_effect_class contract),
      ar_effects = select_argument_values args ''declared_effects'',
      ar_paths = map rpa_relative (rtg_paths resolved), ar_executables = rtg_executables resolved,
      ar_arguments = policy_argument_values_for contract args,
      ar_network_destinations = rtg_network_destinations resolved,
      ar_remotes = rtg_remotes resolved, ar_branches = rtg_branches resolved,
      ar_environments = rtg_environments resolved,
      ar_credentials = credential_references_for contract args,
      ar_external_resources = rtg_external_resources resolved, ar_isolation_profile = profile,
      ar_resources = ivc_resources ctx\<rparr>"

definition exact_approval ::
  "gateway_env \<Rightarrow> authorization_request \<Rightarrow> approval_evidence list \<Rightarrow> approval_evidence option" where
  "exact_approval env request approvals =
     find (\<lambda>a. ae_request_fingerprint a = gev_fp_request env request) approvals"

text \<open>\<open>artifact_values == (True,)\<close>, where 1 is equal to \<open>True\<close>.\<close>

definition artifact_requested :: "contract_details \<Rightarrow> arguments \<Rightarrow> bool" where
  "artifact_requested details args =
     (case cds_artifact_output_argument details of
        None \<Rightarrow> False
      | Some selector \<Rightarrow> select_argument_nodes args selector \<in> {[JBool True], [JInt 1]})"

definition authorize_call ::
  "gateway_env \<Rightarrow> readings \<Rightarrow> invocation_context \<Rightarrow> tool_contract \<Rightarrow> arguments \<Rightarrow> declared_targets
   \<Rightarrow> approval_evidence list \<Rightarrow> authorized_call outcome" where
  "authorize_call env rd ctx contract args declared approvals =
     (let details = gev_details env contract; serialized = gev_dumps env Compact (JObj args)
      in ebind (validate_binding ctx contract) (\<lambda>_.
         ebind (check (gev_schema_ok env (tc_input_schema contract) (JObj args)) TOOL_SCHEMA
           ''tool input failed its bound JSON Schema'') (\<lambda>_.
         ebind (validate_bound_call (gev_fp_arguments env)
           (tb_allowed_call_fingerprints (ivc_binding ctx)) args) (\<lambda>_.
         ebind (raised (gev_inspect env [] serialized)) (\<lambda>inspected.
         ebind (check (inspected = serialized) SECRET_CONTENT
           ''tool arguments require redaction and cannot be executed faithfully'') (\<lambda>_.
         ebind (resolve_targets (gev_base env) (rds_authorized rd) declared) (\<lambda>resolved.
         ebind (if tc_effect_class contract = READ
                then ebind (resolved_path_state (gev_base env) (rds_authorized rd) resolved)
                       (\<lambda>st. Inr (Some st))
                else Inr None) (\<lambda>path_state.
         ebind (validate_declared_arguments contract args resolved) (\<lambda>_.
         ebind (validate_bound_targets (tb_allowed_targets (ivc_binding ctx)) resolved) (\<lambda>_.
         ebind (operation_evidence_of env rd ctx contract resolved args) (\<lambda>evidence.
         ebind (effective_profile ctx args) (\<lambda>profile.
         ebind (validated_request (request_of_call ctx contract args resolved profile)) (\<lambda>request.
         ebind (raised (evaluate_policy (rds_decided rd) (gev_fp_request env) request (ivc_policy ctx)
           (exact_approval env request approvals))) (\<lambda>authorization.
         ebind (check (ad_decision authorization \<noteq> REQUIRE_APPROVAL) AUTHORIZATION_MISSING
           ''capability requires matching interactive approval'') (\<lambda>_.
         ebind (check (ad_decision authorization \<noteq> DENY) AUTHORITY_NOT_GRANTED
           ''effective policy denies the exact capability request'') (\<lambda>_.
         ebind (check (artifact_requested details args \<longrightarrow> gev_artifact_store env \<noteq> None)
           TOOL_UNAVAILABLE
           ''requested complete-output artifacts require a configured artifact store'') (\<lambda>_.
         Inr \<lparr>acd_resolved = resolved, acd_path_state = path_state,
              acd_credentials = credential_references_for contract args, acd_evidence = evidence,
              acd_isolation_profile = profile, acd_request = request,
              acd_authorization = authorization\<rparr>)))))))))))))))))"

subsection \<open>Reservation\<close>

definition call_identifier ::
  "gateway_env \<Rightarrow> invocation_context \<Rightarrow> string option \<Rightarrow> string gateway" where
  "call_identifier env ctx planned =
     (case planned of
        None \<Rightarrow> new_id env
      | Some k \<Rightarrow> greturn (Inr (gev_uuid5 env (''mishkan:'' @ ivc_run_id ctx @ '':'' @
          ivc_task_attempt_id ctx @ '':'' @ k))))"

definition strings_json :: "string list \<Rightarrow> json" where
  "strings_json xs = JList (map JStr xs)"

definition planned_request_fingerprint ::
  "gateway_env \<Rightarrow> invocation_context \<Rightarrow> tool_contract \<Rightarrow> string \<Rightarrow> arguments \<Rightarrow> declared_targets
   \<Rightarrow> string \<Rightarrow> string" where
  "planned_request_fingerprint env ctx contract planned args d authorization_fingerprint =
     gev_sha256 env (gev_dumps env Compact (JObj
       [(''run_id'', JStr (ivc_run_id ctx)), (''task_attempt_id'', JStr (ivc_task_attempt_id ctx)),
        (''planned_call_id'', JStr planned), (''tool_id'', JStr (tc_tool_id contract)),
        (''tool_version'', JStr (tc_version contract)),
        (''contract_fingerprint'', JStr (tb_contract_fingerprint (ivc_binding ctx))),
        (''registry_fingerprint'', JStr (rs_fingerprint (ivc_registry ctx))),
        (''plan_fingerprint'', JStr (ivc_plan_fingerprint ctx)),
        (''policy_fingerprint'', JStr (ep_fingerprint (ivc_policy ctx))),
        (''authorization_fingerprint'', JStr authorization_fingerprint),
        (''arguments'', JObj args),
        (''declared_targets'', JObj
          [(''paths'', strings_json (dt_paths d)), (''executables'', strings_json (dt_executables d)),
           (''network_destinations'', strings_json (dt_network_destinations d)),
           (''repositories'', strings_json (dt_repositories d)),
           (''remotes'', strings_json (dt_remotes d)), (''branches'', strings_json (dt_branches d)),
           (''environments'', strings_json (dt_environments d)),
           (''external_resources'', strings_json (dt_external_resources d))])]))"

definition identity_of_call ::
  "invocation_context \<Rightarrow> tool_contract \<Rightarrow> string \<Rightarrow> string \<Rightarrow> string \<Rightarrow> string list \<Rightarrow> call_identity" where
  "identity_of_call ctx contract call_id planned request_fp effects =
     \<lparr>ci_invocation_id = call_id, ci_run_id = ivc_run_id ctx,
      ci_task_attempt_id = ivc_task_attempt_id ctx, ci_planned_call_id = planned,
      ci_request_fingerprint = request_fp, ci_tool_id = tc_tool_id contract,
      ci_tool_version = tc_version contract, ci_effect_class = tc_effect_class contract,
      ci_declared_effects = effects\<rparr>"

text \<open>The stored result of a call that completed before, or the reservation.\<close>

definition reserve_call ::
  "gateway_env \<Rightarrow> invocation_context \<Rightarrow> tool_contract \<Rightarrow> arguments \<Rightarrow> declared_targets \<Rightarrow> string option
   \<Rightarrow> authorized_call \<Rightarrow> string \<Rightarrow> tool_result_envelope option gateway" where
  "reserve_call env ctx contract args d planned auth call_id =
     (case planned of
        None \<Rightarrow> greturn (Inr None)
      | Some k \<Rightarrow>
          let request_fp = planned_request_fingerprint env ctx contract k args d
                (ad_request_fingerprint (acd_authorization auth))
          in gbind (gset (\<lambda>s. s\<lparr>gst_fingerprint := Some request_fp\<rparr>)) (\<lambda>_.
             gbind (on_store (reserve_planned_call
               (identity_of_call ctx contract call_id k request_fp (ar_effects (acd_request auth)))))
               (\<lambda>replayed. case replayed of
                  Some res \<Rightarrow>
                    gbind (audit_call env ctx ''tool.call_replayed'' (call_status_name (te_status res))
                      ''returned the exact durable planned-call result'') (\<lambda>_. greturn (Inr (Some res)))
                | None \<Rightarrow> gbind (gset (\<lambda>s. s\<lparr>gst_reserved := True\<rparr>)) (\<lambda>_. greturn (Inr None)))))"

subsection \<open>Dispatch\<close>

definition adapter_call_of ::
  "invocation_context \<Rightarrow> tool_contract \<Rightarrow> arguments \<Rightarrow> authorized_call \<Rightarrow> (string \<times> string) list
   \<Rightarrow> string \<Rightarrow> adapter_call" where
  "adapter_call_of ctx contract args auth credentials call_id =
     \<lparr>acl_arguments = args, acl_targets = acd_resolved auth, acl_credentials = credentials,
      acl_execution_id = call_id, acl_resources = ivc_resources ctx,
      acl_isolation_profile = acd_isolation_profile auth, acl_run_id = ivc_run_id ctx,
      acl_task_attempt_id = ivc_task_attempt_id ctx, acl_acting_identity = ivc_identity ctx,
      acl_capability = tc_tool_id contract, acl_plan_fingerprint = ivc_plan_fingerprint ctx,
      acl_objective_class = ivc_objective_class ctx, acl_repository = ivc_repository ctx,
      acl_outcome = ivc_outcome ctx, acl_role = ivc_role ctx\<rparr>"

definition check_path_state ::
  "gateway_env \<Rightarrow> file_system \<Rightarrow> authorized_call \<Rightarrow> unit gateway" where
  "check_path_state env fs auth =
     greturn (case acd_path_state auth of
         None \<Rightarrow> Inr ()
       | Some st \<Rightarrow> require_resolved_path_state (gev_base env) fs (acd_resolved auth) st)"

fun settlement_name :: "effect_settlement \<Rightarrow> string" where
  "settlement_name SAbsent = ''absent''"
| "settlement_name SCompleted = ''completed''"
| "settlement_name SUncertain = ''uncertain''"

definition effect_proven ::
  "string list \<Rightarrow> string list \<Rightarrow> workspace_evidence \<Rightarrow> string option \<Rightarrow> bool" where
  "effect_proven observable declared observation reference \<longleftrightarrow>
     (set declared \<subseteq> set observable \<and> wse_complete observation \<and>
         wse_scope_deviations observation = [] \<and>
         (wse_changed_paths observation \<noteq> [] \<longrightarrow> reference \<noteq> None))"

text \<open>The observed change of the workspace replaces what the adapter says of its effects.\<close>

definition observed_result ::
  "string list \<Rightarrow> workspace_evidence \<Rightarrow> string option \<Rightarrow> bool \<Rightarrow> adapter_result \<Rightarrow> adapter_result" where
  "observed_result declared observation reference proven result =
     (let changed = wse_changed_paths observation \<noteq> [];
          settlement = (if \<not> proven then SUncertain else if changed then SCompleted else SAbsent);
          status = (if \<not> proven then adr_call_status result
            else if map_of (adr_output result) ''status'' = Some (JStr ''completed'') then CCompleted
            else if settlement = SAbsent then CFailed else adr_call_status result);
          entries = [(''observed_effects'', strings_json (if proven \<and> changed then declared else [])),
            (''effect_settlement'', JStr (settlement_name settlement)),
            (''base_snapshot_fingerprint'', JStr (wse_base_fingerprint observation)),
            (''after_snapshot_fingerprint'', JStr (wse_after_fingerprint observation)),
            (''changed_paths'', strings_json (wse_changed_paths observation)),
            (''scope_deviations'', strings_json (wse_scope_deviations observation)),
            (''effect_diff_artifact_ref'', case reference of None \<Rightarrow> JNull | Some r \<Rightarrow> JStr r),
            (''effect_observation_complete'', JBool (wse_complete observation)),
            (''effect_observation_omissions'', strings_json (wse_omissions observation)),
            (''effect_validation'', JStr (if proven then ''bounded-before-after-snapshot''
               else ''incomplete-or-out-of-scope''))]
      in result\<lparr>adr_output := fold (\<lambda>(k, v). AList.update k v) entries (adr_output result),
           adr_external_references := adr_external_references result @
             (case reference of None \<Rightarrow> [] | Some r \<Rightarrow> [r]),
           adr_call_status := status, adr_retryable := False,
           adr_error_code := (if status = CCompleted then None else adr_error_code result),
           adr_reason := (if status = CCompleted
             then Some ''command effects were verified by bounded workspace snapshots''
             else adr_reason result)\<rparr>)"

definition observe_effects ::
  "gateway_env \<Rightarrow> readings \<Rightarrow> authorized_call \<Rightarrow> arguments \<Rightarrow> string \<Rightarrow> workspace_snapshot \<Rightarrow> adapter_result
   \<Rightarrow> adapter_result outcome" where
  "observe_effects env rd auth configuration call_id before result =
     ebind (take_workspace_snapshot env (rds_tree_after rd) configuration) (\<lambda>after.
       let observation = compare_snapshots before after (map rpa_relative (rtg_paths (acd_resolved auth)));
           declared = ar_effects (acd_request auth); diff = gev_dumps env Indented (wse_diff observation) @ [CHR 0x0A]
       in ebind (case gev_artifact_store env of
            Some put \<Rightarrow>
              if wse_changed_paths observation = [] then Inr None
              else ebind (raised (gev_inspect env [] diff)) (\<lambda>_.
                   ebind (put \<lparr>pur_content = diff,
                     pur_media_type = ''application/vnd.mishkan.workspace-diff+json'',
                     pur_channel = ''workspace-diff'', pur_call_id = call_id,
                     pur_complete = wse_complete observation\<rparr>) (\<lambda>r. Inr (Some r)))
          | None \<Rightarrow> Inr None) (\<lambda>reference.
          ebind (py_iter (field_or configuration ''observable_effects'' (JList []))) (\<lambda>observable.
          Inr (observed_result declared observation reference
            (effect_proven (map (str_text (gev_repr env)) observable) declared observation reference) result))))"

text \<open>What runs while the slot of the capability is held and is released again.\<close>

definition perform_call ::
  "gateway_env \<Rightarrow> readings \<Rightarrow> (adapter_call \<Rightarrow> adapter_result outcome) \<Rightarrow> adapter_call \<Rightarrow> authorized_call
   \<Rightarrow> arguments option \<Rightarrow> workspace_snapshot option \<Rightarrow> string \<Rightarrow> adapter_result gateway" where
  "perform_call env rd adapter call auth configuration before call_id =
     gbind (check_path_state env (rds_before rd) auth) (\<lambda>_.
     gbind (gset (\<lambda>s. s\<lparr>gst_calls := gst_calls s @ [call]\<rparr>)) (\<lambda>_.
     gbind (greturn (adapter call)) (\<lambda>result.
     gbind (gset (\<lambda>s. s\<lparr>gst_status := Some (adr_call_status result)\<rparr>)) (\<lambda>_.
     case (configuration, before) of
       (Some c, Some w) \<Rightarrow>
         gbind (greturn (observe_effects env rd auth c call_id w result)) (\<lambda>observed.
         gbind (gset (\<lambda>s. s\<lparr>gst_status := Some (adr_call_status observed)\<rparr>)) (\<lambda>_.
         greturn (Inr observed)))
     | _ \<Rightarrow> greturn (Inr result)))))"

definition slot_key :: "invocation_context \<Rightarrow> tool_contract \<Rightarrow> string" where
  "slot_key ctx contract = ivc_repository ctx @ '':'' @ tc_tool_id contract"

text \<open>The reason of a decision that allows: the winning rule has the least identifier.\<close>

definition authorization_reason :: "authorization_decision \<Rightarrow> string" where
  "authorization_reason d =
     (if ad_approval_id d = None then ''matched public policy rule ''
      else ''interactive approval satisfied rule '') @ concat (take 1 (ad_matched_rule_ids d))"

definition dispatch_call ::
  "gateway_env \<Rightarrow> readings \<Rightarrow> invocation_context \<Rightarrow> tool_contract \<Rightarrow> arguments \<Rightarrow> authorized_call
   \<Rightarrow> string \<Rightarrow> ((string \<times> string) list \<times> adapter_result) gateway" where
  "dispatch_call env rd ctx contract args auth call_id =
     (let key = slot_key ctx contract;
          configuration = (if ar_effects (acd_request auth) = [] then None
            else effect_observation (gev_details env contract))
      in gbind (audit_call env ctx ''tool.call_authorized'' ''allow''
           (authorization_reason (acd_authorization auth))) (\<lambda>_.
         gbind (\<lambda>s. (if requested (ivc_run_id ctx) (gst_store s) then Inl IsCancelled else Inr (), s)) (\<lambda>_.
         gbind (greturn (raised (gev_credentials env (acd_credentials auth)))) (\<lambda>credentials.
         gbind (greturn (case gev_adapters env (tc_adapter contract) of
             None \<Rightarrow> Inl (Fails (MishkanError TOOL_UNAVAILABLE ''bound tool adapter is unavailable''))
           | Some adapter \<Rightarrow> Inr adapter)) (\<lambda>adapter.
         gbind (acquire key (rq_concurrency (ivc_resources ctx))) (\<lambda>free.
         gbind (greturn (check free TOOL_UNAVAILABLE
           ''capability concurrency bound is currently exhausted'')) (\<lambda>_.
         gbind (greturn (case configuration of
             None \<Rightarrow> Inr None
           | Some c \<Rightarrow> ebind (take_workspace_snapshot env (rds_tree_before rd) c) (\<lambda>w. Inr (Some w)))) (\<lambda>before.
         gbind (\<lambda>s. if gst_reserved s
                    then on_store (mark_planned_call_dispatching call_id (the (gst_fingerprint s))) s
                    else (Inr (), s)) (\<lambda>_.
         gbind (gset (\<lambda>s. s\<lparr>gst_started := True\<rparr>)) (\<lambda>_.
         gbind (audit_call env ctx ''tool.call_started'' ''dispatching''
           ''authorized capability dispatch started'') (\<lambda>_.
         gbind (releasing key (perform_call env rd adapter
             (adapter_call_of ctx contract args auth credentials call_id) auth configuration before
             call_id)) (\<lambda>result.
         greturn (Inr (credentials, result))))))))))))))"

subsection \<open>The result\<close>

fun inspect_all :: "gateway_env \<Rightarrow> string list \<Rightarrow> string list \<Rightarrow> unit outcome" where
  "inspect_all env secrets [] = Inr ()"
| "inspect_all env secrets (c # cs) =
     ebind (raised (gev_inspect env secrets c)) (\<lambda>_. inspect_all env secrets cs)"

text \<open>The artifact of every output channel, with the references that were added.\<close>

fun store_artifacts ::
  "gateway_env \<Rightarrow> string list \<Rightarrow> string \<Rightarrow> string list \<Rightarrow> artifact_candidate list
   \<Rightarrow> arguments \<times> string list \<Rightarrow> (arguments \<times> string list) outcome" where
  "store_artifacts env secrets call_id channels [] acc = Inr acc"
| "store_artifacts env secrets call_id channels (c # cs) (output, references) =
     (if acn_channel c \<in> set channels
      then Inl (Fails (MishkanError TOOL_SCHEMA ''adapter returned duplicate artifact output channels''))
      else
        ebind (raised (gev_inspect env secrets (acn_content c))) (\<lambda>_.
        case gev_artifact_store env of
          None \<Rightarrow> Inl (Fails (MishkanError ARTIFACT
            ''adapter returned artifact content without a configured store''))
        | Some put \<Rightarrow>
            ebind (put \<lparr>pur_content = acn_content c, pur_media_type = acn_media_type c,
              pur_channel = acn_channel c, pur_call_id = call_id, pur_complete = acn_complete c\<rparr>)
              (\<lambda>reference. store_artifacts env secrets call_id (acn_channel c # channels) cs
                (AList.update (acn_channel c @ ''_artifact_ref'') (JStr reference) output,
                 references @ [reference]))))"

definition object_field :: "arguments \<Rightarrow> string \<Rightarrow> string \<Rightarrow> arguments outcome" where
  "object_field kvs k message =
     (case map_of kvs k of
        Some (JObj inner) \<Rightarrow> Inr inner
      | _ \<Rightarrow> Inl (Fails (MishkanError TOOL_SCHEMA message)))"

definition string_list_field :: "arguments \<Rightarrow> string \<Rightarrow> string \<Rightarrow> string list outcome" where
  "string_list_field kvs k message =
     (case map_of kvs k of
        Some (JList xs) \<Rightarrow>
          if list_all is_str xs then Inr (map str_of xs)
          else Inl (Fails (MishkanError TOOL_SCHEMA message))
      | _ \<Rightarrow> Inl (Fails (MishkanError TOOL_SCHEMA message)))"

definition targets_json :: "resolved_targets \<Rightarrow> json" where
  "targets_json t = JObj
     [(''paths'', JList (map (\<lambda>p. JObj [(''requested'', JStr (rpa_requested p)),
        (''lexical_relative'', JStr (rpa_lexical_relative p)), (''relative'', JStr (rpa_relative p)),
        (''absolute'', JStr (''/'' @ join_path (rpa_absolute p))),
        (''link_chain'', strings_json (rpa_link_chain p))]) (rtg_paths t))),
      (''executables'', strings_json (rtg_executables t)),
      (''network_destinations'', strings_json (rtg_network_destinations t)),
      (''repositories'', strings_json (rtg_repositories t)),
      (''remotes'', strings_json (rtg_remotes t)), (''branches'', strings_json (rtg_branches t)),
      (''environments'', strings_json (rtg_environments t)),
      (''external_resources'', strings_json (rtg_external_resources t))]"

text \<open>The inspected result: what the inspector returns is decoded and checked again.\<close>

definition validated_result ::
  "gateway_env \<Rightarrow> readings \<Rightarrow> invocation_context \<Rightarrow> tool_contract \<Rightarrow> authorized_call \<Rightarrow> string
   \<Rightarrow> (string \<times> string) list \<Rightarrow> adapter_result \<Rightarrow> tool_result_envelope outcome" where
  "validated_result env rd ctx contract auth call_id credentials result =
     (let secrets = map snd credentials
      in ebind (check (adr_actual_targets result = acd_resolved auth) TOOL_EFFECT
           ''adapter-reported actual targets differ from the authorized targets'') (\<lambda>_.
         ebind (case acd_path_state auth of
             None \<Rightarrow> Inr ()
           | Some st \<Rightarrow> require_resolved_path_state (gev_base env) (rds_after rd) (acd_resolved auth) st) (\<lambda>_.
         ebind (inspect_all env secrets (adr_inspection_content result)) (\<lambda>_.
         ebind (case acd_evidence auth of
             None \<Rightarrow> Inr (adr_output result)
           | Some e \<Rightarrow>
               if map_of (adr_output result) ''operation_evidence'' \<noteq> None
               then Inl (Fails (MishkanError TOOL_SCHEMA
                 ''adapter attempted to replace Gateway operation evidence''))
               else ebind (complete_operation_evidence env e (adr_output result)) (\<lambda>v.
                    Inr (AList.update ''operation_evidence'' (evidence_json v) (adr_output result)))) (\<lambda>output.
         ebind (store_artifacts env secrets call_id [] (adr_artifact_candidates result)
           (output, adr_external_references result)) (\<lambda>(full_output, references).
         ebind (raised (gev_inspect env secrets (gev_dumps env Spaced (JObj
           [(''output'', JObj full_output), (''external_references'', strings_json references),
            (''evidence'', JObj (adr_evidence result))])))) (\<lambda>inspected.
         ebind (case gev_loads env inspected of
             None \<Rightarrow> Inl (Named ''JSONDecodeError'')
           | Some (JObj kvs) \<Rightarrow> Inr kvs
           | Some _ \<Rightarrow> Inl (Fails (MishkanError TOOL_SCHEMA ''inspected tool result is not an object''))) (\<lambda>kvs.
         ebind (object_field kvs ''output'' ''inspected tool output is not an object'') (\<lambda>checked_output.
         ebind (string_list_field kvs ''external_references''
           ''inspected external references are not a string list'') (\<lambda>checked_references.
         ebind (object_field kvs ''evidence'' ''inspected adapter evidence is invalid'') (\<lambda>evidence.
         ebind (check (gev_schema_ok env (cds_result_schema (gev_details env contract)) (JObj checked_output))
           TOOL_SCHEMA ''tool result failed its bound JSON Schema'') (\<lambda>_.
         Inr \<lparr>te_call_id = call_id, te_run_id = ivc_run_id ctx,
              te_task_attempt_id = ivc_task_attempt_id ctx, te_tool_id = tc_tool_id contract,
              te_tool_version = tc_version contract, te_status = adr_call_status result,
              te_started_at = rds_started rd, te_completed_at = rds_completed rd,
              te_output = Some (JObj checked_output),
              te_actual_targets = Some (targets_json (adr_actual_targets result)),
              te_external_references = checked_references, te_adapter_evidence = JObj evidence,
              te_retryable = adr_retryable result, te_error_code = adr_error_code result,
              te_reason = (case adr_reason result of Some (c # r) \<Rightarrow> c # r
                | _ \<Rightarrow> ''validated authorized tool result'')\<rparr>)))))))))))) "

definition settlement_value :: "json \<Rightarrow> effect_settlement option" where
  "settlement_value v =
     (if v = JStr ''absent'' then Some SAbsent
      else if v = JStr ''completed'' then Some SCompleted
      else if v = JStr ''uncertain'' then Some SUncertain else None)"

definition stated_settlement :: "tool_result_envelope \<Rightarrow> effect_settlement option" where
  "stated_settlement res =
     (case te_output res of
        Some (JObj kvs) \<Rightarrow>
          (case map_of kvs ''effect_settlement'' of
             Some v \<Rightarrow> settlement_value v
           | None \<Rightarrow> (case map_of kvs ''settlement'' of None \<Rightarrow> None | Some v \<Rightarrow> settlement_value v))
      | _ \<Rightarrow> None)"

definition effect_settlement_of ::
  "string list \<Rightarrow> tool_result_envelope \<Rightarrow> bool \<Rightarrow> effect_settlement" where
  "effect_settlement_of declared res started =
     (if declared = [] then SAbsent
      else case stated_settlement res of
        Some st \<Rightarrow> st
      | None \<Rightarrow>
          if te_status res = CCompleted then SCompleted
          else if started then SUncertain else SAbsent)"

text \<open>Without a reservation the result is not journaled.\<close>

definition complete_journaled_call ::
  "gateway_env \<Rightarrow> tool_result_envelope \<Rightarrow> effect_settlement \<Rightarrow> tool_result_envelope gateway" where
  "complete_journaled_call env res settlement s =
     (if gst_reserved s
      then on_store (complete_planned_call (gev_env env) (te_call_id res) (the (gst_fingerprint s))
             res settlement) s
      else (Inr res, s))"

definition result_event :: "call_status \<Rightarrow> string" where
  "result_event st =
     (case st of CCancelled \<Rightarrow> ''tool.call_cancelled'' | CUncertain \<Rightarrow> ''tool.call_uncertain''
      | CFailed \<Rightarrow> ''tool.call_failed'' | _ \<Rightarrow> ''tool.call_completed'')"

definition finish_call ::
  "gateway_env \<Rightarrow> readings \<Rightarrow> invocation_context \<Rightarrow> tool_contract \<Rightarrow> authorized_call \<Rightarrow> string
   \<Rightarrow> (string \<times> string) list \<Rightarrow> adapter_result \<Rightarrow> tool_result_envelope gateway" where
  "finish_call env rd ctx contract auth call_id credentials result =
     gbind (greturn (validated_result env rd ctx contract auth call_id credentials result)) (\<lambda>res.
     gbind (audit_call env ctx (result_event (te_status res)) (call_status_name (te_status res))
       (te_reason res)) (\<lambda>_.
     gbind (\<lambda>s. (Inr (gst_started s), s)) (\<lambda>started.
     complete_journaled_call env res
       (effect_settlement_of (ar_effects (acd_request auth)) res started))))"

subsection \<open>The pipeline and its handlers\<close>

definition invocation_body ::
  "gateway_env \<Rightarrow> readings \<Rightarrow> invocation_context \<Rightarrow> tool_contract \<Rightarrow> arguments \<Rightarrow> declared_targets
   \<Rightarrow> approval_evidence list \<Rightarrow> string option \<Rightarrow> tool_result_envelope gateway" where
  "invocation_body env rd ctx contract args declared approvals planned =
     gbind (greturn (authorize_call env rd ctx contract args declared approvals)) (\<lambda>auth.
     gbind (call_identifier env ctx planned) (\<lambda>call_id.
     gbind (gset (\<lambda>s. s\<lparr>gst_call_id := Some call_id, gst_effects := ar_effects (acd_request auth)\<rparr>)) (\<lambda>_.
     gbind (reserve_call env ctx contract args declared planned auth call_id) (\<lambda>replayed.
     case replayed of
       Some res \<Rightarrow> greturn (Inr res)
     | None \<Rightarrow>
         gbind (dispatch_call env rd ctx contract args auth call_id) (\<lambda>(credentials, result).
         finish_call env rd ctx contract auth call_id credentials result)))))"

definition terminal_result ::
  "readings \<Rightarrow> invocation_context \<Rightarrow> string option \<Rightarrow> call_status \<Rightarrow> error_code \<Rightarrow> string
   \<Rightarrow> tool_result_envelope" where
  "terminal_result rd ctx call_id status code reason =
     \<lparr>te_call_id = (case call_id of Some (c # k) \<Rightarrow> c # k | _ \<Rightarrow> ''unissued''),
      te_run_id = ivc_run_id ctx, te_task_attempt_id = ivc_task_attempt_id ctx,
      te_tool_id = tb_tool_id (ivc_binding ctx), te_tool_version = tb_tool_version (ivc_binding ctx),
      te_status = status, te_started_at = rds_started rd, te_completed_at = rds_completed rd,
      te_output = None, te_actual_targets = None, te_external_references = [],
      te_adapter_evidence = JObj [], te_retryable = False,
      te_error_code = Some (error_code_text code), te_reason = reason\<rparr>"

definition refusal_codes :: "bool \<Rightarrow> error_code list" where
  "refusal_codes issued =
     [AUTHORIZATION_MISSING, AUTHORITY_NOT_GRANTED, POLICY_CONFLICT, TOOL_UNAVAILABLE, TOOL_DRIFT,
      REVISION_MISMATCH] @ (if issued then [] else [TOOL_SCHEMA, FILE_FAILURE, SECRET_CONTENT])"

definition conclude_call ::
  "gateway_env \<Rightarrow> invocation_context \<Rightarrow> tool_result_envelope \<Rightarrow> string \<Rightarrow> tool_result_envelope gateway" where
  "conclude_call env ctx res event_type =
     gbind (audit_call env ctx event_type (call_status_name (te_status res)) (te_reason res)) (\<lambda>_.
     gbind (\<lambda>s. (Inr (if gst_started s \<and> gst_effects s \<noteq> [] then SUncertain else SAbsent), s)) (\<lambda>settlement.
     complete_journaled_call env res settlement))"

definition failed_call ::
  "gateway_env \<Rightarrow> readings \<Rightarrow> invocation_context \<Rightarrow> error_code \<Rightarrow> string \<Rightarrow> tool_result_envelope gateway" where
  "failed_call env rd ctx code reason s =
     (let status = (if gst_status s \<in> {Some CCancelled, Some CUncertain} then the (gst_status s)
            else if code \<in> set (refusal_codes (gst_call_id s \<noteq> None)) then CRefused else CFailed);
          event_type = (if code = TOOL_SCHEMA then ''tool.schema_failed''
            else case status of CCancelled \<Rightarrow> ''tool.call_cancelled'' | CUncertain \<Rightarrow> ''tool.call_uncertain''
              | CRefused \<Rightarrow> ''tool.call_refused'' | _ \<Rightarrow> ''tool.call_failed'')
      in conclude_call env ctx (terminal_result rd ctx (gst_call_id s) status code reason) event_type s)"

text \<open>
  The \<open>except\<close> clauses: cancellation, timeout, and the failures that become a terminal result;
  every other exception leaves the invocation.
\<close>

definition handle_exception ::
  "gateway_env \<Rightarrow> readings \<Rightarrow> invocation_context \<Rightarrow> call_exception \<Rightarrow> tool_result_envelope gateway" where
  "handle_exception env rd ctx e s =
     (case e of
        IsCancelled \<Rightarrow> conclude_call env ctx (terminal_result rd ctx (gst_call_id s) CCancelled TOOL_EFFECT
          ''tool call was cancelled'') ''tool.call_cancelled'' s
      | TimesOut \<Rightarrow> conclude_call env ctx (terminal_result rd ctx (gst_call_id s) CUncertain TOOL_EFFECT
          ''tool timeout left effect state uncertain'') ''tool.call_timed_out'' s
      | Fails (MishkanError code message) \<Rightarrow> failed_call env rd ctx code message s
      | Fails (ValueError _) \<Rightarrow> failed_call env rd ctx TOOL_EFFECT ''tool effect failed: ValueError'' s
      | Named name \<Rightarrow> failed_call env rd ctx TOOL_EFFECT (''tool effect failed: '' @ name) s
      | _ \<Rightarrow> (Inl e, s))"

definition fresh_locals :: "gateway_state \<Rightarrow> gateway_state" where
  "fresh_locals s = s\<lparr>gst_call_id := None, gst_fingerprint := None, gst_reserved := False,
     gst_started := False, gst_effects := [], gst_status := None\<rparr>"

definition invoke ::
  "gateway_env \<Rightarrow> readings \<Rightarrow> invocation_context \<Rightarrow> arguments \<Rightarrow> declared_targets
   \<Rightarrow> approval_evidence list \<Rightarrow> string option \<Rightarrow> tool_result_envelope gateway" where
  "invoke env rd ctx args declared approvals planned s =
     (case registry_require (ivc_registry ctx) (tb_tool_id (ivc_binding ctx)) of
        Inl e \<Rightarrow> (Inl (Fails e), s)
      | Inr contract \<Rightarrow>
          (case invocation_body env rd ctx contract args declared approvals planned (fresh_locals s) of
             (Inr res, s') \<Rightarrow> (Inr res, s')
           | (Inl e, s') \<Rightarrow> handle_exception env rd ctx e s'))"

end
