(* ===== verification/GatewayInvariant.thy ===== *)
theory GatewayInvariant
  imports Gateway RunMachine RunSafety
begin

section \<open>What an invocation may do\<close>

text \<open>
  A small calculus of partial correctness for steps that may raise: \<open>triple P m Q E\<close> says that from
  a state with \<open>P\<close> the step ends in \<open>Q\<close> with its value, or in \<open>E\<close> with an exception. On it rest
  three facts about the whole pipeline: the store moves only by calls of the run repository, an
  adapter is called at most once and only behind all checks, and the slots of the capabilities
  are counted.
\<close>

definition triple ::
  "(gateway_state \<Rightarrow> bool) \<Rightarrow> 'a gateway \<Rightarrow> ('a \<Rightarrow> gateway_state \<Rightarrow> bool) \<Rightarrow> (gateway_state \<Rightarrow> bool) \<Rightarrow> bool" where
  "triple P m Q E \<longleftrightarrow>
     (\<forall>s. P s \<longrightarrow> (case m s of (Inr a, s') \<Rightarrow> Q a s' | (Inl e, s') \<Rightarrow> E s'))"

abbreviation keeps :: "(gateway_state \<Rightarrow> bool) \<Rightarrow> 'a gateway \<Rightarrow> bool" where
  "keeps I m \<equiv> triple I m (\<lambda>_. I) I"

lemma tripleI:
  "(\<And>s a s'. P s \<Longrightarrow> m s = (Inr a, s') \<Longrightarrow> Q a s') \<Longrightarrow> (\<And>s e s'. P s \<Longrightarrow> m s = (Inl e, s') \<Longrightarrow> E s') \<Longrightarrow>
   triple P m Q E"
  by (auto simp: triple_def split: sum.split)

lemma tripleD:
  assumes "triple P m Q E" "P s"
  shows "m s = (Inr a, s') \<Longrightarrow> Q a s'" and "m s = (Inl e, s') \<Longrightarrow> E s'"
  using assms unfolding triple_def by force+

lemma keeps_snd: "keeps I m \<Longrightarrow> I s \<Longrightarrow> I (snd (m s))"
  unfolding triple_def by (cases "m s"; cases "fst (m s)") force+

lemma triple_weaken:
  "triple P' m Q' E' \<Longrightarrow> (\<And>s. P s \<Longrightarrow> P' s) \<Longrightarrow> (\<And>a s. Q' a s \<Longrightarrow> Q a s) \<Longrightarrow> (\<And>s. E' s \<Longrightarrow> E s) \<Longrightarrow>
   triple P m Q E"
  by (rule tripleI) (blast dest: tripleD)+

lemma triple_bind:
  assumes "triple P m R E" "\<And>a. triple (R a) (f a) Q E"
  shows "triple P (gbind m f) Q E"
  unfolding triple_def
proof (intro allI impI)
  fix s
  assume "P s"
  obtain r s' where m: "m s = (r, s')" by fastforce
  show "case gbind m f s of (Inr a, s') \<Rightarrow> Q a s' | (Inl e, s') \<Rightarrow> E s'"
  proof (cases r)
    case (Inl e)
    then show ?thesis using tripleD(2) [OF assms(1) \<open>P s\<close>] m by (simp add: gbind_def)
  next
    case (Inr a)
    then have "R a s'" using tripleD(1) [OF assms(1) \<open>P s\<close>] m by simp
    then show ?thesis using assms(2) m Inr by (simp add: gbind_def triple_def)
  qed
qed

lemma triple_return [intro]:
  "(\<And>s a. P s \<Longrightarrow> r = Inr a \<Longrightarrow> Q a s) \<Longrightarrow> (\<And>s. P s \<Longrightarrow> E s) \<Longrightarrow> triple P (greturn r) Q E"
  by (auto simp: triple_def greturn_def split: sum.split)

lemma triple_set: "(\<And>s. P s \<Longrightarrow> Q () (f s)) \<Longrightarrow> triple P (gset f) Q E"
  by (simp add: triple_def gset_def)

lemma triple_read: "(\<And>s. P s \<Longrightarrow> Q (f s) s) \<Longrightarrow> triple P (\<lambda>s. (Inr (f s), s)) Q E"
  by (simp add: triple_def)

lemma triple_on_store:
  "(\<And>s store' a. P s \<Longrightarrow> f (gst_store s) = Inr (store', a) \<Longrightarrow> Q a (s\<lparr>gst_store := store'\<rparr>)) \<Longrightarrow>
   (\<And>s. P s \<Longrightarrow> E s) \<Longrightarrow> triple P (on_store f) Q E"
  by (auto simp: triple_def on_store_def split: sum.split)

lemma triple_new_id: "(\<And>s k. P s \<Longrightarrow> Q k (s\<lparr>gst_ids := gst_ids s + 1\<rparr>)) \<Longrightarrow> triple P (new_id env) Q E"
  by (simp add: triple_def new_id_def)

lemma triple_case_option:
  "(x = None \<Longrightarrow> triple P m Q E) \<Longrightarrow> (\<And>a. x = Some a \<Longrightarrow> triple P (f a) Q E) \<Longrightarrow>
   triple P (case x of None \<Rightarrow> m | Some a \<Rightarrow> f a) Q E"
  by (cases x) auto

text \<open>Invariants compose.\<close>

lemma keeps_bind: "keeps I m \<Longrightarrow> (\<And>a. keeps I (f a)) \<Longrightarrow> keeps I (gbind m f)"
  by (rule triple_bind [where R = "\<lambda>_. I"])

lemma keeps_return: "keeps I (greturn r)"
  by (rule triple_return)

lemma keeps_audit:
  assumes ids: "\<And>s. I s \<Longrightarrow> I (s\<lparr>gst_ids := gst_ids s + 1\<rparr>)"
    and stored: "\<And>s x a st u. I s \<Longrightarrow> record_audit (gev_env env) (gev_audit_content env x) a (gst_store s) = Inr (st, u) \<Longrightarrow>
      I (s\<lparr>gst_store := st\<rparr>)"
  shows "keeps I (audit_call env ctx event_type v reason)"
  unfolding audit_call_def
proof (rule keeps_bind [OF keeps_return], rule keeps_bind)
  fix inspected
  show "keeps I (new_id env)" by (rule triple_new_id) (rule ids)
  show "keeps I (on_store (record_audit (gev_env env) (gev_audit_content env inspected)
       \<lparr>au_id = k, au_event_type = event_type, au_run_id = ivc_run_id ctx,
        au_task_attempt_id = ivc_task_attempt_id ctx, au_identity = ivc_identity ctx,
        au_decision = v\<rparr>))" for k
    by (rule triple_on_store) (use stored in \<open>auto\<close>)
qed

subsection \<open>The store of an invocation\<close>

text \<open>The calls of the repository an invocation makes; \<open>ok\<close> restricts the completions.\<close>

fun gateway_op :: "(tool_result_envelope \<Rightarrow> effect_settlement \<Rightarrow> bool) \<Rightarrow> run_op \<Rightarrow> bool" where
  "gateway_op ok (RecordAudit c a) = True"
| "gateway_op ok (ReservePlannedCall i) = True"
| "gateway_op ok (MarkDispatching i f) = True"
| "gateway_op ok (CompletePlannedCall i f res settlement) = ok res settlement"
| "gateway_op ok _ = False"

definition store_trace ::
  "(tool_result_envelope \<Rightarrow> effect_settlement \<Rightarrow> bool) \<Rightarrow> environment \<Rightarrow> store \<Rightarrow> store \<Rightarrow> bool" where
  "store_trace ok e st st' \<longleftrightarrow>
     (\<exists>ops. list_all (gateway_op ok) ops \<and> st' = run_ops (step e) ops st) \<and> runs st' = runs st"

lemma store_trace_refl: "store_trace ok e st st"
  unfolding store_trace_def by (intro conjI exI [of _ "[]"]) simp_all

lemma store_trace_snoc:
  assumes "store_trace ok e st s1" "gateway_op ok x" "step e x s1 = s2" "runs s2 = runs s1"
  shows "store_trace ok e st s2"
proof -
  obtain ops where "list_all (gateway_op ok) ops" "s1 = run_ops (step e) ops st" "runs s1 = runs st"
    using assms(1) unfolding store_trace_def by blast
  then show ?thesis
    unfolding store_trace_def using assms(2-4)
    by (intro conjI exI [of _ "ops @ [x]"]) (simp_all add: run_ops_append)
qed

lemma store_trace_audit:
  assumes "store_trace ok e st s1" "record_audit e dump a s1 = Inr (s2, u)"
  shows "store_trace ok e st s2"
proof (rule store_trace_snoc [OF assms(1), where x = "RecordAudit (dump a) a"])
  have "record_audit e (\<lambda>_. dump a) a s1 = Inr (s2, u)" using assms(2) by (simp add: record_audit_def)
  then show "step e (RecordAudit (dump a) a) s1 = s2" by simp
qed (use record_audit_frame [OF assms(2)] in simp_all)

lemma store_trace_reserve:
  "store_trace ok e st s1 \<Longrightarrow> reserve_planned_call i s1 = Inr (s2, r) \<Longrightarrow> store_trace ok e st s2"
  by (rule store_trace_snoc [where x = "ReservePlannedCall i"])
    (use reserve_planned_call_frame [of i s1 s2 r] in simp_all)

lemma store_trace_mark:
  "store_trace ok e st s1 \<Longrightarrow> mark_planned_call_dispatching i f s1 = Inr (s2, r) \<Longrightarrow> store_trace ok e st s2"
  by (rule store_trace_snoc [where x = "MarkDispatching i f"])
    (use mark_planned_call_dispatching_frame [of i f s1 s2 r] in simp_all)

lemma store_trace_complete:
  "store_trace ok e st s1 \<Longrightarrow> complete_planned_call e i f res settlement s1 = Inr (s2, r) \<Longrightarrow>
   ok res settlement \<Longrightarrow> store_trace ok e st s2"
  by (rule store_trace_snoc [where x = "CompletePlannedCall i f res settlement"])
    (use complete_planned_call_frame [of e i f res settlement s1 s2 r] in simp_all)

text \<open>
  The part of the state an invocation moves through until its adapter is called, and what a step
  between may not touch.
\<close>

record frozen =
  frz_calls :: "adapter_call list"
  frz_active :: "(string \<times> int) list"
  frz_effects :: "string list"
  frz_started :: bool

definition frozen_of :: "gateway_state \<Rightarrow> frozen" where
  "frozen_of s = \<lparr>frz_calls = gst_calls s, frz_active = gst_active s, frz_effects = gst_effects s,
     frz_started = gst_started s\<rparr>"

lemma frozen_of_updates [simp]:
  "frozen_of (s\<lparr>gst_store := st\<rparr>) = frozen_of s"
  "frozen_of (s\<lparr>gst_ids := n\<rparr>) = frozen_of s"
  "frozen_of (s\<lparr>gst_fingerprint := f\<rparr>) = frozen_of s"
  "frozen_of (s\<lparr>gst_call_id := k\<rparr>) = frozen_of s"
  "frozen_of (s\<lparr>gst_status := z\<rparr>) = frozen_of s"
  "frozen_of (s\<lparr>gst_reserved := b\<rparr>) = frozen_of s"
  "frozen_of (s\<lparr>gst_started := b\<rparr>) = (frozen_of s)\<lparr>frz_started := b\<rparr>"
  "frozen_of (s\<lparr>gst_active := slots\<rparr>) = (frozen_of s)\<lparr>frz_active := slots\<rparr>"
  "frozen_of (s\<lparr>gst_calls := cs\<rparr>) = (frozen_of s)\<lparr>frz_calls := cs\<rparr>"
  "frozen_of (s\<lparr>gst_effects := xs\<rparr>) = (frozen_of s)\<lparr>frz_effects := xs\<rparr>"
  by (simp_all add: frozen_of_def)

lemma frozen_of_fields [simp]:
  "frz_calls (frozen_of s) = gst_calls s" "frz_active (frozen_of s) = gst_active s"
  "frz_effects (frozen_of s) = gst_effects s" "frz_started (frozen_of s) = gst_started s"
  by (simp_all add: frozen_of_def)

definition traced ::
  "(tool_result_envelope \<Rightarrow> effect_settlement \<Rightarrow> bool) \<Rightarrow> gateway_env \<Rightarrow> store \<Rightarrow> (frozen \<Rightarrow> bool)
   \<Rightarrow> gateway_state \<Rightarrow> bool" where
  "traced ok env st F s \<longleftrightarrow> store_trace ok (gev_env env) st (gst_store s) \<and> F (frozen_of s)"

lemma traced_mono: "traced ok env st F s \<Longrightarrow> (\<And>z. F z \<Longrightarrow> F' z) \<Longrightarrow> traced ok env st F' s"
  by (simp add: traced_def)

lemma traced_runs: "traced ok env st F s \<Longrightarrow> runs (gst_store s) = runs st"
  by (simp add: traced_def store_trace_def)

lemma audit_traced: "keeps (traced ok env st F) (audit_call env ctx event_type v reason)"
  by (rule keeps_audit) (auto simp: traced_def intro: store_trace_audit)

lemma complete_traced:
  "(\<And>s. P s \<Longrightarrow> traced ok env st F s \<and> ok res settlement) \<Longrightarrow>
   triple P (complete_journaled_call env res settlement) (\<lambda>_. traced ok env st F) (traced ok env st F)"
  unfolding complete_journaled_call_def triple_def on_store_def
  by (auto simp: traced_def split: sum.splits intro: store_trace_complete)

subsection \<open>Dispatch\<close>

lemma requested_cong: "runs s = runs s' \<Longrightarrow> requested r s = requested r s'"
  by (simp add: requested_def get_run_def)

definition may_dispatch ::
  "gateway_env \<Rightarrow> invocation_context \<Rightarrow> tool_contract \<Rightarrow> authorized_call \<Rightarrow> store \<Rightarrow> frozen
   \<Rightarrow> (string \<times> string) list \<Rightarrow> bool" where
  "may_dispatch env ctx contract auth st z credentials \<longleftrightarrow>
     \<not> requested (ivc_run_id ctx) st \<and>
     active_slots (frz_active z) (slot_key ctx contract) < rq_concurrency (ivc_resources ctx) \<and>
     gev_credentials env (acd_credentials auth) = Inr credentials \<and>
     gev_adapters env (tc_adapter contract) \<noteq> None"

definition acquired :: "invocation_context \<Rightarrow> tool_contract \<Rightarrow> frozen \<Rightarrow> frozen" where
  "acquired ctx contract z = z\<lparr>frz_active := slots_acquired (slot_key ctx contract) (frz_active z)\<rparr>"

definition given_back :: "invocation_context \<Rightarrow> tool_contract \<Rightarrow> frozen \<Rightarrow> frozen" where
  "given_back ctx contract z = z\<lparr>frz_started := True, frz_active :=
     slots_released (slot_key ctx contract) (slots_acquired (slot_key ctx contract) (frz_active z))\<rparr>"

definition called ::
  "invocation_context \<Rightarrow> tool_contract \<Rightarrow> arguments \<Rightarrow> authorized_call \<Rightarrow> string \<Rightarrow> frozen
   \<Rightarrow> (string \<times> string) list \<Rightarrow> frozen" where
  "called ctx contract args auth call_id z credentials =
     (given_back ctx contract z)\<lparr>frz_calls := frz_calls z @
       [adapter_call_of ctx contract args auth credentials call_id]\<rparr>"

lemma called_fields [simp]:
  "frz_started (called ctx contract args auth call_id z credentials)"
  "frz_effects (called ctx contract args auth call_id z credentials) = frz_effects z"
  "frz_calls (called ctx contract args auth call_id z credentials) =
     frz_calls z @ [adapter_call_of ctx contract args auth credentials call_id]"
  "frz_active (called ctx contract args auth call_id z credentials) =
     slots_released (slot_key ctx contract) (slots_acquired (slot_key ctx contract) (frz_active z))"
  by (simp_all add: called_def given_back_def)

definition dispatch_stopped ::
  "gateway_env \<Rightarrow> invocation_context \<Rightarrow> tool_contract \<Rightarrow> arguments \<Rightarrow> authorized_call \<Rightarrow> string
   \<Rightarrow> store \<Rightarrow> frozen \<Rightarrow> frozen \<Rightarrow> bool" where
  "dispatch_stopped env ctx contract args auth call_id st z z' \<longleftrightarrow>
     z' = z \<or> z' = given_back ctx contract z \<or>
     active_slots (frz_active z) (slot_key ctx contract) < rq_concurrency (ivc_resources ctx) \<and>
       (z' = acquired ctx contract z \<or> z' = (acquired ctx contract z)\<lparr>frz_started := True\<rparr>) \<or>
     (\<exists>credentials. may_dispatch env ctx contract auth st z credentials \<and>
        z' = called ctx contract args auth call_id z credentials)"

lemma perform_traced:
  "triple (traced ok env st (\<lambda>y. y = z))
     (perform_call env rd adapter call auth configuration before call_id)
     (\<lambda>_. traced ok env st (\<lambda>y. y = z\<lparr>frz_calls := frz_calls z @ [call]\<rparr>))
     (traced ok env st (\<lambda>y. y = z \<or> y = z\<lparr>frz_calls := frz_calls z @ [call]\<rparr>))"
proof -
  let ?A = "traced ok env st (\<lambda>y. y = z)"
  let ?B = "traced ok env st (\<lambda>y. y = z\<lparr>frz_calls := frz_calls z @ [call]\<rparr>)"
  let ?E = "traced ok env st (\<lambda>y. y = z \<or> y = z\<lparr>frz_calls := frz_calls z @ [call]\<rparr>)"
  have A: "?A s \<Longrightarrow> ?E s" and B: "?B s \<Longrightarrow> ?E s" for s by (simp_all add: traced_def)
  have state: "triple ?A (check_path_state env (rds_before rd) auth) (\<lambda>_. ?A) ?E"
    unfolding check_path_state_def by (rule triple_return) (use A in simp_all)
  have recorded: "triple ?A (gset (\<lambda>s. s\<lparr>gst_calls := gst_calls s @ [call]\<rparr>)) (\<lambda>_. ?B) ?E"
    by (rule triple_set) (auto simp: traced_def)
  have answer: "triple ?B (greturn r) (\<lambda>_. ?B) ?E" for r :: "'b outcome"
    by (rule triple_return) (use B in simp_all)
  have status: "triple ?B (gset (\<lambda>s. s\<lparr>gst_status := Some x\<rparr>)) (\<lambda>_. ?B) ?E" for x
    by (rule triple_set) (simp add: traced_def)
  show ?thesis
    unfolding perform_call_def
    by (rule triple_bind [OF state], rule triple_bind [OF recorded], rule triple_bind [OF answer],
        rule triple_bind [OF status])
      (auto intro!: answer triple_bind [OF answer] triple_bind [OF status] split: option.split)
qed

lemma releasing_traced:
  assumes "triple P m (\<lambda>_. traced ok env st F) (traced ok env st G)"
    and "\<And>z. F z \<Longrightarrow> F' (z\<lparr>frz_active := slots_released key (frz_active z)\<rparr>)"
    and "\<And>z. G z \<Longrightarrow> G' (z\<lparr>frz_active := slots_released key (frz_active z)\<rparr>)"
  shows "triple P (releasing key m) (\<lambda>_. traced ok env st F') (traced ok env st G')"
proof (rule tripleI)
  fix s a s'
  assume P: "P s" and run: "releasing key m s = (Inr a, s')"
  obtain s1 where m: "m s = (Inr a, s1)" and s': "s' = release key s1"
    using run by (auto simp: releasing_def split: prod.splits)
  show "traced ok env st F' s'"
    using tripleD(1) [OF assms(1) P m] assms(2) [of "frozen_of s1"]
    by (simp add: s' release_def traced_def)
next
  fix s e s'
  assume P: "P s" and run: "releasing key m s = (Inl e, s')"
  obtain s1 where m: "m s = (Inl e, s1)" and s': "s' = release key s1"
    using run by (auto simp: releasing_def split: prod.splits)
  show "traced ok env st G' s'"
    using tripleD(2) [OF assms(1) P m] assms(3) [of "frozen_of s1"]
    by (simp add: s' release_def traced_def)
qed

lemma dispatch_traced:
  "triple (traced ok env st (\<lambda>y. y = z))
     (dispatch_call env rd ctx contract args auth call_id)
     (\<lambda>(credentials, result). traced ok env st (\<lambda>y. may_dispatch env ctx contract auth st z credentials \<and>
        y = called ctx contract args auth call_id z credentials))
     (traced ok env st (dispatch_stopped env ctx contract args auth call_id st z))"
proof -
  let ?A = "traced ok env st (\<lambda>y. y = z)" and ?key = "slot_key ctx contract"
  let ?L = "traced ok env st (\<lambda>y. y = acquired ctx contract z)"
  let ?S = "traced ok env st (\<lambda>y. y = (acquired ctx contract z)\<lparr>frz_started := True\<rparr>)"
  let ?E = "traced ok env st (dispatch_stopped env ctx contract args auth call_id st z)"
  let ?free = "active_slots (frz_active z) ?key < rq_concurrency (ivc_resources ctx)"
  have A: "?A s \<Longrightarrow> ?E s" and L: "?free \<Longrightarrow> ?L s \<Longrightarrow> ?E s" and S: "?free \<Longrightarrow> ?S s \<Longrightarrow> ?E s" for s
    by (simp_all add: traced_def dispatch_stopped_def)
  have authorized: "triple ?A (audit_call env ctx ev v reason) (\<lambda>_. ?A) ?E" for ev v reason
    by (rule triple_weaken [OF audit_traced [where F = "\<lambda>y. y = z"]]) (use A in simp_all)
  have cancellation: "triple ?A (\<lambda>s. (if requested (ivc_run_id ctx) (gst_store s) then Inl IsCancelled else Inr (), s))
      (\<lambda>_ s. ?A s \<and> \<not> requested (ivc_run_id ctx) st) ?E"
  proof (rule tripleI)
    fix s a s'
    assume s: "?A s" and "(if requested (ivc_run_id ctx) (gst_store s) then Inl IsCancelled else Inr (), s) = (Inr a, s')"
    then have "s' = s \<and> \<not> requested (ivc_run_id ctx) (gst_store s)" by (simp split: if_splits)
    then show "?A s' \<and> \<not> requested (ivc_run_id ctx) st"
      using s requested_cong [OF traced_runs [OF s]] by simp
  qed (use A in \<open>auto split: if_splits\<close>)
  have pure: "triple (\<lambda>s. ?A s \<and> b) (greturn r) (\<lambda>a s. ?A s \<and> b \<and> r = Inr a) ?E"
      for b and r :: "'c outcome"
    by (rule triple_return) (use A in simp_all)
  have slot: "triple (\<lambda>s. ?A s \<and> b) (acquire ?key (rq_concurrency (ivc_resources ctx)))
      (\<lambda>free s. traced ok env st (\<lambda>y. y = (if free then acquired ctx contract z else z)) s \<and>
         b \<and> (free \<longrightarrow> ?free)) ?E" for b
    by (rule tripleI) (auto simp: acquire_def traced_def acquired_def split: if_splits)
  have bound: "triple (\<lambda>s. traced ok env st (\<lambda>y. y = (if free then acquired ctx contract z else z)) s \<and>
         b \<and> (free \<longrightarrow> ?free))
      (greturn (check free TOOL_UNAVAILABLE message)) (\<lambda>_ s. ?L s \<and> b \<and> ?free) ?E" for b free message
    by (rule triple_return) (use A L in \<open>auto split: if_splits\<close>)
  have snapshot: "triple (\<lambda>s. ?L s \<and> b \<and> ?free) (greturn r) (\<lambda>_ s. ?L s \<and> b \<and> ?free) ?E"
      for b and r :: "'d outcome"
    by (rule triple_return) (use L in simp_all)
  have mark: "triple (\<lambda>s. ?L s \<and> b \<and> ?free)
      (\<lambda>s. if gst_reserved s then on_store (mark_planned_call_dispatching call_id (the (gst_fingerprint s))) s
           else (Inr (), s)) (\<lambda>_ s. ?L s \<and> b \<and> ?free) ?E" for b
    by (rule tripleI) (auto simp: on_store_def traced_def dispatch_stopped_def intro: store_trace_mark
        split: if_splits sum.splits)
  have begun: "triple (\<lambda>s. ?L s \<and> b \<and> ?free) (gset (\<lambda>s. s\<lparr>gst_started := True\<rparr>))
      (\<lambda>_ s. ?S s \<and> b \<and> ?free) ?E" for b
    by (rule triple_set) (simp add: traced_def)
  have started: "triple (\<lambda>s. ?S s \<and> b \<and> ?free) (audit_call env ctx ev v reason)
      (\<lambda>_ s. ?S s \<and> b \<and> ?free) ?E" for b ev v reason
  proof (cases "b \<and> ?free")
    case True
    then show ?thesis
      by (intro triple_weaken [OF audit_traced [where F = "\<lambda>y. y = (acquired ctx contract z)\<lparr>frz_started := True\<rparr>"]])
        (use S in simp_all)
  qed (auto simp: triple_def)
  have performed: "triple (\<lambda>s. ?S s \<and> may_dispatch env ctx contract auth st z credentials)
      (releasing ?key (perform_call env rd adapter (adapter_call_of ctx contract args auth credentials call_id)
         auth configuration before call_id))
      (\<lambda>_. traced ok env st (\<lambda>y. may_dispatch env ctx contract auth st z credentials \<and>
         y = called ctx contract args auth call_id z credentials)) ?E"
      for credentials adapter configuration before
  proof (cases "may_dispatch env ctx contract auth st z credentials")
    case True
    have "triple ?S (releasing ?key (perform_call env rd adapter
          (adapter_call_of ctx contract args auth credentials call_id) auth configuration before call_id))
        (\<lambda>_. traced ok env st (\<lambda>y. y = called ctx contract args auth call_id z credentials)) ?E"
      by (rule releasing_traced [OF perform_traced])
        (use True in \<open>auto simp: called_def given_back_def acquired_def dispatch_stopped_def\<close>)
    then show ?thesis using True by simp
  qed (simp add: triple_def)
  have finished: "triple (traced ok env st (\<lambda>y. may_dispatch env ctx contract auth st z credentials \<and>
         y = called ctx contract args auth call_id z credentials))
      (greturn (Inr (credentials, result)))
      (\<lambda>(credentials, result). traced ok env st (\<lambda>y. may_dispatch env ctx contract auth st z credentials \<and>
        y = called ctx contract args auth call_id z credentials)) ?E" for credentials result
    by (rule triple_return) (auto simp: traced_def dispatch_stopped_def)
  show ?thesis
    unfolding dispatch_call_def Let_def
    apply (rule triple_bind [OF authorized], rule triple_bind [OF cancellation],
        rule triple_bind [OF pure], rule triple_bind [OF pure], rule triple_bind [OF slot],
        rule triple_bind [OF bound], rule triple_bind [OF snapshot], rule triple_bind [OF mark],
        rule triple_bind [OF begun], rule triple_bind [OF started])
    apply (rule triple_bind [OF triple_weaken [OF performed]])
    apply (auto simp: may_dispatch_def split: option.splits) [1]
    apply assumption
    apply assumption
    apply (rule finished)
    done
qed

subsection \<open>The whole invocation\<close>

lemma reserve_traced:
  "keeps (traced ok env st F) (reserve_call env ctx contract args d planned auth call_id)"
  unfolding reserve_call_def Let_def
proof (rule triple_case_option)
  let ?I = "traced ok env st F"
  show "keeps ?I (greturn (Inr None))" by (rule keeps_return)
  fix k
  let ?fp = "planned_request_fingerprint env ctx contract k args d (ad_request_fingerprint (acd_authorization auth))"
  have local: "keeps ?I (gset f)" if "\<And>s. ?I s \<Longrightarrow> ?I (f s)" for f
    by (rule triple_set) (rule that)
  have stored: "keeps ?I (on_store (reserve_planned_call i))" for i
    by (rule triple_on_store) (auto simp: traced_def intro: store_trace_reserve)
  show "keeps ?I (gbind (gset (\<lambda>s. s\<lparr>gst_fingerprint := Some ?fp\<rparr>)) (\<lambda>_.
      gbind (on_store (reserve_planned_call
        (identity_of_call ctx contract call_id k ?fp (ar_effects (acd_request auth)))))
        (\<lambda>replayed. case replayed of
           None \<Rightarrow> gbind (gset (\<lambda>s. s\<lparr>gst_reserved := True\<rparr>)) (\<lambda>_. greturn (Inr None))
         | Some res \<Rightarrow> gbind (audit_call env ctx ''tool.call_replayed'' (call_status_name (te_status res))
             ''returned the exact durable planned-call result'') (\<lambda>_. greturn (Inr (Some res))))))"
    by (intro keeps_bind [OF local] keeps_bind [OF stored] triple_case_option
        keeps_bind [OF audit_traced] keeps_return)
      (simp_all add: traced_def)
qed

definition ended ::
  "gateway_env \<Rightarrow> invocation_context \<Rightarrow> tool_contract \<Rightarrow> arguments \<Rightarrow> authorized_call \<Rightarrow> store
   \<Rightarrow> frozen \<Rightarrow> frozen \<Rightarrow> bool" where
  "ended env ctx contract args auth st z z' \<longleftrightarrow>
     z' = z \<or> (\<exists>call_id. dispatch_stopped env ctx contract args auth call_id st
       (z\<lparr>frz_effects := ar_effects (acd_request auth)\<rparr>) z')"

lemma finish_traced:
  assumes "\<And>s. traced ok env st F s \<Longrightarrow> gst_started s"
    and "\<And>res. ok res (effect_settlement_of (ar_effects (acd_request auth)) res True)"
  shows "keeps (traced ok env st F) (finish_call env rd ctx contract auth call_id credentials result)"
  unfolding finish_call_def
proof (rule keeps_bind [OF keeps_return], rule keeps_bind [OF audit_traced])
  fix res
  have read: "triple (traced ok env st F) (\<lambda>s. (Inr (gst_started s), s))
      (\<lambda>started s. traced ok env st F s \<and> started) (traced ok env st F)"
    by (rule triple_read) (use assms(1) in simp)
  show "keeps (traced ok env st F) (gbind (\<lambda>s. (Inr (gst_started s), s)) (\<lambda>started.
      complete_journaled_call env res (effect_settlement_of (ar_effects (acd_request auth)) res started)))"
    by (rule triple_bind [OF read], rule complete_traced) (use assms(2) in auto)
qed

lemma body_traced:
  assumes auth: "authorize_call env rd ctx contract args declared approvals = Inr auth"
    and ok: "\<And>res. ok res (effect_settlement_of (ar_effects (acd_request auth)) res True)"
  shows "triple (traced ok env st (\<lambda>y. y = z))
     (invocation_body env rd ctx contract args declared approvals planned)
     (\<lambda>_. traced ok env st (ended env ctx contract args auth st z))
     (traced ok env st (ended env ctx contract args auth st z))"
proof -
  let ?z = "z\<lparr>frz_effects := ar_effects (acd_request auth)\<rparr>"
  let ?E = "traced ok env st (ended env ctx contract args auth st z)"
  let ?A = "traced ok env st (\<lambda>y. y = z)" and ?B = "traced ok env st (\<lambda>y. y = ?z)"
  let ?D = "\<lambda>call_id credentials. traced ok env st (\<lambda>y. may_dispatch env ctx contract auth st ?z credentials \<and>
      y = called ctx contract args auth call_id ?z credentials)"
  have A: "?A s \<Longrightarrow> ?E s" and B: "?B s \<Longrightarrow> ?E s" for s
    by (auto simp: traced_def ended_def dispatch_stopped_def)
  have D: "?D call_id credentials s \<Longrightarrow> ?E s" for call_id credentials s
    by (auto simp: traced_def ended_def dispatch_stopped_def)
  have stopped: "traced ok env st (dispatch_stopped env ctx contract args auth call_id st ?z) s \<Longrightarrow> ?E s"
    for call_id s by (auto simp: traced_def ended_def)
  have authorized: "triple ?A (greturn (Inr auth)) (\<lambda>a s. ?A s \<and> a = auth) ?E"
    by (rule triple_return) (use A in simp_all)
  have identified: "triple (\<lambda>s. ?A s \<and> a = auth) (call_identifier env ctx planned) (\<lambda>_ s. ?A s \<and> a = auth) ?E" for a
    unfolding call_identifier_def
    by (intro triple_case_option triple_new_id triple_return) (use A in \<open>auto simp: traced_def\<close>)
  have named: "triple (\<lambda>s. ?A s \<and> a = auth)
      (gset (\<lambda>s. s\<lparr>gst_call_id := Some call_id, gst_effects := ar_effects (acd_request a)\<rparr>))
      (\<lambda>_ s. ?B s \<and> a = auth) ?E" for a call_id
    by (rule triple_set) (auto simp: traced_def)
  have reserved: "triple (\<lambda>s. ?B s \<and> a = auth)
      (reserve_call env ctx contract args declared planned a call_id) (\<lambda>_ s. ?B s \<and> a = auth) ?E" for a call_id
  proof (cases "a = auth")
    case True
    then show ?thesis
      by (intro triple_weaken [OF reserve_traced [where F = "\<lambda>y. y = ?z"]]) (use B in simp_all)
  qed (simp add: triple_def)
  have dispatched: "triple (\<lambda>s. ?B s \<and> a = auth) (dispatch_call env rd ctx contract args a call_id)
      (\<lambda>(credentials, result). ?D call_id credentials) ?E" for a call_id
  proof (cases "a = auth")
    case True
    then show ?thesis
      by (intro triple_weaken [OF dispatch_traced [where z = ?z]])
        (use stopped in \<open>auto split: prod.splits\<close>)
  qed (simp add: triple_def)
  have finished: "triple (?D call_id credentials)
      (finish_call env rd ctx contract auth call_id credentials result) (\<lambda>_. ?E) ?E"
    for call_id credentials result
  proof (rule triple_weaken)
    show "keeps (?D call_id credentials) (finish_call env rd ctx contract auth call_id credentials result)"
    proof (rule finish_traced [where ok = ok, OF _ ok])
      fix s
      assume "?D call_id credentials s"
      then have "frozen_of s = called ctx contract args auth call_id ?z credentials"
        by (simp add: traced_def)
      then have "frz_started (frozen_of s)" by simp
      then show "gst_started s" by simp
    qed
  qed (use D in simp_all)
  have rest: "triple (\<lambda>s. ?B s \<and> a = auth) (case replayed of
      None \<Rightarrow> gbind (dispatch_call env rd ctx contract args a call_id) (\<lambda>(credentials, result).
        finish_call env rd ctx contract a call_id credentials result)
    | Some res \<Rightarrow> greturn (Inr res)) (\<lambda>_. ?E) ?E" for a call_id replayed
  proof (cases "a = auth")
    case True
    show ?thesis
      unfolding True
      by (intro triple_case_option triple_bind [OF dispatched] triple_return)
        (use B finished in \<open>auto split: prod.splits\<close>)
  qed (simp add: triple_def)
  show ?thesis
    unfolding invocation_body_def auth
    by (rule triple_bind [OF authorized], rule triple_bind [OF identified], rule triple_bind [OF named],
        rule triple_bind [OF reserved], rule rest)
qed

lemma conclude_traced:
  assumes "\<And>s. traced ok env st F s \<Longrightarrow>
      ok res (if gst_started s \<and> gst_effects s \<noteq> [] then SUncertain else SAbsent)"
  shows "keeps (traced ok env st F) (conclude_call env ctx res event_type)"
  unfolding conclude_call_def
proof (rule keeps_bind [OF audit_traced])
  have read: "triple (traced ok env st F)
      (\<lambda>s. (Inr (if gst_started s \<and> gst_effects s \<noteq> [] then SUncertain else SAbsent), s))
      (\<lambda>settlement s. traced ok env st F s \<and> ok res settlement) (traced ok env st F)"
    by (rule triple_read) (use assms in simp)
  show "keeps (traced ok env st F)
      (gbind (\<lambda>s. (Inr (if gst_started s \<and> gst_effects s \<noteq> [] then SUncertain else SAbsent), s))
        (complete_journaled_call env res))"
    by (rule triple_bind [OF read], rule complete_traced) auto
qed

lemma handle_traced:
  assumes "\<And>s res. traced ok env st F s \<Longrightarrow>
      ok res (if gst_started s \<and> gst_effects s \<noteq> [] then SUncertain else SAbsent)"
  shows "keeps (traced ok env st F) (handle_exception env rd ctx e)"
proof (rule tripleI)
  have concluded: "traced ok env st F (snd (conclude_call env ctx res event_type s))"
    if "traced ok env st F s" for res event_type s
    using keeps_snd [OF conclude_traced that] assms by blast
  have "traced ok env st F (snd (handle_exception env rd ctx e s))" if "traced ok env st F s" for s
    using that concluded
    by (simp add: handle_exception_def failed_call_def Let_def split: call_exception.split failure.split)
  then show "traced ok env st F s \<Longrightarrow> handle_exception env rd ctx e s = (Inr a, s') \<Longrightarrow> traced ok env st F s'"
    and "traced ok env st F s \<Longrightarrow> handle_exception env rd ctx e s = (Inl x, s') \<Longrightarrow> traced ok env st F s'" for s a x s'
    by (metis snd_conv)+
qed

end
