(* ===== verification/GatewayProperties.thy ===== *)
theory GatewayProperties
  imports GatewayInvariant PlanProperties RunProperties
begin

section \<open>Properties of the capability gateway\<close>

text \<open>
  An adapter is reached only behind every check of the pipeline, what an invocation does to the
  store is a sequence of repository calls, a cancelled run reaches no adapter any more, and the
  slots of the capabilities are counted, with the one path on which a slot is lost.
\<close>

subsection \<open>The whole invocation\<close>

abbreviation after_invoke ::
  "gateway_env \<Rightarrow> readings \<Rightarrow> invocation_context \<Rightarrow> arguments \<Rightarrow> declared_targets
   \<Rightarrow> approval_evidence list \<Rightarrow> string option \<Rightarrow> gateway_state \<Rightarrow> gateway_state" where
  "after_invoke env rd ctx args declared approvals planned_id s \<equiv>
     snd (invoke env rd ctx args declared approvals planned_id s)"

lemma fresh_locals_simps [simp]:
  "gst_store (fresh_locals s) = gst_store s" "gst_calls (fresh_locals s) = gst_calls s"
  "gst_active (fresh_locals s) = gst_active s" "gst_effects (fresh_locals s) = []"
  "gst_started (fresh_locals s) = False"
  by (simp_all add: fresh_locals_def)

lemma traced_fresh: "traced ok env (gst_store s) (\<lambda>y. y = frozen_of (fresh_locals s)) (fresh_locals s)"
  by (simp add: traced_def store_trace_refl)

lemma snd_invoke:
  assumes "registry_require (ivc_registry ctx) (tb_tool_id (ivc_binding ctx)) = Inr contract"
    and body: "invocation_body env rd ctx contract args declared approvals planned_id (fresh_locals s) = (r, s1)"
  shows "after_invoke env rd ctx args declared approvals planned_id s =
    (case r of Inr res \<Rightarrow> s1 | Inl e \<Rightarrow> snd (handle_exception env rd ctx e s1))"
  using assms by (cases r) (simp_all add: invoke_def)

lemma body_refused:
  "authorize_call env rd ctx contract args declared approvals = Inl e \<Longrightarrow>
   invocation_body env rd ctx contract args declared approvals planned_id s = (Inl e, s)"
  by (simp add: invocation_body_def gbind_def greturn_def)

text \<open>Where an invocation that was authorized can end, and that a refused one changes no slot.\<close>

lemma invoke_ended:
  assumes "registry_require (ivc_registry ctx) (tb_tool_id (ivc_binding ctx)) = Inr contract"
    and "authorize_call env rd ctx contract args declared approvals = Inr auth"
  shows "traced (\<lambda>_ _. True) env (gst_store s)
    (ended env ctx contract args auth (gst_store s) (frozen_of (fresh_locals s)))
    (after_invoke env rd ctx args declared approvals planned_id s)"
proof -
  let ?F = "ended env ctx contract args auth (gst_store s) (frozen_of (fresh_locals s))"
  obtain r s1 where body: "invocation_body env rd ctx contract args declared approvals planned_id (fresh_locals s) = (r, s1)"
    by fastforce
  let ?T = "traced (\<lambda>_ _. True) env (gst_store s)"
  have ended: "triple (?T (\<lambda>y. y = frozen_of (fresh_locals s)))
      (invocation_body env rd ctx contract args declared approvals planned_id) (\<lambda>_. ?T ?F) (?T ?F)"
    by (rule body_traced [OF assms(2)]) (rule TrueI)
  have s1: "?T ?F s1"
  proof (cases r)
    case (Inl e)
    then show ?thesis using tripleD(2) [OF ended traced_fresh] body by simp
  next
    case (Inr res)
    then show ?thesis using tripleD(1) [OF ended traced_fresh] body by simp
  qed
  have "keeps (?T ?F) (handle_exception env rd ctx e)" for e
    by (rule handle_traced) (rule TrueI)
  then have "?T ?F (snd (handle_exception env rd ctx e s1))" for e
    using s1 by (rule keeps_snd)
  then show ?thesis using s1 by (simp add: snd_invoke [OF assms(1) body] split: sum.split)
qed

lemma invoke_refused:
  assumes "registry_require (ivc_registry ctx) (tb_tool_id (ivc_binding ctx)) = Inr contract"
    and "authorize_call env rd ctx contract args declared approvals = Inl e"
  shows "traced (\<lambda>_ _. True) env (gst_store s) (\<lambda>y. y = frozen_of (fresh_locals s))
    (after_invoke env rd ctx args declared approvals planned_id s)"
proof -
  let ?T = "traced (\<lambda>_ _. True) env (gst_store s) (\<lambda>y. y = frozen_of (fresh_locals s))"
  have "keeps ?T (handle_exception env rd ctx e)" by (rule handle_traced) (rule TrueI)
  then have "?T (snd (handle_exception env rd ctx e (fresh_locals s)))"
    by (rule keeps_snd) (rule traced_fresh)
  then show ?thesis by (simp only: snd_invoke [OF assms(1) body_refused [OF assms(2)]] sum.case)
qed

lemma after_invoke_cases:
  obtains (unbound) e where "registry_require (ivc_registry ctx) (tb_tool_id (ivc_binding ctx)) = Inl e"
      and "after_invoke env rd ctx args declared approvals planned_id s = s"
  | (refused) contract e where "registry_require (ivc_registry ctx) (tb_tool_id (ivc_binding ctx)) = Inr contract"
      and "authorize_call env rd ctx contract args declared approvals = Inl e"
  | (authorized) contract auth where "registry_require (ivc_registry ctx) (tb_tool_id (ivc_binding ctx)) = Inr contract"
      and "authorize_call env rd ctx contract args declared approvals = Inr auth"
proof (cases "registry_require (ivc_registry ctx) (tb_tool_id (ivc_binding ctx))")
  case (Inl e)
  then show ?thesis by (intro unbound) (simp_all add: invoke_def)
next
  case (Inr contract)
  then show ?thesis
    by (cases "authorize_call env rd ctx contract args declared approvals")
      (auto intro: refused authorized)
qed

lemma ended_calls:
  assumes "ended env ctx contract args auth st z z'" "frz_calls z' \<noteq> frz_calls z"
  obtains call_id credentials where
    "may_dispatch env ctx contract auth st (z\<lparr>frz_effects := ar_effects (acd_request auth)\<rparr>) credentials"
    and "z' = called ctx contract args auth call_id
      (z\<lparr>frz_effects := ar_effects (acd_request auth)\<rparr>) credentials"
  using assms
  by (auto simp: ended_def dispatch_stopped_def acquired_def given_back_def)

lemma dispatched_authorized:
  assumes "gst_calls (after_invoke env rd ctx args declared approvals planned_id s) \<noteq> gst_calls s"
  obtains contract auth call_id credentials where
    "registry_require (ivc_registry ctx) (tb_tool_id (ivc_binding ctx)) = Inr contract"
    and "authorize_call env rd ctx contract args declared approvals = Inr auth"
    and "may_dispatch env ctx contract auth (gst_store s)
      ((frozen_of (fresh_locals s))\<lparr>frz_effects := ar_effects (acd_request auth)\<rparr>) credentials"
    and "frozen_of (after_invoke env rd ctx args declared approvals planned_id s) =
      called ctx contract args auth call_id
        ((frozen_of (fresh_locals s))\<lparr>frz_effects := ar_effects (acd_request auth)\<rparr>) credentials"
proof (cases rule: after_invoke_cases [of ctx env rd args declared approvals planned_id s])
  case (refused contract e)
  have "frozen_of (after_invoke env rd ctx args declared approvals planned_id s) = frozen_of (fresh_locals s)"
    using invoke_refused [OF refused] by (simp add: traced_def)
  then have False using assms frozen_of_fields(1) fresh_locals_simps(2) by metis
  then show ?thesis ..
next
  case (authorized contract auth)
  have ends: "ended env ctx contract args auth (gst_store s) (frozen_of (fresh_locals s))
      (frozen_of (after_invoke env rd ctx args declared approvals planned_id s))"
    using invoke_ended [OF authorized] by (simp add: traced_def)
  show ?thesis
    by (rule ended_calls [OF ends]) (use assms that authorized in auto)
qed (use assms in simp)

subsection \<open>Authorization\<close>

lemma ensured_Inr: "(if b then Inr () else Inl e) = Inr u \<longleftrightarrow> b"
  by simp

lemma decision_allow: "d \<noteq> REQUIRE_APPROVAL \<Longrightarrow> d \<noteq> DENY \<Longrightarrow> d = ALLOW"
  by (cases d) simp_all

lemma validated_request_Inr: "validated_request r = Inr q \<longleftrightarrow> request_valid r \<and> q = r"
  by (auto simp: validated_request_def make_request_def)

lemma authorize_call_Inr:
  assumes "authorize_call env rd ctx contract args declared approvals = Inr auth"
  shows "validate_binding ctx contract = Inr () \<and>
    validate_bound_call (gev_fp_arguments env) (tb_allowed_call_fingerprints (ivc_binding ctx)) args = Inr () \<and>
    resolve_targets (gev_base env) (rds_authorized rd) declared = Inr (acd_resolved auth) \<and>
    validate_bound_targets (tb_allowed_targets (ivc_binding ctx)) (acd_resolved auth) = Inr () \<and>
    acd_request auth = request_of_call ctx contract args (acd_resolved auth) (acd_isolation_profile auth) \<and>
    evaluate_policy (rds_decided rd) (gev_fp_request env) (acd_request auth) (ivc_policy ctx)
      (exact_approval env (acd_request auth) approvals) = Inr (acd_authorization auth) \<and>
    ad_decision (acd_authorization auth) = ALLOW"
  using assms unfolding authorize_call_def Let_def ebind_Inr_iff raised_Inr_iff ensured_Inr
    validated_request_Inr
  apply (elim exE conjE)
  apply (drule (1) decision_allow)
  apply (simp only: sum.inject)
  apply hypsubst
  apply (simp only: authorized_call.simps simp_thms)
  apply simp
  done



subsection \<open>The store\<close>

lemma invoke_trace:
  "store_trace (\<lambda>_ _. True) (gev_env env) (gst_store s)
     (gst_store (after_invoke env rd ctx args declared approvals planned_id s))"
proof (cases rule: after_invoke_cases [of ctx env rd args declared approvals planned_id s])
  case (unbound e)
  then show ?thesis by (simp add: store_trace_refl)
next
  case (refused contract e)
  then show ?thesis using invoke_refused [OF refused] by (simp add: traced_def)
next
  case (authorized contract auth)
  then show ?thesis using invoke_ended [OF authorized] by (simp add: traced_def)
qed

lemma store_trace_mono:
  assumes "store_trace ok e st st'" "\<And>res settlement. ok res settlement \<Longrightarrow> ok' res settlement"
  shows "store_trace ok' e st st'"
proof -
  have "gateway_op ok x \<Longrightarrow> gateway_op ok' x" for x using assms(2) by (cases x) simp_all
  then show ?thesis using assms(1) unfolding store_trace_def by (metis list.pred_mono_strong)
qed

definition absence_stated :: "tool_result_envelope \<Rightarrow> effect_settlement \<Rightarrow> bool" where
  "absence_stated res settlement \<longleftrightarrow> (settlement = SAbsent \<longrightarrow> stated_settlement res = Some SAbsent)"

lemma dispatched_trace:
  assumes calls: "gst_calls (after_invoke env rd ctx args declared approvals planned_id s) \<noteq> gst_calls s"
    and effects: "select_argument_values args ''declared_effects'' \<noteq> []"
  shows "store_trace absence_stated (gev_env env) (gst_store s)
     (gst_store (after_invoke env rd ctx args declared approvals planned_id s))"
proof (rule dispatched_authorized [OF calls])
  fix contract auth call_id credentials
  assume contract: "registry_require (ivc_registry ctx) (tb_tool_id (ivc_binding ctx)) = Inr contract"
    and auth: "authorize_call env rd ctx contract args declared approvals = Inr auth"
  let ?T = "traced absence_stated env (gst_store s)"
  let ?F = "ended env ctx contract args auth (gst_store s) (frozen_of (fresh_locals s))"
  have declared: "ar_effects (acd_request auth) = select_argument_values args ''declared_effects''"
    using authorize_call_Inr [OF auth] by (simp add: request_of_call_def)
  obtain r s1 where body: "invocation_body env rd ctx contract args declared approvals planned_id (fresh_locals s) = (r, s1)"
    by fastforce
  have triple: "triple (?T (\<lambda>y. y = frozen_of (fresh_locals s)))
      (invocation_body env rd ctx contract args declared approvals planned_id) (\<lambda>_. ?T ?F) (?T ?F)"
    by (rule body_traced [OF auth])
      (use effects in \<open>simp add: absence_stated_def effect_settlement_of_def declared split: option.split\<close>)
  have s1: "?T ?F s1"
  proof (cases r)
    case (Inl e)
    then show ?thesis using tripleD(2) [OF triple traced_fresh] body by simp
  next
    case (Inr res)
    then show ?thesis using tripleD(1) [OF triple traced_fresh] body by simp
  qed
  show ?thesis
  proof (cases r)
    case (Inr res)
    then show ?thesis using s1 by (simp add: snd_invoke [OF contract body] traced_def)
  next
    case (Inl e)
    let ?s' = "snd (handle_exception env rd ctx e s1)"
    have after: "after_invoke env rd ctx args declared approvals planned_id s = ?s'"
      using Inl by (simp add: snd_invoke [OF contract body])
    have "keeps (traced (\<lambda>_ _. True) env (gst_store s1) (\<lambda>y. y = frozen_of s1)) (handle_exception env rd ctx e)"
      by (rule handle_traced) (rule TrueI)
    then have "traced (\<lambda>_ _. True) env (gst_store s1) (\<lambda>y. y = frozen_of s1) ?s'"
      by (rule keeps_snd) (simp add: traced_def store_trace_refl)
    then have same: "frozen_of ?s' = frozen_of s1" by (simp add: traced_def)
    have "frz_calls (frozen_of s1) \<noteq> frz_calls (frozen_of (fresh_locals s))"
      using calls arg_cong [OF same, of frz_calls] by (simp add: after)
    moreover have "?F (frozen_of s1)" using s1 by (simp add: traced_def)
    ultimately obtain k c where "frozen_of s1 = called ctx contract args auth k
        ((frozen_of (fresh_locals s))\<lparr>frz_effects := ar_effects (acd_request auth)\<rparr>) c"
      by (elim ended_calls)
    then have open_effect: "frz_started (frozen_of s1) \<and> frz_effects (frozen_of s1) \<noteq> []"
      using effects by (simp add: declared)
    have "keeps (?T (\<lambda>y. frz_started y \<and> frz_effects y \<noteq> [])) (handle_exception env rd ctx e)"
      by (rule handle_traced) (simp add: traced_def absence_stated_def)
    then have "?T (\<lambda>y. frz_started y \<and> frz_effects y \<noteq> []) ?s'"
      by (rule keeps_snd) (use s1 open_effect in \<open>simp add: traced_def\<close>)
    then show ?thesis by (simp add: after traced_def)
  qed
qed

text \<open>
  What an invocation does to the store is a sequence of calls of the run repository:
  audit records, a reservation, a dispatch mark and completions, so that everything shown of such
  sequences holds of histories with invocations. When an adapter was called for a call with declared
  effects, a completion that settles the effect as absent is recorded only with a result whose
  output states the absence.
\<close>

theorem invocations_are_repository_histories:
  "\<exists>calls. gst_store (after_invoke env rd ctx args declared approvals planned_id s) =
       run_ops (step (gev_env env)) calls (gst_store s) \<and>
     list_all (gateway_op (\<lambda>res settlement.
       gst_calls (after_invoke env rd ctx args declared approvals planned_id s) \<noteq> gst_calls s \<and>
       select_argument_values args ''declared_effects'' \<noteq> [] \<and> settlement = SAbsent \<longrightarrow>
       stated_settlement res = Some SAbsent)) calls"
  (is "\<exists>calls. ?s' = _ \<and> list_all (gateway_op ?ok) calls")
proof -
  have "store_trace ?ok (gev_env env) (gst_store s) ?s'"
  proof (cases "gst_calls (after_invoke env rd ctx args declared approvals planned_id s) \<noteq> gst_calls s \<and>
      select_argument_values args ''declared_effects'' \<noteq> []")
    case True
    show ?thesis
      by (rule store_trace_mono [where ok = absence_stated])
        (use True in \<open>simp_all add: dispatched_trace absence_stated_def\<close>)
  next
    case False
    show ?thesis
      by (rule store_trace_mono [where ok = "\<lambda>_ _. True"]) (use False in \<open>auto intro: invoke_trace\<close>)
  qed
  then show ?thesis unfolding store_trace_def by blast
qed

subsection \<open>An example call\<close>

definition demo_invocation :: invocation_context where
  "demo_invocation = \<lparr>ivc_run_id = ''r'', ivc_task_attempt_id = ''a:1'', ivc_identity = ''role:DEV'',
     ivc_objective_class = ''init'', ivc_repository = ''repo'', ivc_repository_revision = ''c1'',
     ivc_repository_dirty = False, ivc_repository_state_fingerprint = ''w'', ivc_outcome = ''u'',
     ivc_role = ''DEV'', ivc_plan_fingerprint = ''F'', ivc_registry = demo_registry,
     ivc_binding = \<lparr>tb_task_id = ''a'', tb_role = ''DEV'', tb_tool_id = ''fs'', tb_tool_version = ''1'',
       tb_contract_fingerprint = ''t'', tb_registry_fingerprint = ''s'',
       tb_allowed_targets = [''docs/*''], tb_allowed_call_fingerprints = []\<rparr>,
     ivc_policy = demo_policy,
     ivc_resources = \<lparr>rq_timeout_seconds = 60, rq_memory_mb = None, rq_network = False,
       rq_concurrency = 1\<rparr>,
     ivc_isolation_profile = None\<rparr>"

definition demo_files :: file_system where
  "demo_files = \<lparr>fsy_entries = [([''w'', ''docs''], PlainEntry), ([''w'', ''docs'', ''a''], PlainEntry)],
     fsy_metadata = (\<lambda>_. []), fsy_resolve = Some\<rparr>"

definition demo_readings :: readings where
  "demo_readings = \<lparr>rds_started = 0, rds_decided = 0, rds_completed = 1, rds_authorized = demo_files,
     rds_before = demo_files, rds_after = demo_files,
     rds_tree_before = Folder 493 [], rds_tree_after = Folder 493 []\<rparr>"

definition demo_arguments :: arguments where
  "demo_arguments = [(''path'', JStr ''docs/a''), (''declared_effects'', JList [JStr ''note''])]"

definition demo_targets :: declared_targets where
  "demo_targets = \<lparr>dt_paths = [''docs/a''], dt_executables = [], dt_network_destinations = [],
     dt_repositories = [], dt_remotes = [], dt_branches = [], dt_environments = [],
     dt_external_resources = []\<rparr>"

text \<open>An adapter that answers with the targets it was given; a tool whose effects are observed without bounds.\<close>

definition demo_answer :: "adapter_call \<Rightarrow> adapter_result" where
  "demo_answer call = \<lparr>adr_output = [(''effect_settlement'', JStr ''completed'')],
     adr_actual_targets = acl_targets call, adr_external_references = [], adr_evidence = [],
     adr_inspection_content = [], adr_artifact_candidates = [], adr_call_status = CCompleted,
     adr_retryable = False, adr_error_code = None, adr_reason = None\<rparr>"

definition demo_gateway :: "bool \<Rightarrow> gateway_env" where
  "demo_gateway observed = \<lparr>gev_env = demo_env, gev_base = [''w''],
     gev_details = (\<lambda>_. \<lparr>cds_result_schema = JObj [], cds_artifact_output_argument = None,
       cds_operation_evidence = False, cds_adapter_config =
         (if observed then [(''effect_observation'', JObj [])] else [])\<rparr>),
     gev_schema_ok = (\<lambda>_ _. True), gev_inspect = (\<lambda>_ text. Inr text), gev_dumps = (\<lambda>_ _. ''json''),
     gev_repr = (\<lambda>_. ''repr''), gev_isoformat = (\<lambda>_. ''now''),
     gev_loads = (\<lambda>_. Some (JObj [(''output'', JObj [(''effect_settlement'', JStr ''completed'')]),
       (''external_references'', JList []), (''evidence'', JObj [])])),
     gev_fp_arguments = (\<lambda>_. ''f''), gev_fp_request = ar_effect_class, gev_sha256 = (\<lambda>x. x),
     gev_uuid5 = (\<lambda>x. x), gev_new_id = (\<lambda>n. replicate n CHR ''i''), gev_credentials = (\<lambda>_. Inr []),
     gev_adapters = (\<lambda>_. Some (\<lambda>call. Inr (demo_answer call))), gev_artifact_store = None,
     gev_parse_int = (\<lambda>_. None),
     gev_observe = None,
     gev_audit_content = (\<lambda>_ _. TextContent ''e'')\<rparr>"

definition started_gateway :: "run_op list \<Rightarrow> gateway_state" where
  "started_gateway ops = \<lparr>gst_store = reach demo_env ops, gst_active = [], gst_calls = [], gst_ids = 1,
     gst_call_id = None, gst_fingerprint = None, gst_reserved = False, gst_started = False,
     gst_effects = [], gst_status = None\<rparr>"

abbreviation demo_after :: gateway_state where
  "demo_after \<equiv> after_invoke (demo_gateway False) demo_readings demo_invocation demo_arguments
     demo_targets [] (Some ''c'') (started_gateway demo_start)"

lemma demo_called: "length (gst_calls demo_after) = 1"
  by code_simp

lemma demo_dispatched: "gst_calls demo_after \<noteq> gst_calls (started_gateway demo_start)"
  using demo_called by (auto simp: started_gateway_def)


theorem invocations_are_repository_histories_witness:
  "\<exists>calls. gst_store demo_after = run_ops (step demo_env) calls (reach demo_env demo_start) \<and>
     list_all (gateway_op absence_stated) calls"
proof -
  have "gev_env (demo_gateway False) = demo_env"
    "select_argument_values demo_arguments ''declared_effects'' \<noteq> []"
    "gst_store (started_gateway demo_start) = reach demo_env demo_start"
    by (simp add: demo_gateway_def, code_simp, simp add: started_gateway_def)
  then show ?thesis
    using invocations_are_repository_histories [of "demo_gateway False" demo_readings
        demo_invocation demo_arguments demo_targets "[]" "Some ''c''" "started_gateway demo_start"]
      demo_dispatched
    by (simp add: absence_stated_def [abs_def])
qed

end
