(* ===== verification/GatewayHistory.thy ===== *)
theory GatewayHistory
  imports GatewayProperties
begin

section \<open>Histories with invocations\<close>

text \<open>
  The gateway as a machine: an invocation, whatever its parameters, or a call of the run repository
  by another part of the program. What holds after every history: a run whose cancellation was
  requested reaches no adapter any more, and the slots of the capabilities are given back except on
  the one path between the slot and the guarded part of the code.
\<close>

subsection \<open>The machine\<close>

datatype gateway_call =
    Invocation gateway_env readings invocation_context arguments declared_targets
      "approval_evidence list" "string option"
  | RepositoryCall run_op

definition gateway_step :: "environment \<Rightarrow> gateway_call \<Rightarrow> gateway_state \<Rightarrow> gateway_state" where
  "gateway_step e x s =
     (case x of
        Invocation env rd ctx args declared approvals planned_id \<Rightarrow>
          after_invoke (env\<lparr>gev_env := e\<rparr>) rd ctx args declared approvals planned_id s
      | RepositoryCall op \<Rightarrow> s\<lparr>gst_store := step e op (gst_store s)\<rparr>)"

definition idle_gateway :: gateway_state where
  "idle_gateway = \<lparr>gst_store = empty_store, gst_active = [], gst_calls = [], gst_ids = 0,
     gst_call_id = None, gst_fingerprint = None, gst_reserved = False, gst_started = False,
     gst_effects = [], gst_status = None\<rparr>"

lemma gateway_store:
  "\<exists>ops. gst_store (gateway_step e x s) = run_ops (step e) ops (gst_store s)"
proof (cases x)
  case (Invocation env rd ctx args declared approvals planned_id)
  have "store_trace (\<lambda>_ _. True) e (gst_store s) (gst_store (gateway_step e x s))"
    using invoke_trace [of "env\<lparr>gev_env := e\<rparr>"] by (simp add: gateway_step_def Invocation)
  then show ?thesis unfolding store_trace_def by blast
next
  case (RepositoryCall op)
  then have "gst_store (gateway_step e x s) = run_ops (step e) [op] (gst_store s)"
    by (simp add: gateway_step_def)
  then show ?thesis ..
qed

lemma gateway_wf: "run_wf (gst_store s) \<Longrightarrow> run_wf (gst_store (gateway_step e x s))"
  using gateway_store [of e x s] store_machine.run_inv by metis

lemma gateway_evolves: "run_wf (gst_store s) \<Longrightarrow> evolves (gst_store s) (gst_store (gateway_step e x s))"
  using gateway_store [of e x s] store_history.run_leq by metis

subsection \<open>Cancellation\<close>

definition calls_of_run :: "string \<Rightarrow> gateway_state \<Rightarrow> adapter_call list" where
  "calls_of_run run_id s = filter (\<lambda>c. acl_run_id c = run_id) (gst_calls s)"

lemma invocation_calls:
  assumes "requested run_id (gst_store s)"
  shows "calls_of_run run_id (after_invoke env rd ctx args declared approvals planned_id s) = calls_of_run run_id s"
proof (cases "gst_calls (after_invoke env rd ctx args declared approvals planned_id s) = gst_calls s")
  case True
  then show ?thesis by (simp add: calls_of_run_def)
next
  case False
  show ?thesis
  proof (rule dispatched_authorized [OF False])
    fix contract auth call_id credentials
    assume may: "may_dispatch env ctx contract auth (gst_store s)
        ((frozen_of (fresh_locals s))\<lparr>frz_effects := ar_effects (acd_request auth)\<rparr>) credentials"
      and ends: "frozen_of (after_invoke env rd ctx args declared approvals planned_id s) =
        called ctx contract args auth call_id
          ((frozen_of (fresh_locals s))\<lparr>frz_effects := ar_effects (acd_request auth)\<rparr>) credentials"
    have "ivc_run_id ctx \<noteq> run_id" using may assms by (auto simp: may_dispatch_def)
    moreover have "gst_calls (after_invoke env rd ctx args declared approvals planned_id s) =
        gst_calls s @ [adapter_call_of ctx contract args auth credentials call_id]"
      using arg_cong [OF ends, of frz_calls] by simp
    ultimately show ?thesis by (simp add: calls_of_run_def adapter_call_of_def)
  qed
qed

definition silenced :: "string \<Rightarrow> gateway_state \<Rightarrow> gateway_state \<Rightarrow> bool" where
  "silenced run_id s s' \<longleftrightarrow>
     (requested run_id (gst_store s) \<longrightarrow>
        requested run_id (gst_store s') \<and> calls_of_run run_id s' = calls_of_run run_id s)"

lemma gateway_silenced: "run_wf (gst_store s) \<Longrightarrow> silenced run_id s (gateway_step e x s)"
proof -
  assume wf: "run_wf (gst_store s)"
  have "requested run_id (gst_store (gateway_step e x s))" if "requested run_id (gst_store s)"
    by (rule evolves_requested [OF gateway_wf [OF wf] gateway_evolves [OF wf] that])
  moreover have "calls_of_run run_id (gateway_step e x s) = calls_of_run run_id s" if "requested run_id (gst_store s)"
    using invocation_calls [OF that]
    by (simp add: gateway_step_def calls_of_run_def split: gateway_call.split)
  ultimately show ?thesis by (simp add: silenced_def)
qed

interpretation gateway_history:
  machine_monotone "gateway_step e" "\<lambda>s. run_wf (gst_store s)" "silenced run_id" for e run_id
proof
  show "silenced run_id s s" for s by (simp add: silenced_def)
  show "silenced run_id s t \<Longrightarrow> silenced run_id t u \<Longrightarrow> silenced run_id s u" for s t u
    by (simp add: silenced_def)
qed (rule gateway_wf gateway_silenced; assumption)+

text \<open>
  Whatever is invoked afterwards, by whatever adapters and policy, and whatever the rest
  of the program does with the repository: once the cancellation of a run was requested, no adapter
  is called for that run.
\<close>

theorem cancelled_run_reaches_no_adapter:
  assumes "requested run_id (gst_store (run_ops (gateway_step e) before idle_gateway))"
  shows "filter (\<lambda>c. acl_run_id c = run_id) (gst_calls (run_ops (gateway_step e) (before @ after) idle_gateway)) =
    filter (\<lambda>c. acl_run_id c = run_id) (gst_calls (run_ops (gateway_step e) before idle_gateway))"
proof -
  let ?s = "run_ops (gateway_step e) before idle_gateway"
  have "run_wf (gst_store ?s)"
    by (rule gateway_history.run_inv) (simp add: idle_gateway_def run_wf_empty)
  then have "silenced run_id ?s (run_ops (gateway_step e) after ?s)" by (rule gateway_history.run_leq)
  then show ?thesis using assms by (simp add: silenced_def calls_of_run_def run_ops_append)
qed

definition demo_call_of :: "string \<Rightarrow> gateway_call" where
  "demo_call_of k = Invocation (demo_gateway False) demo_readings demo_invocation demo_arguments
     demo_targets [] (Some k)"

definition demo_cancelled :: "gateway_call list" where
  "demo_cancelled = map RepositoryCall demo_start @ [demo_call_of ''c'',
     RepositoryCall (CancelRun 5 ''r'')]"

lemma demo_cancelled_requested:
  "requested ''r'' (gst_store (run_ops (gateway_step demo_env) demo_cancelled idle_gateway))"
  by code_simp

theorem cancelled_run_reaches_no_adapter_witness:
  "filter (\<lambda>c. acl_run_id c = ''r'')
      (gst_calls (run_ops (gateway_step demo_env) (demo_cancelled @ [demo_call_of ''d'']) idle_gateway)) =
    filter (\<lambda>c. acl_run_id c = ''r'') (gst_calls (run_ops (gateway_step demo_env) demo_cancelled idle_gateway))"
  by (rule cancelled_run_reaches_no_adapter [OF demo_cancelled_requested])

subsection \<open>Slots\<close>

lemma active_slots_acquired:
  "active_slots (slots_acquired key slots) = (active_slots slots)(key := active_slots slots key + 1)"
  by (auto simp: active_slots_def slots_acquired_def update_conv' fun_eq_iff)

lemma active_slots_released:
  "0 \<le> active_slots slots key - 1 \<Longrightarrow>
   active_slots (slots_released key slots) = (active_slots slots)(key := active_slots slots key - 1)"
  by (auto simp: active_slots_def slots_released_def Let_def update_conv' delete_conv' fun_eq_iff)

lemma slots_round_trip:
  "0 \<le> active_slots slots key \<Longrightarrow>
   active_slots (slots_released key (slots_acquired key slots)) = active_slots slots"
  by (simp add: active_slots_released active_slots_acquired)

lemma ended_slots:
  assumes "ended env ctx contract args auth st z z'"
  shows "frz_active z' = frz_active z \<or>
    frz_active z' = slots_released (slot_key ctx contract)
      (slots_acquired (slot_key ctx contract) (frz_active z)) \<or>
    frz_active z' = slots_acquired (slot_key ctx contract) (frz_active z) \<and> frz_calls z' = frz_calls z \<and>
      active_slots (frz_active z) (slot_key ctx contract) < rq_concurrency (ivc_resources ctx)"
  using assms by (auto simp: ended_def dispatch_stopped_def given_back_def acquired_def)

text \<open>
  An invocation gives its slot back: the number of active slots of every capability is as
  before. Otherwise no adapter was called and one more slot of the invoked capability is taken,
  within the bound of the binding.
\<close>

theorem slots_are_given_back:
  assumes "\<forall>k. 0 \<le> active_slots (gst_active s) k"
  shows "active_slots (gst_active (after_invoke env rd ctx args declared approvals planned_id s)) =
      active_slots (gst_active s) \<or>
    gst_calls (after_invoke env rd ctx args declared approvals planned_id s) = gst_calls s \<and>
    (\<exists>key. active_slots (gst_active (after_invoke env rd ctx args declared approvals planned_id s)) =
        (active_slots (gst_active s))(key := active_slots (gst_active s) key + 1) \<and>
      active_slots (gst_active s) key < rq_concurrency (ivc_resources ctx))"
proof (cases rule: after_invoke_cases [of ctx env rd args declared approvals planned_id s])
  case (unbound e)
  then show ?thesis by simp
next
  case (refused contract e)
  have "frozen_of (after_invoke env rd ctx args declared approvals planned_id s) = frozen_of (fresh_locals s)"
    using invoke_refused [OF refused] by (simp add: traced_def)
  from arg_cong [OF this, of frz_active] show ?thesis by simp
next
  case (authorized contract auth)
  let ?s' = "after_invoke env rd ctx args declared approvals planned_id s"
  let ?key = "slot_key ctx contract"
  have "ended env ctx contract args auth (gst_store s) (frozen_of (fresh_locals s)) (frozen_of ?s')"
    using invoke_ended [OF authorized] by (simp add: traced_def)
  then have "frz_active (frozen_of ?s') = gst_active s \<or>
      frz_active (frozen_of ?s') = slots_released ?key (slots_acquired ?key (gst_active s)) \<or>
      frz_active (frozen_of ?s') = slots_acquired ?key (gst_active s) \<and>
        frz_calls (frozen_of ?s') = gst_calls s \<and>
        active_slots (gst_active s) ?key < rq_concurrency (ivc_resources ctx)"
    using ended_slots by fastforce
  then show ?thesis
    using assms by (auto simp: slots_round_trip active_slots_acquired)
qed

lemma idle_slots: "\<forall>k. 0 \<le> active_slots (gst_active (started_gateway ops)) k"
  by (simp add: started_gateway_def active_slots_def)

theorem slots_are_given_back_witness:
  "active_slots (gst_active demo_after) ''repo:fs'' = 0"
proof -
  have "gst_calls demo_after \<noteq> gst_calls (started_gateway demo_start)" by (rule demo_dispatched)
  then show ?thesis
    using slots_are_given_back [OF idle_slots, of "demo_gateway False" demo_readings
        demo_invocation demo_arguments demo_targets "[]" "Some ''c''" demo_start]
    by (simp add: started_gateway_def active_slots_def)
qed

text \<open>The steps before the snapshot succeed: the record of the authorization, and the slot.\<close>

lemma audit_call_recorded:
  assumes "gev_inspect env [] reason = Inr reason" "env_inspector (gev_env env) = None"
    and "get_run (gst_store s) (ivc_run_id ctx) \<noteq> None"
    and "Some (gev_new_id env (gst_ids s)) \<notin> ev_id ` set (outbox (gst_store s))"
  shows "\<exists>st. audit_call env ctx ev v reason s = (Inr (), s\<lparr>gst_ids := gst_ids s + 1, gst_store := st\<rparr>) \<and>
    runs st = runs (gst_store s)"
  using assms
  by (auto simp: audit_call_def gbind_def greturn_def new_id_def on_store_def record_audit_def
      require_safe_content_def require_run_def tbl_insert_def from_option_def Let_def
      split: option.splits)

lemma dispatch_without_snapshot:
  assumes "audit_call env ctx ''tool.call_authorized'' ''allow''
      (authorization_reason (acd_authorization auth)) s1 = (Inr (), s2)"
    and "\<not> requested (ivc_run_id ctx) (gst_store s2)"
    and "gev_credentials env (acd_credentials auth) = Inr credentials"
    and "gev_adapters env (tc_adapter contract) = Some adapter"
    and "active_slots (gst_active s2) (slot_key ctx contract) < rq_concurrency (ivc_resources ctx)"
    and "ar_effects (acd_request auth) \<noteq> []"
    and "effect_observation (gev_details env contract) = Some c" "take_workspace_snapshot env (rds_tree_before rd) c = Inl e"
  shows "dispatch_call env rd ctx contract args auth call_id s1 =
    (Inl e, s2\<lparr>gst_active := slots_acquired (slot_key ctx contract) (gst_active s2)\<rparr>)"
  using assms by (simp add: dispatch_call_def Let_def gbind_def greturn_def acquire_def)

text \<open>
  The base snapshot of the workspace is taken after the slot was acquired and before the
  code that releases it: when it raises, the invocation ends without calling the adapter and its slot
  stays taken, so that every later invocation meets one slot less.
\<close>

theorem failed_snapshot_leaks_slot:
  assumes bound: "registry_require (ivc_registry ctx) (tb_tool_id (ivc_binding ctx)) = Inr contract"
    and auth: "authorize_call env rd ctx contract args declared approvals = Inr auth"
    and effects: "ar_effects (acd_request auth) \<noteq> []"
    and observed: "effect_observation (gev_details env contract) = Some c"
    and scan: "take_workspace_snapshot env (rds_tree_before rd) c = Inl e"
    and live: "get_run (gst_store s) (ivc_run_id ctx) \<noteq> None" "\<not> requested (ivc_run_id ctx) (gst_store s)"
    and audit: "gev_inspect env [] (authorization_reason (acd_authorization auth)) =
        Inr (authorization_reason (acd_authorization auth))" "env_inspector (gev_env env) = None"
      "Some (gev_new_id env (gst_ids s + 1)) \<notin> ev_id ` set (outbox (gst_store s))"
    and ready: "gev_credentials env (acd_credentials auth) = Inr credentials"
      "gev_adapters env (tc_adapter contract) = Some adapter"
    and free: "active_slots (gst_active s) (slot_key ctx contract) < rq_concurrency (ivc_resources ctx)"
  shows "gst_calls (after_invoke env rd ctx args declared approvals None s) = gst_calls s \<and>
    active_slots (gst_active (after_invoke env rd ctx args declared approvals None s)) =
      (active_slots (gst_active s))(slot_key ctx contract :=
        active_slots (gst_active s) (slot_key ctx contract) + 1)"
proof -
  let ?key = "slot_key ctx contract"
  let ?s1 = "(fresh_locals s)\<lparr>gst_ids := gst_ids s + 1, gst_call_id := Some (gev_new_id env (gst_ids s)),
      gst_effects := ar_effects (acd_request auth)\<rparr>"
  have locals: "gst_ids ?s1 = gst_ids s + 1" "gst_store ?s1 = gst_store s" "gst_active ?s1 = gst_active s"
    by simp_all
  obtain st where audited: "audit_call env ctx ''tool.call_authorized'' ''allow''
      (authorization_reason (acd_authorization auth)) ?s1 =
      (Inr (), ?s1\<lparr>gst_ids := gst_ids ?s1 + 1, gst_store := st\<rparr>)" and st: "runs st = runs (gst_store s)"
    using audit_call_recorded [of env "authorization_reason (acd_authorization auth)" ?s1 ctx] audit live
    unfolding locals by blast
  let ?s2 = "?s1\<lparr>gst_ids := gst_ids ?s1 + 1, gst_store := st,
      gst_active := slots_acquired ?key (gst_active s)\<rparr>"
  have dispatched: "dispatch_call env rd ctx contract args auth (gev_new_id env (gst_ids s)) ?s1 = (Inl e, ?s2)"
    by (subst dispatch_without_snapshot [OF audited _ ready _ effects observed scan])
      (use live(2) requested_cong [OF st] free in simp_all)
  have "invocation_body env rd ctx contract args declared approvals None (fresh_locals s) = (Inl e, ?s2)"
    using dispatched auth
    by (simp add: invocation_body_def gbind_def greturn_def gset_def call_identifier_def new_id_def
        reserve_call_def fresh_locals_def)
  then have after: "after_invoke env rd ctx args declared approvals None s = snd (handle_exception env rd ctx e ?s2)"
    by (simp add: snd_invoke [OF bound])
  let ?T = "traced (\<lambda>_ _. True) env (gst_store ?s2) (\<lambda>y. y = frozen_of ?s2)"
  have "keeps ?T (handle_exception env rd ctx e)" by (rule handle_traced) (rule TrueI)
  then have "?T (snd (handle_exception env rd ctx e ?s2))"
    by (rule keeps_snd) (simp add: traced_def store_trace_refl)
  then have same: "frozen_of (snd (handle_exception env rd ctx e ?s2)) = frozen_of ?s2"
    by (simp add: traced_def)
  show ?thesis
    using arg_cong [OF same, of frz_calls] arg_cong [OF same, of frz_active]
    by (simp add: after active_slots_acquired)
qed

abbreviation leaking :: gateway_env where
  "leaking \<equiv> demo_gateway True"

abbreviation leaking_authorized :: "authorized_call outcome" where
  "leaking_authorized \<equiv>
     authorize_call leaking demo_readings demo_invocation demo_contract demo_arguments demo_targets []"

lemma leaking_authorization:
  "\<not> is_error leaking_authorized"
  "ar_effects (acd_request (projr leaking_authorized)) \<noteq> []"
  by code_simp+

lemma leaking_store:
  "get_run (reach demo_env demo_start) ''r'' \<noteq> None" "\<not> requested ''r'' (reach demo_env demo_start)"
  "Some ''ii'' \<notin> ev_id ` set (outbox (reach demo_env demo_start))"
  by code_simp+

lemma leaking_bound:
  "registry_require (ivc_registry demo_invocation) (tb_tool_id (ivc_binding demo_invocation)) = Inr demo_contract"
  by code_simp

theorem failed_snapshot_leaks_slot_witness:
  "active_slots (gst_active (after_invoke leaking demo_readings demo_invocation demo_arguments demo_targets []
     None (started_gateway demo_start))) ''repo:fs'' = 1"
proof -
  have auth: "leaking_authorized = Inr (projr leaking_authorized)"
    using leaking_authorization(1) by (cases leaking_authorized) (simp_all add: is_error_def)
  show ?thesis
    using failed_snapshot_leaks_slot [OF leaking_bound auth leaking_authorization(2), of "[]" "Fails KeyError"
        "started_gateway demo_start" "[]" "\<lambda>call. Inr (demo_answer call)"] leaking_store
    by (simp add: demo_gateway_def effect_observation_def take_workspace_snapshot_def
        workspace_snapshot_of_def limits_of_def int_field_def demo_invocation_def demo_env_def demo_contract_def started_gateway_def
        active_slots_def slot_key_def)
qed

end
