(* ===== verification/WorkspaceProperties.thy ===== *)
theory WorkspaceProperties
  imports WorkspaceScan
begin

section \<open>Properties of the workspace snapshots\<close>

text \<open>
  What a snapshot shows of the tree: a complete one shows every path that is not excluded, so that
  two complete snapshots without a changed path come from trees that agree there; and the bounds
  of a configuration hold for every snapshot.
\<close>

subsection \<open>The tree without limits\<close>

definition node_entry ::
  "(string \<Rightarrow> string) \<Rightarrow> snapshot_limits \<Rightarrow> workspace_node \<Rightarrow> json option" where
  "node_entry sha limits node =
     (case node of
        Folder mode _ \<Rightarrow> Some (folder_entry mode)
      | ClosedFolder mode _ \<Rightarrow> Some (folder_entry mode)
      | LinkNode mode target \<Rightarrow> Some (link_entry mode target)
      | SpecialNode mode \<Rightarrow> Some (special_entry mode)
      | FileNode mode _ (ReadContent content) \<Rightarrow> Some (file_entry sha mode (bytes_read limits content))
      | _ \<Rightarrow> None)"

definition excluded :: "snapshot_limits \<Rightarrow> string \<Rightarrow> bool" where
  "excluded limits relative \<longleftrightarrow> list_ex (\<lambda>pattern. fnmatch pattern relative) (slm_exclusions limits)"

fun tree_entries ::
  "(string \<Rightarrow> string) \<Rightarrow> snapshot_limits \<Rightarrow> string list \<Rightarrow> workspace_node \<Rightarrow> (string \<times> json) list"
  and child_entries ::
  "(string \<Rightarrow> string) \<Rightarrow> snapshot_limits \<Rightarrow> string list \<Rightarrow> (string \<times> workspace_node) list
   \<Rightarrow> (string \<times> json) list" where
  "tree_entries sha limits folder (Folder mode children) = child_entries sha limits folder children"
| "tree_entries sha limits folder _ = []"
| "child_entries sha limits folder [] = []"
| "child_entries sha limits folder ((name, node) # rest) =
     (if excluded limits (join_path (folder @ [name])) then []
      else (case node_entry sha limits node of None \<Rightarrow> [] | Some e \<Rightarrow> [(join_path (folder @ [name]), e)]) @
        tree_entries sha limits (folder @ [name]) node) @
     child_entries sha limits folder rest"

definition pending_entries ::
  "(string \<Rightarrow> string) \<Rightarrow> snapshot_limits \<Rightarrow> pending_folders \<Rightarrow> (string \<times> json) list" where
  "pending_entries sha limits pending = concat (map (\<lambda>(folder, node). tree_entries sha limits folder node) pending)"

lemma pending_entries_simps [simp]:
  "pending_entries sha limits [] = []"
  "pending_entries sha limits ((folder, node) # pending) =
     tree_entries sha limits folder node @ pending_entries sha limits pending"
  by (simp_all add: pending_entries_def)

lemma child_entries_Cons:
  "child_entries sha limits folder (child # rest) =
     child_entries sha limits folder [child] @ child_entries sha limits folder rest"
  by (cases child) simp

lemma child_entries_mset:
  "mset (child_entries sha limits folder children) =
     (\<Sum>child \<in># mset children. mset (child_entries sha limits folder [child]))"
proof (induction children)
  case (Cons child rest)
  have "mset (child_entries sha limits folder (child # rest)) =
      mset (child_entries sha limits folder [child]) + mset (child_entries sha limits folder rest)"
    by (subst child_entries_Cons) simp
  then show ?case using Cons.IH by (simp del: child_entries.simps)
qed simp

lemma child_entries_sorted:
  "mset (child_entries sha limits folder (sort_key fst children)) = mset (child_entries sha limits folder children)"
  unfolding child_entries_mset [of sha limits folder "sort_key fst children"]
    child_entries_mset [of sha limits folder children] mset_sort ..

lemma tree_entries_no_folder: "\<not> is_folder node \<Longrightarrow> tree_entries sha limits folder node = []"
  by (cases node) simp_all

lemma update_fresh: "k \<notin> fst ` set al \<Longrightarrow> AList.update k v al = al @ [(k, v)]"
  by (induction al) auto

subsection \<open>Completeness\<close>

lemma omitted_incomplete [simp]: "\<not> sca_complete (omitted why st)"
  by (simp add: omitted_def)

lemma entered_fields [simp]:
  "sca_complete (entered path entry st) = sca_complete st" "sca_total (entered path entry st) = sca_total st"
  "sca_entries (entered path entry st) = AList.update path entry (sca_entries st)"
  by (simp_all add: entered_def)

lemma scan_entry_complete:
  assumes "sca_complete (scan_entry sha limits relative node st)"
  shows "sca_complete st \<and>
    sca_entries (scan_entry sha limits relative node st) =
      (case node_entry sha limits node of None \<Rightarrow> sca_entries st
       | Some e \<Rightarrow> AList.update relative e (sca_entries st))"
  using assms
  by (auto simp: scan_entry_def node_entry_def Let_def split: workspace_node.splits file_read.splits if_splits)

lemma scan_entry_incomplete: "\<not> sca_complete st \<Longrightarrow> \<not> sca_complete (scan_entry sha limits relative node st)"
  using scan_entry_complete by blast

lemma scan_children_step:
  assumes "scan_children sha limits folder ((name, node) # rest) pending st = (pending', st')" "sca_complete st'"
  obtains (excluded) "excluded limits (join_path (folder @ [name]))"
      "scan_children sha limits folder rest pending st = (pending', st')"
    | (entered) "\<not> excluded limits (join_path (folder @ [name]))" "scan_children sha limits folder rest
        (if is_folder node then (folder @ [name], node) # pending else pending)
        (scan_entry sha limits (join_path (folder @ [name])) node st) = (pending', st')"
  using assms unfolding scan_children.simps Let_def excluded_def by (auto split: if_splits)

lemma scan_children_monotone:
  "scan_children sha limits folder children pending st = (pending', st') \<Longrightarrow> sca_complete st' \<Longrightarrow> sca_complete st"
proof (induction children arbitrary: pending st)
  case (Cons child rest)
  obtain name node where child: "child = (name, node)" by fastforce
  show ?case
    by (rule scan_children_step [OF Cons.prems(1) [unfolded child] Cons.prems(2)])
      (use Cons.IH Cons.prems(2) scan_entry_complete in blast)+
qed simp

lemma distinct_keys_mset: "mset xs = mset ys \<Longrightarrow> distinct (map fst xs) \<Longrightarrow> distinct (map fst ys)"
  by (metis mset_eq_imp_distinct_iff mset_map)

lemma scan_children_complete:
  assumes "scan_children sha limits folder children pending st = (pending', st')" "sca_complete st'"
    and "distinct (map fst (sca_entries st @ child_entries sha limits folder children @
      pending_entries sha limits pending))"
  shows "mset (sca_entries st' @ pending_entries sha limits pending') =
      mset (sca_entries st @ child_entries sha limits folder children @ pending_entries sha limits pending)"
  using assms
proof (induction children arbitrary: pending st)
  case (Cons child rest)
  obtain name node where child: "child = (name, node)" by fastforce
  let ?path = "folder @ [name]"
  show ?case
  proof (rule scan_children_step [OF Cons.prems(1) [unfolded child] Cons.prems(2)])
    assume "excluded limits (join_path ?path)"
      and "scan_children sha limits folder rest pending st = (pending', st')"
    then show ?thesis
      using Cons.IH [of pending st] Cons.prems(2,3) by (simp add: child)
  next
    let ?pending = "if is_folder node then (?path, node) # pending else pending"
    let ?st = "scan_entry sha limits (join_path ?path) node st"
    let ?new = "case node_entry sha limits node of None \<Rightarrow> [] | Some e \<Rightarrow> [(join_path ?path, e)]"
    let ?all = "sca_entries ?st @ child_entries sha limits folder rest @ pending_entries sha limits ?pending"
    assume visible: "\<not> excluded limits (join_path ?path)"
      and run: "scan_children sha limits folder rest ?pending ?st = (pending', st')"
    have "sca_complete ?st" by (rule scan_children_monotone [OF run Cons.prems(2)])
    then have "sca_entries ?st = sca_entries st @ ?new"
      using scan_entry_complete [of sha limits "join_path ?path" node st] Cons.prems(3) visible
      by (auto simp: child update_fresh split: option.splits)
    then have all: "mset (sca_entries st @ child_entries sha limits folder (child # rest) @
        pending_entries sha limits pending) = mset ?all"
      using visible by (simp add: child tree_entries_no_folder)
    have "distinct (map fst ?all)" by (rule distinct_keys_mset [OF all Cons.prems(3)])
    from Cons.IH [OF run Cons.prems(2) this] show ?thesis unfolding all .
  qed
qed simp

lemma scan_pending_monotone:
  "sca_complete (scan_pending sha limits pending st) \<Longrightarrow> sca_complete st"
proof (induction sha limits pending st rule: scan_pending.induct)
  case (2 sha limits folder node pending st)
  show ?case
  proof (cases node)
    case (Folder mode children)
    obtain pending' st' where run: "scan_children sha limits folder (sort_key fst children) pending st = (pending', st')"
      by fastforce
    have "sca_complete (scan_pending sha limits pending' st')" using "2.prems" by (simp add: Folder run)
    then have "sca_complete st'" using "2.IH"(1) [OF Folder run [symmetric] refl] by blast
    then show ?thesis by (rule scan_children_monotone [OF run])
  next
    case (ClosedFolder mode name)
    then show ?thesis using "2.IH"(2) "2.prems" by simp
  qed (use 2 in simp_all)
qed simp

lemma scan_pending_complete:
  "sca_complete (scan_pending sha limits pending st) \<Longrightarrow>
   distinct (map fst (sca_entries st @ pending_entries sha limits pending)) \<Longrightarrow>
   mset (sca_entries (scan_pending sha limits pending st)) =
     mset (sca_entries st @ pending_entries sha limits pending)"
proof (induction sha limits pending st rule: scan_pending.induct)
  case (2 sha limits folder node pending st)
  show ?case
  proof (cases node)
    case (Folder mode children)
    obtain pending' st' where run: "scan_children sha limits folder (sort_key fst children) pending st = (pending', st')"
      by fastforce
    have result: "scan_pending sha limits ((folder, node) # pending) st = scan_pending sha limits pending' st'"
      by (simp add: Folder run)
    have st': "sca_complete st'" using scan_pending_monotone "2.prems"(1) unfolding result by blast
    have all: "mset (sca_entries st @ pending_entries sha limits ((folder, node) # pending)) =
        mset (sca_entries st @ child_entries sha limits folder (sort_key fst children) @ pending_entries sha limits pending)"
      by (simp add: Folder child_entries_sorted)
    have children: "mset (sca_entries st' @ pending_entries sha limits pending') =
        mset (sca_entries st @ pending_entries sha limits ((folder, node) # pending))"
      unfolding all by (rule scan_children_complete [OF run st' distinct_keys_mset [OF all "2.prems"(2)]])
    show ?thesis
      using "2.IH"(1) [OF Folder run [symmetric] refl] "2.prems" children
        distinct_keys_mset [OF children [symmetric]]
      unfolding result by simp
  next
    case (ClosedFolder mode name)
    have "\<not> sca_complete (scan_pending sha limits ((folder, node) # pending) st)"
      using scan_pending_monotone [of sha limits pending "omitted (''scan:'' @ posix_text folder @ '':'' @ name) st"]
      by (auto simp: ClosedFolder)
    then show ?thesis using "2.prems"(1) by blast
  qed (use 2 in simp_all)
qed simp

subsection \<open>Comparison\<close>

lemma snapshot_entries:
  assumes "workspace_snapshot_of sha dumps parse repr tree configuration = Inr w"
    and "limits_of parse repr configuration = Inr limits" "wss_complete w"
    and "distinct (map fst (tree_entries sha limits [] tree))"
  shows "map_of (wss_entries w) = map_of (tree_entries sha limits [] tree)"
proof -
  have w: "w = snapshot_of sha dumps (workspace_scan sha limits tree)"
    using assms(1,2) by (simp add: workspace_snapshot_of_def)
  have entries: "mset (wss_entries w) = mset (tree_entries sha limits [] tree)"
    using scan_pending_complete [of sha limits "[([], tree)]"
        "\<lparr>sca_entries = [], sca_omissions = [], sca_total = 0, sca_complete = True\<rparr>"] assms(3,4)
    by (simp add: w snapshot_of_def workspace_scan_def)
  have "distinct (map fst (wss_entries w))"
    by (rule distinct_keys_mset [OF entries [symmetric] assms(4)])
  from map_of_inject_set [OF this assms(4)] show ?thesis
    using mset_eq_setD [OF entries] by blast
qed

lemma changed_paths:
  assumes "workspace_snapshot_of sha dumps parse repr before configuration = Inr w"
    and "workspace_snapshot_of sha dumps parse repr after configuration = Inr w'"
    and "limits_of parse repr configuration = Inr limits"
    and "wse_complete (compare_snapshots w w' allowed)"
    and "distinct (map fst (tree_entries sha limits [] before))"
    and "distinct (map fst (tree_entries sha limits [] after))"
  shows "set (wse_changed_paths (compare_snapshots w w' allowed)) =
    {p. map_of (tree_entries sha limits [] before) p \<noteq> map_of (tree_entries sha limits [] after) p}"
proof -
  have "wss_complete w" "wss_complete w'" using assms(4) by (simp_all add: compare_snapshots_def Let_def)
  then have "map_of (wss_entries w) = map_of (tree_entries sha limits [] before)"
    "map_of (wss_entries w') = map_of (tree_entries sha limits [] after)"
    using snapshot_entries assms by blast+
  moreover have "p \<in> fst ` set (wss_entries w) \<union> fst ` set (wss_entries w')"
    if "map_of (wss_entries w) p \<noteq> map_of (wss_entries w') p" for p
    using that by (metis Un_iff map_of_eq_None_iff)
  ultimately show ?thesis by (auto simp: compare_snapshots_def Let_def)
qed

text \<open>
  The comparison of two complete snapshots reports exactly the paths that changed: those
  whose entry in the tree (its kind, mode, target of a link, size and digest), or whose presence,
  differs between the two trees, among all paths the configuration does not exclude.
\<close>

theorem comparison_reports_changed_paths:
  assumes "workspace_snapshot_of sha dumps parse repr before configuration = Inr w"
    and "workspace_snapshot_of sha dumps parse repr after configuration = Inr w'"
    and "limits_of parse repr configuration = Inr limits"
    and "wse_complete (compare_snapshots w w' allowed)"
    and "distinct (map fst (tree_entries sha limits [] before))"
    and "distinct (map fst (tree_entries sha limits [] after))"
  shows "set (wse_changed_paths (compare_snapshots w w' allowed)) =
    {p. map_of (tree_entries sha limits [] before) p \<noteq> map_of (tree_entries sha limits [] after) p}"
  using assms by (rule changed_paths)

definition demo_limits_configuration :: arguments where
  "demo_limits_configuration = [(''max_entries'', JInt 3), (''max_file_bytes'', JInt 4),
     (''max_total_bytes'', JInt 9), (''exclude'', JList [JStr ''.git''])]"

definition demo_tree :: "string \<Rightarrow> workspace_node" where
  "demo_tree text = Folder 493 [(''src'', Folder 493 [(''a'', FileNode 420 2 (ReadContent text))]),
     (''.git'', ClosedFolder 448 ''PermissionError''), (''l'', LinkNode 511 ''src'')]"

abbreviation demo_taken :: "string \<Rightarrow> workspace_snapshot outcome" where
  "demo_taken text \<equiv> workspace_snapshot_of (\<lambda>x. x) (\<lambda>_. ''json'') (\<lambda>_. None) (\<lambda>_. ''repr'') (demo_tree text)
     demo_limits_configuration"

abbreviation demo_scan_limits :: snapshot_limits where
  "demo_scan_limits \<equiv> \<lparr>slm_max_entries = 3, slm_max_file_bytes = 4, slm_max_total_bytes = 9,
     slm_exclusions = [''.git'']\<rparr>"

lemma demo_taken_Inr: "demo_taken ''hi'' = Inr (projr (demo_taken ''hi''))"
  "demo_taken ''ho'' = Inr (projr (demo_taken ''ho''))"
  by code_simp+

lemma demo_limits_Inr:
  "limits_of (\<lambda>_. None) (\<lambda>_. ''repr'') demo_limits_configuration = Inr demo_scan_limits"
  by code_simp

lemma demo_trees_distinct:
  "distinct (map fst (tree_entries (\<lambda>x. x) demo_scan_limits [] (demo_tree ''hi'')))"
  "distinct (map fst (tree_entries (\<lambda>x. x) demo_scan_limits [] (demo_tree ''ho'')))"
  by code_simp+

lemma demo_taken_complete:
  "wse_complete (compare_snapshots (projr (demo_taken ''hi'')) (projr (demo_taken ''ho'')) [''src''])"
  by code_simp

theorem comparison_reports_changed_paths_witness:
  "set (wse_changed_paths (compare_snapshots (projr (demo_taken ''hi'')) (projr (demo_taken ''ho'')) [''src''])) =
    {p. map_of (tree_entries (\<lambda>x. x) demo_scan_limits [] (demo_tree ''hi'')) p \<noteq>
      map_of (tree_entries (\<lambda>x. x) demo_scan_limits [] (demo_tree ''ho'')) p}"
  by (rule comparison_reports_changed_paths [OF demo_taken_Inr demo_limits_Inr demo_taken_complete
        demo_trees_distinct])

end
