(* ===== verification/GatewayEffects.thy ===== *)
theory GatewayEffects
  imports GatewayHistory WorkspaceProperties
begin

section \<open>Observed effects\<close>

text \<open>
  What the result of a command with observed effects says of the workspace: a settlement other
  than uncertain is backed by the two trees themselves.
\<close>

lemma observed_settlement:
  "map_of (adr_output (observed_result declared observation reference proven result)) ''effect_settlement'' =
     Some (JStr (if \<not> proven then ''uncertain''
       else if wse_changed_paths observation \<noteq> [] then ''completed'' else ''absent''))"
  by (simp add: observed_result_def Let_def update_conv')

lemma observe_effects_Inr:
  assumes "observe_effects env rd auth configuration call_id w result = Inr observed"
  obtains w' reference observable where
    "take_workspace_snapshot env (rds_tree_after rd) configuration = Inr w'"
    and "observed = observed_result (ar_effects (acd_request auth))
      (compare_snapshots w w' (map rpa_relative (rtg_paths (acd_resolved auth)))) reference
      (effect_proven observable (ar_effects (acd_request auth))
        (compare_snapshots w w' (map rpa_relative (rtg_paths (acd_resolved auth)))) reference) result"
  using assms unfolding observe_effects_def Let_def by (auto simp: ebind_Inr_iff)

text \<open>
  Claim C40. When the observation of a command settles its effects, as absent or as completed, the
  trees before and after it differ only below the paths the call was authorized for, and the
  settlement is absent exactly when they do not differ at all: the snapshots are complete or the
  settlement is uncertain. The trees are those of the two readings (no two entries of one path);
  paths the configuration excludes are not looked at, and files are compared by mode, size and
  digest.
\<close>

theorem settled_effects_are_observed:
  assumes "take_workspace_snapshot env (rds_tree_before rd) configuration = Inr w"
    and "observe_effects env rd auth configuration call_id w result = Inr observed"
    and "map_of (adr_output observed) ''effect_settlement'' = Some (JStr settlement)"
    and "settlement \<noteq> ''uncertain''"
    and "limits_of (gev_parse_int env) (gev_repr env) configuration = Inr limits"
    and "distinct (map fst (tree_entries (gev_sha256 env) limits [] (rds_tree_before rd)))"
    and "distinct (map fst (tree_entries (gev_sha256 env) limits [] (rds_tree_after rd)))"
  shows "{p. map_of (tree_entries (gev_sha256 env) limits [] (rds_tree_before rd)) p \<noteq>
      map_of (tree_entries (gev_sha256 env) limits [] (rds_tree_after rd)) p}
    \<subseteq> {p. list_ex (\<lambda>q. within_scope p (rpa_relative q)) (rtg_paths (acd_resolved auth))} \<and>
    (settlement = ''absent'' \<longleftrightarrow>
      map_of (tree_entries (gev_sha256 env) limits [] (rds_tree_before rd)) =
      map_of (tree_entries (gev_sha256 env) limits [] (rds_tree_after rd)))"
  (is "{p. ?before p \<noteq> ?after p} \<subseteq> _ \<and> _")
proof (rule observe_effects_Inr [OF assms(2)])
  fix w' reference observable
  let ?observation = "compare_snapshots w w' (map rpa_relative (rtg_paths (acd_resolved auth)))"
  let ?proven = "effect_proven observable (ar_effects (acd_request auth)) ?observation reference"
  assume w': "take_workspace_snapshot env (rds_tree_after rd) configuration = Inr w'"
    and observed: "observed = observed_result (ar_effects (acd_request auth)) ?observation reference ?proven result"
  have settled: "?proven"
    "settlement = (if wse_changed_paths ?observation \<noteq> [] then ''completed'' else ''absent'')"
    using assms(3,4) unfolding observed observed_settlement by (auto split: if_splits)
  have changed: "set (wse_changed_paths ?observation) = {p. ?before p \<noteq> ?after p}"
    by (rule changed_paths)
      (use assms(1,5,6,7) w' settled(1) in \<open>simp_all add: take_workspace_snapshot_def effect_proven_def\<close>)
  have "wse_scope_deviations ?observation = []" using settled(1) by (simp add: effect_proven_def)
  then have "p \<in> set (wse_changed_paths ?observation) \<Longrightarrow>
      list_ex (\<lambda>q. within_scope p (rpa_relative q)) (rtg_paths (acd_resolved auth))" for p
    unfolding compare_snapshots_def Let_def workspace_evidence.simps filter_empty_conv list_ex_iff
    by auto
  then have "{p. ?before p \<noteq> ?after p} \<subseteq>
      {p. list_ex (\<lambda>q. within_scope p (rpa_relative q)) (rtg_paths (acd_resolved auth))}"
    unfolding changed [symmetric] by blast
  moreover have "wse_changed_paths ?observation = [] \<longleftrightarrow> ?before = ?after"
    using changed by (auto simp: fun_eq_iff)
  ultimately show ?thesis using settled(2) by simp
qed

definition effects_configuration :: arguments where
  "effects_configuration = (''observable_effects'', JList [JStr ''note'']) # demo_limits_configuration"

definition effects_readings :: readings where
  "effects_readings = demo_readings\<lparr>rds_tree_before := demo_tree ''hi'', rds_tree_after := demo_tree ''hi''\<rparr>"

abbreviation effects_base :: "workspace_snapshot outcome" where
  "effects_base \<equiv> take_workspace_snapshot leaking (rds_tree_before effects_readings) effects_configuration"

abbreviation effects_observed :: "adapter_result outcome" where
  "effects_observed \<equiv> observe_effects leaking effects_readings (projr leaking_authorized) effects_configuration
     ''i'' (projr effects_base)
     (demo_answer (adapter_call_of demo_invocation demo_contract demo_arguments (projr leaking_authorized) [] ''i''))"

lemma effects_taken: "effects_base = Inr (projr effects_base)"
proof -
  have "\<not> is_error effects_base" by code_simp
  then show ?thesis by (cases effects_base) (simp_all add: is_error_def)
qed

lemma effects_result: "effects_observed = Inr (projr effects_observed)"
proof -
  have "\<not> is_error effects_observed" by code_simp
  then show ?thesis by (cases effects_observed) (simp_all add: is_error_def)
qed

lemma effects_settled:
  "map_of (adr_output (projr effects_observed)) ''effect_settlement'' = Some (JStr ''absent'')"
  by code_simp

lemma effects_limits:
  "limits_of (gev_parse_int leaking) (gev_repr leaking) effects_configuration = Inr demo_scan_limits"
  by code_simp

lemma effects_distinct:
  "distinct (map fst (tree_entries (gev_sha256 leaking) demo_scan_limits [] (rds_tree_before effects_readings)))"
  "distinct (map fst (tree_entries (gev_sha256 leaking) demo_scan_limits [] (rds_tree_after effects_readings)))"
  by code_simp+

theorem settled_effects_are_observed_witness:
  "map_of (tree_entries (gev_sha256 leaking) demo_scan_limits [] (rds_tree_before effects_readings)) =
   map_of (tree_entries (gev_sha256 leaking) demo_scan_limits [] (rds_tree_after effects_readings))"
  using settled_effects_are_observed [OF effects_taken effects_result effects_settled _ effects_limits
      effects_distinct]
  by simp

end
