(* ===== verification/Spec2Isabelle.thy ===== *)
theory Spec2Isabelle
  imports Predicates Assignments CommandProperties RunProperties RunIdempotence JournalProperties Recovery PlanProperties
    LeaseProperties ScheduleProperties MissionProperties TeamProperties EnvironmentProperties GatewayEffects
begin

text \<open>
  Mishkan runs governed software work: an organization of professional identities takes on
  missions; a mission is planned as runs; an accepted plan is executed as tasks whose calls to
  tools pass a policy; tasks run locally or on enrolled workers; schedules start work; and every
  change is a transaction on one SQLite database whose rows carry the evidence. The development
  models the authorities that own those rows and the validators in front of them, and proves
  what holds of them in every history of calls. All paths below are relative to
  \<open>src/src/mishkan/\<close>.

  \<^bold>\<open>How the code is represented.\<close> A table is the list of its rows, in insertion order
  (\<open>tbl_get\<close>, \<open>tbl_upd\<close>, \<open>tbl_insert\<close> of \<open>Prelude\<close> are \<open>session.get\<close>, assignment to a row and
  \<open>session.add\<close> under a unique key); a JSON payload column holds the value it serialises; a
  public method is a definition from the stored state to \<open>failure + state \<times> value\<close>, where
  \<open>Inl\<close> is the exception (the transaction is rolled back, so the step of the machine leaves the
  state unchanged) and \<open>Inr\<close> the committed state with the returned value. A Pydantic model is a
  record with a bool-valued predicate for its validators: an argument that violates it cannot be
  constructed, so the step does nothing. Strings are lists of characters, Python integers are
  \<open>int\<close> (they do not wrap), instants are integers, and the clock and fresh identifiers are
  arguments of the call. Methods of a component are composed into a machine: a datatype of
  calls, a total step function, and \<open>run_ops\<close>, a history of calls. The locales
  \<open>machine_invariant\<close> and \<open>machine_monotone\<close> of \<open>Prelude\<close> lift what one step keeps to every
  history; every machine interprets them.

  \<^bold>\<open>Runs.\<close> \<open>Json\<close> and \<open>Predicates\<close>: the bounded predicate language of
  \<open>runtime/predicates.py\<close> with its denotational meaning. \<open>PlanModel\<close>, \<open>Graphs\<close>, \<open>PlanCheck\<close>
  and \<open>PlanProperties\<close>: the envelopes of \<open>planning/models.py\<close> and the validator of
  \<open>planning/validator.py\<close>, from the candidate to the accepted plan and its authorization
  decisions, which come from \<open>Policy\<close> (\<open>policy/evaluator.py\<close>). \<open>RunStore\<close> and \<open>CallJournal\<close>:
  \<open>LocalRunRepository\<close> of \<open>persistence/sqlite.py\<close>, that is runs, plans, tasks, results, reviews,
  cancellation, the journal of planned tool calls and the recovery of interrupted runs.
  \<open>RunInvariant\<close>, \<open>RunMachine\<close>, \<open>RunSafety\<close> and \<open>RunIdempotence\<close> prove the invariant
  \<open>run_wf\<close>, what is permanent and what is repeatable; \<open>RunProperties\<close>, \<open>JournalProperties\<close> and
  \<open>Recovery\<close> state the guarantees. This root theory composes the validator and the repository.

  \<^bold>\<open>Remote work.\<close> \<open>WorkerModel\<close> and \<open>Leases\<close>: \<open>WorkerCoordinationRepository\<close> of
  \<open>workers/coordination.py\<close> on the same run tables. \<open>LeaseStore\<close> shows that coordination keeps
  \<open>run_wf\<close>; \<open>LeaseInvariant\<close>, \<open>LeaseMachine\<close>, \<open>LeaseExclusive\<close> and \<open>LeaseHistory\<close> hold the
  invariants of leases, envelopes and completions under every interleaving with local calls;
  \<open>LeaseProperties\<close> states fencing, capacity, exclusiveness and the one decisive completion.

  \<^bold>\<open>Schedules.\<close> \<open>Schedules\<close>: the contracts, the repository and the mutation service of
  \<open>scheduling/\<close>. \<open>ScheduleDriver\<close>: \<open>scheduling/driver.py\<close> cut at its awaits, so that
  dispatches, settlements, reconciliations and restarts interleave. \<open>ScheduleInvariant\<close>,
  \<open>ScheduleMachine\<close> and \<open>ScheduleSlots\<close>: the lifecycle relation of an occurrence and the order
  of slots; \<open>ScheduleProperties\<close>: at most one dispatch, each slot once, termination. The loop
  that lists due slots runs at most \<open>se_max_catch_up\<close> times in the source, which is the fuel
  \<open>slots_from\<close> recurses on; the cron library is a parameter of which only progress is used. The two
  reads of a dispatch (occurrence and schedule) are one step; that the run named by an occurrence
  exists, a foreign key of the database, is not checked.

  \<^bold>\<open>Missions.\<close> \<open>Organization\<close>, \<open>MissionModel\<close>, \<open>ConversationModel\<close>, \<open>MissionEnvironment\<close> and
  \<open>Assignments\<close>: the contracts and validators of \<open>organization/models.py\<close>, \<open>missions/\<close> and
  \<open>conversations/models.py\<close>. \<open>Missions\<close> and \<open>Conversations\<close>: the two repositories of the
  mission database, over the run tables. \<open>MissionMachine\<close>: their machine and the relation
  \<open>writes\<close> of the changes a step can commit. \<open>MissionInvariant\<close>, \<open>MissionBindings\<close>,
  \<open>MissionGovernance\<close> and \<open>MissionReports\<close>: the invariants over \<open>writes\<close>;
  \<open>MissionProperties\<close> and \<open>EnvironmentProperties\<close>: the guarantees, exercised on the history of
  \<open>MissionExample\<close>. \<open>append_only\<close> speaks of the tables whose rows never change; the escalations, whose
  answer is written into their row, have the relation \<open>escalations_kept\<close> beside it.

  \<^bold>\<open>Commands and events.\<close> \<open>CommandModel\<close> and \<open>Commands\<close>: the receipts, reservations and aggregate
  revisions of \<open>persistence/application.py\<close>, its event stream with cursor, holds and retention, and
  the two writes of \<open>workers/repository.py\<close> that advance the revision of a worker without a command.
  \<open>CommandMachine\<close> composes them with what other code does to the same tables; \<open>CommandInvariant\<close>
  and \<open>CommandStream\<close> hold the invariants of receipts and cursors, \<open>CommandProperties\<close> the numbering
  of receipts, replay, the single dispatch of a reserved effect, complete reading by cursor, and the
  survival of held events. A mutation is any change of the rest of the database.

  \<^bold>\<open>Teams.\<close> \<open>TeamModel\<close> and \<open>TeamSignals\<close>: the contracts, validators and detectors of
  \<open>missions/team_effectiveness.py\<close>; \<open>Teams\<close>: \<open>missions/team_repository.py\<close> over the mission database.
  \<open>TeamInvariant\<close> holds the invariant of its tables, \<open>TeamProperties\<close> what plans, evaluations and
  adaptations rest on and when detection reports.

  \<^bold>\<open>Capabilities.\<close> \<open>GatewayModel\<close>: the envelopes of an invocation, the resolution of its targets
  through links and the checks against the binding (\<open>tools/gateway.py\<close>, \<open>tools/gateway_models.py\<close>).
  \<open>WorkspaceScan\<close>: the bounded snapshots of \<open>tools/effects.py\<close>; \<open>WorkspaceProperties\<close> shows that a
  complete snapshot shows every path. \<open>Gateway\<close>: \<open>CapabilityGateway.invoke\<close> from the binding checks
  to the journaled result, with its handlers, over the run repository, in a state that survives
  exceptions. \<open>GatewayInvariant\<close> follows what an invocation changes; \<open>GatewayProperties\<close> states that
  a dispatched call is authorized and that an invocation is a history of repository calls;
  \<open>GatewayHistory\<close> composes invocations with other calls (cancellation, slots); \<open>GatewayEffects\<close>
  states what a settled effect says of the workspace. An invocation is one step: other calls run
  before or after it. The walk over directories recurses on the size of what is pending, the walk
  along links on the entries not yet seen.

  \<^bold>\<open>Bounds and fuel.\<close> Besides the catch-up bound of schedules: the predicate evaluator carries
  the node and depth limits of the source and \<open>evaluate_correct\<close> says what they reject; graph
  searches recurse on the nodes not yet visited (the termination measures are in \<open>Graphs\<close>); no
  other definition uses fuel. A liveness theorem states that the operation succeeds, never only
  what holds if it does.

  \<^bold>\<open>Not modelled.\<close> What only moves data to and from the outside: HTTP and MCP transport, the
  command line, the browser, processes and git, file bodies, certificates, CrewAI agents,
  rendering and telemetry. Digests, pattern matches on identifiers and the cron library are
  parameters. Concurrency is modelled at the granularity of transactions (SQLite serialises
  writers) and, for the driver, of awaits. The service layers that check authority before they
  call a repository (\<open>application/authorization.py\<close>, \<open>daemon/\<close>) are not modelled: the theorems
  hold for every caller of the repositories.
\<close>

section \<open>From the acceptance of a plan to its execution\<close>

lemma accepted_plan_graph:
  assumes "accept penv c d org outcome approvals = Inr (q, ads)"
  shows "closed_graph (plan_graph q) \<and> acyclic (graph_edges (plan_graph q))"
  using assms by (rule accept_Inr) (simp add: accepted_graph make_accepted_plan_fields)

lemma eligible_task_is_claimable:
  assumes "get_run s run_id = Some r" and "rn_status r = RRunning" and "\<not> requested run_id s"
    and "get_task s run_id k = Some x" and "tk_status x = TEligible"
  shows "\<exists>s' n. claim_task now run_id k s = Inr (s', n)"
  using assms by (simp add: claim_task_def require_run_def require_task_def requested_def)

text \<open>
  Claim C12. What the validator accepts, the repository can execute: in every reachable store
  that holds a plan the validator accepted, if the plan's run is running and not cancelled, none of
  its tasks is leased, executing, validating, rejected or failed, and a task of the plan has no
  accepted result yet, then some task of the run is eligible with all its dependencies accepted,
  and \<open>claim_task\<close> takes it. So a run of a validated plan never waits for itself.
\<close>

theorem validated_plan_never_deadlocks:
  assumes "accept penv c d org outcome approvals = Inr (pl_payload p, ads)"
    and "p \<in> set (plans (run_ops (step env) ops empty_store))"
    and "get_run (run_ops (step env) ops empty_store) (pl_run_id p) = Some r"
    and "rn_status r = RRunning"
    and "\<not> requested (pl_run_id p) (run_ops (step env) ops empty_store)"
    and "\<forall>x \<in> set (run_tasks (run_ops (step env) ops empty_store) (pl_run_id p)).
      tk_status x \<notin> {TLeased, TExecuting, TValidating, TRejected, TFailed}"
    and "t \<in> set (plan_tasks c)"
    and "(pl_run_id p, pt_task_id t) \<notin> result_key ` set (results (run_ops (step env) ops empty_store))"
  shows "\<exists>x s' n. x \<in> set (run_tasks (run_ops (step env) ops empty_store) (pl_run_id p)) \<and>
      tk_status x = TEligible \<and>
      dependencies_accepted (run_ops (step env) ops empty_store) (pl_run_id p) x \<and>
      claim_task now (pl_run_id p) (tk_task_key x) (run_ops (step env) ops empty_store) = Inr (s', n)"
proof -
  let ?s = "run_ops (step env) ops empty_store"
  have "t \<in> set (plan_tasks (pl_payload p))"
    using assms(1) by (rule accept_Inr) (use assms(7) in \<open>simp add: make_accepted_plan_fields\<close>)
  then obtain x where x: "x \<in> set (run_tasks ?s (pl_run_id p))"
      "tk_status x \<in> {TEligible, TLeased, TExecuting, TValidating, TRejected, TFailed}"
      "dependencies_accepted ?s (pl_run_id p) x"
    using accepted_plan_graph [OF assms(1)] ready_task_of_run [OF assms(2) _ _ assms(5) _ assms(8)]
    by blast
  then have eligible: "tk_status x = TEligible" using assms(6) by blast
  have "get_task ?s (pl_run_id p) (tk_task_key x) = Some x"
    using x(1) reach_wf [of env ops]
    by (auto simp: get_task_def tbl_get_Some_iff run_wf_def keys_wf_def run_tasks_def)
  then show ?thesis
    using eligible_task_is_claimable [OF assms(3,4,5) _ eligible] eligible x(1,3) by blast
qed

definition governed_plan :: accepted_plan where
  "governed_plan = fst (projr (demo_accept [''DEV''] [''QA'']
     [planned ''a'' ''DEV'' ''docs/a'' [], planned ''b'' ''DEV'' ''docs/b'' [''a'']]))"

definition governed_run :: "run_op list" where
  "governed_run = [StartOrResume 1 ''r'' demo_repository ''o'' ''u'', MarkAwaitingApproval 2 ''r'',
     AcceptPlan 3 ''r'' governed_plan, StartRun 4 ''r'']"

theorem validated_plan_never_deadlocks_witness:
  "\<exists>x s' n. x \<in> set (run_tasks (run_ops (step demo_env) governed_run empty_store)
         (pl_run_id (hd (plans (run_ops (step demo_env) governed_run empty_store))))) \<and>
      tk_status x = TEligible \<and>
      dependencies_accepted (run_ops (step demo_env) governed_run empty_store)
        (pl_run_id (hd (plans (run_ops (step demo_env) governed_run empty_store)))) x \<and>
      claim_task 5 (pl_run_id (hd (plans (run_ops (step demo_env) governed_run empty_store))))
        (tk_task_key x) (run_ops (step demo_env) governed_run empty_store) = Inr (s', n)"
proof (rule validated_plan_never_deadlocks [where t = "planned ''b'' ''DEV'' ''docs/b'' [''a'']"
      and r = "hd (runs (run_ops (step demo_env) governed_run empty_store))"])
  let ?s = "run_ops (step demo_env) governed_run empty_store"
  have ne: "plans ?s \<noteq> []" by code_simp
  have payload: "pl_payload (hd (plans ?s)) = governed_plan" by code_simp
  show "demo_accept [''DEV''] [''QA'']
      [planned ''a'' ''DEV'' ''docs/a'' [], planned ''b'' ''DEV'' ''docs/b'' [''a'']] =
    Inr (pl_payload (hd (plans ?s)), snd (projr (demo_accept [''DEV''] [''QA'']
      [planned ''a'' ''DEV'' ''docs/a'' [], planned ''b'' ''DEV'' ''docs/b'' [''a'']])))"
    unfolding payload governed_plan_def by (rule not_error_pair [OF demo_accepted])
  show "hd (plans ?s) \<in> set (plans ?s)" using ne by simp
  show "get_run ?s (pl_run_id (hd (plans ?s))) = Some (hd (runs ?s))" by code_simp
  show "rn_status (hd (runs ?s)) = RRunning" by code_simp
  show "\<not> requested (pl_run_id (hd (plans ?s))) ?s" by code_simp
  show "\<forall>x \<in> set (run_tasks ?s (pl_run_id (hd (plans ?s)))).
      tk_status x \<notin> {TLeased, TExecuting, TValidating, TRejected, TFailed}" by code_simp
  show "planned ''b'' ''DEV'' ''docs/b'' [''a''] \<in> set (plan_tasks (candidate
      [planned ''a'' ''DEV'' ''docs/a'' [], planned ''b'' ''DEV'' ''docs/b'' [''a'']]))"
    by (simp add: candidate_def)
  show "(pl_run_id (hd (plans ?s)), pt_task_id (planned ''b'' ''DEV'' ''docs/b'' [''a''])) \<notin>
      result_key ` set (results ?s)" by code_simp
qed

end
